(* ===== verification/Js_Prelude.thy ===== *)
theory Js_Prelude
  imports Main "HOL-Library.AList" "HOL-Library.Sublist"
begin

text \<open>
  The prelude of the development: the fragment of JavaScript's standard library that the modelled
  TypeScript uses, and the generic lemmas every component shares.

  A JavaScript string is the list of its UTF-8 bytes (\<^typ>\<open>string\<close>), so that ASCII literals read as in
  the source; concatenation, equality and prefix tests agree with those on code points, and
  \<open>trim\<close> below removes exactly the white space and line terminators of ECMAScript. Strings with
  unpaired surrogates have no UTF-8 form and are outside the model. A fallible operation returns
  \<^typ>\<open>string + 'a\<close>: \<open>Inl\<close> the message of the \<open>Error\<close> the code throws, \<open>Inr\<close> the result. An object
  used as a dictionary is an association list in insertion order.
\<close>

section \<open>Collections of facts\<close>

named_theorems js_defs \<open>unfolding equations of small library functions\<close>
named_theorems clone_id \<open>clone functions that return their argument\<close>
named_theorems seg_defs \<open>definitions of the segment transformations\<close>

section \<open>Thrown errors as sums\<close>

type_synonym 'a res = "string + 'a"

definition andThen :: "'a res \<Rightarrow> ('a \<Rightarrow> 'b res) \<Rightarrow> 'b res" where
  "andThen m f = (case m of Inl e \<Rightarrow> Inl e | Inr x \<Rightarrow> f x)"

lemma andThen_Inl [simp]: "andThen (Inl e) f = Inl e"
  by (simp add: andThen_def)

lemma andThen_Inr [simp]: "andThen (Inr x) f = f x"
  by (simp add: andThen_def)

lemma andThen_eq_Inr [simp]: "andThen m f = Inr y \<longleftrightarrow> (\<exists>x. m = Inr x \<and> f x = Inr y)"
  by (cases m) auto

lemma andThen_eq_Inl: "andThen m f = Inl e \<longleftrightarrow> m = Inl e \<or> (\<exists>x. m = Inr x \<and> f x = Inl e)"
  by (cases m) auto

text \<open>\<open>xs.map((x, i) => f(x, i))\<close> where \<open>f\<close> may throw: the first error wins.\<close>

fun traverseIdx :: "('a \<Rightarrow> nat \<Rightarrow> 'b res) \<Rightarrow> nat \<Rightarrow> 'a list \<Rightarrow> 'b list res" where
  "traverseIdx f i [] = Inr []"
| "traverseIdx f i (x # xs) =
     andThen (f x i) (\<lambda>y. andThen (traverseIdx f (Suc i) xs) (\<lambda>ys. Inr (y # ys)))"

lemma traverseIdx_Inr_iff:
  "traverseIdx f i xs = Inr ys \<longleftrightarrow>
     length ys = length xs \<and> (\<forall>j < length xs. f (xs ! j) (i + j) = Inr (ys ! j))"
proof (induction xs arbitrary: i ys)
  case Nil
  then show ?case by auto
next
  case (Cons x xs)
  show ?case
  proof (cases ys)
    case Nil
    then show ?thesis by auto
  next
    case (Cons y ys')
    have "(\<forall>j < length (x # xs). f ((x # xs) ! j) (i + j) = Inr ((y # ys') ! j)) \<longleftrightarrow>
        f x i = Inr y \<and> (\<forall>j < length xs. f (xs ! j) (Suc i + j) = Inr (ys' ! j))"
      by (auto simp: less_Suc_eq_0_disj)
    then show ?thesis using Cons Cons.IH [of "Suc i" ys'] by auto
  qed
qed

lemma traverseIdx_map_Inr:
  assumes "\<And>x i. x \<in> set xs \<Longrightarrow> f (g x) i = Inr x"
  shows "traverseIdx f i (map g xs) = Inr xs"
  using assms by (induction xs arbitrary: i) auto

lemma traverseIdx_all:
  assumes "traverseIdx f i xs = Inr ys" and "\<And>x i y. f x i = Inr y \<Longrightarrow> P y"
  shows "\<forall>y \<in> set ys. P y"
  using assms(1) by (induction xs arbitrary: i ys) (auto dest: assms(2))

section \<open>Decimal rendering of integers\<close>

definition digitChar :: "nat \<Rightarrow> char" where
  "digitChar d = char_of (48 + d)"

fun natString :: "nat \<Rightarrow> string" where
  "natString n = (if n < 10 then [digitChar n] else natString (n div 10) @ [digitChar (n mod 10)])"

declare natString.simps [simp del]

definition intString :: "int \<Rightarrow> string" where
  "intString k = (if k < 0 then ''-'' @ natString (nat (- k)) else natString (nat k))"

lemma of_char_digitChar: "d < 10 \<Longrightarrow> (of_char (digitChar d) :: nat) = 48 + d"
  unfolding digitChar_def of_char_of by (rule mod_less) arith

lemma digitChar_inj: "a < 10 \<Longrightarrow> b < 10 \<Longrightarrow> digitChar a = digitChar b \<longleftrightarrow> a = b"
  by (metis add_left_imp_eq of_char_digitChar)

lemma natString_nonempty [simp]: "natString n \<noteq> []"
  by (subst natString.simps) simp

lemma natString_inj [simp]: "natString m = natString n \<longleftrightarrow> m = n"
proof (induction m arbitrary: n rule: natString.induct)
  case (1 m)
  show ?case
  proof (cases "m < 10 \<or> n < 10")
    case True
    then show ?thesis
      by (auto simp: natString.simps [of m] natString.simps [of n] digitChar_inj
            split: if_splits dest: arg_cong [where f = length])
  next
    case False
    then have "natString m = natString n \<longleftrightarrow>
        natString (m div 10) = natString (n div 10) \<and> m mod 10 = n mod 10"
      by (simp add: natString.simps [of m] natString.simps [of n] digitChar_inj)
    also have "\<dots> \<longleftrightarrow> m div 10 = n div 10 \<and> m mod 10 = n mod 10"
      using False 1 [of "n div 10"] by simp
    also have "\<dots> \<longleftrightarrow> m = n"
      by (metis div_mult_mod_eq)
    finally show ?thesis .
  qed
qed

section \<open>White space and \<open>String.prototype.trim\<close>\<close>

text \<open>
  The white space and line terminators of ECMAScript, as UTF-8: one byte (tab, line feed, vertical
  tab, form feed, carriage return, space), two bytes (no-break space) or three bytes (U+1680,
  U+2000 to U+200A, U+2028, U+2029, U+202F, U+205F, U+3000, U+FEFF).
\<close>

definition isWs1 :: "char \<Rightarrow> bool" where
  "isWs1 a \<longleftrightarrow> a = CHR 0x20 \<or> a = CHR 0x09 \<or> a = CHR 0x0A \<or> a = CHR 0x0B \<or> a = CHR 0x0C \<or> a = CHR 0x0D"

definition isWs2 :: "char \<Rightarrow> char \<Rightarrow> bool" where
  "isWs2 a b \<longleftrightarrow> a = CHR 0xC2 \<and> b = CHR 0xA0"

definition isWs3 :: "char \<Rightarrow> char \<Rightarrow> char \<Rightarrow> bool" where
  "isWs3 a b c \<longleftrightarrow>
     (a = CHR 0xE1 \<and> b = CHR 0x9A \<and> c = CHR 0x80)
   \<or> (a = CHR 0xE2 \<and> b = CHR 0x80 \<and>
        c \<in> set [CHR 0x80, CHR 0x81, CHR 0x82, CHR 0x83, CHR 0x84, CHR 0x85, CHR 0x86, CHR 0x87,
                 CHR 0x88, CHR 0x89, CHR 0x8A, CHR 0xA8, CHR 0xA9, CHR 0xAF])
   \<or> (a = CHR 0xE2 \<and> b = CHR 0x81 \<and> c = CHR 0x9F)
   \<or> (a = CHR 0xE3 \<and> b = CHR 0x80 \<and> c = CHR 0x80)
   \<or> (a = CHR 0xEF \<and> b = CHR 0xBB \<and> c = CHR 0xBF)"

text \<open>Drop the white space at the head, given the two- and three-byte patterns in reading order.\<close>

fun strip :: "(char \<Rightarrow> char \<Rightarrow> bool) \<Rightarrow> (char \<Rightarrow> char \<Rightarrow> char \<Rightarrow> bool) \<Rightarrow> string \<Rightarrow> string" where
  "strip p q [] = []"
| "strip p q [a] = (if isWs1 a then [] else [a])"
| "strip p q [a, b] =
     (if isWs1 a then strip p q [b] else if p a b then [] else [a, b])"
| "strip p q (a # b # c # s) =
     (if isWs1 a then strip p q (b # c # s)
      else if p a b then strip p q (c # s)
      else if q a b c then strip p q s
      else a # b # c # s)"

definition trimStart :: "string \<Rightarrow> string" where
  "trimStart s = strip isWs2 isWs3 s"

definition trimEnd :: "string \<Rightarrow> string" where
  "trimEnd s = rev (strip (\<lambda>b a. isWs2 a b) (\<lambda>c b a. isWs3 a b c) (rev s))"

definition trim :: "string \<Rightarrow> string" where
  "trim s = trimEnd (trimStart s)"

text \<open>A string that starts with no white space is one that \<open>strip\<close> leaves alone.\<close>

fun headOk :: "(char \<Rightarrow> char \<Rightarrow> bool) \<Rightarrow> (char \<Rightarrow> char \<Rightarrow> char \<Rightarrow> bool) \<Rightarrow> string \<Rightarrow> bool" where
  "headOk p q [] = True"
| "headOk p q [a] = (\<not> isWs1 a)"
| "headOk p q [a, b] = (\<not> isWs1 a \<and> \<not> p a b)"
| "headOk p q (a # b # c # s) = (\<not> isWs1 a \<and> \<not> p a b \<and> \<not> q a b c)"

lemma headOk_strip: "headOk p q (strip p q s)"
  by (induction p q s rule: strip.induct) auto

lemma strip_headOk: "headOk p q s \<Longrightarrow> strip p q s = s"
  by (induction p q s rule: strip.induct) auto

lemma strip_id_iff: "strip p q s = s \<longleftrightarrow> headOk p q s"
  using headOk_strip [of p q s] strip_headOk [of p q s] by auto

lemma strip_suffix: "suffix (strip p q s) s"
  by (induction p q s rule: strip.induct) (auto intro: suffix_ConsI)

lemma headOk_append: "headOk p q (s @ t) \<Longrightarrow> headOk p q s"
  by (induction p q s rule: headOk.induct; cases t; cases "tl t") auto

lemma headOk_prefix: "headOk p q t \<Longrightarrow> prefix s t \<Longrightarrow> headOk p q s"
  by (auto elim!: prefixE dest: headOk_append)

lemma trimEnd_prefix: "prefix (trimEnd s) s"
  using strip_suffix [of _ _ "rev s"] by (simp add: trimEnd_def suffix_to_prefix)

lemma trimStart_trim: "trimStart (trim s) = trim s"
proof -
  have "headOk isWs2 isWs3 (trimStart s)"
    by (simp add: trimStart_def headOk_strip)
  then have "headOk isWs2 isWs3 (trim s)"
    unfolding trim_def by (rule headOk_prefix) (rule trimEnd_prefix)
  then show ?thesis by (simp add: trimStart_def strip_headOk)
qed

lemma trimEnd_idem: "trimEnd (trimEnd s) = trimEnd s"
  by (simp add: trimEnd_def strip_headOk headOk_strip)

lemma trim_idem [simp]: "trim (trim s) = trim s"
  using trimStart_trim [of s] trimEnd_idem [of "trimStart s"] by (simp add: trim_def)

lemma trim_Nil [simp]: "trim [] = []"
  by (simp add: trim_def trimStart_def trimEnd_def)

text \<open>What \<open>requireNonEmptyString\<close> returns: a trimmed string that is not empty.\<close>

definition trimmed :: "string \<Rightarrow> bool" where
  "trimmed s \<longleftrightarrow> s \<noteq> [] \<and> trim s = s"

lemma trimmed_trim: "trim s \<noteq> [] \<Longrightarrow> trimmed (trim s)"
  by (simp add: trimmed_def)

text \<open>A string that starts and ends with a visible ASCII character is trimmed.\<close>

definition visible :: "char \<Rightarrow> bool" where
  "visible c \<longleftrightarrow> (33 :: nat) \<le> of_char c \<and> (of_char c :: nat) < 128"

lemma visible_head:
  assumes "visible a"
  shows "\<not> isWs1 a" and "\<not> isWs2 a b" and "\<not> isWs2 b a" and "\<not> isWs3 a b c" and "\<not> isWs3 c b a"
  using assms by (auto simp: visible_def isWs1_def isWs2_def isWs3_def)

lemma headOk_visible:
  "visible a \<Longrightarrow> headOk isWs2 isWs3 (a # s)"
  "visible a \<Longrightarrow> headOk (\<lambda>b a. isWs2 a b) (\<lambda>c b a. isWs3 a b c) (a # s)"
  by (cases s; cases "tl s"; simp add: visible_head)+

lemma trimmed_ascii:
  assumes "s \<noteq> []" and "visible (hd s)" and "visible (last s)"
  shows "trimmed s"
proof -
  obtain a t where s: "s = a # t" and a: "visible a"
    using assms by (cases s) auto
  obtain b u where r: "rev s = b # u" and b: "visible b"
    using assms by (cases "rev s") (auto simp: last_rev hd_rev [symmetric])
  have "trimStart s = s"
    using a by (simp add: s trimStart_def strip_headOk headOk_visible)
  moreover have "strip (\<lambda>b a. isWs2 a b) (\<lambda>c b a. isWs3 a b c) (rev s) = rev s"
    using b by (simp add: r strip_headOk headOk_visible)
  ultimately show ?thesis
    using assms(1) by (simp add: trimmed_def trim_def trimEnd_def)
qed

end
