(* ===== verification/Js_Json.thy ===== *)
theory Js_Json
  imports Complex_Main Js_Prelude
begin

text \<open>
  Values of type \<open>unknown\<close> that come out of \<open>JSON.parse\<close>, and the primitive checks of
  \<open>src/features/copilot/_stream/validators.ts\<close> on them (its last two hundred lines: \<open>requireRecord\<close>,
  \<open>requireString\<close>, \<open>requireNonEmptyString\<close> and their nullable, optional and numeric variants).

  A number is the rational it denotes (every finite double is one); an object is its list of
  properties in order. A property read \<open>record.key\<close> gives an optional value: \<open>None\<close> is \<open>undefined\<close>,
  which no JSON text denotes, so it means that the property is absent.
\<close>

section \<open>Values\<close>

datatype json =
    JNull
  | JBool bool
  | JNum rat
  | JStr string
  | JArr "json list"
  | JObj "(string \<times> json) list"

type_synonym jrecord = "(string \<times> json) list"

text \<open>\<open>record.key\<close>; \<open>hasOwn\<close> is \<open>Object.prototype.hasOwnProperty.call(record, key)\<close>.\<close>

definition prop_of :: "jrecord \<Rightarrow> string \<Rightarrow> json option" where
  "prop_of r k = map_of r k"

definition hasOwn :: "jrecord \<Rightarrow> string \<Rightarrow> bool" where
  "hasOwn r k \<longleftrightarrow> prop_of r k \<noteq> None"

text \<open>\<open>value === null || value === undefined\<close>\<close>

definition isNullish :: "json option \<Rightarrow> bool" where
  "isNullish v \<longleftrightarrow> v = None \<or> v = Some JNull"

text \<open>\<open>a ?? b\<close> on property reads\<close>

definition nullishOr :: "json option \<Rightarrow> json option \<Rightarrow> json option" where
  "nullishOr a b = (if isNullish a then b else a)"

lemma prop_of_Nil [simp]: "prop_of [] k = None"
  by (simp add: prop_of_def)

lemma prop_of_Cons [simp]: "prop_of ((k', v) # r) k = (if k = k' then Some v else prop_of r k)"
  by (auto simp: prop_of_def)

lemma prop_of_append:
  "prop_of (r @ r') k = (case prop_of r k of None \<Rightarrow> prop_of r' k | Some v \<Rightarrow> Some v)"
  by (simp add: prop_of_def map_add_def split: option.splits)

lemma isNullish_simps [simp]:
  "isNullish None" "isNullish (Some JNull)" "\<not> isNullish (Some (JBool b))" "\<not> isNullish (Some (JNum n))"
  "\<not> isNullish (Some (JStr s))" "\<not> isNullish (Some (JArr xs))" "\<not> isNullish (Some (JObj r))"
  by (simp_all add: isNullish_def)

section \<open>Primitive checks\<close>

definition isInteger :: "rat \<Rightarrow> bool" where
  "isInteger q \<longleftrightarrow> of_int \<lfloor>q\<rfloor> = q"

fun requireRecord :: "json option \<Rightarrow> string \<Rightarrow> jrecord res" where
  "requireRecord (Some (JObj r)) label = Inr r"
| "requireRecord _ label = Inl (label @ '' must be an object.'')"

fun requireString :: "json option \<Rightarrow> string \<Rightarrow> string res" where
  "requireString (Some (JStr s)) label = Inr s"
| "requireString _ label = Inl (label @ '' must be a string.'')"

definition requireNonEmptyString :: "json option \<Rightarrow> string \<Rightarrow> string res" where
  "requireNonEmptyString v label =
     andThen (requireString v label) (\<lambda>s.
       let normalizedValue = trim s in
       if normalizedValue = [] then Inl (label @ '' must be a non-empty string.'')
       else Inr normalizedValue)"

definition requireOptionalString :: "json option \<Rightarrow> string \<Rightarrow> string option res" where
  "requireOptionalString v label =
     (if v = None then Inr None else andThen (requireString v label) (\<lambda>s. Inr (Some s)))"

definition requireNullableString :: "json option \<Rightarrow> string \<Rightarrow> string option res" where
  "requireNullableString v label =
     (if isNullish v then Inr None else andThen (requireString v label) (\<lambda>s. Inr (Some s)))"

fun requireBoolean :: "json option \<Rightarrow> string \<Rightarrow> bool res" where
  "requireBoolean (Some (JBool b)) label = Inr b"
| "requireBoolean _ label = Inl (label @ '' must be a boolean.'')"

definition requireNullableBoolean :: "json option \<Rightarrow> string \<Rightarrow> bool option res" where
  "requireNullableBoolean v label =
     (if isNullish v then Inr None else andThen (requireBoolean v label) (\<lambda>b. Inr (Some b)))"

fun requireNonNegativeInteger :: "json option \<Rightarrow> string \<Rightarrow> int res" where
  "requireNonNegativeInteger (Some (JNum q)) label =
     (if isInteger q \<and> 0 \<le> q then Inr \<lfloor>q\<rfloor> else Inl (label @ '' must be a non-negative integer.''))"
| "requireNonNegativeInteger _ label = Inl (label @ '' must be a non-negative integer.'')"

definition requireNullableNonNegativeInteger :: "json option \<Rightarrow> string \<Rightarrow> int option res" where
  "requireNullableNonNegativeInteger v label =
     (if isNullish v then Inr None
      else andThen (requireNonNegativeInteger v label) (\<lambda>n. Inr (Some n)))"

fun requireSequence :: "json option \<Rightarrow> int res" where
  "requireSequence (Some (JNum q)) =
     (if isInteger q \<and> 0 < q then Inr \<lfloor>q\<rfloor> else Inl ''runtime event.sequence must be a positive integer.'')"
| "requireSequence _ = Inl ''runtime event.sequence must be a positive integer.''"

fun requireNullableNumber :: "json option \<Rightarrow> string \<Rightarrow> rat option res" where
  "requireNullableNumber (Some JNull) label = Inr None"
| "requireNullableNumber (Some (JNum q)) label = Inr (Some q)"
| "requireNullableNumber _ label = Inl (label @ '' must be a number or null.'')"

text \<open>\<open>${label}[${index}]\<close>\<close>

definition indexLabel :: "string \<Rightarrow> nat \<Rightarrow> string" where
  "indexLabel label i = label @ ''['' @ natString i @ '']''"

fun requireArray :: "json option \<Rightarrow> string \<Rightarrow> json list res" where
  "requireArray (Some (JArr xs)) message = Inr xs"
| "requireArray _ message = Inl message"

definition requireStringArray :: "json option \<Rightarrow> string \<Rightarrow> string list res" where
  "requireStringArray v label =
     andThen (requireArray v (label @ '' must be an array of strings.'')) (\<lambda>xs.
       traverseIdx (\<lambda>x i. requireString (Some x) (indexLabel label i)) 0 xs)"

section \<open>What the checks accept\<close>

lemma requireRecord_eq_Inr [simp]: "requireRecord v l = Inr r \<longleftrightarrow> v = Some (JObj r)"
  by (cases "(v, l)" rule: requireRecord.cases) auto

lemma requireString_eq_Inr [simp]: "requireString v l = Inr s \<longleftrightarrow> v = Some (JStr s)"
  by (cases "(v, l)" rule: requireString.cases) auto

lemma requireBoolean_eq_Inr [simp]: "requireBoolean v l = Inr b \<longleftrightarrow> v = Some (JBool b)"
  by (cases "(v, l)" rule: requireBoolean.cases) auto

lemma requireArray_eq_Inr [simp]: "requireArray v m = Inr xs \<longleftrightarrow> v = Some (JArr xs)"
  by (cases "(v, m)" rule: requireArray.cases) auto

lemma requireNonEmptyString_eq_Inr:
  "requireNonEmptyString v l = Inr s \<longleftrightarrow> (\<exists>t. v = Some (JStr t) \<and> trim t = s \<and> s \<noteq> [])"
  by (auto simp: requireNonEmptyString_def Let_def)

lemma requireNonEmptyString_trimmed: "requireNonEmptyString v l = Inr s \<Longrightarrow> trimmed s"
  by (auto simp: requireNonEmptyString_eq_Inr trimmed_trim)

lemma requireNonEmptyString_of_trimmed [simp]:
  "trimmed s \<Longrightarrow> requireNonEmptyString (Some (JStr s)) l = Inr s"
  by (simp add: requireNonEmptyString_eq_Inr trimmed_def)

lemma isInteger_of_int [simp]: "isInteger (of_int n)"
  by (simp add: isInteger_def)

lemma requireNonNegativeInteger_eq_Inr:
  "requireNonNegativeInteger v l = Inr n \<longleftrightarrow> v = Some (JNum (of_int n)) \<and> 0 \<le> n"
  by (cases "(v, l)" rule: requireNonNegativeInteger.cases) (auto simp: isInteger_def)

lemma requireSequence_eq_Inr: "requireSequence v = Inr n \<longleftrightarrow> v = Some (JNum (of_int n)) \<and> 0 < n"
  by (cases v rule: requireSequence.cases) (auto simp: isInteger_def)

lemma requireStringArray_eq_Inr:
  "requireStringArray v l = Inr ss \<longleftrightarrow> v = Some (JArr (map JStr ss))"
proof
  assume "requireStringArray v l = Inr ss"
  then obtain xs where "v = Some (JArr xs)" and "length ss = length xs"
    and "\<forall>j < length xs. xs ! j = JStr (ss ! j)"
    by (auto simp: requireStringArray_def traverseIdx_Inr_iff)
  then show "v = Some (JArr (map JStr ss))"
    by (auto intro: nth_equalityI)
next
  assume "v = Some (JArr (map JStr ss))"
  then show "requireStringArray v l = Inr ss"
    by (simp add: requireStringArray_def traverseIdx_map_Inr)
qed

end
