(* ===== verification/Run_Contract.thy ===== *)
theory Run_Contract
  imports Js_Json
begin

text \<open>
  The typed contract between the chat runtime and the renderer: the interfaces of
  \<open>src/features/copilot/_contracts/types.ts\<close> as records and datatypes, and the clone functions of
  \<open>src/features/copilot/thread-run-contract.ts\<close> that every component uses before it stores such a value.

  A field \<open>x: T | null\<close> or \<open>x?: T\<close> is a \<open>T option\<close>; a field \<open>x?: T | null\<close>, whose absence the code tells
  apart from \<open>null\<close>, is a \<open>T option option\<close> with \<open>None\<close> for absent and \<open>Some None\<close> for \<open>null\<close>.
\<close>

section \<open>Model routes\<close>

datatype model_route_kind = ProviderModel

record model_route_ref =
  rr_routeKind :: model_route_kind
  rr_profileId :: string
  rr_modelId :: string

record model_route =
  mr_routeRef :: "model_route_ref option option"
  mr_catalogRevision :: "string option"

record resolved_route =
  rs_routeRef :: model_route_ref
  rs_providerProfileId :: string
  rs_provider :: string
  rs_providerId :: string
  rs_adapterId :: string
  rs_runtimeStatus :: string
  rs_catalogRevision :: string
  rs_endpointFamily :: string
  rs_endpointType :: string
  rs_baseUrl :: string
  rs_modelId :: string
  rs_authKind :: string

text \<open>\<open>RuntimeResolvedModelRoute | RuntimeModelRoute\<close>, told apart by \<open>'providerId' in route\<close>.\<close>

datatype any_route = ResolvedRoute resolved_route | PlainRoute model_route

section \<open>Thinking\<close>

datatype thinking_level = LevelOff | LevelAuto | LevelLow | LevelMedium | LevelHigh | LevelXhigh

datatype capability_status =
    VerifiedSupported | VerifiedUnsupported | UnknownWithoutOverride | UnknownWithOverride

datatype capability_source = SourceVerified | SourceOverride | SourceUnknown

datatype control_kind = ControlFixed | ControlBinary | ControlOffAuto | ControlDiscrete | ControlBudget

datatype selection_kind = SelectPreset | SelectBudget

datatype editor_type = EditorDiscrete | EditorBudget | EditorFixed

datatype budget_mode = ModeOff | ModeDynamic | ModeBudget

text \<open>\<open>RuntimeThinkingValue\<close>: code and label; mode, tokens and label; label of the fixed value.\<close>

datatype thinking_value =
    CodeValue string string
  | BudgetValue budget_mode "int option" string
  | FixedValue string

record thinking_selection =
  ts_series :: string
  ts_value :: "thinking_value option"
  ts_mode :: "string option option"
  ts_level :: "string option option"
  ts_budgetTokens :: "int option option"

record canonical_selection =
  cs_kind :: selection_kind
  cs_value :: "thinking_level option"
  cs_budgetTokens :: "int option"

record control_budget =
  cb_minTokens :: "int option"
  cb_maxTokens :: "int option"
  cb_stepTokens :: "int option"

record control_spec =
  cp_kind :: control_kind
  cp_selectionKind :: selection_kind
  cp_presetOptions :: "canonical_selection list option"
  cp_fixedSelection :: "canonical_selection option option"
  cp_budget :: "control_budget option option"

record capability_provenance =
  pv_routeStatus :: string
  pv_present :: bool
  pv_applied :: bool
  pv_source :: "string option"
  pv_format :: "string option"

record thinking_visibility =
  vi_reasoning :: string
  vi_supportsSuppression :: bool

record route_fingerprint =
  fp_providerProfileId :: string
  fp_provider :: string
  fp_endpointType :: string
  fp_baseUrl :: string
  fp_modelId :: string

record thinking_capability =
  tc_status :: capability_status
  tc_source :: capability_source
  tc_series :: "string option"
  tc_seriesLabelZh :: "string option"
  tc_editorType :: "editor_type option"
  tc_allowedValues :: "thinking_value list"
  tc_defaultValue :: "thinking_value option"
  tc_providerBuilderKey :: "string option"
  tc_reasonCode :: string
  tc_routeFingerprint :: route_fingerprint
  tc_supported :: "bool option"
  tc_controlSpec :: "control_spec option option"
  tc_defaultSelection :: "canonical_selection option option"
  tc_supportedLevels :: "thinking_level list option"
  tc_defaultLevel :: "thinking_level option option"
  tc_providerHint :: "string option option"
  tc_provenance :: "capability_provenance option option"
  tc_visibility :: "thinking_visibility option option"
  tc_overrideLevels :: "thinking_level list option"

record selection_result =
  sr_requestedSelection :: "thinking_selection option"
  sr_appliedSelection :: "thinking_selection option"
  sr_applied :: bool
  sr_reasonCode :: string
  sr_errorCode :: "string option"
  sr_providerBuilderKey :: "string option"
  sr_mappingReasonCode :: "string option"
  sr_capabilityStatus :: capability_status
  sr_capabilitySource :: capability_source
  sr_capabilitySeries :: "string option"
  sr_capabilitySeriesLabelZh :: "string option"
  sr_capabilityReasonCode :: "string option"
  sr_requestedThinkingLevel :: "thinking_level option option"
  sr_appliedThinkingLevel :: "thinking_level option option"
  sr_providerMapping :: "string option option"
  sr_overridePresent :: "bool option"
  sr_overrideApplied :: "bool option"
  sr_overrideSource :: "string option option"
  sr_reasoningVisibility :: "string option option"
  sr_supportsSuppression :: "bool option option"
  sr_modelSettings :: "jrecord option"

record suppression_basis =
  sb_shouldSuppress :: bool
  sb_source :: string
  sb_reasonCode :: "string option"
  sb_appliedThinkingSelection :: "thinking_selection option"
  sb_reasoningVisibility :: "string option"
  sb_supportsSuppression :: bool
  sb_capabilitySource :: "capability_source option"
  sb_capabilitySeries :: "string option"
  sb_appliedThinkingLevel :: "thinking_level option option"

text \<open>
  \<open>Partial<RuntimeRunThinkingMetadata>\<close>; the required form has \<open>Some\<close> in the five fields that are not
  levels.
\<close>

record thinking_metadata =
  tm_requestedThinkingSelection :: "thinking_selection option option"
  tm_appliedThinkingSelection :: "thinking_selection option option"
  tm_thinkingCapabilitySnapshot :: "thinking_capability option option"
  tm_thinkingSeriesDecision :: "selection_result option option"
  tm_reasoningSuppressionBasis :: "suppression_basis option option"
  tm_requestedThinkingLevel :: "thinking_level option option"
  tm_appliedThinkingLevel :: "thinking_level option option"

definition emptyMetadata :: thinking_metadata where
  "emptyMetadata =
     \<lparr>tm_requestedThinkingSelection = None, tm_appliedThinkingSelection = None,
      tm_thinkingCapabilitySnapshot = None, tm_thinkingSeriesDecision = None,
      tm_reasoningSuppressionBasis = None, tm_requestedThinkingLevel = None,
      tm_appliedThinkingLevel = None\<rparr>"

section \<open>Inline forms, tools and run events\<close>

datatype field_type = FieldText | FieldTextarea | FieldNumber | FieldSelect | FieldCheckbox

record field_option =
  fo_value :: string
  fo_label :: string

record form_field =
  ff_name :: string
  ff_label :: string
  ff_type :: field_type
  ff_description :: "string option"
  ff_placeholder :: "string option"
  ff_required :: "bool option"
  ff_options :: "field_option list option"

record form_request =
  fr_formId :: string
  fr_title :: string
  fr_description :: "string option"
  fr_submitLabel :: "string option"
  fr_fields :: "form_field list"

datatype tool_phase = PhStarted | PhWaitingApproval | PhCompleted | PhFailed | PhCancelled

datatype permission_mode = ModeAllow | ModeAsk | ModeDelay | ModeDeny

datatype timeout_action = TimeoutApprove | TimeoutDeny

datatype risk_level = RiskSafe | RiskModerate | RiskHigh

datatype approval_method = AcceptReject | Password

record tool_security =
  se_riskLevel :: risk_level
  se_approvalMethod :: "approval_method option"

record tool_approval =
  ap_mode :: permission_mode
  ap_timeoutAt :: "string option option"
  ap_timeoutSeconds :: "rat option option"
  ap_timeoutAction :: "timeout_action option option"

record tool_payload =
  te_toolCallId :: string
  te_toolId :: string
  te_phase :: tool_phase
  te_title :: string
  te_summary :: string
  te_inputSummary :: "string option"
  te_resultSummary :: "string option"
  te_errorSummary :: "string option"
  te_security :: "tool_security option"
  te_approval :: "tool_approval option"
  te_formRequest :: "form_request option"

record completed_payload =
  co_assistantMessageId :: string
  co_assistantText :: string
  co_resolvedModelId :: string
  co_resolvedModelRoute :: resolved_route
  co_resolvedToolIds :: "string list"
  co_requestOptions :: jrecord

record diagnostic_summary =
  dg_code :: string
  dg_message :: string
  dg_stage :: string
  dg_details :: jrecord

record failure_summary =
  fa_code :: string
  fa_message :: string
  fa_details :: jrecord

datatype run_payload =
    RunStarted string thinking_metadata
  | RunMetadata thinking_metadata
  | TextDelta string string
  | ReasoningDelta string
  | RunCompleted completed_payload
  | RunFailed failure_summary
  | RunCancelled string string
  | RunDiagnostic diagnostic_summary
  | ToolEvent tool_payload

record run_event =
  ev_runId :: string
  ev_sessionId :: string
  ev_sequence :: int
  ev_payload :: run_payload

text \<open>\<open>isTerminalRuntimeRunEvent\<close>: membership of the type in \<open>TERMINAL_RUNTIME_RUN_EVENT_TYPES\<close>.\<close>

fun isTerminalPayload :: "run_payload \<Rightarrow> bool" where
  "isTerminalPayload (RunCompleted _) = True"
| "isTerminalPayload (RunFailed _) = True"
| "isTerminalPayload (RunCancelled _ _) = True"
| "isTerminalPayload _ = False"

definition isTerminalRuntimeRunEvent :: "run_event \<Rightarrow> bool" where
  "isTerminalRuntimeRunEvent e = isTerminalPayload (ev_payload e)"

fun isStartedPayload :: "run_payload \<Rightarrow> bool" where
  "isStartedPayload (RunStarted _ _) = True"
| "isStartedPayload _ = False"

end
