(* ===== verification/Thinking_Clone.thy ===== *)
theory Thinking_Clone
  imports Run_Contract
begin

text \<open>
  The clone and serialisation functions of \<open>src/features/copilot/thread-run-contract.ts\<close> on thinking
  values and model routes, with \<open>formatThinkingTokenCount\<close> of \<open>src/workbench/thinking-display.ts\<close>. A
  clone rebuilds a value field by field; the lemmas in \<open>clone_id\<close> say which clones return the value
  they are given, and \<open>normalSelection\<close> describes the normal form the others establish.
\<close>

section \<open>Rendering a token count\<close>

text \<open>
  \<open>Number.prototype.toFixed(1)\<close> of the quotient \<open>v / d\<close>: the integer closest to ten times the
  quotient, the larger one of two, with a decimal point before its last digit. The divisors are powers of two,
  so that the quotient of a safe integer is exact.
\<close>

definition toFixed1 :: "int \<Rightarrow> int \<Rightarrow> string" where
  "toFixed1 v d =
     (let n = (20 * v + d) div (2 * d)
      in intString (n div 10) @ ''.'' @ intString (n mod 10))"

definition trimTrailingZero :: "string \<Rightarrow> string" where
  "trimTrailingZero s = (if suffix ''.0'' s then take (length s - 2) s else s)"

definition formatThinkingTokenCount :: "int \<Rightarrow> string" where
  "formatThinkingTokenCount v =
     (if 1048576 \<le> v then
        trimTrailingZero (if v mod 1048576 = 0 then intString (v div 1048576) else toFixed1 v 1048576) @ ''M''
      else if 1024 \<le> v then
        trimTrailingZero (if v mod 1024 = 0 then intString (v div 1024) else toFixed1 v 1024) @ ''K''
      else intString v)"

section \<open>Thinking selections\<close>

text \<open>The label of the fixed value, \<open>fixed reasoning\<close> in Chinese.\<close>

definition labelFixedReasoning :: string where
  "labelFixedReasoning = [CHR 0xE5, CHR 0x9B, CHR 0xBA, CHR 0xE5, CHR 0xAE, CHR 0x9A, CHR 0xE6, CHR 0x8E, CHR 0xA8, CHR 0xE7, CHR 0x90, CHR 0x86]"

text \<open>
  The \<open>switch\<close> of \<open>cloneRuntimeThinkingValue\<close> on a present value; \<open>null\<close> and \<open>undefined\<close> clone to \<open>null\<close>.
  Where the code writes \<open>cloneRuntimeThinkingValue(value)!\<close>, the model applies the \<open>switch\<close> itself.
\<close>

fun cloneThinkingValue :: "thinking_value \<Rightarrow> thinking_value" where
  "cloneThinkingValue (CodeValue code labelZh) = CodeValue code labelZh"
| "cloneThinkingValue (BudgetValue m tokens labelZh) = BudgetValue m tokens labelZh"
| "cloneThinkingValue (FixedValue labelZh) = FixedValue labelZh"

definition cloneRuntimeThinkingValue :: "thinking_value option \<Rightarrow> thinking_value option" where
  "cloneRuntimeThinkingValue v = (case v of None \<Rightarrow> None | Some x \<Rightarrow> Some (cloneThinkingValue x))"

text \<open>The fields \<open>mode\<close>, \<open>level\<close> and \<open>budgetTokens\<close> that go with a value.\<close>

fun deriveLegacyThinkingSelectionFields ::
  "thinking_value \<Rightarrow> string option option \<times> string option option \<times> int option option" where
  "deriveLegacyThinkingSelectionFields (BudgetValue m tokens _) =
     (Some (Some ''budget''), Some None, Some (if m = ModeBudget then tokens else None))"
| "deriveLegacyThinkingSelectionFields (FixedValue _) =
     (Some (Some ''preset''), Some (Some ''fixed''), Some None)"
| "deriveLegacyThinkingSelectionFields (CodeValue code _) =
     (Some (Some ''preset''), Some (Some code), Some None)"

definition legacyLevel :: "thinking_selection \<Rightarrow> thinking_value option" where
  "legacyLevel s =
     (case ts_level s of
        Some (Some level) \<Rightarrow>
          if trim level = [] then None
          else if level = ''fixed'' then Some (FixedValue labelFixedReasoning)
          else Some (CodeValue level level)
      | _ \<Rightarrow> None)"

definition buildRuntimeThinkingValueFromLegacySelection :: "thinking_selection \<Rightarrow> thinking_value option" where
  "buildRuntimeThinkingValueFromLegacySelection s =
     (case (ts_mode s, ts_budgetTokens s) of
        (Some (Some m), Some (Some n)) \<Rightarrow>
          if m = ''budget'' then Some (BudgetValue ModeBudget (Some n) (formatThinkingTokenCount n))
          else legacyLevel s
      | _ \<Rightarrow> legacyLevel s)"

definition selectionWithValue :: "string \<Rightarrow> thinking_value \<Rightarrow> thinking_selection" where
  "selectionWithValue series v =
     (case deriveLegacyThinkingSelectionFields v of (m, l, b) \<Rightarrow>
        \<lparr>ts_series = series, ts_value = Some v, ts_mode = m, ts_level = l, ts_budgetTokens = b\<rparr>)"

definition cloneRuntimeThinkingSelection :: "thinking_selection option \<Rightarrow> thinking_selection option" where
  "cloneRuntimeThinkingSelection sel =
     (case sel of None \<Rightarrow> None
      | Some s \<Rightarrow>
          (let clonedValue =
             (case cloneRuntimeThinkingValue (ts_value s) of
                Some v \<Rightarrow> Some v
              | None \<Rightarrow> buildRuntimeThinkingValueFromLegacySelection s)
           in case clonedValue of None \<Rightarrow> None
              | Some v \<Rightarrow> Some (selectionWithValue (ts_series s) v)))"

section \<open>Capabilities, decisions and suppression bases\<close>

definition cloneCanonicalSelection :: "canonical_selection \<Rightarrow> canonical_selection" where
  "cloneCanonicalSelection s =
     \<lparr>cs_kind = cs_kind s, cs_value = cs_value s, cs_budgetTokens = cs_budgetTokens s\<rparr>"

definition cloneRuntimeCanonicalThinkingSelection ::
  "canonical_selection option \<Rightarrow> canonical_selection option" where
  "cloneRuntimeCanonicalThinkingSelection sel =
     (case sel of None \<Rightarrow> None | Some s \<Rightarrow> Some (cloneCanonicalSelection s))"

definition cloneControlBudget :: "control_budget \<Rightarrow> control_budget" where
  "cloneControlBudget b =
     \<lparr>cb_minTokens = cb_minTokens b, cb_maxTokens = cb_maxTokens b, cb_stepTokens = cb_stepTokens b\<rparr>"

definition cloneRuntimeThinkingControlSpec :: "control_spec option \<Rightarrow> control_spec option" where
  "cloneRuntimeThinkingControlSpec spec =
     (case spec of None \<Rightarrow> None
      | Some c \<Rightarrow> Some
          \<lparr>cp_kind = cp_kind c,
           cp_selectionKind = cp_selectionKind c,
           cp_presetOptions = map_option (map cloneCanonicalSelection) (cp_presetOptions c),
           cp_fixedSelection = map_option cloneRuntimeCanonicalThinkingSelection (cp_fixedSelection c),
           cp_budget = map_option (map_option cloneControlBudget) (cp_budget c)\<rparr>)"

definition cloneProvenance :: "capability_provenance \<Rightarrow> capability_provenance" where
  "cloneProvenance p =
     \<lparr>pv_routeStatus = pv_routeStatus p, pv_present = pv_present p, pv_applied = pv_applied p,
      pv_source = pv_source p, pv_format = pv_format p\<rparr>"

definition cloneVisibility :: "thinking_visibility \<Rightarrow> thinking_visibility" where
  "cloneVisibility v = \<lparr>vi_reasoning = vi_reasoning v, vi_supportsSuppression = vi_supportsSuppression v\<rparr>"

definition cloneFingerprint :: "route_fingerprint \<Rightarrow> route_fingerprint" where
  "cloneFingerprint f =
     \<lparr>fp_providerProfileId = fp_providerProfileId f, fp_provider = fp_provider f,
      fp_endpointType = fp_endpointType f, fp_baseUrl = fp_baseUrl f, fp_modelId = fp_modelId f\<rparr>"

definition cloneRuntimeThinkingCapability :: "thinking_capability option \<Rightarrow> thinking_capability option" where
  "cloneRuntimeThinkingCapability capability =
     (case capability of None \<Rightarrow> None
      | Some c \<Rightarrow> Some
          \<lparr>tc_status = tc_status c,
           tc_source = tc_source c,
           tc_series = tc_series c,
           tc_seriesLabelZh = tc_seriesLabelZh c,
           tc_editorType = tc_editorType c,
           tc_allowedValues = map cloneThinkingValue (tc_allowedValues c),
           tc_defaultValue = cloneRuntimeThinkingValue (tc_defaultValue c),
           tc_providerBuilderKey = tc_providerBuilderKey c,
           tc_reasonCode = tc_reasonCode c,
           tc_routeFingerprint = cloneFingerprint (tc_routeFingerprint c),
           tc_supported = tc_supported c,
           tc_controlSpec = map_option cloneRuntimeThinkingControlSpec (tc_controlSpec c),
           tc_defaultSelection = map_option cloneRuntimeCanonicalThinkingSelection (tc_defaultSelection c),
           tc_supportedLevels = tc_supportedLevels c,
           tc_defaultLevel = tc_defaultLevel c,
           tc_providerHint = tc_providerHint c,
           tc_provenance = map_option (map_option cloneProvenance) (tc_provenance c),
           tc_visibility = map_option (map_option cloneVisibility) (tc_visibility c),
           tc_overrideLevels = tc_overrideLevels c\<rparr>)"

definition cloneRuntimeThinkingSelectionResult :: "selection_result option \<Rightarrow> selection_result option" where
  "cloneRuntimeThinkingSelectionResult result =
     (case result of None \<Rightarrow> None
      | Some r \<Rightarrow> Some
          \<lparr>sr_requestedSelection = cloneRuntimeThinkingSelection (sr_requestedSelection r),
           sr_appliedSelection = cloneRuntimeThinkingSelection (sr_appliedSelection r),
           sr_applied = sr_applied r,
           sr_reasonCode = sr_reasonCode r,
           sr_errorCode = sr_errorCode r,
           sr_providerBuilderKey = sr_providerBuilderKey r,
           sr_mappingReasonCode = sr_mappingReasonCode r,
           sr_capabilityStatus = sr_capabilityStatus r,
           sr_capabilitySource = sr_capabilitySource r,
           sr_capabilitySeries = sr_capabilitySeries r,
           sr_capabilitySeriesLabelZh = sr_capabilitySeriesLabelZh r,
           sr_capabilityReasonCode = sr_capabilityReasonCode r,
           sr_requestedThinkingLevel = sr_requestedThinkingLevel r,
           sr_appliedThinkingLevel = sr_appliedThinkingLevel r,
           sr_providerMapping = sr_providerMapping r,
           sr_overridePresent = sr_overridePresent r,
           sr_overrideApplied = sr_overrideApplied r,
           sr_overrideSource = sr_overrideSource r,
           sr_reasoningVisibility = sr_reasoningVisibility r,
           sr_supportsSuppression = sr_supportsSuppression r,
           sr_modelSettings = sr_modelSettings r\<rparr>)"

definition cloneRuntimeReasoningSuppressionBasis :: "suppression_basis option \<Rightarrow> suppression_basis option" where
  "cloneRuntimeReasoningSuppressionBasis basis =
     (case basis of None \<Rightarrow> None
      | Some b \<Rightarrow> Some
          \<lparr>sb_shouldSuppress = sb_shouldSuppress b,
           sb_source = sb_source b,
           sb_reasonCode = sb_reasonCode b,
           sb_appliedThinkingSelection = cloneRuntimeThinkingSelection (sb_appliedThinkingSelection b),
           sb_reasoningVisibility = sb_reasoningVisibility b,
           sb_supportsSuppression = sb_supportsSuppression b,
           sb_capabilitySource = sb_capabilitySource b,
           sb_capabilitySeries = sb_capabilitySeries b,
           sb_appliedThinkingLevel = sb_appliedThinkingLevel b\<rparr>)"

section \<open>Model routes\<close>

definition cloneRouteRef :: "model_route_ref \<Rightarrow> model_route_ref" where
  "cloneRouteRef r =
     \<lparr>rr_routeKind = rr_routeKind r, rr_profileId = rr_profileId r, rr_modelId = rr_modelId r\<rparr>"

text \<open>A \<open>routeRef\<close> that is \<open>null\<close> or absent is left out of the clone.\<close>

definition cloneRuntimeModelRoute :: "model_route \<Rightarrow> model_route" where
  "cloneRuntimeModelRoute route =
     \<lparr>mr_routeRef = (case mr_routeRef route of
          Some (Some r) \<Rightarrow> Some (Some (cloneRouteRef r)) | _ \<Rightarrow> None),
      mr_catalogRevision = mr_catalogRevision route\<rparr>"

definition cloneRuntimeResolvedModelRoute :: "resolved_route \<Rightarrow> resolved_route" where
  "cloneRuntimeResolvedModelRoute route =
     \<lparr>rs_routeRef = cloneRouteRef (rs_routeRef route),
      rs_providerProfileId = rs_providerProfileId route,
      rs_provider = rs_provider route,
      rs_providerId = rs_providerId route,
      rs_adapterId = rs_adapterId route,
      rs_runtimeStatus = rs_runtimeStatus route,
      rs_catalogRevision = rs_catalogRevision route,
      rs_endpointFamily = rs_endpointFamily route,
      rs_endpointType = rs_endpointType route,
      rs_baseUrl = rs_baseUrl route,
      rs_modelId = rs_modelId route,
      rs_authKind = rs_authKind route\<rparr>"

section \<open>Serialisation into request bodies\<close>

fun budgetModeString :: "budget_mode \<Rightarrow> string" where
  "budgetModeString ModeOff = ''off''"
| "budgetModeString ModeDynamic = ''dynamic''"
| "budgetModeString ModeBudget = ''budget''"

text \<open>
  \<open>serializeRuntimeThinkingValue\<close>: a value with its \<open>valueType\<close> is copied property by property;
  without one, the legacy fields are read. Its result is put into the JSON body of \<open>run/start\<close>.
\<close>

fun serializeDirectValue :: "thinking_value \<Rightarrow> json" where
  "serializeDirectValue (CodeValue code labelZh) =
     JObj [(''valueType'', JStr ''code''), (''code'', JStr code), (''labelZh'', JStr labelZh)]"
| "serializeDirectValue (BudgetValue m tokens labelZh) =
     JObj [(''valueType'', JStr ''budget''), (''mode'', JStr (budgetModeString m)),
           (''budgetTokens'', (case tokens of None \<Rightarrow> JNull | Some n \<Rightarrow> JNum (of_int n))),
           (''labelZh'', JStr labelZh)]"
| "serializeDirectValue (FixedValue labelZh) =
     JObj [(''valueType'', JStr ''fixed''), (''code'', JStr ''fixed''), (''labelZh'', JStr labelZh)]"

definition serializeLegacyLevel :: "thinking_selection \<Rightarrow> json option" where
  "serializeLegacyLevel s =
     (case ts_level s of
        Some (Some level) \<Rightarrow>
          if trim level = [] then None
          else Some (JObj [(''valueType'', JStr ''code''), (''code'', JStr level), (''labelZh'', JStr level)])
      | _ \<Rightarrow> None)"

definition serializeRuntimeThinkingValue :: "thinking_selection \<Rightarrow> json option" where
  "serializeRuntimeThinkingValue s =
     (case ts_value s of
        Some v \<Rightarrow> Some (serializeDirectValue v)
      | None \<Rightarrow>
          (case (ts_mode s, ts_budgetTokens s) of
             (Some (Some m), Some (Some n)) \<Rightarrow>
               if m = ''budget''
               then Some (JObj [(''valueType'', JStr ''budget''), (''mode'', JStr ''budget''),
                                (''budgetTokens'', JNum (of_int n))])
               else serializeLegacyLevel s
           | _ \<Rightarrow> serializeLegacyLevel s))"

definition serializeRuntimeThinkingSelection :: "thinking_selection option \<Rightarrow> json option" where
  "serializeRuntimeThinkingSelection sel =
     (case sel of None \<Rightarrow> None
      | Some s \<Rightarrow>
          (case serializeRuntimeThinkingValue s of None \<Rightarrow> None
           | Some v \<Rightarrow> Some (JObj [(''series'', JStr (ts_series s)), (''value'', v)])))"

section \<open>Clones that return their argument\<close>

lemma cloneThinkingValue_id [simp, clone_id]: "cloneThinkingValue v = v"
  by (cases v) simp_all

lemma map_cloneThinkingValue_id [simp]: "map cloneThinkingValue vs = vs"
  by (simp add: map_idI)

lemma cloneRuntimeThinkingValue_id [simp, clone_id]: "cloneRuntimeThinkingValue v = v"
  by (simp add: cloneRuntimeThinkingValue_def split: option.splits)

lemma cloneCanonicalSelection_id [simp, clone_id]: "cloneCanonicalSelection s = s"
  by (simp add: cloneCanonicalSelection_def)

lemma cloneRuntimeCanonicalThinkingSelection_id [simp, clone_id]:
  "cloneRuntimeCanonicalThinkingSelection s = s"
  by (simp add: cloneRuntimeCanonicalThinkingSelection_def split: option.splits)

lemma cloneControlBudget_id [simp, clone_id]: "cloneControlBudget b = b"
  by (simp add: cloneControlBudget_def)

lemma map_option_clone_id: "(\<And>x. f x = x) \<Longrightarrow> map_option f v = v"
  by (cases v) simp_all

lemma map_clone_id: "(\<And>x. f x = x) \<Longrightarrow> map f xs = xs"
  by (simp add: map_idI)

lemma cloneRuntimeThinkingControlSpec_id [simp, clone_id]: "cloneRuntimeThinkingControlSpec c = c"
  by (simp add: cloneRuntimeThinkingControlSpec_def map_option_clone_id map_clone_id split: option.splits)

lemma cloneProvenance_id [simp, clone_id]: "cloneProvenance p = p"
  by (simp add: cloneProvenance_def)

lemma cloneVisibility_id [simp, clone_id]: "cloneVisibility v = v"
  by (simp add: cloneVisibility_def)

lemma cloneFingerprint_id [simp, clone_id]: "cloneFingerprint f = f"
  by (simp add: cloneFingerprint_def)

lemma cloneRuntimeThinkingCapability_id [simp, clone_id]: "cloneRuntimeThinkingCapability c = c"
  by (simp add: cloneRuntimeThinkingCapability_def map_option_clone_id split: option.splits)

lemma cloneRouteRef_id [simp, clone_id]: "cloneRouteRef r = r"
  by (simp add: cloneRouteRef_def)

lemma cloneRuntimeResolvedModelRoute_id [simp, clone_id]: "cloneRuntimeResolvedModelRoute r = r"
  by (simp add: cloneRuntimeResolvedModelRoute_def)

section \<open>The normal form of a selection\<close>

lemma ts_selectionWithValue [simp]:
  "ts_series (selectionWithValue series v) = series"
  "ts_value (selectionWithValue series v) = Some v"
  by (simp_all add: selectionWithValue_def split: prod.splits)

definition normalSelection :: "thinking_selection \<Rightarrow> bool" where
  "normalSelection s \<longleftrightarrow> (\<exists>v. s = selectionWithValue (ts_series s) v)"

lemma normal_selectionWithValue [simp]: "normalSelection (selectionWithValue series v)"
  by (auto simp: normalSelection_def)

lemma cloneRuntimeThinkingSelection_None [simp]: "cloneRuntimeThinkingSelection None = None"
  by (simp add: cloneRuntimeThinkingSelection_def)

lemma cloneRuntimeThinkingSelection_value:
  "ts_value s = Some v \<Longrightarrow>
   cloneRuntimeThinkingSelection (Some s) = Some (selectionWithValue (ts_series s) v)"
  by (simp add: cloneRuntimeThinkingSelection_def)

lemma clone_selectionWithValue [simp]:
  "cloneRuntimeThinkingSelection (Some (selectionWithValue series v)) = Some (selectionWithValue series v)"
  by (simp add: cloneRuntimeThinkingSelection_value)

lemma cloneRuntimeThinkingSelection_normal:
  "cloneRuntimeThinkingSelection sel = Some s \<Longrightarrow> normalSelection s"
  by (auto simp: cloneRuntimeThinkingSelection_def Let_def split: option.splits)

lemma clone_normal_id: "normalSelection s \<Longrightarrow> cloneRuntimeThinkingSelection (Some s) = Some s"
  by (metis clone_selectionWithValue normalSelection_def)

lemma cloneRuntimeThinkingSelection_idem [simp]:
  "cloneRuntimeThinkingSelection (cloneRuntimeThinkingSelection sel) = cloneRuntimeThinkingSelection sel"
  by (cases "cloneRuntimeThinkingSelection sel")
     (auto dest: cloneRuntimeThinkingSelection_normal intro: clone_normal_id)

end
