(* ===== verification/Literal_Types.thy ===== *)
theory Literal_Types
  imports Thinking_Clone
begin

text \<open>
  The string literal types of the contract: for each enumeration the string the code uses for a
  constructor, and the reading of a string as a \<open>switch\<close> over the literals does it. The laws at the end say
  that reading and writing are inverse.
\<close>

section \<open>The literals\<close>

fun capabilityStatusString :: "capability_status \<Rightarrow> string" where
  "capabilityStatusString VerifiedSupported = ''verified-supported''"
| "capabilityStatusString VerifiedUnsupported = ''verified-unsupported''"
| "capabilityStatusString UnknownWithoutOverride = ''unknown-without-override''"
| "capabilityStatusString UnknownWithOverride = ''unknown-with-override''"

definition parseCapabilityStatus :: "string \<Rightarrow> capability_status option" where
  "parseCapabilityStatus s =
     (if s = ''verified-supported'' then Some VerifiedSupported
      else if s = ''verified-unsupported'' then Some VerifiedUnsupported
      else if s = ''unknown-without-override'' then Some UnknownWithoutOverride
      else if s = ''unknown-with-override'' then Some UnknownWithOverride
      else None)"

fun capabilitySourceString :: "capability_source \<Rightarrow> string" where
  "capabilitySourceString SourceVerified = ''verified''"
| "capabilitySourceString SourceOverride = ''override''"
| "capabilitySourceString SourceUnknown = ''unknown''"

definition parseCapabilitySource :: "string \<Rightarrow> capability_source option" where
  "parseCapabilitySource s =
     (if s = ''verified'' then Some SourceVerified
      else if s = ''override'' then Some SourceOverride
      else if s = ''unknown'' then Some SourceUnknown
      else None)"

fun thinkingLevelString :: "thinking_level \<Rightarrow> string" where
  "thinkingLevelString LevelOff = ''off''"
| "thinkingLevelString LevelAuto = ''auto''"
| "thinkingLevelString LevelLow = ''low''"
| "thinkingLevelString LevelMedium = ''medium''"
| "thinkingLevelString LevelHigh = ''high''"
| "thinkingLevelString LevelXhigh = ''xhigh''"

definition parseThinkingLevel :: "string \<Rightarrow> thinking_level option" where
  "parseThinkingLevel s =
     (if s = ''off'' then Some LevelOff
      else if s = ''auto'' then Some LevelAuto
      else if s = ''low'' then Some LevelLow
      else if s = ''medium'' then Some LevelMedium
      else if s = ''high'' then Some LevelHigh
      else if s = ''xhigh'' then Some LevelXhigh
      else None)"

fun editorTypeString :: "editor_type \<Rightarrow> string" where
  "editorTypeString EditorDiscrete = ''discrete''"
| "editorTypeString EditorBudget = ''budget''"
| "editorTypeString EditorFixed = ''fixed''"

definition parseEditorType :: "string \<Rightarrow> editor_type option" where
  "parseEditorType s =
     (if s = ''discrete'' then Some EditorDiscrete
      else if s = ''budget'' then Some EditorBudget
      else if s = ''fixed'' then Some EditorFixed
      else None)"

fun controlKindString :: "control_kind \<Rightarrow> string" where
  "controlKindString ControlFixed = ''fixed''"
| "controlKindString ControlBinary = ''binary''"
| "controlKindString ControlOffAuto = ''off-auto''"
| "controlKindString ControlDiscrete = ''discrete''"
| "controlKindString ControlBudget = ''budget''"

definition parseControlKind :: "string \<Rightarrow> control_kind option" where
  "parseControlKind s =
     (if s = ''fixed'' then Some ControlFixed
      else if s = ''binary'' then Some ControlBinary
      else if s = ''off-auto'' then Some ControlOffAuto
      else if s = ''discrete'' then Some ControlDiscrete
      else if s = ''budget'' then Some ControlBudget
      else None)"

fun selectionKindString :: "selection_kind \<Rightarrow> string" where
  "selectionKindString SelectPreset = ''preset''"
| "selectionKindString SelectBudget = ''budget''"

definition parseSelectionKind :: "string \<Rightarrow> selection_kind option" where
  "parseSelectionKind s =
     (if s = ''preset'' then Some SelectPreset
      else if s = ''budget'' then Some SelectBudget
      else None)"

fun toolPhaseString :: "tool_phase \<Rightarrow> string" where
  "toolPhaseString PhStarted = ''started''"
| "toolPhaseString PhWaitingApproval = ''waiting_approval''"
| "toolPhaseString PhCompleted = ''completed''"
| "toolPhaseString PhFailed = ''failed''"
| "toolPhaseString PhCancelled = ''cancelled''"

definition parseToolPhase :: "string \<Rightarrow> tool_phase option" where
  "parseToolPhase s =
     (if s = ''started'' then Some PhStarted
      else if s = ''waiting_approval'' then Some PhWaitingApproval
      else if s = ''completed'' then Some PhCompleted
      else if s = ''failed'' then Some PhFailed
      else if s = ''cancelled'' then Some PhCancelled
      else None)"

fun permissionModeString :: "permission_mode \<Rightarrow> string" where
  "permissionModeString ModeAllow = ''allow''"
| "permissionModeString ModeAsk = ''ask''"
| "permissionModeString ModeDelay = ''delay''"
| "permissionModeString ModeDeny = ''deny''"

definition parsePermissionMode :: "string \<Rightarrow> permission_mode option" where
  "parsePermissionMode s =
     (if s = ''allow'' then Some ModeAllow
      else if s = ''ask'' then Some ModeAsk
      else if s = ''delay'' then Some ModeDelay
      else if s = ''deny'' then Some ModeDeny
      else None)"

fun timeoutActionString :: "timeout_action \<Rightarrow> string" where
  "timeoutActionString TimeoutApprove = ''approve''"
| "timeoutActionString TimeoutDeny = ''deny''"

definition parseTimeoutAction :: "string \<Rightarrow> timeout_action option" where
  "parseTimeoutAction s =
     (if s = ''approve'' then Some TimeoutApprove
      else if s = ''deny'' then Some TimeoutDeny
      else None)"

fun riskLevelString :: "risk_level \<Rightarrow> string" where
  "riskLevelString RiskSafe = ''safe''"
| "riskLevelString RiskModerate = ''moderate''"
| "riskLevelString RiskHigh = ''high''"

definition parseRiskLevel :: "string \<Rightarrow> risk_level option" where
  "parseRiskLevel s =
     (if s = ''safe'' then Some RiskSafe
      else if s = ''moderate'' then Some RiskModerate
      else if s = ''high'' then Some RiskHigh
      else None)"

fun approvalMethodString :: "approval_method \<Rightarrow> string" where
  "approvalMethodString AcceptReject = ''accept_reject''"
| "approvalMethodString Password = ''password''"

definition parseApprovalMethod :: "string \<Rightarrow> approval_method option" where
  "parseApprovalMethod s =
     (if s = ''accept_reject'' then Some AcceptReject
      else if s = ''password'' then Some Password
      else None)"

fun fieldTypeString :: "field_type \<Rightarrow> string" where
  "fieldTypeString FieldText = ''text''"
| "fieldTypeString FieldTextarea = ''textarea''"
| "fieldTypeString FieldNumber = ''number''"
| "fieldTypeString FieldSelect = ''select''"
| "fieldTypeString FieldCheckbox = ''checkbox''"

definition parseFieldType :: "string \<Rightarrow> field_type option" where
  "parseFieldType s =
     (if s = ''text'' then Some FieldText
      else if s = ''textarea'' then Some FieldTextarea
      else if s = ''number'' then Some FieldNumber
      else if s = ''select'' then Some FieldSelect
      else if s = ''checkbox'' then Some FieldCheckbox
      else None)"

definition parseBudgetMode :: "string \<Rightarrow> budget_mode option" where
  "parseBudgetMode s =
     (if s = ''off'' then Some ModeOff
      else if s = ''dynamic'' then Some ModeDynamic
      else if s = ''budget'' then Some ModeBudget
      else None)"

fun routeKindString :: "model_route_kind \<Rightarrow> string" where
  "routeKindString ProviderModel = ''provider-model''"

definition parseRouteKind :: "string \<Rightarrow> model_route_kind option" where
  "parseRouteKind s =
     (if s = ''provider-model'' then Some ProviderModel
      else None)"

section \<open>Reading and writing are inverse\<close>

text \<open>A literal type as its two functions; the laws give what the validators need of it.\<close>

locale literal_type =
  fixes wr :: "'a \<Rightarrow> string" and rd :: "string \<Rightarrow> 'a option"
  assumes rd_wr: "rd (wr x) = Some x"
    and wr_rd: "rd s = Some x \<Longrightarrow> s = wr x"
    and wr_trimmed: "trimmed (wr x)"
begin

lemma wr_inj: "wr x = wr y \<longleftrightarrow> x = y"
  by (metis option.inject rd_wr)

lemma rd_iff: "rd s = Some x \<longleftrightarrow> s = wr x"
  by (metis rd_wr wr_rd)

lemma rd_trimmed: "rd s = Some x \<Longrightarrow> trimmed s"
  by (metis wr_rd wr_trimmed)

end

interpretation status_lit: literal_type capabilityStatusString parseCapabilityStatus
proof
  show "parseCapabilityStatus (capabilityStatusString x) = Some x" for x by (cases x) (simp_all add: parseCapabilityStatus_def)
  show "parseCapabilityStatus s = Some x \<Longrightarrow> s = capabilityStatusString x" for s x by (auto simp: parseCapabilityStatus_def split: if_splits)
  show "trimmed (capabilityStatusString x)" for x
    by (cases x) (simp_all add: trimmed_ascii visible_def)
qed

interpretation source_lit: literal_type capabilitySourceString parseCapabilitySource
proof
  show "parseCapabilitySource (capabilitySourceString x) = Some x" for x by (cases x) (simp_all add: parseCapabilitySource_def)
  show "parseCapabilitySource s = Some x \<Longrightarrow> s = capabilitySourceString x" for s x by (auto simp: parseCapabilitySource_def split: if_splits)
  show "trimmed (capabilitySourceString x)" for x
    by (cases x) (simp_all add: trimmed_ascii visible_def)
qed

interpretation level_lit: literal_type thinkingLevelString parseThinkingLevel
proof
  show "parseThinkingLevel (thinkingLevelString x) = Some x" for x by (cases x) (simp_all add: parseThinkingLevel_def)
  show "parseThinkingLevel s = Some x \<Longrightarrow> s = thinkingLevelString x" for s x by (auto simp: parseThinkingLevel_def split: if_splits)
  show "trimmed (thinkingLevelString x)" for x
    by (cases x) (simp_all add: trimmed_ascii visible_def)
qed

interpretation editor_lit: literal_type editorTypeString parseEditorType
proof
  show "parseEditorType (editorTypeString x) = Some x" for x by (cases x) (simp_all add: parseEditorType_def)
  show "parseEditorType s = Some x \<Longrightarrow> s = editorTypeString x" for s x by (auto simp: parseEditorType_def split: if_splits)
  show "trimmed (editorTypeString x)" for x
    by (cases x) (simp_all add: trimmed_ascii visible_def)
qed

interpretation control_lit: literal_type controlKindString parseControlKind
proof
  show "parseControlKind (controlKindString x) = Some x" for x by (cases x) (simp_all add: parseControlKind_def)
  show "parseControlKind s = Some x \<Longrightarrow> s = controlKindString x" for s x by (auto simp: parseControlKind_def split: if_splits)
  show "trimmed (controlKindString x)" for x
    by (cases x) (simp_all add: trimmed_ascii visible_def)
qed

interpretation selkind_lit: literal_type selectionKindString parseSelectionKind
proof
  show "parseSelectionKind (selectionKindString x) = Some x" for x by (cases x) (simp_all add: parseSelectionKind_def)
  show "parseSelectionKind s = Some x \<Longrightarrow> s = selectionKindString x" for s x by (auto simp: parseSelectionKind_def split: if_splits)
  show "trimmed (selectionKindString x)" for x
    by (cases x) (simp_all add: trimmed_ascii visible_def)
qed

interpretation phase_lit: literal_type toolPhaseString parseToolPhase
proof
  show "parseToolPhase (toolPhaseString x) = Some x" for x by (cases x) (simp_all add: parseToolPhase_def)
  show "parseToolPhase s = Some x \<Longrightarrow> s = toolPhaseString x" for s x by (auto simp: parseToolPhase_def split: if_splits)
  show "trimmed (toolPhaseString x)" for x
    by (cases x) (simp_all add: trimmed_ascii visible_def)
qed

interpretation mode_lit: literal_type permissionModeString parsePermissionMode
proof
  show "parsePermissionMode (permissionModeString x) = Some x" for x by (cases x) (simp_all add: parsePermissionMode_def)
  show "parsePermissionMode s = Some x \<Longrightarrow> s = permissionModeString x" for s x by (auto simp: parsePermissionMode_def split: if_splits)
  show "trimmed (permissionModeString x)" for x
    by (cases x) (simp_all add: trimmed_ascii visible_def)
qed

interpretation action_lit: literal_type timeoutActionString parseTimeoutAction
proof
  show "parseTimeoutAction (timeoutActionString x) = Some x" for x by (cases x) (simp_all add: parseTimeoutAction_def)
  show "parseTimeoutAction s = Some x \<Longrightarrow> s = timeoutActionString x" for s x by (auto simp: parseTimeoutAction_def split: if_splits)
  show "trimmed (timeoutActionString x)" for x
    by (cases x) (simp_all add: trimmed_ascii visible_def)
qed

interpretation risk_lit: literal_type riskLevelString parseRiskLevel
proof
  show "parseRiskLevel (riskLevelString x) = Some x" for x by (cases x) (simp_all add: parseRiskLevel_def)
  show "parseRiskLevel s = Some x \<Longrightarrow> s = riskLevelString x" for s x by (auto simp: parseRiskLevel_def split: if_splits)
  show "trimmed (riskLevelString x)" for x
    by (cases x) (simp_all add: trimmed_ascii visible_def)
qed

interpretation method_lit: literal_type approvalMethodString parseApprovalMethod
proof
  show "parseApprovalMethod (approvalMethodString x) = Some x" for x by (cases x) (simp_all add: parseApprovalMethod_def)
  show "parseApprovalMethod s = Some x \<Longrightarrow> s = approvalMethodString x" for s x by (auto simp: parseApprovalMethod_def split: if_splits)
  show "trimmed (approvalMethodString x)" for x
    by (cases x) (simp_all add: trimmed_ascii visible_def)
qed

interpretation fieldty_lit: literal_type fieldTypeString parseFieldType
proof
  show "parseFieldType (fieldTypeString x) = Some x" for x by (cases x) (simp_all add: parseFieldType_def)
  show "parseFieldType s = Some x \<Longrightarrow> s = fieldTypeString x" for s x by (auto simp: parseFieldType_def split: if_splits)
  show "trimmed (fieldTypeString x)" for x
    by (cases x) (simp_all add: trimmed_ascii visible_def)
qed

interpretation budgetmode_lit: literal_type budgetModeString parseBudgetMode
proof
  show "parseBudgetMode (budgetModeString x) = Some x" for x by (cases x) (simp_all add: parseBudgetMode_def)
  show "parseBudgetMode s = Some x \<Longrightarrow> s = budgetModeString x" for s x by (auto simp: parseBudgetMode_def split: if_splits)
  show "trimmed (budgetModeString x)" for x
    by (cases x) (simp_all add: trimmed_ascii visible_def)
qed

interpretation routekind_lit: literal_type routeKindString parseRouteKind
proof
  show "parseRouteKind (routeKindString x) = Some x" for x by (cases x) (simp_all add: parseRouteKind_def)
  show "parseRouteKind s = Some x \<Longrightarrow> s = routeKindString x" for s x by (auto simp: parseRouteKind_def split: if_splits)
  show "trimmed (routeKindString x)" for x
    by (cases x) (simp_all add: trimmed_ascii visible_def)
qed

end
