(* ===== verification/Stream_Validators.thy ===== *)
theory Stream_Validators
  imports Literal_Types
begin

text \<open>
  \<open>src/features/copilot/_stream/validators.ts\<close>: every \<open>require...\<close> function that turns a JSON value of
  the event stream into a typed one, with the message of each \<open>throw\<close>. The order of the reads is the
  source's, so that the first violation decides the message. A property \<open>hasOwn\<close> tests, or one
  compared with \<open>undefined\<close>, is absent exactly when it reads as \<open>None\<close> (\<open>JSON.parse\<close> makes no
  \<open>undefined\<close>).
\<close>

section \<open>Shapes shared by the validators\<close>

text \<open>\<open>if (value === null || value === undefined) return null\<close>\<close>

definition nullable :: "(json option \<Rightarrow> string \<Rightarrow> 'a res) \<Rightarrow> json option \<Rightarrow> string \<Rightarrow> 'a option res" where
  "nullable f v label = (if isNullish v then Inr None else andThen (f v label) (\<lambda>x. Inr (Some x)))"

text \<open>\<open>...(hasOwn(record, key) ? { key: f(record.key) } : {})\<close>\<close>

definition whenPresent :: "(json option \<Rightarrow> string \<Rightarrow> 'a res) \<Rightarrow> jrecord \<Rightarrow> string \<Rightarrow> string \<Rightarrow> 'a option res" where
  "whenPresent f r key label =
     (if hasOwn r key then andThen (f (prop_of r key) (label @ ''.'' @ key)) (\<lambda>x. Inr (Some x))
      else Inr None)"

text \<open>A \<open>switch\<close> over string literals: the trimmed string, or the message.\<close>

definition requireLiteral :: "(string \<Rightarrow> 'a option) \<Rightarrow> (string \<Rightarrow> string) \<Rightarrow> json option \<Rightarrow> string \<Rightarrow> 'a res" where
  "requireLiteral rd message v label =
     andThen (requireNonEmptyString v label) (\<lambda>s.
       case rd s of Some x \<Rightarrow> Inr x | None \<Rightarrow> Inl (message s))"

context literal_type
begin

lemma requireLiteral_wr: "requireLiteral rd m (Some (JStr (wr x))) l = Inr x"
  by (simp add: requireLiteral_def rd_wr wr_trimmed)

end

text \<open>\<open>value.map((item, index) => f(item, `${label}[${index}]`))\<close>\<close>

definition requireEach :: "(json option \<Rightarrow> string \<Rightarrow> 'a res) \<Rightarrow> string \<Rightarrow> json option \<Rightarrow> string \<Rightarrow> 'a list res" where
  "requireEach f message v label =
     andThen (requireArray v message) (\<lambda>xs. traverseIdx (\<lambda>x i. f (Some x) (indexLabel label i)) 0 xs)"

text \<open>
  The text a template literal makes of a JSON value. Arrays and numbers that are not integers occur
  only in error messages; their text is abbreviated.
\<close>

fun jsText :: "json option \<Rightarrow> string" where
  "jsText None = ''undefined''"
| "jsText (Some JNull) = ''null''"
| "jsText (Some (JBool b)) = (if b then ''true'' else ''false'')"
| "jsText (Some (JStr s)) = s"
| "jsText (Some (JNum q)) = (if isInteger q then intString \<lfloor>q\<rfloor> else ''(number)'')"
| "jsText (Some (JArr xs)) = ''(array)''"
| "jsText (Some (JObj r)) = ''[object Object]''"

section \<open>Literals\<close>

definition requireRuntimeThinkingCapabilityStatus :: "json option \<Rightarrow> string \<Rightarrow> capability_status res" where
  "requireRuntimeThinkingCapabilityStatus v label =
     requireLiteral parseCapabilityStatus
       (\<lambda>_. label @ '' must be a supported thinking capability status.'') v label"

definition requireRuntimeThinkingCapabilitySource :: "json option \<Rightarrow> string \<Rightarrow> capability_source res" where
  "requireRuntimeThinkingCapabilitySource v label =
     requireLiteral parseCapabilitySource
       (\<lambda>_. label @ '' must be a supported thinking capability source.'') v label"

definition requireThinkingLevel :: "json option \<Rightarrow> string \<Rightarrow> thinking_level res" where
  "requireThinkingLevel v label =
     requireLiteral parseThinkingLevel (\<lambda>_. label @ '' must be a supported thinking level.'') v label"

definition requireOptionalThinkingLevel :: "json option \<Rightarrow> string \<Rightarrow> thinking_level option res" where
  "requireOptionalThinkingLevel v label = nullable requireThinkingLevel v label"

definition requireThinkingLevelArray :: "json option \<Rightarrow> string \<Rightarrow> thinking_level list res" where
  "requireThinkingLevelArray v label =
     requireEach requireThinkingLevel (label @ '' must be an array of thinking levels.'') v label"

definition requireNullableRuntimeThinkingEditorType :: "json option \<Rightarrow> string \<Rightarrow> editor_type option res" where
  "requireNullableRuntimeThinkingEditorType v label =
     nullable (\<lambda>v label. requireLiteral parseEditorType
       (\<lambda>_. label @ '' must be a supported thinking editor type.'') v label) v label"

definition requireRuntimeThinkingControlKind :: "json option \<Rightarrow> string \<Rightarrow> control_kind res" where
  "requireRuntimeThinkingControlKind v label =
     requireLiteral parseControlKind (\<lambda>_. label @ '' must be a supported thinking control kind.'') v label"

definition requireRuntimeThinkingSelectionKind :: "json option \<Rightarrow> string \<Rightarrow> selection_kind res" where
  "requireRuntimeThinkingSelectionKind v label =
     requireLiteral parseSelectionKind (\<lambda>_. label @ '' must be a supported thinking selection kind.'') v label"

definition requireRuntimeToolEventPhase :: "json option \<Rightarrow> tool_phase res" where
  "requireRuntimeToolEventPhase v =
     requireLiteral parseToolPhase (\<lambda>s. ''Unsupported runtime tool event phase: '' @ s)
       v ''runtime event payload.phase''"

section \<open>Model routes\<close>

definition requireRuntimeModelRouteRef :: "json option \<Rightarrow> string \<Rightarrow> model_route_ref res" where
  "requireRuntimeModelRouteRef v label =
     andThen (requireRecord v label) (\<lambda>r.
     andThen (requireLiteral parseRouteKind (\<lambda>_. label @ ''.routeKind must be 'provider-model'.'')
       (prop_of r ''routeKind'') (label @ ''.routeKind'')) (\<lambda>routeKind.
     andThen (requireNonEmptyString (prop_of r ''profileId'') (label @ ''.profileId'')) (\<lambda>profileId.
     andThen (requireNonEmptyString (prop_of r ''modelId'') (label @ ''.modelId'')) (\<lambda>modelId.
     Inr \<lparr>rr_routeKind = routeKind, rr_profileId = profileId, rr_modelId = modelId\<rparr>))))"

definition requireRuntimeResolvedModelRoute :: "json option \<Rightarrow> string \<Rightarrow> resolved_route res" where
  "requireRuntimeResolvedModelRoute v label =
     andThen (requireRecord v label) (\<lambda>r.
     andThen (requireRuntimeModelRouteRef (prop_of r ''routeRef'') (label @ ''.routeRef'')) (\<lambda>routeRef.
     andThen (requireNonEmptyString (prop_of r ''providerProfileId'') (label @ ''.providerProfileId'')) (\<lambda>providerProfileId.
     andThen (requireNonEmptyString (prop_of r ''provider'') (label @ ''.provider'')) (\<lambda>provider.
     andThen (requireNonEmptyString (prop_of r ''providerId'') (label @ ''.providerId'')) (\<lambda>providerId.
     andThen (requireNonEmptyString (prop_of r ''adapterId'') (label @ ''.adapterId'')) (\<lambda>adapterId.
     andThen (requireNonEmptyString (prop_of r ''runtimeStatus'') (label @ ''.runtimeStatus'')) (\<lambda>runtimeStatus.
     andThen (requireString (prop_of r ''catalogRevision'') (label @ ''.catalogRevision'')) (\<lambda>catalogRevision.
     andThen (requireNonEmptyString (prop_of r ''endpointFamily'') (label @ ''.endpointFamily'')) (\<lambda>endpointFamily.
     andThen (requireNonEmptyString (prop_of r ''endpointType'') (label @ ''.endpointType'')) (\<lambda>endpointType.
     andThen (requireNonEmptyString (prop_of r ''baseUrl'') (label @ ''.baseUrl'')) (\<lambda>baseUrl.
     andThen (requireNonEmptyString (prop_of r ''modelId'') (label @ ''.modelId'')) (\<lambda>modelId.
     andThen (requireNonEmptyString (prop_of r ''authKind'') (label @ ''.authKind'')) (\<lambda>authKind.
     Inr \<lparr>rs_routeRef = routeRef, rs_providerProfileId = providerProfileId, rs_provider = provider,
          rs_providerId = providerId, rs_adapterId = adapterId, rs_runtimeStatus = runtimeStatus,
          rs_catalogRevision = catalogRevision, rs_endpointFamily = endpointFamily,
          rs_endpointType = endpointType, rs_baseUrl = baseUrl, rs_modelId = modelId,
          rs_authKind = authKind\<rparr>)))))))))))))"

section \<open>Tool approvals and inline forms\<close>

text \<open>\<open>timeoutAction\<close> is compared as it is, without trimming; a value that is not a string never matches.\<close>

definition parseApprovalTimeoutAction :: "json option \<Rightarrow> timeout_action option res" where
  "parseApprovalTimeoutAction v =
     (if isNullish v then Inr None
      else if v = Some (JStr ''approve'') then Inr (Some TimeoutApprove)
      else if v = Some (JStr ''deny'') then Inr (Some TimeoutDeny)
      else Inl (''Invalid tool approval timeoutAction: '' @ jsText v))"

definition requireRuntimeToolEventApproval :: "json option \<Rightarrow> string \<Rightarrow> tool_approval res" where
  "requireRuntimeToolEventApproval v label =
     andThen (requireRecord v label) (\<lambda>r.
     andThen (requireLiteral parsePermissionMode (\<lambda>mode. ''Invalid tool approval mode: '' @ mode)
       (prop_of r ''mode'') (label @ ''.mode'')) (\<lambda>mode.
     andThen (requireOptionalString (prop_of r ''timeoutAt'') (label @ ''.timeoutAt'')) (\<lambda>timeoutAt.
     andThen (if prop_of r ''timeoutSeconds'' = None then Inr None
              else requireNullableNumber (prop_of r ''timeoutSeconds'') (label @ ''.timeoutSeconds''))
       (\<lambda>timeoutSeconds.
     andThen (parseApprovalTimeoutAction (prop_of r ''timeoutAction'')) (\<lambda>timeoutAction.
     Inr \<lparr>ap_mode = mode,
          ap_timeoutAt = map_option Some timeoutAt,
          ap_timeoutSeconds = map_option Some timeoutSeconds,
          ap_timeoutAction = map_option Some timeoutAction\<rparr>)))))"

definition requireRuntimeInlineFormFieldOption :: "json option \<Rightarrow> string \<Rightarrow> field_option res" where
  "requireRuntimeInlineFormFieldOption v label =
     andThen (requireRecord v label) (\<lambda>r.
     andThen (requireString (prop_of r ''value'') (label @ ''.value'')) (\<lambda>val.
     andThen (requireString (prop_of r ''label'') (label @ ''.label'')) (\<lambda>lab.
     Inr \<lparr>fo_value = val, fo_label = lab\<rparr>)))"

definition requireRuntimeInlineFormFieldOptions :: "json option \<Rightarrow> string \<Rightarrow> field_option list res" where
  "requireRuntimeInlineFormFieldOptions v label =
     requireEach requireRuntimeInlineFormFieldOption (label @ '' must be an array.'') v label"

definition requireRuntimeInlineFormField :: "json option \<Rightarrow> string \<Rightarrow> form_field res" where
  "requireRuntimeInlineFormField v label =
     andThen (requireRecord v label) (\<lambda>r.
     andThen (requireLiteral parseFieldType
       (\<lambda>_. label @ ''.type must be a supported inline form field type.'')
       (prop_of r ''type'') (label @ ''.type'')) (\<lambda>type.
     andThen (requireOptionalString (prop_of r ''description'') (label @ ''.description'')) (\<lambda>description.
     andThen (requireOptionalString (prop_of r ''placeholder'') (label @ ''.placeholder'')) (\<lambda>placeholder.
     andThen (whenPresent requireRuntimeInlineFormFieldOptions r ''options'' label) (\<lambda>options.
     if type = FieldSelect \<and> (options = None \<or> options = Some [])
     then Inl (label @ ''.options must contain at least one option for select fields'')
     else if type = FieldCheckbox \<and> options \<noteq> None
     then Inl (label @ ''.options is not supported for checkbox fields'')
     else
     andThen (requireNonEmptyString (prop_of r ''name'') (label @ ''.name'')) (\<lambda>name.
     andThen (requireNonEmptyString (prop_of r ''label'') (label @ ''.label'')) (\<lambda>lab.
     andThen (whenPresent requireBoolean r ''required'' label) (\<lambda>required.
     Inr \<lparr>ff_name = name, ff_label = lab, ff_type = type, ff_description = description,
          ff_placeholder = placeholder, ff_required = required, ff_options = options\<rparr>))))))))"

text \<open>\<open>fields\<close> is checked to be an array that is not empty before \<open>formId\<close> and \<open>title\<close> are read.\<close>

definition requireRuntimeInlineFormRequest :: "json option \<Rightarrow> string \<Rightarrow> form_request res" where
  "requireRuntimeInlineFormRequest v label =
     andThen (requireRecord v label) (\<lambda>r.
     andThen (requireOptionalString (prop_of r ''description'') (label @ ''.description'')) (\<lambda>description.
     andThen (requireOptionalString (prop_of r ''submitLabel'') (label @ ''.submitLabel'')) (\<lambda>submitLabel.
     andThen (requireArray (prop_of r ''fields'') (label @ ''.fields must be an array'')) (\<lambda>items.
     if items = [] then Inl (label @ ''.fields must contain at least one field'')
     else
     andThen (requireNonEmptyString (prop_of r ''formId'') (label @ ''.formId'')) (\<lambda>formId.
     andThen (requireNonEmptyString (prop_of r ''title'') (label @ ''.title'')) (\<lambda>title.
     andThen (traverseIdx (\<lambda>item i. requireRuntimeInlineFormField (Some item) (indexLabel (label @ ''.fields'') i)) 0 items)
       (\<lambda>fields.
     Inr \<lparr>fr_formId = formId, fr_title = title, fr_description = description,
          fr_submitLabel = submitLabel, fr_fields = fields\<rparr>)))))))"

definition parseOptionalRuntimeInlineFormRequest :: "json option \<Rightarrow> form_request option res" where
  "parseOptionalRuntimeInlineFormRequest v =
     nullable requireRuntimeInlineFormRequest v ''runtime event payload.formRequest''"

section \<open>Thinking values and selections\<close>

text \<open>The three branches of the \<open>switch\<close> on \<open>valueType\<close>.\<close>

datatype value_type = VtCode | VtBudget | VtFixed

definition parseValueType :: "string \<Rightarrow> value_type option" where
  "parseValueType s =
     (if s = ''code'' then Some VtCode
      else if s = ''budget'' then Some VtBudget
      else if s = ''fixed'' then Some VtFixed
      else None)"

definition requireRuntimeThinkingValue :: "json option \<Rightarrow> string \<Rightarrow> thinking_value res" where
  "requireRuntimeThinkingValue v label =
     andThen (requireRecord v label) (\<lambda>r.
     andThen (requireLiteral parseValueType
       (\<lambda>_. label @ ''.valueType must be a supported thinking value type.'')
       (prop_of r ''valueType'') (label @ ''.valueType'')) (\<lambda>vt.
     case vt of
       VtCode \<Rightarrow>
         andThen (requireNonEmptyString (prop_of r ''code'') (label @ ''.code'')) (\<lambda>code.
         andThen (requireNonEmptyString (prop_of r ''labelZh'') (label @ ''.labelZh'')) (\<lambda>labelZh.
         Inr (CodeValue code labelZh)))
     | VtBudget \<Rightarrow>
         andThen (requireLiteral parseBudgetMode
           (\<lambda>_. label @ ''.mode must be off, dynamic, or budget.'')
           (prop_of r ''mode'') (label @ ''.mode'')) (\<lambda>mode.
         andThen (requireNullableNonNegativeInteger (prop_of r ''budgetTokens'') (label @ ''.budgetTokens'')) (\<lambda>tokens.
         andThen (requireNonEmptyString (prop_of r ''labelZh'') (label @ ''.labelZh'')) (\<lambda>labelZh.
         Inr (BudgetValue mode tokens labelZh))))
     | VtFixed \<Rightarrow>
         andThen (requireNonEmptyString (prop_of r ''labelZh'') (label @ ''.labelZh'')) (\<lambda>labelZh.
         Inr (FixedValue labelZh))))"

definition requireNullableRuntimeThinkingValue :: "json option \<Rightarrow> string \<Rightarrow> thinking_value option res" where
  "requireNullableRuntimeThinkingValue v label = nullable requireRuntimeThinkingValue v label"

definition requireRuntimeThinkingValueArray :: "json option \<Rightarrow> string \<Rightarrow> thinking_value list res" where
  "requireRuntimeThinkingValueArray v label =
     requireEach requireRuntimeThinkingValue (label @ '' must be an array.'') v label"

definition buildRuntimeThinkingValueFromLegacyRecord :: "jrecord \<Rightarrow> string \<Rightarrow> thinking_value option res" where
  "buildRuntimeThinkingValueFromLegacyRecord r label =
     andThen (requireNullableString (prop_of r ''mode'') (label @ ''.mode'')) (\<lambda>mode.
     andThen (requireNullableString (prop_of r ''level'') (label @ ''.level'')) (\<lambda>level.
     andThen (requireNullableNonNegativeInteger (prop_of r ''budgetTokens'') (label @ ''.budgetTokens'')) (\<lambda>tokens.
     case (if mode = Some ''budget'' then tokens else None) of
       Some n \<Rightarrow> Inr (Some (BudgetValue ModeBudget (Some n) (formatThinkingTokenCount n)))
     | None \<Rightarrow>
         (case level of
            None \<Rightarrow> Inr None
          | Some l \<Rightarrow>
              if l = ''fixed'' then Inr (Some (FixedValue labelFixedReasoning))
              else andThen (requireThinkingLevel (Some (JStr l)) (label @ ''.level'')) (\<lambda>normalizedLevel.
                Inr (Some (CodeValue (thinkingLevelString normalizedLevel)
                                     (thinkingLevelString normalizedLevel))))))))"

text \<open>
  \<open>deriveLegacyRuntimeThinkingSelectionFields\<close> of this file has the same three cases as
  \<open>deriveLegacyThinkingSelectionFields\<close> of \<open>thread-run-contract.ts\<close>, in its own text.
\<close>

fun deriveLegacyRuntimeThinkingSelectionFields ::
  "thinking_value \<Rightarrow> string option option \<times> string option option \<times> int option option" where
  "deriveLegacyRuntimeThinkingSelectionFields (BudgetValue m tokens _) =
     (Some (Some ''budget''), Some None, Some (if m = ModeBudget then tokens else None))"
| "deriveLegacyRuntimeThinkingSelectionFields (FixedValue _) =
     (Some (Some ''preset''), Some (Some ''fixed''), Some None)"
| "deriveLegacyRuntimeThinkingSelectionFields (CodeValue code _) =
     (Some (Some ''preset''), Some (Some code), Some None)"

definition requireRuntimeThinkingSelection :: "json option \<Rightarrow> string \<Rightarrow> thinking_selection res" where
  "requireRuntimeThinkingSelection v label =
     andThen (requireRecord v label) (\<lambda>r.
     andThen (requireNonEmptyString (prop_of r ''series'') (label @ ''.series'')) (\<lambda>series.
     andThen (if prop_of r ''value'' = None then buildRuntimeThinkingValueFromLegacyRecord r label
              else andThen (requireRuntimeThinkingValue (prop_of r ''value'') (label @ ''.value''))
                     (\<lambda>x. Inr (Some x))) (\<lambda>runtimeValue.
     case runtimeValue of
       None \<Rightarrow> Inl (label @ ''.value must describe a valid thinking series value.'')
     | Some x \<Rightarrow>
         (case deriveLegacyRuntimeThinkingSelectionFields x of (m, l, b) \<Rightarrow>
            Inr \<lparr>ts_series = series, ts_value = Some x, ts_mode = m, ts_level = l, ts_budgetTokens = b\<rparr>))))"

definition requireNullableRuntimeThinkingSelection :: "json option \<Rightarrow> string \<Rightarrow> thinking_selection option res" where
  "requireNullableRuntimeThinkingSelection v label = nullable requireRuntimeThinkingSelection v label"

section \<open>Capabilities\<close>

definition requireRuntimeCanonicalThinkingSelection :: "json option \<Rightarrow> string \<Rightarrow> canonical_selection res" where
  "requireRuntimeCanonicalThinkingSelection v label =
     andThen (requireRecord v label) (\<lambda>r.
     andThen (requireRuntimeThinkingSelectionKind (prop_of r ''kind'') (label @ ''.kind'')) (\<lambda>kind.
     if kind = SelectBudget then
       andThen (requireNonNegativeInteger (prop_of r ''budgetTokens'') (label @ ''.budgetTokens'')) (\<lambda>n.
       Inr \<lparr>cs_kind = kind, cs_value = None, cs_budgetTokens = Some n\<rparr>)
     else
       andThen (requireThinkingLevel (prop_of r ''value'') (label @ ''.value'')) (\<lambda>l.
       Inr \<lparr>cs_kind = kind, cs_value = Some l, cs_budgetTokens = None\<rparr>)))"

definition requireNullableRuntimeCanonicalThinkingSelection ::
  "json option \<Rightarrow> string \<Rightarrow> canonical_selection option res" where
  "requireNullableRuntimeCanonicalThinkingSelection v label =
     nullable requireRuntimeCanonicalThinkingSelection v label"

definition requireRuntimeCanonicalThinkingSelectionArray ::
  "json option \<Rightarrow> string \<Rightarrow> canonical_selection list res" where
  "requireRuntimeCanonicalThinkingSelectionArray v label =
     requireEach requireRuntimeCanonicalThinkingSelection (label @ '' must be an array.'') v label"

definition requireControlBudget :: "json option \<Rightarrow> string \<Rightarrow> control_budget res" where
  "requireControlBudget v label =
     andThen (requireRecord v label) (\<lambda>r.
     andThen (whenPresent requireNonNegativeInteger r ''minTokens'' label) (\<lambda>minTokens.
     andThen (whenPresent requireNonNegativeInteger r ''maxTokens'' label) (\<lambda>maxTokens.
     andThen (whenPresent requireNonNegativeInteger r ''stepTokens'' label) (\<lambda>stepTokens.
     Inr \<lparr>cb_minTokens = minTokens, cb_maxTokens = maxTokens, cb_stepTokens = stepTokens\<rparr>))))"

definition requireNullableRuntimeThinkingControlBudgetSpec ::
  "json option \<Rightarrow> string \<Rightarrow> control_budget option res" where
  "requireNullableRuntimeThinkingControlBudgetSpec v label = nullable requireControlBudget v label"

definition requireControlSpec :: "json option \<Rightarrow> string \<Rightarrow> control_spec res" where
  "requireControlSpec v label =
     andThen (requireRecord v label) (\<lambda>r.
     andThen (requireRuntimeThinkingControlKind (prop_of r ''kind'') (label @ ''.kind'')) (\<lambda>kind.
     andThen (requireRuntimeThinkingSelectionKind (prop_of r ''selectionKind'') (label @ ''.selectionKind'')) (\<lambda>selectionKind.
     andThen (whenPresent requireRuntimeCanonicalThinkingSelectionArray r ''presetOptions'' label) (\<lambda>presetOptions.
     andThen (whenPresent requireNullableRuntimeCanonicalThinkingSelection r ''fixedSelection'' label) (\<lambda>fixedSelection.
     andThen (whenPresent requireNullableRuntimeThinkingControlBudgetSpec r ''budget'' label) (\<lambda>budget.
     Inr \<lparr>cp_kind = kind, cp_selectionKind = selectionKind, cp_presetOptions = presetOptions,
          cp_fixedSelection = fixedSelection, cp_budget = budget\<rparr>))))))"

definition requireNullableRuntimeThinkingControlSpec :: "json option \<Rightarrow> string \<Rightarrow> control_spec option res" where
  "requireNullableRuntimeThinkingControlSpec v label = nullable requireControlSpec v label"

definition requireProvenance :: "json option \<Rightarrow> string \<Rightarrow> capability_provenance res" where
  "requireProvenance v label =
     andThen (requireRecord v label) (\<lambda>r.
     andThen (requireRecord (prop_of r ''override'') (label @ ''.override'')) (\<lambda>override.
     andThen (requireNonEmptyString (prop_of r ''routeStatus'') (label @ ''.routeStatus'')) (\<lambda>routeStatus.
     andThen (requireBoolean (prop_of override ''present'') (label @ ''.override.present'')) (\<lambda>present.
     andThen (requireBoolean (prop_of override ''applied'') (label @ ''.override.applied'')) (\<lambda>applied.
     andThen (requireNullableString (prop_of override ''source'') (label @ ''.override.source'')) (\<lambda>source.
     andThen (requireNullableString (prop_of override ''format'') (label @ ''.override.format'')) (\<lambda>format.
     Inr \<lparr>pv_routeStatus = routeStatus, pv_present = present, pv_applied = applied,
          pv_source = source, pv_format = format\<rparr>)))))))"

definition requireNullableRuntimeThinkingCapabilityProvenance ::
  "json option \<Rightarrow> string \<Rightarrow> capability_provenance option res" where
  "requireNullableRuntimeThinkingCapabilityProvenance v label = nullable requireProvenance v label"

definition requireVisibility :: "json option \<Rightarrow> string \<Rightarrow> thinking_visibility res" where
  "requireVisibility v label =
     andThen (requireRecord v label) (\<lambda>r.
     andThen (requireNonEmptyString (prop_of r ''reasoning'') (label @ ''.reasoning'')) (\<lambda>reasoning.
     andThen (requireBoolean (prop_of r ''supportsSuppression'') (label @ ''.supportsSuppression'')) (\<lambda>supports.
     Inr \<lparr>vi_reasoning = reasoning, vi_supportsSuppression = supports\<rparr>)))"

definition requireNullableRuntimeThinkingVisibility ::
  "json option \<Rightarrow> string \<Rightarrow> thinking_visibility option res" where
  "requireNullableRuntimeThinkingVisibility v label = nullable requireVisibility v label"

definition requireFingerprint :: "json option \<Rightarrow> string \<Rightarrow> route_fingerprint res" where
  "requireFingerprint v label =
     andThen (requireRecord v label) (\<lambda>r.
     andThen (requireNonEmptyString (prop_of r ''providerProfileId'') (label @ ''.providerProfileId'')) (\<lambda>providerProfileId.
     andThen (requireNonEmptyString (prop_of r ''provider'') (label @ ''.provider'')) (\<lambda>provider.
     andThen (requireNonEmptyString (prop_of r ''endpointType'') (label @ ''.endpointType'')) (\<lambda>endpointType.
     andThen (requireNonEmptyString (prop_of r ''baseUrl'') (label @ ''.baseUrl'')) (\<lambda>baseUrl.
     andThen (requireNonEmptyString (prop_of r ''modelId'') (label @ ''.modelId'')) (\<lambda>modelId.
     Inr \<lparr>fp_providerProfileId = providerProfileId, fp_provider = provider,
          fp_endpointType = endpointType, fp_baseUrl = baseUrl, fp_modelId = modelId\<rparr>))))))"

definition requireRuntimeThinkingCapability :: "json option \<Rightarrow> string \<Rightarrow> thinking_capability res" where
  "requireRuntimeThinkingCapability v label =
     andThen (requireRecord v label) (\<lambda>r.
     andThen (requireRecord (prop_of r ''routeFingerprint'') (label @ ''.routeFingerprint'')) (\<lambda>_.
     andThen (requireRuntimeThinkingCapabilityStatus (prop_of r ''status'') (label @ ''.status'')) (\<lambda>status.
     andThen (requireRuntimeThinkingCapabilitySource (prop_of r ''source'') (label @ ''.source'')) (\<lambda>source.
     andThen (requireNullableString (prop_of r ''series'') (label @ ''.series'')) (\<lambda>series.
     andThen (requireNullableString (prop_of r ''seriesLabelZh'') (label @ ''.seriesLabelZh'')) (\<lambda>seriesLabelZh.
     andThen (requireNullableRuntimeThinkingEditorType (prop_of r ''editorType'') (label @ ''.editorType'')) (\<lambda>editorType.
     andThen (requireRuntimeThinkingValueArray (prop_of r ''allowedValues'') (label @ ''.allowedValues'')) (\<lambda>allowedValues.
     andThen (requireNullableRuntimeThinkingValue (prop_of r ''defaultValue'') (label @ ''.defaultValue'')) (\<lambda>defaultValue.
     andThen (requireNullableString (prop_of r ''providerBuilderKey'') (label @ ''.providerBuilderKey'')) (\<lambda>providerBuilderKey.
     andThen (requireNonEmptyString (prop_of r ''reasonCode'') (label @ ''.reasonCode'')) (\<lambda>reasonCode.
     andThen (requireFingerprint (prop_of r ''routeFingerprint'') (label @ ''.routeFingerprint'')) (\<lambda>routeFingerprint.
     andThen (whenPresent requireBoolean r ''supported'' label) (\<lambda>supported.
     andThen (whenPresent requireNullableRuntimeThinkingControlSpec r ''controlSpec'' label) (\<lambda>controlSpec.
     andThen (whenPresent requireNullableRuntimeCanonicalThinkingSelection r ''defaultSelection'' label) (\<lambda>defaultSelection.
     andThen (whenPresent requireThinkingLevelArray r ''supportedLevels'' label) (\<lambda>supportedLevels.
     andThen (whenPresent requireOptionalThinkingLevel r ''defaultLevel'' label) (\<lambda>defaultLevel.
     andThen (whenPresent requireNullableString r ''providerHint'' label) (\<lambda>providerHint.
     andThen (whenPresent requireNullableRuntimeThinkingCapabilityProvenance r ''provenance'' label) (\<lambda>provenance.
     andThen (whenPresent requireNullableRuntimeThinkingVisibility r ''visibility'' label) (\<lambda>visibility.
     andThen (whenPresent requireThinkingLevelArray r ''overrideLevels'' label) (\<lambda>overrideLevels.
     Inr \<lparr>tc_status = status, tc_source = source, tc_series = series, tc_seriesLabelZh = seriesLabelZh,
          tc_editorType = editorType, tc_allowedValues = allowedValues, tc_defaultValue = defaultValue,
          tc_providerBuilderKey = providerBuilderKey, tc_reasonCode = reasonCode,
          tc_routeFingerprint = routeFingerprint, tc_supported = supported, tc_controlSpec = controlSpec,
          tc_defaultSelection = defaultSelection, tc_supportedLevels = supportedLevels,
          tc_defaultLevel = defaultLevel, tc_providerHint = providerHint, tc_provenance = provenance,
          tc_visibility = visibility, tc_overrideLevels = overrideLevels\<rparr>)))))))))))))))))))))"

definition requireNullableRuntimeThinkingCapability ::
  "json option \<Rightarrow> string \<Rightarrow> thinking_capability option res" where
  "requireNullableRuntimeThinkingCapability v label = nullable requireRuntimeThinkingCapability v label"

section \<open>Decisions, suppression bases and run metadata\<close>

definition requireSelectionResult :: "json option \<Rightarrow> string \<Rightarrow> selection_result res" where
  "requireSelectionResult v label =
     andThen (requireRecord v label) (\<lambda>r.
     andThen (requireNullableRuntimeThinkingSelection (prop_of r ''requestedSelection'') (label @ ''.requestedSelection'')) (\<lambda>requestedSelection.
     andThen (requireNullableRuntimeThinkingSelection (prop_of r ''appliedSelection'') (label @ ''.appliedSelection'')) (\<lambda>appliedSelection.
     andThen (requireBoolean (prop_of r ''applied'') (label @ ''.applied'')) (\<lambda>applied.
     andThen (requireNonEmptyString (prop_of r ''reasonCode'') (label @ ''.reasonCode'')) (\<lambda>reasonCode.
     andThen (requireNullableString (prop_of r ''errorCode'') (label @ ''.errorCode'')) (\<lambda>errorCode.
     andThen (requireNullableString (prop_of r ''providerBuilderKey'') (label @ ''.providerBuilderKey'')) (\<lambda>providerBuilderKey.
     andThen (requireNullableString (prop_of r ''mappingReasonCode'') (label @ ''.mappingReasonCode'')) (\<lambda>mappingReasonCode.
     andThen (requireRuntimeThinkingCapabilityStatus (prop_of r ''capabilityStatus'') (label @ ''.capabilityStatus'')) (\<lambda>capabilityStatus.
     andThen (requireRuntimeThinkingCapabilitySource (prop_of r ''capabilitySource'') (label @ ''.capabilitySource'')) (\<lambda>capabilitySource.
     andThen (requireNullableString (prop_of r ''capabilitySeries'') (label @ ''.capabilitySeries'')) (\<lambda>capabilitySeries.
     andThen (requireNullableString (prop_of r ''capabilitySeriesLabelZh'') (label @ ''.capabilitySeriesLabelZh'')) (\<lambda>capabilitySeriesLabelZh.
     andThen (requireNullableString (prop_of r ''capabilityReasonCode'') (label @ ''.capabilityReasonCode'')) (\<lambda>capabilityReasonCode.
     andThen (whenPresent requireOptionalThinkingLevel r ''requestedThinkingLevel'' label) (\<lambda>requestedThinkingLevel.
     andThen (whenPresent requireOptionalThinkingLevel r ''appliedThinkingLevel'' label) (\<lambda>appliedThinkingLevel.
     andThen (whenPresent requireNullableString r ''providerMapping'' label) (\<lambda>providerMapping.
     andThen (whenPresent requireBoolean r ''overridePresent'' label) (\<lambda>overridePresent.
     andThen (whenPresent requireBoolean r ''overrideApplied'' label) (\<lambda>overrideApplied.
     andThen (whenPresent requireNullableString r ''overrideSource'' label) (\<lambda>overrideSource.
     andThen (whenPresent requireNullableString r ''reasoningVisibility'' label) (\<lambda>reasoningVisibility.
     andThen (whenPresent requireNullableBoolean r ''supportsSuppression'' label) (\<lambda>supportsSuppression.
     andThen (whenPresent requireRecord r ''modelSettings'' label) (\<lambda>modelSettings.
     Inr \<lparr>sr_requestedSelection = requestedSelection, sr_appliedSelection = appliedSelection,
          sr_applied = applied, sr_reasonCode = reasonCode, sr_errorCode = errorCode,
          sr_providerBuilderKey = providerBuilderKey, sr_mappingReasonCode = mappingReasonCode,
          sr_capabilityStatus = capabilityStatus, sr_capabilitySource = capabilitySource,
          sr_capabilitySeries = capabilitySeries, sr_capabilitySeriesLabelZh = capabilitySeriesLabelZh,
          sr_capabilityReasonCode = capabilityReasonCode,
          sr_requestedThinkingLevel = requestedThinkingLevel,
          sr_appliedThinkingLevel = appliedThinkingLevel, sr_providerMapping = providerMapping,
          sr_overridePresent = overridePresent, sr_overrideApplied = overrideApplied,
          sr_overrideSource = overrideSource, sr_reasoningVisibility = reasoningVisibility,
          sr_supportsSuppression = supportsSuppression, sr_modelSettings = modelSettings\<rparr>))))))))))))))))))))))"

definition requireNullableRuntimeThinkingSelectionResult ::
  "json option \<Rightarrow> string \<Rightarrow> selection_result option res" where
  "requireNullableRuntimeThinkingSelectionResult v label = nullable requireSelectionResult v label"

definition requireSuppressionBasis :: "json option \<Rightarrow> string \<Rightarrow> suppression_basis res" where
  "requireSuppressionBasis v label =
     andThen (requireRecord v label) (\<lambda>r.
     andThen (whenPresent requireOptionalThinkingLevel r ''appliedThinkingLevel'' label) (\<lambda>appliedThinkingLevel.
     andThen (if hasOwn r ''appliedThinkingSelection''
              then requireNullableRuntimeThinkingSelection (prop_of r ''appliedThinkingSelection'')
                     (label @ ''.appliedThinkingSelection'')
              else Inr None) (\<lambda>appliedThinkingSelection.
     andThen (requireBoolean (prop_of r ''shouldSuppress'') (label @ ''.shouldSuppress'')) (\<lambda>shouldSuppress.
     andThen (requireNonEmptyString (prop_of r ''source'') (label @ ''.source'')) (\<lambda>source.
     andThen (requireNullableString (prop_of r ''reasonCode'') (label @ ''.reasonCode'')) (\<lambda>reasonCode.
     andThen (requireNullableString (prop_of r ''reasoningVisibility'') (label @ ''.reasoningVisibility'')) (\<lambda>reasoningVisibility.
     andThen (requireBoolean (prop_of r ''supportsSuppression'') (label @ ''.supportsSuppression'')) (\<lambda>supportsSuppression.
     andThen (nullable requireRuntimeThinkingCapabilitySource (prop_of r ''capabilitySource'') (label @ ''.capabilitySource'')) (\<lambda>capabilitySource.
     andThen (requireNullableString (prop_of r ''capabilitySeries'') (label @ ''.capabilitySeries'')) (\<lambda>capabilitySeries.
     Inr \<lparr>sb_shouldSuppress = shouldSuppress, sb_source = source, sb_reasonCode = reasonCode,
          sb_appliedThinkingSelection = appliedThinkingSelection, sb_reasoningVisibility = reasoningVisibility,
          sb_supportsSuppression = supportsSuppression, sb_capabilitySource = capabilitySource,
          sb_capabilitySeries = capabilitySeries, sb_appliedThinkingLevel = appliedThinkingLevel\<rparr>))))))))))"

definition requireNullableRuntimeReasoningSuppressionBasis ::
  "json option \<Rightarrow> string \<Rightarrow> suppression_basis option res" where
  "requireNullableRuntimeReasoningSuppressionBasis v label = nullable requireSuppressionBasis v label"

definition requireRuntimeRunThinkingMetadata :: "jrecord \<Rightarrow> string \<Rightarrow> thinking_metadata res" where
  "requireRuntimeRunThinkingMetadata r label =
     andThen (requireNullableRuntimeThinkingSelectionResult
       (nullishOr (prop_of r ''thinkingSeriesDecision'') (prop_of r ''thinkingSelectionResult''))
       (label @ ''.thinkingSeriesDecision'')) (\<lambda>decision.
     andThen (whenPresent requireOptionalThinkingLevel r ''requestedThinkingLevel'' label) (\<lambda>requestedLevel.
     andThen (whenPresent requireOptionalThinkingLevel r ''appliedThinkingLevel'' label) (\<lambda>appliedLevel.
     andThen (requireNullableRuntimeThinkingSelection (prop_of r ''requestedThinkingSelection'')
       (label @ ''.requestedThinkingSelection'')) (\<lambda>requested.
     andThen (requireNullableRuntimeThinkingSelection (prop_of r ''appliedThinkingSelection'')
       (label @ ''.appliedThinkingSelection'')) (\<lambda>applied.
     andThen (requireNullableRuntimeThinkingCapability (prop_of r ''thinkingCapabilitySnapshot'')
       (label @ ''.thinkingCapabilitySnapshot'')) (\<lambda>capability.
     andThen (requireNullableRuntimeReasoningSuppressionBasis (prop_of r ''reasoningSuppressionBasis'')
       (label @ ''.reasoningSuppressionBasis'')) (\<lambda>basis.
     Inr \<lparr>tm_requestedThinkingSelection = Some requested, tm_appliedThinkingSelection = Some applied,
          tm_thinkingCapabilitySnapshot = Some capability, tm_thinkingSeriesDecision = Some decision,
          tm_reasoningSuppressionBasis = Some basis, tm_requestedThinkingLevel = requestedLevel,
          tm_appliedThinkingLevel = appliedLevel\<rparr>)))))))"

definition parseOptionalRuntimeRunThinkingMetadata :: "jrecord \<Rightarrow> string \<Rightarrow> thinking_metadata res" where
  "parseOptionalRuntimeRunThinkingMetadata r label =
     andThen (whenPresent requireNullableRuntimeThinkingSelection r ''requestedThinkingSelection'' label) (\<lambda>requested.
     andThen (whenPresent requireNullableRuntimeThinkingSelection r ''appliedThinkingSelection'' label) (\<lambda>applied.
     andThen (whenPresent requireOptionalThinkingLevel r ''requestedThinkingLevel'' label) (\<lambda>requestedLevel.
     andThen (whenPresent requireOptionalThinkingLevel r ''appliedThinkingLevel'' label) (\<lambda>appliedLevel.
     andThen (whenPresent requireNullableRuntimeThinkingCapability r ''thinkingCapabilitySnapshot'' label) (\<lambda>capability.
     andThen (if hasOwn r ''thinkingSeriesDecision'' \<or> hasOwn r ''thinkingSelectionResult''
              then andThen (requireNullableRuntimeThinkingSelectionResult
                     (nullishOr (prop_of r ''thinkingSeriesDecision'') (prop_of r ''thinkingSelectionResult''))
                     (label @ ''.thinkingSeriesDecision'')) (\<lambda>d. Inr (Some d))
              else Inr None) (\<lambda>decision.
     andThen (whenPresent requireNullableRuntimeReasoningSuppressionBasis r ''reasoningSuppressionBasis'' label) (\<lambda>basis.
     Inr \<lparr>tm_requestedThinkingSelection = requested, tm_appliedThinkingSelection = applied,
          tm_thinkingCapabilitySnapshot = capability, tm_thinkingSeriesDecision = decision,
          tm_reasoningSuppressionBasis = basis, tm_requestedThinkingLevel = requestedLevel,
          tm_appliedThinkingLevel = appliedLevel\<rparr>)))))))"

end
