(* ===== verification/Message_Stream.thy ===== *)
theory Message_Stream
  imports Stream_Validators
begin

text \<open>
  \<open>src/features/copilot/runtime-message-stream.ts\<close>: the server-sent events of \<open>run/stream\<close> are cut into
  blocks, the data lines of a block are joined and parsed, and the JSON value becomes a typed run
  event. \<open>JSON.parse\<close> is a parameter of the definitions (\<open>jp\<close>: the message of its error, or the value), as
  is the \<open>TextDecoder\<close>: the stream is the list of the texts it returned for the chunks and, at the
  end, either the text of its final flush or the message of a failed read. An asynchronous generator is
  the list of the events it yields and the error it ends with, if any.
\<close>

section \<open>Lines and blocks\<close>

definition lf :: char where "lf = CHR 0x0A"
definition cr :: char where "cr = CHR 0x0D"

text \<open>\<open>value.replace(/\r\n/g, '\n')\<close> and \<open>value.replace(/\r/g, '\n')\<close>\<close>

fun replaceCrLf :: "string \<Rightarrow> string" where
  "replaceCrLf (a # b # s) =
     (if a = cr \<and> b = lf then lf # replaceCrLf s else a # replaceCrLf (b # s))"
| "replaceCrLf s = s"

definition replaceCr :: "string \<Rightarrow> string" where
  "replaceCr s = map (\<lambda>c. if c = cr then lf else c) s"

definition normalizeSseBuffer :: "string \<Rightarrow> string" where
  "normalizeSseBuffer s = replaceCr (replaceCrLf s)"

text \<open>\<open>s.split('\n')\<close>\<close>

fun splitLines :: "string \<Rightarrow> string list" where
  "splitLines [] = [[]]"
| "splitLines (c # s) =
     (if c = lf then [] # splitLines s
      else (case splitLines s of l # ls \<Rightarrow> (c # l) # ls | [] \<Rightarrow> [[c]]))"

text \<open>\<open>lines.join('\n')\<close>\<close>

fun joinLines :: "string list \<Rightarrow> string" where
  "joinLines [] = []"
| "joinLines [l] = l"
| "joinLines (l # ls) = l @ lf # joinLines ls"

text \<open>
  \<open>buffer.indexOf('\n\n')\<close> with the two slices: the text before the first empty line and the text
  after it.
\<close>

fun cutBlock :: "string \<Rightarrow> (string \<times> string) option" where
  "cutBlock (a # b # s) =
     (if a = lf \<and> b = lf then Some ([], s)
      else map_option (\<lambda>(x, y). (a # x, y)) (cutBlock (b # s)))"
| "cutBlock _ = None"

lemma cutBlock_length: "cutBlock s = Some (x, y) \<Longrightarrow> length y < length s"
  by (induction s arbitrary: x y rule: cutBlock.induct) (fastforce split: if_splits)+

section \<open>Typed events\<close>

datatype event_type =
    TyRunStarted | TyRunMetadata | TyTextDelta | TyReasoningDelta | TyRunCompleted | TyRunFailed
  | TyRunCancelled | TyRunDiagnostic | TyToolEvent

fun eventTypeString :: "event_type \<Rightarrow> string" where
  "eventTypeString TyRunStarted = ''run_started''"
| "eventTypeString TyRunMetadata = ''run_metadata''"
| "eventTypeString TyTextDelta = ''text_delta''"
| "eventTypeString TyReasoningDelta = ''reasoning_delta''"
| "eventTypeString TyRunCompleted = ''run_completed''"
| "eventTypeString TyRunFailed = ''run_failed''"
| "eventTypeString TyRunCancelled = ''run_cancelled''"
| "eventTypeString TyRunDiagnostic = ''run_diagnostic''"
| "eventTypeString TyToolEvent = ''tool_event''"

definition parseEventType :: "string \<Rightarrow> event_type option" where
  "parseEventType s =
     (if s = ''run_started'' then Some TyRunStarted
      else if s = ''run_metadata'' then Some TyRunMetadata
      else if s = ''text_delta'' then Some TyTextDelta
      else if s = ''reasoning_delta'' then Some TyReasoningDelta
      else if s = ''run_completed'' then Some TyRunCompleted
      else if s = ''run_failed'' then Some TyRunFailed
      else if s = ''run_cancelled'' then Some TyRunCancelled
      else if s = ''run_diagnostic'' then Some TyRunDiagnostic
      else if s = ''tool_event'' then Some TyToolEvent
      else None)"

interpretation event_lit: literal_type eventTypeString parseEventType
proof
  show "parseEventType (eventTypeString x) = Some x" for x by (cases x) (simp_all add: parseEventType_def)
  show "parseEventType s = Some x \<Longrightarrow> s = eventTypeString x" for s x
    by (auto simp: parseEventType_def split: if_splits)
  show "trimmed (eventTypeString x)" for x by (cases x) (simp_all add: trimmed_ascii visible_def)
qed

fun payloadType :: "run_payload \<Rightarrow> event_type" where
  "payloadType (RunStarted _ _) = TyRunStarted"
| "payloadType (RunMetadata _) = TyRunMetadata"
| "payloadType (TextDelta _ _) = TyTextDelta"
| "payloadType (ReasoningDelta _) = TyReasoningDelta"
| "payloadType (RunCompleted _) = TyRunCompleted"
| "payloadType (RunFailed _) = TyRunFailed"
| "payloadType (RunCancelled _ _) = TyRunCancelled"
| "payloadType (RunDiagnostic _) = TyRunDiagnostic"
| "payloadType (ToolEvent _) = TyToolEvent"

definition requireRuntimeRunEventType :: "json option \<Rightarrow> event_type res" where
  "requireRuntimeRunEventType v =
     requireLiteral parseEventType (\<lambda>t. ''Unsupported runtime event type: '' @ t) v ''runtime event.type''"

definition payloadPath :: "string \<Rightarrow> string" where
  "payloadPath k = ''runtime event payload.'' @ k"

definition parseRunStartedEvent :: "jrecord \<Rightarrow> run_payload res" where
  "parseRunStartedEvent p =
     andThen (requireNonEmptyString (prop_of p ''assistantMessageId'') (payloadPath ''assistantMessageId'')) (\<lambda>mid.
     andThen (parseOptionalRuntimeRunThinkingMetadata p ''runtime event payload'') (\<lambda>m.
     Inr (RunStarted mid m)))"

definition parseRunMetadataEvent :: "jrecord \<Rightarrow> run_payload res" where
  "parseRunMetadataEvent p =
     andThen (requireRuntimeRunThinkingMetadata p ''runtime event payload'') (\<lambda>m. Inr (RunMetadata m))"

definition parseTextDeltaEvent :: "jrecord \<Rightarrow> run_payload res" where
  "parseTextDeltaEvent p =
     andThen (requireNonEmptyString (prop_of p ''assistantMessageId'') (payloadPath ''assistantMessageId'')) (\<lambda>mid.
     andThen (requireString (prop_of p ''delta'') (payloadPath ''delta'')) (\<lambda>d.
     Inr (TextDelta mid d)))"

definition parseReasoningDeltaEvent :: "jrecord \<Rightarrow> run_payload res" where
  "parseReasoningDeltaEvent p =
     andThen (requireString (prop_of p ''delta'') (payloadPath ''delta'')) (\<lambda>d. Inr (ReasoningDelta d))"

definition parseRunCompletedEvent :: "jrecord \<Rightarrow> run_payload res" where
  "parseRunCompletedEvent p =
     andThen (requireNonEmptyString (prop_of p ''assistantMessageId'') (payloadPath ''assistantMessageId'')) (\<lambda>mid.
     andThen (requireString (prop_of p ''assistantText'') (payloadPath ''assistantText'')) (\<lambda>text.
     andThen (requireNonEmptyString (prop_of p ''resolvedModelId'') (payloadPath ''resolvedModelId'')) (\<lambda>model.
     andThen (requireRuntimeResolvedModelRoute (prop_of p ''resolvedModelRoute'') (payloadPath ''resolvedModelRoute'')) (\<lambda>route.
     andThen (requireStringArray (prop_of p ''resolvedToolIds'') (payloadPath ''resolvedToolIds'')) (\<lambda>tools.
     andThen (requireRecord (prop_of p ''requestOptions'') (payloadPath ''requestOptions'')) (\<lambda>options.
     Inr (RunCompleted \<lparr>co_assistantMessageId = mid, co_assistantText = text, co_resolvedModelId = model,
          co_resolvedModelRoute = route, co_resolvedToolIds = tools, co_requestOptions = options\<rparr>)))))))"

definition parseRunFailedEvent :: "jrecord \<Rightarrow> run_payload res" where
  "parseRunFailedEvent p =
     andThen (requireNonEmptyString (prop_of p ''code'') (payloadPath ''code'')) (\<lambda>code.
     andThen (requireString (prop_of p ''message'') (payloadPath ''message'')) (\<lambda>message.
     andThen (requireRecord (prop_of p ''details'') (payloadPath ''details'')) (\<lambda>details.
     Inr (RunFailed \<lparr>fa_code = code, fa_message = message, fa_details = details\<rparr>))))"

definition parseRunCancelledEvent :: "jrecord \<Rightarrow> run_payload res" where
  "parseRunCancelledEvent p =
     andThen (requireNonEmptyString (prop_of p ''assistantMessageId'') (payloadPath ''assistantMessageId'')) (\<lambda>mid.
     andThen (requireString (prop_of p ''reason'') (payloadPath ''reason'')) (\<lambda>reason.
     Inr (RunCancelled mid reason)))"

definition parseRunDiagnosticEvent :: "jrecord \<Rightarrow> run_payload res" where
  "parseRunDiagnosticEvent p =
     andThen (requireNonEmptyString (prop_of p ''code'') (payloadPath ''code'')) (\<lambda>code.
     andThen (requireString (prop_of p ''message'') (payloadPath ''message'')) (\<lambda>message.
     andThen (requireRecord (prop_of p ''details'') (payloadPath ''details'')) (\<lambda>details.
     andThen (requireNonEmptyString (prop_of p ''stage'') (payloadPath ''stage'')) (\<lambda>stage.
     Inr (RunDiagnostic \<lparr>dg_code = code, dg_message = message, dg_stage = stage, dg_details = details\<rparr>)))))"

text \<open>
  \<open>parseToolEventSecurity\<close>: the risk level and the approval method are compared as they are; an
  approval method of \<open>null\<close> is an error, an absent one is left out.
\<close>

definition securityRecord :: "json option \<Rightarrow> jrecord res" where
  "securityRecord v =
     (case v of Some (JObj r) \<Rightarrow> Inr r | _ \<Rightarrow> Inl ''runtime event payload.security must be an object'')"

definition strictLiteral :: "(string \<Rightarrow> 'a option) \<Rightarrow> string \<Rightarrow> json option \<Rightarrow> 'a res" where
  "strictLiteral rd message v =
     (case v of
        Some (JStr s) \<Rightarrow> (case rd s of Some x \<Rightarrow> Inr x | None \<Rightarrow> Inl (message @ s))
      | _ \<Rightarrow> Inl (message @ jsText v))"

definition parseToolEventSecurity :: "json option \<Rightarrow> tool_security res" where
  "parseToolEventSecurity v =
     andThen (securityRecord v) (\<lambda>r.
     andThen (strictLiteral parseRiskLevel ''Invalid security riskLevel: '' (prop_of r ''riskLevel'')) (\<lambda>risk.
     andThen (if prop_of r ''approvalMethod'' = None then Inr None
              else andThen (strictLiteral parseApprovalMethod ''Invalid security approvalMethod: ''
                     (prop_of r ''approvalMethod'')) (\<lambda>m. Inr (Some m))) (\<lambda>approvalMethod.
     Inr \<lparr>se_riskLevel = risk, se_approvalMethod = approvalMethod\<rparr>)))"

text \<open>\<open>assignOptionalStringField\<close> sets the field when \<open>requireOptionalString\<close> gives a string.\<close>

definition parseToolEvent :: "jrecord \<Rightarrow> run_payload res" where
  "parseToolEvent p =
     andThen (requireNonEmptyString (prop_of p ''toolCallId'') (payloadPath ''toolCallId'')) (\<lambda>callId.
     andThen (requireNonEmptyString (prop_of p ''toolId'') (payloadPath ''toolId'')) (\<lambda>toolId.
     andThen (requireRuntimeToolEventPhase (prop_of p ''phase'')) (\<lambda>phase.
     andThen (requireNonEmptyString (prop_of p ''title'') (payloadPath ''title'')) (\<lambda>title.
     andThen (requireNonEmptyString (prop_of p ''summary'') (payloadPath ''summary'')) (\<lambda>summary.
     andThen (requireOptionalString (prop_of p ''inputSummary'') (payloadPath ''inputSummary'')) (\<lambda>input.
     andThen (requireOptionalString (prop_of p ''resultSummary'') (payloadPath ''resultSummary'')) (\<lambda>result.
     andThen (requireOptionalString (prop_of p ''errorSummary'') (payloadPath ''errorSummary'')) (\<lambda>err.
     andThen (nullable (\<lambda>v _. parseToolEventSecurity v) (prop_of p ''security'') []) (\<lambda>security.
     andThen (nullable requireRuntimeToolEventApproval (prop_of p ''approval'') (payloadPath ''approval'')) (\<lambda>approval.
     andThen (parseOptionalRuntimeInlineFormRequest (prop_of p ''formRequest'')) (\<lambda>form.
     Inr (ToolEvent \<lparr>te_toolCallId = callId, te_toolId = toolId, te_phase = phase, te_title = title,
          te_summary = summary, te_inputSummary = input, te_resultSummary = result,
          te_errorSummary = err, te_security = security, te_approval = approval,
          te_formRequest = form\<rparr>))))))))))))"

fun parsePayload :: "event_type \<Rightarrow> jrecord \<Rightarrow> run_payload res" where
  "parsePayload TyRunStarted p = parseRunStartedEvent p"
| "parsePayload TyRunMetadata p = parseRunMetadataEvent p"
| "parsePayload TyTextDelta p = parseTextDeltaEvent p"
| "parsePayload TyReasoningDelta p = parseReasoningDeltaEvent p"
| "parsePayload TyRunCompleted p = parseRunCompletedEvent p"
| "parsePayload TyRunFailed p = parseRunFailedEvent p"
| "parsePayload TyRunCancelled p = parseRunCancelledEvent p"
| "parsePayload TyRunDiagnostic p = parseRunDiagnosticEvent p"
| "parsePayload TyToolEvent p = parseToolEvent p"

definition parseRuntimeRunEvent :: "json option \<Rightarrow> run_event res" where
  "parseRuntimeRunEvent v =
     andThen (requireRecord v ''runtime event'') (\<lambda>r.
     andThen (requireRuntimeRunEventType (prop_of r ''type'')) (\<lambda>ty.
     andThen (requireNonEmptyString (prop_of r ''runId'') ''runtime event.runId'') (\<lambda>runId.
     andThen (requireNonEmptyString (prop_of r ''sessionId'') ''runtime event.sessionId'') (\<lambda>sessionId.
     andThen (requireSequence (prop_of r ''sequence'')) (\<lambda>sequence.
     andThen (requireRecord (prop_of r ''payload'')
       (''runtime event payload for \"'' @ eventTypeString ty @ ''\"'')) (\<lambda>p.
     andThen (parsePayload ty p) (\<lambda>payload.
     Inr \<lparr>ev_runId = runId, ev_sessionId = sessionId, ev_sequence = sequence, ev_payload = payload\<rparr>)))))))"

section \<open>The generator\<close>

text \<open>The data of a block: \<open>None\<close> when it is blank or has no data line.\<close>

definition blockData :: "string \<Rightarrow> string option" where
  "blockData block =
     (let trimmedBlock = trim block;
          dataLines = map (\<lambda>l. trimStart (drop 5 l)) (filter (prefix ''data:'') (splitLines trimmedBlock))
      in if trimmedBlock = [] \<or> dataLines = [] then None else Some (joinLines dataLines))"

definition parseRuntimeRunEventBlock :: "(string \<Rightarrow> json res) \<Rightarrow> string \<Rightarrow> run_event option res" where
  "parseRuntimeRunEventBlock jp block =
     (case blockData block of
        None \<Rightarrow> Inr None
      | Some d \<Rightarrow>
          (case jp d of
             Inl e \<Rightarrow> Inl (''Failed to parse runtime event payload JSON: '' @ e)
           | Inr v \<Rightarrow> andThen (parseRuntimeRunEvent (Some v)) (\<lambda>e. Inr (Some e))))"

text \<open>What a generator did: the yielded values, and the error it threw or the value it ended with.\<close>

type_synonym ('e, 'a) generated = "'e list \<times> 'a res"

definition yielding :: "'e option \<Rightarrow> ('e, 'a) generated \<Rightarrow> ('e, 'a) generated" where
  "yielding e g = (case e of None \<Rightarrow> g | Some x \<Rightarrow> (x # fst g, snd g))"

lemma yielding_snd [simp]: "snd (yielding e g) = snd g"
  by (simp add: yielding_def split: option.splits)

text \<open>The inner loop: yield the events of the complete blocks and leave the rest in the buffer.\<close>

function drainBuffer :: "(string \<Rightarrow> json res) \<Rightarrow> string \<Rightarrow> (run_event, string) generated" where
  "drainBuffer jp buffer =
     (case cutBlock buffer of
        None \<Rightarrow> ([], Inr buffer)
      | Some (rawBlock, rest) \<Rightarrow>
          (case parseRuntimeRunEventBlock jp rawBlock of
             Inl e \<Rightarrow> ([], Inl e)
           | Inr event \<Rightarrow> yielding event (drainBuffer jp rest)))"
  by pat_completeness auto
termination by (relation "measure (length \<circ> snd)") (auto dest: cutBlock_length)

declare drainBuffer.simps [simp del]

text \<open>The block that is left at the end of the stream.\<close>

definition finishBuffer :: "(string \<Rightarrow> json res) \<Rightarrow> string \<Rightarrow> (run_event, unit) generated" where
  "finishBuffer jp buffer =
     (case parseRuntimeRunEventBlock jp (normalizeSseBuffer buffer) of
        Inl e \<Rightarrow> ([], Inl e)
      | Inr event \<Rightarrow> yielding event ([], Inr ()))"

definition genBind :: "('e, 'a) generated \<Rightarrow> ('a \<Rightarrow> ('e, 'b) generated) \<Rightarrow> ('e, 'b) generated" where
  "genBind g f =
     (case snd g of Inl e \<Rightarrow> (fst g, Inl e) | Inr x \<Rightarrow> (fst g @ fst (f x), snd (f x)))"

fun readLoop :: "(string \<Rightarrow> json res) \<Rightarrow> string \<Rightarrow> string list \<Rightarrow> string res \<Rightarrow> (run_event, unit) generated" where
  "readLoop jp buffer [] (Inl e) = ([], Inl e)"
| "readLoop jp buffer [] (Inr flushed) = finishBuffer jp (buffer @ flushed)"
| "readLoop jp buffer (chunk # chunks) fin =
     genBind (drainBuffer jp (normalizeSseBuffer (buffer @ chunk))) (\<lambda>rest. readLoop jp rest chunks fin)"

definition parseRuntimeRunEventStream ::
  "(string \<Rightarrow> json res) \<Rightarrow> string list \<Rightarrow> string res \<Rightarrow> (run_event, unit) generated" where
  "parseRuntimeRunEventStream jp chunks fin = readLoop jp [] chunks fin"

end
