(* ===== verification/Wire_Laws.thy ===== *)
theory Wire_Laws
  imports Stream_Validators
begin

text \<open>
  What the validators of \<open>_stream/validators.ts\<close> promise. For each contract type there is the JSON the
  runtime writes for it (\<open>...Json\<close>) and the well-formedness that every value the renderer stores has
  (\<open>ok...\<close>: strings the validators trim are trimmed and not empty, counts are not negative, a selection
  carries the legacy fields of its value). The locale \<open>codec\<close> is the contract of a validator: it returns
  well-formed values only, and it reads back what was written, whatever the label. It is interpreted
  for every validator, from the leaves up.
\<close>

section \<open>Optional values\<close>

text \<open>The written form and the well-formedness of a value that may be \<open>null\<close> or absent.\<close>

fun nullOr :: "('a \<Rightarrow> json) \<Rightarrow> 'a option \<Rightarrow> json" where
  "nullOr enc None = JNull"
| "nullOr enc (Some x) = enc x"

fun okOption :: "('a \<Rightarrow> bool) \<Rightarrow> 'a option \<Rightarrow> bool" where
  "okOption ok None = True"
| "okOption ok (Some x) = ok x"

lemma okOption_iff: "okOption ok v \<longleftrightarrow> (\<forall>x. v = Some x \<longrightarrow> ok x)"
  by (cases v) simp_all

lemma okOption_True [simp]: "okOption (\<lambda>_. True) v" "okOption (okOption (\<lambda>_. True)) w"
  by (auto simp: okOption_iff)

text \<open>A property that is left out when its value is absent, and what reads of the record give.\<close>

definition optProp :: "string \<Rightarrow> ('a \<Rightarrow> json) \<Rightarrow> 'a option \<Rightarrow> jrecord" where
  "optProp k enc v = (case v of None \<Rightarrow> [] | Some x \<Rightarrow> [(k, enc x)])"

lemma prop_of_optProp [simp]: "prop_of (optProp k enc v) k' = (if k' = k then map_option enc v else None)"
  by (simp add: optProp_def split: option.splits)

lemma prop_of_optProp_append [simp]:
  "k \<noteq> k' \<Longrightarrow> prop_of (optProp k' enc v @ r) k = prop_of r k"
  "prop_of r k = None \<Longrightarrow> prop_of (optProp k enc v @ r) k = map_option enc v"
  by (simp_all add: optProp_def prop_of_append split: option.splits)

lemma whenPresent_skip [simp]:
  "k \<noteq> k' \<Longrightarrow> whenPresent f ((k', x) # r) k l = whenPresent f r k l"
  "k \<noteq> k' \<Longrightarrow> whenPresent f (optProp k' enc v @ r) k l = whenPresent f r k l"
  "k \<noteq> k' \<Longrightarrow> whenPresent f (optProp k' enc v) k l = Inr None"
  by (simp_all add: whenPresent_def hasOwn_def)

section \<open>The contract of a validator\<close>

locale codec =
  fixes dec :: "json option \<Rightarrow> string \<Rightarrow> 'a res"
    and enc :: "'a \<Rightarrow> json"
    and ok :: "'a \<Rightarrow> bool"
  assumes sound: "dec v l = Inr x \<Longrightarrow> ok x"
    and read_back: "ok x \<Longrightarrow> dec (Some (enc x)) l = Inr x"
begin

text \<open>A value is well-formed exactly when the validator can return it.\<close>

lemma ok_iff_readable: "ok x \<longleftrightarrow> (\<exists>v l. dec v l = Inr x)"
  using sound read_back by blast

lemma enc_inj: "ok x \<Longrightarrow> ok y \<Longrightarrow> enc x = enc y \<Longrightarrow> x = y"
  by (metis read_back sum.inject(2))

lemma whenPresent_sound: "whenPresent dec r k l = Inr v \<Longrightarrow> okOption ok v"
  by (auto simp: whenPresent_def sound split: if_splits)

lemma whenPresent_read_back:
  "okOption ok v \<Longrightarrow> whenPresent dec (optProp k enc v) k l = Inr v"
  "okOption ok v \<Longrightarrow> prop_of r k = None \<Longrightarrow> whenPresent dec (optProp k enc v @ r) k l = Inr v"
  by (cases v; simp add: whenPresent_def hasOwn_def read_back)+

lemma each_sound: "requireEach dec m v l = Inr xs \<Longrightarrow> x \<in> set xs \<Longrightarrow> ok x"
  using traverseIdx_all [where P = ok] sound by (fastforce simp: requireEach_def)

lemma each_read_back:
  "(\<And>x. x \<in> set xs \<Longrightarrow> ok x) \<Longrightarrow> requireEach dec m (Some (JArr (map enc xs))) l = Inr xs"
  by (simp add: requireEach_def traverseIdx_map_Inr read_back)

end

text \<open>A validator whose written form is never \<open>null\<close> gives one for the type with \<open>null\<close>.\<close>

locale nonnull_codec = codec +
  assumes enc_nonnull: "enc x \<noteq> JNull"
begin

lemma nullable_codec: "codec (nullable dec) (nullOr enc) (okOption ok)"
proof
  show "okOption ok x" if "nullable dec v l = Inr x" for v l x
    using that by (auto simp: nullable_def sound split: if_splits)
  show "nullable dec (Some (nullOr enc x)) l = Inr x" if "okOption ok x" for x l
    using that enc_nonnull by (cases x) (auto simp: nullable_def isNullish_def read_back)
qed

lemma nullable_absent: "nullable dec None l = Inr None"
  by (simp add: nullable_def)

lemma array_codec: "nonnull_codec (\<lambda>v l. requireEach dec (m l) v l) (\<lambda>xs. JArr (map enc xs)) (\<lambda>xs. \<forall>x \<in> set xs. ok x)"
  by unfold_locales (auto intro: each_sound each_read_back)

end

text \<open>Every literal type gives one.\<close>

context literal_type
begin

lemma literal_codec: "nonnull_codec (\<lambda>v l. requireLiteral rd (m l) v l) (\<lambda>x. JStr (wr x)) (\<lambda>_. True)"
  by unfold_locales (simp_all add: requireLiteral_wr)

end

named_theorems wire_defs \<open>validators and written forms\<close>
named_theorems wire_sound \<open>what a validator returns is well-formed\<close>
named_theorems wire_read \<open>a validator reads back what was written\<close>

section \<open>Strings, numbers and literals\<close>

definition intJson :: "int \<Rightarrow> json" where "intJson n = JNum (of_int n)"

interpretation str_codec: nonnull_codec requireString JStr "\<lambda>_. True"
  by unfold_locales simp_all

interpretation name_codec: nonnull_codec requireNonEmptyString JStr trimmed
  by unfold_locales (simp_all add: requireNonEmptyString_trimmed)

interpretation bool_codec: nonnull_codec requireBoolean JBool "\<lambda>_. True"
  by unfold_locales simp_all

interpretation record_codec: nonnull_codec requireRecord JObj "\<lambda>_. True"
  by unfold_locales simp_all

interpretation count_codec: nonnull_codec requireNonNegativeInteger intJson "\<lambda>n. 0 \<le> n"
  by unfold_locales (simp_all add: requireNonNegativeInteger_eq_Inr intJson_def)

lemma primitive_nullable:
  "requireNullableString = nullable requireString"
  "requireNullableBoolean = nullable requireBoolean"
  "requireNullableNonNegativeInteger = nullable requireNonNegativeInteger"
  by (auto simp: fun_eq_iff requireNullableString_def requireNullableBoolean_def
      requireNullableNonNegativeInteger_def nullable_def)

interpretation nstr_codec: codec requireNullableString "nullOr JStr" "okOption (\<lambda>_. True)"
  unfolding primitive_nullable by (rule str_codec.nullable_codec)

interpretation nbool_codec: codec requireNullableBoolean "nullOr JBool" "okOption (\<lambda>_. True)"
  unfolding primitive_nullable by (rule bool_codec.nullable_codec)

interpretation ncount_codec: codec requireNullableNonNegativeInteger "nullOr intJson" "okOption (\<lambda>n. 0 \<le> n)"
  unfolding primitive_nullable by (rule count_codec.nullable_codec)

definition statusJson :: "capability_status \<Rightarrow> json" where "statusJson x = JStr (capabilityStatusString x)"
definition sourceJson :: "capability_source \<Rightarrow> json" where "sourceJson x = JStr (capabilitySourceString x)"
definition levelJson :: "thinking_level \<Rightarrow> json" where "levelJson x = JStr (thinkingLevelString x)"
definition editorJson :: "editor_type \<Rightarrow> json" where "editorJson x = JStr (editorTypeString x)"
definition controlKindJson :: "control_kind \<Rightarrow> json" where "controlKindJson x = JStr (controlKindString x)"
definition selectionKindJson :: "selection_kind \<Rightarrow> json" where "selectionKindJson x = JStr (selectionKindString x)"

lemmas literal_json = statusJson_def sourceJson_def levelJson_def editorJson_def controlKindJson_def
  selectionKindJson_def

lemma eta_json:
  "statusJson = (\<lambda>x. JStr (capabilityStatusString x))" "sourceJson = (\<lambda>x. JStr (capabilitySourceString x))"
  "levelJson = (\<lambda>x. JStr (thinkingLevelString x))" "editorJson = (\<lambda>x. JStr (editorTypeString x))"
  "controlKindJson = (\<lambda>x. JStr (controlKindString x))" "selectionKindJson = (\<lambda>x. JStr (selectionKindString x))"
  by (simp_all add: fun_eq_iff literal_json)

lemma literal_codecs:
  "nonnull_codec requireRuntimeThinkingCapabilityStatus statusJson (\<lambda>_. True)"
  "nonnull_codec requireRuntimeThinkingCapabilitySource sourceJson (\<lambda>_. True)"
  "nonnull_codec requireThinkingLevel levelJson (\<lambda>_. True)"
  "nonnull_codec requireRuntimeThinkingControlKind controlKindJson (\<lambda>_. True)"
  "nonnull_codec requireRuntimeThinkingSelectionKind selectionKindJson (\<lambda>_. True)"
  unfolding eta_json requireRuntimeThinkingCapabilityStatus_def [abs_def]
    requireRuntimeThinkingCapabilitySource_def [abs_def] requireThinkingLevel_def [abs_def]
    requireRuntimeThinkingControlKind_def [abs_def] requireRuntimeThinkingSelectionKind_def [abs_def]
  by (rule status_lit.literal_codec source_lit.literal_codec level_lit.literal_codec
      control_lit.literal_codec selkind_lit.literal_codec)+

interpretation status_codec: nonnull_codec requireRuntimeThinkingCapabilityStatus statusJson "\<lambda>_. True"
  by (rule literal_codecs)

interpretation source_codec: nonnull_codec requireRuntimeThinkingCapabilitySource sourceJson "\<lambda>_. True"
  by (rule literal_codecs)

interpretation level_codec: nonnull_codec requireThinkingLevel levelJson "\<lambda>_. True"
  by (rule literal_codecs)

interpretation control_codec: nonnull_codec requireRuntimeThinkingControlKind controlKindJson "\<lambda>_. True"
  by (rule literal_codecs)

interpretation selkind_codec: nonnull_codec requireRuntimeThinkingSelectionKind selectionKindJson "\<lambda>_. True"
  by (rule literal_codecs)

interpretation nlevel_codec: codec requireOptionalThinkingLevel "nullOr levelJson" "okOption (\<lambda>_. True)"
  unfolding requireOptionalThinkingLevel_def [abs_def] by (rule level_codec.nullable_codec)

interpretation nsource_codec: codec "nullable requireRuntimeThinkingCapabilitySource" "nullOr sourceJson" "okOption (\<lambda>_. True)"
  by (rule source_codec.nullable_codec)

interpretation editor_codec: codec requireNullableRuntimeThinkingEditorType "nullOr editorJson" "okOption (\<lambda>_. True)"
  unfolding requireNullableRuntimeThinkingEditorType_def [abs_def] eta_json
  by (rule nonnull_codec.nullable_codec) (rule editor_lit.literal_codec)

definition levelsJson :: "thinking_level list \<Rightarrow> json" where "levelsJson xs = JArr (map levelJson xs)"

interpretation levels_codec: nonnull_codec requireThinkingLevelArray levelsJson "\<lambda>xs. \<forall>x \<in> set xs. True"
  unfolding requireThinkingLevelArray_def [abs_def] levelsJson_def [abs_def] by (rule level_codec.array_codec)

lemmas primitive_sound [wire_sound] = name_codec.sound count_codec.sound ncount_codec.sound
  count_codec.whenPresent_sound

lemmas primitive_read [wire_read] = str_codec.read_back name_codec.read_back bool_codec.read_back
  record_codec.read_back count_codec.read_back nstr_codec.read_back nbool_codec.read_back
  ncount_codec.read_back status_codec.read_back source_codec.read_back level_codec.read_back
  control_codec.read_back selkind_codec.read_back nlevel_codec.read_back nsource_codec.read_back
  editor_codec.read_back levels_codec.read_back

lemmas primitive_present [wire_read] = bool_codec.whenPresent_read_back nstr_codec.whenPresent_read_back
  nbool_codec.whenPresent_read_back record_codec.whenPresent_read_back count_codec.whenPresent_read_back
  nlevel_codec.whenPresent_read_back levels_codec.whenPresent_read_back

section \<open>Routes\<close>

definition routeRefJson :: "model_route_ref \<Rightarrow> json" where
  "routeRefJson r = JObj [(''routeKind'', JStr (routeKindString (rr_routeKind r))),
     (''profileId'', JStr (rr_profileId r)), (''modelId'', JStr (rr_modelId r))]"

definition okRouteRef :: "model_route_ref \<Rightarrow> bool" where
  "okRouteRef r \<longleftrightarrow> trimmed (rr_profileId r) \<and> trimmed (rr_modelId r)"

lemmas literal_read [wire_read] = routekind_lit.requireLiteral_wr mode_lit.requireLiteral_wr
  fieldty_lit.requireLiteral_wr budgetmode_lit.requireLiteral_wr phase_lit.requireLiteral_wr

interpretation ref_codec: nonnull_codec requireRuntimeModelRouteRef routeRefJson okRouteRef
  by unfold_locales
     (auto simp: requireRuntimeModelRouteRef_def routeRefJson_def okRouteRef_def wire_read intro: wire_sound)

definition resolvedRouteJson :: "resolved_route \<Rightarrow> json" where
  "resolvedRouteJson r = JObj
     [(''routeRef'', routeRefJson (rs_routeRef r)),
      (''providerProfileId'', JStr (rs_providerProfileId r)), (''provider'', JStr (rs_provider r)),
      (''providerId'', JStr (rs_providerId r)), (''adapterId'', JStr (rs_adapterId r)),
      (''runtimeStatus'', JStr (rs_runtimeStatus r)), (''catalogRevision'', JStr (rs_catalogRevision r)),
      (''endpointFamily'', JStr (rs_endpointFamily r)), (''endpointType'', JStr (rs_endpointType r)),
      (''baseUrl'', JStr (rs_baseUrl r)), (''modelId'', JStr (rs_modelId r)),
      (''authKind'', JStr (rs_authKind r))]"

definition okResolvedRoute :: "resolved_route \<Rightarrow> bool" where
  "okResolvedRoute r \<longleftrightarrow> okRouteRef (rs_routeRef r) \<and> trimmed (rs_providerProfileId r) \<and> trimmed (rs_provider r) \<and>
     trimmed (rs_providerId r) \<and> trimmed (rs_adapterId r) \<and> trimmed (rs_runtimeStatus r) \<and>
     trimmed (rs_endpointFamily r) \<and> trimmed (rs_endpointType r) \<and> trimmed (rs_baseUrl r) \<and>
     trimmed (rs_modelId r) \<and> trimmed (rs_authKind r)"

lemmas route_read [wire_read] = ref_codec.read_back
lemmas route_sound [wire_sound] = ref_codec.sound

interpretation route_codec: nonnull_codec requireRuntimeResolvedModelRoute resolvedRouteJson okResolvedRoute
  by unfold_locales
     (auto simp: requireRuntimeResolvedModelRoute_def resolvedRouteJson_def okResolvedRoute_def wire_read
       intro: wire_sound)

section \<open>Thinking values and selections\<close>

fun okValue :: "thinking_value \<Rightarrow> bool" where
  "okValue (CodeValue code labelZh) \<longleftrightarrow> trimmed code \<and> trimmed labelZh"
| "okValue (BudgetValue m tokens labelZh) \<longleftrightarrow> okOption (\<lambda>n. 0 \<le> n) tokens \<and> trimmed labelZh"
| "okValue (FixedValue labelZh) \<longleftrightarrow> trimmed labelZh"

text \<open>The written form of a value is the one \<open>serializeRuntimeThinkingValue\<close> puts into a request.\<close>

lemma valueType_read [simp]:
  "requireLiteral parseValueType m (Some (JStr ''code'')) l = Inr VtCode"
  "requireLiteral parseValueType m (Some (JStr ''budget'')) l = Inr VtBudget"
  "requireLiteral parseValueType m (Some (JStr ''fixed'')) l = Inr VtFixed"
  by (simp_all add: requireLiteral_def parseValueType_def trimmed_ascii visible_def)

lemma nullOr_intJson: "nullOr intJson tokens = (case tokens of None \<Rightarrow> JNull | Some n \<Rightarrow> JNum (of_int n))"
  by (cases tokens) (simp_all add: intJson_def)

interpretation value_codec: nonnull_codec requireRuntimeThinkingValue serializeDirectValue okValue
proof
  show "okValue x" if "requireRuntimeThinkingValue v l = Inr x" for v l x
    using that by (auto simp: requireRuntimeThinkingValue_def intro: wire_sound split: value_type.splits)
      (metis value_type.exhaust)
  show "requireRuntimeThinkingValue (Some (serializeDirectValue x)) l = Inr x" if "okValue x" for x l
    using that by (cases x) (auto simp: requireRuntimeThinkingValue_def wire_read simp flip: nullOr_intJson)
  show "serializeDirectValue x \<noteq> JNull" for x by (cases x) simp_all
qed

definition valuesJson :: "thinking_value list \<Rightarrow> json" where
  "valuesJson xs = JArr (map serializeDirectValue xs)"

interpretation values_codec: nonnull_codec requireRuntimeThinkingValueArray valuesJson "\<lambda>xs. \<forall>x \<in> set xs. okValue x"
  unfolding requireRuntimeThinkingValueArray_def [abs_def] valuesJson_def [abs_def]
  by (rule value_codec.array_codec)

interpretation nvalue_codec: codec requireNullableRuntimeThinkingValue "nullOr serializeDirectValue" "okOption okValue"
  unfolding requireNullableRuntimeThinkingValue_def [abs_def] by (rule value_codec.nullable_codec)

text \<open>The label of a token count is made of visible characters.\<close>

lemma digit_visible: "d < 10 \<Longrightarrow> visible (digitChar d)"
  by (simp add: visible_def of_char_digitChar)

lemma natString_visible: "c \<in> set (natString n) \<Longrightarrow> visible c"
  by (induction n rule: natString.induct)
     (subst (asm) (2) natString.simps, auto simp: digit_visible split: if_splits)

lemma intString_visible: "c \<in> set (intString n) \<Longrightarrow> visible c"
  by (auto simp: intString_def visible_def dest: natString_visible split: if_splits)

lemma intString_nonempty [simp]: "intString n \<noteq> []"
  by (simp add: intString_def)

lemma toFixed1_visible: "c \<in> set (toFixed1 v d) \<Longrightarrow> visible c"
  by (auto simp: toFixed1_def Let_def visible_def dest: intString_visible)

lemma trimTrailingZero_visible:
  "(\<And>c. c \<in> set s \<Longrightarrow> visible c) \<Longrightarrow> c \<in> set (trimTrailingZero s) \<Longrightarrow> visible c"
  by (auto simp: trimTrailingZero_def dest: in_set_takeD split: if_splits)

lemma trimTrailingZero_numeral:
  "c \<in> set (trimTrailingZero (intString n)) \<Longrightarrow> visible c"
  "c \<in> set (trimTrailingZero (toFixed1 v d)) \<Longrightarrow> visible c"
  by (rule trimTrailingZero_visible; simp add: intString_visible toFixed1_visible)+

lemma trimmed_visible:
  assumes "s \<noteq> []" and "\<And>c. c \<in> set s \<Longrightarrow> visible c"
  shows "trimmed s"
  using assms by (intro trimmed_ascii) auto

lemma formatThinkingTokenCount_trimmed: "trimmed (formatThinkingTokenCount n)"
proof (rule trimmed_visible)
  show "formatThinkingTokenCount n \<noteq> []" by (simp add: formatThinkingTokenCount_def)
  have "visible (CHR ''M'')" and "visible (CHR ''K'')" by (simp_all add: visible_def)
  then show "visible c" if "c \<in> set (formatThinkingTokenCount n)" for c
    using that
    by (auto simp: formatThinkingTokenCount_def split: if_splits
        dest: intString_visible trimTrailingZero_numeral)
qed

lemma labelFixedReasoning_trimmed: "trimmed labelFixedReasoning"
  by (simp add: trimmed_def labelFixedReasoning_def trim_def trimStart_def trimEnd_def isWs1_def isWs2_def isWs3_def)

lemma legacyRecord_ok:
  assumes "buildRuntimeThinkingValueFromLegacyRecord r l = Inr (Some x)"
  shows "okValue x"
proof -
  obtain mode level tokens where
    t: "requireNullableNonNegativeInteger (prop_of r ''budgetTokens'') (l @ ''.budgetTokens'') = Inr tokens"
    and c: "(case (if mode = Some ''budget'' then tokens else None) of
       Some n \<Rightarrow> Inr (Some (BudgetValue ModeBudget (Some n) (formatThinkingTokenCount n)))
     | None \<Rightarrow>
         (case level of
            None \<Rightarrow> Inr None
          | Some l' \<Rightarrow>
              if l' = ''fixed'' then Inr (Some (FixedValue labelFixedReasoning))
              else andThen (requireThinkingLevel (Some (JStr l')) (l @ ''.level'')) (\<lambda>normalizedLevel.
                Inr (Some (CodeValue (thinkingLevelString normalizedLevel)
                                     (thinkingLevelString normalizedLevel)))))) = Inr (Some x)"
    using assms unfolding buildRuntimeThinkingValueFromLegacyRecord_def andThen_eq_Inr by blast
  show ?thesis
    using c ncount_codec.sound [OF t]
    by (auto simp: formatThinkingTokenCount_trimmed labelFixedReasoning_trimmed level_lit.wr_trimmed
        split: option.splits if_splits)
qed

text \<open>The two copies of the derivation of the legacy fields agree, so a parsed selection is in normal form.\<close>

lemma derive_agree: "deriveLegacyRuntimeThinkingSelectionFields v = deriveLegacyThinkingSelectionFields v"
  by (cases v) simp_all

definition okSelection :: "thinking_selection \<Rightarrow> bool" where
  "okSelection s \<longleftrightarrow> trimmed (ts_series s) \<and>
     (\<exists>v. okValue v \<and> s = selectionWithValue (ts_series s) v)"

lemma okSelection_selectionWithValue [simp]:
  "okSelection (selectionWithValue series v) \<longleftrightarrow> trimmed series \<and> okValue v"
  unfolding okSelection_def by (metis option.inject ts_selectionWithValue)

definition selectionJson :: "thinking_selection \<Rightarrow> json" where
  "selectionJson s =
     JObj ((''series'', JStr (ts_series s)) # optProp ''value'' serializeDirectValue (ts_value s))"

lemma okSelection_normal: "okSelection s \<Longrightarrow> normalSelection s"
  by (auto simp: okSelection_def normalSelection_def)

lemma requireRuntimeThinkingSelection_eq:
  "requireRuntimeThinkingSelection v label =
     andThen (requireRecord v label) (\<lambda>r.
     andThen (requireNonEmptyString (prop_of r ''series'') (label @ ''.series'')) (\<lambda>series.
     andThen (if prop_of r ''value'' = None then buildRuntimeThinkingValueFromLegacyRecord r label
              else andThen (requireRuntimeThinkingValue (prop_of r ''value'') (label @ ''.value''))
                     (\<lambda>x. Inr (Some x))) (\<lambda>runtimeValue.
     case runtimeValue of
       None \<Rightarrow> Inl (label @ ''.value must describe a valid thinking series value.'')
     | Some x \<Rightarrow> Inr (selectionWithValue series x))))"
  by (simp add: requireRuntimeThinkingSelection_def derive_agree selectionWithValue_def case_prod_beta
      cong: option.case_cong)

interpretation selection_codec: nonnull_codec requireRuntimeThinkingSelection selectionJson okSelection
proof
  show "okSelection x" if "requireRuntimeThinkingSelection v l = Inr x" for v l x
    using that
    by (auto simp: requireRuntimeThinkingSelection_eq split: if_splits option.splits
        dest!: legacyRecord_ok name_codec.sound value_codec.sound)
  show "requireRuntimeThinkingSelection (Some (selectionJson x)) l = Inr x" if ok: "okSelection x" for x l
  proof -
    obtain v where v: "okValue v" "x = selectionWithValue (ts_series x) v" and t: "trimmed (ts_series x)"
      using ok unfolding okSelection_def by blast
    then have "ts_value x = Some v" by (metis ts_selectionWithValue(2))
    then show ?thesis
      using v t by (simp add: requireRuntimeThinkingSelection_eq selectionJson_def value_codec.read_back)
  qed
  show "selectionJson x \<noteq> JNull" for x by (simp add: selectionJson_def)
qed

interpretation nselection_codec: codec requireNullableRuntimeThinkingSelection "nullOr selectionJson" "okOption okSelection"
  unfolding requireNullableRuntimeThinkingSelection_def [abs_def] by (rule selection_codec.nullable_codec)

lemmas thinking_read [wire_read] = value_codec.read_back values_codec.read_back nvalue_codec.read_back
  selection_codec.read_back nselection_codec.read_back nselection_codec.whenPresent_read_back

lemmas thinking_sound [wire_sound] = value_codec.sound values_codec.sound nvalue_codec.sound
  selection_codec.sound nselection_codec.sound

section \<open>Capabilities\<close>

definition canonicalJson :: "canonical_selection \<Rightarrow> json" where
  "canonicalJson s = JObj ((''kind'', selectionKindJson (cs_kind s)) #
     optProp ''budgetTokens'' intJson (cs_budgetTokens s) @ optProp ''value'' levelJson (cs_value s))"

definition okCanonical :: "canonical_selection \<Rightarrow> bool" where
  "okCanonical s \<longleftrightarrow>
     (if cs_kind s = SelectBudget then cs_value s = None \<and> (\<exists>n \<ge> 0. cs_budgetTokens s = Some n)
      else cs_budgetTokens s = None \<and> cs_value s \<noteq> None)"

interpretation canonical_codec: nonnull_codec requireRuntimeCanonicalThinkingSelection canonicalJson okCanonical
  by unfold_locales
     (auto simp: requireRuntimeCanonicalThinkingSelection_def canonicalJson_def okCanonical_def wire_read
       dest: wire_sound split: if_splits)

interpretation ncanonical_codec: codec requireNullableRuntimeCanonicalThinkingSelection
  "nullOr canonicalJson" "okOption okCanonical"
  unfolding requireNullableRuntimeCanonicalThinkingSelection_def [abs_def] by (rule canonical_codec.nullable_codec)

definition canonicalsJson :: "canonical_selection list \<Rightarrow> json" where
  "canonicalsJson xs = JArr (map canonicalJson xs)"

interpretation canonicals_codec: nonnull_codec requireRuntimeCanonicalThinkingSelectionArray canonicalsJson
  "\<lambda>xs. \<forall>x \<in> set xs. okCanonical x"
  unfolding requireRuntimeCanonicalThinkingSelectionArray_def [abs_def] canonicalsJson_def [abs_def]
  by (rule canonical_codec.array_codec)

definition controlBudgetJson :: "control_budget \<Rightarrow> json" where
  "controlBudgetJson b = JObj (optProp ''minTokens'' intJson (cb_minTokens b) @
     optProp ''maxTokens'' intJson (cb_maxTokens b) @ optProp ''stepTokens'' intJson (cb_stepTokens b))"

definition okControlBudget :: "control_budget \<Rightarrow> bool" where
  "okControlBudget b \<longleftrightarrow> okOption (\<lambda>n. 0 \<le> n) (cb_minTokens b) \<and> okOption (\<lambda>n. 0 \<le> n) (cb_maxTokens b) \<and>
     okOption (\<lambda>n. 0 \<le> n) (cb_stepTokens b)"

interpretation cbudget_codec: nonnull_codec requireControlBudget controlBudgetJson okControlBudget
  by (unfold_locales, (auto simp: requireControlBudget_def okControlBudget_def dest: wire_sound)[1],
      simp_all add: requireControlBudget_def controlBudgetJson_def okControlBudget_def wire_read del: andThen_eq_Inr)

interpretation ncbudget_codec: codec requireNullableRuntimeThinkingControlBudgetSpec
  "nullOr controlBudgetJson" "okOption okControlBudget"
  unfolding requireNullableRuntimeThinkingControlBudgetSpec_def [abs_def] by (rule cbudget_codec.nullable_codec)

lemmas control_present [wire_read] = canonical_codec.read_back ncanonical_codec.read_back
  canonicals_codec.whenPresent_read_back
  ncanonical_codec.whenPresent_read_back ncbudget_codec.whenPresent_read_back

lemmas control_sound [wire_sound] = canonicals_codec.whenPresent_sound ncanonical_codec.whenPresent_sound
  ncbudget_codec.whenPresent_sound

definition controlSpecJson :: "control_spec \<Rightarrow> json" where
  "controlSpecJson c = JObj ([(''kind'', controlKindJson (cp_kind c)),
     (''selectionKind'', selectionKindJson (cp_selectionKind c))] @
     optProp ''presetOptions'' canonicalsJson (cp_presetOptions c) @
     optProp ''fixedSelection'' (nullOr canonicalJson) (cp_fixedSelection c) @
     optProp ''budget'' (nullOr controlBudgetJson) (cp_budget c))"

definition okControlSpec :: "control_spec \<Rightarrow> bool" where
  "okControlSpec c \<longleftrightarrow> okOption (\<lambda>xs. \<forall>x \<in> set xs. okCanonical x) (cp_presetOptions c) \<and>
     okOption (okOption okCanonical) (cp_fixedSelection c) \<and> okOption (okOption okControlBudget) (cp_budget c)"

interpretation cspec_codec: nonnull_codec requireControlSpec controlSpecJson okControlSpec
  by (unfold_locales, (auto simp: requireControlSpec_def okControlSpec_def dest: wire_sound)[1],
      simp_all add: requireControlSpec_def controlSpecJson_def okControlSpec_def wire_read del: andThen_eq_Inr)

interpretation ncspec_codec: codec requireNullableRuntimeThinkingControlSpec
  "nullOr controlSpecJson" "okOption okControlSpec"
  unfolding requireNullableRuntimeThinkingControlSpec_def [abs_def] by (rule cspec_codec.nullable_codec)

definition provenanceJson :: "capability_provenance \<Rightarrow> json" where
  "provenanceJson p = JObj [(''routeStatus'', JStr (pv_routeStatus p)),
     (''override'', JObj [(''present'', JBool (pv_present p)), (''applied'', JBool (pv_applied p)),
        (''source'', nullOr JStr (pv_source p)), (''format'', nullOr JStr (pv_format p))])]"

definition okProvenance :: "capability_provenance \<Rightarrow> bool" where
  "okProvenance p \<longleftrightarrow> trimmed (pv_routeStatus p)"

interpretation provenance_codec: nonnull_codec requireProvenance provenanceJson okProvenance
  by (unfold_locales, (auto simp: requireProvenance_def okProvenance_def dest: wire_sound)[1],
      simp_all add: requireProvenance_def provenanceJson_def okProvenance_def wire_read del: andThen_eq_Inr)

interpretation nprovenance_codec: codec requireNullableRuntimeThinkingCapabilityProvenance
  "nullOr provenanceJson" "okOption okProvenance"
  unfolding requireNullableRuntimeThinkingCapabilityProvenance_def [abs_def]
  by (rule provenance_codec.nullable_codec)

definition visibilityJson :: "thinking_visibility \<Rightarrow> json" where
  "visibilityJson v = JObj [(''reasoning'', JStr (vi_reasoning v)),
     (''supportsSuppression'', JBool (vi_supportsSuppression v))]"

definition okVisibility :: "thinking_visibility \<Rightarrow> bool" where
  "okVisibility v \<longleftrightarrow> trimmed (vi_reasoning v)"

interpretation visibility_codec: nonnull_codec requireVisibility visibilityJson okVisibility
  by (unfold_locales, (auto simp: requireVisibility_def okVisibility_def dest: wire_sound)[1],
      simp_all add: requireVisibility_def visibilityJson_def okVisibility_def wire_read del: andThen_eq_Inr)

interpretation nvisibility_codec: codec requireNullableRuntimeThinkingVisibility
  "nullOr visibilityJson" "okOption okVisibility"
  unfolding requireNullableRuntimeThinkingVisibility_def [abs_def] by (rule visibility_codec.nullable_codec)

definition fingerprintJson :: "route_fingerprint \<Rightarrow> json" where
  "fingerprintJson f = JObj [(''providerProfileId'', JStr (fp_providerProfileId f)),
     (''provider'', JStr (fp_provider f)), (''endpointType'', JStr (fp_endpointType f)),
     (''baseUrl'', JStr (fp_baseUrl f)), (''modelId'', JStr (fp_modelId f))]"

definition okFingerprint :: "route_fingerprint \<Rightarrow> bool" where
  "okFingerprint f \<longleftrightarrow> trimmed (fp_providerProfileId f) \<and> trimmed (fp_provider f) \<and>
     trimmed (fp_endpointType f) \<and> trimmed (fp_baseUrl f) \<and> trimmed (fp_modelId f)"

interpretation fingerprint_codec: nonnull_codec requireFingerprint fingerprintJson okFingerprint
  by (unfold_locales, (auto simp: requireFingerprint_def okFingerprint_def dest: wire_sound)[1],
      simp_all add: requireFingerprint_def fingerprintJson_def okFingerprint_def wire_read del: andThen_eq_Inr)

lemmas capability_present [wire_read] = fingerprint_codec.read_back ncspec_codec.whenPresent_read_back
  nprovenance_codec.whenPresent_read_back nvisibility_codec.whenPresent_read_back

lemmas capability_sound [wire_sound] = fingerprint_codec.sound ncspec_codec.whenPresent_sound
  nprovenance_codec.whenPresent_sound nvisibility_codec.whenPresent_sound

definition capabilityJson :: "thinking_capability \<Rightarrow> json" where
  "capabilityJson c = JObj (
     [(''status'', statusJson (tc_status c)), (''source'', sourceJson (tc_source c)),
      (''series'', nullOr JStr (tc_series c)), (''seriesLabelZh'', nullOr JStr (tc_seriesLabelZh c)),
      (''editorType'', nullOr editorJson (tc_editorType c)),
      (''allowedValues'', valuesJson (tc_allowedValues c)),
      (''defaultValue'', nullOr serializeDirectValue (tc_defaultValue c)),
      (''providerBuilderKey'', nullOr JStr (tc_providerBuilderKey c)),
      (''reasonCode'', JStr (tc_reasonCode c)),
      (''routeFingerprint'', fingerprintJson (tc_routeFingerprint c))] @
     optProp ''supported'' JBool (tc_supported c) @
     optProp ''controlSpec'' (nullOr controlSpecJson) (tc_controlSpec c) @
     optProp ''defaultSelection'' (nullOr canonicalJson) (tc_defaultSelection c) @
     optProp ''supportedLevels'' levelsJson (tc_supportedLevels c) @
     optProp ''defaultLevel'' (nullOr levelJson) (tc_defaultLevel c) @
     optProp ''providerHint'' (nullOr JStr) (tc_providerHint c) @
     optProp ''provenance'' (nullOr provenanceJson) (tc_provenance c) @
     optProp ''visibility'' (nullOr visibilityJson) (tc_visibility c) @
     optProp ''overrideLevels'' levelsJson (tc_overrideLevels c))"

definition okCapability :: "thinking_capability \<Rightarrow> bool" where
  "okCapability c \<longleftrightarrow> (\<forall>v \<in> set (tc_allowedValues c). okValue v) \<and> okOption okValue (tc_defaultValue c) \<and>
     trimmed (tc_reasonCode c) \<and> okFingerprint (tc_routeFingerprint c) \<and>
     okOption (okOption okControlSpec) (tc_controlSpec c) \<and>
     okOption (okOption okCanonical) (tc_defaultSelection c) \<and>
     okOption (okOption okProvenance) (tc_provenance c) \<and>
     okOption (okOption okVisibility) (tc_visibility c)"

lemma fingerprintJson_record [simp]: "andThen (requireRecord (Some (fingerprintJson r)) l) (\<lambda>_. m) = m"
  by (simp add: fingerprintJson_def)

interpretation capability_codec: nonnull_codec requireRuntimeThinkingCapability capabilityJson okCapability
  by (unfold_locales, (auto simp: requireRuntimeThinkingCapability_def okCapability_def dest: wire_sound)[1],
      simp_all add: requireRuntimeThinkingCapability_def capabilityJson_def okCapability_def wire_read del: andThen_eq_Inr)

interpretation ncapability_codec: codec requireNullableRuntimeThinkingCapability
  "nullOr capabilityJson" "okOption okCapability"
  unfolding requireNullableRuntimeThinkingCapability_def [abs_def] by (rule capability_codec.nullable_codec)

section \<open>Decisions, suppression bases and run metadata\<close>

definition resultJson :: "selection_result \<Rightarrow> json" where
  "resultJson r = JObj (
     [(''requestedSelection'', nullOr selectionJson (sr_requestedSelection r)),
      (''appliedSelection'', nullOr selectionJson (sr_appliedSelection r)),
      (''applied'', JBool (sr_applied r)), (''reasonCode'', JStr (sr_reasonCode r)),
      (''errorCode'', nullOr JStr (sr_errorCode r)),
      (''providerBuilderKey'', nullOr JStr (sr_providerBuilderKey r)),
      (''mappingReasonCode'', nullOr JStr (sr_mappingReasonCode r)),
      (''capabilityStatus'', statusJson (sr_capabilityStatus r)),
      (''capabilitySource'', sourceJson (sr_capabilitySource r)),
      (''capabilitySeries'', nullOr JStr (sr_capabilitySeries r)),
      (''capabilitySeriesLabelZh'', nullOr JStr (sr_capabilitySeriesLabelZh r)),
      (''capabilityReasonCode'', nullOr JStr (sr_capabilityReasonCode r))] @
     optProp ''requestedThinkingLevel'' (nullOr levelJson) (sr_requestedThinkingLevel r) @
     optProp ''appliedThinkingLevel'' (nullOr levelJson) (sr_appliedThinkingLevel r) @
     optProp ''providerMapping'' (nullOr JStr) (sr_providerMapping r) @
     optProp ''overridePresent'' JBool (sr_overridePresent r) @
     optProp ''overrideApplied'' JBool (sr_overrideApplied r) @
     optProp ''overrideSource'' (nullOr JStr) (sr_overrideSource r) @
     optProp ''reasoningVisibility'' (nullOr JStr) (sr_reasoningVisibility r) @
     optProp ''supportsSuppression'' (nullOr JBool) (sr_supportsSuppression r) @
     optProp ''modelSettings'' JObj (sr_modelSettings r))"

definition okResult :: "selection_result \<Rightarrow> bool" where
  "okResult r \<longleftrightarrow> okOption okSelection (sr_requestedSelection r) \<and>
     okOption okSelection (sr_appliedSelection r) \<and> trimmed (sr_reasonCode r)"

interpretation result_codec: nonnull_codec requireSelectionResult resultJson okResult
  by (unfold_locales, (auto simp: requireSelectionResult_def okResult_def dest: wire_sound)[1],
      simp_all add: requireSelectionResult_def resultJson_def okResult_def wire_read del: andThen_eq_Inr)

interpretation nresult_codec: codec requireNullableRuntimeThinkingSelectionResult
  "nullOr resultJson" "okOption okResult"
  unfolding requireNullableRuntimeThinkingSelectionResult_def [abs_def] by (rule result_codec.nullable_codec)

definition basisJson :: "suppression_basis \<Rightarrow> json" where
  "basisJson b = JObj (
     [(''shouldSuppress'', JBool (sb_shouldSuppress b)), (''source'', JStr (sb_source b)),
      (''reasonCode'', nullOr JStr (sb_reasonCode b)),
      (''appliedThinkingSelection'', nullOr selectionJson (sb_appliedThinkingSelection b)),
      (''reasoningVisibility'', nullOr JStr (sb_reasoningVisibility b)),
      (''supportsSuppression'', JBool (sb_supportsSuppression b)),
      (''capabilitySource'', nullOr sourceJson (sb_capabilitySource b)),
      (''capabilitySeries'', nullOr JStr (sb_capabilitySeries b))] @
     optProp ''appliedThinkingLevel'' (nullOr levelJson) (sb_appliedThinkingLevel b))"

definition okBasis :: "suppression_basis \<Rightarrow> bool" where
  "okBasis b \<longleftrightarrow> trimmed (sb_source b) \<and> okOption okSelection (sb_appliedThinkingSelection b)"

interpretation basis_codec: nonnull_codec requireSuppressionBasis basisJson okBasis
  by (unfold_locales, (auto simp: requireSuppressionBasis_def okBasis_def dest: wire_sound split: if_splits)[1],
      simp_all add: requireSuppressionBasis_def basisJson_def okBasis_def hasOwn_def wire_read del: andThen_eq_Inr)

interpretation nbasis_codec: codec requireNullableRuntimeReasoningSuppressionBasis
  "nullOr basisJson" "okOption okBasis"
  unfolding requireNullableRuntimeReasoningSuppressionBasis_def [abs_def] by (rule basis_codec.nullable_codec)

lemmas metadata_present [wire_read] = nresult_codec.read_back nbasis_codec.read_back
  ncapability_codec.read_back ncapability_codec.whenPresent_read_back nbasis_codec.whenPresent_read_back

lemmas metadata_sound [wire_sound] = nresult_codec.sound nbasis_codec.sound
  ncapability_codec.sound nselection_codec.whenPresent_sound ncapability_codec.whenPresent_sound
  nbasis_codec.whenPresent_sound

text \<open>The metadata fields of a payload, in the partial form of \<open>run_started\<close>.\<close>

definition metadataProps :: "thinking_metadata \<Rightarrow> jrecord" where
  "metadataProps m =
     optProp ''requestedThinkingSelection'' (nullOr selectionJson) (tm_requestedThinkingSelection m) @
     optProp ''appliedThinkingSelection'' (nullOr selectionJson) (tm_appliedThinkingSelection m) @
     optProp ''requestedThinkingLevel'' (nullOr levelJson) (tm_requestedThinkingLevel m) @
     optProp ''appliedThinkingLevel'' (nullOr levelJson) (tm_appliedThinkingLevel m) @
     optProp ''thinkingCapabilitySnapshot'' (nullOr capabilityJson) (tm_thinkingCapabilitySnapshot m) @
     optProp ''thinkingSeriesDecision'' (nullOr resultJson) (tm_thinkingSeriesDecision m) @
     optProp ''reasoningSuppressionBasis'' (nullOr basisJson) (tm_reasoningSuppressionBasis m)"

definition okMetadata :: "thinking_metadata \<Rightarrow> bool" where
  "okMetadata m \<longleftrightarrow> okOption (okOption okSelection) (tm_requestedThinkingSelection m) \<and>
     okOption (okOption okSelection) (tm_appliedThinkingSelection m) \<and>
     okOption (okOption okCapability) (tm_thinkingCapabilitySnapshot m) \<and>
     okOption (okOption okResult) (tm_thinkingSeriesDecision m) \<and>
     okOption (okOption okBasis) (tm_reasoningSuppressionBasis m)"

text \<open>The complete form of \<open>run_metadata\<close> has every field but the levels.\<close>

definition completeMetadata :: "thinking_metadata \<Rightarrow> bool" where
  "completeMetadata m \<longleftrightarrow> tm_requestedThinkingSelection m \<noteq> None \<and> tm_appliedThinkingSelection m \<noteq> None \<and>
     tm_thinkingCapabilitySnapshot m \<noteq> None \<and> tm_thinkingSeriesDecision m \<noteq> None \<and>
     tm_reasoningSuppressionBasis m \<noteq> None"

text \<open>The decision is read through \<open>??\<close>, with the older name of the field as the other choice.\<close>

lemma decision_read [wire_read]:
  "okOption okResult d \<Longrightarrow>
   requireNullableRuntimeThinkingSelectionResult (nullishOr (Some (nullOr resultJson d)) None) l = Inr d"
  by (cases d)
     (simp_all add: nullishOr_def isNullish_def result_codec.enc_nonnull nresult_codec.read_back
       requireNullableRuntimeThinkingSelectionResult_def nullable_def result_codec.read_back)

lemma nullishOr_None [simp]: "nullishOr None v = v"
  by (simp add: nullishOr_def)

lemma nresult_absent [simp]: "requireNullableRuntimeThinkingSelectionResult None l = Inr None"
  by (simp add: requireNullableRuntimeThinkingSelectionResult_def nullable_def)

lemma parseOptional_sound: "parseOptionalRuntimeRunThinkingMetadata r l = Inr m \<Longrightarrow> okMetadata m"
  by (auto simp: parseOptionalRuntimeRunThinkingMetadata_def okMetadata_def dest: wire_sound split: if_splits)

lemma parseOptional_read_back:
  assumes "okMetadata m"
  shows "parseOptionalRuntimeRunThinkingMetadata ((''assistantMessageId'', x) # metadataProps m) l = Inr m"
  using assms
  by (cases "tm_thinkingSeriesDecision m")
     (simp_all add: parseOptionalRuntimeRunThinkingMetadata_def metadataProps_def okMetadata_def hasOwn_def
       wire_read del: andThen_eq_Inr)

lemma requireMetadata_sound:
  "requireRuntimeRunThinkingMetadata r l = Inr m \<Longrightarrow> okMetadata m \<and> completeMetadata m"
  by (auto simp: requireRuntimeRunThinkingMetadata_def okMetadata_def completeMetadata_def dest: wire_sound)

lemma requireMetadata_read_back:
  assumes "okMetadata m" and "completeMetadata m"
  shows "requireRuntimeRunThinkingMetadata (metadataProps m) l = Inr m"
  using assms
  by (auto simp: requireRuntimeRunThinkingMetadata_def metadataProps_def okMetadata_def completeMetadata_def
       hasOwn_def wire_read simp del: andThen_eq_Inr)

end
