(* ===== verification/Stream_Laws.thy ===== *)
theory Stream_Laws
  imports Message_Stream Wire_Laws
begin

text \<open>
  Laws of \<open>runtime-message-stream.ts\<close>. The first part is about the cutting of the byte stream: what the
  generator yields does not depend on where the chunks end, as long as no chunk ends in a carriage
  return, and it does depend on it when one does. The second part is the wire format of run events:
  what the parser returns is well-formed, and it reads back every well-formed event from its JSON. The
  third part puts both together: a stream of framed events is parsed to exactly these events.
\<close>

section \<open>Cutting the stream\<close>

lemma cr_lf [simp]: "cr \<noteq> lf" "lf \<noteq> cr"
  by (simp_all add: cr_def lf_def)

lemma normalize_no_cr: "cr \<notin> set (normalizeSseBuffer s)"
  by (auto simp: normalizeSseBuffer_def replaceCr_def split: if_splits)

lemma replaceCrLf_id: "cr \<notin> set s \<Longrightarrow> replaceCrLf s = s"
  by (induction s rule: replaceCrLf.induct) auto

lemma normalize_id: "cr \<notin> set s \<Longrightarrow> normalizeSseBuffer s = s"
  by (auto simp: normalizeSseBuffer_def replaceCrLf_id replaceCr_def intro: map_idI)

lemma replaceCrLf_append:
  "a = [] \<or> last a \<noteq> cr \<Longrightarrow> replaceCrLf (a @ b) = replaceCrLf a @ replaceCrLf b"
  by (induction a rule: replaceCrLf.induct) (auto split: if_splits, cases b, auto)

lemma normalize_append:
  "a = [] \<or> last a \<noteq> cr \<Longrightarrow> normalizeSseBuffer (a @ b) = normalizeSseBuffer a @ normalizeSseBuffer b"
  by (simp add: normalizeSseBuffer_def replaceCrLf_append replaceCr_def)

lemma normalize_buffer: "cr \<notin> set r \<Longrightarrow> normalizeSseBuffer (r @ b) = r @ normalizeSseBuffer b"
  by (metis last_in_set normalize_append normalize_id)

lemma cutBlock_append: "cutBlock x = Some (u, v) \<Longrightarrow> cutBlock (x @ y) = Some (u, v @ y)"
  by (induction x arbitrary: u v rule: cutBlock.induct) (fastforce split: if_splits)+

lemma cutBlock_suffix: "cutBlock x = Some (u, v) \<Longrightarrow> x = u @ [lf, lf] @ v"
  by (induction x arbitrary: u v rule: cutBlock.induct) (fastforce split: if_splits)+

lemma cutBlock_set: "cutBlock x = Some (u, v) \<Longrightarrow> set v \<subseteq> set x"
  by (drule cutBlock_suffix) auto

lemma genBind_Inr [simp]: "genBind ([], Inr x) f = f x"
  by (simp add: genBind_def)

lemma genBind_Inl [simp]: "genBind (es, Inl e) f = (es, Inl e)"
  by (simp add: genBind_def)

lemma genBind_assoc: "genBind (genBind g f) h = genBind g (\<lambda>x. genBind (f x) h)"
  by (simp add: genBind_def split: sum.splits)

lemma genBind_yielding: "genBind (yielding e g) f = yielding e (genBind g f)"
  by (simp add: yielding_def genBind_def split: option.splits sum.splits)

lemma genBind_cong:
  "g = g' \<Longrightarrow> (\<And>x. snd g' = Inr x \<Longrightarrow> f x = f' x) \<Longrightarrow> genBind g f = genBind g' f'"
  by (auto simp: genBind_def split: sum.splits)

text \<open>What the inner loop leaves in the buffer is a suffix of it without an empty line.\<close>

lemma drainBuffer_rest: "snd (drainBuffer jp s) = Inr r \<Longrightarrow> cutBlock r = None \<and> set r \<subseteq> set s"
proof (induction jp s rule: drainBuffer.induct)
  case (1 jp buffer)
  show ?case
  proof (cases "cutBlock buffer")
    case None
    then show ?thesis using 1 by (simp add: drainBuffer.simps [of jp buffer])
  next
    case (Some p)
    obtain u v where p: "p = (u, v)" by (cases p)
    show ?thesis
      using 1 Some p cutBlock_set [of buffer u v]
      by (fastforce simp: drainBuffer.simps [of jp buffer] split: sum.splits)
  qed
qed

lemma drainBuffer_append:
  "drainBuffer jp (x @ y) = genBind (drainBuffer jp x) (\<lambda>r. drainBuffer jp (r @ y))"
proof (induction jp x rule: drainBuffer.induct)
  case (1 jp x)
  show ?case
  proof (cases "cutBlock x")
    case None
    then show ?thesis by (simp add: drainBuffer.simps [of jp x])
  next
    case (Some p)
    obtain u v where p: "p = (u, v)" by (cases p)
    show ?thesis
      using 1 Some p cutBlock_append [of x u v y]
      by (simp add: drainBuffer.simps [of jp x] drainBuffer.simps [of jp "x @ y"] genBind_yielding
          split: sum.splits)
  qed
qed

definition chunkOk :: "string \<Rightarrow> bool" where
  "chunkOk c \<longleftrightarrow> c = [] \<or> last c \<noteq> cr"

lemma chunkOk_normalize:
  "chunkOk c \<Longrightarrow> normalizeSseBuffer (c @ concat cs) = normalizeSseBuffer c @ normalizeSseBuffer (concat cs)"
  by (simp add: chunkOk_def normalize_append)

lemma readLoop_drain:
  assumes "\<forall>c \<in> set chunks. chunkOk c" and "cutBlock buffer = None" and "cr \<notin> set buffer"
  shows "readLoop jp buffer chunks fin =
     genBind (drainBuffer jp (buffer @ normalizeSseBuffer (concat chunks))) (\<lambda>r. readLoop jp r [] fin)"
  using assms
proof (induction chunks arbitrary: buffer)
  case Nil
  then show ?case by (simp add: normalize_id drainBuffer.simps [of jp buffer])
next
  case (Cons c cs)
  let ?g = "drainBuffer jp (buffer @ normalizeSseBuffer c)"
  let ?fini = "\<lambda>r. readLoop jp r [] fin"
  have rest: "cutBlock r = None \<and> cr \<notin> set r" if "snd ?g = Inr r" for r
    using drainBuffer_rest [OF that] Cons.prems(3) normalize_no_cr by auto
  have "readLoop jp buffer (c # cs) fin = genBind ?g (\<lambda>r. readLoop jp r cs fin)"
    using Cons.prems by (simp add: normalize_buffer)
  also have "\<dots> = genBind ?g (\<lambda>r. genBind (drainBuffer jp (r @ normalizeSseBuffer (concat cs))) ?fini)"
    using Cons.prems(1) rest by (intro genBind_cong refl Cons.IH) auto
  also have "\<dots> = genBind (drainBuffer jp ((buffer @ normalizeSseBuffer c) @ normalizeSseBuffer (concat cs))) ?fini"
    using drainBuffer_append [of jp "buffer @ normalizeSseBuffer c" "normalizeSseBuffer (concat cs)"]
    by (simp only: genBind_assoc)
  finally show ?case
    using Cons.prems(1) by (simp add: chunkOk_normalize)
qed

lemma parseRuntimeRunEventStream_drain:
  "\<forall>c \<in> set chunks. chunkOk c \<Longrightarrow>
   parseRuntimeRunEventStream jp chunks fin =
     genBind (drainBuffer jp (normalizeSseBuffer (concat chunks))) (\<lambda>r. readLoop jp r [] fin)"
  using readLoop_drain [of chunks "[]"] by (simp add: parseRuntimeRunEventStream_def)

section \<open>The wire format of run events\<close>

lemma optionalString_read [wire_read]: "requireOptionalString (map_option JStr v) l = Inr v"
  by (cases v) (simp_all add: requireOptionalString_def)

lemma optionalString_None [wire_read]: "requireOptionalString None l = Inr None"
  by (simp add: requireOptionalString_def)

definition optionJson :: "field_option \<Rightarrow> json" where
  "optionJson f = JObj [(''value'', JStr (fo_value f)), (''label'', JStr (fo_label f))]"

definition optionsJson :: "field_option list \<Rightarrow> json" where
  "optionsJson fs = JArr (map optionJson fs)"

interpretation option_codec: nonnull_codec requireRuntimeInlineFormFieldOption optionJson "\<lambda>_. True"
  by unfold_locales (simp_all add: requireRuntimeInlineFormFieldOption_def optionJson_def)

interpretation options_codec: nonnull_codec requireRuntimeInlineFormFieldOptions optionsJson
  "\<lambda>xs. \<forall>x \<in> set xs. True"
  unfolding requireRuntimeInlineFormFieldOptions_def [abs_def] optionsJson_def [abs_def]
  by (rule option_codec.array_codec)

lemmas option_read [wire_read] = options_codec.whenPresent_read_back

definition fieldJson :: "form_field \<Rightarrow> json" where
  "fieldJson f = JObj ([(''name'', JStr (ff_name f)), (''label'', JStr (ff_label f)),
     (''type'', JStr (fieldTypeString (ff_type f)))] @
     optProp ''description'' JStr (ff_description f) @ optProp ''placeholder'' JStr (ff_placeholder f) @
     optProp ''required'' JBool (ff_required f) @ optProp ''options'' optionsJson (ff_options f))"

definition okField :: "form_field \<Rightarrow> bool" where
  "okField f \<longleftrightarrow> trimmed (ff_name f) \<and> trimmed (ff_label f) \<and>
     (ff_type f = FieldSelect \<longrightarrow> ff_options f \<noteq> None \<and> ff_options f \<noteq> Some []) \<and>
     (ff_type f = FieldCheckbox \<longrightarrow> ff_options f = None)"

interpretation field_codec: nonnull_codec requireRuntimeInlineFormField fieldJson okField
  by (unfold_locales,
      (auto simp: requireRuntimeInlineFormField_def okField_def dest: wire_sound split: if_splits)[1],
      simp_all add: requireRuntimeInlineFormField_def fieldJson_def okField_def wire_read del: andThen_eq_Inr)

definition formJson :: "form_request \<Rightarrow> json" where
  "formJson f = JObj ([(''formId'', JStr (fr_formId f)), (''title'', JStr (fr_title f))] @
     optProp ''description'' JStr (fr_description f) @ optProp ''submitLabel'' JStr (fr_submitLabel f) @
     [(''fields'', JArr (map fieldJson (fr_fields f)))])"

definition okForm :: "form_request \<Rightarrow> bool" where
  "okForm f \<longleftrightarrow> trimmed (fr_formId f) \<and> trimmed (fr_title f) \<and> fr_fields f \<noteq> [] \<and>
     (\<forall>x \<in> set (fr_fields f). okField x)"

lemma fields_read:
  "\<forall>x \<in> set fs. okField x \<Longrightarrow>
   traverseIdx (\<lambda>item i. requireRuntimeInlineFormField (Some item) (l i)) 0 (map fieldJson fs) = Inr fs"
  by (rule traverseIdx_map_Inr) (simp add: field_codec.read_back)

lemma fields_sound:
  "traverseIdx (\<lambda>item i. requireRuntimeInlineFormField (Some item) (l i)) 0 xs = Inr fs \<Longrightarrow>
   length fs = length xs \<and> (\<forall>f \<in> set fs. okField f)"
  by (auto simp: traverseIdx_Inr_iff dest: traverseIdx_all [where P = okField] field_codec.sound)
     (metis field_codec.sound in_set_conv_nth)

interpretation form_codec: nonnull_codec requireRuntimeInlineFormRequest formJson okForm
proof
  show "okForm x" if "requireRuntimeInlineFormRequest v l = Inr x" for v l x
    using that by (auto simp: requireRuntimeInlineFormRequest_def okForm_def split: if_splits
        dest!: fields_sound dest: wire_sound)
  show "requireRuntimeInlineFormRequest (Some (formJson x)) l = Inr x" if "okForm x" for x l
    using that by (simp add: requireRuntimeInlineFormRequest_def formJson_def okForm_def wire_read fields_read
        del: andThen_eq_Inr)
  show "formJson x \<noteq> JNull" for x by (simp add: formJson_def)
qed

text \<open>A time-out field of an approval is absent or has a value: the parser drops \<open>null\<close>.\<close>

definition approvalJson :: "tool_approval \<Rightarrow> json" where
  "approvalJson a = JObj ((''mode'', JStr (permissionModeString (ap_mode a))) #
     optProp ''timeoutAt'' JStr (Option.bind (ap_timeoutAt a) id) @
     optProp ''timeoutSeconds'' JNum (Option.bind (ap_timeoutSeconds a) id) @
     optProp ''timeoutAction'' (\<lambda>x. JStr (timeoutActionString x)) (Option.bind (ap_timeoutAction a) id))"

definition okApproval :: "tool_approval \<Rightarrow> bool" where
  "okApproval a \<longleftrightarrow> ap_timeoutAt a \<noteq> Some None \<and> ap_timeoutSeconds a \<noteq> Some None \<and> ap_timeoutAction a \<noteq> Some None"

lemma map_option_Some_bind: "v \<noteq> Some None \<Longrightarrow> map_option Some (Option.bind v id) = v"
  by (cases v) auto

lemma timeoutAction_read:
  "parseApprovalTimeoutAction (map_option (\<lambda>x. JStr (timeoutActionString x)) v) = Inr v"
proof (cases v)
  case (Some x)
  then show ?thesis by (cases x) (simp_all add: parseApprovalTimeoutAction_def)
qed (simp add: parseApprovalTimeoutAction_def)

interpretation approval_codec: nonnull_codec requireRuntimeToolEventApproval approvalJson okApproval
proof
  show "okApproval x" if "requireRuntimeToolEventApproval v l = Inr x" for v l x
    using that by (auto simp: requireRuntimeToolEventApproval_def okApproval_def)
  show "requireRuntimeToolEventApproval (Some (approvalJson x)) l = Inr x" if "okApproval x" for x l
    using that by (cases "Option.bind (ap_timeoutSeconds x) id"; cases "ap_timeoutSeconds x")
      (simp_all add: requireRuntimeToolEventApproval_def approvalJson_def okApproval_def wire_read
        timeoutAction_read map_option_Some_bind del: andThen_eq_Inr)
  show "approvalJson x \<noteq> JNull" for x by (simp add: approvalJson_def)
qed

definition securityJson :: "tool_security \<Rightarrow> json" where
  "securityJson s = JObj ((''riskLevel'', JStr (riskLevelString (se_riskLevel s))) #
     optProp ''approvalMethod'' (\<lambda>x. JStr (approvalMethodString x)) (se_approvalMethod s))"

context literal_type
begin

lemma strictLiteral_wr: "strictLiteral rd m (Some (JStr (wr x))) = Inr x"
  by (simp add: strictLiteral_def rd_wr)

end

interpretation security_codec: nonnull_codec "\<lambda>v _. parseToolEventSecurity v" securityJson "\<lambda>_. True"
proof
  show "parseToolEventSecurity (Some (securityJson x)) = Inr x" for x
    by (cases "se_approvalMethod x")
       (simp_all add: parseToolEventSecurity_def securityJson_def securityRecord_def
         risk_lit.strictLiteral_wr method_lit.strictLiteral_wr del: andThen_eq_Inr)
  show "securityJson x \<noteq> JNull" for x by (simp add: securityJson_def)
qed simp

definition toolProps :: "tool_payload \<Rightarrow> jrecord" where
  "toolProps t =
     [(''toolCallId'', JStr (te_toolCallId t)), (''toolId'', JStr (te_toolId t)),
      (''phase'', JStr (toolPhaseString (te_phase t))), (''title'', JStr (te_title t)),
      (''summary'', JStr (te_summary t))] @
     optProp ''inputSummary'' JStr (te_inputSummary t) @
     optProp ''resultSummary'' JStr (te_resultSummary t) @
     optProp ''errorSummary'' JStr (te_errorSummary t) @
     [(''security'', nullOr securityJson (te_security t)), (''approval'', nullOr approvalJson (te_approval t)),
      (''formRequest'', nullOr formJson (te_formRequest t))]"

definition okTool :: "tool_payload \<Rightarrow> bool" where
  "okTool t \<longleftrightarrow> trimmed (te_toolCallId t) \<and> trimmed (te_toolId t) \<and> trimmed (te_title t) \<and>
     trimmed (te_summary t) \<and> okOption okApproval (te_approval t) \<and> okOption okForm (te_formRequest t)"

interpretation nsecurity_codec: codec "nullable (\<lambda>v _. parseToolEventSecurity v)" "nullOr securityJson"
  "okOption (\<lambda>_. True)"
  by (rule security_codec.nullable_codec)

interpretation napproval_codec: codec "nullable requireRuntimeToolEventApproval" "nullOr approvalJson"
  "okOption okApproval"
  by (rule approval_codec.nullable_codec)

interpretation nform_codec: codec "nullable requireRuntimeInlineFormRequest" "nullOr formJson" "okOption okForm"
  by (rule form_codec.nullable_codec)

lemmas tool_wire [wire_read] = nsecurity_codec.read_back napproval_codec.read_back nform_codec.read_back
lemmas tool_sound [wire_sound] = napproval_codec.sound nform_codec.sound

lemma parseToolEvent_sound: "parseToolEvent p = Inr q \<Longrightarrow> \<exists>t. q = ToolEvent t \<and> okTool t"
  by (auto simp: parseToolEvent_def okTool_def parseOptionalRuntimeInlineFormRequest_def dest: wire_sound)

lemma parseToolEvent_read_back: "okTool t \<Longrightarrow> parseToolEvent (toolProps t) = Inr (ToolEvent t)"
  by (simp add: parseToolEvent_def toolProps_def okTool_def parseOptionalRuntimeInlineFormRequest_def
      requireRuntimeToolEventPhase_def wire_read del: andThen_eq_Inr)

fun payloadProps :: "run_payload \<Rightarrow> jrecord" where
  "payloadProps (RunStarted mid m) = (''assistantMessageId'', JStr mid) # metadataProps m"
| "payloadProps (RunMetadata m) = metadataProps m"
| "payloadProps (TextDelta mid d) = [(''assistantMessageId'', JStr mid), (''delta'', JStr d)]"
| "payloadProps (ReasoningDelta d) = [(''delta'', JStr d)]"
| "payloadProps (RunCompleted c) =
     [(''assistantMessageId'', JStr (co_assistantMessageId c)), (''assistantText'', JStr (co_assistantText c)),
      (''resolvedModelId'', JStr (co_resolvedModelId c)),
      (''resolvedModelRoute'', resolvedRouteJson (co_resolvedModelRoute c)),
      (''resolvedToolIds'', JArr (map JStr (co_resolvedToolIds c))),
      (''requestOptions'', JObj (co_requestOptions c))]"
| "payloadProps (RunFailed f) =
     [(''code'', JStr (fa_code f)), (''message'', JStr (fa_message f)), (''details'', JObj (fa_details f))]"
| "payloadProps (RunCancelled mid reason) =
     [(''assistantMessageId'', JStr mid), (''reason'', JStr reason)]"
| "payloadProps (RunDiagnostic d) =
     [(''code'', JStr (dg_code d)), (''message'', JStr (dg_message d)), (''stage'', JStr (dg_stage d)),
      (''details'', JObj (dg_details d))]"
| "payloadProps (ToolEvent t) = toolProps t"

fun okPayload :: "run_payload \<Rightarrow> bool" where
  "okPayload (RunStarted mid m) \<longleftrightarrow> trimmed mid \<and> okMetadata m"
| "okPayload (RunMetadata m) \<longleftrightarrow> okMetadata m \<and> completeMetadata m"
| "okPayload (TextDelta mid d) \<longleftrightarrow> trimmed mid"
| "okPayload (ReasoningDelta d) \<longleftrightarrow> True"
| "okPayload (RunCompleted c) \<longleftrightarrow> trimmed (co_assistantMessageId c) \<and> trimmed (co_resolvedModelId c) \<and>
     okResolvedRoute (co_resolvedModelRoute c)"
| "okPayload (RunFailed f) \<longleftrightarrow> trimmed (fa_code f)"
| "okPayload (RunCancelled mid reason) \<longleftrightarrow> trimmed mid"
| "okPayload (RunDiagnostic d) \<longleftrightarrow> trimmed (dg_code d) \<and> trimmed (dg_stage d)"
| "okPayload (ToolEvent t) \<longleftrightarrow> okTool t"

lemmas payload_parsers = parseRunStartedEvent_def parseRunMetadataEvent_def parseTextDeltaEvent_def
  parseReasoningDeltaEvent_def parseRunCompletedEvent_def parseRunFailedEvent_def
  parseRunCancelledEvent_def parseRunDiagnosticEvent_def

lemma parsePayload_sound: "parsePayload ty p = Inr q \<Longrightarrow> okPayload q \<and> payloadType q = ty"
  by (cases ty)
     (auto simp: payload_parsers dest: wire_sound route_codec.sound parseOptional_sound requireMetadata_sound
       dest!: parseToolEvent_sound)

lemma parsePayload_read_back: "okPayload q \<Longrightarrow> parsePayload (payloadType q) (payloadProps q) = Inr q"
  by (cases q)
     (simp_all add: payload_parsers wire_read route_codec.read_back parseOptional_read_back requireMetadata_read_back
       parseToolEvent_read_back requireStringArray_eq_Inr [THEN iffD2] del: andThen_eq_Inr)

definition eventJson :: "run_event \<Rightarrow> json" where
  "eventJson e = JObj
     [(''type'', JStr (eventTypeString (payloadType (ev_payload e)))), (''runId'', JStr (ev_runId e)),
      (''sessionId'', JStr (ev_sessionId e)), (''sequence'', intJson (ev_sequence e)),
      (''payload'', JObj (payloadProps (ev_payload e)))]"

definition okEvent :: "run_event \<Rightarrow> bool" where
  "okEvent e \<longleftrightarrow> trimmed (ev_runId e) \<and> trimmed (ev_sessionId e) \<and> 0 < ev_sequence e \<and> okPayload (ev_payload e)"

text \<open>The parser of run events as a validator: it ignores the label.\<close>

interpretation event_codec: nonnull_codec "\<lambda>v _. parseRuntimeRunEvent v" eventJson okEvent
proof
  show "okEvent e" if "parseRuntimeRunEvent v = Inr e" for v e
    using that by (auto simp: parseRuntimeRunEvent_def okEvent_def requireSequence_eq_Inr
        dest: wire_sound parsePayload_sound)
  show "parseRuntimeRunEvent (Some (eventJson e)) = Inr e" if "okEvent e" for e
    using that by (simp add: parseRuntimeRunEvent_def eventJson_def okEvent_def requireRuntimeRunEventType_def
        event_lit.requireLiteral_wr intJson_def parsePayload_read_back wire_read
        requireSequence_eq_Inr [THEN iffD2] del: andThen_eq_Inr)
  show "eventJson e \<noteq> JNull" for e by (simp add: eventJson_def)
qed

section \<open>Framing\<close>

text \<open>The frame of one event: a data line and an empty line.\<close>

definition frame :: "string \<Rightarrow> string" where
  "frame s = ''data: '' @ s @ [lf, lf]"

text \<open>A text that fits one data line, as the serialisation of an object does.\<close>

definition lineOk :: "string \<Rightarrow> bool" where
  "lineOk s \<longleftrightarrow> s \<noteq> [] \<and> visible (hd s) \<and> visible (last s) \<and> lf \<notin> set s \<and> cr \<notin> set s"

lemma cutBlock_line: "lf \<notin> set x \<Longrightarrow> cutBlock (x @ lf # lf # s) = Some (x, s)"
proof (induction x)
  case (Cons a x)
  then show ?case by (cases x) auto
qed simp

lemma splitLines_line: "lf \<notin> set x \<Longrightarrow> splitLines x = [x]"
  by (induction x) auto

lemma strip_space: "strip p q (CHR 0x20 # s) = strip p q s"
  by (cases s; cases "tl s") (auto simp: isWs1_def)

lemma data_prefix [simp]: "lf \<notin> set ''data: ''" "cr \<notin> set ''data: ''"
  by (simp_all add: lf_def cr_def)

lemma trim_line: "lineOk s \<Longrightarrow> trim (''data: '' @ s) = ''data: '' @ s"
  using trimmed_ascii [of "''data: '' @ s"] by (simp add: lineOk_def trimmed_def visible_def)

lemma blockData_line: "lineOk s \<Longrightarrow> blockData (''data: '' @ s) = Some s"
proof -
  assume s: "lineOk s"
  have "splitLines (''data: '' @ s) = [''data: '' @ s]"
    using s data_prefix(1) by (intro splitLines_line) (simp add: lineOk_def)
  moreover have "trimStart (drop 5 (''data: '' @ s)) = s"
    using s by (cases s) (simp_all add: trimStart_def strip_space lineOk_def strip_headOk headOk_visible)
  ultimately show ?thesis
    using trim_line [OF s] by (simp add: blockData_def Let_def)
qed

lemma drainBuffer_frame:
  assumes "lineOk s" and "jp s = Inr v" and "parseRuntimeRunEvent (Some v) = Inr e"
  shows "drainBuffer jp (frame s @ rest) = yielding (Some e) (drainBuffer jp rest)"
proof -
  have "cutBlock ((''data: '' @ s) @ lf # lf # rest) = Some (''data: '' @ s, rest)"
    using assms(1) data_prefix(1) by (intro cutBlock_line) (simp add: lineOk_def)
  then show ?thesis
    using assms blockData_line [of s]
    by (subst drainBuffer.simps) (simp add: frame_def parseRuntimeRunEventBlock_def)
qed

lemma frame_no_cr: "lineOk s \<Longrightarrow> cr \<notin> set (frame s)"
  by (simp add: frame_def lineOk_def) (simp add: cr_def)

lemma chunkOk_no_cr: "cr \<notin> set c \<Longrightarrow> chunkOk c"
  by (auto simp: chunkOk_def dest: last_in_set)

lemma drainBuffer_Nil [simp]: "drainBuffer jp [] = ([], Inr [])"
  by (simp add: drainBuffer.simps)

lemma drainBuffer_frames:
  assumes "\<And>e. e \<in> set es \<Longrightarrow> okEvent e"
    and "\<And>e. e \<in> set es \<Longrightarrow> lineOk (pr (eventJson e)) \<and> jp (pr (eventJson e)) = Inr (eventJson e)"
  shows "drainBuffer jp (concat (map (\<lambda>e. frame (pr (eventJson e))) es)) = (es, Inr [])"
  using assms
  by (induction es) (simp_all add: drainBuffer_frame event_codec.read_back yielding_def)

section \<open>Properties\<close>

text \<open>
  C7: the parser of run events reads back every well-formed event, of each of the nine types, from the
  JSON that the runtime writes for it: no field is lost, renamed or changed.
\<close>

theorem parse_event_roundtrip: "okEvent e \<Longrightarrow> parseRuntimeRunEvent (Some (eventJson e)) = Inr e"
  by (rule event_codec.read_back)

text \<open>
  C19: the parser accepts exactly the well-formed events: whatever JSON value arrives, an event that it
  returns has trimmed identifiers that are not empty, a positive sequence number, and thinking values,
  forms and tool payloads that satisfy the checks of the contract; and it can return every such event.
\<close>

theorem parse_event_range: "(\<exists>v. parseRuntimeRunEvent v = Inr e) \<longleftrightarrow> okEvent e"
  using event_codec.ok_iff_readable [of e] by simp

text \<open>
  C18: what the stream yields depends on the concatenation of the decoded chunks only: cutting the same
  text at other places changes neither the events nor the error, as long as no chunk ends in a carriage
  return. Partial lines, partial blocks and line ends that are split between chunks are all covered.
\<close>

theorem stream_chunking_irrelevant:
  assumes "\<forall>c \<in> set cs. chunkOk c" and "\<forall>d \<in> set ds. chunkOk d" and "concat cs = concat ds"
  shows "parseRuntimeRunEventStream jp cs fin = parseRuntimeRunEventStream jp ds fin"
  using assms by (simp add: parseRuntimeRunEventStream_drain)

text \<open>
  Without that condition it does matter. A line end CR LF that is split between two chunks is
  normalised twice, once for each half, and becomes an empty line: the two data lines of one event are
  then parsed as two events.
\<close>

theorem split_crlf_breaks_block:
  "\<exists>jp a b. a @ b = ''data: 1'' @ [cr, lf] @ ''data: 2'' @ [cr, lf, cr, lf] \<and>
     parseRuntimeRunEventStream jp [a @ b] (Inr []) =
       ([], Inl (''Failed to parse runtime event payload JSON: 1'' @ [lf] @ ''2'')) \<and>
     parseRuntimeRunEventStream jp [a, b] (Inr []) =
       ([], Inl ''Failed to parse runtime event payload JSON: 1'')"
  by (intro exI [of _ "\<lambda>s. Inl s"] exI [of _ "''data: 1'' @ [cr]"]
      exI [of _ "lf # ''data: 2'' @ [cr, lf, cr, lf]"])
     (simp add: parseRuntimeRunEventStream_def drainBuffer.simps parseRuntimeRunEventBlock_def
       blockData_def normalizeSseBuffer_def replaceCr_def trim_def trimStart_def trimEnd_def isWs1_def
       isWs2_def isWs3_def lf_def cr_def genBind_def)

text \<open>
  C6: a run's events survive the wire. When the text of each event fits a line and \<open>JSON.parse\<close> inverts
  it, the stream of the framed events, cut into chunks in any way, yields exactly these events in their
  order and ends without an error.
\<close>

theorem framed_events_roundtrip:
  assumes "\<And>e. e \<in> set es \<Longrightarrow> okEvent e"
    and "\<And>e. e \<in> set es \<Longrightarrow> lineOk (pr (eventJson e)) \<and> jp (pr (eventJson e)) = Inr (eventJson e)"
    and "concat chunks = concat (map (\<lambda>e. frame (pr (eventJson e))) es)"
  shows "parseRuntimeRunEventStream jp chunks (Inr []) = (es, Inr ())"
proof -
  have no_cr: "cr \<notin> set (concat chunks)"
    using assms(2) by (auto simp: assms(3) dest: frame_no_cr)
  then have "\<forall>c \<in> set chunks. chunkOk c" by (auto intro: chunkOk_no_cr)
  then show ?thesis
    using drainBuffer_frames [of es pr jp] assms no_cr
    by (simp add: parseRuntimeRunEventStream_drain normalize_id finishBuffer_def genBind_def
        parseRuntimeRunEventBlock_def blockData_def yielding_def)
qed

section \<open>Witnesses\<close>

definition sampleEvent :: run_event where
  "sampleEvent = \<lparr>ev_runId = ''r1'', ev_sessionId = ''s1'', ev_sequence = 2, ev_payload = TextDelta ''m1'' ''hi''\<rparr>"

lemma sampleEvent_ok: "okEvent sampleEvent"
  by (simp add: okEvent_def sampleEvent_def trimmed_ascii visible_def)

theorem parse_event_roundtrip_witness:
  "parseRuntimeRunEvent (Some (JObj [(''type'', JStr ''text_delta''), (''runId'', JStr ''r1''),
     (''sessionId'', JStr ''s1''), (''sequence'', JNum 2),
     (''payload'', JObj [(''assistantMessageId'', JStr ''m1''), (''delta'', JStr ''hi'')])])) = Inr sampleEvent"
  using parse_event_roundtrip [OF sampleEvent_ok] by (simp add: sampleEvent_def eventJson_def intJson_def)

theorem stream_chunking_irrelevant_witness:
  "parseRuntimeRunEventStream (\<lambda>s. Inl s) [''da'', ''ta: x'' @ [lf], [lf]] (Inr []) =
   parseRuntimeRunEventStream (\<lambda>s. Inl s) [''data: x'' @ [lf, lf]] (Inr [])"
  by (rule stream_chunking_irrelevant) (simp_all add: chunkOk_def lf_def cr_def)

theorem framed_events_roundtrip_witness:
  "parseRuntimeRunEventStream (\<lambda>_. Inr (eventJson sampleEvent))
     [''dat'', ''a: {}'' @ [lf], lf # ''data: {}'' @ [lf, lf]] (Inr []) = ([sampleEvent, sampleEvent], Inr ())"
  by (rule framed_events_roundtrip [where pr = "\<lambda>_. ''{}''"])
     (simp_all add: sampleEvent_ok lineOk_def frame_def visible_def lf_def cr_def split: if_splits)

end
