(* ===== verification/Js_Text.thy ===== *)
theory Js_Text
  imports Js_Json "HOL-Library.Multiset"
begin

text \<open>
  More of JavaScript's standard library, for the components that prepare text for the screen: properties of
  objects that are set, deleted and spread, \<open>split\<close> and \<open>join\<close>, lengths in UTF-16 code units, and
  \<open>JSON.stringify\<close>. The text of a number (\<open>String(n)\<close>) is the parameter \<open>numText\<close>. Keys that look like array indices, which
  JavaScript moves to the front of an object, are outside the model.
\<close>

section \<open>Objects\<close>

text \<open>\<open>record[key] = value\<close> and \<open>{ ...base, ...record }\<close>\<close>

definition setProp :: "string \<Rightarrow> json \<Rightarrow> jrecord \<Rightarrow> jrecord" where
  "setProp k v r = AList.update k v r"

definition spreadInto :: "jrecord \<Rightarrow> jrecord \<Rightarrow> jrecord" where
  "spreadInto base r = fold (\<lambda>(k, v). setProp k v) r base"

text \<open>\<open>delete record[key]\<close> for each key\<close>

definition deleteProps :: "string list \<Rightarrow> jrecord \<Rightarrow> jrecord" where
  "deleteProps ks r = filter (\<lambda>(k, v). k \<notin> set ks) r"

lemma prop_of_setProp [simp]: "prop_of (setProp k v r) k' = (if k' = k then Some v else prop_of r k')"
  by (simp add: setProp_def prop_of_def update_conv)

lemma prop_of_deleteProps [simp]: "prop_of (deleteProps ks r) k = (if k \<in> set ks then None else prop_of r k)"
  by (induction r) (auto simp: deleteProps_def split: if_splits)

lemma deleteProps_setProp [simp]: "k \<in> set ks \<Longrightarrow> deleteProps ks (setProp k v r) = deleteProps ks r"
  by (induction r) (auto simp: deleteProps_def setProp_def)

section \<open>Strings\<close>

text \<open>\<open>text.split(c)\<close> for one ASCII character, and \<open>parts.join(separator)\<close>\<close>

fun splitOn :: "char \<Rightarrow> string \<Rightarrow> string list" where
  "splitOn c [] = [[]]"
| "splitOn c (a # s) =
     (if a = c then [] # splitOn c s
      else case splitOn c s of [] \<Rightarrow> [[a]] | p # ps \<Rightarrow> (a # p) # ps)"

fun joinWith :: "string \<Rightarrow> string list \<Rightarrow> string" where
  "joinWith sep [] = []"
| "joinWith sep [s] = s"
| "joinWith sep (s # t # ss) = s @ sep @ joinWith sep (t # ss)"

text \<open>
  The length of a string in UTF-16 code units, and its first \<open>n\<close> units; a character of two units that
  does not fit is left out, where JavaScript would cut it in half.
\<close>

definition utf16Units :: "char \<Rightarrow> nat" where
  "utf16Units c = (let n = (of_char c :: nat) in if n < 128 then 1 else if n < 192 then 0 else if n < 240 then 1 else 2)"

definition utf16Length :: "string \<Rightarrow> nat" where
  "utf16Length s = sum_list (map utf16Units s)"

fun utf16Take :: "nat \<Rightarrow> string \<Rightarrow> string" where
  "utf16Take n [] = []"
| "utf16Take n (c # s) = (if utf16Units c \<le> n then c # utf16Take (n - utf16Units c) s else [])"

lemma utf16Take_length: "utf16Length (utf16Take n s) \<le> n"
  by (induction n s rule: utf16Take.induct) (auto simp: utf16Length_def)

lemma utf16Take_prefix: "prefix (utf16Take n s) s"
  by (induction n s rule: utf16Take.induct) auto

lemma utf16Length_append [simp]: "utf16Length (s @ t) = utf16Length s + utf16Length t"
  by (simp add: utf16Length_def)

text \<open>
  \<open>toLowerCase\<close> on the letters of ASCII; the strings that the code lowers are identifiers, and letters outside
  ASCII with a lower case form are outside the model.
\<close>

definition lowerAscii :: "char \<Rightarrow> char" where
  "lowerAscii c = (let n = (of_char c :: nat) in if 65 \<le> n \<and> n \<le> 90 then char_of (n + 32) else c)"

definition toLowerCase :: "string \<Rightarrow> string" where
  "toLowerCase s = map lowerAscii s"

lemma of_char_lowerAscii:
  "(of_char (lowerAscii c) :: nat) = (if 65 \<le> (of_char c :: nat) \<and> (of_char c :: nat) \<le> 90 then of_char c + 32 else of_char c)"
proof -
  have "(of_char (char_of (n + 32) :: char) :: nat) = n + 32" if "n \<le> 90" for n :: nat
    unfolding of_char_of using that by (intro mod_less) simp
  then show ?thesis by (auto simp: lowerAscii_def Let_def)
qed

lemma lowerAscii_idem [simp]: "lowerAscii (lowerAscii c) = lowerAscii c"
proof -
  let ?n = "of_char (lowerAscii c) :: nat"
  have "\<not> (65 \<le> ?n \<and> ?n \<le> 90)" using of_char_lowerAscii [of c] by auto
  then show ?thesis unfolding lowerAscii_def [of "lowerAscii c"] Let_def by (simp only: if_False)
qed

lemma toLowerCase_idem [simp]: "toLowerCase (toLowerCase s) = toLowerCase s"
  by (simp add: toLowerCase_def)

lemma toLowerCase_Nil [simp]: "toLowerCase s = [] \<longleftrightarrow> s = []"
  by (simp add: toLowerCase_def)

text \<open>Lowering does not touch the bytes of white space.\<close>

lemma lowerAscii_eq: "\<not> (65 \<le> (of_char c :: nat) \<and> (of_char c :: nat) \<le> 90) \<Longrightarrow> \<not> (97 \<le> (of_char c :: nat) \<and> (of_char c :: nat) \<le> 122) \<Longrightarrow>
   lowerAscii d = c \<longleftrightarrow> d = c"
proof -
  assume notUpper: "\<not> (65 \<le> (of_char c :: nat) \<and> (of_char c :: nat) \<le> 90)"
    and notLower: "\<not> (97 \<le> (of_char c :: nat) \<and> (of_char c :: nat) \<le> 122)"
  show ?thesis
  proof
    assume eq: "lowerAscii d = c"
    show "d = c"
    proof (cases "65 \<le> (of_char d :: nat) \<and> (of_char d :: nat) \<le> 90")
      case True
      then have "(of_char c :: nat) = of_char d + 32" using of_char_lowerAscii [of d] eq by simp
      then show ?thesis using True notLower by simp
    next
      case False
      then show ?thesis using eq unfolding lowerAscii_def Let_def by (simp only: if_False)
    qed
  next
    assume "d = c"
    then show "lowerAscii d = c" using notUpper unfolding lowerAscii_def Let_def by (simp only: if_False)
  qed
qed

lemma isWs_lower [simp]:
  "isWs1 (lowerAscii a) = isWs1 a" "isWs2 (lowerAscii a) (lowerAscii b) = isWs2 a b"
  "isWs3 (lowerAscii a) (lowerAscii b) (lowerAscii c) = isWs3 a b c"
  by (simp_all add: isWs1_def isWs2_def isWs3_def lowerAscii_eq)

lemma strip_lower:
  assumes "\<And>a b. p (lowerAscii a) (lowerAscii b) = p a b"
    and "\<And>a b c. q (lowerAscii a) (lowerAscii b) (lowerAscii c) = q a b c"
  shows "strip p q (map lowerAscii s) = map lowerAscii (strip p q s)"
  using assms by (induction p q s rule: strip.induct) simp_all

lemma trim_toLowerCase: "trim (toLowerCase s) = toLowerCase (trim s)"
  by (simp add: trim_def trimStart_def trimEnd_def toLowerCase_def strip_lower rev_map)

section \<open>Lists of identifiers\<close>

text \<open>
  The loop that several components use: trim each string and drop the empty ones and those already
  seen.
\<close>

fun dedupeFrom :: "string list \<Rightarrow> string list \<Rightarrow> string list" where
  "dedupeFrom seen [] = []"
| "dedupeFrom seen (v # vs) =
     (if trim v = [] \<or> trim v \<in> set seen then dedupeFrom seen vs
      else trim v # dedupeFrom (trim v # seen) vs)"

lemma dedupeFrom_set: "set (dedupeFrom seen vs) = {s \<in> trim ` set vs. s \<noteq> []} - set seen"
  by (induction seen vs rule: dedupeFrom.induct) auto

lemma dedupeFrom_distinct: "distinct (dedupeFrom seen vs)"
  by (induction seen vs rule: dedupeFrom.induct) (auto simp: dedupeFrom_set)

lemma dedupeFrom_trimmed: "s \<in> set (dedupeFrom seen vs) \<Longrightarrow> trimmed s"
  by (auto simp: dedupeFrom_set trimmed_def)

lemma dedupeFrom_id:
  "distinct vs \<Longrightarrow> \<forall>s \<in> set vs. trimmed s \<Longrightarrow> set vs \<inter> set seen = {} \<Longrightarrow> dedupeFrom seen vs = vs"
  by (induction seen vs rule: dedupeFrom.induct) (auto simp: trimmed_def)

lemma dedupeFrom_idem: "dedupeFrom [] (dedupeFrom [] vs) = dedupeFrom [] vs"
  by (rule dedupeFrom_id) (auto simp: dedupeFrom_distinct dedupeFrom_trimmed)

text \<open>\<open>Array.from(new Set(values))\<close>: the first occurrence of each value stays.\<close>

fun uniqueFrom :: "'a list \<Rightarrow> 'a list \<Rightarrow> 'a list" where
  "uniqueFrom seen [] = []"
| "uniqueFrom seen (v # vs) = (if v \<in> set seen then uniqueFrom seen vs else v # uniqueFrom (v # seen) vs)"

lemma uniqueFrom_set: "set (uniqueFrom seen vs) = set vs - set seen"
  by (induction seen vs rule: uniqueFrom.induct) auto

lemma uniqueFrom_distinct [simp]: "distinct (uniqueFrom seen vs)"
  by (induction seen vs rule: uniqueFrom.induct) (auto simp: uniqueFrom_set)

lemma uniqueFrom_id: "distinct vs \<Longrightarrow> set vs \<inter> set seen = {} \<Longrightarrow> uniqueFrom seen vs = vs"
  by (induction seen vs rule: uniqueFrom.induct) auto

lemma uniqueFrom_subseq: "subseq (uniqueFrom seen vs) vs"
  by (induction seen vs rule: uniqueFrom.induct) (auto intro: list_emb_Cons)

lemma uniqueFrom_Nil_iff [simp]: "uniqueFrom [] vs = [] \<longleftrightarrow> vs = []"
  by (cases vs) simp_all

section \<open>\<open>JSON.stringify\<close>\<close>

definition hexDigit :: "nat \<Rightarrow> char" where
  "hexDigit n = (if n < 10 then char_of (48 + n) else char_of (87 + n))"

definition escapeChar :: "char \<Rightarrow> string" where
  "escapeChar c =
     (let n = (of_char c :: nat) in
      if c = CHR 0x22 then [CHR 0x5C, CHR 0x22]
      else if c = CHR 0x5C then [CHR 0x5C, CHR 0x5C]
      else if n = 8 then [CHR 0x5C, CHR ''b'']
      else if n = 9 then [CHR 0x5C, CHR ''t'']
      else if n = 10 then [CHR 0x5C, CHR ''n'']
      else if n = 12 then [CHR 0x5C, CHR ''f'']
      else if n = 13 then [CHR 0x5C, CHR ''r'']
      else if n < 32 then [CHR 0x5C, CHR ''u'', CHR ''0'', CHR ''0'', hexDigit (n div 16), hexDigit (n mod 16)]
      else [c])"

definition quoted :: "string \<Rightarrow> string" where
  "quoted s = [CHR 0x22] @ concat (map escapeChar s) @ [CHR 0x22]"

text \<open>\<open>JSON.stringify(value)\<close>\<close>

fun stringify :: "(rat \<Rightarrow> string) \<Rightarrow> json \<Rightarrow> string" where
  "stringify numText JNull = ''null''"
| "stringify numText (JBool b) = (if b then ''true'' else ''false'')"
| "stringify numText (JNum q) = numText q"
| "stringify numText (JStr s) = quoted s"
| "stringify numText (JArr vs) = ''['' @ joinWith '','' (map (stringify numText) vs) @ '']''"
| "stringify numText (JObj r) =
     ''{'' @ joinWith '','' (map (\<lambda>(k, v). quoted k @ '':'' @ stringify numText v) r) @ ''}''"

text \<open>\<open>JSON.stringify(value, null, 2)\<close>, at a depth of \<open>n\<close> levels\<close>

definition indented :: "nat \<Rightarrow> string" where
  "indented n = CHR 0x0A # replicate (2 * n) (CHR 0x20)"

fun stringifyAt :: "(rat \<Rightarrow> string) \<Rightarrow> nat \<Rightarrow> json \<Rightarrow> string" where
  "stringifyAt numText n (JArr vs) =
     (if vs = [] then ''[]''
      else ''['' @ indented (Suc n) @ joinWith ('','' @ indented (Suc n)) (map (stringifyAt numText (Suc n)) vs) @
           indented n @ '']'')"
| "stringifyAt numText n (JObj r) =
     (if r = [] then ''{}''
      else ''{'' @ indented (Suc n) @
           joinWith ('','' @ indented (Suc n)) (map (\<lambda>(k, v). quoted k @ '': '' @ stringifyAt numText (Suc n) v) r) @
           indented n @ ''}'')"
| "stringifyAt numText n v = stringify numText v"

text \<open>The text of an object starts and ends with a brace, so that it is never blank.\<close>

lemma braces_trimmed: "trimmed (''{'' @ s @ ''}'')"
  by (rule trimmed_ascii) (simp_all add: visible_def)

lemma trim_stringify_obj [simp]: "trim (stringify numText (JObj r)) = stringify numText (JObj r)"
  using braces_trimmed by (simp add: trimmed_def)

lemma trim_stringifyAt_obj [simp]: "trim (stringifyAt numText n (JObj r)) = stringifyAt numText n (JObj r)"
proof (cases "r = []")
  case True
  then show ?thesis using braces_trimmed [of "[]"] by (simp add: trimmed_def)
next
  case False
  then show ?thesis
    using braces_trimmed [of "indented (Suc n) @
      joinWith ('','' @ indented (Suc n)) (map (\<lambda>(k, v). quoted k @ '': '' @ stringifyAt numText (Suc n) v) r) @ indented n"]
    by (simp add: trimmed_def)
qed

lemma stringify_obj_nonempty [simp]: "stringify numText (JObj r) \<noteq> []" "stringifyAt numText n (JObj r) \<noteq> []"
  by simp_all

section \<open>Dictionaries\<close>

lemma in_updated: "kv \<in> set (AList.update k v xs) \<Longrightarrow> kv = (k, v) \<or> kv \<in> set xs"
  by (induction xs) (auto split: if_splits)

section \<open>Sorting\<close>

text \<open>\<open>Array.prototype.sort\<close> with a comparator, a stable sort: an entry stays before those that do not compare as smaller.\<close>

fun insertSorted :: "('a \<Rightarrow> 'a \<Rightarrow> int) \<Rightarrow> 'a \<Rightarrow> 'a list \<Rightarrow> 'a list" where
  "insertSorted cmp x [] = [x]"
| "insertSorted cmp x (y # ys) = (if cmp y x < 0 then y # insertSorted cmp x ys else x # y # ys)"

definition sortedBy :: "('a \<Rightarrow> 'a \<Rightarrow> int) \<Rightarrow> 'a list \<Rightarrow> 'a list" where
  "sortedBy cmp xs = foldr (insertSorted cmp) xs []"

lemma mset_insertSorted [simp]: "mset (insertSorted cmp x ys) = add_mset x (mset ys)"
  by (induction ys) auto

lemma mset_sortedBy [simp]: "mset (sortedBy cmp xs) = mset xs"
  by (induction xs) (simp_all add: sortedBy_def)

lemma set_sortedBy [simp]: "set (sortedBy cmp xs) = set xs"
  by (metis mset_sortedBy set_mset_mset)

lemma set_insertSorted [simp]: "set (insertSorted cmp x ys) = insert x (set ys)"
  by (metis mset_insertSorted set_mset_add_mset_insert set_mset_mset)

lemma length_sortedBy [simp]: "length (sortedBy cmp xs) = length xs"
  by (metis mset_sortedBy size_mset)

text \<open>What a key orders strictly, the sort orders by the key.\<close>

lemma insertSorted_key:
  fixes key :: "'a \<Rightarrow> int"
  assumes "\<And>x y. key x < key y \<Longrightarrow> cmp x y < 0" and "\<And>x y. key y < key x \<Longrightarrow> \<not> cmp x y < 0"
    and "sorted_wrt (\<lambda>x y. key x \<le> key y) ys"
  shows "sorted_wrt (\<lambda>x y. key x \<le> key y) (insertSorted cmp x ys)"
  using assms(3)
proof (induction ys)
  case (Cons y ys)
  show ?case
  proof (cases "cmp y x < 0")
    case True
    then have "key y \<le> key x" using assms(2) [of x y] by (meson not_le)
    then show ?thesis using True Cons by auto
  next
    case False
    then have "key x \<le> key y" using assms(1) [of y x] by (meson not_le)
    then show ?thesis using False Cons by fastforce
  qed
qed simp

end
