(* ===== verification/Error_Detail.thy ===== *)
theory Error_Detail
  imports Js_Text Thinking_Clone
begin

text \<open>
  The details of a failure as the user can open them: \<open>error-detail-overlay-view-model.ts\<close> and the types and
  constants of \<open>_error-detail-overlay-view-model/\<close>. A failure carries its context in reserved keys of its
  details (\<open>withCopilotErrorDetailMeta\<close>); the view model groups what there is to show. \<open>JSON.parse\<close> and the
  text of a number are the parameters \<open>jsonParse\<close> and \<open>numText\<close>.
\<close>

section \<open>Types and constants\<close>

datatype detail_source_kind = SourcePreflight | SourceRunStart | SourceStreaming

record error_meta =
  em_stage :: "string option"
  em_requestedMethod :: "string option"
  em_status :: "rat option"
  em_rawMessage :: "string option"
  em_summaryMessage :: "string option"
  em_resolvedToolIds :: "string list option"

record error_source =
  es_source :: detail_source_kind
  es_title :: string
  es_summaryMessage :: string
  es_rawMessage :: "string option"
  es_code :: "string option"
  es_stage :: "string option"
  es_requestedMethod :: "string option"
  es_status :: "rat option"
  es_details :: jrecord
  es_resolvedModelId :: "string option"
  es_resolvedModelRoute :: "any_route option"
  es_resolvedToolIds :: "string list"
  es_requestOptions :: jrecord

datatype group_key = SummaryGroup | RequestContextGroup | ToolModelContextGroup | RawDetailsGroup

datatype presentation = PlainTextPresentation | JsonPresentation

datatype content_item =
    KeyValueItem string string
  | ValueListItem string "string list"
  | TextItem "string option" string "presentation option" "json option"

record overlay_group =
  og_key :: group_key
  og_title :: string
  og_description :: string
  og_items :: "content_item list"

record overlay_view =
  ov_title :: string
  ov_summaryMessage :: string
  ov_source :: detail_source_kind
  ov_code :: "string option"
  ov_stage :: "string option"
  ov_groups :: "overlay_group list"
  ov_hasAdditionalDetails :: bool
  ov_emptyStateMessage :: "string option"

definition metaStage :: string where "metaStage = ''__copilotMeta_stage''"
definition metaRequestedMethod :: string where "metaRequestedMethod = ''__copilotMeta_requestedMethod''"
definition metaStatus :: string where "metaStatus = ''__copilotMeta_status''"
definition metaRawMessage :: string where "metaRawMessage = ''__copilotMeta_rawMessage''"
definition metaSummaryMessage :: string where "metaSummaryMessage = ''__copilotMeta_summaryMessage''"
definition metaResolvedToolIds :: string where "metaResolvedToolIds = ''__copilotMeta_resolvedToolIds''"

definition ERROR_DETAIL_META_KEYS :: "string list" where
  "ERROR_DETAIL_META_KEYS = [metaStage, metaRequestedMethod, metaStatus, metaRawMessage, metaSummaryMessage,
     metaResolvedToolIds]"

fun groupOrder :: "group_key \<Rightarrow> nat" where
  "groupOrder SummaryGroup = 0"
| "groupOrder RequestContextGroup = 1"
| "groupOrder ToolModelContextGroup = 2"
| "groupOrder RawDetailsGroup = 3"

section \<open>Reading optional values\<close>

fun readOptionalString :: "json option \<Rightarrow> string option" where
  "readOptionalString (Some (JStr s)) = (if trim s \<noteq> [] then Some (trim s) else None)"
| "readOptionalString _ = None"

text \<open>The same function on a value whose type says that it is a string, \<open>null\<close> or absent.\<close>

definition readText :: "string option \<Rightarrow> string option" where
  "readText s = readOptionalString (map_option JStr s)"

fun readOptionalNumber :: "json option \<Rightarrow> rat option" where
  "readOptionalNumber (Some (JNum q)) = Some q"
| "readOptionalNumber _ = None"

definition hasNonEmptyString :: "string option \<Rightarrow> bool" where
  "hasNonEmptyString v \<longleftrightarrow> (case v of None \<Rightarrow> False | Some s \<Rightarrow> trim s \<noteq> [])"

definition dedupeStringArray :: "string list \<Rightarrow> string list" where
  "dedupeStringArray vals = dedupeFrom [] vals"

fun stringsIn :: "json list \<Rightarrow> string list" where
  "stringsIn [] = []"
| "stringsIn (JStr s # vs) = s # stringsIn vs"
| "stringsIn (v # vs) = stringsIn vs"

fun readOptionalStringArray :: "json option \<Rightarrow> string list" where
  "readOptionalStringArray (Some (JArr vs)) = dedupeStringArray (stringsIn vs)"
| "readOptionalStringArray _ = []"

definition cloneRecord :: "jrecord option \<Rightarrow> jrecord" where
  "cloneRecord r = (case r of None \<Rightarrow> [] | Some r' \<Rightarrow> r')"

section \<open>The reserved keys\<close>

definition setText :: "string \<Rightarrow> string option \<Rightarrow> jrecord \<Rightarrow> jrecord" where
  "setText k v r = (case v of Some s \<Rightarrow> if trim s \<noteq> [] then setProp k (JStr (trim s)) r else r | None \<Rightarrow> r)"

definition withCopilotErrorDetailMeta :: "jrecord option \<Rightarrow> error_meta \<Rightarrow> jrecord" where
  "withCopilotErrorDetailMeta details m =
     (let r1 = setText metaStage (em_stage m) (cloneRecord details);
          r2 = setText metaRequestedMethod (em_requestedMethod m) r1;
          r3 = (case em_status m of Some q \<Rightarrow> setProp metaStatus (JNum q) r2 | None \<Rightarrow> r2);
          r4 = setText metaRawMessage (em_rawMessage m) r3;
          r5 = setText metaSummaryMessage (em_summaryMessage m) r4;
          ids = dedupeStringArray (case em_resolvedToolIds m of None \<Rightarrow> [] | Some ids \<Rightarrow> ids)
      in if ids \<noteq> [] then setProp metaResolvedToolIds (JArr (map JStr ids)) r5 else r5)"

definition readCopilotErrorDetailMeta :: "jrecord option \<Rightarrow> error_meta" where
  "readCopilotErrorDetailMeta details =
     (let r = (case details of None \<Rightarrow> [] | Some r \<Rightarrow> r) in
      \<lparr>em_stage = readOptionalString (prop_of r metaStage),
       em_requestedMethod = readOptionalString (prop_of r metaRequestedMethod),
       em_status = readOptionalNumber (prop_of r metaStatus),
       em_rawMessage = readOptionalString (prop_of r metaRawMessage),
       em_summaryMessage = readOptionalString (prop_of r metaSummaryMessage),
       em_resolvedToolIds = Some (readOptionalStringArray (prop_of r metaResolvedToolIds))\<rparr>)"

definition stripCopilotErrorDetailMeta :: "jrecord option \<Rightarrow> jrecord" where
  "stripCopilotErrorDetailMeta details = deleteProps ERROR_DETAIL_META_KEYS (cloneRecord details)"

section \<open>The source of the details\<close>

text \<open>\<open>RuntimeResolvedModelRoute | RuntimeModelRoute | null\<close>\<close>

fun cloneAnyRoute :: "any_route option \<Rightarrow> any_route option" where
  "cloneAnyRoute None = None"
| "cloneAnyRoute (Some (ResolvedRoute r)) = Some (ResolvedRoute (cloneRuntimeResolvedModelRoute r))"
| "cloneAnyRoute (Some (PlainRoute r)) = Some (PlainRoute (cloneRuntimeModelRoute r))"

fun readModelIdFromRoute :: "any_route option \<Rightarrow> string option" where
  "readModelIdFromRoute None = None"
| "readModelIdFromRoute (Some (ResolvedRoute r)) = Some (rs_modelId r)"
| "readModelIdFromRoute (Some (PlainRoute r)) =
     (case mr_routeRef r of Some (Some ref) \<Rightarrow> Some (rr_modelId ref) | _ \<Rightarrow> None)"

text \<open>The argument of \<open>createCopilotErrorDetailSource\<close>: its optional properties may be \<open>null\<close> or absent.\<close>

record error_input =
  ei_source :: detail_source_kind
  ei_title :: "string option"
  ei_summaryMessage :: string
  ei_rawMessage :: "string option"
  ei_code :: "string option"
  ei_stage :: "string option"
  ei_requestedMethod :: "string option"
  ei_status :: "rat option"
  ei_details :: "jrecord option"
  ei_resolvedModelId :: "string option"
  ei_resolvedModelRoute :: "any_route option"
  ei_resolvedToolIds :: "string list option"
  ei_requestOptions :: "jrecord option"

definition failedTitle :: string where
  "failedTitle = [CHR 0xE5, CHR 0x8F, CHR 0x91, CHR 0xE9, CHR 0x80, CHR 0x81, CHR 0xE5, CHR 0xA4, CHR 0xB1, CHR 0xE8, CHR 0xB4, CHR 0xA5]"

definition genericFailure :: string where
  "genericFailure = [CHR 0xE5, CHR 0xBD, CHR 0x93, CHR 0xE5, CHR 0x89, CHR 0x8D, CHR 0xE5, CHR 0x93, CHR 0x8D, CHR 0xE5, CHR 0xBA, CHR 0x94, CHR 0xE5, CHR 0xA4, CHR 0xB1, CHR 0xE8, CHR 0xB4, CHR 0xA5, CHR 0xEF, CHR 0xBC, CHR 0x8C, CHR 0xE8, CHR 0xAF, CHR 0xB7, CHR 0xE9, CHR 0x87, CHR 0x8D, CHR 0xE8, CHR 0xAF, CHR 0x95, CHR 0xE3, CHR 0x80, CHR 0x82]"

definition createCopilotErrorDetailSource :: "error_input \<Rightarrow> error_source" where
  "createCopilotErrorDetailSource i =
     \<lparr>es_source = ei_source i,
      es_title = (case readText (ei_title i) of None \<Rightarrow> failedTitle | Some t \<Rightarrow> t),
      es_summaryMessage = (if trim (ei_summaryMessage i) = [] then genericFailure else trim (ei_summaryMessage i)),
      es_rawMessage = readText (ei_rawMessage i),
      es_code = readText (ei_code i),
      es_stage = readText (ei_stage i),
      es_requestedMethod = readText (ei_requestedMethod i),
      es_status = ei_status i,
      es_details = cloneRecord (ei_details i),
      es_resolvedModelId = readText (ei_resolvedModelId i),
      es_resolvedModelRoute = cloneAnyRoute (ei_resolvedModelRoute i),
      es_resolvedToolIds = dedupeStringArray (case ei_resolvedToolIds i of None \<Rightarrow> [] | Some ids \<Rightarrow> ids),
      es_requestOptions = cloneRecord (ei_requestOptions i)\<rparr>"

section \<open>Failures of external tools\<close>

definition MCP_NOT_PROVIDED :: string where
  "MCP_NOT_PROVIDED = [CHR 0xE6, CHR 0x9C, CHR 0xAA, CHR 0xE6, CHR 0x8F, CHR 0x90, CHR 0xE4, CHR 0xBE, CHR 0x9B]"

record mcp_failure =
  mf_toolName :: string
  mf_toolId :: string
  mf_toolCallId :: string
  mf_serverName :: string
  mf_serverId :: string
  mf_phase :: string
  mf_diagnosticSummary :: string
  mf_stderrSummary :: string
  mf_snapshotRevision :: string
  mf_catalogVersion :: string
  mf_targetSummary :: string

text \<open>\<open>/^mcp[.:/]/iu\<close>\<close>

fun startsWithMcp :: "string \<Rightarrow> bool" where
  "startsWithMcp (a # b # c # d # s) \<longleftrightarrow> map lowerAscii [a, b, c] = ''mcp'' \<and> d \<in> set ''.:/''"
| "startsWithMcp _ \<longleftrightarrow> False"

definition isMcpRelatedFailure ::
  "string option \<Rightarrow> string option \<Rightarrow> string option \<Rightarrow> string option \<Rightarrow> string option \<Rightarrow> bool" where
  "isMcpRelatedFailure toolId serverId requestedServerId remoteToolName requestedRemoteToolName \<longleftrightarrow>
     (case toolId of None \<Rightarrow> False | Some t \<Rightarrow> startsWithMcp t) \<or>
     (serverId \<noteq> None \<or> requestedServerId \<noteq> None \<or> remoteToolName \<noteq> None \<or> requestedRemoteToolName \<noteq> None)"

fun readWithFallback :: "string option list \<Rightarrow> string \<Rightarrow> string" where
  "readWithFallback [] fallback = fallback"
| "readWithFallback (Some s # cs) fallback = s"
| "readWithFallback (None # cs) fallback = readWithFallback cs fallback"

definition deriveToolNameFromToolId :: "string option \<Rightarrow> string option" where
  "deriveToolNameFromToolId toolId =
     (case toolId of None \<Rightarrow> None
      | Some t \<Rightarrow> (let parts = splitOn CHR ''.'' t in
          if length parts > 1 then Some (parts ! (length parts - 2)) else Some t))"

definition readMcpFailureToolName :: "string option \<Rightarrow> string option \<Rightarrow> string option \<Rightarrow> string" where
  "readMcpFailureToolName remoteToolName requestedRemoteToolName toolId =
     readWithFallback [remoteToolName, requestedRemoteToolName, deriveToolNameFromToolId toolId] MCP_NOT_PROVIDED"

definition readField :: "jrecord \<Rightarrow> string \<Rightarrow> string option" where
  "readField details k = readOptionalString (prop_of details k)"

definition readMcpFailureServerName :: "jrecord \<Rightarrow> string \<Rightarrow> string" where
  "readMcpFailureServerName details resolvedServerId =
     readWithFallback [readField details ''serverName'', readField details ''displayName'', Some resolvedServerId]
       MCP_NOT_PROVIDED"

definition readMcpFailurePhase :: "jrecord \<Rightarrow> string option \<Rightarrow> string" where
  "readMcpFailurePhase details stage =
     readWithFallback [readField details ''phase'', readField details ''stage'', stage] MCP_NOT_PROVIDED"

definition readMcpFailureDiagnosticSummary :: "jrecord \<Rightarrow> string" where
  "readMcpFailureDiagnosticSummary details =
     readWithFallback [readField details ''diagnosticSummary'', readField details ''errorSummary'',
       readField details ''diagnostic''] MCP_NOT_PROVIDED"

definition readOptionalIntegerText :: "(rat \<Rightarrow> string) \<Rightarrow> json option \<Rightarrow> string option" where
  "readOptionalIntegerText numText v = map_option numText (readOptionalNumber v)"

definition resolveMcpSnapshotRevision :: "(rat \<Rightarrow> string) \<Rightarrow> jrecord \<Rightarrow> string" where
  "resolveMcpSnapshotRevision numText details =
     readWithFallback [readOptionalIntegerText numText (prop_of details ''snapshotRevision''),
       readOptionalIntegerText numText (prop_of details ''requestedSnapshotRevision'')] MCP_NOT_PROVIDED"

definition resolveMcpCatalogVersion :: "(rat \<Rightarrow> string) \<Rightarrow> jrecord \<Rightarrow> string" where
  "resolveMcpCatalogVersion numText details =
     readWithFallback [readOptionalIntegerText numText (prop_of details ''catalogVersion''),
       readOptionalIntegerText numText (prop_of details ''catalogRevision'')] MCP_NOT_PROVIDED"

definition summarizeDefinedEntries :: "(string \<times> string option) list \<Rightarrow> string option" where
  "summarizeDefinedEntries r =
     (let entries = concat (map (\<lambda>(k, v). case v of None \<Rightarrow> [] | Some s \<Rightarrow> [k @ ''='' @ s]) r)
      in if entries \<noteq> [] then Some (joinWith ''; '' entries) else None)"

definition unlessNotProvided :: "string \<Rightarrow> string option" where
  "unlessNotProvided s = (if s = MCP_NOT_PROVIDED then None else Some s)"

definition readMcpFailureDetail :: "(rat \<Rightarrow> string) \<Rightarrow> error_source \<Rightarrow> mcp_failure option" where
  "readMcpFailureDetail numText src =
     (let details = es_details src;
          toolId = readField details ''toolId'';
          serverId = readField details ''serverId'';
          requestedServerId = readField details ''requestedServerId'';
          remoteToolName = readField details ''remoteToolName'';
          requestedRemoteToolName = readField details ''requestedRemoteToolName'';
          resolvedServerId = readWithFallback [serverId, requestedServerId] MCP_NOT_PROVIDED;
          resolvedToolId = readWithFallback [toolId] MCP_NOT_PROVIDED;
          resolvedToolCallId = readWithFallback [readField details ''toolCallId''] MCP_NOT_PROVIDED;
          toolName = readMcpFailureToolName remoteToolName requestedRemoteToolName toolId
      in if \<not> isMcpRelatedFailure toolId serverId requestedServerId remoteToolName requestedRemoteToolName then None
         else Some
           \<lparr>mf_toolName = toolName, mf_toolId = resolvedToolId, mf_toolCallId = resolvedToolCallId,
            mf_serverName = readMcpFailureServerName details resolvedServerId,
            mf_serverId = resolvedServerId,
            mf_phase = readMcpFailurePhase details (es_stage src),
            mf_diagnosticSummary = readMcpFailureDiagnosticSummary details,
            mf_stderrSummary = readWithFallback [readField details ''stderrSummary''] MCP_NOT_PROVIDED,
            mf_snapshotRevision = resolveMcpSnapshotRevision numText details,
            mf_catalogVersion = resolveMcpCatalogVersion numText details,
            mf_targetSummary = readWithFallback [summarizeDefinedEntries
              [(''serverId'', unlessNotProvided resolvedServerId), (''remoteToolName'', unlessNotProvided toolName),
               (''toolCallId'', unlessNotProvided resolvedToolCallId)]] MCP_NOT_PROVIDED\<rparr>)"

section \<open>The groups\<close>

text \<open>\<open>if (value !== null) items.push({ kind: 'key-value', label, value })\<close>\<close>

definition keyValueIf :: "string \<Rightarrow> string option \<Rightarrow> content_item list" where
  "keyValueIf label v = (case v of None \<Rightarrow> [] | Some s \<Rightarrow> [KeyValueItem label s])"

definition groupUnlessEmpty :: "group_key \<Rightarrow> string \<Rightarrow> string \<Rightarrow> content_item list \<Rightarrow> overlay_group option" where
  "groupUnlessEmpty key title description items =
     (if items = [] then None
      else Some \<lparr>og_key = key, og_title = title, og_description = description, og_items = items\<rparr>)"

definition buildSummaryGroup :: "error_source \<Rightarrow> overlay_group" where
  "buildSummaryGroup src =
     \<lparr>og_key = SummaryGroup, og_title = [CHR 0xE6, CHR 0x91, CHR 0x98, CHR 0xE8, CHR 0xA6, CHR 0x81],
      og_description = [CHR 0xE6, CHR 0xA6, CHR 0x82, CHR 0xE6, CHR 0x8B, CHR 0xAC, CHR 0xE8, CHR 0xBF, CHR 0x99, CHR 0xE6, CHR 0xAC, CHR 0xA1, CHR 0xE5, CHR 0xA4, CHR 0xB1, CHR 0xE8, CHR 0xB4, CHR 0xA5, CHR 0xE5, CHR 0x8F, CHR 0x91, CHR 0xE7, CHR 0x94, CHR 0x9F, CHR 0xE4, CHR 0xBA, CHR 0x86, CHR 0xE4, CHR 0xBB, CHR 0x80, CHR 0xE4, CHR 0xB9, CHR 0x88, CHR 0xEF, CHR 0xBC, CHR 0x8C, CHR 0xE4, CHR 0xBE, CHR 0xBF, CHR 0xE4, CHR 0xBA, CHR 0x8E, CHR 0xE5, CHR 0x85, CHR 0x88, CHR 0xE5, CHR 0xBF, CHR 0xAB, CHR 0xE9, CHR 0x80, CHR 0x9F, CHR 0xE5, CHR 0x88, CHR 0xA4, CHR 0xE6, CHR 0x96, CHR 0xAD, CHR 0xE9, CHR 0x97, CHR 0xAE, CHR 0xE9, CHR 0xA2, CHR 0x98, CHR 0xE6, CHR 0x96, CHR 0xB9, CHR 0xE5, CHR 0x90, CHR 0x91, CHR 0xE3, CHR 0x80, CHR 0x82],
      og_items = [KeyValueItem [CHR 0xE6, CHR 0xA0, CHR 0x87, CHR 0xE9, CHR 0xA2, CHR 0x98] (es_title src), KeyValueItem [CHR 0xE8, CHR 0xAF, CHR 0xB4, CHR 0xE6, CHR 0x98, CHR 0x8E] (es_summaryMessage src)]
        @ keyValueIf [CHR 0xE5, CHR 0xA4, CHR 0xB1, CHR 0xE8, CHR 0xB4, CHR 0xA5, CHR 0xE9, CHR 0x98, CHR 0xB6, CHR 0xE6, CHR 0xAE, CHR 0xB5] (es_stage src) @ keyValueIf [CHR 0xE9, CHR 0x94, CHR 0x99, CHR 0xE8, CHR 0xAF, CHR 0xAF, CHR 0xE7, CHR 0xA0, CHR 0x81] (es_code src)\<rparr>"

text \<open>At most 160 code units of the serialised options, the rest replaced by an ellipsis.\<close>

definition summarizeRecord :: "(rat \<Rightarrow> string) \<Rightarrow> jrecord \<Rightarrow> string option" where
  "summarizeRecord numText r =
     (if r = [] then None
      else let serialized = stringify numText (JObj r) in
        if trim serialized = [] then None
        else Some (if utf16Length serialized > 160 then utf16Take 157 serialized @ [CHR 0xE2, CHR 0x80, CHR 0xA6] else serialized))"

definition stringifyRecord :: "(rat \<Rightarrow> string) \<Rightarrow> jrecord \<Rightarrow> string option" where
  "stringifyRecord numText r =
     (if r = [] then None
      else let serialized = stringifyAt numText 0 (JObj r) in
        if trim serialized = [] then None else Some serialized)"

definition buildRequestContextGroup :: "(rat \<Rightarrow> string) \<Rightarrow> error_source \<Rightarrow> overlay_group option" where
  "buildRequestContextGroup numText src =
     groupUnlessEmpty RequestContextGroup [CHR 0xE8, CHR 0xAF, CHR 0xB7, CHR 0xE6, CHR 0xB1, CHR 0x82, CHR 0x20, CHR 0x2F, CHR 0x20, CHR 0xE8, CHR 0xBF, CHR 0x90, CHR 0xE8, CHR 0xA1, CHR 0x8C, CHR 0xE4, CHR 0xB8, CHR 0x8A, CHR 0xE4, CHR 0xB8, CHR 0x8B, CHR 0xE6, CHR 0x96, CHR 0x87] [CHR 0xE8, CHR 0xAF, CHR 0xB4, CHR 0xE6, CHR 0x98, CHR 0x8E, CHR 0xE5, CHR 0xA4, CHR 0xB1, CHR 0xE8, CHR 0xB4, CHR 0xA5, CHR 0xE5, CHR 0x8F, CHR 0x91, CHR 0xE7, CHR 0x94, CHR 0x9F, CHR 0xE5, CHR 0x9C, CHR 0xA8, CHR 0xE5, CHR 0x93, CHR 0xAA, CHR 0xE4, CHR 0xB8, CHR 0xAA, CHR 0xE8, CHR 0xAF, CHR 0xB7, CHR 0xE6, CHR 0xB1, CHR 0x82, CHR 0xE5, CHR 0x8A, CHR 0xA8, CHR 0xE4, CHR 0xBD, CHR 0x9C, CHR 0xE6, CHR 0x88, CHR 0x96, CHR 0xE8, CHR 0xBF, CHR 0x90, CHR 0xE8, CHR 0xA1, CHR 0x8C, CHR 0xE9, CHR 0x98, CHR 0xB6, CHR 0xE6, CHR 0xAE, CHR 0xB5, CHR 0xE3, CHR 0x80, CHR 0x82]
       (keyValueIf [CHR 0xE8, CHR 0xAF, CHR 0xB7, CHR 0xE6, CHR 0xB1, CHR 0x82, CHR 0xE5, CHR 0x8A, CHR 0xA8, CHR 0xE4, CHR 0xBD, CHR 0x9C] (es_requestedMethod src) @
        keyValueIf [CHR 0xE9, CHR 0x98, CHR 0xB6, CHR 0xE6, CHR 0xAE, CHR 0xB5] (es_stage src) @
        keyValueIf [CHR 0xE7, CHR 0x8A, CHR 0xB6, CHR 0xE6, CHR 0x80, CHR 0x81, CHR 0xE7, CHR 0xA0, CHR 0x81] (map_option numText (es_status src)) @
        keyValueIf [CHR 0xE8, CHR 0xAF, CHR 0xB7, CHR 0xE6, CHR 0xB1, CHR 0x82, CHR 0xE9, CHR 0x80, CHR 0x89, CHR 0xE9, CHR 0xA1, CHR 0xB9] (summarizeRecord numText (es_requestOptions src)) @
        (case readMcpFailureDetail numText src of None \<Rightarrow> []
         | Some m \<Rightarrow> [KeyValueItem [CHR 0xE8, CHR 0xB0, CHR 0x83, CHR 0xE7, CHR 0x94, CHR 0xA8, CHR 0xE9, CHR 0x98, CHR 0xB6, CHR 0xE6, CHR 0xAE, CHR 0xB5] (mf_phase m), KeyValueItem [CHR 0xE5, CHR 0xBF, CHR 0xAB, CHR 0xE7, CHR 0x85, CHR 0xA7, CHR 0xE7, CHR 0x89, CHR 0x88, CHR 0xE6, CHR 0x9C, CHR 0xAC] (mf_snapshotRevision m),
             KeyValueItem [CHR 0xE7, CHR 0x9B, CHR 0xAE, CHR 0xE5, CHR 0xBD, CHR 0x95, CHR 0xE7, CHR 0x89, CHR 0x88, CHR 0xE6, CHR 0x9C, CHR 0xAC] (mf_catalogVersion m), KeyValueItem [CHR 0xE7, CHR 0x9B, CHR 0xAE, CHR 0xE6, CHR 0xA0, CHR 0x87, CHR 0xE6, CHR 0x91, CHR 0x98, CHR 0xE8, CHR 0xA6, CHR 0x81] (mf_targetSummary m)]))"

text \<open>\<open>segments.map(trim).filter(nonEmpty).join(' / ') || null\<close>\<close>

definition joinParts :: "string list \<Rightarrow> string option" where
  "joinParts parts =
     (let s = joinWith '' / '' (filter (\<lambda>p. p \<noteq> []) (map trim parts)) in if s = [] then None else Some s)"

fun formatRouteSummary :: "any_route option \<Rightarrow> string option" where
  "formatRouteSummary None = None"
| "formatRouteSummary (Some (ResolvedRoute r)) =
     joinParts [rs_providerProfileId r, (if rs_provider r = [] then rs_providerId r else rs_provider r),
       rs_modelId r, rs_endpointType r]"
| "formatRouteSummary (Some (PlainRoute r)) =
     (case mr_routeRef r of Some (Some ref) \<Rightarrow> joinParts [rr_profileId ref, rr_modelId ref] | _ \<Rightarrow> None)"

definition buildToolModelContextGroup :: "(rat \<Rightarrow> string) \<Rightarrow> error_source \<Rightarrow> overlay_group option" where
  "buildToolModelContextGroup numText src =
     (let modelId = (case es_resolvedModelId src of
            None \<Rightarrow> readModelIdFromRoute (es_resolvedModelRoute src) | Some m \<Rightarrow> Some m) in
      groupUnlessEmpty ToolModelContextGroup [CHR 0xE5, CHR 0xB7, CHR 0xA5, CHR 0xE5, CHR 0x85, CHR 0xB7, CHR 0x20, CHR 0x2F, CHR 0x20, CHR 0xE6, CHR 0xA8, CHR 0xA1, CHR 0xE5, CHR 0x9E, CHR 0x8B, CHR 0xE4, CHR 0xB8, CHR 0x8A, CHR 0xE4, CHR 0xB8, CHR 0x8B, CHR 0xE6, CHR 0x96, CHR 0x87] [CHR 0xE5, CHR 0xB1, CHR 0x95, CHR 0xE7, CHR 0xA4, CHR 0xBA, CHR 0xE5, CHR 0x92, CHR 0x8C, CHR 0xE6, CHR 0x9C, CHR 0xAC, CHR 0xE6, CHR 0xAC, CHR 0xA1, CHR 0xE5, CHR 0xA4, CHR 0xB1, CHR 0xE8, CHR 0xB4, CHR 0xA5, CHR 0xE7, CHR 0x9B, CHR 0xB8, CHR 0xE5, CHR 0x85, CHR 0xB3, CHR 0xE7, CHR 0x9A, CHR 0x84, CHR 0xE6, CHR 0xA8, CHR 0xA1, CHR 0xE5, CHR 0x9E, CHR 0x8B, CHR 0xE3, CHR 0x80, CHR 0x81, CHR 0xE8, CHR 0xB7, CHR 0xAF, CHR 0xE7, CHR 0x94, CHR 0xB1, CHR 0xE4, CHR 0xB8, CHR 0x8E, CHR 0xE5, CHR 0xB7, CHR 0xA5, CHR 0xE5, CHR 0x85, CHR 0xB7, CHR 0xE4, CHR 0xB8, CHR 0x8A, CHR 0xE4, CHR 0xB8, CHR 0x8B, CHR 0xE6, CHR 0x96, CHR 0x87, CHR 0xE3, CHR 0x80, CHR 0x82]
        (keyValueIf [CHR 0xE6, CHR 0xA8, CHR 0xA1, CHR 0xE5, CHR 0x9E, CHR 0x8B] modelId @
         keyValueIf [CHR 0xE8, CHR 0xB7, CHR 0xAF, CHR 0xE7, CHR 0x94, CHR 0xB1] (formatRouteSummary (es_resolvedModelRoute src)) @
         (if es_resolvedToolIds src \<noteq> [] then [ValueListItem [CHR 0xE5, CHR 0xB7, CHR 0xA5, CHR 0xE5, CHR 0x85, CHR 0xB7] (es_resolvedToolIds src)] else []) @
         (case readMcpFailureDetail numText src of None \<Rightarrow> []
          | Some m \<Rightarrow> [KeyValueItem [CHR 0xE5, CHR 0xB7, CHR 0xA5, CHR 0xE5, CHR 0x85, CHR 0xB7, CHR 0xE5, CHR 0x90, CHR 0x8D, CHR 0xE7, CHR 0xA7, CHR 0xB0] (mf_toolName m), KeyValueItem ''toolId'' (mf_toolId m),
              KeyValueItem ''toolCallId'' (mf_toolCallId m), KeyValueItem [CHR 0xE6, CHR 0x9C, CHR 0x8D, CHR 0xE5, CHR 0x8A, CHR 0xA1, CHR 0xE5, CHR 0x99, CHR 0xA8, CHR 0xE5, CHR 0x90, CHR 0x8D, CHR 0xE7, CHR 0xA7, CHR 0xB0] (mf_serverName m),
              KeyValueItem ''serverId'' (mf_serverId m)])))"

fun isErrorDetailStructuredJsonValue :: "json \<Rightarrow> bool" where
  "isErrorDetailStructuredJsonValue (JArr _) = True"
| "isErrorDetailStructuredJsonValue (JObj _) = True"
| "isErrorDetailStructuredJsonValue _ = False"

text \<open>\<open>jsonParse s = None\<close> says that \<open>JSON.parse(s)\<close> throws.\<close>

definition parseErrorDetailJsonTextForViewer :: "(string \<Rightarrow> json option) \<Rightarrow> string \<Rightarrow> json option" where
  "parseErrorDetailJsonTextForViewer jsonParse s =
     (if trim s = [] then None
      else case jsonParse (trim s) of None \<Rightarrow> None
        | Some v \<Rightarrow> if isErrorDetailStructuredJsonValue v then Some v else None)"

definition buildRawDetailsGroup ::
  "(string \<Rightarrow> json option) \<Rightarrow> (rat \<Rightarrow> string) \<Rightarrow> error_source \<Rightarrow> overlay_group option" where
  "buildRawDetailsGroup jsonParse numText src =
     (let rawMessage = (if es_rawMessage src = None \<or> es_rawMessage src = Some (es_summaryMessage src) then None
            else es_rawMessage src);
          rawDetails = stripCopilotErrorDetailMeta (Some (es_details src)) in
      groupUnlessEmpty RawDetailsGroup [CHR 0xE5, CHR 0x8E, CHR 0x9F, CHR 0xE5, CHR 0xA7, CHR 0x8B, CHR 0xE8, CHR 0xAF, CHR 0xA6, CHR 0xE6, CHR 0x83, CHR 0x85] [CHR 0xE4, CHR 0xBF, CHR 0x9D, CHR 0xE7, CHR 0x95, CHR 0x99, CHR 0xE6, CHR 0x9C, CHR 0xAA, CHR 0xE7, CHR 0xBB, CHR 0x8F, CHR 0xE4, CHR 0xBA, CHR 0xA7, CHR 0xE5, CHR 0x93, CHR 0x81, CHR 0xE5, CHR 0x8C, CHR 0x96, CHR 0xE6, CHR 0x94, CHR 0xB9, CHR 0xE5, CHR 0x86, CHR 0x99, CHR 0xE7, CHR 0x9A, CHR 0x84, CHR 0xE5, CHR 0xBA, CHR 0x95, CHR 0xE5, CHR 0xB1, CHR 0x82, CHR 0xE9, CHR 0x94, CHR 0x99, CHR 0xE8, CHR 0xAF, CHR 0xAF, CHR 0xE4, CHR 0xBF, CHR 0xA1, CHR 0xE6, CHR 0x81, CHR 0xAF, CHR 0xEF, CHR 0xBC, CHR 0x8C, CHR 0xE4, CHR 0xBE, CHR 0xBF, CHR 0xE4, CHR 0xBA, CHR 0x8E, CHR 0xE8, CHR 0xBD, CHR 0xAC, CHR 0xE4, CHR 0xBA, CHR 0xA4, CHR 0xE6, CHR 0x8E, CHR 0x92, CHR 0xE6, CHR 0x9F, CHR 0xA5, CHR 0xE3, CHR 0x80, CHR 0x82]
        ((case readMcpFailureDetail numText src of None \<Rightarrow> []
          | Some m \<Rightarrow> [KeyValueItem [CHR 0xE8, CHR 0xAF, CHR 0x8A, CHR 0xE6, CHR 0x96, CHR 0xAD, CHR 0xE6, CHR 0x91, CHR 0x98, CHR 0xE8, CHR 0xA6, CHR 0x81] (mf_diagnosticSummary m),
              KeyValueItem [CHR 0x73, CHR 0x74, CHR 0x64, CHR 0x65, CHR 0x72, CHR 0x72, CHR 0x20, CHR 0xE6, CHR 0x91, CHR 0x98, CHR 0xE8, CHR 0xA6, CHR 0x81] (mf_stderrSummary m)]) @
         (case rawMessage of None \<Rightarrow> []
          | Some m \<Rightarrow> [TextItem (Some [CHR 0xE5, CHR 0x8E, CHR 0x9F, CHR 0xE5, CHR 0xA7, CHR 0x8B, CHR 0xE6, CHR 0xB6, CHR 0x88, CHR 0xE6, CHR 0x81, CHR 0xAF]) m None None]) @
         (case stringifyRecord numText rawDetails of None \<Rightarrow> []
          | Some t \<Rightarrow> (let v = parseErrorDetailJsonTextForViewer jsonParse t in
              [TextItem (Some [CHR 0xE5, CHR 0x8E, CHR 0x9F, CHR 0xE5, CHR 0xA7, CHR 0x8B, CHR 0x20, CHR 0x64, CHR 0x65, CHR 0x74, CHR 0x61, CHR 0x69, CHR 0x6C, CHR 0x73]) t
                 (Some (if v = None then PlainTextPresentation else JsonPresentation)) v]))))"

section \<open>The view model\<close>

definition presentGroups :: "overlay_group option list \<Rightarrow> overlay_group list" where
  "presentGroups gs = concat (map (\<lambda>g. case g of None \<Rightarrow> [] | Some x \<Rightarrow> [x]) gs)"

definition buildErrorDetailOverlayViewModel ::
  "(string \<Rightarrow> json option) \<Rightarrow> (rat \<Rightarrow> string) \<Rightarrow> error_source \<Rightarrow> overlay_view" where
  "buildErrorDetailOverlayViewModel jsonParse numText src =
     (let groups = sort_key (\<lambda>g. groupOrder (og_key g)) (presentGroups
            [Some (buildSummaryGroup src), buildRequestContextGroup numText src,
             buildToolModelContextGroup numText src, buildRawDetailsGroup jsonParse numText src]);
          hasAdditionalDetails = list_ex (\<lambda>g. og_key g \<noteq> SummaryGroup) groups in
      \<lparr>ov_title = es_title src, ov_summaryMessage = es_summaryMessage src, ov_source = es_source src,
       ov_code = es_code src, ov_stage = es_stage src, ov_groups = groups,
       ov_hasAdditionalDetails = hasAdditionalDetails,
       ov_emptyStateMessage = (if hasAdditionalDetails then None else Some [CHR 0xE6, CHR 0x9A, CHR 0x82, CHR 0xE6, CHR 0x97, CHR 0xA0, CHR 0xE6, CHR 0x9B, CHR 0xB4, CHR 0xE5, CHR 0xA4, CHR 0x9A, CHR 0xE8, CHR 0xAF, CHR 0xA6, CHR 0xE6, CHR 0x83, CHR 0x85])\<rparr>)"

section \<open>Lemmas on the reserved keys\<close>

lemmas meta_keys = metaStage_def metaRequestedMethod_def metaStatus_def metaRawMessage_def
  metaSummaryMessage_def metaResolvedToolIds_def

lemma prop_of_setText [simp]:
  "prop_of (setText k v r) k' = (if k' = k \<and> hasNonEmptyString v then Some (JStr (trim (the v))) else prop_of r k')"
  by (simp add: setText_def hasNonEmptyString_def split: option.split)

lemma deleteProps_setText [simp]: "k \<in> set ks \<Longrightarrow> deleteProps ks (setText k v r) = deleteProps ks r"
  by (simp add: setText_def split: option.split)

lemma stringsIn_JStr [simp]: "stringsIn (map JStr ss) = ss"
  by (induction ss) simp_all

text \<open>What a reader gets of a text that was set: its trimmed form, or what was there before.\<close>

lemma readOptionalString_set:
  "readOptionalString (if hasNonEmptyString v then Some (JStr (trim (the v))) else x) =
     (case readText v of None \<Rightarrow> readOptionalString x | Some s \<Rightarrow> Some s)"
  by (cases v) (simp_all add: hasNonEmptyString_def readText_def)

lemma readText_trimmed: "readText v = Some s \<Longrightarrow> trimmed s"
  by (cases v) (auto simp: readText_def trimmed_def split: if_splits)

lemma presentGroups_sorted:
  "sorted (map (\<lambda>g. groupOrder (og_key g)) (presentGroups
     [Some (buildSummaryGroup src), buildRequestContextGroup numText src,
      buildToolModelContextGroup numText src, buildRawDetailsGroup jsonParse numText src]))"
  by (simp add: presentGroups_def buildSummaryGroup_def buildRequestContextGroup_def buildToolModelContextGroup_def
      buildRawDetailsGroup_def groupUnlessEmpty_def Let_def)

lemma sort_key_sorted: "sorted (map f xs) \<Longrightarrow> sort_key f xs = xs"
  by (induction xs) (auto intro: insort_is_Cons)

section \<open>Properties\<close>

definition firstOf :: "'a option \<Rightarrow> 'a option \<Rightarrow> 'a option" where
  "firstOf a b = (case a of None \<Rightarrow> b | Some x \<Rightarrow> Some x)"

lemma case_firstOf [simp]: "(case a of None \<Rightarrow> b | Some x \<Rightarrow> Some x) = firstOf a b"
  by (simp add: firstOf_def)

text \<open>
  What is written into the reserved keys is read back: a text that is not blank comes back trimmed, the status
  and the identifiers come back without duplicates, and where nothing was written the reader finds what the
  details held before. Whatever was written, the details without the reserved keys are the same as before.
\<close>

theorem meta_roundtrip:
  "readCopilotErrorDetailMeta (Some (withCopilotErrorDetailMeta details m)) =
     (let old = readCopilotErrorDetailMeta details;
          ids = dedupeStringArray (case em_resolvedToolIds m of None \<Rightarrow> [] | Some ids \<Rightarrow> ids) in
      \<lparr>em_stage = firstOf (readText (em_stage m)) (em_stage old),
       em_requestedMethod = firstOf (readText (em_requestedMethod m)) (em_requestedMethod old),
       em_status = firstOf (em_status m) (em_status old),
       em_rawMessage = firstOf (readText (em_rawMessage m)) (em_rawMessage old),
       em_summaryMessage = firstOf (readText (em_summaryMessage m)) (em_summaryMessage old),
       em_resolvedToolIds = (if ids \<noteq> [] then Some ids else em_resolvedToolIds old)\<rparr>) \<and>
   stripCopilotErrorDetailMeta (Some (withCopilotErrorDetailMeta details m)) = stripCopilotErrorDetailMeta details"
proof -
  have keys: "metaStage \<noteq> metaRequestedMethod" "metaStage \<noteq> metaStatus" "metaStage \<noteq> metaRawMessage"
    "metaStage \<noteq> metaSummaryMessage" "metaStage \<noteq> metaResolvedToolIds" "metaRequestedMethod \<noteq> metaStatus"
    "metaRequestedMethod \<noteq> metaRawMessage" "metaRequestedMethod \<noteq> metaSummaryMessage"
    "metaRequestedMethod \<noteq> metaResolvedToolIds" "metaStatus \<noteq> metaRawMessage" "metaStatus \<noteq> metaSummaryMessage"
    "metaStatus \<noteq> metaResolvedToolIds" "metaRawMessage \<noteq> metaSummaryMessage" "metaRawMessage \<noteq> metaResolvedToolIds"
    "metaSummaryMessage \<noteq> metaResolvedToolIds"
    by (simp_all add: meta_keys)
  note keys' = keys [symmetric]
  have copied: "cloneRecord details = (case details of None \<Rightarrow> [] | Some r \<Rightarrow> r)" by (simp add: cloneRecord_def)
  have ids: "dedupeStringArray (dedupeStringArray xs) = dedupeStringArray xs" for xs
    by (simp add: dedupeStringArray_def dedupeFrom_idem)
  have "stripCopilotErrorDetailMeta (Some (withCopilotErrorDetailMeta details m)) = stripCopilotErrorDetailMeta details"
    by (simp add: stripCopilotErrorDetailMeta_def withCopilotErrorDetailMeta_def Let_def cloneRecord_def
        ERROR_DETAIL_META_KEYS_def split: option.split)
  moreover have "em_status m = None \<or> (\<exists>q. em_status m = Some q)" by (cases "em_status m") simp_all
  ultimately show ?thesis
    by (elim disjE exE; intro conjI; simp add: readCopilotErrorDetailMeta_def withCopilotErrorDetailMeta_def Let_def
        copied keys keys' readOptionalString_set ids firstOf_def [of None] firstOf_def [of "Some _"])
qed

text \<open>
  The overlay always opens with the summary, shows each group at most once and in the fixed order, shows no
  empty group, and says that there are no more details exactly when the summary is all there is.
\<close>

theorem overlay_groups:
  "let ov = buildErrorDetailOverlayViewModel jsonParse numText src in
    (\<exists>rest. ov_groups ov = buildSummaryGroup src # rest) \<and>
    sorted_wrt (<) (map (\<lambda>g. groupOrder (og_key g)) (ov_groups ov)) \<and>
    (\<forall>g \<in> set (ov_groups ov). og_items g \<noteq> []) \<and>
    (ov_hasAdditionalDetails ov \<longleftrightarrow> length (ov_groups ov) > 1) \<and>
    (ov_emptyStateMessage ov = None \<longleftrightarrow> ov_hasAdditionalDetails ov)"
proof -
  let ?ov = "buildErrorDetailOverlayViewModel jsonParse numText src"
  let ?gs = "presentGroups [Some (buildSummaryGroup src), buildRequestContextGroup numText src,
    buildToolModelContextGroup numText src, buildRawDetailsGroup jsonParse numText src]"
  have groups: "ov_groups ?ov = ?gs"
    using sort_key_sorted [OF presentGroups_sorted, of src numText jsonParse]
    by (simp add: buildErrorDetailOverlayViewModel_def Let_def)
  have present: "(\<exists>rest. ?gs = buildSummaryGroup src # rest) \<and> sorted_wrt (<) (map (\<lambda>g. groupOrder (og_key g)) ?gs) \<and>
      (\<forall>g \<in> set ?gs. og_items g \<noteq> []) \<and> (list_ex (\<lambda>g. og_key g \<noteq> SummaryGroup) ?gs \<longleftrightarrow> length ?gs > 1)"
    by (simp add: presentGroups_def buildSummaryGroup_def buildRequestContextGroup_def buildToolModelContextGroup_def
        buildRawDetailsGroup_def groupUnlessEmpty_def Let_def)
  have flags: "ov_hasAdditionalDetails ?ov = list_ex (\<lambda>g. og_key g \<noteq> SummaryGroup) (ov_groups ?ov)"
    "ov_emptyStateMessage ?ov = None \<longleftrightarrow> ov_hasAdditionalDetails ?ov"
    by (simp_all add: buildErrorDetailOverlayViewModel_def Let_def)
  show ?thesis unfolding Let_def using present flags unfolding groups by blast
qed

text \<open>A failure with no context at all: the overlay has the summary and nothing else.\<close>

definition sampleFailure :: error_source where
  "sampleFailure = createCopilotErrorDetailSource
     \<lparr>ei_source = SourceStreaming, ei_title = None, ei_summaryMessage = ''lost'', ei_rawMessage = Some ''lost'',
      ei_code = None, ei_stage = None, ei_requestedMethod = None, ei_status = None, ei_details = None,
      ei_resolvedModelId = None, ei_resolvedModelRoute = None, ei_resolvedToolIds = None, ei_requestOptions = None\<rparr>"

theorem overlay_groups_witness:
  "length (ov_groups (buildErrorDetailOverlayViewModel (\<lambda>_. None) (\<lambda>_. ''0'') sampleFailure)) = 1"
proof -
  let ?ov = "buildErrorDetailOverlayViewModel (\<lambda>_. None) (\<lambda>_. ''0'') sampleFailure"
  have lost: "trim ''lost'' = ''lost''"
    using trimmed_ascii [of "''lost''"] by (simp add: visible_def trimmed_def)
  have summaryOnly: "(ov_emptyStateMessage ?ov = None) = False"
    by (simp add: buildErrorDetailOverlayViewModel_def Let_def presentGroups_def buildSummaryGroup_def
        buildRequestContextGroup_def buildToolModelContextGroup_def buildRawDetailsGroup_def groupUnlessEmpty_def
        sampleFailure_def createCopilotErrorDetailSource_def readText_def cloneRecord_def dedupeStringArray_def
        keyValueIf_def summarizeRecord_def stringifyRecord_def readMcpFailureDetail_def readField_def
        isMcpRelatedFailure_def stripCopilotErrorDetailMeta_def deleteProps_def lost)
  note groups = overlay_groups [of "\<lambda>_. None" "\<lambda>_. ''0''" sampleFailure, unfolded Let_def summaryOnly]
  have "False \<longleftrightarrow> ov_hasAdditionalDetails ?ov" using groups by (elim conjE)
  then have "\<not> length (ov_groups ?ov) > 1" using groups by blast
  moreover obtain rest where "ov_groups ?ov = buildSummaryGroup sampleFailure # rest" using groups by blast
  ultimately show ?thesis by simp
qed

end
