(* ===== verification/Inline_Form.thy ===== *)
theory Inline_Form
  imports Run_Contract
begin

text \<open>
  \<open>src/features/copilot/inline-form.ts\<close>: the forms a tool can ask the user to fill in. \<open>Number(s)\<close> is the
  parameter \<open>num\<close>: the number that a text denotes, or \<open>None\<close> when the result is not finite. The error and
  value dictionaries are association lists in the order of their first assignment.
\<close>

section \<open>Constants and values\<close>

definition CONTROLLED_INLINE_FORM_TOOL_ID :: string where
  "CONTROLLED_INLINE_FORM_TOOL_ID = ''tool.request-user-form''"

definition INLINE_FORM_AWAITING_INPUT_CODE :: string where
  "INLINE_FORM_AWAITING_INPUT_CODE = ''awaiting_user_input''"

text \<open>Messages of the form, in Chinese: required, please confirm, not a number, not an option.\<close>

definition FIELD_REQUIRED_MESSAGE :: string where
  "FIELD_REQUIRED_MESSAGE = [CHR 0xE6, CHR 0xAD, CHR 0xA4, CHR 0xE9, CHR 0xA1, CHR 0xB9, CHR 0xE4, CHR 0xB8, CHR 0xBA, CHR 0xE5, CHR 0xBF, CHR 0x85, CHR 0xE5, CHR 0xA1, CHR 0xAB, CHR 0xE3, CHR 0x80, CHR 0x82]"

definition fieldConfirmMessage :: string where
  "fieldConfirmMessage = [CHR 0xE8, CHR 0xAF, CHR 0xB7, CHR 0xE7, CHR 0xA1, CHR 0xAE, CHR 0xE8, CHR 0xAE, CHR 0xA4, CHR 0xE6, CHR 0xAD, CHR 0xA4, CHR 0xE9, CHR 0xA1, CHR 0xB9, CHR 0xE3, CHR 0x80, CHR 0x82]"

definition fieldNumberMessage :: string where
  "fieldNumberMessage = [CHR 0xE8, CHR 0xAF, CHR 0xB7, CHR 0xE8, CHR 0xBE, CHR 0x93, CHR 0xE5, CHR 0x85, CHR 0xA5, CHR 0xE6, CHR 0x9C, CHR 0x89, CHR 0xE6, CHR 0x95, CHR 0x88, CHR 0xE6, CHR 0x95, CHR 0xB0, CHR 0xE5, CHR 0xAD, CHR 0x97, CHR 0xE3, CHR 0x80, CHR 0x82]"

definition fieldOptionMessage :: string where
  "fieldOptionMessage = [CHR 0xE8, CHR 0xAF, CHR 0xB7, CHR 0xE9, CHR 0x80, CHR 0x89, CHR 0xE6, CHR 0x8B, CHR 0xA9, CHR 0xE6, CHR 0x9C, CHR 0x89, CHR 0xE6, CHR 0x95, CHR 0x88, CHR 0xE9, CHR 0x80, CHR 0x89, CHR 0xE9, CHR 0xA1, CHR 0xB9, CHR 0xE3, CHR 0x80, CHR 0x82]"

text \<open>\<open>CopilotInlineFormDraftValue\<close> and \<open>CopilotInlineFormValue\<close>\<close>

datatype draft_value = DraftText string | DraftBool bool

datatype form_value = ValText string | ValNum rat | ValBool bool

definition isControlledInlineFormToolEvent :: "string \<Rightarrow> form_request option \<Rightarrow> bool" where
  "isControlledInlineFormToolEvent toolId formRequest \<longleftrightarrow>
     toolId = CONTROLLED_INLINE_FORM_TOOL_ID \<and> formRequest \<noteq> None"

definition createDefaultInlineFormValues :: "form_field list \<Rightarrow> (string \<times> draft_value) list" where
  "createDefaultInlineFormValues flds =
     fold (\<lambda>f. AList.update (ff_name f)
       (if ff_type f = FieldCheckbox then DraftBool False else DraftText [])) flds []"

section \<open>Validation\<close>

text \<open>The two dictionaries that the validators of the fields fill.\<close>

record form_check =
  ck_errors :: "(string \<times> string) list"
  ck_values :: "(string \<times> form_value) list"

definition setError :: "string \<Rightarrow> string \<Rightarrow> form_check \<Rightarrow> form_check" where
  "setError k m c = c\<lparr>ck_errors := AList.update k m (ck_errors c)\<rparr>"

definition setValue :: "string \<Rightarrow> form_value \<Rightarrow> form_check \<Rightarrow> form_check" where
  "setValue k v c = c\<lparr>ck_values := AList.update k v (ck_values c)\<rparr>"

text \<open>\<open>typeof rawValue === 'string' ? rawValue.trim() : ''\<close>\<close>

fun normalizedText :: "draft_value option \<Rightarrow> string" where
  "normalizedText (Some (DraftText s)) = trim s"
| "normalizedText _ = []"

definition validateCheckboxField :: "form_field \<Rightarrow> draft_value option \<Rightarrow> form_check \<Rightarrow> form_check" where
  "validateCheckboxField f raw c =
     (let v = (raw = Some (DraftBool True));
          c' = (if ff_required f = Some True \<and> \<not> v then setError (ff_name f) fieldConfirmMessage c else c)
      in setValue (ff_name f) (ValBool v) c')"

definition validateNumberField ::
  "(string \<Rightarrow> rat option) \<Rightarrow> form_field \<Rightarrow> draft_value option \<Rightarrow> form_check \<Rightarrow> form_check" where
  "validateNumberField num f raw c =
     (let normalized = normalizedText raw in
      if normalized = [] then
        setValue (ff_name f) (ValText [])
          (if ff_required f = Some True then setError (ff_name f) FIELD_REQUIRED_MESSAGE c else c)
      else
        (case num normalized of
           None \<Rightarrow> setValue (ff_name f) (ValText normalized) (setError (ff_name f) fieldNumberMessage c)
         | Some n \<Rightarrow> setValue (ff_name f) (ValNum n) c))"

definition validateTextLikeField :: "form_field \<Rightarrow> draft_value option \<Rightarrow> form_check \<Rightarrow> form_check" where
  "validateTextLikeField f raw c =
     (let normalized = normalizedText raw;
          c1 = (if ff_required f = Some True \<and> normalized = []
                then setError (ff_name f) FIELD_REQUIRED_MESSAGE c else c);
          c2 = (if ff_type f = FieldSelect \<and> normalized \<noteq> [] \<and>
                   (case ff_options f of None \<Rightarrow> False
                    | Some os \<Rightarrow> \<not> list_ex (\<lambda>opt. fo_value opt = normalized) os)
                then setError (ff_name f) fieldOptionMessage c1 else c1)
      in setValue (ff_name f) (ValText normalized) c2)"

definition validateInlineFormField ::
  "(string \<Rightarrow> rat option) \<Rightarrow> form_field \<Rightarrow> draft_value option \<Rightarrow> form_check \<Rightarrow> form_check" where
  "validateInlineFormField num f raw c =
     (case ff_type f of
        FieldCheckbox \<Rightarrow> validateCheckboxField f raw c
      | FieldNumber \<Rightarrow> validateNumberField num f raw c
      | _ \<Rightarrow> validateTextLikeField f raw c)"

definition checkFields ::
  "(string \<Rightarrow> rat option) \<Rightarrow> (string \<times> draft_value) list \<Rightarrow> form_field list \<Rightarrow> form_check \<Rightarrow> form_check" where
  "checkFields num drafts flds c =
     fold (\<lambda>f. validateInlineFormField num f (map_of drafts (ff_name f))) flds c"

definition validateInlineFormValues ::
  "(string \<Rightarrow> rat option) \<Rightarrow> form_field list \<Rightarrow> (string \<times> draft_value) list \<Rightarrow> bool \<times> form_check" where
  "validateInlineFormValues num flds drafts =
     (let c = checkFields num drafts flds \<lparr>ck_errors = [], ck_values = []\<rparr> in (ck_errors c = [], c))"

section \<open>Submission\<close>

text \<open>\<open>String(n)\<close> for a number is the parameter \<open>numText\<close>. The words are yes and no.\<close>

fun formatInlineFormValue :: "(rat \<Rightarrow> string) \<Rightarrow> form_value option \<Rightarrow> string" where
  "formatInlineFormValue numText None = []"
| "formatInlineFormValue numText (Some (ValBool b)) = (if b then [CHR 0xE6, CHR 0x98, CHR 0xAF] else [CHR 0xE5, CHR 0x90, CHR 0xA6])"
| "formatInlineFormValue numText (Some (ValNum n)) = numText n"
| "formatInlineFormValue numText (Some (ValText s)) = s"

definition submittedPrefix :: string where
  "submittedPrefix = [CHR 0xE5, CHR 0xB7, CHR 0xB2, CHR 0xE6, CHR 0x8F, CHR 0x90, CHR 0xE4, CHR 0xBA, CHR 0xA4, CHR 0xE8, CHR 0xA1, CHR 0xA8, CHR 0xE5, CHR 0x8D, CHR 0x95, CHR 0xEF, CHR 0xBC, CHR 0x9A]"

definition buildInlineFormSubmissionSummary ::
  "(rat \<Rightarrow> string) \<Rightarrow> string \<Rightarrow> form_field list \<Rightarrow> (string \<times> form_value) list \<Rightarrow> string list" where
  "buildInlineFormSubmissionSummary numText title flds vals =
     (submittedPrefix @ title) #
     map (\<lambda>f. ff_label f @ '': '' @ formatInlineFormValue numText (map_of vals (ff_name f))) flds"

record form_submission =
  fs_toolId :: string
  fs_toolCallId :: string
  fs_formId :: string
  fs_values :: "(string \<times> form_value) list"

definition buildInlineFormSubmissionPayload ::
  "string \<Rightarrow> string \<Rightarrow> string \<Rightarrow> (string \<times> form_value) list \<Rightarrow> form_submission" where
  "buildInlineFormSubmissionPayload toolId toolCallId formId vals =
     \<lparr>fs_toolId = toolId, fs_toolCallId = toolCallId, fs_formId = formId, fs_values = vals\<rparr>"

section \<open>What a field accepts\<close>

text \<open>The rules of a single field, without the dictionaries, and the value it submits.\<close>

definition required :: "form_field \<Rightarrow> bool" where
  "required f \<longleftrightarrow> ff_required f = Some True"

fun fieldAccepts :: "(string \<Rightarrow> rat option) \<Rightarrow> form_field \<Rightarrow> draft_value option \<Rightarrow> bool" where
  "fieldAccepts num f raw =
     (case ff_type f of
        FieldCheckbox \<Rightarrow> required f \<longrightarrow> raw = Some (DraftBool True)
      | FieldNumber \<Rightarrow> if normalizedText raw = [] then \<not> required f else num (normalizedText raw) \<noteq> None
      | FieldSelect \<Rightarrow> if normalizedText raw = [] then \<not> required f
                      else (\<forall>os. ff_options f = Some os \<longrightarrow> (\<exists>opt \<in> set os. fo_value opt = normalizedText raw))
      | _ \<Rightarrow> required f \<longrightarrow> normalizedText raw \<noteq> [])"

definition fieldValue :: "(string \<Rightarrow> rat option) \<Rightarrow> form_field \<Rightarrow> draft_value option \<Rightarrow> form_value" where
  "fieldValue num f raw =
     (case ff_type f of
        FieldCheckbox \<Rightarrow> ValBool (raw = Some (DraftBool True))
      | FieldNumber \<Rightarrow> (case num (normalizedText raw) of
            Some n \<Rightarrow> if normalizedText raw = [] then ValText [] else ValNum n
          | None \<Rightarrow> ValText (normalizedText raw))
      | _ \<Rightarrow> ValText (normalizedText raw))"

lemmas field_defs = validateInlineFormField_def validateCheckboxField_def validateNumberField_def
  validateTextLikeField_def setError_def setValue_def

text \<open>One field adds its error exactly when it does not accept, and always sets its value.\<close>

lemma update_not_Nil [simp]: "AList.update k v al \<noteq> []"
  by (cases al) auto

lemma validateField_errors:
  "ck_errors (validateInlineFormField num f raw c) = [] \<longleftrightarrow> ck_errors c = [] \<and> fieldAccepts num f raw"
  by (cases "ff_type f")
     (auto simp: field_defs required_def Let_def list_ex_iff split: option.splits)

lemma validateField_values:
  "ck_values (validateInlineFormField num f raw c) =
     AList.update (ff_name f) (fieldValue num f raw) (ck_values c)"
  by (cases "ff_type f") (auto simp: field_defs fieldValue_def Let_def split: option.splits)

lemma checkFields_errors:
  "ck_errors (checkFields num drafts flds c) = [] \<longleftrightarrow>
     ck_errors c = [] \<and> (\<forall>f \<in> set flds. fieldAccepts num f (map_of drafts (ff_name f)))"
  by (induction flds arbitrary: c) (auto simp: checkFields_def validateField_errors simp del: fieldAccepts.simps)

lemma checkFields_values_other:
  "k \<notin> ff_name ` set flds \<Longrightarrow>
   map_of (ck_values (checkFields num drafts flds c)) k = map_of (ck_values c) k"
  by (induction flds arbitrary: c) (auto simp: checkFields_def validateField_values update_conv')

lemma checkFields_values:
  "distinct (map ff_name flds) \<Longrightarrow> f \<in> set flds \<Longrightarrow>
   map_of (ck_values (checkFields num drafts flds c)) (ff_name f) =
     Some (fieldValue num f (map_of drafts (ff_name f)))"
proof (induction flds arbitrary: c)
  case (Cons g flds)
  show ?case
  proof (cases "f = g")
    case True
    have "checkFields num drafts (g # flds) c =
        checkFields num drafts flds (validateInlineFormField num g (map_of drafts (ff_name g)) c)"
      by (simp add: checkFields_def)
    then show ?thesis
      using Cons.prems(1) True by (simp add: checkFields_values_other validateField_values update_conv')
  next
    case False
    then show ?thesis using Cons by (simp add: checkFields_def)
  qed
qed simp

section \<open>Properties\<close>

text \<open>
  A form is valid exactly when each of its fields accepts its own draft value, and when the names of
  the fields differ, the values to submit give each field its normalised value: the order of the
  fields and the shared error dictionary have no influence.
\<close>

theorem inline_form_validation:
  assumes "distinct (map ff_name flds)"
  shows "(fst (validateInlineFormValues num flds drafts) \<longleftrightarrow>
            (\<forall>f \<in> set flds. fieldAccepts num f (map_of drafts (ff_name f)))) \<and>
         (\<forall>f \<in> set flds. map_of (ck_values (snd (validateInlineFormValues num flds drafts))) (ff_name f) =
            Some (fieldValue num f (map_of drafts (ff_name f))))"
  using assms
  by (simp add: validateInlineFormValues_def Let_def checkFields_errors checkFields_values del: fieldAccepts.simps)

definition sampleFields :: "form_field list" where
  "sampleFields =
     [\<lparr>ff_name = ''city'', ff_label = ''City'', ff_type = FieldSelect, ff_description = None,
       ff_placeholder = None, ff_required = Some True,
       ff_options = Some [\<lparr>fo_value = ''sz'', fo_label = ''Shenzhen''\<rparr>]\<rparr>,
      \<lparr>ff_name = ''ok'', ff_label = ''Sure'', ff_type = FieldCheckbox, ff_description = None,
       ff_placeholder = None, ff_required = Some True, ff_options = None\<rparr>]"

theorem inline_form_validation_witness:
  "\<not> fst (validateInlineFormValues (\<lambda>_. None) sampleFields [(''city'', DraftText ''bj'')]) \<and>
   fst (validateInlineFormValues (\<lambda>_. None) sampleFields [(''city'', DraftText ''sz''), (''ok'', DraftBool True)])"
proof -
  have "distinct (map ff_name sampleFields)" by (simp add: sampleFields_def)
  moreover have "trim ''bj'' = ''bj''" "trim ''sz'' = ''sz''"
    using trimmed_ascii [of "''bj''"] trimmed_ascii [of "''sz''"] by (simp_all add: trimmed_def visible_def)
  ultimately show ?thesis
    using inline_form_validation [of sampleFields "\<lambda>_. None" "[(''city'', DraftText ''bj'')]"]
      inline_form_validation [of sampleFields "\<lambda>_. None" "[(''city'', DraftText ''sz''), (''ok'', DraftBool True)]"]
    by (simp add: sampleFields_def required_def)
qed

end
