(* ===== verification/Run_Segments.thy ===== *)
theory Run_Segments
  imports Inline_Form Thinking_Clone
begin

text \<open>
  The state of one chat run and its reducer: \<open>run-segment-types.ts\<close>, \<open>CopilotRunState\<close> of \<open>types.ts\<close>, and
  \<open>run-segment-reducer.ts\<close>. A segment is a record of the fields all kinds share and a body, which is one
  constructor per kind. \<open>Date.now()\<close> is the argument \<open>now\<close> of the operations that read it.
\<close>

section \<open>Segments\<close>

datatype segment_status = SegPending | SegStreaming | SegCompleted | SegFailed | SegCancelled

datatype form_state = FormPending | FormSubmitted | FormExpired

record assistant_body =
  as_assistantMessageId :: string
  as_text :: string
  as_firstContentSequence :: "int option"
  as_resolvedModelId :: "string option"
  as_resolvedModelRoute :: "any_route option"
  as_resolvedToolIds :: "string list"
  as_requestOptions :: jrecord

record reasoning_body =
  re_text :: string
  re_observedStartedAt :: int
  re_observedFinishedAt :: "int option"

record approval_body =
  sa_mode :: "permission_mode option"
  sa_approvalMethod :: "approval_method option"
  sa_riskLevel :: "risk_level option"
  sa_timeoutAt :: "string option"
  sa_timeoutSeconds :: "rat option"
  sa_timeoutAction :: "timeout_action option"

record tool_body =
  tb_toolCallId :: string
  tb_toolId :: string
  tb_toolPhase :: tool_phase
  tb_title :: string
  tb_summary :: string
  tb_inputSummary :: "string option"
  tb_resultSummary :: "string option"
  tb_errorSummary :: "string option"
  tb_approval :: "approval_body option"

record form_body =
  fb_toolCallId :: string
  fb_toolId :: string
  fb_formId :: string
  fb_title :: string
  fb_summary :: string
  fb_description :: "string option"
  fb_submitLabel :: string
  fb_fields :: "form_field list"
  fb_formState :: form_state
  fb_formValues :: "(string \<times> form_value) list"
  fb_submittedPayload :: "jrecord option"

record terminal_body =
  tn_terminalPhase :: segment_status
  tn_assistantMessageId :: "string option"
  tn_cancelReason :: "string option"
  tn_failure :: "failure_summary option"
  tn_resolvedModelId :: "string option"
  tn_resolvedModelRoute :: "any_route option"
  tn_resolvedToolIds :: "string list"
  tn_requestOptions :: jrecord

datatype seg_body =
    Assistant assistant_body
  | Reasoning reasoning_body
  | Tool tool_body
  | InlineForm form_body
  | Diagnostic diagnostic_summary
  | Terminal terminal_body

record segment =
  sg_id :: string
  sg_runId :: string
  sg_startedSequence :: int
  sg_lastSequence :: int
  sg_status :: segment_status
  sg_body :: seg_body

fun isAssistantBody :: "seg_body \<Rightarrow> bool" where
  "isAssistantBody (Assistant _) = True" | "isAssistantBody _ = False"

fun isReasoningBody :: "seg_body \<Rightarrow> bool" where
  "isReasoningBody (Reasoning _) = True" | "isReasoningBody _ = False"

fun isTerminalBody :: "seg_body \<Rightarrow> bool" where
  "isTerminalBody (Terminal _) = True" | "isTerminalBody _ = False"

definition isAssistant :: "segment \<Rightarrow> bool" where "isAssistant s = isAssistantBody (sg_body s)"
definition isReasoning :: "segment \<Rightarrow> bool" where "isReasoning s = isReasoningBody (sg_body s)"
definition isTerminal :: "segment \<Rightarrow> bool" where "isTerminal s = isTerminalBody (sg_body s)"

text \<open>\<open>segment.status === 'pending' || segment.status === 'streaming'\<close>\<close>

definition isLive :: "segment \<Rightarrow> bool" where
  "isLive s \<longleftrightarrow> sg_status s = SegPending \<or> sg_status s = SegStreaming"

section \<open>The state of a run\<close>

datatype run_phase =
  PhaseIdle | PhaseStarting | PhaseStreaming | PhaseAwaitingInput | PhaseCompleted | PhaseFailed | PhaseCancelled

datatype trace_state = TraceNotObserved | TraceSuppressed | TraceVisible

record run_state =
  rn_phase :: run_phase
  rn_runId :: "string option"
  rn_threadId :: "string option"
  rn_activeModelRoute :: "model_route option"
  rn_resolvedModelId :: "string option"
  rn_resolvedModelRoute :: "any_route option"
  rn_resolvedToolIds :: "string list"
  rn_requestOptions :: jrecord
  rn_requestedThinkingSelection :: "thinking_selection option"
  rn_appliedThinkingSelection :: "thinking_selection option"
  rn_requestedThinkingLevel :: "thinking_level option"
  rn_appliedThinkingLevel :: "thinking_level option"
  rn_thinkingCapabilitySnapshot :: "thinking_capability option"
  rn_thinkingSeriesDecision :: "selection_result option"
  rn_reasoningSuppressionBasis :: "suppression_basis option"
  rn_reasoningSuppressed :: bool
  rn_reasoningTraceState :: trace_state
  rn_diagnostic :: "diagnostic_summary option"
  rn_failure :: "failure_summary option"
  rn_cancelReason :: "string option"
  rn_segments :: "segment list"

definition createIdleCopilotRunState :: run_state where
  "createIdleCopilotRunState =
     \<lparr>rn_phase = PhaseIdle, rn_runId = None, rn_threadId = None, rn_activeModelRoute = None,
      rn_resolvedModelId = None, rn_resolvedModelRoute = None, rn_resolvedToolIds = [],
      rn_requestOptions = [], rn_requestedThinkingSelection = None, rn_appliedThinkingSelection = None,
      rn_requestedThinkingLevel = None, rn_appliedThinkingLevel = None,
      rn_thinkingCapabilitySnapshot = None, rn_thinkingSeriesDecision = None,
      rn_reasoningSuppressionBasis = None, rn_reasoningSuppressed = False,
      rn_reasoningTraceState = TraceNotObserved, rn_diagnostic = None, rn_failure = None,
      rn_cancelReason = None, rn_segments = []\<rparr>"

definition createStartingCopilotRunState :: "string \<Rightarrow> model_route \<Rightarrow> jrecord \<Rightarrow> run_state" where
  "createStartingCopilotRunState threadId route options =
     createIdleCopilotRunState
       \<lparr>rn_phase := PhaseStarting, rn_threadId := Some threadId,
        rn_activeModelRoute := Some (cloneRuntimeModelRoute route), rn_requestOptions := options\<rparr>"

section \<open>Thinking metadata\<close>

definition stripReasoningSegments :: "segment list \<Rightarrow> segment list" where
  "stripReasoningSegments segs = filter (\<lambda>s. \<not> isReasoning s) segs"

definition hasReasoningSegments :: "segment list \<Rightarrow> bool" where
  "hasReasoningSegments segs \<longleftrightarrow> list_ex isReasoning segs"

definition shouldSuppressReasoning :: "bool \<Rightarrow> suppression_basis option \<Rightarrow> bool" where
  "shouldSuppressReasoning previousSuppressed basis \<longleftrightarrow>
     previousSuppressed \<or> (case basis of None \<Rightarrow> False | Some b \<Rightarrow> sb_shouldSuppress b)"

definition resolveReasoningTraceStateAfterMetadata :: "trace_state \<Rightarrow> bool \<Rightarrow> segment list \<Rightarrow> trace_state" where
  "resolveReasoningTraceStateAfterMetadata previous suppressed segs =
     (if previous = TraceSuppressed then TraceSuppressed
      else let hasVisibleReasoning = hasReasoningSegments segs \<or> previous = TraceVisible in
        if suppressed then (if hasVisibleReasoning then TraceSuppressed else TraceNotObserved)
        else (if hasVisibleReasoning then TraceVisible else TraceNotObserved))"

text \<open>\<open>metadata.x === undefined ? state.x : clone(metadata.x)\<close>\<close>

definition patched :: "('a option \<Rightarrow> 'a option) \<Rightarrow> 'a option \<Rightarrow> 'a option option \<Rightarrow> 'a option" where
  "patched clone old new = (case new of None \<Rightarrow> old | Some v \<Rightarrow> clone v)"

definition applyRunThinkingMetadataToState :: "run_state \<Rightarrow> thinking_metadata \<Rightarrow> run_state" where
  "applyRunThinkingMetadataToState st m =
     (let basis = patched cloneRuntimeReasoningSuppressionBasis (rn_reasoningSuppressionBasis st)
            (tm_reasoningSuppressionBasis m);
          suppressed = shouldSuppressReasoning (rn_reasoningSuppressed st) basis
      in st
        \<lparr>rn_requestedThinkingSelection := patched cloneRuntimeThinkingSelection
            (rn_requestedThinkingSelection st) (tm_requestedThinkingSelection m),
         rn_appliedThinkingSelection := patched cloneRuntimeThinkingSelection
            (rn_appliedThinkingSelection st) (tm_appliedThinkingSelection m),
         rn_requestedThinkingLevel := patched id (rn_requestedThinkingLevel st) (tm_requestedThinkingLevel m),
         rn_appliedThinkingLevel := patched id (rn_appliedThinkingLevel st) (tm_appliedThinkingLevel m),
         rn_thinkingCapabilitySnapshot := patched cloneRuntimeThinkingCapability
            (rn_thinkingCapabilitySnapshot st) (tm_thinkingCapabilitySnapshot m),
         rn_thinkingSeriesDecision := patched cloneRuntimeThinkingSelectionResult
            (rn_thinkingSeriesDecision st) (tm_thinkingSeriesDecision m),
         rn_reasoningSuppressionBasis := basis,
         rn_reasoningSuppressed := suppressed,
         rn_reasoningTraceState :=
            resolveReasoningTraceStateAfterMetadata (rn_reasoningTraceState st) suppressed (rn_segments st),
         rn_segments := (if suppressed then stripReasoningSegments (rn_segments st) else rn_segments st)\<rparr>)"

definition registerCopilotRunStartResponse ::
  "run_state \<Rightarrow> string \<Rightarrow> string \<Rightarrow> thinking_metadata \<Rightarrow> run_state" where
  "registerCopilotRunStartResponse st runId threadId m =
     applyRunThinkingMetadataToState (st\<lparr>rn_runId := Some runId, rn_threadId := Some threadId\<rparr>) m"

section \<open>Inline form segments\<close>

definition mapFormBody :: "(form_body \<Rightarrow> form_body) \<Rightarrow> segment \<Rightarrow> segment" where
  "mapFormBody f s = (case sg_body s of InlineForm b \<Rightarrow> s\<lparr>sg_body := InlineForm (f b)\<rparr> | _ \<Rightarrow> s)"

definition expirePendingCopilotInlineFormSegments :: "run_state \<Rightarrow> run_state" where
  "expirePendingCopilotInlineFormSegments st =
     st\<lparr>rn_segments := map (mapFormBody (\<lambda>b. if fb_formState b = FormPending
            then b\<lparr>fb_formState := FormExpired\<rparr> else b)) (rn_segments st)\<rparr>"

definition markCopilotInlineFormSubmitted ::
  "run_state \<Rightarrow> string \<Rightarrow> (string \<times> form_value) list \<Rightarrow> jrecord \<Rightarrow> run_state" where
  "markCopilotInlineFormSubmitted st toolCallId vals payload =
     st\<lparr>rn_segments := map (mapFormBody (\<lambda>b. if fb_toolCallId b = toolCallId
            then b\<lparr>fb_formState := FormSubmitted, fb_formValues := vals, fb_submittedPayload := Some payload\<rparr>
            else b)) (rn_segments st)\<rparr>"

section \<open>Delta segments\<close>

text \<open>Replace the body of the last segment and mark it as streaming.\<close>

definition extendLast :: "segment list \<Rightarrow> int \<Rightarrow> (seg_body \<Rightarrow> seg_body) \<Rightarrow> segment list" where
  "extendLast segs sequence f =
     butlast segs @ [(last segs)\<lparr>sg_body := f (sg_body (last segs)), sg_lastSequence := sequence,
       sg_status := SegStreaming\<rparr>]"

definition countAssistantSegments :: "segment list \<Rightarrow> nat" where
  "countAssistantSegments segs = length (filter isAssistant segs)"

definition countReasoningSegments :: "segment list \<Rightarrow> nat" where
  "countReasoningSegments segs = length (filter isReasoning segs)"

fun addAssistantText :: "string \<Rightarrow> int \<Rightarrow> seg_body \<Rightarrow> seg_body" where
  "addAssistantText delta sequence (Assistant b) =
     Assistant (b\<lparr>as_text := as_text b @ delta,
       as_firstContentSequence := (case as_firstContentSequence b of None \<Rightarrow> Some sequence | x \<Rightarrow> x)\<rparr>)"
| "addAssistantText delta sequence b = b"

fun addReasoningText :: "string \<Rightarrow> seg_body \<Rightarrow> seg_body" where
  "addReasoningText delta (Reasoning b) = Reasoning (b\<lparr>re_text := re_text b @ delta\<rparr>)"
| "addReasoningText delta b = b"

definition assistantSegmentId :: "string \<Rightarrow> nat \<Rightarrow> string" where
  "assistantSegmentId runId n = ''assistant:'' @ runId @ '':'' @ natString n"

definition reasoningSegmentId :: "string \<Rightarrow> nat \<Rightarrow> string" where
  "reasoningSegmentId runId n = ''reasoning:'' @ runId @ '':'' @ natString n"

definition newAssistantSegment :: "string \<Rightarrow> nat \<Rightarrow> int \<Rightarrow> string \<Rightarrow> string \<Rightarrow> segment" where
  "newAssistantSegment runId n sequence mid delta =
     \<lparr>sg_id = assistantSegmentId runId n, sg_runId = runId, sg_startedSequence = sequence,
      sg_lastSequence = sequence, sg_status = SegStreaming,
      sg_body = Assistant \<lparr>as_assistantMessageId = mid, as_text = delta,
        as_firstContentSequence = Some sequence, as_resolvedModelId = None,
        as_resolvedModelRoute = None, as_resolvedToolIds = [], as_requestOptions = []\<rparr>\<rparr>"

definition newReasoningSegment :: "string \<Rightarrow> nat \<Rightarrow> int \<Rightarrow> string \<Rightarrow> int \<Rightarrow> segment" where
  "newReasoningSegment runId n sequence delta observedAt =
     \<lparr>sg_id = reasoningSegmentId runId n, sg_runId = runId, sg_startedSequence = sequence,
      sg_lastSequence = sequence, sg_status = SegStreaming,
      sg_body = Reasoning \<lparr>re_text = delta, re_observedStartedAt = observedAt, re_observedFinishedAt = None\<rparr>\<rparr>"

definition appendAssistantDeltaSegment ::
  "segment list \<Rightarrow> string \<Rightarrow> int \<Rightarrow> string \<Rightarrow> string \<Rightarrow> segment list" where
  "appendAssistantDeltaSegment segs runId sequence mid delta =
     (if segs \<noteq> [] \<and> isAssistant (last segs) \<and> isLive (last segs)
      then extendLast segs sequence (addAssistantText delta sequence)
      else segs @ [newAssistantSegment runId (countAssistantSegments segs + 1) sequence mid delta])"

definition appendReasoningDeltaSegment ::
  "segment list \<Rightarrow> string \<Rightarrow> int \<Rightarrow> string \<Rightarrow> int \<Rightarrow> segment list" where
  "appendReasoningDeltaSegment segs runId sequence delta observedAt =
     (if segs \<noteq> [] \<and> isReasoning (last segs) \<and> isLive (last segs)
      then extendLast segs sequence (addReasoningText delta)
      else segs @ [newReasoningSegment runId (countReasoningSegments segs + 1) sequence delta observedAt])"

section \<open>Closing live segments\<close>

text \<open>\<open>observedFinishedAt: segment.observedFinishedAt ?? observedAt\<close>\<close>

definition finishReasoning :: "int \<Rightarrow> reasoning_body \<Rightarrow> reasoning_body" where
  "finishReasoning observedAt b =
     b\<lparr>re_observedFinishedAt := (case re_observedFinishedAt b of None \<Rightarrow> Some observedAt | x \<Rightarrow> x)\<rparr>"

definition completeReasoningSegment :: "int \<Rightarrow> int \<Rightarrow> segment \<Rightarrow> segment" where
  "completeReasoningSegment sequence observedAt s =
     (case sg_body s of
        Reasoning b \<Rightarrow>
          if isLive s then s\<lparr>sg_status := SegCompleted, sg_lastSequence := sequence,
                            sg_body := Reasoning (finishReasoning observedAt b)\<rparr>
          else s
      | _ \<Rightarrow> s)"

definition completeStreamingReasoningSegments :: "segment list \<Rightarrow> int \<Rightarrow> int \<Rightarrow> segment list" where
  "completeStreamingReasoningSegments segs sequence observedAt =
     map (completeReasoningSegment sequence observedAt) segs"

text \<open>\<open>waiting for the user to fill in the form\<close>, in Chinese\<close>

definition waitingForFormMessage :: string where
  "waitingForFormMessage = [CHR 0xE7, CHR 0xAD, CHR 0x89, CHR 0xE5, CHR 0xBE, CHR 0x85, CHR 0xE7, CHR 0x94, CHR 0xA8, CHR 0xE6, CHR 0x88, CHR 0xB7, CHR 0xE5, CHR 0xA1, CHR 0xAB, CHR 0xE5, CHR 0x86, CHR 0x99, CHR 0xE8, CHR 0xA1, CHR 0xA8, CHR 0xE5, CHR 0x8D, CHR 0x95, CHR 0xE3, CHR 0x80, CHR 0x82]"

definition awaitInputSegment :: "int \<Rightarrow> segment \<Rightarrow> segment" where
  "awaitInputSegment observedAt s =
     (if \<not> isLive s then s
      else case sg_body s of
        Reasoning b \<Rightarrow> s\<lparr>sg_status := SegCompleted, sg_body := Reasoning (finishReasoning observedAt b)\<rparr>
      | Tool b \<Rightarrow>
          if tb_toolId b = CONTROLLED_INLINE_FORM_TOOL_ID
          then s\<lparr>sg_status := SegStreaming,
                 sg_body := Tool (b\<lparr>tb_summary := waitingForFormMessage,
                                   tb_resultSummary := Some waitingForFormMessage\<rparr>)\<rparr>
          else s\<lparr>sg_status := SegCancelled\<rparr>
      | _ \<Rightarrow> s\<lparr>sg_status := SegCompleted\<rparr>)"

definition finalizeStreamingSegmentsForAwaitingInput :: "segment list \<Rightarrow> int \<Rightarrow> segment list" where
  "finalizeStreamingSegmentsForAwaitingInput segs observedAt = map (awaitInputSegment observedAt) segs"

definition cancelSegment :: "int \<Rightarrow> segment \<Rightarrow> segment" where
  "cancelSegment observedAt s =
     (if \<not> isLive s then s
      else case sg_body s of
        Tool b \<Rightarrow> s\<lparr>sg_status := SegCancelled, sg_body := Tool (b\<lparr>tb_toolPhase := PhCancelled\<rparr>)\<rparr>
      | Assistant b \<Rightarrow> s\<lparr>sg_status := SegCancelled\<rparr>
      | Reasoning b \<Rightarrow> s\<lparr>sg_status := SegCancelled, sg_body := Reasoning (finishReasoning observedAt b)\<rparr>
      | _ \<Rightarrow> s)"

definition cancelStreamingSegments :: "segment list \<Rightarrow> int \<Rightarrow> segment list" where
  "cancelStreamingSegments segs observedAt = map (cancelSegment observedAt) segs"

definition failSegment :: "int \<Rightarrow> segment \<Rightarrow> segment" where
  "failSegment observedAt s =
     (if \<not> isLive s then s
      else case sg_body s of
        Tool b \<Rightarrow> s\<lparr>sg_status := SegFailed,
            sg_body := Tool (b\<lparr>tb_toolPhase := (if tb_toolPhase b = PhStarted then PhFailed else tb_toolPhase b)\<rparr>)\<rparr>
      | Assistant b \<Rightarrow> s\<lparr>sg_status := SegFailed\<rparr>
      | Reasoning b \<Rightarrow> s\<lparr>sg_status := SegFailed, sg_body := Reasoning (finishReasoning observedAt b)\<rparr>
      | _ \<Rightarrow> s)"

definition failStreamingSegments :: "segment list \<Rightarrow> int \<Rightarrow> segment list" where
  "failStreamingSegments segs observedAt = map (failSegment observedAt) segs"

section \<open>Tool and form segments\<close>

fun mapToolPhaseToSegmentStatus :: "tool_phase \<Rightarrow> segment_status" where
  "mapToolPhaseToSegmentStatus PhStarted = SegStreaming"
| "mapToolPhaseToSegmentStatus PhWaitingApproval = SegStreaming"
| "mapToolPhaseToSegmentStatus PhCompleted = SegCompleted"
| "mapToolPhaseToSegmentStatus PhFailed = SegFailed"
| "mapToolPhaseToSegmentStatus PhCancelled = SegCancelled"

text \<open>\<open>a ?? b\<close> on optional values, and \<open>x?.field\<close> for a field that may be \<open>null\<close> as well as absent\<close>

definition coalesce :: "'a option \<Rightarrow> 'a option \<Rightarrow> 'a option" where
  "coalesce a b = (case a of None \<Rightarrow> b | Some x \<Rightarrow> Some x)"

definition chain :: "'a option \<Rightarrow> ('a \<Rightarrow> 'b option option) \<Rightarrow> 'b option" where
  "chain a f = (case a of None \<Rightarrow> None | Some x \<Rightarrow> (case f x of None \<Rightarrow> None | Some v \<Rightarrow> v))"

definition buildToolSegmentApproval :: "tool_payload \<Rightarrow> tool_body option \<Rightarrow> approval_body option" where
  "buildToolSegmentApproval p existing =
     (let previous = Option.bind existing tb_approval in
      if te_phase p \<noteq> PhWaitingApproval then previous
      else Some
        \<lparr>sa_mode = coalesce (map_option ap_mode (te_approval p)) (Option.bind previous sa_mode),
         sa_approvalMethod = coalesce (Option.bind (te_security p) se_approvalMethod)
           (Option.bind previous sa_approvalMethod),
         sa_riskLevel = coalesce (map_option se_riskLevel (te_security p)) (Option.bind previous sa_riskLevel),
         sa_timeoutAt = coalesce (chain (te_approval p) ap_timeoutAt) (Option.bind previous sa_timeoutAt),
         sa_timeoutSeconds = coalesce (chain (te_approval p) ap_timeoutSeconds)
           (Option.bind previous sa_timeoutSeconds),
         sa_timeoutAction = coalesce (chain (te_approval p) ap_timeoutAction)
           (Option.bind previous sa_timeoutAction)\<rparr>)"

text \<open>\<open>segments.findIndex((segment) => segment.id === segmentId)\<close>\<close>

fun findSegment :: "string \<Rightarrow> segment list \<Rightarrow> nat option" where
  "findSegment sid [] = None"
| "findSegment sid (s # ss) = (if sg_id s = sid then Some 0 else map_option Suc (findSegment sid ss))"

definition toolSegmentId :: "string \<Rightarrow> string \<Rightarrow> string" where
  "toolSegmentId runId callId = ''tool:'' @ runId @ '':'' @ callId"

definition formSegmentId :: "string \<Rightarrow> string \<Rightarrow> string" where
  "formSegmentId runId callId = ''inline-form:'' @ runId @ '':'' @ callId"

definition toolBodyOf :: "segment \<Rightarrow> tool_body option" where
  "toolBodyOf s = (case sg_body s of Tool b \<Rightarrow> Some b | _ \<Rightarrow> None)"

definition formBodyOf :: "segment \<Rightarrow> form_body option" where
  "formBodyOf s = (case sg_body s of InlineForm b \<Rightarrow> Some b | _ \<Rightarrow> None)"

text \<open>The segment found at an index, with its sequence number and body, when it is of the kind wanted.\<close>

definition existingAs :: "(segment \<Rightarrow> 'b option) \<Rightarrow> segment list \<Rightarrow> nat option \<Rightarrow> (int \<times> 'b) option" where
  "existingAs f segs ix =
     (case ix of None \<Rightarrow> None
      | Some i \<Rightarrow> map_option (\<lambda>b. (sg_startedSequence (segs ! i), b)) (f (segs ! i)))"

definition toolSegmentOf :: "string \<Rightarrow> int \<Rightarrow> tool_payload \<Rightarrow> (int \<times> tool_body) option \<Rightarrow> segment" where
  "toolSegmentOf runId sequence p existing =
     \<lparr>sg_id = toolSegmentId runId (te_toolCallId p), sg_runId = runId,
      sg_startedSequence = (case existing of None \<Rightarrow> sequence | Some (n, _) \<Rightarrow> n),
      sg_lastSequence = sequence, sg_status = mapToolPhaseToSegmentStatus (te_phase p),
      sg_body = Tool \<lparr>tb_toolCallId = te_toolCallId p, tb_toolId = te_toolId p, tb_toolPhase = te_phase p,
        tb_title = te_title p, tb_summary = te_summary p, tb_inputSummary = te_inputSummary p,
        tb_resultSummary = te_resultSummary p, tb_errorSummary = te_errorSummary p,
        tb_approval = buildToolSegmentApproval p (map_option snd existing)\<rparr>\<rparr>"

text \<open>\<open>submit\<close>, in Chinese\<close>

definition defaultSubmitLabel :: string where
  "defaultSubmitLabel = [CHR 0xE6, CHR 0x8F, CHR 0x90, CHR 0xE4, CHR 0xBA, CHR 0xA4]"

fun draftAsValue :: "draft_value \<Rightarrow> form_value" where
  "draftAsValue (DraftText s) = ValText s"
| "draftAsValue (DraftBool b) = ValBool b"

definition formSegmentOf ::
  "string \<Rightarrow> int \<Rightarrow> tool_payload \<Rightarrow> form_request \<Rightarrow> (int \<times> form_body) option \<Rightarrow> segment" where
  "formSegmentOf runId sequence p req existing =
     \<lparr>sg_id = formSegmentId runId (te_toolCallId p), sg_runId = runId,
      sg_startedSequence = (case existing of None \<Rightarrow> sequence | Some (n, _) \<Rightarrow> n),
      sg_lastSequence = sequence, sg_status = SegCompleted,
      sg_body = InlineForm \<lparr>fb_toolCallId = te_toolCallId p, fb_toolId = te_toolId p,
        fb_formId = fr_formId req, fb_title = fr_title req, fb_summary = te_summary p,
        fb_description = fr_description req,
        fb_submitLabel = (case fr_submitLabel req of None \<Rightarrow> defaultSubmitLabel | Some l \<Rightarrow> l),
        fb_fields = fr_fields req,
        fb_formState = (case existing of None \<Rightarrow> FormPending | Some (_, b) \<Rightarrow> fb_formState b),
        fb_formValues = (case existing of
            None \<Rightarrow> map (\<lambda>(k, v). (k, draftAsValue v)) (createDefaultInlineFormValues (fr_fields req))
          | Some (_, b) \<Rightarrow> fb_formValues b),
        fb_submittedPayload = (case existing of None \<Rightarrow> None | Some (_, b) \<Rightarrow> fb_submittedPayload b)\<rparr>\<rparr>"

definition isToolOfCall :: "string \<Rightarrow> segment \<Rightarrow> bool" where
  "isToolOfCall callId s \<longleftrightarrow> (case toolBodyOf s of None \<Rightarrow> False | Some b \<Rightarrow> tb_toolCallId b = callId)"

definition upsertInlineFormSegment :: "segment list \<Rightarrow> string \<Rightarrow> int \<Rightarrow> tool_payload \<Rightarrow> segment list" where
  "upsertInlineFormSegment segs runId sequence p =
     (case te_formRequest p of
        None \<Rightarrow> segs
      | Some req \<Rightarrow>
          (let segmentId = formSegmentId runId (te_toolCallId p);
               ix = findSegment segmentId segs;
               sanitized = filter (\<lambda>s. \<not> isToolOfCall (te_toolCallId p) s) segs;
               next = formSegmentOf runId sequence p req (existingAs formBodyOf segs ix)
           in if ix \<noteq> None then map (\<lambda>s. if sg_id s = segmentId then next else s) sanitized
              else sanitized @ [next]))"

definition upsertToolSegment :: "segment list \<Rightarrow> string \<Rightarrow> int \<Rightarrow> tool_payload \<Rightarrow> segment list" where
  "upsertToolSegment segs runId sequence p =
     (if isControlledInlineFormToolEvent (te_toolId p) (te_formRequest p)
      then upsertInlineFormSegment segs runId sequence p
      else let ix = findSegment (toolSegmentId runId (te_toolCallId p)) segs;
               next = toolSegmentOf runId sequence p (existingAs toolBodyOf segs ix)
           in (case ix of Some i \<Rightarrow> segs[i := next] | None \<Rightarrow> segs @ [next]))"

section \<open>Diagnostic and terminal segments\<close>

definition buildDiagnosticSummary :: "diagnostic_summary \<Rightarrow> diagnostic_summary" where
  "buildDiagnosticSummary d =
     \<lparr>dg_code = dg_code d, dg_message = dg_message d, dg_stage = dg_stage d, dg_details = dg_details d\<rparr>"

definition buildFailureSummary :: "failure_summary \<Rightarrow> failure_summary" where
  "buildFailureSummary f = \<lparr>fa_code = fa_code f, fa_message = fa_message f, fa_details = fa_details f\<rparr>"

definition diagnosticSegmentId :: "string \<Rightarrow> int \<Rightarrow> string" where
  "diagnosticSegmentId runId sequence = ''diagnostic:'' @ runId @ '':'' @ intString sequence"

definition appendDiagnosticSegment :: "segment list \<Rightarrow> string \<Rightarrow> int \<Rightarrow> diagnostic_summary \<Rightarrow> segment list" where
  "appendDiagnosticSegment segs runId sequence d =
     segs @ [\<lparr>sg_id = diagnosticSegmentId runId sequence, sg_runId = runId, sg_startedSequence = sequence,
       sg_lastSequence = sequence, sg_status = SegCompleted, sg_body = Diagnostic d\<rparr>]"

definition terminalSegment :: "string \<Rightarrow> string \<Rightarrow> int \<Rightarrow> terminal_body \<Rightarrow> segment" where
  "terminalSegment runId suf sequence b =
     \<lparr>sg_id = ''terminal:'' @ runId @ '':'' @ suf, sg_runId = runId, sg_startedSequence = sequence,
      sg_lastSequence = sequence, sg_status = tn_terminalPhase b, sg_body = Terminal b\<rparr>"

definition buildCompletedTerminalSegment :: "string \<Rightarrow> int \<Rightarrow> completed_payload \<Rightarrow> segment" where
  "buildCompletedTerminalSegment runId sequence c =
     terminalSegment runId ''completed'' sequence
       \<lparr>tn_terminalPhase = SegCompleted, tn_assistantMessageId = Some (co_assistantMessageId c),
        tn_cancelReason = None, tn_failure = None, tn_resolvedModelId = Some (co_resolvedModelId c),
        tn_resolvedModelRoute = Some (ResolvedRoute (cloneRuntimeResolvedModelRoute (co_resolvedModelRoute c))),
        tn_resolvedToolIds = co_resolvedToolIds c, tn_requestOptions = co_requestOptions c\<rparr>"

definition buildFailedTerminalSegment :: "string \<Rightarrow> int \<Rightarrow> failure_summary \<Rightarrow> segment" where
  "buildFailedTerminalSegment runId sequence f =
     terminalSegment runId ''failed'' sequence
       \<lparr>tn_terminalPhase = SegFailed, tn_assistantMessageId = None, tn_cancelReason = None,
        tn_failure = Some (buildFailureSummary f), tn_resolvedModelId = None, tn_resolvedModelRoute = None,
        tn_resolvedToolIds = [], tn_requestOptions = []\<rparr>"

definition buildCancelledTerminalSegment :: "string \<Rightarrow> int \<Rightarrow> string option \<Rightarrow> string \<Rightarrow> segment" where
  "buildCancelledTerminalSegment runId sequence mid reason =
     terminalSegment runId ''cancelled'' sequence
       \<lparr>tn_terminalPhase = SegCancelled, tn_assistantMessageId = mid, tn_cancelReason = Some reason,
        tn_failure = None, tn_resolvedModelId = None, tn_resolvedModelRoute = None,
        tn_resolvedToolIds = [], tn_requestOptions = []\<rparr>"

definition appendTerminalSegment :: "segment list \<Rightarrow> segment \<Rightarrow> segment list" where
  "appendTerminalSegment segs t = filter (\<lambda>s. \<not> isTerminal s) segs @ [t]"

text \<open>The identifier of the last assistant segment; the search runs from the end.\<close>

definition resolveLastAssistantSegmentId :: "segment list \<Rightarrow> string option" where
  "resolveLastAssistantSegmentId segs = map_option sg_id (find isAssistant (rev segs))"

definition completeAssistantSegment :: "string \<Rightarrow> int \<Rightarrow> completed_payload \<Rightarrow> segment \<Rightarrow> segment" where
  "completeAssistantSegment lastId sequence c s =
     (case sg_body s of
        Assistant b \<Rightarrow>
          if sg_id s = lastId then
            s\<lparr>sg_status := SegCompleted, sg_lastSequence := sequence,
              sg_body := Assistant (b\<lparr>as_text := (if as_text b = [] then co_assistantText c else as_text b),
                as_resolvedModelId := Some (co_resolvedModelId c),
                as_resolvedModelRoute :=
                  Some (ResolvedRoute (cloneRuntimeResolvedModelRoute (co_resolvedModelRoute c))),
                as_resolvedToolIds := co_resolvedToolIds c, as_requestOptions := co_requestOptions c\<rparr>)\<rparr>
          else s\<lparr>sg_status := SegCompleted\<rparr>
      | _ \<Rightarrow> s)"

definition completeAssistantSegments ::
  "segment list \<Rightarrow> string \<Rightarrow> int \<Rightarrow> completed_payload \<Rightarrow> int \<Rightarrow> segment list" where
  "completeAssistantSegments segs runId sequence c observedAt =
     (let done = completeStreamingReasoningSegments segs sequence observedAt in
      case resolveLastAssistantSegmentId segs of
        None \<Rightarrow> done @
          [\<lparr>sg_id = assistantSegmentId runId 1, sg_runId = runId, sg_startedSequence = sequence,
            sg_lastSequence = sequence, sg_status = SegCompleted,
            sg_body = Assistant \<lparr>as_assistantMessageId = co_assistantMessageId c,
              as_text = co_assistantText c, as_firstContentSequence = Some sequence,
              as_resolvedModelId = Some (co_resolvedModelId c),
              as_resolvedModelRoute =
                Some (ResolvedRoute (cloneRuntimeResolvedModelRoute (co_resolvedModelRoute c))),
              as_resolvedToolIds = co_resolvedToolIds c, as_requestOptions = co_requestOptions c\<rparr>\<rparr>]
      | Some lastId \<Rightarrow> map (completeAssistantSegment lastId sequence c) done)"

text \<open>One more than the largest last sequence number, and at least one.\<close>

definition resolveNextSyntheticSequence :: "segment list \<Rightarrow> int" where
  "resolveNextSyntheticSequence segs =
     fold (\<lambda>s m. if m < sg_lastSequence s then sg_lastSequence s else m) segs 0 + 1"

section \<open>The reducer\<close>

definition applyRunCompletedToState :: "int \<Rightarrow> run_state \<Rightarrow> string \<Rightarrow> string \<Rightarrow> int \<Rightarrow> completed_payload \<Rightarrow> run_state" where
  "applyRunCompletedToState now st runId sessionId sequence c =
     st\<lparr>rn_phase := PhaseCompleted, rn_runId := Some runId, rn_threadId := Some sessionId,
       rn_resolvedModelId := Some (co_resolvedModelId c),
       rn_resolvedModelRoute := Some (ResolvedRoute (cloneRuntimeResolvedModelRoute (co_resolvedModelRoute c))),
       rn_resolvedToolIds := co_resolvedToolIds c, rn_requestOptions := co_requestOptions c,
       rn_failure := None, rn_cancelReason := None,
       rn_segments := appendTerminalSegment
         (completeAssistantSegments (rn_segments st) runId sequence c now)
         (buildCompletedTerminalSegment runId sequence c)\<rparr>"

definition applyRunFailedToState :: "int \<Rightarrow> run_state \<Rightarrow> string \<Rightarrow> string \<Rightarrow> int \<Rightarrow> failure_summary \<Rightarrow> run_state" where
  "applyRunFailedToState now st runId sessionId sequence f =
     (if fa_code f = INLINE_FORM_AWAITING_INPUT_CODE then
        st\<lparr>rn_phase := PhaseAwaitingInput, rn_runId := Some runId, rn_threadId := Some sessionId,
          rn_failure := None, rn_cancelReason := None,
          rn_segments := finalizeStreamingSegmentsForAwaitingInput (rn_segments st) now\<rparr>
      else
        st\<lparr>rn_phase := PhaseFailed, rn_runId := Some runId, rn_threadId := Some sessionId,
          rn_failure := Some (buildFailureSummary f), rn_cancelReason := None,
          rn_segments := appendTerminalSegment (failStreamingSegments (rn_segments st) now)
            (buildFailedTerminalSegment runId sequence (buildFailureSummary f))\<rparr>)"

definition applyRunCancelledToState ::
  "int \<Rightarrow> run_state \<Rightarrow> string \<Rightarrow> string \<Rightarrow> int \<Rightarrow> string option \<Rightarrow> string \<Rightarrow> run_state" where
  "applyRunCancelledToState now st runId threadId sequence mid reason =
     st\<lparr>rn_phase := PhaseCancelled, rn_runId := Some runId, rn_threadId := Some threadId,
       rn_failure := None, rn_cancelReason := Some reason,
       rn_segments := appendTerminalSegment (cancelStreamingSegments (rn_segments st) now)
         (buildCancelledTerminalSegment runId sequence mid reason)\<rparr>"

definition inRun :: "run_event \<Rightarrow> run_state \<Rightarrow> run_state" where
  "inRun e st = st\<lparr>rn_runId := Some (ev_runId e), rn_threadId := Some (ev_sessionId e)\<rparr>"

definition applyReasoningDelta :: "int \<Rightarrow> run_state \<Rightarrow> run_event \<Rightarrow> string \<Rightarrow> run_state" where
  "applyReasoningDelta now st e delta =
     (if shouldSuppressReasoning (rn_reasoningSuppressed st) (rn_reasoningSuppressionBasis st) then
        (inRun e st)\<lparr>rn_phase := PhaseStreaming, rn_reasoningSuppressed := True,
          rn_reasoningTraceState := TraceSuppressed,
          rn_segments := stripReasoningSegments (rn_segments st)\<rparr>
      else
        (inRun e st)\<lparr>rn_phase := PhaseStreaming, rn_reasoningSuppressed := False,
          rn_reasoningTraceState := TraceVisible,
          rn_segments := appendReasoningDeltaSegment (rn_segments st) (ev_runId e) (ev_sequence e) delta now\<rparr>)"

definition applyRuntimeRunEventToCopilotRunState :: "int \<Rightarrow> run_state \<Rightarrow> run_event \<Rightarrow> run_state" where
  "applyRuntimeRunEventToCopilotRunState now st e =
     (let closed = completeStreamingReasoningSegments (rn_segments st) (ev_sequence e) now in
      case ev_payload e of
        RunStarted mid m \<Rightarrow> applyRunThinkingMetadataToState ((inRun e st)\<lparr>rn_phase := PhaseStreaming\<rparr>) m
      | RunMetadata m \<Rightarrow> applyRunThinkingMetadataToState (inRun e st) m
      | TextDelta mid delta \<Rightarrow> (inRun e st)\<lparr>rn_phase := PhaseStreaming,
          rn_segments := appendAssistantDeltaSegment closed (ev_runId e) (ev_sequence e) mid delta\<rparr>
      | ReasoningDelta delta \<Rightarrow> applyReasoningDelta now st e delta
      | ToolEvent p \<Rightarrow> (inRun e st)\<lparr>rn_phase := PhaseStreaming,
          rn_segments := upsertToolSegment closed (ev_runId e) (ev_sequence e) p\<rparr>
      | RunDiagnostic d \<Rightarrow> (inRun e st)\<lparr>rn_diagnostic := Some (buildDiagnosticSummary d),
          rn_segments := appendDiagnosticSegment closed (ev_runId e) (ev_sequence e) (buildDiagnosticSummary d)\<rparr>
      | RunCompleted c \<Rightarrow> applyRunCompletedToState now st (ev_runId e) (ev_sessionId e) (ev_sequence e) c
      | RunFailed f \<Rightarrow> applyRunFailedToState now st (ev_runId e) (ev_sessionId e) (ev_sequence e) f
      | RunCancelled mid reason \<Rightarrow>
          applyRunCancelledToState now st (ev_runId e) (ev_sessionId e) (ev_sequence e) (Some mid) reason)"

definition orElse :: "'a option \<Rightarrow> 'a \<Rightarrow> 'a" where
  "orElse v d = (case v of None \<Rightarrow> d | Some x \<Rightarrow> x)"

definition markCopilotRunCancelled :: "int \<Rightarrow> run_state \<Rightarrow> string \<Rightarrow> run_state" where
  "markCopilotRunCancelled now st reason =
     applyRunCancelledToState now st (orElse (rn_runId st) ''local-cancelled-run'') (orElse (rn_threadId st) [])
       (resolveNextSyntheticSequence (rn_segments st)) None reason"

definition markCopilotRunTransportFailed :: "int \<Rightarrow> run_state \<Rightarrow> failure_summary \<Rightarrow> run_state" where
  "markCopilotRunTransportFailed now st f =
     (let runId = orElse (rn_runId st) ''local-failed-run'' in
      st\<lparr>rn_phase := PhaseFailed, rn_runId := Some runId, rn_threadId := Some (orElse (rn_threadId st) []),
        rn_failure := Some f, rn_cancelReason := None,
        rn_segments := appendTerminalSegment (failStreamingSegments (rn_segments st) now)
          (buildFailedTerminalSegment runId (resolveNextSyntheticSequence (rn_segments st)) f)\<rparr>)"

end
