(* ===== verification/Run_View.thy ===== *)
theory Run_View
  imports Error_Detail Run_Segments
begin

text \<open>
  What the message list shows of a run: \<open>run-segment-view-model.ts\<close>. Each segment gives at most one item, and the
  placeholder for the assistant is shown while there is nothing to see yet. A field that the
  code types as optional because history reuses the projection is read from the run state, which always has it.
\<close>

section \<open>Items\<close>

datatype item_status = ItemStreaming | ItemCompleted | ItemFailed | ItemCancelled

record user_item =
  ui_id :: string
  ui_title :: string
  ui_content :: string
  ui_structuredPayload :: "jrecord option option"
  ui_status :: item_status

text \<open>The thinking fields that assistant and terminal items share.\<close>

record item_thinking =
  ik_requestedThinkingSelection :: "thinking_selection option"
  ik_appliedThinkingSelection :: "thinking_selection option"
  ik_requestedThinkingLevel :: "thinking_level option"
  ik_appliedThinkingLevel :: "thinking_level option"
  ik_thinkingCapabilitySnapshot :: "thinking_capability option"
  ik_reasoningTraceState :: trace_state
  ik_reasoningSuppressionBasis :: "suppression_basis option"

record assistant_item =
  ia_resolvedModelId :: "string option"
  ia_resolvedModelRoute :: "any_route option"
  ia_resolvedToolIds :: "string list"
  ia_requestOptions :: jrecord
  ia_thinking :: item_thinking

record reasoning_item =
  ir_observedStartedAt :: int
  ir_observedFinishedAt :: "int option"
  ir_isCollapsedByDefault :: bool

record tool_item =
  ix_toolCallId :: string
  ix_toolId :: string
  ix_toolPhase :: tool_phase
  ix_inputSummary :: "string option"
  ix_resultSummary :: "string option"
  ix_errorSummary :: "string option"
  ix_approval :: "approval_body option"
  ix_errorDetail :: "error_source option"

record form_item =
  iy_toolCallId :: string
  iy_toolId :: string
  iy_formId :: string
  iy_description :: "string option"
  iy_submitLabel :: string
  iy_fields :: "form_field list"
  iy_formState :: form_state
  iy_formValues :: "(string \<times> form_value) list"
  iy_submittedPayload :: "jrecord option"

datatype ended_phase = EndedFailed | EndedCancelled

record terminal_item =
  iz_terminalPhase :: ended_phase
  iz_cancelReason :: "string option"
  iz_failure :: "failure_summary option"
  iz_resolvedModelId :: "string option"
  iz_resolvedModelRoute :: "any_route option"
  iz_resolvedToolIds :: "string list"
  iz_requestOptions :: jrecord
  iz_errorDetail :: "error_source option"
  iz_thinking :: item_thinking

datatype item_body =
    AssistantItem assistant_item
  | ReasoningItem reasoning_item
  | ToolItem tool_item
  | FormItem form_item
  | DiagnosticItem diagnostic_summary
  | TerminalItem terminal_item

record view_item =
  it_id :: string
  it_runId :: string
  it_sequence :: int
  it_status :: item_status
  it_title :: string
  it_content :: string
  it_body :: item_body

datatype list_item = UserItem user_item | RunItem view_item

text \<open>The argument of \<open>createUserMessageListItem\<close>, and the digits that \<open>Math.random()\<close> gives.\<close>

datatype user_input = PlainInput string | StructuredInput string "jrecord option option"

fun createUserMessageListItem :: "string \<Rightarrow> user_input \<Rightarrow> user_item" where
  "createUserMessageListItem random (PlainInput content) =
     \<lparr>ui_id = ''user:'' @ content @ '':'' @ random, ui_title = [], ui_content = content,
      ui_structuredPayload = None, ui_status = ItemCompleted\<rparr>"
| "createUserMessageListItem random (StructuredInput content payload) =
     \<lparr>ui_id = ''user:'' @ content @ '':'' @ random, ui_title = [], ui_content = content,
      ui_structuredPayload = Some (case payload of None \<Rightarrow> None | Some p \<Rightarrow> p), ui_status = ItemCompleted\<rparr>"

section \<open>Helpers\<close>

fun mapSegmentStatus :: "segment_status \<Rightarrow> item_status" where
  "mapSegmentStatus SegPending = ItemStreaming"
| "mapSegmentStatus SegStreaming = ItemStreaming"
| "mapSegmentStatus SegCompleted = ItemCompleted"
| "mapSegmentStatus SegFailed = ItemFailed"
| "mapSegmentStatus SegCancelled = ItemCancelled"

definition isRenderableAssistantSegment :: "segment \<Rightarrow> bool" where
  "isRenderableAssistantSegment s = (case sg_body s of Assistant b \<Rightarrow> as_text b \<noteq> [] | _ \<Rightarrow> False)"

definition isReasoningSuppressedForRun :: "run_state \<Rightarrow> bool" where
  "isReasoningSuppressedForRun st \<longleftrightarrow>
     rn_reasoningSuppressed st \<or> rn_reasoningTraceState st = TraceSuppressed \<or>
     (case rn_reasoningSuppressionBasis st of None \<Rightarrow> False | Some b \<Rightarrow> sb_shouldSuppress b)"

definition shouldProjectReasoningSegment :: "run_state \<Rightarrow> bool" where
  "shouldProjectReasoningSegment st \<longleftrightarrow> \<not> isReasoningSuppressedForRun st"

definition toolFailureText :: string where "toolFailureText = [CHR 0xE5, CHR 0xB7, CHR 0xA5, CHR 0xE5, CHR 0x85, CHR 0xB7, CHR 0xE6, CHR 0x89, CHR 0xA7, CHR 0xE8, CHR 0xA1, CHR 0x8C, CHR 0xE5, CHR 0xA4, CHR 0xB1, CHR 0xE8, CHR 0xB4, CHR 0xA5, CHR 0xEF, CHR 0xBC, CHR 0x8C, CHR 0xE8, CHR 0xAF, CHR 0xB7, CHR 0xE9, CHR 0x87, CHR 0x8D, CHR 0xE8, CHR 0xAF, CHR 0x95, CHR 0xE3, CHR 0x80, CHR 0x82]"
definition casFailureText :: string where "casFailureText = [CHR 0xE8, CHR 0xAE, CHR 0xA4, CHR 0xE8, CHR 0xAF, CHR 0x81, CHR 0xE5, CHR 0xA4, CHR 0xB1, CHR 0xE8, CHR 0xB4, CHR 0xA5, CHR 0xEF, CHR 0xBC, CHR 0x8C, CHR 0xE8, CHR 0xAF, CHR 0xB7, CHR 0xE6, CHR 0xA3, CHR 0x80, CHR 0xE6, CHR 0x9F, CHR 0xA5, CHR 0x20, CHR 0x53, CHR 0x55, CHR 0x53, CHR 0x54, CHR 0x65, CHR 0x63, CHR 0x68, CHR 0x20, CHR 0x43, CHR 0x41, CHR 0x53, CHR 0x20, CHR 0xE5, CHR 0x87, CHR 0xAD, CHR 0xE8, CHR 0xAF, CHR 0x81, CHR 0xE3, CHR 0x80, CHR 0x82]"
definition cancelledText :: string where "cancelledText = [CHR 0xE6, CHR 0x9C, CHR 0xAC, CHR 0xE6, CHR 0xAC, CHR 0xA1, CHR 0xE5, CHR 0x93, CHR 0x8D, CHR 0xE5, CHR 0xBA, CHR 0x94, CHR 0xE5, CHR 0xB7, CHR 0xB2, CHR 0xE5, CHR 0x8F, CHR 0x96, CHR 0xE6, CHR 0xB6, CHR 0x88, CHR 0xE3, CHR 0x80, CHR 0x82]"
definition cancelledBecause :: string where "cancelledBecause = [CHR 0xE6, CHR 0x9C, CHR 0xAC, CHR 0xE6, CHR 0xAC, CHR 0xA1, CHR 0xE5, CHR 0x93, CHR 0x8D, CHR 0xE5, CHR 0xBA, CHR 0x94, CHR 0xE5, CHR 0xB7, CHR 0xB2, CHR 0xE5, CHR 0x8F, CHR 0x96, CHR 0xE6, CHR 0xB6, CHR 0x88, CHR 0xEF, CHR 0xBC, CHR 0x9A]"

definition formatFailureMessage :: "failure_summary option \<Rightarrow> string" where
  "formatFailureMessage failure =
     (case failure of
        None \<Rightarrow> genericFailure
      | Some f \<Rightarrow>
          if fa_code f = ''tool_execution_failed'' then toolFailureText
          else if fa_code f = ''authentication_required'' then
            (if trim (fa_message f) = [] then casFailureText else trim (fa_message f))
          else genericFailure)"

definition formatCancelledReason :: "string \<Rightarrow> string" where
  "formatCancelledReason reason =
     (if trim reason = [] then cancelledText else cancelledBecause @ trim reason)"

definition readFailureStage :: "jrecord \<Rightarrow> string option" where
  "readFailureStage details =
     (case readOptionalString (prop_of details ''phase'') of
        Some s \<Rightarrow> Some s | None \<Rightarrow> readOptionalString (prop_of details ''stage''))"

definition dedupeStrings :: "string list \<Rightarrow> string list" where
  "dedupeStrings vals = dedupeFrom [] vals"

definition dedupeToolIds :: "string list \<Rightarrow> string list" where
  "dedupeToolIds toolIds = dedupeFrom [] toolIds"

definition plainRoute :: "model_route option \<Rightarrow> any_route option" where
  "plainRoute r = map_option PlainRoute r"

text \<open>\<open>candidate?.trim() ?? ''\<close>\<close>

definition trimmedOrEmpty :: "string option \<Rightarrow> string" where
  "trimmedOrEmpty c = (case c of None \<Rightarrow> [] | Some s \<Rightarrow> trim s)"

definition modelIdCandidates :: "string option \<Rightarrow> any_route option \<Rightarrow> run_state \<Rightarrow> string option list" where
  "modelIdCandidates modelId route st =
     [modelId, rn_resolvedModelId st, readModelIdFromRoute route, readModelIdFromRoute (rn_resolvedModelRoute st),
      readModelIdFromRoute (plainRoute (rn_activeModelRoute st))]"

fun firstTrimmed :: "string option list \<Rightarrow> string option" where
  "firstTrimmed [] = None"
| "firstTrimmed (c # cs) = (if trimmedOrEmpty c \<noteq> [] then Some (trimmedOrEmpty c) else firstTrimmed cs)"

definition resolveAssistantModelId :: "assistant_body \<Rightarrow> run_state \<Rightarrow> string option" where
  "resolveAssistantModelId b st =
     firstTrimmed (modelIdCandidates (as_resolvedModelId b) (as_resolvedModelRoute b) st)"

fun firstRoute :: "any_route option list \<Rightarrow> any_route option" where
  "firstRoute [] = None"
| "firstRoute (r # rs) = (case cloneAnyRoute r of None \<Rightarrow> firstRoute rs | Some r' \<Rightarrow> Some r')"

definition resolveAssistantModelRoute :: "assistant_body \<Rightarrow> run_state \<Rightarrow> any_route option" where
  "resolveAssistantModelRoute b st =
     firstRoute [as_resolvedModelRoute b, rn_resolvedModelRoute st, plainRoute (rn_activeModelRoute st)]"

definition thinkingOf :: "run_state \<Rightarrow> item_thinking" where
  "thinkingOf st =
     \<lparr>ik_requestedThinkingSelection = cloneRuntimeThinkingSelection (rn_requestedThinkingSelection st),
      ik_appliedThinkingSelection = cloneRuntimeThinkingSelection (rn_appliedThinkingSelection st),
      ik_requestedThinkingLevel = rn_requestedThinkingLevel st,
      ik_appliedThinkingLevel = rn_appliedThinkingLevel st,
      ik_thinkingCapabilitySnapshot = cloneRuntimeThinkingCapability (rn_thinkingCapabilitySnapshot st),
      ik_reasoningTraceState = rn_reasoningTraceState st,
      ik_reasoningSuppressionBasis = cloneRuntimeReasoningSuppressionBasis (rn_reasoningSuppressionBasis st)\<rparr>"

section \<open>Items of the segments\<close>

definition assistantTitle :: string where "assistantTitle = [CHR 0xE5, CHR 0x8A, CHR 0xA9, CHR 0xE6, CHR 0x89, CHR 0x8B, CHR 0xE5, CHR 0x93, CHR 0x8D, CHR 0xE5, CHR 0xBA, CHR 0x94]"
definition reasoningTitle :: string where "reasoningTitle = [CHR 0xE6, CHR 0x80, CHR 0x9D, CHR 0xE8, CHR 0x80, CHR 0x83]"
definition diagnosticTitle :: string where "diagnosticTitle = [CHR 0xE8, CHR 0xBF, CHR 0x90, CHR 0xE8, CHR 0xA1, CHR 0x8C, CHR 0xE8, CHR 0xAF, CHR 0x8A, CHR 0xE6, CHR 0x96, CHR 0xAD]"
definition cancelledTitle :: string where "cancelledTitle = [CHR 0xE5, CHR 0xB7, CHR 0xB2, CHR 0xE5, CHR 0x8F, CHR 0x96, CHR 0xE6, CHR 0xB6, CHR 0x88]"

definition projectAssistantSegment :: "segment \<Rightarrow> assistant_body \<Rightarrow> run_state \<Rightarrow> view_item list" where
  "projectAssistantSegment s b st =
     (if \<not> isRenderableAssistantSegment s then []
      else
        (let modelId = resolveAssistantModelId b st; route = resolveAssistantModelRoute b st in
         [\<lparr>it_id = sg_id s, it_runId = sg_runId s, it_sequence = sg_startedSequence s,
           it_status = mapSegmentStatus (sg_status s),
           it_title = readWithFallback [modelId, readModelIdFromRoute route] assistantTitle,
           it_content = as_text b,
           it_body = AssistantItem \<lparr>ia_resolvedModelId = modelId, ia_resolvedModelRoute = route,
             ia_resolvedToolIds = as_resolvedToolIds b, ia_requestOptions = as_requestOptions b,
             ia_thinking = thinkingOf st\<rparr>\<rparr>]))"

definition projectReasoningSegment :: "segment \<Rightarrow> reasoning_body \<Rightarrow> view_item" where
  "projectReasoningSegment s b =
     \<lparr>it_id = sg_id s, it_runId = sg_runId s, it_sequence = sg_startedSequence s,
      it_status = mapSegmentStatus (sg_status s), it_title = reasoningTitle, it_content = re_text b,
      it_body = ReasoningItem \<lparr>ir_observedStartedAt = re_observedStartedAt b,
        ir_observedFinishedAt = re_observedFinishedAt b, ir_isCollapsedByDefault = True\<rparr>\<rparr>"

definition toolErrorDetail :: "segment \<Rightarrow> tool_body \<Rightarrow> run_state \<Rightarrow> failure_summary \<Rightarrow> error_source" where
  "toolErrorDetail s b st f =
     createCopilotErrorDetailSource
       \<lparr>ei_source = SourceStreaming, ei_title = Some (tb_title b),
        ei_summaryMessage = formatFailureMessage (Some f), ei_rawMessage = Some (fa_message f),
        ei_code = Some (fa_code f),
        ei_stage = Some (readWithFallback [readFailureStage (fa_details f)] ''streaming''),
        ei_requestedMethod = Some ''run/stream'', ei_status = None,
        ei_details = Some (spreadInto [(''toolId'', JStr (tb_toolId b)), (''toolCallId'', JStr (tb_toolCallId b))]
          (fa_details f)),
        ei_resolvedModelId = rn_resolvedModelId st, ei_resolvedModelRoute = rn_resolvedModelRoute st,
        ei_resolvedToolIds = Some (dedupeStrings (rn_resolvedToolIds st @ [tb_toolId b])),
        ei_requestOptions = Some (rn_requestOptions st)\<rparr>"

definition projectToolSegment :: "segment \<Rightarrow> tool_body \<Rightarrow> run_state \<Rightarrow> view_item" where
  "projectToolSegment s b st =
     (let toolFailure = (if sg_status s = SegFailed then rn_failure st else None) in
      \<lparr>it_id = sg_id s, it_runId = sg_runId s, it_sequence = sg_startedSequence s,
       it_status = mapSegmentStatus (sg_status s), it_title = tb_title b, it_content = tb_summary b,
       it_body = ToolItem \<lparr>ix_toolCallId = tb_toolCallId b, ix_toolId = tb_toolId b,
         ix_toolPhase = tb_toolPhase b, ix_inputSummary = tb_inputSummary b,
         ix_resultSummary = tb_resultSummary b, ix_errorSummary = tb_errorSummary b,
         ix_approval = (case tb_approval b of None \<Rightarrow> None
           | Some a \<Rightarrow> Some \<lparr>sa_mode = sa_mode a, sa_approvalMethod = sa_approvalMethod a,
               sa_riskLevel = sa_riskLevel a, sa_timeoutAt = sa_timeoutAt a,
               sa_timeoutSeconds = sa_timeoutSeconds a, sa_timeoutAction = sa_timeoutAction a\<rparr>),
         ix_errorDetail = map_option (toolErrorDetail s b st) toolFailure\<rparr>\<rparr>)"

definition projectInlineFormSegment :: "segment \<Rightarrow> form_body \<Rightarrow> view_item" where
  "projectInlineFormSegment s b =
     \<lparr>it_id = sg_id s, it_runId = sg_runId s, it_sequence = sg_lastSequence s, it_status = ItemCompleted,
      it_title = fb_title b, it_content = fb_summary b,
      it_body = FormItem \<lparr>iy_toolCallId = fb_toolCallId b, iy_toolId = fb_toolId b, iy_formId = fb_formId b,
        iy_description = fb_description b, iy_submitLabel = fb_submitLabel b, iy_fields = fb_fields b,
        iy_formState = fb_formState b, iy_formValues = fb_formValues b,
        iy_submittedPayload = fb_submittedPayload b\<rparr>\<rparr>"

definition projectDiagnosticSegment :: "segment \<Rightarrow> diagnostic_summary \<Rightarrow> view_item" where
  "projectDiagnosticSegment s d =
     \<lparr>it_id = sg_id s, it_runId = sg_runId s, it_sequence = sg_startedSequence s, it_status = ItemCompleted,
      it_title = diagnosticTitle, it_content = dg_message d,
      it_body = DiagnosticItem \<lparr>dg_code = dg_code d, dg_message = dg_message d, dg_stage = dg_stage d,
        dg_details = dg_details d\<rparr>\<rparr>"

section \<open>The end of the run\<close>

text \<open>\<open>candidates.find((candidate) => (candidate?.trim() ?? '') !== '') ?? null\<close>: found untrimmed\<close>

fun firstNotBlank :: "string option list \<Rightarrow> string option" where
  "firstNotBlank [] = None"
| "firstNotBlank (c # cs) = (if trimmedOrEmpty c \<noteq> [] then c else firstNotBlank cs)"

definition toolIdsOf :: "segment list \<Rightarrow> string list" where
  "toolIdsOf segs = concat (map (\<lambda>s. case sg_body s of Tool b \<Rightarrow> [tb_toolId b] | _ \<Rightarrow> []) segs)"

record terminal_context =
  tx_resolvedModelId :: "string option"
  tx_resolvedModelRoute :: "any_route option"
  tx_resolvedToolIds :: "string list"
  tx_requestOptions :: jrecord

definition resolveTerminalContext :: "terminal_body \<Rightarrow> run_state \<Rightarrow> terminal_context" where
  "resolveTerminalContext b st =
     \<lparr>tx_resolvedModelId = firstNotBlank (modelIdCandidates (tn_resolvedModelId b) (tn_resolvedModelRoute b) st),
      tx_resolvedModelRoute = cloneAnyRoute (coalesce (tn_resolvedModelRoute b)
        (coalesce (rn_resolvedModelRoute st) (plainRoute (rn_activeModelRoute st)))),
      tx_resolvedToolIds = dedupeToolIds (tn_resolvedToolIds b @ rn_resolvedToolIds st @ toolIdsOf (rn_segments st)),
      tx_requestOptions = (if tn_requestOptions b \<noteq> [] then tn_requestOptions b else rn_requestOptions st)\<rparr>"

definition terminalItem :: "segment \<Rightarrow> run_state \<Rightarrow> terminal_context \<Rightarrow> ended_phase \<Rightarrow> string option \<Rightarrow>
    failure_summary option \<Rightarrow> error_source option \<Rightarrow> item_body" where
  "terminalItem s st ctx phase reason failure detail =
     TerminalItem \<lparr>iz_terminalPhase = phase, iz_cancelReason = reason, iz_failure = failure,
       iz_resolvedModelId = tx_resolvedModelId ctx, iz_resolvedModelRoute = tx_resolvedModelRoute ctx,
       iz_resolvedToolIds = tx_resolvedToolIds ctx, iz_requestOptions = tx_requestOptions ctx,
       iz_errorDetail = detail, iz_thinking = thinkingOf st\<rparr>"

definition terminalErrorDetail :: "terminal_context \<Rightarrow> failure_summary \<Rightarrow> error_source" where
  "terminalErrorDetail ctx f =
     createCopilotErrorDetailSource
       \<lparr>ei_source = SourceStreaming, ei_title = Some failedTitle,
        ei_summaryMessage = formatFailureMessage (Some f), ei_rawMessage = Some (fa_message f),
        ei_code = Some (fa_code f), ei_stage = Some ''streaming'', ei_requestedMethod = Some ''run/stream'',
        ei_status = None, ei_details = Some (fa_details f), ei_resolvedModelId = tx_resolvedModelId ctx,
        ei_resolvedModelRoute = tx_resolvedModelRoute ctx, ei_resolvedToolIds = Some (tx_resolvedToolIds ctx),
        ei_requestOptions = Some (tx_requestOptions ctx)\<rparr>"

text \<open>The phase of a terminal segment is completed, cancelled or failed; only the last two give an item.\<close>

definition projectTerminalSegment :: "segment \<Rightarrow> terminal_body \<Rightarrow> run_state \<Rightarrow> view_item option" where
  "projectTerminalSegment s b st =
     (case tn_terminalPhase b of
        SegCancelled \<Rightarrow>
          (let ctx = resolveTerminalContext b st in
           Some \<lparr>it_id = sg_id s, it_runId = sg_runId s, it_sequence = sg_startedSequence s,
             it_status = ItemCancelled, it_title = cancelledTitle,
             it_content = formatCancelledReason (case tn_cancelReason b of None \<Rightarrow> [] | Some r \<Rightarrow> r),
             it_body = terminalItem s st ctx EndedCancelled (tn_cancelReason b) None None\<rparr>)
      | SegFailed \<Rightarrow>
          (let ctx = resolveTerminalContext b st; failure = map_option buildFailureSummary (tn_failure b) in
           Some \<lparr>it_id = sg_id s, it_runId = sg_runId s, it_sequence = sg_startedSequence s,
             it_status = ItemFailed, it_title = failedTitle, it_content = formatFailureMessage (tn_failure b),
             it_body = terminalItem s st ctx EndedFailed None failure (map_option (terminalErrorDetail ctx) failure)\<rparr>)
      | _ \<Rightarrow> None)"

section \<open>The view model\<close>

definition projectSegmentToViewItems :: "segment \<Rightarrow> run_state \<Rightarrow> view_item list" where
  "projectSegmentToViewItems s st =
     (case sg_body s of
        Assistant b \<Rightarrow> projectAssistantSegment s b st
      | Reasoning b \<Rightarrow> if shouldProjectReasoningSegment st then [projectReasoningSegment s b] else []
      | Tool b \<Rightarrow> [projectToolSegment s b st]
      | InlineForm b \<Rightarrow> [projectInlineFormSegment s b]
      | Diagnostic d \<Rightarrow> [projectDiagnosticSegment s d]
      | Terminal b \<Rightarrow> (case projectTerminalSegment s b st of None \<Rightarrow> [] | Some item \<Rightarrow> [item]))"

definition buildCopilotRunSegmentViewModel :: "run_state \<Rightarrow> view_item list" where
  "buildCopilotRunSegmentViewModel st = concat (map (\<lambda>s. projectSegmentToViewItems s st) (rn_segments st))"

definition buildCopilotMessageListItems :: "list_item list \<Rightarrow> run_state \<Rightarrow> list_item list" where
  "buildCopilotMessageListItems history st = history @ map RunItem (buildCopilotRunSegmentViewModel st)"

section \<open>The placeholder\<close>

datatype dismiss_reason = DismissAssistant | DismissReasoning | DismissTool | DismissTerminal | DismissInactive

record placeholder_state =
  ph_shouldRender :: bool
  ph_dismissReason :: "dismiss_reason option"

definition dismissed :: "dismiss_reason \<Rightarrow> placeholder_state" where
  "dismissed r = \<lparr>ph_shouldRender = False, ph_dismissReason = Some r\<rparr>"

fun isToolBody :: "seg_body \<Rightarrow> bool" where
  "isToolBody (Tool _) = True" | "isToolBody _ = False"

fun isInlineFormBody :: "seg_body \<Rightarrow> bool" where
  "isInlineFormBody (InlineForm _) = True" | "isInlineFormBody _ = False"

definition resolveCopilotAssistantPlaceholderState :: "run_state \<Rightarrow> placeholder_state" where
  "resolveCopilotAssistantPlaceholderState st =
     (if list_ex isRenderableAssistantSegment (rn_segments st) then dismissed DismissAssistant
      else if \<not> isReasoningSuppressedForRun st \<and> list_ex isReasoning (rn_segments st) then dismissed DismissReasoning
      else if list_ex (\<lambda>s. isToolBody (sg_body s)) (rn_segments st) then dismissed DismissTool
      else if list_ex (\<lambda>s. isInlineFormBody (sg_body s)) (rn_segments st) then dismissed DismissTool
      else if list_ex isTerminal (rn_segments st) then dismissed DismissTerminal
      else if rn_phase st = PhaseStarting \<or> rn_phase st = PhaseStreaming
           then \<lparr>ph_shouldRender = True, ph_dismissReason = None\<rparr>
      else dismissed DismissInactive)"

section \<open>The duration of reasoning\<close>

definition resolveCopilotReasoningElapsedMs :: "reasoning_item \<Rightarrow> int \<Rightarrow> int" where
  "resolveCopilotReasoningElapsedMs r observedNow =
     (let ended = (case ir_observedFinishedAt r of None \<Rightarrow> observedNow | Some t \<Rightarrow> t)
      in max 0 (ended - ir_observedStartedAt r))"

text \<open>\<open>(Math.floor(Math.max(0, ms) / 100) / 10).toFixed(1)\<close>, for whole milliseconds\<close>

definition formatCopilotReasoningElapsedSeconds :: "int \<Rightarrow> string" where
  "formatCopilotReasoningElapsedSeconds ms =
     (let tenths = max 0 ms div 100 in intString (tenths div 10) @ ''.'' @ intString (tenths mod 10))"

definition formatCopilotReasoningDurationLabel :: "string \<Rightarrow> reasoning_item \<Rightarrow> int \<Rightarrow> string" where
  "formatCopilotReasoningDurationLabel title r observedNow =
     title @ '' '' @ formatCopilotReasoningElapsedSeconds (resolveCopilotReasoningElapsedMs r observedNow) @ ''s''"

end
