(* ===== verification/Run_Protocol.thy ===== *)
theory Run_Protocol
  imports Message_Stream
begin

text \<open>
  The stream protocol of \<open>src/features/copilot/thread-run-contract.ts\<close>: \<open>validateSingleStreamEvent\<close> checks
  each event against the state of the stream, and \<open>consumeRuntimeRunEventStream\<close> passes the events on
  until one is refused or the stream ends. The specification \<open>validRunStream\<close> states the rules of
  \<open>docs/system/chat-runtime-contract.md\<close> without a state machine; the lemmas show that the code accepts
  exactly the streams that satisfy it and passes on the longest valid prefix of the others.
\<close>

section \<open>The code\<close>

record stream_state =
  sv_lastSequence :: int
  sv_runId :: "string option"
  sv_sessionId :: "string option"
  sv_sawTerminal :: bool
  sv_sawRunStarted :: bool

definition initialStreamState :: stream_state where
  "initialStreamState = \<lparr>sv_lastSequence = 0, sv_runId = None, sv_sessionId = None,
     sv_sawTerminal = False, sv_sawRunStarted = False\<rparr>"

definition validateSingleStreamEvent :: "run_event \<Rightarrow> stream_state \<Rightarrow> unit res" where
  "validateSingleStreamEvent e st =
     (if sv_sawTerminal st then
        Inl ''Runtime event stream emitted additional events after a terminal event.''
      else if ev_sequence e \<le> sv_lastSequence st then
        Inl (''Runtime event sequence regressed from '' @ intString (sv_lastSequence st) @ '' to '' @
             intString (ev_sequence e) @ ''.'')
      else if sv_runId st \<noteq> None \<and> Some (ev_runId e) \<noteq> sv_runId st then
        Inl (''Runtime event stream changed runId from '' @ the (sv_runId st) @ '' to '' @ ev_runId e @ ''.'')
      else if sv_sessionId st \<noteq> None \<and> Some (ev_sessionId e) \<noteq> sv_sessionId st then
        Inl (''Runtime event stream changed sessionId from '' @ the (sv_sessionId st) @ '' to '' @
             ev_sessionId e @ ''.'')
      else if \<not> sv_sawRunStarted st \<and> payloadType (ev_payload e) \<noteq> TyRunStarted then
        Inl (''Runtime event stream must begin with run_started, received '' @
             eventTypeString (payloadType (ev_payload e)) @ ''.'')
      else Inr ())"

text \<open>The assignments after a successful check.\<close>

definition noteStreamEvent :: "run_event \<Rightarrow> stream_state \<Rightarrow> stream_state" where
  "noteStreamEvent e st = \<lparr>sv_lastSequence = ev_sequence e, sv_runId = Some (ev_runId e),
     sv_sessionId = Some (ev_sessionId e),
     sv_sawTerminal = (sv_sawTerminal st \<or> isTerminalRuntimeRunEvent e),
     sv_sawRunStarted = (sv_sawRunStarted st \<or> isStartedPayload (ev_payload e))\<rparr>"

definition endOfStream :: "stream_state \<Rightarrow> unit res" where
  "endOfStream st =
     (if \<not> sv_sawRunStarted st then Inl ''Runtime event stream ended before run_started was received.''
      else if \<not> sv_sawTerminal st then Inl ''Runtime event stream ended without a terminal event.''
      else Inr ())"

text \<open>The loop over the parsed events, with the error the parser ended with, if any.\<close>

fun consumeEvents :: "stream_state \<Rightarrow> run_event list \<Rightarrow> unit res \<Rightarrow> (run_event, unit) generated" where
  "consumeEvents st [] fin = ([], andThen fin (\<lambda>_. endOfStream st))"
| "consumeEvents st (e # es) fin =
     (case validateSingleStreamEvent e st of
        Inl m \<Rightarrow> ([], Inl m)
      | Inr _ \<Rightarrow> yielding (Some e) (consumeEvents (noteStreamEvent e st) es fin))"

text \<open>
  The \<open>catch\<close> block: \<open>abortLike m\<close> says that the caught error, with the message \<open>m\<close>, is an \<open>AbortError\<close> or
  that the signal is aborted when it is caught; both are decided by the browser.
\<close>

datatype run_error = AbortError | RunError string

definition catchStreamError :: "(string \<Rightarrow> bool) \<Rightarrow> unit res \<Rightarrow> run_error + unit" where
  "catchStreamError abortLike r =
     (case r of Inl m \<Rightarrow> Inl (if abortLike m then AbortError else RunError m) | Inr _ \<Rightarrow> Inr ())"

definition consumeRuntimeRunEventStream ::
  "(string \<Rightarrow> bool) \<Rightarrow> (run_event, unit) generated \<Rightarrow> run_event list \<times> (run_error + unit)" where
  "consumeRuntimeRunEventStream abortLike g =
     (let r = consumeEvents initialStreamState (fst g) (snd g)
      in (fst r, catchStreamError abortLike (snd r)))"

text \<open>\<open>sendRuntimeMessage\<close> adds the check against the identifier of the run it started.\<close>

fun guardRunId :: "string \<Rightarrow> run_event list \<Rightarrow> run_error + unit \<Rightarrow> run_event list \<times> (run_error + unit)" where
  "guardRunId runId [] fin = ([], fin)"
| "guardRunId runId (e # es) fin =
     (if ev_runId e \<noteq> runId
      then ([], Inl (RunError (''Runtime event stream changed runId from '' @ runId @ '' to '' @ ev_runId e @ ''.'')))
      else (case guardRunId runId es fin of (ys, r) \<Rightarrow> (e # ys, r)))"

section \<open>The rules of the contract\<close>

text \<open>
  The order rules: the first event is \<open>run_started\<close>, the sequence numbers are positive and strictly
  increasing, run and session do not change, and nothing follows a terminal event.
\<close>

definition validPrefix :: "run_event list \<Rightarrow> bool" where
  "validPrefix es \<longleftrightarrow>
     (es \<noteq> [] \<longrightarrow> isStartedPayload (ev_payload (hd es))) \<and>
     sorted_wrt (<) (0 # map ev_sequence es) \<and>
     (\<forall>e \<in> set es. ev_runId e = ev_runId (hd es) \<and> ev_sessionId e = ev_sessionId (hd es)) \<and>
     (\<forall>e \<in> set (butlast es). \<not> isTerminalRuntimeRunEvent e)"

definition validRunStream :: "run_event list \<Rightarrow> bool" where
  "validRunStream es \<longleftrightarrow> es \<noteq> [] \<and> validPrefix es \<and> isTerminalRuntimeRunEvent (last es)"

lemma validPrefix_Nil [simp]: "validPrefix []"
  by (simp add: validPrefix_def)

lemma started_type: "isStartedPayload p \<longleftrightarrow> payloadType p = TyRunStarted"
  by (cases p) simp_all

text \<open>Adding one event keeps the prefix valid exactly when the event goes with the last one.\<close>

lemma sorted_wrt_snoc_less:
  fixes xs :: "int list"
  shows "sorted_wrt (<) (xs @ [x]) \<longleftrightarrow> sorted_wrt (<) xs \<and> (xs \<noteq> [] \<longrightarrow> last xs < x)"
proof -
  have "y \<le> last xs" if "sorted_wrt (<) xs" and "y \<in> set xs" for y
    using that by (induction xs rule: rev_induct) (auto simp: sorted_wrt_append intro: less_imp_le)
  then show ?thesis
    by (fastforce simp: sorted_wrt_append)
qed

lemma validPrefix_snoc:
  "validPrefix (es @ [e]) \<longleftrightarrow> validPrefix es \<and>
     (if es = [] then isStartedPayload (ev_payload e) \<and> 0 < ev_sequence e
      else \<not> isTerminalRuntimeRunEvent (last es) \<and> ev_sequence (last es) < ev_sequence e \<and>
           ev_runId e = ev_runId (hd es) \<and> ev_sessionId e = ev_sessionId (hd es))"
proof (cases "es = []")
  case False
  have seq: "sorted_wrt (<) (0 # map ev_sequence (es @ [e])) \<longleftrightarrow>
      sorted_wrt (<) (0 # map ev_sequence es) \<and> ev_sequence (last es) < ev_sequence e"
    using sorted_wrt_snoc_less [of "0 # map ev_sequence es" "ev_sequence e"] False by (simp add: last_map)
  have "set es = insert (last es) (set (butlast es))"
    using False by (metis append_butlast_last_id list.set(2) rotate1.simps(2) set_rotate1)
  then show ?thesis
    using False seq by (auto simp: validPrefix_def hd_append)
qed (auto simp: validPrefix_def)

lemma validPrefix_single [simp]:
  "validPrefix [e] \<longleftrightarrow> isStartedPayload (ev_payload e) \<and> 0 < ev_sequence e"
  using validPrefix_snoc [of "[]" e] by simp

lemma validPrefix_append: "validPrefix (es @ fs) \<Longrightarrow> validPrefix es"
proof (induction fs rule: rev_induct)
  case (snoc f fs)
  then have "validPrefix ((es @ fs) @ [f])" by simp
  then show ?case using snoc.IH validPrefix_snoc by blast
qed simp

section \<open>The state machine implements the rules\<close>

definition stateAfter :: "run_event list \<Rightarrow> stream_state" where
  "stateAfter es = fold noteStreamEvent es initialStreamState"

lemma stateAfter_simps [simp]:
  "stateAfter [] = initialStreamState"
  "stateAfter [e] = noteStreamEvent e initialStreamState"
  "stateAfter (es @ [e]) = noteStreamEvent e (stateAfter es)"
  by (simp_all add: stateAfter_def)

text \<open>What the variables of the loop say of the events seen so far.\<close>

lemma stateAfter_valid:
  "validPrefix es \<Longrightarrow> es \<noteq> [] \<Longrightarrow>
   stateAfter es = \<lparr>sv_lastSequence = ev_sequence (last es), sv_runId = Some (ev_runId (hd es)),
     sv_sessionId = Some (ev_sessionId (hd es)), sv_sawTerminal = isTerminalRuntimeRunEvent (last es),
     sv_sawRunStarted = True\<rparr>"
proof (induction es rule: rev_induct)
  case (snoc e es)
  then show ?case
    by (cases "es = []") (auto simp: validPrefix_snoc noteStreamEvent_def initialStreamState_def)
qed simp

lemma validate_iff:
  assumes "validPrefix es"
  shows "validateSingleStreamEvent e (stateAfter es) = Inr () \<longleftrightarrow> validPrefix (es @ [e])"
proof (cases "es = []")
  case True
  then show ?thesis
    by (auto simp: validateSingleStreamEvent_def initialStreamState_def validPrefix_snoc started_type)
next
  case False
  then show ?thesis
    using assms by (auto simp: validateSingleStreamEvent_def stateAfter_valid validPrefix_snoc)
qed

lemma endOfStream_iff: "validPrefix es \<Longrightarrow> endOfStream (stateAfter es) = Inr () \<longleftrightarrow> validRunStream es"
  by (cases "es = []")
     (simp_all add: endOfStream_def stateAfter_valid validRunStream_def initialStreamState_def)

text \<open>
  The events that are passed on, from any point of the stream: they extend the prefix as far as the
  rules allow.
\<close>

lemma consumeEvents_spec:
  assumes "validPrefix ds"
  shows "(\<exists>rest. es = fst (consumeEvents (stateAfter ds) es fin) @ rest \<and>
            (rest \<noteq> [] \<longrightarrow> \<not> validPrefix (ds @ fst (consumeEvents (stateAfter ds) es fin) @ [hd rest]))) \<and>
         validPrefix (ds @ fst (consumeEvents (stateAfter ds) es fin))"
  using assms
proof (induction es arbitrary: ds)
  case (Cons e es)
  show ?case
  proof (cases "validateSingleStreamEvent e (stateAfter ds)")
    case (Inl m)
    then have "\<not> validPrefix (ds @ [e])" using validate_iff [OF Cons.prems, of e] by simp
    then show ?thesis using Inl Cons.prems by simp
  next
    case (Inr u)
    then have "validPrefix (ds @ [e])" using validate_iff [OF Cons.prems, of e] by simp
    then show ?thesis using Inr Cons.IH [of "ds @ [e]"] by (simp add: yielding_def)
  qed
qed simp

lemma consumeEvents_done:
  assumes "validPrefix ds"
  shows "snd (consumeEvents (stateAfter ds) es fin) = Inr () \<longleftrightarrow> fin = Inr () \<and> validRunStream (ds @ es)"
  using assms
proof (induction es arbitrary: ds)
  case Nil
  then show ?case by (cases fin) (simp_all add: endOfStream_iff)
next
  case (Cons e es)
  show ?case
  proof (cases "validateSingleStreamEvent e (stateAfter ds)")
    case (Inl m)
    then have "\<not> validPrefix (ds @ [e])" using validate_iff [OF Cons.prems, of e] by simp
    then have "\<not> validRunStream (ds @ e # es)"
      using validPrefix_append [of "ds @ [e]" es] by (auto simp: validRunStream_def)
    then show ?thesis using Inl by simp
  next
    case (Inr u)
    then have "validPrefix (ds @ [e])" using validate_iff [OF Cons.prems, of e] by simp
    then show ?thesis using Inr Cons.IH [of "ds @ [e]"] by simp
  qed
qed

section \<open>Properties\<close>

text \<open>
  C1: the consumer ends without an error exactly when the parser did and the events form a valid run
  stream: \<open>run_started\<close> first, sequence numbers positive and strictly increasing, one run and one
  session, one terminal event and it is the last one.
\<close>

theorem consume_accepts_valid_streams:
  "snd (consumeRuntimeRunEventStream abortLike g) = Inr () \<longleftrightarrow> snd g = Inr () \<and> validRunStream (fst g)"
  using consumeEvents_done [of "[]" "fst g" "snd g"]
  by (auto simp: consumeRuntimeRunEventStream_def catchStreamError_def Let_def split: sum.splits)

text \<open>
  C2: whatever the runtime sends, the renderer sees a prefix of it that follows the rules, and the
  longest one: the event after the last one passed on, if there is one, would break a rule.
\<close>

theorem consume_longest_valid_prefix:
  "\<exists>rest. fst g = fst (consumeRuntimeRunEventStream abortLike g) @ rest \<and>
     validPrefix (fst (consumeRuntimeRunEventStream abortLike g)) \<and>
     (rest = [] \<or> \<not> validPrefix (fst (consumeRuntimeRunEventStream abortLike g) @ [hd rest]))"
  using consumeEvents_spec [of "[]" "fst g" "snd g"]
  by (auto simp: consumeRuntimeRunEventStream_def Let_def)

text \<open>A stream with a text delta after its cancellation: the delta is not passed on.\<close>

definition sampleStreamEvent :: "int \<Rightarrow> run_payload \<Rightarrow> run_event" where
  "sampleStreamEvent n p = \<lparr>ev_runId = ''r1'', ev_sessionId = ''s1'', ev_sequence = n, ev_payload = p\<rparr>"

definition lateDelta :: "(run_event, unit) generated" where
  "lateDelta = ([sampleStreamEvent 1 (RunStarted ''m1'' emptyMetadata), sampleStreamEvent 2 (RunCancelled ''m1'' ''stop''),
     sampleStreamEvent 3 (TextDelta ''m1'' ''late'')], Inr ())"

theorem consume_longest_valid_prefix_witness:
  "fst (consumeRuntimeRunEventStream (\<lambda>_. False) lateDelta) = take 2 (fst lateDelta) \<and>
   \<not> validPrefix (take 2 (fst lateDelta) @ [sampleStreamEvent 3 (TextDelta ''m1'' ''late'')])"
proof -
  have "fst (consumeRuntimeRunEventStream (\<lambda>_. False) lateDelta) = take 2 (fst lateDelta)"
    by (simp add: consumeRuntimeRunEventStream_def lateDelta_def sampleStreamEvent_def Let_def yielding_def
        validateSingleStreamEvent_def noteStreamEvent_def initialStreamState_def isTerminalRuntimeRunEvent_def)
  then show ?thesis
    using consume_longest_valid_prefix [of lateDelta "\<lambda>_. False"] by (auto simp: lateDelta_def)
qed


end
