(* ===== verification/Run_Invariants.thy ===== *)
theory Run_Invariants
  imports Run_Segments
begin

text \<open>
  What every state of a run satisfies, whatever the runtime sends. The states are those that the
  exported operations of \<open>run-segment-reducer.ts\<close> can produce, in any order (\<open>reachable\<close>); the locale
  \<open>run_invariant\<close> is the contract of an invariant on them, interpreted below for the reasoning flags, for
  the terminal segment and for the segments that are still live.
\<close>

section \<open>Reachable states\<close>

inductive reachable :: "run_state \<Rightarrow> bool" where
  idle: "reachable createIdleCopilotRunState"
| starting: "reachable (createStartingCopilotRunState threadId route options)"
| register: "reachable st \<Longrightarrow> reachable (registerCopilotRunStartResponse st runId threadId m)"
| event: "reachable st \<Longrightarrow> reachable (applyRuntimeRunEventToCopilotRunState now st e)"
| cancel: "reachable st \<Longrightarrow> reachable (markCopilotRunCancelled now st reason)"
| transportFail: "reachable st \<Longrightarrow> reachable (markCopilotRunTransportFailed now st f)"
| expire: "reachable st \<Longrightarrow> reachable (expirePendingCopilotInlineFormSegments st)"
| submit: "reachable st \<Longrightarrow> reachable (markCopilotInlineFormSubmitted st callId vals payload)"

text \<open>
  An invariant of the run: it may depend on the reasoning flags and on the segments only, which the
  locale states by giving it these arguments.
\<close>

record reasoning_flags =
  fl_suppressed :: bool
  fl_basis :: "suppression_basis option"
  fl_trace :: trace_state

definition flagsOf :: "run_state \<Rightarrow> reasoning_flags" where
  "flagsOf st = \<lparr>fl_suppressed = rn_reasoningSuppressed st, fl_basis = rn_reasoningSuppressionBasis st,
     fl_trace = rn_reasoningTraceState st\<rparr>"

text \<open>What the metadata operations and a reasoning delta do to the flags and the segments.\<close>

definition metadataStep :: "thinking_metadata \<Rightarrow> reasoning_flags \<times> segment list \<Rightarrow> reasoning_flags \<times> segment list" where
  "metadataStep m = (\<lambda>(fl, segs).
     (let basis = patched cloneRuntimeReasoningSuppressionBasis (fl_basis fl) (tm_reasoningSuppressionBasis m);
          suppressed = shouldSuppressReasoning (fl_suppressed fl) basis
      in (\<lparr>fl_suppressed = suppressed, fl_basis = basis,
           fl_trace = resolveReasoningTraceStateAfterMetadata (fl_trace fl) suppressed segs\<rparr>,
          if suppressed then stripReasoningSegments segs else segs)))"

definition reasoningStep ::
  "string \<Rightarrow> int \<Rightarrow> string \<Rightarrow> int \<Rightarrow> reasoning_flags \<times> segment list \<Rightarrow> reasoning_flags \<times> segment list" where
  "reasoningStep runId sequence delta now = (\<lambda>(fl, segs).
     if shouldSuppressReasoning (fl_suppressed fl) (fl_basis fl)
     then (fl\<lparr>fl_suppressed := True, fl_trace := TraceSuppressed\<rparr>, stripReasoningSegments segs)
     else (fl\<lparr>fl_suppressed := False, fl_trace := TraceVisible\<rparr>,
           appendReasoningDeltaSegment segs runId sequence delta now))"

text \<open>The transformations of the segments that leave the flags alone.\<close>

datatype segment_op =
    OpText string int string string int
  | OpTool string int tool_payload int
  | OpDiagnostic string int diagnostic_summary int
  | OpCompleted string int completed_payload int
  | OpFailed string int failure_summary int
  | OpCancelled string int "string option" string int
  | OpAwaitInput int
  | OpForm "form_body \<Rightarrow> form_body"

fun runOp :: "segment_op \<Rightarrow> segment list \<Rightarrow> segment list" where
  "runOp (OpText runId sequence mid delta now) segs =
     appendAssistantDeltaSegment (completeStreamingReasoningSegments segs sequence now) runId sequence mid delta"
| "runOp (OpTool runId sequence p now) segs =
     upsertToolSegment (completeStreamingReasoningSegments segs sequence now) runId sequence p"
| "runOp (OpDiagnostic runId sequence d now) segs =
     appendDiagnosticSegment (completeStreamingReasoningSegments segs sequence now) runId sequence d"
| "runOp (OpCompleted runId sequence c now) segs =
     appendTerminalSegment (completeAssistantSegments segs runId sequence c now)
       (buildCompletedTerminalSegment runId sequence c)"
| "runOp (OpFailed runId sequence f now) segs =
     appendTerminalSegment (failStreamingSegments segs now) (buildFailedTerminalSegment runId sequence f)"
| "runOp (OpCancelled runId sequence mid reason now) segs =
     appendTerminalSegment (cancelStreamingSegments segs now)
       (buildCancelledTerminalSegment runId sequence mid reason)"
| "runOp (OpAwaitInput now) segs = finalizeStreamingSegmentsForAwaitingInput segs now"
| "runOp (OpForm f) segs = map (mapFormBody f) segs"

definition view :: "run_state \<Rightarrow> reasoning_flags \<times> segment list" where
  "view st = (flagsOf st, rn_segments st)"

text \<open>Form operations that the reducer uses: they change state, values and payload only.\<close>

definition formOpOk :: "(form_body \<Rightarrow> form_body) \<Rightarrow> bool" where
  "formOpOk f \<longleftrightarrow> (\<forall>b. fb_toolCallId (f b) = fb_toolCallId b)"

fun opOk :: "segment_op \<Rightarrow> bool" where
  "opOk (OpForm f) = formOpOk f"
| "opOk _ = True"

locale run_invariant =
  fixes I :: "reasoning_flags \<Rightarrow> segment list \<Rightarrow> bool"
  assumes init: "I \<lparr>fl_suppressed = False, fl_basis = None, fl_trace = TraceNotObserved\<rparr> []"
    and metadata: "I fl segs \<Longrightarrow> I (fst (metadataStep m (fl, segs))) (snd (metadataStep m (fl, segs)))"
    and reasoning: "I fl segs \<Longrightarrow> I (fst (reasoningStep r n d now (fl, segs))) (snd (reasoningStep r n d now (fl, segs)))"
    and ops: "I fl segs \<Longrightarrow> opOk oper \<Longrightarrow> I fl (runOp oper segs)"
begin

definition holds :: "run_state \<Rightarrow> bool" where
  "holds st \<longleftrightarrow> I (flagsOf st) (rn_segments st)"

lemma metadata_holds: "holds st \<Longrightarrow> holds (applyRunThinkingMetadataToState st m)"
  using metadata [of "flagsOf st" "rn_segments st" m]
  by (simp add: holds_def applyRunThinkingMetadataToState_def metadataStep_def flagsOf_def Let_def)

lemma op_holds:
  "holds st \<Longrightarrow> flagsOf st' = flagsOf st \<Longrightarrow> rn_segments st' = runOp oper (rn_segments st) \<Longrightarrow> opOk oper \<Longrightarrow> holds st'"
  by (simp add: holds_def ops)

lemma same_holds: "holds st \<Longrightarrow> flagsOf st' = flagsOf st \<Longrightarrow> rn_segments st' = rn_segments st \<Longrightarrow> holds st'"
  by (simp add: holds_def)

lemma event_holds:
  assumes "holds st"
  shows "holds (applyRuntimeRunEventToCopilotRunState now st e)"
proof (cases "ev_payload e")
  case (RunStarted mid m)
  have "holds ((inRun e st)\<lparr>rn_phase := PhaseStreaming\<rparr>)"
    using assms by (rule same_holds) (simp_all add: inRun_def flagsOf_def)
  then show ?thesis
    by (simp add: applyRuntimeRunEventToCopilotRunState_def Let_def RunStarted metadata_holds)
next
  case (RunMetadata m)
  have "holds (inRun e st)"
    using assms by (rule same_holds) (simp_all add: inRun_def flagsOf_def)
  then show ?thesis
    by (simp add: applyRuntimeRunEventToCopilotRunState_def Let_def RunMetadata metadata_holds)
next
  case (TextDelta mid d)
  show ?thesis
    using assms by (rule op_holds [where oper = "OpText (ev_runId e) (ev_sequence e) mid d now"])
      (simp_all add: applyRuntimeRunEventToCopilotRunState_def Let_def TextDelta inRun_def flagsOf_def)
next
  case (ReasoningDelta d)
  show ?thesis
    using assms reasoning [of "flagsOf st" "rn_segments st" "ev_runId e" "ev_sequence e" d now]
    by (simp add: holds_def applyRuntimeRunEventToCopilotRunState_def Let_def ReasoningDelta
        applyReasoningDelta_def reasoningStep_def inRun_def flagsOf_def split: if_splits)
next
  case (RunCompleted c)
  show ?thesis
    using assms by (rule op_holds [where oper = "OpCompleted (ev_runId e) (ev_sequence e) c now"])
      (simp_all add: applyRuntimeRunEventToCopilotRunState_def Let_def RunCompleted applyRunCompletedToState_def flagsOf_def)
next
  case (RunFailed f)
  show ?thesis
  proof (cases "fa_code f = INLINE_FORM_AWAITING_INPUT_CODE")
    case True
    show ?thesis
      using assms by (rule op_holds [where oper = "OpAwaitInput now"])
        (simp_all add: applyRuntimeRunEventToCopilotRunState_def Let_def RunFailed applyRunFailedToState_def flagsOf_def True)
  next
    case False
    show ?thesis
      using assms by (rule op_holds [where oper = "OpFailed (ev_runId e) (ev_sequence e) (buildFailureSummary f) now"])
        (simp_all add: applyRuntimeRunEventToCopilotRunState_def Let_def RunFailed applyRunFailedToState_def flagsOf_def False)
  qed
next
  case (RunCancelled mid reason)
  show ?thesis
    using assms by (rule op_holds [where oper = "OpCancelled (ev_runId e) (ev_sequence e) (Some mid) reason now"])
      (simp_all add: applyRuntimeRunEventToCopilotRunState_def Let_def RunCancelled applyRunCancelledToState_def flagsOf_def)
next
  case (RunDiagnostic d)
  show ?thesis
    using assms by (rule op_holds [where oper = "OpDiagnostic (ev_runId e) (ev_sequence e) (buildDiagnosticSummary d) now"])
      (simp_all add: applyRuntimeRunEventToCopilotRunState_def Let_def RunDiagnostic inRun_def flagsOf_def)
next
  case (ToolEvent p)
  show ?thesis
    using assms by (rule op_holds [where oper = "OpTool (ev_runId e) (ev_sequence e) p now"])
      (simp_all add: applyRuntimeRunEventToCopilotRunState_def Let_def ToolEvent inRun_def flagsOf_def)
qed

theorem reachable_holds: "reachable st \<Longrightarrow> holds st"
proof (induction rule: reachable.induct)
  case idle
  show ?case using init by (simp add: holds_def flagsOf_def createIdleCopilotRunState_def)
next
  case (starting threadId route options)
  show ?case
    using init
    by (simp add: holds_def flagsOf_def createStartingCopilotRunState_def createIdleCopilotRunState_def)
next
  case (register st runId threadId m)
  have "holds (st\<lparr>rn_runId := Some runId, rn_threadId := Some threadId\<rparr>)"
    using register.IH by (rule same_holds) (simp_all add: flagsOf_def)
  then show ?case by (simp add: registerCopilotRunStartResponse_def metadata_holds)
next
  case (event st now e)
  show ?case using event.IH by (rule event_holds)
next
  case (cancel st now reason)
  show ?case
    using cancel.IH
    by (rule op_holds [where oper = "OpCancelled (orElse (rn_runId st) ''local-cancelled-run'')
          (resolveNextSyntheticSequence (rn_segments st)) None reason now"])
      (simp_all add: markCopilotRunCancelled_def applyRunCancelledToState_def flagsOf_def)
next
  case (transportFail st now f)
  show ?case
    using transportFail.IH
    by (rule op_holds [where oper = "OpFailed (orElse (rn_runId st) ''local-failed-run'')
          (resolveNextSyntheticSequence (rn_segments st)) f now"])
      (simp_all add: markCopilotRunTransportFailed_def flagsOf_def Let_def)
next
  case (expire st)
  show ?case
    using expire.IH
    by (rule op_holds [where oper = "OpForm (\<lambda>b. if fb_formState b = FormPending
            then b\<lparr>fb_formState := FormExpired\<rparr> else b)"])
      (simp_all add: expirePendingCopilotInlineFormSegments_def flagsOf_def formOpOk_def)
next
  case (submit st callId vals payload)
  show ?case
    using submit.IH
    by (rule op_holds [where oper = "OpForm (\<lambda>b. if fb_toolCallId b = callId
            then b\<lparr>fb_formState := FormSubmitted, fb_formValues := vals, fb_submittedPayload := Some payload\<rparr>
            else b)"])
      (simp_all add: markCopilotInlineFormSubmitted_def flagsOf_def formOpOk_def)
qed

end

section \<open>The skeleton of a segment\<close>

text \<open>
  The parts of a segment that closing it does not change: its identifier, its first sequence number and
  its kind, with the tool call of a tool or form segment.
\<close>

datatype seg_kind = KindAssistant | KindReasoning | KindTool string | KindForm string | KindDiagnostic | KindTerminal

fun bodyKind :: "seg_body \<Rightarrow> seg_kind" where
  "bodyKind (Assistant _) = KindAssistant"
| "bodyKind (Reasoning _) = KindReasoning"
| "bodyKind (Tool b) = KindTool (tb_toolCallId b)"
| "bodyKind (InlineForm b) = KindForm (fb_toolCallId b)"
| "bodyKind (Diagnostic _) = KindDiagnostic"
| "bodyKind (Terminal _) = KindTerminal"

definition kindOf :: "segment \<Rightarrow> seg_kind" where
  "kindOf s = bodyKind (sg_body s)"

definition skeleton :: "segment \<Rightarrow> string \<times> int \<times> seg_kind" where
  "skeleton s = (sg_id s, sg_startedSequence s, kindOf s)"

lemma kind_tests:
  "isAssistant s \<longleftrightarrow> kindOf s = KindAssistant"
  "isReasoning s \<longleftrightarrow> kindOf s = KindReasoning"
  "isTerminal s \<longleftrightarrow> kindOf s = KindTerminal"
  "isToolOfCall c s \<longleftrightarrow> kindOf s = KindTool c"
  by (cases "sg_body s";
      simp add: isAssistant_def isReasoning_def isTerminal_def isToolOfCall_def toolBodyOf_def kindOf_def)+

named_theorems keeps_skeleton \<open>transformations of a segment that keep its skeleton\<close>

lemma skeleton_completeReasoning [keeps_skeleton]: "skeleton (completeReasoningSegment n now s) = skeleton s"
  by (simp add: completeReasoningSegment_def skeleton_def kindOf_def split: seg_body.splits)

lemma skeleton_awaitInput [keeps_skeleton]: "skeleton (awaitInputSegment now s) = skeleton s"
  by (simp add: awaitInputSegment_def skeleton_def kindOf_def split: seg_body.splits)

lemma skeleton_cancel [keeps_skeleton]: "skeleton (cancelSegment now s) = skeleton s"
  by (simp add: cancelSegment_def skeleton_def kindOf_def split: seg_body.splits)

lemma skeleton_fail [keeps_skeleton]: "skeleton (failSegment now s) = skeleton s"
  by (simp add: failSegment_def skeleton_def kindOf_def split: seg_body.splits)

lemma skeleton_completeAssistant [keeps_skeleton]: "skeleton (completeAssistantSegment lid n c s) = skeleton s"
  by (simp add: completeAssistantSegment_def skeleton_def kindOf_def split: seg_body.splits)

lemma skeleton_mapForm [keeps_skeleton]: "formOpOk f \<Longrightarrow> skeleton (mapFormBody f s) = skeleton s"
  by (simp add: mapFormBody_def skeleton_def kindOf_def formOpOk_def split: seg_body.splits)

definition skeletons :: "segment list \<Rightarrow> (string \<times> int \<times> seg_kind) list" where
  "skeletons segs = map skeleton segs"

lemma skeletons_map: "(\<And>s. skeleton (f s) = skeleton s) \<Longrightarrow> skeletons (map f segs) = skeletons segs"
  by (simp add: skeletons_def)

lemma skeletons_closed [simp]:
  "skeletons (completeStreamingReasoningSegments segs n now) = skeletons segs"
  "skeletons (finalizeStreamingSegmentsForAwaitingInput segs now) = skeletons segs"
  "skeletons (cancelStreamingSegments segs now) = skeletons segs"
  "skeletons (failStreamingSegments segs now) = skeletons segs"
  "formOpOk f \<Longrightarrow> skeletons (map (mapFormBody f) segs) = skeletons segs"
  by (simp_all add: completeStreamingReasoningSegments_def finalizeStreamingSegmentsForAwaitingInput_def
      cancelStreamingSegments_def failStreamingSegments_def skeletons_map keeps_skeleton)

lemma skeletons_append [simp]: "skeletons (xs @ ys) = skeletons xs @ skeletons ys"
  by (simp add: skeletons_def)

lemma skeletons_Nil [simp]: "skeletons [] = []"
  by (simp add: skeletons_def)

lemma skeletons_Cons [simp]: "skeletons (s # ss) = skeleton s # skeletons ss"
  by (simp add: skeletons_def)

definition kindIn :: "string \<times> int \<times> seg_kind \<Rightarrow> seg_kind" where
  "kindIn x = snd (snd x)"

lemma kindIn_skeleton [simp]: "kindIn (skeleton s) = kindOf s"
  by (simp add: kindIn_def skeleton_def)

lemma skeletons_filter: "skeletons (filter (\<lambda>s. P (kindOf s)) segs) = filter (\<lambda>x. P (kindIn x)) (skeletons segs)"
  by (induction segs) simp_all

lemma bodyKind_add [simp]:
  "bodyKind (addAssistantText d n b) = bodyKind b"
  "bodyKind (addReasoningText d b) = bodyKind b"
  by (cases b; simp)+

lemma skeletons_extendLast:
  "segs \<noteq> [] \<Longrightarrow> bodyKind (f (sg_body (last segs))) = bodyKind (sg_body (last segs)) \<Longrightarrow>
   skeletons (extendLast segs n f) = skeletons segs"
  by (subst (3) append_butlast_last_id [symmetric], assumption)
     (simp add: extendLast_def skeleton_def kindOf_def del: append_butlast_last_id)

text \<open>What each operation adds to the skeletons, or takes away from them.\<close>

lemma skeletons_assistantDelta:
  "skeletons (appendAssistantDeltaSegment segs r n mid d) = skeletons segs \<or>
   skeletons (appendAssistantDeltaSegment segs r n mid d) =
     skeletons segs @ [(assistantSegmentId r (countAssistantSegments segs + 1), n, KindAssistant)]"
  by (auto simp: appendAssistantDeltaSegment_def skeletons_extendLast newAssistantSegment_def skeleton_def kindOf_def)

lemma skeletons_reasoningDelta:
  "skeletons (appendReasoningDeltaSegment segs r n d now) = skeletons segs \<or>
   skeletons (appendReasoningDeltaSegment segs r n d now) =
     skeletons segs @ [(reasoningSegmentId r (countReasoningSegments segs + 1), n, KindReasoning)]"
  by (auto simp: appendReasoningDeltaSegment_def skeletons_extendLast newReasoningSegment_def skeleton_def kindOf_def)

lemma skeletons_terminal:
  "skeletons (appendTerminalSegment segs (terminalSegment r suf n b)) =
     filter (\<lambda>x. kindIn x \<noteq> KindTerminal) (skeletons segs) @ [(''terminal:'' @ r @ '':'' @ suf, n, KindTerminal)]"
  using skeletons_filter [of "\<lambda>k. k \<noteq> KindTerminal" segs]
  by (simp add: appendTerminalSegment_def kind_tests terminalSegment_def skeleton_def kindOf_def)

lemma skeletons_completeAssistant:
  "skeletons (completeAssistantSegments segs r n c now) = skeletons segs \<or>
   (\<forall>s \<in> set segs. \<not> isAssistant s) \<and>
     skeletons (completeAssistantSegments segs r n c now) =
       skeletons segs @ [(assistantSegmentId r 1, n, KindAssistant)]"
proof (cases "resolveLastAssistantSegmentId segs")
  case None
  then have "\<forall>s \<in> set segs. \<not> isAssistant s"
    by (auto simp: resolveLastAssistantSegmentId_def find_None_iff)
  with None show ?thesis
    by (simp add: completeAssistantSegments_def skeleton_def kindOf_def)
next
  case (Some lid)
  then show ?thesis
    by (simp add: completeAssistantSegments_def skeletons_map keeps_skeleton)
qed

lemma findSegment_Some: "findSegment sid segs = Some i \<Longrightarrow> i < length segs \<and> sg_id (segs ! i) = sid"
  by (induction segs arbitrary: i) (auto split: if_splits)

lemma findSegment_None: "findSegment sid segs = None \<longleftrightarrow> sid \<notin> sg_id ` set segs"
  by (induction segs) auto

section \<open>Kinds of segments under the operations\<close>

definition kinds :: "segment list \<Rightarrow> seg_kind set" where
  "kinds segs = kindOf ` set segs"

lemma kinds_skeletons: "kinds segs = kindIn ` set (skeletons segs)"
  by (auto simp: kinds_def skeletons_def image_image)

lemma kinds_closed [simp]:
  "kinds (completeStreamingReasoningSegments segs n now) = kinds segs"
  "kinds (finalizeStreamingSegmentsForAwaitingInput segs now) = kinds segs"
  "kinds (cancelStreamingSegments segs now) = kinds segs"
  "kinds (failStreamingSegments segs now) = kinds segs"
  "formOpOk f \<Longrightarrow> kinds (map (mapFormBody f) segs) = kinds segs"
  by (simp_all add: kinds_skeletons)

lemma kindIn_triple [simp]: "kindIn (a, b, k) = k"
  by (simp add: kindIn_def)

lemma kinds_assistantDelta: "kinds (appendAssistantDeltaSegment segs r n mid d) \<subseteq> insert KindAssistant (kinds segs)"
  using skeletons_assistantDelta [of segs r n mid d] by (auto simp: kinds_skeletons)

lemma kinds_reasoningDelta: "kinds (appendReasoningDeltaSegment segs r n d now) \<subseteq> insert KindReasoning (kinds segs)"
  using skeletons_reasoningDelta [of segs r n d now] by (auto simp: kinds_skeletons)

lemma kinds_completeAssistant: "kinds (completeAssistantSegments segs r n c now) \<subseteq> insert KindAssistant (kinds segs)"
  using skeletons_completeAssistant [of segs r n c now] by (auto simp: kinds_skeletons)

lemma kinds_terminal: "kinds (appendTerminalSegment segs (terminalSegment r suf n b)) \<subseteq> insert KindTerminal (kinds segs)"
  by (auto simp: kinds_skeletons skeletons_terminal)

lemma kindOf_toolSegmentOf [simp]: "kindOf (toolSegmentOf r n p ex) = KindTool (te_toolCallId p)"
  by (simp add: toolSegmentOf_def kindOf_def)

lemma kindOf_formSegmentOf [simp]: "kindOf (formSegmentOf r n p req ex) = KindForm (te_toolCallId p)"
  by (simp add: formSegmentOf_def kindOf_def)

lemma kinds_tool:
  "kinds (upsertToolSegment segs r n p) \<subseteq> kinds segs \<union> {KindTool (te_toolCallId p), KindForm (te_toolCallId p)}"
proof (cases "isControlledInlineFormToolEvent (te_toolId p) (te_formRequest p)")
  case True
  then show ?thesis
    by (auto simp: upsertToolSegment_def upsertInlineFormSegment_def kinds_def Let_def split: option.splits if_splits)
next
  case False
  have "kinds (segs[i := s]) \<subseteq> insert (kindOf s) (kinds segs)" for i s
    using set_update_subset_insert [of segs i s] by (auto simp: kinds_def)
  with False show ?thesis
    by (fastforce simp: upsertToolSegment_def Let_def kinds_def split: option.splits)
qed

lemmas terminal_segments = buildCompletedTerminalSegment_def buildFailedTerminalSegment_def
  buildCancelledTerminalSegment_def

text \<open>Which kinds an operation can add.\<close>

fun opKinds :: "segment_op \<Rightarrow> seg_kind set" where
  "opKinds (OpText _ _ _ _ _) = {KindAssistant}"
| "opKinds (OpTool _ _ p _) = {KindTool (te_toolCallId p), KindForm (te_toolCallId p)}"
| "opKinds (OpDiagnostic _ _ _ _) = {KindDiagnostic}"
| "opKinds (OpCompleted _ _ _ _) = {KindAssistant, KindTerminal}"
| "opKinds (OpFailed _ _ _ _) = {KindTerminal}"
| "opKinds (OpCancelled _ _ _ _ _) = {KindTerminal}"
| "opKinds _ = {}"

lemma kinds_runOp: "opOk oper \<Longrightarrow> kinds (runOp oper segs) \<subseteq> kinds segs \<union> opKinds oper"
proof (cases oper)
  case (OpText r n mid d now)
  then show ?thesis
    using kinds_assistantDelta [of "completeStreamingReasoningSegments segs n now" r n mid d] by auto
next
  case (OpTool r n p now)
  then show ?thesis
    using kinds_tool [of "completeStreamingReasoningSegments segs n now" r n p] by auto
next
  case (OpDiagnostic r n d now)
  then show ?thesis
    by (auto simp: appendDiagnosticSegment_def kinds_skeletons skeleton_def kindOf_def)
next
  case (OpCompleted r n c now)
  then show ?thesis
    using kinds_terminal [of "completeAssistantSegments segs r n c now" r "''completed''" n]
      kinds_completeAssistant [of segs r n c now]
    by (fastforce simp: terminal_segments)
next
  case (OpFailed r n f now)
  then show ?thesis
    using kinds_terminal [of "failStreamingSegments segs now" r "''failed''" n] by (auto simp: terminal_segments)
next
  case (OpCancelled r n mid reason now)
  then show ?thesis
    using kinds_terminal [of "cancelStreamingSegments segs now" r "''cancelled''" n] by (auto simp: terminal_segments)
qed simp_all

section \<open>The reasoning flags\<close>

lemma hasReasoning_kinds: "hasReasoningSegments segs \<longleftrightarrow> KindReasoning \<in> kinds segs"
  by (simp add: hasReasoningSegments_def list_ex_iff kind_tests kinds_def image_iff) metis

lemma hasReasoning_strip [simp]: "\<not> hasReasoningSegments (stripReasoningSegments segs)"
  by (simp add: hasReasoningSegments_def stripReasoningSegments_def list_ex_iff)

text \<open>
  The flags and the segments go together: suppressed reasoning has no segment, a basis that asks for
  suppression is obeyed, the trace is visible where there is a reasoning segment, and it is
  suppressed only when the reasoning is.
\<close>

definition reasoningConsistent :: "reasoning_flags \<Rightarrow> segment list \<Rightarrow> bool" where
  "reasoningConsistent fl segs \<longleftrightarrow>
     (fl_suppressed fl \<longrightarrow> \<not> hasReasoningSegments segs) \<and>
     (\<forall>b. fl_basis fl = Some b \<and> sb_shouldSuppress b \<longrightarrow> fl_suppressed fl) \<and>
     (hasReasoningSegments segs \<longrightarrow> fl_trace fl = TraceVisible) \<and>
     (fl_trace fl = TraceSuppressed \<longrightarrow> fl_suppressed fl)"

interpretation reasoning_inv: run_invariant reasoningConsistent
proof
  show "reasoningConsistent \<lparr>fl_suppressed = False, fl_basis = None, fl_trace = TraceNotObserved\<rparr> []"
    by (simp add: reasoningConsistent_def hasReasoningSegments_def)
next
  fix fl segs m
  assume "reasoningConsistent fl segs"
  then show "reasoningConsistent (fst (metadataStep m (fl, segs))) (snd (metadataStep m (fl, segs)))"
    by (auto simp: reasoningConsistent_def metadataStep_def Let_def shouldSuppressReasoning_def
        resolveReasoningTraceStateAfterMetadata_def split: option.splits)
next
  fix fl segs r n d now
  assume "reasoningConsistent fl segs"
  then show "reasoningConsistent (fst (reasoningStep r n d now (fl, segs))) (snd (reasoningStep r n d now (fl, segs)))"
    by (auto simp: reasoningConsistent_def reasoningStep_def shouldSuppressReasoning_def split: option.splits)
next
  fix fl segs oper
  assume "reasoningConsistent fl segs" and "opOk oper"
  moreover have "KindReasoning \<notin> opKinds oper" by (cases oper) auto
  ultimately show "reasoningConsistent fl (runOp oper segs)"
    using kinds_runOp [of oper segs] by (auto simp: reasoningConsistent_def hasReasoning_kinds)
qed

section \<open>Terminal segments\<close>

definition oneTerminal :: "reasoning_flags \<Rightarrow> segment list \<Rightarrow> bool" where
  "oneTerminal fl segs \<longleftrightarrow> length (filter isTerminal segs) \<le> 1"

lemma count_skeletons:
  "length (filter isTerminal segs) = length (filter (\<lambda>x. kindIn x = KindTerminal) (skeletons segs))"
  by (induction segs) (simp_all add: kind_tests)

lemma filter_none: "(\<And>x. x \<in> set xs \<Longrightarrow> \<not> P x) \<Longrightarrow> filter P xs = []"
  by simp

lemma count_strip: "length (filter isTerminal (stripReasoningSegments segs)) \<le> length (filter isTerminal segs)"
  by (induction segs) (simp_all add: stripReasoningSegments_def)

lemma count_reasoningDelta:
  "length (filter isTerminal (appendReasoningDeltaSegment segs r n d now)) = length (filter isTerminal segs)"
  using skeletons_reasoningDelta [of segs r n d now] by (auto simp: count_skeletons)

lemma count_terminal: "length (filter isTerminal (appendTerminalSegment segs (terminalSegment r suf n b))) = 1"
  by (simp add: count_skeletons skeletons_terminal)

lemma count_form:
  "formOpOk f \<Longrightarrow> length (filter isTerminal (map (mapFormBody f) segs)) = length (filter isTerminal segs)"
  by (simp only: count_skeletons skeletons_closed)

lemma count_update: "\<not> P y \<Longrightarrow> length (filter P (xs[i := y])) \<le> length (filter P xs)"
  by (induction xs arbitrary: i) (auto split: nat.splits)

lemma count_replace: "\<not> P y \<Longrightarrow> length (filter P (map (\<lambda>x. if q x then y else x) xs)) \<le> length (filter P xs)"
  by (induction xs) auto

lemma count_sublist: "length (filter P (filter q xs)) \<le> length (filter P xs)"
  by (induction xs) auto

lemma count_tool: "length (filter isTerminal (upsertToolSegment segs r n p)) \<le> length (filter isTerminal segs)"
proof -
  have notTerminal: "\<not> isTerminal (toolSegmentOf r n p ex)" "\<not> isTerminal (formSegmentOf r n p req ex')" for ex req ex'
    by (simp_all add: kind_tests)
  show ?thesis
    using notTerminal count_update [of isTerminal] count_sublist [of isTerminal]
      order_trans [OF count_replace [of isTerminal] count_sublist [of isTerminal]]
    by (simp add: upsertToolSegment_def upsertInlineFormSegment_def Let_def split: option.splits)
qed

interpretation terminal_inv: run_invariant oneTerminal
proof
  show "oneTerminal \<lparr>fl_suppressed = False, fl_basis = None, fl_trace = TraceNotObserved\<rparr> []"
    by (simp add: oneTerminal_def)
next
  fix fl segs m
  assume "oneTerminal fl segs"
  then show "oneTerminal (fst (metadataStep m (fl, segs))) (snd (metadataStep m (fl, segs)))"
    using count_strip [of segs] by (simp add: oneTerminal_def metadataStep_def Let_def)
next
  fix fl segs r n d now
  assume "oneTerminal fl segs"
  then show "oneTerminal (fst (reasoningStep r n d now (fl, segs))) (snd (reasoningStep r n d now (fl, segs)))"
    using count_strip [of segs] by (simp add: oneTerminal_def reasoningStep_def count_reasoningDelta)
next
  fix fl segs oper
  assume one: "oneTerminal fl segs" and ok: "opOk oper"
  show "oneTerminal fl (runOp oper segs)"
  proof (cases oper)
    case (OpText r n mid d now)
    then show ?thesis
      using one skeletons_assistantDelta [of "completeStreamingReasoningSegments segs n now" r n mid d]
      by (auto simp: oneTerminal_def count_skeletons)
  next
    case (OpTool r n p now)
    then show ?thesis
      using one count_tool [of "completeStreamingReasoningSegments segs n now" r n p]
      by (simp add: oneTerminal_def count_skeletons)
  next
    case (OpDiagnostic r n d now)
    then show ?thesis
      using one by (simp add: oneTerminal_def count_skeletons appendDiagnosticSegment_def skeleton_def kindOf_def isTerminal_def)
  next
    case (OpAwaitInput now)
    then show ?thesis using one by (simp add: oneTerminal_def count_skeletons)
  next
    case (OpForm f)
    then show ?thesis using one ok count_form [of f segs] by (simp add: oneTerminal_def)
  qed (simp_all add: oneTerminal_def terminal_segments count_terminal)
qed


section \<open>Live segments\<close>

text \<open>Only assistant, reasoning and tool segments are ever live.\<close>

definition liveSegmentOk :: "segment \<Rightarrow> bool" where
  "liveSegmentOk s \<longleftrightarrow>
     (isLive s \<longrightarrow> kindOf s = KindAssistant \<or> kindOf s = KindReasoning \<or> (\<exists>c. kindOf s = KindTool c))"

definition liveKinds :: "reasoning_flags \<Rightarrow> segment list \<Rightarrow> bool" where
  "liveKinds fl segs \<longleftrightarrow> (\<forall>s \<in> set segs. liveSegmentOk s)"

lemma live_closed:
  "liveSegmentOk s \<Longrightarrow> liveSegmentOk (completeReasoningSegment n now s)"
  "liveSegmentOk s \<Longrightarrow> liveSegmentOk (awaitInputSegment now s)"
  "liveSegmentOk s \<Longrightarrow> liveSegmentOk (cancelSegment now s)"
  "liveSegmentOk s \<Longrightarrow> liveSegmentOk (failSegment now s)"
  "liveSegmentOk s \<Longrightarrow> liveSegmentOk (completeAssistantSegment lid n c s)"
  "liveSegmentOk s \<Longrightarrow> liveSegmentOk (mapFormBody f s)"
  by (auto simp: liveSegmentOk_def completeReasoningSegment_def awaitInputSegment_def cancelSegment_def
      failSegment_def completeAssistantSegment_def mapFormBody_def isLive_def kindOf_def
      split: seg_body.splits)

lemma live_bodies:
  "isAssistantBody b \<Longrightarrow> liveSegmentOk (s\<lparr>sg_body := b\<rparr>)"
  "isReasoningBody b \<Longrightarrow> liveSegmentOk (s\<lparr>sg_body := b\<rparr>)"
  by (cases b; simp add: liveSegmentOk_def kindOf_def)+

lemma live_new:
  "liveSegmentOk (newAssistantSegment r k n mid d)"
  "liveSegmentOk (newReasoningSegment r k n d now)"
  "liveSegmentOk (toolSegmentOf r n p ex)"
  "liveSegmentOk (formSegmentOf r n p req ex')"
  "tn_terminalPhase b = SegCompleted \<or> tn_terminalPhase b = SegFailed \<or> tn_terminalPhase b = SegCancelled \<Longrightarrow>
   liveSegmentOk (terminalSegment r suf n b)"
  by (auto simp: liveSegmentOk_def newAssistantSegment_def newReasoningSegment_def toolSegmentOf_def
      formSegmentOf_def terminalSegment_def isLive_def kindOf_def)

lemma live_extendLast:
  assumes "\<forall>s \<in> set segs. liveSegmentOk s" and "segs \<noteq> []"
    and "isAssistant (last segs) \<and> f = addAssistantText d m \<or> isReasoning (last segs) \<and> f = addReasoningText d"
  shows "\<forall>s \<in> set (extendLast segs n f). liveSegmentOk s"
proof -
  have "liveSegmentOk ((last segs)\<lparr>sg_body := f (sg_body (last segs)), sg_lastSequence := n, sg_status := SegStreaming\<rparr>)"
    using assms(3) by (cases "sg_body (last segs)")
      (auto simp: liveSegmentOk_def kindOf_def isAssistant_def isReasoning_def)
  then show ?thesis
    using assms(1) by (auto simp: extendLast_def dest: in_set_butlastD)
qed

lemma live_completeReasoning:
  "\<forall>s \<in> set segs. liveSegmentOk s \<Longrightarrow>
   \<forall>s \<in> set (completeStreamingReasoningSegments segs n now). liveSegmentOk s"
  by (simp add: completeStreamingReasoningSegments_def live_closed)

lemma live_appendTerminal:
  "\<forall>s \<in> set segs. liveSegmentOk s \<Longrightarrow> liveSegmentOk t \<Longrightarrow> \<forall>s \<in> set (appendTerminalSegment segs t). liveSegmentOk s"
  by (auto simp: appendTerminalSegment_def)

lemma live_tool:
  "\<forall>s \<in> set segs. liveSegmentOk s \<Longrightarrow> \<forall>s \<in> set (upsertToolSegment segs r n p). liveSegmentOk s"
  by (auto simp: upsertToolSegment_def upsertInlineFormSegment_def Let_def live_new split: option.splits
      dest!: set_update_subset_insert [THEN subsetD])

lemma live_completeAssistant:
  "\<forall>s \<in> set segs. liveSegmentOk s \<Longrightarrow> \<forall>s \<in> set (completeAssistantSegments segs r n c now). liveSegmentOk s"
  using live_completeReasoning [of segs n now]
  by (auto simp: completeAssistantSegments_def Let_def live_closed split: option.splits)
     (simp add: liveSegmentOk_def isLive_def)

lemma live_runOp:
  assumes live: "\<forall>s \<in> set segs. liveSegmentOk s"
  shows "\<forall>s \<in> set (runOp oper segs). liveSegmentOk s"
proof (cases oper)
  case (OpText r n mid d now)
  let ?segs = "completeStreamingReasoningSegments segs n now"
  show ?thesis
    using OpText live_completeReasoning [OF live, of n now]
      live_extendLast [of ?segs "addAssistantText d n" d n n]
    by (simp add: appendAssistantDeltaSegment_def live_new)
next
  case (OpTool r n p now)
  then show ?thesis using live_tool [OF live_completeReasoning [OF live]] by simp
next
  case (OpDiagnostic r n d now)
  then show ?thesis
    using live_completeReasoning [OF live, of n now]
    by (simp add: appendDiagnosticSegment_def liveSegmentOk_def isLive_def)
next
  case (OpCompleted r n c now)
  have "\<forall>s \<in> set (appendTerminalSegment (completeAssistantSegments segs r n c now)
      (buildCompletedTerminalSegment r n c)). liveSegmentOk s"
    using live by (intro live_appendTerminal live_completeAssistant) (simp_all add: terminal_segments live_new)
  with OpCompleted show ?thesis by simp
next
  case (OpFailed r n f now)
  have "\<forall>s \<in> set (appendTerminalSegment (failStreamingSegments segs now)
      (buildFailedTerminalSegment r n f)). liveSegmentOk s"
    using live by (intro live_appendTerminal) (simp_all add: terminal_segments live_new failStreamingSegments_def live_closed)
  with OpFailed show ?thesis by simp
next
  case (OpCancelled r n mid reason now)
  have "\<forall>s \<in> set (appendTerminalSegment (cancelStreamingSegments segs now)
      (buildCancelledTerminalSegment r n mid reason)). liveSegmentOk s"
    using live by (intro live_appendTerminal) (simp_all add: terminal_segments live_new cancelStreamingSegments_def live_closed)
  with OpCancelled show ?thesis by simp
qed (use live in \<open>simp_all add: finalizeStreamingSegmentsForAwaitingInput_def live_closed\<close>)

interpretation live_inv: run_invariant liveKinds
proof
  fix fl segs r n d now
  assume live: "liveKinds fl segs"
  then have "\<forall>s \<in> set (appendReasoningDeltaSegment segs r n d now). liveSegmentOk s"
    using live_extendLast [of segs "addReasoningText d" d n n]
    by (auto simp: appendReasoningDeltaSegment_def liveKinds_def live_new)
  then show "liveKinds (fst (reasoningStep r n d now (fl, segs))) (snd (reasoningStep r n d now (fl, segs)))"
    using live by (simp add: liveKinds_def reasoningStep_def stripReasoningSegments_def)
qed (auto simp: liveKinds_def metadataStep_def Let_def stripReasoningSegments_def live_runOp)


section \<open>Runs that end badly\<close>

lemma fail_not_live: "liveSegmentOk s \<Longrightarrow> \<not> isLive (failSegment now s)"
  by (auto simp: liveSegmentOk_def failSegment_def isLive_def kindOf_def split: seg_body.splits)

lemma cancel_not_live: "liveSegmentOk s \<Longrightarrow> \<not> isLive (cancelSegment now s)"
  by (auto simp: liveSegmentOk_def cancelSegment_def isLive_def kindOf_def split: seg_body.splits)

lemma reachable_live: "reachable st \<Longrightarrow> s \<in> set (rn_segments st) \<Longrightarrow> liveSegmentOk s"
  using live_inv.reachable_holds [of st] by (simp add: live_inv.holds_def liveKinds_def)

text \<open>The state after a run has ended: one terminal segment, at the end, and nothing live before it.\<close>

definition settled :: "run_state \<Rightarrow> segment \<Rightarrow> bool" where
  "settled st t \<longleftrightarrow> (\<exists>before. rn_segments st = before @ [t] \<and> isTerminal t \<and> (\<forall>s \<in> set before. \<not> isTerminal s)) \<and>
     (\<forall>s \<in> set (rn_segments st). \<not> isLive s)"

lemma settled_append:
  assumes "rn_segments st = appendTerminalSegment segs (terminalSegment r suf n b)"
    and "\<And>s. s \<in> set segs \<Longrightarrow> \<not> isLive s" and "tn_terminalPhase b \<notin> {SegPending, SegStreaming}"
  shows "settled st (terminalSegment r suf n b)"
  using assms
  by (auto simp: settled_def appendTerminalSegment_def terminalSegment_def isTerminal_def isLive_def)

section \<open>Properties\<close>

text \<open>
  C8: in every reachable state the reasoning flags and the segments agree. Suppressed reasoning is never
  shown, a suppression basis that asks for suppression is obeyed, the trace says visible whenever
  there is a reasoning segment, and it says suppressed only when reasoning is suppressed.
\<close>

theorem reasoning_flags_agree:
  assumes "reachable st"
  shows "(rn_reasoningSuppressed st \<longrightarrow> \<not> hasReasoningSegments (rn_segments st)) \<and>
    (\<forall>b. rn_reasoningSuppressionBasis st = Some b \<and> sb_shouldSuppress b \<longrightarrow> rn_reasoningSuppressed st) \<and>
    (hasReasoningSegments (rn_segments st) \<longrightarrow> rn_reasoningTraceState st = TraceVisible) \<and>
    (rn_reasoningTraceState st = TraceSuppressed \<longrightarrow> rn_reasoningSuppressed st)"
  using reasoning_inv.reachable_holds [OF assms]
  by (simp add: reasoning_inv.holds_def reasoningConsistent_def flagsOf_def)

lemma suppressed_step: "rn_reasoningSuppressed st \<Longrightarrow> rn_reasoningSuppressed (applyRuntimeRunEventToCopilotRunState now st e)"
  by (cases "ev_payload e")
     (simp_all add: applyRuntimeRunEventToCopilotRunState_def Let_def applyRunThinkingMetadataToState_def
       shouldSuppressReasoning_def applyReasoningDelta_def applyRunCompletedToState_def
       applyRunFailedToState_def applyRunCancelledToState_def inRun_def)

definition runEvents :: "run_state \<Rightarrow> (int \<times> run_event) list \<Rightarrow> run_state" where
  "runEvents st nes = fold (\<lambda>(now, e) st. applyRuntimeRunEventToCopilotRunState now st e) nes st"

lemma runEvents_simps [simp]:
  "runEvents st [] = st"
  "runEvents st ((now, e) # nes) = runEvents (applyRuntimeRunEventToCopilotRunState now st e) nes"
  "runEvents st (nes @ [(now, e)]) = applyRuntimeRunEventToCopilotRunState now (runEvents st nes) e"
  by (simp_all add: runEvents_def)

lemma reachable_runEvents: "reachable st \<Longrightarrow> reachable (runEvents st nes)"
  by (induction nes arbitrary: st) (auto simp: reachable.event)

lemma suppressed_runEvents: "rn_reasoningSuppressed st \<Longrightarrow> rn_reasoningSuppressed (runEvents st nes)"
  by (induction nes arbitrary: st) (auto simp: suppressed_step)

text \<open>
  C9: suppression is final. Once the reasoning of a run is suppressed, no later sequence of events brings
  it back: it stays suppressed and no reasoning segment appears, even when later metadata says that
  reasoning need not be suppressed.
\<close>

theorem suppression_is_final:
  assumes "reachable st" and "rn_reasoningSuppressed st"
  shows "rn_reasoningSuppressed (runEvents st nes) \<and> \<not> hasReasoningSegments (rn_segments (runEvents st nes))"
  using suppressed_runEvents [OF assms(2), of nes]
    reasoning_inv.reachable_holds [OF reachable_runEvents [OF assms(1)], of nes]
  by (simp add: reasoning_inv.holds_def reasoningConsistent_def flagsOf_def)

text \<open>C11: a run has at most one terminal segment in every reachable state, whatever events follow its end.\<close>

theorem at_most_one_terminal: "reachable st \<Longrightarrow> length (filter isTerminal (rn_segments st)) \<le> 1"
  using terminal_inv.reachable_holds [of st] by (simp add: terminal_inv.holds_def oneTerminal_def)

lemma failed_settles:
  assumes "reachable st" and "ev_payload e = RunFailed f" and "fa_code f \<noteq> INLINE_FORM_AWAITING_INPUT_CODE"
  shows "settled (applyRuntimeRunEventToCopilotRunState now st e) (buildFailedTerminalSegment (ev_runId e) (ev_sequence e) f)"
  unfolding buildFailedTerminalSegment_def
  by (rule settled_append [where segs = "failStreamingSegments (rn_segments st) now"])
     (use assms in \<open>auto simp: applyRuntimeRunEventToCopilotRunState_def applyRunFailedToState_def
        buildFailedTerminalSegment_def buildFailureSummary_def failStreamingSegments_def fail_not_live reachable_live\<close>)

lemma cancelled_settles:
  assumes "reachable st" and "ev_payload e = RunCancelled mid reason"
  shows "settled (applyRuntimeRunEventToCopilotRunState now st e)
    (buildCancelledTerminalSegment (ev_runId e) (ev_sequence e) (Some mid) reason)"
  unfolding buildCancelledTerminalSegment_def
  by (rule settled_append [where segs = "cancelStreamingSegments (rn_segments st) now"])
     (use assms in \<open>auto simp: applyRuntimeRunEventToCopilotRunState_def applyRunCancelledToState_def
        buildCancelledTerminalSegment_def cancelStreamingSegments_def cancel_not_live reachable_live\<close>)

text \<open>
  C10: a failure or cancellation settles the run. After it the phase says so, the terminal segment is the
  last one and carries the failure or the reason, it is the only one, and no segment of any kind is still
  pending or streaming: no spinner is left behind.
\<close>

theorem bad_end_settles:
  assumes "reachable st"
  shows "(\<forall>f. ev_payload e = RunFailed f \<and> fa_code f \<noteq> INLINE_FORM_AWAITING_INPUT_CODE \<longrightarrow>
            rn_phase (applyRuntimeRunEventToCopilotRunState now st e) = PhaseFailed \<and>
            rn_failure (applyRuntimeRunEventToCopilotRunState now st e) = Some f \<and>
            settled (applyRuntimeRunEventToCopilotRunState now st e)
              (buildFailedTerminalSegment (ev_runId e) (ev_sequence e) f)) \<and>
         (\<forall>mid reason. ev_payload e = RunCancelled mid reason \<longrightarrow>
            rn_phase (applyRuntimeRunEventToCopilotRunState now st e) = PhaseCancelled \<and>
            rn_cancelReason (applyRuntimeRunEventToCopilotRunState now st e) = Some reason \<and>
            settled (applyRuntimeRunEventToCopilotRunState now st e)
              (buildCancelledTerminalSegment (ev_runId e) (ev_sequence e) (Some mid) reason))"
  using failed_settles [OF assms] cancelled_settles [OF assms]
  by (auto simp: applyRuntimeRunEventToCopilotRunState_def applyRunFailedToState_def
      applyRunCancelledToState_def buildFailureSummary_def)

section \<open>Sample runs\<close>

definition sampleRoute :: model_route where
  "sampleRoute = \<lparr>mr_routeRef = None, mr_catalogRevision = None\<rparr>"

definition sampleStart :: run_state where
  "sampleStart = createStartingCopilotRunState ''s1'' sampleRoute []"

definition evAt :: "int \<Rightarrow> run_payload \<Rightarrow> int \<times> run_event" where
  "evAt n p = (n, \<lparr>ev_runId = ''r1'', ev_sessionId = ''s1'', ev_sequence = n, ev_payload = p\<rparr>)"

definition sampleTool :: "tool_phase \<Rightarrow> tool_payload" where
  "sampleTool ph = \<lparr>te_toolCallId = ''c1'', te_toolId = ''shell'', te_phase = ph, te_title = ''Shell'',
     te_summary = ''ls'', te_inputSummary = None, te_resultSummary = None, te_errorSummary = None,
     te_security = None, te_approval = None, te_formRequest = None\<rparr>"

definition sampleBasis :: "bool \<Rightarrow> thinking_metadata" where
  "sampleBasis b = emptyMetadata\<lparr>tm_reasoningSuppressionBasis := Some (Some
     \<lparr>sb_shouldSuppress = b, sb_source = ''policy'', sb_reasonCode = None,
      sb_appliedThinkingSelection = None, sb_reasoningVisibility = None, sb_supportsSuppression = True,
      sb_capabilitySource = None, sb_capabilitySeries = None, sb_appliedThinkingLevel = None\<rparr>)\<rparr>"

lemma sampleStart_reachable: "reachable sampleStart"
  by (simp add: sampleStart_def reachable.starting)

lemmas sample_defs = sampleStart_def sampleRoute_def evAt_def sampleTool_def sampleBasis_def emptyMetadata_def
  createStartingCopilotRunState_def createIdleCopilotRunState_def cloneRuntimeModelRoute_def

lemmas reducer_defs = applyRuntimeRunEventToCopilotRunState_def applyRunThinkingMetadataToState_def
  patched_def shouldSuppressReasoning_def resolveReasoningTraceStateAfterMetadata_def
  hasReasoningSegments_def stripReasoningSegments_def applyReasoningDelta_def inRun_def
  appendReasoningDeltaSegment_def newReasoningSegment_def completeStreamingReasoningSegments_def
  completeReasoningSegment_def appendAssistantDeltaSegment_def newAssistantSegment_def extendLast_def
  upsertToolSegment_def isControlledInlineFormToolEvent_def toolSegmentOf_def existingAs_def
  buildToolSegmentApproval_def appendTerminalSegment_def terminal_segments terminalSegment_def
  applyRunFailedToState_def failStreamingSegments_def failSegment_def buildFailureSummary_def
  applyRunCompletedToState_def completeAssistantSegments_def completeAssistantSegment_def
  resolveLastAssistantSegmentId_def isLive_def isReasoning_def isAssistant_def isTerminal_def
  cloneRuntimeReasoningSuppressionBasis_def INLINE_FORM_AWAITING_INPUT_CODE_def

text \<open>
  The failure of a run leaves a tool that waits for approval in that phase: the segment is marked as
  failed, but its phase is still \<open>waiting_approval\<close>, the value on which the tool card offers its approve
  and reject buttons.
\<close>

theorem failed_run_keeps_waiting_approval:
  "\<exists>st s b. reachable st \<and> rn_phase st = PhaseFailed \<and> s \<in> set (rn_segments st) \<and> sg_body s = Tool b \<and>
     sg_status s = SegFailed \<and> tb_toolPhase b = PhWaitingApproval"
proof -
  let ?st = "runEvents sampleStart [evAt 1 (RunStarted ''m1'' emptyMetadata), evAt 2 (ToolEvent (sampleTool PhWaitingApproval)),
    evAt 3 (RunFailed \<lparr>fa_code = ''net'', fa_message = ''lost'', fa_details = []\<rparr>)]"
  have "reachable ?st" by (rule reachable_runEvents [OF sampleStart_reachable])
  moreover have "rn_phase ?st = PhaseFailed \<and> (\<exists>s \<in> set (rn_segments ?st). \<exists>b. sg_body s = Tool b \<and>
     sg_status s = SegFailed \<and> tb_toolPhase b = PhWaitingApproval)"
    by (simp add: sample_defs reducer_defs)
  ultimately show ?thesis by blast
qed

text \<open>
  The completion of a run does not close its tool segments: a tool whose last event was \<open>started\<close> is
  still streaming in the completed run, unlike after a failure or a cancellation.
\<close>

theorem completed_run_keeps_live_tool:
  "\<exists>st s b. reachable st \<and> rn_phase st = PhaseCompleted \<and> s \<in> set (rn_segments st) \<and> sg_body s = Tool b \<and> isLive s"
proof -
  let ?ref = "\<lparr>rr_routeKind = ProviderModel, rr_profileId = ''p'', rr_modelId = ''m''\<rparr>"
  let ?route = "\<lparr>rs_routeRef = ?ref, rs_providerProfileId = ''p'', rs_provider = ''x'', rs_providerId = ''x'',
    rs_adapterId = ''a'', rs_runtimeStatus = ''ok'', rs_catalogRevision = ''1'', rs_endpointFamily = ''f'',
    rs_endpointType = ''t'', rs_baseUrl = ''u'', rs_modelId = ''m'', rs_authKind = ''k''\<rparr>"
  let ?st = "runEvents sampleStart [evAt 1 (RunStarted ''m1'' emptyMetadata), evAt 2 (ToolEvent (sampleTool PhStarted)),
    evAt 3 (RunCompleted \<lparr>co_assistantMessageId = ''m1'', co_assistantText = ''done'', co_resolvedModelId = ''m'',
      co_resolvedModelRoute = ?route, co_resolvedToolIds = [], co_requestOptions = []\<rparr>)]"
  have "reachable ?st" by (rule reachable_runEvents [OF sampleStart_reachable])
  moreover have "rn_phase ?st = PhaseCompleted \<and>
     (\<exists>s \<in> set (rn_segments ?st). \<exists>b. sg_body s = Tool b \<and> isLive s)"
    by (simp add: sample_defs reducer_defs)
  ultimately show ?thesis by blast
qed

section \<open>Witnesses\<close>

theorem reasoning_flags_agree_witness:
  "hasReasoningSegments (rn_segments (runEvents sampleStart [evAt 1 (RunStarted ''m1'' emptyMetadata), evAt 2 (ReasoningDelta ''hm'')])) \<and>
   rn_reasoningTraceState (runEvents sampleStart [evAt 1 (RunStarted ''m1'' emptyMetadata), evAt 2 (ReasoningDelta ''hm'')]) = TraceVisible"
  using reasoning_flags_agree [OF reachable_runEvents [OF sampleStart_reachable],
    of "[evAt 1 (RunStarted ''m1'' emptyMetadata), evAt 2 (ReasoningDelta ''hm'')]"]
  by (simp add: sample_defs reducer_defs)

theorem suppression_is_final_witness:
  "\<not> hasReasoningSegments (rn_segments (runEvents
      (runEvents sampleStart [evAt 1 (RunStarted ''m1'' (sampleBasis True))])
      [evAt 2 (RunMetadata (sampleBasis False)), evAt 3 (ReasoningDelta ''hm'')]))"
proof -
  have "rn_reasoningSuppressed (runEvents sampleStart [evAt 1 (RunStarted ''m1'' (sampleBasis True))])"
    by (simp add: sample_defs reducer_defs)
  then show ?thesis
    using suppression_is_final [OF reachable_runEvents [OF sampleStart_reachable]] by blast
qed

theorem at_most_one_terminal_witness:
  "length (filter isTerminal (rn_segments (runEvents sampleStart
     [evAt 1 (RunCancelled ''m1'' ''stop''), evAt 2 (RunCancelled ''m1'' ''again'')]))) \<le> 1"
  by (rule at_most_one_terminal [OF reachable_runEvents [OF sampleStart_reachable]])

theorem bad_end_settles_witness:
  "settled (applyRuntimeRunEventToCopilotRunState 3
      (runEvents sampleStart [evAt 1 (RunStarted ''m1'' emptyMetadata), evAt 2 (ToolEvent (sampleTool PhStarted))])
      (snd (evAt 3 (RunCancelled ''m1'' ''stop''))))
    (buildCancelledTerminalSegment ''r1'' 3 (Some ''m1'') ''stop'')"
  using bad_end_settles [OF reachable_runEvents [OF sampleStart_reachable],
    of "snd (evAt 3 (RunCancelled ''m1'' ''stop''))" 3
      "[evAt 1 (RunStarted ''m1'' emptyMetadata), evAt 2 (ToolEvent (sampleTool PhStarted))]"]
  by (simp add: evAt_def)

end
