(* ===== verification/Run_Streams.thy ===== *)
theory Run_Streams
  imports Run_Protocol Run_Invariants
begin

text \<open>
  What a run looks like after a valid prefix of its stream, as \<open>Run_Protocol\<close> lets it through: the
  identifiers of the segments are distinct, the segments are in the order of their first event, and the
  text of the run is the text of the deltas. The locale \<open>stream_invariant\<close> is the contract of a statement
  that relates the events seen so far to the state; \<open>ids_invariant\<close> extends it for statements that need
  the identifiers.
\<close>

section \<open>Statements about valid prefixes\<close>

locale stream_invariant =
  fixes J :: "run_event list \<Rightarrow> run_state \<Rightarrow> bool"
  assumes init: "rn_segments st = [] \<Longrightarrow> J [] st"
    and step: "validPrefix (es @ [e]) \<Longrightarrow> J es st \<Longrightarrow> J (es @ [e]) (applyRuntimeRunEventToCopilotRunState now st e)"
begin

theorem holds_after:
  "validPrefix (map snd nes) \<Longrightarrow> rn_segments st = [] \<Longrightarrow> J (map snd nes) (runEvents st nes)"
proof (induction nes rule: rev_induct)
  case Nil
  then show ?case by (simp add: init)
next
  case (snoc ne nes)
  obtain now e where ne: "ne = (now, e)" by (cases ne)
  with snoc.prems(1) have valid: "validPrefix (map snd nes @ [e])" by simp
  then have "J (map snd nes) (runEvents st nes)"
    using snoc.IH snoc.prems(2) validPrefix_append by blast
  then show ?case using step [OF valid] ne by simp
qed

end

section \<open>Identifiers and order\<close>

definition startOf :: "string \<times> int \<times> seg_kind \<Rightarrow> int" where
  "startOf x = fst (snd x)"

definition countKind :: "seg_kind \<Rightarrow> (string \<times> int \<times> seg_kind) list \<Rightarrow> nat" where
  "countKind k xs = length (filter (\<lambda>x. kindIn x = k) xs)"

text \<open>The identifier of a segment says its run, its kind and its number, tool call or sequence.\<close>

fun idOk :: "string \<Rightarrow> nat \<Rightarrow> nat \<Rightarrow> int \<Rightarrow> string \<times> int \<times> seg_kind \<Rightarrow> bool" where
  "idOk r nA nR q (sid, n, KindAssistant) = (\<exists>k \<le> nA. sid = assistantSegmentId r k)"
| "idOk r nA nR q (sid, n, KindReasoning) = (\<exists>k \<le> nR. sid = reasoningSegmentId r k)"
| "idOk r nA nR q (sid, n, KindTool c) = (sid = toolSegmentId r c)"
| "idOk r nA nR q (sid, n, KindForm c) = (sid = formSegmentId r c)"
| "idOk r nA nR q (sid, n, KindDiagnostic) = (\<exists>m. 0 < m \<and> m \<le> q \<and> sid = diagnosticSegmentId r m)"
| "idOk r nA nR q (sid, n, KindTerminal) = (\<exists>suf. sid = ''terminal:'' @ r @ '':'' @ suf)"

definition wellIds :: "string \<Rightarrow> int \<Rightarrow> (string \<times> int \<times> seg_kind) list \<Rightarrow> bool" where
  "wellIds r q xs \<longleftrightarrow> distinct (map fst xs) \<and> sorted (map startOf xs) \<and>
     (\<forall>x \<in> set xs. startOf x \<le> q \<and> idOk r (countKind KindAssistant xs) (countKind KindReasoning xs) q x)"

lemma wellIds_Nil [simp]: "wellIds r q []"
  by (simp add: wellIds_def)

lemma startOf_triple [simp]: "startOf (a, n, k) = n"
  by (simp add: startOf_def)

lemma idOk_mono:
  "idOk r nA nR q x \<Longrightarrow> nA \<le> nA' \<Longrightarrow> kindIn x = KindReasoning \<longrightarrow> nR \<le> nR' \<Longrightarrow> q \<le> q' \<Longrightarrow> idOk r nA' nR' q' x"
  by (cases "(r, nA, nR, q, x)" rule: idOk.cases) (auto intro: order_trans)

lemma wellIds_mono: "wellIds r q xs \<Longrightarrow> q \<le> q' \<Longrightarrow> wellIds r q' xs"
  by (auto simp: wellIds_def intro: idOk_mono)

lemma countKind_filter: "P k \<Longrightarrow> countKind k (filter (\<lambda>x. P (kindIn x)) xs) = countKind k xs"
  by (induction xs) (auto simp: countKind_def)

lemma wellIds_filter:
  assumes "wellIds r q xs" and "P KindAssistant"
  shows "wellIds r q (filter (\<lambda>x. P (kindIn x)) xs)"
proof -
  let ?ys = "filter (\<lambda>x. P (kindIn x)) xs"
  have "idOk r (countKind KindAssistant ?ys) (countKind KindReasoning ?ys) q x" if "x \<in> set ?ys" for x
  proof -
    have "idOk r (countKind KindAssistant xs) (countKind KindReasoning xs) q x"
      using assms(1) that by (auto simp: wellIds_def)
    then show ?thesis
      using that assms(2) by (rule_tac idOk_mono) (auto simp: countKind_filter)
  qed
  then show ?thesis
    using assms(1) by (auto simp: wellIds_def distinct_map_filter sorted_filter)
qed

lemma wellIds_snoc:
  assumes "wellIds r q xs" and "q \<le> q'" and "startOf x = q'" and "fst x \<notin> fst ` set xs"
    and "idOk r (countKind KindAssistant (xs @ [x])) (countKind KindReasoning (xs @ [x])) q' x"
  shows "wellIds r q' (xs @ [x])"
proof -
  have count: "countKind k xs \<le> countKind k (xs @ [x])" for k by (simp add: countKind_def)
  have "idOk r (countKind KindAssistant (xs @ [x])) (countKind KindReasoning (xs @ [x])) q' y" if "y \<in> set xs" for y
    using that assms(1,2) count by (auto simp: wellIds_def intro: idOk_mono)
  then show ?thesis
    using assms by (auto simp: wellIds_def sorted_append intro: order_trans)
qed

lemmas id_defs = assistantSegmentId_def reasoningSegmentId_def toolSegmentId_def formSegmentId_def
  diagnosticSegmentId_def

lemma ids_inj [simp]:
  "assistantSegmentId r k = assistantSegmentId r k' \<longleftrightarrow> k = k'"
  "reasoningSegmentId r k = reasoningSegmentId r k' \<longleftrightarrow> k = k'"
  "toolSegmentId r c = toolSegmentId r c' \<longleftrightarrow> c = c'"
  "formSegmentId r c = formSegmentId r c' \<longleftrightarrow> c = c'"
  by (simp_all add: id_defs)

lemma diagnosticId_inj: "0 < m \<Longrightarrow> 0 < n \<Longrightarrow> diagnosticSegmentId r m = diagnosticSegmentId r n \<longleftrightarrow> m = n"
  by (simp add: id_defs intString_def eq_nat_nat_iff)

text \<open>The identifiers that the next segment can get are not those of an earlier one.\<close>

lemma idOk_fresh:
  assumes "idOk r nA nR q x"
  shows "fst x \<noteq> assistantSegmentId r (Suc nA)" and "fst x \<noteq> reasoningSegmentId r (Suc nR)"
    and "0 \<le> q \<Longrightarrow> q < n \<Longrightarrow> fst x \<noteq> diagnosticSegmentId r n"
    and "kindIn x \<noteq> KindTerminal \<Longrightarrow> fst x \<noteq> ''terminal:'' @ u"
    and "fst x = toolSegmentId r c \<Longrightarrow> kindIn x = KindTool c"
    and "fst x = formSegmentId r c \<Longrightarrow> kindIn x = KindForm c"
proof -
  show "fst x \<noteq> diagnosticSegmentId r n" if "0 \<le> q" "q < n"
  proof (cases "kindIn x = KindDiagnostic")
    case True
    then show ?thesis
      using assms that by (cases x rule: prod_cases3) (auto simp: diagnosticId_inj)
  next
    case False
    then show ?thesis
      using assms by (cases "(r, nA, nR, q, x)" rule: idOk.cases) (auto simp: id_defs)
  qed
qed (use assms in \<open>cases "(r, nA, nR, q, x)" rule: idOk.cases; auto simp: id_defs\<close>)+

lemma wellIds_idOk:
  "wellIds r q xs \<Longrightarrow> x \<in> set xs \<Longrightarrow> idOk r (countKind KindAssistant xs) (countKind KindReasoning xs) q x"
  by (simp add: wellIds_def)

lemma ids_fresh:
  assumes "wellIds r q xs"
  shows "assistantSegmentId r (Suc (countKind KindAssistant xs)) \<notin> fst ` set xs"
    and "reasoningSegmentId r (Suc (countKind KindReasoning xs)) \<notin> fst ` set xs"
    and "0 \<le> q \<Longrightarrow> q < n \<Longrightarrow> diagnosticSegmentId r n \<notin> fst ` set xs"
    and "(\<forall>x \<in> set xs. kindIn x \<noteq> KindTerminal) \<Longrightarrow> ''terminal:'' @ u \<notin> fst ` set xs"
proof -
  note fresh = idOk_fresh [OF wellIds_idOk [OF assms]]
  show "assistantSegmentId r (Suc (countKind KindAssistant xs)) \<notin> fst ` set xs"
    and "reasoningSegmentId r (Suc (countKind KindReasoning xs)) \<notin> fst ` set xs"
    using fresh(1,2) by (metis imageE)+
  show "diagnosticSegmentId r n \<notin> fst ` set xs" if "0 \<le> q" "q < n"
    using fresh(3) that by (metis imageE)
  show "''terminal:'' @ u \<notin> fst ` set xs" if noTerminal: "\<forall>x \<in> set xs. kindIn x \<noteq> KindTerminal"
  proof
    assume "''terminal:'' @ u \<in> fst ` set xs"
    then show False
    proof (rule imageE)
      fix x assume x: "''terminal:'' @ u = fst x" "x \<in> set xs"
      have "kindIn x \<noteq> KindTerminal" using noTerminal x(2) by (rule bspec)
      from fresh(4) [OF x(2) this, of u] x(1) [symmetric] show False by (rule notE)
    qed
  qed
qed

section \<open>The operations keep the identifiers\<close>

lemma wellIds_add:
  assumes "wellIds r q (skeletons segs)" and "q \<le> n" and "startOf x = n" and "fst x \<notin> fst ` set (skeletons segs)"
    and "idOk r (countKind KindAssistant (skeletons segs @ [x])) (countKind KindReasoning (skeletons segs @ [x])) n x"
  shows "wellIds r n (skeletons segs @ [x])"
  using wellIds_snoc [OF assms] .

lemma count_skeletons_kind:
  "countAssistantSegments segs = countKind KindAssistant (skeletons segs)"
  "countReasoningSegments segs = countKind KindReasoning (skeletons segs)"
  by (induction segs)
     (simp_all add: countAssistantSegments_def countReasoningSegments_def countKind_def kind_tests)

lemma countKind_snoc [simp]: "countKind k (xs @ [(a, n, k')]) = (if k' = k then Suc (countKind k xs) else countKind k xs)"
  by (simp add: countKind_def)

lemma wellIds_assistantDelta:
  assumes "wellIds r q (skeletons segs)" and "q \<le> n"
  shows "wellIds r n (skeletons (appendAssistantDeltaSegment segs r n mid d))"
  using skeletons_assistantDelta [of segs r n mid d] wellIds_mono [OF assms]
    wellIds_add [OF assms, of "(assistantSegmentId r (Suc (countKind KindAssistant (skeletons segs))), n, KindAssistant)"]
    ids_fresh(1) [OF assms(1)]
  by (auto simp: count_skeletons_kind)

lemma wellIds_reasoningDelta:
  assumes "wellIds r q (skeletons segs)" and "q \<le> n"
  shows "wellIds r n (skeletons (appendReasoningDeltaSegment segs r n d now))"
  using skeletons_reasoningDelta [of segs r n d now] wellIds_mono [OF assms]
    wellIds_add [OF assms, of "(reasoningSegmentId r (Suc (countKind KindReasoning (skeletons segs))), n, KindReasoning)"]
    ids_fresh(2) [OF assms(1)]
  by (auto simp: count_skeletons_kind)

lemma wellIds_diagnostic:
  assumes "wellIds r q (skeletons segs)" and "0 \<le> q" and "q < n"
  shows "wellIds r n (skeletons (appendDiagnosticSegment segs r n d))"
proof -
  have "wellIds r n (skeletons segs @ [(diagnosticSegmentId r n, n, KindDiagnostic)])"
    using assms ids_fresh(3) [OF assms] by (intro wellIds_add [OF assms(1)]) (auto intro: exI [of _ n])
  then show ?thesis by (simp add: appendDiagnosticSegment_def skeleton_def kindOf_def)
qed

lemma wellIds_terminal:
  assumes "wellIds r q (skeletons segs)" and "q \<le> n"
  shows "wellIds r n (skeletons (appendTerminalSegment segs (terminalSegment r suf n b)))"
proof -
  let ?xs = "filter (\<lambda>x. kindIn x \<noteq> KindTerminal) (skeletons segs)"
  have xs: "wellIds r q ?xs" using assms(1) by (rule wellIds_filter) simp
  have "''terminal:'' @ r @ '':'' @ suf \<notin> fst ` set ?xs"
    by (rule ids_fresh(4) [OF xs]) simp
  then have "wellIds r n (?xs @ [(''terminal:'' @ r @ '':'' @ suf, n, KindTerminal)])"
    by (intro wellIds_snoc [OF xs assms(2)]) auto
  then show ?thesis by (simp add: skeletons_terminal)
qed

lemma wellIds_completeAssistant:
  assumes "wellIds r q (skeletons segs)" and "q \<le> n"
  shows "wellIds r n (skeletons (completeAssistantSegments segs r n c now))"
proof (cases "skeletons (completeAssistantSegments segs r n c now) = skeletons segs")
  case True
  then show ?thesis using wellIds_mono [OF assms] by simp
next
  case False
  then have none: "\<forall>s \<in> set segs. \<not> isAssistant s"
    and eq: "skeletons (completeAssistantSegments segs r n c now) = skeletons segs @ [(assistantSegmentId r 1, n, KindAssistant)]"
    using skeletons_completeAssistant [of segs r n c now] by auto
  have "countKind KindAssistant (skeletons segs) = 0"
    using none by (simp flip: count_skeletons_kind(1)) (simp add: countAssistantSegments_def)
  then show ?thesis
    using eq wellIds_add [OF assms, of "(assistantSegmentId r 1, n, KindAssistant)"] ids_fresh(1) [OF assms(1)]
    by auto
qed

lemma wellIds_sublist: "wellIds r q (skeletons segs) \<Longrightarrow> P KindAssistant \<Longrightarrow> wellIds r q (skeletons (filter (\<lambda>s. P (kindOf s)) segs))"
  by (simp add: skeletons_filter wellIds_filter)

text \<open>A tool or form event updates the segment of its call in place or adds one with a new identifier.\<close>

lemma skeleton_in: "s \<in> set segs \<Longrightarrow> skeleton s \<in> set (skeletons segs)"
  by (simp add: skeletons_def)

lemma wellIds_distinct: "wellIds r q (skeletons segs) \<Longrightarrow> distinct (map sg_id segs)"
  by (simp add: wellIds_def skeletons_def skeleton_def comp_def)

lemma found_kind:
  assumes "wellIds r q (skeletons segs)" and "i < length segs"
  shows "sg_id (segs ! i) = toolSegmentId r c \<Longrightarrow> kindOf (segs ! i) = KindTool c"
    and "sg_id (segs ! i) = formSegmentId r c \<Longrightarrow> kindOf (segs ! i) = KindForm c"
  using idOk_fresh(5,6) [OF wellIds_idOk [OF assms(1) skeleton_in [OF nth_mem [OF assms(2)]]], of c]
  by (simp_all add: skeleton_def)

lemma kindOf_tool: "kindOf s = KindTool c \<longleftrightarrow> (\<exists>b. sg_body s = Tool b \<and> tb_toolCallId b = c)"
  by (cases "sg_body s") (auto simp: kindOf_def)

lemma kindOf_form: "kindOf s = KindForm c \<longleftrightarrow> (\<exists>b. sg_body s = InlineForm b \<and> fb_toolCallId b = c)"
  by (cases "sg_body s") (auto simp: kindOf_def)

lemma skeletons_replace_tool:
  assumes "wellIds r q (skeletons segs)" and "findSegment (toolSegmentId r (te_toolCallId p)) segs = Some i"
  shows "skeletons (segs[i := toolSegmentOf r n p (existingAs toolBodyOf segs (Some i))]) = skeletons segs"
proof -
  have i: "i < length segs" "sg_id (segs ! i) = toolSegmentId r (te_toolCallId p)"
    using findSegment_Some [OF assms(2)] by simp_all
  obtain b where "sg_body (segs ! i) = Tool b" and "tb_toolCallId b = te_toolCallId p"
    using found_kind(1) [OF assms(1) i] kindOf_tool by blast
  then have "skeleton (toolSegmentOf r n p (existingAs toolBodyOf segs (Some i))) = skeleton (segs ! i)"
    using i(2) by (simp add: existingAs_def toolBodyOf_def toolSegmentOf_def skeleton_def kindOf_def)
  then show ?thesis
    using i(1) by (simp add: skeletons_def map_update list_update_same_conv)
qed

lemma skeletons_replace_form:
  assumes "wellIds r q (skeletons segs)" and "findSegment (formSegmentId r (te_toolCallId p)) segs = Some i"
  shows "skeletons (map (\<lambda>s. if sg_id s = formSegmentId r (te_toolCallId p)
             then formSegmentOf r n p req (existingAs formBodyOf segs (Some i)) else s)
           (filter (\<lambda>s. \<not> isToolOfCall (te_toolCallId p) s) segs)) =
         skeletons (filter (\<lambda>s. \<not> isToolOfCall (te_toolCallId p) s) segs)"
proof -
  have i: "i < length segs" "sg_id (segs ! i) = formSegmentId r (te_toolCallId p)"
    using findSegment_Some [OF assms(2)] by simp_all
  have same: "s = segs ! i" if "s \<in> set segs" and "sg_id s = formSegmentId r (te_toolCallId p)" for s
    using that i wellIds_distinct [OF assms(1)] by (metis distinct_map inj_onD nth_mem)
  obtain b where "sg_body (segs ! i) = InlineForm b" and "fb_toolCallId b = te_toolCallId p"
    using found_kind(2) [OF assms(1) i] kindOf_form by blast
  then have "skeleton (formSegmentOf r n p req (existingAs formBodyOf segs (Some i))) = skeleton (segs ! i)"
    using i(2) by (simp add: existingAs_def formBodyOf_def formSegmentOf_def skeleton_def kindOf_def)
  then show ?thesis
    using same by (auto simp: skeletons_def)
qed

lemma fst_skeletons: "fst ` set (skeletons segs) = sg_id ` set segs"
  by (auto simp: skeletons_def skeleton_def image_image)

lemma wellIds_tool:
  assumes "wellIds r q (skeletons segs)" and "q \<le> n"
  shows "wellIds r n (skeletons (upsertToolSegment segs r n p))"
proof (cases "isControlledInlineFormToolEvent (te_toolId p) (te_formRequest p)")
  case False
  show ?thesis
  proof (cases "findSegment (toolSegmentId r (te_toolCallId p)) segs")
    case None
    then have "wellIds r n (skeletons segs @ [(toolSegmentId r (te_toolCallId p), n, KindTool (te_toolCallId p))])"
      by (intro wellIds_add [OF assms]) (auto simp: fst_skeletons findSegment_None)
    then show ?thesis
      using False None by (simp add: upsertToolSegment_def toolSegmentOf_def skeleton_def kindOf_def existingAs_def)
  next
    case (Some i)
    then show ?thesis
      using False skeletons_replace_tool [OF assms(1) Some] wellIds_mono [OF assms] by (simp add: upsertToolSegment_def)
  qed
next
  case True
  then obtain req where req: "te_formRequest p = Some req"
    by (auto simp: isControlledInlineFormToolEvent_def)
  let ?segs = "filter (\<lambda>s. \<not> isToolOfCall (te_toolCallId p) s) segs"
  have sub: "wellIds r q (skeletons ?segs)"
    using wellIds_sublist [OF assms(1), of "\<lambda>k. k \<noteq> KindTool (te_toolCallId p)"] by (simp add: kind_tests)
  show ?thesis
  proof (cases "findSegment (formSegmentId r (te_toolCallId p)) segs")
    case None
    then have "formSegmentId r (te_toolCallId p) \<notin> fst ` set (skeletons ?segs)"
      by (auto simp: fst_skeletons findSegment_None)
    then have "wellIds r n (skeletons ?segs @ [(formSegmentId r (te_toolCallId p), n, KindForm (te_toolCallId p))])"
      by (intro wellIds_add [OF sub assms(2)]) auto
    then show ?thesis
      using True None req
      by (simp add: upsertToolSegment_def upsertInlineFormSegment_def Let_def formSegmentOf_def skeleton_def
          kindOf_def existingAs_def)
  next
    case (Some i)
    then show ?thesis
      using True req skeletons_replace_form [OF assms(1) Some, of n req] wellIds_mono [OF sub assms(2)]
      by (simp add: upsertToolSegment_def upsertInlineFormSegment_def Let_def cong: if_cong)
  qed
qed

section \<open>The reducer keeps the identifiers\<close>

lemma wellIds_strip: "wellIds r q (skeletons segs) \<Longrightarrow> wellIds r q (skeletons (stripReasoningSegments segs))"
  using wellIds_sublist [of r q segs "\<lambda>k. k \<noteq> KindReasoning"]
  by (simp add: stripReasoningSegments_def kind_tests)

lemma wellIds_metadata:
  "wellIds r q (skeletons (rn_segments st)) \<Longrightarrow> wellIds r q (skeletons (rn_segments (applyRunThinkingMetadataToState st m)))"
  by (simp add: applyRunThinkingMetadataToState_def Let_def wellIds_strip)

lemma wellIds_apply:
  assumes ids: "wellIds (ev_runId e) q (skeletons (rn_segments st))" and pos: "0 \<le> q" and later: "q < ev_sequence e"
  shows "wellIds (ev_runId e) (ev_sequence e)
           (skeletons (rn_segments (applyRuntimeRunEventToCopilotRunState now st e)))"
proof -
  let ?segs = "completeStreamingReasoningSegments (rn_segments st) (ev_sequence e) now"
  have le: "q \<le> ev_sequence e" using later by simp
  have closed: "wellIds (ev_runId e) q (skeletons ?segs)" using ids by simp
  note upto = wellIds_mono [OF _ le]
  show ?thesis
  proof (cases "ev_payload e")
    case (RunCompleted c)
    have "wellIds (ev_runId e) (ev_sequence e)
        (skeletons (completeAssistantSegments (rn_segments st) (ev_runId e) (ev_sequence e) c now))"
      using wellIds_completeAssistant [OF ids le] .
    from wellIds_terminal [OF this order_refl] show ?thesis
      by (simp add: applyRuntimeRunEventToCopilotRunState_def Let_def RunCompleted applyRunCompletedToState_def
          buildCompletedTerminalSegment_def)
  next
    case (RunFailed f)
    have "wellIds (ev_runId e) q (skeletons (failStreamingSegments (rn_segments st) now))" using ids by simp
    from wellIds_terminal [OF this le] show ?thesis
      using upto [OF ids]
      by (simp add: applyRuntimeRunEventToCopilotRunState_def Let_def RunFailed applyRunFailedToState_def
          buildFailedTerminalSegment_def)
  next
    case (RunCancelled mid reason)
    have "wellIds (ev_runId e) q (skeletons (cancelStreamingSegments (rn_segments st) now))" using ids by simp
    from wellIds_terminal [OF this le] show ?thesis
      by (simp add: applyRuntimeRunEventToCopilotRunState_def Let_def RunCancelled applyRunCancelledToState_def
          buildCancelledTerminalSegment_def)
  qed (simp_all add: applyRuntimeRunEventToCopilotRunState_def Let_def applyReasoningDelta_def inRun_def
      upto [OF ids] upto [OF wellIds_strip [OF ids]] upto [OF wellIds_metadata] ids
      wellIds_assistantDelta [OF closed le] wellIds_reasoningDelta [OF ids le] wellIds_tool [OF closed le]
      wellIds_diagnostic [OF closed pos later])
qed

definition wellRun :: "run_event list \<Rightarrow> run_state \<Rightarrow> bool" where
  "wellRun es st \<longleftrightarrow> (if es = [] then rn_segments st = []
     else 0 < ev_sequence (last es) \<and>
       wellIds (ev_runId (hd es)) (ev_sequence (last es)) (skeletons (rn_segments st)))"

text \<open>What a valid next event finds: the identifiers of its run, up to a smaller sequence number.\<close>

lemma wellRun_next:
  assumes "validPrefix (es @ [e])" and "wellRun es st"
  obtains q where "0 \<le> q" "q < ev_sequence e" "wellIds (ev_runId e) q (skeletons (rn_segments st))"
    "es \<noteq> [] \<longrightarrow> q = ev_sequence (last es)" "ev_runId e = ev_runId (hd (es @ [e]))"
proof (cases "es = []")
  case True
  then show ?thesis using assms by (intro that [of 0]) (auto simp: wellRun_def)
next
  case False
  then show ?thesis
    using assms by (intro that [of "ev_sequence (last es)"]) (auto simp: wellRun_def validPrefix_snoc)
qed

lemma wellRun_step:
  assumes "validPrefix (es @ [e])" and "wellRun es st"
  shows "wellRun (es @ [e]) (applyRuntimeRunEventToCopilotRunState now st e)"
proof -
  obtain q where q: "0 \<le> q" "q < ev_sequence e" "wellIds (ev_runId e) q (skeletons (rn_segments st))"
    and run: "ev_runId e = ev_runId (hd (es @ [e]))"
    using wellRun_next [OF assms] by metis
  have "0 < ev_sequence e" using q(1,2) by simp
  then show ?thesis using wellIds_apply [OF q(3,1,2), of now] run by (simp add: wellRun_def)
qed

interpretation ids_run: stream_invariant wellRun
  by unfold_locales (simp add: wellRun_def, rule wellRun_step)

text \<open>
  A statement about valid prefixes whose step needs the identifiers: an event replaces the segment it
  means and no other.
\<close>

locale ids_invariant =
  fixes K :: "run_event list \<Rightarrow> run_state \<Rightarrow> bool"
  assumes K_init: "rn_segments st = [] \<Longrightarrow> K [] st"
    and K_step: "validPrefix (es @ [e]) \<Longrightarrow> 0 \<le> q \<Longrightarrow> q < ev_sequence e \<Longrightarrow>
      (es \<noteq> [] \<longrightarrow> q = ev_sequence (last es)) \<Longrightarrow> wellIds (ev_runId e) q (skeletons (rn_segments st)) \<Longrightarrow>
      K es st \<Longrightarrow> K (es @ [e]) (applyRuntimeRunEventToCopilotRunState now st e)"

sublocale ids_invariant \<subseteq> stream_invariant "\<lambda>es st. wellRun es st \<and> K es st"
proof
  show "wellRun [] st \<and> K [] st" if "rn_segments st = []" for st :: run_state
    using that by (simp add: K_init wellRun_def)
next
  fix es e now and st :: run_state
  assume valid: "validPrefix (es @ [e])" and both: "wellRun es st \<and> K es st"
  then have well: "wellRun es st" by simp
  obtain q where "0 \<le> q" "q < ev_sequence e" "wellIds (ev_runId e) q (skeletons (rn_segments st))"
    "es \<noteq> [] \<longrightarrow> q = ev_sequence (last es)"
    by (rule wellRun_next [OF valid well])
  then show "wellRun (es @ [e]) (applyRuntimeRunEventToCopilotRunState now st e) \<and>
      K (es @ [e]) (applyRuntimeRunEventToCopilotRunState now st e)"
    using wellRun_step [OF valid] K_step [OF valid] both by blast
qed

section \<open>The text of a run\<close>

fun assistantTextOf :: "seg_body \<Rightarrow> string" where
  "assistantTextOf (Assistant b) = as_text b" | "assistantTextOf _ = []"

fun reasoningTextOf :: "seg_body \<Rightarrow> string" where
  "reasoningTextOf (Reasoning b) = re_text b" | "reasoningTextOf _ = []"

text \<open>The texts of the segments, one after the other.\<close>

definition textBy :: "(seg_body \<Rightarrow> string) \<Rightarrow> segment list \<Rightarrow> string" where
  "textBy f segs = concat (map (\<lambda>s. f (sg_body s)) segs)"

lemma textBy_simps [simp]:
  "textBy f [] = []" "textBy f (s # ss) = f (sg_body s) @ textBy f ss" "textBy f (xs @ ys) = textBy f xs @ textBy f ys"
  by (simp_all add: textBy_def)

lemma textBy_map: "(\<And>s. s \<in> set segs \<Longrightarrow> f (sg_body (g s)) = f (sg_body s)) \<Longrightarrow> textBy f (map g segs) = textBy f segs"
  by (induction segs) simp_all

lemma textBy_filter: "(\<And>s. s \<in> set segs \<Longrightarrow> \<not> P s \<Longrightarrow> f (sg_body s) = []) \<Longrightarrow> textBy f (filter P segs) = textBy f segs"
  by (induction segs) simp_all

lemma textBy_none: "(\<And>s. s \<in> set segs \<Longrightarrow> f (sg_body s) = []) \<Longrightarrow> textBy f segs = []"
  by (induction segs) simp_all

lemma textBy_update: "i < length segs \<Longrightarrow> f (sg_body (segs ! i)) = f (sg_body s) \<Longrightarrow> textBy f (segs[i := s]) = textBy f segs"
  by (simp add: textBy_def map_update) (metis list_update_id nth_map)

lemma textBy_extendLast:
  "segs \<noteq> [] \<Longrightarrow> f (g (sg_body (last segs))) = f (sg_body (last segs)) @ d \<Longrightarrow>
   textBy f (extendLast segs n g) = textBy f segs @ d"
  by (subst (2) append_butlast_last_id [symmetric], assumption)
     (simp add: extendLast_def del: append_butlast_last_id)

text \<open>A text that tool, form, diagnostic and terminal segments do not have.\<close>

definition ownText :: "(seg_body \<Rightarrow> string) \<Rightarrow> bool" where
  "ownText f \<longleftrightarrow> (\<forall>b. \<not> isAssistantBody b \<and> \<not> isReasoningBody b \<longrightarrow> f b = [])"

lemma ownText_texts [simp]: "ownText assistantTextOf" "ownText reasoningTextOf"
  unfolding ownText_def by (intro allI impI, case_tac b; simp)+

lemma ownText_kind:
  assumes "ownText f"
  shows "kindOf s = KindTool c \<Longrightarrow> f (sg_body s) = []" and "kindOf s = KindForm c \<Longrightarrow> f (sg_body s) = []"
    and "kindOf s = KindTerminal \<Longrightarrow> f (sg_body s) = []" and "kindOf s = KindDiagnostic \<Longrightarrow> f (sg_body s) = []"
  using assms by (cases "sg_body s"; simp add: ownText_def kindOf_def)+

lemma found_kind_set:
  assumes "wellIds r q (skeletons segs)" and "s \<in> set segs"
  shows "sg_id s = toolSegmentId r c \<Longrightarrow> kindOf s = KindTool c"
    and "sg_id s = formSegmentId r c \<Longrightarrow> kindOf s = KindForm c"
  using found_kind [OF assms(1)] assms(2) by (auto simp: in_set_conv_nth)

lemma textBy_tool:
  assumes own: "ownText f" and ids: "wellIds r q (skeletons segs)"
  shows "textBy f (upsertToolSegment segs r n p) = textBy f segs"
proof -
  have kept: "textBy f (filter (\<lambda>s. \<not> isToolOfCall c s) segs) = textBy f segs" for c
    by (rule textBy_filter) (auto simp: kind_tests ownText_kind(1) [OF own])
  have new: "f (sg_body (toolSegmentOf r n p ex)) = []" "f (sg_body (formSegmentOf r n p req ex')) = []" for ex req ex'
    by (rule ownText_kind [OF own], simp)+
  have tool: "textBy f (segs[i := toolSegmentOf r n p ex]) = textBy f segs"
    if "findSegment (toolSegmentId r (te_toolCallId p)) segs = Some i" for i ex
    using findSegment_Some [OF that] found_kind(1) [OF ids]
    by (intro textBy_update) (auto simp: new ownText_kind(1) [OF own])
  have form: "textBy f (map (\<lambda>s. if sg_id s = formSegmentId r c then formSegmentOf r n p req ex else s)
      (filter (\<lambda>s. \<not> isToolOfCall c s) segs)) = textBy f segs" for c req ex
  proof (subst textBy_map)
    fix s assume "s \<in> set (filter (\<lambda>s. \<not> isToolOfCall c s) segs)"
    then have "sg_id s = formSegmentId r c \<Longrightarrow> f (sg_body s) = []"
      using found_kind_set(2) [OF ids] ownText_kind(2) [OF own] by auto
    then show "f (sg_body (if sg_id s = formSegmentId r c then formSegmentOf r n p req ex else s)) = f (sg_body s)"
      by (simp add: new)
  qed (rule kept)
  show ?thesis
    by (simp add: upsertToolSegment_def upsertInlineFormSegment_def Let_def new tool form kept split: option.split)
qed

text \<open>What each operation does to the two texts.\<close>

lemma texts_kept:
  "assistantTextOf (sg_body (completeReasoningSegment n now s)) = assistantTextOf (sg_body s)"
  "reasoningTextOf (sg_body (completeReasoningSegment n now s)) = reasoningTextOf (sg_body s)"
  "assistantTextOf (sg_body (awaitInputSegment now s)) = assistantTextOf (sg_body s)"
  "reasoningTextOf (sg_body (awaitInputSegment now s)) = reasoningTextOf (sg_body s)"
  "assistantTextOf (sg_body (cancelSegment now s)) = assistantTextOf (sg_body s)"
  "reasoningTextOf (sg_body (cancelSegment now s)) = reasoningTextOf (sg_body s)"
  "assistantTextOf (sg_body (failSegment now s)) = assistantTextOf (sg_body s)"
  "reasoningTextOf (sg_body (failSegment now s)) = reasoningTextOf (sg_body s)"
  "reasoningTextOf (sg_body (completeAssistantSegment lid n c s)) = reasoningTextOf (sg_body s)"
  by (cases "sg_body s"; simp add: completeReasoningSegment_def awaitInputSegment_def cancelSegment_def failSegment_def
      completeAssistantSegment_def finishReasoning_def)+

lemma textBy_closed [simp]:
  "textBy assistantTextOf (completeStreamingReasoningSegments segs n now) = textBy assistantTextOf segs"
  "textBy reasoningTextOf (completeStreamingReasoningSegments segs n now) = textBy reasoningTextOf segs"
  "textBy assistantTextOf (finalizeStreamingSegmentsForAwaitingInput segs now) = textBy assistantTextOf segs"
  "textBy reasoningTextOf (finalizeStreamingSegmentsForAwaitingInput segs now) = textBy reasoningTextOf segs"
  "textBy assistantTextOf (cancelStreamingSegments segs now) = textBy assistantTextOf segs"
  "textBy reasoningTextOf (cancelStreamingSegments segs now) = textBy reasoningTextOf segs"
  "textBy assistantTextOf (failStreamingSegments segs now) = textBy assistantTextOf segs"
  "textBy reasoningTextOf (failStreamingSegments segs now) = textBy reasoningTextOf segs"
  by (simp_all add: completeStreamingReasoningSegments_def finalizeStreamingSegmentsForAwaitingInput_def
      cancelStreamingSegments_def failStreamingSegments_def textBy_map texts_kept)

lemma textBy_terminal [simp]:
  assumes "ownText f"
  shows "textBy f (appendTerminalSegment segs (terminalSegment r suf n b)) = textBy f segs"
proof -
  have "f (sg_body (terminalSegment r suf n b)) = []"
    by (rule ownText_kind(3) [OF assms]) (simp add: terminalSegment_def kindOf_def)
  then show ?thesis
    by (simp add: appendTerminalSegment_def)
       (rule textBy_filter, use ownText_kind(3) [OF assms] in \<open>simp add: kind_tests\<close>)
qed

lemma textBy_diagnostic [simp]: "ownText f \<Longrightarrow> textBy f (appendDiagnosticSegment segs r n d) = textBy f segs"
  by (simp add: appendDiagnosticSegment_def ownText_def)

lemma textBy_assistantDelta [simp]:
  "textBy assistantTextOf (appendAssistantDeltaSegment segs r n mid d) = textBy assistantTextOf segs @ d"
  "textBy reasoningTextOf (appendAssistantDeltaSegment segs r n mid d) = textBy reasoningTextOf segs"
proof -
  have "assistantTextOf (addAssistantText d n b) = assistantTextOf b @ d" "reasoningTextOf (addAssistantText d n b) = reasoningTextOf b @ []"
    if "isAssistantBody b" for b
    using that by (cases b; simp)+
  then show "textBy assistantTextOf (appendAssistantDeltaSegment segs r n mid d) = textBy assistantTextOf segs @ d"
    and "textBy reasoningTextOf (appendAssistantDeltaSegment segs r n mid d) = textBy reasoningTextOf segs"
    using textBy_extendLast [of segs reasoningTextOf "addAssistantText d n" "[]" n]
      textBy_extendLast [of segs assistantTextOf "addAssistantText d n" d n]
    by (auto simp: appendAssistantDeltaSegment_def newAssistantSegment_def isAssistant_def)
qed

lemma textBy_reasoningDelta [simp]:
  "textBy reasoningTextOf (appendReasoningDeltaSegment segs r n d now) = textBy reasoningTextOf segs @ d"
  "textBy assistantTextOf (appendReasoningDeltaSegment segs r n d now) = textBy assistantTextOf segs"
proof -
  have "reasoningTextOf (addReasoningText d b) = reasoningTextOf b @ d" "assistantTextOf (addReasoningText d b) = assistantTextOf b @ []"
    if "isReasoningBody b" for b
    using that by (cases b; simp)+
  then show "textBy reasoningTextOf (appendReasoningDeltaSegment segs r n d now) = textBy reasoningTextOf segs @ d"
    and "textBy assistantTextOf (appendReasoningDeltaSegment segs r n d now) = textBy assistantTextOf segs"
    using textBy_extendLast [of segs reasoningTextOf "addReasoningText d" d n]
      textBy_extendLast [of segs assistantTextOf "addReasoningText d" "[]" n]
    by (auto simp: appendReasoningDeltaSegment_def newReasoningSegment_def isReasoning_def)
qed

lemma textBy_strip [simp]:
  "textBy reasoningTextOf (stripReasoningSegments segs) = []"
  "textBy assistantTextOf (stripReasoningSegments segs) = textBy assistantTextOf segs"
proof -
  have "reasoningTextOf (sg_body s) = []" if "\<not> isReasoning s" for s
    using that by (cases "sg_body s") (simp_all add: isReasoning_def)
  then show "textBy reasoningTextOf (stripReasoningSegments segs) = []"
    by (intro textBy_none) (auto simp: stripReasoningSegments_def)
  have "assistantTextOf (sg_body s) = []" if "isReasoning s" for s
    using that by (cases "sg_body s") (simp_all add: isReasoning_def)
  then show "textBy assistantTextOf (stripReasoningSegments segs) = textBy assistantTextOf segs"
    unfolding stripReasoningSegments_def by (intro textBy_filter) auto
qed

text \<open>The completion of a run adds its text when no assistant segment has text of its own.\<close>

definition spokenSegments :: "segment list \<Rightarrow> bool" where
  "spokenSegments segs \<longleftrightarrow> (\<forall>s \<in> set segs. isAssistant s \<longrightarrow> assistantTextOf (sg_body s) \<noteq> [])"

lemma textBy_completeAssistant:
  shows "textBy reasoningTextOf (completeAssistantSegments segs r n c now) = textBy reasoningTextOf segs"
    and "spokenSegments segs \<Longrightarrow> textBy assistantTextOf (completeAssistantSegments segs r n c now) =
      (if textBy assistantTextOf segs = [] then co_assistantText c else textBy assistantTextOf segs)"
proof -
  have seg: "assistantTextOf (sg_body (completeAssistantSegment lid n c (completeReasoningSegment n now s))) = assistantTextOf (sg_body s)"
    if "assistantTextOf (sg_body s) \<noteq> [] \<or> \<not> isAssistant s" for s lid
    using that by (cases "sg_body s") (auto simp: completeAssistantSegment_def completeReasoningSegment_def isAssistant_def)
  show "textBy reasoningTextOf (completeAssistantSegments segs r n c now) = textBy reasoningTextOf segs"
    by (simp add: completeAssistantSegments_def Let_def textBy_map texts_kept split: option.split)
  assume spoken: "spokenSegments segs"
  show "textBy assistantTextOf (completeAssistantSegments segs r n c now) =
      (if textBy assistantTextOf segs = [] then co_assistantText c else textBy assistantTextOf segs)"
  proof (cases "resolveLastAssistantSegmentId segs")
    case None
    then have "assistantTextOf (sg_body s) = []" if "s \<in> set segs" for s
      using that by (cases "sg_body s") (auto simp: resolveLastAssistantSegmentId_def find_None_iff isAssistant_def)
    then have "textBy assistantTextOf segs = []" by (rule textBy_none)
    with None show ?thesis by (simp add: completeAssistantSegments_def)
  next
    case (Some lid)
    then obtain s where "find isAssistant (rev segs) = Some s"
      by (auto simp: resolveLastAssistantSegmentId_def)
    then have "s \<in> set segs" "isAssistant s"
      by (metis find_Some_iff nth_mem set_rev)+
    then have "textBy assistantTextOf segs \<noteq> []"
      using spoken by (auto simp: spokenSegments_def textBy_def)
    moreover have "textBy assistantTextOf (completeAssistantSegments segs r n c now) = textBy assistantTextOf segs"
      using Some spoken seg
      by (simp add: completeAssistantSegments_def completeStreamingReasoningSegments_def comp_def)
         (rule textBy_map, auto simp: spokenSegments_def)
    ultimately show ?thesis by simp
  qed
qed

lemma spoken_same:
  assumes "spokenSegments segs" and "\<And>s. isAssistant (g s) \<Longrightarrow> isAssistant s"
    and "\<And>s. assistantTextOf (sg_body (g s)) = assistantTextOf (sg_body s)"
  shows "spokenSegments (map g segs)"
  using assms by (auto simp: spokenSegments_def)

lemma spoken_closed:
  assumes "spokenSegments segs"
  shows "spokenSegments (completeStreamingReasoningSegments segs n now)"
  unfolding completeStreamingReasoningSegments_def
  by (rule spoken_same [OF assms])
     (auto simp: texts_kept completeReasoningSegment_def isAssistant_def split: seg_body.splits if_splits)

lemma spoken_tool: "spokenSegments segs \<Longrightarrow> spokenSegments (upsertToolSegment segs r n p)"
  by (auto simp: spokenSegments_def upsertToolSegment_def upsertInlineFormSegment_def Let_def kind_tests
      split: option.splits if_splits dest!: set_update_subset_insert [THEN subsetD])

lemma spoken_extendLast:
  assumes "spokenSegments segs" and "segs \<noteq> []"
    and "isAssistantBody (f (sg_body (last segs))) \<Longrightarrow> assistantTextOf (f (sg_body (last segs))) \<noteq> []"
  shows "spokenSegments (extendLast segs n f)"
  using assms by (auto simp: spokenSegments_def extendLast_def isAssistant_def dest: in_set_butlastD)

lemma spoken_assistantDelta:
  assumes "spokenSegments segs" and "d \<noteq> []"
  shows "spokenSegments (appendAssistantDeltaSegment segs r n mid d)"
proof -
  have "assistantTextOf (addAssistantText d n b) \<noteq> []" if "isAssistantBody b" for b
    using that assms(2) by (cases b) simp_all
  then show ?thesis
    using assms spoken_extendLast [of segs "addAssistantText d n" n]
    by (auto simp: appendAssistantDeltaSegment_def isAssistant_def)
       (auto simp: spokenSegments_def newAssistantSegment_def)
qed

lemma spoken_reasoningDelta:
  assumes "spokenSegments segs"
  shows "spokenSegments (appendReasoningDeltaSegment segs r n d now)"
proof -
  have "\<not> isAssistantBody (addReasoningText d b)" if "isReasoningBody b" for b
    using that by (cases b) simp_all
  then show ?thesis
    using assms spoken_extendLast [of segs "addReasoningText d" n]
    by (auto simp: appendReasoningDeltaSegment_def isReasoning_def)
       (auto simp: spokenSegments_def newReasoningSegment_def isAssistant_def)
qed

lemma spoken_strip: "spokenSegments segs \<Longrightarrow> spokenSegments (stripReasoningSegments segs)"
  by (simp add: spokenSegments_def stripReasoningSegments_def)

section \<open>The text of the events\<close>

fun textDelta :: "run_payload \<Rightarrow> string" where
  "textDelta (TextDelta mid d) = d" | "textDelta _ = []"

fun reasoningDelta :: "run_payload \<Rightarrow> string" where
  "reasoningDelta (ReasoningDelta d) = d" | "reasoningDelta _ = []"

fun completedText :: "run_payload \<Rightarrow> string" where
  "completedText (RunCompleted c) = co_assistantText c" | "completedText _ = []"

definition streamText :: "(run_payload \<Rightarrow> string) \<Rightarrow> run_event list \<Rightarrow> string" where
  "streamText f es = concat (map (\<lambda>e. f (ev_payload e)) es)"

lemma streamText_simps [simp]:
  "streamText f [] = []" "streamText f (xs @ [e]) = streamText f xs @ f (ev_payload e)"
  by (simp_all add: streamText_def)

text \<open>The answer of a run: what was streamed or, when nothing was, the text of its completion.\<close>

definition transcript :: "run_event list \<Rightarrow> string" where
  "transcript es = (if streamText textDelta es = [] then streamText completedText es else streamText textDelta es)"

fun emptyDelta :: "run_payload \<Rightarrow> bool" where
  "emptyDelta (TextDelta mid d) \<longleftrightarrow> d = []" | "emptyDelta _ \<longleftrightarrow> False"

definition noEmptyDelta :: "run_event list \<Rightarrow> bool" where
  "noEmptyDelta es \<longleftrightarrow> (\<forall>e \<in> set es. \<not> emptyDelta (ev_payload e))"

definition ended :: "run_event list \<Rightarrow> bool" where
  "ended es \<longleftrightarrow> es \<noteq> [] \<and> isTerminalRuntimeRunEvent (last es)"

definition saysTranscript :: "run_event list \<Rightarrow> run_state \<Rightarrow> bool" where
  "saysTranscript es st \<longleftrightarrow> (noEmptyDelta es \<longrightarrow>
     textBy assistantTextOf (rn_segments st) = transcript es \<and> (\<not> ended es \<longrightarrow> spokenSegments (rn_segments st)))"

lemma not_ended:
  assumes "validPrefix (es @ [e])"
  shows "\<not> ended es" and "streamText completedText es = []"
proof -
  have open': "\<forall>e \<in> set es. \<not> isTerminalRuntimeRunEvent e" using assms by (simp add: validPrefix_def)
  then show "\<not> ended es" by (auto simp: ended_def)
  have "completedText (ev_payload e) = []" if "e \<in> set es" for e
    using open' that by (cases "ev_payload e") (auto simp: isTerminalRuntimeRunEvent_def)
  then show "streamText completedText es = []" by (auto simp: streamText_def)
qed

lemma text_metadata [simp]:
  "textBy assistantTextOf (rn_segments (applyRunThinkingMetadataToState st m)) = textBy assistantTextOf (rn_segments st)"
  by (simp add: applyRunThinkingMetadataToState_def Let_def)

lemma spoken_metadata: "spokenSegments (rn_segments st) \<Longrightarrow> spokenSegments (rn_segments (applyRunThinkingMetadataToState st m))"
  by (simp add: applyRunThinkingMetadataToState_def Let_def spoken_strip)

lemma spoken_diagnostic: "spokenSegments segs \<Longrightarrow> spokenSegments (appendDiagnosticSegment segs r n d)"
  by (auto simp: spokenSegments_def appendDiagnosticSegment_def isAssistant_def)

text \<open>The step of one event on the text of the answer.\<close>

lemma assistantText_apply:
  assumes "wellIds (ev_runId e) q (skeletons (rn_segments st))" and "spokenSegments (rn_segments st)"
  shows "textBy assistantTextOf (rn_segments (applyRuntimeRunEventToCopilotRunState now st e)) =
    (if textBy assistantTextOf (rn_segments st) = [] then completedText (ev_payload e)
     else textBy assistantTextOf (rn_segments st)) @ textDelta (ev_payload e)"
  using assms textBy_completeAssistant(2) [OF assms(2)]
  by (cases "ev_payload e")
     (auto simp: applyRuntimeRunEventToCopilotRunState_def Let_def inRun_def applyReasoningDelta_def
       applyRunCompletedToState_def applyRunFailedToState_def applyRunCancelledToState_def terminal_segments
       textBy_tool)

lemma spoken_apply:
  assumes "spokenSegments (rn_segments st)" and "\<not> emptyDelta (ev_payload e)" and "\<not> isTerminalRuntimeRunEvent e"
  shows "spokenSegments (rn_segments (applyRuntimeRunEventToCopilotRunState now st e))"
  using assms spoken_closed [OF assms(1), of "ev_sequence e" now]
  by (cases "ev_payload e")
     (simp_all add: applyRuntimeRunEventToCopilotRunState_def Let_def inRun_def applyReasoningDelta_def
       spoken_metadata spoken_strip spoken_assistantDelta spoken_reasoningDelta spoken_tool spoken_diagnostic
       isTerminalRuntimeRunEvent_def)

interpretation transcript_run: ids_invariant saysTranscript
proof
  show "saysTranscript [] st" if "rn_segments st = []" for st
    using that by (simp add: saysTranscript_def transcript_def spokenSegments_def)
next
  fix es q now and e :: run_event and st :: run_state
  assume valid: "validPrefix (es @ [e])" and ids: "wellIds (ev_runId e) q (skeletons (rn_segments st))"
    and K: "saysTranscript es st"
  show "saysTranscript (es @ [e]) (applyRuntimeRunEventToCopilotRunState now st e)"
    unfolding saysTranscript_def
  proof (intro impI conjI)
    assume "noEmptyDelta (es @ [e])"
    then have new: "\<not> emptyDelta (ev_payload e)" and old: "noEmptyDelta es" by (auto simp: noEmptyDelta_def)
    have spoken: "spokenSegments (rn_segments st)" and eq: "textBy assistantTextOf (rn_segments st) = streamText textDelta es"
      using K old not_ended [OF valid] by (auto simp: saysTranscript_def transcript_def)
    show "textBy assistantTextOf (rn_segments (applyRuntimeRunEventToCopilotRunState now st e)) = transcript (es @ [e])"
      using assistantText_apply [OF ids spoken, of now] not_ended(2) [OF valid]
      by (cases "ev_payload e") (auto simp: eq transcript_def)
    show "spokenSegments (rn_segments (applyRuntimeRunEventToCopilotRunState now st e))" if "\<not> ended (es @ [e])"
      using that spoken_apply [OF spoken new] by (simp add: ended_def)
  qed
qed

definition saysReasoning :: "run_event list \<Rightarrow> run_state \<Rightarrow> bool" where
  "saysReasoning es st \<longleftrightarrow> textBy reasoningTextOf (rn_segments st) =
     (if rn_reasoningSuppressed st then [] else streamText reasoningDelta es)"

lemma reasoning_metadata:
  "textBy reasoningTextOf (rn_segments (applyRunThinkingMetadataToState st m)) =
     (if rn_reasoningSuppressed (applyRunThinkingMetadataToState st m) then [] else textBy reasoningTextOf (rn_segments st))"
  "rn_reasoningSuppressed st \<Longrightarrow> rn_reasoningSuppressed (applyRunThinkingMetadataToState st m)"
  by (simp_all add: applyRunThinkingMetadataToState_def Let_def shouldSuppressReasoning_def)

interpretation reasoning_run: ids_invariant saysReasoning
proof
  show "saysReasoning [] st" if "rn_segments st = []" for st
    using that by (simp add: saysReasoning_def)
next
  fix es q now and e :: run_event and st :: run_state
  assume ids: "wellIds (ev_runId e) q (skeletons (rn_segments st))" and K: "saysReasoning es st"
  have closed: "wellIds (ev_runId e) q
      (skeletons (completeStreamingReasoningSegments (rn_segments st) (ev_sequence e) now))"
    using ids by simp
  show "saysReasoning (es @ [e]) (applyRuntimeRunEventToCopilotRunState now st e)"
    using K reasoning_metadata(2) [of "inRun e st"] reasoning_metadata(2) [of "(inRun e st)\<lparr>rn_phase := PhaseStreaming\<rparr>"]
      textBy_tool [OF _ closed]
    by (cases "ev_payload e")
       (auto simp: saysReasoning_def applyRuntimeRunEventToCopilotRunState_def Let_def inRun_def applyReasoningDelta_def
         applyRunCompletedToState_def applyRunFailedToState_def applyRunCancelledToState_def terminal_segments
         textBy_completeAssistant(1) reasoning_metadata(1) shouldSuppressReasoning_def split: if_splits)
qed

section \<open>Sequence numbers\<close>

text \<open>The last sequence number of a segment is not before its first one nor after that of the last event.\<close>

definition seqOk :: "int \<Rightarrow> segment \<Rightarrow> bool" where
  "seqOk n s \<longleftrightarrow> sg_startedSequence s \<le> sg_lastSequence s \<and> sg_lastSequence s \<le> n"

definition seqsOk :: "int \<Rightarrow> segment list \<Rightarrow> bool" where
  "seqsOk n segs \<longleftrightarrow> (\<forall>s \<in> set segs. seqOk n s)"

lemma seqsOk_simps [simp]:
  "seqsOk n []" "seqsOk n (s # ss) \<longleftrightarrow> seqOk n s \<and> seqsOk n ss" "seqsOk n (xs @ ys) \<longleftrightarrow> seqsOk n xs \<and> seqsOk n ys"
  by (auto simp: seqsOk_def)

lemma seqsOk_mono: "seqsOk q segs \<Longrightarrow> q \<le> n \<Longrightarrow> seqsOk n segs"
  by (auto simp: seqsOk_def seqOk_def)

lemma seqsOk_map: "seqsOk n segs \<Longrightarrow> (\<And>s. seqOk n s \<Longrightarrow> seqOk n (g s)) \<Longrightarrow> seqsOk n (map g segs)"
  by (auto simp: seqsOk_def)

lemma seqsOk_filter: "seqsOk n segs \<Longrightarrow> seqsOk n (filter P segs)"
  by (auto simp: seqsOk_def)

lemma seqOk_closed:
  "seqOk n s \<Longrightarrow> seqOk n (completeReasoningSegment n now s)"
  "seqOk n s \<Longrightarrow> seqOk n (awaitInputSegment now s)"
  "seqOk n s \<Longrightarrow> seqOk n (cancelSegment now s)"
  "seqOk n s \<Longrightarrow> seqOk n (failSegment now s)"
  "seqOk n s \<Longrightarrow> seqOk n (completeAssistantSegment lid n c s)"
  by (cases "sg_body s"; auto simp: seqOk_def completeReasoningSegment_def awaitInputSegment_def cancelSegment_def
      failSegment_def completeAssistantSegment_def)+

lemma seqsOk_closed:
  assumes "seqsOk n segs"
  shows "seqsOk n (completeStreamingReasoningSegments segs n now)"
    and "seqsOk n (finalizeStreamingSegmentsForAwaitingInput segs now)"
    and "seqsOk n (cancelStreamingSegments segs now)"
    and "seqsOk n (failStreamingSegments segs now)"
    and "seqsOk n (stripReasoningSegments segs)"
  by (simp_all add: completeStreamingReasoningSegments_def finalizeStreamingSegmentsForAwaitingInput_def
      cancelStreamingSegments_def failStreamingSegments_def stripReasoningSegments_def
      seqsOk_map [OF assms] seqsOk_filter [OF assms] seqOk_closed)

lemma seqsOk_extendLast: "seqsOk n segs \<Longrightarrow> segs \<noteq> [] \<Longrightarrow> seqsOk n (extendLast segs n f)"
  by (auto simp: extendLast_def seqsOk_def seqOk_def dest: in_set_butlastD) (meson last_in_set order_trans)

lemma seqsOk_new:
  "seqsOk n segs \<Longrightarrow> seqsOk n (appendAssistantDeltaSegment segs r n mid d)"
  "seqsOk n segs \<Longrightarrow> seqsOk n (appendReasoningDeltaSegment segs r n d now)"
  "seqsOk n segs \<Longrightarrow> seqsOk n (appendDiagnosticSegment segs r n dg)"
  "seqsOk n segs \<Longrightarrow> seqsOk n (appendTerminalSegment segs (terminalSegment r suf n b))"
  by (auto simp: appendAssistantDeltaSegment_def appendReasoningDeltaSegment_def appendDiagnosticSegment_def
      appendTerminalSegment_def terminalSegment_def newAssistantSegment_def newReasoningSegment_def seqsOk_filter
      seqsOk_extendLast) (simp_all add: seqOk_def)

lemma seqsOk_completeAssistant: "seqsOk n segs \<Longrightarrow> seqsOk n (completeAssistantSegments segs r n c now)"
  by (auto simp: completeAssistantSegments_def Let_def seqsOk_closed seqsOk_map seqOk_closed split: option.split)
     (simp_all add: seqOk_def)

lemma seqsOk_tool:
  assumes ok: "seqsOk n segs"
  shows "seqsOk n (upsertToolSegment segs r n p)"
proof -
  have started: "sg_startedSequence (segs ! i) \<le> n" if "findSegment sid segs = Some i" for sid i
    using ok findSegment_Some [OF that] by (auto simp: seqsOk_def seqOk_def intro: order_trans)
  have tool: "seqOk n (toolSegmentOf r n p (existingAs toolBodyOf segs (findSegment sid segs)))"
    and form: "seqOk n (formSegmentOf r n p req (existingAs formBodyOf segs (findSegment sid segs)))" for sid req
    using started [of sid]
    by (auto simp: seqOk_def toolSegmentOf_def formSegmentOf_def existingAs_def split: option.splits)
  have new: "seqsOk n (segs[i := s])" if "seqOk n s" for i s
    using ok that set_update_subset_insert [of segs i s] by (auto simp: seqsOk_def)
  show ?thesis
    using ok tool form new
    by (auto simp: upsertToolSegment_def upsertInlineFormSegment_def Let_def seqsOk_filter split: option.split
        intro!: seqsOk_map) (metis tool form)+
qed

lemma seqs_apply:
  assumes "seqsOk q (rn_segments st)" and "q \<le> ev_sequence e"
  shows "seqsOk (ev_sequence e) (rn_segments (applyRuntimeRunEventToCopilotRunState now st e))"
  using seqsOk_mono [OF assms] seqsOk_closed [OF seqsOk_mono [OF assms]]
  by (cases "ev_payload e")
     (simp_all add: applyRuntimeRunEventToCopilotRunState_def Let_def inRun_def applyReasoningDelta_def
       applyRunThinkingMetadataToState_def applyRunCompletedToState_def applyRunFailedToState_def
       applyRunCancelledToState_def terminal_segments seqsOk_new seqsOk_tool seqsOk_completeAssistant)

definition seqsUpTo :: "run_event list \<Rightarrow> run_state \<Rightarrow> bool" where
  "seqsUpTo es st \<longleftrightarrow> seqsOk (if es = [] then 0 else ev_sequence (last es)) (rn_segments st)"

interpretation seqs_run: ids_invariant seqsUpTo
proof
  show "seqsUpTo [] st" if "rn_segments st = []" for st
    using that by (simp add: seqsUpTo_def)
next
  fix es q now and e :: run_event and st :: run_state
  assume "validPrefix (es @ [e])" and "seqsUpTo es st"
  moreover have "0 < ev_sequence e" "es \<noteq> [] \<Longrightarrow> ev_sequence (last es) < ev_sequence e"
    using calculation(1) by (auto simp: validPrefix_def sorted_wrt_append)
  ultimately show "seqsUpTo (es @ [e]) (applyRuntimeRunEventToCopilotRunState now st e)"
    using seqs_apply [of "if es = [] then 0 else ev_sequence (last es)" st e now]
    by (cases "es = []") (simp_all add: seqsUpTo_def)
qed

section \<open>Ending a run locally\<close>

lemma synthetic_later:
  assumes "s \<in> set segs"
  shows "sg_lastSequence s < resolveNextSyntheticSequence segs"
proof -
  let ?f = "\<lambda>s m. if m < sg_lastSequence s then sg_lastSequence s else m"
  have grows: "m \<le> fold ?f segs m" for m and segs :: "segment list"
  proof (induction segs arbitrary: m)
    case (Cons a segs)
    then show ?case
      using Cons.IH [of m] order_trans [OF less_imp_le Cons.IH [of "sg_lastSequence a"], of m] by simp
  qed simp
  have "s \<in> set segs \<Longrightarrow> sg_lastSequence s \<le> fold ?f segs m" for m
  proof (induction segs arbitrary: m)
    case (Cons a segs)
    then show ?case using grows [of m segs] grows [of "sg_lastSequence a" segs] by auto
  qed simp
  then show ?thesis using assms by (simp add: resolveNextSyntheticSequence_def)
qed

lemma runId_apply: "rn_runId (applyRuntimeRunEventToCopilotRunState now st e) = Some (ev_runId e)"
  by (cases "ev_payload e")
     (simp_all add: applyRuntimeRunEventToCopilotRunState_def Let_def inRun_def applyReasoningDelta_def
       applyRunThinkingMetadataToState_def applyRunCompletedToState_def applyRunFailedToState_def
       applyRunCancelledToState_def)

lemma runId_after: "nes \<noteq> [] \<Longrightarrow> rn_runId (runEvents st nes) = Some (ev_runId (snd (last nes)))"
proof -
  assume "nes \<noteq> []"
  then obtain ys now e where "nes = ys @ [(now, e)]" by (metis rev_exhaust surj_pair)
  then show ?thesis by (simp only: runEvents_simps runId_apply last_snoc snd_conv)
qed

lemma same_run: "validPrefix es \<Longrightarrow> es \<noteq> [] \<Longrightarrow> ev_runId (last es) = ev_runId (hd es)"
  unfolding validPrefix_def using last_in_set by blast

text \<open>A terminal segment with a later sequence number than every segment goes to the end.\<close>

lemma skeletons_ids: "map fst (skeletons segs) = map sg_id segs" "map startOf (skeletons segs) = map sg_startedSequence segs"
  by (simp_all add: skeletons_def skeleton_def comp_def)

lemma wellIds_sorted: "wellIds r q (skeletons segs) \<Longrightarrow> sorted (map sg_startedSequence segs)"
  by (simp add: wellIds_def skeletons_ids)

lemma terminal_last:
  assumes ids: "wellIds r q (skeletons segs)" and later: "\<forall>s \<in> set segs. sg_startedSequence s \<le> n"
  shows "distinct (map sg_id (appendTerminalSegment segs (terminalSegment r suf n b)))"
    and "sorted (map sg_startedSequence (appendTerminalSegment segs (terminalSegment r suf n b)))"
proof -
  let ?kept = "filter (\<lambda>s. \<not> isTerminal s) segs"
  have kept: "wellIds r q (skeletons ?kept)"
    using wellIds_sublist [OF ids, of "\<lambda>k. k \<noteq> KindTerminal"] by (simp add: kind_tests)
  have "sg_id (terminalSegment r suf n b) \<notin> fst ` set (skeletons ?kept)"
    unfolding terminalSegment_def segment.simps
    by (rule ids_fresh(4) [OF kept]) (auto simp: skeletons_def kind_tests)
  then show "distinct (map sg_id (appendTerminalSegment segs (terminalSegment r suf n b)))"
    using wellIds_distinct [OF kept] by (simp add: appendTerminalSegment_def fst_skeletons)
  show "sorted (map sg_startedSequence (appendTerminalSegment segs (terminalSegment r suf n b)))"
    using wellIds_sorted [OF kept] later by (auto simp: appendTerminalSegment_def sorted_append terminalSegment_def)
qed

section \<open>Properties\<close>

text \<open>
  C16: the segments of a run have distinct identifiers, which the view uses as keys and the reducer to
  find the segment of a tool call: whatever valid prefix of a stream has been applied, from a state
  without segments.
\<close>

theorem segment_ids_unique:
  assumes "validPrefix (map snd nes)" and "rn_segments st = []"
  shows "distinct (map sg_id (rn_segments (runEvents st nes)))"
  using ids_run.holds_after [OF assms] wellIds_distinct
  by (cases "nes = []") (auto simp: wellRun_def assms(2))

text \<open>
  C17: the segments are in the order in which their first event came, and each ends no later than the last
  event applied and no earlier than it began.
\<close>

theorem segments_in_order:
  assumes "validPrefix (map snd nes)" and "rn_segments st = []" and "nes \<noteq> []"
  shows "sorted (map sg_startedSequence (rn_segments (runEvents st nes))) \<and>
    (\<forall>s \<in> set (rn_segments (runEvents st nes)).
       sg_startedSequence s \<le> sg_lastSequence s \<and> sg_lastSequence s \<le> ev_sequence (snd (last nes)))"
  using seqs_run.holds_after [OF assms(1,2)] assms(3) wellIds_sorted
  by (auto simp: wellRun_def seqsUpTo_def seqsOk_def seqOk_def last_map)

text \<open>
  C12: no text is lost or doubled. The texts of the assistant segments, one after the other, are the
  text deltas in the order in which they came; a run that streamed no text shows the text of its
  completion. Empty deltas are excluded, which is needed (see below).
\<close>

theorem answer_is_transcript:
  assumes "validPrefix (map snd nes)" and "rn_segments st = []" and "noEmptyDelta (map snd nes)"
  shows "textBy assistantTextOf (rn_segments (runEvents st nes)) = transcript (map snd nes)"
  using transcript_run.holds_after [OF assms(1,2)] assms(3) by (simp add: saysTranscript_def)

text \<open>
  The reasoning that is shown is all of it or none: the reasoning deltas in the order in which they
  came, or nothing at all when the reasoning of the run has been suppressed.
\<close>

theorem reasoning_all_or_nothing:
  assumes "validPrefix (map snd nes)" and "rn_segments st = []"
  shows "textBy reasoningTextOf (rn_segments (runEvents st nes)) =
    (if rn_reasoningSuppressed (runEvents st nes) then [] else streamText reasoningDelta (map snd nes))"
  using reasoning_run.holds_after [OF assms] by (simp add: saysReasoning_def)

text \<open>
  A run that the user cancels locally keeps its segments in order and their identifiers distinct,
  after any valid prefix: the terminal segment goes to the end, with a sequence number that no segment has
  reached.
\<close>

theorem local_cancel_in_order:
  assumes "validPrefix (map snd nes)" and "rn_segments st = []"
  shows "distinct (map sg_id (rn_segments (markCopilotRunCancelled now (runEvents st nes) reason))) \<and>
    sorted (map sg_startedSequence (rn_segments (markCopilotRunCancelled now (runEvents st nes) reason))) \<and>
    (\<forall>s \<in> set (rn_segments (runEvents st nes)).
       sg_lastSequence s < sg_lastSequence (last (rn_segments (markCopilotRunCancelled now (runEvents st nes) reason))))"
proof -
  let ?st = "runEvents st nes" and ?n = "resolveNextSyntheticSequence (rn_segments (runEvents st nes))"
  let ?segs = "cancelStreamingSegments (rn_segments ?st) now"
  have skel: "skeletons ?segs = skeletons (rn_segments ?st)" by simp
  then have starts: "map sg_startedSequence ?segs = map sg_startedSequence (rn_segments ?st)"
    by (metis skeletons_ids(2))
  have before: "sg_startedSequence s \<le> ?n" if "s \<in> set (rn_segments ?st)" for s
  proof -
    have "sg_startedSequence s \<le> sg_lastSequence s"
      using conjunct2 [OF seqs_run.holds_after [OF assms]] that unfolding seqsUpTo_def seqsOk_def seqOk_def by blast
    then show ?thesis using synthetic_later [OF that] by linarith
  qed
  have later: "\<forall>s \<in> set ?segs. sg_startedSequence s \<le> ?n"
  proof
    fix s assume "s \<in> set ?segs"
    then have "sg_startedSequence s \<in> set (map sg_startedSequence (rn_segments ?st))"
      unfolding starts [symmetric] by simp
    then show "sg_startedSequence s \<le> ?n" using before by auto
  qed
  obtain q where ids: "wellIds (orElse (rn_runId ?st) ''local-cancelled-run'') q (skeletons ?segs)"
  proof (cases "nes = []")
    case True
    then show ?thesis using assms(2) that skel by simp
  next
    case False
    then have "rn_runId ?st = Some (ev_runId (hd (map snd nes)))"
      using runId_after [OF False] same_run [OF assms(1)] by (simp add: last_map hd_map)
    then show ?thesis
      using that ids_run.holds_after [OF assms] False skel by (simp add: wellRun_def orElse_def) blast
  qed
  show ?thesis
    using terminal_last [OF ids later] synthetic_later
    by (auto simp: markCopilotRunCancelled_def applyRunCancelledToState_def buildCancelledTerminalSegment_def
        appendTerminalSegment_def terminalSegment_def)
qed

text \<open>
  An empty text delta after other segments doubles the answer: the completion puts the whole text of
  the run into the last assistant segment because that segment is empty, although the text has been
  streamed into an earlier one.
\<close>

theorem empty_delta_doubles_text:
  "\<exists>nes. validRunStream (map snd nes) \<and> streamText textDelta (map snd nes) = ''hi'' \<and>
     streamText completedText (map snd nes) = ''hi'' \<and>
     textBy assistantTextOf (rn_segments (runEvents sampleStart nes)) = ''hihi''"
proof -
  let ?ref = "\<lparr>rr_routeKind = ProviderModel, rr_profileId = ''p'', rr_modelId = ''m''\<rparr>"
  let ?route = "\<lparr>rs_routeRef = ?ref, rs_providerProfileId = ''p'', rs_provider = ''x'', rs_providerId = ''x'',
    rs_adapterId = ''a'', rs_runtimeStatus = ''ok'', rs_catalogRevision = ''1'', rs_endpointFamily = ''f'',
    rs_endpointType = ''t'', rs_baseUrl = ''u'', rs_modelId = ''m'', rs_authKind = ''k''\<rparr>"
  let ?nes = "[evAt 1 (RunStarted ''m1'' emptyMetadata), evAt 2 (TextDelta ''m1'' ''hi''),
    evAt 3 (ToolEvent (sampleTool PhCompleted)), evAt 4 (TextDelta ''m1'' []),
    evAt 5 (RunCompleted \<lparr>co_assistantMessageId = ''m1'', co_assistantText = ''hi'', co_resolvedModelId = ''m'',
      co_resolvedModelRoute = ?route, co_resolvedToolIds = [], co_requestOptions = []\<rparr>)]"
  have "validRunStream (map snd ?nes)"
    by (simp add: validRunStream_def validPrefix_def evAt_def isTerminalRuntimeRunEvent_def)
  moreover have "streamText textDelta (map snd ?nes) = ''hi''" "streamText completedText (map snd ?nes) = ''hi''"
    by (simp_all add: streamText_def evAt_def)
  moreover have "textBy assistantTextOf (rn_segments (runEvents sampleStart ?nes)) = ''hihi''"
    by (simp add: sample_defs reducer_defs countAssistantSegments_def id_defs)
  ultimately show ?thesis by blast
qed

section \<open>Witnesses\<close>

definition sampleRun :: "(int \<times> run_event) list" where
  "sampleRun = [evAt 1 (RunStarted ''m1'' emptyMetadata), evAt 2 (ReasoningDelta ''hm''),
     evAt 3 (TextDelta ''m1'' ''a''), evAt 4 (ToolEvent (sampleTool PhStarted)), evAt 6 (TextDelta ''m1'' ''b'')]"

lemma sampleRun_valid: "validPrefix (map snd sampleRun)" "rn_segments sampleStart = []" "sampleRun \<noteq> []"
  "noEmptyDelta (map snd sampleRun)"
  by (simp_all add: validPrefix_def sampleRun_def sample_defs isTerminalRuntimeRunEvent_def noEmptyDelta_def)

theorem segment_ids_unique_witness: "distinct (map sg_id (rn_segments (runEvents sampleStart sampleRun)))"
  by (rule segment_ids_unique [OF sampleRun_valid(1,2)])

theorem segments_in_order_witness:
  "sorted (map sg_startedSequence (rn_segments (runEvents sampleStart sampleRun))) \<and>
   sg_lastSequence (last (rn_segments (runEvents sampleStart sampleRun))) \<le> 6"
proof -
  have "ev_sequence (snd (last sampleRun)) = 6" "rn_segments (runEvents sampleStart sampleRun) \<noteq> []"
    by (simp_all add: sampleRun_def sample_defs reducer_defs)
  then show ?thesis
    using segments_in_order [OF sampleRun_valid(1,2,3)] last_in_set by metis
qed

theorem answer_is_transcript_witness:
  "textBy assistantTextOf (rn_segments (runEvents sampleStart sampleRun)) = ''ab''"
  using answer_is_transcript [OF sampleRun_valid(1,2,4)]
  by (simp add: sampleRun_def evAt_def transcript_def streamText_def)

theorem reasoning_all_or_nothing_witness:
  "textBy reasoningTextOf (rn_segments (runEvents sampleStart sampleRun)) = ''hm''"
proof -
  have "\<not> rn_reasoningSuppressed (runEvents sampleStart sampleRun)"
    by (simp add: sampleRun_def sample_defs reducer_defs)
  then show ?thesis
    using reasoning_all_or_nothing [OF sampleRun_valid(1,2)]
    by (simp add: sampleRun_def evAt_def streamText_def)
qed

theorem local_cancel_in_order_witness:
  "sorted (map sg_startedSequence (rn_segments (markCopilotRunCancelled 9 (runEvents sampleStart sampleRun) ''stop'')))"
  using local_cancel_in_order [OF sampleRun_valid(1,2)] by blast

end
