(* ===== verification/View_Laws.thy ===== *)
theory View_Laws
  imports Run_View Run_Streams
begin

text \<open>
  What the user sees of a run, from the events of its stream to the items of the message list: the lemmas of
  \<open>Run_Streams\<close> and \<open>Run_Invariants\<close> on the segments, carried over to the items of \<open>Run_View\<close>.
\<close>

section \<open>Items and segments\<close>

fun isDiagnosticBody :: "item_body \<Rightarrow> bool" where
  "isDiagnosticBody (DiagnosticItem _) = True" | "isDiagnosticBody _ = False"

fun isTerminalItemBody :: "item_body \<Rightarrow> bool" where
  "isTerminalItemBody (TerminalItem _) = True" | "isTerminalItemBody _ = False"

fun isAssistantItemBody :: "item_body \<Rightarrow> bool" where
  "isAssistantItemBody (AssistantItem _) = True" | "isAssistantItemBody _ = False"

fun isReasoningItemBody :: "item_body \<Rightarrow> bool" where
  "isReasoningItemBody (ReasoningItem _) = True" | "isReasoningItemBody _ = False"

definition shownBy :: "(item_body \<Rightarrow> bool) \<Rightarrow> view_item list \<Rightarrow> string" where
  "shownBy p items = concat (map it_content (filter (\<lambda>i. p (it_body i)) items))"

lemmas item_defs = projectSegmentToViewItems_def projectAssistantSegment_def projectReasoningSegment_def
  projectToolSegment_def projectInlineFormSegment_def projectDiagnosticSegment_def projectTerminalSegment_def
  terminalItem_def

lemma view_Cons:
  "concat (map (\<lambda>s. projectSegmentToViewItems s st) (s # segs)) =
     projectSegmentToViewItems s st @ concat (map (\<lambda>s. projectSegmentToViewItems s st) segs)"
  by simp

text \<open>A segment gives at most one item, with its identifier.\<close>

lemma item_of_segment:
  "projectSegmentToViewItems s st = [] \<or> (\<exists>i. projectSegmentToViewItems s st = [i] \<and> it_id i = sg_id s)"
  by (auto simp: item_defs Let_def split: seg_body.split segment_status.split)

lemma view_subseq: "subseq (map it_id (concat (map (\<lambda>s. projectSegmentToViewItems s st) segs))) (map sg_id segs)"
proof (induction segs)
  case (Cons s segs)
  then show ?case using item_of_segment [of s st] by auto
qed simp

lemma distinct_subseq: "subseq xs ys \<Longrightarrow> distinct ys \<Longrightarrow> distinct xs"
  by (auto simp: subseq_conv_nths intro: distinct_nthsI)

lemma textBy_blank [simp]: "textBy (\<lambda>_. []) segs = []"
  by (induction segs) simp_all

text \<open>The text of the assistant and reasoning items is that of the segments.\<close>

lemma shown_assistant_segment:
  "shownBy isAssistantItemBody (projectSegmentToViewItems s st) = assistantTextOf (sg_body s)"
  by (cases "sg_body s")
     (auto simp: item_defs shownBy_def isRenderableAssistantSegment_def Let_def split: segment_status.split)

lemma shown_reasoning_segment:
  "\<not> isReasoningSuppressedForRun st \<Longrightarrow>
   shownBy isReasoningItemBody (projectSegmentToViewItems s st) = reasoningTextOf (sg_body s)"
  by (cases "sg_body s")
     (auto simp: item_defs shownBy_def shouldProjectReasoningSegment_def Let_def split: segment_status.split)

lemma shownBy_append [simp]: "shownBy p (xs @ ys) = shownBy p xs @ shownBy p ys"
  by (simp add: shownBy_def)

lemma shown_view:
  assumes "\<And>s. shownBy p (projectSegmentToViewItems s st) = f (sg_body s)"
  shows "shownBy p (buildCopilotRunSegmentViewModel st) = textBy f (rn_segments st)"
proof -
  have "shownBy p (concat (map (\<lambda>s. projectSegmentToViewItems s st) segs)) = textBy f segs" for segs
    by (induction segs) (simp_all add: assms, simp add: shownBy_def)
  then show ?thesis by (simp add: buildCopilotRunSegmentViewModel_def)
qed

lemma shown_assistant: "shownBy isAssistantItemBody (buildCopilotRunSegmentViewModel st) = textBy assistantTextOf (rn_segments st)"
  by (rule shown_view) (rule shown_assistant_segment)

text \<open>In a reachable state the three flags that the view looks at say the same.\<close>

lemma suppressed_flags:
  assumes "reachable st"
  shows "isReasoningSuppressedForRun st \<longleftrightarrow> rn_reasoningSuppressed st"
  using reasoning_inv.reachable_holds [OF assms]
  by (auto simp: isReasoningSuppressedForRun_def reasoning_inv.holds_def reasoningConsistent_def flagsOf_def
      split: option.splits)

lemma shown_reasoning:
  assumes "reachable st"
  shows "shownBy isReasoningItemBody (buildCopilotRunSegmentViewModel st) = textBy reasoningTextOf (rn_segments st)"
proof (cases "isReasoningSuppressedForRun st")
  case True
  then have none: "\<not> hasReasoningSegments (rn_segments st)"
    using reasoning_inv.reachable_holds [OF assms] suppressed_flags [OF assms]
    by (simp add: reasoning_inv.holds_def reasoningConsistent_def flagsOf_def)
  have "reasoningTextOf (sg_body s) = []" if "s \<in> set (rn_segments st)" for s
    using none that by (cases "sg_body s") (auto simp: hasReasoningSegments_def list_ex_iff isReasoning_def)
  then have "textBy reasoningTextOf (rn_segments st) = []" by (rule textBy_none)
  moreover have "shownBy isReasoningItemBody (projectSegmentToViewItems s st) = []" for s
    using True by (auto simp: item_defs shownBy_def shouldProjectReasoningSegment_def Let_def
        split: seg_body.split segment_status.split)
  then have "shownBy isReasoningItemBody (buildCopilotRunSegmentViewModel st) = textBy (\<lambda>_. []) (rn_segments st)"
    by (rule shown_view)
  ultimately show ?thesis by simp
next
  case False
  show ?thesis by (rule shown_view) (rule shown_reasoning_segment [OF False])
qed

section \<open>Properties\<close>

text \<open>
  C15: from the events to the screen. After any beginning of a valid stream whose text deltas are not empty, received by a run that has
  just been sent, the assistant items of the message list hold exactly the answer (the streamed text or, when nothing was streamed,
  the text of the completion), and the reasoning items hold all the reasoning or, when it is suppressed, none.
  (\<open>empty_delta_doubles_text\<close> shows what an empty delta does.)
\<close>

theorem shown_text:
  assumes "validPrefix (map snd nes)" and "noEmptyDelta (map snd nes)"
  shows "shownBy isAssistantItemBody (buildCopilotRunSegmentViewModel
           (runEvents (createStartingCopilotRunState threadId route options) nes)) = transcript (map snd nes) \<and>
         shownBy isReasoningItemBody (buildCopilotRunSegmentViewModel
           (runEvents (createStartingCopilotRunState threadId route options) nes)) =
           (if rn_reasoningSuppressed (runEvents (createStartingCopilotRunState threadId route options) nes) then []
            else streamText reasoningDelta (map snd nes))"
proof -
  have empty: "rn_segments (createStartingCopilotRunState threadId route options) = []"
    by (simp add: createStartingCopilotRunState_def createIdleCopilotRunState_def)
  have "reachable (runEvents (createStartingCopilotRunState threadId route options) nes)"
    by (intro reachable_runEvents reachable.starting)
  then show ?thesis
    using transcript_run.holds_after [OF assms(1) empty] reasoning_run.holds_after [OF assms(1) empty] assms(2)
    by (simp add: shown_assistant shown_reasoning saysTranscript_def saysReasoning_def)
qed

text \<open>
  The keys of the items are unique and in the order of the segments, so that the list can be rendered by
  key: they are some of the identifiers of the segments, in their order.
\<close>

theorem item_keys_unique:
  assumes "validPrefix (map snd nes)" and "rn_segments st = []"
  shows "distinct (map it_id (buildCopilotRunSegmentViewModel (runEvents st nes))) \<and>
    subseq (map it_id (buildCopilotRunSegmentViewModel (runEvents st nes))) (map sg_id (rn_segments (runEvents st nes)))"
proof -
  have "distinct (map sg_id (rn_segments (runEvents st nes)))"
    using ids_run.holds_after [OF assms] wellIds_distinct by (cases "nes = []") (auto simp: wellRun_def assms(2))
  then show ?thesis
    using view_subseq [of "runEvents st nes" "rn_segments (runEvents st nes)"] distinct_subseq
    unfolding buildCopilotRunSegmentViewModel_def by blast
qed

text \<open>
  The placeholder is shown exactly while the run is starting or streaming, has not ended and has given
  nothing to look at: every item it has given is a diagnostic.
\<close>

theorem placeholder_iff_nothing_to_see:
  "ph_shouldRender (resolveCopilotAssistantPlaceholderState st) \<longleftrightarrow>
     (rn_phase st = PhaseStarting \<or> rn_phase st = PhaseStreaming) \<and>
     \<not> list_ex isTerminal (rn_segments st) \<and>
     list_all (\<lambda>i. isDiagnosticBody (it_body i)) (buildCopilotRunSegmentViewModel st)"
proof -
  have one: "list_all (\<lambda>i. isDiagnosticBody (it_body i)) (projectSegmentToViewItems s st) \<longleftrightarrow>
      \<not> isRenderableAssistantSegment s \<and> (isReasoningSuppressedForRun st \<or> \<not> isReasoning s) \<and>
      \<not> isToolBody (sg_body s) \<and> \<not> isInlineFormBody (sg_body s)" if "\<not> isTerminal s" for s
    using that
    by (cases "sg_body s")
       (simp_all add: item_defs shouldProjectReasoningSegment_def isRenderableAssistantSegment_def isReasoning_def
         isTerminal_def Let_def)
  have "list_all (\<lambda>i. isDiagnosticBody (it_body i)) (concat (map (\<lambda>s. projectSegmentToViewItems s st) segs)) \<longleftrightarrow>
      \<not> list_ex isRenderableAssistantSegment segs \<and> (isReasoningSuppressedForRun st \<or> \<not> list_ex isReasoning segs) \<and>
      \<not> list_ex (\<lambda>s. isToolBody (sg_body s)) segs \<and> \<not> list_ex (\<lambda>s. isInlineFormBody (sg_body s)) segs"
    if "\<not> list_ex isTerminal segs" for segs
    using that by (induction segs) (auto simp: one)
  then show ?thesis
    by (auto simp: resolveCopilotAssistantPlaceholderState_def dismissed_def buildCopilotRunSegmentViewModel_def)
qed

text \<open>Only a live segment gives an item that is still streaming.\<close>

lemma streaming_item_live:
  "i \<in> set (projectSegmentToViewItems s st) \<Longrightarrow> it_status i = ItemStreaming \<Longrightarrow> isLive s"
  by (cases "sg_body s"; cases "sg_status s")
     (auto simp: item_defs isLive_def Let_def split: if_splits segment_status.splits)

lemma failed_item:
  "\<exists>i. projectSegmentToViewItems (buildFailedTerminalSegment r n f) st = [i] \<and> isTerminalItemBody (it_body i) \<and>
     it_content i = formatFailureMessage (Some f) \<and> it_status i = ItemFailed"
  by (simp add: buildFailedTerminalSegment_def terminalSegment_def item_defs Let_def buildFailureSummary_def
      formatFailureMessage_def)

lemma cancelled_item:
  "\<exists>i. projectSegmentToViewItems (buildCancelledTerminalSegment r n mid reason) st = [i] \<and> isTerminalItemBody (it_body i) \<and>
     it_content i = formatCancelledReason reason \<and> it_status i = ItemCancelled"
  by (simp add: buildCancelledTerminalSegment_def terminalSegment_def item_defs Let_def)

text \<open>A list of items that ends with the end of the run, with no item still streaming.\<close>

definition endsWithNotice :: "view_item list \<Rightarrow> string \<Rightarrow> item_status \<Rightarrow> bool" where
  "endsWithNotice items msg status \<longleftrightarrow>
     items \<noteq> [] \<and> isTerminalItemBody (it_body (last items)) \<and> it_content (last items) = msg \<and>
     it_status (last items) = status \<and> list_all (\<lambda>j. it_status j \<noteq> ItemStreaming) items"

lemma settled_view:
  assumes "settled st t" and "\<exists>i. projectSegmentToViewItems t st = [i] \<and> isTerminalItemBody (it_body i) \<and>
    it_content i = msg \<and> it_status i = status"
  shows "endsWithNotice (buildCopilotRunSegmentViewModel st) msg status"
proof -
  obtain segs where segs: "rn_segments st = segs @ [t]" using assms(1) by (auto simp: settled_def)
  have "list_all (\<lambda>j. it_status j \<noteq> ItemStreaming) (buildCopilotRunSegmentViewModel st)"
    using assms(1) streaming_item_live
    by (fastforce simp: settled_def buildCopilotRunSegmentViewModel_def list_all_iff)
  then show ?thesis
    using assms(2) by (auto simp: endsWithNotice_def buildCopilotRunSegmentViewModel_def segs)
qed

text \<open>
  After a failure or a cancellation the message list ends with an item that says so, with the message for
  the failure or the reason of the cancellation, and no item of the run is still streaming.
\<close>

theorem bad_end_shown:
  assumes "reachable st"
  shows "(\<forall>f. ev_payload e = RunFailed f \<and> fa_code f \<noteq> INLINE_FORM_AWAITING_INPUT_CODE \<longrightarrow>
            endsWithNotice (buildCopilotRunSegmentViewModel (applyRuntimeRunEventToCopilotRunState now st e))
              (formatFailureMessage (Some f)) ItemFailed) \<and>
         (\<forall>mid reason. ev_payload e = RunCancelled mid reason \<longrightarrow>
            endsWithNotice (buildCopilotRunSegmentViewModel (applyRuntimeRunEventToCopilotRunState now st e))
              (formatCancelledReason reason) ItemCancelled)"
  using settled_view [OF failed_settles [OF assms] failed_item] settled_view [OF cancelled_settles [OF assms] cancelled_item]
  by blast

section \<open>Witnesses\<close>

theorem shown_text_witness:
  "shownBy isAssistantItemBody (buildCopilotRunSegmentViewModel (runEvents sampleStart sampleRun)) = ''ab''"
  using conjunct1 [OF shown_text [OF sampleRun_valid(1,4), of "''s1''" sampleRoute "[]"]]
  by (simp add: sampleStart_def) (simp add: sampleRun_def evAt_def transcript_def streamText_def)

theorem item_keys_unique_witness:
  "distinct (map it_id (buildCopilotRunSegmentViewModel (runEvents sampleStart sampleRun)))"
  using item_keys_unique [OF sampleRun_valid(1,2)] by blast

theorem bad_end_shown_witness:
  "endsWithNotice (buildCopilotRunSegmentViewModel
     (applyRuntimeRunEventToCopilotRunState 9 (runEvents sampleStart sampleRun) (snd (evAt 9 (RunCancelled ''m1'' ''stop'')))))
     (formatCancelledReason ''stop'') ItemCancelled"
  using bad_end_shown [OF reachable_runEvents [OF sampleStart_reachable],
    of "snd (evAt 9 (RunCancelled ''m1'' ''stop''))" 9 sampleRun]
  by (simp add: evAt_def)

end
