(* ===== verification/Thinking_Display.thy ===== *)
theory Thinking_Display
  imports Js_Text Thinking_Clone
begin

text \<open>
  The thinking controls: \<open>src/workbench/thinking-display.ts\<close>. The budget slider maps its position, from 0 to 100, to a number
  of tokens through five anchors, and back. Positions are rational numbers: the rounding of doubles, far below the half
  token that \<open>Math.round\<close> absorbs, is outside the model.
\<close>

section \<open>Constants and rounding\<close>

text \<open>\<open>Math.round\<close> rounds a half up.\<close>

definition jsRound :: "rat \<Rightarrow> int" where
  "jsRound x = \<lfloor>x + 1 / 2\<rfloor>"

definition jsTrunc :: "rat \<Rightarrow> int" where
  "jsTrunc x = (if x < 0 then \<lceil>x\<rceil> else \<lfloor>x\<rfloor>)"

definition THINKING_BUDGET_FIXED_ANCHOR_TOKENS :: "int list" where
  "THINKING_BUDGET_FIXED_ANCHOR_TOKENS = [0, 4096, 32768, 131072, 1048576]"

definition THINKING_BUDGET_FIXED_ANCHOR_PROGRESS :: "rat list" where
  "THINKING_BUDGET_FIXED_ANCHOR_PROGRESS = [0, 25, 50, 75, 100]"

definition THINKING_BUDGET_DEFAULT_MIN_TOKENS :: int where
  "THINKING_BUDGET_DEFAULT_MIN_TOKENS = 0"

definition THINKING_BUDGET_DEFAULT_MAX_TOKENS :: int where
  "THINKING_BUDGET_DEFAULT_MAX_TOKENS = 1048576"

definition THINKING_BUDGET_DEFAULT_STEP_TOKENS :: int where
  "THINKING_BUDGET_DEFAULT_STEP_TOKENS = 1024"

definition THINKING_BUDGET_DEFAULT_SELECTION_TOKENS :: int where
  "THINKING_BUDGET_DEFAULT_SELECTION_TOKENS = 32768"

definition THINKING_BUDGET_PROGRESS_SNAP_DISTANCE :: rat where
  "THINKING_BUDGET_PROGRESS_SNAP_DISTANCE = 3 / 2"

named_theorems budget_defs \<open>the constants of the budget slider\<close>

declare THINKING_BUDGET_FIXED_ANCHOR_TOKENS_def [budget_defs] THINKING_BUDGET_FIXED_ANCHOR_PROGRESS_def [budget_defs]
  THINKING_BUDGET_DEFAULT_MIN_TOKENS_def [budget_defs] THINKING_BUDGET_DEFAULT_MAX_TOKENS_def [budget_defs]
  THINKING_BUDGET_DEFAULT_STEP_TOKENS_def [budget_defs] THINKING_BUDGET_DEFAULT_SELECTION_TOKENS_def [budget_defs]
  THINKING_BUDGET_PROGRESS_SNAP_DISTANCE_def [budget_defs]

section \<open>The budget slider\<close>

text \<open>\<open>None\<close> is a number that is not finite.\<close>

definition clampThinkingBudgetTokens :: "rat option \<Rightarrow> int" where
  "clampThinkingBudgetTokens v =
     (case v of
        None \<Rightarrow> THINKING_BUDGET_DEFAULT_SELECTION_TOKENS
      | Some x \<Rightarrow> min THINKING_BUDGET_DEFAULT_MAX_TOKENS (max THINKING_BUDGET_DEFAULT_MIN_TOKENS (jsTrunc x)))"

text \<open>The tokens of a position between the anchors \<open>i\<close> and \<open>i + 1\<close>, which are 25 apart.\<close>

definition tokensBetween :: "nat \<Rightarrow> rat \<Rightarrow> rat" where
  "tokensBetween i p =
     of_int (THINKING_BUDGET_FIXED_ANCHOR_TOKENS ! i) +
     (p - 25 * of_nat i) / 25 *
       of_int (THINKING_BUDGET_FIXED_ANCHOR_TOKENS ! Suc i - THINKING_BUDGET_FIXED_ANCHOR_TOKENS ! i)"

definition snappedAnchor :: "rat \<Rightarrow> int option" where
  "snappedAnchor p =
     map_option snd (find (\<lambda>(a, t). \<bar>p - a\<bar> < THINKING_BUDGET_PROGRESS_SNAP_DISTANCE)
       (zip THINKING_BUDGET_FIXED_ANCHOR_PROGRESS THINKING_BUDGET_FIXED_ANCHOR_TOKENS))"

definition getThinkingBudgetTokensFromProgress :: "rat \<Rightarrow> int" where
  "getThinkingBudgetTokensFromProgress progress =
     (let p = min 100 (max 0 progress) in
      case snappedAnchor p of
        Some t \<Rightarrow> t
      | None \<Rightarrow>
          if p \<le> 25 then jsRound (tokensBetween 0 p)
          else if p \<le> 50 then jsRound (tokensBetween 1 p)
          else if p \<le> 75 then jsRound (tokensBetween 2 p)
          else jsRound (tokensBetween 3 p))"

definition progressBetween :: "nat \<Rightarrow> int \<Rightarrow> rat" where
  "progressBetween i t =
     25 * of_nat i +
     of_int (t - THINKING_BUDGET_FIXED_ANCHOR_TOKENS ! i) /
       of_int (THINKING_BUDGET_FIXED_ANCHOR_TOKENS ! Suc i - THINKING_BUDGET_FIXED_ANCHOR_TOKENS ! i) * 25"

definition getThinkingBudgetProgressFromTokens :: "rat option \<Rightarrow> rat" where
  "getThinkingBudgetProgressFromTokens tokens =
     (let t = clampThinkingBudgetTokens tokens in
      if t \<le> THINKING_BUDGET_FIXED_ANCHOR_TOKENS ! 1 then progressBetween 0 t
      else if t \<le> THINKING_BUDGET_FIXED_ANCHOR_TOKENS ! 2 then progressBetween 1 t
      else if t \<le> THINKING_BUDGET_FIXED_ANCHOR_TOKENS ! 3 then progressBetween 2 t
      else progressBetween 3 t)"

section \<open>Templates and labels\<close>

record budget_template =
  bt_minTokens :: int
  bt_maxTokens :: int
  bt_stepTokens :: int
  bt_anchorTokens :: "int list"

record budget_overrides =
  bo_minTokens :: "int option"
  bo_maxTokens :: "int option"
  bo_stepTokens :: "int option"
  bo_anchorTokens :: "int list option"

definition normalizeThinkingBudgetAnchorTokens :: "int list option \<Rightarrow> int list" where
  "normalizeThinkingBudgetAnchorTokens anchorTokens = THINKING_BUDGET_FIXED_ANCHOR_TOKENS"

definition buildThinkingBudgetTemplate :: "budget_overrides \<Rightarrow> budget_template" where
  "buildThinkingBudgetTemplate o' =
     \<lparr>bt_minTokens = (case bo_minTokens o' of None \<Rightarrow> THINKING_BUDGET_DEFAULT_MIN_TOKENS | Some n \<Rightarrow> n),
      bt_maxTokens = (case bo_maxTokens o' of None \<Rightarrow> THINKING_BUDGET_DEFAULT_MAX_TOKENS | Some n \<Rightarrow> n),
      bt_stepTokens = (case bo_stepTokens o' of None \<Rightarrow> THINKING_BUDGET_DEFAULT_STEP_TOKENS | Some n \<Rightarrow> n),
      bt_anchorTokens = normalizeThinkingBudgetAnchorTokens (bo_anchorTokens o')\<rparr>"

fun valueLabel :: "thinking_value \<Rightarrow> string" where
  "valueLabel (CodeValue code labelZh) = labelZh"
| "valueLabel (BudgetValue m tokens labelZh) = labelZh"
| "valueLabel (FixedValue labelZh) = labelZh"

definition resolveThinkingValueLabel :: "thinking_value option \<Rightarrow> string option" where
  "resolveThinkingValueLabel v =
     (case v of
        None \<Rightarrow> None
      | Some (BudgetValue ModeBudget (Some n) labelZh) \<Rightarrow> Some (formatThinkingTokenCount n)
      | Some x \<Rightarrow> Some (valueLabel x))"

fun hasCode :: "string \<Rightarrow> thinking_value \<Rightarrow> bool" where
  "hasCode c (CodeValue code labelZh) = (code = c)"
| "hasCode c (BudgetValue m tokens labelZh) = False"
| "hasCode c (FixedValue labelZh) = False"

text \<open>The list may be \<open>null\<close> in the code; the callers of the model pass one.\<close>

definition findThinkingCodeValue :: "thinking_value list \<Rightarrow> string option \<Rightarrow> thinking_value option" where
  "findThinkingCodeValue values code =
     (case code of
        None \<Rightarrow> None
      | Some c \<Rightarrow>
          if trim c = [] then None
          else (let normalizedCode = toLowerCase (trim c) in
            case find (hasCode normalizedCode) values of
              Some v \<Rightarrow> Some v
            | None \<Rightarrow>
                if normalizedCode = ''off'' \<or> normalizedCode = ''disabled'' then find (hasCode ''none'') values
                else None))"

definition isThinkingCodeDisabled :: "string \<Rightarrow> bool" where
  "isThinkingCodeDisabled code \<longleftrightarrow>
     (let normalized = toLowerCase (trim code) in
      normalized = ''off'' \<or> normalized = ''none'' \<or> normalized = ''disabled'' \<or> normalized = ''false'')"

fun isThinkingValueActive :: "thinking_value option \<Rightarrow> bool" where
  "isThinkingValueActive None = False"
| "isThinkingValueActive (Some (FixedValue labelZh)) = True"
| "isThinkingValueActive (Some (BudgetValue m tokens labelZh)) = (m \<noteq> ModeOff)"
| "isThinkingValueActive (Some (CodeValue code labelZh)) = (\<not> isThinkingCodeDisabled code)"

section \<open>The slider and its inverse\<close>

lemma jsRound_mono: "x \<le> y \<Longrightarrow> jsRound x \<le> jsRound y"
  by (simp add: jsRound_def floor_mono)

lemma jsRound_of_int [simp]: "jsRound (of_int n) = n"
  unfolding jsRound_def by linarith

lemma jsTrunc_of_int [simp]: "jsTrunc (of_int n) = n"
  unfolding jsTrunc_def by (simp only: floor_of_int ceiling_of_int if_cancel)

lemma jsRound_ge: "of_int n \<le> x \<Longrightarrow> n \<le> jsRound x"
  using jsRound_mono [of "of_int n" x] by simp

lemma jsRound_le: "x \<le> of_int n \<Longrightarrow> jsRound x \<le> n"
  using jsRound_mono [of x "of_int n"] by simp

text \<open>The line through the anchors.\<close>

definition anchorLine :: "rat \<Rightarrow> rat" where
  "anchorLine p =
     (if p \<le> 25 then tokensBetween 0 p else if p \<le> 50 then tokensBetween 1 p
      else if p \<le> 75 then tokensBetween 2 p else tokensBetween 3 p)"

lemma anchorLine_mono: "p \<le> q \<Longrightarrow> anchorLine p \<le> anchorLine q"
  by (auto simp: anchorLine_def tokensBetween_def budget_defs field_simps)

lemma anchor_points [simp]:
  "anchorLine 0 = 0" "anchorLine 25 = 4096" "anchorLine 50 = 32768" "anchorLine 75 = 131072" "anchorLine 100 = 1048576"
  by (simp_all add: anchorLine_def tokensBetween_def budget_defs)

lemma tokens_line:
  "getThinkingBudgetTokensFromProgress progress =
     (let p = min 100 (max 0 progress) in
      case snappedAnchor p of Some t \<Rightarrow> t | None \<Rightarrow> jsRound (anchorLine p))"
  unfolding getThinkingBudgetTokensFromProgress_def anchorLine_def Let_def
  by (simp only: if_distrib [of jsRound])

lemma snappedAnchor_cases:
  "snappedAnchor p =
     (if \<bar>p\<bar> < 3 / 2 then Some 0 else if \<bar>p - 25\<bar> < 3 / 2 then Some 4096 else if \<bar>p - 50\<bar> < 3 / 2 then Some 32768
      else if \<bar>p - 75\<bar> < 3 / 2 then Some 131072 else if \<bar>p - 100\<bar> < 3 / 2 then Some 1048576 else None)"
  by (simp add: snappedAnchor_def budget_defs)

text \<open>A snapped position has the tokens of its anchor, which lies on the line.\<close>

definition isAnchor :: "rat \<Rightarrow> bool" where
  "isAnchor a \<longleftrightarrow> a = 0 \<or> a = 25 \<or> a = 50 \<or> a = 75 \<or> a = 100"

lemma snapped_on_line:
  assumes "snappedAnchor p = Some t"
  obtains a where "isAnchor a" and "of_int t = anchorLine a" and "\<bar>p - a\<bar> < 3 / 2"
proof -
  have "of_int t = anchorLine 0 \<and> \<bar>p - 0\<bar> < 3 / 2 \<or> of_int t = anchorLine 25 \<and> \<bar>p - 25\<bar> < 3 / 2 \<or>
      of_int t = anchorLine 50 \<and> \<bar>p - 50\<bar> < 3 / 2 \<or> of_int t = anchorLine 75 \<and> \<bar>p - 75\<bar> < 3 / 2 \<or>
      of_int t = anchorLine 100 \<and> \<bar>p - 100\<bar> < 3 / 2"
    using assms by (simp add: snappedAnchor_cases split: if_splits; fastforce)
  then show ?thesis using that unfolding isAnchor_def by blast
qed

lemma not_snapped: "snappedAnchor p = None \<Longrightarrow> isAnchor a \<Longrightarrow> 3 / 2 \<le> \<bar>p - a\<bar>"
  by (simp add: snappedAnchor_cases isAnchor_def not_less split: if_splits; elim disjE; simp)

lemma snap_order: "isAnchor a \<Longrightarrow> isAnchor b \<Longrightarrow> \<bar>p - a\<bar> < 3 / 2 \<Longrightarrow> \<bar>q - b\<bar> < 3 / 2 \<Longrightarrow> p \<le> q \<Longrightarrow> a \<le> b"
  unfolding isAnchor_def by (elim disjE; simp)

text \<open>Tokens of a position that has been limited to the slider.\<close>

definition tokensAt :: "rat \<Rightarrow> int" where
  "tokensAt p = (case snappedAnchor p of Some t \<Rightarrow> t | None \<Rightarrow> jsRound (anchorLine p))"

lemma tokensAt_mono:
  assumes "p \<le> q" shows "tokensAt p \<le> tokensAt q"
proof (cases "snappedAnchor p")
  case None
  show ?thesis
  proof (cases "snappedAnchor q")
    case (Some t)
    then obtain b where b: "isAnchor b" "of_int t = anchorLine b" "\<bar>q - b\<bar> < 3 / 2" by (rule snapped_on_line)
    have "p \<le> b" using not_snapped [OF None b(1)] b(3) assms by linarith
    then have "anchorLine p \<le> of_int t" using b(2) anchorLine_mono by simp
    then show ?thesis using None Some by (simp add: tokensAt_def jsRound_le)
  qed (use None assms in \<open>simp add: tokensAt_def jsRound_mono anchorLine_mono\<close>)
next
  case (Some s)
  then obtain a where a: "isAnchor a" "of_int s = anchorLine a" "\<bar>p - a\<bar> < 3 / 2" by (rule snapped_on_line)
  show ?thesis
  proof (cases "snappedAnchor q")
    case None
    have "a \<le> q" using not_snapped [OF None a(1)] a(3) assms by linarith
    then have "of_int s \<le> anchorLine q" using a(2) anchorLine_mono by simp
    then show ?thesis using None Some by (simp add: tokensAt_def jsRound_ge)
  next
    case q: (Some t)
    then obtain b where b: "isAnchor b" "of_int t = anchorLine b" "\<bar>q - b\<bar> < 3 / 2" by (rule snapped_on_line)
    have "a \<le> b" using snap_order a b assms by blast
    then have "(of_int s :: rat) \<le> of_int t" using a(2) b(2) anchorLine_mono by simp
    then show ?thesis using Some q by (simp add: tokensAt_def)
  qed
qed

lemma tokens_tokensAt: "getThinkingBudgetTokensFromProgress p = tokensAt (min 100 (max 0 p))"
  by (simp add: tokens_line tokensAt_def Let_def)

text \<open>The way back: the line takes the position of some tokens to these tokens.\<close>

lemma anchorLine_progress:
  assumes "0 \<le> t" and "t \<le> 1048576"
  shows "anchorLine (getThinkingBudgetProgressFromTokens (Some (of_int t))) = of_int t"
    and "0 \<le> getThinkingBudgetProgressFromTokens (Some (of_int t))"
    and "getThinkingBudgetProgressFromTokens (Some (of_int t)) \<le> 100"
proof -
  have "(of_int t :: rat) \<le> of_int 1048576" using assms(2) by (simp only: of_int_le_iff)
  then have clamp: "clampThinkingBudgetTokens (Some (of_int t)) = t" and top: "(of_int t :: rat) \<le> 1048576"
    using assms by (simp_all add: clampThinkingBudgetTokens_def budget_defs)
  have iff: "t \<le> 4096 \<longleftrightarrow> (of_int t :: rat) \<le> 4096" "t \<le> 32768 \<longleftrightarrow> (of_int t :: rat) \<le> 32768"
    "t \<le> 131072 \<longleftrightarrow> (of_int t :: rat) \<le> 131072" by simp_all
  have low: "(0 :: rat) \<le> of_int t" using assms by simp
  show "anchorLine (getThinkingBudgetProgressFromTokens (Some (of_int t))) = of_int t"
    using low top unfolding getThinkingBudgetProgressFromTokens_def clamp Let_def anchorLine_def
    by (simp add: tokensBetween_def progressBetween_def budget_defs iff field_simps del: of_int_le_numeral_iff)
  show "0 \<le> getThinkingBudgetProgressFromTokens (Some (of_int t))"
    "getThinkingBudgetProgressFromTokens (Some (of_int t)) \<le> 100"
    using low top unfolding getThinkingBudgetProgressFromTokens_def clamp Let_def
    by (simp_all add: progressBetween_def budget_defs iff field_simps del: of_int_le_numeral_iff)
qed

text \<open>
  C21: the budget slider gives tokens between 0 and 1048576 for every position, never fewer for a position further right, and
  its inverse gives a position on the slider which leads back to the same tokens, or to the anchor the position is close to.
\<close>

theorem slider_bounds_and_inverse:
  "0 \<le> getThinkingBudgetTokensFromProgress p \<and> getThinkingBudgetTokensFromProgress p \<le> 1048576 \<and>
   (p \<le> q \<longrightarrow> getThinkingBudgetTokensFromProgress p \<le> getThinkingBudgetTokensFromProgress q) \<and>
   (0 \<le> t \<and> t \<le> 1048576 \<longrightarrow>
      (let position = getThinkingBudgetProgressFromTokens (Some (of_int t)) in
       0 \<le> position \<and> position \<le> 100 \<and>
       getThinkingBudgetTokensFromProgress position = (case snappedAnchor position of Some a \<Rightarrow> a | None \<Rightarrow> t)))"
proof (intro conjI impI)
  have ends: "tokensAt 0 = 0" "tokensAt 100 = 1048576" by (simp_all add: tokensAt_def snappedAnchor_cases)
  show "0 \<le> getThinkingBudgetTokensFromProgress p"
    using tokensAt_mono [of 0 "min 100 (max 0 p)"] ends by (simp add: tokens_tokensAt)
  show "getThinkingBudgetTokensFromProgress p \<le> 1048576"
    using tokensAt_mono [of "min 100 (max 0 p)" 100] ends by (simp add: tokens_tokensAt)
next
  assume "p \<le> q"
  then show "getThinkingBudgetTokensFromProgress p \<le> getThinkingBudgetTokensFromProgress q"
    unfolding tokens_tokensAt by (intro tokensAt_mono) auto
next
  assume "0 \<le> t \<and> t \<le> 1048576"
  then show "let position = getThinkingBudgetProgressFromTokens (Some (of_int t)) in
      0 \<le> position \<and> position \<le> 100 \<and>
      getThinkingBudgetTokensFromProgress position = (case snappedAnchor position of Some a \<Rightarrow> a | None \<Rightarrow> t)"
    using anchorLine_progress [of t] by (simp add: Let_def tokens_tokensAt tokensAt_def split: option.split)
qed

text \<open>200000 tokens are not close to an anchor and come back; 4000 tokens snap to the anchor at 4096.\<close>

theorem slider_bounds_and_inverse_witness:
  "getThinkingBudgetTokensFromProgress (getThinkingBudgetProgressFromTokens (Some 200000)) = 200000 \<and>
   getThinkingBudgetTokensFromProgress 10 \<le> getThinkingBudgetTokensFromProgress 20"
proof -
  have "snappedAnchor (getThinkingBudgetProgressFromTokens (Some 200000)) = None" by code_simp
  then show ?thesis
    using slider_bounds_and_inverse [of 10 20 200000] by (simp add: Let_def)
qed

end
