(* ===== verification/Settings_Policy.thy ===== *)
theory Settings_Policy
  imports Js_Text Thinking_Display Wire_Laws
begin

text \<open>
  The tool permission policy of the settings: the part of \<open>electron/settings-workspace/state-schema.ts\<close> that reads it from the
  stored document, with \<open>electron/settings-workspace/normalize.ts\<close>. The document is whatever \<open>JSON.parse\<close> gave, so that
  every function here is total. A mode is kept as a string, since \<open>normalizeToolPermissionPolicyMode\<close> returns the
  text as it was stored.
\<close>

section \<open>Normalisation of primitive values\<close>

text \<open>
  \<open>asRecord\<close> of \<open>normalize.ts\<close> lets arrays through, whose own properties are their elements; everything else that is
  not an object becomes the empty object.
\<close>

fun asRecordS :: "json option \<Rightarrow> jrecord" where
  "asRecordS (Some (JObj r)) = r"
| "asRecordS (Some (JArr xs)) = map (\<lambda>(i, x). (natString i, x)) (enumerate 0 xs)"
| "asRecordS _ = []"

fun normalizeString :: "json option \<Rightarrow> string \<Rightarrow> string" where
  "normalizeString (Some (JStr s)) fallback = trim s"
| "normalizeString _ fallback = trim fallback"

definition normalizeNonEmptyString :: "json option \<Rightarrow> string \<Rightarrow> string" where
  "normalizeNonEmptyString v fallback =
     (let normalized = normalizeString v fallback in if normalized = [] then fallback else normalized)"

fun normalizeBoolean :: "json option \<Rightarrow> bool \<Rightarrow> bool" where
  "normalizeBoolean (Some (JBool b)) fallback = b"
| "normalizeBoolean _ fallback = fallback"

text \<open>\<open>Object.fromEntries(entries)\<close>\<close>

definition fromEntries :: "(string \<times> 'a) list \<Rightarrow> (string \<times> 'a) list" where
  "fromEntries entries = fold (\<lambda>(k, v). AList.update k v) entries []"

text \<open>\<open>input as T\<close> of a value whose text was found among the literals\<close>

fun rawText :: "json option \<Rightarrow> string" where
  "rawText (Some (JStr s)) = s"
| "rawText _ = []"

definition literalAsStored :: "string list \<Rightarrow> json option \<Rightarrow> string option" where
  "literalAsStored literals v = (if normalizeNonEmptyString v [] \<in> set literals then Some (rawText v) else None)"

section \<open>Policies\<close>

record policy_entry =
  pe_mode :: string
  pe_timeoutAction :: "string option"
  pe_timeoutSeconds :: "int option"
  pe_source :: "string option"
  pe_updatedAt :: "string option"

record policy_state =
  pp_version :: int
  pp_migrationSourceMode :: "string option"
  pp_defaultMode :: string
  pp_toolPermissions :: "(string \<times> policy_entry) list"

definition legacyModes :: "string list" where
  "legacyModes = [''manual'', ''trusted'', ''strict'']"

definition policyModes :: "string list" where
  "policyModes = [''allow'', ''ask'', ''deny'', ''delay'']"

definition normalizeLegacyToolPermissionModeOptional :: "json option \<Rightarrow> string option" where
  "normalizeLegacyToolPermissionModeOptional v = literalAsStored legacyModes v"

definition normalizeLegacyToolPermissionMode :: "json option \<Rightarrow> string" where
  "normalizeLegacyToolPermissionMode v =
     (case normalizeLegacyToolPermissionModeOptional v of None \<Rightarrow> ''manual'' | Some m \<Rightarrow> m)"

definition normalizeToolPermissionPolicyMode :: "json option \<Rightarrow> string option" where
  "normalizeToolPermissionPolicyMode v = literalAsStored policyModes v"

definition normalizeToolPermissionTimeoutAction :: "json option \<Rightarrow> string option" where
  "normalizeToolPermissionTimeoutAction v = literalAsStored [''approve'', ''deny''] v"

fun normalizeToolPermissionTimeoutSeconds :: "json option \<Rightarrow> int option" where
  "normalizeToolPermissionTimeoutSeconds (Some (JNum q)) = (if 0 < jsTrunc q then Some (jsTrunc q) else None)"
| "normalizeToolPermissionTimeoutSeconds _ = None"

definition normalizeToolPermissionPolicySource :: "json option \<Rightarrow> string option" where
  "normalizeToolPermissionPolicySource v = literalAsStored [''user'', ''migrated''] v"

definition migrateLegacyToolPermissionMode :: "string \<Rightarrow> string" where
  "migrateLegacyToolPermissionMode mode =
     (if mode = ''trusted'' then ''allow'' else if mode = ''strict'' then ''deny'' else ''ask'')"

definition legacyModeToStoredValue :: "string \<Rightarrow> string" where
  "legacyModeToStoredValue mode =
     (if mode = ''allow'' then ''trusted''
      else if mode = ''deny'' \<or> mode = ''delay'' then ''strict''
      else ''manual'')"

definition createDefaultToolPermissionPolicyState :: "string \<Rightarrow> policy_state" where
  "createDefaultToolPermissionPolicyState defaultMode =
     \<lparr>pp_version = 1, pp_migrationSourceMode = None, pp_defaultMode = defaultMode, pp_toolPermissions = []\<rparr>"

definition normalizeToolPermissionPolicyEntry :: "json \<Rightarrow> policy_entry option" where
  "normalizeToolPermissionPolicyEntry rawEntry =
     (let r = asRecordS (Some rawEntry) in
      case normalizeToolPermissionPolicyMode (prop_of r ''mode'') of
        None \<Rightarrow> None
      | Some mode \<Rightarrow>
          (let updatedAt = normalizeNonEmptyString (prop_of r ''updatedAt'') [] in
           Some \<lparr>pe_mode = mode,
                 pe_timeoutAction = normalizeToolPermissionTimeoutAction (prop_of r ''timeoutAction''),
                 pe_timeoutSeconds = normalizeToolPermissionTimeoutSeconds (prop_of r ''timeoutSeconds''),
                 pe_source = normalizeToolPermissionPolicySource (prop_of r ''source''),
                 pe_updatedAt = (if updatedAt = [] then None else Some updatedAt)\<rparr>))"

definition normalizeToolPermissionPolicyEntries :: "json option \<Rightarrow> (string \<times> policy_entry) list" where
  "normalizeToolPermissionPolicyEntries v =
     fromEntries (concat (map (\<lambda>(toolId, rawEntry).
       case normalizeToolPermissionPolicyEntry rawEntry of None \<Rightarrow> [] | Some e \<Rightarrow> [(toolId, e)]) (asRecordS v)))"

definition normalizeToolPermissionPolicyState :: "json option \<Rightarrow> string \<Rightarrow> policy_state" where
  "normalizeToolPermissionPolicyState v legacyMode =
     (let r = asRecordS v;
          version1 = (prop_of r ''version'' = Some (JNum 1));
          migrated =
            \<lparr>pp_version = 1, pp_migrationSourceMode = Some legacyMode,
             pp_defaultMode = migrateLegacyToolPermissionMode legacyMode, pp_toolPermissions = []\<rparr>
      in case normalizeToolPermissionPolicyMode (prop_of r ''defaultMode'') of
           None \<Rightarrow> migrated
         | Some defaultMode \<Rightarrow>
             if version1 then
               \<lparr>pp_version = 1,
                pp_migrationSourceMode = normalizeLegacyToolPermissionModeOptional (prop_of r ''migrationSourceMode''),
                pp_defaultMode = defaultMode,
                pp_toolPermissions = normalizeToolPermissionPolicyEntries (prop_of r ''toolPermissions'')\<rparr>
             else migrated)"

definition cloneToolPermissionPolicyState :: "policy_state \<Rightarrow> policy_state" where
  "cloneToolPermissionPolicyState p =
     \<lparr>pp_version = pp_version p, pp_migrationSourceMode = pp_migrationSourceMode p, pp_defaultMode = pp_defaultMode p,
      pp_toolPermissions = fromEntries (map (\<lambda>(toolId, e). (toolId, e)) (pp_toolPermissions p))\<rparr>"

record mcp_settings =
  ms_mcpAutoDiscoveryEnabled :: bool
  ms_toolPermissionMode :: string
  ms_toolPermissionPolicy :: policy_state

definition defaultMcpSettings :: mcp_settings where
  "defaultMcpSettings =
     \<lparr>ms_mcpAutoDiscoveryEnabled = True, ms_toolPermissionMode = ''manual'',
      ms_toolPermissionPolicy = (createDefaultToolPermissionPolicyState ''ask'')\<lparr>pp_migrationSourceMode := Some ''manual''\<rparr>\<rparr>"

definition normalizeMcpState :: "json option \<Rightarrow> mcp_settings \<Rightarrow> mcp_settings" where
  "normalizeMcpState v defaults =
     (let r = asRecordS v;
          legacyMode = normalizeLegacyToolPermissionMode (prop_of r ''toolPermissionMode'');
          policy = normalizeToolPermissionPolicyState (prop_of r ''toolPermissionPolicy'') legacyMode
      in \<lparr>ms_mcpAutoDiscoveryEnabled = normalizeBoolean (prop_of r ''mcpAutoDiscoveryEnabled'') (ms_mcpAutoDiscoveryEnabled defaults),
          ms_toolPermissionMode = legacyModeToStoredValue (pp_defaultMode policy),
          ms_toolPermissionPolicy = policy\<rparr>)"

section \<open>Which policies the reader can return\<close>

lemma fromEntries_keys_distinct [simp]: "distinct (map fst (fromEntries entries))"
proof -
  have "distinct (map fst (fold (\<lambda>(k, v). AList.update k v) entries m))" if "distinct (map fst m)" for m
    using that by (induction entries arbitrary: m) (auto simp: distinct_update)
  then show ?thesis by (simp add: fromEntries_def)
qed

lemma fromEntries_id: "distinct (map fst entries) \<Longrightarrow> fromEntries entries = entries"
proof -
  have new: "k \<notin> set (map fst m) \<Longrightarrow> AList.update k v m = m @ [(k, v)]" for k :: string and v :: 'a and m
    by (induction m) auto
  have "distinct (map fst (m @ entries)) \<Longrightarrow> fold (\<lambda>(k, v). AList.update k v) entries m = m @ entries" for m
    by (induction entries arbitrary: m) (auto simp: new)
  then show "distinct (map fst entries) \<Longrightarrow> fromEntries entries = entries" by (simp add: fromEntries_def)
qed

lemma fromEntries_subset: "set (fromEntries entries) \<subseteq> set entries"
proof -
  have "set (AList.update k v m) \<subseteq> insert (k, v) (set m)" for k :: string and v :: 'a and m
    by (induction m) auto
  then have "set (fold (\<lambda>(k, v). AList.update k v) entries m) \<subseteq> set entries \<union> set m" for m
    by (induction entries arbitrary: m) (fastforce, fastforce)
  then show ?thesis by (force simp: fromEntries_def)
qed

text \<open>A text whose trimmed form is one of the literals.\<close>

definition storedLiteral :: "string list \<Rightarrow> string \<Rightarrow> bool" where
  "storedLiteral literals s \<longleftrightarrow> trim s \<in> set literals"

definition policyEntryOk :: "policy_entry \<Rightarrow> bool" where
  "policyEntryOk e \<longleftrightarrow>
     storedLiteral policyModes (pe_mode e) \<and> okOption (storedLiteral [''approve'', ''deny'']) (pe_timeoutAction e) \<and>
     okOption (\<lambda>n. 0 < n) (pe_timeoutSeconds e) \<and> okOption (storedLiteral [''user'', ''migrated'']) (pe_source e) \<and>
     okOption trimmed (pe_updatedAt e)"

definition policyOk :: "policy_state \<Rightarrow> bool" where
  "policyOk p \<longleftrightarrow>
     pp_version p = 1 \<and> okOption (storedLiteral legacyModes) (pp_migrationSourceMode p) \<and>
     storedLiteral policyModes (pp_defaultMode p) \<and> distinct (map fst (pp_toolPermissions p)) \<and>
     list_all (\<lambda>(toolId, e). policyEntryOk e) (pp_toolPermissions p)"

definition policyEntryJson :: "policy_entry \<Rightarrow> json" where
  "policyEntryJson e = JObj
     ((''mode'', JStr (pe_mode e)) # optProp ''timeoutAction'' JStr (pe_timeoutAction e) @
      optProp ''timeoutSeconds'' (\<lambda>n. JNum (of_int n)) (pe_timeoutSeconds e) @ optProp ''source'' JStr (pe_source e) @
      optProp ''updatedAt'' JStr (pe_updatedAt e))"

definition policyJson :: "policy_state \<Rightarrow> json" where
  "policyJson p = JObj
     ([(''version'', JNum (of_int (pp_version p))), (''defaultMode'', JStr (pp_defaultMode p)),
       (''toolPermissions'', JObj (map (\<lambda>(toolId, e). (toolId, policyEntryJson e)) (pp_toolPermissions p)))] @
      optProp ''migrationSourceMode'' JStr (pp_migrationSourceMode p))"

lemma normalizeNonEmptyString_Nil: "normalizeNonEmptyString v [] = normalizeString v []"
  by (simp add: normalizeNonEmptyString_def Let_def)

lemma normalizeString_raw: "normalizeString v [] = trim (rawText v)"
  by (cases v rule: rawText.cases) auto

lemma literalAsStored_iff:
  "literalAsStored literals v = Some s \<longleftrightarrow> s = rawText v \<and> storedLiteral literals s"
  by (auto simp: literalAsStored_def storedLiteral_def normalizeNonEmptyString_Nil normalizeString_raw)

lemma literalAsStored_read [simp]: "storedLiteral literals s \<Longrightarrow> literalAsStored literals (Some (JStr s)) = Some s"
  by (simp add: literalAsStored_iff)

lemma literalAsStored_ok: "okOption (storedLiteral literals) (literalAsStored literals v)"
  by (auto simp: okOption_iff literalAsStored_iff)

lemma literalAsStored_opt [simp]:
  "[] \<notin> set literals \<Longrightarrow> okOption (storedLiteral literals) s \<Longrightarrow> literalAsStored literals (map_option JStr s) = s"
  by (cases s) (auto simp: literalAsStored_def normalizeNonEmptyString_Nil storedLiteral_def)

lemma updatedAt_read:
  "okOption trimmed s \<Longrightarrow>
   (if normalizeNonEmptyString (map_option JStr s) [] = [] then None
    else Some (normalizeNonEmptyString (map_option JStr s) [])) = s"
  by (cases s) (auto simp: normalizeNonEmptyString_def trimmed_def)

lemma timeoutSeconds_ok: "okOption (\<lambda>n. 0 < n) (normalizeToolPermissionTimeoutSeconds v)"
  by (cases v rule: normalizeToolPermissionTimeoutSeconds.cases) auto

lemma timeoutSeconds_read [simp]:
  "okOption (\<lambda>n. 0 < n) s \<Longrightarrow> normalizeToolPermissionTimeoutSeconds (map_option (\<lambda>n. JNum (of_int n)) s) = s"
  by (cases s) auto

lemma entry_ok: "normalizeToolPermissionPolicyEntry v = Some e \<Longrightarrow> policyEntryOk e"
  by (auto simp: normalizeToolPermissionPolicyEntry_def Let_def policyEntryOk_def normalizeToolPermissionPolicyMode_def
      literalAsStored_iff normalizeToolPermissionTimeoutAction_def normalizeToolPermissionPolicySource_def literalAsStored_ok
      timeoutSeconds_ok normalizeNonEmptyString_Nil normalizeString_raw trimmed_trim split: option.splits)

lemma entry_read: "policyEntryOk e \<Longrightarrow> normalizeToolPermissionPolicyEntry (policyEntryJson e) = Some e"
  by (simp add: normalizeToolPermissionPolicyEntry_def policyEntryOk_def policyEntryJson_def Let_def updatedAt_read
      normalizeToolPermissionPolicyMode_def normalizeToolPermissionTimeoutAction_def normalizeToolPermissionPolicySource_def)

lemma entries_ok: "list_all (\<lambda>(toolId, e). policyEntryOk e) (normalizeToolPermissionPolicyEntries v)"
proof -
  let ?read = "\<lambda>(toolId, rawEntry). case normalizeToolPermissionPolicyEntry rawEntry of None \<Rightarrow> [] | Some e \<Rightarrow> [(toolId, e)]"
  have "set (normalizeToolPermissionPolicyEntries v) \<subseteq> set (concat (map ?read (asRecordS v)))"
    unfolding normalizeToolPermissionPolicyEntries_def by (rule fromEntries_subset)
  moreover have "\<forall>(toolId, e) \<in> set (concat (map ?read (asRecordS v))). policyEntryOk e"
    by (auto dest: entry_ok entry_ok [OF sym] split: option.splits)
  ultimately show ?thesis unfolding list_all_iff by blast
qed

lemma entries_distinct [simp]: "distinct (map fst (normalizeToolPermissionPolicyEntries v))"
  by (simp add: normalizeToolPermissionPolicyEntries_def)

lemma entries_read:
  assumes "distinct (map fst entries)" and "list_all (\<lambda>(toolId, e). policyEntryOk e) entries"
  shows "normalizeToolPermissionPolicyEntries (Some (JObj (map (\<lambda>(toolId, e). (toolId, policyEntryJson e)) entries))) = entries"
proof -
  have "concat (map (\<lambda>(toolId, rawEntry). case normalizeToolPermissionPolicyEntry rawEntry of None \<Rightarrow> [] | Some e \<Rightarrow> [(toolId, e)])
      (map (\<lambda>(toolId, e). (toolId, policyEntryJson e)) entries)) = entries"
    using assms(2) by (induction entries) (auto simp: entry_read)
  then show ?thesis using assms(1) by (simp add: normalizeToolPermissionPolicyEntries_def fromEntries_id)
qed

lemma policy_ok: "policyOk (normalizeToolPermissionPolicyState v (normalizeLegacyToolPermissionMode w))"
proof -
  let ?m = "normalizeLegacyToolPermissionMode w"
  have "trim ''manual'' = ''manual''" by code_simp
  then have "storedLiteral legacyModes ?m"
    by (auto simp: normalizeLegacyToolPermissionMode_def normalizeLegacyToolPermissionModeOptional_def literalAsStored_iff
        storedLiteral_def legacyModes_def split: option.split)
  moreover have "storedLiteral policyModes (migrateLegacyToolPermissionMode ?m)"
  proof -
    have "storedLiteral policyModes s" if "s \<in> {''allow'', ''ask'', ''deny''}" for s
      using that unfolding insert_iff empty_iff by (elim disjE; hypsubst?) (code_simp | simp)+
    then show ?thesis by (simp add: migrateLegacyToolPermissionMode_def)
  qed
  ultimately show ?thesis
    by (auto simp: policyOk_def normalizeToolPermissionPolicyState_def Let_def normalizeLegacyToolPermissionModeOptional_def
        normalizeToolPermissionPolicyMode_def literalAsStored_ok literalAsStored_iff entries_ok
        entries_distinct split: option.split)
qed

lemma policy_read: "policyOk p \<Longrightarrow> normalizeToolPermissionPolicyState (Some (policyJson p)) m = p"
  by (simp add: policyOk_def normalizeToolPermissionPolicyState_def policyJson_def Let_def entries_read
      normalizeLegacyToolPermissionModeOptional_def normalizeToolPermissionPolicyMode_def legacyModes_def)

section \<open>Properties\<close>

text \<open>
  C22: reading a policy is total and its results are exactly the policies whose modes, sources and actions are literals up to
  surrounding white space, with positive timeouts; the document written for such a policy, and for no other, is read
  back as that policy, so that saving and loading never change it.
\<close>

theorem policy_range:
  "((\<exists>v w. normalizeToolPermissionPolicyState v (normalizeLegacyToolPermissionMode w) = p) \<longleftrightarrow> policyOk p) \<and>
   (normalizeToolPermissionPolicyState (Some (policyJson p)) (normalizeLegacyToolPermissionMode u) = p \<longleftrightarrow> policyOk p)"
  using policy_ok policy_read by metis

lemma clonePolicy_id: "policyOk p \<Longrightarrow> cloneToolPermissionPolicyState p = p"
  by (cases p) (simp add: cloneToolPermissionPolicyState_def policyOk_def fromEntries_id split_beta)

end
