(* ===== verification/Tool_Picker.thy ===== *)
theory Tool_Picker
  imports Settings_Policy Literal_Types
begin

text \<open>
  Which tools a message may use: the selection functions of \<open>src/features/copilot/tool-picker.ts\<close> and the policy that
  \<open>src/features/copilot/copilot-chat-helpers.ts\<close> sends along. A tool can be chosen when it is available and the permission
  policy of the settings does not deny it.
\<close>

section \<open>Tools\<close>

record presentation_group =
  pg_id :: string
  pg_label :: string
  pg_labelZh :: string
  pg_labelEn :: string
  pg_order :: int
  pg_sourceKind :: string

record tool_entry =
  td_toolId :: string
  td_kind :: string
  td_availability :: string
  td_displayName :: "string option"
  td_description :: "string option"
  td_prompt :: "string option option"
  td_displayNameZh :: "string option option"
  td_displayNameEn :: "string option option"
  td_descriptionZh :: "string option option"
  td_descriptionEn :: "string option option"
  td_group :: "presentation_group option option"

datatype disabled_reason = DisabledByPolicy | DisabledByAvailability

record tool_view_model =
  tv_tool :: tool_entry
  tv_disabled :: bool
  tv_disabledReason :: "disabled_reason option"

definition isCopilotToolSelectableByAvailability :: "tool_entry \<Rightarrow> bool" where
  "isCopilotToolSelectableByAvailability tool \<longleftrightarrow> toLowerCase (trim (td_availability tool)) = ''available''"

definition isCopilotToolDenied :: "string \<Rightarrow> policy_state option \<Rightarrow> bool" where
  "isCopilotToolDenied toolId policy \<longleftrightarrow>
     (case policy of
        None \<Rightarrow> False
      | Some p \<Rightarrow>
          (case map_of (pp_toolPermissions p) toolId of
             Some e \<Rightarrow> pe_mode e = ''deny''
           | None \<Rightarrow> pp_defaultMode p = ''deny''))"

definition resolveCopilotToolDisabledReason :: "tool_entry \<Rightarrow> policy_state option \<Rightarrow> disabled_reason option" where
  "resolveCopilotToolDisabledReason tool policy =
     (if \<not> isCopilotToolSelectableByAvailability tool then Some DisabledByAvailability
      else if isCopilotToolDenied (td_toolId tool) policy then Some DisabledByPolicy else None)"

definition isCopilotToolSelectable :: "tool_entry \<Rightarrow> policy_state option \<Rightarrow> bool" where
  "isCopilotToolSelectable tool policy \<longleftrightarrow> resolveCopilotToolDisabledReason tool policy = None"

definition buildCopilotToolViewModels :: "tool_entry list \<Rightarrow> policy_state option \<Rightarrow> tool_view_model list" where
  "buildCopilotToolViewModels tools policy =
     map (\<lambda>tool. let disabledReason = resolveCopilotToolDisabledReason tool policy in
       \<lparr>tv_tool = tool, tv_disabled = (disabledReason \<noteq> None), tv_disabledReason = disabledReason\<rparr>) tools"

section \<open>Selections\<close>

text \<open>\<open>dedupeToolIds\<close> of the picker and of the helpers both trim, drop empty texts and keep the first of equal ones.\<close>

definition dedupeToolIds :: "string list \<Rightarrow> string list" where
  "dedupeToolIds toolIds = uniqueFrom [] (filter (\<lambda>toolId. toolId \<noteq> []) (map trim toolIds))"

definition sanitizeSelectedToolIds :: "string list \<Rightarrow> string list" where
  "sanitizeSelectedToolIds selectedToolIds = dedupeToolIds selectedToolIds"

text \<open>\<open>new Map(entries)\<close>: the last tool of an identifier is the one that is found.\<close>

definition knownTool :: "tool_entry list \<Rightarrow> string \<Rightarrow> tool_entry option" where
  "knownTool tools toolId = map_of (rev (map (\<lambda>tool. (td_toolId tool, tool)) tools)) toolId"

definition sanitizeEnabledToolIds :: "string list \<Rightarrow> tool_entry list \<Rightarrow> policy_state option \<Rightarrow> string list" where
  "sanitizeEnabledToolIds selectedToolIds tools policy =
     filter (\<lambda>toolId. case knownTool tools toolId of
         None \<Rightarrow> False | Some tool \<Rightarrow> isCopilotToolSelectable tool policy)
       (dedupeToolIds selectedToolIds)"

definition selectAllToolIds :: "tool_entry list \<Rightarrow> policy_state option \<Rightarrow> string list" where
  "selectAllToolIds tools policy = sanitizeEnabledToolIds (map (\<lambda>tool. trim (td_toolId tool)) tools) tools policy"

definition invertToolSelection :: "tool_entry list \<Rightarrow> string list \<Rightarrow> policy_state option \<Rightarrow> string list" where
  "invertToolSelection tools selectedToolIds policy =
     (let selected = sanitizeEnabledToolIds selectedToolIds tools policy in
      map td_toolId (filter (\<lambda>tool. td_toolId tool \<notin> set selected \<and> isCopilotToolSelectable tool policy) tools))"

definition pickRecommendedToolIds :: "tool_entry list \<Rightarrow> string list \<Rightarrow> policy_state option \<Rightarrow> string list" where
  "pickRecommendedToolIds tools recommendedToolIds policy =
     sanitizeEnabledToolIds (filter (\<lambda>toolId. toolId \<in> set recommendedToolIds) (map td_toolId tools)) tools policy"

definition toggleToolIdInSelection :: "string list \<Rightarrow> tool_entry \<Rightarrow> policy_state option \<Rightarrow> string list" where
  "toggleToolIdInSelection selectedToolIds tool policy =
     (if td_toolId tool \<in> set selectedToolIds then
        sanitizeSelectedToolIds (filter (\<lambda>currentToolId. currentToolId \<noteq> td_toolId tool) selectedToolIds)
      else if \<not> isCopilotToolSelectable tool policy then sanitizeSelectedToolIds selectedToolIds
      else sanitizeSelectedToolIds selectedToolIds @ [td_toolId tool])"

section \<open>The order of the tools in a group\<close>

definition resolveAvailabilityOrder :: "string \<Rightarrow> int" where
  "resolveAvailabilityOrder availability =
     (if availability = ''available'' then 0
      else if availability = ''disabled-by-global-setting'' \<or> availability = ''unavailable'' then 1
      else 2)"

definition resolveRecommendationOrder :: "string \<Rightarrow> string list \<Rightarrow> int" where
  "resolveRecommendationOrder toolId recommended = (if toolId \<in> set recommended then 0 else 1)"

definition compareGroupedTools :: "tool_entry \<times> int \<Rightarrow> tool_entry \<times> int \<Rightarrow> string list \<Rightarrow> int" where
  "compareGroupedTools left right recommended =
     (let availabilityDelta = resolveAvailabilityOrder (td_availability (fst left)) - resolveAvailabilityOrder (td_availability (fst right));
          recommendationDelta = resolveRecommendationOrder (td_toolId (fst left)) recommended -
            resolveRecommendationOrder (td_toolId (fst right)) recommended in
      if availabilityDelta \<noteq> 0 then availabilityDelta
      else if recommendationDelta \<noteq> 0 then recommendationDelta
      else snd left - snd right)"

section \<open>The policy that is sent with a message\<close>

record runtime_policy =
  rp_schemaVersion :: int
  rp_defaultMode :: permission_mode
  rp_toolModes :: "(string \<times> permission_mode) list"
  rp_toolTimeoutSeconds :: "(string \<times> int) list option"
  rp_toolTimeoutActions :: "(string \<times> string) list option"

definition normalizeRuntimeToolPermissionMode :: "string option \<Rightarrow> permission_mode option" where
  "normalizeRuntimeToolPermissionMode value = Option.bind value parsePermissionMode"

definition nonEmptyEntries :: "(string \<times> 'a) list \<Rightarrow> (string \<times> 'a) list option" where
  "nonEmptyEntries entries = (if entries = [] then None else Some entries)"

definition toolModeEntry :: "policy_state \<Rightarrow> string \<Rightarrow> (string \<times> permission_mode) list" where
  "toolModeEntry policy toolId =
     (case normalizeRuntimeToolPermissionMode (map_option pe_mode (map_of (pp_toolPermissions policy) toolId)) of
        None \<Rightarrow> []
      | Some mode \<Rightarrow> if permissionModeString mode = pp_defaultMode policy then [] else [(toolId, mode)])"

definition toolTimeoutSecondsEntry :: "policy_state \<Rightarrow> string \<Rightarrow> (string \<times> int) list" where
  "toolTimeoutSecondsEntry policy toolId =
     (case map_of (pp_toolPermissions policy) toolId of
        None \<Rightarrow> []
      | Some e \<Rightarrow>
          if pe_mode e = ''delay'' then (case pe_timeoutSeconds e of None \<Rightarrow> [] | Some n \<Rightarrow> [(toolId, n)]) else [])"

definition toolTimeoutActionEntry :: "policy_state \<Rightarrow> string \<Rightarrow> (string \<times> string) list" where
  "toolTimeoutActionEntry policy toolId =
     (case map_of (pp_toolPermissions policy) toolId of
        None \<Rightarrow> []
      | Some e \<Rightarrow>
          if pe_mode e = ''delay'' \<and> (pe_timeoutAction e = Some ''approve'' \<or> pe_timeoutAction e = Some ''deny'')
          then (case pe_timeoutAction e of None \<Rightarrow> [] | Some a \<Rightarrow> [(toolId, a)]) else [])"

definition buildRuntimeToolPermissionPolicy :: "string list \<Rightarrow> policy_state option \<Rightarrow> runtime_policy option" where
  "buildRuntimeToolPermissionPolicy enabledToolIds policy =
     (case policy of
        None \<Rightarrow> None
      | Some p \<Rightarrow>
          (let enabledTools = dedupeToolIds enabledToolIds in
           Some \<lparr>rp_schemaVersion = pp_version p,
                 rp_defaultMode = (case normalizeRuntimeToolPermissionMode (Some (pp_defaultMode p)) of
                     None \<Rightarrow> ModeAsk | Some m \<Rightarrow> m),
                 rp_toolModes = fromEntries (concat (map (toolModeEntry p) enabledTools)),
                 rp_toolTimeoutSeconds = nonEmptyEntries (fromEntries (concat (map (toolTimeoutSecondsEntry p) enabledTools))),
                 rp_toolTimeoutActions = nonEmptyEntries (fromEntries (concat (map (toolTimeoutActionEntry p) enabledTools)))\<rparr>))"

section \<open>Only usable tools are selected\<close>

definition usable :: "tool_entry list \<Rightarrow> policy_state option \<Rightarrow> string set" where
  "usable tools policy = td_toolId ` {tool \<in> set tools. isCopilotToolSelectable tool policy}"

lemma selectable_iff:
  "isCopilotToolSelectable tool policy \<longleftrightarrow>
     isCopilotToolSelectableByAvailability tool \<and> \<not> isCopilotToolDenied (td_toolId tool) policy"
  by (simp add: isCopilotToolSelectable_def resolveCopilotToolDisabledReason_def)

text \<open>The contract of every operation that selects tools.\<close>

locale tool_selection =
  fixes select :: "tool_entry list \<Rightarrow> policy_state option \<Rightarrow> string list"
  assumes only_usable: "set (select tools policy) \<subseteq> usable tools policy"
begin

lemma not_denied: "isCopilotToolDenied t policy \<Longrightarrow> t \<notin> set (select tools policy)"
  using only_usable by (fastforce simp: usable_def selectable_iff)

lemma available: "t \<in> set (select tools policy) \<Longrightarrow>
   \<exists>tool \<in> set tools. td_toolId tool = t \<and> isCopilotToolSelectableByAvailability tool"
  using only_usable by (fastforce simp: usable_def selectable_iff)

end

lemma dedupe_set [simp]: "set (dedupeToolIds ids) = trim ` set ids - {[]}"
  by (auto simp: dedupeToolIds_def uniqueFrom_set)

lemma dedupe_distinct [simp]: "distinct (dedupeToolIds ids)"
  by (simp add: dedupeToolIds_def)

lemma dedupe_id: "distinct ids \<Longrightarrow> list_all trimmed ids \<Longrightarrow> dedupeToolIds ids = ids"
proof -
  assume "list_all trimmed ids"
  then have "filter (\<lambda>toolId. toolId \<noteq> []) (map trim ids) = ids"
    by (induction ids) (auto simp: trimmed_def)
  then show "distinct ids \<Longrightarrow> dedupeToolIds ids = ids" by (simp add: dedupeToolIds_def uniqueFrom_id)
qed

lemma knownTool_Some: "knownTool tools t = Some tool \<Longrightarrow> tool \<in> set tools \<and> td_toolId tool = t"
  by (auto simp: knownTool_def dest: map_of_SomeD)

lemma knownTool_unique:
  assumes "distinct (map td_toolId tools)" and "tool \<in> set tools"
  shows "knownTool tools (td_toolId tool) = Some tool"
proof -
  have "distinct (map fst (rev (map (\<lambda>tool. (td_toolId tool, tool)) tools)))"
    using assms(1) by (simp add: rev_map [symmetric] comp_def)
  then show ?thesis using assms(2) by (simp add: knownTool_def map_of_eq_Some_iff)
qed

lemma sanitize_usable: "set (sanitizeEnabledToolIds sel tools policy) \<subseteq> usable tools policy"
  by (auto simp: sanitizeEnabledToolIds_def usable_def dest: knownTool_Some split: option.splits)

interpretation sanitized: tool_selection "sanitizeEnabledToolIds sel" for sel
  by unfold_locales (rule sanitize_usable)

interpretation all_selected: tool_selection selectAllToolIds
  by unfold_locales (simp add: selectAllToolIds_def sanitize_usable)

interpretation inverted: tool_selection "\<lambda>tools policy. invertToolSelection tools sel policy" for sel
  by unfold_locales (auto simp: invertToolSelection_def usable_def Let_def)

interpretation recommended: tool_selection "\<lambda>tools policy. pickRecommendedToolIds tools recommended policy" for recommended
  by unfold_locales (simp add: pickRecommendedToolIds_def sanitize_usable)

text \<open>
  C23: a tool that the permission policy denies is selected by no operation of the picker: not when a selection is
  sanitised, everything is selected, the selection is inverted or the recommended tools are picked, and toggling a tool
  does not bring it in.
\<close>

theorem denied_tools_stay_off:
  assumes "isCopilotToolDenied t policy"
  shows "t \<notin> set (sanitizeEnabledToolIds sel tools policy) \<and> t \<notin> set (selectAllToolIds tools policy) \<and>
         t \<notin> set (invertToolSelection tools sel policy) \<and> t \<notin> set (pickRecommendedToolIds tools recommended policy) \<and>
         (t \<in> set (toggleToolIdInSelection sel tool policy) \<longrightarrow> t \<in> trim ` set sel)"
  using assms sanitized.not_denied all_selected.not_denied inverted.not_denied recommended.not_denied
  by (auto simp: toggleToolIdInSelection_def sanitizeSelectedToolIds_def selectable_iff)

section \<open>Inverting a selection\<close>

lemma known_usable:
  assumes "distinct (map td_toolId tools)"
  shows "(case knownTool tools t of None \<Rightarrow> False | Some tool \<Rightarrow> isCopilotToolSelectable tool policy) \<longleftrightarrow> t \<in> usable tools policy"
proof
  assume "t \<in> usable tools policy"
  then obtain tool where "tool \<in> set tools" "td_toolId tool = t" "isCopilotToolSelectable tool policy"
    by (auto simp: usable_def)
  then show "case knownTool tools t of None \<Rightarrow> False | Some tool \<Rightarrow> isCopilotToolSelectable tool policy"
    using knownTool_unique [OF assms, of tool] by simp
qed (auto simp: usable_def dest: knownTool_Some split: option.splits)

lemma sanitize_set:
  assumes "distinct (map td_toolId tools)"
  shows "set (sanitizeEnabledToolIds sel tools policy) = (trim ` set sel - {[]}) \<inter> usable tools policy"
  unfolding sanitizeEnabledToolIds_def known_usable [OF assms] by auto

lemma invert_set: "set (invertToolSelection tools sel policy) = usable tools policy - set (sanitizeEnabledToolIds sel tools policy)"
  by (auto simp: invertToolSelection_def usable_def Let_def)

lemma invert_trimmed: "list_all (\<lambda>tool. trimmed (td_toolId tool)) tools \<Longrightarrow> t \<in> set (invertToolSelection tools sel policy) \<Longrightarrow> trimmed t"
  by (auto simp: invertToolSelection_def Let_def list_all_iff)

text \<open>
  Inverting takes the usable tools that were not selected, and inverting twice gives back the usable part of the
  selection.
\<close>

theorem invert_is_complement:
  assumes "distinct (map td_toolId tools)" and "list_all (\<lambda>tool. trimmed (td_toolId tool)) tools"
  shows "set (invertToolSelection tools sel policy) = usable tools policy - trim ` set sel \<and>
         set (invertToolSelection tools (invertToolSelection tools sel policy) policy) = set (sanitizeEnabledToolIds sel tools policy)"
proof -
  have trimmed': "[] \<notin> usable tools policy" using assms(2) by (auto simp: usable_def list_all_iff trimmed_def)
  have once: "set (invertToolSelection tools sel policy) = usable tools policy - trim ` set sel" for sel
    using trimmed' by (auto simp: invert_set sanitize_set [OF assms(1)])
  have "trim ` set (invertToolSelection tools sel policy) = set (invertToolSelection tools sel policy)"
    using invert_trimmed [OF assms(2)] by (force simp: trimmed_def)
  then show ?thesis using trimmed' by (auto simp: once sanitize_set [OF assms(1)])
qed

section \<open>What the runtime is told\<close>

text \<open>The mode that the policy gives a tool, and the one that the policy sent to the runtime gives it.\<close>

definition policyMode :: "policy_state \<Rightarrow> string \<Rightarrow> string" where
  "policyMode p t = (case map_of (pp_toolPermissions p) t of Some e \<Rightarrow> pe_mode e | None \<Rightarrow> pp_defaultMode p)"

definition sentMode :: "runtime_policy \<Rightarrow> string \<Rightarrow> permission_mode" where
  "sentMode rp t = (case map_of (rp_toolModes rp) t of Some m \<Rightarrow> m | None \<Rightarrow> rp_defaultMode rp)"

lemma denied_iff: "isCopilotToolDenied t (Some p) \<longleftrightarrow> policyMode p t = ''deny''"
  by (simp add: isCopilotToolDenied_def policyMode_def split: option.split)

text \<open>A table with at most one entry for each of some distinct keys.\<close>

definition singleKey :: "(string \<Rightarrow> (string \<times> 'a) list) \<Rightarrow> bool" where
  "singleKey f \<longleftrightarrow> (\<forall>t. map fst (f t) = [] \<or> map fst (f t) = [t])"

lemma singleKey_keys: "singleKey f \<Longrightarrow> fst ` set (f t) \<subseteq> {t} \<and> distinct (map fst (f t))"
  unfolding singleKey_def set_map [symmetric] by (metis distinct.simps distinct_singleton empty_set empty_subsetI list.simps(15) order_refl)

lemma table_keys:
  assumes "singleKey f"
  shows "fst ` set (concat (map f ts)) \<subseteq> set ts"
proof -
  have "fst ` set (f t) \<subseteq> {t}" for t using singleKey_keys [OF assms] by blast
  then show ?thesis by fastforce
qed

lemma table_distinct: "singleKey f \<Longrightarrow> distinct ts \<Longrightarrow> distinct (map fst (concat (map f ts)))"
proof (induction ts)
  case (Cons t ts)
  have "fst ` set (f t) \<inter> fst ` set (concat (map f ts)) = {}"
    using table_keys [OF Cons.prems(1), of ts] singleKey_keys [OF Cons.prems(1), of t] Cons.prems(2) by auto
  then show ?case using Cons singleKey_keys [OF Cons.prems(1), of t] by simp
qed simp

lemma table_lookup:
  "singleKey f \<Longrightarrow> distinct ts \<Longrightarrow> map_of (concat (map f ts)) t = (if t \<in> set ts then map_of (f t) t else None)"
proof (induction ts)
  case (Cons t' ts)
  have "map_of (f t') t = None" if "t \<noteq> t'"
    unfolding map_of_eq_None_iff using singleKey_keys [OF Cons.prems(1), of t'] that by auto
  then show ?case using Cons by (cases "t = t'") (auto simp: map_add_def split: option.splits)
qed simp

lemma modeEntry_keys: "singleKey (toolModeEntry p)"
  by (simp add: singleKey_def toolModeEntry_def split: option.split)

lemma secondsEntry_keys: "singleKey (toolTimeoutSecondsEntry p)"
  by (simp add: singleKey_def toolTimeoutSecondsEntry_def split: option.split)

lemma actionEntry_keys: "singleKey (toolTimeoutActionEntry p)"
  by (simp add: singleKey_def toolTimeoutActionEntry_def split: option.split)

text \<open>The timeout and the action that the settings give a tool; they count only for a tool that is delayed.\<close>

definition policySeconds :: "policy_state \<Rightarrow> string \<Rightarrow> int option" where
  "policySeconds p t = (case map_of (pp_toolPermissions p) t of
     Some e \<Rightarrow> if pe_mode e = ''delay'' then pe_timeoutSeconds e else None | None \<Rightarrow> None)"

definition policyAction :: "policy_state \<Rightarrow> string \<Rightarrow> string option" where
  "policyAction p t = (case map_of (pp_toolPermissions p) t of
     Some e \<Rightarrow> if pe_mode e = ''delay'' \<and> pe_timeoutAction e \<in> {Some ''approve'', Some ''deny''} then pe_timeoutAction e else None
   | None \<Rightarrow> None)"

lemma secondsEntry_lookup: "map_of (toolTimeoutSecondsEntry p t) t = policySeconds p t"
proof (cases "map_of (pp_toolPermissions p) t")
  case (Some e)
  show ?thesis unfolding toolTimeoutSecondsEntry_def policySeconds_def Some
    by (cases "pe_mode e = ''delay''"; cases "pe_timeoutSeconds e") simp_all
qed (simp add: toolTimeoutSecondsEntry_def policySeconds_def)

lemma actionEntry_lookup: "map_of (toolTimeoutActionEntry p t) t = policyAction p t"
proof (cases "map_of (pp_toolPermissions p) t")
  case (Some e)
  let ?known = "pe_timeoutAction e = Some ''approve'' \<or> pe_timeoutAction e = Some ''deny''"
  have eq: "pe_timeoutAction e \<in> {Some ''approve'', Some ''deny''} \<longleftrightarrow> ?known" by blast
  show ?thesis unfolding toolTimeoutActionEntry_def policyAction_def Some option.case eq
  proof (cases "pe_mode e = ''delay'' \<and> ?known")
    case True
    show "map_of (if pe_mode e = ''delay'' \<and> ?known then case pe_timeoutAction e of None \<Rightarrow> [] | Some a \<Rightarrow> [(t, a)] else []) t =
        (if pe_mode e = ''delay'' \<and> ?known then pe_timeoutAction e else None)"
      unfolding if_P [OF True] by (cases "pe_timeoutAction e") simp_all
  next
    case False
    show "map_of (if pe_mode e = ''delay'' \<and> ?known then case pe_timeoutAction e of None \<Rightarrow> [] | Some a \<Rightarrow> [(t, a)] else []) t =
        (if pe_mode e = ''delay'' \<and> ?known then pe_timeoutAction e else None)"
      unfolding if_not_P [OF False] by simp
  qed
qed (simp add: toolTimeoutActionEntry_def policyAction_def)

text \<open>A lookup in an optional table, which is left out when it is empty.\<close>

definition entryOf :: "(string \<times> 'a) list option \<Rightarrow> string \<Rightarrow> 'a option" where
  "entryOf table t = (case table of None \<Rightarrow> None | Some entries \<Rightarrow> map_of entries t)"

lemma entryOf_table:
  assumes "singleKey f"
  shows "entryOf (nonEmptyEntries (fromEntries (concat (map f (dedupeToolIds enabled))))) t =
    (if t \<in> set (dedupeToolIds enabled) then map_of (f t) t else None)"
  using table_lookup [OF assms dedupe_distinct, of enabled t] table_distinct [OF assms dedupe_distinct, of enabled]
  by (simp add: entryOf_def nonEmptyEntries_def fromEntries_id split: if_splits)

text \<open>The mode that the runtime makes of a mode of the settings: one that it does not know counts as the default mode, and as
  \<open>ask\<close> when the default mode is not known either.\<close>

definition runtimeMode :: "policy_state \<Rightarrow> string \<Rightarrow> permission_mode" where
  "runtimeMode p m = (case parsePermissionMode m of
     Some k \<Rightarrow> k
   | None \<Rightarrow> (case parsePermissionMode (pp_defaultMode p) of Some d \<Rightarrow> d | None \<Rightarrow> ModeAsk))"

text \<open>
  C24: the policy that is sent says of every enabled tool what the settings say, and names no other tool. The mode of an enabled tool
  is the one of the settings (one that the runtime does not know, such as a mode with white space, counts as the default mode, and
  as \<open>ask\<close> when that is unknown too); its timeout and timeout action are those of the settings when its mode is \<open>delay\<close>, and none
  otherwise. The tables of modes, timeouts and actions hold no tool that is not enabled.
\<close>

theorem sent_policy_agrees:
  assumes "buildRuntimeToolPermissionPolicy enabled (Some p) = Some rp"
  shows "(t \<in> trim ` set enabled \<and> t \<noteq> [] \<longrightarrow>
            sentMode rp t = runtimeMode p (policyMode p t) \<and>
            entryOf (rp_toolTimeoutSeconds rp) t = policySeconds p t \<and> entryOf (rp_toolTimeoutActions rp) t = policyAction p t) \<and>
         (t \<notin> trim ` set enabled \<longrightarrow>
            map_of (rp_toolModes rp) t = None \<and> entryOf (rp_toolTimeoutSeconds rp) t = None \<and> entryOf (rp_toolTimeoutActions rp) t = None)"
proof -
  let ?ts = "dedupeToolIds enabled"
  note modes = table_distinct [OF modeEntry_keys dedupe_distinct] table_lookup [OF modeEntry_keys dedupe_distinct]
  have table: "rp_toolModes rp = concat (map (toolModeEntry p) ?ts)"
    using assms modes(1) by (auto simp: buildRuntimeToolPermissionPolicy_def Let_def fromEntries_id)
  have default': "rp_defaultMode rp = runtimeMode p (pp_defaultMode p)"
    using assms by (auto simp: buildRuntimeToolPermissionPolicy_def Let_def normalizeRuntimeToolPermissionMode_def runtimeMode_def split: option.split)
  have seconds: "entryOf (rp_toolTimeoutSeconds rp) t = (if t \<in> set ?ts then policySeconds p t else None)"
    using assms entryOf_table [OF secondsEntry_keys, of p enabled t]
    by (auto simp: buildRuntimeToolPermissionPolicy_def Let_def secondsEntry_lookup)
  have actions: "entryOf (rp_toolTimeoutActions rp) t = (if t \<in> set ?ts then policyAction p t else None)"
    using assms entryOf_table [OF actionEntry_keys, of p enabled t]
    by (auto simp: buildRuntimeToolPermissionPolicy_def Let_def actionEntry_lookup)
  have "sentMode rp t = runtimeMode p (policyMode p t)" if t: "t \<in> set ?ts"
  proof (cases "map_of (pp_toolPermissions p) t")
    case None
    then show ?thesis using t
      by (simp add: sentMode_def table modes(2) toolModeEntry_def policyMode_def normalizeRuntimeToolPermissionMode_def default')
  next
    case (Some e)
    show ?thesis
    proof (cases "parsePermissionMode (pe_mode e)")
      case None
      then show ?thesis using t Some
        by (simp add: sentMode_def table modes(2) toolModeEntry_def policyMode_def normalizeRuntimeToolPermissionMode_def default'
            runtimeMode_def split: option.split)
    next
      case (Some m)
      then have "pe_mode e = permissionModeString m" by (rule mode_lit.wr_rd)
      then show ?thesis using t Some \<open>map_of (pp_toolPermissions p) t = Some e\<close>
        by (auto simp: sentMode_def table modes(2) toolModeEntry_def policyMode_def normalizeRuntimeToolPermissionMode_def default'
            runtimeMode_def)
    qed
  qed
  moreover have "map_of (rp_toolModes rp) t = None" if "t \<notin> set ?ts" using that unfolding table modes(2) by (simp only: if_False)
  ultimately show ?thesis using seconds actions by (auto simp: dedupe_set)
qed

section \<open>A mode with white space\<close>

text \<open>
  The reader of the settings accepts a mode up to surrounding white space but keeps the text as it is: a tool that
  the document denies with a trailing space is then not denied, and the runtime is told the default mode.
\<close>

definition spacedDocument :: json where
  "spacedDocument = JObj
     [(''version'', JNum 1), (''defaultMode'', JStr ''allow''),
      (''toolPermissions'', JObj [(''shell'', JObj [(''mode'', JStr ''deny '')])])]"

text \<open>
  A document that denies a tool with a mode that ends in a space is accepted as a denial, yet the tool can be
  selected and the runtime is told to allow it.
\<close>

theorem spaced_deny_is_lost:
  "let p = normalizeToolPermissionPolicyState (Some spacedDocument) ''manual'' in
   normalizeToolPermissionPolicyMode (Some (JStr ''deny '')) \<noteq> None \<and> \<not> isCopilotToolDenied ''shell'' (Some p) \<and>
   map_option (\<lambda>rp. sentMode rp ''shell'') (buildRuntimeToolPermissionPolicy [''shell''] (Some p)) = Some ModeAllow"
  by code_simp

section \<open>Witnesses\<close>

definition sampleTool :: "string \<Rightarrow> tool_entry" where
  "sampleTool toolId =
     \<lparr>td_toolId = toolId, td_kind = ''builtin'', td_availability = ''available'', td_displayName = None, td_description = None,
      td_prompt = None, td_displayNameZh = None, td_displayNameEn = None, td_descriptionZh = None, td_descriptionEn = None,
      td_group = None\<rparr>"

definition samplePolicy :: policy_state where
  "samplePolicy =
     \<lparr>pp_version = 1, pp_migrationSourceMode = None, pp_defaultMode = ''ask'',
      pp_toolPermissions = [(''shell'', \<lparr>pe_mode = ''deny'', pe_timeoutAction = None, pe_timeoutSeconds = None,
        pe_source = None, pe_updatedAt = None\<rparr>)]\<rparr>"

theorem denied_tools_stay_off_witness:
  "isCopilotToolDenied ''shell'' (Some samplePolicy) \<and>
   ''shell'' \<notin> set (sanitizeEnabledToolIds [''shell''] [sampleTool ''shell''] (Some samplePolicy)) \<and>
   sanitizeEnabledToolIds ['' fs '', ''shell''] [sampleTool ''shell'', sampleTool ''fs''] (Some samplePolicy) = [''fs'']"
proof -
  have "isCopilotToolDenied ''shell'' (Some samplePolicy)" by code_simp
  moreover have "sanitizeEnabledToolIds ['' fs '', ''shell''] [sampleTool ''shell'', sampleTool ''fs''] (Some samplePolicy) = [''fs'']"
    by code_simp
  ultimately show ?thesis using denied_tools_stay_off [of "''shell''" "Some samplePolicy" "[''shell'']" "[sampleTool ''shell'']"] by simp
qed

theorem invert_is_complement_witness:
  "distinct (map td_toolId [sampleTool ''shell'', sampleTool ''fs'']) \<and>
   set (invertToolSelection [sampleTool ''shell'', sampleTool ''fs''] [''fs''] None) =
     usable [sampleTool ''shell'', sampleTool ''fs''] None - trim ` set [''fs'']"
proof -
  have "trimmed ''shell''" "trimmed ''fs''" by code_simp+
  then show ?thesis
    using invert_is_complement [of "[sampleTool ''shell'', sampleTool ''fs'']" "[''fs'']" None] by (simp add: sampleTool_def)
qed

definition delayPolicy :: policy_state where
  "delayPolicy =
     \<lparr>pp_version = 1, pp_migrationSourceMode = None, pp_defaultMode = ''ask'',
      pp_toolPermissions = [(''shell'', \<lparr>pe_mode = ''delay'', pe_timeoutAction = Some ''deny'', pe_timeoutSeconds = Some 30,
        pe_source = None, pe_updatedAt = None\<rparr>)]\<rparr>"

theorem sent_policy_agrees_witness:
  "\<exists>rp. buildRuntimeToolPermissionPolicy [''shell''] (Some delayPolicy) = Some rp \<and> sentMode rp ''shell'' = ModeDelay \<and>
     entryOf (rp_toolTimeoutSeconds rp) ''shell'' = Some 30 \<and> entryOf (rp_toolTimeoutActions rp) ''shell'' = Some ''deny''"
proof -
  have "policyMode delayPolicy ''shell'' = ''delay''" by (simp add: policyMode_def delayPolicy_def)
  then have mode: "runtimeMode delayPolicy (policyMode delayPolicy ''shell'') = ModeDelay"
    by (simp add: runtimeMode_def parsePermissionMode_def)
  have "policySeconds delayPolicy ''shell'' = Some 30" "policyAction delayPolicy ''shell'' = Some ''deny''"
    by (simp_all add: policySeconds_def policyAction_def delayPolicy_def)
  moreover obtain rp where rp: "buildRuntimeToolPermissionPolicy [''shell''] (Some delayPolicy) = Some rp"
    by (simp add: buildRuntimeToolPermissionPolicy_def Let_def)
  moreover have "trim ''shell'' = ''shell''" by code_simp
  ultimately show ?thesis using sent_policy_agrees [OF rp, of "''shell''"] mode by simp
qed

end
