(* ===== verification/Runtime_Request.thy ===== *)
theory Runtime_Request
  imports Run_Protocol Tool_Picker
begin

text \<open>
  The requests to the runtime: the rest of \<open>src/features/copilot/thread-run-contract.ts\<close>, which posts a method with its body
  to the local runtime and maps what comes back. The browser's \<open>fetch\<close> is a parameter that is given the endpoint
  and the request and gives a response or the error it rejects with; a response knows what its \<open>json()\<close> gives.
\<close>

section \<open>Errors\<close>

record request_error =
  qe_message :: string
  qe_code :: "string option"
  qe_status :: int
  qe_details :: jrecord

text \<open>
  What can be thrown: an error named \<open>AbortError\<close>, a \<open>TypeError\<close>, another \<open>Error\<close>, a \<open>RuntimeRequestError\<close>, or a value
  that is no error, with the text that \<open>String\<close> gives it.
\<close>

datatype js_error =
    AbortFailure string
  | TypeFailure string
  | PlainFailure string
  | RequestFailure request_error
  | OtherThrown string

text \<open>\<open>error instanceof Error ? error.message : String(error)\<close>\<close>

fun thrownMessage :: "js_error \<Rightarrow> string" where
  "thrownMessage (AbortFailure m) = m"
| "thrownMessage (TypeFailure m) = m"
| "thrownMessage (PlainFailure m) = m"
| "thrownMessage (RequestFailure e) = qe_message e"
| "thrownMessage (OtherThrown t) = t"

definition newRuntimeRequestError :: "string \<Rightarrow> string option \<Rightarrow> int \<Rightarrow> jrecord option \<Rightarrow> request_error" where
  "newRuntimeRequestError message code status details =
     \<lparr>qe_message = message, qe_code = code, qe_status = status,
      qe_details = (case details of None \<Rightarrow> [] | Some d \<Rightarrow> d)\<rparr>"

definition RUNTIME_CONNECTIVITY_ERROR_MESSAGE :: string where
  "RUNTIME_CONNECTIVITY_ERROR_MESSAGE = [CHR 0xE6, CHR 0x97, CHR 0xA0, CHR 0xE6, CHR 0xB3, CHR 0x95, CHR 0xE8, CHR 0xBF, CHR 0x9E, CHR 0xE6, CHR 0x8E, CHR 0xA5, CHR 0xE5, CHR 0x88, CHR 0xB0, CHR 0xE6, CHR 0x9C, CHR 0xAC, CHR 0xE5, CHR 0x9C, CHR 0xB0, CHR 0xE8, CHR 0xBF, CHR 0x90, CHR 0xE8, CHR 0xA1, CHR 0x8C, CHR 0xE6, CHR 0x97, CHR 0xB6, CHR 0xEF, CHR 0xBC, CHR 0x8C, CHR 0xE5, CHR 0x8F, CHR 0xAF, CHR 0xE8, CHR 0x83, CHR 0xBD, CHR 0xE7, CHR 0x94, CHR 0xB1, CHR 0xE5, CHR 0x90, CHR 0x8E, CHR 0xE7, CHR 0xAB, CHR 0xAF, CHR 0xE5, CHR 0xBC, CHR 0x82, CHR 0xE5, CHR 0xB8, CHR 0xB8, CHR 0xE3, CHR 0x80, CHR 0x81, CHR 0x43, CHR 0x4F, CHR 0x52, CHR 0x53, CHR 0x20, CHR 0xE6, CHR 0x88, CHR 0x96, CHR 0xE7, CHR 0xBD, CHR 0x91, CHR 0xE7, CHR 0xBB, CHR 0x9C, CHR 0xE6, CHR 0x8B, CHR 0x92, CHR 0xE7, CHR 0xBB, CHR 0x9D, CHR 0xE5, CHR 0xAF, CHR 0xBC, CHR 0xE8, CHR 0x87, CHR 0xB4, CHR 0xEF, CHR 0xBC, CHR 0x8C, CHR 0xE8, CHR 0xAF, CHR 0xB7, CHR 0xE6, CHR 0x9F, CHR 0xA5, CHR 0xE7, CHR 0x9C, CHR 0x8B, CHR 0xE8, CHR 0xBF, CHR 0x90, CHR 0xE8, CHR 0xA1, CHR 0x8C, CHR 0xE6, CHR 0x97, CHR 0xB6, CHR 0xE6, CHR 0x8E, CHR 0xA7, CHR 0xE5, CHR 0x88, CHR 0xB6, CHR 0xE5, CHR 0x8F, CHR 0xB0, CHR 0xE6, CHR 0x97, CHR 0xA5, CHR 0xE5, CHR 0xBF, CHR 0x97, CHR 0xE3, CHR 0x80, CHR 0x82]"

fun isAbortLikeError :: "js_error \<Rightarrow> bool" where
  "isAbortLikeError (AbortFailure m) = True"
| "isAbortLikeError (TypeFailure m) = False"
| "isAbortLikeError (PlainFailure m) = False"
| "isAbortLikeError (RequestFailure e) = False"
| "isAbortLikeError (OtherThrown t) = False"

definition createAbortError :: js_error where
  "createAbortError = AbortFailure ''The operation was aborted.''"

definition isConnectivityMessage :: "string \<Rightarrow> bool" where
  "isConnectivityMessage message \<longleftrightarrow>
     (let normalizedMessage = toLowerCase (trim message) in
      sublist ''failed to fetch'' normalizedMessage \<or> sublist ''networkerror'' normalizedMessage \<or>
      sublist ''load failed'' normalizedMessage \<or> sublist ''cors'' normalizedMessage)"

fun isRuntimeConnectivityFailure :: "js_error \<Rightarrow> bool" where
  "isRuntimeConnectivityFailure (AbortFailure m) = False"
| "isRuntimeConnectivityFailure (TypeFailure m) = True"
| "isRuntimeConnectivityFailure (PlainFailure m) = isConnectivityMessage m"
| "isRuntimeConnectivityFailure (RequestFailure e) = isConnectivityMessage (qe_message e)"
| "isRuntimeConnectivityFailure (OtherThrown t) = False"

definition buildRuntimeTransportError :: "js_error \<Rightarrow> request_error option" where
  "buildRuntimeTransportError e =
     (case e of
        RequestFailure q \<Rightarrow> Some q
      | _ \<Rightarrow> if \<not> isRuntimeConnectivityFailure e then None
             else Some (newRuntimeRequestError RUNTIME_CONNECTIVITY_ERROR_MESSAGE None 0 None))"

definition throwMappedRuntimeTransportError :: "js_error \<Rightarrow> js_error" where
  "throwMappedRuntimeTransportError e =
     (case buildRuntimeTransportError e of Some q \<Rightarrow> RequestFailure q | None \<Rightarrow> e)"

section \<open>Error responses\<close>

text \<open>\<open>payload && typeof payload === 'object' && 'ok' in payload && payload.ok === false\<close>\<close>

fun isRuntimeErrorPayload :: "json \<Rightarrow> bool" where
  "isRuntimeErrorPayload (JObj r) = (prop_of r ''ok'' = Some (JBool False))"
| "isRuntimeErrorPayload _ = False"

text \<open>\<open>payload.error?.key\<close>: the error of a payload is an object, or it has no such property.\<close>

fun errorField :: "jrecord \<Rightarrow> string \<Rightarrow> json option" where
  "errorField payload key = (case prop_of payload ''error'' of Some (JObj r) \<Rightarrow> prop_of r key | _ \<Rightarrow> None)"

text \<open>The code and the message are texts or absent, as their types say.\<close>

fun textField :: "json option \<Rightarrow> string option" where
  "textField (Some (JStr s)) = Some s"
| "textField _ = None"

definition buildRuntimeErrorMessage :: "jrecord \<Rightarrow> int \<Rightarrow> string" where
  "buildRuntimeErrorMessage payload status =
     (case (textField (errorField payload ''code''), textField (errorField payload ''message'')) of
        (code, message) \<Rightarrow>
          let code' = (case code of None \<Rightarrow> [] | Some c \<Rightarrow> c); message' = (case message of None \<Rightarrow> [] | Some m \<Rightarrow> m) in
          if code' \<noteq> [] \<and> message' \<noteq> [] then code' @ '': '' @ message'
          else if code' \<noteq> [] then code'
          else if message' \<noteq> [] then message'
          else ''Runtime request failed with HTTP '' @ intString status @ ''.'')"

definition buildRuntimeRequestError :: "jrecord \<Rightarrow> int \<Rightarrow> request_error" where
  "buildRuntimeRequestError payload status =
     newRuntimeRequestError (buildRuntimeErrorMessage payload status) (textField (errorField payload ''code'')) status
       (case errorField payload ''details'' of Some (JObj d) \<Rightarrow> Some d | _ \<Rightarrow> Some [])"

record http_response =
  hr_ok :: bool
  hr_status :: int
  hr_contentType :: "string option"
  hr_hasJson :: bool
  hr_json :: "js_error + json"
  hr_body :: "(string list \<times> string res) option"

text \<open>What \<open>fetch\<close> comes back with.\<close>

type_synonym fetch_result = "js_error + http_response"

definition getResponseHeader :: "http_response \<Rightarrow> string" where
  "getResponseHeader response = (case hr_contentType response of None \<Rightarrow> [] | Some v \<Rightarrow> toLowerCase v)"

fun payloadIfError :: "json \<Rightarrow> jrecord" where
  "payloadIfError (JObj r) = (if isRuntimeErrorPayload (JObj r) then r else [])"
| "payloadIfError _ = []"

definition readRuntimeErrorPayload :: "http_response \<Rightarrow> jrecord" where
  "readRuntimeErrorPayload response =
     (if \<not> sublist ''application/json'' (getResponseHeader response) \<and> \<not> hr_hasJson response then []
      else case hr_json response of Inl e \<Rightarrow> [] | Inr payload \<Rightarrow> payloadIfError payload)"

definition buildRuntimeRequestErrorFromResponse :: "http_response \<Rightarrow> request_error" where
  "buildRuntimeRequestErrorFromResponse response =
     buildRuntimeRequestError (readRuntimeErrorPayload response) (hr_status response)"

section \<open>Posting a method\<close>

definition buildRuntimeEndpoint :: "string \<Rightarrow> string" where
  "buildRuntimeEndpoint runtimeUrl = (if suffix ''/'' runtimeUrl then runtimeUrl else runtimeUrl @ ''/'')"

definition buildRuntimeRequest :: "string \<Rightarrow> json option \<Rightarrow> json" where
  "buildRuntimeRequest methodName body =
     JObj ((''method'', JStr methodName) # (case body of None \<Rightarrow> [] | Some b \<Rightarrow> [(''body'', b)]))"

text \<open>\<open>aborted\<close> is \<open>signal?.aborted === true\<close> when the error is caught.\<close>

definition mapFetchError :: "bool \<Rightarrow> js_error \<Rightarrow> js_error" where
  "mapFetchError aborted e =
     (if isAbortLikeError e \<or> aborted then createAbortError else throwMappedRuntimeTransportError e)"

definition postRuntimeMethod ::
  "(string \<Rightarrow> json \<Rightarrow> fetch_result) \<Rightarrow> bool \<Rightarrow> string \<Rightarrow> string \<Rightarrow> json option \<Rightarrow> js_error + json" where
  "postRuntimeMethod fetch aborted runtimeUrl methodName body =
     (case fetch (buildRuntimeEndpoint runtimeUrl) (buildRuntimeRequest methodName body) of
        Inl e \<Rightarrow> Inl (mapFetchError aborted e)
      | Inr response \<Rightarrow>
          (case hr_json response of
             Inl e \<Rightarrow> Inl e
           | Inr payload \<Rightarrow>
               if \<not> hr_ok response then
                 Inl (RequestFailure (buildRuntimeRequestError (payloadIfError payload) (hr_status response)))
               else if isRuntimeErrorPayload payload then
                 Inl (RequestFailure (buildRuntimeRequestError (payloadIfError payload) (hr_status response)))
               else Inr payload))"

definition fetchRuntimeRunStreamResponse ::
  "(string \<Rightarrow> json \<Rightarrow> fetch_result) \<Rightarrow> bool \<Rightarrow> string \<Rightarrow> string \<Rightarrow> js_error + (string list \<times> string res)" where
  "fetchRuntimeRunStreamResponse fetch aborted runtimeUrl runId =
     (case fetch (buildRuntimeEndpoint runtimeUrl)
        (buildRuntimeRequest ''run/stream'' (Some (JObj [(''runId'', JStr runId)]))) of
        Inl e \<Rightarrow> Inl (mapFetchError aborted e)
      | Inr response \<Rightarrow>
          if \<not> hr_ok response then Inl (RequestFailure (buildRuntimeRequestErrorFromResponse response))
          else (case hr_body response of
                  None \<Rightarrow> Inl (PlainFailure ''Runtime run stream response body is unavailable.'')
                | Some body \<Rightarrow> Inr body))"

section \<open>The bodies of the requests\<close>

definition routeRefJson :: "model_route_ref \<Rightarrow> json" where
  "routeRefJson r = JObj
     [(''routeKind'', JStr (routeKindString (rr_routeKind r))), (''profileId'', JStr (rr_profileId r)),
      (''modelId'', JStr (rr_modelId r))]"

definition serializeRuntimeModelRouteForRequest :: "model_route \<Rightarrow> js_error + json" where
  "serializeRuntimeModelRouteForRequest route =
     (case mr_routeRef route of
        Some (Some r) \<Rightarrow>
          Inr (JObj ((''routeRef'', routeRefJson r) #
            (case mr_catalogRevision route of
               None \<Rightarrow> []
             | Some v \<Rightarrow> if trim v = [] then [] else [(''catalogRevision'', JStr (trim v))])))
      | _ \<Rightarrow> Inl (PlainFailure ''Runtime model route request must include a stable routeRef.''))"

record message_payload =
  me_role :: string
  me_content :: string
  me_structuredPayload :: "jrecord option option"

definition optionalProp :: "string \<Rightarrow> json option \<Rightarrow> jrecord" where
  "optionalProp k v = (case v of None \<Rightarrow> [] | Some x \<Rightarrow> [(k, x)])"

definition nullableRecord :: "jrecord option \<Rightarrow> json" where
  "nullableRecord r = (case r of None \<Rightarrow> JNull | Some x \<Rightarrow> JObj x)"

definition messageJson :: "message_payload \<Rightarrow> json" where
  "messageJson m = JObj
     ([(''role'', JStr (me_role m)), (''content'', JStr (me_content m))] @
      optionalProp ''structuredPayload'' (map_option nullableRecord (me_structuredPayload m)))"

definition runtimePolicyJson :: "runtime_policy \<Rightarrow> json" where
  "runtimePolicyJson p = JObj
     ([(''schemaVersion'', JNum (of_int (rp_schemaVersion p))), (''defaultMode'', JStr (permissionModeString (rp_defaultMode p))),
       (''toolModes'', JObj (map (\<lambda>(t, m). (t, JStr (permissionModeString m))) (rp_toolModes p)))] @
      optionalProp ''toolTimeoutSeconds''
        (map_option (\<lambda>ts. JObj (map (\<lambda>(t, n). (t, JNum (of_int n))) ts)) (rp_toolTimeoutSeconds p)) @
      optionalProp ''toolTimeoutActions''
        (map_option (\<lambda>ts. JObj (map (\<lambda>(t, a). (t, JStr a)) ts)) (rp_toolTimeoutActions p)))"

record run_start_input =
  rq_threadId :: string
  rq_agent :: "string option"
  rq_message :: message_payload
  rq_modelRoute :: model_route
  rq_thinkingSelection :: "thinking_selection option"
  rq_thinkingCapabilityOverride :: "jrecord option option"
  rq_enabledTools :: "string list"
  rq_toolPermissionPolicy :: "runtime_policy option"
  rq_debugModeEnabled :: "bool option"
  rq_requestOptions :: "jrecord option"

definition runStartBody :: "run_start_input \<Rightarrow> js_error + json" where
  "runStartBody i =
     (case serializeRuntimeModelRouteForRequest (rq_modelRoute i) of
        Inl e \<Rightarrow> Inl e
      | Inr route \<Rightarrow> Inr (JObj
          ((''threadId'', JStr (rq_threadId i)) # optionalProp ''agent'' (map_option JStr (rq_agent i)) @
           [(''message'', messageJson (rq_message i)),
            (''policy'', JObj
              ((''modelRoute'', route) #
               optionalProp ''thinkingSelection'' (serializeRuntimeThinkingSelection (rq_thinkingSelection i)) @
               optionalProp ''thinkingCapabilityOverride'' (map_option JObj (Option.bind (rq_thinkingCapabilityOverride i) id)) @
               (''enabledTools'', JArr (map JStr (rq_enabledTools i))) #
               optionalProp ''toolPermissionPolicy'' (map_option runtimePolicyJson (rq_toolPermissionPolicy i)) @
               optionalProp ''debugModeEnabled'' (map_option JBool (rq_debugModeEnabled i)) @
               [(''requestOptions'', JObj (case rq_requestOptions i of None \<Rightarrow> [] | Some r \<Rightarrow> r))]))])))"

text \<open>The response is used as it is: the type of the result is an assertion, not a check.\<close>

definition startRuntimeRun ::
  "(string \<Rightarrow> json \<Rightarrow> fetch_result) \<Rightarrow> bool \<Rightarrow> string \<Rightarrow> run_start_input \<Rightarrow> js_error + json" where
  "startRuntimeRun fetch aborted runtimeUrl i =
     (case runStartBody i of
        Inl e \<Rightarrow> Inl e
      | Inr body \<Rightarrow> postRuntimeMethod fetch aborted runtimeUrl ''run/start'' (Some body))"

definition cancelRuntimeRun :: "(string \<Rightarrow> json \<Rightarrow> fetch_result) \<Rightarrow> bool \<Rightarrow> string \<Rightarrow> string \<Rightarrow> js_error + json" where
  "cancelRuntimeRun fetch aborted runtimeUrl runId =
     postRuntimeMethod fetch aborted runtimeUrl ''run/cancel'' (Some (JObj [(''runId'', JStr runId)]))"

definition listRuntimeAgents :: "(string \<Rightarrow> json \<Rightarrow> fetch_result) \<Rightarrow> string \<Rightarrow> js_error + json" where
  "listRuntimeAgents fetch runtimeUrl = postRuntimeMethod fetch False runtimeUrl ''agents/list'' None"

definition createRuntimeThread :: "(string \<Rightarrow> json \<Rightarrow> fetch_result) \<Rightarrow> bool \<Rightarrow> string \<Rightarrow> string \<Rightarrow> js_error + json" where
  "createRuntimeThread fetch aborted runtimeUrl agentId =
     postRuntimeMethod fetch aborted runtimeUrl ''thread/create'' (Some (JObj [(''agentId'', JStr agentId)]))"

definition getRuntimeThread :: "(string \<Rightarrow> json \<Rightarrow> fetch_result) \<Rightarrow> bool \<Rightarrow> string \<Rightarrow> string \<Rightarrow> js_error + json" where
  "getRuntimeThread fetch aborted runtimeUrl threadId =
     postRuntimeMethod fetch aborted runtimeUrl ''thread/get'' (Some (JObj [(''threadId'', JStr threadId)]))"

definition getRuntimeThinkingCapability ::
  "(string \<Rightarrow> json \<Rightarrow> fetch_result) \<Rightarrow> bool \<Rightarrow> string \<Rightarrow> string \<Rightarrow> model_route \<Rightarrow> jrecord option option \<Rightarrow> js_error + json" where
  "getRuntimeThinkingCapability fetch aborted runtimeUrl sessionId route override =
     (case serializeRuntimeModelRouteForRequest route of
        Inl e \<Rightarrow> Inl e
      | Inr r \<Rightarrow> postRuntimeMethod fetch aborted runtimeUrl ''thinking/capability/get'' (Some (JObj
          ([(''sessionId'', JStr sessionId), (''modelRoute'', r)] @
           optionalProp ''thinkingCapabilityOverride'' (map_option JObj (Option.bind override id))))))"

section \<open>The stream of a run\<close>

text \<open>Errors of the stream parser and of the protocol are plain; \<open>abortLike\<close> is the test of the \<open>catch\<close> block.\<close>

fun streamError :: "run_error \<Rightarrow> js_error" where
  "streamError AbortError = createAbortError"
| "streamError (RunError m) = PlainFailure m"

definition streamEnd :: "run_error + unit \<Rightarrow> js_error + unit" where
  "streamEnd r = (case r of Inl e \<Rightarrow> Inl (streamError e) | Inr u \<Rightarrow> Inr u)"

definition streamRuntimeRun ::
  "(string \<Rightarrow> json res) \<Rightarrow> (string \<Rightarrow> bool) \<Rightarrow> (string \<Rightarrow> json \<Rightarrow> fetch_result) \<Rightarrow> bool \<Rightarrow> string \<Rightarrow> string \<Rightarrow>
   run_event list \<times> (js_error + unit)" where
  "streamRuntimeRun jp abortLike fetch aborted runtimeUrl runId =
     (case fetchRuntimeRunStreamResponse fetch aborted runtimeUrl runId of
        Inl e \<Rightarrow> ([], Inl e)
      | Inr (chunks, fin) \<Rightarrow>
          (let r = consumeRuntimeRunEventStream abortLike (parseRuntimeRunEventStream jp chunks fin)
           in (fst r, streamEnd (snd r))))"

end
