(* ===== verification/Provider_Catalog.thy ===== *)
theory Provider_Catalog
  imports Wire_Laws Js_Text
begin

text \<open>
  The catalog of model providers: \<open>src/provider-catalog.ts\<close>. The registry is a JSON document (data, a parameter);
  \<open>parseProviderCatalog\<close> checks it when the module is loaded, and every other function works on the
  parsed catalog. The functions whose names the stream validators already use carry the suffix \<open>C\<close>.
\<close>

section \<open>Data\<close>

datatype runtime_status = StatusEnabled | StatusCatalogOnly | StatusLegacyUnsupported

datatype auth_kind = AuthApiKey | AuthNone

datatype base_url_mode = BaseFixed | BaseOptional | BaseRequired

datatype model_config_mode = ModelsUserDefined | ModelsCatalogSeeded | ModelsReadOnly

record auth_schema =
  as_defaultKind :: auth_kind
  as_supportedKinds :: "auth_kind list"
  as_secretFields :: "string list"
  as_helpText :: "string option"

record base_url_policy =
  bu_mode :: base_url_mode
  bu_defaultBaseUrl :: "string option"

record model_config_policy =
  mc_mode :: model_config_mode
  mc_allowCustomModels :: bool
  mc_defaultModelRequired :: bool
  mc_allowModelDisplayNameOverride :: "bool option"

record capability_hints =
  ch_streaming :: "bool option"
  ch_tools :: "bool option"
  ch_vision :: "bool option"
  ch_reasoning :: "bool option"
  ch_search :: "bool option"

record catalog_entry =
  ce_providerId :: string
  ce_displayName :: string
  ce_endpointType :: string
  ce_runtimeStatus :: runtime_status
  ce_adapterId :: string
  ce_authSchema :: auth_schema
  ce_baseUrlPolicy :: base_url_policy
  ce_modelConfigPolicy :: model_config_policy
  ce_capabilityHints :: capability_hints
  ce_aliases :: "string list option"
  ce_notes :: "string option"

record provider_catalog =
  pc_catalogRevision :: string
  pc_providers :: "catalog_entry list"

record provider_select_option =
  po_value :: string
  po_label :: string
  po_hint :: "string option"

section \<open>Checks\<close>

fun asRecordC :: "json option \<Rightarrow> jrecord res" where
  "asRecordC (Some (JObj r)) = Inr r"
| "asRecordC _ = Inl ''Provider catalog payload must be an object.''"

definition requireNonEmptyStringC :: "json option \<Rightarrow> string \<Rightarrow> string res" where
  "requireNonEmptyStringC v label =
     andThen (requireString v label) (\<lambda>s.
       if trim s = [] then Inl (label @ '' must not be empty.'') else Inr (trim s))"

fun optionalString :: "json option \<Rightarrow> string option" where
  "optionalString (Some (JStr s)) = (if trim s = [] then None else Some (trim s))"
| "optionalString _ = None"

fun optionalBoolean :: "json option \<Rightarrow> bool option" where
  "optionalBoolean (Some (JBool b)) = Some b"
| "optionalBoolean _ = None"

text \<open>\<open>/^[a-z0-9]+(?:-[a-z0-9]+)*$/\<close>\<close>

definition isLowerAlnum :: "char \<Rightarrow> bool" where
  "isLowerAlnum c \<longleftrightarrow> (let n = (of_char c :: nat) in 97 \<le> n \<and> n \<le> 122 \<or> 48 \<le> n \<and> n \<le> 57)"

definition isIdentifier :: "string \<Rightarrow> bool" where
  "isIdentifier s \<longleftrightarrow> list_all (\<lambda>part. part \<noteq> [] \<and> list_all isLowerAlnum part) (splitOn CHR ''-'' s)"

definition requireIdentifier :: "json option \<Rightarrow> string \<Rightarrow> string res" where
  "requireIdentifier v label =
     andThen (requireNonEmptyStringC v label) (\<lambda>s.
       if isIdentifier s then Inr s else Inl (label @ '' must match ^[a-z0-9]+(?:-[a-z0-9]+)*$.''))"

text \<open>The allowed literals, each with the value it stands for.\<close>

definition requireStringEnum :: "(string \<times> 'a) list \<Rightarrow> json option \<Rightarrow> string \<Rightarrow> 'a res" where
  "requireStringEnum allowed v label =
     andThen (requireNonEmptyStringC v label) (\<lambda>s.
       case map_of allowed s of
         None \<Rightarrow> Inl (label @ '' must be one of: '' @ joinWith '', '' (map fst allowed) @ ''.'')
       | Some x \<Rightarrow> Inr x)"

definition runtimeStatuses :: "(string \<times> runtime_status) list" where
  "runtimeStatuses =
     [(''enabled'', StatusEnabled), (''catalog-only'', StatusCatalogOnly), (''legacy-unsupported'', StatusLegacyUnsupported)]"

definition authKinds :: "(string \<times> auth_kind) list" where
  "authKinds = [(''api-key'', AuthApiKey), (''none'', AuthNone)]"

definition baseUrlModes :: "(string \<times> base_url_mode) list" where
  "baseUrlModes = [(''fixed'', BaseFixed), (''optional'', BaseOptional), (''required'', BaseRequired)]"

definition modelConfigModes :: "(string \<times> model_config_mode) list" where
  "modelConfigModes =
     [(''user-defined'', ModelsUserDefined), (''catalog-seeded'', ModelsCatalogSeeded), (''read-only'', ModelsReadOnly)]"

definition requireRuntimeStatus :: "json option \<Rightarrow> string \<Rightarrow> runtime_status res" where
  "requireRuntimeStatus v label = requireStringEnum runtimeStatuses v label"

definition requireAuthKind :: "json option \<Rightarrow> string \<Rightarrow> auth_kind res" where
  "requireAuthKind v label = requireStringEnum authKinds v label"

text \<open>\<open>Array.isArray(value) ? value.map(...) : []\<close>, where the callback may throw\<close>

fun mapIfArray :: "(json \<Rightarrow> nat \<Rightarrow> 'a res) \<Rightarrow> json option \<Rightarrow> 'a list res" where
  "mapIfArray f (Some (JArr xs)) = traverseIdx f 0 xs"
| "mapIfArray f _ = Inr []"

definition providerLabel :: "nat \<Rightarrow> string \<Rightarrow> string" where
  "providerLabel index path = indexLabel ''provider'' index @ ''.'' @ path"

section \<open>Parsing the registry\<close>

definition parseAuthSchema :: "json option \<Rightarrow> nat \<Rightarrow> auth_schema res" where
  "parseAuthSchema input index =
     andThen (asRecordC input) (\<lambda>r.
     andThen (requireAuthKind (prop_of r ''defaultKind'') (providerLabel index ''authSchema.defaultKind'')) (\<lambda>defaultKind.
     andThen (mapIfArray (\<lambda>v i. requireAuthKind (Some v) (indexLabel (providerLabel index ''authSchema.supportedKinds'') i))
       (prop_of r ''supportedKinds'')) (\<lambda>supportedKinds.
     if supportedKinds = [] then
       Inl (providerLabel index ''authSchema.supportedKinds'' @ '' must contain at least one auth kind.'')
     else if defaultKind \<notin> set supportedKinds then
       Inl (providerLabel index ''authSchema.defaultKind'' @ '' must exist in supportedKinds.'')
     else
     andThen (mapIfArray (\<lambda>v i. requireNonEmptyStringC (Some v) (indexLabel (providerLabel index ''authSchema.secretFields'') i))
       (prop_of r ''secretFields'')) (\<lambda>secretFields.
     Inr \<lparr>as_defaultKind = defaultKind, as_supportedKinds = uniqueFrom [] supportedKinds,
          as_secretFields = uniqueFrom [] secretFields, as_helpText = optionalString (prop_of r ''helpText'')\<rparr>))))"

definition parseBaseUrlPolicy :: "json option \<Rightarrow> nat \<Rightarrow> base_url_policy res" where
  "parseBaseUrlPolicy input index =
     andThen (asRecordC input) (\<lambda>r.
     andThen (requireStringEnum baseUrlModes (prop_of r ''mode'') (providerLabel index ''baseUrlPolicy.mode'')) (\<lambda>mode.
     Inr \<lparr>bu_mode = mode, bu_defaultBaseUrl = optionalString (prop_of r ''defaultBaseUrl'')\<rparr>))"

definition parseModelConfigPolicy :: "json option \<Rightarrow> nat \<Rightarrow> model_config_policy res" where
  "parseModelConfigPolicy input index =
     andThen (asRecordC input) (\<lambda>r.
     andThen (requireStringEnum modelConfigModes (prop_of r ''mode'') (providerLabel index ''modelConfigPolicy.mode'')) (\<lambda>mode.
     andThen (requireBoolean (prop_of r ''allowCustomModels'') (providerLabel index ''modelConfigPolicy.allowCustomModels'')) (\<lambda>allow.
     andThen (requireBoolean (prop_of r ''defaultModelRequired'') (providerLabel index ''modelConfigPolicy.defaultModelRequired'')) (\<lambda>needed.
     Inr \<lparr>mc_mode = mode, mc_allowCustomModels = allow, mc_defaultModelRequired = needed,
          mc_allowModelDisplayNameOverride = optionalBoolean (prop_of r ''allowModelDisplayNameOverride'')\<rparr>))))"

definition parseCapabilityHints :: "json option \<Rightarrow> capability_hints res" where
  "parseCapabilityHints input =
     andThen (asRecordC input) (\<lambda>r.
     Inr \<lparr>ch_streaming = optionalBoolean (prop_of r ''streaming''), ch_tools = optionalBoolean (prop_of r ''tools''),
          ch_vision = optionalBoolean (prop_of r ''vision''), ch_reasoning = optionalBoolean (prop_of r ''reasoning''),
          ch_search = optionalBoolean (prop_of r ''search'')\<rparr>)"

definition parseAliases :: "json option \<Rightarrow> nat \<Rightarrow> string list res" where
  "parseAliases input index =
     andThen (mapIfArray (\<lambda>v i. requireIdentifier (Some v) (indexLabel (providerLabel index ''aliases'') i)) input)
       (\<lambda>aliases. Inr (uniqueFrom [] aliases))"

definition parseProviderCatalogEntry :: "json option \<Rightarrow> nat \<Rightarrow> catalog_entry res" where
  "parseProviderCatalogEntry input index =
     andThen (asRecordC input) (\<lambda>r.
     andThen (requireIdentifier (prop_of r ''providerId'') (providerLabel index ''providerId'')) (\<lambda>providerId.
     andThen (requireNonEmptyStringC (prop_of r ''displayName'') (providerLabel index ''displayName'')) (\<lambda>displayName.
     andThen (requireIdentifier (prop_of r ''endpointType'') (providerLabel index ''endpointType'')) (\<lambda>endpointType.
     andThen (requireRuntimeStatus (prop_of r ''runtimeStatus'') (providerLabel index ''runtimeStatus'')) (\<lambda>runtimeStatus.
     andThen (requireIdentifier (prop_of r ''adapterId'') (providerLabel index ''adapterId'')) (\<lambda>adapterId.
     andThen (parseAuthSchema (prop_of r ''authSchema'') index) (\<lambda>authSchema.
     andThen (parseBaseUrlPolicy (prop_of r ''baseUrlPolicy'') index) (\<lambda>baseUrlPolicy.
     andThen (parseModelConfigPolicy (prop_of r ''modelConfigPolicy'') index) (\<lambda>modelConfigPolicy.
     andThen (parseCapabilityHints (prop_of r ''capabilityHints'')) (\<lambda>capabilityHints.
     andThen (parseAliases (prop_of r ''aliases'') index) (\<lambda>aliases.
     Inr \<lparr>ce_providerId = providerId, ce_displayName = displayName, ce_endpointType = endpointType,
          ce_runtimeStatus = runtimeStatus, ce_adapterId = adapterId, ce_authSchema = authSchema,
          ce_baseUrlPolicy = baseUrlPolicy, ce_modelConfigPolicy = modelConfigPolicy, ce_capabilityHints = capabilityHints,
          ce_aliases = (if aliases = [] then None else Some aliases), ce_notes = optionalString (prop_of r ''notes'')\<rparr>)))))))))))"

definition parseProviderCatalog :: "json option \<Rightarrow> provider_catalog res" where
  "parseProviderCatalog input =
     andThen (asRecordC input) (\<lambda>r.
     andThen (requireNonEmptyStringC (prop_of r ''catalogRevision'') ''provider catalog revision'') (\<lambda>revision.
     andThen (mapIfArray (\<lambda>v i. parseProviderCatalogEntry (Some v) i) (prop_of r ''providers'')) (\<lambda>providers.
     if providers = [] then Inl ''Provider catalog must define at least one provider entry.''
     else Inr \<lparr>pc_catalogRevision = revision, pc_providers = providers\<rparr>)))"

section \<open>The catalog\<close>

definition cloneProviderCatalogEntry :: "catalog_entry \<Rightarrow> catalog_entry" where
  "cloneProviderCatalogEntry e =
     e\<lparr>ce_authSchema := (ce_authSchema e)\<lparr>as_supportedKinds := as_supportedKinds (ce_authSchema e),
        as_secretFields := as_secretFields (ce_authSchema e)\<rparr>,
      ce_aliases := (case ce_aliases e of None \<Rightarrow> None | Some aliases \<Rightarrow> Some aliases)\<rparr>"

definition getProviderCatalog :: "provider_catalog \<Rightarrow> provider_catalog" where
  "getProviderCatalog catalog =
     \<lparr>pc_catalogRevision = pc_catalogRevision catalog, pc_providers = map cloneProviderCatalogEntry (pc_providers catalog)\<rparr>"

definition listProviderCatalogEntries :: "provider_catalog \<Rightarrow> catalog_entry list" where
  "listProviderCatalogEntries catalog = map cloneProviderCatalogEntry (pc_providers catalog)"

definition listProviderCatalogEntriesByStatus :: "provider_catalog \<Rightarrow> runtime_status option \<Rightarrow> catalog_entry list" where
  "listProviderCatalogEntriesByStatus catalog status =
     (case status of
        None \<Rightarrow> listProviderCatalogEntries catalog
      | Some s \<Rightarrow> map cloneProviderCatalogEntry (filter (\<lambda>e. ce_runtimeStatus e = s) (pc_providers catalog)))"

definition normalizeProviderCatalogIdentifier :: "string \<Rightarrow> string" where
  "normalizeProviderCatalogIdentifier v = toLowerCase (trim v)"

text \<open>The map as an association list; \<open>Map.set\<close> replaces the value of a key that is there.\<close>

definition entryKeys :: "catalog_entry \<Rightarrow> string list" where
  "entryKeys e =
     normalizeProviderCatalogIdentifier (ce_providerId e) #
     map normalizeProviderCatalogIdentifier (case ce_aliases e of None \<Rightarrow> [] | Some aliases \<Rightarrow> aliases)"

definition buildProviderCatalogEntryMap :: "catalog_entry list \<Rightarrow> (string \<times> catalog_entry) list" where
  "buildProviderCatalogEntryMap entries =
     fold (\<lambda>e m. fold (\<lambda>k. AList.update k e) (entryKeys e) m) entries []"

definition getProviderCatalogEntry :: "provider_catalog \<Rightarrow> string \<Rightarrow> catalog_entry option" where
  "getProviderCatalogEntry catalog providerId =
     (if normalizeProviderCatalogIdentifier providerId = [] then None
      else map_option cloneProviderCatalogEntry
        (map_of (buildProviderCatalogEntryMap (pc_providers catalog)) (normalizeProviderCatalogIdentifier providerId)))"

definition requireProviderCatalogEntry :: "provider_catalog \<Rightarrow> string \<Rightarrow> catalog_entry res" where
  "requireProviderCatalogEntry catalog providerId =
     (case getProviderCatalogEntry catalog providerId of
        None \<Rightarrow> Inl (''Unknown provider catalog entry '' @ [CHR 0x27] @ providerId @ [CHR 0x27] @ ''.'')
      | Some e \<Rightarrow> Inr e)"

text \<open>A catalog has at least one provider; \<open>None\<close> is the exception that cloning \<open>undefined\<close> would raise.\<close>

definition getDefaultProviderCatalogEntry :: "provider_catalog \<Rightarrow> catalog_entry option" where
  "getDefaultProviderCatalogEntry catalog =
     (case find (\<lambda>e. ce_runtimeStatus e = StatusEnabled) (pc_providers catalog) of
        Some e \<Rightarrow> Some (cloneProviderCatalogEntry e)
      | None \<Rightarrow> (case pc_providers catalog of [] \<Rightarrow> None | e # _ \<Rightarrow> Some (cloneProviderCatalogEntry e)))"

fun describeProviderRuntimeStatus :: "runtime_status \<Rightarrow> string option" where
  "describeProviderRuntimeStatus StatusEnabled = None"
| "describeProviderRuntimeStatus StatusCatalogOnly = Some [CHR 0xE4, CHR 0xBB, CHR 0x85, CHR 0xE6, CHR 0x95, CHR 0xB0, CHR 0xE6, CHR 0x8D, CHR 0xAE, CHR 0xE5, CHR 0xB1, CHR 0x82, CHR 0xE5, CHR 0x85, CHR 0xBC, CHR 0xE5, CHR 0xAE, CHR 0xB9]"
| "describeProviderRuntimeStatus StatusLegacyUnsupported = Some [CHR 0xE5, CHR 0x8E, CHR 0x86, CHR 0xE5, CHR 0x8F, CHR 0xB2, CHR 0xE5, CHR 0x85, CHR 0xBC, CHR 0xE5, CHR 0xAE, CHR 0xB9, CHR 0x20, CHR 0x2F, CHR 0x20, CHR 0xE5, CHR 0xBD, CHR 0x93, CHR 0xE5, CHR 0x89, CHR 0x8D, CHR 0xE6, CHR 0x9C, CHR 0xAA, CHR 0xE5, CHR 0x90, CHR 0xAF, CHR 0xE7, CHR 0x94, CHR 0xA8]"

definition createProviderSelectOptions :: "provider_catalog \<Rightarrow> provider_select_option list" where
  "createProviderSelectOptions catalog =
     map (\<lambda>e. \<lparr>po_value = ce_providerId e, po_label = ce_displayName e,
            po_hint = describeProviderRuntimeStatus (ce_runtimeStatus e)\<rparr>) (pc_providers catalog)"


section \<open>What the parser accepts\<close>

lemma asRecordC_eq_Inr [simp]: "asRecordC v = Inr r \<longleftrightarrow> v = Some (JObj r)"
  by (cases v rule: asRecordC.cases) auto

lemma requireNonEmptyStringC_trimmed: "requireNonEmptyStringC v l = Inr s \<Longrightarrow> trimmed s"
  by (auto simp: requireNonEmptyStringC_def trimmed_trim split: if_splits)

lemma requireNonEmptyStringC_read [simp]: "trimmed s \<Longrightarrow> requireNonEmptyStringC (Some (JStr s)) l = Inr s"
  by (auto simp: requireNonEmptyStringC_def trimmed_def)

lemma optionalText_ok: "okOption trimmed (optionalString v)"
  by (cases v rule: optionalString.cases) (auto simp: trimmed_trim)

lemma optionalText_read [simp]: "okOption trimmed s \<Longrightarrow> optionalString (map_option JStr s) = s"
  by (cases s) (auto simp: trimmed_def)

lemma optionalBoolean_read [simp]: "optionalBoolean (map_option JBool b) = b"
  by (cases b) auto

definition plainIdent :: "string \<Rightarrow> bool" where
  "plainIdent s \<longleftrightarrow> trimmed s \<and> isIdentifier s"

lemma requireIdentifier_ok: "requireIdentifier v l = Inr s \<Longrightarrow> plainIdent s"
  by (auto simp: requireIdentifier_def plainIdent_def requireNonEmptyStringC_trimmed split: if_splits)

lemma requireIdentifier_read [simp]: "plainIdent s \<Longrightarrow> requireIdentifier (Some (JStr s)) l = Inr s"
  by (simp add: requireIdentifier_def plainIdent_def)

text \<open>The literals of the catalog: the text of a value is read as the value.\<close>

fun statusText :: "runtime_status \<Rightarrow> string" where
  "statusText StatusEnabled = ''enabled''"
| "statusText StatusCatalogOnly = ''catalog-only''"
| "statusText StatusLegacyUnsupported = ''legacy-unsupported''"

fun authKindText :: "auth_kind \<Rightarrow> string" where
  "authKindText AuthApiKey = ''api-key''"
| "authKindText AuthNone = ''none''"

fun baseUrlModeText :: "base_url_mode \<Rightarrow> string" where
  "baseUrlModeText BaseFixed = ''fixed''"
| "baseUrlModeText BaseOptional = ''optional''"
| "baseUrlModeText BaseRequired = ''required''"

fun modelConfigModeText :: "model_config_mode \<Rightarrow> string" where
  "modelConfigModeText ModelsUserDefined = ''user-defined''"
| "modelConfigModeText ModelsCatalogSeeded = ''catalog-seeded''"
| "modelConfigModeText ModelsReadOnly = ''read-only''"

locale enum_literals =
  fixes allowed :: "(string \<times> 'a) list" and text_of :: "'a \<Rightarrow> string"
  assumes listed: "map_of allowed (text_of x) = Some x" and trimmed_text: "trimmed (text_of x)"
begin

lemma enum_read: "requireStringEnum allowed (Some (JStr (text_of x))) l = Inr x"
  by (simp add: requireStringEnum_def listed trimmed_text)

lemma enum_list_read: "mapIfArray (\<lambda>v i. requireStringEnum allowed (Some v) (lab i)) (Some (JArr (map (JStr \<circ> text_of) xs))) = Inr xs"
  using traverseIdx_map_Inr [of xs "\<lambda>v i. requireStringEnum allowed (Some v) (lab i)" "JStr \<circ> text_of"] by (simp add: enum_read)

end

interpretation status_text: enum_literals runtimeStatuses statusText
proof
  show "map_of runtimeStatuses (statusText x) = Some x" for x by (cases x) (simp_all add: runtimeStatuses_def)
  show "trimmed (statusText x)" for x by (cases x; simp; rule trimmed_ascii; simp add: visible_def)
qed

interpretation auth_text: enum_literals authKinds authKindText
proof
  show "map_of authKinds (authKindText x) = Some x" for x by (cases x) (simp_all add: authKinds_def)
  show "trimmed (authKindText x)" for x by (cases x; simp; rule trimmed_ascii; simp add: visible_def)
qed

interpretation base_url_text: enum_literals baseUrlModes baseUrlModeText
proof
  show "map_of baseUrlModes (baseUrlModeText x) = Some x" for x by (cases x) (simp_all add: baseUrlModes_def)
  show "trimmed (baseUrlModeText x)" for x by (cases x; simp; rule trimmed_ascii; simp add: visible_def)
qed

interpretation model_config_text: enum_literals modelConfigModes modelConfigModeText
proof
  show "map_of modelConfigModes (modelConfigModeText x) = Some x" for x by (cases x) (simp_all add: modelConfigModes_def)
  show "trimmed (modelConfigModeText x)" for x by (cases x; simp; rule trimmed_ascii; simp add: visible_def)
qed

definition authOk :: "auth_schema \<Rightarrow> bool" where
  "authOk a \<longleftrightarrow> distinct (as_supportedKinds a) \<and> as_defaultKind a \<in> set (as_supportedKinds a) \<and>
     distinct (as_secretFields a) \<and> list_all trimmed (as_secretFields a) \<and> okOption trimmed (as_helpText a)"

definition entryOk :: "catalog_entry \<Rightarrow> bool" where
  "entryOk e \<longleftrightarrow>
     plainIdent (ce_providerId e) \<and> trimmed (ce_displayName e) \<and> plainIdent (ce_endpointType e) \<and> plainIdent (ce_adapterId e) \<and>
     authOk (ce_authSchema e) \<and> okOption trimmed (bu_defaultBaseUrl (ce_baseUrlPolicy e)) \<and>
     okOption (\<lambda>aliases. aliases \<noteq> [] \<and> distinct aliases \<and> list_all plainIdent aliases) (ce_aliases e) \<and>
     okOption trimmed (ce_notes e)"

definition catalogOk :: "provider_catalog \<Rightarrow> bool" where
  "catalogOk c \<longleftrightarrow> trimmed (pc_catalogRevision c) \<and> pc_providers c \<noteq> [] \<and> list_all entryOk (pc_providers c)"

text \<open>The registry document of a catalog.\<close>

definition authJson :: "auth_schema \<Rightarrow> json" where
  "authJson a = JObj
     ([(''defaultKind'', JStr (authKindText (as_defaultKind a))),
       (''supportedKinds'', JArr (map (JStr \<circ> authKindText) (as_supportedKinds a))),
       (''secretFields'', JArr (map JStr (as_secretFields a)))] @ optProp ''helpText'' JStr (as_helpText a))"

definition baseUrlJson :: "base_url_policy \<Rightarrow> json" where
  "baseUrlJson p = JObj ((''mode'', JStr (baseUrlModeText (bu_mode p))) # optProp ''defaultBaseUrl'' JStr (bu_defaultBaseUrl p))"

definition modelConfigJson :: "model_config_policy \<Rightarrow> json" where
  "modelConfigJson p = JObj
     ([(''mode'', JStr (modelConfigModeText (mc_mode p))), (''allowCustomModels'', JBool (mc_allowCustomModels p)),
       (''defaultModelRequired'', JBool (mc_defaultModelRequired p))] @
      optProp ''allowModelDisplayNameOverride'' JBool (mc_allowModelDisplayNameOverride p))"

definition hintsJson :: "capability_hints \<Rightarrow> json" where
  "hintsJson h = JObj
     (optProp ''streaming'' JBool (ch_streaming h) @ optProp ''tools'' JBool (ch_tools h) @ optProp ''vision'' JBool (ch_vision h) @
      optProp ''reasoning'' JBool (ch_reasoning h) @ optProp ''search'' JBool (ch_search h))"

definition entryJson :: "catalog_entry \<Rightarrow> json" where
  "entryJson e = JObj
     ([(''providerId'', JStr (ce_providerId e)), (''displayName'', JStr (ce_displayName e)),
       (''endpointType'', JStr (ce_endpointType e)), (''runtimeStatus'', JStr (statusText (ce_runtimeStatus e))),
       (''adapterId'', JStr (ce_adapterId e)), (''authSchema'', authJson (ce_authSchema e)),
       (''baseUrlPolicy'', baseUrlJson (ce_baseUrlPolicy e)), (''modelConfigPolicy'', modelConfigJson (ce_modelConfigPolicy e)),
       (''capabilityHints'', hintsJson (ce_capabilityHints e))] @
      optProp ''aliases'' (\<lambda>aliases. JArr (map JStr aliases)) (ce_aliases e) @ optProp ''notes'' JStr (ce_notes e))"

definition catalogJson :: "provider_catalog \<Rightarrow> json" where
  "catalogJson c = JObj
     [(''catalogRevision'', JStr (pc_catalogRevision c)), (''providers'', JArr (map entryJson (pc_providers c)))]"

lemma mapIfArray_all:
  assumes "mapIfArray f v = Inr ys" and "\<And>x i y. f x i = Inr y \<Longrightarrow> P y"
  shows "list_all P ys"
proof (cases "\<exists>xs. v = Some (JArr xs)")
  case True
  then show ?thesis using assms traverseIdx_all [where f = f and P = P] by (fastforce simp: list_all_iff)
next
  case False
  then have "ys = []" using assms(1) by (cases "(f, v)" rule: mapIfArray.cases) auto
  then show ?thesis by simp
qed

lemma mapIfArray_read:
  assumes "\<And>x i. x \<in> set xs \<Longrightarrow> f (g x) i = Inr x"
  shows "mapIfArray f (Some (JArr (map g xs))) = Inr xs"
  using assms by (auto intro: traverseIdx_map_Inr)

lemma parseAuth_ok: "parseAuthSchema v i = Inr a \<Longrightarrow> authOk a"
  by (auto simp: parseAuthSchema_def authOk_def uniqueFrom_set optionalText_ok list_all_iff split: if_splits
      dest!: mapIfArray_all [where P = trimmed] dest: requireNonEmptyStringC_trimmed)

lemma parseAliases_ok: "parseAliases v i = Inr xs \<Longrightarrow> distinct xs \<and> list_all plainIdent xs"
  by (auto simp: parseAliases_def uniqueFrom_set list_all_iff dest!: mapIfArray_all [where P = plainIdent] dest: requireIdentifier_ok)

lemma parseEntry_ok: "parseProviderCatalogEntry v i = Inr e \<Longrightarrow> entryOk e"
  by (auto simp: parseProviderCatalogEntry_def entryOk_def parseBaseUrlPolicy_def optionalText_ok
      dest: requireIdentifier_ok requireNonEmptyStringC_trimmed parseAuth_ok parseAliases_ok)

lemma parseCatalog_ok: "parseProviderCatalog v = Inr c \<Longrightarrow> catalogOk c"
  by (auto simp: parseProviderCatalog_def catalogOk_def dest: requireNonEmptyStringC_trimmed
      dest!: mapIfArray_all [where P = entryOk] intro: parseEntry_ok split: if_splits)


section \<open>What the parser reads back\<close>

lemma enumC_read [simp]:
  "requireRuntimeStatus (Some (JStr (statusText s))) l = Inr s" "requireAuthKind (Some (JStr (authKindText a))) l = Inr a"
  "requireStringEnum baseUrlModes (Some (JStr (baseUrlModeText b))) l = Inr b"
  "requireStringEnum modelConfigModes (Some (JStr (modelConfigModeText m))) l = Inr m"
  by (simp_all add: requireRuntimeStatus_def requireAuthKind_def status_text.enum_read auth_text.enum_read
      base_url_text.enum_read model_config_text.enum_read)

declare mapIfArray.simps(1) [simp del]

lemma parseAuth_read [simp]: "authOk a \<Longrightarrow> parseAuthSchema (Some (authJson a)) i = Inr a"
  by (auto simp: parseAuthSchema_def authOk_def authJson_def mapIfArray_read list_all_iff uniqueFrom_id comp_def)

lemma parseBaseUrl_read [simp]: "okOption trimmed (bu_defaultBaseUrl p) \<Longrightarrow> parseBaseUrlPolicy (Some (baseUrlJson p)) i = Inr p"
  by (simp add: parseBaseUrlPolicy_def baseUrlJson_def)

lemma parseModelConfig_read [simp]: "parseModelConfigPolicy (Some (modelConfigJson p)) i = Inr p"
  by (simp add: parseModelConfigPolicy_def modelConfigJson_def)

lemma parseHints_read [simp]: "parseCapabilityHints (Some (hintsJson h)) = Inr h"
  by (simp add: parseCapabilityHints_def hintsJson_def)

lemma parseAliases_read:
  "parseAliases None i = Inr []"
  "distinct xs \<Longrightarrow> list_all plainIdent xs \<Longrightarrow> parseAliases (Some (JArr (map JStr xs))) i = Inr xs"
  by (auto simp: parseAliases_def mapIfArray_read list_all_iff uniqueFrom_id)

lemma parseEntry_read: "entryOk e \<Longrightarrow> parseProviderCatalogEntry (Some (entryJson e)) i = Inr e"
  by (cases "ce_aliases e") (simp_all add: parseProviderCatalogEntry_def entryOk_def entryJson_def parseAliases_read)

lemma parseCatalog_read: "catalogOk c \<Longrightarrow> parseProviderCatalog (Some (catalogJson c)) = Inr c"
  by (simp add: parseProviderCatalog_def catalogOk_def catalogJson_def mapIfArray_read parseEntry_read list_all_iff)

section \<open>Properties\<close>

text \<open>
  The registry parser lets exactly the well-formed catalogs through (identifiers of the given form, the default
  authentication among the supported ones, no empty text, at least one provider), and the document written for a catalog is
  read back as that catalog.
\<close>

theorem catalog_range:
  "((\<exists>v. parseProviderCatalog v = Inr c) \<longleftrightarrow> catalogOk c) \<and>
   (parseProviderCatalog (Some (catalogJson c)) = Inr c \<longleftrightarrow> catalogOk c)"
  using parseCatalog_ok parseCatalog_read by blast

section \<open>Looking up a provider\<close>

lemma cloneEntry_id [simp, clone_id]: "cloneProviderCatalogEntry = (\<lambda>e. e)"
  by (rule ext) (simp add: cloneProviderCatalogEntry_def split: option.split)

lemma getProviderCatalog_id [simp]: "getProviderCatalog c = c"
  by (cases c) (simp add: getProviderCatalog_def comp_def)

lemma map_of_fold_update: "map_of (fold (\<lambda>(k, e). AList.update k e) ps m) = map_of m ++ map_of (rev ps)"
proof (induction ps arbitrary: m)
  case (Cons p ps)
  then show ?case by (cases p) (simp add: update_conv' map_add_upd_left [symmetric] map_add_def fun_eq_iff split: option.split)
qed simp

definition keyedEntries :: "catalog_entry list \<Rightarrow> (string \<times> catalog_entry) list" where
  "keyedEntries entries = concat (map (\<lambda>e. map (\<lambda>k. (k, e)) (entryKeys e)) entries)"

lemma fold_keyed: "fold (\<lambda>k. AList.update k e) ks m = fold (\<lambda>(k, e). AList.update k e) (map (\<lambda>k. (k, e)) ks) m"
  by (induction ks arbitrary: m) simp_all

lemma buildMap_keyed: "buildProviderCatalogEntryMap entries = fold (\<lambda>(k, e). AList.update k e) (keyedEntries entries) []"
proof -
  have "fold (\<lambda>e m. fold (\<lambda>k. AList.update k e) (entryKeys e) m) entries m =
      fold (\<lambda>(k, e). AList.update k e) (keyedEntries entries) m" for m
    by (induction entries arbitrary: m) (simp_all add: keyedEntries_def fold_keyed)
  then show ?thesis by (simp add: buildProviderCatalogEntryMap_def)
qed

text \<open>A later entry takes over the keys that it shares with an earlier one.\<close>

lemma lookup_last:
  "getProviderCatalogEntry c s =
     (if normalizeProviderCatalogIdentifier s = [] then None
      else map_of (rev (keyedEntries (pc_providers c))) (normalizeProviderCatalogIdentifier s))"
  by (simp add: getProviderCatalogEntry_def buildMap_keyed map_of_fold_update option.map_ident)

lemma keyedEntries_set: "(k, e) \<in> set (keyedEntries es) \<longleftrightarrow> e \<in> set es \<and> k \<in> set (entryKeys e)"
  by (auto simp: keyedEntries_def)

lemma keyedEntries_keys: "map fst (keyedEntries es) = concat (map entryKeys es)"
  by (induction es) (simp_all add: keyedEntries_def comp_def)

text \<open>
  When no two providers share an identifier or an alias, looking up a text gives a provider exactly when the text is,
  up to case and surrounding white space, its identifier or one of its aliases.
\<close>

theorem catalog_lookup:
  assumes "distinct (concat (map entryKeys (pc_providers c)))"
  shows "getProviderCatalogEntry c s = Some e \<longleftrightarrow>
    e \<in> set (pc_providers c) \<and> normalizeProviderCatalogIdentifier s \<noteq> [] \<and>
    normalizeProviderCatalogIdentifier s \<in> set (entryKeys e)"
proof -
  have "distinct (map fst (rev (keyedEntries (pc_providers c))))"
    using assms by (simp add: keyedEntries_keys [symmetric] rev_map [symmetric])
  then show ?thesis
    by (auto simp: lookup_last map_of_eq_Some_iff keyedEntries_set)
qed

text \<open>The sample catalog of the witness has one provider with an alias.\<close>

definition sampleEntry :: catalog_entry where
  "sampleEntry =
     \<lparr>ce_providerId = ''openai'', ce_displayName = ''OpenAI'', ce_endpointType = ''chat'', ce_runtimeStatus = StatusEnabled,
      ce_adapterId = ''oa'',
      ce_authSchema = \<lparr>as_defaultKind = AuthApiKey, as_supportedKinds = [AuthApiKey], as_secretFields = [''apiKey''], as_helpText = None\<rparr>,
      ce_baseUrlPolicy = \<lparr>bu_mode = BaseOptional, bu_defaultBaseUrl = None\<rparr>,
      ce_modelConfigPolicy = \<lparr>mc_mode = ModelsUserDefined, mc_allowCustomModels = True, mc_defaultModelRequired = False,
        mc_allowModelDisplayNameOverride = None\<rparr>,
      ce_capabilityHints = \<lparr>ch_streaming = Some True, ch_tools = None, ch_vision = None, ch_reasoning = None, ch_search = None\<rparr>,
      ce_aliases = Some [''oa''], ce_notes = None\<rparr>"

definition sampleCatalog :: provider_catalog where
  "sampleCatalog = \<lparr>pc_catalogRevision = ''r1'', pc_providers = [sampleEntry]\<rparr>"

lemma sampleCatalog_keys: "concat (map entryKeys (pc_providers sampleCatalog)) = [''openai'', ''oa'']"
  by code_simp

theorem catalog_lookup_witness:
  "distinct (concat (map entryKeys (pc_providers sampleCatalog))) \<and> getProviderCatalogEntry sampleCatalog '' OA '' = Some sampleEntry"
proof -
  have norm: "normalizeProviderCatalogIdentifier '' OA '' = ''oa''" by code_simp
  have keys: "set (entryKeys sampleEntry) = {''openai'', ''oa''}"
    using arg_cong [OF sampleCatalog_keys, of set] by (simp add: sampleCatalog_def)
  show ?thesis
    using catalog_lookup [of sampleCatalog "'' OA ''" sampleEntry] norm keys sampleCatalog_keys
    by (simp add: sampleCatalog_def)
qed

end
