(* ===== verification/Model_Route.thy ===== *)
theory Model_Route
  imports Provider_Catalog
begin

text \<open>
  Routes of models as the values of a selection: \<open>src/workbench/settings/settings-workspace-model-options.ts\<close>,
  with the profiles of \<open>src/workbench/types.ts\<close>. A route is written with \<open>encodeURIComponent\<close>, which on a string of
  UTF-8 bytes escapes every byte that is not unreserved, and read back with \<open>decodeURIComponent\<close>, which throws
  on a malformed escape. The provider catalog is an argument.
\<close>

section \<open>Escapes\<close>

definition isUnreserved :: "char \<Rightarrow> bool" where
  "isUnreserved c \<longleftrightarrow>
     (let n = (of_char c :: nat) in 65 \<le> n \<and> n \<le> 90 \<or> 97 \<le> n \<and> n \<le> 122 \<or> 48 \<le> n \<and> n \<le> 57) \<or>
     c \<in> set [CHR ''-'', CHR ''_'', CHR ''.'', CHR ''!'', CHR ''~'', CHR ''*'', CHR 0x27, CHR ''('', CHR '')'']"

definition upperHexDigit :: "nat \<Rightarrow> char" where
  "upperHexDigit n = (if n < 10 then char_of (48 + n) else char_of (55 + n))"

definition encodeByte :: "char \<Rightarrow> string" where
  "encodeByte c =
     (if isUnreserved c then [c]
      else let n = (of_char c :: nat) in [CHR ''%'', upperHexDigit (n div 16), upperHexDigit (n mod 16)])"

definition encodeURIComponent :: "string \<Rightarrow> string" where
  "encodeURIComponent s = concat (map encodeByte s)"

definition hexValue :: "char \<Rightarrow> nat option" where
  "hexValue c =
     (let n = (of_char c :: nat) in
      if 48 \<le> n \<and> n \<le> 57 then Some (n - 48)
      else if 65 \<le> n \<and> n \<le> 70 then Some (n - 55)
      else if 97 \<le> n \<and> n \<le> 102 then Some (n - 87)
      else None)"

text \<open>The bytes of the text, each with the mark whether it was escaped.\<close>

fun unescape :: "string \<Rightarrow> (bool \<times> char) list option" where
  "unescape [] = Some []"
| "unescape (c # s) =
     (if c \<noteq> CHR ''%'' then map_option (Cons (False, c)) (unescape s)
      else case s of
        h # l # r \<Rightarrow>
          (case (hexValue h, hexValue l) of
             (Some a, Some b) \<Rightarrow> map_option (Cons (True, char_of (16 * a + b))) (unescape r)
           | _ \<Rightarrow> None)
      | _ \<Rightarrow> None)"

definition isAsciiByte :: "char \<Rightarrow> bool" where
  "isAsciiByte c \<longleftrightarrow> (of_char c :: nat) < 128"

text \<open>How many bytes follow the first byte of a UTF-8 sequence, and which ones may.\<close>

definition continuationCount :: "char \<Rightarrow> nat option" where
  "continuationCount c =
     (let n = (of_char c :: nat) in
      if 194 \<le> n \<and> n \<le> 223 then Some 1 else if 224 \<le> n \<and> n \<le> 239 then Some 2
      else if 240 \<le> n \<and> n \<le> 244 then Some 3 else None)"

definition isContinuation :: "char \<Rightarrow> bool" where
  "isContinuation c \<longleftrightarrow> (let n = (of_char c :: nat) in 128 \<le> n \<and> n \<le> 191)"

definition secondByteOk :: "char \<Rightarrow> char \<Rightarrow> bool" where
  "secondByteOk c d \<longleftrightarrow>
     (let n = (of_char c :: nat); m = (of_char d :: nat) in
      (n = 224 \<longrightarrow> 160 \<le> m) \<and> (n = 237 \<longrightarrow> m \<le> 159) \<and> (n = 240 \<longrightarrow> 144 \<le> m) \<and> (n = 244 \<longrightarrow> m \<le> 143))"

text \<open>Escaped bytes outside ASCII have to form UTF-8 sequences.\<close>

function assemble :: "(bool \<times> char) list \<Rightarrow> string option" where
  "assemble [] = Some []"
| "assemble ((escaped, c) # xs) =
     (if \<not> escaped \<or> isAsciiByte c then map_option (Cons c) (assemble xs)
      else case continuationCount c of
        None \<Rightarrow> None
      | Some n \<Rightarrow>
          if n \<le> length xs \<and> list_all (\<lambda>(e, d). e \<and> isContinuation d) (take n xs) \<and> secondByteOk c (snd (hd xs))
          then map_option (\<lambda>s. c # map snd (take n xs) @ s) (assemble (drop n xs))
          else None)"
  by pat_completeness auto
termination by (relation "measure length") auto

definition decodeURIComponent :: "string \<Rightarrow> string option" where
  "decodeURIComponent s = Option.bind (unescape s) assemble"

section \<open>Routes\<close>

definition PROVIDER_MODEL_ROUTE_KIND :: string where
  "PROVIDER_MODEL_ROUTE_KIND = ''provider-model''"

definition MODEL_ROUTE_SELECTION_PREFIX :: string where
  "MODEL_ROUTE_SELECTION_PREFIX = PROVIDER_MODEL_ROUTE_KIND @ ''|''"

fun modelRouteKindString :: "model_route_kind \<Rightarrow> string" where
  "modelRouteKindString ProviderModel = PROVIDER_MODEL_ROUTE_KIND"

definition buildModelRouteRef :: "string \<Rightarrow> string \<Rightarrow> model_route_ref" where
  "buildModelRouteRef profileId modelId =
     \<lparr>rr_routeKind = ProviderModel, rr_profileId = profileId, rr_modelId = modelId\<rparr>"

definition serializeModelRouteRef :: "model_route_ref \<Rightarrow> string" where
  "serializeModelRouteRef r =
     modelRouteKindString (rr_routeKind r) @ ''|'' @ encodeURIComponent (rr_profileId r) @ ''|'' @
     encodeURIComponent (rr_modelId r)"

definition decodeRouteValuePart :: "string \<Rightarrow> string" where
  "decodeRouteValuePart v = (case decodeURIComponent v of None \<Rightarrow> [] | Some s \<Rightarrow> trim s)"

definition parseSerializedModelRouteRef :: "string \<Rightarrow> model_route_ref option" where
  "parseSerializedModelRouteRef v =
     (let normalizedValue = trim v in
      if \<not> prefix MODEL_ROUTE_SELECTION_PREFIX normalizedValue then None
      else case splitOn CHR ''|'' normalizedValue of
        [routeKind, encodedProfileId, encodedModelId] \<Rightarrow>
          if routeKind \<noteq> PROVIDER_MODEL_ROUTE_KIND then None
          else
            (let profileId = decodeRouteValuePart encodedProfileId; modelId = decodeRouteValuePart encodedModelId in
             if profileId = [] \<or> modelId = [] then None else Some (buildModelRouteRef profileId modelId))
      | _ \<Rightarrow> None)"

text \<open>The value of a setting that tracks a model follows the model when it is renamed or removed.\<close>

definition syncTrackedModelSelectionValue :: "string \<Rightarrow> string \<Rightarrow> string option \<Rightarrow> string option \<Rightarrow> string" where
  "syncTrackedModelSelectionValue currentValue profileId previousModelId nextModelId =
     (let previous = (case previousModelId of None \<Rightarrow> [] | Some m \<Rightarrow> trim m);
          next' = (case nextModelId of None \<Rightarrow> [] | Some m \<Rightarrow> trim m) in
      if previous = [] then currentValue
      else case parseSerializedModelRouteRef currentValue of
        Some r \<Rightarrow>
          if rr_profileId r \<noteq> profileId \<or> rr_modelId r \<noteq> previous then currentValue
          else if next' \<noteq> [] then serializeModelRouteRef (buildModelRouteRef profileId next')
          else []
      | None \<Rightarrow> if currentValue = previous then next' else currentValue)"

section \<open>Options\<close>

datatype compatibility_status = CompatActive | CompatLegacy | CompatUnsupported

record model_profile =
  mp_modelId :: string
  mp_displayName :: string

record provider_profile =
  pf_id :: string
  pf_providerId :: "string option"
  pf_name :: string
  pf_protocol :: string
  pf_compatibility :: "compatibility_status option"
  pf_availableModels :: "model_profile list"

record select_option =
  so_value :: string
  so_label :: string
  so_hint :: "string option"
  so_disabled :: "bool option"

definition modelUnavailableReason :: string where
  "modelUnavailableReason = [CHR 0xE5, CHR 0xBD, CHR 0x93, CHR 0xE5, CHR 0x89, CHR 0x8D, CHR 0xE6, CHR 0xA8, CHR 0xA1, CHR 0xE5, CHR 0x9E, CHR 0x8B, CHR 0xE4, CHR 0xB8, CHR 0x8D, CHR 0xE5, CHR 0x8F, CHR 0xAF, CHR 0xE7, CHR 0x94, CHR 0xA8, CHR 0xEF, CHR 0xBC, CHR 0x8C, CHR 0xE8, CHR 0xAF, CHR 0xB7, CHR 0xE9, CHR 0x87, CHR 0x8D, CHR 0xE6, CHR 0x96, CHR 0xB0, CHR 0xE9, CHR 0x80, CHR 0x89, CHR 0xE6, CHR 0x8B, CHR 0xA9, CHR 0xE3, CHR 0x80, CHR 0x82]"

text \<open>\<open>Some reason\<close> says that the profile is not available.\<close>

definition resolveProviderDefaultRouteAvailability :: "provider_catalog \<Rightarrow> provider_profile \<Rightarrow> string option" where
  "resolveProviderDefaultRouteAvailability catalog p =
     (if pf_compatibility p = Some CompatLegacy \<or> pf_compatibility p = Some CompatUnsupported
      then Some modelUnavailableReason
      else case getProviderCatalogEntry catalog (case pf_providerId p of None \<Rightarrow> pf_protocol p | Some i \<Rightarrow> i) of
        None \<Rightarrow> Some modelUnavailableReason
      | Some e \<Rightarrow> if ce_runtimeStatus e \<noteq> StatusEnabled then Some modelUnavailableReason else None)"

definition providerProfilesSupportRoute :: "provider_profile list \<Rightarrow> model_route_ref \<Rightarrow> bool" where
  "providerProfilesSupportRoute profiles r \<longleftrightarrow>
     (case find (\<lambda>p. pf_id p = rr_profileId r) profiles of
        None \<Rightarrow> False
      | Some p \<Rightarrow> list_ex (\<lambda>m. mp_modelId m = rr_modelId r) (pf_availableModels p))"

definition unavailableOption :: "string \<Rightarrow> string \<Rightarrow> select_option" where
  "unavailableOption currentValue label =
     \<lparr>so_value = currentValue, so_label = label, so_hint = Some [CHR 0xE8, CHR 0xAF, CHR 0xB7, CHR 0xE9, CHR 0x87, CHR 0x8D, CHR 0xE6, CHR 0x96, CHR 0xB0, CHR 0xE9, CHR 0x80, CHR 0x89, CHR 0xE6, CHR 0x8B, CHR 0xA9, CHR 0xE6, CHR 0xA8, CHR 0xA1, CHR 0xE5, CHR 0x9E, CHR 0x8B, CHR 0xE3, CHR 0x80, CHR 0x82], so_disabled = Some True\<rparr>"

definition createCurrentSelectionFallbackOption :: "provider_profile list \<Rightarrow> string \<Rightarrow> select_option option" where
  "createCurrentSelectionFallbackOption profiles currentValue =
     (case parseSerializedModelRouteRef currentValue of
        Some r \<Rightarrow> if providerProfilesSupportRoute profiles r then None
                  else Some (unavailableOption currentValue [CHR 0xE5, CHR 0xBD, CHR 0x93, CHR 0xE5, CHR 0x89, CHR 0x8D, CHR 0xE9, CHR 0x80, CHR 0x89, CHR 0xE6, CHR 0x8B, CHR 0xA9, CHR 0xE5, CHR 0xB7, CHR 0xB2, CHR 0xE5, CHR 0xA4, CHR 0xB1, CHR 0xE6, CHR 0x95, CHR 0x88])
      | None \<Rightarrow> Some (unavailableOption currentValue [CHR 0xE5, CHR 0xBD, CHR 0x93, CHR 0xE5, CHR 0x89, CHR 0x8D, CHR 0xE9, CHR 0x80, CHR 0x89, CHR 0xE6, CHR 0x8B, CHR 0xA9, CHR 0xE4, CHR 0xB8, CHR 0x8D, CHR 0xE5, CHR 0x8F, CHR 0xAF, CHR 0xE7, CHR 0x94, CHR 0xA8]))"

definition modelOption :: "provider_catalog \<Rightarrow> provider_profile \<Rightarrow> model_profile \<Rightarrow> select_option" where
  "modelOption catalog p m =
     (let reason = resolveProviderDefaultRouteAvailability catalog p;
          label = (if trim (mp_displayName m) = [] then mp_modelId m else trim (mp_displayName m)) in
      \<lparr>so_value = serializeModelRouteRef (buildModelRouteRef (pf_id p) (mp_modelId m)),
       so_label = pf_name p @ [CHR 0x20, CHR 0xC2, CHR 0xB7, CHR 0x20] @ label,
       so_hint = (case reason of None \<Rightarrow> None | Some r \<Rightarrow> if r = [] then None else Some r),
       so_disabled = (if reason = None then None else Some True)\<rparr>)"

text \<open>\<open>values.map(trim).filter((value, index, array) => value !== '' && array.indexOf(value) === index)\<close>\<close>

definition collectAllModelOptions :: "provider_catalog \<Rightarrow> provider_profile list \<Rightarrow> string list \<Rightarrow> select_option list" where
  "collectAllModelOptions catalog profiles currentValues =
     (let options = concat (map (\<lambda>p. map (modelOption catalog p) (pf_availableModels p)) profiles);
          wanted = filter (\<lambda>v. \<not> list_ex (\<lambda>o'. so_value o' = v) options) (dedupeFrom [] currentValues);
          fallbackOptions = concat (map (\<lambda>v. case createCurrentSelectionFallbackOption profiles v of
             None \<Rightarrow> [] | Some o' \<Rightarrow> [o']) wanted)
      in fallbackOptions @ options)"

definition buildDefaultModelRouteSelectionValue ::
  "string \<Rightarrow> model_route_ref option \<Rightarrow> provider_profile list \<Rightarrow> string" where
  "buildDefaultModelRouteSelectionValue selectedModelId persistedRoute profiles =
     (case persistedRoute of
        Some r \<Rightarrow> if providerProfilesSupportRoute profiles r then serializeModelRouteRef r else trim selectedModelId
      | None \<Rightarrow> trim selectedModelId)"

definition resolveSettingsWorkspaceActiveProviderId :: "provider_profile list \<Rightarrow> string \<Rightarrow> string" where
  "resolveSettingsWorkspaceActiveProviderId profiles current =
     (if list_ex (\<lambda>p. pf_id p = current) profiles then current
      else case profiles of [] \<Rightarrow> [] | p # _ \<Rightarrow> pf_id p)"

section \<open>Decoding undoes encoding\<close>

text \<open>The strings of JavaScript that have a UTF-8 form: the escapes of all their bytes can be decoded.\<close>

definition validUtf8 :: "string \<Rightarrow> bool" where
  "validUtf8 s \<longleftrightarrow> assemble (map (Pair True) s) \<noteq> None"

lemma percent_reserved [simp]: "\<not> isUnreserved CHR ''%''"
  by (simp add: isUnreserved_def)

lemma hexValue_upper [simp]: "a < 16 \<Longrightarrow> hexValue (upperHexDigit a) = Some a"
proof -
  assume a: "a < 16"
  have code: "(of_char (upperHexDigit a) :: nat) = (if a < 10 then 48 + a else 55 + a)"
    unfolding upperHexDigit_def using a by (simp add: of_char_of)
  show ?thesis using a unfolding hexValue_def Let_def code by auto
qed

lemma unescape_encodeByte:
  "unescape (encodeByte c @ s) = map_option (Cons (\<not> isUnreserved c, c)) (unescape s)"
proof (cases "isUnreserved c")
  case True
  then have "c \<noteq> CHR ''%''" using percent_reserved by metis
  then show ?thesis using True by (simp add: encodeByte_def)
next
  case False
  have "(of_char c :: nat) < 256" using of_char_mod_256 [of c, where ?'a = nat] by (metis mod_less_divisor zero_less_numeral)
  then have "(of_char c :: nat) div 16 < 16" by (intro less_mult_imp_div_less) simp
  moreover have "(char_of (16 * ((of_char c :: nat) div 16) + of_char c mod 16) :: char) = c" by (simp add: mult_div_mod_eq)
  ultimately show ?thesis using False by (simp add: encodeByte_def Let_def)
qed

lemma unescape_encode: "unescape (encodeURIComponent s) = Some (map (\<lambda>c. (\<not> isUnreserved c, c)) s)"
  by (induction s) (simp_all add: encodeURIComponent_def unescape_encodeByte)

lemma unreserved_ascii: "isUnreserved c \<Longrightarrow> isAsciiByte c"
  by (auto simp: isUnreserved_def isAsciiByte_def Let_def)

lemma continuation_reserved: "isContinuation c \<Longrightarrow> \<not> isUnreserved c"
  using unreserved_ascii [of c] by (auto simp: isContinuation_def isAsciiByte_def Let_def)

lemma list_all_take_map: "list_all P (take n (map f s)) = list_all (\<lambda>c. P (f c)) (take n s)"
  by (simp add: take_map list_all_iff)

text \<open>Leaving unreserved bytes as they are does not change what the bytes decode to.\<close>

lemma assemble_encoded:
  "assemble (map (Pair True) s) \<noteq> None \<Longrightarrow> assemble (map (\<lambda>c. (\<not> isUnreserved c, c)) s) = Some s"
proof (induction "length s" arbitrary: s rule: less_induct)
  case less
  show ?case
  proof (cases s)
    case (Cons c t)
    show ?thesis
    proof (cases "isAsciiByte c")
      case True
      then show ?thesis using less.prems less.hyps [of t] Cons by auto
    next
      case False
      then have reserved: "\<not> isUnreserved c" using unreserved_ascii by blast
      from False less.prems Cons obtain n where n: "continuationCount c = Some n" "n \<le> length t"
        and cont: "list_all isContinuation (take n t)" and second: "secondByteOk c (snd (hd (map (Pair True) t)))"
        and rest: "assemble (map (Pair True) (drop n t)) \<noteq> None"
        by (auto simp: list_all_take_map drop_map split: option.splits if_splits)
      have pos: "t \<noteq> []" using n by (auto simp: continuationCount_def Let_def split: if_splits)
      have "list_all (\<lambda>d. \<not> isUnreserved d \<and> isContinuation d) (take n t)"
        using cont continuation_reserved by (simp add: list_all_iff)
      moreover have "assemble (map (\<lambda>c. (\<not> isUnreserved c, c)) (drop n t)) = Some (drop n t)"
        using less.hyps [of "drop n t"] rest Cons by simp
      ultimately show ?thesis
        using Cons False reserved n second pos
        by (simp add: list.pred_map drop_map take_map hd_map comp_def)
    qed
  qed simp
qed

lemma decode_encode: "validUtf8 s \<Longrightarrow> decodeURIComponent (encodeURIComponent s) = Some s"
  by (simp add: decodeURIComponent_def unescape_encode validUtf8_def assemble_encoded)

section \<open>Splitting a written route\<close>

lemma kindString [simp]: "modelRouteKindString k = PROVIDER_MODEL_ROUTE_KIND"
  by (cases k) simp

lemma splitOn_none: "c \<notin> set s \<Longrightarrow> splitOn c s = [s]"
  by (induction s) auto

lemma splitOn_sep: "c \<notin> set s \<Longrightarrow> splitOn c (s @ c # t) = s # splitOn c t"
  by (induction s) auto

lemma encodeByte_visible: "d \<in> set (encodeByte c) \<Longrightarrow> visible d \<and> d \<noteq> CHR ''|''"
proof -
  have upper: "visible (upperHexDigit a) \<and> upperHexDigit a \<noteq> CHR ''|''" if "a < 16" for a
  proof -
    have code: "(of_char (upperHexDigit a) :: nat) = (if a < 10 then 48 + a else 55 + a)"
      unfolding upperHexDigit_def using that by (simp add: of_char_of)
    then have "(of_char (upperHexDigit a) :: nat) \<noteq> of_char CHR ''|''" using that by simp
    then show ?thesis using code that by (auto simp: visible_def)
  qed
  have "(of_char c :: nat) < 256" using of_char_mod_256 [of c, where ?'a = nat] by (metis mod_less_divisor zero_less_numeral)
  then have "(of_char c :: nat) div 16 < 16" by (intro less_mult_imp_div_less) simp
  moreover have "visible c \<and> c \<noteq> CHR ''|''" if "isUnreserved c"
    using that by (auto simp: isUnreserved_def visible_def Let_def)
  moreover assume "d \<in> set (encodeByte c)"
  ultimately show ?thesis
    using upper by (auto simp: encodeByte_def Let_def visible_def split: if_splits)
qed

lemma encoded_visible: "d \<in> set (encodeURIComponent s) \<Longrightarrow> visible d \<and> d \<noteq> CHR ''|''"
  by (auto simp: encodeURIComponent_def dest: encodeByte_visible)

lemma encode_nonempty: "s \<noteq> [] \<Longrightarrow> encodeURIComponent s \<noteq> []"
  by (cases s) (auto simp: encodeURIComponent_def encodeByte_def Let_def)

lemma trim_serialized: "rr_modelId r \<noteq> [] \<Longrightarrow> trim (serializeModelRouteRef r) = serializeModelRouteRef r"
proof -
  assume "rr_modelId r \<noteq> []"
  then have last': "visible (last (encodeURIComponent (rr_modelId r)))"
    using encoded_visible last_in_set encode_nonempty by blast
  have "trimmed (serializeModelRouteRef r)"
    using last' encode_nonempty [OF \<open>rr_modelId r \<noteq> []\<close>]
    by (intro trimmed_ascii)
       (simp_all add: serializeModelRouteRef_def PROVIDER_MODEL_ROUTE_KIND_def visible_def)
  then show ?thesis by (simp add: trimmed_def)
qed

lemma split_serialized:
  "splitOn CHR ''|'' (serializeModelRouteRef r) =
     [PROVIDER_MODEL_ROUTE_KIND, encodeURIComponent (rr_profileId r), encodeURIComponent (rr_modelId r)]"
proof -
  have no: "CHR ''|'' \<notin> set (encodeURIComponent s)" for s using encoded_visible by blast
  have kind: "CHR ''|'' \<notin> set PROVIDER_MODEL_ROUTE_KIND" by (simp add: PROVIDER_MODEL_ROUTE_KIND_def)
  show ?thesis
    using splitOn_sep [OF kind] splitOn_sep [OF no] splitOn_none [OF no]
    by (simp add: serializeModelRouteRef_def)
qed

lemma kind_unique: "buildModelRouteRef (rr_profileId r) (rr_modelId r) = r"
  by (cases r; cases "rr_routeKind r") (simp add: buildModelRouteRef_def)

lemma parse_serialize:
  assumes "validUtf8 (rr_profileId r)" and "validUtf8 (rr_modelId r)"
    and "trimmed (rr_profileId r)" and "trimmed (rr_modelId r)"
  shows "parseSerializedModelRouteRef (serializeModelRouteRef r) = Some r"
proof -
  have "rr_modelId r \<noteq> []" using assms(4) by (simp add: trimmed_def)
  moreover have "prefix MODEL_ROUTE_SELECTION_PREFIX (serializeModelRouteRef r)"
    by (simp add: MODEL_ROUTE_SELECTION_PREFIX_def serializeModelRouteRef_def)
  ultimately show ?thesis
    using assms
    by (simp add: parseSerializedModelRouteRef_def trim_serialized split_serialized decodeRouteValuePart_def
        decode_encode trimmed_def kind_unique Let_def)
qed

section \<open>Properties\<close>

text \<open>What the identifiers of profiles and models are: trimmed, not empty and with a UTF-8 form.\<close>

definition identOk :: "string \<Rightarrow> bool" where
  "identOk s \<longleftrightarrow> validUtf8 s \<and> trimmed s"

text \<open>
  C20: a route that is written as the value of a selection is read back unchanged, whatever separators, percent signs or
  bytes outside ASCII its identifiers hold; so two routes never share a value.
\<close>

theorem model_route_roundtrip:
  assumes "identOk (rr_profileId r)" and "identOk (rr_modelId r)"
  shows "parseSerializedModelRouteRef (serializeModelRouteRef r) = Some r \<and>
    (serializeModelRouteRef r = serializeModelRouteRef r' \<and> identOk (rr_profileId r') \<and> identOk (rr_modelId r')
       \<longrightarrow> r = r')"
  using assms parse_serialize by (metis identOk_def option.inject)

lemma parse_build: "identOk p \<Longrightarrow> identOk m \<Longrightarrow> parseSerializedModelRouteRef (serializeModelRouteRef (buildModelRouteRef p m)) = Some (buildModelRouteRef p m)"
  by (rule parse_serialize) (simp_all add: buildModelRouteRef_def identOk_def)

lemma build_fields [simp]: "rr_profileId (buildModelRouteRef p m) = p" "rr_modelId (buildModelRouteRef p m) = m"
  by (simp_all add: buildModelRouteRef_def)

lemma identOk_trim: "identOk s \<Longrightarrow> trim s = s \<and> s \<noteq> []"
  by (simp add: identOk_def trimmed_def)

text \<open>
  A setting that tracks a model follows it: when the model of its route is renamed, it holds the route of the new
  name, when it is removed, the setting is cleared, and a route of another profile or model is left alone.
\<close>

theorem tracked_selection_follows:
  assumes "identOk p" and "identOk m" and "identOk q" and "identOk m'"
  shows "syncTrackedModelSelectionValue (serializeModelRouteRef (buildModelRouteRef p m)) p (Some m) (Some m') =
           serializeModelRouteRef (buildModelRouteRef p m') \<and>
         syncTrackedModelSelectionValue (serializeModelRouteRef (buildModelRouteRef p m)) p (Some m) None = [] \<and>
         (q \<noteq> p \<or> m' \<noteq> m \<longrightarrow>
           syncTrackedModelSelectionValue (serializeModelRouteRef (buildModelRouteRef q m')) p (Some m) next =
             serializeModelRouteRef (buildModelRouteRef q m'))"
  using assms identOk_trim
  by (simp add: syncTrackedModelSelectionValue_def parse_build Let_def split: option.split)

text \<open>A list of profiles as the settings keep it: identifiers are well formed and no two profiles share one.\<close>

definition profilesOk :: "provider_profile list \<Rightarrow> bool" where
  "profilesOk profiles \<longleftrightarrow> distinct (map pf_id profiles) \<and>
     list_all (\<lambda>p. identOk (pf_id p) \<and> list_all (\<lambda>m. identOk (mp_modelId m)) (pf_availableModels p)) profiles"

lemma find_profile:
  assumes "distinct (map pf_id profiles)" and "p \<in> set profiles"
  shows "find (\<lambda>p'. pf_id p' = pf_id p) profiles = Some p"
  using assms by (induction profiles) auto

lemma modelOption_parses:
  assumes "profilesOk profiles" and "p \<in> set profiles" and "m \<in> set (pf_availableModels p)"
  shows "parseSerializedModelRouteRef (so_value (modelOption catalog p m)) = Some (buildModelRouteRef (pf_id p) (mp_modelId m))"
    and "providerProfilesSupportRoute profiles (buildModelRouteRef (pf_id p) (mp_modelId m))"
  using assms
  by (auto simp: profilesOk_def list_all_iff modelOption_def Let_def parse_build providerProfilesSupportRoute_def
      find_profile list_ex_iff)

lemma fallback_disabled: "createCurrentSelectionFallbackOption profiles v = Some o' \<Longrightarrow> so_value o' = v \<and> so_disabled o' = Some True"
  by (auto simp: createCurrentSelectionFallbackOption_def unavailableOption_def split: option.splits if_splits)

lemma enabled_option:
  assumes "o' \<in> set (collectAllModelOptions catalog profiles currentValues)" and "so_disabled o' = None"
  shows "\<exists>p \<in> set profiles. \<exists>m \<in> set (pf_availableModels p).
    o' = modelOption catalog p m \<and> resolveProviderDefaultRouteAvailability catalog p = None"
proof -
  have "o' \<notin> set (case createCurrentSelectionFallbackOption profiles v of None \<Rightarrow> [] | Some o' \<Rightarrow> [o'])" for v
    using assms(2) fallback_disabled by (auto split: option.splits)
  then obtain p m where pm: "p \<in> set profiles" "m \<in> set (pf_availableModels p)" "o' = modelOption catalog p m"
    using assms(1) by (auto simp: collectAllModelOptions_def Let_def)
  then have "resolveProviderDefaultRouteAvailability catalog p = None"
    using assms(2) by (simp add: modelOption_def Let_def split: if_splits)
  then show ?thesis using pm by blast
qed

lemma current_option_kept:
  assumes "v \<in> set currentValues" and "trim v \<noteq> []"
  shows "trim v \<in> so_value ` set (collectAllModelOptions catalog profiles currentValues) \<or>
    createCurrentSelectionFallbackOption profiles (trim v) = None"
proof -
  let ?options = "concat (map (\<lambda>p. map (modelOption catalog p) (pf_availableModels p)) profiles)"
  let ?listed = "list_ex (\<lambda>o'. so_value o' = trim v) ?options"
  have wanted: "trim v \<in> set (dedupeFrom [] currentValues)" using assms by (auto simp: dedupeFrom_set)
  have options: "set ?options \<subseteq> set (collectAllModelOptions catalog profiles currentValues)"
    unfolding collectAllModelOptions_def Let_def set_append by (rule Un_upper2)
  have fallback: "o' \<in> set (collectAllModelOptions catalog profiles currentValues)"
    if "\<not> ?listed" and "createCurrentSelectionFallbackOption profiles (trim v) = Some o'" for o'
  proof -
    have "trim v \<in> set (filter (\<lambda>v. \<not> list_ex (\<lambda>o'. so_value o' = v) ?options) (dedupeFrom [] currentValues))"
      using wanted that(1) by simp
    then show ?thesis
      unfolding collectAllModelOptions_def Let_def set_append set_concat set_map
      by (intro UnI1 UN_I [OF imageI]) (assumption, simp add: that(2))
  qed
  show ?thesis
  proof (cases ?listed)
    case True
    then obtain o' where o': "o' \<in> set ?options" and same: "so_value o' = trim v" unfolding list_ex_iff by blast
    have "trim v \<in> so_value ` set ?options" unfolding same [symmetric] using o' by (rule imageI)
    with image_mono [OF options] have "trim v \<in> so_value ` set (collectAllModelOptions catalog profiles currentValues)"
      by (rule subsetD)
    then show ?thesis by (rule disjI1)
  next
    case False
    show ?thesis
    proof (cases "createCurrentSelectionFallbackOption profiles (trim v)")
      case None
      then show ?thesis by (rule disjI2)
    next
      case (Some o')
      have "so_value o' = trim v" using fallback_disabled [OF Some] by (rule conjunct1)
      moreover have "so_value o' \<in> so_value ` set (collectAllModelOptions catalog profiles currentValues)"
        using fallback [OF False Some] by (rule imageI)
      ultimately show ?thesis by (simp only: simp_thms)
    qed
  qed
qed

text \<open>
  An option that can be chosen leads to a model that can be used: unless it is disabled, its value is the route of a
  model that one of the profiles has, and the provider of that profile is enabled in the catalog. And a current selection
  does not vanish from the list: there is an option with its value, unless it is another way to write a route of the list.
\<close>

theorem model_options_usable:
  assumes "profilesOk profiles"
  shows "(\<forall>o' \<in> set (collectAllModelOptions catalog profiles currentValues). so_disabled o' = None \<longrightarrow>
            (\<exists>p \<in> set profiles. \<exists>m \<in> set (pf_availableModels p).
               parseSerializedModelRouteRef (so_value o') = Some (buildModelRouteRef (pf_id p) (mp_modelId m)) \<and>
               resolveProviderDefaultRouteAvailability catalog p = None)) \<and>
         (\<forall>v \<in> set currentValues. trim v \<noteq> [] \<longrightarrow>
            trim v \<in> so_value ` set (collectAllModelOptions catalog profiles currentValues) \<or>
            (\<exists>r. parseSerializedModelRouteRef (trim v) = Some r \<and> providerProfilesSupportRoute profiles r))"
proof (intro conjI ballI impI)
  fix o' assume "o' \<in> set (collectAllModelOptions catalog profiles currentValues)" "so_disabled o' = None"
  then show "\<exists>p \<in> set profiles. \<exists>m \<in> set (pf_availableModels p).
      parseSerializedModelRouteRef (so_value o') = Some (buildModelRouteRef (pf_id p) (mp_modelId m)) \<and>
      resolveProviderDefaultRouteAvailability catalog p = None"
    using enabled_option modelOption_parses(1) [OF assms] by blast
next
  fix v assume "v \<in> set currentValues" "trim v \<noteq> []"
  moreover have "\<exists>r. parseSerializedModelRouteRef (trim v) = Some r \<and> providerProfilesSupportRoute profiles r"
    if "createCurrentSelectionFallbackOption profiles (trim v) = None"
    using that by (auto simp: createCurrentSelectionFallbackOption_def split: option.splits if_splits)
  ultimately show "trim v \<in> so_value ` set (collectAllModelOptions catalog profiles currentValues) \<or>
      (\<exists>r. parseSerializedModelRouteRef (trim v) = Some r \<and> providerProfilesSupportRoute profiles r)"
    using current_option_kept [of v currentValues catalog profiles] by argo
qed

section \<open>Witnesses\<close>

text \<open>An identifier with a separator, a percent sign and a byte pair outside ASCII.\<close>

definition sampleIdent :: string where
  "sampleIdent = [CHR ''a'', CHR ''|'', CHR ''%'', CHR 0xC3, CHR 0xA9]"

definition sampleProfiles :: "provider_profile list" where
  "sampleProfiles =
     [\<lparr>pf_id = ''p1'', pf_providerId = Some ''openai'', pf_name = ''One'', pf_protocol = ''openai'', pf_compatibility = None,
       pf_availableModels = [\<lparr>mp_modelId = ''m1'', mp_displayName = ''M1''\<rparr>, \<lparr>mp_modelId = sampleIdent, mp_displayName = []\<rparr>]\<rparr>]"

lemma sampleIdent_ok: "identOk sampleIdent" "identOk ''p1''" "identOk ''m1''" "identOk ''m2''"
  by code_simp+

theorem model_route_roundtrip_witness:
  "identOk sampleIdent \<and> identOk ''p1'' \<and>
   parseSerializedModelRouteRef (serializeModelRouteRef (buildModelRouteRef sampleIdent ''p1'')) = Some (buildModelRouteRef sampleIdent ''p1'')"
  using model_route_roundtrip [of "buildModelRouteRef sampleIdent ''p1''" "buildModelRouteRef sampleIdent ''p1''"] sampleIdent_ok
  by simp

theorem tracked_selection_follows_witness:
  "identOk ''p1'' \<and> identOk ''m1'' \<and> identOk ''m2'' \<and>
   syncTrackedModelSelectionValue (serializeModelRouteRef (buildModelRouteRef ''p1'' ''m1'')) ''p1'' (Some ''m1'') (Some ''m2'') =
     serializeModelRouteRef (buildModelRouteRef ''p1'' ''m2'')"
  using tracked_selection_follows [of "''p1''" "''m1''" "''p1''" "''m2''"] sampleIdent_ok by simp

lemma sampleProfiles_ok: "profilesOk sampleProfiles"
  using sampleIdent_ok by (simp add: profilesOk_def sampleProfiles_def)

theorem model_options_usable_witness:
  "profilesOk sampleProfiles \<and> trim ''gone'' \<noteq> [] \<and>
   (trim ''gone'' \<in> so_value ` set (collectAllModelOptions sampleCatalog sampleProfiles [''gone'']) \<or>
    (\<exists>r. parseSerializedModelRouteRef (trim ''gone'') = Some r \<and> providerProfilesSupportRoute sampleProfiles r))"
proof -
  have "trim ''gone'' \<noteq> []" by code_simp
  then show ?thesis
    using model_options_usable [OF sampleProfiles_ok, of sampleCatalog "[''gone'']"] sampleProfiles_ok by simp
qed

end
