(* ===== verification/Thinking_Choice.thy ===== *)
theory Thinking_Choice
  imports Thinking_Display Literal_Types
begin

text \<open>
  Which thinking selection a model accepts: the functions on selections of \<open>src/features/copilot/copilot-chat-helpers.ts\<close>,
  from \<open>resolveThinkingSelectionForCapability\<close> to \<open>isSameRuntimeThinkingValue\<close>. The file has its own copies of
  functions of \<open>thread-run-contract.ts\<close>; where a copy differs it carries the suffix \<open>H\<close>.
\<close>

section \<open>Normalising a value\<close>

definition normalizeBudgetTokens :: "rat option \<Rightarrow> int option" where
  "normalizeBudgetTokens value =
     (case value of
        None \<Rightarrow> None
      | Some v \<Rightarrow>
          (let minimum = THINKING_BUDGET_DEFAULT_MIN_TOKENS;
               maximum = THINKING_BUDGET_DEFAULT_MAX_TOKENS;
               step = THINKING_BUDGET_DEFAULT_STEP_TOKENS;
               clamped = min maximum (max minimum (jsTrunc v));
               stepped = minimum + jsRound (of_int (clamped - minimum) / of_int step) * step
           in Some (min maximum (max minimum stepped))))"

definition supportsExactBudgetThinkingSelection :: "thinking_capability \<Rightarrow> bool" where
  "supportsExactBudgetThinkingSelection capability \<longleftrightarrow>
     tc_editorType capability = Some EditorBudget \<and>
     (case tc_controlSpec capability of
        Some (Some spec) \<Rightarrow>
          cp_kind spec = ControlBudget \<and> (case cp_budget spec of Some (Some b) \<Rightarrow> True | _ \<Rightarrow> False)
      | _ \<Rightarrow> False)"

fun isFixedValue :: "thinking_value \<Rightarrow> bool" where
  "isFixedValue (FixedValue labelZh) = True"
| "isFixedValue (CodeValue code labelZh) = False"
| "isFixedValue (BudgetValue m tokens labelZh) = False"

fun hasBudgetMode :: "budget_mode \<Rightarrow> thinking_value \<Rightarrow> bool" where
  "hasBudgetMode m (BudgetValue m' tokens labelZh) = (m' = m)"
| "hasBudgetMode m (CodeValue code labelZh) = False"
| "hasBudgetMode m (FixedValue labelZh) = False"

definition normalizeBudgetThinkingValue :: "thinking_value option \<Rightarrow> thinking_capability \<Rightarrow> thinking_value option" where
  "normalizeBudgetThinkingValue value capability =
     (case value of
        Some (BudgetValue ModeBudget (Some n) labelZh) \<Rightarrow>
          if \<not> supportsExactBudgetThinkingSelection capability then None
          else (case normalizeBudgetTokens (Some (of_int n)) of
                  None \<Rightarrow> None
                | Some tokens \<Rightarrow> Some (BudgetValue ModeBudget (Some tokens) (formatThinkingTokenCount tokens)))
      | Some (BudgetValue m tokens labelZh) \<Rightarrow>
          cloneRuntimeThinkingValue (find (hasBudgetMode m) (tc_allowedValues capability))
      | _ \<Rightarrow> None)"

fun codeOf :: "thinking_value \<Rightarrow> string option" where
  "codeOf (CodeValue code labelZh) = Some code"
| "codeOf (BudgetValue m tokens labelZh) = None"
| "codeOf (FixedValue labelZh) = None"

definition fixedCandidate :: "thinking_capability \<Rightarrow> thinking_value option" where
  "fixedCandidate capability =
     (case tc_defaultValue capability of
        Some (FixedValue labelZh) \<Rightarrow> Some (FixedValue labelZh)
      | _ \<Rightarrow> find isFixedValue (tc_allowedValues capability))"

definition normalizeRuntimeThinkingValueForCapability ::
  "thinking_value option \<Rightarrow> thinking_capability \<Rightarrow> thinking_value option" where
  "normalizeRuntimeThinkingValueForCapability value capability =
     (case (value, tc_editorType capability) of
        (Some v, Some EditorFixed) \<Rightarrow> cloneRuntimeThinkingValue (fixedCandidate capability)
      | (Some v, Some EditorBudget) \<Rightarrow> normalizeBudgetThinkingValue (Some v) capability
      | (Some v, Some EditorDiscrete) \<Rightarrow>
          (case codeOf v of
             None \<Rightarrow> None
           | Some code \<Rightarrow> cloneRuntimeThinkingValue (findThinkingCodeValue (tc_allowedValues capability) (Some code)))
      | _ \<Rightarrow> None)"

section \<open>Building a selection\<close>

definition mapSeriesCodeToLegacyLevel :: "string \<Rightarrow> thinking_level" where
  "mapSeriesCodeToLegacyLevel code =
     (if code = ''none'' \<or> code = ''off'' \<or> code = ''disabled'' \<or> code = ''false'' then LevelOff
      else if code = ''minimal'' \<or> code = ''dynamic'' then LevelAuto
      else if code = ''low'' then LevelLow
      else if code = ''medium'' then LevelMedium
      else if code = ''high'' \<or> code = ''true'' \<or> code = ''enabled'' then LevelHigh
      else if code = ''max'' \<or> code = ''xhigh'' then LevelXhigh
      else LevelAuto)"

fun deriveLegacyThinkingSelectionFieldsH ::
  "thinking_value \<Rightarrow> string option option \<times> string option option \<times> int option option" where
  "deriveLegacyThinkingSelectionFieldsH (BudgetValue m tokens _) =
     (Some (Some ''budget''), Some None, Some (if m = ModeBudget then tokens else None))"
| "deriveLegacyThinkingSelectionFieldsH (FixedValue _) =
     (Some (Some ''preset''), Some (Some ''fixed''), Some None)"
| "deriveLegacyThinkingSelectionFieldsH (CodeValue code _) =
     (Some (Some ''preset''), Some (Some (thinkingLevelString (mapSeriesCodeToLegacyLevel code))), Some None)"

definition buildRuntimeThinkingSelectionFromValue :: "string \<Rightarrow> thinking_value \<Rightarrow> thinking_selection" where
  "buildRuntimeThinkingSelectionFromValue capabilitySeries v =
     (case deriveLegacyThinkingSelectionFieldsH v of (m, l, b) \<Rightarrow>
        \<lparr>ts_series = capabilitySeries, ts_value = Some (cloneThinkingValue v), ts_mode = m, ts_level = l, ts_budgetTokens = b\<rparr>)"

text \<open>The value that a selection stands for: its own, or the one its legacy fields describe.\<close>

definition selectionValue :: "thinking_selection \<Rightarrow> thinking_value option" where
  "selectionValue s =
     (case cloneRuntimeThinkingValue (ts_value s) of
        Some v \<Rightarrow> Some v
      | None \<Rightarrow> buildRuntimeThinkingValueFromLegacySelection s)"

definition normalizeRuntimeThinkingSelectionForCapability ::
  "thinking_selection option \<Rightarrow> thinking_capability \<Rightarrow> thinking_selection option" where
  "normalizeRuntimeThinkingSelectionForCapability value capability =
     (case (value, tc_series capability, tc_editorType capability) of
        (Some s, Some series, Some editorType) \<Rightarrow>
          if ts_series s \<noteq> series then None
          else (case selectionValue s of
                  None \<Rightarrow> None
                | Some runtimeValue \<Rightarrow>
                    (case normalizeRuntimeThinkingValueForCapability (Some runtimeValue) capability of
                       None \<Rightarrow> None
                     | Some v \<Rightarrow> Some (buildRuntimeThinkingSelectionFromValue series v)))
      | _ \<Rightarrow> None)"

definition resolveThinkingSelectionForCapability ::
  "thinking_capability \<Rightarrow> thinking_selection option \<Rightarrow> thinking_selection option" where
  "resolveThinkingSelectionForCapability capability value =
     (case (tc_series capability, tc_editorType capability, tc_defaultValue capability) of
        (Some series, Some editorType, Some defaultValue) \<Rightarrow>
          if tc_supported capability = Some False then None
          else (case normalizeRuntimeThinkingSelectionForCapability value capability of
                  Some s \<Rightarrow> Some s
                | None \<Rightarrow> Some (buildRuntimeThinkingSelectionFromValue series defaultValue))
      | _ \<Rightarrow> None)"

section \<open>Comparing selections\<close>

fun isSameRuntimeThinkingValue :: "thinking_value \<Rightarrow> thinking_value \<Rightarrow> bool" where
  "isSameRuntimeThinkingValue (CodeValue code _) (CodeValue code' _) = (code = code')"
| "isSameRuntimeThinkingValue (FixedValue _) (FixedValue _) = True"
| "isSameRuntimeThinkingValue (BudgetValue m tokens _) (BudgetValue m' tokens' _) = (m = m' \<and> tokens = tokens')"
| "isSameRuntimeThinkingValue _ _ = False"

text \<open>
  \<open>left === right\<close> compares references. The only caller passes a selection that was just built as \<open>left\<close>, so that the
  test succeeds exactly when both are \<open>null\<close>.
\<close>

definition isSameRuntimeThinkingSelection :: "thinking_selection option \<Rightarrow> thinking_selection option \<Rightarrow> bool" where
  "isSameRuntimeThinkingSelection left right =
     (case (left, right) of
        (None, None) \<Rightarrow> True
      | (Some l, Some r) \<Rightarrow>
          (case (selectionValue l, selectionValue r) of
             (Some lv, Some rv) \<Rightarrow> ts_series l = ts_series r \<and> isSameRuntimeThinkingValue lv rv
           | _ \<Rightarrow> False)
      | _ \<Rightarrow> False)"

section \<open>Budgets\<close>

lemma normalizeBudgetTokens_trunc:
  "normalizeBudgetTokens (Some v) =
     Some (min 1048576 (max 0 (jsRound (of_int (min 1048576 (max 0 (jsTrunc v))) / 1024) * 1024)))"
  unfolding normalizeBudgetTokens_def Let_def budget_defs by (simp only: option.case diff_0_right add_0 of_int_numeral)

lemma jsRound_quotient: "jsRound (of_int c / 1024) = (c + 512) div 1024"
proof -
  have "(of_int c / 1024 + 1 / 2 :: rat) = of_int (c + 512) / of_int 1024" by simp
  then show ?thesis unfolding jsRound_def by (simp only: floor_divide_of_int_eq)
qed

lemma nearest_step:
  fixes c :: int
  assumes "0 \<le> c" and "c \<le> 1048576"
  shows "0 \<le> (c + 512) div 1024" and "(c + 512) div 1024 \<le> 1024"
    and "\<bar>(c + 512) div 1024 * 1024 - c\<bar> \<le> 512"
proof -
  have "(c + 512) div 1024 * 1024 + (c + 512) mod 1024 = c + 512" by (rule div_mult_mod_eq)
  moreover have "0 \<le> (c + 512) mod 1024" "(c + 512) mod 1024 < 1024" by simp_all
  ultimately show "0 \<le> (c + 512) div 1024" "(c + 512) div 1024 \<le> 1024" "\<bar>(c + 512) div 1024 * 1024 - c\<bar> \<le> 512"
    using assms by linarith+
qed

lemma limited: "0 \<le> min 1048576 (max 0 (n :: int))" "min 1048576 (max 0 n) \<le> 1048576"
  by linarith+

lemma limit_id: "0 \<le> n \<Longrightarrow> n \<le> 1048576 \<Longrightarrow> min 1048576 (max 0 (n :: int)) = n"
  by linarith

text \<open>The nearest multiple of the step.\<close>

lemma budget_closed:
  "normalizeBudgetTokens (Some v) = Some ((min 1048576 (max 0 (jsTrunc v)) + 512) div 1024 * 1024)"
proof -
  let ?k = "(min 1048576 (max 0 (jsTrunc v)) + 512) div 1024"
  have "0 \<le> ?k" "?k \<le> 1024" by (rule nearest_step, rule limited, rule limited)+
  then have "min 1048576 (max 0 (?k * 1024)) = ?k * 1024" by (intro limit_id; linarith)
  then show ?thesis unfolding normalizeBudgetTokens_trunc jsRound_quotient by (simp only:)
qed

lemma budget_multiple:
  assumes "0 \<le> k" and "k \<le> 1024"
  shows "normalizeBudgetTokens (Some (of_int (k * 1024))) = Some (k * 1024)"
proof -
  have "min 1048576 (max 0 (k * 1024)) = k * 1024" using assms by (intro limit_id; linarith)
  moreover have "(k * 1024 + 512) div 1024 = k" by simp
  ultimately show ?thesis unfolding budget_closed jsTrunc_of_int by (simp only:)
qed

lemma budget_grid:
  "\<exists>n. normalizeBudgetTokens (Some v) = Some n \<and> 0 \<le> n \<and> n \<le> 1048576 \<and> 1024 dvd n \<and>
     \<bar>n - min 1048576 (max 0 (jsTrunc v))\<bar> \<le> 512 \<and> normalizeBudgetTokens (Some (of_int n)) = Some n"
proof -
  let ?c = "min 1048576 (max 0 (jsTrunc v))"
  let ?k = "(?c + 512) div 1024"
  note near = nearest_step [OF limited, of "jsTrunc v"]
  have "0 \<le> ?k * 1024" "?k * 1024 \<le> 1048576" using near by linarith+
  then show ?thesis using near budget_closed [of v] budget_multiple [of ?k] by (intro exI [of _ "?k * 1024"] conjI) (simp_all only: dvd_triv_right)
qed

text \<open>
  A budget is put on the grid of the slider: the result is a multiple of 1024 between 0 and 1048576, at most half a step
  from the given number (once that is cut to an integer and limited to the range), and does not move when it is put
  there again.
\<close>

theorem budget_on_grid:
  "\<exists>n. normalizeBudgetTokens (Some v) = Some n \<and> 0 \<le> n \<and> n \<le> 1048576 \<and> 1024 dvd n \<and>
     \<bar>n - min 1048576 (max 0 (jsTrunc v))\<bar> \<le> 512 \<and> normalizeBudgetTokens (Some (of_int n)) = Some n"
  by (rule budget_grid)

section \<open>Selections that a model accepts\<close>

text \<open>A value that a model accepts: one it offers, its default, or a budget on the grid when it takes exact budgets.\<close>

definition acceptableValue :: "thinking_capability \<Rightarrow> thinking_value \<Rightarrow> bool" where
  "acceptableValue capability v \<longleftrightarrow>
     v \<in> set (tc_allowedValues capability) \<or> tc_defaultValue capability = Some v \<or>
     supportsExactBudgetThinkingSelection capability \<and>
       (\<exists>n. v = BudgetValue ModeBudget (Some n) (formatThinkingTokenCount n) \<and> 0 \<le> n \<and> n \<le> 1048576 \<and> 1024 dvd n)"

lemma findThinkingCodeValue_Some:
  assumes "findThinkingCodeValue values code = Some v"
  shows "v \<in> set values" and "\<exists>c l. v = CodeValue c l \<and> findThinkingCodeValue values (Some c) = Some v"
proof -
  from assms obtain c where c: "code = Some c" "trim c \<noteq> []"
    by (auto simp: findThinkingCodeValue_def split: option.splits if_splits)
  have "find (hasCode (toLowerCase (trim c))) values = Some v \<or> find (hasCode ''none'') values = Some v"
    using assms c by (auto simp: findThinkingCodeValue_def Let_def split: option.splits if_splits)
  moreover have norm: "toLowerCase (trim (toLowerCase (trim c))) = toLowerCase (trim c)" "trim (toLowerCase (trim c)) \<noteq> []"
    using c(2) by (simp_all add: trim_toLowerCase)
  moreover have "toLowerCase (trim ''none'') = ''none''" "trim ''none'' \<noteq> []" by code_simp+
  ultimately obtain d where "find (hasCode d) values = Some v" and d: "toLowerCase (trim d) = d" "trim d \<noteq> []"
    by metis
  then obtain l where "v \<in> set values" "v = CodeValue d l" by (metis find_Some_iff hasCode.elims(2) nth_mem)
  then show "v \<in> set values" and "\<exists>c l. v = CodeValue c l \<and> findThinkingCodeValue values (Some c) = Some v"
    using \<open>find (hasCode d) values = Some v\<close> d by (auto simp: findThinkingCodeValue_def)
qed

text \<open>A budget value that has its tokens.\<close>

fun tokensGiven :: "thinking_value \<Rightarrow> bool" where
  "tokensGiven (BudgetValue m tokens labelZh) = (m \<noteq> ModeBudget \<or> tokens \<noteq> None)"
| "tokensGiven (CodeValue code labelZh) = True"
| "tokensGiven (FixedValue labelZh) = True"

lemma fixedCandidate_acceptable: "fixedCandidate capability = Some w \<Longrightarrow> acceptableValue capability w"
  by (auto simp: fixedCandidate_def acceptableValue_def dest!: find_Some_iff [THEN iffD1] split: option.splits thinking_value.splits)

lemma find_in_set: "find P xs = Some x \<Longrightarrow> x \<in> set xs \<and> P x"
  by (auto simp: find_Some_iff)

lemma budgetValue_result:
  assumes "normalizeBudgetThinkingValue (Some v) capability = Some w"
  shows "acceptableValue capability w"
    and "tokensGiven v \<Longrightarrow> normalizeBudgetThinkingValue (Some w) capability = Some w \<and> tokensGiven w"
proof -
  consider (exact) n l where "v = BudgetValue ModeBudget (Some n) l"
    | (mode) m tokens l where "v = BudgetValue m tokens l" "m \<noteq> ModeBudget \<or> tokens = None"
    using assms by (cases v) (auto simp: normalizeBudgetThinkingValue_def split: option.splits)
  then have "acceptableValue capability w \<and>
      (tokensGiven v \<longrightarrow> normalizeBudgetThinkingValue (Some w) capability = Some w \<and> tokensGiven w)"
  proof cases
    case exact
    from budget_grid [of "of_int n"] obtain k where k: "normalizeBudgetTokens (Some (of_int n)) = Some k" "0 \<le> k" "k \<le> 1048576"
      "1024 dvd k" "normalizeBudgetTokens (Some (of_int k)) = Some k" by blast
    have "supportsExactBudgetThinkingSelection capability" "w = BudgetValue ModeBudget (Some k) (formatThinkingTokenCount k)"
      using assms exact k by (auto simp: normalizeBudgetThinkingValue_def split: if_splits)
    then show ?thesis using k by (auto simp: acceptableValue_def normalizeBudgetThinkingValue_def)
  next
    case mode
    then have "find (hasBudgetMode m) (tc_allowedValues capability) = Some w"
      using assms by (auto simp: normalizeBudgetThinkingValue_def split: option.splits budget_mode.splits)
    moreover from find_in_set [OF this] obtain tokens' l' where "w = BudgetValue m tokens' l'" "w \<in> set (tc_allowedValues capability)"
      by (cases w) auto
    ultimately show ?thesis using mode by (cases m) (auto simp: acceptableValue_def normalizeBudgetThinkingValue_def)
  qed
  then show "acceptableValue capability w"
    and "tokensGiven v \<Longrightarrow> normalizeBudgetThinkingValue (Some w) capability = Some w \<and> tokensGiven w" by blast+
qed

lemma value_result:
  assumes "normalizeRuntimeThinkingValueForCapability (Some v) capability = Some w"
  shows "acceptableValue capability w"
    and "tokensGiven v \<Longrightarrow> normalizeRuntimeThinkingValueForCapability (Some w) capability = Some w \<and> tokensGiven w"
proof -
  obtain e where e: "tc_editorType capability = Some e"
    using assms by (auto simp: normalizeRuntimeThinkingValueForCapability_def split: option.splits)
  have "acceptableValue capability w \<and>
      (tokensGiven v \<longrightarrow> normalizeRuntimeThinkingValueForCapability (Some w) capability = Some w \<and> tokensGiven w)"
  proof (cases e)
    case EditorFixed
    then have w: "fixedCandidate capability = Some w"
      using assms e by (simp add: normalizeRuntimeThinkingValueForCapability_def)
    then have "isFixedValue w"
      by (auto simp: fixedCandidate_def dest: find_in_set split: option.splits thinking_value.splits)
    then have "tokensGiven w" by (cases w) simp_all
    then show ?thesis using w e EditorFixed fixedCandidate_acceptable by (simp add: normalizeRuntimeThinkingValueForCapability_def)
  next
    case EditorBudget
    then show ?thesis using assms e budgetValue_result [of v capability w]
      by (simp add: normalizeRuntimeThinkingValueForCapability_def)
  next
    case EditorDiscrete
    then obtain code where "findThinkingCodeValue (tc_allowedValues capability) (Some code) = Some w"
      using assms e by (auto simp: normalizeRuntimeThinkingValueForCapability_def split: option.splits)
    from findThinkingCodeValue_Some [OF this] show ?thesis
      using e EditorDiscrete by (auto simp: acceptableValue_def normalizeRuntimeThinkingValueForCapability_def)
  qed
  then show "acceptableValue capability w"
    and "tokensGiven v \<Longrightarrow> normalizeRuntimeThinkingValueForCapability (Some w) capability = Some w \<and> tokensGiven w" by blast+
qed

lemma built_fields [simp]:
  "ts_series (buildRuntimeThinkingSelectionFromValue series v) = series"
  "ts_value (buildRuntimeThinkingSelectionFromValue series v) = Some v"
  "selectionValue (buildRuntimeThinkingSelectionFromValue series v) = Some v"
  by (simp_all add: buildRuntimeThinkingSelectionFromValue_def selectionValue_def split: prod.splits)

lemma resolve_unsupported:
  "tc_supported capability = Some False \<or> tc_series capability = None \<or> tc_editorType capability = None \<or>
   tc_defaultValue capability = None \<Longrightarrow> resolveThinkingSelectionForCapability capability value = None"
  by (auto simp: resolveThinkingSelectionForCapability_def split: option.splits)

text \<open>The value that the resolution ends with, for a model with a series, an editor and a default.\<close>

definition resolvedValue :: "thinking_capability \<Rightarrow> thinking_value \<Rightarrow> thinking_selection option \<Rightarrow> thinking_value" where
  "resolvedValue capability d value =
     (case value of
        None \<Rightarrow> d
      | Some s \<Rightarrow>
          if tc_series capability \<noteq> Some (ts_series s) then d
          else (case selectionValue s of
                  None \<Rightarrow> d
                | Some v \<Rightarrow> (case normalizeRuntimeThinkingValueForCapability (Some v) capability of None \<Rightarrow> d | Some w \<Rightarrow> w)))"

lemma resolve_supported:
  assumes "tc_supported capability \<noteq> Some False" and "tc_series capability = Some series"
    and "tc_editorType capability = Some e" and "tc_defaultValue capability = Some d"
  shows "resolveThinkingSelectionForCapability capability value =
    Some (buildRuntimeThinkingSelectionFromValue series (resolvedValue capability d value))"
  using assms
  by (auto simp: resolveThinkingSelectionForCapability_def normalizeRuntimeThinkingSelectionForCapability_def resolvedValue_def
      split: option.split)

lemma acceptable_default: "tc_defaultValue capability = Some d \<Longrightarrow> acceptableValue capability d"
  by (simp add: acceptableValue_def)

section \<open>What the resolution gives\<close>

lemma resolve_acceptable_all:
  "case resolveThinkingSelectionForCapability capability value of
     None \<Rightarrow> tc_supported capability = Some False \<or> tc_series capability = None \<or> tc_editorType capability = None \<or>
             tc_defaultValue capability = None
   | Some s \<Rightarrow> tc_series capability = Some (ts_series s) \<and>
       (\<exists>v. s = buildRuntimeThinkingSelectionFromValue (ts_series s) v \<and> acceptableValue capability v)"
proof (cases "tc_supported capability = Some False \<or> tc_series capability = None \<or> tc_editorType capability = None \<or>
    tc_defaultValue capability = None")
  case True
  then show ?thesis by (simp add: resolve_unsupported)
next
  case False
  then obtain series e d where cap: "tc_supported capability \<noteq> Some False" "tc_series capability = Some series"
    "tc_editorType capability = Some e" "tc_defaultValue capability = Some d" by auto
  have "acceptableValue capability (resolvedValue capability d value)"
    using acceptable_default [OF cap(4)] value_result(1) by (auto simp: resolvedValue_def split: option.split)
  then show ?thesis using cap by (auto simp: resolve_supported)
qed

lemma resolvedValue_built:
  "tc_series capability = Some series \<Longrightarrow>
   resolvedValue capability d (Some (buildRuntimeThinkingSelectionFromValue series v)) =
     (case normalizeRuntimeThinkingValueForCapability (Some v) capability of None \<Rightarrow> d | Some w \<Rightarrow> w)"
  by (simp add: resolvedValue_def)

definition selectionGiven :: "thinking_selection option \<Rightarrow> bool" where
  "selectionGiven value \<longleftrightarrow>
     (case value of None \<Rightarrow> True | Some s \<Rightarrow> (case selectionValue s of None \<Rightarrow> True | Some v \<Rightarrow> tokensGiven v))"

text \<open>One step gives the default or a value that the next step keeps.\<close>

lemma resolvedValue_step:
  assumes "tc_series capability = Some series" and "selectionGiven value"
  shows "resolvedValue capability d value = d \<or>
    resolvedValue capability d (Some (buildRuntimeThinkingSelectionFromValue series (resolvedValue capability d value))) =
      resolvedValue capability d value"
proof (cases "resolvedValue capability d value = d")
  case False
  then obtain s v w where s: "value = Some s" "selectionValue s = Some v"
    and w: "normalizeRuntimeThinkingValueForCapability (Some v) capability = Some w" "resolvedValue capability d value = w"
    by (simp add: resolvedValue_def split: option.splits if_splits)
  have "tokensGiven v" using assms(2) s by (simp add: selectionGiven_def)
  then show ?thesis using value_result(2) [OF w(1)] w(2) by (simp add: resolvedValue_built [OF assms(1)])
qed blast

lemma resolve_settles_all:
  assumes "selectionGiven value" and "\<And>d. tc_defaultValue capability = Some d \<Longrightarrow> tokensGiven d"
  shows "let resolve = resolveThinkingSelectionForCapability capability;
             default = (case (tc_series capability, tc_defaultValue capability) of
               (Some series, Some d) \<Rightarrow> Some (buildRuntimeThinkingSelectionFromValue series d) | _ \<Rightarrow> None)
         in resolve (resolve (resolve value)) = resolve (resolve value) \<and>
            (resolve default = default \<longrightarrow> resolve (resolve value) = resolve value)"
proof (cases "tc_supported capability = Some False \<or> tc_series capability = None \<or> tc_editorType capability = None \<or>
    tc_defaultValue capability = None")
  case True
  then show ?thesis by (simp add: resolve_unsupported Let_def)
next
  case False
  then obtain series e d where cap: "tc_supported capability \<noteq> Some False" "tc_series capability = Some series"
    "tc_editorType capability = Some e" "tc_defaultValue capability = Some d" by auto
  let ?r = "resolvedValue capability d"
  let ?sel = "\<lambda>v. Some (buildRuntimeThinkingSelectionFromValue series v)"
  have d: "selectionGiven (?sel d)" using assms(2) cap(4) by (simp add: selectionGiven_def)
  note one = resolvedValue_step [OF cap(2) assms(1), of d] and two = resolvedValue_step [OF cap(2) d, of d]
  have inj: "?sel v = ?sel w \<longleftrightarrow> v = w" for v w
    by (metis built_fields(2) option.inject)
  have "?r (?sel (?r (?sel (?r value)))) = ?r (?sel (?r value))" using one two by metis
  moreover have "?r (?sel d) = d \<Longrightarrow> ?r (?sel (?r value)) = ?r value" using one by metis
  ultimately show ?thesis
    unfolding Let_def resolve_supported [OF cap] cap(2) cap(4) prod.case option.case inj by blast
qed

lemma resolve_shape:
  "resolveThinkingSelectionForCapability capability value = Some s \<Longrightarrow>
   \<exists>v. s = buildRuntimeThinkingSelectionFromValue (ts_series s) v"
  using resolve_acceptable_all [of capability "value"] by auto

lemma resolve_None_all:
  "resolveThinkingSelectionForCapability capability v = None \<Longrightarrow> resolveThinkingSelectionForCapability capability w = None"
  by (auto simp: resolveThinkingSelectionForCapability_def split: option.splits if_splits)

lemma resolve_twice:
  assumes "selectionGiven value" and "\<And>d. tc_defaultValue capability = Some d \<Longrightarrow> tokensGiven d"
  shows "resolveThinkingSelectionForCapability capability
      (resolveThinkingSelectionForCapability capability (resolveThinkingSelectionForCapability capability value)) =
    resolveThinkingSelectionForCapability capability (resolveThinkingSelectionForCapability capability value)"
  using resolve_settles_all [OF assms] by (simp add: Let_def)

section \<open>Properties of the resolution\<close>

text \<open>
  The selection that a model is given is one it accepts: of its series, with the legacy fields of its value, and
  with a value that it offers, its default or a budget on the grid; a model without thinking is given none.
\<close>

theorem resolved_is_acceptable:
  "case resolveThinkingSelectionForCapability capability value of
     None \<Rightarrow> tc_supported capability = Some False \<or> tc_series capability = None \<or> tc_editorType capability = None \<or>
             tc_defaultValue capability = None
   | Some s \<Rightarrow> tc_series capability = Some (ts_series s) \<and>
       (\<exists>v. s = buildRuntimeThinkingSelectionFromValue (ts_series s) v \<and> acceptableValue capability v)"
  by (rule resolve_acceptable_all)

text \<open>
  Resolving the selection again settles: when the budgets of the selection and of the default have their tokens, the
  second result is never changed by a third resolution, and the first one is already final when the default is
  itself in the form that the resolution gives.
\<close>

theorem resolution_settles:
  assumes "selectionGiven value" and "\<And>d. tc_defaultValue capability = Some d \<Longrightarrow> tokensGiven d"
  shows "let resolve = resolveThinkingSelectionForCapability capability;
             default = (case (tc_series capability, tc_defaultValue capability) of
               (Some series, Some d) \<Rightarrow> Some (buildRuntimeThinkingSelectionFromValue series d) | _ \<Rightarrow> None)
         in resolve (resolve (resolve value)) = resolve (resolve value) \<and>
            (resolve default = default \<longrightarrow> resolve (resolve value) = resolve value)"
  using assms by (rule resolve_settles_all)

text \<open>
  A default that is off the grid: the first resolution gives the default of 1000 tokens, the second one moves it
  to 1024, so that one resolution is not always enough.
\<close>

definition offGridCapability :: thinking_capability where
  "offGridCapability =
     \<lparr>tc_status = VerifiedSupported, tc_source = SourceVerified, tc_series = Some ''s'', tc_seriesLabelZh = None,
      tc_editorType = Some EditorBudget, tc_allowedValues = [],
      tc_defaultValue = Some (BudgetValue ModeBudget (Some 1000) ''1000''), tc_providerBuilderKey = None, tc_reasonCode = ''r'',
      tc_routeFingerprint = \<lparr>fp_providerProfileId = [], fp_provider = [], fp_endpointType = [], fp_baseUrl = [], fp_modelId = []\<rparr>,
      tc_supported = Some True,
      tc_controlSpec = Some (Some \<lparr>cp_kind = ControlBudget, cp_selectionKind = SelectBudget, cp_presetOptions = None,
        cp_fixedSelection = None, cp_budget = Some (Some \<lparr>cb_minTokens = None, cb_maxTokens = None, cb_stepTokens = None\<rparr>)\<rparr>),
      tc_defaultSelection = None, tc_supportedLevels = None, tc_defaultLevel = None, tc_providerHint = None,
      tc_provenance = None, tc_visibility = None, tc_overrideLevels = None\<rparr>"

lemma default_moves:
  "let resolve = resolveThinkingSelectionForCapability offGridCapability
   in Option.bind (resolve None) ts_value = Some (BudgetValue ModeBudget (Some 1000) ''1000'') \<and>
      Option.bind (resolve (resolve None)) ts_value = Some (BudgetValue ModeBudget (Some 1024) ''1K'')"
  by code_simp

theorem resolution_settles_witness:
  "selectionGiven None \<and> tokensGiven (BudgetValue ModeBudget (Some 1000) ''1000'') \<and>
   (let resolve = resolveThinkingSelectionForCapability offGridCapability
    in resolve (resolve (resolve None)) = resolve (resolve None))"
proof -
  have "selectionGiven None" by (simp add: selectionGiven_def)
  moreover have "tokensGiven d" if "tc_defaultValue offGridCapability = Some d" for d
    using that by (auto simp: offGridCapability_def)
  ultimately show ?thesis
    using resolution_settles [of None offGridCapability] by (simp add: Let_def)
qed

end
