(* ===== verification/Composer.thy ===== *)
theory Composer
  imports Runtime_Request Model_Route Thinking_Choice Error_Detail Run_Segments
begin

text \<open>
  The composer of a message: the rest of \<open>src/features/copilot/copilot-chat-helpers.ts\<close>. A draft holds the text, the chosen
  model with the thinking selections remembered for each model, and the enabled tools; \<open>buildRuntimeMessageSendInput\<close> turns it
  into the input of a run. Names that other files use as well carry the suffix \<open>H\<close>.
\<close>

section \<open>Sessions and drafts\<close>

record agent_type =
  ag_id :: string
  ag_label :: string
  ag_shortLabel :: string
  ag_description :: string
  ag_hint :: "string option"
  ag_status :: string
  ag_recommendedTools :: "string list"

record session_capabilities =
  sc_capabilitiesVersion :: string
  sc_allAvailableTools :: "tool_entry list"
  sc_recommendedToolsForAgent :: "string list"
  sc_defaultEnabledTools :: "string list"
  sc_toolSelectionMode :: string

record session_shell =
  sh_sessionId :: string
  sh_title :: "string option"
  sh_boundAgent :: agent_type
  sh_createdAt :: string
  sh_updatedAt :: string
  sh_capabilities :: session_capabilities

record composer_draft =
  dr_messageText :: string
  dr_selectedModelId :: string
  dr_selectedModelRoute :: "model_route option"
  dr_thinkingSelection :: "thinking_selection option"
  dr_thinkingSelectionByModelKey :: "(string \<times> thinking_selection option) list"
  dr_enabledTools :: "string list"
  dr_requestOptionsText :: string

definition createEmptyComposerDraft :: composer_draft where
  "createEmptyComposerDraft =
     \<lparr>dr_messageText = [], dr_selectedModelId = [], dr_selectedModelRoute = None, dr_thinkingSelection = None,
      dr_thinkingSelectionByModelKey = [], dr_enabledTools = [], dr_requestOptionsText = ''{}''\<rparr>"

text \<open>The session may be \<open>null\<close>, and its capabilities absent.\<close>

definition createComposerDraftFromSession :: "session_capabilities option option \<Rightarrow> composer_draft" where
  "createComposerDraftFromSession sessionShell =
     createEmptyComposerDraft\<lparr>dr_enabledTools :=
       (case sessionShell of Some (Some c) \<Rightarrow> dedupeToolIds (sc_defaultEnabledTools c) | _ \<Rightarrow> [])\<rparr>"

record history_run =
  hi_selectedModelId :: "string option"
  hi_resolvedModelId :: "string option"
  hi_selectedModelRoute :: "model_route option"
  hi_appliedThinkingSelection :: "thinking_selection option"
  hi_enabledTools :: "string list option"
  hi_requestOptions :: "jrecord option"

definition routeSelection :: "model_route option \<Rightarrow> string" where
  "routeSelection route =
     (case route of
        None \<Rightarrow> []
      | Some r \<Rightarrow> (case mr_routeRef r of Some (Some ref) \<Rightarrow> serializeModelRouteRef ref | _ \<Rightarrow> []))"

fun firstNonEmpty :: "string list \<Rightarrow> string" where
  "firstNonEmpty [] = []"
| "firstNonEmpty (s # ss) = (if s \<noteq> [] then s else firstNonEmpty ss)"

definition trimmedText :: "string option \<Rightarrow> string" where
  "trimmedText s = (case s of None \<Rightarrow> [] | Some t \<Rightarrow> trim t)"

definition createComposerDraftFromPersistedHistoryRun :: "(rat \<Rightarrow> string) \<Rightarrow> history_run \<Rightarrow> composer_draft" where
  "createComposerDraftFromPersistedHistoryRun numText i =
     (let baseDraft = createEmptyComposerDraft;
          selectedModelRoute = map_option cloneRuntimeModelRoute (hi_selectedModelRoute i);
          thinkingSelection = cloneRuntimeThinkingSelection (hi_appliedThinkingSelection i)
      in baseDraft\<lparr>
           dr_selectedModelId := firstNonEmpty
             [trimmedText (hi_selectedModelId i), routeSelection selectedModelRoute, trimmedText (hi_resolvedModelId i)],
           dr_selectedModelRoute := selectedModelRoute,
           dr_thinkingSelection := thinkingSelection,
           dr_enabledTools := (case hi_enabledTools i of None \<Rightarrow> [] | Some ts \<Rightarrow> dedupeToolIds ts),
           dr_requestOptionsText := (case hi_requestOptions i of
               None \<Rightarrow> dr_requestOptionsText baseDraft | Some r \<Rightarrow> stringify numText (JObj r))\<rparr>)"

section \<open>Models and thinking of a draft\<close>

definition buildThinkingSessionMemoryKey :: "model_route \<Rightarrow> string" where
  "buildThinkingSessionMemoryKey route = routeSelection (Some route)"

text \<open>\<open>memory[key] ?? fallback\<close>\<close>

definition remembered :: "(string \<times> thinking_selection option) list \<Rightarrow> string \<Rightarrow> thinking_selection option \<Rightarrow> thinking_selection option" where
  "remembered memory key fallback = (case map_of memory key of Some (Some s) \<Rightarrow> Some s | _ \<Rightarrow> fallback)"

definition applyModelSelectionToComposerDraft :: "composer_draft \<Rightarrow> string \<Rightarrow> model_route \<Rightarrow> composer_draft" where
  "applyModelSelectionToComposerDraft draft modelId modelRoute =
     (let nextRoute = cloneRuntimeModelRoute modelRoute; memoryKey = buildThinkingSessionMemoryKey nextRoute in
      draft\<lparr>dr_selectedModelId := modelId, dr_selectedModelRoute := Some nextRoute,
        dr_thinkingSelection :=
          cloneRuntimeThinkingSelection (remembered (dr_thinkingSelectionByModelKey draft) memoryKey None)\<rparr>)"

definition applyThinkingSelectionToComposerDraft ::
  "composer_draft \<Rightarrow> model_route option \<Rightarrow> thinking_selection option \<Rightarrow> composer_draft" where
  "applyThinkingSelectionToComposerDraft draft modelRoute thinkingSelection =
     (case (modelRoute, thinkingSelection) of
        (Some route, Some s) \<Rightarrow>
          (let memoryKey = buildThinkingSessionMemoryKey route; next' = cloneRuntimeThinkingSelection (Some s) in
           draft\<lparr>dr_thinkingSelection := next',
             dr_thinkingSelectionByModelKey := AList.update memoryKey next' (dr_thinkingSelectionByModelKey draft)\<rparr>)
      | _ \<Rightarrow> draft\<lparr>dr_thinkingSelection := None\<rparr>)"

definition syncComposerDraftThinkingSelection ::
  "composer_draft \<Rightarrow> model_route option \<Rightarrow> thinking_capability option \<Rightarrow> composer_draft" where
  "syncComposerDraftThinkingSelection draft modelRoute capability =
     (case modelRoute of
        None \<Rightarrow> (if dr_thinkingSelection draft = None then draft else draft\<lparr>dr_thinkingSelection := None\<rparr>)
      | Some route \<Rightarrow>
          (case capability of
             None \<Rightarrow> draft
           | Some c \<Rightarrow>
               (let memoryKey = buildThinkingSessionMemoryKey route;
                    next' = resolveThinkingSelectionForCapability c
                      (remembered (dr_thinkingSelectionByModelKey draft) memoryKey (dr_thinkingSelection draft))
                in if isSameRuntimeThinkingSelection next' (dr_thinkingSelection draft) then draft
                   else draft\<lparr>dr_thinkingSelection := next',
                     dr_thinkingSelectionByModelKey :=
                       (if next' = None then dr_thinkingSelectionByModelKey draft
                        else AList.update memoryKey next' (dr_thinkingSelectionByModelKey draft))\<rparr>)))"

section \<open>The content of a message\<close>

datatype attachment_source = FromFilesystem | FromClipboard

datatype attachment_kind = AttachmentImage | AttachmentText | AttachmentOther

record attachment =
  at_id :: string
  at_path :: string
  at_name :: string
  at_mimeType :: string
  at_size :: int
  at_isTemporary :: bool
  at_source :: attachment_source
  at_kind :: attachment_kind
  at_createdAt :: string
  at_previewUrl :: "string option"

text \<open>\<open>replace(/[\r\n]+/g, ' ')\<close>; \<open>inBreak\<close> says that the character before was one of a run.\<close>

fun collapseLineBreaks :: "bool \<Rightarrow> string \<Rightarrow> string" where
  "collapseLineBreaks inBreak [] = []"
| "collapseLineBreaks inBreak (c # s) =
     (if c = lf \<or> c = cr then (if inBreak then collapseLineBreaks True s else CHR 0x20 # collapseLineBreaks True s)
      else c # collapseLineBreaks False s)"

definition sanitizeComposerAttachmentPath :: "string \<Rightarrow> string" where
  "sanitizeComposerAttachmentPath path = collapseLineBreaks False (trim path)"

definition dedupeComposerAttachmentPaths :: "string list \<Rightarrow> string list" where
  "dedupeComposerAttachmentPaths paths =
     uniqueFrom [] (filter (\<lambda>p. p \<noteq> []) (map sanitizeComposerAttachmentPath paths))"

definition buildComposerMessageContentWithAttachments :: "string \<Rightarrow> string list \<Rightarrow> string" where
  "buildComposerMessageContentWithAttachments messageText paths =
     (let trimmedMessage = trim messageText; normalizedPaths = dedupeComposerAttachmentPaths paths;
          attachmentSection = joinWith [lf]
            ([''User attached files:''] @ map (\<lambda>p. ''- '' @ p) normalizedPaths @
             [''Please process these files accordingly, for example, use `tool.fs.read` tool to read the content of these files.''])
      in if normalizedPaths = [] then trimmedMessage
         else if trimmedMessage = [] then attachmentSection
         else trimmedMessage @ [lf, lf] @ attachmentSection)"

record send_input =
  si_runtimeUrl :: string
  si_sessionId :: string
  si_agent :: string
  si_message :: message_payload
  si_modelRoute :: model_route
  si_thinkingSelection :: "thinking_selection option"
  si_thinkingCapabilityOverride :: "jrecord option option"
  si_enabledTools :: "string list"
  si_toolPermissionPolicy :: "runtime_policy option"
  si_requestOptions :: jrecord

definition selectRouteFirst :: string where
  "selectRouteFirst = [CHR 0xE8, CHR 0xAF, CHR 0xB7, CHR 0xE5, CHR 0x85, CHR 0x88, CHR 0xE9, CHR 0x80, CHR 0x89, CHR 0xE6, CHR 0x8B, CHR 0xA9, CHR 0xE5, CHR 0x8F, CHR 0xAF, CHR 0xE5, CHR 0x8F, CHR 0x91, CHR 0xE9, CHR 0x80, CHR 0x81, CHR 0xE7, CHR 0x9A, CHR 0x84, CHR 0xE6, CHR 0xA8, CHR 0xA1, CHR 0xE5, CHR 0x9E, CHR 0x8B, CHR 0xE8, CHR 0xB7, CHR 0xAF, CHR 0xE7, CHR 0x94, CHR 0xB1, CHR 0xE3, CHR 0x80, CHR 0x82]"

definition buildRuntimeMessageSendInput ::
  "string \<Rightarrow> session_shell \<Rightarrow> composer_draft \<Rightarrow> string list \<Rightarrow> jrecord \<Rightarrow> jrecord option option \<Rightarrow> policy_state option \<Rightarrow>
   jrecord option option \<Rightarrow> js_error + send_input" where
  "buildRuntimeMessageSendInput runtimeUrl shell draft paths requestOptions structuredPayload policy override =
     (case dr_selectedModelRoute draft of
        None \<Rightarrow> Inl (PlainFailure selectRouteFirst)
      | Some route \<Rightarrow>
          (let enabledTools = sanitizeEnabledToolIds (dr_enabledTools draft)
                 (sc_allAvailableTools (sh_capabilities shell)) policy in
           Inr \<lparr>si_runtimeUrl = runtimeUrl, si_sessionId = sh_sessionId shell, si_agent = ag_id (sh_boundAgent shell),
                si_message = \<lparr>me_role = ''user'',
                  me_content = buildComposerMessageContentWithAttachments (dr_messageText draft) paths,
                  me_structuredPayload = structuredPayload\<rparr>,
                si_modelRoute = cloneRuntimeModelRoute route,
                si_thinkingSelection = cloneRuntimeThinkingSelection (dr_thinkingSelection draft),
                si_thinkingCapabilityOverride = override,
                si_enabledTools = enabledTools,
                si_toolPermissionPolicy = buildRuntimeToolPermissionPolicy enabledTools policy,
                si_requestOptions = requestOptions\<rparr>))"

text \<open>\<open>JSON.parse\<close> is the parameter \<open>jp\<close>; the error it throws has a message.\<close>

definition requestOptionsMustBeObject :: string where
  "requestOptionsMustBeObject = [CHR 0x72, CHR 0x65, CHR 0x71, CHR 0x75, CHR 0x65, CHR 0x73, CHR 0x74, CHR 0x4F, CHR 0x70, CHR 0x74, CHR 0x69, CHR 0x6F, CHR 0x6E, CHR 0x73, CHR 0x20, CHR 0xE5, CHR 0xBF, CHR 0x85, CHR 0xE9, CHR 0xA1, CHR 0xBB, CHR 0xE6, CHR 0x98, CHR 0xAF, CHR 0x20, CHR 0x4A, CHR 0x53, CHR 0x4F, CHR 0x4E, CHR 0x20, CHR 0xE5, CHR 0xAF, CHR 0xB9, CHR 0xE8, CHR 0xB1, CHR 0xA1, CHR 0xE3, CHR 0x80, CHR 0x82]"

definition parseRequestOptionsText :: "(string \<Rightarrow> json res) \<Rightarrow> string \<Rightarrow> js_error + jrecord" where
  "parseRequestOptionsText jp requestOptionsText =
     (if trim requestOptionsText = [] then Inr []
      else case jp (trim requestOptionsText) of
        Inl m \<Rightarrow> Inl (PlainFailure m)
      | Inr (JObj r) \<Rightarrow> Inr r
      | Inr _ \<Rightarrow> Inl (PlainFailure requestOptionsMustBeObject))"

section \<open>Errors shown to the user\<close>

record transient_error =
  tr_message :: string
  tr_errorDetail :: "error_source option"

definition createCopilotTransientErrorState :: "string \<Rightarrow> error_source option \<Rightarrow> transient_error" where
  "createCopilotTransientErrorState message detail =
     \<lparr>tr_message = (if trim message = [] then [CHR 0xE5, CHR 0xBD, CHR 0x93, CHR 0xE5, CHR 0x89, CHR 0x8D, CHR 0xE5, CHR 0x93, CHR 0x8D, CHR 0xE5, CHR 0xBA, CHR 0x94, CHR 0xE5, CHR 0xA4, CHR 0xB1, CHR 0xE8, CHR 0xB4, CHR 0xA5, CHR 0xEF, CHR 0xBC, CHR 0x8C, CHR 0xE8, CHR 0xAF, CHR 0xB7, CHR 0xE9, CHR 0x87, CHR 0x8D, CHR 0xE8, CHR 0xAF, CHR 0x95, CHR 0xE3, CHR 0x80, CHR 0x82] else trim message), tr_errorDetail = detail\<rparr>"

definition SESSION_STALE_CODES :: "string list" where
  "SESSION_STALE_CODES = [''agent_mismatch'', ''capabilities_version_stale'']"

definition TOOL_UNAVAILABLE_CODES :: "string list" where
  "TOOL_UNAVAILABLE_CODES = [''tool_not_found'', ''tool_unavailable'']"

definition MODEL_UNAVAILABLE_CODES :: "string list" where
  "MODEL_UNAVAILABLE_CODES =
     [''provider_catalog_only'', ''provider_legacy_unsupported'', ''provider_runtime_not_enabled'', ''adapter_missing'',
      ''provider_adapter_mismatch'', ''provider_profile_not_found'', ''route_ref_snapshot_mismatch'',
      ''host_model_route_unavailable'', ''host_model_route_access_denied'']"

definition PROVIDER_CONFIG_CODES :: "string list" where
  "PROVIDER_CONFIG_CODES =
     [''provider_auth_missing'', ''provider_secret_missing'', ''provider_auth_kind_unsupported'', ''provider_base_url_missing'']"

definition requestErrorText :: "request_error \<Rightarrow> string" where
  "requestErrorText e =
     (let code = (case qe_code e of None \<Rightarrow> [] | Some c \<Rightarrow> c) in
      if code \<in> set SESSION_STALE_CODES then [CHR 0xE5, CHR 0xBD, CHR 0x93, CHR 0xE5, CHR 0x89, CHR 0x8D, CHR 0xE4, CHR 0xBC, CHR 0x9A, CHR 0xE8, CHR 0xAF, CHR 0x9D, CHR 0xE5, CHR 0xB7, CHR 0xB2, CHR 0xE6, CHR 0x9B, CHR 0xB4, CHR 0xE6, CHR 0x96, CHR 0xB0, CHR 0xEF, CHR 0xBC, CHR 0x8C, CHR 0xE8, CHR 0xAF, CHR 0xB7, CHR 0xE9, CHR 0x87, CHR 0x8D, CHR 0xE6, CHR 0x96, CHR 0xB0, CHR 0xE5, CHR 0x8F, CHR 0x91, CHR 0xE9, CHR 0x80, CHR 0x81, CHR 0xE3, CHR 0x80, CHR 0x82]
      else if code \<in> set TOOL_UNAVAILABLE_CODES then [CHR 0xE5, CHR 0xBD, CHR 0x93, CHR 0xE5, CHR 0x89, CHR 0x8D, CHR 0xE6, CHR 0x89, CHR 0x80, CHR 0xE9, CHR 0x80, CHR 0x89, CHR 0xE5, CHR 0xB7, CHR 0xA5, CHR 0xE5, CHR 0x85, CHR 0xB7, CHR 0xE6, CHR 0x9A, CHR 0x82, CHR 0xE4, CHR 0xB8, CHR 0x8D, CHR 0xE5, CHR 0x8F, CHR 0xAF, CHR 0xE7, CHR 0x94, CHR 0xA8, CHR 0xEF, CHR 0xBC, CHR 0x8C, CHR 0xE8, CHR 0xAF, CHR 0xB7, CHR 0xE8, CHR 0xB0, CHR 0x83, CHR 0xE6, CHR 0x95, CHR 0xB4, CHR 0xE5, CHR 0x90, CHR 0x8E, CHR 0xE9, CHR 0x87, CHR 0x8D, CHR 0xE8, CHR 0xAF, CHR 0x95, CHR 0xE3, CHR 0x80, CHR 0x82]
      else if code = ''invalid_request'' then [CHR 0xE5, CHR 0xBD, CHR 0x93, CHR 0xE5, CHR 0x89, CHR 0x8D, CHR 0xE6, CHR 0xB6, CHR 0x88, CHR 0xE6, CHR 0x81, CHR 0xAF, CHR 0xE6, CHR 0x9A, CHR 0x82, CHR 0xE6, CHR 0x97, CHR 0xB6, CHR 0xE6, CHR 0x97, CHR 0xA0, CHR 0xE6, CHR 0xB3, CHR 0x95, CHR 0xE5, CHR 0x8F, CHR 0x91, CHR 0xE9, CHR 0x80, CHR 0x81, CHR 0xEF, CHR 0xBC, CHR 0x8C, CHR 0xE8, CHR 0xAF, CHR 0xB7, CHR 0xE8, CHR 0xB0, CHR 0x83, CHR 0xE6, CHR 0x95, CHR 0xB4, CHR 0xE5, CHR 0x86, CHR 0x85, CHR 0xE5, CHR 0xAE, CHR 0xB9, CHR 0xE5, CHR 0x90, CHR 0x8E, CHR 0xE9, CHR 0x87, CHR 0x8D, CHR 0xE8, CHR 0xAF, CHR 0x95, CHR 0xE3, CHR 0x80, CHR 0x82]
      else if code = ''thinking_not_supported_for_route'' then [CHR 0xE5, CHR 0xBD, CHR 0x93, CHR 0xE5, CHR 0x89, CHR 0x8D, CHR 0xE6, CHR 0xA8, CHR 0xA1, CHR 0xE5, CHR 0x9E, CHR 0x8B, CHR 0xE6, CHR 0x9A, CHR 0x82, CHR 0xE4, CHR 0xB8, CHR 0x8D, CHR 0xE6, CHR 0x94, CHR 0xAF, CHR 0xE6, CHR 0x8C, CHR 0x81, CHR 0xE6, CHR 0x89, CHR 0x80, CHR 0xE9, CHR 0x80, CHR 0x89, CHR 0xE6, CHR 0x80, CHR 0x9D, CHR 0xE8, CHR 0x80, CHR 0x83, CHR 0xE8, CHR 0xAE, CHR 0xBE, CHR 0xE7, CHR 0xBD, CHR 0xAE, CHR 0xEF, CHR 0xBC, CHR 0x8C, CHR 0xE8, CHR 0xAF, CHR 0xB7, CHR 0xE8, CHR 0xB0, CHR 0x83, CHR 0xE6, CHR 0x95, CHR 0xB4, CHR 0xE5, CHR 0x90, CHR 0x8E, CHR 0xE9, CHR 0x87, CHR 0x8D, CHR 0xE8, CHR 0xAF, CHR 0x95, CHR 0xE3, CHR 0x80, CHR 0x82]
      else if code \<in> set MODEL_UNAVAILABLE_CODES then [CHR 0xE5, CHR 0xBD, CHR 0x93, CHR 0xE5, CHR 0x89, CHR 0x8D, CHR 0xE6, CHR 0xA8, CHR 0xA1, CHR 0xE5, CHR 0x9E, CHR 0x8B, CHR 0xE4, CHR 0xB8, CHR 0x8D, CHR 0xE5, CHR 0x8F, CHR 0xAF, CHR 0xE7, CHR 0x94, CHR 0xA8, CHR 0xEF, CHR 0xBC, CHR 0x8C, CHR 0xE8, CHR 0xAF, CHR 0xB7, CHR 0xE9, CHR 0x87, CHR 0x8D, CHR 0xE6, CHR 0x96, CHR 0xB0, CHR 0xE9, CHR 0x80, CHR 0x89, CHR 0xE6, CHR 0x8B, CHR 0xA9, CHR 0xE6, CHR 0xA8, CHR 0xA1, CHR 0xE5, CHR 0x9E, CHR 0x8B, CHR 0xE3, CHR 0x80, CHR 0x82]
      else if code \<in> set PROVIDER_CONFIG_CODES then [CHR 0xE8, CHR 0xAF, CHR 0xB7, CHR 0xE5, CHR 0x85, CHR 0x88, CHR 0xE5, CHR 0xAE, CHR 0x8C, CHR 0xE6, CHR 0x88, CHR 0x90, CHR 0xE6, CHR 0xA8, CHR 0xA1, CHR 0xE5, CHR 0x9E, CHR 0x8B, CHR 0xE6, CHR 0x9C, CHR 0x8D, CHR 0xE5, CHR 0x8A, CHR 0xA1, CHR 0xE9, CHR 0x85, CHR 0x8D, CHR 0xE7, CHR 0xBD, CHR 0xAE, CHR 0xE5, CHR 0x90, CHR 0x8E, CHR 0xE5, CHR 0x86, CHR 0x8D, CHR 0xE8, CHR 0xAF, CHR 0x95, CHR 0xE3, CHR 0x80, CHR 0x82]
      else qe_message e)"

definition formatRuntimeMessageSendError :: "js_error \<Rightarrow> string" where
  "formatRuntimeMessageSendError e = (case e of RequestFailure q \<Rightarrow> requestErrorText q | _ \<Rightarrow> thrownMessage e)"

definition formatRequestOptionsError :: "js_error \<Rightarrow> string" where
  "formatRequestOptionsError e = thrownMessage e"

definition sendFailedTitle :: string where
  "sendFailedTitle = [CHR 0xE5, CHR 0x8F, CHR 0x91, CHR 0xE9, CHR 0x80, CHR 0x81, CHR 0xE5, CHR 0xA4, CHR 0xB1, CHR 0xE8, CHR 0xB4, CHR 0xA5]"

record preflight_input =
  pi_summaryMessage :: string
  pi_rawMessage :: "string option"
  pi_code :: "string option"
  pi_details :: "jrecord option"
  pi_requestedMethod :: "string option"
  pi_resolvedModelId :: "string option"
  pi_resolvedModelRoute :: "model_route option"
  pi_resolvedToolIds :: "string list option"
  pi_requestOptions :: "jrecord option"

definition createPreflightErrorDetail :: "preflight_input \<Rightarrow> error_source" where
  "createPreflightErrorDetail i = createCopilotErrorDetailSource
     \<lparr>ei_source = SourcePreflight, ei_title = Some sendFailedTitle, ei_summaryMessage = pi_summaryMessage i,
      ei_rawMessage = Some (orElse (pi_rawMessage i) (pi_summaryMessage i)), ei_code = pi_code i,
      ei_stage = Some ''preflight'', ei_requestedMethod = Some (orElse (pi_requestedMethod i) ''run/start''), ei_status = None,
      ei_details = Some (orElse (pi_details i) []), ei_resolvedModelId = pi_resolvedModelId i,
      ei_resolvedModelRoute = map_option PlainRoute (pi_resolvedModelRoute i),
      ei_resolvedToolIds = Some (orElse (pi_resolvedToolIds i) []), ei_requestOptions = Some (orElse (pi_requestOptions i) [])\<rparr>"

datatype request_stage = StagePreflight | StageRunStart

record request_detail_input =
  ri_error :: request_error
  ri_stage :: "request_stage option"
  ri_requestedMethod :: "string option"
  ri_resolvedModelId :: "string option"
  ri_resolvedModelRoute :: "model_route option"
  ri_resolvedToolIds :: "string list option"
  ri_requestOptions :: "jrecord option"

definition createRuntimeRequestErrorDetail :: "request_detail_input \<Rightarrow> error_source" where
  "createRuntimeRequestErrorDetail i =
     (let stage = orElse (ri_stage i) StageRunStart in
      createCopilotErrorDetailSource
        \<lparr>ei_source = (if stage = StagePreflight then SourcePreflight else SourceRunStart), ei_title = Some sendFailedTitle,
         ei_summaryMessage = formatRuntimeMessageSendError (RequestFailure (ri_error i)),
         ei_rawMessage = Some (qe_message (ri_error i)), ei_code = qe_code (ri_error i),
         ei_stage = Some (if stage = StagePreflight then ''preflight'' else ''run-start''),
         ei_requestedMethod = Some (orElse (ri_requestedMethod i) ''run/start''),
         ei_status = Some (of_int (qe_status (ri_error i))), ei_details = Some (qe_details (ri_error i)),
         ei_resolvedModelId = ri_resolvedModelId i, ei_resolvedModelRoute = map_option PlainRoute (ri_resolvedModelRoute i),
         ei_resolvedToolIds = Some (orElse (ri_resolvedToolIds i) []),
         ei_requestOptions = Some (orElse (ri_requestOptions i) [])\<rparr>)"

section \<open>The capability after a failed query\<close>

definition verifiedThinkingErrorCodes :: "string list" where
  "verifiedThinkingErrorCodes =
     [''provider_catalog_only'', ''provider_legacy_unsupported'', ''provider_runtime_not_enabled'', ''adapter_missing'',
      ''provider_auth_missing'', ''provider_secret_missing'', ''provider_auth_kind_unsupported'', ''provider_base_url_missing'',
      ''provider_adapter_mismatch'', ''provider_profile_not_found'', ''route_ref_snapshot_mismatch'',
      ''host_model_route_unavailable'', ''host_model_route_access_denied'', ''thinking_not_supported_for_route'']"

definition isVerifiedThinkingCapabilityErrorCode :: "string \<Rightarrow> bool" where
  "isVerifiedThinkingCapabilityErrorCode code \<longleftrightarrow> code \<in> set verifiedThinkingErrorCodes"

definition readRuntimeErrorDetail :: "jrecord \<Rightarrow> string \<Rightarrow> string option" where
  "readRuntimeErrorDetail details key =
     (case prop_of details key of
        Some (JStr s) \<Rightarrow> if trim s = [] then None else Some (toLowerCase (trim s))
      | _ \<Rightarrow> None)"

definition buildRuntimeThinkingCapabilityFromError :: "request_error \<Rightarrow> model_route \<Rightarrow> thinking_capability" where
  "buildRuntimeThinkingCapabilityFromError e modelRoute =
     (let reasonCode = orElse (qe_code e) ''thinking_capability_query_failed'';
          verified = isVerifiedThinkingCapabilityErrorCode reasonCode;
          routeRef = Option.bind (mr_routeRef modelRoute) id;
          providerHint = (case readRuntimeErrorDetail (qe_details e) ''providerId'' of
              Some p \<Rightarrow> Some p | None \<Rightarrow> readRuntimeErrorDetail (qe_details e) ''provider'')
      in \<lparr>tc_status = (if verified then VerifiedUnsupported else UnknownWithoutOverride),
          tc_source = (if verified then SourceVerified else SourceUnknown),
          tc_series = None, tc_seriesLabelZh = None, tc_editorType = None, tc_allowedValues = [], tc_defaultValue = None,
          tc_providerBuilderKey = None, tc_reasonCode = reasonCode,
          tc_routeFingerprint =
            \<lparr>fp_providerProfileId = (case routeRef of None \<Rightarrow> [] | Some r \<Rightarrow> rr_profileId r),
             fp_provider = orElse providerHint ''unknown-provider'',
             fp_endpointType = orElse (readRuntimeErrorDetail (qe_details e) ''endpointType'') [],
             fp_baseUrl = orElse (readRuntimeErrorDetail (qe_details e) ''baseUrl'') [],
             fp_modelId = (case routeRef of None \<Rightarrow> [] | Some r \<Rightarrow> rr_modelId r)\<rparr>,
          tc_supported = Some False, tc_controlSpec = Some None, tc_defaultSelection = Some None,
          tc_supportedLevels = Some [], tc_defaultLevel = Some None, tc_providerHint = Some providerHint,
          tc_provenance = Some None, tc_visibility = Some None, tc_overrideLevels = Some []\<rparr>)"

definition describeThinkingCapabilityUnavailableReason :: "thinking_capability option \<Rightarrow> string option" where
  "describeThinkingCapabilityUnavailableReason capability =
     (case capability of
        None \<Rightarrow> None
      | Some c \<Rightarrow>
          if tc_supported c = Some True then None
          else if tc_reasonCode c \<in> set PROVIDER_CONFIG_CODES then Some [CHR 0xE8, CHR 0xAF, CHR 0xB7, CHR 0xE5, CHR 0x85, CHR 0x88, CHR 0xE5, CHR 0xAE, CHR 0x8C, CHR 0xE6, CHR 0x88, CHR 0x90, CHR 0xE6, CHR 0xA8, CHR 0xA1, CHR 0xE5, CHR 0x9E, CHR 0x8B, CHR 0xE9, CHR 0x85, CHR 0x8D, CHR 0xE7, CHR 0xBD, CHR 0xAE]
          else if tc_reasonCode c \<in> set [''provider_profile_not_found'', ''route_ref_snapshot_mismatch'']
            then Some [CHR 0xE5, CHR 0xBD, CHR 0x93, CHR 0xE5, CHR 0x89, CHR 0x8D, CHR 0xE6, CHR 0xA8, CHR 0xA1, CHR 0xE5, CHR 0x9E, CHR 0x8B, CHR 0xE4, CHR 0xB8, CHR 0x8D, CHR 0xE5, CHR 0x8F, CHR 0xAF, CHR 0xE7, CHR 0x94, CHR 0xA8, CHR 0xEF, CHR 0xBC, CHR 0x8C, CHR 0xE8, CHR 0xAF, CHR 0xB7, CHR 0xE9, CHR 0x87, CHR 0x8D, CHR 0xE6, CHR 0x96, CHR 0xB0, CHR 0xE9, CHR 0x80, CHR 0x89, CHR 0xE6, CHR 0x8B, CHR 0xA9]
          else if tc_reasonCode c \<in> set [''provider_catalog_only'', ''provider_legacy_unsupported'', ''provider_runtime_not_enabled'',
              ''adapter_missing'', ''provider_adapter_mismatch'', ''host_model_route_unavailable'', ''host_model_route_access_denied'']
            then Some [CHR 0xE5, CHR 0xBD, CHR 0x93, CHR 0xE5, CHR 0x89, CHR 0x8D, CHR 0xE6, CHR 0x97, CHR 0xA0, CHR 0xE6, CHR 0xB3, CHR 0x95, CHR 0xE8, CHR 0xB0, CHR 0x83, CHR 0xE6, CHR 0x95, CHR 0xB4, CHR 0xE6, CHR 0x80, CHR 0x9D, CHR 0xE8, CHR 0x80, CHR 0x83, CHR 0xE8, CHR 0xAE, CHR 0xBE, CHR 0xE7, CHR 0xBD, CHR 0xAE]
          else Some [CHR 0xE5, CHR 0xBD, CHR 0x93, CHR 0xE5, CHR 0x89, CHR 0x8D, CHR 0xE6, CHR 0xA8, CHR 0xA1, CHR 0xE5, CHR 0x9E, CHR 0x8B, CHR 0xE6, CHR 0x9A, CHR 0x82, CHR 0xE4, CHR 0xB8, CHR 0x8D, CHR 0xE6, CHR 0x94, CHR 0xAF, CHR 0xE6, CHR 0x8C, CHR 0x81, CHR 0xE6, CHR 0x80, CHR 0x9D, CHR 0xE8, CHR 0x80, CHR 0x83, CHR 0xE8, CHR 0xAE, CHR 0xBE, CHR 0xE7, CHR 0xBD, CHR 0xAE])"

section \<open>The height of the composer\<close>

definition DEFAULT_COPILOT_COMPOSER_HEIGHT :: int where
  "DEFAULT_COPILOT_COMPOSER_HEIGHT = 160"

definition MIN_COPILOT_COMPOSER_HEIGHT :: int where
  "MIN_COPILOT_COMPOSER_HEIGHT = 120"

definition MAX_COPILOT_COMPOSER_HEIGHT :: int where
  "MAX_COPILOT_COMPOSER_HEIGHT = 360"

definition clampComposerHeight :: "rat \<Rightarrow> int" where
  "clampComposerHeight height = min MAX_COPILOT_COMPOSER_HEIGHT (max MIN_COPILOT_COMPOSER_HEIGHT (jsRound height))"

datatype runtime_source = SourceHosted | SourceDevOverride | SourceNone

fun formatRuntimeSource :: "runtime_source \<Rightarrow> string" where
  "formatRuntimeSource SourceHosted = [CHR 0xE5, CHR 0xAE, CHR 0xBF, CHR 0xE4, CHR 0xB8, CHR 0xBB, CHR 0xE7, CHR 0xAE, CHR 0xA1, CHR 0xE7, CHR 0x90, CHR 0x86]"
| "formatRuntimeSource SourceDevOverride = [CHR 0xE5, CHR 0xBC, CHR 0x80, CHR 0xE5, CHR 0x8F, CHR 0x91, CHR 0xE6, CHR 0x80, CHR 0x81, CHR 0x20, CHR 0x6F, CHR 0x76, CHR 0x65, CHR 0x72, CHR 0x72, CHR 0x69, CHR 0x64, CHR 0x65]"
| "formatRuntimeSource SourceNone = [CHR 0xE6, CHR 0x9A, CHR 0x82, CHR 0xE6, CHR 0x97, CHR 0xA0, CHR 0xE6, CHR 0x9C, CHR 0x89, CHR 0xE6, CHR 0x95, CHR 0x88, CHR 0xE6, CHR 0x9D, CHR 0xA5, CHR 0xE6, CHR 0xBA, CHR 0x90]"

record session_debug_summary =
  sd_sessionId :: string
  sd_boundAgent :: string
  sd_capabilitiesVersion :: string
  sd_allAvailableTools :: "string list"
  sd_recommendedTools :: "string list"
  sd_defaultEnabledTools :: "string list"
  sd_defaultEnabledSource :: "string \<times> string"

definition buildSessionDebugSummary :: "session_shell \<Rightarrow> session_debug_summary" where
  "buildSessionDebugSummary shell =
     (let c = sh_capabilities shell in
      \<lparr>sd_sessionId = sh_sessionId shell, sd_boundAgent = ag_id (sh_boundAgent shell),
       sd_capabilitiesVersion = sc_capabilitiesVersion c, sd_allAvailableTools = map td_toolId (sc_allAvailableTools c),
       sd_recommendedTools = sc_recommendedToolsForAgent c, sd_defaultEnabledTools = sc_defaultEnabledTools c,
       sd_defaultEnabledSource = (ag_id (sh_boundAgent shell), sc_toolSelectionMode c)\<rparr>)"


section \<open>Small laws\<close>

lemma height_in_range:
  "MIN_COPILOT_COMPOSER_HEIGHT \<le> clampComposerHeight h \<and> clampComposerHeight h \<le> MAX_COPILOT_COMPOSER_HEIGHT"
  by (simp add: clampComposerHeight_def MIN_COPILOT_COMPOSER_HEIGHT_def MAX_COPILOT_COMPOSER_HEIGHT_def)

lemma collapse_one_line: "lf \<notin> set (collapseLineBreaks b s) \<and> cr \<notin> set (collapseLineBreaks b s)"
  by (induction b s rule: collapseLineBreaks.induct) (auto simp: lf_def cr_def)

lemma paths_one_line: "p \<in> set (dedupeComposerAttachmentPaths paths) \<Longrightarrow> p \<noteq> [] \<and> lf \<notin> set p \<and> cr \<notin> set p"
  using collapse_one_line by (auto simp: dedupeComposerAttachmentPaths_def uniqueFrom_set sanitizeComposerAttachmentPath_def)

lemma paths_distinct: "distinct (dedupeComposerAttachmentPaths paths)"
  by (simp add: dedupeComposerAttachmentPaths_def)

lemma send_tools:
  assumes "buildRuntimeMessageSendInput url shell draft paths opts payload policy override = Inr si"
  shows "set (si_enabledTools si) \<subseteq> usable (sc_allAvailableTools (sh_capabilities shell)) policy"
    and "si_toolPermissionPolicy si = buildRuntimeToolPermissionPolicy (si_enabledTools si) policy"
proof -
  have "si_enabledTools si = sanitizeEnabledToolIds (dr_enabledTools draft) (sc_allAvailableTools (sh_capabilities shell)) policy"
    and "si_toolPermissionPolicy si = buildRuntimeToolPermissionPolicy (si_enabledTools si) policy"
    using assms by (auto simp: buildRuntimeMessageSendInput_def Let_def split: option.splits)
  then show "set (si_enabledTools si) \<subseteq> usable (sc_allAvailableTools (sh_capabilities shell)) policy"
    and "si_toolPermissionPolicy si = buildRuntimeToolPermissionPolicy (si_enabledTools si) policy"
    using sanitize_usable by simp_all
qed

section \<open>The thinking selection of a draft\<close>

lemma same_built [simp]:
  "isSameRuntimeThinkingSelection (Some (buildRuntimeThinkingSelectionFromValue series v))
     (Some (buildRuntimeThinkingSelectionFromValue series v))"
  by (cases v) (simp_all add: isSameRuntimeThinkingSelection_def)

lemma resolve_same: "isSameRuntimeThinkingSelection (resolveThinkingSelectionForCapability c v) (resolveThinkingSelectionForCapability c v)"
proof (cases "resolveThinkingSelectionForCapability c v")
  case None
  then show ?thesis by (simp add: isSameRuntimeThinkingSelection_def)
next
  case (Some s)
  then have "\<exists>v. s = buildRuntimeThinkingSelectionFromValue (ts_series s) v"
    using resolve_shape [of c v] by simp
  then show ?thesis using Some same_built by metis
qed

text \<open>The selection that a synchronisation resolves, and whether the capability gives none at all.\<close>

definition pendingSelection :: "composer_draft \<Rightarrow> model_route \<Rightarrow> thinking_selection option" where
  "pendingSelection draft route =
     remembered (dr_thinkingSelectionByModelKey draft) (buildThinkingSessionMemoryKey route) (dr_thinkingSelection draft)"

lemma sync_step:
  "syncComposerDraftThinkingSelection draft (Some route) (Some c) =
     (let next' = resolveThinkingSelectionForCapability c (pendingSelection draft route) in
      if isSameRuntimeThinkingSelection next' (dr_thinkingSelection draft) then draft
      else draft\<lparr>dr_thinkingSelection := next',
        dr_thinkingSelectionByModelKey := (if next' = None then dr_thinkingSelectionByModelKey draft
          else AList.update (buildThinkingSessionMemoryKey route) next' (dr_thinkingSelectionByModelKey draft))\<rparr>)"
  by (simp add: syncComposerDraftThinkingSelection_def pendingSelection_def Let_def)

lemma remembered_update [simp]:
  "remembered (AList.update k v m) k' d = (if k' = k then (case v of Some s \<Rightarrow> Some s | None \<Rightarrow> d) else remembered m k' d)"
  by (simp add: remembered_def update_conv' split: option.split)

text \<open>A synchronisation changes nothing when the resolution agrees with the draft, and otherwise makes its result pending.\<close>

lemma sync_pending:
  assumes "\<not> isSameRuntimeThinkingSelection (resolveThinkingSelectionForCapability c (pendingSelection draft route)) (dr_thinkingSelection draft)"
    and "resolveThinkingSelectionForCapability c (pendingSelection draft route) = Some s"
  shows "pendingSelection (syncComposerDraftThinkingSelection draft (Some route) (Some c)) route = Some s"
    and "dr_thinkingSelection (syncComposerDraftThinkingSelection draft (Some route) (Some c)) = Some s"
  using assms by (simp_all add: sync_step Let_def, simp add: pendingSelection_def)

text \<open>
  C25: synchronising the thinking selection of a draft with the capability of its model comes to rest: after two rounds a
  further one changes nothing, so that an effect that runs it on every change of the draft ends. The premise: neither the selection
  that is pending for the model nor the default of the capability is a token budget without a number of tokens
  (\<open>null_budget_oscillates\<close> shows that the default has to be given).
\<close>

theorem sync_settles:
  assumes "selectionGiven (pendingSelection draft route)" and "\<And>d. tc_defaultValue c = Some d \<Longrightarrow> tokensGiven d"
  shows "let sync = \<lambda>d. syncComposerDraftThinkingSelection d (Some route) (Some c)
         in sync (sync (sync draft)) = sync (sync draft)"
proof -
  let ?f = "resolveThinkingSelectionForCapability c"
  let ?sync = "\<lambda>d. syncComposerDraftThinkingSelection d (Some route) (Some c)"
  let ?v = "pendingSelection draft route"
  have rest: "?sync d = d" if "isSameRuntimeThinkingSelection (?f (pendingSelection d route)) (dr_thinkingSelection d)" for d
    using that by (simp add: sync_step Let_def)
  have f3: "?f (?f (?f ?v)) = ?f (?f ?v)" using resolve_twice [OF assms] .
  show ?thesis
  proof (cases "isSameRuntimeThinkingSelection (?f ?v) (dr_thinkingSelection draft)")
    case True
    then show ?thesis using rest [of draft] by simp
  next
    case False
    show ?thesis
    proof (cases "?f ?v")
      case None
      then have never: "?f w = None" for w by (rule resolve_None_all)
      have "dr_thinkingSelection (?sync draft) = None" using False None by (simp add: sync_step Let_def)
      then have "?sync (?sync draft) = ?sync draft" by (intro rest) (simp add: never isSameRuntimeThinkingSelection_def)
      then show ?thesis by simp
    next
      case (Some s)
      note first = sync_pending [OF False Some]
      show ?thesis
      proof (cases "isSameRuntimeThinkingSelection (?f (Some s)) (Some s)")
        case True
        then have "?sync (?sync draft) = ?sync draft" by (intro rest) (simp add: first)
        then show ?thesis by simp
      next
        case changed: False
        obtain s' where s': "?f (Some s) = Some s'" using Some resolve_None_all by (metis not_Some_eq)
        have "\<not> isSameRuntimeThinkingSelection (?f (pendingSelection (?sync draft) route)) (dr_thinkingSelection (?sync draft))"
          using changed first by simp
        note second = sync_pending [OF this, of s']
        have "?f (pendingSelection (?sync (?sync draft)) route) = Some s'" using f3 s' Some second first by simp
        then have "?sync (?sync (?sync draft)) = ?sync (?sync draft)"
          using second first s' f3 Some resolve_same [of c "Some s'"] by (intro rest) simp
        then show ?thesis by simp
      qed
    qed
  qed
qed

section \<open>The thinking selection of each model\<close>

lemma memory_key:
  "mr_routeRef route = Some (Some ref) \<Longrightarrow> buildThinkingSessionMemoryKey (cloneRuntimeModelRoute route) = serializeModelRouteRef ref"
  "mr_routeRef route = Some (Some ref) \<Longrightarrow> buildThinkingSessionMemoryKey route = serializeModelRouteRef ref"
  by (simp_all add: buildThinkingSessionMemoryKey_def routeSelection_def cloneRuntimeModelRoute_def)

lemma keys_differ:
  assumes "identOk (rr_profileId ref)" "identOk (rr_modelId ref)" "identOk (rr_profileId ref')" "identOk (rr_modelId ref')"
  shows "serializeModelRouteRef ref = serializeModelRouteRef ref' \<longleftrightarrow> ref = ref'"
  using assms parse_serialize unfolding identOk_def by (metis option.inject)

lemma clone_clone [simp]:
  "cloneRuntimeThinkingSelection (remembered [] k (cloneRuntimeThinkingSelection s)) = cloneRuntimeThinkingSelection s"
  by (simp add: remembered_def)

text \<open>
  The thinking selection made for a model comes back with the model: after another model was chosen and given any
  selection of its own, choosing the first model again restores its selection.
\<close>

theorem model_choice_remembered:
  assumes "mr_routeRef route = Some (Some ref)" and "mr_routeRef route' = Some (Some ref')" and "ref \<noteq> ref'"
    and "identOk (rr_profileId ref)" and "identOk (rr_modelId ref)"
    and "identOk (rr_profileId ref')" and "identOk (rr_modelId ref')"
  shows "let chosen = applyThinkingSelectionToComposerDraft draft (Some route) (Some s);
             other = applyThinkingSelectionToComposerDraft (applyModelSelectionToComposerDraft chosen modelId' route')
               (Some route') s';
             back = applyModelSelectionToComposerDraft other modelId route
         in dr_thinkingSelection back = cloneRuntimeThinkingSelection (Some s) \<and> dr_selectedModelId back = modelId \<and>
            dr_messageText back = dr_messageText draft"
proof -
  have keys: "serializeModelRouteRef ref \<noteq> serializeModelRouteRef ref'" using assms keys_differ by blast
  have "cloneRuntimeThinkingSelection (case cloneRuntimeThinkingSelection (Some s) of None \<Rightarrow> None | Some t \<Rightarrow> Some t) =
      cloneRuntimeThinkingSelection (Some s)"
    by (simp add: option.case_eq_if)
  then show ?thesis
    using keys by (cases s')
      (simp_all add: applyThinkingSelectionToComposerDraft_def applyModelSelectionToComposerDraft_def Let_def memory_key [OF assms(1)]
        memory_key [OF assms(2)])
qed

section \<open>Witnesses\<close>

definition sampleRouteTo :: "string \<Rightarrow> model_route" where
  "sampleRouteTo modelId = \<lparr>mr_routeRef = Some (Some (buildModelRouteRef ''p1'' modelId)), mr_catalogRevision = None\<rparr>"

definition sampleSelection :: thinking_selection where
  "sampleSelection = buildRuntimeThinkingSelectionFromValue ''s'' (CodeValue ''high'' ''High'')"

theorem model_choice_remembered_witness:
  "dr_thinkingSelection
     (applyModelSelectionToComposerDraft
        (applyThinkingSelectionToComposerDraft
           (applyModelSelectionToComposerDraft
              (applyThinkingSelectionToComposerDraft createEmptyComposerDraft (Some (sampleRouteTo ''m1'')) (Some sampleSelection))
              ''m2'' (sampleRouteTo ''m2''))
           (Some (sampleRouteTo ''m2'')) None)
        ''m1'' (sampleRouteTo ''m1'')) = cloneRuntimeThinkingSelection (Some sampleSelection)"
proof -
  have "buildModelRouteRef ''p1'' ''m1'' \<noteq> buildModelRouteRef ''p1'' ''m2''" by (simp add: buildModelRouteRef_def)
  then show ?thesis
    using model_choice_remembered [of "sampleRouteTo ''m1''" "buildModelRouteRef ''p1'' ''m1''" "sampleRouteTo ''m2''"
        "buildModelRouteRef ''p1'' ''m2''" createEmptyComposerDraft sampleSelection "''m2''" None "''m1''"] sampleIdent_ok
    by (simp add: sampleRouteTo_def Let_def)
qed

theorem sync_settles_witness:
  "selectionGiven (pendingSelection createEmptyComposerDraft (sampleRouteTo ''m1'')) \<and>
   (let sync = \<lambda>d. syncComposerDraftThinkingSelection d (Some (sampleRouteTo ''m1'')) (Some offGridCapability)
    in sync (sync (sync createEmptyComposerDraft)) = sync (sync createEmptyComposerDraft))"
proof -
  have "selectionGiven (pendingSelection createEmptyComposerDraft (sampleRouteTo ''m1''))"
    by (simp add: pendingSelection_def remembered_def createEmptyComposerDraft_def selectionGiven_def)
  moreover have "tokensGiven d" if "tc_defaultValue offGridCapability = Some d" for d
    using that by (auto simp: offGridCapability_def)
  ultimately show ?thesis using sync_settles [of createEmptyComposerDraft "sampleRouteTo ''m1''" offGridCapability] by blast
qed

section \<open>A default without tokens\<close>

text \<open>A model whose default is a token budget without a number, as far as the types of the contract allow.\<close>

definition openBudgetCapability :: thinking_capability where
  "openBudgetCapability = offGridCapability
     \<lparr>tc_defaultValue := Some (BudgetValue ModeBudget None ''Budget''), tc_controlSpec := None,
      tc_allowedValues := [BudgetValue ModeBudget (Some 1024) ''1K'']\<rparr>"

text \<open>
  For this model the synchronisation of an empty draft never comes to rest: the selection alternates between the default and the
  budget that is offered.
\<close>

theorem null_budget_oscillates:
  "let sync = \<lambda>d. syncComposerDraftThinkingSelection d (Some (sampleRouteTo ''m1'')) (Some openBudgetCapability);
       first = sync createEmptyComposerDraft; second = sync first
   in Option.bind (dr_thinkingSelection first) ts_value = Some (BudgetValue ModeBudget None ''Budget'') \<and>
      Option.bind (dr_thinkingSelection second) ts_value = Some (BudgetValue ModeBudget (Some 1024) ''1K'') \<and>
      sync second = first"
  by code_simp

end
