(* ===== verification/Send_Controller.thy ===== *)
theory Send_Controller
  imports Composer Run_View
begin

text \<open>
  The send controller, \<open>src/features/copilot/copilot-send-controller.ts\<close>: the reason for which the send button is disabled,
  the checks before a message is sent, and the sending itself: the start of the run, its event stream, and the effects of both
  on the conversation, the state of the run, the error shown and the draft. The React setters become one state record; the debug
  log and the focus of the text area are not modelled. What the browser decides is given by parameters: the results of \<open>fetch\<close>,
  whether the signal is aborted at each point where the code reads it, and the time of each update.
\<close>

declare case_firstOf [simp del]

section \<open>What a send is given\<close>

datatype bootstrap_status =
  BootLoading | BootEmpty | BootIncomplete | BootStarting | BootReady | BootFailed | BootDegraded | BootError

text \<open>The URL of the runtime is read in the connectable states only.\<close>

record bootstrap_state =
  bs_status :: bootstrap_status
  bs_runtimeUrl :: string

definition isCopilotConnectableState :: "bootstrap_state \<Rightarrow> bool" where
  "isCopilotConnectableState st \<longleftrightarrow> bs_status st = BootReady \<or> bs_status st = BootDegraded"

record picker_option =
  po_id :: string
  po_selectionValue :: string
  po_modelId :: string
  po_name :: string
  po_provider :: string
  po_group :: string
  po_tags :: "string list"
  po_icon :: "string \<times> string"
  po_routeRef :: "model_route_ref option"
  po_route :: model_route
  po_available :: bool
  po_unavailableReason :: "string option"
  po_thinkingCapabilityOverride :: "jrecord option"

record send_request =
  sq_state :: bootstrap_state
  sq_sessionShell :: "session_shell option"
  sq_composerDraft :: composer_draft
  sq_attachments :: "attachment list option"
  sq_runState :: run_state
  sq_hasConfiguredModels :: bool
  sq_hasAvailableModels :: bool
  sq_selectedModelOption :: "picker_option option"
  sq_thinkingCapabilityOverride :: "jrecord option option"
  sq_toolPermissionPolicy :: "policy_state option"
  sq_messageOverride :: "(string \<times> jrecord option option) option"
  sq_clearComposerOnSend :: "bool option"

text \<open>What the setters change.\<close>

record chat_state =
  ch_conversation :: "list_item list"
  ch_runState :: run_state
  ch_sendError :: "transient_error option"
  ch_composerDraft :: composer_draft

text \<open>\<open>runState.phase === 'starting' || runState.phase === 'streaming'\<close>\<close>

definition isSending :: "run_state \<Rightarrow> bool" where
  "isSending st \<longleftrightarrow> rn_phase st = PhaseStarting \<or> rn_phase st = PhaseStreaming"

section \<open>The reason for a disabled button\<close>

definition MODEL_UNAVAILABLE_MESSAGE :: string where
  "MODEL_UNAVAILABLE_MESSAGE = [CHR 0xE5, CHR 0xBD, CHR 0x93, CHR 0xE5, CHR 0x89, CHR 0x8D, CHR 0xE9, CHR 0x80, CHR 0x89, CHR 0xE6, CHR 0x8B, CHR 0xA9, CHR 0xE7, CHR 0x9A, CHR 0x84, CHR 0xE6, CHR 0xA8, CHR 0xA1, CHR 0xE5, CHR 0x9E, CHR 0x8B, CHR 0xE4, CHR 0xB8, CHR 0x8D, CHR 0xE5, CHR 0x8F, CHR 0xAF, CHR 0xE7, CHR 0x94, CHR 0xA8, CHR 0xE4, CHR 0xBA, CHR 0x8E, CHR 0xE8, CHR 0x81, CHR 0x8A, CHR 0xE5, CHR 0xA4, CHR 0xA9, CHR 0xE3, CHR 0x80, CHR 0x82]"

definition noConfiguredModelsText :: string where
  "noConfiguredModelsText = [CHR 0xE5, CHR 0xB0, CHR 0x9A, CHR 0xE6, CHR 0x9C, CHR 0xAA, CHR 0xE9, CHR 0x85, CHR 0x8D, CHR 0xE7, CHR 0xBD, CHR 0xAE, CHR 0xE6, CHR 0xA8, CHR 0xA1, CHR 0xE5, CHR 0x9E, CHR 0x8B, CHR 0xEF, CHR 0xBC, CHR 0x8C, CHR 0xE8, CHR 0xAF, CHR 0xB7, CHR 0xE5, CHR 0x85, CHR 0x88, CHR 0xE5, CHR 0x89, CHR 0x8D, CHR 0xE5, CHR 0xBE, CHR 0x80, CHR 0xE8, CHR 0xAE, CHR 0xBE, CHR 0xE7, CHR 0xBD, CHR 0xAE, CHR 0xE9, CHR 0xA1, CHR 0xB5, CHR 0xE5, CHR 0xAE, CHR 0x8C, CHR 0xE6, CHR 0x88, CHR 0x90, CHR 0xE6, CHR 0xA8, CHR 0xA1, CHR 0xE5, CHR 0x9E, CHR 0x8B, CHR 0xE9, CHR 0x85, CHR 0x8D, CHR 0xE7, CHR 0xBD, CHR 0xAE, CHR 0xE3, CHR 0x80, CHR 0x82]"

definition noAvailableModelsText :: string where
  "noAvailableModelsText = [CHR 0xE5, CHR 0xBD, CHR 0x93, CHR 0xE5, CHR 0x89, CHR 0x8D, CHR 0xE6, CHR 0xB2, CHR 0xA1, CHR 0xE6, CHR 0x9C, CHR 0x89, CHR 0xE5, CHR 0x8F, CHR 0xAF, CHR 0xE7, CHR 0x94, CHR 0xA8, CHR 0xE6, CHR 0xA8, CHR 0xA1, CHR 0xE5, CHR 0x9E, CHR 0x8B, CHR 0xEF, CHR 0xBC, CHR 0x8C, CHR 0xE8, CHR 0xAF, CHR 0xB7, CHR 0xE5, CHR 0x89, CHR 0x8D, CHR 0xE5, CHR 0xBE, CHR 0x80, CHR 0xE8, CHR 0xAE, CHR 0xBE, CHR 0xE7, CHR 0xBD, CHR 0xAE, CHR 0xE9, CHR 0xA1, CHR 0xB5, CHR 0xE8, CHR 0xB0, CHR 0x83, CHR 0xE6, CHR 0x95, CHR 0xB4, CHR 0xE6, CHR 0xA8, CHR 0xA1, CHR 0xE5, CHR 0x9E, CHR 0x8B, CHR 0xE9, CHR 0x85, CHR 0x8D, CHR 0xE7, CHR 0xBD, CHR 0xAE, CHR 0xE3, CHR 0x80, CHR 0x82]"

definition chooseModelText :: string where
  "chooseModelText = [CHR 0xE8, CHR 0xAF, CHR 0xB7, CHR 0xE5, CHR 0x85, CHR 0x88, CHR 0xE9, CHR 0x80, CHR 0x89, CHR 0xE6, CHR 0x8B, CHR 0xA9, CHR 0xE6, CHR 0xA8, CHR 0xA1, CHR 0xE5, CHR 0x9E, CHR 0x8B, CHR 0xE3, CHR 0x80, CHR 0x82]"

definition getRuntimeModelRouteStreamingSupportReason :: "model_route option \<Rightarrow> string option" where
  "getRuntimeModelRouteStreamingSupportReason route =
     (case route of
        None \<Rightarrow> None
      | Some r \<Rightarrow> (case mr_routeRef r of
            Some (Some ref) \<Rightarrow> None
          | _ \<Rightarrow> Some [CHR 0xE5, CHR 0xBD, CHR 0x93, CHR 0xE5, CHR 0x89, CHR 0x8D, CHR 0xE6, CHR 0xA8, CHR 0xA1, CHR 0xE5, CHR 0x9E, CHR 0x8B, CHR 0xE4, CHR 0xB8, CHR 0x8D, CHR 0xE5, CHR 0x8F, CHR 0xAF, CHR 0xE7, CHR 0x94, CHR 0xA8, CHR 0xEF, CHR 0xBC, CHR 0x8C, CHR 0xE8, CHR 0xAF, CHR 0xB7, CHR 0xE9, CHR 0x87, CHR 0x8D, CHR 0xE6, CHR 0x96, CHR 0xB0, CHR 0xE9, CHR 0x80, CHR 0x89, CHR 0xE6, CHR 0x8B, CHR 0xA9, CHR 0xE3, CHR 0x80, CHR 0x82]))"

text \<open>\<open>option !== null && !option.available\<close>, and the reason shown for it.\<close>

definition optionUnavailable :: "picker_option option \<Rightarrow> bool" where
  "optionUnavailable selected = (case selected of None \<Rightarrow> False | Some m \<Rightarrow> \<not> po_available m)"

definition unavailableText :: "picker_option option \<Rightarrow> string" where
  "unavailableText selected = orElse (Option.bind selected po_unavailableReason) MODEL_UNAVAILABLE_MESSAGE"

text \<open>\<open>selectedModelRoute === null || selectedModelId.trim() === ''\<close>\<close>

definition noModelChosen :: "composer_draft \<Rightarrow> bool" where
  "noModelChosen draft \<longleftrightarrow> dr_selectedModelRoute draft = None \<or> trim (dr_selectedModelId draft) = []"

definition getCopilotSendDisabledReason ::
  "bootstrap_state \<Rightarrow> session_shell option \<Rightarrow> run_state \<Rightarrow> composer_draft \<Rightarrow> bool option \<Rightarrow> bool \<Rightarrow> bool \<Rightarrow>
   picker_option option \<Rightarrow> string option" where
  "getCopilotSendDisabledReason state sessionShell runState draft hasAttachments hasConfigured hasAvailable selected =
     (if \<not> isCopilotConnectableState state then Some [CHR 0xE5, CHR 0xBD, CHR 0x93, CHR 0xE5, CHR 0x89, CHR 0x8D, CHR 0xE8, CHR 0xBF, CHR 0x90, CHR 0xE8, CHR 0xA1, CHR 0x8C, CHR 0xE6, CHR 0x80, CHR 0x81, CHR 0xE6, CHR 0x9C, CHR 0xAA, CHR 0xE5, CHR 0xB0, CHR 0xB1, CHR 0xE7, CHR 0xBB, CHR 0xAA, CHR 0xEF, CHR 0xBC, CHR 0x8C, CHR 0xE6, CHR 0x97, CHR 0xA0, CHR 0xE6, CHR 0xB3, CHR 0x95, CHR 0xE5, CHR 0x8F, CHR 0x91, CHR 0xE9, CHR 0x80, CHR 0x81, CHR 0xE6, CHR 0xB6, CHR 0x88, CHR 0xE6, CHR 0x81, CHR 0xAF, CHR 0xE3, CHR 0x80, CHR 0x82]
      else if sessionShell = None then Some [CHR 0xE8, CHR 0xAF, CHR 0xB7, CHR 0xE5, CHR 0x85, CHR 0x88, CHR 0xE5, CHR 0x88, CHR 0x9B, CHR 0xE5, CHR 0xBB, CHR 0xBA, CHR 0xE4, CHR 0xBC, CHR 0x9A, CHR 0xE8, CHR 0xAF, CHR 0x9D, CHR 0xE3, CHR 0x80, CHR 0x82]
      else if isSending runState then Some [CHR 0xE5, CHR 0xBD, CHR 0x93, CHR 0xE5, CHR 0x89, CHR 0x8D, CHR 0xE6, CHR 0xB6, CHR 0x88, CHR 0xE6, CHR 0x81, CHR 0xAF, CHR 0xE4, CHR 0xBB, CHR 0x8D, CHR 0xE5, CHR 0x9C, CHR 0xA8, CHR 0xE5, CHR 0x8F, CHR 0x91, CHR 0xE9, CHR 0x80, CHR 0x81, CHR 0xE4, CHR 0xB8, CHR 0xAD, CHR 0xE3, CHR 0x80, CHR 0x82]
      else if \<not> hasConfigured then Some noConfiguredModelsText
      else if \<not> hasAvailable \<and> optionUnavailable selected then Some (unavailableText selected)
      else if \<not> hasAvailable then Some noAvailableModelsText
      else if trim (dr_messageText draft) = [] \<and> hasAttachments \<noteq> Some True then Some [CHR 0xE8, CHR 0xAF, CHR 0xB7, CHR 0xE8, CHR 0xBE, CHR 0x93, CHR 0xE5, CHR 0x85, CHR 0xA5, CHR 0xE6, CHR 0xB6, CHR 0x88, CHR 0xE6, CHR 0x81, CHR 0xAF, CHR 0xE5, CHR 0x86, CHR 0x85, CHR 0xE5, CHR 0xAE, CHR 0xB9, CHR 0xE3, CHR 0x80, CHR 0x82]
      else if noModelChosen draft then
        (if optionUnavailable selected then Some (unavailableText selected) else Some chooseModelText)
      else getRuntimeModelRouteStreamingSupportReason (dr_selectedModelRoute draft))"

section \<open>Errors of a send\<close>

definition resolveSelectedModelId :: "picker_option option \<Rightarrow> string \<Rightarrow> model_route option \<Rightarrow> string option" where
  "resolveSelectedModelId selected selectedModelId route =
     (let resolved = (case selected of
          Some m \<Rightarrow> po_modelId m
        | None \<Rightarrow> (case Option.bind route (\<lambda>r. Option.bind (mr_routeRef r) id) of
              Some ref \<Rightarrow> rr_modelId ref
            | None \<Rightarrow> trim selectedModelId))
      in if resolved = [] then None else Some resolved)"

definition createPreflightTransientErrorState ::
  "string \<Rightarrow> string option \<Rightarrow> string option \<Rightarrow> jrecord option \<Rightarrow> composer_draft \<Rightarrow> picker_option option \<Rightarrow> jrecord option \<Rightarrow>
   transient_error" where
  "createPreflightTransientErrorState message code rawMessage details draft selected requestOptions =
     createCopilotTransientErrorState message (Some (createPreflightErrorDetail
       \<lparr>pi_summaryMessage = message, pi_rawMessage = Some (orElse rawMessage message), pi_code = code,
        pi_details = Some (orElse details []), pi_requestedMethod = None,
        pi_resolvedModelId = resolveSelectedModelId selected (dr_selectedModelId draft) (dr_selectedModelRoute draft),
        pi_resolvedModelRoute = dr_selectedModelRoute draft, pi_resolvedToolIds = Some (dr_enabledTools draft),
        pi_requestOptions = Some (orElse requestOptions [])\<rparr>))"

definition createRunStartTransientErrorState :: "js_error \<Rightarrow> send_input \<Rightarrow> picker_option option \<Rightarrow> transient_error" where
  "createRunStartTransientErrorState e si selected =
     (let summaryMessage = formatRuntimeMessageSendError e;
          resolvedModelId = resolveSelectedModelId selected [] (Some (si_modelRoute si))
      in createCopilotTransientErrorState summaryMessage (Some
        (case e of
           RequestFailure q \<Rightarrow> createRuntimeRequestErrorDetail
             \<lparr>ri_error = q, ri_stage = Some StageRunStart, ri_requestedMethod = Some ''run/start'',
              ri_resolvedModelId = resolvedModelId, ri_resolvedModelRoute = Some (si_modelRoute si),
              ri_resolvedToolIds = Some (si_enabledTools si), ri_requestOptions = Some (si_requestOptions si)\<rparr>
         | _ \<Rightarrow> createCopilotErrorDetailSource
             \<lparr>ei_source = SourceRunStart, ei_title = Some sendFailedTitle, ei_summaryMessage = summaryMessage,
              ei_rawMessage = Some (thrownMessage e), ei_code = None, ei_stage = Some ''run-start'',
              ei_requestedMethod = Some ''run/start'', ei_status = None, ei_details = Some [],
              ei_resolvedModelId = resolvedModelId, ei_resolvedModelRoute = Some (PlainRoute (si_modelRoute si)),
              ei_resolvedToolIds = Some (si_enabledTools si), ei_requestOptions = Some (si_requestOptions si)\<rparr>)))"

definition createTransportFailureInput :: "js_error \<Rightarrow> failure_summary" where
  "createTransportFailureInput e =
     (case e of
        RequestFailure q \<Rightarrow>
          \<lparr>fa_code = orElse (qe_code q) ''stream_transport_failed'', fa_message = qe_message q, fa_details = qe_details q\<rparr>
      | _ \<Rightarrow> \<lparr>fa_code = ''stream_transport_failed'', fa_message = thrownMessage e, fa_details = []\<rparr>)"

section \<open>The checks before a message is sent\<close>

text \<open>A check gives the error that it shows, or none.\<close>

definition preflightError :: "send_request \<Rightarrow> string \<Rightarrow> string \<Rightarrow> jrecord \<Rightarrow> transient_error" where
  "preflightError i message code details =
     createPreflightTransientErrorState message (Some code) None (Some details) (sq_composerDraft i) (sq_selectedModelOption i) None"

definition checkPreflightConfiguredModels :: "send_request \<Rightarrow> transient_error option" where
  "checkPreflightConfiguredModels i =
     (if \<not> sq_hasConfiguredModels i
      then Some (preflightError i noConfiguredModelsText ''no_configured_models'' [(''hasConfiguredModels'', JBool False)])
      else None)"

definition unavailableDetails :: "picker_option option \<Rightarrow> jrecord" where
  "unavailableDetails selected =
     (case selected of
        None \<Rightarrow> []
      | Some m \<Rightarrow> [(''selectedModelId'', JStr (po_modelId m)),
          (''unavailableReason'', case po_unavailableReason m of None \<Rightarrow> JNull | Some r \<Rightarrow> JStr r)])"

definition modelUnavailableError :: "send_request \<Rightarrow> transient_error" where
  "modelUnavailableError i =
     preflightError i (unavailableText (sq_selectedModelOption i)) ''selected_model_unavailable''
       (unavailableDetails (sq_selectedModelOption i))"

definition checkPreflightSpecificModelUnavailable :: "send_request \<Rightarrow> transient_error option" where
  "checkPreflightSpecificModelUnavailable i =
     (if \<not> sq_hasAvailableModels i \<and> optionUnavailable (sq_selectedModelOption i) then Some (modelUnavailableError i) else None)"

definition checkPreflightNoAvailableModels :: "send_request \<Rightarrow> transient_error option" where
  "checkPreflightNoAvailableModels i =
     (if \<not> sq_hasAvailableModels i
      then Some (preflightError i noAvailableModelsText ''no_available_models'' [(''hasAvailableModels'', JBool False)])
      else None)"

definition checkPreflightModelRequired :: "send_request \<Rightarrow> transient_error option" where
  "checkPreflightModelRequired i =
     (if noModelChosen (sq_composerDraft i) then
        (if optionUnavailable (sq_selectedModelOption i) then Some (modelUnavailableError i)
         else Some (preflightError i chooseModelText ''model_required'' [(''field'', JStr ''selectedModelRoute'')]))
      else None)"

definition checkPreflightStreamingSupport :: "send_request \<Rightarrow> transient_error option" where
  "checkPreflightStreamingSupport i =
     (case getRuntimeModelRouteStreamingSupportReason (dr_selectedModelRoute (sq_composerDraft i)) of
        Some reason \<Rightarrow> Some (preflightError i reason ''streaming_not_supported'' [(''reason'', JStr reason)])
      | None \<Rightarrow> None)"

definition messageToSend :: "send_request \<Rightarrow> string" where
  "messageToSend i = trim (case sq_messageOverride i of Some (content, payload) \<Rightarrow> content | None \<Rightarrow> dr_messageText (sq_composerDraft i))"

definition attachmentsOf :: "send_request \<Rightarrow> attachment list" where
  "attachmentsOf i = orElse (sq_attachments i) []"

definition checkMessage :: "send_request \<Rightarrow> transient_error option" where
  "checkMessage i =
     (if messageToSend i = [] \<and> attachmentsOf i = []
      then Some (preflightError i [CHR 0xE8, CHR 0xAF, CHR 0xB7, CHR 0xE8, CHR 0xBE, CHR 0x93, CHR 0xE5, CHR 0x85, CHR 0xA5, CHR 0xE6, CHR 0xB6, CHR 0x88, CHR 0xE6, CHR 0x81, CHR 0xAF, CHR 0xE5, CHR 0x86, CHR 0x85, CHR 0xE5, CHR 0xAE, CHR 0xB9, CHR 0xE5, CHR 0x90, CHR 0x8E, CHR 0xE5, CHR 0x86, CHR 0x8D, CHR 0xE5, CHR 0x8F, CHR 0x91, CHR 0xE9, CHR 0x80, CHR 0x81, CHR 0xE3, CHR 0x80, CHR 0x82] ''message_required'' [(''field'', JStr ''messageText'')])
      else None)"

text \<open>The first check that fails decides.\<close>

fun firstError :: "'e option list \<Rightarrow> 'e option" where
  "firstError [] = None"
| "firstError (c # cs) = (case c of Some e \<Rightarrow> Some e | None \<Rightarrow> firstError cs)"

definition validateCopilotSendPreflight :: "(string \<Rightarrow> json res) \<Rightarrow> send_request \<Rightarrow> transient_error + (string \<times> jrecord)" where
  "validateCopilotSendPreflight jp i =
     (case firstError [checkPreflightConfiguredModels i, checkPreflightSpecificModelUnavailable i,
         checkPreflightNoAvailableModels i, checkMessage i, checkPreflightModelRequired i, checkPreflightStreamingSupport i] of
        Some e \<Rightarrow> Inl e
      | None \<Rightarrow>
          (case parseRequestOptionsText jp (dr_requestOptionsText (sq_composerDraft i)) of
             Inr options \<Rightarrow> Inr (messageToSend i, options)
           | Inl e \<Rightarrow> Inl (createPreflightTransientErrorState (formatRequestOptionsError e) (Some ''request_options_invalid'')
               (Some (thrownMessage e)) (Some [(''requestOptionsText'', JStr (dr_requestOptionsText (sq_composerDraft i)))])
               (sq_composerDraft i) (sq_selectedModelOption i) None)))"

section \<open>Sending\<close>

text \<open>What is read of the response to \<open>run/start\<close>; \<open>asRun\<close> reads it, and throws when \<open>response.run\<close> is no object.\<close>

record started_run =
  sr_runId :: string
  sr_threadId :: string
  sr_metadata :: thinking_metadata

text \<open>
  What the generator \<open>dispatchCopilotMessage\<close> does: the run that it hands to \<open>onRunStart\<close>, if it gets that far, the events
  it yields, and how it ends.
\<close>

record dispatched =
  dp_started :: "started_run option"
  dp_events :: "run_event list"
  dp_end :: "js_error + unit"

text \<open>What the browser answers: the two fetches, and the abort signal when it is read.\<close>

record browser =
  br_fetch :: "string \<Rightarrow> json \<Rightarrow> fetch_result"
  br_parse :: "string \<Rightarrow> json res"
  br_abortedAtStart :: bool
  br_abortedAtStream :: bool
  br_abortLike :: "string \<Rightarrow> bool"
  br_abortedAtCatch :: bool

definition runStartInput :: "send_input \<Rightarrow> bool option \<Rightarrow> run_start_input" where
  "runStartInput si debugModeEnabled =
     \<lparr>rq_threadId = si_sessionId si, rq_agent = Some (si_agent si), rq_message = si_message si, rq_modelRoute = si_modelRoute si,
      rq_thinkingSelection = si_thinkingSelection si, rq_thinkingCapabilityOverride = si_thinkingCapabilityOverride si,
      rq_enabledTools = si_enabledTools si, rq_toolPermissionPolicy = si_toolPermissionPolicy si,
      rq_debugModeEnabled = debugModeEnabled, rq_requestOptions = Some (si_requestOptions si)\<rparr>"

text \<open>The loop of \<open>dispatchCopilotMessage\<close>: each event must be one of the run that was started.\<close>

fun guardStartedRun :: "string \<Rightarrow> run_event list \<Rightarrow> js_error + unit \<Rightarrow> run_event list \<times> (js_error + unit)" where
  "guardStartedRun runId [] fin = ([], fin)"
| "guardStartedRun runId (e # es) fin =
     (if ev_runId e \<noteq> runId
      then ([], Inl (PlainFailure (''Runtime event stream changed runId from '' @ runId @ '' to '' @ ev_runId e @ ''.'')))
      else (case guardStartedRun runId es fin of (ys, r) \<Rightarrow> (e # ys, r)))"

definition dispatchCopilotMessage :: "browser \<Rightarrow> (json \<Rightarrow> js_error + started_run) \<Rightarrow> bool option \<Rightarrow> send_input \<Rightarrow> dispatched" where
  "dispatchCopilotMessage br asRun debugModeEnabled si =
     (case startRuntimeRun (br_fetch br) (br_abortedAtStart br) (si_runtimeUrl si) (runStartInput si debugModeEnabled) of
        Inl e \<Rightarrow> \<lparr>dp_started = None, dp_events = [], dp_end = Inl e\<rparr>
      | Inr payload \<Rightarrow>
          (case asRun payload of
             Inl e \<Rightarrow> \<lparr>dp_started = None, dp_events = [], dp_end = Inl e\<rparr>
           | Inr run \<Rightarrow>
               (let stream = streamRuntimeRun (br_parse br) (br_abortLike br) (br_fetch br) (br_abortedAtStream br)
                      (si_runtimeUrl si) (sr_runId run);
                    guarded = guardStartedRun (sr_runId run) (fst stream) (snd stream)
                in \<lparr>dp_started = Some run, dp_events = fst guarded, dp_end = snd guarded\<rparr>)))"

definition commitSendState :: "send_request \<Rightarrow> string \<Rightarrow> string \<Rightarrow> send_input \<Rightarrow> string \<Rightarrow> jrecord \<Rightarrow> chat_state \<Rightarrow> chat_state" where
  "commitSendState i random sessionId si message requestOptions ch =
     ch\<lparr>ch_conversation := ch_conversation ch @ map RunItem (buildCopilotRunSegmentViewModel (sq_runState i)) @
          [UserItem (createUserMessageListItem random (StructuredInput
             (buildComposerMessageContentWithAttachments message (map at_path (attachmentsOf i)))
             (Some (Option.bind (me_structuredPayload (si_message si)) id))))],
        ch_sendError := None,
        ch_runState := createStartingCopilotRunState sessionId (si_modelRoute si) requestOptions,
        ch_composerDraft := (if sq_clearComposerOnSend i \<noteq> Some False
          then (ch_composerDraft ch)\<lparr>dr_messageText := []\<rparr> else ch_composerDraft ch)\<rparr>"

definition receiveEvent :: "int \<Rightarrow> run_event \<Rightarrow> chat_state \<Rightarrow> chat_state" where
  "receiveEvent now e ch =
     ch\<lparr>ch_sendError := (if isTerminalRuntimeRunEvent e then None else ch_sendError ch),
        ch_runState := applyRuntimeRunEventToCopilotRunState now (ch_runState ch) e\<rparr>"

fun receiveEvents :: "(nat \<Rightarrow> int) \<Rightarrow> nat \<Rightarrow> run_event list \<Rightarrow> chat_state \<Rightarrow> chat_state" where
  "receiveEvents clock n [] ch = ch"
| "receiveEvents clock n (e # es) ch = receiveEvents clock (Suc n) es (receiveEvent (clock n) e ch)"

definition registerStart :: "started_run option \<Rightarrow> chat_state \<Rightarrow> chat_state" where
  "registerStart started ch =
     (case started of
        None \<Rightarrow> ch
      | Some r \<Rightarrow> ch\<lparr>ch_runState := registerCopilotRunStartResponse (ch_runState ch) (sr_runId r) (sr_threadId r) (sr_metadata r)\<rparr>)"

definition handleSendError ::
  "int \<Rightarrow> bool \<Rightarrow> bool \<Rightarrow> send_input \<Rightarrow> picker_option option \<Rightarrow> js_error \<Rightarrow> chat_state \<Rightarrow> chat_state" where
  "handleSendError now aborted runStarted si selected e ch =
     (if isAbortLikeError e \<or> aborted then
        ch\<lparr>ch_sendError := None, ch_runState := markCopilotRunCancelled now (ch_runState ch) ''cancelled''\<rparr>
      else if \<not> runStarted then
        ch\<lparr>ch_sendError := Some (createRunStartTransientErrorState e si selected), ch_runState := createIdleCopilotRunState\<rparr>
      else
        ch\<lparr>ch_sendError := None,
           ch_runState := markCopilotRunTransportFailed now (ch_runState ch) (createTransportFailureInput e)\<rparr>)"

text \<open>The \<open>try\<close> block with its \<open>catch\<close>; \<open>clock n\<close> is the time of the n-th update.\<close>

definition runSend ::
  "(nat \<Rightarrow> int) \<Rightarrow> bool \<Rightarrow> picker_option option \<Rightarrow> send_input \<Rightarrow> dispatched \<Rightarrow> chat_state \<Rightarrow> chat_state" where
  "runSend clock aborted selected si d ch =
     (let after = receiveEvents clock 0 (dp_events d) (registerStart (dp_started d) ch) in
      case dp_end d of
        Inr u \<Rightarrow> after
      | Inl e \<Rightarrow> handleSendError (clock (length (dp_events d))) aborted (dp_started d \<noteq> None) si selected e after)"

definition orchestrateCopilotSend ::
  "browser \<Rightarrow> (send_input \<Rightarrow> dispatched) \<Rightarrow> (nat \<Rightarrow> int) \<Rightarrow> string \<Rightarrow> send_request \<Rightarrow> chat_state \<Rightarrow> chat_state" where
  "orchestrateCopilotSend br sendMessage clock random i ch =
     (if \<not> isCopilotConnectableState (sq_state i) then ch
      else case sq_sessionShell i of
        None \<Rightarrow> ch
      | Some shell \<Rightarrow>
          if isSending (sq_runState i) then ch
          else case validateCopilotSendPreflight (br_parse br) i of
            Inl e \<Rightarrow> ch\<lparr>ch_sendError := Some e\<rparr>
          | Inr (message, requestOptions) \<Rightarrow>
              (case buildRuntimeMessageSendInput (bs_runtimeUrl (sq_state i)) shell
                 ((sq_composerDraft i)\<lparr>dr_messageText := message\<rparr>) (map at_path (attachmentsOf i)) requestOptions
                 (Option.bind (sq_messageOverride i) snd) (sq_toolPermissionPolicy i) (sq_thinkingCapabilityOverride i) of
                 Inl e \<Rightarrow> ch\<lparr>ch_sendError := Some (createPreflightTransientErrorState (formatRuntimeMessageSendError e)
                   (Some ''build_runtime_input_failed'') (Some (thrownMessage e)) None (sq_composerDraft i)
                   (sq_selectedModelOption i) (Some requestOptions))\<rparr>
               | Inr si \<Rightarrow> runSend clock (br_abortedAtCatch br) (sq_selectedModelOption i) si (sendMessage si)
                   (commitSendState i random (sh_sessionId shell) si message requestOptions ch)))"


section \<open>What a send keeps\<close>

lemma firstError_None: "firstError cs = None \<longleftrightarrow> (\<forall>c \<in> set cs. c = None)"
  by (induction cs) (auto split: option.splits)

lemma receiveEvents_keeps [simp]:
  "ch_conversation (receiveEvents clock n es ch) = ch_conversation ch"
  "ch_composerDraft (receiveEvents clock n es ch) = ch_composerDraft ch"
  by (induction es arbitrary: n ch) (simp_all add: receiveEvent_def)

lemma registerStart_keeps [simp]:
  "ch_conversation (registerStart r ch) = ch_conversation ch"
  "ch_composerDraft (registerStart r ch) = ch_composerDraft ch"
  "ch_sendError (registerStart r ch) = ch_sendError ch"
  by (simp_all add: registerStart_def split: option.split)

lemma handleSendError_keeps [simp]:
  "ch_conversation (handleSendError now ab started si sel e ch) = ch_conversation ch"
  "ch_composerDraft (handleSendError now ab started si sel e ch) = ch_composerDraft ch"
  by (simp_all add: handleSendError_def)

lemma runSend_keeps [simp]:
  "ch_conversation (runSend clock ab sel si d ch) = ch_conversation ch"
  "ch_composerDraft (runSend clock ab sel si d ch) = ch_composerDraft ch"
  by (simp_all add: runSend_def Let_def split: sum.split)

lemma receiveEvents_snoc:
  "receiveEvents clock n (es @ [e]) ch = receiveEvent (clock (n + length es)) e (receiveEvents clock n es ch)"
  by (induction es arbitrary: n ch) simp_all

lemma receiveEvents_error: "ch_sendError ch = None \<Longrightarrow> ch_sendError (receiveEvents clock n es ch) = None"
  by (induction es arbitrary: n ch) (simp_all add: receiveEvent_def)

section \<open>A send comes to rest\<close>

lemma terminal_rests: "isTerminalRuntimeRunEvent e \<Longrightarrow> \<not> isSending (applyRuntimeRunEventToCopilotRunState now st e)"
  by (cases "ev_payload e")
     (auto simp: isTerminalRuntimeRunEvent_def applyRuntimeRunEventToCopilotRunState_def isSending_def applyRunCompletedToState_def
        applyRunFailedToState_def applyRunCancelledToState_def Let_def)

lemma error_rests: "\<not> isSending (ch_runState (handleSendError now ab started si sel e ch))"
  by (simp add: handleSendError_def isSending_def markCopilotRunCancelled_def applyRunCancelledToState_def
      createIdleCopilotRunState_def markCopilotRunTransportFailed_def Let_def)

lemma guard_through: "snd (guardStartedRun runId es fin) = Inr u \<Longrightarrow> fst (guardStartedRun runId es fin) = es \<and> fin = Inr u"
  by (induction es) (auto split: if_splits prod.splits)

lemma consumeEvents_all: "snd (consumeEvents st es fin) = Inr u \<Longrightarrow> fst (consumeEvents st es fin) = es"
  by (induction es arbitrary: st) (auto simp: yielding_def split: sum.splits)

lemma consume_all:
  assumes "snd (consumeRuntimeRunEventStream al g) = Inr u"
  shows "fst (consumeRuntimeRunEventStream al g) = fst g \<and> validRunStream (fst g)"
proof -
  have "snd (consumeEvents (stateAfter []) (fst g) (snd g)) = Inr ()"
    using assms by (auto simp: consumeRuntimeRunEventStream_def catchStreamError_def Let_def split: sum.splits)
  then show ?thesis
    using consumeEvents_done [of "[]" "fst g" "snd g"] consumeEvents_all
    by (auto simp: consumeRuntimeRunEventStream_def Let_def)
qed

lemma stream_terminal:
  assumes "streamRuntimeRun jp al fetch ab url runId = (es, Inr u)"
  shows "es \<noteq> [] \<and> isTerminalRuntimeRunEvent (last es)"
proof -
  obtain chunks fin where "fetchRuntimeRunStreamResponse fetch ab url runId = Inr (chunks, fin)"
    using assms by (cases "fetchRuntimeRunStreamResponse fetch ab url runId") (auto simp: streamRuntimeRun_def)
  then have es: "es = fst (consumeRuntimeRunEventStream al (parseRuntimeRunEventStream jp chunks fin))"
    and ok: "snd (consumeRuntimeRunEventStream al (parseRuntimeRunEventStream jp chunks fin)) = Inr ()"
    using assms by (auto simp: streamRuntimeRun_def streamEnd_def Let_def split: sum.splits)
  let ?g = "parseRuntimeRunEventStream jp chunks fin"
  have "validRunStream (fst ?g)" and "es = fst ?g" using consume_all [OF ok] es by simp_all
  then show ?thesis by (simp add: validRunStream_def)
qed

lemma dispatched_terminal:
  assumes "dp_end (dispatchCopilotMessage br asRun dbg si) = Inr u"
  shows "dp_events (dispatchCopilotMessage br asRun dbg si) \<noteq> [] \<and>
    isTerminalRuntimeRunEvent (last (dp_events (dispatchCopilotMessage br asRun dbg si)))"
proof -
  obtain payload where start: "startRuntimeRun (br_fetch br) (br_abortedAtStart br) (si_runtimeUrl si) (runStartInput si dbg) = Inr payload"
    using assms by (auto simp: dispatchCopilotMessage_def split: sum.splits)
  obtain run where run: "asRun payload = Inr run"
    using assms start by (auto simp: dispatchCopilotMessage_def split: sum.splits)
  obtain es fin where stream: "streamRuntimeRun (br_parse br) (br_abortLike br) (br_fetch br) (br_abortedAtStream br)
      (si_runtimeUrl si) (sr_runId run) = (es, fin)" by fastforce
  have "snd (guardStartedRun (sr_runId run) es fin) = Inr u"
    using assms start run stream by (simp add: dispatchCopilotMessage_def Let_def)
  then have "fst (guardStartedRun (sr_runId run) es fin) = es" and "fin = Inr u" using guard_through by blast+
  moreover have "es \<noteq> [] \<and> isTerminalRuntimeRunEvent (last es)" using stream \<open>fin = Inr u\<close> stream_terminal by simp
  ultimately show ?thesis using stream start run by (simp add: dispatchCopilotMessage_def Let_def)
qed

lemma runSend_rests: "\<not> isSending (ch_runState (runSend clock ab sel si (dispatchCopilotMessage br asRun dbg si) ch))"
proof (cases "dp_end (dispatchCopilotMessage br asRun dbg si)")
  case (Inl e)
  then show ?thesis by (simp add: runSend_def error_rests)
next
  case (Inr u)
  note final = dispatched_terminal [OF Inr]
  then obtain es e where es: "dp_events (dispatchCopilotMessage br asRun dbg si) = es @ [e]" and e: "isTerminalRuntimeRunEvent e"
    by (metis append_butlast_last_id)
  then show ?thesis using Inr by (simp add: runSend_def receiveEvents_snoc receiveEvent_def terminal_rests)
qed

lemma runSend_shown:
  assumes "ch_sendError ch = None" and "ch_sendError (runSend clock ab sel si d ch) \<noteq> None"
  shows "ch_runState (runSend clock ab sel si d ch) = createIdleCopilotRunState"
  using assms by (auto simp: runSend_def handleSendError_def Let_def receiveEvents_error split: sum.splits if_splits)

lemma commitSendState_simps [simp]:
  "ch_sendError (commitSendState i random sid si m opts ch) = None"
  "ch_conversation (commitSendState i random sid si m opts ch) =
     ch_conversation ch @ map RunItem (buildCopilotRunSegmentViewModel (sq_runState i)) @
       [UserItem (createUserMessageListItem random (StructuredInput
          (buildComposerMessageContentWithAttachments m (map at_path (attachmentsOf i)))
          (Some (Option.bind (me_structuredPayload (si_message si)) id))))]"
  "ch_composerDraft (commitSendState i random sid si m opts ch) =
     (if sq_clearComposerOnSend i \<noteq> Some False then (ch_composerDraft ch)\<lparr>dr_messageText := []\<rparr> else ch_composerDraft ch)"
  by (simp_all add: commitSendState_def)

text \<open>The three outcomes of the orchestration: nothing, an error, or a run.\<close>

lemma orchestrate_cases:
  obtains (nothing) "orchestrateCopilotSend br sendMessage clock random i ch = ch"
  | (refused) e where "orchestrateCopilotSend br sendMessage clock random i ch = ch\<lparr>ch_sendError := Some e\<rparr>"
  | (sent) si sid m opts where "orchestrateCopilotSend br sendMessage clock random i ch =
      runSend clock (br_abortedAtCatch br) (sq_selectedModelOption i) si (sendMessage si) (commitSendState i random sid si m opts ch)"
proof -
  have "orchestrateCopilotSend br sendMessage clock random i ch = ch \<or>
      (\<exists>e. orchestrateCopilotSend br sendMessage clock random i ch = ch\<lparr>ch_sendError := Some e\<rparr>) \<or>
      (\<exists>si sid m opts. orchestrateCopilotSend br sendMessage clock random i ch =
        runSend clock (br_abortedAtCatch br) (sq_selectedModelOption i) si (sendMessage si) (commitSendState i random sid si m opts ch))"
    by (simp add: orchestrateCopilotSend_def split: option.split sum.split) blast
  then show thesis using that by blast
qed

text \<open>
  C3: a send always comes to rest: whatever the runtime answers, whenever the signal is aborted and however the stream breaks,
  when the orchestration returns the run is neither starting nor streaming, so that the composer accepts the next message.
\<close>

theorem send_comes_to_rest:
  assumes "\<not> isSending (ch_runState ch)"
  shows "\<not> isSending (ch_runState
    (orchestrateCopilotSend br (dispatchCopilotMessage br asRun debugModeEnabled) clock random i ch))"
  using assms runSend_rests
  by (cases rule: orchestrate_cases [of br "dispatchCopilotMessage br asRun debugModeEnabled" clock random i ch]) simp_all

text \<open>
  C5: an error is never shown twice: after a send the composer shows an error only when the run did not change or is idle
  again; an error of a run that had started is shown by the run itself.
\<close>

theorem error_shown_once:
  "ch_sendError (orchestrateCopilotSend br sendMessage clock random i ch) = None \<or>
   ch_runState (orchestrateCopilotSend br sendMessage clock random i ch) \<in> {ch_runState ch, createIdleCopilotRunState}"
  using runSend_shown [OF commitSendState_simps(1)]
  by (cases rule: orchestrate_cases [of br sendMessage clock random i ch]) auto

section \<open>The button and the send\<close>

lemma chosen_builds:
  "dr_selectedModelRoute draft \<noteq> None \<Longrightarrow>
   \<exists>si. buildRuntimeMessageSendInput url shell draft paths opts payload policy override = Inr si"
  by (auto simp: buildRuntimeMessageSendInput_def Let_def)

text \<open>
  The draft as it is sent: an override (the answer to an inline form) takes the place of the text. The reason of the button is
  computed for the draft on the screen, so that without an override it is the reason of the draft that is sent.
\<close>

definition sentDraft :: "send_request \<Rightarrow> composer_draft" where
  "sentDraft i = (case sq_messageOverride i of
     None \<Rightarrow> sq_composerDraft i
   | Some (content, payload) \<Rightarrow> (sq_composerDraft i)\<lparr>dr_messageText := content\<rparr>)"

definition sendReason :: "send_request \<Rightarrow> composer_draft \<Rightarrow> string option" where
  "sendReason i draft = getCopilotSendDisabledReason (sq_state i) (sq_sessionShell i) (sq_runState i) draft
     (Some (attachmentsOf i \<noteq> [])) (sq_hasConfiguredModels i) (sq_hasAvailableModels i) (sq_selectedModelOption i)"

lemma sentDraft_fields [simp]:
  "dr_selectedModelRoute (sentDraft i) = dr_selectedModelRoute (sq_composerDraft i)"
  "dr_selectedModelId (sentDraft i) = dr_selectedModelId (sq_composerDraft i)"
  "trim (dr_messageText (sentDraft i)) = messageToSend i"
  by (auto simp: sentDraft_def messageToSend_def split: option.split)

lemma button_checks:
  "sendReason i (sentDraft i) = None \<longleftrightarrow>
    isCopilotConnectableState (sq_state i) \<and> sq_sessionShell i \<noteq> None \<and> \<not> isSending (sq_runState i) \<and>
    firstError [checkPreflightConfiguredModels i, checkPreflightSpecificModelUnavailable i, checkPreflightNoAvailableModels i,
      checkMessage i, checkPreflightModelRequired i, checkPreflightStreamingSupport i] = None"
  by (auto simp: sendReason_def getCopilotSendDisabledReason_def firstError_None checkPreflightConfiguredModels_def
      checkPreflightSpecificModelUnavailable_def checkPreflightNoAvailableModels_def checkMessage_def checkPreflightModelRequired_def
      checkPreflightStreamingSupport_def noModelChosen_def split: option.splits)

lemma button_chosen: "sendReason i (sentDraft i) = None \<Longrightarrow> dr_selectedModelRoute (sq_composerDraft i) \<noteq> None"
  by (auto simp: sendReason_def getCopilotSendDisabledReason_def noModelChosen_def split: if_splits)

definition optionsParse :: "browser \<Rightarrow> send_request \<Rightarrow> bool" where
  "optionsParse br i = (case parseRequestOptionsText (br_parse br) (dr_requestOptionsText (sq_composerDraft i)) of
     Inl e \<Rightarrow> False | Inr r \<Rightarrow> True)"

definition sentConversation :: "string \<Rightarrow> send_request \<Rightarrow> chat_state \<Rightarrow> list_item list" where
  "sentConversation random i ch =
     ch_conversation ch @ map RunItem (buildCopilotRunSegmentViewModel (sq_runState i)) @
     [UserItem (createUserMessageListItem random (StructuredInput
        (buildComposerMessageContentWithAttachments (messageToSend i) (map at_path (attachmentsOf i)))
        (Some (Option.bind (Option.bind (sq_messageOverride i) snd) id))))]"

lemma orchestrate_refused:
  assumes "\<not> (sendReason i (sentDraft i) = None \<and> optionsParse br i)"
  shows "ch_conversation (orchestrateCopilotSend br sendMessage clock random i ch) = ch_conversation ch"
    and "ch_composerDraft (orchestrateCopilotSend br sendMessage clock random i ch) = ch_composerDraft ch"
  using assms button_checks
  by (auto simp: orchestrateCopilotSend_def validateCopilotSendPreflight_def optionsParse_def split: option.split sum.split)

lemma orchestrate_sent:
  assumes "sendReason i (sentDraft i) = None" and "optionsParse br i"
  shows "ch_conversation (orchestrateCopilotSend br sendMessage clock random i ch) = sentConversation random i ch"
    and "ch_composerDraft (orchestrateCopilotSend br sendMessage clock random i ch) =
      (if sq_clearComposerOnSend i \<noteq> Some False then (ch_composerDraft ch)\<lparr>dr_messageText := []\<rparr> else ch_composerDraft ch)"
proof -
  note checks = button_checks [THEN iffD1, OF assms(1)]
  obtain shell where shell: "sq_sessionShell i = Some shell" using checks by blast
  obtain opts where opts: "parseRequestOptionsText (br_parse br) (dr_requestOptionsText (sq_composerDraft i)) = Inr opts"
    using assms(2) by (auto simp: optionsParse_def split: sum.splits)
  have valid: "validateCopilotSendPreflight (br_parse br) i = Inr (messageToSend i, opts)"
    using checks opts by (simp add: validateCopilotSendPreflight_def)
  obtain si where si: "buildRuntimeMessageSendInput (bs_runtimeUrl (sq_state i)) shell
      ((sq_composerDraft i)\<lparr>dr_messageText := messageToSend i\<rparr>) (map at_path (attachmentsOf i)) opts
      (Option.bind (sq_messageOverride i) snd) (sq_toolPermissionPolicy i) (sq_thinkingCapabilityOverride i) = Inr si"
    using chosen_builds [of "(sq_composerDraft i)\<lparr>dr_messageText := messageToSend i\<rparr>"] button_chosen [OF assms(1)]
    by (metis composer_draft.select_convs(3) composer_draft.surjective composer_draft.update_convs(1))
  then have "me_structuredPayload (si_message si) = Option.bind (sq_messageOverride i) snd"
    by (auto simp: buildRuntimeMessageSendInput_def Let_def split: option.splits)
  then show "ch_conversation (orchestrateCopilotSend br sendMessage clock random i ch) = sentConversation random i ch"
    and "ch_composerDraft (orchestrateCopilotSend br sendMessage clock random i ch) =
      (if sq_clearComposerOnSend i \<noteq> Some False then (ch_composerDraft ch)\<lparr>dr_messageText := []\<rparr> else ch_composerDraft ch)"
    using checks valid si shell by (simp_all add: orchestrateCopilotSend_def sentConversation_def)
qed

text \<open>
  C4: the button and the send agree: a send, with or without an override of the message, is committed exactly when the reason of
  the button, computed for the draft that is sent, is none and the request options parse. That draft is the composer's draft; an
  override takes the place of its text. Then the view of the previous run and the message (with the payload of the override) join
  the conversation and the draft's text is cleared if asked; otherwise the conversation and the draft stay as they are, so that
  what was typed is not lost.
\<close>

theorem button_decides_send:
  "(ch_conversation (orchestrateCopilotSend br sendMessage clock random i ch),
      ch_composerDraft (orchestrateCopilotSend br sendMessage clock random i ch)) =
    (if sendReason i (sentDraft i) = None \<and> optionsParse br i
     then (sentConversation random i ch,
       if sq_clearComposerOnSend i \<noteq> Some False then (ch_composerDraft ch)\<lparr>dr_messageText := []\<rparr> else ch_composerDraft ch)
     else (ch_conversation ch, ch_composerDraft ch))"
proof (cases "sendReason i (sentDraft i) = None \<and> optionsParse br i")
  case True
  then show ?thesis using orchestrate_sent by simp
next
  case False
  then show ?thesis using orchestrate_refused [OF False] by (simp only: if_False)
qed

section \<open>Witnesses\<close>

definition sampleShell :: session_shell where
  "sampleShell = \<lparr>sh_sessionId = ''s1'', sh_title = None,
     sh_boundAgent = \<lparr>ag_id = ''default'', ag_label = ''A'', ag_shortLabel = ''A'', ag_description = [], ag_hint = None,
       ag_status = ''ready'', ag_recommendedTools = []\<rparr>,
     sh_createdAt = ''t'', sh_updatedAt = ''t'',
     sh_capabilities = \<lparr>sc_capabilitiesVersion = ''1'', sc_allAvailableTools = [], sc_recommendedToolsForAgent = [],
       sc_defaultEnabledTools = [], sc_toolSelectionMode = ''recommended''\<rparr>\<rparr>"

definition sampleDraft :: composer_draft where
  "sampleDraft = applyModelSelectionToComposerDraft
     (createEmptyComposerDraft\<lparr>dr_messageText := ''hello'', dr_requestOptionsText := []\<rparr>) ''m1'' (sampleRouteTo ''m1'')"

definition sampleRequest :: send_request where
  "sampleRequest = \<lparr>sq_state = \<lparr>bs_status = BootReady, bs_runtimeUrl = ''http://localhost''\<rparr>, sq_sessionShell = Some sampleShell,
     sq_composerDraft = sampleDraft, sq_attachments = None, sq_runState = createIdleCopilotRunState, sq_hasConfiguredModels = True,
     sq_hasAvailableModels = True, sq_selectedModelOption = None, sq_thinkingCapabilityOverride = None,
     sq_toolPermissionPolicy = None, sq_messageOverride = None, sq_clearComposerOnSend = None\<rparr>"

definition sampleChat :: chat_state where
  "sampleChat = \<lparr>ch_conversation = [], ch_runState = createIdleCopilotRunState, ch_sendError = None, ch_composerDraft = sampleDraft\<rparr>"

text \<open>A browser that cannot reach the runtime.\<close>

definition offline :: browser where
  "offline = \<lparr>br_fetch = \<lambda>_ _. Inl (TypeFailure ''Failed to fetch''), br_parse = \<lambda>_. Inl ''no'', br_abortedAtStart = False,
     br_abortedAtStream = False, br_abortLike = \<lambda>_. False, br_abortedAtCatch = False\<rparr>"

definition sampleSend :: chat_state where
  "sampleSend = orchestrateCopilotSend offline (dispatchCopilotMessage offline (\<lambda>_. Inl (TypeFailure [])) None) (\<lambda>_. 0) ''x''
     sampleRequest sampleChat"

theorem send_comes_to_rest_witness: "\<not> isSending (ch_runState sampleSend)"
  using send_comes_to_rest [of sampleChat] by (simp add: sampleSend_def sampleChat_def isSending_def createIdleCopilotRunState_def)

theorem button_decides_send_witness:
  "ch_conversation sampleSend = sentConversation ''x'' sampleRequest sampleChat \<and>
   dr_messageText (ch_composerDraft sampleSend) = []"
proof -
  have "sendReason sampleRequest (sentDraft sampleRequest) = None" by code_simp
  moreover have "optionsParse offline sampleRequest" by code_simp
  ultimately show ?thesis
    using button_decides_send [of offline "dispatchCopilotMessage offline (\<lambda>_. Inl (TypeFailure [])) None" "\<lambda>_. 0" "''x''" sampleRequest sampleChat]
    by (simp add: sampleSend_def sampleRequest_def)
qed

end
