(* ===== verification/State_Service.thy ===== *)
theory State_Service
  imports Settings_Policy
begin

text \<open>
  The state service of the desktop capability bridge,
  \<open>electron/capability-bridge/services/DesktopCapabilityStateService.ts\<close>: tools keep records under keys, for the tool or for one
  run of it, in one JSON document on disk. A mutation reads the document, changes it and writes it; mutations wait for each other
  in a queue, so that a sequence of requests is a sequence of whole steps. The document on disk is the JSON value that its text
  parses to; a disk that refuses a write is not modelled. The identifiers of tools and runs are not names of properties that
  every object inherits; for keys the inherited properties are modelled.
\<close>

section \<open>A store with keys\<close>

datatype ('a, 'v) mutation = PutValue 'a 'v | DeleteValue 'a

fun lastWrite :: "('a, 'v) mutation list \<Rightarrow> 'a \<Rightarrow> 'v option \<Rightarrow> 'v option" where
  "lastWrite [] b v = v"
| "lastWrite (PutValue a x # ms) b v = lastWrite ms b (if a = b then Some x else v)"
| "lastWrite (DeleteValue a # ms) b v = lastWrite ms b (if a = b then None else v)"

text \<open>
  The contract: writing an address changes what is read there and nowhere else. Some addresses may be unable to hold values;
  the others satisfy \<open>holds_values\<close>.
\<close>

locale keyed_store =
  fixes look :: "'s \<Rightarrow> 'a \<Rightarrow> 'v option"
    and put :: "'a \<Rightarrow> 'v \<Rightarrow> 's \<Rightarrow> 's"
    and del :: "'a \<Rightarrow> 's \<Rightarrow> 's"
    and ok :: "'s \<Rightarrow> bool"
    and holds_values :: "'a \<Rightarrow> bool"
  assumes look_put: "ok s \<Longrightarrow> holds_values a \<Longrightarrow> look (put a v s) a = Some v"
    and look_put_other: "ok s \<Longrightarrow> b \<noteq> a \<Longrightarrow> look (put a v s) b = look s b"
    and look_del: "ok s \<Longrightarrow> look (del a s) b = (if b = a then None else look s b)"
    and ok_put: "ok s \<Longrightarrow> ok (put a v s)"
    and ok_del: "ok s \<Longrightarrow> ok (del a s)"
begin

fun mutate :: "('a, 'v) mutation \<Rightarrow> 's \<Rightarrow> 's" where
  "mutate (PutValue a v) s = put a v s"
| "mutate (DeleteValue a) s = del a s"

lemma ok_mutate: "ok s \<Longrightarrow> ok (mutate m s)"
  by (cases m) (simp_all add: ok_put ok_del)

lemma ok_mutations: "ok s \<Longrightarrow> ok (fold mutate ms s)"
  by (induction ms arbitrary: s) (simp_all add: ok_mutate)

lemma last_write_wins:
  assumes "ok s" and "holds_values b"
  shows "look (fold mutate ms s) b = lastWrite ms b (look s b)"
  using assms(1)
proof (induction ms arbitrary: s)
  case (Cons m ms)
  show ?case
  proof (cases m)
    case (PutValue a v)
    then show ?thesis using Cons assms(2) look_put [OF Cons.prems, of a v] look_put_other [OF Cons.prems, of b a v]
      by (auto simp: ok_put)
  next
    case (DeleteValue a)
    then show ?thesis using Cons by (simp add: ok_del look_del)
  qed
qed simp

end

section \<open>The document\<close>

type_synonym bucket = "(string \<times> jrecord) list"

record state_document =
  dc_tool :: "(string \<times> bucket) list"
  dc_run :: "(string \<times> (string \<times> bucket) list) list"

definition createEmptyStateDocument :: state_document where
  "createEmptyStateDocument = \<lparr>dc_tool = [], dc_run = []\<rparr>"

datatype state_scope = ToolScope | RunScope

record bucket_context =
  bx_toolId :: string
  bx_runId :: string
  bx_scope :: state_scope

text \<open>The entries of a value that is an object; \<open>Object.entries\<close> of anything else is not taken.\<close>

fun objectEntries :: "json option \<Rightarrow> jrecord option" where
  "objectEntries (Some (JObj r)) = Some r"
| "objectEntries _ = None"

definition entriesOr :: "(json \<Rightarrow> 'b) \<Rightarrow> json option \<Rightarrow> (string \<times> 'b) list" where
  "entriesOr f v = (case objectEntries v of None \<Rightarrow> [] | Some r \<Rightarrow> fromEntries (map (\<lambda>(k, x). (k, f x)) r))"

definition normalizeRecordMap :: "json option \<Rightarrow> bucket" where
  "normalizeRecordMap v = entriesOr (\<lambda>x. case objectEntries (Some x) of None \<Rightarrow> [] | Some r \<Rightarrow> r) v"

definition normalizeToolScopedValues :: "json option \<Rightarrow> (string \<times> bucket) list" where
  "normalizeToolScopedValues v = entriesOr (\<lambda>b. normalizeRecordMap (Some b)) v"

definition normalizeRunScopedValues :: "json option \<Rightarrow> (string \<times> (string \<times> bucket) list) list" where
  "normalizeRunScopedValues v = entriesOr (\<lambda>rs. entriesOr (\<lambda>b. normalizeRecordMap (Some b)) (Some rs)) v"

datatype state_file = FileMissing | FileBroken string | FileHolds json

datatype state_failure = BridgeFailure string string jrecord | CloneFailure

definition quoted :: "string \<Rightarrow> string" where
  "quoted s = [CHR 0x27] @ s @ [CHR 0x27]"

definition loadFailure :: "string \<Rightarrow> state_failure" where
  "loadFailure m = BridgeFailure ''internal_error'' ''Failed to load capability state document.'' [(''error'', JStr m)]"

definition documentOf :: "jrecord \<Rightarrow> state_document" where
  "documentOf values =
     \<lparr>dc_tool = normalizeToolScopedValues (prop_of values ''tool''), dc_run = normalizeRunScopedValues (prop_of values ''run'')\<rparr>"

definition readStateDocument :: "state_file \<Rightarrow> state_failure + state_document" where
  "readStateDocument f =
     (case f of
        FileMissing \<Rightarrow> Inr createEmptyStateDocument
      | FileBroken m \<Rightarrow> Inl (loadFailure m)
      | FileHolds JNull \<Rightarrow> Inl (loadFailure (''Cannot read properties of null (reading '' @ quoted ''values'' @ '')''))
      | FileHolds (JObj raw) \<Rightarrow>
          Inr (documentOf (case objectEntries (prop_of raw ''values'') of None \<Rightarrow> [] | Some v \<Rightarrow> v))
      | FileHolds _ \<Rightarrow> Inr (documentOf []))"

definition bucketJson :: "bucket \<Rightarrow> json" where
  "bucketJson b = JObj (map (\<lambda>(k, r). (k, JObj r)) b)"

definition bucketsJson :: "(string \<times> bucket) list \<Rightarrow> json" where
  "bucketsJson bs = JObj (map (\<lambda>(k, b). (k, bucketJson b)) bs)"

definition documentJson :: "state_document \<Rightarrow> json" where
  "documentJson d = JObj
     [(''version'', JNum 1),
      (''values'', JObj [(''tool'', bucketsJson (dc_tool d)),
         (''run'', JObj (map (\<lambda>(k, rs). (k, bucketsJson rs)) (dc_run d)))])]"

definition writeStateDocument :: "state_document \<Rightarrow> state_file" where
  "writeStateDocument d = FileHolds (documentJson d)"

section \<open>Buckets\<close>

definition resolveToolBucket :: "state_document \<Rightarrow> string \<Rightarrow> bucket option" where
  "resolveToolBucket d toolId = map_of (dc_tool d) toolId"

definition runBucketsOf :: "state_document \<Rightarrow> string \<Rightarrow> (string \<times> bucket) list" where
  "runBucketsOf d toolId = (case map_of (dc_run d) toolId of None \<Rightarrow> [] | Some rs \<Rightarrow> rs)"

definition resolveRunBucket :: "state_document \<Rightarrow> string \<Rightarrow> string \<Rightarrow> bucket option" where
  "resolveRunBucket d toolId runId = map_of (runBucketsOf d toolId) runId"

definition getStateBucket :: "state_document \<Rightarrow> bucket_context \<Rightarrow> bucket option" where
  "getStateBucket d c =
     (case bx_scope c of
        ToolScope \<Rightarrow> resolveToolBucket d (bx_toolId c)
      | RunScope \<Rightarrow> resolveRunBucket d (bx_toolId c) (bx_runId c))"

text \<open>The bucket is changed in place: a missing one is created at the end of its object.\<close>

definition setStateBucket :: "bucket_context \<Rightarrow> bucket \<Rightarrow> state_document \<Rightarrow> state_document" where
  "setStateBucket c b d =
     (case bx_scope c of
        ToolScope \<Rightarrow> d\<lparr>dc_tool := AList.update (bx_toolId c) b (dc_tool d)\<rparr>
      | RunScope \<Rightarrow> d\<lparr>dc_run := AList.update (bx_toolId c)
          (AList.update (bx_runId c) b (runBucketsOf d (bx_toolId c))) (dc_run d)\<rparr>)"

definition pruneEmptyStateBuckets :: "bucket_context \<Rightarrow> state_document \<Rightarrow> state_document" where
  "pruneEmptyStateBuckets c d =
     (case bx_scope c of
        ToolScope \<Rightarrow>
          (if (case map_of (dc_tool d) (bx_toolId c) of None \<Rightarrow> [] | Some b \<Rightarrow> b) = []
           then d\<lparr>dc_tool := AList.delete (bx_toolId c) (dc_tool d)\<rparr> else d)
      | RunScope \<Rightarrow>
          (case map_of (dc_run d) (bx_toolId c) of
             None \<Rightarrow> d
           | Some rs \<Rightarrow>
               (let rs' = (if (case map_of rs (bx_runId c) of None \<Rightarrow> [] | Some b \<Rightarrow> b) = []
                           then AList.delete (bx_runId c) rs else rs)
                in d\<lparr>dc_run := (if rs' = [] then AList.delete (bx_toolId c) (dc_run d)
                       else AList.update (bx_toolId c) rs' (dc_run d))\<rparr>)))"

text \<open>
  The names that every object inherits. Reading one of the functions gives a value that cannot be cloned, reading
  \<open>__proto__\<close> an object without properties of its own, and writing \<open>__proto__\<close> changes the prototype unless the object has a
  property of that name.
\<close>

definition PROTO :: string where
  "PROTO = ''__proto__''"

definition inheritedFunctions :: "string list" where
  "inheritedFunctions = [''constructor'', ''__defineGetter__'', ''__defineSetter__'', ''hasOwnProperty'', ''__lookupGetter__'',
     ''__lookupSetter__'', ''isPrototypeOf'', ''propertyIsEnumerable'', ''toString'', ''valueOf'', ''toLocaleString'']"

definition inherited :: "string \<Rightarrow> bool" where
  "inherited key \<longleftrightarrow> key = PROTO \<or> key \<in> set inheritedFunctions"

definition readKey :: "bucket \<Rightarrow> string \<Rightarrow> state_failure + jrecord option" where
  "readKey b key =
     (case map_of b key of
        Some v \<Rightarrow> Inr (Some v)
      | None \<Rightarrow> if key = PROTO then Inr (Some []) else if key \<in> set inheritedFunctions then Inl CloneFailure else Inr None)"

definition writeKey :: "string \<Rightarrow> jrecord \<Rightarrow> bucket \<Rightarrow> bucket" where
  "writeKey key v b = (if key = PROTO \<and> map_of b key = None then b else AList.update key v b)"

section \<open>Requests\<close>

record state_request =
  rs_operation :: string
  rs_toolId :: string
  rs_runId :: string
  rs_payload :: jrecord

definition normalizeStateScope :: "json option \<Rightarrow> state_failure + state_scope" where
  "normalizeStateScope v =
     (if v = Some (JStr ''tool'') then Inr ToolScope
      else if v = Some (JStr ''run'') then Inr RunScope
      else Inl (BridgeFailure ''invalid_request'' (''scope must be either '' @ quoted ''tool'' @ '' or '' @ quoted ''run'' @ ''.'') []))"

definition keyFailure :: state_failure where
  "keyFailure = BridgeFailure ''invalid_request'' ''State key must be a non-empty string.'' []"

definition normalizeStateKey :: "json option \<Rightarrow> state_failure + string" where
  "normalizeStateKey v =
     (case v of Some (JStr s) \<Rightarrow> if trim s = [] then Inl keyFailure else Inr (trim s) | _ \<Rightarrow> Inl keyFailure)"

definition normalizeStateValue :: "json option \<Rightarrow> state_failure + jrecord" where
  "normalizeStateValue v =
     (case objectEntries v of
        Some r \<Rightarrow> Inr r
      | None \<Rightarrow> Inl (BridgeFailure ''invalid_request'' ''State value must be an object.'' []))"

definition normalizeStateAddress :: "state_request \<Rightarrow> state_failure + (bucket_context \<times> string)" where
  "normalizeStateAddress q =
     (case normalizeStateScope (prop_of (rs_payload q) ''scope'') of
        Inl e \<Rightarrow> Inl e
      | Inr scope \<Rightarrow>
          (case normalizeStateKey (prop_of (rs_payload q) ''key'') of
             Inl e \<Rightarrow> Inl e
           | Inr key \<Rightarrow> Inr (\<lparr>bx_toolId = rs_toolId q, bx_runId = rs_runId q, bx_scope = scope\<rparr>, key)))"

definition foundJson :: "jrecord option \<Rightarrow> jrecord" where
  "foundJson v = [(''found'', JBool (v \<noteq> None)), (''value'', case v of None \<Rightarrow> JNull | Some r \<Rightarrow> JObj r)]"

definition getStateValue :: "state_file \<Rightarrow> state_request \<Rightarrow> state_failure + jrecord" where
  "getStateValue f q =
     (case normalizeStateAddress q of
        Inl e \<Rightarrow> Inl e
      | Inr (c, key) \<Rightarrow>
          (case readStateDocument f of
             Inl e \<Rightarrow> Inl e
           | Inr d \<Rightarrow>
               (case getStateBucket d c of
                  None \<Rightarrow> Inr (foundJson None)
                | Some b \<Rightarrow> (case readKey b key of Inl e \<Rightarrow> Inl e | Inr v \<Rightarrow> Inr (foundJson v)))))"

definition putInDocument :: "bucket_context \<times> string \<Rightarrow> jrecord \<Rightarrow> state_document \<Rightarrow> state_document" where
  "putInDocument a v d =
     setStateBucket (fst a) (writeKey (snd a) v (case getStateBucket d (fst a) of None \<Rightarrow> [] | Some b \<Rightarrow> b)) d"

definition putStateValue :: "state_file \<Rightarrow> state_request \<Rightarrow> state_file \<times> (state_failure + jrecord)" where
  "putStateValue f q =
     (case normalizeStateAddress q of
        Inl e \<Rightarrow> (f, Inl e)
      | Inr a \<Rightarrow>
          (case normalizeStateValue (prop_of (rs_payload q) ''value'') of
             Inl e \<Rightarrow> (f, Inl e)
           | Inr v \<Rightarrow>
               (case readStateDocument f of
                  Inl e \<Rightarrow> (f, Inl e)
                | Inr d \<Rightarrow> (writeStateDocument (putInDocument a v d), Inr []))))"

text \<open>\<open>key in bucket\<close> is also true of an inherited key.\<close>

definition deleteFromDocument :: "bucket_context \<times> string \<Rightarrow> state_document \<Rightarrow> state_document option" where
  "deleteFromDocument a d =
     (case getStateBucket d (fst a) of
        None \<Rightarrow> None
      | Some b \<Rightarrow>
          if map_of b (snd a) = None \<and> \<not> inherited (snd a) then None
          else Some (pruneEmptyStateBuckets (fst a) (setStateBucket (fst a) (AList.delete (snd a) b) d)))"

definition deleteStateValue :: "state_file \<Rightarrow> state_request \<Rightarrow> state_file \<times> (state_failure + jrecord)" where
  "deleteStateValue f q =
     (case normalizeStateAddress q of
        Inl e \<Rightarrow> (f, Inl e)
      | Inr a \<Rightarrow>
          (case readStateDocument f of
             Inl e \<Rightarrow> (f, Inl e)
           | Inr d \<Rightarrow> ((case deleteFromDocument a d of None \<Rightarrow> f | Some d' \<Rightarrow> writeStateDocument d'), Inr [])))"

definition unsupportedOperation :: "string \<Rightarrow> state_failure" where
  "unsupportedOperation op = BridgeFailure ''unsupported_operation'' (''State capability does not support operation '' @ quoted op @ ''.'')
     [(''capability'', JStr ''state''), (''operation'', JStr op)]"

definition handleStateRequest :: "state_file \<Rightarrow> state_request \<Rightarrow> state_file \<times> (state_failure + jrecord)" where
  "handleStateRequest f q =
     (if rs_operation q = ''get_value'' then (f, getStateValue f q)
      else if rs_operation q = ''put_value'' then putStateValue f q
      else if rs_operation q = ''delete_value'' then deleteStateValue f q
      else (f, Inl (unsupportedOperation (rs_operation q))))"

text \<open>The queue of mutations, with the reads between them: each request sees the file its predecessors left.\<close>

fun handleRequests :: "state_file \<Rightarrow> state_request list \<Rightarrow> state_file" where
  "handleRequests f [] = f"
| "handleRequests f (q # qs) = handleRequests (fst (handleStateRequest f q)) qs"

section \<open>The document is a store\<close>

text \<open>An address; for the scope of a tool the run does not matter.\<close>

datatype state_address = ToolValue string string | RunValue string string string

fun contextOf :: "state_address \<Rightarrow> bucket_context" where
  "contextOf (ToolValue toolId key) = \<lparr>bx_toolId = toolId, bx_runId = [], bx_scope = ToolScope\<rparr>"
| "contextOf (RunValue toolId runId key) = \<lparr>bx_toolId = toolId, bx_runId = runId, bx_scope = RunScope\<rparr>"

fun keyOf :: "state_address \<Rightarrow> string" where
  "keyOf (ToolValue toolId key) = key"
| "keyOf (RunValue toolId runId key) = key"

definition addressOf :: "bucket_context \<times> string \<Rightarrow> state_address" where
  "addressOf a = (case bx_scope (fst a) of
     ToolScope \<Rightarrow> ToolValue (bx_toolId (fst a)) (snd a)
   | RunScope \<Rightarrow> RunValue (bx_toolId (fst a)) (bx_runId (fst a)) (snd a))"

definition lookDocument :: "state_document \<Rightarrow> state_address \<Rightarrow> jrecord option" where
  "lookDocument d a = Option.bind (getStateBucket d (contextOf a)) (\<lambda>b. map_of b (keyOf a))"

definition putAt :: "state_address \<Rightarrow> jrecord \<Rightarrow> state_document \<Rightarrow> state_document" where
  "putAt a v d = putInDocument (contextOf a, keyOf a) v d"

definition deleteAt :: "state_address \<Rightarrow> state_document \<Rightarrow> state_document" where
  "deleteAt a d = (case deleteFromDocument (contextOf a, keyOf a) d of None \<Rightarrow> d | Some d' \<Rightarrow> d')"

definition keysDistinct :: "(string \<times> 'b) list \<Rightarrow> bool" where
  "keysDistinct xs \<longleftrightarrow> distinct (map fst xs)"

definition bucketsOk :: "(string \<times> bucket) list \<Rightarrow> bool" where
  "bucketsOk bs \<longleftrightarrow> keysDistinct bs \<and> (\<forall>(k, b) \<in> set bs. keysDistinct b)"

definition documentOk :: "state_document \<Rightarrow> bool" where
  "documentOk d \<longleftrightarrow> bucketsOk (dc_tool d) \<and> keysDistinct (dc_run d) \<and> (\<forall>(k, rs) \<in> set (dc_run d). bucketsOk rs)"

lemma delete_subset: "kv \<in> set (AList.delete k xs) \<Longrightarrow> kv \<in> set xs"
  by (induction xs) (auto split: if_splits)

lemma delete_gone: "AList.delete k xs = [] \<Longrightarrow> k' \<noteq> k \<Longrightarrow> map_of xs k' = None"
  using delete_conv' [of k xs] by (metis fun_upd_other map_of.simps(1))

lemma keysDistinct_simps [simp]:
  "keysDistinct []" "keysDistinct xs \<Longrightarrow> keysDistinct (AList.update k v xs)" "keysDistinct xs \<Longrightarrow> keysDistinct (AList.delete k xs)"
  by (simp_all add: keysDistinct_def distinct_update distinct_delete)

lemma bucketsOk_simps [simp]:
  "bucketsOk []" "bucketsOk bs \<Longrightarrow> keysDistinct b \<Longrightarrow> bucketsOk (AList.update k b bs)"
  "bucketsOk bs \<Longrightarrow> bucketsOk (AList.delete k bs)"
  "bucketsOk bs \<Longrightarrow> map_of bs k = Some b \<Longrightarrow> keysDistinct b"
  by (auto simp: bucketsOk_def dest!: in_updated delete_subset map_of_SomeD)

lemma runBuckets_ok [simp]: "documentOk d \<Longrightarrow> bucketsOk (runBucketsOf d t)"
  by (auto simp: runBucketsOf_def documentOk_def split: option.split dest!: map_of_SomeD)

lemma getBucket_ok [simp]: "documentOk d \<Longrightarrow> getStateBucket d c = Some b \<Longrightarrow> keysDistinct b"
  using bucketsOk_simps(4) [of "runBucketsOf d (bx_toolId c)" "bx_runId c"]
  by (auto simp: getStateBucket_def resolveToolBucket_def resolveRunBucket_def documentOk_def split: state_scope.splits)

lemma setBucket_ok [simp]: "documentOk d \<Longrightarrow> keysDistinct b \<Longrightarrow> documentOk (setStateBucket c b d)"
  using runBuckets_ok [of d "bx_toolId c"]
  by (auto simp: setStateBucket_def documentOk_def dest!: in_updated split: state_scope.split)

lemma prune_ok [simp]: "documentOk d \<Longrightarrow> documentOk (pruneEmptyStateBuckets c d)"
  by (auto simp: pruneEmptyStateBuckets_def documentOk_def Let_def split: state_scope.split option.split
      dest!: in_updated delete_subset map_of_SomeD)

lemma writeKey_ok [simp]: "keysDistinct b \<Longrightarrow> keysDistinct (writeKey k v b)"
  by (simp add: writeKey_def)

lemma put_ok: "documentOk d \<Longrightarrow> documentOk (putInDocument a v d)"
  by (auto simp: putInDocument_def split: option.split intro!: setBucket_ok writeKey_ok)

lemma delete_ok: "documentOk d \<Longrightarrow> deleteFromDocument a d = Some d' \<Longrightarrow> documentOk d'"
  by (auto simp: deleteFromDocument_def split: option.splits if_splits intro!: prune_ok setBucket_ok keysDistinct_simps)

text \<open>Where a bucket is found after one was set.\<close>

lemma get_set_bucket:
  "getStateBucket (setStateBucket (contextOf a) b d) (contextOf a) = Some b"
  by (cases a) (simp_all add: getStateBucket_def setStateBucket_def resolveToolBucket_def resolveRunBucket_def runBucketsOf_def
      update_conv')

lemma get_set_other:
  "contextOf a' \<noteq> contextOf a \<Longrightarrow>
   getStateBucket (setStateBucket (contextOf a) b d) (contextOf a') = getStateBucket d (contextOf a')"
  by (cases a; cases a') (auto simp: getStateBucket_def setStateBucket_def resolveToolBucket_def resolveRunBucket_def
      runBucketsOf_def update_conv' split: option.split)

text \<open>Pruning removes empty buckets only, which hold no values.\<close>

lemma look_prune:
  assumes "documentOk d"
  shows "lookDocument (pruneEmptyStateBuckets c d) a = lookDocument d a"
proof (cases "bx_scope c")
  case ToolScope
  then show ?thesis
    by (cases a) (auto simp: lookDocument_def pruneEmptyStateBuckets_def getStateBucket_def resolveToolBucket_def resolveRunBucket_def
        runBucketsOf_def delete_conv' split: option.splits)
next
  case RunScope
  show ?thesis
  proof (cases "map_of (dc_run d) (bx_toolId c)")
    case None
    then show ?thesis using RunScope by (simp add: pruneEmptyStateBuckets_def)
  next
    case (Some rs)
    then show ?thesis using RunScope
      by (cases a) (auto simp: lookDocument_def pruneEmptyStateBuckets_def getStateBucket_def resolveToolBucket_def resolveRunBucket_def
        runBucketsOf_def delete_conv' update_conv' Let_def dest: delete_gone split: option.splits)
  qed
qed

definition holdsValues :: "state_address \<Rightarrow> bool" where
  "holdsValues a \<longleftrightarrow> keyOf a \<noteq> PROTO"

lemma context_key: "contextOf a = contextOf b \<Longrightarrow> keyOf a = keyOf b \<Longrightarrow> a = b"
  by (cases a; cases b) auto

lemma look_putAt: "holdsValues a \<Longrightarrow> lookDocument (putAt a v d) a = Some v"
  by (simp add: lookDocument_def putAt_def putInDocument_def get_set_bucket writeKey_def holdsValues_def update_conv')

lemma look_putAt_other:
  assumes "b \<noteq> a"
  shows "lookDocument (putAt a v d) b = lookDocument d b"
proof (cases "contextOf b = contextOf a")
  case True
  then have "keyOf b \<noteq> keyOf a" using assms context_key by metis
  then show ?thesis using True
    by (auto simp: lookDocument_def putAt_def putInDocument_def get_set_bucket writeKey_def update_conv' split: option.split)
next
  case False
  then show ?thesis by (simp add: lookDocument_def putAt_def putInDocument_def get_set_other)
qed

lemma look_setDelete:
  assumes "getStateBucket d (contextOf a) = Some bk"
  shows "lookDocument (setStateBucket (contextOf a) (AList.delete (keyOf a) bk) d) b = (if b = a then None else lookDocument d b)"
proof (cases "contextOf b = contextOf a")
  case True
  then show ?thesis using assms context_key [of b a]
    by (auto simp: lookDocument_def get_set_bucket delete_conv')
next
  case False
  then show ?thesis by (auto simp: lookDocument_def get_set_other)
qed

lemma look_deleteAt:
  assumes "documentOk d"
  shows "lookDocument (deleteAt a d) b = (if b = a then None else lookDocument d b)"
proof (cases "getStateBucket d (contextOf a)")
  case None
  then show ?thesis by (simp add: deleteAt_def deleteFromDocument_def lookDocument_def)
next
  case (Some bk)
  have ok: "documentOk (setStateBucket (contextOf a) (AList.delete (keyOf a) bk) d)"
    using assms Some getBucket_ok setBucket_ok by simp
  show ?thesis
  proof (cases "map_of bk (keyOf a) = None \<and> \<not> inherited (keyOf a)")
    case True
    then have "lookDocument d a = None" using Some by (simp add: lookDocument_def)
    then show ?thesis using True Some by (simp add: deleteAt_def deleteFromDocument_def)
  next
    case False
    then have "deleteAt a d = pruneEmptyStateBuckets (contextOf a) (setStateBucket (contextOf a) (AList.delete (keyOf a) bk) d)"
      using Some by (auto simp: deleteAt_def deleteFromDocument_def)
    then show ?thesis using look_prune [OF ok] look_setDelete [OF Some] by simp
  qed
qed

lemma at_ok: "documentOk d \<Longrightarrow> documentOk (putAt a v d)" "documentOk d \<Longrightarrow> documentOk (deleteAt a d)"
  by (auto simp: putAt_def deleteAt_def put_ok delete_ok split: option.split)

interpretation doc: keyed_store lookDocument putAt deleteAt documentOk holdsValues
  by unfold_locales (simp_all add: look_putAt look_putAt_other look_deleteAt at_ok)

section \<open>The file holds the document\<close>

lemma map_fst_keys: "map fst (map (\<lambda>(k, x). (k, f x)) xs) = map fst xs"
  by (induction xs) auto

lemma map_values: "(\<And>k x. (k, x) \<in> set xs \<Longrightarrow> g (f x) = x) \<Longrightarrow> map (\<lambda>(k, y). (k, g y)) (map (\<lambda>(k, x). (k, f x)) xs) = xs"
  by (induction xs) auto

lemma entriesOr_written:
  assumes "keysDistinct xs" and "\<And>k x. (k, x) \<in> set xs \<Longrightarrow> g (f x) = x"
  shows "entriesOr g (Some (JObj (map (\<lambda>(k, x). (k, f x)) xs))) = xs"
proof -
  have "map (\<lambda>(k, y). (k, g y)) (map (\<lambda>(k, x). (k, f x)) xs) = xs" using map_values assms(2) by blast
  then show ?thesis using assms(1) by (simp add: entriesOr_def fromEntries_id keysDistinct_def)
qed

lemma bucket_written: "keysDistinct b \<Longrightarrow> normalizeRecordMap (Some (bucketJson b)) = b"
  unfolding normalizeRecordMap_def bucketJson_def by (rule entriesOr_written) simp_all

lemma buckets_written: "bucketsOk bs \<Longrightarrow> entriesOr (\<lambda>b. normalizeRecordMap (Some b)) (Some (bucketsJson bs)) = bs"
  unfolding bucketsJson_def by (rule entriesOr_written) (auto simp: bucketsOk_def bucket_written)

lemma document_written: "documentOk d \<Longrightarrow> readStateDocument (writeStateDocument d) = Inr d"
proof -
  assume ok: "documentOk d"
  have "entriesOr (\<lambda>rs. entriesOr (\<lambda>b. normalizeRecordMap (Some b)) (Some rs))
      (Some (JObj (map (\<lambda>(k, rs). (k, bucketsJson rs)) (dc_run d)))) = dc_run d"
    using ok by (intro entriesOr_written) (auto simp: documentOk_def buckets_written)
  then show ?thesis
    using ok by (simp add: readStateDocument_def writeStateDocument_def documentJson_def documentOf_def
        normalizeToolScopedValues_def normalizeRunScopedValues_def buckets_written documentOk_def)
qed

lemma entriesOr_distinct [simp]: "keysDistinct (entriesOr f v)"
  by (auto simp: entriesOr_def keysDistinct_def split: option.split)

lemma entriesOr_values: "kv \<in> set (entriesOr f v) \<Longrightarrow> \<exists>x. snd kv = f x"
  using fromEntries_subset by (fastforce simp: entriesOr_def split: option.splits)

lemma bucketsOk_read: "bucketsOk (entriesOr (\<lambda>b. normalizeRecordMap (Some b)) v)"
  by (auto simp: bucketsOk_def normalizeRecordMap_def dest!: entriesOr_values)

lemma read_ok: "readStateDocument f = Inr d \<Longrightarrow> documentOk d"
  by (auto simp: readStateDocument_def documentOk_def documentOf_def normalizeToolScopedValues_def normalizeRunScopedValues_def
      createEmptyStateDocument_def bucketsOk_read dest!: entriesOr_values split: state_file.splits json.splits)

section \<open>Requests refine the store\<close>

text \<open>What a request asks of the store, if it is a mutation that passes the checks.\<close>

definition asMutation :: "state_request \<Rightarrow> (state_address, jrecord) mutation option" where
  "asMutation q =
     (case normalizeStateAddress q of
        Inl e \<Rightarrow> None
      | Inr a \<Rightarrow>
          if rs_operation q = ''put_value'' then
            (case normalizeStateValue (prop_of (rs_payload q) ''value'') of Inl e \<Rightarrow> None | Inr v \<Rightarrow> Some (PutValue (addressOf a) v))
          else if rs_operation q = ''delete_value'' then Some (DeleteValue (addressOf a))
          else None)"

lemma tool_context:
  assumes "bx_scope (fst a) = ToolScope"
  shows "contextOf (addressOf a) = (fst a)\<lparr>bx_runId := []\<rparr>"
  using assms by (cases "fst a") (simp add: addressOf_def)

lemma run_context:
  assumes "bx_scope (fst a) = RunScope"
  shows "contextOf (addressOf a) = fst a"
  using assms by (cases "fst a") (simp add: addressOf_def)

lemma context_address: "getStateBucket d (contextOf (addressOf a)) = getStateBucket d (fst a)"
  "setStateBucket (contextOf (addressOf a)) b d = setStateBucket (fst a) b d"
  "pruneEmptyStateBuckets (contextOf (addressOf a)) d = pruneEmptyStateBuckets (fst a) d"
  by (cases "bx_scope (fst a)";
      simp add: tool_context run_context getStateBucket_def setStateBucket_def pruneEmptyStateBuckets_def)+

lemma key_address [simp]: "keyOf (addressOf a) = snd a"
  by (simp add: addressOf_def split: state_scope.split)

lemma put_address: "putInDocument a v d = putAt (addressOf a) v d"
  by (simp add: putAt_def putInDocument_def context_address)

lemma delete_address: "(case deleteFromDocument a d of None \<Rightarrow> d | Some d' \<Rightarrow> d') = deleteAt (addressOf a) d"
  by (cases "getStateBucket d (fst a)") (simp_all add: deleteAt_def deleteFromDocument_def context_address)

lemma handled_step:
  assumes "readStateDocument f = Inr d"
  shows "readStateDocument (fst (handleStateRequest f q)) =
    Inr (case asMutation q of None \<Rightarrow> d | Some m \<Rightarrow> doc.mutate m d)"
proof (cases "normalizeStateAddress q")
  case (Inl e)
  then show ?thesis using assms
    by (simp add: handleStateRequest_def putStateValue_def deleteStateValue_def asMutation_def)
next
  case (Inr a)
  have ok: "documentOk d" using assms read_ok by blast
  have put: "readStateDocument (writeStateDocument (putInDocument a v d)) = Inr (putAt (addressOf a) v d)" for v
    using document_written [OF put_ok [OF ok]] by (simp add: put_address)
  have del: "readStateDocument (case deleteFromDocument a d of None \<Rightarrow> f | Some d' \<Rightarrow> writeStateDocument d') =
      Inr (deleteAt (addressOf a) d)"
    using assms document_written delete_ok [OF ok] delete_address [of d a]
    by (cases "deleteFromDocument a d") auto
  show ?thesis using Inr assms put del
    by (auto simp: handleStateRequest_def putStateValue_def deleteStateValue_def asMutation_def split: sum.split)
qed

lemma handled_requests:
  assumes "readStateDocument f = Inr d"
  shows "readStateDocument (handleRequests f qs) = Inr (fold doc.mutate (List.map_filter asMutation qs) d)"
  using assms
proof (induction qs arbitrary: f d)
  case (Cons q qs)
  then show ?case using handled_step [OF Cons.prems, of q]
    by (cases "asMutation q") (simp_all add: map_filter_simps)
qed (simp add: map_filter_simps)

lemma get_address:
  assumes "readStateDocument f = Inr d" and "normalizeStateAddress q = Inr a" and "\<not> inherited (snd a)"
  shows "getStateValue f q = Inr (foundJson (lookDocument d (addressOf a)))"
  using assms
  by (cases a) (auto simp: getStateValue_def lookDocument_def context_address readKey_def inherited_def split: option.split)

text \<open>
  C26: the service is a store: after any sequence of requests, among them refused ones, a value that is asked for is the last one
  put under its address and not deleted since, or else what the document on disk held at the start. The premises: the document is
  readable at the start, and the key asked for is not a property that every object inherits (\<open>__proto__\<close>, \<open>constructor\<close> and the
  like; \<open>proto_key_is_lost\<close> shows what becomes of one). The requests are answered one after another, as the queue of mutations has
  it for those that write; reads do not wait in this queue, and one that overlaps a write in progress is not covered.
\<close>

theorem state_service_refines_store:
  assumes "readStateDocument f = Inr d" and "normalizeStateAddress q = Inr a" and "\<not> inherited (snd a)"
  shows "getStateValue (handleRequests f qs) q =
    Inr (foundJson (lastWrite (List.map_filter asMutation qs) (addressOf a) (lookDocument d (addressOf a))))"
proof -
  have "holdsValues (addressOf a)" using assms(3) by (auto simp: holdsValues_def context_address inherited_def)
  then have "lookDocument (fold doc.mutate (List.map_filter asMutation qs) d) (addressOf a) =
      lastWrite (List.map_filter asMutation qs) (addressOf a) (lookDocument d (addressOf a))"
    using doc.last_write_wins read_ok [OF assms(1)] by blast
  then show ?thesis using get_address [OF handled_requests [OF assms(1)] assms(2,3)] by simp
qed

section \<open>No empty buckets\<close>

definition noEmpty :: "state_document \<Rightarrow> bool" where
  "noEmpty d \<longleftrightarrow> (\<forall>(t, b) \<in> set (dc_tool d). b \<noteq> []) \<and> (\<forall>(t, rs) \<in> set (dc_run d). rs \<noteq> [] \<and> (\<forall>(r, b) \<in> set rs. b \<noteq> []))"

lemma update_not_empty [simp]: "AList.update k v xs \<noteq> []" "[] \<noteq> AList.update k v xs"
  by (cases xs; auto)+

lemma noEmpty_put: "noEmpty d \<Longrightarrow> holdsValues a \<Longrightarrow> noEmpty (putAt a v d)"
  by (cases a) (auto simp: putAt_def putInDocument_def writeKey_def holdsValues_def setStateBucket_def noEmpty_def runBucketsOf_def
      dest!: in_updated map_of_SomeD split: option.splits)


lemma delete_key: "kv \<in> set (AList.delete k xs) \<Longrightarrow> fst kv \<noteq> k \<and> kv \<in> set xs"
  by (induction xs) (auto split: if_splits)

definition fullBuckets :: "(string \<times> bucket) list \<Rightarrow> bool" where
  "fullBuckets bs \<longleftrightarrow> (\<forall>(k, b) \<in> set bs. b \<noteq> [])"

lemma noEmpty_full: "noEmpty d \<longleftrightarrow> fullBuckets (dc_tool d) \<and> (\<forall>(t, rs) \<in> set (dc_run d). rs \<noteq> [] \<and> fullBuckets rs)"
  by (auto simp: noEmpty_def fullBuckets_def)

lemma full_pruned:
  "fullBuckets bs \<Longrightarrow> fullBuckets (if b = [] then AList.delete k (AList.update k b bs) else AList.update k b bs)"
  by (auto simp: fullBuckets_def dest!: delete_key in_updated)

lemma noEmpty_delete:
  assumes "noEmpty d"
  shows "noEmpty (deleteAt a d)"
proof (cases "deleteFromDocument (contextOf a, keyOf a) d")
  case None
  then show ?thesis using assms by (simp add: deleteAt_def)
next
  case (Some d')
  then obtain b where b: "getStateBucket d (contextOf a) = Some b"
    and d': "deleteAt a d = pruneEmptyStateBuckets (contextOf a) (setStateBucket (contextOf a) (AList.delete (keyOf a) b) d)"
    by (auto simp: deleteAt_def deleteFromDocument_def split: option.splits if_splits)
  show ?thesis
  proof (cases a)
    case (ToolValue t k)
    then show ?thesis unfolding d' using assms full_pruned [of "dc_tool d" "AList.delete k b" t]
      by (auto simp: noEmpty_full pruneEmptyStateBuckets_def setStateBucket_def update_conv')
  next
    case (RunValue t r k)
    have rs: "fullBuckets (runBucketsOf d t)"
      using assms by (cases "map_of (dc_run d) t") (auto simp: noEmpty_full runBucketsOf_def fullBuckets_def dest!: map_of_SomeD)
    note full_pruned [OF rs, of "AList.delete k b" r]
    then show ?thesis unfolding d' using assms RunValue
      by (auto simp: noEmpty_full pruneEmptyStateBuckets_def setStateBucket_def update_conv' Let_def dest!: delete_key in_updated)
  qed
qed

text \<open>
  The document does not fill with empty buckets: when the keys that are put are not \<open>__proto__\<close>, a document without empty buckets
  stays one, whatever is put and deleted.
\<close>

theorem no_empty_buckets:
  assumes "readStateDocument f = Inr d" and "noEmpty d"
    and "\<And>a v. PutValue a v \<in> set (List.map_filter asMutation qs) \<Longrightarrow> keyOf a \<noteq> PROTO"
  shows "\<exists>d'. readStateDocument (handleRequests f qs) = Inr d' \<and> noEmpty d'"
proof -
  have "noEmpty (fold doc.mutate ms d)" if "noEmpty d" "\<And>a v. PutValue a v \<in> set ms \<Longrightarrow> keyOf a \<noteq> PROTO" for ms d
    using that
  proof (induction ms arbitrary: d)
    case (Cons m ms)
    have "noEmpty (doc.mutate m d)"
    proof (cases m)
      case (PutValue a v)
      then have "keyOf a \<noteq> PROTO" using Cons.prems(2) [of a v] by simp
      then show ?thesis using Cons.prems(1) PutValue by (simp add: noEmpty_put holdsValues_def)
    next
      case (DeleteValue a)
      then show ?thesis using Cons.prems noEmpty_delete by simp
    qed
    moreover have "keyOf a \<noteq> PROTO" if "PutValue a v \<in> set ms" for a v using that Cons.prems(2) [of a v] by simp
    ultimately show ?case using Cons.IH by simp
  qed simp
  then show ?thesis using handled_requests [OF assms(1)] assms(2,3) by blast
qed

definition protoRequest :: "string \<Rightarrow> state_request" where
  "protoRequest op = \<lparr>rs_operation = op, rs_toolId = ''t'', rs_runId = ''r'',
     rs_payload = [(''scope'', JStr ''tool''), (''key'', JStr PROTO), (''value'', JObj [(''a'', JNum 1)])]\<rparr>"

text \<open>
  The key \<open>__proto__\<close> passes the check of keys, but a value put under it is lost: asked for it, the service answers with an empty
  record, and a bucket that only held it is stored empty.
\<close>

theorem proto_key_is_lost:
  "snd (handleStateRequest FileMissing (protoRequest ''put_value'')) = Inr [] \<and>
   getStateValue (fst (handleStateRequest FileMissing (protoRequest ''put_value''))) (protoRequest ''get_value'') =
     Inr [(''found'', JBool True), (''value'', JObj [])]"
  by code_simp

section \<open>Witnesses\<close>

definition stateRequest :: "string \<Rightarrow> string \<Rightarrow> rat \<Rightarrow> state_request" where
  "stateRequest op key n = \<lparr>rs_operation = op, rs_toolId = ''t'', rs_runId = ''r'',
     rs_payload = [(''scope'', JStr ''run''), (''key'', JStr key), (''value'', JObj [(''n'', JNum n)])]\<rparr>"

definition sampleQueue :: "state_request list" where
  "sampleQueue = [stateRequest ''put_value'' ''a'' 1, stateRequest ''put_value'' ''b'' 2, stateRequest ''delete_value'' ''b'' 0,
     stateRequest ''put_value'' '' a '' 3]"

theorem state_service_refines_store_witness:
  "getStateValue (handleRequests FileMissing sampleQueue) (stateRequest ''get_value'' ''a'' 0) =
     Inr (foundJson (Some [(''n'', JNum 3)]))"
proof -
  have "normalizeStateAddress (stateRequest ''get_value'' ''a'' 0) =
      Inr (\<lparr>bx_toolId = ''t'', bx_runId = ''r'', bx_scope = RunScope\<rparr>, ''a'')" by code_simp
  moreover have "\<not> inherited ''a''" by code_simp
  moreover have "lastWrite (List.map_filter asMutation sampleQueue) (RunValue ''t'' ''r'' ''a'') None = Some [(''n'', JNum 3)]"
    by code_simp
  ultimately show ?thesis
    using state_service_refines_store [of FileMissing createEmptyStateDocument "stateRequest ''get_value'' ''a'' 0" _ sampleQueue]
    by (simp add: readStateDocument_def addressOf_def lookDocument_def getStateBucket_def resolveRunBucket_def runBucketsOf_def
        createEmptyStateDocument_def)
qed

theorem no_empty_buckets_witness:
  "\<exists>d'. readStateDocument (handleRequests FileMissing sampleQueue) = Inr d' \<and> noEmpty d'"
proof -
  have "List.map_filter asMutation sampleQueue = [PutValue (RunValue ''t'' ''r'' ''a'') [(''n'', JNum 1)],
      PutValue (RunValue ''t'' ''r'' ''b'') [(''n'', JNum 2)], DeleteValue (RunValue ''t'' ''r'' ''b''),
      PutValue (RunValue ''t'' ''r'' ''a'') [(''n'', JNum 3)]]" by code_simp
  then have "keyOf a \<noteq> PROTO" if "PutValue a v \<in> set (List.map_filter asMutation sampleQueue)" for a v
    using that by (auto simp: PROTO_def)
  then show ?thesis
    by (intro no_empty_buckets [of FileMissing createEmptyStateDocument])
      (simp_all add: readStateDocument_def noEmpty_def createEmptyStateDocument_def)
qed

end
