(* ===== verification/History_State.thy ===== *)
theory History_State
  imports Composer
begin

text \<open>
  The history of a session as the assistant workspace keeps it, \<open>src/workbench/assistant/assistant-history-state.ts\<close>: the
  detail of a persisted thread, the run that is selected, and the replays of its runs, each with a load status. The file
  names of the persisted records are in \<open>electron/copilot-history.ts\<close>. The icon of an agent is not modelled.
\<close>

section \<open>The data\<close>

record thread_summary =
  th_threadId :: string
  th_boundAgentId :: string
  th_title :: "string option"
  th_titleSource :: "string option"
  th_summary :: "string option"
  th_summarySource :: "string option"
  th_createdAt :: string
  th_updatedAt :: string
  th_lastActivityAt :: "string option"
  th_lastRunId :: "string option"
  th_lastRunStatus :: "string option"
  th_lastUserMessagePreview :: "string option"
  th_lastAssistantMessagePreview :: "string option"
  th_driftSummary :: "jrecord option"

record run_summary =
  rv_runId :: string
  rv_threadId :: string
  rv_status :: string
  rv_createdAt :: string
  rv_updatedAt :: string
  rv_startedAt :: "string option"
  rv_terminalAt :: "string option"
  rv_resolvedModelId :: "string option"
  rv_requestedMessageText :: "string option"
  rv_assistantText :: "string option"

record history_event =
  he_sequence :: int
  he_eventType :: string
  he_createdAt :: string
  he_payload :: jrecord
  he_toolCallId :: "string option"
  he_toolId :: "string option"
  he_phase :: "string option"
  he_isRedacted :: bool
  he_redactionVersion :: int

record run_replay =
  re_version :: string
  re_run :: run_summary
  re_historicalSnapshot :: "jrecord option"
  re_orderedEvents :: "history_event list"
  re_toolCallBlocks :: "jrecord list"
  re_diagnosticBlocks :: "jrecord list"
  re_terminalState :: "jrecord option"
  re_availabilityInterpretation :: "jrecord option"

record thread_detail =
  de_version :: string
  de_thread :: thread_summary
  de_timelineItems :: "jrecord list"
  de_runSummaries :: "run_summary list"
  de_latestConfigurationSnapshot :: "jrecord option"
  de_availabilityDrift :: "jrecord option"

datatype load_status = LoadIdle | LoadLoading | LoadReady | LoadError

record history_state =
  hy_summary :: thread_summary
  hy_isPersistedThread :: "bool option"
  hy_hasLoadedDetail :: "bool option"
  hy_detailStatus :: load_status
  hy_detailError :: "string option"
  hy_timelineItems :: "jrecord list"
  hy_runSummaries :: "run_summary list"
  hy_latestConfigurationSnapshot :: "jrecord option"
  hy_availabilityDrift :: "jrecord option"
  hy_capabilitiesStatus :: "load_status option"
  hy_capabilitiesError :: "string option option"
  hy_selectedRunId :: "string option"
  hy_replayStatus :: load_status
  hy_replayError :: "string option"
  hy_replay :: "run_replay option"
  hy_replayByRunId :: "(string \<times> run_replay) list option"

record capabilities_response =
  cp_capabilitiesVersion :: string
  cp_tools :: "tool_entry list"
  cp_recommendedTools :: "string list"
  cp_toolSelectionMode :: string

section \<open>Sessions from history\<close>

definition normalizeOptionalString :: "string option \<Rightarrow> string option" where
  "normalizeOptionalString s = (if trimmedText s = [] then None else Some (trimmedText s))"

definition createEmptyAssistantSessionCapabilities :: session_capabilities where
  "createEmptyAssistantSessionCapabilities =
     \<lparr>sc_capabilitiesVersion = ''history-shell'', sc_allAvailableTools = [], sc_recommendedToolsForAgent = [],
      sc_defaultEnabledTools = [], sc_toolSelectionMode = ''recommendation-only''\<rparr>"

definition createDefaultEnabledToolIds :: "tool_entry list \<Rightarrow> string list" where
  "createDefaultEnabledToolIds tools = sanitizeEnabledToolIds (map td_toolId tools) tools None"

definition createAssistantSessionCapabilitiesFromRuntime :: "capabilities_response \<Rightarrow> session_capabilities" where
  "createAssistantSessionCapabilitiesFromRuntime r =
     \<lparr>sc_capabilitiesVersion = cp_capabilitiesVersion r, sc_allAvailableTools = cp_tools r,
      sc_recommendedToolsForAgent = cp_recommendedTools r,
      sc_defaultEnabledTools = createDefaultEnabledToolIds (cp_tools r), sc_toolSelectionMode = cp_toolSelectionMode r\<rparr>"

text \<open>A previous value that is not blank is shown trimmed; otherwise the next one is tried.\<close>

definition resolveAssistantHistorySessionTitle :: "thread_summary \<Rightarrow> string" where
  "resolveAssistantHistorySessionTitle s =
     firstNonEmpty [trimmedText (th_title s), trimmedText (th_lastUserMessagePreview s),
       trimmedText (th_lastAssistantMessagePreview s), trim (th_boundAgentId s), [CHR 0xE5, CHR 0x8E, CHR 0x86, CHR 0xE5, CHR 0x8F, CHR 0xB2, CHR 0xE4, CHR 0xBC, CHR 0x9A, CHR 0xE8, CHR 0xAF, CHR 0x9D]]"

definition historicalAgent :: "string \<Rightarrow> agent_type" where
  "historicalAgent boundAgentId =
     (let label = (if trim boundAgentId = [] then [CHR 0xE5, CHR 0x8E, CHR 0x86, CHR 0xE5, CHR 0x8F, CHR 0xB2, CHR 0xE6, CHR 0x99, CHR 0xBA, CHR 0xE8, CHR 0x83, CHR 0xBD, CHR 0xE4, CHR 0xBD, CHR 0x93] else boundAgentId) in
      \<lparr>ag_id = boundAgentId, ag_label = label, ag_shortLabel = label,
       ag_description = [CHR 0xE5, CHR 0x8E, CHR 0x86, CHR 0xE5, CHR 0x8F, CHR 0xB2, CHR 0xE4, CHR 0xBC, CHR 0x9A, CHR 0xE8, CHR 0xAF, CHR 0x9D, CHR 0xE7, CHR 0xBB, CHR 0x91, CHR 0xE5, CHR 0xAE, CHR 0x9A, CHR 0xE7, CHR 0x9A, CHR 0x84, CHR 0xE6, CHR 0x99, CHR 0xBA, CHR 0xE8, CHR 0x83, CHR 0xBD, CHR 0xE4, CHR 0xBD, CHR 0x93, CHR 0xE5, CHR 0xBD, CHR 0x93, CHR 0xE5, CHR 0x89, CHR 0x8D, CHR 0xE6, CHR 0x9C, CHR 0xAA, CHR 0xE5, CHR 0x9C, CHR 0xA8, CHR 0xE7, CHR 0x9B, CHR 0xAE, CHR 0xE5, CHR 0xBD, CHR 0x95, CHR 0xE4, CHR 0xB8, CHR 0xAD, CHR 0xE6, CHR 0x8F, CHR 0x90, CHR 0xE4, CHR 0xBE, CHR 0x9B, CHR 0xE3, CHR 0x80, CHR 0x82], ag_hint = Some [CHR 0xE5, CHR 0x8E, CHR 0x86, CHR 0xE5, CHR 0x8F, CHR 0xB2, CHR 0xE7, CHR 0xBB, CHR 0x91, CHR 0xE5, CHR 0xAE, CHR 0x9A], ag_status = ''historical'',
       ag_recommendedTools = []\<rparr>)"

definition resolveAssistantHistoryBoundAgent :: "string \<Rightarrow> agent_type list \<Rightarrow> agent_type" where
  "resolveAssistantHistoryBoundAgent boundAgentId agents =
     (case find (\<lambda>a. ag_id a = boundAgentId) agents of Some a \<Rightarrow> a | None \<Rightarrow> historicalAgent boundAgentId)"

definition createAssistantSessionShellFromHistorySummary :: "thread_summary \<Rightarrow> agent_type list \<Rightarrow> session_shell" where
  "createAssistantSessionShellFromHistorySummary s agents =
     \<lparr>sh_sessionId = th_threadId s, sh_title = Some (resolveAssistantHistorySessionTitle s),
      sh_boundAgent = resolveAssistantHistoryBoundAgent (th_boundAgentId s) agents,
      sh_createdAt = th_createdAt s, sh_updatedAt = th_updatedAt s,
      sh_capabilities = createEmptyAssistantSessionCapabilities\<rparr>"

text \<open>The comparison joins the recommended tools with a bar.\<close>

definition sameAgent :: "agent_type \<Rightarrow> agent_type \<Rightarrow> bool" where
  "sameAgent a b \<longleftrightarrow> ag_id a = ag_id b \<and> ag_label a = ag_label b \<and> ag_shortLabel a = ag_shortLabel b \<and>
     ag_description a = ag_description b \<and> ag_hint a = ag_hint b \<and> ag_status a = ag_status b \<and>
     joinWith ''|'' (ag_recommendedTools a) = joinWith ''|'' (ag_recommendedTools b)"

definition syncAssistantSessionShellBoundAgent :: "session_shell \<Rightarrow> agent_type list \<Rightarrow> session_shell" where
  "syncAssistantSessionShellBoundAgent shell agents =
     (let next' = resolveAssistantHistoryBoundAgent (ag_id (sh_boundAgent shell)) agents in
      if sameAgent (sh_boundAgent shell) next' then shell else shell\<lparr>sh_boundAgent := next'\<rparr>)"

definition applyAssistantSessionCapabilities :: "session_shell \<Rightarrow> capabilities_response \<Rightarrow> session_shell" where
  "applyAssistantSessionCapabilities shell r =
     shell\<lparr>sh_capabilities := createAssistantSessionCapabilitiesFromRuntime r\<rparr>"

section \<open>Runs and replays\<close>

definition availableRunIds :: "run_summary list \<Rightarrow> string list" where
  "availableRunIds runs = List.map_filter (\<lambda>r. normalizeOptionalString (Some (rv_runId r))) runs"

fun firstAvailable :: "string list \<Rightarrow> string option list \<Rightarrow> string option" where
  "firstAvailable available [] = None"
| "firstAvailable available (c # cs) =
     (case normalizeOptionalString c of
        None \<Rightarrow> firstAvailable available cs
      | Some s \<Rightarrow> if available = [] \<or> s \<in> set available then Some s else firstAvailable available cs)"

definition resolveAssistantSessionSelectedRunId ::
  "string option \<Rightarrow> string option \<Rightarrow> run_summary list \<Rightarrow> string option" where
  "resolveAssistantSessionSelectedRunId persisted current runs =
     firstAvailable (availableRunIds runs) [normalizeOptionalString current, normalizeOptionalString persisted]"

text \<open>The copies are equal to their originals.\<close>

definition cloneAssistantSessionHistoryReplay :: "run_replay \<Rightarrow> run_replay" where
  "cloneAssistantSessionHistoryReplay r = r"

definition replayRunIdOf :: "run_replay \<Rightarrow> string" where
  "replayRunIdOf r = rv_runId (re_run r)"

definition getAssistantSessionHistoryReplayForRun :: "history_state \<Rightarrow> string option \<Rightarrow> run_replay option" where
  "getAssistantSessionHistoryReplayForRun st runId =
     (case normalizeOptionalString runId of
        None \<Rightarrow> None
      | Some r \<Rightarrow>
          (case Option.bind (hy_replayByRunId st) (\<lambda>m. map_of m r) of
             Some cached \<Rightarrow> Some (cloneAssistantSessionHistoryReplay cached)
           | None \<Rightarrow>
               (case hy_replay st of
                  Some replay \<Rightarrow> if replayRunIdOf replay = r then Some (cloneAssistantSessionHistoryReplay replay) else None
                | None \<Rightarrow> None)))"

definition hasAssistantSessionHistoryReplayForRun :: "history_state \<Rightarrow> string option \<Rightarrow> bool" where
  "hasAssistantSessionHistoryReplayForRun st runId \<longleftrightarrow> getAssistantSessionHistoryReplayForRun st runId \<noteq> None"

text \<open>\<open>a ?? b\<close> on values that may be \<open>null\<close>.\<close>

definition orReplay :: "run_replay option \<Rightarrow> run_replay option \<Rightarrow> run_replay option" where
  "orReplay a b = (if a = None then b else a)"

section \<open>The states of a history\<close>

definition createAssistantSessionHistoryState :: "thread_summary \<Rightarrow> string option \<Rightarrow> bool \<Rightarrow> history_state" where
  "createAssistantSessionHistoryState summary selectedRunId isPersistedThread =
     \<lparr>hy_summary = summary, hy_isPersistedThread = Some isPersistedThread, hy_hasLoadedDetail = Some False,
      hy_detailStatus = LoadIdle, hy_detailError = None, hy_timelineItems = [], hy_runSummaries = [],
      hy_latestConfigurationSnapshot = None, hy_availabilityDrift = None,
      hy_capabilitiesStatus = Some (if isPersistedThread then LoadIdle else LoadReady), hy_capabilitiesError = Some None,
      hy_selectedRunId = resolveAssistantSessionSelectedRunId selectedRunId None [],
      hy_replayStatus = LoadIdle, hy_replayError = None, hy_replay = None, hy_replayByRunId = Some []\<rparr>"

definition createAssistantHistorySummaryFromSessionShell :: "session_shell \<Rightarrow> thread_summary" where
  "createAssistantHistorySummaryFromSessionShell shell =
     (let title = normalizeOptionalString (sh_title shell) in
      \<lparr>th_threadId = sh_sessionId shell, th_boundAgentId = ag_id (sh_boundAgent shell), th_title = title,
       th_titleSource = (if title = None then None else Some ''session-shell''), th_summary = None, th_summarySource = None,
       th_createdAt = sh_createdAt shell, th_updatedAt = sh_updatedAt shell, th_lastActivityAt = Some (sh_updatedAt shell),
       th_lastRunId = None, th_lastRunStatus = None, th_lastUserMessagePreview = None, th_lastAssistantMessagePreview = None,
       th_driftSummary = None\<rparr>)"

definition createAssistantSessionHistoryStateFromSessionShell :: "session_shell \<Rightarrow> string option \<Rightarrow> history_state" where
  "createAssistantSessionHistoryStateFromSessionShell shell selectedRunId =
     createAssistantSessionHistoryState (createAssistantHistorySummaryFromSessionShell shell) selectedRunId False"

text \<open>The replay fields after the selected run was resolved again, as the synchronisation and the detail set them.\<close>

definition statusAfterSelection :: "history_state \<Rightarrow> string option \<Rightarrow> load_status" where
  "statusAfterSelection st selected =
     (if getAssistantSessionHistoryReplayForRun st selected \<noteq> None then LoadReady
      else if selected = None then LoadIdle
      else if hy_selectedRunId st = selected then hy_replayStatus st
      else LoadIdle)"

definition errorAfterSelection :: "history_state \<Rightarrow> string option \<Rightarrow> string option" where
  "errorAfterSelection st selected = (if hy_selectedRunId st = selected then hy_replayError st else None)"

definition replayFor :: "history_state \<Rightarrow> string option \<Rightarrow> run_replay option" where
  "replayFor st runId = orReplay (getAssistantSessionHistoryReplayForRun st runId) (hy_replay st)"

definition syncAssistantSessionHistorySummary :: "history_state \<Rightarrow> thread_summary \<Rightarrow> string option \<Rightarrow> history_state" where
  "syncAssistantSessionHistorySummary st summary selectedRunId =
     (let next' = resolveAssistantSessionSelectedRunId selectedRunId (hy_selectedRunId st) (hy_runSummaries st) in
      st\<lparr>hy_summary := summary, hy_isPersistedThread := Some True, hy_selectedRunId := next',
         hy_replayStatus := statusAfterSelection st next', hy_replayError := errorAfterSelection st next',
         hy_replay := replayFor st next'\<rparr>)"

definition retryAssistantSessionHistoryDetail :: "history_state \<Rightarrow> history_state" where
  "retryAssistantSessionHistoryDetail st = st\<lparr>hy_detailStatus := LoadIdle, hy_detailError := None\<rparr>"

definition retryAssistantSessionHistoryReplay :: "history_state \<Rightarrow> history_state" where
  "retryAssistantSessionHistoryReplay st =
     st\<lparr>hy_replayStatus := LoadIdle, hy_replayError := None, hy_replay := replayFor st (hy_selectedRunId st)\<rparr>"

definition setCapabilitiesHydration :: "load_status \<Rightarrow> string option \<Rightarrow> history_state \<Rightarrow> history_state" where
  "setCapabilitiesHydration status e st = st\<lparr>hy_capabilitiesStatus := Some status, hy_capabilitiesError := Some e\<rparr>"

definition retryAssistantSessionCapabilitiesHydration :: "history_state \<Rightarrow> history_state" where
  "retryAssistantSessionCapabilitiesHydration = setCapabilitiesHydration LoadIdle None"

definition setAssistantSessionCapabilitiesHydrationLoading :: "history_state \<Rightarrow> history_state" where
  "setAssistantSessionCapabilitiesHydrationLoading = setCapabilitiesHydration LoadLoading None"

definition setAssistantSessionCapabilitiesHydrationReady :: "history_state \<Rightarrow> history_state" where
  "setAssistantSessionCapabilitiesHydrationReady = setCapabilitiesHydration LoadReady None"

definition setAssistantSessionCapabilitiesHydrationError :: "history_state \<Rightarrow> string \<Rightarrow> history_state" where
  "setAssistantSessionCapabilitiesHydrationError st e = setCapabilitiesHydration LoadError (Some e) st"

definition setAssistantSessionHistoryDetailLoading :: "history_state \<Rightarrow> history_state" where
  "setAssistantSessionHistoryDetailLoading st = st\<lparr>hy_detailStatus := LoadLoading, hy_detailError := None\<rparr>"

definition setAssistantSessionHistoryDetailError :: "history_state \<Rightarrow> string \<Rightarrow> history_state" where
  "setAssistantSessionHistoryDetailError st e = st\<lparr>hy_detailStatus := LoadError, hy_detailError := Some e\<rparr>"

definition applyAssistantSessionHistoryDetail :: "history_state \<Rightarrow> thread_detail \<Rightarrow> history_state" where
  "applyAssistantSessionHistoryDetail st detail =
     (let selected = resolveAssistantSessionSelectedRunId None (hy_selectedRunId st) (de_runSummaries detail) in
      st\<lparr>hy_summary := de_thread detail, hy_isPersistedThread := Some True, hy_hasLoadedDetail := Some True,
         hy_detailStatus := LoadReady, hy_detailError := None, hy_timelineItems := de_timelineItems detail,
         hy_runSummaries := de_runSummaries detail,
         hy_latestConfigurationSnapshot := de_latestConfigurationSnapshot detail,
         hy_availabilityDrift := de_availabilityDrift detail, hy_selectedRunId := selected,
         hy_replayStatus := statusAfterSelection st selected, hy_replayError := errorAfterSelection st selected,
         hy_replay := replayFor st selected\<rparr>)"

definition selectAssistantSessionHistoryRun :: "history_state \<Rightarrow> string option \<Rightarrow> history_state" where
  "selectAssistantSessionHistoryRun st runId =
     (let next' = normalizeOptionalString runId in
      if next' = hy_selectedRunId st then
        (if hy_replayStatus st = LoadError then retryAssistantSessionHistoryReplay st else st)
      else
        st\<lparr>hy_selectedRunId := next',
           hy_replayStatus := (if getAssistantSessionHistoryReplayForRun st next' \<noteq> None then LoadReady else LoadIdle),
           hy_replayError := None, hy_replay := replayFor st next'\<rparr>)"

text \<open>The run of a loading or failed request is the selected one when it is left out.\<close>

definition setAssistantSessionHistoryReplayLoading :: "history_state \<Rightarrow> string option \<Rightarrow> history_state" where
  "setAssistantSessionHistoryReplayLoading st runId =
     (let target = normalizeOptionalString runId in
      if target = None \<or> target \<noteq> hy_selectedRunId st then st
      else st\<lparr>hy_replayStatus := LoadLoading, hy_replayError := None, hy_replay := replayFor st target\<rparr>)"

definition setAssistantSessionHistoryReplayError :: "history_state \<Rightarrow> string \<Rightarrow> string option \<Rightarrow> history_state" where
  "setAssistantSessionHistoryReplayError st e runId =
     (let target = normalizeOptionalString runId in
      if target = None \<or> target \<noteq> hy_selectedRunId st then st
      else st\<lparr>hy_replayStatus := LoadError, hy_replayError := Some e, hy_replay := replayFor st target\<rparr>)"

definition applyAssistantSessionHistoryReplay :: "history_state \<Rightarrow> run_replay \<Rightarrow> history_state" where
  "applyAssistantSessionHistoryReplay st replay =
     (let nextReplay = cloneAssistantSessionHistoryReplay replay;
          replayRunId = normalizeOptionalString (Some (replayRunIdOf replay));
          selected = normalizeOptionalString (hy_selectedRunId st);
          forSelected = (if replayRunId \<noteq> None \<and> replayRunId = selected then Some nextReplay
            else getAssistantSessionHistoryReplayForRun st selected)
      in st\<lparr>hy_replayStatus := (if forSelected \<noteq> None then LoadReady else hy_replayStatus st),
            hy_replayError := (if forSelected \<noteq> None then None else hy_replayError st),
            hy_replay := orReplay forSelected (hy_replay st),
            hy_replayByRunId := Some (AList.update (replayRunIdOf replay) nextReplay (orElse (hy_replayByRunId st) []))\<rparr>)"

definition resolveAssistantSessionHistoryPersistableSelectedRunId :: "history_state \<Rightarrow> string option" where
  "resolveAssistantSessionHistoryPersistableSelectedRunId st =
     (let selected = normalizeOptionalString (hy_selectedRunId st);
          hasStableDetail = (hy_detailStatus st = LoadReady \<or> hy_hasLoadedDetail st = Some True)
      in if selected = None \<or> hy_isPersistedThread st \<noteq> Some True then None
         else if \<not> hasStableDetail then None
         else if selected \<in> set (map (\<lambda>r. normalizeOptionalString (Some (rv_runId r))) (hy_runSummaries st)) \<or>
                 hasAssistantSessionHistoryReplayForRun st selected
              then selected else None)"

section \<open>The states that a history can reach\<close>

inductive history_reachable :: "history_state \<Rightarrow> bool" where
  created: "history_reachable (createAssistantSessionHistoryState summary selected persisted)"
| synced: "history_reachable st \<Longrightarrow> history_reachable (syncAssistantSessionHistorySummary st summary selected)"
| detail_retried: "history_reachable st \<Longrightarrow> history_reachable (retryAssistantSessionHistoryDetail st)"
| replay_retried: "history_reachable st \<Longrightarrow> history_reachable (retryAssistantSessionHistoryReplay st)"
| capabilities_retried: "history_reachable st \<Longrightarrow> history_reachable (retryAssistantSessionCapabilitiesHydration st)"
| capabilities_loading: "history_reachable st \<Longrightarrow> history_reachable (setAssistantSessionCapabilitiesHydrationLoading st)"
| capabilities_ready: "history_reachable st \<Longrightarrow> history_reachable (setAssistantSessionCapabilitiesHydrationReady st)"
| capabilities_failed: "history_reachable st \<Longrightarrow> history_reachable (setAssistantSessionCapabilitiesHydrationError st e)"
| detail_loading: "history_reachable st \<Longrightarrow> history_reachable (setAssistantSessionHistoryDetailLoading st)"
| detail_failed: "history_reachable st \<Longrightarrow> history_reachable (setAssistantSessionHistoryDetailError st e)"
| detail_applied: "history_reachable st \<Longrightarrow> history_reachable (applyAssistantSessionHistoryDetail st detail)"
| run_selected: "history_reachable st \<Longrightarrow> history_reachable (selectAssistantSessionHistoryRun st runId)"
| replay_loading: "history_reachable st \<Longrightarrow> history_reachable (setAssistantSessionHistoryReplayLoading st runId)"
| replay_failed: "history_reachable st \<Longrightarrow> history_reachable (setAssistantSessionHistoryReplayError st e runId)"
| replay_applied: "history_reachable st \<Longrightarrow> history_reachable (applyAssistantSessionHistoryReplay st replay)"

lemmas history_ops =
  createAssistantSessionHistoryState_def syncAssistantSessionHistorySummary_def retryAssistantSessionHistoryDetail_def
  retryAssistantSessionHistoryReplay_def retryAssistantSessionCapabilitiesHydration_def
  setAssistantSessionCapabilitiesHydrationLoading_def setAssistantSessionCapabilitiesHydrationReady_def
  setAssistantSessionCapabilitiesHydrationError_def setCapabilitiesHydration_def setAssistantSessionHistoryDetailLoading_def
  setAssistantSessionHistoryDetailError_def applyAssistantSessionHistoryDetail_def selectAssistantSessionHistoryRun_def
  setAssistantSessionHistoryReplayLoading_def setAssistantSessionHistoryReplayError_def applyAssistantSessionHistoryReplay_def

lemma normalize_idem [simp]: "normalizeOptionalString (normalizeOptionalString s) = normalizeOptionalString s"
  by (simp add: normalizeOptionalString_def trimmedText_def split: option.split)

lemma normalize_Some: "normalizeOptionalString s = Some t \<Longrightarrow> normalizeOptionalString (Some t) = Some t"
  by (metis normalize_idem)

lemma firstAvailable_normal: "firstAvailable available cs = Some s \<Longrightarrow> normalizeOptionalString (Some s) = Some s"
  by (induction available cs rule: firstAvailable.induct) (auto split: option.splits if_splits dest: normalize_Some)

definition normalSelected :: "history_state \<Rightarrow> bool" where
  "normalSelected st \<longleftrightarrow> normalizeOptionalString (hy_selectedRunId st) = hy_selectedRunId st"

lemma resolve_normal [simp]:
  "normalizeOptionalString (resolveAssistantSessionSelectedRunId p c runs) = resolveAssistantSessionSelectedRunId p c runs"
proof (cases "resolveAssistantSessionSelectedRunId p c runs")
  case None
  then show ?thesis by (simp add: normalizeOptionalString_def trimmedText_def)
next
  case (Some s)
  then show ?thesis
    using firstAvailable_normal unfolding resolveAssistantSessionSelectedRunId_def by metis
qed

lemma reachable_normal: "history_reachable st \<Longrightarrow> normalizeOptionalString (hy_selectedRunId st) = hy_selectedRunId st"
  by (induction rule: history_reachable.induct) (auto simp: history_ops Let_def)

text \<open>The replays that are kept by run belong to their keys.\<close>

definition keyedReplays :: "history_state \<Rightarrow> bool" where
  "keyedReplays st \<longleftrightarrow> (\<forall>(k, r) \<in> set (orElse (hy_replayByRunId st) []). replayRunIdOf r = k)"

definition isReplayOf :: "run_replay option \<Rightarrow> string option \<Rightarrow> bool" where
  "isReplayOf replay runId = (case replay of
     None \<Rightarrow> False | Some r \<Rightarrow> runId \<noteq> None \<and> normalizeOptionalString (Some (replayRunIdOf r)) = runId)"

lemma reachable_keyed: "history_reachable st \<Longrightarrow> keyedReplays st"
proof (induction rule: history_reachable.induct)
  case (replay_applied st replay)
  then show ?case
    by (auto simp: keyedReplays_def history_ops Let_def orElse_def cloneAssistantSessionHistoryReplay_def dest!: in_updated)
qed (auto simp: keyedReplays_def history_ops Let_def orElse_def)

lemma got_replay:
  assumes "keyedReplays st" and "getAssistantSessionHistoryReplayForRun st runId = Some r"
  shows "isReplayOf (Some r) (normalizeOptionalString runId)"
proof -
  obtain s where s: "normalizeOptionalString runId = Some s"
    using assms(2) by (auto simp: getAssistantSessionHistoryReplayForRun_def split: option.splits)
  have "replayRunIdOf r = s"
    using assms s by (auto simp: getAssistantSessionHistoryReplayForRun_def cloneAssistantSessionHistoryReplay_def keyedReplays_def
        orElse_def bind_eq_Some_conv dest!: map_of_SomeD split: option.splits if_splits)
  then show ?thesis using s normalize_Some by (simp add: isReplayOf_def)
qed

text \<open>What the status of the replay promises: a ready replay is the one of the selected run, and a failure has a message.\<close>

definition replayStatusOk :: "history_state \<Rightarrow> bool" where
  "replayStatusOk st \<longleftrightarrow>
     (hy_replayStatus st = LoadReady \<longrightarrow> isReplayOf (hy_replay st) (hy_selectedRunId st)) \<and>
     (hy_replayStatus st = LoadError \<longrightarrow> hy_replayError st \<noteq> None)"

lemma isReplay_keeps: "isReplayOf (hy_replay st) sel \<Longrightarrow> keyedReplays st \<Longrightarrow> normalizeOptionalString sel = sel \<Longrightarrow> isReplayOf (replayFor st sel) sel"
  using got_replay [of st sel] by (auto simp: replayFor_def orReplay_def)

lemma selection_ok:
  assumes "keyedReplays st" and "replayStatusOk st" and "normalizeOptionalString sel = sel"
  shows "(statusAfterSelection st sel = LoadReady \<longrightarrow> isReplayOf (replayFor st sel) sel) \<and>
    (statusAfterSelection st sel = LoadError \<longrightarrow> errorAfterSelection st sel \<noteq> None)"
proof (cases "getAssistantSessionHistoryReplayForRun st sel")
  case (Some r)
  then show ?thesis using got_replay [OF assms(1) Some] assms(3)
    by (simp add: statusAfterSelection_def replayFor_def orReplay_def)
next
  case None
  then show ?thesis using assms isReplay_keeps [of st sel]
    by (auto simp: statusAfterSelection_def replayStatusOk_def errorAfterSelection_def)
qed

lemma reachable_replay: "history_reachable st \<Longrightarrow> replayStatusOk st"
proof (induction rule: history_reachable.induct)
  case (synced st summary selected)
  then show ?case using selection_ok [OF reachable_keyed [OF synced.hyps] synced.IH resolve_normal]
    by (simp add: replayStatusOk_def syncAssistantSessionHistorySummary_def Let_def)
next
  case (detail_applied st detail)
  then show ?case using selection_ok [OF reachable_keyed [OF detail_applied.hyps] detail_applied.IH resolve_normal]
    by (simp add: replayStatusOk_def applyAssistantSessionHistoryDetail_def Let_def)
next
  case (run_selected st runId)
  show ?case
  proof (cases "getAssistantSessionHistoryReplayForRun st (normalizeOptionalString runId)")
    case None
    then show ?thesis using run_selected.IH by (auto simp: replayStatusOk_def history_ops Let_def)
  next
    case (Some r)
    then show ?thesis using run_selected.IH got_replay [OF reachable_keyed [OF run_selected.hyps] Some]
      by (auto simp: replayStatusOk_def history_ops Let_def replayFor_def orReplay_def)
  qed
next
  case (replay_applied st replay)
  let ?sel = "normalizeOptionalString (hy_selectedRunId st)"
  have sel: "?sel = hy_selectedRunId st" using reachable_normal [OF replay_applied.hyps] .
  show ?case
  proof (cases "getAssistantSessionHistoryReplayForRun st ?sel")
    case None
    then show ?thesis using replay_applied.IH sel
      by (cases "hy_selectedRunId st") (auto simp: replayStatusOk_def applyAssistantSessionHistoryReplay_def Let_def orReplay_def isReplayOf_def
          cloneAssistantSessionHistoryReplay_def)
  next
    case (Some r)
    then show ?thesis using replay_applied.IH sel got_replay [OF reachable_keyed [OF replay_applied.hyps] Some]
      by (cases "hy_selectedRunId st") (auto simp: replayStatusOk_def applyAssistantSessionHistoryReplay_def Let_def orReplay_def isReplayOf_def
          cloneAssistantSessionHistoryReplay_def)
  qed
qed (auto simp: replayStatusOk_def history_ops Let_def)

text \<open>
  The replay shown as ready is always the one of the selected run: whatever the order in which runs are selected, details
  and replays arrive, requests fail and are tried again, a history with status ready holds a replay whose run is the selected one.
\<close>

theorem ready_replay_is_selected:
  assumes "history_reachable st" and "hy_replayStatus st = LoadReady"
  shows "\<exists>r. hy_replay st = Some r \<and> hy_selectedRunId st = Some (trim (replayRunIdOf r))"
  using reachable_replay [OF assms(1)] assms(2)
  by (auto simp: replayStatusOk_def isReplayOf_def normalizeOptionalString_def trimmedText_def split: option.splits if_splits)

lemma reachable_detail: "history_reachable st \<Longrightarrow> hy_detailStatus st = LoadError \<longleftrightarrow> hy_detailError st \<noteq> None"
  by (induction rule: history_reachable.induct) (auto simp: history_ops Let_def)

lemma reachable_capabilities:
  "history_reachable st \<Longrightarrow> hy_capabilitiesStatus st = Some LoadError \<longleftrightarrow> Option.bind (hy_capabilitiesError st) id \<noteq> None"
  by (induction rule: history_reachable.induct) (auto simp: history_ops Let_def)

text \<open>
  A history never fails silently: the detail and the capabilities carry a message exactly when their status is a failure, and a
  failed replay carries one.
\<close>

theorem history_failures_have_messages:
  assumes "history_reachable st"
  shows "(hy_detailStatus st = LoadError \<longleftrightarrow> hy_detailError st \<noteq> None) \<and>
    (hy_capabilitiesStatus st = Some LoadError \<longleftrightarrow> Option.bind (hy_capabilitiesError st) id \<noteq> None) \<and>
    (hy_replayStatus st = LoadError \<longrightarrow> hy_replayError st \<noteq> None)"
  using reachable_detail [OF assms] reachable_capabilities [OF assms] reachable_replay [OF assms] by (simp add: replayStatusOk_def)

lemma kept_replay:
  assumes "map_of (orElse (hy_replayByRunId st) []) r = Some replay" and "normalizeOptionalString (Some r) = Some r"
    and "hy_selectedRunId st \<noteq> Some r"
  shows "hy_replayStatus (selectAssistantSessionHistoryRun st (Some r)) = LoadReady \<and>
    hy_replay (selectAssistantSessionHistoryRun st (Some r)) = Some replay"
proof -
  have "getAssistantSessionHistoryReplayForRun st (Some r) = Some replay"
    using assms(1,2) by (auto simp: getAssistantSessionHistoryReplayForRun_def cloneAssistantSessionHistoryReplay_def orElse_def
        split: option.splits)
  then show ?thesis using assms by (auto simp: selectAssistantSessionHistoryRun_def Let_def replayFor_def orReplay_def)
qed

text \<open>
  A replay that was loaded is kept: after it arrived, other runs can be selected and their replays loaded, and selecting its run
  again shows it at once, without a request.
\<close>

theorem loaded_replay_stays:
  assumes "trim (replayRunIdOf replay) = replayRunIdOf replay" and "replayRunIdOf replay \<noteq> []"
    and "replayRunIdOf other = r" and "trim r = r" and "r \<noteq> []" and "r \<noteq> replayRunIdOf replay"
  shows "let both = applyAssistantSessionHistoryReplay
             (selectAssistantSessionHistoryRun (applyAssistantSessionHistoryReplay st replay) (Some r)) other;
             back = selectAssistantSessionHistoryRun both (Some (replayRunIdOf replay))
         in hy_replayStatus back = LoadReady \<and> hy_replay back = Some replay"
proof -
  let ?first = "applyAssistantSessionHistoryReplay st replay"
  let ?second = "selectAssistantSessionHistoryRun ?first (Some r)"
  let ?both = "applyAssistantSessionHistoryReplay ?second other"
  have norm: "normalizeOptionalString (Some r) = Some r" "normalizeOptionalString (Some (replayRunIdOf replay)) = Some (replayRunIdOf replay)"
    using assms by (simp_all add: normalizeOptionalString_def trimmedText_def)
  have first: "hy_replayByRunId ?first = Some (AList.update (replayRunIdOf replay) replay (orElse (hy_replayByRunId st) []))"
    by (simp add: applyAssistantSessionHistoryReplay_def Let_def cloneAssistantSessionHistoryReplay_def)
  have second: "hy_replayByRunId ?second = hy_replayByRunId ?first" and selected: "hy_selectedRunId ?second = Some r"
    using norm by (auto simp: selectAssistantSessionHistoryRun_def retryAssistantSessionHistoryReplay_def Let_def)
  have "map_of (orElse (hy_replayByRunId ?both) []) (replayRunIdOf replay) = Some replay"
    and "hy_selectedRunId ?both = Some r"
    using first second selected assms
    by (simp_all add: applyAssistantSessionHistoryReplay_def [of ?second] Let_def orElse_def update_conv' cloneAssistantSessionHistoryReplay_def)
  then show ?thesis using kept_replay [of ?both "replayRunIdOf replay" replay] norm assms(6) by simp
qed

lemma in_available:
  "r \<in> set (availableRunIds runs) \<longleftrightarrow> Some r \<in> set (map (\<lambda>x. normalizeOptionalString (Some (rv_runId x))) runs)"
  by (induction runs) (auto simp: availableRunIds_def map_filter_simps split: option.split)

text \<open>
  The run that is stored for the next start is the selected one, and a run that the detail lists or whose replay is at hand.
\<close>

theorem persisted_run_exists:
  assumes "resolveAssistantSessionHistoryPersistableSelectedRunId st = Some r"
  shows "normalizeOptionalString (hy_selectedRunId st) = Some r \<and> hy_isPersistedThread st = Some True \<and>
    (r \<in> set (availableRunIds (hy_runSummaries st)) \<or> hasAssistantSessionHistoryReplayForRun st (Some r))"
  using assms
  by (auto simp del: set_map simp: resolveAssistantSessionHistoryPersistableSelectedRunId_def Let_def in_available split: if_splits)

section \<open>Witnesses\<close>

definition sampleSummary :: thread_summary where
  "sampleSummary = \<lparr>th_threadId = ''t1'', th_boundAgentId = ''a'', th_title = None, th_titleSource = None, th_summary = None,
     th_summarySource = None, th_createdAt = ''t'', th_updatedAt = ''t'', th_lastActivityAt = None, th_lastRunId = None,
     th_lastRunStatus = None, th_lastUserMessagePreview = None, th_lastAssistantMessagePreview = None, th_driftSummary = None\<rparr>"

definition sampleReplay :: "string \<Rightarrow> run_replay" where
  "sampleReplay r = \<lparr>re_version = ''1'', re_run = \<lparr>rv_runId = r, rv_threadId = ''t1'', rv_status = ''completed'', rv_createdAt = ''t'',
     rv_updatedAt = ''t'', rv_startedAt = None, rv_terminalAt = None, rv_resolvedModelId = None, rv_requestedMessageText = None,
     rv_assistantText = None\<rparr>, re_historicalSnapshot = None, re_orderedEvents = [], re_toolCallBlocks = [], re_diagnosticBlocks = [],
     re_terminalState = None, re_availabilityInterpretation = None\<rparr>"

definition sampleHistory :: history_state where
  "sampleHistory = applyAssistantSessionHistoryReplay
     (createAssistantSessionHistoryState sampleSummary (Some ''r1'') True) (sampleReplay ''r1'')"

lemma sample_reachable: "history_reachable sampleHistory"
  unfolding sampleHistory_def by (intro replay_applied created)

lemma sample_replay: "hy_replayStatus sampleHistory = LoadReady" "hy_replay sampleHistory = Some (sampleReplay ''r1'')"
  by code_simp+

theorem ready_replay_is_selected_witness:
  "hy_selectedRunId sampleHistory = Some (trim (replayRunIdOf (sampleReplay ''r1'')))"
  using ready_replay_is_selected [OF sample_reachable sample_replay(1)] sample_replay(2) by simp

theorem history_failures_have_messages_witness: "hy_detailError sampleHistory = None"
proof -
  have "hy_detailStatus sampleHistory = LoadIdle" by code_simp
  then show ?thesis using history_failures_have_messages [OF sample_reachable] by auto
qed

theorem loaded_replay_stays_witness:
  "hy_replay (selectAssistantSessionHistoryRun (applyAssistantSessionHistoryReplay
     (selectAssistantSessionHistoryRun (applyAssistantSessionHistoryReplay sampleHistory (sampleReplay ''r1'')) (Some ''r2''))
     (sampleReplay ''r2'')) (Some ''r1'')) = Some (sampleReplay ''r1'')"
proof -
  have "replayRunIdOf (sampleReplay s) = s" for s by (simp add: replayRunIdOf_def sampleReplay_def)
  moreover have "trim ''r1'' = ''r1''" "trim ''r2'' = ''r2''" by code_simp+
  ultimately show ?thesis
    using loaded_replay_stays [of "sampleReplay ''r1''" "sampleReplay ''r2''" "''r2''" sampleHistory] by (simp add: Let_def)
qed

definition samplePersisted :: history_state where
  "samplePersisted = applyAssistantSessionHistoryDetail sampleHistory
     \<lparr>de_version = ''1'', de_thread = sampleSummary, de_timelineItems = [], de_runSummaries = [re_run (sampleReplay ''r1'')],
      de_latestConfigurationSnapshot = None, de_availabilityDrift = None\<rparr>"

theorem persisted_run_exists_witness:
  "resolveAssistantSessionHistoryPersistableSelectedRunId samplePersisted = Some ''r1'' \<and> hy_isPersistedThread samplePersisted = Some True"
proof -
  have "resolveAssistantSessionHistoryPersistableSelectedRunId samplePersisted = Some ''r1''" by code_simp
  then show ?thesis using persisted_run_exists [of samplePersisted "''r1''"] by simp
qed

end
