(* ===== verification/History_Replay.thy ===== *)
theory History_Replay
  imports History_State Run_View
begin

text \<open>
  The replay of a persisted run, from \<open>src/features/copilot/persisted-history-view-model.ts\<close>: the events that the backend stored are
  turned into run events again, folded by the reducer of the live run and projected into message items. Stored records are
  untyped; where the code reads one at a contract type without a check (\<open>as\<close>), the value it is read as is a parameter
  (\<open>history_casts\<close>). \<open>Date.now()\<close> is a parameter for each event. No key of a record is \<open>__proto__\<close> or the name of an inherited property.
\<close>

section \<open>Reading stored records\<close>

fun readStringH :: "json option \<Rightarrow> string option" where
  "readStringH (Some (JStr s)) = Some s"
| "readStringH _ = None"

fun readNumberH :: "json option \<Rightarrow> rat option" where
  "readNumberH (Some (JNum n)) = Some n"
| "readNumberH _ = None"

text \<open>\<open>normalizeOptionalString(readString(record.key))\<close>\<close>

definition textAt :: "jrecord \<Rightarrow> string \<Rightarrow> string option" where
  "textAt r k = normalizeOptionalString (readStringH (prop_of r k))"

fun readStringArrayH :: "json option \<Rightarrow> string list" where
  "readStringArrayH (Some (JArr xs)) = List.map_filter (\<lambda>x. normalizeOptionalString (readStringH (Some x))) xs"
| "readStringArrayH _ = []"

fun asRecordH :: "json option \<Rightarrow> jrecord option" where
  "asRecordH (Some (JObj r)) = Some r"
| "asRecordH _ = None"

definition cloneRecordH :: "json option \<Rightarrow> jrecord" where
  "cloneRecordH v = orElse (asRecordH v) []"

text \<open>\<open>record?.key\<close> for a record that may be missing.\<close>

definition propIf :: "jrecord option \<Rightarrow> string \<Rightarrow> json option" where
  "propIf r k = Option.bind r (\<lambda>r. prop_of r k)"

fun arrayItems :: "json option \<Rightarrow> json list option" where
  "arrayItems (Some (JArr xs)) = Some xs"
| "arrayItems _ = None"

section \<open>Untyped values\<close>

record history_casts =
  hc_selection :: "json \<Rightarrow> thinking_selection option"
  hc_capability :: "json \<Rightarrow> thinking_capability option"
  hc_decision :: "json \<Rightarrow> selection_result option"
  hc_basis :: "json \<Rightarrow> suppression_basis option"
  hc_level :: "string \<Rightarrow> thinking_level"

text \<open>\<open>asRecord(value) as T\<close>, and a property that is taken over as it is when it is present.\<close>

definition castRecord :: "(json \<Rightarrow> 'a option) \<Rightarrow> json option \<Rightarrow> 'a option" where
  "castRecord f v = (case asRecordH v of None \<Rightarrow> None | Some r \<Rightarrow> f (JObj r))"

definition castPresent :: "(json \<Rightarrow> 'a option) \<Rightarrow> json option \<Rightarrow> 'a option option" where
  "castPresent f v = map_option f v"

fun levelOf :: "history_casts \<Rightarrow> json \<Rightarrow> thinking_level option" where
  "levelOf casts (JStr s) = Some (hc_level casts s)"
| "levelOf casts _ = None"

fun normalizeThinkingLevel :: "history_casts \<Rightarrow> json option \<Rightarrow> thinking_level option option" where
  "normalizeThinkingLevel casts (Some (JStr s)) = Some (Some (hc_level casts s))"
| "normalizeThinkingLevel casts (Some JNull) = Some None"
| "normalizeThinkingLevel casts _ = None"

definition buildRuntimeRunThinkingMetadataPayload :: "history_casts \<Rightarrow> jrecord \<Rightarrow> thinking_metadata" where
  "buildRuntimeRunThinkingMetadataPayload casts payload =
     \<lparr>tm_requestedThinkingSelection = Some (castRecord (hc_selection casts) (prop_of payload ''requestedThinkingSelection'')),
      tm_appliedThinkingSelection = Some (castRecord (hc_selection casts) (prop_of payload ''appliedThinkingSelection'')),
      tm_thinkingCapabilitySnapshot = Some (castRecord (hc_capability casts) (prop_of payload ''thinkingCapabilitySnapshot'')),
      tm_thinkingSeriesDecision = Some (castRecord (hc_decision casts) (prop_of payload ''thinkingSeriesDecision'')),
      tm_reasoningSuppressionBasis = Some (castRecord (hc_basis casts) (prop_of payload ''reasoningSuppressionBasis'')),
      tm_requestedThinkingLevel = normalizeThinkingLevel casts (prop_of payload ''requestedThinkingLevel''),
      tm_appliedThinkingLevel = normalizeThinkingLevel casts (prop_of payload ''appliedThinkingLevel'')\<rparr>"

text \<open>The payload of \<open>run_started\<close> is spread, so that its metadata are taken over as they are.\<close>

definition spreadMetadata :: "history_casts \<Rightarrow> jrecord \<Rightarrow> thinking_metadata" where
  "spreadMetadata casts payload =
     \<lparr>tm_requestedThinkingSelection = castPresent (hc_selection casts) (prop_of payload ''requestedThinkingSelection''),
      tm_appliedThinkingSelection = castPresent (hc_selection casts) (prop_of payload ''appliedThinkingSelection''),
      tm_thinkingCapabilitySnapshot = castPresent (hc_capability casts) (prop_of payload ''thinkingCapabilitySnapshot''),
      tm_thinkingSeriesDecision = castPresent (hc_decision casts) (prop_of payload ''thinkingSeriesDecision''),
      tm_reasoningSuppressionBasis = castPresent (hc_basis casts) (prop_of payload ''reasoningSuppressionBasis''),
      tm_requestedThinkingLevel = castPresent (levelOf casts) (prop_of payload ''requestedThinkingLevel''),
      tm_appliedThinkingLevel = castPresent (levelOf casts) (prop_of payload ''appliedThinkingLevel'')\<rparr>"

section \<open>Forms\<close>

definition parsePersistedFieldOption :: "json \<Rightarrow> field_option option" where
  "parsePersistedFieldOption option =
     (case (normalizeOptionalString (readStringH (propIf (asRecordH (Some option)) ''value'')),
            normalizeOptionalString (readStringH (propIf (asRecordH (Some option)) ''label''))) of
        (Some v, Some l) \<Rightarrow> Some \<lparr>fo_value = v, fo_label = l\<rparr>
      | _ \<Rightarrow> None)"

definition parsePersistedInlineFormField :: "json \<Rightarrow> form_field option" where
  "parsePersistedInlineFormField field =
     (case asRecordH (Some field) of
        None \<Rightarrow> None
      | Some r \<Rightarrow>
          (case (textAt r ''name'', textAt r ''label'', Option.bind (textAt r ''type'') parseFieldType) of
             (Some name, Some label, Some type) \<Rightarrow>
               Some \<lparr>ff_name = name, ff_label = label, ff_type = type, ff_description = textAt r ''description'',
                     ff_placeholder = textAt r ''placeholder'',
                     ff_required = (case prop_of r ''required'' of Some (JBool b) \<Rightarrow> Some b | _ \<Rightarrow> None),
                     ff_options = map_option (List.map_filter parsePersistedFieldOption) (arrayItems (prop_of r ''options''))\<rparr>
           | _ \<Rightarrow> None))"

definition parsePersistedInlineFormRequest :: "json option \<Rightarrow> form_request option" where
  "parsePersistedInlineFormRequest v =
     (case asRecordH v of
        None \<Rightarrow> None
      | Some r \<Rightarrow>
          (let flds = List.map_filter parsePersistedInlineFormField (orElse (arrayItems (prop_of r ''fields'')) []) in
           case (textAt r ''formId'', textAt r ''title'') of
             (Some formId, Some title) \<Rightarrow>
               if flds = [] then None
               else Some \<lparr>fr_formId = formId, fr_title = title, fr_description = textAt r ''description'',
                          fr_submitLabel = textAt r ''submitLabel'', fr_fields = flds\<rparr>
           | _ \<Rightarrow> None))"

section \<open>Routes\<close>

definition readResolvedRouteRef :: "jrecord option \<Rightarrow> model_route_ref option" where
  "readResolvedRouteRef r =
     (let ref = asRecordH (propIf r ''routeRef'') in
      if readStringH (propIf ref ''routeKind'') \<noteq> Some ''provider-model'' then None
      else (case (normalizeOptionalString (readStringH (propIf ref ''profileId'')),
                  normalizeOptionalString (readStringH (propIf ref ''modelId''))) of
          (Some profileId, Some modelId) \<Rightarrow> Some \<lparr>rr_routeKind = ProviderModel, rr_profileId = profileId, rr_modelId = modelId\<rparr>
        | _ \<Rightarrow> None))"

text \<open>The fields that must not be blank, in the order of the code, and the base URL, which may.\<close>

definition buildRuntimeResolvedRouteFromRecord :: "jrecord option \<Rightarrow> model_route_ref \<Rightarrow> resolved_route option" where
  "buildRuntimeResolvedRouteFromRecord r ref =
     (let field = (\<lambda>k. normalizeOptionalString (readStringH (propIf r k))) in
      case (field ''providerProfileId'', field ''provider'', field ''providerId'', field ''adapterId'', field ''runtimeStatus'',
            field ''catalogRevision'', field ''endpointFamily'', field ''endpointType'', readStringH (propIf r ''baseUrl''),
            field ''modelId'', field ''authKind'') of
        (Some profileId, Some provider, Some providerId, Some adapterId, Some runtimeStatus, Some catalogRevision,
         Some endpointFamily, Some endpointType, Some baseUrl, Some modelId, Some authKind) \<Rightarrow>
          Some \<lparr>rs_routeRef = ref, rs_providerProfileId = profileId, rs_provider = provider, rs_providerId = providerId,
                rs_adapterId = adapterId, rs_runtimeStatus = runtimeStatus, rs_catalogRevision = catalogRevision,
                rs_endpointFamily = endpointFamily, rs_endpointType = endpointType, rs_baseUrl = baseUrl, rs_modelId = modelId,
                rs_authKind = authKind\<rparr>
      | _ \<Rightarrow> None)"

definition asRuntimeResolvedRoute :: "json option \<Rightarrow> resolved_route option" where
  "asRuntimeResolvedRoute v =
     (case readResolvedRouteRef (asRecordH v) of
        None \<Rightarrow> None
      | Some ref \<Rightarrow> buildRuntimeResolvedRouteFromRecord (asRecordH v) ref)"

definition buildFallbackRuntimeResolvedModelRoute :: "string \<Rightarrow> resolved_route" where
  "buildFallbackRuntimeResolvedModelRoute modelId =
     \<lparr>rs_routeRef = \<lparr>rr_routeKind = ProviderModel, rr_profileId = ''history-profile'', rr_modelId = modelId\<rparr>,
      rs_providerProfileId = ''history-profile'', rs_provider = ''history-provider'', rs_providerId = ''history-provider'',
      rs_adapterId = ''history-adapter'', rs_runtimeStatus = ''historical'', rs_catalogRevision = ''history'',
      rs_endpointFamily = ''history'', rs_endpointType = ''history'', rs_baseUrl = [], rs_modelId = modelId,
      rs_authKind = ''unknown''\<rparr>"

section \<open>From stored events to run events\<close>

definition toolCallTitle :: string where
  "toolCallTitle = [CHR 0xE5, CHR 0xB7, CHR 0xA5, CHR 0xE5, CHR 0x85, CHR 0xB7, CHR 0xE8, CHR 0xB0, CHR 0x83, CHR 0xE7, CHR 0x94, CHR 0xA8]"

definition historyDiagnosticText :: string where
  "historyDiagnosticText = [CHR 0xE5, CHR 0x8E, CHR 0x86, CHR 0xE5, CHR 0x8F, CHR 0xB2, CHR 0xE8, CHR 0xBF, CHR 0x90, CHR 0xE8, CHR 0xA1, CHR 0x8C, CHR 0xE8, CHR 0xAF, CHR 0x8A, CHR 0xE6, CHR 0x96, CHR 0xAD]"

definition historyFailedText :: string where
  "historyFailedText = [CHR 0xE5, CHR 0xBD, CHR 0x93, CHR 0xE5, CHR 0x89, CHR 0x8D, CHR 0xE5, CHR 0x93, CHR 0x8D, CHR 0xE5, CHR 0xBA, CHR 0x94, CHR 0xE5, CHR 0xA4, CHR 0xB1, CHR 0xE8, CHR 0xB4, CHR 0xA5, CHR 0xEF, CHR 0xBC, CHR 0x8C, CHR 0xE8, CHR 0xAF, CHR 0xB7, CHR 0xE9, CHR 0x87, CHR 0x8D, CHR 0xE8, CHR 0xAF, CHR 0x95, CHR 0xE3, CHR 0x80, CHR 0x82]"

definition buildReplayAssistantMessageId :: "string \<Rightarrow> string" where
  "buildReplayAssistantMessageId runId = ''history:'' @ runId @ '':assistant''"

text \<open>\<open>MapReplayEventInput\<close>\<close>

record replay_input =
  ri_runId :: string
  ri_threadId :: string
  ri_event :: history_event
  ri_payload :: jrecord
  ri_assistantMessageId :: string

definition replayEvent :: "replay_input \<Rightarrow> run_payload \<Rightarrow> run_event" where
  "replayEvent i payload =
     \<lparr>ev_runId = ri_runId i, ev_sessionId = ri_threadId i, ev_sequence = he_sequence (ri_event i), ev_payload = payload\<rparr>"

definition mapReplayRunStartedEvent :: "history_casts \<Rightarrow> replay_input \<Rightarrow> run_event" where
  "mapReplayRunStartedEvent casts i = replayEvent i (RunStarted (ri_assistantMessageId i) (spreadMetadata casts (ri_payload i)))"

definition mapReplayRunMetadataEvent :: "history_casts \<Rightarrow> replay_input \<Rightarrow> run_event" where
  "mapReplayRunMetadataEvent casts i = replayEvent i (RunMetadata (buildRuntimeRunThinkingMetadataPayload casts (ri_payload i)))"

definition mapReplayTextDeltaEvent :: "replay_input \<Rightarrow> run_event option" where
  "mapReplayTextDeltaEvent i =
     (case textAt (ri_payload i) ''delta'' of
        None \<Rightarrow> None
      | Some delta \<Rightarrow> Some (replayEvent i (TextDelta (ri_assistantMessageId i) delta)))"

definition mapReplayReasoningDeltaEvent :: "replay_input \<Rightarrow> run_event option" where
  "mapReplayReasoningDeltaEvent i =
     (case textAt (ri_payload i) ''delta'' of
        None \<Rightarrow> None
      | Some delta \<Rightarrow> Some (replayEvent i (ReasoningDelta delta)))"

definition readReplayToolEventSummary :: "jrecord \<Rightarrow> string \<Rightarrow> string" where
  "readReplayToolEventSummary payload fallback =
     orElse (textAt payload ''summary'') (orElse (textAt payload ''resultSummary'') (orElse (textAt payload ''errorSummary'') fallback))"

text \<open>Only three of the five phases are replayed.\<close>

definition replayedPhase :: "string option \<Rightarrow> tool_phase option" where
  "replayedPhase phase =
     (if phase = Some ''started'' then Some PhStarted
      else if phase = Some ''completed'' then Some PhCompleted
      else if phase = Some ''failed'' then Some PhFailed else None)"

definition mapReplayToolEvent :: "replay_input \<Rightarrow> run_event option" where
  "mapReplayToolEvent i =
     (let payload = ri_payload i; event = ri_event i; title = orElse (textAt payload ''title'') toolCallTitle in
      case replayedPhase (firstOf (textAt payload ''phase'') (normalizeOptionalString (he_phase event))) of
        None \<Rightarrow> None
      | Some phase \<Rightarrow>
          Some (replayEvent i (ToolEvent
            \<lparr>te_toolCallId = orElse (firstOf (textAt payload ''toolCallId'') (normalizeOptionalString (he_toolCallId event)))
               (''history-tool-call-'' @ intString (he_sequence event)),
             te_toolId = orElse (firstOf (textAt payload ''toolId'') (normalizeOptionalString (he_toolId event))) ''unknown-tool'',
             te_phase = phase, te_title = title, te_summary = readReplayToolEventSummary payload title,
             te_inputSummary = textAt payload ''inputSummary'', te_resultSummary = textAt payload ''resultSummary'',
             te_errorSummary = textAt payload ''errorSummary'', te_security = None, te_approval = None,
             te_formRequest = parsePersistedInlineFormRequest (prop_of payload ''formRequest'')\<rparr>)))"

definition mapReplayRunDiagnosticEvent :: "replay_input \<Rightarrow> run_event" where
  "mapReplayRunDiagnosticEvent i =
     replayEvent i (RunDiagnostic
       \<lparr>dg_code = orElse (textAt (ri_payload i) ''code'') ''history_diagnostic'',
        dg_message = orElse (textAt (ri_payload i) ''message'') historyDiagnosticText,
        dg_stage = orElse (textAt (ri_payload i) ''stage'') ''history'',
        dg_details = cloneRecordH (prop_of (ri_payload i) ''details'')\<rparr>)"

definition resolveReplayAssistantText :: "jrecord \<Rightarrow> jrecord option \<Rightarrow> string" where
  "resolveReplayAssistantText payload historicalRecord =
     orElse (textAt payload ''assistantText'') (orElse (textAt payload ''delta'') (orElse (textAt payload ''text'')
       (orElse (textAt payload ''message'')
         (orElse (normalizeOptionalString (readStringH (propIf historicalRecord ''assistantText''))) []))))"

definition mapReplayRunCompletedEvent :: "jrecord option \<Rightarrow> replay_input \<Rightarrow> run_event" where
  "mapReplayRunCompletedEvent historicalRecord i =
     (let payload = ri_payload i;
          modelId = orElse (firstOf (textAt payload ''resolvedModelId'')
            (normalizeOptionalString (readStringH (propIf historicalRecord ''resolvedModelId'')))) ''history-model'';
          toolIds = readStringArrayH (prop_of payload ''resolvedToolIds'')
      in replayEvent i (RunCompleted
        \<lparr>co_assistantMessageId = ri_assistantMessageId i,
         co_assistantText = resolveReplayAssistantText payload historicalRecord,
         co_resolvedModelId = modelId,
         co_resolvedModelRoute = orElse (firstOf (asRuntimeResolvedRoute (prop_of payload ''resolvedModelRoute''))
           (asRuntimeResolvedRoute (propIf historicalRecord ''resolvedModelRoute''))) (buildFallbackRuntimeResolvedModelRoute modelId),
         co_resolvedToolIds = (if toolIds \<noteq> [] then toolIds else readStringArrayH (propIf historicalRecord ''resolvedToolIds'')),
         co_requestOptions = cloneRecordH (nullishOr (prop_of payload ''requestOptions'') (propIf historicalRecord ''requestOptions''))\<rparr>))"

definition mapReplayRunFailedEvent :: "replay_input \<Rightarrow> run_event" where
  "mapReplayRunFailedEvent i =
     replayEvent i (RunFailed
       \<lparr>fa_code = orElse (textAt (ri_payload i) ''code'') ''history_failed'',
        fa_message = orElse (textAt (ri_payload i) ''message'') historyFailedText,
        fa_details = cloneRecordH (prop_of (ri_payload i) ''details'')\<rparr>)"

definition mapReplayRunCancelledEvent :: "replay_input \<Rightarrow> run_event" where
  "mapReplayRunCancelledEvent i =
     replayEvent i (RunCancelled (ri_assistantMessageId i) (orElse (textAt (ri_payload i) ''reason'') ''cancelled''))"

definition mapPersistedRunEventToRuntimeRunEvent ::
  "history_casts \<Rightarrow> string \<Rightarrow> string \<Rightarrow> jrecord option \<Rightarrow> history_event \<Rightarrow> run_event option" where
  "mapPersistedRunEventToRuntimeRunEvent casts runId threadId historicalSnapshot event =
     (let payload = he_payload event;
          i = \<lparr>ri_runId = runId, ri_threadId = threadId, ri_event = event, ri_payload = payload,
               ri_assistantMessageId = orElse (textAt payload ''assistantMessageId'') (buildReplayAssistantMessageId runId)\<rparr>;
          type = he_eventType event
      in if type = ''run_started'' then Some (mapReplayRunStartedEvent casts i)
         else if type = ''run_metadata'' then Some (mapReplayRunMetadataEvent casts i)
         else if type = ''text_delta'' then mapReplayTextDeltaEvent i
         else if type = ''reasoning_delta'' then mapReplayReasoningDeltaEvent i
         else if type = ''tool_event'' then mapReplayToolEvent i
         else if type = ''run_diagnostic'' then Some (mapReplayRunDiagnosticEvent i)
         else if type = ''run_completed'' then Some (mapReplayRunCompletedEvent historicalSnapshot i)
         else if type = ''run_failed'' then Some (mapReplayRunFailedEvent i)
         else if type = ''run_cancelled'' then Some (mapReplayRunCancelledEvent i)
         else None)"

section \<open>The replayed conversation\<close>

definition replayStep :: "history_casts \<Rightarrow> run_replay \<Rightarrow> int \<times> history_event \<Rightarrow> run_state \<Rightarrow> run_state" where
  "replayStep casts replay = (\<lambda>(now, event) st.
     case mapPersistedRunEventToRuntimeRunEvent casts (rv_runId (re_run replay)) (rv_threadId (re_run replay))
            (re_historicalSnapshot replay) event of
       None \<Rightarrow> st
     | Some e \<Rightarrow> applyRuntimeRunEventToCopilotRunState now st e)"

text \<open>\<open>clock\<close> is what \<open>Date.now()\<close> gives while the event with this index is applied.\<close>

definition replayState :: "history_casts \<Rightarrow> (nat \<Rightarrow> int) \<Rightarrow> run_replay \<Rightarrow> run_state" where
  "replayState casts clock replay =
     fold (replayStep casts replay) (map (\<lambda>(i, e). (clock i, e)) (List.enumerate 0 (re_orderedEvents replay))) createIdleCopilotRunState"

definition requestedMessageOf :: "run_replay \<Rightarrow> string option" where
  "requestedMessageOf replay =
     firstOf (normalizeOptionalString (rv_requestedMessageText (re_run replay)))
       (normalizeOptionalString (readStringH (propIf (asRecordH (propIf (re_historicalSnapshot replay) ''requestMessage'')) ''content'')))"
end
