(* ===== verification/History_View.thy ===== *)
theory History_View
  imports History_Replay
begin

text \<open>
  The conversation of a persisted thread, the rest of \<open>src/features/copilot/persisted-history-view-model.ts\<close>: the items of the timeline
  that the backend projected, the replay of a run and the summaries, the choice between them, and the forms that a later message
  submitted. \<open>Date.parse\<close>, \<open>Date.now()\<close> and the text of a number are parameters.
\<close>

section \<open>Items\<close>

text \<open>\<open>PersistedRunContext\<close>: a route is kept as it was stored.\<close>

record run_context =
  rk_resolvedModelId :: "string option"
  rk_resolvedModelRoute :: "jrecord option"
  rk_resolvedToolIds :: "string list"
  rk_requestOptions :: jrecord
  rk_requestedThinkingSelection :: "thinking_selection option"
  rk_appliedThinkingSelection :: "thinking_selection option"
  rk_thinkingCapabilitySnapshot :: "thinking_capability option"
  rk_reasoningSuppressionBasis :: "suppression_basis option"
  rk_historicalSnapshot :: "jrecord option"
  rk_availabilityInterpretation :: "jrecord option"
  rk_availabilityDrift :: "jrecord option"

text \<open>The body of an item of the timeline; assistant and terminal items carry the context of their run.\<close>

datatype stored_body =
    StoredAssistant run_context
  | StoredReasoning int int
  | StoredTool tool_item
  | StoredForm form_item
  | StoredDiagnostic diagnostic_summary
  | StoredTerminal ended_phase "string option" "failure_summary option" run_context

record stored_item =
  si_id :: string
  si_runId :: string
  si_sequence :: rat
  si_status :: item_status
  si_title :: string
  si_content :: string
  si_body :: stored_body

text \<open>What a replayed assistant or terminal item carries in addition.\<close>

record replay_context =
  rx_historicalSnapshot :: jrecord
  rx_availabilityInterpretation :: jrecord
  rx_availabilityDrift :: "jrecord option"

datatype history_item =
    HistoryUser user_item
  | ReplayItem view_item "replay_context option"
  | StoredItem stored_item

datatype conversation_source = SourceNone | SourceSummary | SourceTimeline | SourceReplay

record build_result =
  br_conversation :: "history_item list"
  br_source :: conversation_source

record history_env =
  hv_casts :: history_casts
  hv_numText :: "rat \<Rightarrow> string"
  hv_dateParse :: "string \<Rightarrow> int option"
  hv_now :: int
  hv_clock :: "nat \<Rightarrow> int"

definition assistantResponseText :: string where
  "assistantResponseText = [CHR 0xE5, CHR 0x8A, CHR 0xA9, CHR 0xE6, CHR 0x89, CHR 0x8B, CHR 0xE5, CHR 0x93, CHR 0x8D, CHR 0xE5, CHR 0xBA, CHR 0x94]"

definition historyUser :: "string \<Rightarrow> string \<Rightarrow> history_item" where
  "historyUser itemId content =
     HistoryUser \<lparr>ui_id = itemId, ui_title = [], ui_content = content, ui_structuredPayload = None, ui_status = ItemCompleted\<rparr>"

section \<open>The context of a run\<close>

definition createFallbackRunContext :: run_context where
  "createFallbackRunContext =
     \<lparr>rk_resolvedModelId = None, rk_resolvedModelRoute = None, rk_resolvedToolIds = [], rk_requestOptions = [],
      rk_requestedThinkingSelection = None, rk_appliedThinkingSelection = None, rk_thinkingCapabilitySnapshot = None,
      rk_reasoningSuppressionBasis = None, rk_historicalSnapshot = None, rk_availabilityInterpretation = None,
      rk_availabilityDrift = None\<rparr>"

definition summaryContext :: "history_state \<Rightarrow> run_summary \<Rightarrow> run_context" where
  "summaryContext history s =
     createFallbackRunContext
       \<lparr>rk_resolvedModelId := normalizeOptionalString (rv_resolvedModelId s), rk_availabilityDrift := hy_availabilityDrift history\<rparr>"

definition replayContext :: "history_casts \<Rightarrow> history_state \<Rightarrow> run_replay \<Rightarrow> run_context" where
  "replayContext casts history replay =
     (let snapshot = orElse (re_historicalSnapshot replay) [];
          selection = (\<lambda>k. cloneRuntimeThinkingSelection (castRecord (hc_selection casts) (prop_of snapshot k)))
      in \<lparr>rk_resolvedModelId = firstOf (normalizeOptionalString (rv_resolvedModelId (re_run replay)))
            (firstOf (textAt snapshot ''resolvedModelId'') (textAt snapshot ''selectedModelId'')),
          rk_resolvedModelRoute = firstOf (asRecordH (prop_of snapshot ''resolvedModelRoute''))
            (asRecordH (prop_of snapshot ''selectedModelRoute'')),
          rk_resolvedToolIds = readStringArrayH (nullishOr (prop_of snapshot ''resolvedToolIds'') (prop_of snapshot ''enabledToolIds'')),
          rk_requestOptions = cloneRecordH (prop_of snapshot ''requestOptions''),
          rk_requestedThinkingSelection = selection ''requestedThinkingSelection'',
          rk_appliedThinkingSelection = selection ''appliedThinkingSelection'',
          rk_thinkingCapabilitySnapshot =
            cloneRuntimeThinkingCapability (castRecord (hc_capability casts) (prop_of snapshot ''thinkingCapabilitySnapshot'')),
          rk_reasoningSuppressionBasis =
            cloneRuntimeReasoningSuppressionBasis (castRecord (hc_basis casts) (prop_of snapshot ''reasoningSuppressionBasis'')),
          rk_historicalSnapshot = Some snapshot,
          rk_availabilityInterpretation = Some (orElse (re_availabilityInterpretation replay) []),
          rk_availabilityDrift = hy_availabilityDrift history\<rparr>)"

definition buildPersistedRunContextMap :: "history_casts \<Rightarrow> history_state \<Rightarrow> (string \<times> run_context) list" where
  "buildPersistedRunContextMap casts history =
     (let summaries = fold (\<lambda>s. AList.update (rv_runId s) (summaryContext history s)) (hy_runSummaries history) [] in
      case hy_replay history of
        None \<Rightarrow> summaries
      | Some replay \<Rightarrow> AList.update (rv_runId (re_run replay)) (replayContext casts history replay) summaries)"

text \<open>An item holds copies of its context, with an empty record for a missing one.\<close>

definition itemContext :: "run_context \<Rightarrow> run_context" where
  "itemContext c =
     c\<lparr>rk_requestedThinkingSelection := cloneRuntimeThinkingSelection (rk_requestedThinkingSelection c),
       rk_appliedThinkingSelection := cloneRuntimeThinkingSelection (rk_appliedThinkingSelection c),
       rk_thinkingCapabilitySnapshot := cloneRuntimeThinkingCapability (rk_thinkingCapabilitySnapshot c),
       rk_reasoningSuppressionBasis := cloneRuntimeReasoningSuppressionBasis (rk_reasoningSuppressionBasis c),
       rk_historicalSnapshot := Some (orElse (rk_historicalSnapshot c) []),
       rk_availabilityInterpretation := Some (orElse (rk_availabilityInterpretation c) []),
       rk_availabilityDrift := Some (orElse (rk_availabilityDrift c) [])\<rparr>"

definition contextFor :: "(string \<times> run_context) list \<Rightarrow> string \<Rightarrow> run_context" where
  "contextFor contexts runId = orElse (map_of contexts runId) createFallbackRunContext"

section \<open>The timeline\<close>

definition sequenceAt :: "jrecord \<Rightarrow> nat \<Rightarrow> rat" where
  "sequenceAt item index = orElse (readNumberH (prop_of item ''sequenceStart'')) (of_nat index)"

definition runIdAt :: "jrecord \<Rightarrow> nat \<Rightarrow> string" where
  "runIdAt item index = orElse (textAt item ''runId'') (''history-run-'' @ intString (int index))"

definition buildHistoryItemId :: "(rat \<Rightarrow> string) \<Rightarrow> string \<Rightarrow> jrecord \<Rightarrow> nat \<Rightarrow> string" where
  "buildHistoryItemId numText pre item index =
     ''history:'' @ pre @ '':'' @ orElse (textAt item ''runId'') ''history-run'' @ '':'' @ numText (sequenceAt item index)"

definition storedItem :: "history_env \<Rightarrow> string \<Rightarrow> jrecord \<Rightarrow> nat \<Rightarrow> item_status \<Rightarrow> string \<Rightarrow> string \<Rightarrow> stored_body \<Rightarrow> history_item" where
  "storedItem env pre item index status title content body =
     StoredItem \<lparr>si_id = buildHistoryItemId (hv_numText env) pre item index, si_runId = runIdAt item index,
       si_sequence = sequenceAt item index, si_status = status, si_title = title, si_content = content, si_body = body\<rparr>"

definition cloneOptionalRecordProperty :: "jrecord \<Rightarrow> string \<Rightarrow> jrecord option option" where
  "cloneOptionalRecordProperty r k =
     (case prop_of r k of None \<Rightarrow> None | Some JNull \<Rightarrow> Some None | Some (JObj r') \<Rightarrow> Some (Some r') | Some _ \<Rightarrow> None)"

definition mapUserMessageItem :: "history_env \<Rightarrow> jrecord \<Rightarrow> nat \<Rightarrow> history_item list" where
  "mapUserMessageItem env item index =
     (case textAt item ''text'' of
        None \<Rightarrow> []
      | Some content \<Rightarrow>
          [HistoryUser \<lparr>ui_id = buildHistoryItemId (hv_numText env) ''user'' item index, ui_title = [], ui_content = content,
             ui_structuredPayload = cloneOptionalRecordProperty item ''structuredPayload'', ui_status = ItemCompleted\<rparr>])"

definition mapAssistantMessageItem :: "history_env \<Rightarrow> (string \<times> run_context) list \<Rightarrow> jrecord \<Rightarrow> nat \<Rightarrow> history_item list" where
  "mapAssistantMessageItem env contexts item index =
     (case textAt item ''text'' of
        None \<Rightarrow> []
      | Some content \<Rightarrow>
          (let c = contextFor contexts (runIdAt item index) in
           [storedItem env ''assistant'' item index ItemCompleted (orElse (rk_resolvedModelId c) assistantResponseText) content
              (StoredAssistant (itemContext c))]))"

definition resolveTimestamp :: "(string \<Rightarrow> int option) \<Rightarrow> json option \<Rightarrow> int option" where
  "resolveTimestamp dateParse v = Option.bind (normalizeOptionalString (readStringH v)) dateParse"

definition mapReasoningMessageItem :: "history_env \<Rightarrow> jrecord \<Rightarrow> nat \<Rightarrow> history_item list" where
  "mapReasoningMessageItem env item index =
     (case textAt item ''text'' of
        None \<Rightarrow> []
      | Some content \<Rightarrow>
          (let started = orElse (resolveTimestamp (hv_dateParse env) (prop_of item ''createdAt'')) (hv_now env);
               ended = orElse (resolveTimestamp (hv_dateParse env) (prop_of item ''endedAt'')) started
           in [storedItem env ''reasoning'' item index ItemCompleted [CHR 0xE6, CHR 0x80, CHR 0x9D, CHR 0xE8, CHR 0x80, CHR 0x83] content (StoredReasoning started ended)]))"

definition findInlineFormRequestInToolBlock :: "jrecord \<Rightarrow> form_request option" where
  "findInlineFormRequestInToolBlock item =
     (case parsePersistedInlineFormRequest (prop_of item ''formRequest'') of
        Some f \<Rightarrow> Some f
      | None \<Rightarrow>
          (case List.map_filter (\<lambda>phase. parsePersistedInlineFormRequest (propIf (asRecordH (Some phase)) ''formRequest''))
                  (orElse (arrayItems (prop_of item ''phases'')) []) of
             [] \<Rightarrow> None
           | f # _ \<Rightarrow> Some f))"

definition callIdAt :: "jrecord \<Rightarrow> nat \<Rightarrow> string" where
  "callIdAt item index = orElse (textAt item ''toolCallId'') (''history-tool-call-'' @ intString (int index))"

definition buildInlineFormMessageItem :: "history_env \<Rightarrow> jrecord \<Rightarrow> nat \<Rightarrow> string \<Rightarrow> form_request \<Rightarrow> history_item" where
  "buildInlineFormMessageItem env item index toolId req =
     storedItem env ''inline-form'' item index ItemCompleted (fr_title req)
       (orElse (firstOf (normalizeOptionalString (firstOf (readStringH (prop_of item ''summary''))
            (firstOf (readStringH (prop_of item ''resultSummary'')) (readStringH (prop_of item ''errorSummary'')))))
          (fr_description req)) (fr_title req))
       (StoredForm \<lparr>iy_toolCallId = callIdAt item index, iy_toolId = toolId, iy_formId = fr_formId req,
          iy_description = fr_description req, iy_submitLabel = orElse (fr_submitLabel req) defaultSubmitLabel,
          iy_fields = fr_fields req, iy_formState = FormPending,
          iy_formValues = map (\<lambda>(k, v). (k, draftAsValue v)) (createDefaultInlineFormValues (fr_fields req)),
          iy_submittedPayload = None\<rparr>)"

definition resolveToolMessageStatus :: "jrecord list \<Rightarrow> item_status" where
  "resolveToolMessageStatus phases =
     (let names = List.map_filter (\<lambda>p. textAt p ''phase'') phases in
      if ''failed'' \<in> set names then ItemFailed else if ''completed'' \<in> set names then ItemCompleted else ItemStreaming)"

definition buildToolMessageItemFromTimeline :: "history_env \<Rightarrow> jrecord \<Rightarrow> nat \<Rightarrow> string \<Rightarrow> history_item" where
  "buildToolMessageItemFromTimeline env item index toolId =
     (let phases = map (\<lambda>p. cloneRecordH (Some p)) (orElse (arrayItems (prop_of item ''phases'')) []);
          status = resolveToolMessageStatus phases;
          title = orElse (textAt item ''title'') toolCallTitle;
          resultSummary = textAt item ''resultSummary''; errorSummary = textAt item ''errorSummary'';
          content = orElse (firstOf (textAt item ''summary'')
            (if status = ItemFailed then firstOf errorSummary resultSummary else firstOf resultSummary errorSummary)) title
      in storedItem env ''tool'' item index status title content
           (StoredTool \<lparr>ix_toolCallId = callIdAt item index, ix_toolId = toolId,
              ix_toolPhase = (if status = ItemFailed then PhFailed else if status = ItemStreaming then PhStarted else PhCompleted),
              ix_inputSummary = textAt item ''inputSummary'', ix_resultSummary = resultSummary, ix_errorSummary = errorSummary,
              ix_approval = None, ix_errorDetail = None\<rparr>))"

definition mapToolMessageItem :: "history_env \<Rightarrow> jrecord \<Rightarrow> nat \<Rightarrow> history_item list" where
  "mapToolMessageItem env item index =
     (let toolId = orElse (textAt item ''toolId'') ''unknown-tool'' in
      case (if toolId = CONTROLLED_INLINE_FORM_TOOL_ID then findInlineFormRequestInToolBlock item else None) of
        Some req \<Rightarrow> [buildInlineFormMessageItem env item index toolId req]
      | None \<Rightarrow> [buildToolMessageItemFromTimeline env item index toolId])"

definition mapDiagnosticMessageItem :: "history_env \<Rightarrow> jrecord \<Rightarrow> nat \<Rightarrow> history_item list" where
  "mapDiagnosticMessageItem env item index =
     (case textAt item ''message'' of
        None \<Rightarrow> []
      | Some message \<Rightarrow>
          [storedItem env ''diagnostic'' item index ItemCompleted [CHR 0xE8, CHR 0xBF, CHR 0x90, CHR 0xE8, CHR 0xA1, CHR 0x8C, CHR 0xE8, CHR 0xAF, CHR 0x8A, CHR 0xE6, CHR 0x96, CHR 0xAD] message
             (StoredDiagnostic \<lparr>dg_code = orElse (textAt item ''code'') ''unknown_diagnostic'', dg_message = message,
                dg_stage = orElse (textAt item ''stage'') ''history'', dg_details = cloneRecordH (prop_of item ''details'')\<rparr>)])"

definition buildTerminalFailureSummary :: "jrecord \<Rightarrow> failure_summary option" where
  "buildTerminalFailureSummary item =
     (let code = textAt item ''failureCode''; message = textAt item ''failureMessage'' in
      if code = None \<and> message = None then None
      else Some \<lparr>fa_code = orElse code ''history_terminal_failed'', fa_message = orElse message historyFailedText,
                 fa_details = cloneRecordH (prop_of item ''payload'')\<rparr>)"

definition mapTerminalMessageItem :: "history_env \<Rightarrow> (string \<times> run_context) list \<Rightarrow> jrecord \<Rightarrow> nat \<Rightarrow> history_item list" where
  "mapTerminalMessageItem env contexts item index =
     (let status = textAt item ''status''; cancelled = (status = Some ''cancelled'') in
      if status \<noteq> Some ''failed'' \<and> \<not> cancelled then []
      else if status = Some ''failed'' \<and> textAt item ''failureCode'' = Some INLINE_FORM_AWAITING_INPUT_CODE then []
      else [storedItem env ''terminal'' item index (if cancelled then ItemCancelled else ItemFailed)
              (if cancelled then [CHR 0xE5, CHR 0xB7, CHR 0xB2, CHR 0xE5, CHR 0x8F, CHR 0x96, CHR 0xE6, CHR 0xB6, CHR 0x88] else [CHR 0xE5, CHR 0x8F, CHR 0x91, CHR 0xE9, CHR 0x80, CHR 0x81, CHR 0xE5, CHR 0xA4, CHR 0xB1, CHR 0xE8, CHR 0xB4, CHR 0xA5])
              (if cancelled then orElse (textAt item ''cancelReason'') [CHR 0xE5, CHR 0xBD, CHR 0x93, CHR 0xE5, CHR 0x89, CHR 0x8D, CHR 0xE5, CHR 0x93, CHR 0x8D, CHR 0xE5, CHR 0xBA, CHR 0x94, CHR 0xE5, CHR 0xB7, CHR 0xB2, CHR 0xE5, CHR 0x8F, CHR 0x96, CHR 0xE6, CHR 0xB6, CHR 0x88, CHR 0xE3, CHR 0x80, CHR 0x82]
               else orElse (textAt item ''failureMessage'') historyFailedText)
              (StoredTerminal (if cancelled then EndedCancelled else EndedFailed) (textAt item ''cancelReason'')
                 (buildTerminalFailureSummary item) (itemContext (contextFor contexts (runIdAt item index))))])"

definition mapTimelineItem :: "history_env \<Rightarrow> (string \<times> run_context) list \<Rightarrow> jrecord \<Rightarrow> nat \<Rightarrow> history_item list" where
  "mapTimelineItem env contexts item index =
     (let kind = readStringH (prop_of item ''kind'') in
      if kind = Some ''user_message'' then mapUserMessageItem env item index
      else if kind = Some ''assistant_message'' then mapAssistantMessageItem env contexts item index
      else if kind = Some ''reasoning_block'' then mapReasoningMessageItem env item index
      else if kind = Some ''tool_call_block'' then mapToolMessageItem env item index
      else if kind = Some ''diagnostic_block'' then mapDiagnosticMessageItem env item index
      else if kind = Some ''terminal_block'' then mapTerminalMessageItem env contexts item index
      else [])"

definition buildPersistedConversationFromTimeline ::
  "history_env \<Rightarrow> (string \<times> run_context) list \<Rightarrow> jrecord list \<Rightarrow> history_item list" where
  "buildPersistedConversationFromTimeline env contexts items =
     concat (map (\<lambda>(i, item). mapTimelineItem env contexts item i) (List.enumerate 0 items))"

definition filterTimelineItemsForSelectedRun :: "jrecord list \<Rightarrow> string option \<Rightarrow> jrecord list" where
  "filterTimelineItemsForSelectedRun items selectedRunId =
     (case selectedRunId of
        None \<Rightarrow> items
      | Some r \<Rightarrow> filter (\<lambda>item. textAt item ''runId'' = None \<or> textAt item ''runId'' = Some r) items)"

section \<open>Summaries\<close>

definition resolvePersistedConversationRunSummary ::
  "run_summary list \<Rightarrow> string option \<Rightarrow> string option \<Rightarrow> run_summary option" where
  "resolvePersistedConversationRunSummary summaries selectedRunId fallbackRunId =
     (let find' = (\<lambda>c. case normalizeOptionalString c of
            None \<Rightarrow> None
          | Some r \<Rightarrow> find (\<lambda>s. normalizeOptionalString (Some (rv_runId s)) = Some r) summaries)
      in firstOf (find' selectedRunId) (firstOf (find' (normalizeOptionalString fallbackRunId))
           (if summaries = [] then None else Some (last summaries))))"

definition summaryAssistant :: "string \<Rightarrow> string \<Rightarrow> nat \<Rightarrow> run_context \<Rightarrow> string \<Rightarrow> history_item" where
  "summaryAssistant itemId runId sequence c content =
     StoredItem \<lparr>si_id = itemId, si_runId = runId, si_sequence = of_nat sequence, si_status = ItemCompleted,
       si_title = orElse (rk_resolvedModelId c) assistantResponseText, si_content = content, si_body = StoredAssistant (itemContext c)\<rparr>"

definition buildPersistedConversationFromThreadSummaryPreview ::
  "history_state \<Rightarrow> string option \<Rightarrow> (string \<times> run_context) list \<Rightarrow> history_item list" where
  "buildPersistedConversationFromThreadSummaryPreview history selectedRunId contexts =
     (let runId = orElse (firstOf selectedRunId (normalizeOptionalString (th_lastRunId (hy_summary history)))) ''history-summary-preview'';
          user = (case normalizeOptionalString (th_lastUserMessagePreview (hy_summary history)) of
              None \<Rightarrow> [] | Some t \<Rightarrow> [historyUser (''history:preview:user:'' @ runId) t])
      in user @ (case normalizeOptionalString (th_lastAssistantMessagePreview (hy_summary history)) of
              None \<Rightarrow> []
            | Some t \<Rightarrow> [summaryAssistant (''history:preview:assistant:'' @ runId) runId (length user) (contextFor contexts runId) t]))"

definition buildPersistedConversationFromRunSummary ::
  "history_state \<Rightarrow> string option \<Rightarrow> (string \<times> run_context) list \<Rightarrow> history_item list" where
  "buildPersistedConversationFromRunSummary history selectedRunId contexts =
     (case resolvePersistedConversationRunSummary (hy_runSummaries history) selectedRunId (th_lastRunId (hy_summary history)) of
        None \<Rightarrow> buildPersistedConversationFromThreadSummaryPreview history selectedRunId contexts
      | Some s \<Rightarrow>
          (let runId = orElse (firstOf (normalizeOptionalString (Some (rv_runId s)))
                 (firstOf selectedRunId (normalizeOptionalString (th_lastRunId (hy_summary history))))) ''history-summary-run'';
               c = contextFor contexts runId;
               user = (case normalizeOptionalString (rv_requestedMessageText s) of
                   None \<Rightarrow> [] | Some t \<Rightarrow> [historyUser (''history:summary:user:'' @ runId) t]);
               items = user @ (case normalizeOptionalString (rv_assistantText s) of
                   None \<Rightarrow> []
                 | Some t \<Rightarrow> [summaryAssistant (''history:summary:assistant:'' @ runId) runId (length user)
                     (c\<lparr>rk_resolvedModelId := firstOf (rk_resolvedModelId c) (normalizeOptionalString (rv_resolvedModelId s))\<rparr>) t])
           in if items \<noteq> [] then items
              else buildPersistedConversationFromThreadSummaryPreview history selectedRunId contexts))"

section \<open>The replay\<close>

definition resolvePersistedConversationReplay :: "history_state \<Rightarrow> string \<Rightarrow> run_replay option" where
  "resolvePersistedConversationReplay history runId =
     (case Option.bind (hy_replayByRunId history) (\<lambda>m. map_of m runId) of
        Some replay \<Rightarrow> Some replay
      | None \<Rightarrow>
          (case hy_replay history of
             Some replay \<Rightarrow> if rv_runId (re_run replay) = runId then Some replay else None
           | None \<Rightarrow> None))"

definition replayItem :: "history_state \<Rightarrow> run_replay \<Rightarrow> view_item \<Rightarrow> history_item" where
  "replayItem history replay item =
     (let context = \<lparr>rx_historicalSnapshot = orElse (re_historicalSnapshot replay) [],
            rx_availabilityInterpretation = orElse (re_availabilityInterpretation replay) [],
            rx_availabilityDrift = hy_availabilityDrift history\<rparr>
      in case it_body item of
           AssistantItem _ \<Rightarrow> ReplayItem item (Some context)
         | TerminalItem _ \<Rightarrow> ReplayItem item (Some context)
         | _ \<Rightarrow> ReplayItem item None)"

definition buildPersistedConversationFromReplay :: "history_env \<Rightarrow> history_state \<Rightarrow> string \<Rightarrow> history_item list" where
  "buildPersistedConversationFromReplay env history selectedRunId =
     (case resolvePersistedConversationReplay history selectedRunId of
        None \<Rightarrow> []
      | Some replay \<Rightarrow>
          (let items = map (replayItem history replay)
                 (buildCopilotRunSegmentViewModel (replayState (hv_casts env) (hv_clock env) replay))
           in case requestedMessageOf replay of
                None \<Rightarrow> items
              | Some t \<Rightarrow> historyUser (''history:user:'' @ selectedRunId) t # items))"

section \<open>Submitted forms\<close>

record form_submission =
  fs_toolCallId :: string
  fs_formId :: string
  fs_values :: "(string \<times> form_value) list"
  fs_raw :: jrecord

fun submittedValue :: "json \<Rightarrow> form_value option" where
  "submittedValue (JStr s) = Some (ValText s)"
| "submittedValue (JNum n) = Some (ValNum n)"
| "submittedValue (JBool b) = Some (ValBool b)"
| "submittedValue _ = None"

definition parseInlineFormSubmissionPayload :: "jrecord option \<Rightarrow> form_submission option" where
  "parseInlineFormSubmissionPayload payload =
     (case payload of
        None \<Rightarrow> None
      | Some r \<Rightarrow>
          if readStringH (prop_of r ''type'') \<noteq> Some ''inline_form_submission'' then None
          else (case (textAt r ''toolCallId'', textAt r ''formId'', asRecordH (prop_of r ''values'')) of
              (Some callId, Some formId, Some vals) \<Rightarrow>
                Some \<lparr>fs_toolCallId = callId, fs_formId = formId,
                      fs_values = List.map_filter (\<lambda>(k, v). map_option (Pair k) (submittedValue v)) vals, fs_raw = r\<rparr>
            | _ \<Rightarrow> None))"

fun submissionOf :: "history_item \<Rightarrow> form_submission option" where
  "submissionOf (HistoryUser u) = parseInlineFormSubmissionPayload (Option.bind (ui_structuredPayload u) id)"
| "submissionOf _ = None"

definition formOf :: "history_item \<Rightarrow> form_item option" where
  "formOf item =
     (case item of
        HistoryUser _ \<Rightarrow> None
      | ReplayItem i _ \<Rightarrow> (case it_body i of FormItem f \<Rightarrow> Some f | _ \<Rightarrow> None)
      | StoredItem i \<Rightarrow> (case si_body i of StoredForm f \<Rightarrow> Some f | _ \<Rightarrow> None))"

definition withForm :: "form_item \<Rightarrow> history_item \<Rightarrow> history_item" where
  "withForm f item =
     (case item of
        HistoryUser u \<Rightarrow> HistoryUser u
      | ReplayItem i c \<Rightarrow> ReplayItem (i\<lparr>it_body := FormItem f\<rparr>) c
      | StoredItem i \<Rightarrow> StoredItem (i\<lparr>si_body := StoredForm f\<rparr>))"

definition submits :: "form_submission \<Rightarrow> history_item \<Rightarrow> bool" where
  "submits s item \<longleftrightarrow>
     (case formOf item of
        None \<Rightarrow> False
      | Some f \<Rightarrow> iy_toolCallId f = fs_toolCallId s \<and> iy_formId f = fs_formId s)"

definition submitForm :: "form_submission \<Rightarrow> history_item \<Rightarrow> history_item" where
  "submitForm s item =
     (case formOf item of
        None \<Rightarrow> item
      | Some f \<Rightarrow> withForm (f\<lparr>iy_formState := FormSubmitted, iy_formValues := fs_values s, iy_submittedPayload := Some (fs_raw s)\<rparr>) item)"

text \<open>The items before the submission are visited from the last to the first; the loop stops at the first match.\<close>

fun submitNearest :: "form_submission \<Rightarrow> history_item list \<Rightarrow> history_item list" where
  "submitNearest s [] = []"
| "submitNearest s (c # cs) = (if submits s c then submitForm s c # cs else c # submitNearest s cs)"

text \<open>The items already passed are held in reverse order.\<close>

fun reconcileFrom :: "history_item list \<Rightarrow> history_item list \<Rightarrow> history_item list" where
  "reconcileFrom prev [] = rev prev"
| "reconcileFrom prev (i # is) =
     reconcileFrom (i # (case submissionOf i of None \<Rightarrow> prev | Some s \<Rightarrow> submitNearest s prev)) is"

definition reconcileInlineFormSubmissionState :: "history_item list \<Rightarrow> history_item list" where
  "reconcileInlineFormSubmissionState conversation = reconcileFrom [] conversation"

section \<open>The conversation\<close>

definition isFormItem :: "history_item \<Rightarrow> bool" where
  "isFormItem item \<longleftrightarrow> formOf item \<noteq> None"

definition isReasoningHistoryItem :: "history_item \<Rightarrow> bool" where
  "isReasoningHistoryItem item \<longleftrightarrow>
     (case item of
        HistoryUser _ \<Rightarrow> False
      | ReplayItem i _ \<Rightarrow> (case it_body i of ReasoningItem _ \<Rightarrow> True | _ \<Rightarrow> False)
      | StoredItem i \<Rightarrow> (case si_body i of StoredReasoning _ _ \<Rightarrow> True | _ \<Rightarrow> False))"

fun isUserHistoryItem :: "history_item \<Rightarrow> bool" where
  "isUserHistoryItem (HistoryUser _) = True" | "isUserHistoryItem _ = False"

definition shouldPreferTimelineConversation :: "history_item list \<Rightarrow> history_item list \<Rightarrow> bool" where
  "shouldPreferTimelineConversation timeline replay =
     (if timeline = [] \<or> replay = [] then False
      else if list_ex isFormItem timeline \<and> \<not> list_ex isFormItem replay then True
      else list_ex isReasoningHistoryItem timeline \<and> \<not> list_ex isReasoningHistoryItem replay)"

definition resolvePersistedConversationFallbackResult :: "history_item list \<Rightarrow> history_item list \<Rightarrow> build_result" where
  "resolvePersistedConversationFallbackResult timeline summary =
     (if timeline \<noteq> [] then \<lparr>br_conversation = timeline, br_source = SourceTimeline\<rparr>
      else if summary \<noteq> [] then \<lparr>br_conversation = summary, br_source = SourceSummary\<rparr>
      else \<lparr>br_conversation = [], br_source = SourceNone\<rparr>)"

text \<open>The option \<open>runId\<close>: absent, or present with a value that may be missing.\<close>

definition buildPersistedConversationFromHistory ::
  "history_env \<Rightarrow> history_state option \<Rightarrow> string option option \<Rightarrow> build_result" where
  "buildPersistedConversationFromHistory env history' runIdOption =
     (case history' of
        None \<Rightarrow> \<lparr>br_conversation = [], br_source = SourceNone\<rparr>
      | Some history \<Rightarrow>
          if hy_hasLoadedDetail history \<noteq> Some True \<and> hy_detailStatus history \<noteq> LoadReady
          then \<lparr>br_conversation = [], br_source = SourceNone\<rparr>
          else
            (let targetRunId = normalizeOptionalString (case runIdOption of Some r \<Rightarrow> r | None \<Rightarrow> hy_selectedRunId history);
                 contexts = buildPersistedRunContextMap (hv_casts env) history;
                 timeline = reconcileInlineFormSubmissionState (buildPersistedConversationFromTimeline env contexts
                   (filterTimelineItemsForSelectedRun (hy_timelineItems history) targetRunId));
                 summary = buildPersistedConversationFromRunSummary history targetRunId contexts
             in case targetRunId of
                  None \<Rightarrow> resolvePersistedConversationFallbackResult timeline summary
                | Some r \<Rightarrow>
                    (let replay = reconcileInlineFormSubmissionState (buildPersistedConversationFromReplay env history r) in
                     if shouldPreferTimelineConversation timeline replay
                     then \<lparr>br_conversation = timeline, br_source = SourceTimeline\<rparr>
                     else if list_ex (\<lambda>i. \<not> isUserHistoryItem i) replay then \<lparr>br_conversation = replay, br_source = SourceReplay\<rparr>
                     else resolvePersistedConversationFallbackResult timeline summary)))"

record form_rebuildability =
  fx_hasInlineForm :: bool
  fx_hasPendingInlineForm :: bool

definition getPersistedInlineFormRebuildability ::
  "history_env \<Rightarrow> history_state option \<Rightarrow> string option option \<Rightarrow> form_rebuildability" where
  "getPersistedInlineFormRebuildability env history runIdOption =
     (let forms = List.map_filter formOf (br_conversation (buildPersistedConversationFromHistory env history runIdOption)) in
      \<lparr>fx_hasInlineForm = (forms \<noteq> []), fx_hasPendingInlineForm = list_ex (\<lambda>f. iy_formState f = FormPending) forms\<rparr>)"


section \<open>What the loop over submissions computes\<close>

text \<open>
  The reading of one item: a later message submits the form when it names it and no form between them has the same names, which
  is what \<open>blocked\<close> says.
\<close>

fun settled :: "history_item \<Rightarrow> (form_submission \<Rightarrow> bool) \<Rightarrow> history_item list \<Rightarrow> history_item" where
  "settled c blocked [] = c"
| "settled c blocked (i # is) =
     settled (case submissionOf i of Some s \<Rightarrow> if submits s c \<and> \<not> blocked s then submitForm s c else c | None \<Rightarrow> c)
       (\<lambda>s. blocked s \<or> submits s i) is"

fun settledEach :: "history_item list \<Rightarrow> history_item list" where
  "settledEach [] = []"
| "settledEach (c # cs) = settled c (\<lambda>_. False) cs # settledEach cs"

fun settledPrev :: "(form_submission \<Rightarrow> bool) \<Rightarrow> history_item list \<Rightarrow> history_item list \<Rightarrow> history_item list" where
  "settledPrev blocked [] is = []"
| "settledPrev blocked (c # cs) is = settled c blocked is # settledPrev (\<lambda>s. blocked s \<or> submits s c) cs is"

lemma formOf_withForm: "formOf item \<noteq> None \<Longrightarrow> formOf (withForm f item) = Some f"
  by (auto simp: formOf_def withForm_def split: history_item.split item_body.splits stored_body.splits)

lemma formOf_submitForm:
  "formOf (submitForm s item) = map_option (\<lambda>f. f\<lparr>iy_formState := FormSubmitted, iy_formValues := fs_values s,
     iy_submittedPayload := Some (fs_raw s)\<rparr>) (formOf item)"
  by (cases "formOf item") (simp_all add: submitForm_def formOf_withForm)

lemma submits_submitForm [simp]: "submits t (submitForm s item) = submits t item"
  by (cases "formOf item") (simp_all add: submits_def formOf_submitForm)

lemma settledPrev_done [simp]: "settledPrev blocked cs [] = cs"
  by (induction blocked cs "[] :: history_item list" rule: settledPrev.induct) simp_all

lemma settledPrev_skip:
  "submissionOf i = None \<Longrightarrow> settledPrev blocked cs (i # is) = settledPrev (\<lambda>s. blocked s \<or> submits s i) cs is"
proof (induction cs arbitrary: blocked)
  case (Cons c cs)
  have "(\<lambda>s. (blocked s \<or> submits s c) \<or> submits s i) = (\<lambda>s. (blocked s \<or> submits s i) \<or> submits s c)" by auto
  then show ?case using Cons by simp
qed simp

lemma settledPrev_blocked:
  "submissionOf i = Some s \<Longrightarrow> blocked s \<Longrightarrow> settledPrev blocked cs (i # is) = settledPrev (\<lambda>s. blocked s \<or> submits s i) cs is"
proof (induction cs arbitrary: blocked)
  case (Cons c cs)
  have "(\<lambda>s. (blocked s \<or> submits s c) \<or> submits s i) = (\<lambda>s. (blocked s \<or> submits s i) \<or> submits s c)" by auto
  then show ?case using Cons by simp
qed simp

lemma settledPrev_submit:
  "submissionOf i = Some s \<Longrightarrow> \<not> blocked s \<Longrightarrow>
   settledPrev blocked cs (i # is) = settledPrev (\<lambda>s. blocked s \<or> submits s i) (submitNearest s cs) is"
proof (induction cs arbitrary: blocked)
  case (Cons c cs)
  have swap: "(\<lambda>s. blocked s \<or> submits s c \<or> submits s i) = (\<lambda>s. blocked s \<or> submits s i \<or> submits s c)" by auto
  show ?case
  proof (cases "submits s c")
    case True
    then show ?thesis using Cons.prems settledPrev_blocked [OF Cons.prems(1), of "\<lambda>s. blocked s \<or> submits s c"] by (simp add: swap)
  next
    case False
    then show ?thesis using Cons.prems Cons.IH [of "\<lambda>s. blocked s \<or> submits s c"] by (simp add: swap)
  qed
qed simp

lemma reconcileFrom_settled: "reconcileFrom prev cs = rev (settledPrev (\<lambda>_. False) prev cs) @ settledEach cs"
proof (induction cs arbitrary: prev)
  case (Cons i cs)
  show ?case
  proof (cases "submissionOf i")
    case None
    then show ?thesis using Cons settledPrev_skip [OF None, of "\<lambda>_. False" prev cs] by simp
  next
    case (Some s)
    then show ?thesis using Cons settledPrev_submit [OF Some, of "\<lambda>_. False" prev cs] by simp
  qed
qed simp

lemma reconcile_settled: "reconcileInlineFormSubmissionState cs = settledEach cs"
  by (simp add: reconcileInlineFormSubmissionState_def reconcileFrom_settled)

section \<open>Submitted forms\<close>

lemma settled_other: "formOf c = None \<Longrightarrow> settled c blocked is = c"
  by (induction "is" arbitrary: blocked) (auto simp: submits_def split: option.split)

lemma settled_formOf: "(formOf (settled c blocked is) = None) = (formOf c = None)"
  by (induction "is" arbitrary: c blocked) (auto simp: formOf_submitForm split: option.split)

definition stateOf :: "history_item \<Rightarrow> form_state option" where
  "stateOf item = map_option iy_formState (formOf item)"

text \<open>The call and the identifier of a form, which a submission names.\<close>

definition formKey :: "history_item \<Rightarrow> (string \<times> string) option" where
  "formKey item = map_option (\<lambda>f. (iy_toolCallId f, iy_formId f)) (formOf item)"

lemma submits_key: "submits s c \<longleftrightarrow> formKey c = Some (fs_toolCallId s, fs_formId s)"
  by (auto simp: submits_def formKey_def split: option.split)

lemma formKey_submitForm [simp]: "formKey (submitForm s c) = formKey c"
  by (cases "formOf c") (simp_all add: formKey_def formOf_submitForm)

lemma submit_again: "submitForm t (submitForm s c) = submitForm t c"
  by (cases c) (auto simp: submitForm_def formOf_def withForm_def split: item_body.splits stored_body.splits)

lemma settledEach_nth: "n < length cs \<Longrightarrow> settledEach cs ! n = settled (cs ! n) (\<lambda>_. False) (drop (Suc n) cs)"
  by (induction cs arbitrary: n) (auto simp: nth_Cons split: nat.split)

lemma settledEach_length [simp]: "length (settledEach cs) = length cs"
  by (induction cs) simp_all

text \<open>
  The answers to a form among the later items: the submissions with its call and its identifier, up to the next form that has both
  as well, which takes the answers after it.
\<close>

definition answersTo :: "history_item \<Rightarrow> history_item list \<Rightarrow> form_submission list" where
  "answersTo c later = filter (\<lambda>s. submits s c) (List.map_filter submissionOf (takeWhile (\<lambda>d. formKey d \<noteq> formKey c) later))"

lemma settled_blocked: "(\<And>s. submits s c \<Longrightarrow> blocked s) \<Longrightarrow> settled c blocked is = c"
proof (induction "is" arbitrary: blocked)
  case (Cons i "is")
  have "(case submissionOf i of Some s \<Rightarrow> if submits s c \<and> \<not> blocked s then submitForm s c else c | None \<Rightarrow> c) = c"
    using Cons.prems by (auto split: option.split)
  moreover have "settled c (\<lambda>s. blocked s \<or> submits s i) is = c" by (rule Cons.IH) (simp add: Cons.prems)
  ultimately show ?case by simp
qed simp

lemma form_no_submission: "formKey i \<noteq> None \<Longrightarrow> submissionOf i = None"
  by (cases i) (simp_all add: formKey_def formOf_def)

lemma settled_answers:
  assumes "formKey c \<noteq> None" and "\<And>s. submits s c \<Longrightarrow> \<not> blocked s"
  shows "settled c blocked is = foldl (\<lambda>c s. submitForm s c) c (answersTo c is)"
  using assms
proof (induction "is" arbitrary: c blocked)
  case (Cons i "is")
  show ?case
  proof (cases "formKey i = formKey c")
    case True
    then have "submissionOf i = None" using Cons.prems(1) by (intro form_no_submission) simp
    moreover have "settled c (\<lambda>s. blocked s \<or> submits s i) is = c" by (rule settled_blocked) (simp add: submits_key True)
    ultimately show ?thesis using True by (simp add: answersTo_def)
  next
    case False
    let ?c = "case submissionOf i of Some s \<Rightarrow> if submits s c \<and> \<not> blocked s then submitForm s c else c | None \<Rightarrow> c"
    have key: "formKey ?c = formKey c" by (simp split: option.split)
    have "settled ?c (\<lambda>s. blocked s \<or> submits s i) is = foldl (\<lambda>c s. submitForm s c) ?c (answersTo ?c is)"
    proof (rule Cons.IH)
      show "formKey ?c \<noteq> None" using Cons.prems(1) key by simp
      show "\<not> (blocked s \<or> submits s i)" if "submits s ?c" for s
      proof -
        have "formKey c = Some (fs_toolCallId s, fs_formId s)" using that key submits_key by metis
        then show ?thesis using False Cons.prems(2) [of s] by (auto simp: submits_key)
      qed
    qed
    moreover have "answersTo ?c is = answersTo c is" by (simp add: answersTo_def submits_key key)
    ultimately show ?thesis
      using False Cons.prems(2) by (cases "submissionOf i") (auto simp: answersTo_def)
  qed
qed (simp add: answersTo_def)

lemma fold_submissions: "foldl (\<lambda>c s. submitForm s c) c ss = (if ss = [] then c else submitForm (last ss) c)"
  by (induction ss rule: rev_induct) (auto simp: submit_again)

text \<open>
  C28: reconciling a conversation submits exactly the answered forms. Every item that is no form stays as it is, and so does a form
  without an answer. A form with answers (whatever its state was) is submitted with the last of them: it has the values and the
  payload of that answer and is unchanged otherwise. The answers to a form are the later submissions with its call and its identifier,
  up to the next form that has the same two.
\<close>

theorem answered_forms_submitted:
  assumes "n < length cs"
  shows "length (reconcileInlineFormSubmissionState cs) = length cs \<and>
    (let answers = answersTo (cs ! n) (drop (Suc n) cs) in
       reconcileInlineFormSubmissionState cs ! n = (if answers = [] then cs ! n else submitForm (last answers) (cs ! n)) \<and>
       (formOf (cs ! n) = None \<longrightarrow> reconcileInlineFormSubmissionState cs ! n = cs ! n) \<and>
       (\<forall>f. formOf (cs ! n) = Some f \<and> answers \<noteq> [] \<longrightarrow>
          formOf (reconcileInlineFormSubmissionState cs ! n) =
            Some (f\<lparr>iy_formState := FormSubmitted, iy_formValues := fs_values (last answers),
              iy_submittedPayload := Some (fs_raw (last answers))\<rparr>)))"
proof -
  let ?answers = "answersTo (cs ! n) (drop (Suc n) cs)"
  have item: "reconcileInlineFormSubmissionState cs ! n = settled (cs ! n) (\<lambda>_. False) (drop (Suc n) cs)"
    by (simp add: reconcile_settled settledEach_nth [OF assms])
  have "settled (cs ! n) (\<lambda>_. False) (drop (Suc n) cs) = (if ?answers = [] then cs ! n else submitForm (last ?answers) (cs ! n))"
  proof (cases "formOf (cs ! n)")
    case None
    then have "?answers = []" by (simp add: answersTo_def submits_def)
    then show ?thesis using settled_other [OF None] by simp
  next
    case (Some f)
    then show ?thesis using settled_answers [of "cs ! n" "\<lambda>_. False"] fold_submissions by (simp add: formKey_def)
  qed
  then show ?thesis
    unfolding item Let_def by (simp add: reconcile_settled formOf_submitForm) (simp add: submitForm_def)
qed


section \<open>Which conversation is shown\<close>

lemma settledEach_Nil [simp]: "settledEach cs = [] \<longleftrightarrow> cs = []"
  by (cases cs) simp_all

lemma fallback_source:
  "br_source (resolvePersistedConversationFallbackResult timeline summary) =
     (if timeline \<noteq> [] then SourceTimeline else if summary \<noteq> [] then SourceSummary else SourceNone)"
  "br_conversation (resolvePersistedConversationFallbackResult timeline summary) = (if timeline \<noteq> [] then timeline else summary)"
  by (simp_all add: resolvePersistedConversationFallbackResult_def)

lemma preferred_source: "shouldPreferTimelineConversation timeline replay \<Longrightarrow> timeline \<noteq> []"
  by (auto simp: shouldPreferTimelineConversation_def split: if_splits)

lemma replay_source: "list_ex p cs \<Longrightarrow> cs \<noteq> []"
  by auto

text \<open>
  The source of a conversation tells what it is: none exactly for an empty conversation, and a replay only when it shows more than
  messages of the user; a thread with items in its timeline never falls back to a summary.
\<close>

theorem conversation_source:
  "br_source (buildPersistedConversationFromHistory env history option) \<in>
     (if br_conversation (buildPersistedConversationFromHistory env history option) = [] then {SourceNone}
      else if list_ex (\<lambda>i. \<not> isUserHistoryItem i) (br_conversation (buildPersistedConversationFromHistory env history option))
      then {SourceSummary, SourceTimeline, SourceReplay}
      else {SourceSummary, SourceTimeline})"
proof (cases history)
  case (Some h)
  show ?thesis
  proof (cases "hy_hasLoadedDetail h \<noteq> Some True \<and> hy_detailStatus h \<noteq> LoadReady")
    case False
    let ?target = "normalizeOptionalString (case option of Some r \<Rightarrow> r | None \<Rightarrow> hy_selectedRunId h)"
    show ?thesis using Some False
      by (cases ?target) (auto simp: buildPersistedConversationFromHistory_def Let_def fallback_source preferred_source replay_source)
  qed (use Some in \<open>simp add: buildPersistedConversationFromHistory_def\<close>)
qed (simp add: buildPersistedConversationFromHistory_def)



section \<open>Witnesses\<close>

definition sampleForm :: history_item where
  "sampleForm = StoredItem \<lparr>si_id = ''i1'', si_runId = ''r1'', si_sequence = 1, si_status = ItemCompleted, si_title = ''f'', si_content = ''f'',
     si_body = StoredForm \<lparr>iy_toolCallId = ''c1'', iy_toolId = CONTROLLED_INLINE_FORM_TOOL_ID, iy_formId = ''f1'', iy_description = None,
       iy_submitLabel = ''ok'', iy_fields = [], iy_formState = FormPending, iy_formValues = [], iy_submittedPayload = None\<rparr>\<rparr>"

definition sampleAnswer :: history_item where
  "sampleAnswer = HistoryUser \<lparr>ui_id = ''i2'', ui_title = [], ui_content = ''done'', ui_structuredPayload =
     Some (Some [(''type'', JStr ''inline_form_submission''), (''toolCallId'', JStr ''c1''), (''formId'', JStr ''f1''),
       (''values'', JObj [(''x'', JBool True)])]), ui_status = ItemCompleted\<rparr>"

theorem answered_forms_submitted_witness:
  "reconcileInlineFormSubmissionState [sampleForm, sampleAnswer] ! 0 =
     submitForm \<lparr>fs_toolCallId = ''c1'', fs_formId = ''f1'', fs_values = [(''x'', ValBool True)],
       fs_raw = [(''type'', JStr ''inline_form_submission''), (''toolCallId'', JStr ''c1''), (''formId'', JStr ''f1''),
         (''values'', JObj [(''x'', JBool True)])]\<rparr> sampleForm"
proof -
  have "answersTo sampleForm [sampleAnswer] = [\<lparr>fs_toolCallId = ''c1'', fs_formId = ''f1'', fs_values = [(''x'', ValBool True)],
      fs_raw = [(''type'', JStr ''inline_form_submission''), (''toolCallId'', JStr ''c1''), (''formId'', JStr ''f1''),
        (''values'', JObj [(''x'', JBool True)])]\<rparr>]" by code_simp
  then show ?thesis
    using answered_forms_submitted [of 0 "[sampleForm, sampleAnswer]"] by (simp add: Let_def)
qed

end
