(* ===== verification/Attachments.thy ===== *)
theory Attachments
  imports Composer
begin

text \<open>
  The attachments of the composer, \<open>src/features/copilot/attachments/state.ts\<close>. A file of the browser gives its name, type, size, the
  path that the platform finds for it and the object URL that is created for it; the clock gives the time text. Revoking an
  object URL is an effect, so the operations return the URLs that they revoke.
\<close>

section \<open>State\<close>

datatype preview_status = PreviewIdle | PreviewLoading | PreviewReady | PreviewError

record preview_state =
  pv_open :: bool
  pv_attachmentId :: "string option"
  pv_status :: preview_status
  pv_kind :: "attachment_kind option"
  pv_title :: string
  pv_previewUrl :: "string option"
  pv_text :: string
  pv_truncated :: bool
  pv_message :: "string option"

record attachments_state =
  as_items :: "attachment list"
  as_panelOpen :: bool
  as_isDragActive :: bool
  as_dragDepth :: int
  as_notice :: "(int \<times> string) option"
  as_preview :: preview_state

definition createIdleComposerAttachmentPreviewState :: preview_state where
  "createIdleComposerAttachmentPreviewState =
     \<lparr>pv_open = False, pv_attachmentId = None, pv_status = PreviewIdle, pv_kind = None, pv_title = [], pv_previewUrl = None,
      pv_text = [], pv_truncated = False, pv_message = None\<rparr>"

definition createEmptyComposerAttachmentsState :: attachments_state where
  "createEmptyComposerAttachmentsState =
     \<lparr>as_items = [], as_panelOpen = False, as_isDragActive = False, as_dragDepth = 0, as_notice = None,
      as_preview = createIdleComposerAttachmentPreviewState\<rparr>"

section \<open>The kind of a file\<close>

definition IMAGE_EXTENSIONS :: "string list" where
  "IMAGE_EXTENSIONS = [''.png'', ''.jpg'', ''.jpeg'', ''.gif'', ''.bmp'', ''.svg'', ''.webp'', ''.ico'', ''.avif'']"

definition TEXT_EXTENSIONS :: "string list" where
  "TEXT_EXTENSIONS = [''.txt'', ''.md'', ''.mdx'', ''.json'', ''.yml'', ''.yaml'', ''.xml'', ''.csv'', ''.log'', ''.ini'', ''.toml'',
     ''.html'', ''.htm'', ''.css'', ''.js'', ''.jsx'', ''.ts'', ''.tsx'', ''.py'', ''.java'', ''.c'', ''.cc'', ''.cpp'', ''.h'', ''.hpp'',
     ''.go'', ''.rs'', ''.rb'', ''.php'', ''.sql'', ''.sh'', ''.ps1'']"

text \<open>From the last dot on; the empty text when there is none.\<close>

definition resolveExtension :: "string \<Rightarrow> string" where
  "resolveExtension fileName =
     (if CHR ''.'' \<in> set fileName
      then toLowerCase (CHR ''.'' # rev (takeWhile (\<lambda>c. c \<noteq> CHR ''.'') (rev fileName))) else [])"

definition resolveComposerAttachmentKind :: "string option \<Rightarrow> string \<Rightarrow> attachment_kind" where
  "resolveComposerAttachmentKind mimeType name =
     (let mime = toLowerCase (trimmedText mimeType); extension = resolveExtension name in
      if prefix ''image/'' mime then AttachmentImage
      else if prefix ''text/'' mime then AttachmentText
      else if extension \<in> set IMAGE_EXTENSIONS then AttachmentImage
      else if extension \<in> set TEXT_EXTENSIONS then AttachmentText
      else AttachmentOther)"

definition createAttachmentId :: "string \<Rightarrow> string" where
  "createAttachmentId path = path"

section \<open>Attachments from files\<close>

text \<open>The properties \<open>path\<close> and \<open>webkitRelativePath\<close> when they are texts, and what \<open>resolveFilePath\<close> gives.\<close>

record browser_file =
  bf_name :: string
  bf_type :: string
  bf_size :: int
  bf_path :: "string option"
  bf_webkitRelativePath :: "string option"
  bf_resolvedPath :: "string option"
  bf_objectUrl :: "string option"

definition extractFileSystemPath :: "browser_file \<Rightarrow> string option" where
  "extractFileSystemPath f =
     (let path = (if trimmedText (bf_path f) \<noteq> [] then the (bf_path f)
                  else if trimmedText (bf_webkitRelativePath f) \<noteq> [] then the (bf_webkitRelativePath f) else []);
          resolved = orElse (bf_resolvedPath f) []
      in if trim path \<noteq> [] then Some path else if trim resolved = [] then None else Some resolved)"

definition createComposerAttachmentFromFile :: "string \<Rightarrow> browser_file \<Rightarrow> attachment option" where
  "createComposerAttachmentFromFile now f =
     (case extractFileSystemPath f of
        None \<Rightarrow> None
      | Some path \<Rightarrow>
          (let kind = resolveComposerAttachmentKind (Some (bf_type f)) (bf_name f) in
           Some \<lparr>at_id = createAttachmentId path, at_path = path, at_name = bf_name f, at_mimeType = bf_type f, at_size = bf_size f,
                 at_isTemporary = False, at_source = FromFilesystem, at_kind = kind, at_createdAt = now,
                 at_previewUrl = (if kind = AttachmentImage then bf_objectUrl f else None)\<rparr>))"

record temporary_file =
  tf_path :: string
  tf_name :: string
  tf_mimeType :: string
  tf_size :: int
  tf_isTemporary :: bool
  tf_createdAt :: string

definition createComposerAttachmentFromTempFile :: "string \<Rightarrow> string \<Rightarrow> temporary_file \<Rightarrow> attachment" where
  "createComposerAttachmentFromTempFile mimeType base64Data f =
     \<lparr>at_id = createAttachmentId (tf_path f), at_path = tf_path f, at_name = tf_name f, at_mimeType = tf_mimeType f,
      at_size = tf_size f, at_isTemporary = tf_isTemporary f, at_source = FromClipboard, at_kind = AttachmentImage,
      at_createdAt = tf_createdAt f, at_previewUrl = Some (''data:'' @ mimeType @ '';base64,'' @ base64Data)\<rparr>"

section \<open>Merging\<close>

definition revokeComposerAttachmentPreviewUrl :: "attachment \<Rightarrow> string list" where
  "revokeComposerAttachmentPreviewUrl a =
     (case at_previewUrl a of Some url \<Rightarrow> if prefix ''blob:'' url then [url] else [] | None \<Rightarrow> [])"

definition revokeComposerAttachmentPreviewUrls :: "attachment list \<Rightarrow> string list" where
  "revokeComposerAttachmentPreviewUrls as = concat (map revokeComposerAttachmentPreviewUrl as)"

fun mergeFrom :: "string list \<Rightarrow> attachment list \<Rightarrow> attachment list \<times> string list" where
  "mergeFrom seen [] = ([], [])"
| "mergeFrom seen (a # as) =
     (if at_path a \<in> set seen then
        (let r = mergeFrom seen as in (fst r, revokeComposerAttachmentPreviewUrl a @ snd r))
      else (let r = mergeFrom (at_path a # seen) as in (a # fst r, snd r)))"

definition mergeComposerAttachments :: "attachment list \<Rightarrow> attachment list \<Rightarrow> attachment list \<times> string list" where
  "mergeComposerAttachments current incoming =
     (let r = mergeFrom (map at_path current) incoming in (current @ fst r, snd r))"

section \<open>What a merge keeps\<close>

lemma in_map_filter: "u \<in> set (List.map_filter f xs) \<longleftrightarrow> Some u \<in> f ` set xs"
  by (induction xs) (auto simp: map_filter_simps split: option.split)

lemma mergeFrom_paths:
  "set (map at_path (fst (mergeFrom seen as))) = set (map at_path as) - set seen"
  "distinct (map at_path (fst (mergeFrom seen as)))"
  by (induction seen as rule: mergeFrom.induct) (auto simp: Let_def)

lemma mergeFrom_urls:
  assumes "distinct (map at_previewUrl as)" and "a \<in> set (fst (mergeFrom seen as))" and "at_previewUrl a = Some url"
  shows "url \<notin> set (snd (mergeFrom seen as))"
proof -
  have sub: "set (fst (mergeFrom seen as)) \<subseteq> set as" for seen as
    by (induction seen as rule: mergeFrom.induct) (auto simp: Let_def)
  have rev: "u \<in> set (snd (mergeFrom seen as)) \<Longrightarrow> Some u \<in> set (map at_previewUrl as)" for u seen as
    by (induction seen as rule: mergeFrom.induct)
      (auto simp: Let_def revokeComposerAttachmentPreviewUrl_def split: option.splits if_splits)
  show ?thesis using assms
  proof (induction seen as rule: mergeFrom.induct)
    case (2 seen b bs)
    show ?case
    proof (cases "at_path b \<in> set seen")
      case True
      then have "a \<in> set (fst (mergeFrom seen bs))" using 2(4) by (simp add: Let_def)
      then have "at_previewUrl a \<in> set (map at_previewUrl bs)" using sub [of seen bs] by auto
      then have "at_previewUrl a \<noteq> at_previewUrl b" using 2(3) by auto
      then have "url \<notin> set (revokeComposerAttachmentPreviewUrl b)"
        using 2(5) by (auto simp: revokeComposerAttachmentPreviewUrl_def split: option.splits if_splits)
      then show ?thesis using True 2 by (simp add: Let_def)
    next
      case False
      then show ?thesis using 2 rev [of url "at_path b # seen" bs] by (auto simp: Let_def)
    qed
  qed simp
qed

text \<open>
  Merging attachments keeps one attachment for each path: those that were there stay in front and unchanged, every new path
  joins, no path is twice, and the preview of a new attachment that is kept is not revoked.
\<close>

theorem merge_attachments:
  assumes "distinct (map at_path current)" and "distinct (map at_previewUrl incoming)"
  shows "distinct (map at_path (fst (mergeComposerAttachments current incoming))) \<and>
    set (map at_path (fst (mergeComposerAttachments current incoming))) = set (map at_path (current @ incoming)) \<and>
    take (length current) (fst (mergeComposerAttachments current incoming)) = current \<and>
    set (List.map_filter at_previewUrl (drop (length current) (fst (mergeComposerAttachments current incoming)))) \<inter>
      set (snd (mergeComposerAttachments current incoming)) = {}"
proof -
  let ?m = "mergeFrom (map at_path current) incoming"
  have "u \<notin> set (snd ?m)" if "u \<in> set (List.map_filter at_previewUrl (fst ?m))" for u
  proof -
    have "Some u \<in> at_previewUrl ` set (fst ?m)" using that in_map_filter by metis
    then obtain a where "a \<in> set (fst ?m)" and "at_previewUrl a = Some u" by (metis imageE)
    then show ?thesis using mergeFrom_urls assms(2) by blast
  qed
  then have "set (List.map_filter at_previewUrl (fst ?m)) \<inter> set (snd ?m) = {}" by blast
  then show ?thesis using assms mergeFrom_paths [of "map at_path current" incoming]
    by (auto simp: mergeComposerAttachments_def Let_def)
qed

definition sampleAttachment :: "string \<Rightarrow> string \<Rightarrow> attachment" where
  "sampleAttachment path url = \<lparr>at_id = path, at_path = path, at_name = path, at_mimeType = ''image/png'', at_size = 1,
     at_isTemporary = False, at_source = FromFilesystem, at_kind = AttachmentImage, at_createdAt = ''t'', at_previewUrl = Some url\<rparr>"

theorem merge_attachments_witness:
  "map at_path (fst (mergeComposerAttachments [sampleAttachment ''a'' ''blob:1'']
     [sampleAttachment ''a'' ''blob:2'', sampleAttachment ''b'' ''blob:3''])) = [''a'', ''b''] \<and>
   distinct (map at_path (fst (mergeComposerAttachments [sampleAttachment ''a'' ''blob:1'']
     [sampleAttachment ''a'' ''blob:2'', sampleAttachment ''b'' ''blob:3''])))"
proof -
  have "map at_path (fst (mergeComposerAttachments [sampleAttachment ''a'' ''blob:1'']
     [sampleAttachment ''a'' ''blob:2'', sampleAttachment ''b'' ''blob:3''])) = [''a'', ''b'']" by code_simp
  moreover have "distinct (map at_previewUrl [sampleAttachment ''a'' ''blob:2'', sampleAttachment ''b'' ''blob:3''])" by code_simp
  ultimately show ?thesis
    using merge_attachments [of "[sampleAttachment ''a'' ''blob:1'']" "[sampleAttachment ''a'' ''blob:2'', sampleAttachment ''b'' ''blob:3'']"]
    by simp
qed

end
