(* ===== verification/Session_Controllers.thy ===== *)
theory Session_Controllers
  imports Send_Controller History_View Attachments "HOL-Library.Multiset"
begin

text \<open>
  The runtime controllers of the open sessions: \<open>src/features/copilot/thread-runtime-controller.ts\<close> keeps one controller state for each
  session, and \<open>pruneCopilotThreadRuntimeControllers\<close> of \<open>src/workbench/assistant/useAssistantWorkspaceState.ts\<close> evicts the least
  recently used ones. An \<open>AbortController\<close> is an identity; \<open>localeCompare\<close>, which breaks ties, is a parameter.
\<close>

section \<open>The state of a controller\<close>

record controller_state =
  ct_sessionId :: string
  ct_composerDraft :: composer_draft
  ct_composerAttachments :: attachments_state
  ct_conversation :: "list_item list"
  ct_runState :: run_state
  ct_sendError :: "transient_error option"
  ct_thinkingCapability :: "thinking_capability option"
  ct_historyRebindAcknowledged :: bool
  ct_activeAbortController :: "nat option"
  ct_pendingHistorySyncRunId :: "string option"
  ct_lastSettledRunId :: "string option"
  ct_pendingHistorySyncLogKey :: "string option"
  ct_lastAccessedAt :: int

type_synonym controllers = "(string \<times> controller_state) list"

text \<open>The session may be missing, and its capabilities too.\<close>

definition createCopilotThreadRuntimeControllerState ::
  "(string \<times> session_capabilities option) option \<Rightarrow> int \<Rightarrow> controller_state" where
  "createCopilotThreadRuntimeControllerState sessionShell createdAt =
     \<lparr>ct_sessionId = (case sessionShell of None \<Rightarrow> [] | Some (sid, c) \<Rightarrow> sid),
      ct_composerDraft = createComposerDraftFromSession (map_option snd sessionShell),
      ct_composerAttachments = createEmptyComposerAttachmentsState, ct_conversation = [],
      ct_runState = createIdleCopilotRunState, ct_sendError = None, ct_thinkingCapability = None,
      ct_historyRebindAcknowledged = False, ct_activeAbortController = None, ct_pendingHistorySyncRunId = None,
      ct_lastSettledRunId = None, ct_pendingHistorySyncLogKey = None, ct_lastAccessedAt = createdAt\<rparr>"

definition touchCopilotThreadRuntimeControllerState :: "int \<Rightarrow> controller_state \<Rightarrow> controller_state" where
  "touchCopilotThreadRuntimeControllerState touchedAt st =
     (if ct_lastAccessedAt st = touchedAt then st else st\<lparr>ct_lastAccessedAt := touchedAt\<rparr>)"

definition isCopilotThreadRuntimeControllerHandoffPending :: "controller_state \<Rightarrow> bool" where
  "isCopilotThreadRuntimeControllerHandoffPending st \<longleftrightarrow> ct_pendingHistorySyncRunId st \<noteq> None"

definition hasCopilotThreadRuntimeControllerActiveRun :: "controller_state \<Rightarrow> bool" where
  "hasCopilotThreadRuntimeControllerActiveRun st \<longleftrightarrow>
     rn_phase (ct_runState st) = PhaseStarting \<or> rn_phase (ct_runState st) = PhaseStreaming \<or> ct_activeAbortController st \<noteq> None"

definition isCopilotThreadRuntimeControllerLruCandidate :: "controller_state \<Rightarrow> bool" where
  "isCopilotThreadRuntimeControllerLruCandidate st \<longleftrightarrow>
     \<not> hasCopilotThreadRuntimeControllerActiveRun st \<and> \<not> isCopilotThreadRuntimeControllerHandoffPending st \<and>
     (rn_phase (ct_runState st) = PhaseIdle \<or> rn_phase (ct_runState st) = PhaseAwaitingInput \<or>
      rn_phase (ct_runState st) = PhaseCompleted \<or> rn_phase (ct_runState st) = PhaseFailed \<or>
      rn_phase (ct_runState st) = PhaseCancelled)"

section \<open>The record of controllers\<close>

text \<open>\<open>now\<close> is \<open>Date.now()\<close>.\<close>

definition resolveCopilotThreadRuntimeControllerState :: "int \<Rightarrow> controllers \<Rightarrow> string option \<Rightarrow> controller_state" where
  "resolveCopilotThreadRuntimeControllerState now cs sessionId =
     (let sid = trimmedText sessionId in
      if sid = [] then createCopilotThreadRuntimeControllerState None now
      else case map_of cs sid of
        Some st \<Rightarrow> st
      | None \<Rightarrow> createCopilotThreadRuntimeControllerState (Some (sid, None)) now)"

record update_options =
  uo_touch :: "bool option"
  uo_touchedAt :: "int option"
  uo_capabilities :: "session_capabilities option"

text \<open>Whether the record is the same object is not visible in its value.\<close>

definition updateCopilotThreadRuntimeControllerStateRecord ::
  "int \<Rightarrow> controllers \<Rightarrow> string \<Rightarrow> (controller_state \<Rightarrow> controller_state) \<Rightarrow> update_options \<Rightarrow> controllers" where
  "updateCopilotThreadRuntimeControllerStateRecord now cs sessionId updater options =
     (let sid = trim sessionId; time = orElse (uo_touchedAt options) now;
          current = (case map_of cs sid of
              Some st \<Rightarrow> st
            | None \<Rightarrow> createCopilotThreadRuntimeControllerState (Some (sid, uo_capabilities options)) time);
          updated = updater current;
          next' = (if uo_touch options \<noteq> Some False then touchCopilotThreadRuntimeControllerState time updated else updated)
      in if sid = [] then cs
         else if map_of cs sid \<noteq> None \<and> next' = current then cs
         else AList.update sid next' cs)"

definition addMissingController :: "int \<Rightarrow> session_shell \<Rightarrow> controllers \<Rightarrow> controllers" where
  "addMissingController createdAt shell cs =
     (if map_of cs (sh_sessionId shell) \<noteq> None then cs
      else AList.update (sh_sessionId shell)
        (createCopilotThreadRuntimeControllerState (Some (sh_sessionId shell, Some (sh_capabilities shell))) createdAt) cs)"

definition syncCopilotThreadRuntimeControllerStateRecord :: "int \<Rightarrow> controllers \<Rightarrow> session_shell list \<Rightarrow> controllers" where
  "syncCopilotThreadRuntimeControllerStateRecord createdAt cs shells =
     filter (\<lambda>(sid, st). sid \<in> set (map sh_sessionId shells)) (fold (addMissingController createdAt) shells cs)"

section \<open>Eviction\<close>

definition COPILOT_THREAD_RUNTIME_CONTROLLER_LRU_CAPACITY :: nat where
  "COPILOT_THREAD_RUNTIME_CONTROLLER_LRU_CAPACITY = 10"

definition hasPendingInlineForm :: "controller_state \<Rightarrow> bool" where
  "hasPendingInlineForm st \<longleftrightarrow>
     list_ex (\<lambda>s. case sg_body s of InlineForm b \<Rightarrow> fb_formState b = FormPending | _ \<Rightarrow> False) (rn_segments (ct_runState st))"

definition hasRebuildablePersistedConversation :: "history_env \<Rightarrow> history_state option \<Rightarrow> controller_state \<Rightarrow> bool" where
  "hasRebuildablePersistedConversation env history st =
     (case history of
        None \<Rightarrow> False
      | Some h \<Rightarrow>
          if hy_isPersistedThread h \<noteq> Some True \<or> hy_detailStatus h \<noteq> LoadReady then False
          else if rn_phase (ct_runState st) = PhaseAwaitingInput \<and> hasPendingInlineForm st then
            fx_hasPendingInlineForm (getPersistedInlineFormRebuildability env (Some h)
              (Some (case ct_pendingHistorySyncRunId st of Some r \<Rightarrow> Some r | None \<Rightarrow> rn_runId (ct_runState st))))
          else br_conversation (buildPersistedConversationFromHistory env (Some h) None) \<noteq> [])"

definition isAwaitingInputInlineFormLruCandidate :: "history_env \<Rightarrow> controller_state \<Rightarrow> history_state option \<Rightarrow> bool" where
  "isAwaitingInputInlineFormLruCandidate env st history \<longleftrightarrow>
     ct_activeAbortController st = None \<and> rn_phase (ct_runState st) = PhaseAwaitingInput \<and> hasPendingInlineForm st \<and>
     hasRebuildablePersistedConversation env history st"

definition isEvictable ::
  "history_env \<Rightarrow> (string \<times> history_state) list \<Rightarrow> string option \<Rightarrow> string \<times> controller_state \<Rightarrow> bool" where
  "isEvictable env histories activeSessionId entry \<longleftrightarrow>
     Some (fst entry) \<noteq> activeSessionId \<and>
     (isCopilotThreadRuntimeControllerLruCandidate (snd entry) \<and>
        hasRebuildablePersistedConversation env (map_of histories (fst entry)) (snd entry) \<or>
      isAwaitingInputInlineFormLruCandidate env (snd entry) (map_of histories (fst entry)))"

text \<open>The comparator of the sort.\<close>

definition compareAccess :: "(string \<Rightarrow> string \<Rightarrow> int) \<Rightarrow> string \<times> controller_state \<Rightarrow> string \<times> controller_state \<Rightarrow> int" where
  "compareAccess localeCompare l r =
     (if ct_lastAccessedAt (snd l) \<noteq> ct_lastAccessedAt (snd r) then ct_lastAccessedAt (snd l) - ct_lastAccessedAt (snd r)
      else localeCompare (fst l) (fst r))"

definition evictableSessionIds ::
  "(string \<Rightarrow> string \<Rightarrow> int) \<Rightarrow> history_env \<Rightarrow> (string \<times> history_state) list \<Rightarrow> string option \<Rightarrow> controllers \<Rightarrow> string list" where
  "evictableSessionIds localeCompare env histories activeSessionId cs =
     map fst (sortedBy (compareAccess localeCompare) (filter (isEvictable env histories activeSessionId) cs))"

text \<open>The controllers that are left, and the sessions that were evicted.\<close>

definition pruneCopilotThreadRuntimeControllers ::
  "(string \<Rightarrow> string \<Rightarrow> int) \<Rightarrow> history_env \<Rightarrow> (string \<times> history_state) list \<Rightarrow> string option \<Rightarrow> nat \<Rightarrow> controllers \<Rightarrow>
   controllers \<times> string list" where
  "pruneCopilotThreadRuntimeControllers localeCompare env histories activeSessionId maxControllerCount cs =
     (let evictable = evictableSessionIds localeCompare env histories activeSessionId cs;
          evicted = take (min (length cs - maxControllerCount) (length evictable)) evictable
      in if length cs \<le> maxControllerCount then (cs, [])
         else if evicted = [] then (cs, [])
         else (filter (\<lambda>(sid, st). sid \<notin> set evicted) cs, evicted))"

section \<open>The sort\<close>

lemma sortedBy_access:
  "sorted_wrt (\<lambda>x y. ct_lastAccessedAt (snd x) \<le> ct_lastAccessedAt (snd y)) (sortedBy (compareAccess lc) xs)"
proof (induction xs)
  case (Cons x xs)
  then show ?case
    unfolding sortedBy_def by (simp, intro insertSorted_key [where key = "\<lambda>x. ct_lastAccessedAt (snd x)"]) (simp_all add: compareAccess_def)
qed (simp add: sortedBy_def)

section \<open>What is evicted\<close>

lemma pruned:
  "fst (pruneCopilotThreadRuntimeControllers lc rb hs active cap cs) =
     filter (\<lambda>(sid, st). sid \<notin> set (snd (pruneCopilotThreadRuntimeControllers lc rb hs active cap cs))) cs"
  by (simp add: pruneCopilotThreadRuntimeControllers_def Let_def)

lemma evicted_take:
  "snd (pruneCopilotThreadRuntimeControllers lc rb hs active cap cs) =
     take (min (length cs - cap) (length (evictableSessionIds lc rb hs active cs))) (evictableSessionIds lc rb hs active cs)"
  by (simp add: pruneCopilotThreadRuntimeControllers_def Let_def)

lemma evicted_evictable:
  assumes "sid \<in> set (snd (pruneCopilotThreadRuntimeControllers lc rb hs active cap cs))"
  shows "\<exists>st. (sid, st) \<in> set cs \<and> isEvictable rb hs active (sid, st)"
proof -
  have "sid \<in> set (evictableSessionIds lc rb hs active cs)" using assms evicted_take by (metis in_set_takeD)
  then show ?thesis by (auto simp: evictableSessionIds_def)
qed

lemma evictable_idle:
  "isEvictable rb hs active (sid, st) \<Longrightarrow> Some sid \<noteq> active \<and> \<not> hasCopilotThreadRuntimeControllerActiveRun st"
  by (auto simp: isEvictable_def isCopilotThreadRuntimeControllerLruCandidate_def isAwaitingInputInlineFormLruCandidate_def
      hasCopilotThreadRuntimeControllerActiveRun_def)

lemma distinct_key: "distinct (map fst xs) \<Longrightarrow> (k, v) \<in> set xs \<Longrightarrow> (k, w) \<in> set xs \<Longrightarrow> v = w"
  by (metis map_of_eq_Some_iff option.inject)

text \<open>What is read back of a session from its history: the conversation of a run, or the one of the selected run.\<close>

definition rebuilt :: "history_env \<Rightarrow> history_state \<Rightarrow> string option option \<Rightarrow> history_item list" where
  "rebuilt env h run = br_conversation (buildPersistedConversationFromHistory env (Some h) run)"

definition waitsForForm :: "controller_state \<Rightarrow> bool" where
  "waitsForForm st \<longleftrightarrow> rn_phase (ct_runState st) = PhaseAwaitingInput \<and> hasPendingInlineForm st"

definition runToSync :: "controller_state \<Rightarrow> string option" where
  "runToSync st = (case ct_pendingHistorySyncRunId st of Some r \<Rightarrow> Some r | None \<Rightarrow> rn_runId (ct_runState st))"

lemma in_filtered: "y \<in> set (List.map_filter f xs) \<longleftrightarrow> (\<exists>x \<in> set xs. f x = Some y)"
  by (induction xs) (auto split: option.split)

lemma rebuildable_history:
  assumes "hasRebuildablePersistedConversation env history st"
  shows "\<exists>h. history = Some h \<and> hy_isPersistedThread h = Some True \<and> hy_detailStatus h = LoadReady \<and>
    (if waitsForForm st
     then \<exists>item \<in> set (rebuilt env h (Some (runToSync st))). \<exists>f. formOf item = Some f \<and> iy_formState f = FormPending
     else rebuilt env h None \<noteq> [])"
proof -
  obtain h where h: "history = Some h" "hy_isPersistedThread h = Some True" "hy_detailStatus h = LoadReady"
    using assms by (auto simp: hasRebuildablePersistedConversation_def split: option.splits if_splits)
  show ?thesis
  proof (cases "waitsForForm st")
    case True
    then have "list_ex (\<lambda>f. iy_formState f = FormPending) (List.map_filter formOf (rebuilt env h (Some (runToSync st))))"
      using assms h by (simp add: hasRebuildablePersistedConversation_def waitsForForm_def runToSync_def rebuilt_def
          getPersistedInlineFormRebuildability_def Let_def)
    then have "\<exists>item \<in> set (rebuilt env h (Some (runToSync st))). \<exists>f. formOf item = Some f \<and> iy_formState f = FormPending"
      unfolding list_ex_iff Bex_def in_filtered by blast
    then show ?thesis using h True by simp
  next
    case False
    then have "rebuilt env h None \<noteq> []"
      using assms h by (auto simp: hasRebuildablePersistedConversation_def waitsForForm_def rebuilt_def)
    then show ?thesis using h False by simp
  qed
qed

text \<open>
  What eviction takes, and what it keeps. A controller that is gone after an eviction is not that of the open session and has no
  run in progress; the history of its session is persisted and loaded, and reading it back gives a conversation that is not empty,
  or, when the run was waiting for a form, one that holds a pending form. Nothing else of the controller is kept: the session gets a new
  controller when it is opened again, so that a draft, its attachments and an error that was shown are lost. The sessions of the
  record are distinct, as the properties of an object are.
\<close>

theorem eviction_is_safe:
  assumes "distinct (map fst cs)" and "(sid, st) \<in> set cs"
    and "(sid, st) \<notin> set (fst (pruneCopilotThreadRuntimeControllers localeCompare env histories active cap cs))"
  shows "Some sid \<noteq> active \<and> \<not> hasCopilotThreadRuntimeControllerActiveRun st \<and>
    (\<exists>h. map_of histories sid = Some h \<and> hy_isPersistedThread h = Some True \<and> hy_detailStatus h = LoadReady \<and>
      (if waitsForForm st
       then \<exists>item \<in> set (rebuilt env h (Some (runToSync st))). \<exists>f. formOf item = Some f \<and> iy_formState f = FormPending
       else rebuilt env h None \<noteq> [])) \<and>
    (trimmed sid \<longrightarrow>
      resolveCopilotThreadRuntimeControllerState now
        (fst (pruneCopilotThreadRuntimeControllers localeCompare env histories active cap cs)) (Some sid) =
      createCopilotThreadRuntimeControllerState (Some (sid, None)) now)"
proof -
  let ?left = "fst (pruneCopilotThreadRuntimeControllers localeCompare env histories active cap cs)"
  have gone: "sid \<in> set (snd (pruneCopilotThreadRuntimeControllers localeCompare env histories active cap cs))"
    using assms(2,3) pruned [of localeCompare env histories active cap cs] by auto
  then obtain st' where "(sid, st') \<in> set cs" and ev: "isEvictable env histories active (sid, st')"
    using evicted_evictable by blast
  then have "st' = st" using distinct_key assms(1,2) by metis
  then have "hasRebuildablePersistedConversation env (map_of histories sid) st"
    using ev by (auto simp: isEvictable_def isAwaitingInputInlineFormLruCandidate_def)
  note rebuildable_history [OF this]
  moreover have "map_of ?left sid = None"
    using gone pruned [of localeCompare env histories active cap cs] by (auto simp: map_of_eq_None_iff)
  then have "trimmed sid \<longrightarrow> resolveCopilotThreadRuntimeControllerState now ?left (Some sid) =
      createCopilotThreadRuntimeControllerState (Some (sid, None)) now"
    by (simp add: resolveCopilotThreadRuntimeControllerState_def trimmedText_def trimmed_def Let_def)
  ultimately show ?thesis using ev \<open>st' = st\<close> evictable_idle by blast
qed

lemma evictable_distinct: "distinct (map fst cs) \<Longrightarrow> distinct (evictableSessionIds lc rb hs active cs)"
proof -
  assume "distinct (map fst cs)"
  then have "distinct (map fst (filter (isEvictable rb hs active) cs))" using distinct_map_filter by blast
  moreover have "mset (evictableSessionIds lc rb hs active cs) = mset (map fst (filter (isEvictable rb hs active) cs))"
    by (simp add: evictableSessionIds_def)
  ultimately show ?thesis by (metis mset_eq_imp_distinct_iff)
qed

lemma evictable_length: "length (evictableSessionIds lc rb hs active cs) = length (filter (isEvictable rb hs active) cs)"
  by (simp add: evictableSessionIds_def)

lemma filter_out_length:
  assumes "distinct (map fst cs)" and "distinct ids" and "set ids \<subseteq> set (map fst cs)"
  shows "length (filter (\<lambda>(k, v). k \<notin> set ids) cs) = length cs - length ids"
proof -
  have "length (filter (\<lambda>(k, v). k \<in> set ids) cs) = card (set (map fst (filter (\<lambda>(k, v). k \<in> set ids) cs)))"
    using assms(1) by (metis distinct_card distinct_map_filter length_map)
  also have "set (map fst (filter (\<lambda>(k, v). k \<in> set ids) cs)) = set ids" using assms(3) by force
  also have "card (set ids) = length ids" using assms(2) distinct_card by blast
  finally show ?thesis
    using sum_length_filter_compl [of "\<lambda>(k, v). k \<in> set ids" cs] by (simp add: case_prod_unfold)
qed

text \<open>
  Eviction keeps the record within its capacity as far as it may: what is left has the capacity, or all that may not be
  evicted when that is more, and a record within the capacity is not touched.
\<close>

theorem eviction_bounds:
  assumes "distinct (map fst cs)"
  shows "length (fst (pruneCopilotThreadRuntimeControllers localeCompare env histories active cap cs)) =
    max (min cap (length cs)) (length (filter (\<lambda>e. \<not> isEvictable env histories active e) cs))"
proof -
  let ?ids = "evictableSessionIds localeCompare env histories active cs"
  let ?out = "snd (pruneCopilotThreadRuntimeControllers localeCompare env histories active cap cs)"
  have "set ?ids \<subseteq> set (map fst cs)" by (auto simp: evictableSessionIds_def)
  then have "set ?out \<subseteq> set (map fst cs)" using evicted_take by (metis dual_order.trans set_take_subset)
  moreover have "distinct ?out" using evicted_take evictable_distinct [OF assms] by (metis distinct_take)
  ultimately have "length (fst (pruneCopilotThreadRuntimeControllers localeCompare env histories active cap cs)) =
      length cs - length ?out"
    using filter_out_length assms pruned by metis
  moreover have "length ?out = min (length cs - cap) (length ?ids)" using evicted_take by (metis length_take min.left_idem min.commute)
  moreover have "length ?ids + length (filter (\<lambda>e. \<not> isEvictable env histories active e) cs) = length cs"
    using sum_length_filter_compl by (simp add: evictable_length)
  ultimately show ?thesis by linarith
qed

lemma take_sorted:
  assumes "sorted_wrt P xs" and "x \<in> set (take n xs)" and "y \<in> set (drop n xs)"
  shows "P x y"
  using assms by (metis append_take_drop_id sorted_wrt_append)

text \<open>
  The least recently used go first: a session that was evicted was accessed no later than any session that may be evicted and
  stays.
\<close>

theorem eviction_is_lru:
  assumes "distinct (map fst cs)" and "(sid, st) \<in> set cs" and "(sid', st') \<in> set cs"
    and "sid \<in> set (snd (pruneCopilotThreadRuntimeControllers localeCompare env histories active cap cs))"
    and "sid' \<notin> set (snd (pruneCopilotThreadRuntimeControllers localeCompare env histories active cap cs))"
    and "isEvictable env histories active (sid', st')"
  shows "ct_lastAccessedAt st \<le> ct_lastAccessedAt st'"
proof -
  let ?sorted = "sortedBy (compareAccess localeCompare) (filter (isEvictable env histories active) cs)"
  obtain n where n: "snd (pruneCopilotThreadRuntimeControllers localeCompare env histories active cap cs) = take n (map fst ?sorted)"
    using evicted_take evictableSessionIds_def by metis
  then obtain e where e: "e \<in> set (take n ?sorted)" "fst e = sid" using assms(4) by (auto simp: take_map)
  then have "e \<in> set cs" by (metis filter_is_subset in_set_takeD set_sortedBy subsetD)
  then have "snd e = st" using e(2) assms(1,2) distinct_key by (metis prod.collapse)
  have in': "(sid', st') \<in> set ?sorted" using assms(3,6) by simp
  have "(sid', st') \<notin> set (take n ?sorted)" using assms(5) n by (force simp: take_map)
  then have "(sid', st') \<in> set (drop n ?sorted)" using in' by (metis Un_iff append_take_drop_id set_append)
  then show ?thesis using take_sorted [OF sortedBy_access e(1)] \<open>snd e = st\<close> by fastforce
qed

section \<open>The record follows the session list\<close>

lemma addMissing_keys: "set (map fst (addMissingController now shell cs)) = insert (sh_sessionId shell) (set (map fst cs))"
  by (auto simp: addMissingController_def dom_update dest: map_of_SomeD split: if_splits) (metis map_of_eq_None_iff option.distinct(1))

lemma addMissing_old:
  "filter (\<lambda>(k, v). k \<in> K) (addMissingController now shell cs) = filter (\<lambda>(k, v). k \<in> K) cs"
  if "K \<subseteq> set (map fst cs)"
proof -
  have new: "k \<notin> set (map fst m) \<Longrightarrow> AList.update k v m = m @ [(k, v)]" for k v and m :: controllers
    by (induction m) auto
  show ?thesis using that by (auto simp: addMissingController_def map_of_eq_None_iff new)
qed

lemma addMissing_known: "sh_sessionId shell \<in> set (map fst cs) \<Longrightarrow> addMissingController now shell cs = cs"
  by (auto simp: addMissingController_def map_of_eq_None_iff)

lemma fold_addMissing:
  "set (map fst (fold (addMissingController now) shells cs)) = set (map sh_sessionId shells) \<union> set (map fst cs)"
  "K \<subseteq> set (map fst cs) \<Longrightarrow>
    filter (\<lambda>(k, v). k \<in> K) (fold (addMissingController now) shells cs) = filter (\<lambda>(k, v). k \<in> K) cs"
  "set (map sh_sessionId shells) \<subseteq> set (map fst cs) \<Longrightarrow> fold (addMissingController now) shells cs = cs"
proof (induction shells arbitrary: cs)
  case (Cons shell shells)
  { case 1 show ?case using Cons(1) [of "addMissingController now shell cs"] addMissing_keys by simp }
  { case 2
    then have "K \<subseteq> set (map fst (addMissingController now shell cs))" using addMissing_keys by blast
    then show ?case using Cons(2) [of "addMissingController now shell cs"] addMissing_old [OF 2] by simp }
  { case 3 then show ?case using Cons(3) [of cs] addMissing_known by simp }
qed simp_all

lemma sync_keys: "set (map fst (syncCopilotThreadRuntimeControllerStateRecord now cs shells)) = set (map sh_sessionId shells)"
  using fold_addMissing(1) [of now shells cs] unfolding syncCopilotThreadRuntimeControllerStateRecord_def by force

text \<open>
  After a synchronisation there is a controller for each session of the list and for no other, the controllers that stay are
  unchanged and in their order, and synchronising again changes nothing.
\<close>

theorem sync_matches_sessions:
  "set (map fst (syncCopilotThreadRuntimeControllerStateRecord now cs shells)) = set (map sh_sessionId shells) \<and>
   filter (\<lambda>(sid, st). sid \<in> set (map fst cs)) (syncCopilotThreadRuntimeControllerStateRecord now cs shells) =
     filter (\<lambda>(sid, st). sid \<in> set (map sh_sessionId shells)) cs \<and>
   syncCopilotThreadRuntimeControllerStateRecord later (syncCopilotThreadRuntimeControllerStateRecord now cs shells) shells =
     syncCopilotThreadRuntimeControllerStateRecord now cs shells"
proof -
  let ?s = "syncCopilotThreadRuntimeControllerStateRecord now cs shells"
  let ?old = "\<lambda>(sid, st). sid \<in> set (map fst cs)" and ?listed = "\<lambda>(sid, st). sid \<in> set (map sh_sessionId shells)"
  have "filter ?old ?s = filter ?listed (filter ?old (fold (addMissingController now) shells cs))"
    unfolding syncCopilotThreadRuntimeControllerStateRecord_def filter_filter by (rule filter_cong) auto
  also have "filter ?old (fold (addMissingController now) shells cs) = cs"
    using fold_addMissing(2) [of "set (map fst cs)" cs now shells] by (simp add: filter_id_conv case_prod_unfold)
  finally have kept: "filter ?old ?s = filter ?listed cs" .
  have "fold (addMissingController later) shells ?s = ?s" using fold_addMissing(3) [of shells ?s later] sync_keys by blast
  then have "syncCopilotThreadRuntimeControllerStateRecord later ?s shells = ?s"
    unfolding syncCopilotThreadRuntimeControllerStateRecord_def by simp
  then show ?thesis using sync_keys kept by blast
qed

section \<open>Updates of the capabilities of a session\<close>

text \<open>Objects are compared by their properties; the first case, the same object, is included.\<close>

definition haveSameToolGroup :: "presentation_group option option \<Rightarrow> presentation_group option option \<Rightarrow> bool" where
  "haveSameToolGroup left right \<longleftrightarrow>
     (case (left, right) of
        (Some (Some l), Some (Some r)) \<Rightarrow>
          pg_id l = pg_id r \<and> pg_label l = pg_label r \<and> pg_labelZh l = pg_labelZh r \<and> pg_labelEn l = pg_labelEn r \<and>
          pg_order l = pg_order r \<and> pg_sourceKind l = pg_sourceKind r
      | (Some (Some _), _) \<Rightarrow> False | (_, Some (Some _)) \<Rightarrow> False
      | (Some None, Some None) \<Rightarrow> True | (None, None) \<Rightarrow> True
      | _ \<Rightarrow> False)"

definition haveSameToolDirectoryEntry :: "tool_entry \<Rightarrow> tool_entry option \<Rightarrow> bool" where
  "haveSameToolDirectoryEntry left right \<longleftrightarrow>
     (case right of
        None \<Rightarrow> False
      | Some r \<Rightarrow>
          td_toolId left = td_toolId r \<and> td_kind left = td_kind r \<and> td_availability left = td_availability r \<and>
          td_displayName left = td_displayName r \<and> td_description left = td_description r \<and> td_prompt left = td_prompt r \<and>
          td_displayNameZh left = td_displayNameZh r \<and> td_displayNameEn left = td_displayNameEn r \<and>
          td_descriptionZh left = td_descriptionZh r \<and> td_descriptionEn left = td_descriptionEn r \<and>
          haveSameToolGroup (td_group left) (td_group r))"

text \<open>\<open>left.every\<close> with the index into the other list, which is \<open>undefined\<close> past its end.\<close>

fun everyWithIndex :: "('a \<Rightarrow> 'a option \<Rightarrow> bool) \<Rightarrow> 'a list \<Rightarrow> 'a list \<Rightarrow> bool" where
  "everyWithIndex same [] right = True"
| "everyWithIndex same (l # left) [] = (same l None \<and> everyWithIndex same left [])"
| "everyWithIndex same (l # left) (r # right) = (same l (Some r) \<and> everyWithIndex same left right)"

definition haveSameOrderedStrings :: "string list \<Rightarrow> string list \<Rightarrow> bool" where
  "haveSameOrderedStrings left right \<longleftrightarrow> length left = length right \<and> everyWithIndex (\<lambda>l r. Some l = r) left right"

definition haveSameToolDirectoryEntries :: "tool_entry list \<Rightarrow> tool_entry list \<Rightarrow> bool" where
  "haveSameToolDirectoryEntries left right \<longleftrightarrow>
     length left = length right \<and> everyWithIndex haveSameToolDirectoryEntry left right"

definition shouldApplyLiveCapabilitiesUpdate :: "string option \<Rightarrow> capabilities_response \<Rightarrow> session_shell option \<Rightarrow> bool" where
  "shouldApplyLiveCapabilitiesUpdate previousCapabilitiesVersion response previousSession =
     (if previousCapabilitiesVersion \<noteq> Some (cp_capabilitiesVersion response) then True
      else (case previousSession of
          None \<Rightarrow> True
        | Some session \<Rightarrow>
            (let previous = sh_capabilities session in
             if sc_toolSelectionMode previous \<noteq> cp_toolSelectionMode response then True
             else if \<not> haveSameOrderedStrings (sc_recommendedToolsForAgent previous) (cp_recommendedTools response) then True
             else \<not> haveSameToolDirectoryEntries (sc_allAvailableTools previous) (cp_tools response))))"

lemma same_group [simp]: "haveSameToolGroup l r \<longleftrightarrow> l = r"
  by (auto simp: haveSameToolGroup_def split: option.split)

lemma same_entry: "haveSameToolDirectoryEntry l r \<longleftrightarrow> r = Some l"
  by (cases r) (auto simp: haveSameToolDirectoryEntry_def)

lemma every_equal: "length xs = length ys \<Longrightarrow> everyWithIndex (\<lambda>l r. r = Some l) xs ys \<longleftrightarrow> xs = ys"
  by (induction xs ys rule: list_induct2) auto

lemma same_entries [simp]: "haveSameToolDirectoryEntries xs ys \<longleftrightarrow> xs = ys"
  using every_equal [of xs ys] by (auto simp: haveSameToolDirectoryEntries_def same_entry [abs_def])

lemma same_strings [simp]: "haveSameOrderedStrings xs ys \<longleftrightarrow> xs = ys"
proof -
  have "(\<lambda>(l::string) r. Some l = r) = (\<lambda>l r. r = Some l)" by (intro ext) auto
  then show ?thesis using every_equal [of xs ys] by (auto simp: haveSameOrderedStrings_def)
qed

text \<open>
  A response of the runtime is ignored exactly when applying it would change nothing: for a session whose capabilities came
  from an earlier response, an update is applied when and only when the new response gives other capabilities.
\<close>

theorem update_applied_iff_changed:
  assumes "sh_capabilities session = createAssistantSessionCapabilitiesFromRuntime earlier"
  shows "shouldApplyLiveCapabilitiesUpdate (Some (sc_capabilitiesVersion (sh_capabilities session))) response (Some session) \<longleftrightarrow>
    createAssistantSessionCapabilitiesFromRuntime response \<noteq> sh_capabilities session"
  using assms by (auto simp: shouldApplyLiveCapabilitiesUpdate_def createAssistantSessionCapabilitiesFromRuntime_def)

section \<open>Witnesses\<close>

definition sampleResponse :: "string list \<Rightarrow> capabilities_response" where
  "sampleResponse recommended = \<lparr>cp_capabilitiesVersion = ''v1'', cp_tools = [], cp_recommendedTools = recommended, cp_toolSelectionMode = ''m''\<rparr>"

theorem update_applied_iff_changed_witness:
  "shouldApplyLiveCapabilitiesUpdate (Some ''v1'') (sampleResponse [''t''])
     (Some (sampleShell\<lparr>sh_capabilities := createAssistantSessionCapabilitiesFromRuntime (sampleResponse [])\<rparr>))"
proof -
  let ?session = "sampleShell\<lparr>sh_capabilities := createAssistantSessionCapabilitiesFromRuntime (sampleResponse [])\<rparr>"
  have "createAssistantSessionCapabilitiesFromRuntime (sampleResponse [''t'']) \<noteq> sh_capabilities ?session" by code_simp
  moreover have "sc_capabilitiesVersion (sh_capabilities ?session) = ''v1''" by code_simp
  ultimately show ?thesis using update_applied_iff_changed [of ?session "sampleResponse []" "sampleResponse [''t'']"] by simp
qed

definition controllerAt :: "string \<Rightarrow> int \<Rightarrow> string \<times> controller_state" where
  "controllerAt sid time = (sid, createCopilotThreadRuntimeControllerState (Some (sid, None)) time)"

definition sampleControllers :: controllers where
  "sampleControllers = [controllerAt ''s1'' 5, controllerAt ''s2'' 3, controllerAt ''s3'' 1]"

definition samplePersistedChat :: history_state where
  "samplePersistedChat = samplePersisted\<lparr>hy_summary := sampleSummary\<lparr>th_lastUserMessagePreview := Some ''hi''\<rparr>\<rparr>"

definition sampleHistories :: "(string \<times> history_state) list" where
  "sampleHistories = map (\<lambda>sid. (sid, samplePersistedChat)) [''s1'', ''s2'', ''s3'']"

definition sampleEnv :: history_env where
  "sampleEnv = \<lparr>hv_casts = \<lparr>hc_selection = \<lambda>_. None, hc_capability = \<lambda>_. None, hc_decision = \<lambda>_. None, hc_basis = \<lambda>_. None,
     hc_level = \<lambda>_. LevelOff\<rparr>, hv_numText = \<lambda>_. [], hv_dateParse = \<lambda>_. None, hv_now = 0, hv_clock = \<lambda>_. 0\<rparr>"

definition samplePruned :: "controllers \<times> string list" where
  "samplePruned = pruneCopilotThreadRuntimeControllers (\<lambda>_ _. 0) sampleEnv sampleHistories (Some ''s3'') 2 sampleControllers"

lemma sample_distinct: "distinct (map fst sampleControllers)"
  by (simp add: sampleControllers_def controllerAt_def)

lemma sample_evicted: "snd samplePruned = [''s2'']" and sample_left: "map fst (fst samplePruned) = [''s1'', ''s3'']"
  by code_simp+

lemma gone_s2: "(''s2'', snd (controllerAt ''s2'' 3)) \<notin> set (fst samplePruned)"
proof
  assume "(''s2'', snd (controllerAt ''s2'' 3)) \<in> set (fst samplePruned)"
  then have "''s2'' \<in> set (map fst (fst samplePruned))" by force
  then show False by (simp add: sample_left)
qed

theorem eviction_is_safe_witness:
  "rebuilt sampleEnv samplePersistedChat None \<noteq> [] \<and> snd samplePruned = [''s2''] \<and>
   resolveCopilotThreadRuntimeControllerState 7 (fst samplePruned) (Some ''s2'') =
     createCopilotThreadRuntimeControllerState (Some (''s2'', None)) 7"
proof -
  have "\<not> waitsForForm (snd (controllerAt ''s2'' 3))"
    by (simp add: waitsForForm_def controllerAt_def createCopilotThreadRuntimeControllerState_def createIdleCopilotRunState_def)
  moreover have "trimmed ''s2''" by (simp add: trimmed_ascii visible_def)
  ultimately show ?thesis
    using eviction_is_safe [OF sample_distinct _ gone_s2 [unfolded samplePruned_def], of 7] sample_evicted
    by (simp add: samplePruned_def sampleControllers_def controllerAt_def sampleHistories_def)
qed

theorem eviction_bounds_witness: "length (fst samplePruned) = 2"
proof -
  have "length (filter (\<lambda>e. \<not> isEvictable sampleEnv sampleHistories (Some ''s3'') e) sampleControllers) = 1" by code_simp
  then show ?thesis
    using eviction_bounds [OF sample_distinct, of "\<lambda>_ _. 0" sampleEnv sampleHistories "Some ''s3''" 2]
    by (simp add: samplePruned_def sampleControllers_def)
qed

theorem eviction_is_lru_witness:
  "ct_lastAccessedAt (snd (controllerAt ''s2'' 3)) \<le> ct_lastAccessedAt (snd (controllerAt ''s1'' 5))"
proof -
  have "isEvictable sampleEnv sampleHistories (Some ''s3'') (controllerAt ''s1'' 5)" by code_simp
  then show ?thesis
    using eviction_is_lru [OF sample_distinct, of "''s2''" "snd (controllerAt ''s2'' 3)" "''s1''" "snd (controllerAt ''s1'' 5)" "\<lambda>_ _. 0"
        sampleEnv sampleHistories "Some ''s3''" 2] sample_evicted
    by (simp add: samplePruned_def sampleControllers_def controllerAt_def)
qed

end
