(* ===== verification/Replay_Laws.thy ===== *)
theory Replay_Laws
  imports History_View Stream_Laws View_Laws Send_Controller
begin

text \<open>
  Whether a replayed run shows what the live run showed. A stored event has the payload that was streamed; the theorems compare
  the events that the replay makes of stored events with the streamed ones, and the message items of both.
\<close>

section \<open>Stored events\<close>

text \<open>The record that the backend keeps of an event, with the payload as it was streamed.\<close>

definition storedEvent :: "string \<Rightarrow> run_event \<Rightarrow> history_event" where
  "storedEvent createdAt e =
     \<lparr>he_sequence = ev_sequence e, he_eventType = eventTypeString (payloadType (ev_payload e)), he_createdAt = createdAt,
      he_payload = payloadProps (ev_payload e), he_toolCallId = None, he_toolId = None, he_phase = None,
      he_isRedacted = False, he_redactionVersion = 0\<rparr>"

text \<open>The unchecked reads give the values that were written, as they do in JavaScript, where they do nothing.\<close>

definition castsFaithful :: "history_casts \<Rightarrow> bool" where
  "castsFaithful casts \<longleftrightarrow>
     (\<forall>x. okOption okSelection x \<longrightarrow> hc_selection casts (nullOr selectionJson x) = x) \<and>
     (\<forall>x. okOption okCapability x \<longrightarrow> hc_capability casts (nullOr capabilityJson x) = x) \<and>
     (\<forall>x. okOption okResult x \<longrightarrow> hc_decision casts (nullOr resultJson x) = x) \<and>
     (\<forall>x. okOption okBasis x \<longrightarrow> hc_basis casts (nullOr basisJson x) = x) \<and>
     (\<forall>l. hc_level casts (thinkingLevelString l) = l)"

text \<open>
  The events that the replay keeps as they were: their texts are trimmed and not blank, and a tool event is one of the three
  phases that are replayed and has neither security nor approval.
\<close>

definition plainTexts :: "string option \<Rightarrow> bool" where
  "plainTexts s = okOption trimmed s"

definition plainField :: "form_field \<Rightarrow> bool" where
  "plainField f \<longleftrightarrow> trimmed (ff_name f) \<and> trimmed (ff_label f) \<and> plainTexts (ff_description f) \<and> plainTexts (ff_placeholder f) \<and>
     okOption (list_all (\<lambda>x. trimmed (fo_value x) \<and> trimmed (fo_label x))) (ff_options f)"

definition plainForm :: "form_request \<Rightarrow> bool" where
  "plainForm f \<longleftrightarrow> trimmed (fr_formId f) \<and> trimmed (fr_title f) \<and> plainTexts (fr_description f) \<and> plainTexts (fr_submitLabel f) \<and>
     fr_fields f \<noteq> [] \<and> list_all plainField (fr_fields f)"

fun replayable :: "run_payload \<Rightarrow> bool" where
  "replayable (RunStarted mid m) \<longleftrightarrow> True"
| "replayable (RunMetadata m) \<longleftrightarrow> True"
| "replayable (TextDelta mid d) \<longleftrightarrow> trimmed d"
| "replayable (ReasoningDelta d) \<longleftrightarrow> trimmed d"
| "replayable (RunCompleted c) \<longleftrightarrow> trimmed (co_assistantText c) \<and> trimmed (rs_catalogRevision (co_resolvedModelRoute c)) \<and>
     co_resolvedToolIds c \<noteq> [] \<and> list_all trimmed (co_resolvedToolIds c)"
| "replayable (RunFailed f) \<longleftrightarrow> trimmed (fa_message f)"
| "replayable (RunCancelled mid reason) \<longleftrightarrow> trimmed reason"
| "replayable (RunDiagnostic d) \<longleftrightarrow> trimmed (dg_message d)"
| "replayable (ToolEvent t) \<longleftrightarrow> te_phase t \<in> {PhStarted, PhCompleted, PhFailed} \<and> te_security t = None \<and> te_approval t = None \<and>
     plainTexts (te_inputSummary t) \<and> plainTexts (te_resultSummary t) \<and> plainTexts (te_errorSummary t) \<and>
     okOption plainForm (te_formRequest t)"

section \<open>Reads of what was written\<close>

named_theorems replay_read \<open>what the replay reads of a stored value\<close>

lemma normalize_trimmed [replay_read]: "trimmed s \<Longrightarrow> normalizeOptionalString (Some s) = Some s"
  by (simp add: normalizeOptionalString_def trimmedText_def trimmed_def)

lemma normalize_None [simp]: "normalizeOptionalString None = None"
  by (simp add: normalizeOptionalString_def trimmedText_def)

lemma read_plain [replay_read]:
  "plainTexts s \<Longrightarrow> normalizeOptionalString (readStringH (map_option JStr s)) = s"
  by (cases s) (simp_all add: plainTexts_def replay_read)

lemma orElse_simps [simp]: "orElse (Some x) d = x" "orElse None d = d"
  by (simp_all add: orElse_def)

lemma firstOf_simps [simp]: "firstOf (Some x) b = Some x" "firstOf None b = b"
  by (simp_all add: firstOf_def)

lemma map_filter_all: "(\<And>x. x \<in> set xs \<Longrightarrow> f (g x) = Some x) \<Longrightarrow> List.map_filter f (map g xs) = xs"
  by (induction xs) (simp_all add: map_filter_simps)

lemma readArray_strings [replay_read]:
  "list_all trimmed xs \<Longrightarrow> readStringArrayH (Some (JArr (map JStr xs))) = xs"
  by (simp add: map_filter_all replay_read list_all_iff)

lemma fieldType_trimmed [simp]: "trimmed (fieldTypeString t)"
  by (cases t) (simp_all add: trimmed_ascii visible_def)

lemma fieldType_read [simp]: "parseFieldType (fieldTypeString t) = Some t"
  by (rule fieldty_lit.rd_wr)

lemma option_read [replay_read]: "trimmed (fo_value x) \<and> trimmed (fo_label x) \<Longrightarrow> parsePersistedFieldOption (optionJson x) = Some x"
  by (simp add: parsePersistedFieldOption_def optionJson_def propIf_def replay_read)

lemma options_read [replay_read]:
  "okOption (list_all (\<lambda>x. trimmed (fo_value x) \<and> trimmed (fo_label x))) v \<Longrightarrow>
   map_option (List.map_filter parsePersistedFieldOption) (arrayItems (map_option optionsJson v)) = v"
  by (cases v) (simp_all add: optionsJson_def map_filter_all replay_read list_all_iff)

lemma field_read [replay_read]: "plainField f \<Longrightarrow> parsePersistedInlineFormField (fieldJson f) = Some f"
  by (cases "ff_required f")
     (simp_all add: parsePersistedInlineFormField_def fieldJson_def plainField_def textAt_def replay_read)

lemma form_read [replay_read]:
  "okOption plainForm f \<Longrightarrow> parsePersistedInlineFormRequest (Some (nullOr formJson f)) = f"
proof (cases f)
  case (Some r)
  moreover assume "okOption plainForm f"
  ultimately have r: "plainForm r" by simp
  then have "List.map_filter parsePersistedInlineFormField (map fieldJson (fr_fields r)) = fr_fields r"
    by (intro map_filter_all) (simp add: replay_read plainForm_def list_all_iff)
  then show ?thesis using r Some
    by (simp add: parsePersistedInlineFormRequest_def formJson_def plainForm_def textAt_def replay_read)
qed (simp add: parsePersistedInlineFormRequest_def)

lemma route_read [replay_read]:
  assumes "okResolvedRoute r" and "trimmed (rs_catalogRevision r)"
  shows "asRuntimeResolvedRoute (Some (resolvedRouteJson r)) = Some r"
proof -
  have "rr_routeKind (rs_routeRef r) = ProviderModel" by (cases "rr_routeKind (rs_routeRef r)") simp
  then show ?thesis using assms
    by (simp add: asRuntimeResolvedRoute_def readResolvedRouteRef_def buildRuntimeResolvedRouteFromRecord_def resolvedRouteJson_def
        Wire_Laws.routeRefJson_def Let_def okResolvedRoute_def okRouteRef_def propIf_def replay_read)
qed


lemma record_read [replay_read]: "asRecordH (Some (JObj r)) = Some r" "cloneRecordH (Some (JObj r)) = r"
  by (simp_all add: cloneRecordH_def)

lemma codec_objects:
  "okOption okSelection x \<Longrightarrow> x \<noteq> None \<Longrightarrow> \<exists>r. nullOr selectionJson x = JObj r"
  "okOption okCapability c \<Longrightarrow> c \<noteq> None \<Longrightarrow> \<exists>r. nullOr capabilityJson c = JObj r"
  "okOption okResult d \<Longrightarrow> d \<noteq> None \<Longrightarrow> \<exists>r. nullOr resultJson d = JObj r"
  "okOption okBasis b \<Longrightarrow> b \<noteq> None \<Longrightarrow> \<exists>r. nullOr basisJson b = JObj r"
  by (auto simp: selectionJson_def capabilityJson_def resultJson_def basisJson_def)

lemma castRecord_read:
  assumes "\<And>x. okOption ok x \<Longrightarrow> f (nullOr enc x) = x" and "\<And>x. okOption ok x \<Longrightarrow> x \<noteq> None \<Longrightarrow> \<exists>r. nullOr enc x = JObj r"
    and "okOption (okOption ok) v" and "v \<noteq> None"
  shows "Some (castRecord f (map_option (nullOr enc) v)) = v"
proof -
  obtain x where v: "v = Some x" using assms(4) by blast
  then have ok: "okOption ok x" using assms(3) by simp
  show ?thesis
  proof (cases x)
    case None
    then show ?thesis using v by (simp add: castRecord_def)
  next
    case (Some y)
    then obtain r where r: "nullOr enc x = JObj r" using assms(2) [OF ok] by blast
    then show ?thesis using assms(1) [OF ok] v by (simp add: castRecord_def)
  qed
qed

lemma castPresent_read:
  assumes "\<And>x. okOption ok x \<Longrightarrow> f (nullOr enc x) = x" and "okOption (okOption ok) v"
  shows "castPresent f (map_option (nullOr enc) v) = v"
  using assms by (cases v) (simp_all add: castPresent_def)

lemma casts_read:
  assumes "castsFaithful casts"
  shows "okOption okSelection x \<Longrightarrow> hc_selection casts (nullOr selectionJson x) = x"
    "okOption okCapability c \<Longrightarrow> hc_capability casts (nullOr capabilityJson c) = c"
    "okOption okResult d \<Longrightarrow> hc_decision casts (nullOr resultJson d) = d"
    "okOption okBasis b \<Longrightarrow> hc_basis casts (nullOr basisJson b) = b"
    "hc_level casts (thinkingLevelString l) = l"
  using assms by (simp_all add: castsFaithful_def)

lemma level_read:
  assumes "castsFaithful casts"
  shows "castPresent (levelOf casts) (map_option (nullOr levelJson) v) = v"
    "normalizeThinkingLevel casts (map_option (nullOr levelJson) v) = v"
proof -
  have "levelOf casts (nullOr levelJson l) = l" "normalizeThinkingLevel casts (Some (nullOr levelJson l)) = Some l" for l
    by (cases l; simp add: levelJson_def casts_read [OF assms])+
  then show "castPresent (levelOf casts) (map_option (nullOr levelJson) v) = v"
    "normalizeThinkingLevel casts (map_option (nullOr levelJson) v) = v"
    by (cases v; simp add: castPresent_def)+
qed

lemma metadata_props:
  "prop_of (metadataProps m) ''requestedThinkingSelection'' = map_option (nullOr selectionJson) (tm_requestedThinkingSelection m)"
  "prop_of (metadataProps m) ''appliedThinkingSelection'' = map_option (nullOr selectionJson) (tm_appliedThinkingSelection m)"
  "prop_of (metadataProps m) ''thinkingCapabilitySnapshot'' = map_option (nullOr capabilityJson) (tm_thinkingCapabilitySnapshot m)"
  "prop_of (metadataProps m) ''thinkingSeriesDecision'' = map_option (nullOr resultJson) (tm_thinkingSeriesDecision m)"
  "prop_of (metadataProps m) ''reasoningSuppressionBasis'' = map_option (nullOr basisJson) (tm_reasoningSuppressionBasis m)"
  "prop_of (metadataProps m) ''requestedThinkingLevel'' = map_option (nullOr levelJson) (tm_requestedThinkingLevel m)"
  "prop_of (metadataProps m) ''appliedThinkingLevel'' = map_option (nullOr levelJson) (tm_appliedThinkingLevel m)"
  by (simp_all add: metadataProps_def)

lemma spread_read:
  assumes "castsFaithful casts" and "okMetadata m"
  shows "spreadMetadata casts ((''assistantMessageId'', x) # metadataProps m) = m"
  using assms(2) castPresent_read [OF casts_read(1) [OF assms(1)]] castPresent_read [OF casts_read(2) [OF assms(1)]]
    castPresent_read [OF casts_read(3) [OF assms(1)]] castPresent_read [OF casts_read(4) [OF assms(1)]]
  by (simp add: spreadMetadata_def okMetadata_def metadata_props level_read [OF assms(1)])

lemma metadata_read:
  assumes "castsFaithful casts" and "okMetadata m" and "completeMetadata m"
  shows "buildRuntimeRunThinkingMetadataPayload casts (metadataProps m) = m"
  using assms(2,3) castRecord_read [OF casts_read(1) [OF assms(1)] codec_objects(1)]
    castRecord_read [OF casts_read(2) [OF assms(1)] codec_objects(2)]
    castRecord_read [OF casts_read(3) [OF assms(1)] codec_objects(3)]
    castRecord_read [OF casts_read(4) [OF assms(1)] codec_objects(4)]
  by (simp add: buildRuntimeRunThinkingMetadataPayload_def okMetadata_def completeMetadata_def metadata_props
      level_read [OF assms(1)])


section \<open>Replayed events\<close>

lemma phase_read:
  "ph \<in> {PhStarted, PhCompleted, PhFailed} \<Longrightarrow>
   replayedPhase (firstOf (normalizeOptionalString (Some (toolPhaseString ph))) q) = Some ph"
  by (cases ph) (auto simp: replayedPhase_def replay_read trimmed_ascii visible_def)

lemma storedEvent_simps [simp]:
  "he_sequence (storedEvent t e) = ev_sequence e" "he_payload (storedEvent t e) = payloadProps (ev_payload e)"
  "he_eventType (storedEvent t e) = eventTypeString (payloadType (ev_payload e))"
  by (simp_all add: storedEvent_def)

lemmas replay_maps = mapReplayRunStartedEvent_def mapReplayRunMetadataEvent_def mapReplayTextDeltaEvent_def
  mapReplayReasoningDeltaEvent_def mapReplayRunDiagnosticEvent_def mapReplayRunCompletedEvent_def mapReplayRunFailedEvent_def
  mapReplayRunCancelledEvent_def mapReplayToolEvent_def replayEvent_def textAt_def resolveReplayAssistantText_def
  readReplayToolEventSummary_def

lemma replayed_tool:
  assumes "okTool t" and "replayable (ToolEvent t)"
  shows "mapReplayToolEvent \<lparr>ri_runId = r, ri_threadId = s, ri_event = e, ri_payload = toolProps t, ri_assistantMessageId = m\<rparr> =
    Some \<lparr>ev_runId = r, ev_sessionId = s, ev_sequence = he_sequence e, ev_payload = ToolEvent t\<rparr>"
  using assms phase_read [of "te_phase t"]
  by (simp add: replay_maps toolProps_def okTool_def replay_read)

lemma replayed_event:
  assumes "castsFaithful casts" and "okEvent e" and "replayable (ev_payload e)"
  shows "mapPersistedRunEventToRuntimeRunEvent casts (ev_runId e) (ev_sessionId e) snapshot (storedEvent t e) = Some e"
proof (cases "ev_payload e")
  case (RunStarted mid m)
  then show ?thesis using assms spread_read [OF assms(1), of m "JStr mid"]
    by (cases e) (simp add: mapPersistedRunEventToRuntimeRunEvent_def Let_def replay_maps replay_read okEvent_def)
next
  case (RunMetadata m)
  then show ?thesis using assms metadata_read [OF assms(1), of m]
    by (cases e) (simp add: mapPersistedRunEventToRuntimeRunEvent_def Let_def replay_maps okEvent_def)
next
  case (ToolEvent tool)
  then show ?thesis using assms replayed_tool [of tool]
    by (cases e) (simp add: mapPersistedRunEventToRuntimeRunEvent_def Let_def okEvent_def)
next
  case (RunCompleted c)
  then show ?thesis using assms
    by (cases e) (simp add: mapPersistedRunEventToRuntimeRunEvent_def Let_def replay_maps replay_read okEvent_def nullishOr_def
        del: readStringArrayH.simps)
qed (use assms in \<open>cases e; simp add: mapPersistedRunEventToRuntimeRunEvent_def Let_def replay_maps replay_read okEvent_def\<close>)+

section \<open>Replayed runs\<close>

text \<open>The events of one run, and the replay of what was stored of them.\<close>

definition eventsOfRun :: "run_replay \<Rightarrow> run_event list \<Rightarrow> bool" where
  "eventsOfRun replay es \<longleftrightarrow>
     list_all (\<lambda>e. ev_runId e = rv_runId (re_run replay) \<and> ev_sessionId e = rv_threadId (re_run replay)) es"



section \<open>The live run\<close>

text \<open>
  What the live run shows: the items of the run state that the send controller has after it committed the send (which puts a
  starting state into \<open>chat\<close>), registered the response to \<open>run/start\<close> and received the events, each at its time.
\<close>

definition liveItems :: "(nat \<Rightarrow> int) \<Rightarrow> started_run \<Rightarrow> chat_state \<Rightarrow> run_event list \<Rightarrow> view_item list" where
  "liveItems clock started chat es =
     buildCopilotRunSegmentViewModel (ch_runState (receiveEvents clock 0 es (registerStart (Some started) chat)))"

lemma received_run:
  "ch_runState (receiveEvents clock n es chat) = runEvents (ch_runState chat) (map (\<lambda>(i, e). (clock i, e)) (List.enumerate n es))"
  by (induction es arbitrary: n chat) (simp_all add: receiveEvent_def)

lemma registered_run:
  "ch_runState (registerStart (Some r) chat) =
     registerCopilotRunStartResponse (ch_runState chat) (sr_runId r) (sr_threadId r) (sr_metadata r)"
  by (simp add: registerStart_def)

lemma committed_run:
  "ch_runState (commitSendState i random sid si message opts ch) = createStartingCopilotRunState sid (si_modelRoute si) opts"
  by (simp add: commitSendState_def)





text \<open>What the response to \<open>run/start\<close> says of the thinking, the first event says as well.\<close>

definition repeatedBy :: "thinking_metadata \<Rightarrow> thinking_metadata \<Rightarrow> bool" where
  "repeatedBy m r \<longleftrightarrow>
     (tm_requestedThinkingSelection r \<noteq> None \<longrightarrow> tm_requestedThinkingSelection m \<noteq> None) \<and>
     (tm_appliedThinkingSelection r \<noteq> None \<longrightarrow> tm_appliedThinkingSelection m \<noteq> None) \<and>
     (tm_requestedThinkingLevel r \<noteq> None \<longrightarrow> tm_requestedThinkingLevel m \<noteq> None) \<and>
     (tm_appliedThinkingLevel r \<noteq> None \<longrightarrow> tm_appliedThinkingLevel m \<noteq> None) \<and>
     (tm_thinkingCapabilitySnapshot r \<noteq> None \<longrightarrow> tm_thinkingCapabilitySnapshot m \<noteq> None) \<and>
     (tm_thinkingSeriesDecision r \<noteq> None \<longrightarrow> tm_thinkingSeriesDecision m \<noteq> None) \<and>
     (tm_reasoningSuppressionBasis r \<noteq> None \<longrightarrow> tm_reasoningSuppressionBasis m = tm_reasoningSuppressionBasis r)"

lemma repeated_simps [simp]: "repeatedBy m m" "repeatedBy m emptyMetadata"
  by (simp_all add: repeatedBy_def emptyMetadata_def)











section \<open>Spaces between deltas\<close>

text \<open>The event that is replayed for a stored one whose delta need not be trimmed, and the events that are replayed.\<close>

definition withPayload :: "run_event \<Rightarrow> run_payload \<Rightarrow> run_event" where
  "withPayload e p = e\<lparr>ev_payload := p\<rparr>"

definition replayedAs :: "run_event \<Rightarrow> run_event option" where
  "replayedAs e = (case ev_payload e of
     TextDelta mid d \<Rightarrow> if trim d = [] then None else Some (withPayload e (TextDelta mid (trim d)))
   | ReasoningDelta d \<Rightarrow> if trim d = [] then None else Some (withPayload e (ReasoningDelta (trim d)))
   | _ \<Rightarrow> Some e)"

fun isDelta :: "run_payload \<Rightarrow> bool" where
  "isDelta (TextDelta mid d) = True" | "isDelta (ReasoningDelta d) = True" | "isDelta _ = False"

lemma delta_read: "normalizeOptionalString (Some d) = (if trim d = [] then None else Some (trim d))"
  by (simp add: normalizeOptionalString_def trimmedText_def)

lemma replayed_as:
  assumes "castsFaithful casts" and "okEvent e" and "replayable (ev_payload e) \<or> isDelta (ev_payload e)"
  shows "mapPersistedRunEventToRuntimeRunEvent casts (ev_runId e) (ev_sessionId e) snapshot (storedEvent t e) = replayedAs e"
proof (cases "isDelta (ev_payload e)")
  case True
  then show ?thesis using assms(2)
    by (cases e; cases "ev_payload e")
       (simp_all add: mapPersistedRunEventToRuntimeRunEvent_def Let_def replay_maps replay_read okEvent_def delta_read withPayload_def trimmed_def replayedAs_def)
next
  case False
  then show ?thesis using replayed_event [OF assms(1,2)] assms(3) by (cases "ev_payload e") (simp_all add: replayedAs_def)
qed

text \<open>The events with the times at which they are applied, and what is replayed of them.\<close>

definition timedReplay :: "(nat \<Rightarrow> int) \<Rightarrow> nat \<Rightarrow> run_event list \<Rightarrow> (int \<times> run_event) list" where
  "timedReplay clock n es =
     List.map_filter (\<lambda>(i, e). map_option (Pair (clock i)) (replayedAs e)) (List.enumerate n es)"

lemma timedReplay_simps [simp]:
  "timedReplay clock n [] = []"
  "timedReplay clock n (e # es) =
     (case replayedAs e of None \<Rightarrow> [] | Some e' \<Rightarrow> [(clock n, e')]) @ timedReplay clock (Suc n) es"
  by (simp_all add: timedReplay_def map_filter_simps split: option.split)

lemma timed_events: "map snd (timedReplay clock n es) = List.map_filter replayedAs es"
  by (induction es arbitrary: n) (simp_all add: map_filter_simps split: option.split)

lemma replayed_run:
  assumes "castsFaithful casts" and "list_all (\<lambda>e. okEvent e \<and> (replayable (ev_payload e) \<or> isDelta (ev_payload e))) es"
    and "eventsOfRun replay es"
  shows "fold (replayStep casts replay) (map (\<lambda>(i, e). (clock i, e)) (List.enumerate n (map (storedEvent t) es))) st =
    runEvents st (timedReplay clock n es)"
  using assms(2,3)
proof (induction es arbitrary: n st)
  case (Cons e es)
  then have "replayStep casts replay (clock n, storedEvent t e) st =
      runEvents st (case replayedAs e of None \<Rightarrow> [] | Some e' \<Rightarrow> [(clock n, e')])"
    using replayed_as [OF assms(1), of e "re_historicalSnapshot replay" t]
    by (simp add: replayStep_def eventsOfRun_def split: option.split)
  then show ?case using Cons by (simp add: eventsOfRun_def runEvents_def)
qed simp

text \<open>What is replayed of a valid stream is one.\<close>

lemma replayedAs_keeps:
  assumes "replayedAs e = Some e'"
  shows "ev_runId e' = ev_runId e \<and> ev_sessionId e' = ev_sessionId e \<and> ev_sequence e' = ev_sequence e \<and>
    payloadType (ev_payload e') = payloadType (ev_payload e)"
  using assms by (cases "ev_payload e") (auto simp: withPayload_def replayedAs_def split: if_splits)

lemma terminal_type: "isTerminalRuntimeRunEvent e \<longleftrightarrow> payloadType (ev_payload e) \<in> {TyRunCompleted, TyRunFailed, TyRunCancelled}"
  by (cases "ev_payload e") (simp_all add: isTerminalRuntimeRunEvent_def)

lemma kept_by_filter: "y \<in> set (List.map_filter f xs) \<longleftrightarrow> (\<exists>x \<in> set xs. f x = Some y)"
  by (induction xs) (auto simp: map_filter_simps split: option.split)

lemma map_filter_snoc:
  "List.map_filter f (xs @ [x]) = List.map_filter f xs @ (case f x of None \<Rightarrow> [] | Some y \<Rightarrow> [y])"
  by (induction xs) (auto split: option.split)

lemma filtered_sorted:
  "sorted_wrt (<) (x # map ev_sequence es) \<Longrightarrow> sorted_wrt (<) (x # map ev_sequence (List.map_filter replayedAs es))"
proof (induction es arbitrary: x)
  case (Cons e es)
  then have "x < ev_sequence e" and "sorted_wrt (<) (x # map ev_sequence es)" by simp_all
  moreover have "sorted_wrt (<) (ev_sequence e # map ev_sequence (List.map_filter replayedAs es))"
    using Cons.prems by (intro Cons.IH) simp
  moreover have "sorted_wrt (<) (x # map ev_sequence (List.map_filter replayedAs es))"
    by (rule Cons.IH) fact
  moreover have "ev_sequence y = ev_sequence e" if "replayedAs e = Some y" for y using replayedAs_keeps [OF that] by simp
  ultimately show ?case by (cases "replayedAs e") simp_all
qed (simp add: map_filter_simps)

lemma replayed_valid:
  assumes "validPrefix es"
  shows "validPrefix (List.map_filter replayedAs es)"
proof (cases es)
  case (Cons e0 rest)
  then have "isStartedPayload (ev_payload e0)" using assms by (simp add: validPrefix_def)
  then have e0: "replayedAs e0 = Some e0" by (cases "ev_payload e0") (simp_all add: replayedAs_def)
  then have first: "List.map_filter replayedAs es = e0 # List.map_filter replayedAs rest"
    by (simp add: Cons map_filter_simps)
  have sorted: "sorted_wrt (<) (0 # map ev_sequence (List.map_filter replayedAs es))"
    using assms filtered_sorted by (simp add: validPrefix_def del: sorted_wrt.simps)
  have ids: "ev_runId e = ev_runId e0 \<and> ev_sessionId e = ev_sessionId e0" if "e \<in> set (List.map_filter replayedAs es)" for e
  proof -
    have "\<exists>x \<in> set es. replayedAs x = Some e" using that by (simp only: kept_by_filter)
    then obtain x where "x \<in> set es" and "replayedAs x = Some e" by blast
    then show ?thesis using replayedAs_keeps [of x e] assms Cons by (auto simp: validPrefix_def)
  qed
  have open': "\<not> isTerminalRuntimeRunEvent e" if "e \<in> set (butlast (List.map_filter replayedAs es))" for e
  proof (cases es rule: rev_cases)
    case (snoc xs x)
    then have "e \<in> set (butlast (List.map_filter replayedAs xs @ (case replayedAs x of None \<Rightarrow> [] | Some y \<Rightarrow> [y])))"
      using that by (simp only: map_filter_snoc)
    then have "e \<in> set (List.map_filter replayedAs xs)"
      by (cases "replayedAs x") (simp_all add: in_set_butlastD)
    then have "\<exists>y \<in> set xs. replayedAs y = Some e" by (simp only: kept_by_filter)
    then obtain y where y: "y \<in> set xs" "replayedAs y = Some e" by blast
    then have "\<not> isTerminalRuntimeRunEvent y" using assms snoc by (simp add: validPrefix_def)
    then show ?thesis using replayedAs_keeps [OF y(2)] by (simp add: terminal_type)
  qed (use Cons in simp)
  show ?thesis
    unfolding validPrefix_def
  proof (intro conjI ballI impI)
    show "isStartedPayload (ev_payload (hd (List.map_filter replayedAs es)))"
      using \<open>isStartedPayload (ev_payload e0)\<close> by (simp add: first)
  next
    fix e assume "e \<in> set (List.map_filter replayedAs es)"
    then show "ev_runId e = ev_runId (hd (List.map_filter replayedAs es))"
      and "ev_sessionId e = ev_sessionId (hd (List.map_filter replayedAs es))" using ids by (simp_all only: first list.sel)
  qed (fact sorted, fact open')
qed (simp add: map_filter_simps)

lemma replayed_nonempty: "noEmptyDelta (List.map_filter replayedAs es)"
proof -
  have "\<not> emptyDelta (ev_payload e')" if "replayedAs e = Some e'" for e e'
    using that by (cases "ev_payload e") (auto simp: withPayload_def replayedAs_def split: if_splits)
  then show ?thesis by (auto simp: noEmptyDelta_def kept_by_filter)
qed

text \<open>The answer of a run whose deltas are trimmed one by one.\<close>

definition trimmedAnswer :: "run_event list \<Rightarrow> string" where
  "trimmedAnswer es =
     (let streamed = streamText (\<lambda>p. trim (textDelta p)) es in if streamed = [] then streamText completedText es else streamed)"

lemma streamText_Cons: "streamText f (e # es) = f (ev_payload e) @ streamText f es"
  by (simp add: streamText_def)

lemma streamText_filtered:
  "streamText f (List.map_filter replayedAs (e # es)) =
     (case replayedAs e of None \<Rightarrow> [] | Some e' \<Rightarrow> f (ev_payload e')) @ streamText f (List.map_filter replayedAs es)"
  by (cases "replayedAs e") (simp_all add: streamText_Cons map_filter_simps)

lemma replayed_texts:
  "streamText textDelta (List.map_filter replayedAs es) = streamText (\<lambda>p. trim (textDelta p)) es"
  "streamText completedText (List.map_filter replayedAs es) = streamText completedText es"
proof -
  have one: "(case replayedAs e of None \<Rightarrow> [] | Some e' \<Rightarrow> textDelta (ev_payload e')) = trim (textDelta (ev_payload e))"
    "(case replayedAs e of None \<Rightarrow> [] | Some e' \<Rightarrow> completedText (ev_payload e')) = completedText (ev_payload e)" for e
    by (cases "ev_payload e"; simp add: withPayload_def replayedAs_def)+
  show "streamText textDelta (List.map_filter replayedAs es) = streamText (\<lambda>p. trim (textDelta p)) es"
    and "streamText completedText (List.map_filter replayedAs es) = streamText completedText es"
    by (induction es) (simp_all add: one streamText_Cons streamText_filtered del: map_filter_simps(2))
qed

lemma shown_after:
  assumes "validPrefix (map snd nes)" and "noEmptyDelta (map snd nes)" and "rn_segments st = []"
  shows "shownBy isAssistantItemBody (buildCopilotRunSegmentViewModel (runEvents st nes)) = transcript (map snd nes)"
  using transcript_run.holds_after [OF assms(1,3)] assms(2) by (simp add: shown_assistant saysTranscript_def)

text \<open>
  C14: the replay joins words. Take any beginning of a valid stream whose events the parser accepted, stored as it was streamed, whose
  deltas are not empty (the other events are those that the replay keeps). The live run shows the concatenation of the deltas; the
  replay shows the concatenation of the trimmed deltas, so that every space and line break at the edge of a delta is lost and blank
  deltas are dropped, although the completion of the run holds the right text, which both show only when they streamed nothing.
\<close>

theorem replay_joins_words:
  assumes "castsFaithful casts" and "list_all (\<lambda>e. okEvent e \<and> (replayable (ev_payload e) \<or> isDelta (ev_payload e))) es"
    and "eventsOfRun replay es" and "re_orderedEvents replay = map (storedEvent createdAt) es"
    and "validPrefix es" and "noEmptyDelta es"
  shows "shownBy isAssistantItemBody (liveItems clock started (commitSendState i random sessionId si message opts chat) es) =
      transcript es \<and>
    shownBy isAssistantItemBody (buildCopilotRunSegmentViewModel (replayState casts clock replay)) = trimmedAnswer es"
proof -
  have "map snd (map (\<lambda>(i, e). (clock i, e)) (List.enumerate n es)) = es" for n
    by (induction es arbitrary: n) simp_all
  moreover have "rn_segments (ch_runState (registerStart (Some started) (commitSendState i random sessionId si message opts chat))) = []"
    by (simp add: registered_run committed_run registerCopilotRunStartResponse_def applyRunThinkingMetadataToState_def Let_def
        createStartingCopilotRunState_def createIdleCopilotRunState_def stripReasoningSegments_def)
  ultimately have "shownBy isAssistantItemBody (liveItems clock started (commitSendState i random sessionId si message opts chat) es) =
      transcript es"
    using shown_after [of "map (\<lambda>(i, e). (clock i, e)) (List.enumerate 0 es)"] assms(5,6) by (simp add: liveItems_def received_run)
  moreover have "replayState casts clock replay = runEvents createIdleCopilotRunState (timedReplay clock 0 es)"
    by (simp add: replayState_def assms(4) replayed_run [OF assms(1-3)])
  moreover have "shownBy isAssistantItemBody (buildCopilotRunSegmentViewModel
      (runEvents createIdleCopilotRunState (timedReplay clock 0 es))) = trimmedAnswer es"
    using shown_after [of "timedReplay clock 0 es" createIdleCopilotRunState] replayed_valid [OF assms(5)] replayed_nonempty
    by (simp add: timed_events createIdleCopilotRunState_def transcript_def replayed_texts trimmedAnswer_def Let_def
       )
  ultimately show ?thesis by simp
qed

section \<open>Witnesses\<close>

text \<open>The validators of the stream as the reading of untyped values.\<close>

fun valueOr :: "'a \<Rightarrow> string + 'a \<Rightarrow> 'a" where
  "valueOr d (Inr x) = x" | "valueOr d (Inl e) = d"

definition parsedCasts :: history_casts where
  "parsedCasts =
     \<lparr>hc_selection = \<lambda>v. valueOr None (requireNullableRuntimeThinkingSelection (Some v) []),
      hc_capability = \<lambda>v. valueOr None (requireNullableRuntimeThinkingCapability (Some v) []),
      hc_decision = \<lambda>v. valueOr None (requireNullableRuntimeThinkingSelectionResult (Some v) []),
      hc_basis = \<lambda>v. valueOr None (requireNullableRuntimeReasoningSuppressionBasis (Some v) []),
      hc_level = \<lambda>s. orElse (parseThinkingLevel s) LevelOff\<rparr>"

lemma parsedCasts_faithful: "castsFaithful parsedCasts"
  by (simp add: castsFaithful_def parsedCasts_def nselection_codec.read_back ncapability_codec.read_back nresult_codec.read_back
      nbasis_codec.read_back level_lit.rd_wr)


text \<open>A short run of text deltas, its record, and the send that started it.\<close>

definition sampleEvents :: "string list \<Rightarrow> run_event list" where
  "sampleEvents deltas = map (\<lambda>(n, p). \<lparr>ev_runId = ''r1'', ev_sessionId = ''t1'', ev_sequence = int n, ev_payload = p\<rparr>)
     (List.enumerate 1 (RunStarted ''m1'' emptyMetadata # map (TextDelta ''m1'') deltas @ [RunCompleted
        \<lparr>co_assistantMessageId = ''m1'', co_assistantText = ''Hello world'', co_resolvedModelId = ''m'',
         co_resolvedModelRoute = (buildFallbackRuntimeResolvedModelRoute ''m'')\<lparr>rs_baseUrl := ''u''\<rparr>,
         co_resolvedToolIds = [''tool''], co_requestOptions = []\<rparr>]))"

definition storedReplay :: "run_event list \<Rightarrow> run_replay" where
  "storedReplay es = (sampleReplay ''r1'')\<lparr>re_orderedEvents := map (storedEvent ''t'') es\<rparr>"

definition sampleStarted :: started_run where
  "sampleStarted = \<lparr>sr_runId = ''r1'', sr_threadId = ''t1'', sr_metadata = emptyMetadata\<rparr>"

definition sampleSent :: send_input where
  "sampleSent = \<lparr>si_runtimeUrl = ''u'', si_sessionId = ''t1'', si_agent = ''default'',
     si_message = \<lparr>me_role = ''user'', me_content = ''hi'', me_structuredPayload = None\<rparr>, si_modelRoute = sampleRouteTo ''m'',
     si_thinkingSelection = None, si_thinkingCapabilityOverride = None, si_enabledTools = [], si_toolPermissionPolicy = None,
     si_requestOptions = []\<rparr>"

definition sampleCommitted :: chat_state where
  "sampleCommitted = commitSendState sampleRequest ''x'' ''t1'' sampleSent ''hi'' [] sampleChat"


lemma sampleEvents_stored: "eventsOfRun (storedReplay (sampleEvents ds)) (sampleEvents ds)"
  "re_orderedEvents (storedReplay (sampleEvents ds)) = map (storedEvent ''t'') (sampleEvents ds)"
  by (simp_all add: eventsOfRun_def storedReplay_def sampleReplay_def sampleEvents_def list_all_iff split_def)


theorem replay_joins_words_witness:
  "shownBy isAssistantItemBody (liveItems int sampleStarted sampleCommitted (sampleEvents [''Hello'', '' world''])) = ''Hello world'' \<and>
   shownBy isAssistantItemBody (buildCopilotRunSegmentViewModel
     (replayState parsedCasts int (storedReplay (sampleEvents [''Hello'', '' world''])))) = ''Helloworld''"
proof -
  let ?es = "sampleEvents [''Hello'', '' world'']"
  have "list_all (\<lambda>e. okEvent e \<and> (replayable (ev_payload e) \<or> isDelta (ev_payload e))) ?es"
    by (simp add: sampleEvents_def okEvent_def trimmed_ascii visible_def okMetadata_def emptyMetadata_def okResolvedRoute_def
        okRouteRef_def buildFallbackRuntimeResolvedModelRoute_def)
  moreover have "validPrefix ?es" and "noEmptyDelta ?es"
    by (simp_all add: validPrefix_def noEmptyDelta_def sampleEvents_def isTerminalRuntimeRunEvent_def)
  moreover have "transcript ?es = ''Hello world''"
    by (simp add: sampleEvents_def transcript_def streamText_def)
  moreover have "trimmedAnswer ?es = ''Helloworld''" by code_simp
  ultimately show ?thesis
    using replay_joins_words [OF parsedCasts_faithful _ sampleEvents_stored, of "[''Hello'', '' world'']" int sampleStarted]
    by (simp add: sampleCommitted_def)
qed

end
