(* ===== verification/Mcp_Protocol.thy ===== *)
theory Mcp_Protocol
  imports Js_Text Model_Route Message_Stream Run_Segments
begin

text \<open>
  The protocol of the connectors to external tool servers, \<open>electron/mcp-registry/connectors/protocol.ts\<close> with the types of
  \<open>electron/mcp-registry/types.ts\<close>: JSON-RPC messages as lines, the errors of a connector and the state that it reports.
  \<open>JSON.parse\<close> (\<open>jp\<close>), \<open>JSON.stringify\<close> (\<open>pr\<close>) and the clock (\<open>now\<close>, a time text) are parameters; an operation reads one time.
\<close>

section \<open>Types\<close>

datatype connection_state = ConnDisabled | ConnIdle | ConnConnecting | ConnConnected | ConnDegraded | ConnError

datatype connection_phase = PhaseSpawn | PhaseInitialize | PhaseInitialized | PhaseToolsList | PhaseToolsCall

record mcp_error =
  me_code :: string
  me_message :: string
  me_retryable :: bool
  me_observedAt :: string
  me_details :: "jrecord option"

datatype transport_config =
    StdioConfig string "string list" "string option" "(string \<times> string) list option"
  | HttpConfig string "(string \<times> string) list option" "string option"

record mcp_server =
  ms_serverId :: string
  ms_displayName :: string
  ms_enabled :: bool
  ms_description :: "string option"
  ms_transportConfig :: transport_config
  ms_createdAt :: string
  ms_updatedAt :: string

datatype process_status = ProcessStopped | ProcessStarting | ProcessRunning | ProcessExited

datatype endpoint_status = EndpointOffline | EndpointConnecting | EndpointOnline

record stdio_transport =
  so_processStatus :: process_status
  so_pid :: "int option"
  so_lastExitCode :: "int option"
  so_lastExitSignal :: "string option"

datatype transport_state =
    StdioTransport stdio_transport
  | HttpTransport endpoint_status "int option" bool

record server_state =
  mx_serverId :: string
  mx_enabled :: bool
  mx_connectionState :: connection_state
  mx_toolCount :: int
  mx_lastPhase :: "connection_phase option"
  mx_lastHandshakeAt :: "string option"
  mx_lastCatalogSyncAt :: "string option"
  mx_lastError :: "mcp_error option"
  mx_transportState :: "transport_state option"
  mx_reconnectAttempt :: int

record remote_tool =
  mt_name :: string
  mt_displayName :: string
  mt_description :: "string option"
  mt_inputSchema :: jrecord

record operation_result =
  op_ok :: bool
  op_tools :: "remote_tool list"
  op_state :: server_state
  op_error :: "mcp_error option"
  op_warnings :: "string list"

text \<open>A thrown value: the error of a connector, of Node with its code, an aborted request, another \<open>Error\<close> or another value as text.\<close>

datatype connector_thrown = ThrownConnector mcp_error | ThrownNode string string | ThrownAbort | ThrownError string | ThrownValue string

section \<open>Errors\<close>

definition createMcpErrorSummary :: "string \<Rightarrow> string \<Rightarrow> bool \<Rightarrow> string \<Rightarrow> jrecord option \<Rightarrow> mcp_error" where
  "createMcpErrorSummary code message retryable now details =
     \<lparr>me_code = code, me_message = message, me_retryable = retryable, me_observedAt = now, me_details = details\<rparr>"

definition classifyNodeError :: "string \<Rightarrow> string \<Rightarrow> string \<Rightarrow> string \<Rightarrow> mcp_error" where
  "classifyNodeError code message now fallbackCode =
     (let summary = (\<lambda>c m r. createMcpErrorSummary c m r now (Some [(''nodeCode'', JStr code)])) in
      if code = ''ENOENT'' then summary ''command_not_found'' ''MCP stdio command or working directory was not found.'' False
      else if code = ''EACCES'' \<or> code = ''EPERM''
      then summary ''permission_denied'' ''MCP stdio command could not be started because permission was denied.'' False
      else if code = ''ETIMEDOUT'' then summary ''timeout'' ''The MCP connection attempt timed out.'' True
      else if code \<in> {''ECONNREFUSED'', ''ECONNRESET'', ''ENOTFOUND'', ''EPIPE''}
      then summary ''network_unavailable'' ''The MCP endpoint is temporarily unavailable.'' True
      else summary fallbackCode message True)"

fun normalizeConnectorError :: "connector_thrown \<Rightarrow> string \<Rightarrow> string \<Rightarrow> mcp_error" where
  "normalizeConnectorError (ThrownConnector e) now fallbackCode = e"
| "normalizeConnectorError (ThrownNode code message) now fallbackCode = classifyNodeError code message now fallbackCode"
| "normalizeConnectorError ThrownAbort now fallbackCode =
     createMcpErrorSummary ''timeout'' ''The MCP connection attempt timed out.'' True now None"
| "normalizeConnectorError (ThrownError message) now fallbackCode = createMcpErrorSummary fallbackCode message True now None"
| "normalizeConnectorError (ThrownValue text) now fallbackCode = createMcpErrorSummary fallbackCode text True now None"

definition classifyHttpStatus :: "int \<Rightarrow> string \<Rightarrow> string \<Rightarrow> mcp_error" where
  "classifyHttpStatus status reasonText now =
     (let suffix = (if trim reasonText = [] then [] else '': '' @ trim reasonText);
          summary = (\<lambda>c m r. createMcpErrorSummary c (''MCP HTTP/SSE endpoint '' @ m @ suffix @ ''.'') r now
            (Some [(''status'', JNum (of_int status))]))
      in if status = 401 then summary ''http_unauthorized'' ''rejected authentication with status 401'' False
         else if status = 403 then summary ''http_forbidden'' ''denied access with status 403'' False
         else if status = 404 then summary ''http_not_found'' ''was not found with status 404'' False
         else if status \<ge> 500 then summary ''http_server_error'' (''failed with status '' @ intString status) True
         else summary ''http_status_error'' (''failed with status '' @ intString status) (status = 408 \<or> status = 429))"

definition isRetryableError :: "mcp_error option \<Rightarrow> bool" where
  "isRetryableError e \<longleftrightarrow> (case e of None \<Rightarrow> False | Some e \<Rightarrow> me_retryable e)"

section \<open>JSON-RPC messages\<close>

definition createJsonRpcRequest :: "int \<Rightarrow> string \<Rightarrow> json option \<Rightarrow> jrecord" where
  "createJsonRpcRequest rid method params =
     [(''jsonrpc'', JStr ''2.0''), (''id'', JNum (of_int rid)), (''method'', JStr method)] @
     (case params of None \<Rightarrow> [] | Some p \<Rightarrow> [(''params'', p)])"

definition createJsonRpcNotification :: "string \<Rightarrow> json option \<Rightarrow> jrecord" where
  "createJsonRpcNotification method params =
     [(''jsonrpc'', JStr ''2.0''), (''method'', JStr method)] @ (case params of None \<Rightarrow> [] | Some p \<Rightarrow> [(''params'', p)])"

definition createInitializeParams :: jrecord where
  "createInitializeParams =
     [(''protocolVersion'', JStr ''2024-11-05''), (''capabilities'', JObj []),
      (''clientInfo'', JObj [(''name'', JStr ''CanDue Desktop MCP Registry''), (''version'', JStr ''0.0.0'')])]"

definition encodeJsonRpcMessageLine :: "(json \<Rightarrow> string) \<Rightarrow> jrecord \<Rightarrow> string" where
  "encodeJsonRpcMessageLine pr payload = pr (JObj payload) @ [lf]"

text \<open>\<open>value.id === id\<close>\<close>

definition isJsonRpcResponseForId :: "jrecord \<Rightarrow> int \<Rightarrow> bool" where
  "isJsonRpcResponseForId message rid \<longleftrightarrow> prop_of message ''id'' = Some (JNum (of_int rid))"

text \<open>The property \<open>error\<close> of a response is a record when it is present; a value of another kind has no properties.\<close>

definition remoteErrorField :: "jrecord \<Rightarrow> string \<Rightarrow> json option" where
  "remoteErrorField response k =
     (case prop_of response ''error'' of Some (JObj e) \<Rightarrow> prop_of e k | _ \<Rightarrow> None)"

definition unwrapJsonRpcResponse :: "jrecord \<Rightarrow> string \<Rightarrow> mcp_error + json option" where
  "unwrapJsonRpcResponse response now =
     (if isNullish (prop_of response ''error'') then Inr (prop_of response ''result'')
      else Inl (createMcpErrorSummary ''mcp_remote_error''
        (case remoteErrorField response ''message'' of
           Some (JStr m) \<Rightarrow> if trim m \<noteq> [] then m else ''The MCP server returned a JSON-RPC error response.''
         | _ \<Rightarrow> ''The MCP server returned a JSON-RPC error response.'') True now
        (Some [(''remoteCode'', case remoteErrorField response ''code'' of None \<Rightarrow> JNull | Some c \<Rightarrow> c)])))"

section \<open>The line parser\<close>

text \<open>
  \<open>Buffer.toString('utf8')\<close>: sequences of bytes that form a character are kept, and the longest start of one that is broken off is
  replaced by U+FFFD.
\<close>

definition replacementChar :: string where
  "replacementChar = [CHR 0xEF, CHR 0xBF, CHR 0xBD]"

text \<open>How many bytes continue the character that \<open>c\<close> starts.\<close>

definition continued :: "char \<Rightarrow> string \<Rightarrow> nat" where
  "continued c s =
     (case (continuationCount c, s) of
        (Some n, d # ds) \<Rightarrow>
          if isContinuation d \<and> secondByteOk c d then Suc (length (takeWhile isContinuation (take (n - 1) ds))) else 0
      | _ \<Rightarrow> 0)"

function utf8Decode :: "string \<Rightarrow> string" where
  "utf8Decode [] = []"
| "utf8Decode (c # s) =
     (if isAsciiByte c then c # utf8Decode s
      else if continuationCount c = Some (continued c s) then c # take (continued c s) s @ utf8Decode (drop (continued c s) s)
      else replacementChar @ utf8Decode (drop (continued c s) s))"
  by pat_completeness auto
termination by (relation "measure length") auto

text \<open>\<open>line.length > 240 ? line.slice(0, 237) + '...' : line\<close>\<close>

definition createJsonRpcLineParseError :: "string \<Rightarrow> string \<Rightarrow> mcp_error" where
  "createJsonRpcLineParseError line now =
     createMcpErrorSummary ''protocol_parse_failed'' ''The MCP stdio server returned unrecognized stdout output.'' False now
       (Some [(''stdoutLine'', JStr (if utf16Length line > 240 then utf16Take 237 line @ ''...'' else line))])"

definition dropCr :: "string \<Rightarrow> string" where
  "dropCr line = (if line \<noteq> [] \<and> last line = cr then butlast line else line)"

lemma rest_shorter: "lf \<in> set buffer \<Longrightarrow> length (tl (dropWhile (\<lambda>c. c \<noteq> lf) buffer)) < length buffer"
  by (induction buffer) (auto split: if_splits)

text \<open>The loop of \<open>push\<close>: the buffer that is left and the messages, or the error that is thrown.\<close>

function drainLines :: "(string \<Rightarrow> string + json) \<Rightarrow> string \<Rightarrow> string \<Rightarrow> string \<times> (mcp_error + jrecord list)" where
  "drainLines jp now buffer =
     (if lf \<notin> set buffer then (buffer, Inr [])
      else
        (let line = dropCr (takeWhile (\<lambda>c. c \<noteq> lf) buffer); rest = tl (dropWhile (\<lambda>c. c \<noteq> lf) buffer) in
         if trim line = [] then drainLines jp now rest
         else (case jp line of
             Inr (JObj message) \<Rightarrow>
               (case drainLines jp now rest of
                  (left, Inr messages) \<Rightarrow> (left, Inr (message # messages))
                | (left, Inl e) \<Rightarrow> (left, Inl e))
           | _ \<Rightarrow> (rest, Inl (createJsonRpcLineParseError line now)))))"
  by pat_completeness auto

termination
  by (relation "measure (\<lambda>(jp, now, buffer). length buffer)") (use rest_shorter in auto)

declare drainLines.simps [simp del]

definition pushChunk :: "(string \<Rightarrow> string + json) \<Rightarrow> string \<Rightarrow> string \<Rightarrow> string \<Rightarrow> string \<times> (mcp_error + jrecord list)" where
  "pushChunk jp now buffer chunk = drainLines jp now (buffer @ utf8Decode chunk)"

section \<open>The state of a connector\<close>

definition createDefaultTransportState :: "mcp_server \<Rightarrow> transport_state" where
  "createDefaultTransportState server =
     (case ms_transportConfig server of
        StdioConfig _ _ _ _ \<Rightarrow>
          StdioTransport \<lparr>so_processStatus = ProcessStopped, so_pid = None, so_lastExitCode = None, so_lastExitSignal = None\<rparr>
      | HttpConfig _ _ _ \<Rightarrow> HttpTransport EndpointOffline None False)"

text \<open>\<open>CreateConnectorStateOptions\<close>: a transport state may be absent or \<open>null\<close>.\<close>

record state_options =
  xo_transportState :: "transport_state option option"
  xo_lastError :: "mcp_error option"
  xo_reconnectAttempt :: int
  xo_lastPhase :: "connection_phase option"
  xo_lastHandshakeAt :: "string option"
  xo_lastCatalogSyncAt :: "string option"

definition createConnectorState :: "mcp_server \<Rightarrow> connection_state \<Rightarrow> int \<Rightarrow> state_options \<Rightarrow> server_state" where
  "createConnectorState server connectionState toolCount options =
     (let resolved = (if ms_enabled server then connectionState else ConnDisabled) in
      \<lparr>mx_serverId = ms_serverId server, mx_enabled = ms_enabled server, mx_connectionState = resolved,
       mx_toolCount = (if resolved = ConnDisabled then 0 else max 0 toolCount), mx_lastPhase = xo_lastPhase options,
       mx_lastHandshakeAt = xo_lastHandshakeAt options, mx_lastCatalogSyncAt = xo_lastCatalogSyncAt options,
       mx_lastError = xo_lastError options,
       mx_transportState = (case xo_transportState options of None \<Rightarrow> Some (createDefaultTransportState server) | Some t \<Rightarrow> t),
       mx_reconnectAttempt = xo_reconnectAttempt options\<rparr>)"

definition createConnectorSuccess ::
  "mcp_server \<Rightarrow> remote_tool list \<Rightarrow> string \<Rightarrow> transport_state \<Rightarrow> string list \<Rightarrow> string option \<Rightarrow> string option \<Rightarrow> operation_result" where
  "createConnectorSuccess server tools now transport warnings lastHandshakeAt lastCatalogSyncAt =
     \<lparr>op_ok = True, op_tools = tools,
      op_state = createConnectorState server ConnConnected (int (length tools))
        \<lparr>xo_transportState = Some (Some transport), xo_lastError = None, xo_reconnectAttempt = 0, xo_lastPhase = None,
         xo_lastHandshakeAt = Some (orElse lastHandshakeAt now), xo_lastCatalogSyncAt = Some (orElse lastCatalogSyncAt now)\<rparr>,
      op_error = None, op_warnings = warnings\<rparr>"

record failure_options =
  fu_transportState :: transport_state
  fu_previousTools :: "remote_tool list"
  fu_reconnectAttempt :: int
  fu_connectionState :: "connection_state option"
  fu_lastPhase :: "connection_phase option"
  fu_lastHandshakeAt :: "string option"
  fu_lastCatalogSyncAt :: "string option"
  fu_warnings :: "string list"

definition createConnectorFailure :: "mcp_server \<Rightarrow> mcp_error \<Rightarrow> failure_options \<Rightarrow> operation_result" where
  "createConnectorFailure server error options =
     (let tools = fu_previousTools options;
          connectionState = orElse (fu_connectionState options)
            (if tools \<noteq> [] \<and> me_retryable error then ConnDegraded else ConnError)
      in \<lparr>op_ok = False, op_tools = tools,
          op_state = createConnectorState server connectionState (int (length tools))
            \<lparr>xo_transportState = Some (Some (fu_transportState options)), xo_lastError = Some error,
             xo_reconnectAttempt = fu_reconnectAttempt options, xo_lastPhase = fu_lastPhase options,
             xo_lastHandshakeAt = fu_lastHandshakeAt options, xo_lastCatalogSyncAt = fu_lastCatalogSyncAt options\<rparr>,
          op_error = Some error, op_warnings = fu_warnings options\<rparr>)"

section \<open>Results of the server\<close>

definition trimmedIf :: "json option \<Rightarrow> string option" where
  "trimmedIf v = (case v of Some (JStr s) \<Rightarrow> if trim s \<noteq> [] then Some (trim s) else None | _ \<Rightarrow> None)"

definition normalizeToolEntry :: "string \<Rightarrow> json \<Rightarrow> nat \<Rightarrow> mcp_error + remote_tool" where
  "normalizeToolEntry now entry index =
     (let failed = Inl (createMcpErrorSummary ''protocol_parse_failed''
            (''The MCP server returned an invalid tool entry at index '' @ intString (int index) @ ''.'') False now None)
      in case entry of
           JObj r \<Rightarrow>
             (case trimmedIf (prop_of r ''name'') of
                None \<Rightarrow> failed
              | Some name \<Rightarrow> Inr
                  \<lparr>mt_name = name, mt_displayName = orElse (trimmedIf (prop_of r ''title'')) name,
                   mt_description = trimmedIf (prop_of r ''description''),
                   mt_inputSchema = (case prop_of r ''inputSchema'' of Some (JObj i) \<Rightarrow> i | _ \<Rightarrow> [])\<rparr>)
         | _ \<Rightarrow> failed)"

text \<open>\<open>tools.map\<close> with the index: the first entry that throws decides.\<close>

fun normalizeEntries :: "string \<Rightarrow> nat \<Rightarrow> json list \<Rightarrow> mcp_error + remote_tool list" where
  "normalizeEntries now index [] = Inr []"
| "normalizeEntries now index (e # es) =
     (case normalizeToolEntry now e index of
        Inl err \<Rightarrow> Inl err
      | Inr t \<Rightarrow> (case normalizeEntries now (Suc index) es of Inl err \<Rightarrow> Inl err | Inr ts \<Rightarrow> Inr (t # ts)))"

fun duplicateName :: "string list \<Rightarrow> remote_tool list \<Rightarrow> string option" where
  "duplicateName seen [] = None"
| "duplicateName seen (t # ts) = (if mt_name t \<in> set seen then Some (mt_name t) else duplicateName (mt_name t # seen) ts)"

definition ensureUniqueToolNames :: "string \<Rightarrow> remote_tool list \<Rightarrow> mcp_error + remote_tool list" where
  "ensureUniqueToolNames now tools =
     (case duplicateName [] tools of
        None \<Rightarrow> Inr tools
      | Some name \<Rightarrow> Inl (createMcpErrorSummary ''protocol_parse_failed''
          (''The MCP server returned duplicate tool metadata for '' @ [CHR 0x27] @ name @ [CHR 0x27, CHR ''.'']) False now
          (Some [(''remoteToolName'', JStr name)])))"

definition normalizeToolsListResult :: "string \<Rightarrow> json option \<Rightarrow> mcp_error + remote_tool list" where
  "normalizeToolsListResult now v =
     (let failed = Inl (createMcpErrorSummary ''protocol_parse_failed'' ''The MCP server returned an invalid tools/list result.'' False now None)
      in case v of
           Some (JObj r) \<Rightarrow>
             (case prop_of r ''tools'' of
                Some (JArr entries) \<Rightarrow>
                  (case normalizeEntries now 0 entries of
                     Inl e \<Rightarrow> Inl e | Inr tools \<Rightarrow> ensureUniqueToolNames now tools)
              | _ \<Rightarrow> failed)
         | _ \<Rightarrow> failed)"

fun extractToolCallErrorMessage :: "json list \<Rightarrow> string" where
  "extractToolCallErrorMessage [] = ''The MCP tool returned an error result.''"
| "extractToolCallErrorMessage (entry # entries) =
     (case entry of
        JObj r \<Rightarrow>
          (case (prop_of r ''type'', trimmedIf (prop_of r ''text'')) of
             (Some (JStr ty), Some text) \<Rightarrow> if ty = ''text'' then text else extractToolCallErrorMessage entries
           | _ \<Rightarrow> extractToolCallErrorMessage entries)
      | _ \<Rightarrow> extractToolCallErrorMessage entries)"

record tool_call =
  tl_toolId :: string
  tl_serverId :: string
  tl_remoteToolName :: string
  tl_arguments :: jrecord
  tl_snapshotRevision :: "int option"

datatype call_outcome = CallSucceeded "json list" "json option" | CallFailed mcp_error

record call_result =
  cl_toolId :: string
  cl_serverId :: string
  cl_remoteToolName :: string
  cl_snapshotRevision :: "int option"
  cl_outcome :: call_outcome

definition callResult :: "tool_call \<Rightarrow> string \<Rightarrow> call_outcome \<Rightarrow> call_result" where
  "callResult request serverId outcome =
     \<lparr>cl_toolId = tl_toolId request, cl_serverId = serverId, cl_remoteToolName = tl_remoteToolName request,
      cl_snapshotRevision = tl_snapshotRevision request, cl_outcome = outcome\<rparr>"

definition normalizeToolsCallResult :: "json option \<Rightarrow> tool_call \<Rightarrow> mcp_server \<Rightarrow> string \<Rightarrow> call_result" where
  "normalizeToolsCallResult v request server now =
     callResult request (ms_serverId server)
       (case v of
          Some (JObj r) \<Rightarrow>
            (let content = (case prop_of r ''content'' of Some (JArr xs) \<Rightarrow> xs | _ \<Rightarrow> []);
                 structured = prop_of r ''structuredContent''
             in if prop_of r ''isError'' = Some (JBool True)
                then CallFailed (createMcpErrorSummary ''mcp_remote_error'' (extractToolCallErrorMessage content) False now
                  (Some [(''isError'', JBool True), (''structuredContent'', orElse structured JNull)]))
                else CallSucceeded content structured)
        | _ \<Rightarrow> CallFailed (createMcpErrorSummary ''protocol_parse_failed'' ''The MCP server returned an invalid tools/call result.''
            False now None))"

section \<open>Lines and chunks\<close>

text \<open>Bytes that are complete characters.\<close>

function wholeChars :: "string \<Rightarrow> bool" where
  "wholeChars [] \<longleftrightarrow> True"
| "wholeChars (c # s) \<longleftrightarrow>
     (if isAsciiByte c then wholeChars s
      else continuationCount c = Some (continued c s) \<and> wholeChars (drop (continued c s) s))"
  by pat_completeness auto
termination by (relation "measure length") auto

lemma whole_decode: "wholeChars s \<Longrightarrow> utf8Decode s = s"
  by (induction s rule: wholeChars.induct) (auto split: if_splits)

lemma ascii_whole: "list_all isAsciiByte s \<Longrightarrow> wholeChars s"
  by (induction s) auto

lemma drain_none: "lf \<notin> set b \<Longrightarrow> drainLines jp now b = (b, Inr [])"
  by (subst drainLines.simps) simp

lemma first_line_append:
  "lf \<in> set x \<Longrightarrow> takeWhile (\<lambda>c. c \<noteq> lf) (x @ y) = takeWhile (\<lambda>c. c \<noteq> lf) x"
  "lf \<in> set x \<Longrightarrow> tl (dropWhile (\<lambda>c. c \<noteq> lf) (x @ y)) = tl (dropWhile (\<lambda>c. c \<noteq> lf) x) @ y"
  by (induction x) auto

text \<open>One turn of the loop.\<close>

lemma drain_cases:
  obtains (noline) "lf \<notin> set x" "\<And>y. lf \<notin> set y \<Longrightarrow> drainLines jp now (x @ y) = (x @ y, Inr [])"
  | (blank) r where "length r < length x" "\<And>y. drainLines jp now (x @ y) = drainLines jp now (r @ y)"
  | (message) r m where "length r < length x"
      "\<And>y. drainLines jp now (x @ y) =
         (case drainLines jp now (r @ y) of (left, Inr ms) \<Rightarrow> (left, Inr (m # ms)) | (left, Inl e) \<Rightarrow> (left, Inl e))"
  | (broken) r e where "length r < length x" "\<And>y. drainLines jp now (x @ y) = (r @ y, Inl e)"
proof (cases "lf \<in> set x")
  case False
  then show ?thesis by (intro that(1)) (simp_all add: drain_none)
next
  case True
  let ?line = "dropCr (takeWhile (\<lambda>c. c \<noteq> lf) x)" and ?rest = "tl (dropWhile (\<lambda>c. c \<noteq> lf) x)"
  have step: "drainLines jp now (x @ y) =
      (if trim ?line = [] then drainLines jp now (?rest @ y)
       else (case jp ?line of
           Inr (JObj message) \<Rightarrow>
             (case drainLines jp now (?rest @ y) of
                (left, Inr messages) \<Rightarrow> (left, Inr (message # messages)) | (left, Inl e) \<Rightarrow> (left, Inl e))
         | _ \<Rightarrow> (?rest @ y, Inl (createJsonRpcLineParseError ?line now))))" for y
    using True by (subst drainLines.simps) (simp add: first_line_append Let_def)
  consider "trim ?line = []" | m where "trim ?line \<noteq> []" "jp ?line = Inr (JObj m)"
    | "trim ?line \<noteq> []" "\<forall>y (z :: string \<times> (mcp_error + jrecord list)). (case jp ?line of Inr (JObj message) \<Rightarrow> y message | _ \<Rightarrow> z) = z"
    by (cases "jp ?line"; cases "projr (jp ?line)") auto
  then show ?thesis
  proof cases
    case 1
    then show ?thesis using step rest_shorter [OF True] by (intro that(2) [of ?rest]) simp_all
  next
    case 2
    then show ?thesis using step rest_shorter [OF True] by (intro that(3) [of ?rest m]) simp_all
  next
    case 3
    have "drainLines jp now (x @ y) = (?rest @ y, Inl (createJsonRpcLineParseError ?line now))" for y
      unfolding step if_not_P [OF 3(1)] by (rule 3(2) [rule_format])
    then show ?thesis using rest_shorter [OF True] by (intro that(4) [of ?rest])
  qed
qed

text \<open>What a chunk does, split in two: the second part continues with the buffer that the first one left.\<close>

lemma drain_append:
  "drainLines jp now (x @ y) =
     (case drainLines jp now x of
        (b, Inl e) \<Rightarrow> (b @ y, Inl e)
      | (b, Inr ms) \<Rightarrow>
          (case drainLines jp now (b @ y) of (b', Inl e) \<Rightarrow> (b', Inl e) | (b', Inr ms') \<Rightarrow> (b', Inr (ms @ ms'))))"
proof (induction x rule: length_induct)
  case (1 x)
  show ?case
  proof (cases rule: drain_cases [of x jp now])
    case noline
    then show ?thesis by (simp add: drain_none split: prod.split sum.split)
  next
    case (blank r)
    then show ?thesis using 1 [rule_format, of r] blank(2) [of "[]"] by simp
  next
    case (message r m)
    then show ?thesis using 1 [rule_format, of r] message(2) [of "[]"] by (simp split: prod.split sum.split)
  next
    case (broken r e)
    then show ?thesis using broken(2) [of "[]"] by simp
  qed
qed

text \<open>The chunks of a stream, pushed one after the other until one throws.\<close>

fun pushAll :: "(string \<Rightarrow> string + json) \<Rightarrow> string \<Rightarrow> string \<Rightarrow> string list \<Rightarrow> string \<times> (mcp_error + jrecord list)" where
  "pushAll jp now b [] = (b, Inr [])"
| "pushAll jp now b (c # cs) =
     (case pushChunk jp now b c of
        (b', Inl e) \<Rightarrow> (b', Inl e)
      | (b', Inr ms) \<Rightarrow>
          (case pushAll jp now b' cs of (b'', Inl e) \<Rightarrow> (b'', Inl e) | (b'', Inr ms') \<Rightarrow> (b'', Inr (ms @ ms'))))"

lemma drain_left: "drainLines jp now x = (b, Inr ms) \<Longrightarrow> lf \<notin> set b"
proof (induction x arbitrary: ms rule: length_induct)
  case (1 x)
  show ?case
  proof (cases rule: drain_cases [of x jp now])
    case noline
    then show ?thesis using 1(2) by (simp add: drain_none)
  next
    case (blank r)
    then show ?thesis using 1(1) [rule_format, OF blank(1), of ms] 1(2) blank(2) [of "[]"] by simp
  next
    case (message r m)
    then obtain ms' where "drainLines jp now r = (b, Inr ms')" using 1(2) message(2) [of "[]"] by (auto split: prod.splits sum.splits)
    then show ?thesis using 1(1) [rule_format, OF message(1)] by blast
  next
    case (broken r e)
    then show ?thesis using 1(2) broken(2) [of "[]"] by simp
  qed
qed

lemma pushAll_drain:
  "list_all wholeChars cs \<Longrightarrow> lf \<notin> set b \<Longrightarrow>
   pushAll jp now b cs = (left, Inr ms) \<longleftrightarrow> drainLines jp now (b @ concat cs) = (left, Inr ms)"
proof (induction cs arbitrary: b ms)
  case Nil
  then show ?case by (simp add: drain_none)
next
  case (Cons c cs)
  obtain b' r where d: "drainLines jp now (b @ c) = (b', r)" by (cases "drainLines jp now (b @ c)")
  have chunk: "pushChunk jp now b c = (b', r)" using Cons.prems d by (simp add: pushChunk_def whole_decode)
  show ?case
  proof (cases r)
    case (Inl e)
    then show ?thesis using chunk d drain_append [of jp now "b @ c" "concat cs"] by simp
  next
    case (Inr ms')
    then have "lf \<notin> set b'" using d drain_left by blast
    then have "pushAll jp now b' cs = (left, Inr ms'') \<longleftrightarrow> drainLines jp now (b' @ concat cs) = (left, Inr ms'')" for ms''
      using Cons by simp
    moreover obtain p q where "pushAll jp now b' cs = (p, q)" by (cases "pushAll jp now b' cs")
    moreover obtain p' q' where "drainLines jp now (b' @ concat cs) = (p', q')" by (cases "drainLines jp now (b' @ concat cs)")
    ultimately show ?thesis using Inr chunk d drain_append [of jp now "b @ c" "concat cs"]
      by (cases q; cases q') auto
  qed
qed

text \<open>
  How the output of a server is cut into chunks does not matter. When the chunks are whole characters, the parser delivers the
  messages and keeps the rest of the text exactly as it does for all of it at once.
\<close>

theorem lines_chunking_irrelevant:
  assumes "list_all wholeChars cs"
  shows "pushAll jp now [] cs = (left, Inr ms) \<longleftrightarrow> drainLines jp now (concat cs) = (left, Inr ms)"
  using pushAll_drain [OF assms, of "[]"] by simp

text \<open>A message whose text can be sent on a line.\<close>

definition lineText :: "(string \<Rightarrow> string + json) \<Rightarrow> (json \<Rightarrow> string) \<Rightarrow> jrecord \<Rightarrow> bool" where
  "lineText jp pr m \<longleftrightarrow> lf \<notin> set (pr (JObj m)) \<and> trim (pr (JObj m)) \<noteq> [] \<and> dropCr (pr (JObj m)) = pr (JObj m) \<and>
     jp (pr (JObj m)) = Inr (JObj m)"

lemma drain_line:
  assumes "lineText jp pr m"
  shows "drainLines jp now (encodeJsonRpcMessageLine pr m @ s) =
    (case drainLines jp now s of (left, Inr ms) \<Rightarrow> (left, Inr (m # ms)) | (left, Inl e) \<Rightarrow> (left, Inl e))"
proof -
  have "takeWhile (\<lambda>c. c \<noteq> lf) (pr (JObj m) @ lf # s) = pr (JObj m)" "dropWhile (\<lambda>c. c \<noteq> lf) (pr (JObj m) @ lf # s) = lf # s"
    using assms by (auto simp: lineText_def takeWhile_append2 dropWhile_append2 takeWhile_tail dropWhile_append)
  then show ?thesis using assms by (subst drainLines.simps) (simp add: encodeJsonRpcMessageLine_def lineText_def Let_def)
qed

lemma drain_lines:
  "list_all (lineText jp pr) ms \<Longrightarrow> drainLines jp now (concat (map (encodeJsonRpcMessageLine pr) ms)) = ([], Inr ms)"
  by (induction ms) (simp_all add: drain_none drain_line)

text \<open>
  C29: messages come back unchanged: lines that were encoded, cut into chunks of whole characters, are parsed to the messages, and nothing
  is left, provided that the texts of the messages contain no line feed, are not blank and do not end in a carriage return.
\<close>

theorem messages_roundtrip:
  assumes "list_all (lineText jp pr) ms" and "list_all wholeChars cs" and "concat cs = concat (map (encodeJsonRpcMessageLine pr) ms)"
  shows "pushAll jp now [] cs = ([], Inr ms)"
  using pushAll_drain [OF assms(2), of "[]"] drain_lines [OF assms(1)] assms(3) by simp

text \<open>
  A character that is split between two chunks is lost. Each chunk is decoded by itself, so that the bytes of one Chinese
  character, which arrive in two reads, become three replacement characters in the message.
\<close>

theorem split_character_garbled:
  "snd (pushAll (\<lambda>s. Inr (JObj [(''text'', JStr s)])) now [] [[CHR 0xE4, CHR 0xB8, CHR 0xAD] @ [lf]]) = Inr [[(''text'', JStr [CHR 0xE4, CHR 0xB8, CHR 0xAD])]] \<and>
   snd (pushAll (\<lambda>s. Inr (JObj [(''text'', JStr s)])) now [] [take 1 [CHR 0xE4, CHR 0xB8, CHR 0xAD], drop 1 [CHR 0xE4, CHR 0xB8, CHR 0xAD] @ [lf]]) =
     Inr [[(''text'', JStr (replacementChar @ replacementChar @ replacementChar))]]"
  by code_simp

section \<open>Reported states and catalogs\<close>

lemma duplicateName_None: "duplicateName seen ts = None \<longleftrightarrow> distinct (map mt_name ts) \<and> set seen \<inter> set (map mt_name ts) = {}"
  by (induction seen ts rule: duplicateName.induct) auto

lemma trimmedIf_trimmed: "trimmedIf v = Some s \<Longrightarrow> trimmed s"
  by (auto simp: trimmedIf_def trimmed_def split: option.splits json.splits if_splits)

lemma entries_trimmed: "normalizeEntries now i es = Inr ts \<Longrightarrow> length ts = length es \<and> (\<forall>t \<in> set ts. trimmed (mt_name t))"
proof (induction es arbitrary: i ts)
  case (Cons e es)
  obtain t us where t: "normalizeToolEntry now e i = Inr t" "normalizeEntries now (Suc i) es = Inr us" "ts = t # us"
    using Cons.prems by (auto split: sum.splits)
  then have "trimmed (mt_name t)"
    by (auto simp: normalizeToolEntry_def Let_def trimmedIf_trimmed split: json.splits option.splits)
  then show ?case using Cons.IH [OF t(2)] t(3) by simp
qed simp

text \<open>
  A catalog that is accepted is in order: whatever the server answers, the tools have distinct names that are trimmed and not
  empty, one for each entry.
\<close>

theorem catalog_names_distinct:
  assumes "normalizeToolsListResult now v = Inr tools"
  shows "distinct (map mt_name tools) \<and> (\<forall>t \<in> set tools. trimmed (mt_name t)) \<and>
    (\<exists>r es. v = Some (JObj r) \<and> prop_of r ''tools'' = Some (JArr es) \<and> length es = length tools)"
proof -
  obtain r es ts where r: "v = Some (JObj r)" "prop_of r ''tools'' = Some (JArr es)" "normalizeEntries now 0 es = Inr ts"
      "ensureUniqueToolNames now ts = Inr tools"
    using assms by (auto simp: normalizeToolsListResult_def Let_def split: option.splits json.splits sum.splits)
  then have "ts = tools" "duplicateName [] ts = None" by (auto simp: ensureUniqueToolNames_def split: option.splits)
  then show ?thesis using r entries_trimmed [OF r(3)] by (auto simp: duplicateName_None)
qed


section \<open>Witnesses\<close>

definition sampleMessage :: jrecord where
  "sampleMessage = createJsonRpcRequest 1 ''tools/list'' None"

definition sampleToolsResult :: "json option" where
  "sampleToolsResult = Some (JObj [(''tools'', JArr [JObj [(''name'', JStr '' echo '')], JObj [(''name'', JStr ''add'')]])])"

theorem lines_chunking_irrelevant_witness:
  "pushAll (\<lambda>s. Inr (JObj [(''t'', JStr s)])) ''t'' [] [''a'', ''b'' @ [lf], ''c''] = (''c'', Inr [[(''t'', JStr ''ab'')]])"
proof -
  have "drainLines (\<lambda>s. Inr (JObj [(''t'', JStr s)])) ''t'' (concat [''a'', ''b'' @ [lf], ''c'']) = (''c'', Inr [[(''t'', JStr ''ab'')]])"
    by code_simp
  moreover have "list_all wholeChars [''a'', ''b'' @ [lf], ''c'']" by code_simp
  ultimately show ?thesis using lines_chunking_irrelevant [of "[''a'', ''b'' @ [lf], ''c'']"] by blast
qed

theorem messages_roundtrip_witness:
  "pushAll (\<lambda>_. Inr (JObj sampleMessage)) ''t'' [] [''{'', ''}'' @ [lf]] = ([], Inr [sampleMessage])"
proof (rule messages_roundtrip [where pr = "\<lambda>_. ''{}''"])
  show "list_all (lineText (\<lambda>_. Inr (JObj sampleMessage)) (\<lambda>_. ''{}'')) [sampleMessage]" by code_simp
  show "list_all wholeChars [''{'', ''}'' @ [lf]]" by code_simp
  show "concat [''{'', ''}'' @ [lf]] = concat (map (encodeJsonRpcMessageLine (\<lambda>_. ''{}'')) [sampleMessage])" by code_simp
qed

theorem catalog_names_distinct_witness:
  "\<exists>tools. normalizeToolsListResult ''t'' sampleToolsResult = Inr tools \<and> map mt_name tools = [''echo'', ''add''] \<and>
     distinct (map mt_name tools)"
proof -
  obtain tools where tools: "normalizeToolsListResult ''t'' sampleToolsResult = Inr tools" "map mt_name tools = [''echo'', ''add'']"
    by (rule that [of "[\<lparr>mt_name = ''echo'', mt_displayName = ''echo'', mt_description = None, mt_inputSchema = []\<rparr>,
        \<lparr>mt_name = ''add'', mt_displayName = ''add'', mt_description = None, mt_inputSchema = []\<rparr>]"]) code_simp+
  then show ?thesis using catalog_names_distinct [OF tools(1)] by (intro exI [of _ tools]) simp
qed


end
