(* ===== verification/Mcp_Snapshot.thy ===== *)
theory Mcp_Snapshot
  imports Mcp_Protocol State_Service Thinking_Display "HOL-Library.Word"
begin

text \<open>
  The capability snapshot of the external tool servers, \<open>electron/mcp-registry/snapshot.ts\<close>: the identifiers of tools with their
  hash, the snapshot of servers, tools and groups, the check that nothing secret is in it, and the sink that writes it into the
  document of the state service. \<open>localeCompare\<close> (\<open>lc\<close>) and \<open>JSON.stringify\<close> are parameters; the copies that the code makes of records
  are equal to them.
\<close>

section \<open>Identifiers\<close>

definition slugChar :: "char \<Rightarrow> bool" where
  "slugChar c \<longleftrightarrow> (let n = (of_char c :: nat) in (97 \<le> n \<and> n \<le> 122) \<or> (48 \<le> n \<and> n \<le> 57))"

text \<open>\<open>s.replace(/[...]+/g, r)\<close> for a class \<open>P\<close> of characters and one character \<open>r\<close>; \<open>inside\<close> is true within a match.\<close>

fun replaceRuns :: "(char \<Rightarrow> bool) \<Rightarrow> char \<Rightarrow> bool \<Rightarrow> string \<Rightarrow> string" where
  "replaceRuns P r inside [] = []"
| "replaceRuns P r inside (c # s) =
     (if \<not> P c then c # replaceRuns P r False s
      else if inside then replaceRuns P r True s
      else r # replaceRuns P r True s)"

text \<open>\<open>s.replace(/^-+|-+$/g, '')\<close>\<close>

definition stripDashes :: "string \<Rightarrow> string" where
  "stripDashes s = rev (dropWhile (\<lambda>c. c = CHR ''-'') (rev (dropWhile (\<lambda>c. c = CHR ''-'') s)))"

definition normalizeMcpToolSegment :: "string \<Rightarrow> string" where
  "normalizeMcpToolSegment v =
     (let normalized = stripDashes (replaceRuns (\<lambda>c. \<not> slugChar c) (CHR ''-'') False (toLowerCase (trim v)))
      in if normalized = [] then ''unnamed'' else normalized)"

text \<open>The code units of a string: its characters below U+10000, and two surrogates for each of the others.\<close>

definition surrogates :: "nat \<Rightarrow> nat list" where
  "surrogates p = [55296 + (p - 65536) div 1024, 56320 + (p - 65536) mod 1024]"

fun utf16Codes :: "string \<Rightarrow> nat list" where
  "utf16Codes [] = []"
| "utf16Codes (c # s) =
     (let n = (of_char c :: nat); low = (\<lambda>d. (of_char d :: nat) mod 64) in
      if n < 192 then n # utf16Codes s
      else if n < 224 then (case s of d # s' \<Rightarrow> (n mod 32 * 64 + low d) # utf16Codes s' | _ \<Rightarrow> [])
      else if n < 240 then (case s of d # e # s' \<Rightarrow> (n mod 16 * 4096 + low d * 64 + low e) # utf16Codes s' | _ \<Rightarrow> [])
      else (case s of d # e # f # s' \<Rightarrow>
              surrogates (n mod 8 * 262144 + low d * 4096 + low e * 64 + low f) @ utf16Codes s' | _ \<Rightarrow> []))"

text \<open>The loop of the hash: \<open>(hash + code * (index + 1)) >>> 0\<close>; the numbers stay below \<open>2 ^ 53\<close>, so that the sum is exact.\<close>

fun hashLoop :: "nat \<Rightarrow> 32 word \<Rightarrow> nat list \<Rightarrow> 32 word" where
  "hashLoop index hash [] = hash"
| "hashLoop index hash (code # codes) = hashLoop (index + 1) (hash + of_nat (code * (index + 1))) codes"

fun hexText :: "nat \<Rightarrow> string" where
  "hexText n = (if n < 16 then [hexDigit n] else hexText (n div 16) @ [hexDigit (n mod 16)])"

declare hexText.simps [simp del]

definition padStart :: "nat \<Rightarrow> string \<Rightarrow> string" where
  "padStart k s = replicate (k - length s) (CHR ''0'') @ s"

definition lastChars :: "nat \<Rightarrow> string \<Rightarrow> string" where
  "lastChars k s = drop (length s - k) s"

definition createDeterministicHash :: "string \<Rightarrow> string" where
  "createDeterministicHash input = lastChars 8 (padStart 8 (hexText (unat (hashLoop 0 0 (utf16Codes input)))))"

definition MCP_TOOL_ID_PREFIX :: string where
  "MCP_TOOL_ID_PREFIX = ''mcp''"

definition buildMcpToolId :: "string \<Rightarrow> string \<Rightarrow> string" where
  "buildMcpToolId serverId remoteToolName =
     MCP_TOOL_ID_PREFIX @ ''.'' @ normalizeMcpToolSegment serverId @ ''.'' @ normalizeMcpToolSegment remoteToolName @ ''.'' @
     createDeterministicHash (serverId @ '':'' @ remoteToolName)"

definition buildMcpServerGroupId :: "string \<Rightarrow> string" where
  "buildMcpServerGroupId serverId = MCP_TOOL_ID_PREFIX @ ''.server.'' @ normalizeMcpToolSegment serverId"

section \<open>The snapshot\<close>

datatype mcp_availability = McpAvailable | McpDegraded | McpUnavailable

record snapshot_server =
  sv_serverId :: string
  sv_displayName :: string
  sv_transportKind :: string
  sv_connectionState :: connection_state
  sv_toolCount :: int
  sv_lastHandshakeAt :: "string option"
  sv_lastCatalogSyncAt :: "string option"
  sv_lastError :: "mcp_error option"
  sv_lastSuccessfulCatalogRefresh :: "(string \<times> int) option"

record snapshot_tool =
  nt_toolId :: string
  nt_serverId :: string
  nt_remoteToolName :: string
  nt_displayName :: string
  nt_description :: "string option"
  nt_inputSchema :: jrecord
  nt_availability :: mcp_availability
  nt_groupId :: string
  nt_groupLabel :: string

record snapshot_group =
  gr_groupId :: string
  gr_displayName :: string
  gr_toolIds :: "string list"

record capability_snapshot =
  sn_registryRevision :: int
  sn_snapshotRevision :: int
  sn_generatedAt :: string
  sn_servers :: "snapshot_server list"
  sn_tools :: "snapshot_tool list"
  sn_groups :: "snapshot_group list"

record snapshot_input =
  si_registryRevision :: rat
  si_snapshotRevision :: rat
  si_generatedAt :: string
  si_servers :: "mcp_server list"
  si_states :: "server_state list"
  si_toolsByServerId :: "(string \<times> remote_tool list) list"

definition transportKind :: "mcp_server \<Rightarrow> string" where
  "transportKind server = (case ms_transportConfig server of StdioConfig _ _ _ _ \<Rightarrow> ''stdio'' | HttpConfig _ _ _ \<Rightarrow> ''http-sse'')"

definition normalizeDisplayText :: "string option \<Rightarrow> string option" where
  "normalizeDisplayText v = (case v of None \<Rightarrow> None | Some s \<Rightarrow> if trim s = [] then None else Some (trim s))"

definition normalizeRevision :: "rat \<Rightarrow> int" where
  "normalizeRevision v = max 0 (jsTrunc v)"

definition humanizeMcpToolName :: "string \<Rightarrow> string" where
  "humanizeMcpToolName v =
     orElse (normalizeDisplayText (Some (replaceRuns (\<lambda>c. c \<in> {CHR ''.'', CHR ''_'', CHR ''-''}) (CHR 0x20) False v))) v"

definition resolveToolDisplayName :: "mcp_server \<Rightarrow> remote_tool \<Rightarrow> string" where
  "resolveToolDisplayName server remoteTool =
     (case normalizeDisplayText (Some (mt_displayName remoteTool)) of
        Some name \<Rightarrow> name
      | None \<Rightarrow>
          (case normalizeDisplayText (Some (ms_displayName server)) of
             None \<Rightarrow> humanizeMcpToolName (mt_name remoteTool)
           | Some name \<Rightarrow> name @ '' / '' @ humanizeMcpToolName (mt_name remoteTool)))"

definition resolveToolAvailability :: "connection_state \<Rightarrow> nat \<Rightarrow> mcp_availability" where
  "resolveToolAvailability connectionState toolCount =
     (if toolCount = 0 then McpUnavailable else if connectionState = ConnConnected then McpAvailable else McpDegraded)"

definition createFallbackState :: "mcp_server \<Rightarrow> server_state" where
  "createFallbackState server =
     \<lparr>mx_serverId = ms_serverId server, mx_enabled = ms_enabled server,
      mx_connectionState = (if ms_enabled server then ConnIdle else ConnDisabled), mx_toolCount = 0, mx_lastPhase = None,
      mx_lastHandshakeAt = None, mx_lastCatalogSyncAt = None, mx_lastError = None, mx_transportState = None, mx_reconnectAttempt = 0\<rparr>"

definition buildLastSuccessfulCatalogRefresh :: "server_state \<Rightarrow> remote_tool list \<Rightarrow> (string \<times> int) option" where
  "buildLastSuccessfulCatalogRefresh state tools =
     (case normalizeDisplayText (mx_lastCatalogSyncAt state) of
        None \<Rightarrow> None
      | Some refreshedAt \<Rightarrow> if tools = [] then None else Some (refreshedAt, int (length tools)))"

definition buildServerSummary :: "mcp_server \<Rightarrow> server_state \<Rightarrow> remote_tool list \<Rightarrow> snapshot_server" where
  "buildServerSummary server state tools =
     \<lparr>sv_serverId = ms_serverId server, sv_displayName = ms_displayName server, sv_transportKind = transportKind server,
      sv_connectionState = (if ms_enabled server then mx_connectionState state else ConnDisabled),
      sv_toolCount = (if ms_enabled server then int (length tools) else 0),
      sv_lastHandshakeAt = mx_lastHandshakeAt state, sv_lastCatalogSyncAt = mx_lastCatalogSyncAt state,
      sv_lastError = mx_lastError state, sv_lastSuccessfulCatalogRefresh = buildLastSuccessfulCatalogRefresh state tools\<rparr>"

definition buildToolSummary :: "mcp_server \<Rightarrow> remote_tool \<Rightarrow> string \<Rightarrow> mcp_availability \<Rightarrow> string \<Rightarrow> string \<Rightarrow> snapshot_tool" where
  "buildToolSummary server remoteTool toolId availability groupId groupLabel =
     \<lparr>nt_toolId = toolId, nt_serverId = ms_serverId server, nt_remoteToolName = mt_name remoteTool,
      nt_displayName = resolveToolDisplayName server remoteTool, nt_description = normalizeDisplayText (mt_description remoteTool),
      nt_inputSchema = mt_inputSchema remoteTool, nt_availability = availability, nt_groupId = groupId, nt_groupLabel = groupLabel\<rparr>"

text \<open>\<open>groupById\<close>, a \<open>Map\<close> in the order in which its keys were added; the group that is returned is the one in the map.\<close>

type_synonym groups = "(string \<times> snapshot_group) list"

definition getOrCreateGroup :: "string \<Rightarrow> string \<Rightarrow> groups \<Rightarrow> groups \<times> snapshot_group" where
  "getOrCreateGroup groupId displayName gs =
     (case map_of gs groupId of
        Some g \<Rightarrow> (gs, g)
      | None \<Rightarrow>
          (let g = \<lparr>gr_groupId = groupId, gr_displayName = displayName, gr_toolIds = []\<rparr> in (gs @ [(groupId, g)], g)))"

text \<open>\<open>group.toolIds.push(toolId)\<close> for each tool of the server\<close>

definition pushToolIds :: "string \<Rightarrow> string list \<Rightarrow> groups \<Rightarrow> groups" where
  "pushToolIds groupId ids gs =
     map (\<lambda>(k, g). (k, if k = groupId then g\<lparr>gr_toolIds := gr_toolIds g @ ids\<rparr> else g)) gs"

definition stateOfServer :: "server_state list \<Rightarrow> mcp_server \<Rightarrow> server_state" where
  "stateOfServer states server =
     orElse (map_of (rev (map (\<lambda>s. (mx_serverId s, s)) states)) (ms_serverId server)) (createFallbackState server)"

definition toolsOfServer :: "(string \<times> remote_tool list) list \<Rightarrow> mcp_server \<Rightarrow> remote_tool list" where
  "toolsOfServer toolsByServerId server = orElse (map_of toolsByServerId (ms_serverId server)) []"

definition serverTools ::
  "(string \<Rightarrow> string \<Rightarrow> int) \<Rightarrow> snapshot_input \<Rightarrow> mcp_server \<Rightarrow> groups \<Rightarrow> snapshot_tool list \<times> groups" where
  "serverTools lc input server gs =
     (if \<not> ms_enabled server then ([], gs)
      else
        (let state = stateOfServer (si_states input) server;
             remoteTools = sortedBy (\<lambda>l r. lc (mt_name l) (mt_name r)) (toolsOfServer (si_toolsByServerId input) server);
             groupId = buildMcpServerGroupId (ms_serverId server);
             (gs', group) = getOrCreateGroup groupId (ms_displayName server) gs;
             availability = resolveToolAvailability (mx_connectionState state) (length remoteTools);
             toolId = (\<lambda>t. buildMcpToolId (ms_serverId server) (mt_name t))
         in (map (\<lambda>t. buildToolSummary server t (toolId t) availability groupId (gr_displayName group)) remoteTools,
             pushToolIds groupId (map toolId remoteTools) gs')))"

fun snapshotTools ::
  "(string \<Rightarrow> string \<Rightarrow> int) \<Rightarrow> snapshot_input \<Rightarrow> mcp_server list \<Rightarrow> groups \<Rightarrow> snapshot_tool list \<times> groups" where
  "snapshotTools lc input [] gs = ([], gs)"
| "snapshotTools lc input (server # servers) gs =
     (let (ts, gs') = serverTools lc input server gs; (ts', gs'') = snapshotTools lc input servers gs' in (ts @ ts', gs''))"

definition createMcpCapabilitySnapshot :: "(string \<Rightarrow> string \<Rightarrow> int) \<Rightarrow> snapshot_input \<Rightarrow> capability_snapshot" where
  "createMcpCapabilitySnapshot lc input =
     (let (tools, gs) = snapshotTools lc input (si_servers input) []
      in \<lparr>sn_registryRevision = normalizeRevision (si_registryRevision input),
          sn_snapshotRevision = normalizeRevision (si_snapshotRevision input), sn_generatedAt = si_generatedAt input,
          sn_servers = map (\<lambda>server. buildServerSummary server (stateOfServer (si_states input) server)
            (if ms_enabled server then toolsOfServer (si_toolsByServerId input) server else [])) (si_servers input),
          sn_tools = tools, sn_groups = map snd gs\<rparr>)"

section \<open>The value that is written\<close>

definition nullOr :: "('a \<Rightarrow> json) \<Rightarrow> 'a option \<Rightarrow> json" where
  "nullOr f v = (case v of None \<Rightarrow> JNull | Some x \<Rightarrow> f x)"

fun connectionStateText :: "connection_state \<Rightarrow> string" where
  "connectionStateText ConnDisabled = ''disabled''"
| "connectionStateText ConnIdle = ''idle''"
| "connectionStateText ConnConnecting = ''connecting''"
| "connectionStateText ConnConnected = ''connected''"
| "connectionStateText ConnDegraded = ''degraded''"
| "connectionStateText ConnError = ''error''"

fun availabilityText :: "mcp_availability \<Rightarrow> string" where
  "availabilityText McpAvailable = ''available''"
| "availabilityText McpDegraded = ''degraded''"
| "availabilityText McpUnavailable = ''unavailable''"

definition mcpErrorJson :: "mcp_error \<Rightarrow> json" where
  "mcpErrorJson e = JObj
     [(''code'', JStr (me_code e)), (''message'', JStr (me_message e)), (''retryable'', JBool (me_retryable e)),
      (''observedAt'', JStr (me_observedAt e)), (''details'', nullOr JObj (me_details e))]"

definition snapshotServerJson :: "snapshot_server \<Rightarrow> json" where
  "snapshotServerJson s = JObj
     [(''serverId'', JStr (sv_serverId s)), (''displayName'', JStr (sv_displayName s)), (''transportKind'', JStr (sv_transportKind s)),
      (''connectionState'', JStr (connectionStateText (sv_connectionState s))), (''toolCount'', JNum (of_int (sv_toolCount s))),
      (''lastHandshakeAt'', nullOr JStr (sv_lastHandshakeAt s)), (''lastCatalogSyncAt'', nullOr JStr (sv_lastCatalogSyncAt s)),
      (''lastError'', nullOr mcpErrorJson (sv_lastError s)),
      (''lastSuccessfulCatalogRefresh'',
        nullOr (\<lambda>(t, n). JObj [(''refreshedAt'', JStr t), (''toolCount'', JNum (of_int n))]) (sv_lastSuccessfulCatalogRefresh s))]"

definition snapshotToolJson :: "snapshot_tool \<Rightarrow> json" where
  "snapshotToolJson t = JObj
     [(''toolId'', JStr (nt_toolId t)), (''serverId'', JStr (nt_serverId t)), (''remoteToolName'', JStr (nt_remoteToolName t)),
      (''displayName'', JStr (nt_displayName t)), (''description'', nullOr JStr (nt_description t)),
      (''inputSchema'', JObj (nt_inputSchema t)), (''sourceKind'', JStr ''mcp''),
      (''availability'', JStr (availabilityText (nt_availability t))), (''groupId'', JStr (nt_groupId t)),
      (''groupLabel'', JStr (nt_groupLabel t))]"

definition snapshotGroupJson :: "snapshot_group \<Rightarrow> json" where
  "snapshotGroupJson g = JObj
     [(''groupId'', JStr (gr_groupId g)), (''displayName'', JStr (gr_displayName g)), (''sourceKind'', JStr ''mcp''),
      (''toolIds'', JArr (map JStr (gr_toolIds g)))]"

definition snapshotRecord :: "capability_snapshot \<Rightarrow> jrecord" where
  "snapshotRecord s =
     [(''version'', JNum 1), (''registryRevision'', JNum (of_int (sn_registryRevision s))),
      (''snapshotRevision'', JNum (of_int (sn_snapshotRevision s))), (''generatedAt'', JStr (sn_generatedAt s)),
      (''servers'', JArr (map snapshotServerJson (sn_servers s))), (''tools'', JArr (map snapshotToolJson (sn_tools s))),
      (''groups'', JArr (map snapshotGroupJson (sn_groups s)))]"

section \<open>The check for secrets\<close>

definition alnum :: "char \<Rightarrow> bool" where
  "alnum c \<longleftrightarrow> slugChar (lowerAscii c)"

definition normalizeForbiddenKey :: "string \<Rightarrow> string" where
  "normalizeForbiddenKey key = toLowerCase (filter alnum key)"

definition MCP_SNAPSHOT_FORBIDDEN_KEY_SET :: "string list" where
  "MCP_SNAPSHOT_FORBIDDEN_KEY_SET = [''apikey'', ''args'', ''authorization'', ''command'', ''env'', ''headers'', ''localtoken'',
     ''password'', ''passwords'', ''secret'', ''secrets'', ''token'', ''tokens'']"

definition forbiddenKey :: "string \<Rightarrow> bool" where
  "forbiddenKey key \<longleftrightarrow> normalizeForbiddenKey key \<in> set MCP_SNAPSHOT_FORBIDDEN_KEY_SET"

definition nextPath :: "string \<Rightarrow> string \<Rightarrow> string" where
  "nextPath path key = (if path = [] then key else path @ ''.'' @ key)"

fun collectForbiddenPaths :: "json \<Rightarrow> string \<Rightarrow> string list"
  and collectItems :: "json list \<Rightarrow> nat \<Rightarrow> string \<Rightarrow> string list"
  and collectEntries :: "(string \<times> json) list \<Rightarrow> string \<Rightarrow> string list" where
  "collectForbiddenPaths (JArr vs) path = collectItems vs 0 path"
| "collectForbiddenPaths (JObj r) path =
     (if suffix ''inputschema'' (normalizeForbiddenKey path) then [] else collectEntries r path)"
| "collectForbiddenPaths _ path = []"
| "collectItems [] index path = []"
| "collectItems (v # vs) index path =
     collectForbiddenPaths v (path @ ''['' @ natString index @ '']'') @ collectItems vs (Suc index) path"
| "collectEntries [] path = []"
| "collectEntries ((key, v) # r) path =
     (if forbiddenKey key then [nextPath path key] else collectForbiddenPaths v (nextPath path key)) @ collectEntries r path"

definition collectMcpSnapshotRedactionViolations :: "json \<Rightarrow> string list" where
  "collectMcpSnapshotRedactionViolations snapshot = collectForbiddenPaths snapshot []"

definition isMcpCapabilitySnapshotRedacted :: "capability_snapshot \<Rightarrow> bool" where
  "isMcpCapabilitySnapshotRedacted snapshot \<longleftrightarrow> collectMcpSnapshotRedactionViolations (JObj (snapshotRecord snapshot)) = []"

section \<open>The sink\<close>

definition MCP_CAPABILITY_SNAPSHOT_BRIDGE_TOOL_ID :: string where
  "MCP_CAPABILITY_SNAPSHOT_BRIDGE_TOOL_ID = ''__runtime.mcp.catalog__''"

definition MCP_CAPABILITY_SNAPSHOT_BRIDGE_KEY :: string where
  "MCP_CAPABILITY_SNAPSHOT_BRIDGE_KEY = ''snapshot''"

definition normalizeRecordBucket :: "json \<Rightarrow> bucket" where
  "normalizeRecordBucket v =
     (case v of
        JObj r \<Rightarrow> fromEntries (map (\<lambda>(key, x). (key, case x of JObj y \<Rightarrow> y | _ \<Rightarrow> [])) r)
      | _ \<Rightarrow> [])"

definition normalizeToolStateBuckets :: "json option \<Rightarrow> (string \<times> bucket) list" where
  "normalizeToolStateBuckets v =
     (case v of Some (JObj r) \<Rightarrow> fromEntries (map (\<lambda>(toolId, b). (toolId, normalizeRecordBucket b)) r) | _ \<Rightarrow> [])"

definition normalizeRunStateBuckets :: "json option \<Rightarrow> (string \<times> (string \<times> bucket) list) list" where
  "normalizeRunStateBuckets v =
     (case v of
        Some (JObj r) \<Rightarrow> fromEntries (map (\<lambda>(toolId, runBuckets). (toolId,
          case runBuckets of
            JObj rs \<Rightarrow> fromEntries (map (\<lambda>(runId, b). (runId, normalizeRecordBucket b)) rs)
          | _ \<Rightarrow> [])) r)
      | _ \<Rightarrow> [])"

definition normalizeCapabilityBridgeStateDocument :: "json \<Rightarrow> state_document" where
  "normalizeCapabilityBridgeStateDocument v =
     (case v of
        JObj r \<Rightarrow>
          (case prop_of r ''values'' of
             Some (JObj values) \<Rightarrow>
               \<lparr>dc_tool = normalizeToolStateBuckets (prop_of values ''tool''), dc_run = normalizeRunStateBuckets (prop_of values ''run'')\<rparr>
           | _ \<Rightarrow> createEmptyStateDocument)
      | _ \<Rightarrow> createEmptyStateDocument)"

text \<open>The error that reading or parsing throws is its message.\<close>

definition readCapabilityBridgeStateDocument :: "state_file \<Rightarrow> string + state_document" where
  "readCapabilityBridgeStateDocument f =
     (case f of
        FileMissing \<Rightarrow> Inr createEmptyStateDocument
      | FileBroken m \<Rightarrow> Inl m
      | FileHolds v \<Rightarrow> Inr (normalizeCapabilityBridgeStateDocument v))"

definition putSnapshot :: "jrecord \<Rightarrow> state_document \<Rightarrow> state_document" where
  "putSnapshot s d = d\<lparr>dc_tool := AList.update MCP_CAPABILITY_SNAPSHOT_BRIDGE_TOOL_ID
     (AList.update MCP_CAPABILITY_SNAPSHOT_BRIDGE_KEY s
       (orElse (map_of (dc_tool d) MCP_CAPABILITY_SNAPSHOT_BRIDGE_TOOL_ID) [])) (dc_tool d)\<rparr>"

definition writeSnapshotToCapabilityBridgeState :: "state_file \<Rightarrow> capability_snapshot \<Rightarrow> state_file \<times> string option" where
  "writeSnapshotToCapabilityBridgeState f snapshot =
     (case readCapabilityBridgeStateDocument f of
        Inl m \<Rightarrow> (f, Some m)
      | Inr d \<Rightarrow> (writeStateDocument (putSnapshot (snapshotRecord snapshot) d), None))"

section \<open>When two tools have the same identifier\<close>

lemma replaceRuns_chars: "c \<in> set (replaceRuns P r inside s) \<Longrightarrow> \<not> P c \<or> c = r"
  by (induction P r inside s rule: replaceRuns.induct) (auto split: if_splits)

lemma stripDashes_set: "set (stripDashes s) \<subseteq> set s"
  by (auto simp: stripDashes_def dest!: set_dropWhileD)

lemma slug_unnamed: "list_all slugChar ''unnamed''"
  by code_simp

lemma segment_chars: "c \<in> set (normalizeMcpToolSegment v) \<Longrightarrow> slugChar c \<or> c = CHR ''-''"
proof -
  let ?r = "replaceRuns (\<lambda>c. \<not> slugChar c) (CHR ''-'') False (toLowerCase (trim v))"
  have "slugChar c \<or> c = CHR ''-''" if "c \<in> set (stripDashes ?r)"
    using replaceRuns_chars [OF subsetD [OF stripDashes_set that]] by simp
  moreover have "slugChar c" if "c \<in> set ''unnamed''" by (rule bspec [OF slug_unnamed [unfolded list_all_iff] that])
  moreover have "c \<in> set (if P then x else y) \<Longrightarrow> c \<in> set x \<or> c \<in> set y" for P and x y :: string by (simp split: if_splits)
  ultimately show "c \<in> set (normalizeMcpToolSegment v) \<Longrightarrow> ?thesis" unfolding normalizeMcpToolSegment_def Let_def by blast
qed

lemma segment_no_dot [simp]: "CHR ''.'' \<notin> set (normalizeMcpToolSegment v)"
  using segment_chars [of "CHR ''.''" v] by (auto simp: slugChar_def)

lemma splitOn_append: "c \<notin> set s \<Longrightarrow> splitOn c (s @ c # t) = s # splitOn c t"
  by (induction s) auto

lemma splitOn_id: "c \<notin> set s \<Longrightarrow> splitOn c s = [s]"
  by (induction s) auto

text \<open>The digits of a number in \<open>k\<close> places.\<close>

fun hexDigits :: "nat \<Rightarrow> nat \<Rightarrow> string" where
  "hexDigits 0 n = []"
| "hexDigits (Suc k) n = hexDigits k (n div 16) @ [hexDigit (n mod 16)]"

lemma of_char_hexDigit: "n < 16 \<Longrightarrow> (of_char (hexDigit n) :: nat) = (if n < 10 then 48 + n else 87 + n)"
proof -
  have "(of_char (char_of m :: char) :: nat) = m" if "m < 128" for m :: nat
    unfolding of_char_of using that by (intro mod_less) simp
  then show "n < 16 \<Longrightarrow> ?thesis" by (simp add: hexDigit_def)
qed

lemma hexDigit_inj: "m < 16 \<Longrightarrow> n < 16 \<Longrightarrow> hexDigit m = hexDigit n \<longleftrightarrow> m = n"
proof -
  assume "m < 16" "n < 16"
  then have "hexDigit m = hexDigit n \<Longrightarrow> (if m < 10 then 48 + m else 87 + m) = (if n < 10 then 48 + n else 87 + n)"
    by (metis of_char_hexDigit)
  then show ?thesis using \<open>m < 16\<close> \<open>n < 16\<close> by (auto split: if_splits)
qed

lemma hexDigit_0 [simp]: "hexDigit 0 = CHR ''0''"
  by code_simp

lemma hexDigits_zero: "hexDigits k 0 = replicate k (CHR ''0'')"
  by (induction k) (simp_all add: replicate_append_same)

lemma hexDigits_inj: "m < 16 ^ k \<Longrightarrow> n < 16 ^ k \<Longrightarrow> hexDigits k m = hexDigits k n \<longleftrightarrow> m = n"
proof (induction k arbitrary: m n)
  case (Suc k)
  have "m div 16 < 16 ^ k" "n div 16 < 16 ^ k" using Suc.prems by (auto simp: less_mult_imp_div_less mult.commute)
  then show ?case using Suc.IH hexDigit_inj [of "m mod 16" "n mod 16"] by simp (metis div_mult_mod_eq)
qed simp

lemma padStart_snoc: "padStart (Suc k) (s @ [c]) = padStart k s @ [c]"
  by (simp add: padStart_def)

lemma hexText_padded: "n < 16 ^ Suc k \<Longrightarrow> padStart (Suc k) (hexText n) = hexDigits (Suc k) n"
proof (induction k arbitrary: n)
  case 0
  then show ?case by (simp add: hexText.simps [of n] padStart_def)
next
  case (Suc k)
  show ?case
  proof (cases "n < 16")
    case True
    then show ?thesis by (simp add: hexText.simps [of n] padStart_def hexDigits_zero)
  next
    case False
    have "n div 16 < 16 ^ Suc k" using Suc.prems by (simp add: less_mult_imp_div_less mult.commute)
    then show ?thesis using False Suc.IH by (simp add: hexText.simps [of n] padStart_snoc)
  qed
qed

lemma length_hexDigits [simp]: "length (hexDigits k n) = k"
  by (induction k arbitrary: n) simp_all

lemma hexDigits_chars: "c \<in> set (hexDigits k n) \<Longrightarrow> slugChar c"
proof (induction k arbitrary: n)
  case (Suc k)
  moreover have "slugChar (hexDigit (n mod 16))" 
    using of_char_hexDigit [of "n mod 16"] pos_mod_bound [of 16 n] mod_less_divisor [of 16 n] by (auto simp: slugChar_def Let_def simp del: mod_less_divisor)
  ultimately show ?case by auto
qed simp

text \<open>The sum that the hash computes.\<close>

fun weightedSum :: "nat \<Rightarrow> nat list \<Rightarrow> nat" where
  "weightedSum index [] = 0"
| "weightedSum index (code # codes) = code * (index + 1) + weightedSum (index + 1) codes"

lemma hashLoop_sum: "hashLoop index hash codes = hash + of_nat (weightedSum index codes)"
  by (induction index hash codes rule: hashLoop.induct) (simp_all add: algebra_simps)

lemma weightedSum_append: "weightedSum i (xs @ ys) = weightedSum i xs + weightedSum (i + length xs) ys"
  by (induction i xs rule: weightedSum.induct) simp_all

lemma hash_digits: "createDeterministicHash s = hexDigits 8 (weightedSum 0 (utf16Codes s) mod 2 ^ 32)"
proof -
  let ?n = "weightedSum 0 (utf16Codes s) mod 2 ^ 32"
  have "unat (hashLoop 0 0 (utf16Codes s)) = ?n" unfolding hashLoop_sum add_0 unat_of_nat by simp
  moreover have eight: "Suc 7 = 8" by simp
  have "padStart 8 (hexText ?n) = hexDigits 8 ?n"
    by (rule hexText_padded [of ?n 7, unfolded eight]) simp
  ultimately show ?thesis by (simp add: createDeterministicHash_def lastChars_def)
qed

lemma tool_id_parts:
  "splitOn (CHR ''.'') (buildMcpToolId s t) =
     [''mcp'', normalizeMcpToolSegment s, normalizeMcpToolSegment t, createDeterministicHash (s @ '':'' @ t)]"
proof -
  have "CHR ''.'' \<notin> set (createDeterministicHash (s @ '':'' @ t))"
    using hexDigits_chars [of "CHR ''.''"] by (auto simp: hash_digits slugChar_def)
  then show ?thesis by (simp add: buildMcpToolId_def MCP_TOOL_ID_PREFIX_def splitOn_append splitOn_id)
qed

text \<open>
  C33: two tools have the same identifier if and only if their servers and names are the same up to case and punctuation and the sums
  of their characters, each times its place, agree modulo \<open>2 ^ 32\<close>.
\<close>

theorem tool_ids_equal_iff:
  "buildMcpToolId s t = buildMcpToolId s' t' \<longleftrightarrow>
     normalizeMcpToolSegment s = normalizeMcpToolSegment s' \<and> normalizeMcpToolSegment t = normalizeMcpToolSegment t' \<and>
     weightedSum 0 (utf16Codes (s @ '':'' @ t)) mod 2 ^ 32 = weightedSum 0 (utf16Codes (s' @ '':'' @ t')) mod 2 ^ 32"
proof -
  have "buildMcpToolId s t = buildMcpToolId s' t' \<longleftrightarrow>
      normalizeMcpToolSegment s = normalizeMcpToolSegment s' \<and> normalizeMcpToolSegment t = normalizeMcpToolSegment t' \<and>
      createDeterministicHash (s @ '':'' @ t) = createDeterministicHash (s' @ '':'' @ t')"
    (is "?l \<longleftrightarrow> ?r")
  proof
    assume ?l
    then have "splitOn (CHR ''.'') (buildMcpToolId s t) = splitOn (CHR ''.'') (buildMcpToolId s' t')" by (rule arg_cong)
    then show ?r unfolding tool_id_parts by simp
  next
    assume ?r
    then show ?l by (simp add: buildMcpToolId_def)
  qed
  moreover have "hexDigits 8 (m mod 2 ^ 32) = hexDigits 8 (n mod 2 ^ 32) \<longleftrightarrow> m mod 2 ^ 32 = n mod 2 ^ 32" for m n :: nat
    by (rule hexDigits_inj) simp_all
  ultimately show ?thesis by (simp add: hash_digits)
qed

lemma utf16Codes_ascii: "list_all isAsciiByte s \<Longrightarrow> utf16Codes (s @ t) = map of_char s @ utf16Codes t"
  by (induction s) (simp_all add: isAsciiByte_def Let_def)

text \<open>
  Tools of one server can collide: the names \<open>AbcD\<close> and \<open>aBCd\<close>, which a catalog may hold together, have one identifier, whatever
  the identifier of the server is in ASCII, because the sums agree.
\<close>

theorem tool_names_collide:
  assumes "list_all isAsciiByte s"
  shows "buildMcpToolId s ''AbcD'' = buildMcpToolId s ''aBCd''"
proof -
  have "normalizeMcpToolSegment ''AbcD'' = normalizeMcpToolSegment ''aBCd''" by code_simp
  moreover have "utf16Codes '':AbcD'' = [58, 65, 98, 99, 68]" "utf16Codes '':aBCd'' = [58, 97, 66, 67, 100]" by code_simp+
  then have "weightedSum 0 (utf16Codes (s @ '':AbcD'')) = weightedSum 0 (utf16Codes (s @ '':aBCd''))"
    using assms by (simp add: utf16Codes_ascii weightedSum_append)
  ultimately show ?thesis by (simp add: buildMcpToolId_def hash_digits)
qed

section \<open>Groups\<close>

text \<open>The groups hold exactly the tools that name them, in order.\<close>

definition groupsOk :: "groups \<Rightarrow> snapshot_tool list \<Rightarrow> bool" where
  "groupsOk gs ts \<longleftrightarrow> distinct (map fst gs) \<and> (\<forall>t \<in> set ts. nt_groupId t \<in> set (map fst gs)) \<and>
     (\<forall>(k, g) \<in> set gs. gr_groupId g = k \<and> gr_toolIds g = map nt_toolId (filter (\<lambda>t. nt_groupId t = k) ts))"

lemma getOrCreate_ok:
  assumes "groupsOk gs ts" and "getOrCreateGroup k n gs = (gs', g)"
  shows "groupsOk gs' ts \<and> k \<in> set (map fst gs')"
proof (cases "map_of gs k")
  case None
  then have new: "k \<notin> set (map fst gs)" by (simp add: map_of_eq_None_iff)
  then have "filter (\<lambda>t. nt_groupId t = k) ts = []" using assms(1) by (auto simp only: groupsOk_def filter_empty_conv)
  moreover have "gs' = gs @ [(k, \<lparr>gr_groupId = k, gr_displayName = n, gr_toolIds = []\<rparr>)]"
    using assms(2) None by (auto simp: getOrCreateGroup_def Let_def)
  ultimately show ?thesis using assms(1) new by (simp add: groupsOk_def)
next
  case (Some h)
  then show ?thesis using assms by (auto simp: getOrCreateGroup_def dest: map_of_SomeD intro: rev_image_eqI)
qed

lemma push_ok:
  assumes "groupsOk gs ts" and "k \<in> set (map fst gs)" and "\<forall>t \<in> set us. nt_groupId t = k"
  shows "groupsOk (pushToolIds k (map nt_toolId us) gs) (ts @ us)"
proof -
  have us: "filter (\<lambda>t. nt_groupId t = j) us = (if j = k then us else [])" for j
    using assms(3) by (auto simp: filter_empty_conv filter_id_conv)
  have keys: "map fst (pushToolIds k ids gs) = map fst gs" for ids by (auto simp: pushToolIds_def)
  have "gr_groupId g = j \<and> gr_toolIds g = map nt_toolId (filter (\<lambda>t. nt_groupId t = j) (ts @ us))"
    if "(j, g) \<in> set (pushToolIds k (map nt_toolId us) gs)" for j g
    using that assms(1) by (auto simp: us groupsOk_def pushToolIds_def)
  then show ?thesis using assms unfolding groupsOk_def keys by auto
qed

lemma serverTools_ok:
  assumes "groupsOk gs ts" and "serverTools lc input server gs = (us, gs')"
  shows "groupsOk gs' (ts @ us)"
proof (cases "ms_enabled server")
  case False
  then show ?thesis using assms by (simp add: serverTools_def)
next
  case True
  let ?k = "buildMcpServerGroupId (ms_serverId server)"
  obtain hs g where h: "getOrCreateGroup ?k (ms_displayName server) gs = (hs, g)"
    by (cases "getOrCreateGroup ?k (ms_displayName server) gs")
  then have *: "groupsOk hs ts" "?k \<in> set (map fst hs)" using getOrCreate_ok [OF assms(1)] by blast+
  have "gs' = pushToolIds ?k (map nt_toolId us) hs" "\<forall>t \<in> set us. nt_groupId t = ?k"
    using assms(2) True h by (auto simp: serverTools_def Let_def buildToolSummary_def comp_def)
  then show ?thesis using push_ok [OF *] by simp
qed

lemma snapshotTools_ok:
  "groupsOk gs ts \<Longrightarrow> snapshotTools lc input servers gs = (us, gs') \<Longrightarrow> groupsOk gs' (ts @ us)"
proof (induction servers arbitrary: gs ts us)
  case (Cons server servers)
  obtain us1 gs1 us2 where h: "serverTools lc input server gs = (us1, gs1)" "snapshotTools lc input servers gs1 = (us2, gs')"
      "us = us1 @ us2"
    using Cons.prems(2) by (auto split: prod.splits)
  then show ?case using Cons.IH [OF serverTools_ok [OF Cons.prems(1) h(1)] h(2)] by simp
qed simp

text \<open>
  C31: the groups of a snapshot partition its tools: no two groups have one identifier, each lists the identifiers of exactly the tools
  that name it, in their order, and each tool names one of them.
\<close>

theorem snapshot_groups_partition:
  "distinct (map gr_groupId (sn_groups (createMcpCapabilitySnapshot lc input))) \<and>
   map gr_toolIds (sn_groups (createMcpCapabilitySnapshot lc input)) =
     map (\<lambda>g. map nt_toolId (filter (\<lambda>t. nt_groupId t = gr_groupId g) (sn_tools (createMcpCapabilitySnapshot lc input))))
       (sn_groups (createMcpCapabilitySnapshot lc input)) \<and>
   nt_groupId ` set (sn_tools (createMcpCapabilitySnapshot lc input)) \<subseteq>
     gr_groupId ` set (sn_groups (createMcpCapabilitySnapshot lc input))"
proof -
  obtain ts gs where h: "snapshotTools lc input (si_servers input) [] = (ts, gs)" by fastforce
  moreover have "groupsOk [] []" by (simp add: groupsOk_def)
  ultimately have ok: "groupsOk gs ts" using snapshotTools_ok by fastforce
  then have ids: "map gr_groupId (map snd gs) = map fst gs" by (auto simp: groupsOk_def)
  have "distinct (map gr_groupId (map snd gs))" using ok unfolding ids groupsOk_def by blast
  moreover have "gr_toolIds g = map nt_toolId (filter (\<lambda>t. nt_groupId t = gr_groupId g) ts)" if "g \<in> set (map snd gs)" for g
    using ok that by (auto simp: groupsOk_def)
  moreover have "nt_groupId ` set ts \<subseteq> set (map gr_groupId (map snd gs))" using ok unfolding ids groupsOk_def by blast
  ultimately show ?thesis using h by (simp add: createMcpCapabilitySnapshot_def image_comp)
qed

section \<open>Secrets\<close>

text \<open>Values without a forbidden key at any depth.\<close>

fun noForbidden :: "json \<Rightarrow> bool" where
  "noForbidden (JArr vs) \<longleftrightarrow> list_all noForbidden vs"
| "noForbidden (JObj r) \<longleftrightarrow> list_all (\<lambda>(key, v). \<not> forbiddenKey key \<and> noForbidden v) r"
| "noForbidden _ \<longleftrightarrow> True"

lemma collectItems_none: "(\<And>v path. v \<in> set vs \<Longrightarrow> collectForbiddenPaths v path = []) \<Longrightarrow> collectItems vs index path = []"
  by (induction vs arbitrary: index) simp_all

lemma collect_noForbidden:
  "noForbidden v \<Longrightarrow> collectForbiddenPaths v path = []"
  "list_all noForbidden vs \<Longrightarrow> collectItems vs index path = []"
  "list_all (\<lambda>(key, v). \<not> forbiddenKey key \<and> noForbidden v) r \<Longrightarrow> collectEntries r path = []"
  by (induction v path and vs index path and r path rule: collectForbiddenPaths_collectItems_collectEntries.induct) auto

lemma path_key [simp]: "normalizeForbiddenKey (nextPath path key) = normalizeForbiddenKey path @ normalizeForbiddenKey key"
proof -
  have "\<not> alnum (CHR ''.'')" by code_simp
  then show ?thesis by (simp add: nextPath_def normalizeForbiddenKey_def toLowerCase_def)
qed

text \<open>The keys of a snapshot.\<close>

lemma snapshot_keys:
  "filter forbiddenKey [''version'', ''registryRevision'', ''snapshotRevision'', ''generatedAt'', ''servers'', ''tools'', ''groups'',
     ''serverId'', ''displayName'', ''transportKind'', ''connectionState'', ''toolCount'', ''lastHandshakeAt'', ''lastCatalogSyncAt'',
     ''lastError'', ''lastSuccessfulCatalogRefresh'', ''refreshedAt'', ''code'', ''message'', ''retryable'', ''observedAt'', ''details'',
     ''toolId'', ''remoteToolName'', ''description'', ''inputSchema'', ''sourceKind'', ''availability'', ''groupId'', ''groupLabel'',
     ''toolIds''] = []"
  by code_simp

lemma plain_key:
  "key \<in> set [''version'', ''registryRevision'', ''snapshotRevision'', ''generatedAt'', ''servers'', ''tools'', ''groups'',
     ''serverId'', ''displayName'', ''transportKind'', ''connectionState'', ''toolCount'', ''lastHandshakeAt'', ''lastCatalogSyncAt'',
     ''lastError'', ''lastSuccessfulCatalogRefresh'', ''refreshedAt'', ''code'', ''message'', ''retryable'', ''observedAt'', ''details'',
     ''toolId'', ''remoteToolName'', ''description'', ''inputSchema'', ''sourceKind'', ''availability'', ''groupId'', ''groupLabel'',
     ''toolIds''] \<Longrightarrow> \<not> forbiddenKey key"
  using snapshot_keys by (meson filter_empty_conv)

definition cleanError :: "mcp_error option \<Rightarrow> bool" where
  "cleanError e \<longleftrightarrow> (case e of Some x \<Rightarrow> noForbidden (nullOr JObj (me_details x)) | None \<Rightarrow> True)"

lemma serverJson_clean: "cleanError (sv_lastError s) \<Longrightarrow> noForbidden (snapshotServerJson s)"
  by (auto simp: snapshotServerJson_def nullOr_def mcpErrorJson_def cleanError_def plain_key split: option.split)

lemma groupJson_clean: "noForbidden (snapshotGroupJson g)"
  by (simp add: snapshotGroupJson_def plain_key list_all_iff)

lemma schema_suffix [simp]: "suffix ''inputschema'' (path @ normalizeForbiddenKey ''inputSchema'')"
proof -
  have "normalizeForbiddenKey ''inputSchema'' = ''inputschema''" by code_simp
  then show ?thesis by (simp add: suffix_def)
qed

lemma toolJson_clean: "collectForbiddenPaths (snapshotToolJson t) path = []"
  by (simp add: snapshotToolJson_def plain_key nullOr_def split: option.split)

text \<open>The launch configuration of a server put out of sight: only the kind of its transport is left.\<close>

definition hideConfig :: "mcp_server \<Rightarrow> mcp_server" where
  "hideConfig server = server\<lparr>ms_transportConfig := (case ms_transportConfig server of
     StdioConfig _ _ _ _ \<Rightarrow> StdioConfig [] [] None None | HttpConfig _ _ _ \<Rightarrow> HttpConfig [] None None)\<rparr>"

lemma hideConfig_simps [simp]:
  "ms_serverId (hideConfig s) = ms_serverId s" "ms_displayName (hideConfig s) = ms_displayName s"
  "ms_enabled (hideConfig s) = ms_enabled s" "transportKind (hideConfig s) = transportKind s"
  by (simp_all add: hideConfig_def transportKind_def split: transport_config.split)

lemma hidden_parts [simp]:
  "stateOfServer states (hideConfig s) = stateOfServer states s" "toolsOfServer tools (hideConfig s) = toolsOfServer tools s"
  "buildToolSummary (hideConfig s) = buildToolSummary s" "buildServerSummary (hideConfig s) = buildServerSummary s"
  by (simp_all add: stateOfServer_def createFallbackState_def toolsOfServer_def buildToolSummary_def resolveToolDisplayName_def
      buildServerSummary_def fun_eq_iff split: option.split)

lemma hidden_tools:
  "snapshotTools lc (input\<lparr>si_servers := servers'\<rparr>) (map hideConfig servers) gs = snapshotTools lc input servers gs"
  by (induction servers arbitrary: gs) (simp_all add: serverTools_def cong: if_cong)

lemma hidden_snapshot:
  "createMcpCapabilitySnapshot lc (input\<lparr>si_servers := map hideConfig (si_servers input)\<rparr>) = createMcpCapabilitySnapshot lc input"
  by (simp add: createMcpCapabilitySnapshot_def hidden_tools comp_def cong: if_cong)

text \<open>A snapshot with the input schemas of its tools left out.\<close>

definition withoutSchemas :: "capability_snapshot \<Rightarrow> capability_snapshot" where
  "withoutSchemas s = s\<lparr>sn_tools := map (\<lambda>t. t\<lparr>nt_inputSchema := []\<rparr>) (sn_tools s)\<rparr>"

lemma toolJson_plain: "noForbidden (snapshotToolJson (t\<lparr>nt_inputSchema := []\<rparr>))"
  by (simp add: snapshotToolJson_def plain_key nullOr_def split: option.split)

text \<open>
  C30: what a snapshot tells of the servers. It does not depend on how a server is launched or reached (its command, arguments,
  directory and environment, its address and headers), beyond the kind of its transport. Let the details of the errors that the
  servers last reported hold no forbidden key (\<open>failed_server_leaks\<close> shows what happens otherwise). Then no key of the snapshot
  outside the input schemas of the tools is a forbidden one, and the check of the code, which does not look into these schemas,
  accepts the snapshot. The schemas are carried as the servers sent them and may hold such keys.
\<close>

theorem snapshot_redacted:
  assumes "list_all (\<lambda>state. cleanError (mx_lastError state)) (si_states input)"
  shows "createMcpCapabilitySnapshot lc (input\<lparr>si_servers := map hideConfig (si_servers input)\<rparr>) = createMcpCapabilitySnapshot lc input \<and>
    noForbidden (JObj (snapshotRecord (withoutSchemas (createMcpCapabilitySnapshot lc input)))) \<and>
    isMcpCapabilitySnapshotRedacted (createMcpCapabilitySnapshot lc input)"
proof -
  let ?s = "createMcpCapabilitySnapshot lc input"
  have "cleanError (mx_lastError (stateOfServer (si_states input) server))" for server
    using assms by (auto simp: stateOfServer_def createFallbackState_def cleanError_def [of None] orElse_def list_all_iff
        dest!: map_of_SomeD split: option.split)
  then have servers: "list_all noForbidden (map snapshotServerJson (sn_servers ?s))"
    by (auto simp: createMcpCapabilitySnapshot_def list_all_iff buildServerSummary_def intro!: serverJson_clean split: prod.split)
  have groups: "list_all noForbidden (map snapshotGroupJson (sn_groups ?s))" by (simp add: groupJson_clean list_all_iff)
  have tools: "list_all noForbidden (map snapshotToolJson (sn_tools (withoutSchemas ?s)))"
    by (simp add: withoutSchemas_def toolJson_plain list_all_iff)
  have "collectItems (map snapshotToolJson (sn_tools ?s)) 0 path = []" for path
    by (rule collectItems_none) (auto simp: toolJson_clean)
  then have "isMcpCapabilitySnapshotRedacted ?s" using servers groups
    by (simp add: isMcpCapabilitySnapshotRedacted_def collectMcpSnapshotRedactionViolations_def snapshotRecord_def plain_key
        collect_noForbidden(2))
  moreover have "noForbidden (JObj (snapshotRecord (withoutSchemas ?s)))" using servers groups tools
    by (simp add: snapshotRecord_def plain_key withoutSchemas_def)
  ultimately show ?thesis using hidden_snapshot by blast
qed

section \<open>The sink and the state service\<close>

definition snapshotAddress :: state_address where
  "snapshotAddress = ToolValue MCP_CAPABILITY_SNAPSHOT_BRIDGE_TOOL_ID MCP_CAPABILITY_SNAPSHOT_BRIDGE_KEY"

text \<open>The sink reads a document as the service does.\<close>

lemma recordBucket_map: "normalizeRecordBucket v = normalizeRecordMap (Some v)"
proof -
  have "(case x of JObj y \<Rightarrow> y | _ \<Rightarrow> []) = (case objectEntries (Some x) of None \<Rightarrow> [] | Some r \<Rightarrow> r)" for x by (cases x) simp_all
  then show ?thesis by (cases v) (simp_all add: normalizeRecordBucket_def normalizeRecordMap_def entriesOr_def)
qed

lemma toolBuckets_values: "normalizeToolStateBuckets v = normalizeToolScopedValues v"
  unfolding normalizeToolStateBuckets_def normalizeToolScopedValues_def entriesOr_def recordBucket_map
  by (cases "objectEntries v"; cases v; cases "the v") simp_all

lemma runBuckets_values: "normalizeRunStateBuckets v = normalizeRunScopedValues v"
proof -
  have "(case x of JObj rs \<Rightarrow> fromEntries (map (\<lambda>(runId, b). (runId, normalizeRecordBucket b)) rs) | _ \<Rightarrow> []) =
      entriesOr (\<lambda>b. normalizeRecordMap (Some b)) (Some x)" for x
    by (cases x) (simp_all add: entriesOr_def recordBucket_map)
  then show ?thesis unfolding normalizeRunStateBuckets_def normalizeRunScopedValues_def entriesOr_def [of _ v]
    by (cases "objectEntries v"; cases v; cases "the v") simp_all
qed

lemma sink_reads: "readStateDocument f = Inr d \<Longrightarrow> readCapabilityBridgeStateDocument f = Inr d"
  by (auto simp: readStateDocument_def readCapabilityBridgeStateDocument_def normalizeCapabilityBridgeStateDocument_def documentOf_def
      toolBuckets_values runBuckets_values createEmptyStateDocument_def normalizeToolScopedValues_def normalizeRunScopedValues_def
      entriesOr_def split: state_file.splits json.splits option.splits)

lemma putSnapshot_putAt: "putSnapshot s d = putAt snapshotAddress s d"
  by (simp add: putSnapshot_def putAt_def putInDocument_def snapshotAddress_def setStateBucket_def getStateBucket_def resolveToolBucket_def
      writeKey_def PROTO_def MCP_CAPABILITY_SNAPSHOT_BRIDGE_KEY_def orElse_def)

text \<open>
  C32: the sink stores the snapshot as the state service would: from then on the service finds it under its address, and finds the same
  as before under every other one.
\<close>

theorem snapshot_stored:
  assumes "readStateDocument f = Inr d"
  shows "\<exists>d'. readStateDocument (fst (writeSnapshotToCapabilityBridgeState f s)) = Inr d' \<and>
    lookDocument d' = (lookDocument d)(snapshotAddress \<mapsto> snapshotRecord s)"
proof -
  have "documentOk (putAt snapshotAddress (snapshotRecord s) d)" using read_ok [OF assms] by (simp add: putAt_def put_ok)
  moreover have "holdsValues snapshotAddress"
    by (simp add: holdsValues_def snapshotAddress_def PROTO_def MCP_CAPABILITY_SNAPSHOT_BRIDGE_KEY_def)
  ultimately show ?thesis using sink_reads [OF assms]
    by (auto simp: writeSnapshotToCapabilityBridgeState_def putSnapshot_putAt document_written look_putAt look_putAt_other)
qed

text \<open>
  The sink reads the document and writes it later; the state service, which shares the file, keeps its requests in a queue of its own, so
  that they may be handled in between.
\<close>

datatype file_step = SnapshotRead | SnapshotWrite capability_snapshot | ServiceRequest state_request

record shared_file =
  sf_file :: state_file
  sf_read :: "state_document option"

fun fileStep :: "file_step \<Rightarrow> shared_file \<Rightarrow> shared_file" where
  "fileStep SnapshotRead sf = sf\<lparr>sf_read := (case readCapabilityBridgeStateDocument (sf_file sf) of Inl m \<Rightarrow> None | Inr d \<Rightarrow> Some d)\<rparr>"
| "fileStep (SnapshotWrite s) sf =
     (case sf_read sf of None \<Rightarrow> sf | Some d \<Rightarrow> sf\<lparr>sf_file := writeStateDocument (putSnapshot (snapshotRecord s) d)\<rparr>)"
| "fileStep (ServiceRequest q) sf = sf\<lparr>sf_file := fst (handleStateRequest (sf_file sf) q)\<rparr>"

lemma requests_keep_read: "sf_read (fold fileStep (map ServiceRequest qs) sf) = sf_read sf"
  by (induction qs arbitrary: sf) simp_all

text \<open>
  Requests that the service handles while the sink writes a snapshot are lost: whatever they put and delete, the file is in the end
  what it would be without them.
\<close>

theorem requests_between_lost:
  assumes "readStateDocument f = Inr d"
  shows "sf_file (fold fileStep (SnapshotRead # map ServiceRequest qs @ [SnapshotWrite s]) \<lparr>sf_file = f, sf_read = None\<rparr>) =
    fst (writeSnapshotToCapabilityBridgeState f s)"
  using sink_reads [OF assms] by (simp add: requests_keep_read writeSnapshotToCapabilityBridgeState_def)

section \<open>Witnesses\<close>

theorem tool_names_collide_witness: "buildMcpToolId ''s-1'' ''AbcD'' = buildMcpToolId ''s-1'' ''aBCd''"
proof -
  have "list_all isAsciiByte ''s-1''" by code_simp
  then show ?thesis by (rule tool_names_collide)
qed

definition sampleServer :: "string \<Rightarrow> bool \<Rightarrow> mcp_server" where
  "sampleServer serverId enabled =
     \<lparr>ms_serverId = serverId, ms_displayName = ''Server'', ms_enabled = enabled, ms_description = None,
      ms_transportConfig = StdioConfig ''node'' [''server.js'', ''--token=x''] None (Some [(''TOKEN'', ''x'')]),
      ms_createdAt = ''t0'', ms_updatedAt = ''t0''\<rparr>"

definition sampleInput :: snapshot_input where
  "sampleInput =
     \<lparr>si_registryRevision = 3, si_snapshotRevision = 7, si_generatedAt = ''t1'', si_servers = [sampleServer ''a'' True, sampleServer ''b'' False],
      si_states = [(createFallbackState (sampleServer ''a'' True))\<lparr>mx_connectionState := ConnDegraded,
        mx_lastError := Some (createMcpErrorSummary ''timeout'' ''late'' True ''t1'' (Some [(''status'', JNum 408)]))\<rparr>],
      si_toolsByServerId = [(''a'', [\<lparr>mt_name = ''echo'', mt_displayName = ''Echo'', mt_description = None,
        mt_inputSchema = [(''type'', JStr ''object'')]\<rparr>])]\<rparr>"

theorem snapshot_redacted_witness:
  "isMcpCapabilitySnapshotRedacted (createMcpCapabilitySnapshot (\<lambda>_ _. 0) sampleInput) \<and>
   noForbidden (JObj (snapshotRecord (withoutSchemas (createMcpCapabilitySnapshot (\<lambda>_ _. 0) sampleInput))))"
proof -
  have "list_all (\<lambda>state. cleanError (mx_lastError state)) (si_states sampleInput)" by code_simp
  then show ?thesis using snapshot_redacted [of sampleInput "\<lambda>_ _. 0"] by blast
qed

theorem snapshot_stored_witness:
  "\<exists>d'. readStateDocument (fst (writeSnapshotToCapabilityBridgeState FileMissing (createMcpCapabilitySnapshot (\<lambda>_ _. 0) sampleInput))) =
      Inr d' \<and> lookDocument d' snapshotAddress \<noteq> None"
proof -
  have "readStateDocument FileMissing = Inr createEmptyStateDocument" by (simp add: readStateDocument_def)
  from snapshot_stored [OF this] show ?thesis by fastforce
qed

theorem requests_between_lost_witness:
  "sf_file (fold fileStep (SnapshotRead # map ServiceRequest sampleQueue @
       [SnapshotWrite (createMcpCapabilitySnapshot (\<lambda>_ _. 0) sampleInput)]) \<lparr>sf_file = FileMissing, sf_read = None\<rparr>) =
     fst (writeSnapshotToCapabilityBridgeState FileMissing (createMcpCapabilitySnapshot (\<lambda>_ _. 0) sampleInput))"
proof -
  have "readStateDocument FileMissing = Inr createEmptyStateDocument" by (simp add: readStateDocument_def)
  then show ?thesis by (rule requests_between_lost)
qed

end
