(* ===== verification/Mcp_Stdio.thy ===== *)
theory Mcp_Stdio
  imports Mcp_Snapshot
begin

text \<open>
  The connector to an external tool server that runs as a child process, \<open>electron/mcp-registry/connectors/stdio.ts\<close>.
  The operations await things that the world does: the events of the child process, callbacks of writes, timers. Each operation
  takes the stream of events and handles those that come while it waits, so that every order of events is covered. The
  callback for state changes, which the hub returns from at once, is the list of emitted states. Operations that use the queue of
  requests follow each other; \<open>stop\<close>, which does not, is an event too. A start or a refresh that begins while another one is awaiting,
  which the code does not prevent (they are not in the queue of requests), is outside the model. Parameters: \<open>JSON.parse\<close> (\<open>jp\<close>), \<open>JSON.stringify\<close> (\<open>pr\<close>), the clock (one
  time text) and \<open>spawn\<close>, which throws or returns a child with or without a process id.
\<close>

section \<open>State\<close>

record child_process =
  cp_id :: nat
  cp_pid :: "int option"
  cp_stdinDestroyed :: bool

record resolved_command =
  rv_requestedCommand :: string
  rv_resolutionKind :: string
  rv_managedFamily :: "string option"

record stdio_env =
  vn_server :: mcp_server
  vn_command :: string
  vn_args :: "string list"
  vn_cwd :: "string option"
  vn_env :: "(string \<times> string) list"
  vn_resolvedCommand :: resolved_command
  vn_now :: string
  vn_jp :: "string \<Rightarrow> string + json"
  vn_pr :: "json \<Rightarrow> string"
  vn_spawn :: "nat \<Rightarrow> connector_thrown + int option"

text \<open>
  A child process is told from the others by a number (\<open>io_spawned\<close> counts them). \<open>io_pending\<close> are the requests without an answer, in
  the order of the map, and \<open>io_settled\<close> what the promises of the others were settled with.
\<close>

record stdio_ctx =
  io_child :: "child_process option"
  io_spawned :: nat
  io_buffer :: string
  io_nextRequestId :: int
  io_sessionReady :: bool
  io_tools :: "remote_tool list"
  io_lastExitCode :: "int option"
  io_lastExitSignal :: "string option"
  io_currentPhase :: "connection_phase option"
  io_stderrLines :: "string list"
  io_state :: server_state
  io_pending :: "int list"
  io_settled :: "(int \<times> (connector_thrown + jrecord)) list"
  io_emitted :: "server_state list"
  io_written :: "string list"

definition plainOptions :: state_options where
  "plainOptions = \<lparr>xo_transportState = None, xo_lastError = None, xo_reconnectAttempt = 0, xo_lastPhase = None, xo_lastHandshakeAt = None,
     xo_lastCatalogSyncAt = None\<rparr>"

definition createStdioMcpServerConnector :: "stdio_env \<Rightarrow> stdio_ctx" where
  "createStdioMcpServerConnector env =
     \<lparr>io_child = None, io_spawned = 0, io_buffer = [], io_nextRequestId = 1, io_sessionReady = False, io_tools = [],
      io_lastExitCode = None, io_lastExitSignal = None, io_currentPhase = None, io_stderrLines = [],
      io_state = createConnectorState (vn_server env) (if ms_enabled (vn_server env) then ConnIdle else ConnDisabled) 0 plainOptions,
      io_pending = [], io_settled = [], io_emitted = [], io_written = []\<rparr>"

section \<open>Texts\<close>

fun phaseText :: "connection_phase \<Rightarrow> string" where
  "phaseText PhaseSpawn = ''spawn''"
| "phaseText PhaseInitialize = ''initialize''"
| "phaseText PhaseInitialized = ''initialized''"
| "phaseText PhaseToolsList = ''tools/list''"
| "phaseText PhaseToolsCall = ''tools/call''"

definition createPhaseTimeoutMessage :: "connection_phase option \<Rightarrow> string" where
  "createPhaseTimeoutMessage phase =
     (case phase of
        None \<Rightarrow> ''Timed out while waiting for the MCP stdio server response.''
      | Some p \<Rightarrow> ''Timed out while waiting for the MCP stdio server response during '' @ phaseText p @ ''.'')"

definition createPhaseAwareMessage :: "mcp_error \<Rightarrow> connection_phase option \<Rightarrow> string" where
  "createPhaseAwareMessage summary phase =
     (case phase of
        None \<Rightarrow> me_message summary
      | Some p \<Rightarrow>
          if me_code summary = ''timeout'' then createPhaseTimeoutMessage phase
          else if me_code summary = ''protocol_parse_failed''
          then ''The MCP stdio server returned unrecognized stdout output during '' @ phaseText p @ ''.''
          else if me_code summary = ''mcp_remote_error''
          then ''The MCP stdio server returned an error during '' @ phaseText p @ '': '' @ me_message summary
          else me_message summary)"

definition stdioGetStderrSummary :: "stdio_ctx \<Rightarrow> string option" where
  "stdioGetStderrSummary ctx = (if io_stderrLines ctx = [] then None else Some (joinWith '' | '' (io_stderrLines ctx)))"

definition stdioGetWarnings :: "stdio_ctx \<Rightarrow> string list" where
  "stdioGetWarnings ctx = (case stdioGetStderrSummary ctx of None \<Rightarrow> [] | Some s \<Rightarrow> [s])"

text \<open>\<open>text.split(/\r?\n/)\<close>, where each line is trimmed at once; only the last three lines are kept.\<close>

definition STDERR_SUMMARY_MAX_LINES :: nat where
  "STDERR_SUMMARY_MAX_LINES = 3"

definition pushStderrLine :: "string \<Rightarrow> string list \<Rightarrow> string list" where
  "pushStderrLine line lines =
     (if trim line = [] then lines else drop (Suc (length lines) - STDERR_SUMMARY_MAX_LINES) (lines @ [trim line]))"

definition stdioRecordStderr :: "string \<Rightarrow> stdio_ctx \<Rightarrow> stdio_ctx" where
  "stdioRecordStderr s ctx = ctx\<lparr>io_stderrLines := fold pushStderrLine (splitOn lf s) (io_stderrLines ctx)\<rparr>"

definition exitParts :: "int option \<Rightarrow> string option \<Rightarrow> string option \<Rightarrow> string list" where
  "exitParts code signal stderrSummary =
     (case code of None \<Rightarrow> [] | Some c \<Rightarrow> [''exit code '' @ intString c]) @
     (case signal of None \<Rightarrow> [] | Some s \<Rightarrow> [''signal '' @ s]) @
     (case stderrSummary of None \<Rightarrow> [] | Some s \<Rightarrow> [s])"

definition stdioCreateProcessExitSummary :: "stdio_env \<Rightarrow> stdio_ctx \<Rightarrow> int option \<Rightarrow> string option \<Rightarrow> mcp_error" where
  "stdioCreateProcessExitSummary env ctx code signal =
     (let stderrSummary = stdioGetStderrSummary ctx; parts = exitParts code signal stderrSummary in
      createMcpErrorSummary ''process_exited''
        (''The MCP stdio process exited unexpectedly'' @ (if parts = [] then [] else '' ('' @ joinWith '', '' parts @ '')'') @ ''.'')
        True (vn_now env)
        (Some [(''exitCode'', nullOr (\<lambda>c. JNum (of_int c)) code), (''exitSignal'', nullOr JStr signal),
               (''phase'', nullOr (JStr \<circ> phaseText) (io_currentPhase ctx)), (''stderrSummary'', nullOr JStr stderrSummary)]))"

definition diagnosticSummaryText :: "connection_phase option \<Rightarrow> string option \<Rightarrow> stdio_env \<Rightarrow> string" where
  "diagnosticSummaryText phase stderrSummary env =
     (let rv = vn_resolvedCommand env in
      joinWith ''; ''
        ((case phase of None \<Rightarrow> [] | Some p \<Rightarrow> [''phase='' @ phaseText p]) @
         [''requestedCommand='' @ rv_requestedCommand rv, ''resolution='' @ rv_resolutionKind rv] @
         (case rv_managedFamily rv of Some f \<Rightarrow> if f \<noteq> [] then [''managedFamily='' @ f] else [] | None \<Rightarrow> []) @
         [''command='' @ vn_command env] @
         (if vn_args env = [] then [] else [''args='' @ joinWith '' '' (vn_args env)]) @
         (case vn_cwd env of Some d \<Rightarrow> if d \<noteq> [] then [''cwd='' @ d] else [] | None \<Rightarrow> []) @
         (case stderrSummary of None \<Rightarrow> [] | Some s \<Rightarrow> [''stderr='' @ s])))"

definition stdioEnrichFailureSummary :: "stdio_env \<Rightarrow> stdio_ctx \<Rightarrow> mcp_error \<Rightarrow> mcp_error" where
  "stdioEnrichFailureSummary env ctx summary =
     (let phase = io_currentPhase ctx; stderrSummary = stdioGetStderrSummary ctx; rv = vn_resolvedCommand env in
      summary\<lparr>me_message := createPhaseAwareMessage summary phase,
        me_details := Some (spreadInto (orElse (me_details summary) [])
          [(''phase'', nullOr (JStr \<circ> phaseText) phase), (''requestedCommand'', JStr (rv_requestedCommand rv)),
           (''resolutionKind'', JStr (rv_resolutionKind rv)), (''managedFamily'', nullOr JStr (rv_managedFamily rv)),
           (''command'', JStr (vn_command env)), (''args'', JArr (map JStr (vn_args env))), (''cwd'', nullOr JStr (vn_cwd env)),
           (''stderrSummary'', nullOr JStr stderrSummary),
           (''diagnosticSummary'', JStr (diagnosticSummaryText phase stderrSummary env))])\<rparr>)"

definition stdioReadManagedRuntimeFailure :: "stdio_env \<Rightarrow> mcp_error option" where
  "stdioReadManagedRuntimeFailure env =
     (let unavailable = ''The managed runtime required by this MCP launcher is unavailable.'';
          failure = (\<lambda>m t d. Some (createMcpErrorSummary ''managed_runtime_unavailable'' m False t d));
          textOr = (\<lambda>v d. case v of Some (JStr s) \<Rightarrow> if trim s \<noteq> [] then s else d | _ \<Rightarrow> d)
      in case map_of (vn_env env) ''CANDUE_MANAGED_RUNTIME_ERROR'' of
           None \<Rightarrow> None
         | Some raw \<Rightarrow>
             if trim raw = [] then None
             else (case vn_jp env raw of
                 Inl e \<Rightarrow> failure unavailable (vn_now env) None
               | Inr JNull \<Rightarrow> failure unavailable (vn_now env) None
               | Inr v \<Rightarrow>
                   (let field = (\<lambda>k. case v of JObj r \<Rightarrow> prop_of r k | _ \<Rightarrow> None) in
                    failure (textOr (field ''message'') unavailable) (textOr (field ''observedAt'') (vn_now env))
                      (case field ''details'' of Some (JObj d) \<Rightarrow> Some d | _ \<Rightarrow> None))))"

section \<open>Emitted states\<close>

definition processState :: "process_status \<Rightarrow> int option \<Rightarrow> stdio_ctx \<Rightarrow> transport_state" where
  "processState status pid ctx = StdioTransport
     \<lparr>so_processStatus = status, so_pid = pid, so_lastExitCode = io_lastExitCode ctx, so_lastExitSignal = io_lastExitSignal ctx\<rparr>"

definition stdioEmitState :: "stdio_ctx \<Rightarrow> stdio_ctx" where
  "stdioEmitState ctx = ctx\<lparr>io_emitted := io_emitted ctx @ [io_state ctx]\<rparr>"

text \<open>The states that are reported while the connector works, and when it is stopped.\<close>

definition reportState :: "stdio_env \<Rightarrow> connection_state \<Rightarrow> int \<Rightarrow> transport_state \<Rightarrow> connection_phase option \<Rightarrow> stdio_ctx \<Rightarrow> stdio_ctx" where
  "reportState env connectionState toolCount transport phase ctx =
     stdioEmitState (ctx\<lparr>io_state := createConnectorState (vn_server env) connectionState toolCount
       \<lparr>xo_transportState = Some (Some transport), xo_lastError = None, xo_reconnectAttempt = 0, xo_lastPhase = phase,
        xo_lastHandshakeAt = mx_lastHandshakeAt (io_state ctx), xo_lastCatalogSyncAt = mx_lastCatalogSyncAt (io_state ctx)\<rparr>\<rparr>)"

definition stdioUpdatePhase :: "stdio_env \<Rightarrow> connection_phase \<Rightarrow> stdio_ctx \<Rightarrow> stdio_ctx" where
  "stdioUpdatePhase env phase ctx =
     reportState env ConnConnecting (int (length (io_tools ctx)))
       (case io_child ctx of None \<Rightarrow> processState ProcessStarting None ctx | Some c \<Rightarrow> processState ProcessRunning (cp_pid c) ctx)
       (Some phase) (ctx\<lparr>io_currentPhase := Some phase\<rparr>)"

definition failureOptions :: "process_status \<Rightarrow> stdio_ctx \<Rightarrow> failure_options" where
  "failureOptions status ctx =
     \<lparr>fu_transportState = processState status None ctx, fu_previousTools = io_tools ctx, fu_reconnectAttempt = 0,
      fu_connectionState = None, fu_lastPhase = io_currentPhase ctx, fu_lastHandshakeAt = mx_lastHandshakeAt (io_state ctx),
      fu_lastCatalogSyncAt = mx_lastCatalogSyncAt (io_state ctx), fu_warnings = stdioGetWarnings ctx\<rparr>"

section \<open>Events\<close>

definition settle :: "int \<Rightarrow> connector_thrown + jrecord \<Rightarrow> stdio_ctx \<Rightarrow> stdio_ctx" where
  "settle rid r ctx = ctx\<lparr>io_pending := removeAll rid (io_pending ctx), io_settled := io_settled ctx @ [(rid, r)]\<rparr>"

definition stdioRejectPending :: "connector_thrown \<Rightarrow> stdio_ctx \<Rightarrow> stdio_ctx" where
  "stdioRejectPending e ctx = fold (\<lambda>rid. settle rid (Inl e)) (io_pending ctx) ctx"

definition stdioApplyUnexpectedDisconnect :: "stdio_env \<Rightarrow> connector_thrown \<Rightarrow> stdio_ctx \<Rightarrow> stdio_ctx" where
  "stdioApplyUnexpectedDisconnect env e ctx =
     stdioEmitState (ctx\<lparr>io_state := op_state (createConnectorFailure (vn_server env)
       (stdioEnrichFailureSummary env ctx (normalizeConnectorError e (vn_now env) ''stdio_disconnected'')) (failureOptions ProcessExited ctx))\<rparr>)"

definition deliverMessage :: "jrecord \<Rightarrow> stdio_ctx \<Rightarrow> stdio_ctx" where
  "deliverMessage message ctx =
     (case find (isJsonRpcResponseForId message) (io_pending ctx) of None \<Rightarrow> ctx | Some rid \<Rightarrow> settle rid (Inr message) ctx)"

definition isCurrent :: "nat \<Rightarrow> stdio_ctx \<Rightarrow> bool" where
  "isCurrent cid ctx \<longleftrightarrow> (case io_child ctx of None \<Rightarrow> False | Some c \<Rightarrow> cp_id c = cid)"

definition disconnectIfReady :: "stdio_env \<Rightarrow> connector_thrown \<Rightarrow> stdio_ctx \<Rightarrow> stdio_ctx" where
  "disconnectIfReady env e ctx = (if io_sessionReady ctx then stdioApplyUnexpectedDisconnect env e ctx else ctx)"

definition onStdoutData :: "stdio_env \<Rightarrow> nat \<Rightarrow> string \<Rightarrow> stdio_ctx \<Rightarrow> stdio_ctx" where
  "onStdoutData env cid chunk ctx =
     (if \<not> isCurrent cid ctx then ctx
      else (case pushChunk (vn_jp env) (vn_now env) (io_buffer ctx) chunk of
          (left, Inr messages) \<Rightarrow> fold deliverMessage messages (ctx\<lparr>io_buffer := left\<rparr>)
        | (left, Inl e) \<Rightarrow>
            disconnectIfReady env (ThrownConnector e) (stdioRejectPending (ThrownConnector e) (ctx\<lparr>io_buffer := left\<rparr>))))"

definition onStderrData :: "string \<Rightarrow> stdio_ctx \<Rightarrow> stdio_ctx" where
  "onStderrData chunk ctx = (if trim (utf8Decode chunk) = [] then ctx else stdioRecordStderr (trim (utf8Decode chunk)) ctx)"

text \<open>
  The summary that is passed on for a session that was ready is not an \<open>Error\<close>; it has a \<open>code\<close> that is a text, by which it is taken
  for an error of Node.
\<close>

definition onExit :: "stdio_env \<Rightarrow> nat \<Rightarrow> int option \<Rightarrow> string option \<Rightarrow> stdio_ctx \<Rightarrow> stdio_ctx" where
  "onExit env cid code signal ctx =
     (let ctx' = ctx\<lparr>io_lastExitCode := code, io_lastExitSignal := signal\<rparr> in
      if \<not> isCurrent cid ctx then ctx'
      else
        (let ctx'' = ctx'\<lparr>io_child := None\<rparr>; summary = stdioCreateProcessExitSummary env ctx'' code signal;
             rejected = (stdioRejectPending (ThrownConnector summary) ctx'')\<lparr>io_sessionReady := False\<rparr>
         in if io_sessionReady ctx
            then stdioApplyUnexpectedDisconnect env (ThrownNode (me_code summary) (me_message summary)) rejected else rejected))"

definition onError :: "stdio_env \<Rightarrow> nat \<Rightarrow> connector_thrown \<Rightarrow> stdio_ctx \<Rightarrow> stdio_ctx" where
  "onError env cid e ctx = (if \<not> isCurrent cid ctx then ctx else disconnectIfReady env e (stdioRejectPending e ctx))"

text \<open>The callback of the write of a request, when it failed.\<close>

definition onWriteFailed :: "int \<Rightarrow> connector_thrown \<Rightarrow> stdio_ctx \<Rightarrow> stdio_ctx" where
  "onWriteFailed rid e ctx = (if rid \<in> set (io_pending ctx) then settle rid (Inl e) ctx else ctx)"

definition closedError :: "stdio_env \<Rightarrow> string \<Rightarrow> connector_thrown" where
  "closedError env message = ThrownConnector (createMcpErrorSummary ''connection_closed'' message True (vn_now env) None)"

text \<open>The part of \<open>stdioDisposeChild\<close> before it waits, and the two parts of \<open>stdioStop\<close>.\<close>

definition releaseChild :: "stdio_env \<Rightarrow> stdio_ctx \<Rightarrow> stdio_ctx" where
  "releaseChild env ctx =
     (if io_child ctx = None then ctx
      else stdioRejectPending (closedError env ''The MCP stdio connection was closed.'') (ctx\<lparr>io_child := None\<rparr>))"

definition stopBegins :: "stdio_env \<Rightarrow> stdio_ctx \<Rightarrow> stdio_ctx" where
  "stopBegins env ctx = releaseChild env (ctx\<lparr>io_sessionReady := False\<rparr>)"

definition stopEnds :: "stdio_env \<Rightarrow> stdio_ctx \<Rightarrow> stdio_ctx" where
  "stopEnds env ctx = reportState env ConnIdle 0 (processState ProcessStopped None ctx) None (ctx\<lparr>io_currentPhase := None\<rparr>)"

text \<open>
  What can happen while an operation waits. \<open>TimePassed\<close> is the timer of what is awaited, \<open>NotificationWritten\<close> the callback of the
  notification's write with its error, if any.
\<close>

datatype stdio_event =
    ChildSpawned nat
  | ChildError nat connector_thrown
  | ChildExit nat "int option" "string option"
  | StdoutData nat string
  | StderrData string
  | StdinDestroyed nat
  | WriteFailed int connector_thrown
  | NotificationWritten "connector_thrown option"
  | TimePassed
  | StopCalled
  | StopFinished

fun handleEvent :: "stdio_env \<Rightarrow> stdio_event \<Rightarrow> stdio_ctx \<Rightarrow> stdio_ctx" where
  "handleEvent env (ChildError cid e) ctx = onError env cid e ctx"
| "handleEvent env (ChildExit cid code signal) ctx = onExit env cid code signal ctx"
| "handleEvent env (StdoutData cid chunk) ctx = onStdoutData env cid chunk ctx"
| "handleEvent env (StderrData chunk) ctx = onStderrData chunk ctx"
| "handleEvent env (StdinDestroyed cid) ctx =
     (if isCurrent cid ctx then ctx\<lparr>io_child := map_option (\<lambda>c. c\<lparr>cp_stdinDestroyed := True\<rparr>) (io_child ctx)\<rparr> else ctx)"
| "handleEvent env (WriteFailed rid e) ctx = onWriteFailed rid e ctx"
| "handleEvent env StopCalled ctx = stopBegins env ctx"
| "handleEvent env StopFinished ctx = stopEnds env ctx"
| "handleEvent env _ ctx = ctx"

section \<open>Waiting\<close>

text \<open>What an operation has come to: a value, something thrown, or a promise that is never settled.\<close>

datatype 'a outcome = Returned 'a | Threw connector_thrown | Hangs

text \<open>\<open>await spawnReady\<close>\<close>

fun awaitSpawn :: "stdio_env \<Rightarrow> nat \<Rightarrow> stdio_ctx \<Rightarrow> stdio_event list \<Rightarrow> stdio_ctx \<times> unit outcome \<times> stdio_event list" where
  "awaitSpawn env cid ctx [] = (ctx, Hangs, [])"
| "awaitSpawn env cid ctx (e # es) =
     (if e = ChildSpawned cid \<and> isCurrent cid ctx then (ctx, Returned (), es)
      else (case e of
          ChildError n err \<Rightarrow>
            if n = cid \<and> isCurrent cid ctx then (handleEvent env e ctx, Threw err, es) else awaitSpawn env cid (handleEvent env e ctx) es
        | _ \<Rightarrow> awaitSpawn env cid (handleEvent env e ctx) es))"

text \<open>The race of \<open>stdioDisposeChild\<close> between the exit of the child and a timer.\<close>

fun awaitExit :: "stdio_env \<Rightarrow> nat \<Rightarrow> stdio_ctx \<Rightarrow> stdio_event list \<Rightarrow> stdio_ctx \<times> stdio_event list" where
  "awaitExit env cid ctx [] = (ctx, [])"
| "awaitExit env cid ctx (e # es) =
     (case e of
        TimePassed \<Rightarrow> (ctx, es)
      | ChildExit n code signal \<Rightarrow> if n = cid then (handleEvent env e ctx, es) else awaitExit env cid (handleEvent env e ctx) es
      | _ \<Rightarrow> awaitExit env cid (handleEvent env e ctx) es)"

text \<open>\<open>withTimeout\<close> around a request: the timer runs out at the latest when no event is left.\<close>

fun awaitResponse ::
  "stdio_env \<Rightarrow> connector_thrown \<Rightarrow> int \<Rightarrow> stdio_ctx \<Rightarrow> stdio_event list \<Rightarrow> stdio_ctx \<times> jrecord outcome \<times> stdio_event list" where
  "awaitResponse env late rid ctx [] =
     (case map_of (io_settled ctx) rid of Some (Inl e) \<Rightarrow> (ctx, Threw e, []) | Some (Inr r) \<Rightarrow> (ctx, Returned r, []) | None \<Rightarrow> (ctx, Threw late, []))"
| "awaitResponse env late rid ctx (e # es) =
     (case map_of (io_settled ctx) rid of
        Some (Inl err) \<Rightarrow> (ctx, Threw err, e # es)
      | Some (Inr r) \<Rightarrow> (ctx, Returned r, e # es)
      | None \<Rightarrow> if e = TimePassed then (ctx, Threw late, es) else awaitResponse env late rid (handleEvent env e ctx) es)"

fun awaitWrite :: "stdio_env \<Rightarrow> stdio_ctx \<Rightarrow> stdio_event list \<Rightarrow> stdio_ctx \<times> unit outcome \<times> stdio_event list" where
  "awaitWrite env ctx [] = (ctx, Hangs, [])"
| "awaitWrite env ctx (e # es) =
     (case e of
        NotificationWritten None \<Rightarrow> (ctx, Returned (), es)
      | NotificationWritten (Some err) \<Rightarrow> (ctx, Threw err, es)
      | _ \<Rightarrow> awaitWrite env (handleEvent env e ctx) es)"

section \<open>Requests\<close>

definition canWrite :: "stdio_ctx \<Rightarrow> bool" where
  "canWrite ctx \<longleftrightarrow> (case io_child ctx of None \<Rightarrow> False | Some c \<Rightarrow> \<not> cp_stdinDestroyed c)"

definition stdioSendRequest ::
  "stdio_env \<Rightarrow> string \<Rightarrow> jrecord \<Rightarrow> stdio_ctx \<Rightarrow> stdio_event list \<Rightarrow> stdio_ctx \<times> jrecord outcome \<times> stdio_event list" where
  "stdioSendRequest env method params ctx es =
     (if \<not> canWrite ctx then (ctx, Threw (closedError env ''The MCP stdio process is not available.''), es)
      else
        (let rid = io_nextRequestId ctx;
             late = ThrownConnector (createMcpErrorSummary ''timeout'' (createPhaseTimeoutMessage (io_currentPhase ctx)) True (vn_now env) None)
         in awaitResponse env late rid
              (ctx\<lparr>io_nextRequestId := rid + 1, io_pending := io_pending ctx @ [rid],
                 io_written := io_written ctx @
                   [encodeJsonRpcMessageLine (vn_pr env) (createJsonRpcRequest rid method (Some (JObj params)))]\<rparr>) es))"

definition stdioSendNotification ::
  "stdio_env \<Rightarrow> string \<Rightarrow> jrecord \<Rightarrow> stdio_ctx \<Rightarrow> stdio_event list \<Rightarrow> stdio_ctx \<times> unit outcome \<times> stdio_event list" where
  "stdioSendNotification env method params ctx es =
     (if \<not> canWrite ctx then (ctx, Threw (closedError env ''The MCP stdio process is not available.''), es)
      else awaitWrite env (ctx\<lparr>io_written := io_written ctx @
        [encodeJsonRpcMessageLine (vn_pr env) (createJsonRpcNotification method (Some (JObj params)))]\<rparr>) es)"

text \<open>What follows when something returned.\<close>

definition onReturn ::
  "stdio_ctx \<times> 'a outcome \<times> stdio_event list \<Rightarrow> ('a \<Rightarrow> stdio_ctx \<Rightarrow> stdio_event list \<Rightarrow> stdio_ctx \<times> 'b outcome \<times> stdio_event list) \<Rightarrow>
   stdio_ctx \<times> 'b outcome \<times> stdio_event list" where
  "onReturn m f = (case m of (ctx, Returned x, es) \<Rightarrow> f x ctx es | (ctx, Threw e, es) \<Rightarrow> (ctx, Threw e, es) | (ctx, Hangs, es) \<Rightarrow> (ctx, Hangs, es))"

definition unwrapped :: "stdio_env \<Rightarrow> jrecord \<Rightarrow> json option outcome" where
  "unwrapped env response =
     (case unwrapJsonRpcResponse response (vn_now env) of Inl e \<Rightarrow> Threw (ThrownConnector e) | Inr v \<Rightarrow> Returned v)"

definition stdioPerformHandshake :: "stdio_env \<Rightarrow> stdio_ctx \<Rightarrow> stdio_event list \<Rightarrow> stdio_ctx \<times> unit outcome \<times> stdio_event list" where
  "stdioPerformHandshake env ctx es =
     onReturn (stdioSendRequest env ''initialize'' createInitializeParams (stdioUpdatePhase env PhaseInitialize ctx) es)
       (\<lambda>response ctx es. onReturn (ctx, unwrapped env response, es)
         (\<lambda>_ ctx es. stdioSendNotification env ''notifications/initialized'' [] (stdioUpdatePhase env PhaseInitialized ctx) es))"

text \<open>The work that waited for its turn in the queue: afterwards the phase is the one before, or stays when something was thrown.\<close>

definition stdioWithSerializedPhase ::
  "connection_phase \<Rightarrow> (stdio_ctx \<Rightarrow> stdio_event list \<Rightarrow> stdio_ctx \<times> 'a outcome \<times> stdio_event list) \<Rightarrow> stdio_ctx \<Rightarrow> stdio_event list \<Rightarrow>
   stdio_ctx \<times> 'a outcome \<times> stdio_event list" where
  "stdioWithSerializedPhase phase work ctx es =
     (case work (ctx\<lparr>io_currentPhase := Some phase\<rparr>) es of
        (ctx', Returned x, es') \<Rightarrow> (ctx'\<lparr>io_currentPhase := io_currentPhase ctx\<rparr>, Returned x, es')
      | (ctx', Threw e, es') \<Rightarrow> (ctx'\<lparr>io_currentPhase := Some phase\<rparr>, Threw e, es')
      | (ctx', Hangs, es') \<Rightarrow> (ctx', Hangs, es'))"

definition stdioRequestToolsList ::
  "stdio_env \<Rightarrow> bool \<Rightarrow> stdio_ctx \<Rightarrow> stdio_event list \<Rightarrow> stdio_ctx \<times> remote_tool list outcome \<times> stdio_event list" where
  "stdioRequestToolsList env updatePhaseState =
     stdioWithSerializedPhase PhaseToolsList (\<lambda>ctx es.
       onReturn (stdioSendRequest env ''tools/list'' [] (if updatePhaseState then stdioUpdatePhase env PhaseToolsList ctx else ctx) es)
         (\<lambda>response ctx es. onReturn (ctx, unwrapped env response, es)
           (\<lambda>result ctx es. (ctx,
              case normalizeToolsListResult (vn_now env) result of Inl e \<Rightarrow> Threw (ThrownConnector e) | Inr tools \<Rightarrow> Returned tools, es))))"

section \<open>Operations\<close>

definition stdioDisposeChild :: "stdio_env \<Rightarrow> stdio_ctx \<Rightarrow> stdio_event list \<Rightarrow> stdio_ctx \<times> stdio_event list" where
  "stdioDisposeChild env ctx es =
     (case io_child ctx of None \<Rightarrow> (ctx, es) | Some c \<Rightarrow> awaitExit env (cp_id c) (releaseChild env ctx) es)"

definition stdioApplyFailure ::
  "stdio_env \<Rightarrow> connector_thrown \<Rightarrow> stdio_ctx \<Rightarrow> stdio_event list \<Rightarrow> stdio_ctx \<times> operation_result outcome \<times> stdio_event list" where
  "stdioApplyFailure env e ctx es =
     (let summary = stdioEnrichFailureSummary env ctx (normalizeConnectorError e (vn_now env) ''stdio_connection_failed'');
          (disposed, es') = stdioDisposeChild env ctx es;
          ctx' = disposed\<lparr>io_sessionReady := False\<rparr>;
          failure = createConnectorFailure (vn_server env) summary
            (failureOptions (if io_lastExitCode ctx' = None \<and> io_lastExitSignal ctx' = None then ProcessStopped else ProcessExited) ctx')
      in (stdioEmitState (ctx'\<lparr>io_state := op_state failure\<rparr>), Returned failure, es'))"

text \<open>\<open>try { ... } catch (error) { return await stdioApplyFailure(ctx, error) }\<close>\<close>

definition orFailure ::
  "stdio_env \<Rightarrow> stdio_ctx \<times> operation_result outcome \<times> stdio_event list \<Rightarrow> stdio_ctx \<times> operation_result outcome \<times> stdio_event list" where
  "orFailure env m = (case m of (ctx, Threw e, es) \<Rightarrow> stdioApplyFailure env e ctx es | r \<Rightarrow> r)"

definition succeedWith ::
  "stdio_env \<Rightarrow> remote_tool list \<Rightarrow> int option \<Rightarrow> string option \<Rightarrow> stdio_ctx \<Rightarrow> stdio_event list \<Rightarrow>
   stdio_ctx \<times> operation_result outcome \<times> stdio_event list" where
  "succeedWith env tools pid lastHandshakeAt ctx es =
     (let success = createConnectorSuccess (vn_server env) tools (vn_now env) (processState ProcessRunning pid ctx) (stdioGetWarnings ctx)
            lastHandshakeAt (Some (vn_now env))
      in (stdioEmitState (ctx\<lparr>io_tools := tools, io_state := op_state success\<rparr>), Returned success, es))"

definition spawnChild :: "nat \<Rightarrow> int option \<Rightarrow> child_process" where
  "spawnChild cid pid = \<lparr>cp_id = cid, cp_pid = pid, cp_stdinDestroyed = False\<rparr>"

text \<open>The \<open>try\<close> block of \<open>stdioStart\<close>, and what comes before it.\<close>

definition spawnAndConnect :: "stdio_env \<Rightarrow> stdio_ctx \<Rightarrow> stdio_event list \<Rightarrow> stdio_ctx \<times> operation_result outcome \<times> stdio_event list" where
  "spawnAndConnect env ctx es =
     (let cid = io_spawned ctx in
      case vn_spawn env cid of
        Inl e \<Rightarrow> (ctx\<lparr>io_spawned := Suc cid\<rparr>, Threw e, es)
      | Inr pid \<Rightarrow>
          onReturn (awaitSpawn env cid (ctx\<lparr>io_child := Some (spawnChild cid pid), io_spawned := Suc cid\<rparr>) es) (\<lambda>_ ctx es.
            onReturn (stdioPerformHandshake env (reportState env ConnConnecting (int (length (io_tools ctx)))
                (processState ProcessRunning pid ctx) (io_currentPhase ctx) ctx) es) (\<lambda>_ ctx es.
              onReturn (stdioRequestToolsList env True ctx es) (\<lambda>nextTools ctx es.
                succeedWith env nextTools pid (Some (vn_now env)) (ctx\<lparr>io_sessionReady := True, io_currentPhase := None\<rparr>) es))))"

definition startBegins :: "stdio_env \<Rightarrow> stdio_ctx \<Rightarrow> stdio_ctx" where
  "startBegins env disposed =
     (let fresh = disposed\<lparr>io_buffer := [], io_currentPhase := Some PhaseSpawn, io_stderrLines := []\<rparr>
      in reportState env ConnConnecting (int (length (io_tools fresh))) (processState ProcessStarting None fresh) (Some PhaseSpawn) fresh)"

definition stdioStart :: "stdio_env \<Rightarrow> stdio_ctx \<Rightarrow> stdio_event list \<Rightarrow> stdio_ctx \<times> operation_result outcome \<times> stdio_event list" where
  "stdioStart env ctx es =
     (let (disposed, es') = stdioDisposeChild env (ctx\<lparr>io_sessionReady := False\<rparr>) es; ctx' = startBegins env disposed
      in case stdioReadManagedRuntimeFailure env of
           Some failure \<Rightarrow> stdioApplyFailure env (ThrownConnector failure) ctx' es'
         | None \<Rightarrow> orFailure env (spawnAndConnect env ctx' es'))"

definition stdioRefreshCatalog ::
  "stdio_env \<Rightarrow> stdio_ctx \<Rightarrow> stdio_event list \<Rightarrow> stdio_ctx \<times> operation_result outcome \<times> stdio_event list" where
  "stdioRefreshCatalog env ctx es =
     (if \<not> io_sessionReady ctx \<or> io_child ctx = None then stdioStart env ctx es
      else orFailure env (onReturn (stdioRequestToolsList env False ctx es) (\<lambda>nextTools ctx es.
        succeedWith env nextTools (Option.bind (io_child ctx) cp_pid)
          (Some (orElse (mx_lastHandshakeAt (io_state ctx)) (vn_now env))) ctx es)))"

definition stdioStop :: "stdio_env \<Rightarrow> stdio_ctx \<Rightarrow> stdio_event list \<Rightarrow> stdio_ctx \<times> stdio_event list" where
  "stdioStop env ctx es =
     (let (disposed, es') = stdioDisposeChild env (ctx\<lparr>io_sessionReady := False\<rparr>) es in (stopEnds env disposed, es'))"

definition callFailure :: "tool_call \<Rightarrow> mcp_error \<Rightarrow> call_result" where
  "callFailure request e = callResult request (tl_serverId request) (CallFailed e)"

text \<open>The \<open>try\<close> block of \<open>stdioCallTool\<close>, and the whole of it.\<close>

definition requestToolCall ::
  "stdio_env \<Rightarrow> tool_call \<Rightarrow> stdio_ctx \<Rightarrow> stdio_event list \<Rightarrow> stdio_ctx \<times> call_result outcome \<times> stdio_event list" where
  "requestToolCall env request ctx es =
     onReturn (stdioWithSerializedPhase PhaseToolsCall (stdioSendRequest env ''tools/call''
         [(''name'', JStr (tl_remoteToolName request)), (''arguments'', JObj (tl_arguments request))]) ctx es)
       (\<lambda>response ctx es. onReturn (ctx, unwrapped env response, es) (\<lambda>result ctx es.
         (ctx, Returned (normalizeToolsCallResult result request (vn_server env) (vn_now env)), es)))"

definition stdioCallTool ::
  "stdio_env \<Rightarrow> tool_call \<Rightarrow> stdio_ctx \<Rightarrow> stdio_event list \<Rightarrow> stdio_ctx \<times> call_result outcome \<times> stdio_event list" where
  "stdioCallTool env request ctx es =
     (if \<not> io_sessionReady ctx \<or> io_child ctx = None
      then (ctx, Returned (callFailure request (createMcpErrorSummary ''temporarily_unavailable''
        ''The MCP stdio server is not ready to execute tools.'' True (vn_now env) None)), es)
      else if tl_remoteToolName request \<notin> set (map mt_name (io_tools ctx))
      then (ctx, Returned (callFailure request (createMcpErrorSummary ''directory_drift''
        ''The requested MCP tool no longer exists in the current server catalog.'' False (vn_now env) None)), es)
      else
        (case requestToolCall env request ctx es of
           (ctx', Threw e, es') \<Rightarrow>
             (ctx', Returned (callFailure request (normalizeConnectorError e (vn_now env) ''stdio_tool_call_failed'')), es')
         | r \<Rightarrow> r))"

section \<open>The invariant\<close>

text \<open>
  Requests have identifiers of their own: none waits twice, none is settled twice or waits on after it was settled, and none comes from
  the future; and the tail of the error output is short. Without a child, no request waits.
\<close>

definition idsOk :: "stdio_ctx \<Rightarrow> bool" where
  "idsOk ctx \<longleftrightarrow> distinct (io_pending ctx @ map fst (io_settled ctx)) \<and>
     list_all (\<lambda>rid. rid < io_nextRequestId ctx) (io_pending ctx @ map fst (io_settled ctx)) \<and>
     length (io_stderrLines ctx) \<le> STDERR_SUMMARY_MAX_LINES"

definition stdioOk :: "stdio_ctx \<Rightarrow> bool" where
  "stdioOk ctx \<longleftrightarrow> idsOk ctx \<and> (io_child ctx = None \<longrightarrow> io_pending ctx = [])"

lemma idsOk_updates [simp]:
  "idsOk (ctx\<lparr>io_child := c\<rparr>) = idsOk ctx" "idsOk (ctx\<lparr>io_spawned := n\<rparr>) = idsOk ctx" "idsOk (ctx\<lparr>io_buffer := b\<rparr>) = idsOk ctx"
  "idsOk (ctx\<lparr>io_sessionReady := r\<rparr>) = idsOk ctx" "idsOk (ctx\<lparr>io_tools := ts\<rparr>) = idsOk ctx" "idsOk (ctx\<lparr>io_state := st\<rparr>) = idsOk ctx"
  "idsOk (ctx\<lparr>io_lastExitCode := x\<rparr>) = idsOk ctx" "idsOk (ctx\<lparr>io_lastExitSignal := y\<rparr>) = idsOk ctx"
  "idsOk (ctx\<lparr>io_currentPhase := p\<rparr>) = idsOk ctx" "idsOk (ctx\<lparr>io_emitted := sts\<rparr>) = idsOk ctx" "idsOk (ctx\<lparr>io_written := ls\<rparr>) = idsOk ctx"
  by (simp_all add: idsOk_def)

lemma idsOk_stderr: "idsOk ctx \<Longrightarrow> length ls \<le> STDERR_SUMMARY_MAX_LINES \<Longrightarrow> idsOk (ctx\<lparr>io_stderrLines := ls\<rparr>)"
  by (simp add: idsOk_def)

lemma settle_ids: "idsOk ctx \<Longrightarrow> rid \<in> set (io_pending ctx) \<Longrightarrow> idsOk (settle rid r ctx)"
  by (auto simp: idsOk_def settle_def distinct_removeAll list_all_iff)

lemma settle_child [simp]: "io_child (settle rid r ctx) = io_child ctx" "io_sessionReady (settle rid r ctx) = io_sessionReady ctx"
  by (simp_all add: settle_def)

lemma settle_empty: "io_pending ctx = [] \<Longrightarrow> io_pending (settle rid r ctx) = []"
  by (simp add: settle_def)

lemma fold_settle:
  "fold (\<lambda>rid. settle rid r) rids ctx =
     ctx\<lparr>io_pending := filter (\<lambda>i. i \<notin> set rids) (io_pending ctx), io_settled := io_settled ctx @ map (\<lambda>rid. (rid, r)) rids\<rparr>"
proof (induction rids arbitrary: ctx)
  case (Cons rid rids)
  have "(\<lambda>i. rid \<noteq> i \<and> i \<notin> set rids) = (\<lambda>i. i \<noteq> rid \<and> i \<notin> set rids)" by auto
  then show ?case unfolding fold_simps comp_apply Cons by (simp add: settle_def removeAll_filter_not_eq)
qed simp

lemma rejectPending_eq:
  "stdioRejectPending e ctx = ctx\<lparr>io_pending := [], io_settled := io_settled ctx @ map (\<lambda>rid. (rid, Inl e)) (io_pending ctx)\<rparr>"
  by (simp add: stdioRejectPending_def fold_settle)

lemma rejectPending_ok: "idsOk ctx \<Longrightarrow> stdioOk (stdioRejectPending e ctx)"
  by (auto simp: stdioOk_def idsOk_def rejectPending_eq comp_def list_all_iff)

lemma stdioOk_updates [simp]:
  "stdioOk (ctx\<lparr>io_spawned := n\<rparr>) = stdioOk ctx" "stdioOk (ctx\<lparr>io_buffer := b\<rparr>) = stdioOk ctx"
  "stdioOk (ctx\<lparr>io_sessionReady := r\<rparr>) = stdioOk ctx" "stdioOk (ctx\<lparr>io_tools := ts\<rparr>) = stdioOk ctx" "stdioOk (ctx\<lparr>io_state := st\<rparr>) = stdioOk ctx"
  "stdioOk (ctx\<lparr>io_lastExitCode := x\<rparr>) = stdioOk ctx" "stdioOk (ctx\<lparr>io_lastExitSignal := y\<rparr>) = stdioOk ctx"
  "stdioOk (ctx\<lparr>io_currentPhase := p\<rparr>) = stdioOk ctx" "stdioOk (ctx\<lparr>io_emitted := sts\<rparr>) = stdioOk ctx" "stdioOk (ctx\<lparr>io_written := ls\<rparr>) = stdioOk ctx"
  by (simp_all add: stdioOk_def)

lemma stdioOk_ids [simp]: "stdioOk ctx \<Longrightarrow> idsOk ctx"
  by (simp add: stdioOk_def)

lemma report_ok [simp]:
  "stdioOk (stdioEmitState ctx) = stdioOk ctx" "stdioOk (reportState env cs n t p ctx) = stdioOk ctx"
  "stdioOk (stdioUpdatePhase env ph ctx) = stdioOk ctx" "stdioOk (stdioApplyUnexpectedDisconnect env e ctx) = stdioOk ctx"
  "stdioOk (disconnectIfReady env e ctx) = stdioOk ctx" "stdioOk (stopEnds env ctx) = stdioOk ctx"
  by (simp_all add: stdioEmitState_def reportState_def stdioUpdatePhase_def stdioApplyUnexpectedDisconnect_def disconnectIfReady_def stopEnds_def)

lemma deliver_ok: "stdioOk ctx \<Longrightarrow> stdioOk (deliverMessage m ctx)"
  by (auto simp: deliverMessage_def stdioOk_def settle_ids settle_empty find_Some_iff split: option.split)

lemma delivers_ok: "stdioOk ctx \<Longrightarrow> stdioOk (fold deliverMessage ms ctx)"
  by (induction ms arbitrary: ctx) (simp_all add: deliver_ok)

lemma push_short: "length ls \<le> STDERR_SUMMARY_MAX_LINES \<Longrightarrow> length (pushStderrLine l ls) \<le> STDERR_SUMMARY_MAX_LINES"
  by (auto simp: pushStderrLine_def STDERR_SUMMARY_MAX_LINES_def)

lemma pushes_short: "length ls \<le> STDERR_SUMMARY_MAX_LINES \<Longrightarrow> length (fold pushStderrLine xs ls) \<le> STDERR_SUMMARY_MAX_LINES"
  by (induction xs arbitrary: ls) (simp_all add: push_short)

lemma stderr_ok: "stdioOk ctx \<Longrightarrow> stdioOk (onStderrData chunk ctx)"
  by (auto simp: onStderrData_def stdioRecordStderr_def stdioOk_def idsOk_def pushes_short)

lemma release_ok: "stdioOk ctx \<Longrightarrow> stdioOk (releaseChild env ctx)"
  by (simp add: releaseChild_def rejectPending_ok)

lemma data_ok: "stdioOk ctx \<Longrightarrow> stdioOk (onStdoutData env cid chunk ctx)"
  by (auto simp: onStdoutData_def delivers_ok rejectPending_ok split: prod.split sum.split)

lemma exit_ok: "stdioOk ctx \<Longrightarrow> stdioOk (onExit env cid code signal ctx)"
  by (simp add: onExit_def Let_def rejectPending_ok)

lemma event_ok: "stdioOk ctx \<Longrightarrow> stdioOk (handleEvent env e ctx)"
proof (cases e)
  case (StdinDestroyed cid)
  then show "stdioOk ctx \<Longrightarrow> ?thesis" by (simp add: stdioOk_def)
next
  case (WriteFailed rid err)
  then show "stdioOk ctx \<Longrightarrow> ?thesis" by (auto simp: onWriteFailed_def stdioOk_def settle_ids settle_empty)
qed (simp_all add: onError_def rejectPending_ok exit_ok data_ok stderr_ok stopBegins_def release_ok)

text \<open>What every event keeps, the waiting operations keep.\<close>

locale event_invariant =
  fixes env :: stdio_env and inv :: "stdio_ctx \<Rightarrow> bool"
  assumes inv_event: "inv ctx \<Longrightarrow> inv (handleEvent env e ctx)"
begin

lemma awaitSpawn_inv: "inv ctx \<Longrightarrow> inv (fst (awaitSpawn env cid ctx es))"
  by (induction es arbitrary: ctx) (auto split: stdio_event.split simp: inv_event simp del: handleEvent.simps)

lemma awaitExit_inv: "inv ctx \<Longrightarrow> inv (fst (awaitExit env cid ctx es))"
  by (induction es arbitrary: ctx) (auto split: stdio_event.split simp: inv_event simp del: handleEvent.simps)

lemma awaitResponse_inv: "inv ctx \<Longrightarrow> inv (fst (awaitResponse env late rid ctx es))"
  by (induction es arbitrary: ctx) (auto split: option.split sum.split simp: inv_event simp del: handleEvent.simps)

lemma awaitWrite_inv: "inv ctx \<Longrightarrow> inv (fst (awaitWrite env ctx es))"
  by (induction es arbitrary: ctx) (auto split: stdio_event.split option.split simp: inv_event simp del: handleEvent.simps)

end

interpretation ok: event_invariant env stdioOk for env
  by unfold_locales (rule event_ok)

text \<open>A child that is gone does not come back, and the tools stay, whatever happens while an operation waits.\<close>

lemma reject_other [simp]:
  "io_child (stdioRejectPending e ctx) = io_child ctx" "io_tools (stdioRejectPending e ctx) = io_tools ctx"
  "io_pending (stdioRejectPending e ctx) = []" "io_sessionReady (stdioRejectPending e ctx) = io_sessionReady ctx"
  by (simp_all add: rejectPending_eq)

lemma report_child [simp]:
  "io_child (stdioEmitState ctx) = io_child ctx" "io_child (reportState env cs n t p ctx) = io_child ctx"
  "io_child (stdioUpdatePhase env ph ctx) = io_child ctx" "io_child (stdioApplyUnexpectedDisconnect env e ctx) = io_child ctx"
  "io_child (disconnectIfReady env e ctx) = io_child ctx" "io_child (stopEnds env ctx) = io_child ctx"
  by (simp_all add: stdioEmitState_def reportState_def stdioUpdatePhase_def stdioApplyUnexpectedDisconnect_def disconnectIfReady_def stopEnds_def)

lemma delivers_child [simp]: "io_child (fold deliverMessage ms ctx) = io_child ctx"
  by (induction ms arbitrary: ctx) (simp_all add: deliverMessage_def split: option.split)

lemma no_child_event: "io_child ctx = None \<Longrightarrow> io_child (handleEvent env e ctx) = None"
  by (cases e) (simp_all add: onError_def onExit_def onStdoutData_def onStderrData_def stdioRecordStderr_def onWriteFailed_def stopBegins_def
      releaseChild_def isCurrent_def Let_def)

interpretation gone: event_invariant env "\<lambda>ctx. io_child ctx = None" for env
  by unfold_locales (rule no_child_event)

text \<open>A session that was ready stays so while it has a child.\<close>

lemma report_ready [simp]:
  "io_sessionReady (stdioEmitState ctx) = io_sessionReady ctx" "io_sessionReady (reportState env cs n t p ctx) = io_sessionReady ctx"
  "io_sessionReady (stdioUpdatePhase env ph ctx) = io_sessionReady ctx"
  "io_sessionReady (stdioApplyUnexpectedDisconnect env e ctx) = io_sessionReady ctx"
  "io_sessionReady (disconnectIfReady env e ctx) = io_sessionReady ctx" "io_sessionReady (stopEnds env ctx) = io_sessionReady ctx"
  by (simp_all add: stdioEmitState_def reportState_def stdioUpdatePhase_def stdioApplyUnexpectedDisconnect_def disconnectIfReady_def stopEnds_def)

lemma delivers_ready [simp]: "io_sessionReady (fold deliverMessage ms ctx) = io_sessionReady ctx"
  by (induction ms arbitrary: ctx) (simp_all add: deliverMessage_def split: option.split)

lemma ready_event: "io_sessionReady ctx \<or> io_child ctx = None \<Longrightarrow> io_sessionReady (handleEvent env e ctx) \<or> io_child (handleEvent env e ctx) = None"
  by (cases e) (auto simp: onError_def onExit_def onStdoutData_def onStderrData_def stdioRecordStderr_def onWriteFailed_def stopBegins_def
      releaseChild_def isCurrent_def Let_def split: option.split prod.split sum.split)

interpretation ready: event_invariant env "\<lambda>ctx. io_sessionReady ctx \<or> io_child ctx = None" for env
  by unfold_locales (rule ready_event)

section \<open>Operations keep the invariant\<close>

lemma onReturn_ok:
  assumes "stdioOk (fst m)" and "\<And>x ctx es. stdioOk ctx \<Longrightarrow> stdioOk (fst (f x ctx es))"
  shows "stdioOk (fst (onReturn m f))"
proof -
  obtain ctx r es where "m = (ctx, r, es)" by (cases m)
  then show ?thesis using assms by (cases r) (simp_all add: onReturn_def)
qed

lemma onReturn_Returned:
  "onReturn m f = (ctx', Returned y, es') \<longleftrightarrow> (\<exists>ctx x es. m = (ctx, Returned x, es) \<and> f x ctx es = (ctx', Returned y, es'))"
  by (cases m; cases "fst (snd m)") (auto simp: onReturn_def)

lemma canWrite_child: "canWrite ctx \<Longrightarrow> io_child ctx \<noteq> None"
  by (auto simp: canWrite_def split: option.splits)

lemma new_request_ok:
  "stdioOk ctx \<Longrightarrow> canWrite ctx \<Longrightarrow>
   stdioOk (ctx\<lparr>io_nextRequestId := io_nextRequestId ctx + 1, io_pending := io_pending ctx @ [io_nextRequestId ctx], io_written := ls\<rparr>)"
proof -
  assume ok: "stdioOk ctx" and cw: "canWrite ctx"
  have below: "rid < io_nextRequestId ctx" if "rid \<in> set (io_pending ctx @ map fst (io_settled ctx))" for rid
    using ok that unfolding stdioOk_def idsOk_def list_all_iff by blast
  then have "io_nextRequestId ctx \<notin> set (io_pending ctx @ map fst (io_settled ctx))" by blast
  moreover have "rid < io_nextRequestId ctx + 1" if "rid \<in> set (io_pending ctx @ map fst (io_settled ctx))" for rid
    using below [OF that] by simp
  ultimately show ?thesis
    using ok canWrite_child [OF cw] by (simp add: stdioOk_def idsOk_def list_all_iff image_Un ball_Un)
qed

lemma sendRequest_ok: "stdioOk ctx \<Longrightarrow> stdioOk (fst (stdioSendRequest env method params ctx es))"
  unfolding stdioSendRequest_def Let_def by (cases "canWrite ctx") (simp_all add: ok.awaitResponse_inv [OF new_request_ok])

lemma notification_ok: "stdioOk ctx \<Longrightarrow> stdioOk (fst (stdioSendNotification env method params ctx es))"
  by (simp add: stdioSendNotification_def ok.awaitWrite_inv)

lemma handshake_ok: "stdioOk ctx \<Longrightarrow> stdioOk (fst (stdioPerformHandshake env ctx es))"
  unfolding stdioPerformHandshake_def by (intro onReturn_ok sendRequest_ok notification_ok) simp_all

lemma serialized_ok:
  assumes "\<And>ctx es. stdioOk ctx \<Longrightarrow> stdioOk (fst (work ctx es))" and "stdioOk ctx"
  shows "stdioOk (fst (stdioWithSerializedPhase phase work ctx es))"
  using assms(1) [of "ctx\<lparr>io_currentPhase := Some phase\<rparr>" es] assms(2)
  by (auto simp: stdioWithSerializedPhase_def split: prod.split outcome.split)

lemma tools_ok: "stdioOk ctx \<Longrightarrow> stdioOk (fst (stdioRequestToolsList env u ctx es))"
  unfolding stdioRequestToolsList_def by (rule serialized_ok) (intro onReturn_ok sendRequest_ok; simp)+

lemma dispose_ok: "stdioOk ctx \<Longrightarrow> stdioOk (fst (stdioDisposeChild env ctx es))"
  by (simp add: stdioDisposeChild_def ok.awaitExit_inv release_ok split: option.split)

lemma release_child [simp]: "io_child (releaseChild env ctx) = None"
  by (simp add: releaseChild_def)

lemma dispose_child: "io_child (fst (stdioDisposeChild env ctx es)) = None"
  by (simp add: stdioDisposeChild_def gone.awaitExit_inv split: option.split)

lemma failure_ok: "stdioOk ctx \<Longrightarrow> stdioOk (fst (stdioApplyFailure env e ctx es))"
  using dispose_ok [of ctx env es] by (cases "stdioDisposeChild env ctx es") (simp add: stdioApplyFailure_def Let_def)

lemma orFailure_ok: "stdioOk (fst m) \<Longrightarrow> stdioOk (fst (orFailure env m))"
  by (cases m; cases "fst (snd m)") (simp_all add: orFailure_def failure_ok)

lemma succeed_ok: "stdioOk ctx \<Longrightarrow> stdioOk (fst (succeedWith env tools pid h ctx es))"
  by (simp add: succeedWith_def Let_def)

lemma spawned_ok: "stdioOk ctx \<Longrightarrow> stdioOk (ctx\<lparr>io_child := Some c\<rparr>)"
  by (simp add: stdioOk_def)

lemma stderr_reset: "stdioOk ctx \<Longrightarrow> stdioOk (ctx\<lparr>io_stderrLines := []\<rparr>)"
  by (simp add: stdioOk_def idsOk_def)

lemma startBegins_ok: "stdioOk ctx \<Longrightarrow> stdioOk (startBegins env ctx)"
  by (simp add: startBegins_def Let_def stderr_reset)

lemma connect_ok: "stdioOk ctx \<Longrightarrow> stdioOk (fst (spawnAndConnect env ctx es))"
  unfolding spawnAndConnect_def Let_def
  by (cases "vn_spawn env (io_spawned ctx)")
    (auto simp: spawned_ok handshake_ok tools_ok succeed_ok intro!: onReturn_ok ok.awaitSpawn_inv)

lemma start_ok: "stdioOk ctx \<Longrightarrow> stdioOk (fst (stdioStart env ctx es))"
  using dispose_ok [of "ctx\<lparr>io_sessionReady := False\<rparr>" env es]
  by (cases "stdioDisposeChild env (ctx\<lparr>io_sessionReady := False\<rparr>) es")
    (simp add: stdioStart_def Let_def startBegins_ok failure_ok orFailure_ok connect_ok split: option.split)

lemma refresh_ok: "stdioOk ctx \<Longrightarrow> stdioOk (fst (stdioRefreshCatalog env ctx es))"
  by (simp add: stdioRefreshCatalog_def start_ok orFailure_ok onReturn_ok tools_ok succeed_ok)

lemma stop_ok: "stdioOk ctx \<Longrightarrow> stdioOk (fst (stdioStop env ctx es))"
  using dispose_ok [of "ctx\<lparr>io_sessionReady := False\<rparr>" env es]
  by (cases "stdioDisposeChild env (ctx\<lparr>io_sessionReady := False\<rparr>) es") (simp add: stdioStop_def)

lemma toolCall_ok: "stdioOk ctx \<Longrightarrow> stdioOk (fst (requestToolCall env request ctx es))"
  unfolding requestToolCall_def by (intro onReturn_ok serialized_ok sendRequest_ok) simp_all

lemma call_ok: "stdioOk ctx \<Longrightarrow> stdioOk (fst (stdioCallTool env request ctx es))"
  using toolCall_ok [of ctx env request es] by (auto simp: stdioCallTool_def split: prod.split outcome.split)

section \<open>Reachable states\<close>

text \<open>
  The states of a connector after any sequence of operations, each with any events, and of events in between; an operation begins
  when the one before it has returned.
\<close>

inductive stdio_reachable :: "stdio_env \<Rightarrow> stdio_ctx \<Rightarrow> bool" for env where
  created: "stdio_reachable env (createStdioMcpServerConnector env)"
| happened: "stdio_reachable env ctx \<Longrightarrow> stdio_reachable env (handleEvent env e ctx)"
| started: "stdio_reachable env ctx \<Longrightarrow> stdio_reachable env (fst (stdioStart env ctx es))"
| refreshed: "stdio_reachable env ctx \<Longrightarrow> stdio_reachable env (fst (stdioRefreshCatalog env ctx es))"
| called: "stdio_reachable env ctx \<Longrightarrow> stdio_reachable env (fst (stdioCallTool env request ctx es))"
| stopped: "stdio_reachable env ctx \<Longrightarrow> stdio_reachable env (fst (stdioStop env ctx es))"

lemma reachable_ok: "stdio_reachable env ctx \<Longrightarrow> stdioOk ctx"
proof (induction rule: stdio_reachable.induct)
  case created
  then show ?case by (simp add: createStdioMcpServerConnector_def stdioOk_def idsOk_def)
qed (simp_all add: event_ok start_ok refresh_ok call_ok stop_ok)

text \<open>
  C34: in every reachable state the requests that wait are distinct from each other and from those that were settled, no request was
  settled twice, and none waits when there is no child process.
\<close>

theorem requests_settle_once:
  assumes "stdio_reachable env ctx"
  shows "distinct (io_pending ctx @ map fst (io_settled ctx)) \<and> (io_child ctx = None \<longrightarrow> io_pending ctx = []) \<and>
    length (io_stderrLines ctx) \<le> 3"
  using reachable_ok [OF assms] by (simp add: stdioOk_def idsOk_def STDERR_SUMMARY_MAX_LINES_def)

section \<open>What an operation leaves behind\<close>

lemma rejected_none [simp]: "map_of (map (\<lambda>rid. (rid, Inl e)) ps) rid \<noteq> Some (Inr m)"
  by (auto dest: map_of_SomeD)

lemma rejected_answer: "map_of xs rid = None \<Longrightarrow> map_of (xs @ map (\<lambda>rid. (rid, Inl e)) ps) rid \<noteq> Some (Inr m)"
  by (auto simp: map_add_def split: option.splits dest: map_of_SomeD)

lemma report_settled [simp]:
  "io_settled (stdioEmitState ctx) = io_settled ctx" "io_settled (reportState env cs n t p ctx) = io_settled ctx"
  "io_settled (stdioApplyUnexpectedDisconnect env e ctx) = io_settled ctx" "io_settled (disconnectIfReady env e ctx) = io_settled ctx"
  "io_settled (stopEnds env ctx) = io_settled ctx"
  by (simp_all add: stdioEmitState_def reportState_def stdioApplyUnexpectedDisconnect_def disconnectIfReady_def stopEnds_def)

text \<open>An answer comes from the child, which is still there.\<close>

lemma answer_from_child:
  assumes "map_of (io_settled ctx) rid = None" and "map_of (io_settled (handleEvent env e ctx)) rid = Some (Inr m)"
  shows "io_child (handleEvent env e ctx) \<noteq> None"
proof (cases e)
  case (StdoutData cid chunk)
  then show ?thesis using assms
    by (auto simp: onStdoutData_def isCurrent_def rejectPending_eq rejected_answer split: if_splits option.splits prod.splits sum.splits)
next
  case (ChildExit cid code signal)
  then show ?thesis using assms by (auto simp: onExit_def Let_def rejectPending_eq rejected_answer split: if_splits)
next
  case StopCalled
  then show ?thesis using assms by (auto simp: stopBegins_def releaseChild_def rejectPending_eq rejected_answer split: if_splits)
qed (use assms in \<open>auto simp: onError_def onStderrData_def stdioRecordStderr_def onWriteFailed_def settle_def rejectPending_eq
       rejected_answer map_add_def split: if_splits option.splits\<close>)

lemma awaitResponse_child:
  "map_of (io_settled ctx) rid = None \<Longrightarrow> awaitResponse env late rid ctx es = (ctx', Returned m, es') \<Longrightarrow> io_child ctx' \<noteq> None"
proof (induction es arbitrary: ctx)
  case (Cons e es)
  then have step: "awaitResponse env late rid (handleEvent env e ctx) es = (ctx', Returned m, es')" by (simp split: if_splits)
  show ?case
  proof (cases "map_of (io_settled (handleEvent env e ctx)) rid")
    case None
    then show ?thesis using Cons.IH step by blast
  next
    case (Some r)
    then show ?thesis using step answer_from_child [OF Cons.prems(1), of env e] by (cases es; cases r) auto
  qed
qed simp

lemma sendRequest_child:
  assumes "stdioOk ctx" and "stdioSendRequest env method params ctx es = (ctx', Returned m, es')"
  shows "io_child ctx' \<noteq> None"
proof -
  have "map_of (io_settled ctx) (io_nextRequestId ctx) = None"
    using assms(1) by (force simp: stdioOk_def idsOk_def list_all_iff map_of_eq_None_iff)
  moreover obtain late ls where "awaitResponse env late (io_nextRequestId ctx) (ctx\<lparr>io_nextRequestId := io_nextRequestId ctx + 1,
      io_pending := io_pending ctx @ [io_nextRequestId ctx], io_written := ls\<rparr>) es = (ctx', Returned m, es')"
    using assms(2) by (auto simp: stdioSendRequest_def Let_def split: if_splits)
  ultimately show ?thesis using awaitResponse_child [of "ctx\<lparr>io_nextRequestId := io_nextRequestId ctx + 1,
      io_pending := io_pending ctx @ [io_nextRequestId ctx], io_written := ls\<rparr>"] by simp
qed

lemma tools_child:
  assumes "stdioOk ctx" and "stdioRequestToolsList env u ctx es = (ctx', Returned ts, es')"
  shows "io_child ctx' \<noteq> None"
proof -
  obtain ctx1 m es1 where "stdioSendRequest env ''tools/list'' [] (if u then stdioUpdatePhase env PhaseToolsList (ctx\<lparr>io_currentPhase := Some PhaseToolsList\<rparr>)
        else ctx\<lparr>io_currentPhase := Some PhaseToolsList\<rparr>) es = (ctx1, Returned m, es1)" "io_child ctx' = io_child ctx1"
    using assms(2) by (auto simp: stdioRequestToolsList_def stdioWithSerializedPhase_def onReturn_Returned split: prod.splits outcome.splits)
  moreover have "stdioOk (if u then stdioUpdatePhase env PhaseToolsList (ctx\<lparr>io_currentPhase := Some PhaseToolsList\<rparr>)
        else ctx\<lparr>io_currentPhase := Some PhaseToolsList\<rparr>)" using assms(1) by simp
  ultimately show ?thesis using sendRequest_child by metis
qed

definition namesCommand :: "stdio_env \<Rightarrow> server_state \<Rightarrow> bool" where
  "namesCommand env st \<longleftrightarrow> (\<exists>e d. mx_lastError st = Some e \<and> me_details e = Some d \<and> prop_of d ''command'' = Some (JStr (vn_command env)))"

definition leftBehind :: "stdio_env \<Rightarrow> stdio_ctx \<Rightarrow> operation_result \<Rightarrow> bool" where
  "leftBehind env ctx r \<longleftrightarrow> io_state ctx = op_state r \<and> io_tools ctx = op_tools r \<and>
     (mx_connectionState (io_state ctx) = ConnConnected) = (op_ok r \<and> ms_enabled (vn_server env)) \<and>
     (if op_ok r then io_sessionReady ctx \<and> io_child ctx \<noteq> None else \<not> io_sessionReady ctx \<and> io_child ctx = None \<and> io_pending ctx = []) \<and>
     (op_ok r \<or> namesCommand env (op_state r))"

lemma enriched_command:
  "namesCommand env (op_state (createConnectorFailure server (stdioEnrichFailureSummary env ctx e) options))"
  by (simp add: namesCommand_def createConnectorFailure_def createConnectorState_def stdioEnrichFailureSummary_def spreadInto_def Let_def)

lemma failure_result [simp]:
  "mx_connectionState (op_state (createConnectorFailure server e (failureOptions status ctx))) \<noteq> ConnConnected"
  "op_tools (createConnectorFailure server e (failureOptions status ctx)) = io_tools ctx"
  "\<not> op_ok (createConnectorFailure server e (failureOptions status ctx))"
  by (simp_all add: createConnectorFailure_def failureOptions_def createConnectorState_def orElse_def Let_def)

lemma success_result [simp]:
  "mx_connectionState (op_state (createConnectorSuccess server ts now tp ws h c)) = ConnConnected \<longleftrightarrow> ms_enabled server"
  "op_tools (createConnectorSuccess server ts now tp ws h c) = ts" "op_ok (createConnectorSuccess server ts now tp ws h c)"
  by (simp_all add: createConnectorSuccess_def createConnectorState_def Let_def)

lemma failure_left:
  assumes "stdioOk ctx" and "stdioApplyFailure env e ctx es = (ctx', Returned r, es')"
  shows "leftBehind env ctx' r \<and> \<not> op_ok r"
proof -
  obtain d es1 where d: "stdioDisposeChild env ctx es = (d, es1)" by (cases "stdioDisposeChild env ctx es")
  have "io_child d = None" "io_pending d = []"
    using dispose_child [of env ctx es] dispose_ok [OF assms(1), of env es] d by (simp_all add: stdioOk_def)
  moreover obtain x status
    where r: "r = createConnectorFailure (vn_server env) (stdioEnrichFailureSummary env ctx x) (failureOptions status (d\<lparr>io_sessionReady := False\<rparr>))"
    and "ctx' = stdioEmitState (d\<lparr>io_sessionReady := False, io_state := op_state r\<rparr>)"
    using assms(2) d by (auto simp: stdioApplyFailure_def Let_def)
  ultimately show ?thesis by (simp add: leftBehind_def stdioEmitState_def enriched_command)
qed

lemma success_left:
  assumes "io_sessionReady ctx" and "io_child ctx \<noteq> None" and "succeedWith env ts pid h ctx es = (ctx', Returned r, es')"
  shows "leftBehind env ctx' r"
proof -
  obtain tp ws c where "r = createConnectorSuccess (vn_server env) ts (vn_now env) tp ws h c"
    and "ctx' = stdioEmitState (ctx\<lparr>io_tools := ts, io_state := op_state r\<rparr>)"
    using assms(3) by (auto simp: succeedWith_def Let_def)
  then show ?thesis using assms(1,2) by (simp add: leftBehind_def stdioEmitState_def)
qed

lemma orFailure_left:
  assumes "orFailure env m = (ctx', Returned r, es')" and "stdioOk (fst m)" and "\<And>c es. m = (c, Returned r, es) \<Longrightarrow> leftBehind env c r"
  shows "leftBehind env ctx' r"
proof -
  obtain c o1 es where m: "m = (c, o1, es)" by (cases m)
  then show ?thesis using assms failure_left [of c env _ es ctx' r es'] by (cases o1) (auto simp: orFailure_def)
qed

lemma start_left:
  assumes "stdioOk ctx" and "stdioStart env ctx es = (ctx', Returned r, es')"
  shows "leftBehind env ctx' r"
proof -
  obtain d es1 where d: "stdioDisposeChild env (ctx\<lparr>io_sessionReady := False\<rparr>) es = (d, es1)"
    by (cases "stdioDisposeChild env (ctx\<lparr>io_sessionReady := False\<rparr>) es")
  have ok: "stdioOk (startBegins env d)" using dispose_ok [of "ctx\<lparr>io_sessionReady := False\<rparr>" env es] d assms(1) by (simp add: startBegins_ok)
  show ?thesis
  proof (cases "stdioReadManagedRuntimeFailure env")
    case (Some f)
    then show ?thesis using assms(2) d failure_left [OF ok] by (simp add: stdioStart_def)
  next
    case None
    then have o1: "orFailure env (spawnAndConnect env (startBegins env d) es1) = (ctx', Returned r, es')"
      using assms(2) d by (simp add: stdioStart_def)
    show ?thesis
    proof (rule orFailure_left [OF o1 connect_ok [OF ok]])
      fix c es2
      assume "spawnAndConnect env (startBegins env d) es1 = (c, Returned r, es2)"
      then obtain pid ctx1 es3 ctx2 es4 ctx3 ts es5 where
          a: "awaitSpawn env (io_spawned (startBegins env d)) ((startBegins env d)\<lparr>io_child :=
            Some (spawnChild (io_spawned (startBegins env d)) pid), io_spawned := Suc (io_spawned (startBegins env d))\<rparr>) es1 = (ctx1, Returned (), es3)"
        and b: "stdioPerformHandshake env (reportState env ConnConnecting (int (length (io_tools ctx1))) (processState ProcessRunning pid ctx1)
            (io_currentPhase ctx1) ctx1) es3 = (ctx2, Returned (), es4)"
        and c: "stdioRequestToolsList env True ctx2 es4 = (ctx3, Returned ts, es5)"
        and s: "succeedWith env ts pid (Some (vn_now env)) (ctx3\<lparr>io_sessionReady := True, io_currentPhase := None\<rparr>) es5 = (c, Returned r, es2)"
        by (auto simp: spawnAndConnect_def Let_def onReturn_Returned split: sum.splits)
      have "stdioOk ctx1" using ok.awaitSpawn_inv [of "_" env] ok a by (metis fst_conv spawned_ok stdioOk_updates(1))
      then have "stdioOk ctx2" using handshake_ok b by (metis fst_conv report_ok(2))
      then have "io_child ctx3 \<noteq> None" using tools_child c by blast
      then show "leftBehind env c r" using success_left [OF _ _ s] by simp
    qed
  qed
qed

lemma tools_ready:
  assumes "io_sessionReady ctx \<or> io_child ctx = None"
  shows "io_sessionReady (fst (stdioRequestToolsList env False ctx es)) \<or> io_child (fst (stdioRequestToolsList env False ctx es)) = None"
proof -
  let ?c = "ctx\<lparr>io_currentPhase := Some PhaseToolsList\<rparr>"
  let ?m = "stdioSendRequest env ''tools/list'' [] ?c es"
  have "io_sessionReady (fst ?m) \<or> io_child (fst ?m) = None"
    unfolding stdioSendRequest_def Let_def using assms by (cases "canWrite ?c") (simp_all add: ready.awaitResponse_inv)
  then show ?thesis
    by (auto simp: stdioRequestToolsList_def stdioWithSerializedPhase_def onReturn_def unwrapped_def split: prod.split outcome.split sum.split)
qed

lemma refresh_left:
  assumes "stdioOk ctx" and "stdioRefreshCatalog env ctx es = (ctx', Returned r, es')"
  shows "leftBehind env ctx' r"
proof (cases "\<not> io_sessionReady ctx \<or> io_child ctx = None")
  case True
  then show ?thesis using assms start_left by (simp add: stdioRefreshCatalog_def)
next
  case False
  then have "orFailure env (onReturn (stdioRequestToolsList env False ctx es) (\<lambda>nextTools ctx es.
        succeedWith env nextTools (Option.bind (io_child ctx) cp_pid) (Some (orElse (mx_lastHandshakeAt (io_state ctx)) (vn_now env))) ctx es)) =
      (ctx', Returned r, es')"
    using assms(2) by (auto simp: stdioRefreshCatalog_def)
  then show ?thesis
  proof (rule orFailure_left)
    show "stdioOk (fst (onReturn (stdioRequestToolsList env False ctx es) (\<lambda>nextTools ctx es.
        succeedWith env nextTools (Option.bind (io_child ctx) cp_pid) (Some (orElse (mx_lastHandshakeAt (io_state ctx)) (vn_now env))) ctx es)))"
      using assms(1) by (intro onReturn_ok tools_ok succeed_ok)
  next
    fix c es2
    assume "onReturn (stdioRequestToolsList env False ctx es) (\<lambda>nextTools ctx es.
        succeedWith env nextTools (Option.bind (io_child ctx) cp_pid) (Some (orElse (mx_lastHandshakeAt (io_state ctx)) (vn_now env))) ctx es) =
      (c, Returned r, es2)"
    then obtain ctx1 ts es1 where t: "stdioRequestToolsList env False ctx es = (ctx1, Returned ts, es1)"
      and s: "succeedWith env ts (Option.bind (io_child ctx1) cp_pid) (Some (orElse (mx_lastHandshakeAt (io_state ctx1)) (vn_now env))) ctx1 es1 =
        (c, Returned r, es2)"
      by (auto simp: onReturn_Returned)
    have "io_sessionReady ctx1 \<or> io_child ctx1 = None" using tools_ready t False by (metis fst_conv)
    moreover have "io_child ctx1 \<noteq> None" using tools_child [OF assms(1) t] .
    ultimately show "leftBehind env c r" using success_left [OF _ _ s] by blast
  qed
qed

text \<open>
  C35: the result of a start or of a refresh is the state of the connector, whatever its child processes, the callbacks of its writes,
  its timers and calls of \<open>stop\<close> do while it is awaiting, as long as no other start, refresh or call of a tool overlaps it: after a
  success the session is ready, its child process runs and its tools are those of the result; after a failure there is no child
  process, no request waits and the session is not ready; and \<open>connected\<close> is reported exactly for a success of an enabled server.
\<close>

theorem operations_settle:
  assumes "stdio_reachable env ctx" and "operation \<in> {stdioStart, stdioRefreshCatalog}" and "operation env ctx es = (ctx', Returned r, es')"
  shows "io_state ctx' = op_state r \<and> io_tools ctx' = op_tools r \<and>
    (mx_connectionState (io_state ctx') = ConnConnected) = (op_ok r \<and> ms_enabled (vn_server env)) \<and>
    (if op_ok r then io_sessionReady ctx' \<and> io_child ctx' \<noteq> None
     else \<not> io_sessionReady ctx' \<and> io_child ctx' = None \<and> io_pending ctx' = [])"
proof -
  have "leftBehind env ctx' r"
    using assms(2,3) start_left [OF reachable_ok [OF assms(1)]] refresh_left [OF reachable_ok [OF assms(1)]] by blast
  then show ?thesis unfolding leftBehind_def by blast
qed

section \<open>A server that answers\<close>

text \<open>The connector has a child process, no request waits, and what it has read and written.\<close>

definition inSession :: "nat \<Rightarrow> int option \<Rightarrow> int \<Rightarrow> string \<Rightarrow> string list \<Rightarrow> stdio_ctx \<Rightarrow> bool" where
  "inSession cid pid n b w ctx \<longleftrightarrow> stdioOk ctx \<and> io_child ctx = Some (spawnChild cid pid) \<and> io_pending ctx = [] \<and>
     io_nextRequestId ctx = n \<and> io_buffer ctx = b \<and> io_written ctx = w"

lemma inSession_updates [simp]:
  "inSession cid pid n b w (ctx\<lparr>io_currentPhase := p\<rparr>) = inSession cid pid n b w ctx"
  "inSession cid pid n b w (ctx\<lparr>io_sessionReady := r\<rparr>) = inSession cid pid n b w ctx"
  "inSession cid pid n b w (stdioEmitState ctx) = inSession cid pid n b w ctx"
  "inSession cid pid n b w (reportState env cs k t p ctx) = inSession cid pid n b w ctx"
  "inSession cid pid n b w (stdioUpdatePhase env ph ctx) = inSession cid pid n b w ctx"
  by (simp_all add: inSession_def stdioEmitState_def reportState_def stdioUpdatePhase_def)

lemma answered:
  assumes s: "inSession cid pid n b w ctx" and "pushChunk (vn_jp env) (vn_now env) b chunk = (left, Inr [m])" and "isJsonRpcResponseForId m n"
  shows "\<exists>ctx'. stdioSendRequest env method params ctx (StdoutData cid chunk # es) = (ctx', Returned m, es) \<and>
    io_currentPhase ctx' = io_currentPhase ctx \<and> io_state ctx' = io_state ctx \<and> io_sessionReady ctx' = io_sessionReady ctx \<and>
    inSession cid pid (n + 1) left (w @ [encodeJsonRpcMessageLine (vn_pr env) (createJsonRpcRequest n method (Some (JObj params)))]) ctx'"
proof -
  let ?l = "encodeJsonRpcMessageLine (vn_pr env) (createJsonRpcRequest n method (Some (JObj params)))"
  let ?c = "ctx\<lparr>io_nextRequestId := n + 1, io_pending := [n], io_written := w @ [?l]\<rparr>"
  let ?d = "?c\<lparr>io_buffer := left, io_pending := [], io_settled := io_settled ctx @ [(n, Inr m)]\<rparr>"
  have cw: "canWrite ctx" using s by (simp add: inSession_def canWrite_def spawnChild_def)
  have fresh: "map_of (io_settled ctx) n = None"
    using s by (force simp: inSession_def stdioOk_def idsOk_def list_all_iff map_of_eq_None_iff)
  have "handleEvent env (StdoutData cid chunk) ?c = ?d"
    using s assms(2,3) by (simp add: inSession_def onStdoutData_def isCurrent_def spawnChild_def deliverMessage_def settle_def)
  then have "stdioSendRequest env method params ctx (StdoutData cid chunk # es) = (?d, Returned m, es)"
    using s cw fresh by (cases es) (simp_all add: inSession_def stdioSendRequest_def Let_def map_add_def)
  moreover have "stdioOk ?c" using new_request_ok [OF _ cw, of "w @ [?l]"] s by (simp add: inSession_def)
  then have "stdioOk (handleEvent env (StdoutData cid chunk) ?c)" by (rule event_ok)
  then have "inSession cid pid (n + 1) left (w @ [?l]) ?d"
    using s \<open>handleEvent env (StdoutData cid chunk) ?c = ?d\<close> by (simp add: inSession_def)
  ultimately show ?thesis by auto
qed

lemma notified:
  assumes "inSession cid pid n b w ctx"
  shows "\<exists>ctx'. stdioSendNotification env method params ctx (NotificationWritten None # es) = (ctx', Returned (), es) \<and>
    inSession cid pid n b (w @ [encodeJsonRpcMessageLine (vn_pr env) (createJsonRpcNotification method (Some (JObj params)))]) ctx'"
  using assms by (simp add: stdioSendNotification_def inSession_def canWrite_def spawnChild_def)

lemma unwrapped_plain: "isNullish (prop_of m ''error'') \<Longrightarrow> unwrapped env m = Returned (prop_of m ''result'')"
  by (simp add: unwrapped_def unwrapJsonRpcResponse_def)

lemma handshake_done:
  assumes "inSession cid pid n b w ctx" and "pushChunk (vn_jp env) (vn_now env) b chunk = (left, Inr [m])" and "isJsonRpcResponseForId m n"
    and "isNullish (prop_of m ''error'')"
  shows "\<exists>ctx'. stdioPerformHandshake env ctx (StdoutData cid chunk # NotificationWritten None # es) = (ctx', Returned (), es) \<and>
    inSession cid pid (n + 1) left (w @ [encodeJsonRpcMessageLine (vn_pr env) (createJsonRpcRequest n ''initialize'' (Some (JObj createInitializeParams))),
      encodeJsonRpcMessageLine (vn_pr env) (createJsonRpcNotification ''notifications/initialized'' (Some (JObj [])))]) ctx'"
proof -
  have "inSession cid pid n b w (stdioUpdatePhase env PhaseInitialize ctx)" using assms(1) by simp
  from answered [OF this assms(2,3)] obtain ctx1
    where a: "stdioSendRequest env ''initialize'' createInitializeParams (stdioUpdatePhase env PhaseInitialize ctx)
        (StdoutData cid chunk # NotificationWritten None # es) = (ctx1, Returned m, NotificationWritten None # es)"
      and s: "inSession cid pid (n + 1) left
        (w @ [encodeJsonRpcMessageLine (vn_pr env) (createJsonRpcRequest n ''initialize'' (Some (JObj createInitializeParams)))]) ctx1"
    by blast
  have "inSession cid pid (n + 1) left
      (w @ [encodeJsonRpcMessageLine (vn_pr env) (createJsonRpcRequest n ''initialize'' (Some (JObj createInitializeParams)))])
      (stdioUpdatePhase env PhaseInitialized ctx1)" using s by simp
  from notified [OF this, of env "''notifications/initialized''" "[]" es] show ?thesis
    using a by (auto simp: stdioPerformHandshake_def onReturn_def unwrapped_plain [OF assms(4)])
qed

lemma tools_listed:
  assumes "inSession cid pid n b w ctx" and "pushChunk (vn_jp env) (vn_now env) b chunk = (left, Inr [m])" and "isJsonRpcResponseForId m n"
    and "isNullish (prop_of m ''error'')" and "normalizeToolsListResult (vn_now env) (prop_of m ''result'') = Inr tools"
  shows "\<exists>ctx'. stdioRequestToolsList env u ctx (StdoutData cid chunk # es) = (ctx', Returned tools, es) \<and>
    io_sessionReady ctx' = io_sessionReady ctx \<and>
    inSession cid pid (n + 1) left (w @ [encodeJsonRpcMessageLine (vn_pr env) (createJsonRpcRequest n ''tools/list'' (Some (JObj [])))]) ctx'"
proof -
  let ?c = "if u then stdioUpdatePhase env PhaseToolsList (ctx\<lparr>io_currentPhase := Some PhaseToolsList\<rparr>) else ctx\<lparr>io_currentPhase := Some PhaseToolsList\<rparr>"
  have "inSession cid pid n b w ?c" using assms(1) by simp
  from answered [OF this assms(2,3), of "''tools/list''" "[]" es] show ?thesis
    by (auto simp: stdioRequestToolsList_def stdioWithSerializedPhase_def onReturn_def unwrapped_plain [OF assms(4)] assms(5))
qed

lemma start_answered:
  assumes "stdioOk ctx" and "io_child ctx = None" and "stdioReadManagedRuntimeFailure env = None" and "vn_spawn env (io_spawned ctx) = Inr pid"
    and "pushChunk (vn_jp env) (vn_now env) [] chunk1 = (left1, Inr [m1])" and "isJsonRpcResponseForId m1 (io_nextRequestId ctx)"
    and "isNullish (prop_of m1 ''error'')"
    and "pushChunk (vn_jp env) (vn_now env) left1 chunk2 = (left2, Inr [m2])" and "isJsonRpcResponseForId m2 (io_nextRequestId ctx + 1)"
    and "isNullish (prop_of m2 ''error'')" and "normalizeToolsListResult (vn_now env) (prop_of m2 ''result'') = Inr tools"
  shows "\<exists>ctx' r. stdioStart env ctx (ChildSpawned (io_spawned ctx) # StdoutData (io_spawned ctx) chunk1 # NotificationWritten None #
      StdoutData (io_spawned ctx) chunk2 # es) = (ctx', Returned r, es) \<and> op_ok r \<and> op_tools r = tools \<and>
    io_written ctx' = io_written ctx @ map (encodeJsonRpcMessageLine (vn_pr env))
      [createJsonRpcRequest (io_nextRequestId ctx) ''initialize'' (Some (JObj createInitializeParams)),
       createJsonRpcNotification ''notifications/initialized'' (Some (JObj [])),
       createJsonRpcRequest (io_nextRequestId ctx + 1) ''tools/list'' (Some (JObj []))]"
proof -
  let ?cid = "io_spawned ctx" and ?b = "startBegins env (ctx\<lparr>io_sessionReady := False\<rparr>)"
  let ?c = "?b\<lparr>io_child := Some (spawnChild ?cid pid), io_spawned := Suc ?cid\<rparr>"
  let ?es = "StdoutData ?cid chunk1 # NotificationWritten None # StdoutData ?cid chunk2 # es"
  have dispose: "stdioDisposeChild env (ctx\<lparr>io_sessionReady := False\<rparr>) es = (ctx\<lparr>io_sessionReady := False\<rparr>, es)" for es
    using assms(2) by (simp add: stdioDisposeChild_def)
  have b: "io_spawned ?b = ?cid" "io_pending ?b = []" "io_nextRequestId ?b = io_nextRequestId ctx" "io_buffer ?b = []"
      "io_written ?b = io_written ctx" "stdioOk ?b"
    using assms(1,2) startBegins_ok [of "ctx\<lparr>io_sessionReady := False\<rparr>" env]
    by (simp_all add: startBegins_def Let_def reportState_def stdioEmitState_def stdioOk_def)
  then have "inSession ?cid pid (io_nextRequestId ctx) [] (io_written ctx) ?c" by (simp add: inSession_def spawned_ok)
  then have "inSession ?cid pid (io_nextRequestId ctx) [] (io_written ctx) (reportState env cs k t p ?c)" for cs k t p by simp
  note handshake_done [OF this assms(5-7)]
  then obtain ctx1 where h: "stdioPerformHandshake env (reportState env ConnConnecting (int (length (io_tools ?c))) (processState ProcessRunning pid ?c)
        (io_currentPhase ?c) ?c) ?es = (ctx1, Returned (), StdoutData ?cid chunk2 # es)"
    and s: "inSession ?cid pid (io_nextRequestId ctx + 1) left1 (io_written ctx @
      [encodeJsonRpcMessageLine (vn_pr env) (createJsonRpcRequest (io_nextRequestId ctx) ''initialize'' (Some (JObj createInitializeParams))),
       encodeJsonRpcMessageLine (vn_pr env) (createJsonRpcNotification ''notifications/initialized'' (Some (JObj [])))]) ctx1"
    by blast
  from tools_listed [OF s assms(8-11), of True es] obtain ctx2
    where t: "stdioRequestToolsList env True ctx1 (StdoutData ?cid chunk2 # es) = (ctx2, Returned tools, es)"
      and "io_written ctx2 = io_written ctx @ map (encodeJsonRpcMessageLine (vn_pr env))
      [createJsonRpcRequest (io_nextRequestId ctx) ''initialize'' (Some (JObj createInitializeParams)),
       createJsonRpcNotification ''notifications/initialized'' (Some (JObj [])),
       createJsonRpcRequest (io_nextRequestId ctx + 1) ''tools/list'' (Some (JObj []))]"
    by (auto simp: inSession_def)
  moreover have "isCurrent ?cid ?c" by (simp add: isCurrent_def spawnChild_def)
  ultimately show ?thesis using h assms(3,4)
    by (simp add: stdioStart_def dispose spawnAndConnect_def b Let_def onReturn_def orFailure_def succeedWith_def stdioEmitState_def)
qed

lemma line_pushed:
  assumes "lineText jp pr m" and "wholeChars (encodeJsonRpcMessageLine pr m)"
  shows "pushChunk jp now [] (encodeJsonRpcMessageLine pr m) = ([], Inr [m])"
  using drain_line [OF assms(1), of now "[]"] by (simp add: pushChunk_def whole_decode [OF assms(2)] drain_none)

text \<open>
  C36: a server that answers is connected: when it is spawned, takes what is written and answers both requests, each answer on a line,
  the connector starts with the tools of its catalog, and has written the initialization, its notification and the request for
  the tools, in this order and with identifiers of their own.
\<close>

theorem start_connects:
  assumes "stdio_reachable env ctx" and "io_child ctx = None" and "stdioReadManagedRuntimeFailure env = None"
    and "vn_spawn env (io_spawned ctx) = Inr pid"
    and "list_all (\<lambda>m. lineText (vn_jp env) (vn_pr env) m \<and> wholeChars (encodeJsonRpcMessageLine (vn_pr env) m) \<and> isNullish (prop_of m ''error'')) [m1, m2]"
    and "isJsonRpcResponseForId m1 (io_nextRequestId ctx)" and "isJsonRpcResponseForId m2 (io_nextRequestId ctx + 1)"
    and "normalizeToolsListResult (vn_now env) (prop_of m2 ''result'') = Inr tools"
  shows "\<exists>ctx' r. stdioStart env ctx [ChildSpawned (io_spawned ctx), StdoutData (io_spawned ctx) (encodeJsonRpcMessageLine (vn_pr env) m1),
      NotificationWritten None, StdoutData (io_spawned ctx) (encodeJsonRpcMessageLine (vn_pr env) m2)] = (ctx', Returned r, []) \<and>
    op_ok r \<and> op_tools r = tools \<and>
    io_written ctx' = io_written ctx @ map (encodeJsonRpcMessageLine (vn_pr env))
      [createJsonRpcRequest (io_nextRequestId ctx) ''initialize'' (Some (JObj createInitializeParams)),
       createJsonRpcNotification ''notifications/initialized'' (Some (JObj [])),
       createJsonRpcRequest (io_nextRequestId ctx + 1) ''tools/list'' (Some (JObj []))]"
proof -
  have "pushChunk (vn_jp env) (vn_now env) [] (encodeJsonRpcMessageLine (vn_pr env) m1) = ([], Inr [m1])"
    and "pushChunk (vn_jp env) (vn_now env) [] (encodeJsonRpcMessageLine (vn_pr env) m2) = ([], Inr [m2])"
    using assms(5) by (simp_all add: line_pushed)
  then show ?thesis using assms(5)
    by (intro start_answered [OF reachable_ok [OF assms(1)] assms(2-4) _ assms(6) _ _ assms(7) _ assms(8)]) simp_all
qed

section \<open>What is reported\<close>

lemma isCurrent_some: "isCurrent cid ctx \<Longrightarrow> \<exists>c. io_child ctx = Some c"
  by (auto simp: isCurrent_def split: option.splits)

text \<open>
  A line that is not a message takes a session down that goes on: after it the connector reports an error and that the process
  has exited, while the child process still runs and the session is still ready.
\<close>

theorem broken_line_misreports:
  assumes "io_sessionReady ctx" and "isCurrent cid ctx" and "pushChunk (vn_jp env) (vn_now env) (io_buffer ctx) chunk = (left, Inl e)"
  shows "io_sessionReady (handleEvent env (StdoutData cid chunk) ctx) \<and> io_child (handleEvent env (StdoutData cid chunk) ctx) = io_child ctx \<and>
    mx_connectionState (io_state (handleEvent env (StdoutData cid chunk) ctx)) \<noteq> ConnConnected \<and>
    mx_transportState (io_state (handleEvent env (StdoutData cid chunk) ctx)) =
      Some (StdioTransport \<lparr>so_processStatus = ProcessExited, so_pid = None, so_lastExitCode = io_lastExitCode ctx,
        so_lastExitSignal = io_lastExitSignal ctx\<rparr>)"
  using assms
  by (simp add: onStdoutData_def disconnectIfReady_def stdioApplyUnexpectedDisconnect_def stdioEmitState_def rejectPending_eq)
    (simp add: createConnectorFailure_def createConnectorState_def failureOptions_def processState_def Let_def)

text \<open>
  The exit of a session's process is reported without its exit code: the error has the code of an unknown disconnection, and its
  details hold \<open>process_exited\<close> as a code of Node but no exit code.
\<close>

theorem exit_code_is_lost:
  assumes "io_sessionReady ctx" and "isCurrent cid ctx"
  shows "map_option me_code (mx_lastError (io_state (handleEvent env (ChildExit cid code signal) ctx))) = Some ''stdio_disconnected'' \<and>
    Option.bind (mx_lastError (io_state (handleEvent env (ChildExit cid code signal) ctx)))
      (\<lambda>e. map_option (\<lambda>d. (prop_of d ''nodeCode'', prop_of d ''exitCode'')) (me_details e)) = Some (Some (JStr ''process_exited''), None)"
  using assms
  by (simp add: onExit_def Let_def stdioApplyUnexpectedDisconnect_def stdioEmitState_def createConnectorFailure_def createConnectorState_def)
    (simp add: stdioEnrichFailureSummary_def stdioCreateProcessExitSummary_def createMcpErrorSummary_def classifyNodeError_def Let_def
      spreadInto_def orElse_def)

section \<open>Secrets in the snapshot\<close>

text \<open>The names of a path whose normal form does not end like that of a schema.\<close>

lemma no_schema:
  assumes "normalizeForbiddenKey key = k" and "k \<noteq> []" and "last k \<noteq> CHR ''a''"
  shows "\<not> suffix ''inputschema'' (p @ normalizeForbiddenKey key)"
proof
  assume "suffix ''inputschema'' (p @ normalizeForbiddenKey key)"
  then obtain z where "p @ k = z @ ''inputschema''" using assms(1) by (auto simp: suffix_def)
  then have "last (p @ k) = last (z @ ''inputschema'')" by (rule arg_cong)
  then show False using assms(2,3) by simp
qed

lemma digit_key: "normalizeForbiddenKey (natString n) = natString n \<and> last (natString n) \<noteq> CHR ''a''"
proof (induction n rule: natString.induct)
  case (1 n)
  have digit: "alnum (digitChar d) \<and> lowerAscii (digitChar d) = digitChar d \<and> digitChar d \<noteq> CHR ''a''" if "d < 10" for d
    using that of_char_digitChar [of d] by (auto simp: alnum_def slugChar_def lowerAscii_def Let_def)
  then show ?case using 1 by (auto simp: natString.simps [of n] normalizeForbiddenKey_def toLowerCase_def)
qed

lemma entries_forbidden: "(k, v) \<in> set r \<Longrightarrow> forbiddenKey k \<Longrightarrow> collectEntries r p \<noteq> []"
  by (induction r) auto

lemma entries_nested: "(k, v) \<in> set r \<Longrightarrow> collectForbiddenPaths v (nextPath p k) \<noteq> [] \<Longrightarrow> collectEntries r p \<noteq> []"
  by (induction r) (auto split: if_splits)

lemma object_nested:
  "\<not> suffix ''inputschema'' (normalizeForbiddenKey p) \<Longrightarrow> (k, v) \<in> set r \<Longrightarrow> collectForbiddenPaths v (nextPath p k) \<noteq> [] \<Longrightarrow>
   collectForbiddenPaths (JObj r) p \<noteq> []"
  using entries_nested by simp

lemma items_found:
  "v \<in> set vs \<Longrightarrow> (\<And>i. collectForbiddenPaths v (p @ ''['' @ natString i @ '']'') \<noteq> []) \<Longrightarrow> collectItems vs i p \<noteq> []"
  by (induction vs arbitrary: i) auto

lemma key_append: "normalizeForbiddenKey (a @ b) = normalizeForbiddenKey a @ normalizeForbiddenKey b"
  by (simp add: normalizeForbiddenKey_def toLowerCase_def)

lemma server_keys:
  "normalizeForbiddenKey ''servers'' = ''servers''" "normalizeForbiddenKey ''['' = []" "normalizeForbiddenKey '']'' = []"
  by code_simp+

lemma server_found:
  assumes "namesCommand env st" and "sv_lastError s = mx_lastError st"
  shows "collectForbiddenPaths (snapshotServerJson s) (''servers'' @ ''['' @ natString i @ '']'') \<noteq> []"
proof -
  obtain e d where e: "sv_lastError s = Some e" "me_details e = Some d" "(''command'', JStr (vn_command env)) \<in> set d"
    using assms by (auto simp: namesCommand_def prop_of_def dest: map_of_SomeD)
  have key: "forbiddenKey ''command''" by code_simp
  have norm: "normalizeForbiddenKey ''details'' = ''details''" "normalizeForbiddenKey ''lastError'' = ''lasterror''" by code_simp+
  let ?p = "''servers'' @ ''['' @ natString i @ '']''"
  have "normalizeForbiddenKey ?p = ''servers'' @ normalizeForbiddenKey (natString i)"
    unfolding key_append server_keys by simp
  then have path: "\<not> suffix ''inputschema'' (normalizeForbiddenKey ?p)"
    using digit_key [of i] no_schema [of "natString i" "natString i" "''servers''"] by simp
  have nested: "\<not> suffix ''inputschema'' (normalizeForbiddenKey (nextPath q ''lastError''))"
      "\<not> suffix ''inputschema'' (normalizeForbiddenKey (nextPath q ''details''))" for q
    unfolding path_key by (rule no_schema [OF norm(2)] no_schema [OF norm(1)]; simp)+
  have "collectForbiddenPaths (JObj d) (nextPath q ''details'') \<noteq> []" for q
    unfolding collectForbiddenPaths.simps if_not_P [OF nested(2)] by (rule entries_forbidden [OF e(3) key])
  then have "collectForbiddenPaths (mcpErrorJson e) (nextPath q ''lastError'') \<noteq> []" for q
    unfolding mcpErrorJson_def e(2) nullOr_def option.case by (intro object_nested [OF nested(1), where k = "''details''"]) simp
  then show ?thesis
    unfolding snapshotServerJson_def e(1) nullOr_def option.case by (intro object_nested [OF path, where k = "''lastError''"]) simp
qed

text \<open>
  C37: when an operation fails, the state that it leaves behind carries the command of the server in the details of its error, so that no
  snapshot with this state passes the check for secrets.
\<close>

theorem failed_server_leaks:
  assumes "stdio_reachable env ctx" and "operation \<in> {stdioStart, stdioRefreshCatalog}" and "operation env ctx es = (ctx', Returned r, es')"
    and "\<not> op_ok r" and "vn_server env \<in> set (si_servers input)" and "stateOfServer (si_states input) (vn_server env) = io_state ctx'"
  shows "\<not> isMcpCapabilitySnapshotRedacted (createMcpCapabilitySnapshot lc input)"
proof -
  have "leftBehind env ctx' r"
    using assms(2,3) start_left [OF reachable_ok [OF assms(1)]] refresh_left [OF reachable_ok [OF assms(1)]] by blast
  then have names: "namesCommand env (io_state ctx')" using assms(4) by (simp add: leftBehind_def)
  let ?tools = "if ms_enabled (vn_server env) then toolsOfServer (si_toolsByServerId input) (vn_server env) else []"
  let ?s = "buildServerSummary (vn_server env) (io_state ctx') ?tools" and ?n = "createMcpCapabilitySnapshot lc input"
  have "?s \<in> set (sn_servers ?n)" using assms(6)
    by (auto simp: createMcpCapabilitySnapshot_def intro!: rev_image_eqI [OF assms(5)] split: prod.split)
  then have "snapshotServerJson ?s \<in> set (map snapshotServerJson (sn_servers ?n))" by simp
  moreover have "sv_lastError ?s = mx_lastError (io_state ctx')" by (simp add: buildServerSummary_def)
  then have "collectForbiddenPaths (snapshotServerJson ?s) (''servers'' @ ''['' @ natString i @ '']'') \<noteq> []" for i
    by (rule server_found [OF names])
  ultimately have "collectItems (map snapshotServerJson (sn_servers ?n)) 0 ''servers'' \<noteq> []" by (rule items_found)
  then have found: "collectForbiddenPaths (JArr (map snapshotServerJson (sn_servers ?n))) (nextPath [] ''servers'') \<noteq> []"
    by (simp add: nextPath_def)
  show ?thesis unfolding isMcpCapabilitySnapshotRedacted_def collectMcpSnapshotRedactionViolations_def snapshotRecord_def
    by (rule object_nested [OF _ _ found]) (simp_all add: normalizeForbiddenKey_def toLowerCase_def)
qed

section \<open>Witnesses\<close>

definition answerTo :: "int \<Rightarrow> json \<Rightarrow> jrecord" where
  "answerTo rid result = [(''jsonrpc'', JStr ''2.0''), (''id'', JNum (of_int rid)), (''result'', result)]"

definition stdioAnswers :: "(string \<times> jrecord) list" where
  "stdioAnswers = [(''a'', answerTo 1 (JObj [])), (''b'', answerTo 2 (JObj [(''tools'', JArr [JObj [(''name'', JStr ''echo'')]])]))]"

text \<open>A server whose two answers have the texts \<open>a\<close> and \<open>b\<close>; a spawn with a process id, and one that throws.\<close>

definition stdioEnv :: "(nat \<Rightarrow> connector_thrown + int option) \<Rightarrow> stdio_env" where
  "stdioEnv sp = \<lparr>vn_server = sampleServer ''a'' True, vn_command = ''node'', vn_args = [''server.js''], vn_cwd = None, vn_env = [],
     vn_resolvedCommand = \<lparr>rv_requestedCommand = ''node'', rv_resolutionKind = ''raw'', rv_managedFamily = None\<rparr>, vn_now = ''t1'',
     vn_jp = (\<lambda>s. case map_of stdioAnswers s of None \<Rightarrow> Inl ''bad'' | Some r \<Rightarrow> Inr (JObj r)),
     vn_pr = (\<lambda>v. if v = JObj (answerTo 1 (JObj [])) then ''a'' else ''b''), vn_spawn = sp\<rparr>"

abbreviation workingEnv :: stdio_env where
  "workingEnv \<equiv> stdioEnv (\<lambda>_. Inr (Some 7))"

abbreviation brokenEnv :: stdio_env where
  "brokenEnv \<equiv> stdioEnv (\<lambda>_. Inl (ThrownNode ''ENOENT'' ''spawn node ENOENT''))"

definition readyCtx :: stdio_ctx where
  "readyCtx = fst (stdioStart workingEnv (createStdioMcpServerConnector workingEnv)
     [ChildSpawned 0, StdoutData 0 (''a'' @ [lf]), NotificationWritten None, StdoutData 0 (''b'' @ [lf])])"

theorem requests_settle_once_witness:
  "distinct (io_pending readyCtx @ map fst (io_settled readyCtx)) \<and> length (io_stderrLines readyCtx) \<le> 3 \<and> io_child readyCtx \<noteq> None"
proof -
  have "stdio_reachable workingEnv readyCtx" unfolding readyCtx_def by (intro stdio_reachable.intros)
  moreover have "io_child readyCtx \<noteq> None" by code_simp
  ultimately show ?thesis using requests_settle_once by blast
qed

lemma broken_start:
  "\<exists>ctx' r. stdioStart brokenEnv (createStdioMcpServerConnector brokenEnv) [] = (ctx', Returned r, []) \<and> \<not> op_ok r"
proof -
  have "\<not> op_ok (case fst (snd (stdioStart brokenEnv (createStdioMcpServerConnector brokenEnv) [])) of Returned r \<Rightarrow> r) \<and>
      snd (snd (stdioStart brokenEnv (createStdioMcpServerConnector brokenEnv) [])) = [] \<and>
      (case fst (snd (stdioStart brokenEnv (createStdioMcpServerConnector brokenEnv) [])) of Returned r \<Rightarrow> True | _ \<Rightarrow> False)"
    by code_simp
  then show ?thesis by (cases "stdioStart brokenEnv (createStdioMcpServerConnector brokenEnv) []") (auto split: outcome.splits)
qed

theorem operations_settle_witness:
  "\<exists>r. snd (stdioStart brokenEnv (createStdioMcpServerConnector brokenEnv) []) = (Returned r, []) \<and> \<not> op_ok r \<and>
    io_child (fst (stdioStart brokenEnv (createStdioMcpServerConnector brokenEnv) [])) = None"
proof -
  obtain ctx' r es' where s: "stdioStart brokenEnv (createStdioMcpServerConnector brokenEnv) [] = (ctx', Returned r, es')"
    and "es' = []" and "\<not> op_ok r"
    using broken_start by blast
  have "io_child ctx' = None"
    using operations_settle [where operation = stdioStart, OF stdio_reachable.created _ s] \<open>\<not> op_ok r\<close> by simp
  then show ?thesis using s \<open>es' = []\<close> \<open>\<not> op_ok r\<close> by simp
qed

theorem start_connects_witness:
  "\<exists>ctx' r. stdioStart workingEnv (createStdioMcpServerConnector workingEnv) [ChildSpawned 0, StdoutData 0 (''a'' @ [lf]), NotificationWritten None,
      StdoutData 0 (''b'' @ [lf])] = (ctx', Returned r, []) \<and> op_ok r \<and> map mt_name (op_tools r) = [''echo'']"
proof -
  let ?m1 = "answerTo 1 (JObj [])" and ?m2 = "answerTo 2 (JObj [(''tools'', JArr [JObj [(''name'', JStr ''echo'')]])])"
  let ?tool = "\<lparr>mt_name = ''echo'', mt_displayName = ''echo'', mt_description = None, mt_inputSchema = []\<rparr>"
  have lines: "encodeJsonRpcMessageLine (vn_pr workingEnv) ?m1 = ''a'' @ [lf]" "encodeJsonRpcMessageLine (vn_pr workingEnv) ?m2 = ''b'' @ [lf]"
    by code_simp+
  have start: "io_spawned (createStdioMcpServerConnector workingEnv) = 0" "io_child (createStdioMcpServerConnector workingEnv) = None"
      "io_nextRequestId (createStdioMcpServerConnector workingEnv) = 1"
    by (simp_all add: createStdioMcpServerConnector_def)
  have "stdioReadManagedRuntimeFailure workingEnv = None" "vn_spawn workingEnv 0 = Inr (Some 7)"
    by code_simp+
  moreover have "list_all (\<lambda>m. lineText (vn_jp workingEnv) (vn_pr workingEnv) m \<and> wholeChars (encodeJsonRpcMessageLine (vn_pr workingEnv) m) \<and>
      isNullish (prop_of m ''error'')) [?m1, ?m2]" by code_simp
  moreover have "isJsonRpcResponseForId ?m1 1" "isJsonRpcResponseForId ?m2 (1 + 1)"
      "normalizeToolsListResult (vn_now workingEnv) (prop_of ?m2 ''result'') = Inr [?tool]"
    by code_simp+
  ultimately show ?thesis
    using start_connects [OF stdio_reachable.created, of workingEnv "Some 7" ?m1 ?m2 "[?tool]"] unfolding start lines by fastforce
qed

theorem broken_line_misreports_witness:
  "io_sessionReady (handleEvent workingEnv (StdoutData 0 (''log'' @ [lf])) readyCtx) \<and>
   mx_connectionState (io_state (handleEvent workingEnv (StdoutData 0 (''log'' @ [lf])) readyCtx)) \<noteq> ConnConnected"
proof -
  have "io_sessionReady readyCtx" "isCurrent 0 readyCtx" by code_simp+
  moreover have "pushChunk (vn_jp workingEnv) (vn_now workingEnv) (io_buffer readyCtx) (''log'' @ [lf]) =
      ([], Inl (createJsonRpcLineParseError ''log'' ''t1''))" by code_simp
  ultimately show ?thesis using broken_line_misreports by blast
qed

theorem exit_code_is_lost_witness:
  "map_option me_code (mx_lastError (io_state (handleEvent workingEnv (ChildExit 0 (Some 3) None) readyCtx))) = Some ''stdio_disconnected''"
proof -
  have "io_sessionReady readyCtx" "isCurrent 0 readyCtx" by code_simp+
  then show ?thesis using exit_code_is_lost by blast
qed

theorem failed_server_leaks_witness:
  "\<exists>st. \<not> isMcpCapabilitySnapshotRedacted (createMcpCapabilitySnapshot (\<lambda>_ _. 0)
     (sampleInput\<lparr>si_servers := [vn_server brokenEnv], si_states := [st]\<rparr>))"
proof -
  obtain ctx' r where s: "stdioStart brokenEnv (createStdioMcpServerConnector brokenEnv) [] = (ctx', Returned r, [])" and "\<not> op_ok r"
    using broken_start by blast
  have "mx_serverId (io_state (fst (stdioStart brokenEnv (createStdioMcpServerConnector brokenEnv) []))) = ms_serverId (vn_server brokenEnv)"
    by code_simp
  then have "stateOfServer [io_state ctx'] (vn_server brokenEnv) = io_state ctx'" using s by (simp add: stateOfServer_def orElse_def)
  then show ?thesis
    using failed_server_leaks [where operation = stdioStart and env = brokenEnv and r = r, OF stdio_reachable.created _ s \<open>\<not> op_ok r\<close>,
        of "sampleInput\<lparr>si_servers := [vn_server brokenEnv], si_states := [io_state ctx']\<rparr>" "\<lambda>_ _. 0"]
    by (intro exI [of _ "io_state ctx'"]) simp
qed

end
