(* ===== verification/Thinking_Capabilities.thy ===== *)
theory Thinking_Capabilities
  imports Thinking_Choice Model_Route Run_Segments
begin

text \<open>
  The declarations of thinking capabilities in the settings: \<open>src/workbench/thinking-capabilities.ts\<close>. A declaration says
  whether a model thinks and which series of levels or budget it offers. It is stored as JSON and read again with
  \<open>normalizeThinkingCapabilityDeclaration\<close>, which every edit goes through. A declaration given to a function is the object it is
  (\<^typ>\<open>json\<close>); what the normalisation returns is typed, and \<open>normalizedJson\<close> is that object again. The names that
  \<open>Object.prototype\<close> has (\<open>constructor\<close> and the like) are outside the model as series and as codes, because the code looks both up
  in plain objects.
\<close>

section \<open>Labels\<close>

text \<open>The Chinese labels of the levels and series, in UTF-8; the names say what they mean.\<close>

definition labelNone :: string where
  "labelNone = [CHR 0xE6, CHR 0x97, CHR 0xA0]"

definition labelAuto :: string where
  "labelAuto = [CHR 0xE8, CHR 0x87, CHR 0xAA, CHR 0xE5, CHR 0x8A, CHR 0xA8]"

definition labelMinimal :: string where
  "labelMinimal = [CHR 0xE6, CHR 0x9E, CHR 0x81, CHR 0xE7, CHR 0xAE, CHR 0x80]"

definition labelLow :: string where
  "labelLow = [CHR 0xE4, CHR 0xBD, CHR 0x8E]"

definition labelMedium :: string where
  "labelMedium = [CHR 0xE4, CHR 0xB8, CHR 0xAD]"

definition labelHigh :: string where
  "labelHigh = [CHR 0xE9, CHR 0xAB, CHR 0x98]"

definition labelXhigh :: string where
  "labelXhigh = [CHR 0xE8, CHR 0xB6, CHR 0x85, CHR 0xE9, CHR 0xAB, CHR 0x98]"

definition labelClosed :: string where
  "labelClosed = [CHR 0xE5, CHR 0x85, CHR 0xB3, CHR 0xE9, CHR 0x97, CHR 0xAD]"

definition labelOpened :: string where
  "labelOpened = [CHR 0xE5, CHR 0xBC, CHR 0x80, CHR 0xE5, CHR 0x90, CHR 0xAF]"

definition labelMaximum :: string where
  "labelMaximum = [CHR 0xE6, CHR 0x9C, CHR 0x80, CHR 0xE5, CHR 0xA4, CHR 0xA7]"

definition labelDynamic :: string where
  "labelDynamic = [CHR 0xE5, CHR 0x8A, CHR 0xA8, CHR 0xE6, CHR 0x80, CHR 0x81]"

definition labelBudget :: string where
  "labelBudget = [CHR 0xE9, CHR 0xA2, CHR 0x84, CHR 0xE7, CHR 0xAE, CHR 0x97]"

definition labelSwitch :: string where
  "labelSwitch = [CHR 0xE6, CHR 0x80, CHR 0x9D, CHR 0xE8, CHR 0x80, CHR 0x83, CHR 0xE5, CHR 0xBC, CHR 0x80, CHR 0xE5, CHR 0x85, CHR 0xB3]"

definition hintSwitch :: string where
  "hintSwitch = [CHR 0xE5, CHR 0x85, CHR 0xB3, CHR 0xE9, CHR 0x97, CHR 0xAD, CHR 0x20, CHR 0x2F, CHR 0x20, CHR 0xE5, CHR 0xBC, CHR 0x80, CHR 0xE5, CHR 0x90, CHR 0xAF]"

definition labelFixedThinking :: string where
  "labelFixedThinking = [CHR 0xE5, CHR 0x9B, CHR 0xBA, CHR 0xE5, CHR 0xAE, CHR 0x9A, CHR 0xE6, CHR 0x80, CHR 0x9D, CHR 0xE8, CHR 0x80, CHR 0x83]"

definition hintFixed :: string where
  "hintFixed = [CHR 0xE5, CHR 0x9B, CHR 0xBA, CHR 0xE5, CHR 0xAE, CHR 0x9A, CHR 0xE6, CHR 0x80, CHR 0x9D, CHR 0xE8, CHR 0x80, CHR 0x83, CHR 0xEF, CHR 0xBC, CHR 0x8C, CHR 0xE4, CHR 0xB8, CHR 0x8D, CHR 0xE5, CHR 0x8F, CHR 0xAF, CHR 0xE8, CHR 0xB0, CHR 0x83, CHR 0xE6, CHR 0x95, CHR 0xB4]"

definition labelSixLevels :: string where
  "labelSixLevels = [CHR 0xE5, CHR 0x85, CHR 0xAD, CHR 0xE6, CHR 0xA1, CHR 0xA3, CHR 0xE6, CHR 0x80, CHR 0x9D, CHR 0xE8, CHR 0x80, CHR 0x83]"

definition hintSixLevels :: string where
  "hintSixLevels = [CHR 0xE6, CHR 0x97, CHR 0xA0, CHR 0x20, CHR 0x2F, CHR 0x20, CHR 0xE6, CHR 0x9E, CHR 0x81, CHR 0xE7, CHR 0xAE, CHR 0x80, CHR 0x20, CHR 0x2F, CHR 0x20, CHR 0xE4, CHR 0xBD, CHR 0x8E, CHR 0x20, CHR 0x2F, CHR 0x20, CHR 0xE4, CHR 0xB8, CHR 0xAD, CHR 0x20, CHR 0x2F, CHR 0x20, CHR 0xE9, CHR 0xAB, CHR 0x98, CHR 0x20, CHR 0x2F, CHR 0x20, CHR 0xE8, CHR 0xB6, CHR 0x85, CHR 0xE9, CHR 0xAB, CHR 0x98]"

definition labelFiveLevels :: string where
  "labelFiveLevels = [CHR 0xE4, CHR 0xBA, CHR 0x94, CHR 0xE6, CHR 0xA1, CHR 0xA3, CHR 0xE6, CHR 0x80, CHR 0x9D, CHR 0xE8, CHR 0x80, CHR 0x83]"

definition hintFiveLevels :: string where
  "hintFiveLevels = [CHR 0xE5, CHR 0x85, CHR 0xB3, CHR 0xE9, CHR 0x97, CHR 0xAD, CHR 0x20, CHR 0x2F, CHR 0x20, CHR 0xE4, CHR 0xBD, CHR 0x8E, CHR 0x20, CHR 0x2F, CHR 0x20, CHR 0xE4, CHR 0xB8, CHR 0xAD, CHR 0x20, CHR 0x2F, CHR 0x20, CHR 0xE9, CHR 0xAB, CHR 0x98, CHR 0x20, CHR 0x2F, CHR 0x20, CHR 0xE6, CHR 0x9C, CHR 0x80, CHR 0xE5, CHR 0xA4, CHR 0xA7]"

definition labelFourExtended :: string where
  "labelFourExtended = [CHR 0xE5, CHR 0x9B, CHR 0x9B, CHR 0xE6, CHR 0xA1, CHR 0xA3, CHR 0xE6, CHR 0x80, CHR 0x9D, CHR 0xE8, CHR 0x80, CHR 0x83, CHR 0xEF, CHR 0xBC, CHR 0x88, CHR 0xE6, CHR 0x89, CHR 0xA9, CHR 0xE5, CHR 0xB1, CHR 0x95, CHR 0xEF, CHR 0xBC, CHR 0x89]"

definition hintFourExtended :: string where
  "hintFourExtended = [CHR 0xE6, CHR 0x9E, CHR 0x81, CHR 0xE7, CHR 0xAE, CHR 0x80, CHR 0x20, CHR 0x2F, CHR 0x20, CHR 0xE4, CHR 0xBD, CHR 0x8E, CHR 0x20, CHR 0x2F, CHR 0x20, CHR 0xE4, CHR 0xB8, CHR 0xAD, CHR 0x20, CHR 0x2F, CHR 0x20, CHR 0xE9, CHR 0xAB, CHR 0x98]"

definition labelFourLevels :: string where
  "labelFourLevels = [CHR 0xE5, CHR 0x9B, CHR 0x9B, CHR 0xE6, CHR 0xA1, CHR 0xA3, CHR 0xE6, CHR 0x80, CHR 0x9D, CHR 0xE8, CHR 0x80, CHR 0x83]"

definition hintFourLevels :: string where
  "hintFourLevels = [CHR 0xE6, CHR 0x97, CHR 0xA0, CHR 0x20, CHR 0x2F, CHR 0x20, CHR 0xE4, CHR 0xBD, CHR 0x8E, CHR 0x20, CHR 0x2F, CHR 0x20, CHR 0xE4, CHR 0xB8, CHR 0xAD, CHR 0x20, CHR 0x2F, CHR 0x20, CHR 0xE9, CHR 0xAB, CHR 0x98]"

definition labelThreeLevels :: string where
  "labelThreeLevels = [CHR 0xE4, CHR 0xB8, CHR 0x89, CHR 0xE6, CHR 0xA1, CHR 0xA3, CHR 0xE6, CHR 0x80, CHR 0x9D, CHR 0xE8, CHR 0x80, CHR 0x83]"

definition hintThreeLevels :: string where
  "hintThreeLevels = [CHR 0xE4, CHR 0xBD, CHR 0x8E, CHR 0x20, CHR 0x2F, CHR 0x20, CHR 0xE4, CHR 0xB8, CHR 0xAD, CHR 0x20, CHR 0x2F, CHR 0x20, CHR 0xE9, CHR 0xAB, CHR 0x98]"

definition labelThinkingBudget :: string where
  "labelThinkingBudget = [CHR 0xE6, CHR 0x80, CHR 0x9D, CHR 0xE8, CHR 0x80, CHR 0x83, CHR 0xE9, CHR 0xA2, CHR 0x84, CHR 0xE7, CHR 0xAE, CHR 0x97]"

definition hintThinkingBudget :: string where
  "hintThinkingBudget = [CHR 0xE5, CHR 0x85, CHR 0xB3, CHR 0xE9, CHR 0x97, CHR 0xAD, CHR 0x20, CHR 0x2F, CHR 0x20, CHR 0xE9, CHR 0xA2, CHR 0x84, CHR 0xE7, CHR 0xAE, CHR 0x97]"

definition labelDynamicBudget :: string where
  "labelDynamicBudget = [CHR 0xE5, CHR 0x8A, CHR 0xA8, CHR 0xE6, CHR 0x80, CHR 0x81, CHR 0xE6, CHR 0x80, CHR 0x9D, CHR 0xE8, CHR 0x80, CHR 0x83, CHR 0xE9, CHR 0xA2, CHR 0x84, CHR 0xE7, CHR 0xAE, CHR 0x97]"

definition hintDynamicBudget :: string where
  "hintDynamicBudget = [CHR 0xE5, CHR 0x85, CHR 0xB3, CHR 0xE9, CHR 0x97, CHR 0xAD, CHR 0x20, CHR 0x2F, CHR 0x20, CHR 0xE5, CHR 0x8A, CHR 0xA8, CHR 0xE6, CHR 0x80, CHR 0x81, CHR 0x20, CHR 0x2F, CHR 0x20, CHR 0xE9, CHR 0xA2, CHR 0x84, CHR 0xE7, CHR 0xAE, CHR 0x97]"

definition labelInherit :: string where
  "labelInherit = [CHR 0xE8, CHR 0xB7, CHR 0x9F, CHR 0xE9, CHR 0x9A, CHR 0x8F, CHR 0xE5, CHR 0x86, CHR 0x85, CHR 0xE7, CHR 0xBD, CHR 0xAE, CHR 0xE8, CHR 0xA7, CHR 0x84, CHR 0xE5, CHR 0x88, CHR 0x99]"

definition labelExplicitNo :: string where
  "labelExplicitNo = [CHR 0xE6, CHR 0x98, CHR 0xBE, CHR 0xE5, CHR 0xBC, CHR 0x8F, CHR 0xE4, CHR 0xB8, CHR 0x8D, CHR 0xE6, CHR 0x94, CHR 0xAF, CHR 0xE6, CHR 0x8C, CHR 0x81]"

definition labelExplicitYes :: string where
  "labelExplicitYes = [CHR 0xE6, CHR 0x98, CHR 0xBE, CHR 0xE5, CHR 0xBC, CHR 0x8F, CHR 0xE6, CHR 0x94, CHR 0xAF, CHR 0xE6, CHR 0x8C, CHR 0x81]"

definition labelCustomSeries :: string where
  "labelCustomSeries = [CHR 0xE8, CHR 0x87, CHR 0xAA, CHR 0xE5, CHR 0xAE, CHR 0x9A, CHR 0xE4, CHR 0xB9, CHR 0x89, CHR 0xE6, CHR 0x96, CHR 0xB9, CHR 0xE6, CHR 0xA1, CHR 0x88]"

definition hintCustomSeries :: string where
  "hintCustomSeries = [CHR 0xE6, CHR 0x8C, CHR 0x89, CHR 0xE5, CHR 0xBD, CHR 0x93, CHR 0xE5, CHR 0x89, CHR 0x8D, CHR 0xE6, CHR 0xA8, CHR 0xA1, CHR 0xE5, CHR 0x9E, CHR 0x8B, CHR 0xE8, CHR 0xAE, CHR 0xBE, CHR 0xE7, CHR 0xBD, CHR 0xAE]"

definition bracketOpen :: string where
  "bracketOpen = [CHR 0xEF, CHR 0xBC, CHR 0x88]"

definition bracketClose :: string where
  "bracketClose = [CHR 0xEF, CHR 0xBC, CHR 0x89]"

section \<open>Types\<close>

record series_template =
  st_editorType :: "editor_type option"
  st_defaultValue :: "thinking_value option"
  st_allowedValues :: "thinking_value list option"
  st_budget :: "budget_template option"

datatype series_input =
    FixedInput thinking_level
  | BinaryInput thinking_level
  | OffAutoInput
  | DiscreteInput "thinking_level list"
  | BudgetInput int int int

datatype default_selection = PresetLevel thinking_level | BudgetTokens int

record normalized_declaration =
  nd_series :: string
  nd_template :: series_template
  nd_input :: series_input
  nd_defaultSelection :: default_selection
  nd_source :: "string option"

text \<open>What the normalisation returns: \<open>{ supported: false, source }\<close> or a supported declaration.\<close>

datatype capability_declaration = Unsupported "string option" | Supported normalized_declaration

record resolved_capability =
  rz_supported :: bool
  rz_levels :: "thinking_level list"
  rz_defaultLevel :: "thinking_level option"

record series_preset =
  sp_id :: string
  sp_label :: string
  sp_hint :: "string option"
  sp_editorType :: editor_type
  sp_inputKind :: control_kind
  sp_template :: series_template

section \<open>Constants\<close>

definition DEFAULT_SERIES_ID :: string where
  "DEFAULT_SERIES_ID = ''openai-6-level-superset-v1''"

definition UNIFIED_4_LEVEL_SERIES_ID :: string where
  "UNIFIED_4_LEVEL_SERIES_ID = ''unified-4-level-v1''"

definition UNIFIED_4_LEVEL_CODE_LABELS :: "(string \<times> string) list" where
  "UNIFIED_4_LEVEL_CODE_LABELS = [(''none'', labelNone), (''low'', labelLow), (''medium'', labelMedium), (''high'', labelHigh)]"

definition SERIES_ID_ALIASES :: "(string \<times> string) list" where
  "SERIES_ID_ALIASES =
     [(''openai-4-level-none-v1'', UNIFIED_4_LEVEL_SERIES_ID), (''anthropic-adaptive-4-v1'', UNIFIED_4_LEVEL_SERIES_ID)]"

definition POSITIVE_THINKING_LEVEL_ORDER :: "thinking_level list" where
  "POSITIVE_THINKING_LEVEL_ORDER = [LevelAuto, LevelLow, LevelMedium, LevelHigh, LevelXhigh]"

definition THINKING_LEVEL_ORDER :: "thinking_level list" where
  "THINKING_LEVEL_ORDER = LevelOff # POSITIVE_THINKING_LEVEL_ORDER"

fun THINKING_LEVEL_LABELS :: "thinking_level \<Rightarrow> string" where
  "THINKING_LEVEL_LABELS LevelOff = labelNone"
| "THINKING_LEVEL_LABELS LevelAuto = labelAuto"
| "THINKING_LEVEL_LABELS LevelLow = labelLow"
| "THINKING_LEVEL_LABELS LevelMedium = labelMedium"
| "THINKING_LEVEL_LABELS LevelHigh = labelHigh"
| "THINKING_LEVEL_LABELS LevelXhigh = labelXhigh"

definition plainOption :: "string \<Rightarrow> string \<Rightarrow> select_option" where
  "plainOption v l = \<lparr>so_value = v, so_label = l, so_hint = None, so_disabled = None\<rparr>"

definition THINKING_DECLARATION_MODE_OPTIONS :: "select_option list" where
  "THINKING_DECLARATION_MODE_OPTIONS =
     [plainOption ''inherit'' labelInherit, plainOption ''unsupported'' labelExplicitNo, plainOption ''supported'' labelExplicitYes]"

definition THINKING_LEVEL_OPTIONS :: "select_option list" where
  "THINKING_LEVEL_OPTIONS = map (\<lambda>l. plainOption (thinkingLevelString l) (THINKING_LEVEL_LABELS l)) THINKING_LEVEL_ORDER"

definition THINKING_BUDGET_DEFAULT_MODE_OPTIONS :: "select_option list" where
  "THINKING_BUDGET_DEFAULT_MODE_OPTIONS =
     [plainOption ''budget'' labelBudget, plainOption ''dynamic'' labelDynamic, plainOption ''off'' labelClosed]"

section \<open>Presets\<close>

definition createCodeValue :: "string \<Rightarrow> string \<Rightarrow> thinking_value" where
  "createCodeValue code labelZh = CodeValue code labelZh"

definition createBudgetValue :: "budget_mode \<Rightarrow> string \<Rightarrow> int option \<Rightarrow> thinking_value" where
  "createBudgetValue m labelZh budgetTokens = BudgetValue m budgetTokens labelZh"

definition createFixedValue :: "string \<Rightarrow> thinking_value" where
  "createFixedValue labelZh = FixedValue labelZh"

definition DEFAULT_BUDGET_ANCHOR_TOKENS :: "int list" where
  "DEFAULT_BUDGET_ANCHOR_TOKENS = normalizeThinkingBudgetAnchorTokens None"

text \<open>\<open>createBudgetTemplate()\<close>; the overrides are never given.\<close>

definition createBudgetTemplate :: budget_template where
  "createBudgetTemplate =
     buildThinkingBudgetTemplate
       \<lparr>bo_minTokens = Some THINKING_BUDGET_DEFAULT_MIN_TOKENS, bo_maxTokens = Some THINKING_BUDGET_DEFAULT_MAX_TOKENS,
        bo_stepTokens = Some THINKING_BUDGET_DEFAULT_STEP_TOKENS, bo_anchorTokens = Some DEFAULT_BUDGET_ANCHOR_TOKENS\<rparr>"

definition discretePreset :: "string \<Rightarrow> string \<Rightarrow> string \<Rightarrow> control_kind \<Rightarrow> thinking_value list \<Rightarrow> thinking_value \<Rightarrow> series_preset" where
  "discretePreset sid label hint kind values dflt =
     \<lparr>sp_id = sid, sp_label = label, sp_hint = Some hint, sp_editorType = EditorDiscrete, sp_inputKind = kind,
      sp_template = \<lparr>st_editorType = Some EditorDiscrete, st_defaultValue = Some dflt, st_allowedValues = Some values,
        st_budget = None\<rparr>\<rparr>"

definition budgetPreset :: "string \<Rightarrow> string \<Rightarrow> string \<Rightarrow> thinking_value list \<Rightarrow> thinking_value \<Rightarrow> series_preset" where
  "budgetPreset sid label hint values dflt =
     \<lparr>sp_id = sid, sp_label = label, sp_hint = Some hint, sp_editorType = EditorBudget, sp_inputKind = ControlBudget,
      sp_template = \<lparr>st_editorType = Some EditorBudget, st_defaultValue = Some dflt, st_allowedValues = Some values,
        st_budget = Some createBudgetTemplate\<rparr>\<rparr>"

definition codeNone :: thinking_value where "codeNone = createCodeValue ''none'' labelNone"
definition codeMinimal :: thinking_value where "codeMinimal = createCodeValue ''minimal'' labelMinimal"
definition codeLow :: thinking_value where "codeLow = createCodeValue ''low'' labelLow"
definition codeMedium :: thinking_value where "codeMedium = createCodeValue ''medium'' labelMedium"
definition codeHigh :: thinking_value where "codeHigh = createCodeValue ''high'' labelHigh"

definition THINKING_SERIES_PRESETS :: "series_preset list" where
  "THINKING_SERIES_PRESETS =
     [discretePreset ''qwen-thinking-switch-v1'' labelSwitch hintSwitch ControlBinary
        [createCodeValue ''false'' labelClosed, createCodeValue ''true'' labelOpened] (createCodeValue ''true'' labelOpened),
      \<lparr>sp_id = ''deepseek-fixed-reasoning-v1'', sp_label = labelFixedThinking, sp_hint = Some hintFixed,
       sp_editorType = EditorFixed, sp_inputKind = ControlFixed,
       sp_template = \<lparr>st_editorType = Some EditorFixed, st_defaultValue = Some (createFixedValue labelFixedReasoning),
         st_allowedValues = Some [createFixedValue labelFixedReasoning], st_budget = None\<rparr>\<rparr>,
      discretePreset ''openai-6-level-superset-v1'' labelSixLevels hintSixLevels ControlDiscrete
        [codeNone, codeMinimal, codeLow, codeMedium, codeHigh, createCodeValue ''xhigh'' labelXhigh] codeMedium,
      discretePreset ''anthropic-adaptive-max-v1'' labelFiveLevels hintFiveLevels ControlDiscrete
        [createCodeValue ''disabled'' labelClosed, codeLow, codeMedium, codeHigh, createCodeValue ''max'' labelMaximum] codeMedium,
      discretePreset ''openai-4-level-minimal-v1'' labelFourExtended hintFourExtended ControlDiscrete
        [codeMinimal, codeLow, codeMedium, codeHigh] codeMedium,
      discretePreset UNIFIED_4_LEVEL_SERIES_ID labelFourLevels hintFourLevels ControlDiscrete
        [codeNone, codeLow, codeMedium, codeHigh] codeMedium,
      discretePreset ''openai-3-level-classic-v1'' labelThreeLevels hintThreeLevels ControlDiscrete
        [codeLow, codeMedium, codeHigh] codeMedium,
      budgetPreset ''anthropic-budget-v1'' labelThinkingBudget hintThinkingBudget
        [createBudgetValue ModeOff labelClosed None] (createBudgetValue ModeOff labelClosed None),
      budgetPreset ''gemini-2.5-budget-v1'' labelDynamicBudget hintDynamicBudget
        [createBudgetValue ModeOff labelClosed None, createBudgetValue ModeDynamic labelDynamic None]
        (createBudgetValue ModeDynamic labelDynamic None)]"

definition THINKING_SERIES_OPTIONS :: "select_option list" where
  "THINKING_SERIES_OPTIONS =
     map (\<lambda>p. \<lparr>so_value = sp_id p, so_label = sp_label p, so_hint = sp_hint p, so_disabled = None\<rparr>) THINKING_SERIES_PRESETS"

definition normalizeThinkingCapabilitySeries :: "string \<Rightarrow> string" where
  "normalizeThinkingCapabilitySeries series = (case map_of SERIES_ID_ALIASES series of Some s \<Rightarrow> s | None \<Rightarrow> series)"

definition presetById :: "string \<Rightarrow> series_preset option" where
  "presetById sid = find (\<lambda>p. sp_id p = sid) THINKING_SERIES_PRESETS"

text \<open>The preset of the default series is \<open>THINKING_SERIES_PRESETS ! 2\<close>, which the code knows to exist.\<close>

definition resolveThinkingSeriesPreset :: "string \<Rightarrow> series_preset" where
  "resolveThinkingSeriesPreset series =
     (case presetById (normalizeThinkingCapabilitySeries series) of
        Some p \<Rightarrow> p
      | None \<Rightarrow> the (presetById DEFAULT_SERIES_ID))"

section \<open>Primitive values\<close>

fun normalizeNonNegativeInteger :: "json option \<Rightarrow> int option" where
  "normalizeNonNegativeInteger (Some (JNum q)) = (if isInteger q \<and> 0 \<le> q then Some \<lfloor>q\<rfloor> else None)"
| "normalizeNonNegativeInteger _ = None"

fun normalizeOptionalStringT :: "json option \<Rightarrow> string option" where
  "normalizeOptionalStringT (Some (JStr s)) = (if trim s = [] then None else Some (trim s))"
| "normalizeOptionalStringT _ = None"

fun asRecordT :: "json option \<Rightarrow> jrecord" where
  "asRecordT (Some (JObj r)) = r"
| "asRecordT _ = []"

text \<open>\<open>!value || typeof value !== 'object' || Array.isArray(value)\<close>\<close>

fun objectOf :: "json option \<Rightarrow> jrecord option" where
  "objectOf (Some (JObj r)) = Some r"
| "objectOf _ = None"

fun isText :: "json option \<Rightarrow> string \<Rightarrow> bool" where
  "isText (Some (JStr s)) t = (s = t)"
| "isText _ t = False"

definition normalizeIdentifier :: "string \<Rightarrow> string" where
  "normalizeIdentifier v = toLowerCase (trim v)"

fun normalizeBudgetMode :: "json option \<Rightarrow> budget_mode option" where
  "normalizeBudgetMode (Some (JStr s)) = parseBudgetMode s"
| "normalizeBudgetMode _ = None"

fun normalizeThinkingSeriesEditorType :: "json option \<Rightarrow> editor_type option" where
  "normalizeThinkingSeriesEditorType (Some (JStr s)) = parseEditorType s"
| "normalizeThinkingSeriesEditorType _ = None"

fun normalizeThinkingSeriesInputKind :: "json option \<Rightarrow> control_kind option" where
  "normalizeThinkingSeriesInputKind (Some (JStr s)) = parseControlKind (normalizeIdentifier s)"
| "normalizeThinkingSeriesInputKind _ = None"

fun normalizeThinkingLevelIntent :: "json option \<Rightarrow> thinking_level option" where
  "normalizeThinkingLevelIntent (Some (JStr s)) =
     find (\<lambda>l. thinkingLevelString l = normalizeIdentifier s) THINKING_LEVEL_ORDER"
| "normalizeThinkingLevelIntent _ = None"

definition normalizePositiveThinkingLevelIntent :: "json option \<Rightarrow> thinking_level option" where
  "normalizePositiveThinkingLevelIntent v =
     (case normalizeThinkingLevelIntent v of
        None \<Rightarrow> None
      | Some l \<Rightarrow> if l = LevelOff then None else Some l)"

fun normalizePositiveThinkingLevels :: "json option \<Rightarrow> thinking_level list" where
  "normalizePositiveThinkingLevels (Some (JArr xs)) =
     (let normalized = filter (\<lambda>l. l \<in> set POSITIVE_THINKING_LEVEL_ORDER)
                         (List.map_filter (\<lambda>x. normalizePositiveThinkingLevelIntent (Some x)) xs)
      in filter (\<lambda>l. l \<in> set normalized) POSITIVE_THINKING_LEVEL_ORDER)"
| "normalizePositiveThinkingLevels _ = []"

definition clampBudgetTokens :: "rat \<Rightarrow> budget_template \<Rightarrow> int" where
  "clampBudgetTokens v b =
     (let lowerBounded = max (bt_minTokens b) (jsTrunc v);
          upperBounded = min (bt_maxTokens b) lowerBounded;
          step = (if 0 < bt_stepTokens b then bt_stepTokens b else 1);
          snapped = bt_minTokens b + jsRound (of_int (upperBounded - bt_minTokens b) / of_int step) * step
      in min (bt_maxTokens b) (max (bt_minTokens b) snapped))"

section \<open>Values\<close>

fun cloneThinkingSeriesValue :: "thinking_value option \<Rightarrow> thinking_value option" where
  "cloneThinkingSeriesValue None = None"
| "cloneThinkingSeriesValue (Some (CodeValue code labelZh)) = Some (createCodeValue code labelZh)"
| "cloneThinkingSeriesValue (Some (BudgetValue m tokens labelZh)) = Some (createBudgetValue m labelZh tokens)"
| "cloneThinkingSeriesValue (Some (FixedValue labelZh)) = Some (createFixedValue labelZh)"

definition cloneThinkingSeriesValues :: "thinking_value list option \<Rightarrow> thinking_value list option" where
  "cloneThinkingSeriesValues values = map_option (List.map_filter (\<lambda>v. cloneThinkingSeriesValue (Some v))) values"

definition cloneThinkingSeriesTemplate :: "series_template \<Rightarrow> series_template" where
  "cloneThinkingSeriesTemplate t =
     \<lparr>st_editorType = st_editorType t, st_defaultValue = cloneThinkingSeriesValue (st_defaultValue t),
      st_allowedValues = cloneThinkingSeriesValues (st_allowedValues t),
      st_budget = map_option (\<lambda>b. \<lparr>bt_minTokens = bt_minTokens b, bt_maxTokens = bt_maxTokens b,
         bt_stepTokens = bt_stepTokens b, bt_anchorTokens = bt_anchorTokens b\<rparr>) (st_budget t)\<rparr>"

fun budgetModeText :: "budget_mode \<Rightarrow> string" where
  "budgetModeText ModeOff = ''off''"
| "budgetModeText ModeDynamic = ''dynamic''"
| "budgetModeText ModeBudget = ''budget''"

definition tokenJson :: "int \<Rightarrow> json" where
  "tokenJson n = JNum (of_int n)"

fun serializeThinkingSeriesValue :: "thinking_value option \<Rightarrow> json" where
  "serializeThinkingSeriesValue None = JNull"
| "serializeThinkingSeriesValue (Some (CodeValue code labelZh)) =
     JObj [(''valueType'', JStr ''code''), (''code'', JStr code), (''labelZh'', JStr labelZh)]"
| "serializeThinkingSeriesValue (Some (BudgetValue m tokens labelZh)) =
     JObj [(''valueType'', JStr ''budget''), (''mode'', JStr (budgetModeText m)),
       (''budgetTokens'', case tokens of None \<Rightarrow> JNull | Some n \<Rightarrow> tokenJson n), (''labelZh'', JStr labelZh)]"
| "serializeThinkingSeriesValue (Some (FixedValue labelZh)) =
     JObj [(''valueType'', JStr ''fixed''), (''code'', JStr ''fixed''), (''labelZh'', JStr labelZh)]"

definition budgetRecord :: "budget_template \<Rightarrow> jrecord" where
  "budgetRecord b =
     [(''minTokens'', tokenJson (bt_minTokens b)), (''maxTokens'', tokenJson (bt_maxTokens b)),
      (''stepTokens'', tokenJson (bt_stepTokens b)), (''anchorTokens'', JArr (map tokenJson (bt_anchorTokens b)))]"

definition serializeThinkingSeriesTemplate :: "series_template \<Rightarrow> jrecord" where
  "serializeThinkingSeriesTemplate t =
     (case st_editorType t of None \<Rightarrow> [] | Some e \<Rightarrow> [(''editorType'', JStr (editorTypeString e))]) @
     [(''defaultValue'', serializeThinkingSeriesValue (st_defaultValue t))] @
     (case st_allowedValues t of None \<Rightarrow> []
      | Some vs \<Rightarrow> [(''allowedValues'', JArr (map (\<lambda>v. serializeThinkingSeriesValue (Some v)) vs))]) @
     (case st_budget t of None \<Rightarrow> [] | Some b \<Rightarrow> [(''budget'', JObj (budgetRecord b))])"

fun isCode :: "thinking_value \<Rightarrow> bool" where
  "isCode (CodeValue code labelZh) = True"
| "isCode (BudgetValue m tokens labelZh) = False"
| "isCode (FixedValue labelZh) = False"

definition getDiscreteCodeValues :: "thinking_value list option \<Rightarrow> thinking_value option \<Rightarrow> thinking_value list" where
  "getDiscreteCodeValues allowed dflt =
     (let codeValues = filter isCode (case allowed of None \<Rightarrow> [] | Some vs \<Rightarrow> vs) in
      if codeValues \<noteq> [] then codeValues
      else case dflt of Some v \<Rightarrow> if isCode v then [v] else [] | None \<Rightarrow> [])"

definition discreteCodes :: "series_template \<Rightarrow> thinking_value list" where
  "discreteCodes t = getDiscreteCodeValues (st_allowedValues t) (st_defaultValue t)"

definition normalizeCodeValue :: "json option \<Rightarrow> thinking_value option" where
  "normalizeCodeValue v =
     (case objectOf v of
        None \<Rightarrow> None
      | Some r \<Rightarrow>
          (case (normalizeOptionalStringT (prop_of r ''code''), normalizeOptionalStringT (prop_of r ''labelZh'')) of
             (Some code, Some labelZh) \<Rightarrow>
               if isText (prop_of r ''valueType'') ''code'' then Some (createCodeValue code labelZh) else None
           | _ \<Rightarrow> None))"

definition normalizeBudgetModeValue :: "json option \<Rightarrow> thinking_value option" where
  "normalizeBudgetModeValue v =
     (case objectOf v of
        None \<Rightarrow> None
      | Some r \<Rightarrow>
          (case (normalizeBudgetMode (prop_of r ''mode''), normalizeOptionalStringT (prop_of r ''labelZh'')) of
             (Some m, Some labelZh) \<Rightarrow>
               if \<not> isText (prop_of r ''valueType'') ''budget'' then None
               else if m = ModeBudget then
                 map_option (\<lambda>n. createBudgetValue ModeBudget labelZh (Some n)) (normalizeNonNegativeInteger (prop_of r ''budgetTokens''))
               else Some (createBudgetValue m labelZh None)
           | _ \<Rightarrow> None))"

definition normalizeFixedValue :: "json option \<Rightarrow> thinking_value option" where
  "normalizeFixedValue v =
     (case objectOf v of
        None \<Rightarrow> None
      | Some r \<Rightarrow>
          (case normalizeOptionalStringT (prop_of r ''labelZh'') of
             None \<Rightarrow> None
           | Some labelZh \<Rightarrow>
               if isText (prop_of r ''valueType'') ''fixed'' \<and> isText (prop_of r ''code'') ''fixed''
               then Some (createFixedValue labelZh) else None))"

section \<open>Codes of a series\<close>

definition normalizeSeriesCode :: "string \<Rightarrow> string \<Rightarrow> string" where
  "normalizeSeriesCode series code =
     (let normalizedCode = normalizeIdentifier code in
      if normalizeThinkingCapabilitySeries series = UNIFIED_4_LEVEL_SERIES_ID \<and>
         (normalizedCode = ''disabled'' \<or> normalizedCode = ''off'')
      then ''none'' else normalizedCode)"

definition normalizedCodeValue :: "string \<Rightarrow> string \<Rightarrow> string \<Rightarrow> thinking_value" where
  "normalizedCodeValue series code labelZh =
     (let normalizedSeries = normalizeThinkingCapabilitySeries series;
          normalizedCode = normalizeSeriesCode normalizedSeries code
      in if normalizedSeries \<noteq> UNIFIED_4_LEVEL_SERIES_ID then createCodeValue normalizedCode labelZh
         else createCodeValue normalizedCode
                (case map_of UNIFIED_4_LEVEL_CODE_LABELS normalizedCode of Some l \<Rightarrow> l | None \<Rightarrow> labelZh))"

text \<open>The type admits code values only; the others do not occur.\<close>

fun normalizeCodeValueForSeries :: "string \<Rightarrow> thinking_value option \<Rightarrow> thinking_value option" where
  "normalizeCodeValueForSeries series (Some (CodeValue code labelZh)) = Some (normalizedCodeValue series code labelZh)"
| "normalizeCodeValueForSeries series _ = None"

text \<open>The values of the map \<open>deduped\<close>: for each code the first value that has it.\<close>

fun firstOfCode :: "string list \<Rightarrow> thinking_value list \<Rightarrow> thinking_value list" where
  "firstOfCode seen [] = []"
| "firstOfCode seen (CodeValue code labelZh # vs) =
     (if code \<in> set seen then firstOfCode seen vs else CodeValue code labelZh # firstOfCode (code # seen) vs)"
| "firstOfCode seen (v # vs) = firstOfCode seen vs"

definition normalizeDiscreteSeriesValues :: "string \<Rightarrow> thinking_value list \<Rightarrow> thinking_value list" where
  "normalizeDiscreteSeriesValues series values =
     (let normalizedValues = List.map_filter (\<lambda>v. normalizeCodeValueForSeries series (Some v)) values in
      if normalizeThinkingCapabilitySeries series \<noteq> UNIFIED_4_LEVEL_SERIES_ID then normalizedValues
      else firstOfCode [] normalizedValues)"

definition mapSeriesCodeToLegacyLevelT :: "string \<Rightarrow> thinking_level option" where
  "mapSeriesCodeToLegacyLevelT code =
     (let c = normalizeIdentifier code in
      if c \<in> set [''none'', ''off'', ''disabled'', ''false''] then Some LevelOff
      else if c \<in> set [''minimal'', ''dynamic''] then Some LevelAuto
      else if c = ''low'' then Some LevelLow
      else if c = ''medium'' then Some LevelMedium
      else if c \<in> set [''high'', ''true'', ''enabled''] then Some LevelHigh
      else if c \<in> set [''max'', ''xhigh''] then Some LevelXhigh
      else None)"

definition levelOfValue :: "thinking_value \<Rightarrow> thinking_level option" where
  "levelOfValue v = (case codeOf v of None \<Rightarrow> None | Some c \<Rightarrow> mapSeriesCodeToLegacyLevelT c)"

definition mapLegacyLevelToSeriesCode :: "thinking_level \<Rightarrow> string \<Rightarrow> string option" where
  "mapLegacyLevelToSeriesCode level series =
     (case find (\<lambda>v. levelOfValue v = Some level) (discreteCodes (sp_template (resolveThinkingSeriesPreset series))) of
        None \<Rightarrow> None
      | Some v \<Rightarrow> codeOf v)"

section \<open>Budgets\<close>

definition tokensLabel :: "int \<Rightarrow> string" where
  "tokensLabel n = intString n @ '' Tokens''"

definition normalizeBudgetTemplate :: "json option \<Rightarrow> budget_template" where
  "normalizeBudgetTemplate v =
     (let r = asRecordT v;
          minTokens = orElse (normalizeNonNegativeInteger (prop_of r ''minTokens'')) THINKING_BUDGET_DEFAULT_MIN_TOKENS;
          maxCandidate = orElse (normalizeNonNegativeInteger (prop_of r ''maxTokens'')) THINKING_BUDGET_DEFAULT_MAX_TOKENS;
          stepCandidate = orElse (normalizeNonNegativeInteger (prop_of r ''stepTokens'')) THINKING_BUDGET_DEFAULT_STEP_TOKENS
      in buildThinkingBudgetTemplate
           \<lparr>bo_minTokens = Some minTokens, bo_maxTokens = Some (max minTokens maxCandidate),
            bo_stepTokens = Some (if 0 < stepCandidate then stepCandidate else THINKING_BUDGET_DEFAULT_STEP_TOKENS),
            bo_anchorTokens = Some (case prop_of r ''anchorTokens'' of
                Some (JArr xs) \<Rightarrow> List.map_filter (\<lambda>x. normalizeNonNegativeInteger (Some x)) xs
              | _ \<Rightarrow> DEFAULT_BUDGET_ANCHOR_TOKENS)\<rparr>)"

definition budgetAsJson :: "budget_template option \<Rightarrow> json option" where
  "budgetAsJson b = map_option (\<lambda>x. JObj (budgetRecord x)) b"

definition budgetOfTokens :: "rat \<Rightarrow> budget_template \<Rightarrow> thinking_value" where
  "budgetOfTokens v b = (let n = clampBudgetTokens v b in createBudgetValue ModeBudget (tokensLabel n) (Some n))"

definition budgetModeOnly :: "budget_mode \<Rightarrow> thinking_value" where
  "budgetModeOnly m = createBudgetValue m (if m = ModeDynamic then labelDynamic else labelClosed) None"

text \<open>
  The two halves of \<open>normalizeBudgetTemplateDefaultValueInternal\<close>: a value of type \<open>budget\<close>, and the older form, which only has a
  mode and whose mode is trimmed first.
\<close>

definition budgetDefaultFor :: "budget_mode option \<Rightarrow> jrecord \<Rightarrow> budget_template \<Rightarrow> thinking_value option" where
  "budgetDefaultFor m r b =
     (case m of
        None \<Rightarrow> None
      | Some ModeBudget \<Rightarrow>
          map_option (\<lambda>n. budgetOfTokens (of_int n) b) (normalizeNonNegativeInteger (prop_of r ''budgetTokens''))
      | Some m' \<Rightarrow> Some (budgetModeOnly m'))"

definition normalizeBudgetTemplateDefaultValueInternal :: "json option \<Rightarrow> budget_template \<Rightarrow> thinking_value option" where
  "normalizeBudgetTemplateDefaultValueInternal v b =
     (case objectOf v of
        None \<Rightarrow> None
      | Some r \<Rightarrow>
          if isText (prop_of r ''valueType'') ''budget'' then budgetDefaultFor (normalizeBudgetMode (prop_of r ''mode'')) r b
          else budgetDefaultFor
                 (case normalizeOptionalStringT (prop_of r ''mode'') of None \<Rightarrow> None | Some s \<Rightarrow> parseBudgetMode s) r b)"

definition normalizeBudgetTemplateDefaultValue :: "json option \<Rightarrow> budget_template \<Rightarrow> thinking_value list \<Rightarrow> thinking_value" where
  "normalizeBudgetTemplateDefaultValue v b allowed =
     (case normalizeBudgetTemplateDefaultValueInternal v b of
        Some parsed \<Rightarrow> parsed
      | None \<Rightarrow>
          orElse (cloneThinkingSeriesValue
                    (case find (hasBudgetMode ModeDynamic) allowed of
                       Some c \<Rightarrow> Some c
                     | None \<Rightarrow> find (hasBudgetMode ModeOff) allowed))
            (createBudgetValue ModeOff labelClosed None))"

fun normalizeBudgetDefaultValue :: "thinking_value option \<Rightarrow> budget_template \<Rightarrow> thinking_value" where
  "normalizeBudgetDefaultValue (Some (BudgetValue m tokens labelZh)) b =
     (if m = ModeBudget then budgetOfTokens (of_int (orElse tokens THINKING_BUDGET_DEFAULT_SELECTION_TOKENS)) b
      else orElse (cloneThinkingSeriesValue (Some (BudgetValue m tokens labelZh))) (createBudgetValue ModeOff labelClosed None))"
| "normalizeBudgetDefaultValue _ b = createBudgetValue ModeOff labelClosed None"

section \<open>Templates\<close>

definition normalizeBudgetAllowedValues :: "json option \<Rightarrow> thinking_value list option \<Rightarrow> thinking_value list" where
  "normalizeBudgetAllowedValues v fallback =
     (let fallbackValues = (case cloneThinkingSeriesValues fallback of None \<Rightarrow> [] | Some vs \<Rightarrow> vs) in
      case v of
        Some (JArr xs) \<Rightarrow>
          (let parsed = List.map_filter (\<lambda>x. normalizeBudgetModeValue (Some x)) xs in
           if parsed \<noteq> [] then parsed else fallbackValues)
      | _ \<Rightarrow> fallbackValues)"

definition normalizeDiscreteAllowedValues :: "json option \<Rightarrow> thinking_value list option \<Rightarrow> string \<Rightarrow> thinking_value list" where
  "normalizeDiscreteAllowedValues v fallback series =
     (let fallbackValues = normalizeDiscreteSeriesValues series (getDiscreteCodeValues fallback None);
          cloned = List.map_filter (\<lambda>x. cloneThinkingSeriesValue (Some x)) fallbackValues
      in case v of
           Some (JArr xs) \<Rightarrow>
             (let parsed = normalizeDiscreteSeriesValues series (List.map_filter (\<lambda>x. normalizeCodeValue (Some x)) xs) in
              if parsed \<noteq> [] then parsed else cloned)
         | _ \<Rightarrow> cloned)"

definition headOption :: "'a list \<Rightarrow> 'a option" where
  "headOption xs = (case xs of [] \<Rightarrow> None | x # _ \<Rightarrow> Some x)"

definition sameCode :: "thinking_value \<Rightarrow> thinking_value \<Rightarrow> bool" where
  "sameCode v w \<longleftrightarrow> codeOf v \<noteq> None \<and> codeOf v = codeOf w"

definition normalizeDiscreteDefaultValue :: "json option \<Rightarrow> thinking_value list \<Rightarrow> string \<Rightarrow> thinking_value" where
  "normalizeDiscreteDefaultValue v allowed series =
     (let fallback = orElse (cloneThinkingSeriesValue (headOption allowed)) (createCodeValue ''medium'' labelMedium) in
      case normalizeCodeValueForSeries series (normalizeCodeValue v) of
        Some parsed \<Rightarrow> if list_ex (sameCode parsed) allowed then parsed else fallback
      | None \<Rightarrow> fallback)"

definition fixedOf :: "json option \<Rightarrow> series_preset \<Rightarrow> thinking_value" where
  "fixedOf v preset =
     (case normalizeFixedValue v of
        Some f \<Rightarrow> f
      | None \<Rightarrow>
          orElse (normalizeFixedValue (Some (serializeThinkingSeriesValue (st_defaultValue (sp_template preset)))))
            (createFixedValue labelFixedReasoning))"

definition normalizeThinkingSeriesTemplate :: "json option \<Rightarrow> series_preset \<Rightarrow> string \<Rightarrow> series_template" where
  "normalizeThinkingSeriesTemplate v preset series =
     (let r = asRecordT v;
          editorType = orElse (normalizeThinkingSeriesEditorType (prop_of r ''editorType'')) (sp_editorType preset)
      in case editorType of
           EditorBudget \<Rightarrow>
             (let budget = normalizeBudgetTemplate (nullishOr (prop_of r ''budget'') (budgetAsJson (st_budget (sp_template preset))));
                  allowed = normalizeBudgetAllowedValues (prop_of r ''allowedValues'') (st_allowedValues (sp_template preset))
              in \<lparr>st_editorType = Some EditorBudget,
                  st_defaultValue = Some (normalizeBudgetTemplateDefaultValue (prop_of r ''defaultValue'') budget allowed),
                  st_allowedValues = Some allowed, st_budget = Some budget\<rparr>)
         | EditorFixed \<Rightarrow>
             (let fixedValue = fixedOf (prop_of r ''defaultValue'') preset
              in \<lparr>st_editorType = Some EditorFixed, st_defaultValue = Some fixedValue, st_allowedValues = Some [fixedValue],
                  st_budget = None\<rparr>)
         | EditorDiscrete \<Rightarrow>
             (let allowed = normalizeDiscreteAllowedValues (prop_of r ''allowedValues'') (st_allowedValues (sp_template preset)) series
              in \<lparr>st_editorType = Some EditorDiscrete,
                  st_defaultValue = Some (normalizeDiscreteDefaultValue (prop_of r ''defaultValue'') allowed series),
                  st_allowedValues = Some allowed, st_budget = None\<rparr>))"

section \<open>The fields of the older form\<close>

definition deriveLegacyLevelsFromTemplate :: "series_template \<Rightarrow> thinking_level list" where
  "deriveLegacyLevelsFromTemplate t =
     (if st_editorType t = Some EditorBudget then [LevelOff]
      else if st_editorType t = Some EditorFixed then [LevelHigh]
      else (let mappedLevels = List.map_filter levelOfValue (discreteCodes t) in
            filter (\<lambda>l. l \<in> set mappedLevels) THINKING_LEVEL_ORDER))"

definition deriveLegacyDefaultLevelFromTemplate :: "series_template \<Rightarrow> thinking_level option" where
  "deriveLegacyDefaultLevelFromTemplate t =
     (case st_defaultValue t of
        Some (CodeValue code labelZh) \<Rightarrow> mapSeriesCodeToLegacyLevelT code
      | Some (BudgetValue m tokens labelZh) \<Rightarrow> Some (if m = ModeOff then LevelOff else LevelAuto)
      | Some (FixedValue labelZh) \<Rightarrow> Some LevelHigh
      | None \<Rightarrow> None)"

definition deriveLegacyInputFromTemplate :: "string \<Rightarrow> series_template \<Rightarrow> series_input" where
  "deriveLegacyInputFromTemplate series t =
     (if st_editorType t = Some EditorBudget then
        (let budget = normalizeBudgetTemplate (budgetAsJson (st_budget t))
         in BudgetInput (bt_minTokens budget) (bt_maxTokens budget) (bt_stepTokens budget))
      else if st_editorType t = Some EditorFixed then FixedInput LevelHigh
      else
        (let preset = resolveThinkingSeriesPreset series;
             legacyLevels = deriveLegacyLevelsFromTemplate t;
             positiveLevels = filter (\<lambda>l. l \<noteq> LevelOff) legacyLevels
         in if sp_inputKind preset = ControlBinary then
              BinaryInput (orElse (find (\<lambda>l. l \<noteq> LevelOff \<and> l \<noteq> LevelAuto) legacyLevels) LevelHigh)
            else if legacyLevels = [LevelOff, LevelAuto] then OffAutoInput
            else DiscreteInput (if positiveLevels \<noteq> [] then positiveLevels else [LevelAuto, LevelLow, LevelMedium, LevelHigh])))"

definition deriveLegacyDefaultSelectionFromTemplate :: "series_template \<Rightarrow> default_selection" where
  "deriveLegacyDefaultSelectionFromTemplate t =
     (case st_defaultValue t of
        Some (BudgetValue ModeBudget tokens labelZh) \<Rightarrow> BudgetTokens (orElse tokens THINKING_BUDGET_DEFAULT_SELECTION_TOKENS)
      | _ \<Rightarrow> PresetLevel (orElse (deriveLegacyDefaultLevelFromTemplate t) LevelOff))"

definition normalizeLegacyLevelsFromRecord :: "jrecord \<Rightarrow> thinking_level list" where
  "normalizeLegacyLevelsFromRecord r =
     (let inputRecord = asRecordT (prop_of r ''input'') in
      case normalizeThinkingSeriesInputKind (prop_of inputRecord ''kind'') of
        Some ControlFixed \<Rightarrow>
          (case normalizePositiveThinkingLevelIntent (prop_of inputRecord ''level'') of None \<Rightarrow> [] | Some l \<Rightarrow> [l])
      | Some ControlBinary \<Rightarrow>
          (case normalizePositiveThinkingLevelIntent (prop_of inputRecord ''enabledLevel'') of
             None \<Rightarrow> [LevelOff] | Some l \<Rightarrow> [LevelOff, l])
      | Some ControlOffAuto \<Rightarrow> [LevelOff, LevelAuto]
      | Some ControlDiscrete \<Rightarrow> LevelOff # normalizePositiveThinkingLevels (prop_of inputRecord ''levels'')
      | Some ControlBudget \<Rightarrow> [LevelOff]
      | None \<Rightarrow> LevelOff # normalizePositiveThinkingLevels (prop_of r ''levels''))"

definition hydrateBudget :: "jrecord \<Rightarrow> series_preset \<Rightarrow> series_template" where
  "hydrateBudget r preset =
     (let inputRecord = asRecordT (prop_of r ''input'');
          presetBudget = st_budget (sp_template preset);
          given = (\<lambda>k sel. case normalizeNonNegativeInteger (prop_of inputRecord k) of
                     Some n \<Rightarrow> [(k, tokenJson n)]
                   | None \<Rightarrow> (case presetBudget of None \<Rightarrow> [] | Some b \<Rightarrow> [(k, tokenJson (sel b))]));
          budget = normalizeBudgetTemplate (Some (JObj (
            given ''minTokens'' bt_minTokens @ given ''maxTokens'' bt_maxTokens @ given ''stepTokens'' bt_stepTokens @
            (case presetBudget of None \<Rightarrow> [] | Some b \<Rightarrow> [(''anchorTokens'', JArr (map tokenJson (bt_anchorTokens b)))]))));
          selection = asRecordT (prop_of r ''defaultSelection'');
          defaultMode = normalizeOptionalStringT (prop_of selection ''mode'');
          dflt = (if defaultMode = Some ''budget'' then
              budgetOfTokens (of_int (orElse (normalizeNonNegativeInteger (prop_of selection ''budgetTokens''))
                THINKING_BUDGET_DEFAULT_SELECTION_TOKENS)) budget
            else if defaultMode = Some ''dynamic'' then createBudgetValue ModeDynamic labelDynamic None
            else createBudgetValue ModeOff labelClosed None)
      in \<lparr>st_editorType = Some EditorBudget, st_defaultValue = Some dflt,
          st_allowedValues = cloneThinkingSeriesValues (st_allowedValues (sp_template preset)), st_budget = Some budget\<rparr>)"

definition firstGiven :: "'a option \<Rightarrow> 'a option \<Rightarrow> 'a option" where
  "firstGiven a b = (case a of None \<Rightarrow> b | Some x \<Rightarrow> Some x)"

definition hydrateDiscrete :: "jrecord \<Rightarrow> series_preset \<Rightarrow> series_template" where
  "hydrateDiscrete r preset =
     (let allowedLevels = normalizeLegacyLevelsFromRecord r;
          presetValues = discreteCodes (sp_template preset);
          nextAllowed = (if allowedLevels = [] then presetValues
            else filter (\<lambda>v. case levelOfValue v of None \<Rightarrow> False | Some l \<Rightarrow> l \<in> set allowedLevels) presetValues);
          safe = (if nextAllowed \<noteq> [] then nextAllowed else presetValues);
          selection = asRecordT (prop_of r ''defaultSelection'');
          fallback = firstGiven (headOption safe) (firstGiven (headOption presetValues) (st_defaultValue (sp_template preset)));
          dflt = (case normalizeThinkingLevelIntent (nullishOr (prop_of selection ''level'') (prop_of r ''defaultLevel'')) of
              None \<Rightarrow> fallback
            | Some l \<Rightarrow> firstGiven (find (\<lambda>v. levelOfValue v = Some l) safe) fallback)
      in \<lparr>st_editorType = Some (sp_editorType preset), st_defaultValue = cloneThinkingSeriesValue dflt,
          st_allowedValues = Some (List.map_filter (\<lambda>v. cloneThinkingSeriesValue (Some v)) safe), st_budget = None\<rparr>)"

definition hydrateThinkingSeriesTemplate :: "jrecord \<Rightarrow> series_preset \<Rightarrow> string \<Rightarrow> series_template" where
  "hydrateThinkingSeriesTemplate r preset series =
     (if prop_of r ''input'' = None \<and> prop_of r ''defaultSelection'' = None \<and> prop_of r ''levels'' = None
      then cloneThinkingSeriesTemplate (sp_template preset)
      else if sp_editorType preset = EditorBudget then hydrateBudget r preset
      else hydrateDiscrete r preset)"

section \<open>Declarations\<close>

definition buildSupportedDeclaration :: "string \<Rightarrow> json option \<Rightarrow> string option \<Rightarrow> normalized_declaration" where
  "buildSupportedDeclaration series template source =
     (let normalizedSeries = normalizeThinkingCapabilitySeries series;
          normalizedTemplate = normalizeThinkingSeriesTemplate template (resolveThinkingSeriesPreset normalizedSeries) normalizedSeries
      in \<lparr>nd_series = normalizedSeries, nd_template = normalizedTemplate,
          nd_input = deriveLegacyInputFromTemplate normalizedSeries normalizedTemplate,
          nd_defaultSelection = deriveLegacyDefaultSelectionFromTemplate normalizedTemplate, nd_source = source\<rparr>)"

definition templateJson :: "series_template \<Rightarrow> json" where
  "templateJson t = JObj (serializeThinkingSeriesTemplate t)"

definition createDefaultSupportedThinkingCapabilityDeclaration :: "string \<Rightarrow> string option \<Rightarrow> normalized_declaration" where
  "createDefaultSupportedThinkingCapabilityDeclaration series source =
     (let normalizedSeries = normalizeThinkingCapabilitySeries series
      in buildSupportedDeclaration normalizedSeries
           (Some (templateJson (sp_template (resolveThinkingSeriesPreset normalizedSeries)))) source)"

definition normalizeThinkingCapabilityDeclaration :: "json option \<Rightarrow> capability_declaration option" where
  "normalizeThinkingCapabilityDeclaration input =
     (case objectOf input of
        None \<Rightarrow> None
      | Some r \<Rightarrow>
          (case prop_of r ''supported'' of
             Some (JBool supported) \<Rightarrow>
               (let source = normalizeOptionalStringT (prop_of r ''source'') in
                if \<not> supported then Some (Unsupported source)
                else
                  (let series = normalizeThinkingCapabilitySeries
                         (orElse (normalizeOptionalStringT (prop_of r ''series'')) DEFAULT_SERIES_ID);
                       preset = resolveThinkingSeriesPreset series;
                       template = (case prop_of r ''template'' of
                           Some t \<Rightarrow> normalizeThinkingSeriesTemplate (Some t) preset series
                         | None \<Rightarrow> hydrateThinkingSeriesTemplate r preset series)
                   in Some (Supported (buildSupportedDeclaration series (Some (templateJson template)) source))))
           | _ \<Rightarrow> None))"

definition initializeSupportedThinkingCapabilityDeclaration :: "json option \<Rightarrow> normalized_declaration" where
  "initializeSupportedThinkingCapabilityDeclaration declaration =
     (case normalizeThinkingCapabilityDeclaration declaration of
        Some (Supported d) \<Rightarrow> d
      | _ \<Rightarrow> createDefaultSupportedThinkingCapabilityDeclaration DEFAULT_SERIES_ID None)"

fun inputJson :: "series_input \<Rightarrow> json" where
  "inputJson (FixedInput l) = JObj [(''kind'', JStr ''fixed''), (''level'', JStr (thinkingLevelString l))]"
| "inputJson (BinaryInput l) = JObj [(''kind'', JStr ''binary''), (''enabledLevel'', JStr (thinkingLevelString l))]"
| "inputJson OffAutoInput = JObj [(''kind'', JStr ''off-auto'')]"
| "inputJson (DiscreteInput ls) =
     JObj [(''kind'', JStr ''discrete''), (''levels'', JArr (map (\<lambda>l. JStr (thinkingLevelString l)) ls))]"
| "inputJson (BudgetInput lo hi st) =
     JObj [(''kind'', JStr ''budget''), (''minTokens'', tokenJson lo), (''maxTokens'', tokenJson hi), (''stepTokens'', tokenJson st)]"

fun defaultSelectionJson :: "default_selection \<Rightarrow> json" where
  "defaultSelectionJson (PresetLevel l) = JObj [(''mode'', JStr ''preset''), (''level'', JStr (thinkingLevelString l))]"
| "defaultSelectionJson (BudgetTokens n) = JObj [(''mode'', JStr ''budget''), (''budgetTokens'', tokenJson n)]"

definition sourceProps :: "string option \<Rightarrow> jrecord" where
  "sourceProps source = (case source of None \<Rightarrow> [] | Some s \<Rightarrow> [(''source'', JStr s)])"

text \<open>The normalised declaration as the object it is.\<close>

definition normalizedJson :: "normalized_declaration \<Rightarrow> json" where
  "normalizedJson d =
     JObj ([(''supported'', JBool True), (''series'', JStr (nd_series d)), (''template'', templateJson (nd_template d)),
            (''input'', inputJson (nd_input d)), (''defaultSelection'', defaultSelectionJson (nd_defaultSelection d))] @
           sourceProps (nd_source d))"

definition unsupportedJson :: "string option \<Rightarrow> json" where
  "unsupportedJson source = JObj ((''supported'', JBool False) # sourceProps source)"

fun declarationJson :: "capability_declaration \<Rightarrow> json" where
  "declarationJson (Unsupported source) = unsupportedJson source"
| "declarationJson (Supported d) = normalizedJson d"

definition structuredJson :: "string \<Rightarrow> series_template \<Rightarrow> string option \<Rightarrow> json" where
  "structuredJson series template source =
     JObj ([(''supported'', JBool True), (''series'', JStr series), (''template'', templateJson template)] @ sourceProps source)"

text \<open>The clone is an object again, without the fields of the older form.\<close>

definition cloneThinkingCapabilityDeclaration :: "json option \<Rightarrow> json option" where
  "cloneThinkingCapabilityDeclaration declaration =
     (case normalizeThinkingCapabilityDeclaration declaration of
        None \<Rightarrow> None
      | Some (Unsupported source) \<Rightarrow> Some (unsupportedJson source)
      | Some (Supported d) \<Rightarrow> Some (structuredJson (nd_series d) (cloneThinkingSeriesTemplate (nd_template d)) (nd_source d)))"

definition serializeThinkingCapabilityOverrideInput :: "json option \<Rightarrow> json" where
  "serializeThinkingCapabilityOverrideInput declaration =
     (case normalizeThinkingCapabilityDeclaration declaration of
        None \<Rightarrow> JNull
      | Some (Unsupported source) \<Rightarrow> unsupportedJson source
      | Some (Supported d) \<Rightarrow> structuredJson (nd_series d) (nd_template d) (nd_source d))"

section \<open>Reading a declaration\<close>

datatype declaration_mode = ModeInherit | ModeUnsupported | ModeSupported

definition declaredSupported :: "json option \<Rightarrow> bool" where
  "declaredSupported declaration \<longleftrightarrow> prop_of (asRecordT declaration) ''supported'' = Some (JBool True)"

definition getThinkingCapabilityDeclarationMode :: "json option \<Rightarrow> declaration_mode" where
  "getThinkingCapabilityDeclarationMode declaration =
     (if declaration = None then ModeInherit else if declaredSupported declaration then ModeSupported else ModeUnsupported)"

definition buildThinkingDeclarationSeriesOptions :: "string option \<Rightarrow> select_option list" where
  "buildThinkingDeclarationSeriesOptions currentSeries =
     (case map_option normalizeThinkingCapabilitySeries currentSeries of
        None \<Rightarrow> THINKING_SERIES_OPTIONS
      | Some s \<Rightarrow>
          if s = [] \<or> presetById s \<noteq> None then THINKING_SERIES_OPTIONS
          else THINKING_SERIES_OPTIONS @
            [\<lparr>so_value = s, so_label = labelCustomSeries, so_hint = Some hintCustomSeries, so_disabled = None\<rparr>])"

definition getThinkingCapabilityDeclarationSeries :: "json option \<Rightarrow> string" where
  "getThinkingCapabilityDeclarationSeries declaration = nd_series (initializeSupportedThinkingCapabilityDeclaration declaration)"

fun inputKindOf :: "series_input \<Rightarrow> control_kind" where
  "inputKindOf (FixedInput l) = ControlFixed"
| "inputKindOf (BinaryInput l) = ControlBinary"
| "inputKindOf OffAutoInput = ControlOffAuto"
| "inputKindOf (DiscreteInput ls) = ControlDiscrete"
| "inputKindOf (BudgetInput lo hi st) = ControlBudget"

definition getThinkingCapabilityDeclarationInputKind :: "json option \<Rightarrow> control_kind option" where
  "getThinkingCapabilityDeclarationInputKind declaration =
     (if \<not> declaredSupported declaration then None
      else Some (inputKindOf (nd_input (initializeSupportedThinkingCapabilityDeclaration declaration))))"

definition getThinkingCapabilityDeclarationTemplate :: "json option \<Rightarrow> series_template option" where
  "getThinkingCapabilityDeclarationTemplate declaration =
     (if \<not> declaredSupported declaration then None
      else Some (cloneThinkingSeriesTemplate (nd_template (initializeSupportedThinkingCapabilityDeclaration declaration))))"

definition buildThinkingDeclarationDiscreteValueOptions :: "json option \<Rightarrow> select_option list" where
  "buildThinkingDeclarationDiscreteValueOptions declaration =
     map (\<lambda>v. plainOption (orElse (codeOf v) []) (valueLabel v @ bracketOpen @ orElse (codeOf v) [] @ bracketClose))
       (discreteCodes (nd_template (initializeSupportedThinkingCapabilityDeclaration declaration)))"

definition buildThinkingDeclarationDefaultLevelOptions :: "json option \<Rightarrow> select_option list" where
  "buildThinkingDeclarationDefaultLevelOptions declaration =
     map (\<lambda>o'. plainOption (so_value o') (so_label o')) (buildThinkingDeclarationDiscreteValueOptions declaration)"

definition resolveExplicitThinkingCapability :: "json option \<Rightarrow> resolved_capability option" where
  "resolveExplicitThinkingCapability declaration =
     (case normalizeThinkingCapabilityDeclaration declaration of
        None \<Rightarrow> None
      | Some (Unsupported source) \<Rightarrow> Some \<lparr>rz_supported = False, rz_levels = [], rz_defaultLevel = None\<rparr>
      | Some (Supported d) \<Rightarrow>
          (let levels = deriveLegacyLevelsFromTemplate (nd_template d) in
           if levels = [] then Some \<lparr>rz_supported = False, rz_levels = [], rz_defaultLevel = None\<rparr>
           else Some \<lparr>rz_supported = True, rz_levels = levels,
                  rz_defaultLevel = deriveLegacyDefaultLevelFromTemplate (nd_template d)\<rparr>))"

text \<open>The provider and the model identifier are ignored by the code too.\<close>

definition resolveThinkingCapability :: "json option \<Rightarrow> resolved_capability" where
  "resolveThinkingCapability declaration =
     orElse (resolveExplicitThinkingCapability declaration) \<lparr>rz_supported = False, rz_levels = [], rz_defaultLevel = None\<rparr>"

definition resolveThinkingLevelIntent :: "resolved_capability \<Rightarrow> thinking_level option \<Rightarrow> thinking_level option" where
  "resolveThinkingLevelIntent capability v =
     (if \<not> rz_supported capability \<or> rz_levels capability = [] then None
      else case v of
             Some l \<Rightarrow> if l \<in> set (rz_levels capability) then Some l else rz_defaultLevel capability
           | None \<Rightarrow> rz_defaultLevel capability)"

definition buildThinkingLevelOptions :: "resolved_capability \<Rightarrow> select_option list" where
  "buildThinkingLevelOptions capability =
     map (\<lambda>l. plainOption (thinkingLevelString l) (THINKING_LEVEL_LABELS l)) (rz_levels capability)"

section \<open>Editing a declaration\<close>

definition setThinkingCapabilityDeclarationMode :: "json option \<Rightarrow> declaration_mode \<Rightarrow> capability_declaration option" where
  "setThinkingCapabilityDeclarationMode declaration m =
     (case m of
        ModeInherit \<Rightarrow> None
      | ModeUnsupported \<Rightarrow> Some (Unsupported (normalizeOptionalStringT (prop_of (asRecordT declaration) ''source'')))
      | ModeSupported \<Rightarrow> Some (Supported (initializeSupportedThinkingCapabilityDeclaration declaration)))"

definition setThinkingCapabilityDeclarationSeries :: "json option \<Rightarrow> string \<Rightarrow> normalized_declaration" where
  "setThinkingCapabilityDeclarationSeries declaration series =
     createDefaultSupportedThinkingCapabilityDeclaration series
       (nd_source (initializeSupportedThinkingCapabilityDeclaration declaration))"

definition withTemplate :: "normalized_declaration \<Rightarrow> series_template \<Rightarrow> normalized_declaration" where
  "withTemplate d t = buildSupportedDeclaration (nd_series d) (Some (templateJson t)) (nd_source d)"

definition hasNormalCode :: "string \<Rightarrow> thinking_value \<Rightarrow> bool" where
  "hasNormalCode c v \<longleftrightarrow> codeOf v = Some c"

definition toggleThinkingCapabilityDeclarationCodeValue :: "json option \<Rightarrow> string \<Rightarrow> normalized_declaration" where
  "toggleThinkingCapabilityDeclarationCodeValue declaration code =
     (let supported = initializeSupportedThinkingCapabilityDeclaration declaration;
          normalizedCode = normalizeSeriesCode (nd_series supported) code;
          preset = resolveThinkingSeriesPreset (nd_series supported);
          presetValues = discreteCodes (sp_template preset);
          currentValues = discreteCodes (nd_template supported);
          nextValues = (if list_ex (hasNormalCode normalizedCode) currentValues
            then filter (\<lambda>v. \<not> hasNormalCode normalizedCode v) currentValues
            else filter (\<lambda>v. list_ex (\<lambda>w. sameCode w v) currentValues \<or> hasNormalCode normalizedCode v) presetValues);
          normalizedValues = filter (\<lambda>v. list_ex (\<lambda>w. sameCode w v) nextValues) presetValues;
          safeValues = (if normalizedValues \<noteq> [] then normalizedValues else presetValues);
          currentDefaultCode = (case st_defaultValue (nd_template supported) of None \<Rightarrow> None | Some v \<Rightarrow> codeOf v);
          nextDefault = firstGiven (find (\<lambda>v. codeOf v = currentDefaultCode) safeValues) (headOption safeValues)
      in withTemplate supported
           ((nd_template supported)\<lparr>st_editorType := Some (sp_editorType preset),
              st_allowedValues := Some (List.map_filter (\<lambda>v. cloneThinkingSeriesValue (Some v)) safeValues),
              st_defaultValue := cloneThinkingSeriesValue nextDefault\<rparr>))"

definition toggleThinkingCapabilityDeclarationLevel :: "json option \<Rightarrow> thinking_level \<Rightarrow> normalized_declaration" where
  "toggleThinkingCapabilityDeclarationLevel declaration level =
     (let supported = initializeSupportedThinkingCapabilityDeclaration declaration in
      case mapLegacyLevelToSeriesCode level (nd_series supported) of
        None \<Rightarrow> supported
      | Some code \<Rightarrow> toggleThinkingCapabilityDeclarationCodeValue (Some (normalizedJson supported)) code)"

definition setThinkingCapabilityDeclarationDefaultCodeValue :: "json option \<Rightarrow> string \<Rightarrow> normalized_declaration" where
  "setThinkingCapabilityDeclarationDefaultCodeValue declaration code =
     (let supported = initializeSupportedThinkingCapabilityDeclaration declaration;
          normalizedCode = normalizeSeriesCode (nd_series supported) code
      in case find (hasNormalCode normalizedCode) (discreteCodes (nd_template supported)) of
           None \<Rightarrow> supported
         | Some v \<Rightarrow>
             withTemplate supported ((nd_template supported)\<lparr>st_defaultValue := cloneThinkingSeriesValue (Some v)\<rparr>))"

definition setThinkingCapabilityDeclarationDefaultLevel :: "json option \<Rightarrow> thinking_level \<Rightarrow> normalized_declaration" where
  "setThinkingCapabilityDeclarationDefaultLevel declaration level =
     (let supported = initializeSupportedThinkingCapabilityDeclaration declaration in
      if st_editorType (nd_template supported) = Some EditorBudget then supported
      else case mapLegacyLevelToSeriesCode level (nd_series supported) of
             None \<Rightarrow> supported
           | Some code \<Rightarrow> setThinkingCapabilityDeclarationDefaultCodeValue (Some (normalizedJson supported)) code)"

definition setThinkingCapabilityDeclarationFixedLevel :: "json option \<Rightarrow> thinking_level \<Rightarrow> normalized_declaration" where
  "setThinkingCapabilityDeclarationFixedLevel declaration level = setThinkingCapabilityDeclarationDefaultLevel declaration level"

definition setThinkingCapabilityDeclarationBinaryLevel :: "json option \<Rightarrow> thinking_level \<Rightarrow> normalized_declaration" where
  "setThinkingCapabilityDeclarationBinaryLevel declaration level = setThinkingCapabilityDeclarationDefaultLevel declaration level"

text \<open>The patch of a budget: for each of the three fields the number that replaces it, if it is given.\<close>

record budget_patch =
  bp_minTokens :: "rat option"
  bp_maxTokens :: "rat option"
  bp_stepTokens :: "rat option"

definition patchedBudget :: "budget_template \<Rightarrow> budget_patch \<Rightarrow> jrecord" where
  "patchedBudget b p =
     (let patched = (\<lambda>n v. case v of None \<Rightarrow> tokenJson n | Some q \<Rightarrow> JNum q) in
      [(''minTokens'', patched (bt_minTokens b) (bp_minTokens p)), (''maxTokens'', patched (bt_maxTokens b) (bp_maxTokens p)),
       (''stepTokens'', patched (bt_stepTokens b) (bp_stepTokens p)), (''anchorTokens'', JArr (map tokenJson (bt_anchorTokens b)))])"

definition setThinkingCapabilityDeclarationBudgetConfig :: "json option \<Rightarrow> budget_patch \<Rightarrow> normalized_declaration" where
  "setThinkingCapabilityDeclarationBudgetConfig declaration patch =
     (let supported = initializeSupportedThinkingCapabilityDeclaration declaration;
          preset = resolveThinkingSeriesPreset (nd_series supported);
          currentBudget = normalizeBudgetTemplate (budgetAsJson
            (firstGiven (st_budget (nd_template supported)) (st_budget (sp_template preset))));
          nextBudget = normalizeBudgetTemplate (Some (JObj (patchedBudget currentBudget patch)))
      in withTemplate supported
           ((nd_template supported)\<lparr>st_editorType := Some EditorBudget, st_budget := Some nextBudget,
              st_defaultValue := Some (normalizeBudgetDefaultValue (st_defaultValue (nd_template supported)) nextBudget)\<rparr>))"

definition setThinkingCapabilityDeclarationBudgetDefaultMode :: "json option \<Rightarrow> budget_mode \<Rightarrow> normalized_declaration" where
  "setThinkingCapabilityDeclarationBudgetDefaultMode declaration m =
     (let supported = initializeSupportedThinkingCapabilityDeclaration declaration;
          budget = normalizeBudgetTemplate (budgetAsJson (st_budget (nd_template supported)));
          nextDefault = (if m = ModeBudget
            then createBudgetValue ModeBudget (tokensLabel THINKING_BUDGET_DEFAULT_SELECTION_TOKENS)
                   (Some (clampBudgetTokens (of_int THINKING_BUDGET_DEFAULT_SELECTION_TOKENS) budget))
            else budgetModeOnly m)
      in withTemplate supported
           ((nd_template supported)\<lparr>st_editorType := Some EditorBudget, st_budget := Some budget,
              st_defaultValue := Some nextDefault\<rparr>))"

definition setThinkingCapabilityDeclarationBudgetTokens :: "json option \<Rightarrow> rat \<Rightarrow> normalized_declaration" where
  "setThinkingCapabilityDeclarationBudgetTokens declaration budgetTokens =
     (let supported = initializeSupportedThinkingCapabilityDeclaration declaration;
          budget = normalizeBudgetTemplate (budgetAsJson (st_budget (nd_template supported)))
      in withTemplate supported
           ((nd_template supported)\<lparr>st_editorType := Some EditorBudget, st_budget := Some budget,
              st_defaultValue := Some (budgetOfTokens budgetTokens budget)\<rparr>))"

section \<open>The compatibility warning\<close>

text \<open>
  \<open>src/workbench/settings/thinking-compatibility-warning.ts\<close>: a warning when the series of a model is not in the style of its
  provider. Categories of series and styles of providers have the same names.
\<close>

datatype style = StyleOpenai | StyleAnthropic | StyleGemini | StyleDeepseek | StyleQwen | StyleGeneric | StyleUnknown

datatype warning_reason =
    ProviderMissing | ThinkingNotSupported | GenericSeries | MatchingStyle | CrossStyle | UnknownSeries | ProviderStyleUnknown

record warning_result =
  wr_shouldWarn :: bool
  wr_message :: "string option"
  wr_reason :: warning_reason
  wr_seriesCategory :: style
  wr_providerStyle :: style

definition THINKING_COMPATIBILITY_WARNING_MESSAGE :: string where
  "THINKING_COMPATIBILITY_WARNING_MESSAGE = [CHR 0xE2, CHR 0x9A, CHR 0xA0, CHR 0x20, CHR 0xE5, CHR 0xBD, CHR 0x93, CHR 0xE5, CHR 0x89, CHR 0x8D, CHR 0xE6, CHR 0xA8, CHR 0xA1, CHR 0xE5, CHR 0x9E, CHR 0x8B, CHR 0xE5, CHR 0x8F, CHR 0xAF, CHR 0xE8, CHR 0x83, CHR 0xBD, CHR 0xE4, CHR 0xB8, CHR 0x8D, CHR 0xE6, CHR 0x94, CHR 0xAF, CHR 0xE6, CHR 0x8C, CHR 0x81, CHR 0xE6, CHR 0xAD, CHR 0xA4, CHR 0xE7, CHR 0xB1, CHR 0xBB, CHR 0xE6, CHR 0x80, CHR 0x9D, CHR 0xE8, CHR 0x80, CHR 0x83, CHR 0xE6, CHR 0xA8, CHR 0xA1, CHR 0xE5, CHR 0xBC, CHR 0x8F]"

definition normalizeToken :: "string option \<Rightarrow> string" where
  "normalizeToken v = toLowerCase (trim (orElse v []))"

definition normalizeSeriesId :: "string \<Rightarrow> string" where
  "normalizeSeriesId series =
     (let normalized = normalizeToken (Some series) in orElse (map_of SERIES_ID_ALIASES normalized) normalized)"

definition resolveSeriesCategory :: "string \<Rightarrow> style" where
  "resolveSeriesCategory series =
     (let s = normalizeSeriesId series in
      if s = ''unified-4-level-v1'' then StyleGeneric
      else if prefix ''openai-'' s then StyleOpenai
      else if prefix ''anthropic-'' s then StyleAnthropic
      else if prefix ''gemini-'' s then StyleGemini
      else if prefix ''deepseek-'' s then StyleDeepseek
      else if prefix ''qwen-'' s then StyleQwen
      else StyleUnknown)"

definition providerIdStyle :: "string \<Rightarrow> style option" where
  "providerIdStyle providerId =
     (if providerId = ''openai'' then Some StyleOpenai
      else if providerId = ''anthropic'' then Some StyleAnthropic
      else if providerId = ''gemini'' \<or> providerId = ''google'' then Some StyleGemini
      else if providerId = ''deepseek'' then Some StyleDeepseek
      else if providerId = ''qwen'' then Some StyleQwen
      else None)"

definition endpointStyle :: "string \<Rightarrow> style" where
  "endpointStyle endpointType =
     (if endpointType = ''openai-compatible'' then StyleOpenai
      else if endpointType = ''anthropic-native'' then StyleAnthropic
      else if endpointType = ''gemini-native'' then StyleGemini
      else if endpointType = ''ollama-native'' then StyleGeneric
      else StyleUnknown)"

definition resolveProviderStyle :: "provider_catalog \<Rightarrow> provider_profile option \<Rightarrow> style" where
  "resolveProviderStyle catalog profile =
     (let providerId = normalizeToken (case profile of None \<Rightarrow> None | Some p \<Rightarrow> Some (orElse (pf_providerId p) (pf_protocol p))) in
      case providerIdStyle providerId of
        Some s \<Rightarrow> s
      | None \<Rightarrow>
          endpointStyle (normalizeToken (if providerId = [] then Some []
            else Some (case getProviderCatalogEntry catalog providerId of None \<Rightarrow> [] | Some e \<Rightarrow> ce_endpointType e))))"

definition createNoWarningResult :: "warning_reason \<Rightarrow> style \<Rightarrow> style \<Rightarrow> warning_result" where
  "createNoWarningResult reason seriesCategory providerStyle =
     \<lparr>wr_shouldWarn = False, wr_message = None, wr_reason = reason, wr_seriesCategory = seriesCategory,
      wr_providerStyle = providerStyle\<rparr>"

definition createWarningResult :: "warning_reason \<Rightarrow> style \<Rightarrow> style \<Rightarrow> warning_result" where
  "createWarningResult reason seriesCategory providerStyle =
     \<lparr>wr_shouldWarn = True, wr_message = Some THINKING_COMPATIBILITY_WARNING_MESSAGE, wr_reason = reason,
      wr_seriesCategory = seriesCategory, wr_providerStyle = providerStyle\<rparr>"

definition resolveThinkingCompatibilityWarning :: "provider_catalog \<Rightarrow> provider_profile option \<Rightarrow> json option \<Rightarrow> warning_result" where
  "resolveThinkingCompatibilityWarning catalog profile declaration =
     (let providerStyle = resolveProviderStyle catalog profile in
      if profile = None then createNoWarningResult ProviderMissing StyleUnknown providerStyle
      else if \<not> declaredSupported declaration then createNoWarningResult ThinkingNotSupported StyleUnknown providerStyle
      else
        (let seriesCategory = resolveSeriesCategory (nd_series (initializeSupportedThinkingCapabilityDeclaration declaration)) in
         if seriesCategory = StyleGeneric then createNoWarningResult GenericSeries seriesCategory providerStyle
         else if seriesCategory = StyleUnknown then createWarningResult UnknownSeries seriesCategory providerStyle
         else if seriesCategory = providerStyle then createNoWarningResult MatchingStyle seriesCategory providerStyle
         else if providerStyle = StyleUnknown \<or> providerStyle = StyleGeneric
           then createWarningResult ProviderStyleUnknown seriesCategory providerStyle
         else createWarningResult CrossStyle seriesCategory providerStyle))"

end
