(* ===== verification/Thinking_Laws.thy ===== *)
theory Thinking_Laws
  imports Thinking_Capabilities
begin

text \<open>
  The laws of the thinking capability declarations: what a normalised declaration looks like, that the normalisation is stable on
  what it returns, whatever edits were made in between, and what the older form of a declaration keeps.
\<close>

section \<open>Reading back what was written\<close>

lemma map_filter_back: "(\<And>x. x \<in> set xs \<Longrightarrow> f (g x) = Some x) \<Longrightarrow> List.map_filter f (map g xs) = xs"
  by (induction xs) (simp_all add: List.map_filter_simps)

lemma map_filter_in: "y \<in> set (List.map_filter f xs) \<longleftrightarrow> (\<exists>x \<in> set xs. f x = Some y)"
  by (induction xs) (auto simp: List.map_filter_simps split: option.splits)

lemma cloneSeriesValue [simp]: "cloneThinkingSeriesValue v = v"
  by (cases v rule: cloneThinkingSeriesValue.cases) (simp_all add: createCodeValue_def createBudgetValue_def createFixedValue_def)

lemma map_filter_Some [simp]: "List.map_filter Some xs = xs"
  by (induction xs) (simp_all add: List.map_filter_simps)

lemma cloneSeriesValues [simp]: "cloneThinkingSeriesValues vs = vs"
  by (cases vs) (simp_all add: cloneThinkingSeriesValues_def)

lemma cloneSeriesTemplate [simp]: "cloneThinkingSeriesTemplate t = t"
  by (cases "st_budget t") (simp_all add: cloneThinkingSeriesTemplate_def)

lemma nonNegative_tokenJson [simp]: "normalizeNonNegativeInteger (Some (tokenJson n)) = (if 0 \<le> n then Some n else None)"
  by (simp add: tokenJson_def)

lemma nonNegative_ge: "normalizeNonNegativeInteger v = Some n \<Longrightarrow> 0 \<le> n"
  by (cases v rule: normalizeNonNegativeInteger.cases) (auto split: if_splits)

lemma optionalString_trimmed: "normalizeOptionalStringT v = Some s \<Longrightarrow> trimmed s"
  by (cases v rule: normalizeOptionalStringT.cases) (auto simp: trimmed_trim split: if_splits)

lemma optionalString_back [simp]: "trimmed s \<Longrightarrow> normalizeOptionalStringT (Some (JStr s)) = Some s"
  by (simp add: trimmed_def)

lemma budgetMode_back [simp]: "normalizeBudgetMode (Some (JStr (budgetModeText m))) = Some m"
  by (cases m) (simp_all add: parseBudgetMode_def)

lemma budgetMode_literals [simp]:
  "parseBudgetMode ''off'' = Some ModeOff" "parseBudgetMode ''dynamic'' = Some ModeDynamic" "parseBudgetMode ''budget'' = Some ModeBudget"
  by (simp_all add: parseBudgetMode_def)

lemma budgetMode_text [simp]: "parseBudgetMode (budgetModeText m) = Some m"
  by (cases m) simp_all

lemma template_props [simp]:
  "prop_of (serializeThinkingSeriesTemplate t) ''editorType'' = map_option (\<lambda>e. JStr (editorTypeString e)) (st_editorType t)"
  "prop_of (serializeThinkingSeriesTemplate t) ''defaultValue'' = Some (serializeThinkingSeriesValue (st_defaultValue t))"
  "prop_of (serializeThinkingSeriesTemplate t) ''allowedValues'' =
     map_option (\<lambda>vs. JArr (map (\<lambda>v. serializeThinkingSeriesValue (Some v)) vs)) (st_allowedValues t)"
  "prop_of (serializeThinkingSeriesTemplate t) ''budget'' = budgetAsJson (st_budget t)"
  by (simp_all add: serializeThinkingSeriesTemplate_def prop_of_append budgetAsJson_def split: option.splits)

lemma editorType_back [simp]: "normalizeThinkingSeriesEditorType (Some (JStr (editorTypeString e))) = Some e"
  by (simp add: editor_lit.rd_wr)

lemma editor_text [simp]: "parseEditorType (editorTypeString e) = Some e"
  by (simp add: editor_lit.rd_wr)

lemma editor_literals [simp]:
  "parseEditorType ''budget'' = Some EditorBudget" "parseEditorType ''fixed'' = Some EditorFixed"
  "parseEditorType ''discrete'' = Some EditorDiscrete"
  by (simp_all add: parseEditorType_def)

lemma orElse_given [simp]: "orElse None d = d" "orElse (Some x) d = x"
  by (simp_all add: orElse_def)

section \<open>Series and codes\<close>

lemma series_idem [simp]: "normalizeThinkingCapabilitySeries (normalizeThinkingCapabilitySeries s) = normalizeThinkingCapabilitySeries s"
  by (simp add: normalizeThinkingCapabilitySeries_def SERIES_ID_ALIASES_def UNIFIED_4_LEVEL_SERIES_ID_def)

definition seriesId :: "string \<Rightarrow> bool" where
  "seriesId s \<longleftrightarrow> normalizeThinkingCapabilitySeries s = s \<and> trimmed s"

lemma series_trimmed: "trimmed s \<Longrightarrow> seriesId (normalizeThinkingCapabilitySeries s)"
  by (simp add: seriesId_def normalizeThinkingCapabilitySeries_def SERIES_ID_ALIASES_def UNIFIED_4_LEVEL_SERIES_ID_def
      trimmed_ascii visible_def)

lemma identifier_idem [simp]: "normalizeIdentifier (normalizeIdentifier s) = normalizeIdentifier s"
  by (simp add: normalizeIdentifier_def trim_toLowerCase)

lemma seriesCode_idem [simp]: "normalizeSeriesCode s (normalizeSeriesCode s c) = normalizeSeriesCode s c"
proof -
  have "normalizeIdentifier ''none'' = ''none''"
    using trimmed_ascii [of "''none''"] by (simp add: normalizeIdentifier_def trimmed_def visible_def toLowerCase_def lowerAscii_def)
  then show ?thesis by (auto simp: normalizeSeriesCode_def Let_def)
qed

lemma seriesCode_trimmed: "trimmed c \<Longrightarrow> trimmed (normalizeSeriesCode s c)"
proof -
  assume "trimmed c"
  then have "trimmed (normalizeIdentifier c)"
    by (simp add: normalizeIdentifier_def trimmed_def trim_toLowerCase)
  then show ?thesis by (simp add: normalizeSeriesCode_def Let_def trimmed_ascii visible_def)
qed

text \<open>A code value in normal form: reading it back changes nothing.\<close>

fun normalCode :: "string \<Rightarrow> thinking_value \<Rightarrow> bool" where
  "normalCode s (CodeValue c l) \<longleftrightarrow> trimmed c \<and> trimmed l \<and> normalizedCodeValue s c l = CodeValue c l"
| "normalCode s (BudgetValue m n l) \<longleftrightarrow> False"
| "normalCode s (FixedValue l) \<longleftrightarrow> False"

lemma unified_labels: "map_of UNIFIED_4_LEVEL_CODE_LABELS c = Some l \<Longrightarrow> trimmed l"
  by (auto simp: UNIFIED_4_LEVEL_CODE_LABELS_def labelNone_def labelLow_def labelMedium_def labelHigh_def trimmed_def
      trim_def trimStart_def trimEnd_def isWs1_def isWs2_def isWs3_def split: if_splits)

lemma normalizedCodeValue_normal:
  "trimmed c \<Longrightarrow> trimmed l \<Longrightarrow> normalCode s (normalizedCodeValue s c l)"
  by (auto simp: normalizedCodeValue_def Let_def createCodeValue_def seriesCode_trimmed unified_labels split: option.splits)

lemma normalizeCodeValue_cases:
  "normalizeCodeValue v = Some w \<Longrightarrow> \<exists>c l. w = CodeValue c l \<and> trimmed c \<and> trimmed l"
  by (auto simp: normalizeCodeValue_def createCodeValue_def dest: optionalString_trimmed split: option.splits if_splits)

lemma code_read:
  "normalizeCodeValueForSeries s (normalizeCodeValue v) = Some w \<Longrightarrow> normalCode s w"
  by (cases "normalizeCodeValue v") (auto dest!: normalizeCodeValue_cases simp: normalizedCodeValue_normal)

lemma code_back:
  assumes "normalCode s w"
  shows "normalizeCodeValue (Some (serializeThinkingSeriesValue (Some w))) = Some w"
    and "normalizeCodeValueForSeries s (Some w) = Some w"
proof -
  obtain c l where w: "w = CodeValue c l" using assms by (cases w) auto
  then have *: "trimmed c" "trimmed l" "normalizedCodeValue s c l = CodeValue c l" using assms by auto
  show "normalizeCodeValue (Some (serializeThinkingSeriesValue (Some w))) = Some w"
    using *(1,2) by (simp add: w normalizeCodeValue_def createCodeValue_def del: normalizeOptionalStringT.simps)
  show "normalizeCodeValueForSeries s (Some w) = Some w"
    using *(3) by (simp add: w)
qed

lemma normalCode_code: "normalCode s w \<Longrightarrow> isCode w \<and> codeOf w \<noteq> None"
  by (cases w) simp_all

section \<open>Budgets\<close>

definition budgetOk :: "budget_template \<Rightarrow> bool" where
  "budgetOk b \<longleftrightarrow> 0 \<le> bt_minTokens b \<and> bt_minTokens b \<le> bt_maxTokens b \<and> 0 < bt_stepTokens b \<and>
     bt_anchorTokens b = THINKING_BUDGET_FIXED_ANCHOR_TOKENS"

lemma budget_template_ok: "budgetOk (normalizeBudgetTemplate v)"
  by (simp add: budgetOk_def normalizeBudgetTemplate_def Let_def buildThinkingBudgetTemplate_def orElse_def nonNegative_ge
      normalizeThinkingBudgetAnchorTokens_def THINKING_BUDGET_DEFAULT_MIN_TOKENS_def THINKING_BUDGET_DEFAULT_STEP_TOKENS_def
      split: option.splits)

lemma budget_back: "budgetOk b \<Longrightarrow> normalizeBudgetTemplate (budgetAsJson (Some b)) = b"
  by (cases b) (simp add: budgetOk_def normalizeBudgetTemplate_def Let_def buildThinkingBudgetTemplate_def budgetAsJson_def
      budgetRecord_def normalizeThinkingBudgetAnchorTokens_def)

text \<open>The number of steps from the lower end that the code rounds to.\<close>

definition snapTo :: "budget_template \<Rightarrow> int \<Rightarrow> int" where
  "snapTo b u = bt_minTokens b + jsRound (of_int (u - bt_minTokens b) / of_int (bt_stepTokens b)) * bt_stepTokens b"

lemma snapTo_mono: "0 < bt_stepTokens b \<Longrightarrow> u \<le> w \<Longrightarrow> snapTo b u \<le> snapTo b w"
  by (simp add: snapTo_def jsRound_mono divide_right_mono mult_right_mono)

lemma snapTo_min [simp]: "snapTo b (bt_minTokens b) = bt_minTokens b"
  using jsRound_of_int [of 0] by (simp add: snapTo_def)

lemma snapTo_idem: "0 < bt_stepTokens b \<Longrightarrow> snapTo b (snapTo b u) = snapTo b u"
  by (simp add: snapTo_def)

lemma clamp_snap:
  assumes "budgetOk b"
  shows "clampBudgetTokens v b = min (bt_maxTokens b) (snapTo b (min (bt_maxTokens b) (max (bt_minTokens b) (jsTrunc v))))"
proof -
  let ?u = "min (bt_maxTokens b) (max (bt_minTokens b) (jsTrunc v))"
  have "bt_minTokens b \<le> ?u" using assms by (simp add: budgetOk_def)
  then have "bt_minTokens b \<le> snapTo b ?u"
    using snapTo_mono [of b "bt_minTokens b" ?u] assms by (simp add: budgetOk_def)
  then show ?thesis
    using assms by (simp add: clampBudgetTokens_def Let_def budgetOk_def snapTo_def)
qed

lemma clamp_bounds:
  assumes "budgetOk b"
  shows "bt_minTokens b \<le> clampBudgetTokens v b" and "clampBudgetTokens v b \<le> bt_maxTokens b"
  using assms by (auto simp: clampBudgetTokens_def Let_def budgetOk_def)

lemma clamp_idem:
  assumes ok: "budgetOk b"
  shows "clampBudgetTokens (of_int (clampBudgetTokens v b)) b = clampBudgetTokens v b"
proof -
  let ?u = "min (bt_maxTokens b) (max (bt_minTokens b) (jsTrunc v))"
  let ?r = "clampBudgetTokens v b"
  have r: "?r = min (bt_maxTokens b) (snapTo b ?u)" and step: "0 < bt_stepTokens b"
    using ok by (simp_all add: clamp_snap budgetOk_def)
  have "min (bt_maxTokens b) (max (bt_minTokens b) ?r) = ?r"
    using clamp_bounds [OF ok, of v] by simp
  then have "clampBudgetTokens (of_int ?r) b = min (bt_maxTokens b) (snapTo b ?r)"
    using clamp_snap [OF ok, of "of_int ?r"] by simp
  also have "\<dots> = ?r"
  proof (cases "snapTo b ?u \<le> bt_maxTokens b")
    case True
    then show ?thesis using r snapTo_idem [OF step, of ?u] by simp
  next
    case False
    have "snapTo b ?u \<le> snapTo b (bt_maxTokens b)" by (rule snapTo_mono [OF step]) simp
    then show ?thesis using r False by simp
  qed
  finally show ?thesis .
qed

section \<open>Templates in normal form\<close>

fun normalBudget :: "thinking_value \<Rightarrow> bool" where
  "normalBudget (BudgetValue m n l) \<longleftrightarrow> trimmed l \<and> (if m = ModeBudget then (\<exists>k. n = Some k \<and> 0 \<le> k) else n = None)"
| "normalBudget (CodeValue c l) \<longleftrightarrow> False"
| "normalBudget (FixedValue l) \<longleftrightarrow> False"

fun settledBudget :: "budget_template \<Rightarrow> thinking_value \<Rightarrow> bool" where
  "settledBudget b (BudgetValue m n l) \<longleftrightarrow>
     (if m = ModeBudget then (\<exists>k. n = Some k \<and> l = tokensLabel k \<and> 0 \<le> k \<and> clampBudgetTokens (of_int k) b = k)
      else BudgetValue m n l = budgetModeOnly m)"
| "settledBudget b (CodeValue c l) \<longleftrightarrow> False"
| "settledBudget b (FixedValue l) \<longleftrightarrow> False"

lemma budgetMode_value: "normalBudget v \<Longrightarrow> normalizeBudgetModeValue (Some (serializeThinkingSeriesValue (Some v))) = Some v"
  by (cases v) (auto simp: normalizeBudgetModeValue_def createBudgetValue_def simp del: normalizeOptionalStringT.simps split: if_splits)

lemma budgetMode_read: "normalizeBudgetModeValue v = Some w \<Longrightarrow> normalBudget w"
  by (auto simp: normalizeBudgetModeValue_def createBudgetValue_def dest: optionalString_trimmed nonNegative_ge
      split: option.splits if_splits)

lemma budgetOfTokens_settled: "budgetOk b \<Longrightarrow> settledBudget b (budgetOfTokens v b)"
  using clamp_bounds [of b v] by (auto simp: budgetOfTokens_def Let_def createBudgetValue_def clamp_idem budgetOk_def)

lemma modeOnly_settled [simp]: "m \<noteq> ModeBudget \<Longrightarrow> settledBudget b (budgetModeOnly m)"
  by (cases m) (simp_all add: budgetModeOnly_def createBudgetValue_def)

lemma internal_settled:
  "normalizeBudgetTemplateDefaultValueInternal v b = Some w \<Longrightarrow> budgetOk b \<Longrightarrow> settledBudget b w"
  by (auto simp: normalizeBudgetTemplateDefaultValueInternal_def budgetDefaultFor_def budgetOfTokens_settled
      split: option.splits if_splits budget_mode.splits)

lemma internal_mode:
  "m \<noteq> ModeBudget \<Longrightarrow>
     normalizeBudgetTemplateDefaultValueInternal (Some (serializeThinkingSeriesValue (Some (BudgetValue m n l)))) b = Some (budgetModeOnly m)"
  by (cases m) (simp_all add: normalizeBudgetTemplateDefaultValueInternal_def budgetDefaultFor_def)

lemma internal_back:
  assumes "settledBudget b v"
  shows "normalizeBudgetTemplateDefaultValueInternal (Some (serializeThinkingSeriesValue (Some v))) b = Some v"
proof -
  obtain m n l where v: "v = BudgetValue m n l" using assms by (cases v) auto
  show ?thesis
  proof (cases "m = ModeBudget")
    case True
    then show ?thesis
      using assms by (auto simp: v normalizeBudgetTemplateDefaultValueInternal_def budgetDefaultFor_def budgetOfTokens_def
          createBudgetValue_def)
  next
    case False
    then show ?thesis using assms internal_mode [OF False, of n l b] by (simp add: v)
  qed
qed

text \<open>What is known of the presets.\<close>

definition plainBudget :: "thinking_value \<Rightarrow> bool" where
  "plainBudget v \<longleftrightarrow> normalBudget v \<and> (\<forall>m \<in> set [ModeOff, ModeDynamic]. hasBudgetMode m v \<longrightarrow> v = budgetModeOnly m)"

fun trimmedCode :: "thinking_value \<Rightarrow> bool" where
  "trimmedCode (CodeValue c l) \<longleftrightarrow> trimmed c \<and> trimmed l"
| "trimmedCode (BudgetValue m n l) \<longleftrightarrow> False"
| "trimmedCode (FixedValue l) \<longleftrightarrow> False"

definition presetOk :: "series_preset \<Rightarrow> bool" where
  "presetOk p \<longleftrightarrow> st_editorType (sp_template p) = Some (sp_editorType p) \<and>
     (case (sp_editorType p, st_allowedValues (sp_template p), st_defaultValue (sp_template p)) of
        (EditorBudget, Some vs, Some d) \<Rightarrow>
          vs \<noteq> [] \<and> list_all plainBudget vs \<and> d \<in> set vs \<and>
          (case st_budget (sp_template p) of Some b \<Rightarrow> budgetOk b | None \<Rightarrow> False)
      | (EditorFixed, Some vs, Some d) \<Rightarrow> vs = [d] \<and> d = FixedValue labelFixedReasoning
      | (EditorDiscrete, Some vs, Some d) \<Rightarrow> vs \<noteq> [] \<and> list_all trimmedCode vs \<and> list_ex (\<lambda>v. v = d) vs \<and> st_budget (sp_template p) = None
      | _ \<Rightarrow> False)"

lemmas preset_values = discretePreset_def budgetPreset_def codeNone_def codeMinimal_def codeLow_def codeMedium_def codeHigh_def
  createCodeValue_def createBudgetValue_def createFixedValue_def createBudgetTemplate_def

lemmas preset_labels = labelNone_def labelMinimal_def labelLow_def labelMedium_def labelHigh_def labelXhigh_def labelClosed_def
  labelOpened_def labelMaximum_def labelDynamic_def labelFixedReasoning_def

text \<open>The UTF-8 bytes of a Chinese label neither start nor end with white space.\<close>

lemma labels_trimmed [simp]:
  "trimmed labelNone" "trimmed labelMinimal" "trimmed labelLow" "trimmed labelMedium" "trimmed labelHigh" "trimmed labelXhigh"
  "trimmed labelClosed" "trimmed labelOpened" "trimmed labelMaximum" "trimmed labelDynamic" "trimmed labelFixedReasoning"
  by (simp_all add: preset_labels trimmed_def trim_def trimStart_def trimEnd_def isWs1_def isWs2_def isWs3_def)

lemma codes_trimmed [simp]:
  "trimmed ''none''" "trimmed ''minimal''" "trimmed ''low''" "trimmed ''medium''" "trimmed ''high''" "trimmed ''xhigh''"
  "trimmed ''false''" "trimmed ''true''" "trimmed ''disabled''" "trimmed ''max''"
  by (simp_all add: trimmed_ascii visible_def)

lemma presets_ok: "list_all presetOk THINKING_SERIES_PRESETS"
  by (simp add: THINKING_SERIES_PRESETS_def preset_values presetOk_def plainBudget_def budgetModeOnly_def budgetOk_def
      buildThinkingBudgetTemplate_def normalizeThinkingBudgetAnchorTokens_def budget_defs)

lemma preset_found: "presetOk (resolveThinkingSeriesPreset s)"
proof -
  have "presetById i = Some p \<Longrightarrow> presetOk p" for i p
    using presets_ok by (auto simp: presetById_def find_Some_iff list_all_length)
  moreover have "presetById DEFAULT_SERIES_ID \<noteq> None"
    by (simp add: presetById_def THINKING_SERIES_PRESETS_def preset_values DEFAULT_SERIES_ID_def)
  ultimately show ?thesis
    by (auto simp: resolveThinkingSeriesPreset_def split: option.splits)
qed

section \<open>Lists of values\<close>

lemma firstOfCode_sub: "v \<in> set (firstOfCode seen vs) \<Longrightarrow> v \<in> set vs"
  by (induction seen vs rule: firstOfCode.induct) (auto split: if_splits)

lemma firstOfCode_seen: "v \<in> set (firstOfCode seen vs) \<Longrightarrow> codeOf v = Some c \<Longrightarrow> c \<notin> set seen"
  by (induction seen vs rule: firstOfCode.induct) (auto split: if_splits)

lemma firstOfCode_distinct: "distinct (map codeOf (firstOfCode seen vs))"
  by (induction seen vs rule: firstOfCode.induct) (auto dest: firstOfCode_seen [OF _ sym])

lemma firstOfCode_id:
  "list_all isCode vs \<Longrightarrow> distinct (map codeOf vs) \<Longrightarrow> (\<forall>c \<in> set seen. Some c \<notin> set (map codeOf vs)) \<Longrightarrow> firstOfCode seen vs = vs"
proof (induction seen vs rule: firstOfCode.induct)
  case (2 seen code labelZh vs)
  have "firstOfCode (code # seen) vs = vs"
    using 2(3-5) by (intro 2(2)) (auto simp: 2(3-5))
  then show ?case using 2(5) by auto
qed auto

text \<open>Values in the order and with the codes that the series wants.\<close>

definition normalCodes :: "string \<Rightarrow> thinking_value list \<Rightarrow> bool" where
  "normalCodes s vs \<longleftrightarrow> list_all (normalCode s) vs \<and> (s = UNIFIED_4_LEVEL_SERIES_ID \<longrightarrow> distinct (map codeOf vs))"

lemma normalCodes_isCode: "normalCodes s vs \<Longrightarrow> list_all isCode vs"
  using normalCode_code by (auto simp: normalCodes_def list_all_iff)

lemma discrete_normal:
  assumes s: "seriesId s" and vs: "list_all trimmedCode vs"
  shows "normalCodes s (normalizeDiscreteSeriesValues s vs)"
proof -
  let ?n = "List.map_filter (\<lambda>v. normalizeCodeValueForSeries s (Some v)) vs"
  have "normalCode s w" if "v \<in> set vs" "normalizeCodeValueForSeries s (Some v) = Some w" for v w
  proof -
    have "trimmedCode v" using that(1) vs by (simp add: list_all_iff)
    then show ?thesis using that(2) normalizedCodeValue_normal by (cases v) auto
  qed
  then have n: "list_all (normalCode s) ?n"
    by (auto simp: list_all_iff map_filter_in)
  then have "list_all (normalCode s) (firstOfCode [] ?n)"
    using firstOfCode_sub by (fastforce simp: list_all_iff)
  then show ?thesis
    using n s by (cases "s = UNIFIED_4_LEVEL_SERIES_ID")
      (simp_all add: normalCodes_def normalizeDiscreteSeriesValues_def Let_def seriesId_def firstOfCode_distinct)
qed

lemma discrete_back:
  assumes s: "seriesId s" and vs: "normalCodes s vs"
  shows "normalizeDiscreteSeriesValues s vs = vs"
proof -
  have "List.map_filter (\<lambda>v. normalizeCodeValueForSeries s (Some v)) (map id vs) = vs"
    using vs by (intro map_filter_back) (simp add: normalCodes_def list_all_iff code_back)
  then have "List.map_filter (\<lambda>v. normalizeCodeValueForSeries s (Some v)) vs = vs" by simp
  moreover have "firstOfCode [] vs = vs" if "s = UNIFIED_4_LEVEL_SERIES_ID"
    using vs that normalCodes_isCode [OF vs] by (intro firstOfCode_id) (auto simp: normalCodes_def)
  ultimately show ?thesis using s by (simp add: normalizeDiscreteSeriesValues_def Let_def seriesId_def)
qed

text \<open>The values that a series falls back to.\<close>

definition presetCodes :: "series_preset \<Rightarrow> string \<Rightarrow> thinking_value list" where
  "presetCodes p s = normalizeDiscreteSeriesValues s (getDiscreteCodeValues (st_allowedValues (sp_template p)) None)"

lemma getCodes_trimmed:
  assumes "presetOk p"
  shows "list_all trimmedCode (getDiscreteCodeValues (st_allowedValues (sp_template p)) None)"
proof -
  have "trimmedCode v" if "isCode v" "v \<in> set vs" "st_allowedValues (sp_template p) = Some vs" for v vs
  proof (cases v)
    case (CodeValue c l)
    show ?thesis
    proof (cases "sp_editorType p")
      case EditorBudget
      then have "normalBudget v" using that assms by (auto simp: presetOk_def plainBudget_def list_all_iff split: option.splits)
      then show ?thesis by (simp add: CodeValue)
    qed (use that assms in \<open>auto simp: presetOk_def list_all_iff CodeValue split: option.splits\<close>)
  qed (use that in simp_all)
  then show ?thesis by (auto simp: getDiscreteCodeValues_def Let_def list_all_iff split: option.splits)
qed

lemma presetCodes_normal: "presetOk p \<Longrightarrow> seriesId s \<Longrightarrow> normalCodes s (presetCodes p s)"
  by (simp add: presetCodes_def discrete_normal getCodes_trimmed)

definition allowedCodes :: "series_preset \<Rightarrow> string \<Rightarrow> thinking_value list \<Rightarrow> bool" where
  "allowedCodes p s vs \<longleftrightarrow> normalCodes s vs \<and> (vs = [] \<longrightarrow> presetCodes p s = [])"

lemma allowedCodes_read:
  assumes p: "presetOk p" and s: "seriesId s"
  shows "allowedCodes p s (normalizeDiscreteAllowedValues v (st_allowedValues (sp_template p)) s)"
proof -
  have "list_all trimmedCode (List.map_filter (\<lambda>x. normalizeCodeValue (Some x)) xs)" for xs
    by (auto simp: list_all_iff map_filter_in dest!: normalizeCodeValue_cases)
  then show ?thesis
    using presetCodes_normal [OF p s] discrete_normal [OF s]
    by (auto simp: allowedCodes_def normalizeDiscreteAllowedValues_def Let_def presetCodes_def [symmetric] split: option.splits json.splits)
qed

lemma allowedCodes_back:
  assumes s: "seriesId s" and vs: "allowedCodes p s vs"
  shows "normalizeDiscreteAllowedValues (Some (JArr (map (\<lambda>v. serializeThinkingSeriesValue (Some v)) vs)))
           (st_allowedValues (sp_template p)) s = vs"
proof -
  have "List.map_filter (\<lambda>x. normalizeCodeValue (Some x)) (map (\<lambda>v. serializeThinkingSeriesValue (Some v)) vs) = vs"
    using vs by (intro map_filter_back) (auto simp: allowedCodes_def normalCodes_def list_all_iff dest: code_back(1))
  then show ?thesis
    using vs discrete_back [OF s, of vs]
    by (simp add: allowedCodes_def normalizeDiscreteAllowedValues_def Let_def presetCodes_def [symmetric])
qed

definition allowedBudget :: "series_preset \<Rightarrow> thinking_value list \<Rightarrow> bool" where
  "allowedBudget p vs \<longleftrightarrow> vs \<noteq> [] \<and> list_all normalBudget vs \<or> Some vs = st_allowedValues (sp_template p)"

lemma budgetValues_back:
  "list_all normalBudget vs \<Longrightarrow>
     List.map_filter (\<lambda>x. normalizeBudgetModeValue (Some x)) (map (\<lambda>v. serializeThinkingSeriesValue (Some v)) vs) = vs"
  by (intro map_filter_back) (simp add: list_all_iff budgetMode_value)

lemma budgetValues_none:
  "list_all (\<lambda>v. isCode v \<or> isFixedValue v) vs \<Longrightarrow>
     List.map_filter (\<lambda>x. normalizeBudgetModeValue (Some x)) (map (\<lambda>v. serializeThinkingSeriesValue (Some v)) vs) = []"
proof (induction vs)
  case (Cons v vs)
  have "normalizeBudgetModeValue (Some (serializeThinkingSeriesValue (Some v))) = None"
    using Cons.prems by (cases v) (simp_all add: normalizeBudgetModeValue_def)
  then show ?case using Cons by (simp add: List.map_filter_simps)
qed (simp add: List.map_filter_simps)

lemma preset_allowed:
  assumes "presetOk p"
  obtains vs where "st_allowedValues (sp_template p) = Some vs" and "vs \<noteq> []"
    and "list_all plainBudget vs \<or> list_all (\<lambda>v. isCode v \<or> isFixedValue v) vs"
proof -
  obtain vs d where vs: "st_allowedValues (sp_template p) = Some vs" "st_defaultValue (sp_template p) = Some d"
    using assms by (auto simp: presetOk_def split: editor_type.splits option.splits)
  have code: "trimmedCode v \<Longrightarrow> isCode v" for v by (cases v) simp_all
  show ?thesis
    using assms code by (intro that [OF vs(1)]) (cases "sp_editorType p"; auto simp: presetOk_def vs list_all_iff)+
qed

lemma allowedBudget_read:
  "presetOk p \<Longrightarrow> allowedBudget p (normalizeBudgetAllowedValues v (st_allowedValues (sp_template p)))"
  using budgetMode_read
  by (auto simp: allowedBudget_def normalizeBudgetAllowedValues_def Let_def list_all_iff map_filter_in
      elim!: preset_allowed split: option.splits json.splits)

lemma allowedBudget_back:
  assumes p: "presetOk p" and vs: "allowedBudget p vs"
  shows "normalizeBudgetAllowedValues (Some (JArr (map (\<lambda>v. serializeThinkingSeriesValue (Some v)) vs)))
           (st_allowedValues (sp_template p)) = vs"
proof -
  obtain ws where ws: "st_allowedValues (sp_template p) = Some ws" "ws \<noteq> []"
    "list_all plainBudget ws \<or> list_all (\<lambda>v. isCode v \<or> isFixedValue v) ws"
    using p by (rule preset_allowed)
  have "vs \<noteq> [] \<and> list_all normalBudget vs \<or> vs = ws \<and> list_all (\<lambda>v. isCode v \<or> isFixedValue v) vs"
    using vs ws by (auto simp: allowedBudget_def list_all_iff plainBudget_def)
  then show ?thesis
    using ws(1) by (elim disjE conjE) (simp_all add: normalizeBudgetAllowedValues_def budgetValues_back budgetValues_none)
qed

section \<open>Templates\<close>

definition defaultCode :: "string \<Rightarrow> thinking_value list \<Rightarrow> thinking_value \<Rightarrow> bool" where
  "defaultCode s vs d \<longleftrightarrow> normalCode s d \<and> list_ex (sameCode d) vs \<or> vs = [] \<and> d = createCodeValue ''medium'' labelMedium"

lemma sameCode_refl: "normalCode s v \<Longrightarrow> sameCode v v"
  by (cases v) (simp_all add: sameCode_def)

lemma defaultCode_read:
  assumes "normalCodes s vs"
  shows "defaultCode s vs (normalizeDiscreteDefaultValue v vs s)"
proof -
  have "defaultCode s vs (orElse (headOption vs) (createCodeValue ''medium'' labelMedium))"
    using assms by (cases vs) (auto simp: defaultCode_def headOption_def normalCodes_def sameCode_refl)
  then show ?thesis
    by (auto simp: normalizeDiscreteDefaultValue_def Let_def defaultCode_def code_read split: option.splits)
qed

lemma defaultCode_back:
  assumes "defaultCode s vs d"
  shows "normalizeDiscreteDefaultValue (Some (serializeThinkingSeriesValue (Some d))) vs s = d"
  using assms by (auto simp: defaultCode_def normalizeDiscreteDefaultValue_def Let_def code_back headOption_def split: option.splits)

text \<open>
  A settled template is one that the normalisation returns unchanged. In a template that is almost settled, the label of a default
  without tokens may still be a custom one, which the next normalisation replaces.
\<close>

definition template :: "editor_type \<Rightarrow> thinking_value \<Rightarrow> thinking_value list \<Rightarrow> budget_template option \<Rightarrow> series_template" where
  "template e d vs b = \<lparr>st_editorType = Some e, st_defaultValue = Some d, st_allowedValues = Some vs, st_budget = b\<rparr>"

inductive settledTemplate :: "series_preset \<Rightarrow> string \<Rightarrow> series_template \<Rightarrow> bool" for p s where
  settled_budget: "budgetOk b \<Longrightarrow> allowedBudget p vs \<Longrightarrow> settledBudget b d \<Longrightarrow> settledTemplate p s (template EditorBudget d vs (Some b))"
| settled_fixed: "trimmed l \<Longrightarrow> settledTemplate p s (template EditorFixed (FixedValue l) [FixedValue l] None)"
| settled_discrete: "allowedCodes p s vs \<Longrightarrow> defaultCode s vs d \<Longrightarrow> settledTemplate p s (template EditorDiscrete d vs None)"

inductive nearlySettled :: "series_preset \<Rightarrow> string \<Rightarrow> series_template \<Rightarrow> bool" for p s where
  nearly: "settledTemplate p s t \<Longrightarrow> nearlySettled p s t"
| custom_label: "budgetOk b \<Longrightarrow> allowedBudget p vs \<Longrightarrow> m \<noteq> ModeBudget \<Longrightarrow> nearlySettled p s (template EditorBudget (BudgetValue m n l) vs (Some b))"

lemma fixed_read: "presetOk p \<Longrightarrow> \<exists>l. fixedOf v p = FixedValue l \<and> trimmed l"
proof -
  have *: "normalizeFixedValue w = Some f \<Longrightarrow> \<exists>l. f = FixedValue l \<and> trimmed l" for w f
    by (auto simp: normalizeFixedValue_def createFixedValue_def dest: optionalString_trimmed split: option.splits if_splits)
  show ?thesis
    by (cases "normalizeFixedValue v"; cases "normalizeFixedValue (Some (serializeThinkingSeriesValue (st_defaultValue (sp_template p))))")
      (auto simp: fixedOf_def createFixedValue_def dest: *)
qed

lemma fixed_back: "trimmed l \<Longrightarrow> fixedOf (Some (serializeThinkingSeriesValue (Some (FixedValue l)))) p = FixedValue l"
  by (simp add: fixedOf_def normalizeFixedValue_def createFixedValue_def del: normalizeOptionalStringT.simps)

lemma budget_given: "budgetOk b \<Longrightarrow> normalizeBudgetTemplate (nullishOr (budgetAsJson (Some b)) w) = b"
  using budget_back [of b] by (simp add: nullishOr_def budgetAsJson_def)

lemma settled_back:
  assumes "settledTemplate p s t" and p: "presetOk p" and s: "seriesId s"
  shows "normalizeThinkingSeriesTemplate (Some (templateJson t)) p s = t"
  using assms(1)
proof cases
  case (settled_budget b vs d)
  then show ?thesis
    using p by (simp add: normalizeThinkingSeriesTemplate_def templateJson_def template_def allowedBudget_back
        normalizeBudgetTemplateDefaultValue_def internal_back budget_given Let_def)
next
  case (settled_fixed l)
  then show ?thesis by (simp add: normalizeThinkingSeriesTemplate_def templateJson_def template_def fixed_back Let_def del: serializeThinkingSeriesValue.simps)
next
  case (settled_discrete vs d)
  then show ?thesis
    using s by (simp add: normalizeThinkingSeriesTemplate_def templateJson_def template_def allowedCodes_back defaultCode_back Let_def)
qed

definition plainModes :: "thinking_value list \<Rightarrow> bool" where
  "plainModes vs \<longleftrightarrow> (\<forall>v \<in> set vs. \<forall>m \<in> {ModeOff, ModeDynamic}. hasBudgetMode m v \<longrightarrow> v = budgetModeOnly m)"

lemma hasBudgetMode_iff: "hasBudgetMode m v \<longleftrightarrow> (\<exists>n l. v = BudgetValue m n l)"
  by (cases v) auto

lemma closed_mode: "createBudgetValue ModeOff labelClosed None = budgetModeOnly ModeOff"
  by (simp add: budgetModeOnly_def)

lemma preferred_cases:
  obtains "normalizeBudgetTemplateDefaultValueInternal v b \<noteq> None"
      and "Some (normalizeBudgetTemplateDefaultValue v b vs) = normalizeBudgetTemplateDefaultValueInternal v b"
  | m n l where "m \<in> {ModeOff, ModeDynamic}" and "normalizeBudgetTemplateDefaultValueInternal v b = None"
      and "normalizeBudgetTemplateDefaultValue v b vs = BudgetValue m n l" and "BudgetValue m n l \<in> set vs"
  | "normalizeBudgetTemplateDefaultValue v b vs = budgetModeOnly ModeOff"
proof (cases "normalizeBudgetTemplateDefaultValueInternal v b")
  case None
  have found: "find (hasBudgetMode m) vs = Some c \<Longrightarrow> \<exists>n l. c = BudgetValue m n l \<and> c \<in> set vs" for m c
    by (auto simp: find_Some_iff hasBudgetMode_iff) (metis nth_mem)
  show thesis
  proof (cases "find (hasBudgetMode ModeDynamic) vs")
    case (Some c)
    then show ?thesis using None found [OF Some] that(2) by (fastforce simp: normalizeBudgetTemplateDefaultValue_def)
  next
    case no: None
    then show ?thesis
      using None found [of ModeOff] that(2,3)
      by (cases "find (hasBudgetMode ModeOff) vs") (fastforce simp: normalizeBudgetTemplateDefaultValue_def closed_mode)+
  qed
qed (use that(1) in \<open>simp add: normalizeBudgetTemplateDefaultValue_def\<close>)

lemma template_record:
  "\<lparr>st_editorType = Some e, st_defaultValue = Some d, st_allowedValues = Some vs, st_budget = b\<rparr> = template e d vs b"
  by (simp add: template_def)

definition editorRead :: "json option \<Rightarrow> series_preset \<Rightarrow> editor_type" where
  "editorRead v p = orElse (normalizeThinkingSeriesEditorType (prop_of (asRecordT v) ''editorType'')) (sp_editorType p)"

lemma other_read:
  assumes p: "presetOk p" and s: "seriesId s" and e: "editorRead v p \<noteq> EditorBudget"
  shows "settledTemplate p s (normalizeThinkingSeriesTemplate v p s)"
proof (cases "editorRead v p")
  case EditorDiscrete
  show ?thesis
    unfolding normalizeThinkingSeriesTemplate_def Let_def editorRead_def [symmetric] EditorDiscrete editor_type.case template_record
    using allowedCodes_read [OF p s] by (intro settled_discrete) (auto simp: allowedCodes_def intro!: defaultCode_read)
next
  case EditorFixed
  obtain l where "fixedOf (prop_of (asRecordT v) ''defaultValue'') p = FixedValue l" "trimmed l"
    using fixed_read [OF p] by metis
  then show ?thesis
    unfolding normalizeThinkingSeriesTemplate_def Let_def editorRead_def [symmetric] EditorFixed editor_type.case template_record
    by (simp add: settled_fixed)
qed (use e in simp)

definition allowedRead :: "json option \<Rightarrow> series_preset \<Rightarrow> thinking_value list" where
  "allowedRead v p = normalizeBudgetAllowedValues (prop_of (asRecordT v) ''allowedValues'') (st_allowedValues (sp_template p))"

lemma budget_read:
  assumes p: "presetOk p" and e: "editorRead v p = EditorBudget"
  shows "settledTemplate p s (normalizeThinkingSeriesTemplate v p s) \<or>
    nearlySettled p s (normalizeThinkingSeriesTemplate v p s) \<and> \<not> plainModes (allowedRead v p) \<and>
    (\<exists>b. normalizeBudgetTemplateDefaultValueInternal (prop_of (asRecordT v) ''defaultValue'') b = None)"
proof -
  let ?r = "asRecordT v"
  let ?b = "normalizeBudgetTemplate (nullishOr (prop_of ?r ''budget'') (budgetAsJson (st_budget (sp_template p))))"
  let ?vs = "allowedRead v p"
  let ?d = "normalizeBudgetTemplateDefaultValue (prop_of ?r ''defaultValue'') ?b ?vs"
  have b: "budgetOk ?b" and vs: "allowedBudget p ?vs"
    by (rule budget_template_ok) (simp add: allowedRead_def allowedBudget_read [OF p])
  have t: "normalizeThinkingSeriesTemplate v p s = template EditorBudget ?d ?vs (Some ?b)"
    unfolding normalizeThinkingSeriesTemplate_def Let_def editorRead_def [symmetric] e editor_type.case template_record allowedRead_def ..
  show ?thesis
  proof (cases rule: preferred_cases [of "prop_of ?r ''defaultValue''" ?b ?vs])
    case 1
    then have "settledBudget ?b ?d" using internal_settled [OF _ b] by metis
    then show ?thesis unfolding t using b vs by (simp add: settled_budget)
  next
    case (2 m n l)
    show ?thesis
    proof (cases "plainModes ?vs")
      case True
      then have "BudgetValue m n l = budgetModeOnly m" using 2 by (auto simp: plainModes_def)
      then have "settledBudget ?b ?d" using 2 by auto
      then show ?thesis unfolding t using b vs by (simp add: settled_budget)
    next
      case False
      have "nearlySettled p s (template EditorBudget ?d ?vs (Some ?b))" using custom_label [OF b vs, of m] 2 by auto
      then show ?thesis unfolding t using False 2(2) by auto
    qed
  next
    case 3
    then show ?thesis unfolding t using b vs by (simp add: settled_budget)
  qed
qed

lemma nearly_read:
  assumes "presetOk p" and "seriesId s"
  shows "nearlySettled p s (normalizeThinkingSeriesTemplate v p s)"
  using other_read [OF assms, of v] budget_read [OF assms(1), of v s] nearly by (cases "editorRead v p = EditorBudget") auto

text \<open>One reading is enough when the default is readable or the allowed values carry the usual labels.\<close>

lemma read_settles:
  assumes "presetOk p" and "seriesId s"
    and "editorRead v p = EditorBudget \<Longrightarrow>
      plainModes (allowedRead v p) \<or>
      (\<forall>b. normalizeBudgetTemplateDefaultValueInternal (prop_of (asRecordT v) ''defaultValue'') b \<noteq> None)"
  shows "settledTemplate p s (normalizeThinkingSeriesTemplate v p s)"
proof (cases "editorRead v p = EditorBudget")
  case True
  then show ?thesis using budget_read [OF assms(1) True, of s] assms(3) [OF True] by metis
qed (simp add: other_read assms)

lemma nearly_settles:
  assumes "nearlySettled p s t" and p: "presetOk p" and s: "seriesId s"
  shows "settledTemplate p s (normalizeThinkingSeriesTemplate (Some (templateJson t)) p s)"
  using assms(1)
proof cases
  case nearly
  then show ?thesis by (simp add: settled_back p s)
next
  case (custom_label b vs m n l)
  have "normalizeThinkingSeriesTemplate (Some (templateJson t)) p s = template EditorBudget (budgetModeOnly m) vs (Some b)"
    using custom_label p
    by (simp add: normalizeThinkingSeriesTemplate_def templateJson_def template_def allowedBudget_back
        normalizeBudgetTemplateDefaultValue_def internal_mode budget_given Let_def
        del: serializeThinkingSeriesValue.simps)
  then show ?thesis using custom_label by (simp add: settled_budget)
qed

text \<open>Templates that the code builds itself and then normalises once.\<close>

lemma preset_plain: "presetOk p \<Longrightarrow> st_allowedValues (sp_template p) = Some vs \<Longrightarrow> plainModes vs"
proof -
  assume p: "presetOk p" and vs: "st_allowedValues (sp_template p) = Some vs"
  then have "list_all plainBudget vs \<or> list_all (\<lambda>v. isCode v \<or> isFixedValue v) vs"
    by (auto elim: preset_allowed)
  moreover have "isCode v \<or> isFixedValue v \<Longrightarrow> \<not> hasBudgetMode m v" for v m by (cases v) auto
  ultimately show ?thesis by (auto simp: plainModes_def plainBudget_def list_all_iff)
qed

lemma built_settles:
  assumes p: "presetOk p" and s: "seriesId s"
    and "st_editorType t = Some EditorBudget \<Longrightarrow>
      (\<exists>m n l. st_defaultValue t = Some (BudgetValue m n l) \<and> (m = ModeBudget \<longrightarrow> (\<exists>k \<ge> 0. n = Some k))) \<or>
      st_allowedValues t = Some [] \<or> st_allowedValues t = st_allowedValues (sp_template p)"
    and e: "st_editorType t = Some e"
  shows "settledTemplate p s (normalizeThinkingSeriesTemplate (Some (templateJson t)) p s)"
proof (rule read_settles [OF p s])
  assume "editorRead (Some (templateJson t)) p = EditorBudget"
  then have "st_editorType t = Some EditorBudget" using e by (simp add: editorRead_def templateJson_def)
  from assms(3) [OF this]
  show "plainModes (allowedRead (Some (templateJson t)) p) \<or>
      (\<forall>b. normalizeBudgetTemplateDefaultValueInternal (prop_of (asRecordT (Some (templateJson t))) ''defaultValue'') b \<noteq> None)"
  proof (elim disjE exE conjE)
    fix m n l assume d: "st_defaultValue t = Some (BudgetValue m n l)" "m = ModeBudget \<longrightarrow> (\<exists>k \<ge> 0. n = Some k)"
    have "normalizeBudgetTemplateDefaultValueInternal (Some (serializeThinkingSeriesValue (Some (BudgetValue m n l)))) b \<noteq> None" for b
      using d(2) internal_mode [of m n l b]
      by (cases "m = ModeBudget") (auto simp: normalizeBudgetTemplateDefaultValueInternal_def budgetDefaultFor_def)
    then show ?thesis by (simp add: templateJson_def d(1) del: serializeThinkingSeriesValue.simps)
  next
    assume "st_allowedValues t = Some []"
    then have "Some (allowedRead (Some (templateJson t)) p) = st_allowedValues (sp_template p)"
      using p by (auto simp: allowedRead_def templateJson_def normalizeBudgetAllowedValues_def List.map_filter_simps elim: preset_allowed)
    then show ?thesis using preset_plain [OF p] by metis
  next
    assume a: "st_allowedValues t = st_allowedValues (sp_template p)"
    obtain vs where vs: "st_allowedValues (sp_template p) = Some vs" using p by (rule preset_allowed)
    then have "allowedBudget p vs" by (simp add: allowedBudget_def)
    from allowedBudget_back [OF p this] have "allowedRead (Some (templateJson t)) p = vs"
      using a vs by (simp add: allowedRead_def templateJson_def)
    then show ?thesis using preset_plain [OF p vs] by simp
  qed
qed

section \<open>Declarations\<close>

definition settledDeclaration :: "normalized_declaration \<Rightarrow> bool" where
  "settledDeclaration d \<longleftrightarrow> seriesId (nd_series d) \<and> pred_option trimmed (nd_source d) \<and>
     settledTemplate (resolveThinkingSeriesPreset (nd_series d)) (nd_series d) (nd_template d) \<and>
     nd_input d = deriveLegacyInputFromTemplate (nd_series d) (nd_template d) \<and>
     nd_defaultSelection d = deriveLegacyDefaultSelectionFromTemplate (nd_template d)"

lemma source_prop [simp]: "prop_of (sourceProps q) ''source'' = map_option JStr q"
  by (cases q) (simp_all add: sourceProps_def)

lemma source_back: "pred_option trimmed q \<Longrightarrow> normalizeOptionalStringT (map_option JStr q) = q"
  by (cases q) (simp_all del: normalizeOptionalStringT.simps(1))

lemma built_declaration:
  assumes "seriesId s" and "pred_option trimmed q"
    and "settledTemplate (resolveThinkingSeriesPreset s) s (normalizeThinkingSeriesTemplate t (resolveThinkingSeriesPreset s) s)"
  shows "settledDeclaration (buildSupportedDeclaration s t q)"
  using assms by (simp add: buildSupportedDeclaration_def settledDeclaration_def Let_def seriesId_def)

lemma settled_rebuilt:
  assumes "settledDeclaration d"
  shows "buildSupportedDeclaration (nd_series d) (Some (templateJson (nd_template d))) (nd_source d) = d"
  using assms settled_back [OF _ preset_found]
  by (cases d) (simp add: buildSupportedDeclaration_def settledDeclaration_def Let_def seriesId_def)

lemma structured_read:
  assumes "settledDeclaration d"
  shows "normalizeThinkingCapabilityDeclaration (Some (structuredJson (nd_series d) (nd_template d) (nd_source d))) = Some (Supported d)"
    and "normalizeThinkingCapabilityDeclaration (Some (normalizedJson d)) = Some (Supported d)"
  using assms settled_back [OF _ preset_found] settled_rebuilt [OF assms]
  by (simp_all add: normalizeThinkingCapabilityDeclaration_def structuredJson_def normalizedJson_def settledDeclaration_def
      seriesId_def source_back Let_def del: normalizeOptionalStringT.simps(1))

lemma initialize_structured:
  "settledDeclaration d \<Longrightarrow> initializeSupportedThinkingCapabilityDeclaration (Some (normalizedJson d)) = d"
  by (simp add: initializeSupportedThinkingCapabilityDeclaration_def structured_read)

text \<open>The templates of the presets and those made from the older form settle at once.\<close>

lemma default_settled:
  assumes "trimmed s" and "pred_option trimmed q"
  shows "settledDeclaration (createDefaultSupportedThinkingCapabilityDeclaration s q)"
proof -
  let ?s = "normalizeThinkingCapabilitySeries s"
  have s: "seriesId ?s" using assms(1) by (rule series_trimmed)
  have p: "presetOk (resolveThinkingSeriesPreset ?s)" by (rule preset_found)
  then have "settledTemplate (resolveThinkingSeriesPreset ?s) ?s
      (normalizeThinkingSeriesTemplate (Some (templateJson (sp_template (resolveThinkingSeriesPreset ?s)))) (resolveThinkingSeriesPreset ?s) ?s)"
    by (intro built_settles s p) (auto simp: presetOk_def)
  then show ?thesis
    using s assms(2) by (simp add: createDefaultSupportedThinkingCapabilityDeclaration_def Let_def built_declaration)
qed

lemma budget_nonneg: "budgetOk b \<Longrightarrow> 0 \<le> clampBudgetTokens v b"
  using clamp_bounds(1) [of b v] by (simp add: budgetOk_def)

lemma budgetOfTokens_value: "budgetOk b \<Longrightarrow> \<exists>k l. budgetOfTokens v b = BudgetValue ModeBudget (Some k) l \<and> 0 \<le> k"
  by (simp add: budgetOfTokens_def createBudgetValue_def budget_nonneg Let_def)

lemma hydrated_settles:
  assumes p: "presetOk p" and s: "seriesId s"
  shows "settledTemplate p s (normalizeThinkingSeriesTemplate (Some (templateJson (hydrateThinkingSeriesTemplate r p s))) p s)"
proof -
  have e: "st_editorType (hydrateThinkingSeriesTemplate r p s) = Some (sp_editorType p)"
    using p by (simp add: hydrateThinkingSeriesTemplate_def hydrateBudget_def hydrateDiscrete_def presetOk_def Let_def)
  have a: "st_allowedValues (hydrateThinkingSeriesTemplate r p s) = st_allowedValues (sp_template p)" if "sp_editorType p = EditorBudget"
    using that by (simp add: hydrateThinkingSeriesTemplate_def hydrateBudget_def Let_def)
  show ?thesis
    by (rule built_settles [OF p s _ e]) (use a e in auto)
qed

lemma initialize_settled: "settledDeclaration (initializeSupportedThinkingCapabilityDeclaration j)"
proof -
  have "settledDeclaration d" if d: "normalizeThinkingCapabilityDeclaration j = Some (Supported d)" for d
  proof -
    obtain r where r: "objectOf j = Some r" "prop_of r ''supported'' = Some (JBool True)"
      using d by (auto simp: normalizeThinkingCapabilityDeclaration_def Let_def split: option.splits json.splits if_splits)
    let ?s = "normalizeThinkingCapabilitySeries (orElse (normalizeOptionalStringT (prop_of r ''series'')) DEFAULT_SERIES_ID)"
    let ?p = "resolveThinkingSeriesPreset ?s"
    have s: "seriesId ?s"
      using optionalString_trimmed by (intro series_trimmed)
        (auto simp: orElse_def DEFAULT_SERIES_ID_def trimmed_ascii visible_def split: option.splits)
    have q: "pred_option trimmed (normalizeOptionalStringT (prop_of r ''source''))"
      using optionalString_trimmed by (cases "normalizeOptionalStringT (prop_of r ''source'')") auto
    have "d = buildSupportedDeclaration ?s (Some (templateJson
        (case prop_of r ''template'' of Some t \<Rightarrow> normalizeThinkingSeriesTemplate (Some t) ?p ?s
         | None \<Rightarrow> hydrateThinkingSeriesTemplate r ?p ?s))) (normalizeOptionalStringT (prop_of r ''source''))"
      using d r by (simp add: normalizeThinkingCapabilityDeclaration_def Let_def)
    then show ?thesis
      using nearly_settles [OF nearly_read [OF preset_found s] preset_found s] hydrated_settles [OF preset_found s]
      by (auto intro!: built_declaration s q split: option.splits)
  qed
  moreover have "settledDeclaration (createDefaultSupportedThinkingCapabilityDeclaration DEFAULT_SERIES_ID None)"
    by (rule default_settled) (simp_all add: DEFAULT_SERIES_ID_def trimmed_ascii visible_def)
  ultimately show ?thesis
    by (auto simp: initializeSupportedThinkingCapabilityDeclaration_def split: option.splits capability_declaration.splits)
qed

section \<open>Edits\<close>

lemma settled_editor: "settledTemplate p s t \<Longrightarrow> \<exists>e. st_editorType t = Some e"
  by (cases rule: settledTemplate.cases) (auto simp: template_def)

lemma withTemplate_settled:
  assumes d: "settledDeclaration d" and e: "st_editorType t = Some e"
    and "st_editorType t = Some EditorBudget \<Longrightarrow>
      (\<exists>m n l. st_defaultValue t = Some (BudgetValue m n l) \<and> (m = ModeBudget \<longrightarrow> (\<exists>k \<ge> 0. n = Some k))) \<or>
      st_allowedValues t = Some [] \<or> st_allowedValues t = st_allowedValues (sp_template (resolveThinkingSeriesPreset (nd_series d)))"
  shows "settledDeclaration (withTemplate d t)"
  using assms unfolding withTemplate_def
  by (intro built_declaration built_settles) (auto simp: settledDeclaration_def preset_found)

lemma budget_no_codes: "presetOk p \<Longrightarrow> sp_editorType p = EditorBudget \<Longrightarrow> discreteCodes (sp_template p) = []"
proof -
  assume "presetOk p" "sp_editorType p = EditorBudget"
  moreover have "normalBudget v \<Longrightarrow> \<not> isCode v" for v by (cases v) simp_all
  ultimately show ?thesis
    by (auto simp: presetOk_def discreteCodes_def getDiscreteCodeValues_def plainBudget_def list_all_iff filter_empty_conv split: option.splits)
qed

lemma toggle_settled: "settledDeclaration (toggleThinkingCapabilityDeclarationCodeValue j c)"
proof -
  let ?d = "initializeSupportedThinkingCapabilityDeclaration j"
  let ?p = "resolveThinkingSeriesPreset (nd_series ?d)"
  have "discreteCodes (sp_template ?p) = []" if "sp_editorType ?p = EditorBudget"
    using that by (rule budget_no_codes [OF preset_found])
  then show ?thesis
    unfolding toggleThinkingCapabilityDeclarationCodeValue_def Let_def
    by (intro withTemplate_settled initialize_settled) auto
qed

lemma budget_template_codes:
  assumes "settledTemplate p s t" and "st_editorType t = Some EditorBudget" and "discreteCodes t \<noteq> []"
  shows "st_allowedValues t = st_allowedValues (sp_template p)"
  using assms(1)
proof cases
  case (settled_budget b vs d)
  have "normalBudget v \<Longrightarrow> \<not> isCode v" "settledBudget b v \<Longrightarrow> \<not> isCode v" for v by (cases v; simp)+
  then show ?thesis
    using settled_budget assms(3)
    by (auto simp: template_def allowedBudget_def discreteCodes_def getDiscreteCodeValues_def list_all_iff filter_empty_conv Let_def
        split: if_splits)
qed (use assms(2) in \<open>simp_all add: template_def\<close>)

lemma defaultCode_settled: "settledDeclaration (setThinkingCapabilityDeclarationDefaultCodeValue j c)"
proof -
  let ?d = "initializeSupportedThinkingCapabilityDeclaration j"
  have d: "settledDeclaration ?d" by (rule initialize_settled)
  then have t: "settledTemplate (resolveThinkingSeriesPreset (nd_series ?d)) (nd_series ?d) (nd_template ?d)"
    by (simp add: settledDeclaration_def)
  obtain e where e: "st_editorType (nd_template ?d) = Some e" using settled_editor [OF t] by auto
  show ?thesis
  proof (cases "find (hasNormalCode (normalizeSeriesCode (nd_series ?d) c)) (discreteCodes (nd_template ?d))")
    case None
    then show ?thesis using d by (simp add: setThinkingCapabilityDeclarationDefaultCodeValue_def Let_def)
  next
    case (Some v)
    then have "discreteCodes (nd_template ?d) \<noteq> []" by auto
    then have "settledDeclaration (withTemplate ?d ((nd_template ?d)\<lparr>st_defaultValue := Some v\<rparr>))"
      using budget_template_codes [OF t] by (intro withTemplate_settled [OF d]) (auto simp: e)
    then show ?thesis using Some by (simp add: setThinkingCapabilityDeclarationDefaultCodeValue_def Let_def)
  qed
qed

lemma toggleLevel_settled: "settledDeclaration (toggleThinkingCapabilityDeclarationLevel j l)"
  by (simp add: toggleThinkingCapabilityDeclarationLevel_def Let_def initialize_settled toggle_settled split: option.splits)

lemma defaultLevel_settled: "settledDeclaration (setThinkingCapabilityDeclarationDefaultLevel j l)"
  by (simp add: setThinkingCapabilityDeclarationDefaultLevel_def Let_def initialize_settled defaultCode_settled split: option.splits)

lemma series_settled: "trimmed s \<Longrightarrow> settledDeclaration (setThinkingCapabilityDeclarationSeries j s)"
  unfolding setThinkingCapabilityDeclarationSeries_def
  by (rule default_settled) (use initialize_settled [of j] in \<open>simp_all add: settledDeclaration_def\<close>)

lemma budgetDefault_value:
  assumes "budgetOk b"
  shows "\<exists>m n l. normalizeBudgetDefaultValue v b = BudgetValue m n l \<and> (m = ModeBudget \<longrightarrow> (\<exists>k \<ge> 0. n = Some k))"
proof (cases "\<exists>m n l. v = Some (BudgetValue m n l)")
  case True
  then obtain m n l where "v = Some (BudgetValue m n l)" by auto
  then show ?thesis using budgetOfTokens_value [OF assms] by (cases "m = ModeBudget") (simp, metis, simp)
next
  case False
  then have "normalizeBudgetDefaultValue v b = createBudgetValue ModeOff labelClosed None"
    by (cases "(v, b)" rule: normalizeBudgetDefaultValue.cases) auto
  then show ?thesis by (simp add: createBudgetValue_def)
qed

lemma budgetConfig_settled: "settledDeclaration (setThinkingCapabilityDeclarationBudgetConfig j patch)"
  unfolding setThinkingCapabilityDeclarationBudgetConfig_def Let_def
  by (intro withTemplate_settled initialize_settled) (use budgetDefault_value [OF budget_template_ok] in auto)

lemma budgetMode_settled: "settledDeclaration (setThinkingCapabilityDeclarationBudgetDefaultMode j m)"
  unfolding setThinkingCapabilityDeclarationBudgetDefaultMode_def Let_def
  by (intro withTemplate_settled initialize_settled)
    (auto simp: createBudgetValue_def budgetModeOnly_def budget_nonneg budget_template_ok)

lemma budgetTokens_settled: "settledDeclaration (setThinkingCapabilityDeclarationBudgetTokens j n)"
  unfolding setThinkingCapabilityDeclarationBudgetTokens_def Let_def
  by (intro withTemplate_settled initialize_settled) (use budgetOfTokens_value [OF budget_template_ok] in fastforce)+

text \<open>
  The declarations that the settings can hold: read from a stored document, then edited any number of times. A series is chosen
  from the options, which are trimmed.
\<close>

inductive edited :: "normalized_declaration \<Rightarrow> bool" where
  edited_read: "edited (initializeSupportedThinkingCapabilityDeclaration j)"
| edited_series: "edited d \<Longrightarrow> trimmed s \<Longrightarrow> edited (setThinkingCapabilityDeclarationSeries (Some (normalizedJson d)) s)"
| edited_toggle: "edited d \<Longrightarrow> edited (toggleThinkingCapabilityDeclarationCodeValue (Some (normalizedJson d)) c)"
| edited_level: "edited d \<Longrightarrow> edited (toggleThinkingCapabilityDeclarationLevel (Some (normalizedJson d)) l)"
| edited_default: "edited d \<Longrightarrow> edited (setThinkingCapabilityDeclarationDefaultCodeValue (Some (normalizedJson d)) c)"
| edited_default_level: "edited d \<Longrightarrow> edited (setThinkingCapabilityDeclarationDefaultLevel (Some (normalizedJson d)) l)"
| edited_budget: "edited d \<Longrightarrow> edited (setThinkingCapabilityDeclarationBudgetConfig (Some (normalizedJson d)) patch)"
| edited_mode: "edited d \<Longrightarrow> edited (setThinkingCapabilityDeclarationBudgetDefaultMode (Some (normalizedJson d)) m)"
| edited_tokens: "edited d \<Longrightarrow> edited (setThinkingCapabilityDeclarationBudgetTokens (Some (normalizedJson d)) n)"

lemmas edits_settled = initialize_settled series_settled toggle_settled toggleLevel_settled defaultCode_settled defaultLevel_settled
  budgetConfig_settled budgetMode_settled budgetTokens_settled

lemma edited_settled: "edited d \<Longrightarrow> settledDeclaration d"
  by (induction rule: edited.induct) (simp_all add: edits_settled)

section \<open>Switching a code on and off\<close>

text \<open>The codes in a list of values, those that a template offers, and those that its series knows.\<close>

definition codesOf :: "thinking_value list \<Rightarrow> string set" where
  "codesOf vs = set (List.map_filter codeOf vs)"

lemma codesOf_iff: "codesOf vs = {c. \<exists>v \<in> set vs. codeOf v = Some c}"
  by (auto simp: codesOf_def map_filter_in)

definition offeredCodes :: "series_template \<Rightarrow> string set" where
  "offeredCodes t = codesOf (discreteCodes t)"

definition seriesCodes :: "string \<Rightarrow> string set" where
  "seriesCodes s = offeredCodes (sp_template (resolveThinkingSeriesPreset s))"

definition flipCode :: "string set \<Rightarrow> string \<Rightarrow> string set \<Rightarrow> string set" where
  "flipCode known c offered =
     (let next = (if c \<in> offered then offered - {c} else insert c offered) \<inter> known in if next = {} then known else next)"

text \<open>The preset of a series: the one with its name, or the default one when no preset has it.\<close>

definition ownPreset :: "series_preset \<Rightarrow> bool" where
  "ownPreset p \<longleftrightarrow> normalizeThinkingCapabilitySeries (sp_id p) = sp_id p \<and>
     list_all (\<lambda>v. normalCode (sp_id p) v \<and> (sp_id p \<noteq> UNIFIED_4_LEVEL_SERIES_ID \<longrightarrow> normalCode ''x'' v)) (discreteCodes (sp_template p)) \<and>
     distinct (map codeOf (discreteCodes (sp_template p)))"

lemma identifiers [simp]:
  "normalizeIdentifier ''none'' = ''none''" "normalizeIdentifier ''minimal'' = ''minimal''" "normalizeIdentifier ''low'' = ''low''"
  "normalizeIdentifier ''medium'' = ''medium''" "normalizeIdentifier ''high'' = ''high''" "normalizeIdentifier ''xhigh'' = ''xhigh''"
  "normalizeIdentifier ''false'' = ''false''" "normalizeIdentifier ''true'' = ''true''"
  "normalizeIdentifier ''disabled'' = ''disabled''" "normalizeIdentifier ''max'' = ''max''"
  using codes_trimmed by (simp_all add: normalizeIdentifier_def trimmed_def toLowerCase_def lowerAscii_def)


lemma presets_own: "list_all ownPreset THINKING_SERIES_PRESETS"
  by code_simp

lemma preset_own:
  assumes s: "seriesId s"
  shows "list_all (normalCode s) (discreteCodes (sp_template (resolveThinkingSeriesPreset s)))"
    and "distinct (map codeOf (discreteCodes (sp_template (resolveThinkingSeriesPreset s))))"
proof -
  have other: "normalCode t v \<longleftrightarrow> normalCode ''x'' v" if "seriesId t" "t \<noteq> UNIFIED_4_LEVEL_SERIES_ID" for t v
    using that by (cases v) (simp_all add: normalizedCodeValue_def normalizeSeriesCode_def seriesId_def UNIFIED_4_LEVEL_SERIES_ID_def
        normalizeThinkingCapabilitySeries_def [of "''x''"] SERIES_ID_ALIASES_def Let_def)
  have own: "presetById i = Some p \<Longrightarrow> ownPreset p \<and> sp_id p = i" for i p
    using presets_own by (auto simp: presetById_def find_Some_iff list_all_length)
  have unified: "presetById UNIFIED_4_LEVEL_SERIES_ID \<noteq> None" "presetById DEFAULT_SERIES_ID \<noteq> None"
    by (simp_all add: presetById_def THINKING_SERIES_PRESETS_def preset_values DEFAULT_SERIES_ID_def UNIFIED_4_LEVEL_SERIES_ID_def)
  have "list_all (normalCode s) (discreteCodes (sp_template (resolveThinkingSeriesPreset s))) \<and>
      distinct (map codeOf (discreteCodes (sp_template (resolveThinkingSeriesPreset s))))"
  proof (cases "presetById s")
    case (Some p)
    then show ?thesis
      using own [OF Some] s by (auto simp: resolveThinkingSeriesPreset_def seriesId_def ownPreset_def list_all_iff)
  next
    case None
    obtain q where q: "presetById DEFAULT_SERIES_ID = Some q" using unified by auto
    have "s \<noteq> UNIFIED_4_LEVEL_SERIES_ID" "sp_id q \<noteq> UNIFIED_4_LEVEL_SERIES_ID"
      using None unified own [OF q] by (auto simp: DEFAULT_SERIES_ID_def UNIFIED_4_LEVEL_SERIES_ID_def)
    then show ?thesis
      using None q own [OF q] s other [OF s]
      by (auto simp: resolveThinkingSeriesPreset_def seriesId_def ownPreset_def list_all_iff)
  qed
  then show "list_all (normalCode s) (discreteCodes (sp_template (resolveThinkingSeriesPreset s)))"
    and "distinct (map codeOf (discreteCodes (sp_template (resolveThinkingSeriesPreset s))))" by auto
qed

lemma discrete_once:
  assumes s: "seriesId s" and t: "st_editorType t = Some EditorDiscrete" "st_allowedValues t = Some vs" "st_defaultValue t = Some v"
    and vs: "allowedCodes p s vs" "defaultCode s vs v"
  shows "normalizeThinkingSeriesTemplate (Some (templateJson t)) p s = template EditorDiscrete v vs None"
  by (simp add: normalizeThinkingSeriesTemplate_def templateJson_def t allowedCodes_back [OF s vs(1)] defaultCode_back [OF vs(2)] Let_def
      template_record del: serializeThinkingSeriesValue.simps)

lemma codesOf_same: "codesOf (filter (\<lambda>v. list_ex (\<lambda>w. sameCode w v) ws) vs) = codesOf ws \<inter> codesOf vs"
proof (rule set_eqI)
  fix c
  have "(\<exists>v \<in> set vs. (\<exists>w \<in> set ws. sameCode w v) \<and> codeOf v = Some c) \<longleftrightarrow>
      (\<exists>w \<in> set ws. codeOf w = Some c) \<and> (\<exists>v \<in> set vs. codeOf v = Some c)"
    unfolding sameCode_def by (metis option.distinct(1))
  then show "c \<in> codesOf (filter (\<lambda>v. list_ex (\<lambda>w. sameCode w v) ws) vs) \<longleftrightarrow> c \<in> codesOf ws \<inter> codesOf vs"
    by (auto simp: codesOf_iff list_ex_iff)
qed

lemma codesOf_or: "codesOf (filter (\<lambda>v. P v \<or> Q v) vs) = codesOf (filter P vs) \<union> codesOf (filter Q vs)"
  by (auto simp: codesOf_iff)

lemma codesOf_hasCode:
  "codesOf (filter (hasNormalCode c) vs) = {c} \<inter> codesOf vs" "codesOf (filter (\<lambda>v. \<not> hasNormalCode c v) vs) = codesOf vs - {c}"
  "list_ex (hasNormalCode c) vs \<longleftrightarrow> c \<in> codesOf vs"
  by (auto simp: codesOf_iff hasNormalCode_def list_ex_iff)

lemma codesOf_next:
  "codesOf (filter (\<lambda>v. list_ex (\<lambda>w. sameCode w v)
      (if list_ex (hasNormalCode c) cur then filter (\<lambda>v. \<not> hasNormalCode c v) cur
       else filter (\<lambda>v. list_ex (\<lambda>w. sameCode w v) cur \<or> hasNormalCode c v) pv)) pv) =
    (if c \<in> codesOf cur then codesOf cur - {c} else insert c (codesOf cur)) \<inter> codesOf pv"
  unfolding codesOf_same by (auto simp: codesOf_hasCode codesOf_or codesOf_same [unfolded sameCode_def] codesOf_same)

lemma first_or_head: "vs \<noteq> [] \<Longrightarrow> \<exists>v \<in> set vs. firstGiven (find P vs) (headOption vs) = Some v"
proof (cases "find P vs")
  case (Some v)
  then have "v \<in> set vs" by (auto simp: find_Some_iff)
  then show ?thesis using Some by (auto simp: firstGiven_def)
qed (cases vs; simp add: firstGiven_def headOption_def)

lemma codesOf_empty: "list_all isCode vs \<Longrightarrow> codesOf vs = {} \<longleftrightarrow> vs = []"
proof (cases vs)
  case (Cons v ws)
  assume "list_all isCode vs"
  then show ?thesis by (cases v) (auto simp: codesOf_iff Cons)
qed (simp add: codesOf_iff)

lemma preset_codes:
  assumes "presetOk p" and "sp_editorType p = EditorDiscrete"
  shows "discreteCodes (sp_template p) \<noteq> []"
proof -
  have "trimmedCode v \<Longrightarrow> isCode v" for v by (cases v) simp_all
  then show ?thesis using assms
    by (auto simp: presetOk_def discreteCodes_def getDiscreteCodeValues_def list_all_iff filter_empty_conv Let_def split: option.splits)
      (metis list.set_intros(1) neq_Nil_conv)
qed

text \<open>A choice among the values of the preset is kept as it is.\<close>

lemma chosen_values:
  assumes d: "settledDeclaration d" and ws: "ws \<noteq> []" "v \<in> set ws"
    and P: "ws = filter P (discreteCodes (sp_template (resolveThinkingSeriesPreset (nd_series d))))"
    and d': "d' = withTemplate d ((nd_template d)\<lparr>st_editorType := Some EditorDiscrete, st_allowedValues := Some ws, st_defaultValue := Some v\<rparr>)"
  shows "nd_template d' = template EditorDiscrete v ws None" and "discreteCodes (nd_template d') = ws"
    and "nd_series d' = nd_series d" and "nd_source d' = nd_source d"
proof -
  let ?s = "nd_series d" and ?p = "resolveThinkingSeriesPreset (nd_series d)"
  let ?t = "(nd_template d)\<lparr>st_editorType := Some EditorDiscrete, st_allowedValues := Some ws, st_defaultValue := Some v\<rparr>"
  have s: "seriesId ?s" using d by (simp add: settledDeclaration_def)
  have normal: "normalCodes ?s ws"
    using preset_own [OF s] by (auto simp: P normalCodes_def list_all_iff distinct_map intro: inj_on_subset)
  then have "normalCode ?s v" using ws(2) by (auto simp: normalCodes_def list_all_iff)
  then have "defaultCode ?s ws v"
    using ws(2) sameCode_refl by (auto simp: defaultCode_def list_ex_iff)
  then have t: "normalizeThinkingSeriesTemplate (Some (templateJson ?t)) ?p ?s = template EditorDiscrete v ws None"
    using normal ws(1) by (intro discrete_once s) (simp_all add: allowedCodes_def)
  show template: "nd_template d' = template EditorDiscrete v ws None" and "nd_series d' = nd_series d" "nd_source d' = nd_source d"
    unfolding d' withTemplate_def buildSupportedDeclaration_def Let_def using s t by (simp_all add: seriesId_def)
  show "discreteCodes (nd_template d') = ws"
    unfolding template using ws(1) normalCodes_isCode [OF normal]
    by (simp add: template_def discreteCodes_def getDiscreteCodeValues_def list_all_iff Let_def filter_id_conv)
qed

lemma toggle_flip:
  fixes c :: string
  assumes d: "settledDeclaration d" and e: "sp_editorType (resolveThinkingSeriesPreset (nd_series d)) = EditorDiscrete"
  defines "d' \<equiv> toggleThinkingCapabilityDeclarationCodeValue (Some (normalizedJson d)) c"
  shows "offeredCodes (nd_template d') =
      flipCode (seriesCodes (nd_series d)) (normalizeSeriesCode (nd_series d) c) (offeredCodes (nd_template d))"
    and "\<exists>P. st_allowedValues (nd_template d') = Some (filter P (discreteCodes (sp_template (resolveThinkingSeriesPreset (nd_series d)))))"
    and "nd_series d' = nd_series d" and "nd_source d' = nd_source d"
proof -
  let ?s = "nd_series d" and ?p = "resolveThinkingSeriesPreset (nd_series d)"
  let ?pv = "discreteCodes (sp_template ?p)"
  let ?c = "normalizeSeriesCode ?s c" and ?cur = "discreteCodes (nd_template d)"
  let ?norm = "filter (\<lambda>v. list_ex (\<lambda>w. sameCode w v)
    (if list_ex (hasNormalCode ?c) ?cur then filter (\<lambda>v. \<not> hasNormalCode ?c v) ?cur
     else filter (\<lambda>v. list_ex (\<lambda>w. sameCode w v) ?cur \<or> hasNormalCode ?c v) ?pv)) ?pv"
  let ?code = "case st_defaultValue (nd_template d) of None \<Rightarrow> None | Some v \<Rightarrow> codeOf v"
  obtain norm where norm: "norm = ?norm" by simp
  obtain ws where ws: "ws = (if norm \<noteq> [] then norm else ?pv)" by simp
  have s: "seriesId ?s" using d by (simp add: settledDeclaration_def)
  have nonempty: "ws \<noteq> []" unfolding ws using preset_codes [OF preset_found e] by simp
  have "\<exists>P. ws = filter P ?pv"
    unfolding ws norm by (cases "?norm = []") (simp_all only: if_True if_False not_True_eq_False not_False_eq_True, metis filter_True, blast)
  then obtain P where P: "ws = filter P ?pv" by blast
  obtain v where v: "firstGiven (find (\<lambda>v. codeOf v = ?code) ws) (headOption ws) = Some v" "v \<in> set ws"
    using first_or_head [OF nonempty] by blast
  have d': "d' = withTemplate d ((nd_template d)\<lparr>st_editorType := Some EditorDiscrete, st_allowedValues := Some ws, st_defaultValue := Some v\<rparr>)"
    unfolding d'_def toggleThinkingCapabilityDeclarationCodeValue_def Let_def initialize_structured [OF d] e norm [symmetric] ws [symmetric] v(1) by simp
  note chosen = chosen_values [OF d nonempty v(2) P d']
  show "nd_series d' = nd_series d" "nd_source d' = nd_source d" by (rule chosen)+
  show "\<exists>P. st_allowedValues (nd_template d') = Some (filter P ?pv)"
    unfolding chosen(1) P by (auto simp: template_def)
  have "list_all isCode ?pv" using preset_own(1) [OF s] normalCode_code by (auto simp: list_all_iff)
  then have "list_all isCode norm" unfolding norm by (simp add: list_all_iff)
  then have empty: "codesOf norm = {} \<longleftrightarrow> norm = []" by (rule codesOf_empty)
  have "codesOf norm = (if ?c \<in> codesOf ?cur then codesOf ?cur - {?c} else insert ?c (codesOf ?cur)) \<inter> codesOf ?pv"
    unfolding norm by (rule codesOf_next)
  then show "offeredCodes (nd_template d') = flipCode (seriesCodes ?s) ?c (offeredCodes (nd_template d))"
    unfolding offeredCodes_def seriesCodes_def flipCode_def Let_def chosen(2) ws using empty by auto
qed

section \<open>Properties\<close>

text \<open>C38: What the settings hold survives being stored. After any sequence of edits, reading back the declaration itself, its
  serialised form or its clone gives the same declaration, field by field.\<close>

theorem declarations_survive_storage:
  assumes "edited d"
  shows "normalizeThinkingCapabilityDeclaration (Some (normalizedJson d)) = Some (Supported d) \<and>
    normalizeThinkingCapabilityDeclaration (Some (serializeThinkingCapabilityOverrideInput (Some (normalizedJson d)))) = Some (Supported d) \<and>
    normalizeThinkingCapabilityDeclaration (cloneThinkingCapabilityDeclaration (Some (normalizedJson d))) = Some (Supported d)"
  using structured_read [OF edited_settled [OF assms]]
  by (simp add: serializeThinkingCapabilityOverrideInput_def cloneThinkingCapabilityDeclaration_def)

text \<open>
  What is true of every template that the settings hold. The codes that a discrete template offers are the codes of its list or, when
  there are none, its default (\<open>discreteCodes\<close>).
\<close>

definition templateOk :: "series_template \<Rightarrow> bool" where
  "templateOk t =
     (case (st_editorType t, st_defaultValue t, st_allowedValues t, st_budget t) of
        (Some EditorDiscrete, Some d, Some vs, None) \<Rightarrow> list_all isCode vs \<and> isCode d \<and> list_ex (sameCode d) (discreteCodes t)
      | (Some EditorFixed, Some d, Some vs, None) \<Rightarrow> isFixedValue d \<and> vs = [d]
      | (Some EditorBudget, Some d, Some vs, Some b) \<Rightarrow>
          0 \<le> bt_minTokens b \<and> bt_minTokens b \<le> bt_maxTokens b \<and> 0 < bt_stepTokens b \<and>
          (case d of
             BudgetValue ModeBudget (Some n) l \<Rightarrow>
               bt_minTokens b \<le> n \<and> n \<le> bt_maxTokens b \<and> (bt_stepTokens b dvd n - bt_minTokens b \<or> n = bt_maxTokens b)
           | BudgetValue m n l \<Rightarrow> m \<noteq> ModeBudget
           | _ \<Rightarrow> False)
      | _ \<Rightarrow> False)"

lemma clamp_grid: "budgetOk b \<Longrightarrow> clampBudgetTokens v b = n \<Longrightarrow> bt_stepTokens b dvd n - bt_minTokens b \<or> n = bt_maxTokens b"
  by (auto simp: clamp_snap min_def snapTo_def)

lemma edited_ok:
  assumes "edited d"
  shows "templateOk (nd_template d)"
proof -
  have "settledTemplate (resolveThinkingSeriesPreset (nd_series d)) (nd_series d) (nd_template d)"
    using edited_settled [OF assms] by (simp add: settledDeclaration_def)
  then show ?thesis
  proof cases
    case (settled_budget b vs e)
    then obtain m n l where e: "e = BudgetValue m n l" by (cases e) auto
    show ?thesis
    proof (cases "m = ModeBudget")
      case True
      then obtain k where k: "n = Some k" "clampBudgetTokens (of_int k) b = k" using settled_budget e by auto
      show ?thesis
        using settled_budget True e k clamp_bounds [of b "of_int k"] clamp_grid [of b "of_int k" k]
        by (simp add: templateOk_def template_def budgetOk_def)
    next
      case False
      then show ?thesis using settled_budget e
        by (cases m) (simp_all add: templateOk_def template_def budgetOk_def budgetModeOnly_def createBudgetValue_def)
    qed
  next
    case (settled_discrete vs e)
    then have codes: "list_all isCode vs" "isCode e"
      using normalCodes_isCode normalCode_code by (auto simp: allowedCodes_def defaultCode_def createCodeValue_def)
    then have "discreteCodes (template EditorDiscrete e vs None) = (if vs = [] then [e] else vs)"
      by (simp add: template_def discreteCodes_def getDiscreteCodeValues_def list_all_iff Let_def filter_id_conv)
    moreover have "vs \<noteq> [] \<Longrightarrow> list_ex (sameCode e) vs" using settled_discrete by (simp add: defaultCode_def)
    ultimately have "list_ex (sameCode e) (discreteCodes (template EditorDiscrete e vs None))"
      using codes(2) by (cases e) (auto simp: sameCode_def)
    then show ?thesis
      using settled_discrete codes by (simp add: templateOk_def) (simp add: template_def)
  qed (simp add: templateOk_def template_def)
qed

text \<open>
  What the settings hold is well formed, whatever was stored and however it was edited: a template is discrete, fixed or a budget.
  A discrete one lists codes only, and its default is one of the codes that it offers; a fixed one lists its default only. A budget has
  bounds in order and a positive step, and when its default is a number of tokens, this lies between the bounds, on the grid of
  the steps or at the upper end; when its default is another mode, nothing says that the series offers this mode
  (\<open>unoffered_mode_kept\<close>).
\<close>

theorem edited_template_ok:
  assumes "edited d"
  shows "templateOk (nd_template d)"
  using assms by (rule edited_ok)

text \<open>
  The default of a budget can be a mode that its series does not offer: for \<open>anthropic-budget-v1\<close>, which offers \<open>off\<close> only, the
  mode \<open>dynamic\<close> is taken as the default.
\<close>

definition dynamicDefault :: normalized_declaration where
  "dynamicDefault = setThinkingCapabilityDeclarationBudgetDefaultMode
     (Some (normalizedJson (setThinkingCapabilityDeclarationSeries None ''anthropic-budget-v1''))) ModeDynamic"

theorem unoffered_mode_kept:
  "nd_series dynamicDefault = ''anthropic-budget-v1'' \<and>
   st_defaultValue (nd_template dynamicDefault) = Some (BudgetValue ModeDynamic None labelDynamic) \<and>
   st_allowedValues (nd_template dynamicDefault) = Some [BudgetValue ModeOff None labelClosed]"
  by code_simp

text \<open>C40: Switching a code on or off changes the set of offered codes as a set: the code goes in or out, codes that the series does not
  know are dropped, and when nothing would be left everything is offered again. The values are those of the series, in its order.\<close>

theorem toggle_refines_sets:
  assumes "edited d" and "sp_editorType (resolveThinkingSeriesPreset (nd_series d)) = EditorDiscrete"
  shows "offeredCodes (nd_template (toggleThinkingCapabilityDeclarationCodeValue (Some (normalizedJson d)) c)) =
      flipCode (seriesCodes (nd_series d)) (normalizeSeriesCode (nd_series d) c) (offeredCodes (nd_template d)) \<and>
    (\<exists>P. st_allowedValues (nd_template (toggleThinkingCapabilityDeclarationCodeValue (Some (normalizedJson d)) c)) =
      Some (filter P (discreteCodes (sp_template (resolveThinkingSeriesPreset (nd_series d))))))"
  using toggle_flip(1,2) [OF edited_settled [OF assms(1)] assms(2)] by blast

lemma round_near:
  assumes "0 < s"
  shows "2 * \<bar>jsRound (of_int a / of_int s) * s - a\<bar> \<le> s"
proof -
  let ?q = "of_int a / of_int s :: rat" and ?r = "jsRound (of_int a / of_int s)"
  have "\<bar>of_int ?r - ?q\<bar> \<le> 1 / 2" unfolding jsRound_def by linarith
  then have "\<bar>of_int ?r - ?q\<bar> * of_int s \<le> 1 / 2 * (of_int s :: rat)" using assms by (intro mult_right_mono) simp_all
  moreover have "(of_int ?r - ?q) * of_int s = (of_int (?r * s - a) :: rat)" using assms by (simp add: left_diff_distrib)
  then have "\<bar>of_int ?r - ?q\<bar> * of_int s = \<bar>of_int (?r * s - a) :: rat\<bar>" using assms by (metis abs_mult abs_of_pos of_int_0_less_iff)
  ultimately have "\<bar>of_int (?r * s - a) :: rat\<bar> \<le> 1 / 2 * of_int s" by metis
  then have "(of_int (2 * \<bar>?r * s - a\<bar>) :: rat) \<le> of_int s" by simp
  then show ?thesis by (simp only: of_int_le_iff)
qed

text \<open>A number of tokens is put within the bounds of the budget, on the grid or at its upper end, no further away than half a step
  when it was within the bounds, and doing it again changes nothing.\<close>

theorem clamped_budget:
  fixes n :: int
  assumes "0 \<le> bt_minTokens b" and "bt_minTokens b \<le> n" and "n \<le> bt_maxTokens b" and "0 < bt_stepTokens b"
  shows "bt_minTokens b \<le> clampBudgetTokens (of_int n) b \<and> clampBudgetTokens (of_int n) b \<le> bt_maxTokens b \<and>
    2 * \<bar>clampBudgetTokens (of_int n) b - n\<bar> \<le> bt_stepTokens b \<and>
    clampBudgetTokens (of_int (clampBudgetTokens (of_int n) b)) b = clampBudgetTokens (of_int n) b"
proof -
  let ?b = "b\<lparr>bt_anchorTokens := THINKING_BUDGET_FIXED_ANCHOR_TOKENS\<rparr>"
  have ok: "budgetOk ?b" using assms by (simp add: budgetOk_def)
  have same: "clampBudgetTokens v ?b = clampBudgetTokens v b" for v by (simp add: clampBudgetTokens_def Let_def)
  have snap: "clampBudgetTokens (of_int n) b = min (bt_maxTokens b) (snapTo b n)"
    using clamp_snap [OF ok, of "of_int n"] assms by (simp add: same snapTo_def)
  have near: "2 * \<bar>snapTo b n - n\<bar> \<le> bt_stepTokens b"
    using round_near [OF assms(4), of "n - bt_minTokens b"] by (simp add: snapTo_def algebra_simps)
  then have "2 * \<bar>min (bt_maxTokens b) (snapTo b n) - n\<bar> \<le> bt_stepTokens b" 
    using assms(3) by (simp add: min_def abs_if split: if_splits)
  then show ?thesis
    using clamp_bounds [OF ok, of "of_int n"] clamp_idem [OF ok, of "of_int n"] by (auto simp: same snap)
qed

lemma levels_sorted: "deriveLegacyLevelsFromTemplate t = filter (\<lambda>l. l \<in> set (deriveLegacyLevelsFromTemplate t)) THINKING_LEVEL_ORDER"
  by (simp add: deriveLegacyLevelsFromTemplate_def Let_def THINKING_LEVEL_ORDER_def POSITIVE_THINKING_LEVEL_ORDER_def)

lemma level_in_order: "l \<in> set THINKING_LEVEL_ORDER"
  by (cases l) (simp_all add: THINKING_LEVEL_ORDER_def POSITIVE_THINKING_LEVEL_ORDER_def)

lemma default_level_offered:
  assumes "templateOk t" and "st_editorType t \<noteq> Some EditorBudget" and "deriveLegacyDefaultLevelFromTemplate t = Some l"
  shows "l \<in> set (deriveLegacyLevelsFromTemplate t)"
proof -
  obtain e d vs where t: "st_editorType t = Some e" "st_defaultValue t = Some d" "st_allowedValues t = Some vs"
    using assms(1) by (auto simp: templateOk_def split: option.splits editor_type.splits)
  show ?thesis
  proof (cases e)
    case EditorDiscrete
    then have ok: "isCode d" "list_ex (sameCode d) (discreteCodes t)"
      using assms(1) t by (auto simp: templateOk_def split: option.splits)
    then obtain c lab where d: "d = CodeValue c lab" by (cases d) auto
    obtain v where v: "v \<in> set (discreteCodes t)" "codeOf v = Some c"
      using ok d by (auto simp: list_ex_iff sameCode_def)
    have "mapSeriesCodeToLegacyLevelT c = Some l" using assms(3) t d by (simp add: deriveLegacyDefaultLevelFromTemplate_def)
    then have "levelOfValue v = Some l" using v(2) by (simp add: levelOfValue_def)
    then have "l \<in> set (List.map_filter levelOfValue (discreteCodes t))" using v(1) by (auto simp: map_filter_in)
    then show ?thesis using t EditorDiscrete level_in_order by (simp add: deriveLegacyLevelsFromTemplate_def Let_def)
  next
    case EditorFixed
    then show ?thesis using assms t
      by (cases d) (auto simp: templateOk_def deriveLegacyLevelsFromTemplate_def deriveLegacyDefaultLevelFromTemplate_def split: option.splits)
  next
    case EditorBudget
    then show ?thesis using assms(2) t by simp
  qed
qed

text \<open>The levels of a declaration come in the fixed order without repetition, there are some exactly when it is supported, and outside
  budgets the level that is sent for any request, if there is one, is among them.\<close>

theorem resolved_levels:
  fixes v :: "thinking_level option"
  assumes "edited d"
  defines "capability \<equiv> resolveThinkingCapability (Some (normalizedJson d))"
  shows "rz_levels capability = filter (\<lambda>l. l \<in> set (rz_levels capability)) THINKING_LEVEL_ORDER \<and>
    (rz_supported capability \<longleftrightarrow> rz_levels capability \<noteq> []) \<and>
    (st_editorType (nd_template d) \<noteq> Some EditorBudget \<longrightarrow>
       (case resolveThinkingLevelIntent capability v of None \<Rightarrow> True | Some l \<Rightarrow> l \<in> set (rz_levels capability)))"
proof -
  have c: "capability = (let levels = deriveLegacyLevelsFromTemplate (nd_template d) in
      if levels = [] then \<lparr>rz_supported = False, rz_levels = [], rz_defaultLevel = None\<rparr>
      else \<lparr>rz_supported = True, rz_levels = levels, rz_defaultLevel = deriveLegacyDefaultLevelFromTemplate (nd_template d)\<rparr>)"
    using structured_read(2) [OF edited_settled [OF assms(1)]]
    by (simp add: capability_def resolveThinkingCapability_def resolveExplicitThinkingCapability_def Let_def)
  have ok: "templateOk (nd_template d)" using assms(1) by (rule edited_ok)
  show ?thesis
    using levels_sorted [of "nd_template d"] default_level_offered [OF ok]
    by (auto simp: c Let_def resolveThinkingLevelIntent_def split: option.splits)
qed

section \<open>Witnesses\<close>

text \<open>A declaration in the older form: it has levels only.\<close>

definition sampleLegacy :: jrecord where
  "sampleLegacy = [(''supported'', JBool True), (''levels'', JArr [JStr ''high'', JStr ''low'']), (''defaultLevel'', JStr ''high'')]"

definition sampleEdited :: normalized_declaration where
  "sampleEdited = initializeSupportedThinkingCapabilityDeclaration (Some (JObj sampleLegacy))"

lemma sample_edited: "edited sampleEdited"
  unfolding sampleEdited_def by (rule edited_read)

lemma default_series: "normalizeThinkingCapabilitySeries DEFAULT_SERIES_ID = DEFAULT_SERIES_ID" "seriesId DEFAULT_SERIES_ID"
  by (simp_all add: seriesId_def normalizeThinkingCapabilitySeries_def SERIES_ID_ALIASES_def DEFAULT_SERIES_ID_def trimmed_ascii visible_def)

lemma default_preset:
  "resolveThinkingSeriesPreset DEFAULT_SERIES_ID = discretePreset DEFAULT_SERIES_ID labelSixLevels hintSixLevels ControlDiscrete
     [codeNone, codeMinimal, codeLow, codeMedium, codeHigh, createCodeValue ''xhigh'' labelXhigh] codeMedium"
  by (simp add: resolveThinkingSeriesPreset_def default_series) (simp add: presetById_def THINKING_SERIES_PRESETS_def DEFAULT_SERIES_ID_def
      discretePreset_def)

lemma sample_levels: "normalizeLegacyLevelsFromRecord sampleLegacy = [LevelOff, LevelLow, LevelHigh]"
  by (simp add: normalizeLegacyLevelsFromRecord_def sampleLegacy_def normalizePositiveThinkingLevelIntent_def List.map_filter_simps
      THINKING_LEVEL_ORDER_def POSITIVE_THINKING_LEVEL_ORDER_def)

lemma sample_template:
  "nd_series sampleEdited = DEFAULT_SERIES_ID"
  "nd_template sampleEdited = template EditorDiscrete codeHigh [codeNone, codeLow, codeHigh] None"
proof -
  let ?p = "resolveThinkingSeriesPreset DEFAULT_SERIES_ID"
  have h: "hydrateThinkingSeriesTemplate sampleLegacy ?p DEFAULT_SERIES_ID = template EditorDiscrete codeHigh [codeNone, codeLow, codeHigh] None"
    unfolding hydrateThinkingSeriesTemplate_def hydrateDiscrete_def sample_levels Let_def
    by (simp add: default_preset preset_values discreteCodes_def getDiscreteCodeValues_def levelOfValue_def mapSeriesCodeToLegacyLevelT_def
        sampleLegacy_def THINKING_LEVEL_ORDER_def POSITIVE_THINKING_LEVEL_ORDER_def nullishOr_def firstGiven_def template_def)
  have "normalCodes DEFAULT_SERIES_ID [codeNone, codeLow, codeHigh] \<and> normalCode DEFAULT_SERIES_ID codeHigh"
    by (simp add: normalCodes_def preset_values normalizedCodeValue_def normalizeSeriesCode_def default_series
        UNIFIED_4_LEVEL_CODE_LABELS_def Let_def)
  then have "normalizeThinkingSeriesTemplate (Some (templateJson (template EditorDiscrete codeHigh [codeNone, codeLow, codeHigh] None))) ?p
      DEFAULT_SERIES_ID = template EditorDiscrete codeHigh [codeNone, codeLow, codeHigh] None"
    by (intro discrete_once default_series)
      (auto simp: template_def allowedCodes_def defaultCode_def sameCode_def preset_values)
  then show "nd_series sampleEdited = DEFAULT_SERIES_ID"
    and "nd_template sampleEdited = template EditorDiscrete codeHigh [codeNone, codeLow, codeHigh] None"
    using h by (simp_all add: sampleEdited_def initializeSupportedThinkingCapabilityDeclaration_def
        normalizeThinkingCapabilityDeclaration_def sampleLegacy_def buildSupportedDeclaration_def default_series Let_def)
qed

lemma sample_codes:
  "sp_editorType (resolveThinkingSeriesPreset (nd_series sampleEdited)) = EditorDiscrete"
  "seriesCodes (nd_series sampleEdited) = {''none'', ''minimal'', ''low'', ''medium'', ''high'', ''xhigh''}"
  "normalizeSeriesCode (nd_series sampleEdited) ''low'' = ''low''"
  "offeredCodes (nd_template sampleEdited) = {''none'', ''low'', ''high''}"
  by (simp_all add: sample_template default_preset preset_values seriesCodes_def offeredCodes_def codesOf_def discreteCodes_def
      getDiscreteCodeValues_def template_def List.map_filter_simps normalizeSeriesCode_def default_series Let_def)

theorem declarations_survive_storage_witness:
  "normalizeThinkingCapabilityDeclaration (Some (normalizedJson
     (toggleThinkingCapabilityDeclarationCodeValue (Some (normalizedJson sampleEdited)) ''low''))) =
   Some (Supported (toggleThinkingCapabilityDeclarationCodeValue (Some (normalizedJson sampleEdited)) ''low''))"
  using declarations_survive_storage [OF edited_toggle [OF sample_edited]] by blast

theorem edited_template_ok_witness:
  "templateOk (nd_template (setThinkingCapabilityDeclarationBudgetTokens (Some (normalizedJson sampleEdited)) (5000 / 3)))"
  by (rule edited_template_ok [OF edited_tokens [OF sample_edited]])

theorem toggle_refines_sets_witness:
  "offeredCodes (nd_template (toggleThinkingCapabilityDeclarationCodeValue (Some (normalizedJson sampleEdited)) ''low'')) =
     {''none'', ''high''}"
proof -
  have flip: "flipCode {''none'', ''minimal'', ''low'', ''medium'', ''high'', ''xhigh''} ''low'' {''none'', ''low'', ''high''} = {''none'', ''high''}"
    by (simp add: flipCode_def insert_Diff_if)
  note toggled = toggle_refines_sets [OF sample_edited sample_codes(1), of "''low''", unfolded sample_codes flip]
  show ?thesis by (rule toggled [THEN conjunct1])
qed

definition sampleBudget :: budget_template where
  "sampleBudget = \<lparr>bt_minTokens = 100, bt_maxTokens = 1000, bt_stepTokens = 64, bt_anchorTokens = []\<rparr>"

lemma sample_clamped: "clampBudgetTokens (of_int 990) sampleBudget = 996"
proof -
  have "jsRound (of_int 890 / of_int 64) = 14" unfolding jsRound_def by (simp add: floor_eq_iff)
  then show ?thesis unfolding clampBudgetTokens_def jsTrunc_of_int by (simp add: sampleBudget_def)
qed

theorem clamped_budget_witness:
  "clampBudgetTokens (of_int 990) sampleBudget = 996 \<and> 2 * \<bar>clampBudgetTokens (of_int 990) sampleBudget - 990\<bar> \<le> 64"
proof -
  have "bt_minTokens sampleBudget = 100" "bt_maxTokens sampleBudget = 1000" "bt_stepTokens sampleBudget = 64"
    by (simp_all add: sampleBudget_def)
  then show ?thesis using clamped_budget [of sampleBudget 990] sample_clamped by simp
qed

theorem resolved_levels_witness:
  "(case resolveThinkingLevelIntent (resolveThinkingCapability (Some (normalizedJson sampleEdited))) (Some LevelXhigh) of
      None \<Rightarrow> True
    | Some l \<Rightarrow> l \<in> set (rz_levels (resolveThinkingCapability (Some (normalizedJson sampleEdited)))))"
proof -
  have "st_editorType (nd_template sampleEdited) \<noteq> Some EditorBudget" by (simp add: sample_template template_def)
  then show ?thesis using resolved_levels [OF sample_edited, of "Some LevelXhigh"] by blast
qed

end
