(* ===== verification/Provider_Profiles.thy ===== *)
theory Provider_Profiles
  imports Settings_Policy Thinking_Capabilities
begin

text \<open>
  The profiles of model providers: \<open>electron/settings-workspace/provider-schema.ts\<close>. A stored profile is read from a JSON document
  (\<open>normalizeStoredProviderProfiles\<close>), shown to the user as an editable profile and projected back when the form is saved.
  The provider catalog is an argument; the initial profiles of \<open>config.ts\<close> are the empty list. A value with a type that is
  read again as \<open>unknown\<close> is given as its JSON value.
\<close>

section \<open>Data\<close>

record model_entry =
  pm_id :: string
  pm_modelId :: string
  pm_displayName :: string
  pm_groupName :: string
  pm_capabilities :: "string list"
  pm_thinkingCapability :: "json option"
  pm_supportsStreaming :: bool
  pm_currency :: string
  pm_inputPrice :: string
  pm_outputPrice :: string

record profile_compatibility =
  pk_status :: compatibility_status
  pk_reason :: string

record stored_profile =
  spf_profileId :: string
  spf_providerId :: string
  spf_displayName :: string
  spf_baseUrl :: string
  spf_models :: "model_entry list"
  spf_compatibility :: profile_compatibility
  spf_extensions :: jrecord

record editable_profile =
  epf_id :: string
  epf_profileId :: "string option"
  epf_providerId :: "string option"
  epf_name :: string
  epf_displayName :: "string option"
  epf_protocol :: string
  epf_endpoint :: string
  epf_baseUrl :: "string option"
  epf_hasApiKey :: bool
  epf_fastModel :: string
  epf_fallbackModel :: string
  epf_organization :: string
  epf_region :: string
  epf_notes :: string
  epf_compatibility :: "profile_compatibility option"
  epf_extensions :: "jrecord option"
  epf_availableModels :: "model_entry list"

fun compatibilityText :: "compatibility_status \<Rightarrow> string" where
  "compatibilityText CompatActive = ''active''"
| "compatibilityText CompatLegacy = ''legacy''"
| "compatibilityText CompatUnsupported = ''unsupported''"

text \<open>The values as \<open>JSON.stringify\<close> writes them, with the fields in the order of the object literals.\<close>

definition modelEntryJson :: "model_entry \<Rightarrow> json" where
  "modelEntryJson m = JObj
     ([(''id'', JStr (pm_id m)), (''modelId'', JStr (pm_modelId m)), (''displayName'', JStr (pm_displayName m)),
       (''groupName'', JStr (pm_groupName m)), (''capabilities'', JArr (map JStr (pm_capabilities m)))] @
      optProp ''thinkingCapability'' (\<lambda>t. t) (pm_thinkingCapability m) @
      [(''supportsStreaming'', JBool (pm_supportsStreaming m)), (''currency'', JStr (pm_currency m)),
       (''inputPrice'', JStr (pm_inputPrice m)), (''outputPrice'', JStr (pm_outputPrice m))])"

definition compatibilityJson :: "profile_compatibility \<Rightarrow> json" where
  "compatibilityJson c = JObj [(''status'', JStr (compatibilityText (pk_status c))), (''reason'', JStr (pk_reason c))]"

definition storedProfileJson :: "stored_profile \<Rightarrow> json" where
  "storedProfileJson p = JObj
     [(''profileId'', JStr (spf_profileId p)), (''providerId'', JStr (spf_providerId p)),
      (''displayName'', JStr (spf_displayName p)), (''baseUrl'', JStr (spf_baseUrl p)),
      (''models'', JArr (map modelEntryJson (spf_models p))), (''compatibility'', compatibilityJson (spf_compatibility p)),
      (''extensions'', JObj (spf_extensions p))]"

section \<open>Extensions\<close>

text \<open>An entry is kept under its trimmed key when it is a string that is not blank, a number, a boolean or \<open>null\<close>.\<close>

fun keepExtension :: "string \<times> json \<Rightarrow> jrecord \<Rightarrow> jrecord" where
  "keepExtension (key, v) kept =
     (let normalizedKey = normalizeNonEmptyString (Some (JStr key)) [] in
      if normalizedKey = [] then kept
      else case v of
        JStr s \<Rightarrow> if trim s = [] then kept else setProp normalizedKey (JStr (trim s)) kept
      | JNum _ \<Rightarrow> setProp normalizedKey v kept
      | JBool _ \<Rightarrow> setProp normalizedKey v kept
      | JNull \<Rightarrow> setProp normalizedKey v kept
      | _ \<Rightarrow> kept)"

definition normalizeProviderProfileExtensions :: "json option \<Rightarrow> jrecord" where
  "normalizeProviderProfileExtensions v = fold keepExtension (asRecordS v) []"

definition cloneProviderProfileExtensions :: "jrecord \<Rightarrow> jrecord" where
  "cloneProviderProfileExtensions extensions = spreadInto [] extensions"

definition getProviderProfileExtensionString :: "jrecord \<Rightarrow> string \<Rightarrow> string" where
  "getProviderProfileExtensionString extensions key = (case prop_of extensions key of Some (JStr s) \<Rightarrow> s | _ \<Rightarrow> [])"

definition buildLegacyProviderProfileExtensionPatch :: "editable_profile \<Rightarrow> string \<Rightarrow> jrecord" where
  "buildLegacyProviderProfileExtensionPatch p providerId =
     (let protocol = normalizeProviderCatalogIdentifier (epf_protocol p) in
      normalizeProviderProfileExtensions (Some (JObj
        ([(''fastModel'', JStr (epf_fastModel p)), (''fallbackModel'', JStr (epf_fallbackModel p)),
          (''organization'', JStr (epf_organization p)), (''region'', JStr (epf_region p)), (''notes'', JStr (epf_notes p))] @
         (if protocol \<noteq> [] \<and> protocol \<noteq> providerId then [(''legacyProtocol'', JStr protocol)] else [])))))"

section \<open>The identity of the provider\<close>

definition resolveStoredProviderId :: "provider_catalog \<Rightarrow> string option \<Rightarrow> string option \<Rightarrow> string \<Rightarrow> string" where
  "resolveStoredProviderId catalog providerId protocol profileId =
     (let directProviderId = normalizeProviderCatalogIdentifier (case providerId of None \<Rightarrow> [] | Some s \<Rightarrow> s);
          protocolProviderId = normalizeProviderCatalogIdentifier (case protocol of None \<Rightarrow> [] | Some s \<Rightarrow> s);
          canonical = (\<lambda>i. case getProviderCatalogEntry catalog i of None \<Rightarrow> i | Some e \<Rightarrow> ce_providerId e)
      in if directProviderId \<noteq> [] then canonical directProviderId
         else if protocolProviderId \<noteq> [] then canonical protocolProviderId
         else let fallbackProfileId = normalizeProviderCatalogIdentifier profileId in
           if fallbackProfileId \<noteq> [] then fallbackProfileId else ''unknown-provider'')"

definition quoteMark :: string where
  "quoteMark = [CHR 0x27]"

definition compatibilityStatuses :: "(string \<times> compatibility_status) list" where
  "compatibilityStatuses = [(''active'', CompatActive), (''legacy'', CompatLegacy), (''unsupported'', CompatUnsupported)]"

definition normalizeStoredProviderCompatibility :: "provider_catalog \<Rightarrow> json option \<Rightarrow> string \<Rightarrow> profile_compatibility" where
  "normalizeStoredProviderCompatibility catalog v providerId =
     (let r = asRecordS v;
          status = normalizeNonEmptyString (prop_of r ''status'') [];
          reason = normalizeString (prop_of r ''reason'') []
      in case map_of compatibilityStatuses status of
           Some s \<Rightarrow> \<lparr>pk_status = s, pk_reason = reason\<rparr>
         | None \<Rightarrow>
             (case getProviderCatalogEntry catalog providerId of
                None \<Rightarrow> \<lparr>pk_status = CompatUnsupported, pk_reason = ''Provider '' @ quoteMark @ providerId @ quoteMark @
                          '' is not defined in the current provider catalog.''\<rparr>
              | Some e \<Rightarrow>
                  if ce_runtimeStatus e = StatusLegacyUnsupported
                  then \<lparr>pk_status = CompatLegacy, pk_reason = ''Provider '' @ quoteMark @ ce_providerId e @ quoteMark @
                          '' is marked as legacy / unsupported in the provider catalog.''\<rparr>
                  else \<lparr>pk_status = CompatActive, pk_reason = []\<rparr>))"

definition cloneStoredProviderCompatibility :: "profile_compatibility \<Rightarrow> profile_compatibility" where
  "cloneStoredProviderCompatibility c = \<lparr>pk_status = pk_status c, pk_reason = pk_reason c\<rparr>"

section \<open>Models\<close>

definition modelCapabilities :: "string list" where
  "modelCapabilities = [''vision'', ''search'', ''reasoning'', ''tools'', ''rerank'', ''embedding'']"

fun normalizeModelCapabilities :: "json option \<Rightarrow> string list" where
  "normalizeModelCapabilities (Some (JArr xs)) =
     (let capabilities = filter (\<lambda>c. c \<in> set modelCapabilities) (map (\<lambda>x. normalizeNonEmptyString (Some x) []) xs)
      in if capabilities \<noteq> [] then uniqueFrom [] capabilities else [''reasoning''])"
| "normalizeModelCapabilities _ = [''reasoning'']"

definition normalizeProviderModelProfile :: "json \<Rightarrow> string \<Rightarrow> nat \<Rightarrow> model_entry option" where
  "normalizeProviderModelProfile v profileId index =
     (let r = asRecordS (Some v); modelId = normalizeNonEmptyString (prop_of r ''modelId'') [] in
      if modelId = [] then None
      else Some
        \<lparr>pm_id = normalizeNonEmptyString (prop_of r ''id'') (profileId @ ''-model-'' @ natString (index + 1)),
         pm_modelId = modelId,
         pm_displayName = normalizeNonEmptyString (prop_of r ''displayName'') modelId,
         pm_groupName = normalizeNonEmptyString (prop_of r ''groupName'') profileId,
         pm_capabilities = normalizeModelCapabilities (prop_of r ''capabilities''),
         pm_thinkingCapability =
           map_option declarationJson (normalizeThinkingCapabilityDeclaration (prop_of r ''thinkingCapability'')),
         pm_supportsStreaming = normalizeBoolean (prop_of r ''supportsStreaming'') True,
         pm_currency = normalizeNonEmptyString (prop_of r ''currency'') ''usd'',
         pm_inputPrice = normalizeNonEmptyString (prop_of r ''inputPrice'') ''0.50'',
         pm_outputPrice = normalizeNonEmptyString (prop_of r ''outputPrice'') ''3.00''\<rparr>)"

fun normalizeProviderModelProfiles :: "json option \<Rightarrow> string \<Rightarrow> model_entry list" where
  "normalizeProviderModelProfiles (Some (JArr xs)) profileId =
     List.map_filter (\<lambda>(index, x). normalizeProviderModelProfile x profileId index) (enumerate 0 xs)"
| "normalizeProviderModelProfiles _ profileId = []"

definition cloneProviderModelProfile :: "model_entry \<Rightarrow> model_entry" where
  "cloneProviderModelProfile m =
     m\<lparr>pm_capabilities := pm_capabilities m,
       pm_thinkingCapability := cloneThinkingCapabilityDeclaration (pm_thinkingCapability m)\<rparr>"

definition createPlaceholderProviderModelProfile :: "string \<Rightarrow> string \<Rightarrow> string \<Rightarrow> nat \<Rightarrow> model_entry" where
  "createPlaceholderProviderModelProfile profileId displayName modelId index =
     \<lparr>pm_id = profileId @ ''-migrated-model-'' @ natString (index + 1), pm_modelId = modelId, pm_displayName = modelId,
      pm_groupName = displayName, pm_capabilities = [''reasoning''], pm_thinkingCapability = None,
      pm_supportsStreaming = True, pm_currency = ''usd'', pm_inputPrice = ''0.50'', pm_outputPrice = ''3.00''\<rparr>"

text \<open>The models that the extensions name are added when they are missing; the state of the loop is the list and the known names.\<close>

definition trackModel :: "string \<Rightarrow> string \<Rightarrow> nat \<times> string \<Rightarrow> model_entry list \<times> string list \<Rightarrow> model_entry list \<times> string list" where
  "trackModel profileId displayName = (\<lambda>(index, modelId) (models, known).
     let normalizedModelId = normalizeNonEmptyString (Some (JStr modelId)) [] in
     if normalizedModelId = [] \<or> normalizedModelId \<in> set known then (models, known)
     else (models @ [createPlaceholderProviderModelProfile profileId displayName normalizedModelId index],
           known @ [normalizedModelId]))"

definition knownModelIds :: "model_entry list \<Rightarrow> string list" where
  "knownModelIds models =
     uniqueFrom [] (filter (\<lambda>s. s \<noteq> []) (map (\<lambda>m. normalizeNonEmptyString (Some (JStr (pm_modelId m))) []) models))"

definition ensureTrackedModels :: "model_entry list \<Rightarrow> string \<Rightarrow> string \<Rightarrow> string list \<Rightarrow> model_entry list" where
  "ensureTrackedModels models profileId displayName trackedModelIds =
     (let normalizedModels = map cloneProviderModelProfile models
      in fst (fold (trackModel profileId displayName) (enumerate 0 trackedModelIds)
           (normalizedModels, knownModelIds normalizedModels)))"

definition trackedModelsOf :: "jrecord \<Rightarrow> string list" where
  "trackedModelsOf extensions =
     [getProviderProfileExtensionString extensions ''fastModel'', getProviderProfileExtensionString extensions ''fallbackModel'']"

section \<open>Profiles\<close>

text \<open>The profile that the legacy fields of a stored record describe.\<close>

definition legacyProfile :: "jrecord \<Rightarrow> string \<Rightarrow> string \<Rightarrow> string \<Rightarrow> string \<Rightarrow> editable_profile" where
  "legacyProfile r profileId providerId displayName baseUrl =
     \<lparr>epf_id = profileId, epf_profileId = Some profileId, epf_providerId = Some providerId, epf_name = displayName,
      epf_displayName = Some displayName, epf_protocol = normalizeString (prop_of r ''protocol'') providerId,
      epf_endpoint = baseUrl, epf_baseUrl = Some baseUrl, epf_hasApiKey = False,
      epf_fastModel = normalizeString (prop_of r ''fastModel'') [],
      epf_fallbackModel = normalizeString (prop_of r ''fallbackModel'') [],
      epf_organization = normalizeString (prop_of r ''organization'') [],
      epf_region = normalizeString (prop_of r ''region'') [], epf_notes = normalizeString (prop_of r ''notes'') [],
      epf_compatibility = None, epf_extensions = None, epf_availableModels = []\<rparr>"

definition normalizeStoredProviderProfile :: "provider_catalog \<Rightarrow> json \<Rightarrow> nat \<Rightarrow> stored_profile option" where
  "normalizeStoredProviderProfile catalog v index =
     (let r = asRecordS (Some v);
          profileId = normalizeNonEmptyString (prop_of r ''profileId'')
            (normalizeNonEmptyString (prop_of r ''id'') (''provider-'' @ natString (index + 1)))
      in if profileId = [] then None
         else
           (let providerId = resolveStoredProviderId catalog (Some (normalizeString (prop_of r ''providerId'') []))
                  (Some (normalizeString (prop_of r ''protocol'') [])) profileId;
                displayName = normalizeNonEmptyString (prop_of r ''displayName'')
                  (normalizeNonEmptyString (prop_of r ''name'') (''Provider '' @ natString (index + 1)));
                baseUrl = normalizeString (prop_of r ''baseUrl'') (normalizeString (prop_of r ''endpoint'') []);
                extensions = normalizeProviderProfileExtensions (Some (JObj
                  (spreadInto (spreadInto [] (asRecordS (prop_of r ''extensions'')))
                     (buildLegacyProviderProfileExtensionPatch (legacyProfile r profileId providerId displayName baseUrl) providerId))));
                rawModels = normalizeProviderModelProfiles
                  (case prop_of r ''models'' of Some (JArr xs) \<Rightarrow> Some (JArr xs) | _ \<Rightarrow> prop_of r ''availableModels'') profileId
            in Some
              \<lparr>spf_profileId = profileId, spf_providerId = providerId, spf_displayName = displayName, spf_baseUrl = baseUrl,
               spf_models = ensureTrackedModels rawModels profileId displayName (trackedModelsOf extensions),
               spf_compatibility = normalizeStoredProviderCompatibility catalog (prop_of r ''compatibility'') providerId,
               spf_extensions = extensions\<rparr>))"

definition createDefaultStoredProviderProfiles :: "stored_profile list" where
  "createDefaultStoredProviderProfiles = []"

fun normalizeStoredProviderProfiles :: "provider_catalog \<Rightarrow> json option \<Rightarrow> stored_profile list" where
  "normalizeStoredProviderProfiles catalog (Some (JArr xs)) =
     (let normalizedProfiles =
        List.map_filter (\<lambda>(index, x). normalizeStoredProviderProfile catalog x index) (enumerate 0 xs)
      in if normalizedProfiles \<noteq> [] then normalizedProfiles else createDefaultStoredProviderProfiles)"
| "normalizeStoredProviderProfiles catalog _ = createDefaultStoredProviderProfiles"

definition projectStoredProviderProfile :: "provider_catalog \<Rightarrow> editable_profile \<Rightarrow> stored_profile" where
  "projectStoredProviderProfile catalog p =
     (let profileId = normalizeNonEmptyString (map_option JStr (epf_profileId p)) (epf_id p);
          providerId = resolveStoredProviderId catalog (epf_providerId p) (Some (epf_protocol p)) profileId;
          displayName = normalizeNonEmptyString (Some (JStr (epf_name p)))
            (normalizeNonEmptyString (map_option JStr (epf_displayName p)) (epf_name p));
          extensions = normalizeProviderProfileExtensions (Some (JObj
            (spreadInto (spreadInto [] (case epf_extensions p of None \<Rightarrow> [] | Some x \<Rightarrow> x))
               (buildLegacyProviderProfileExtensionPatch p providerId))))
      in \<lparr>spf_profileId = profileId, spf_providerId = providerId, spf_displayName = displayName,
          spf_baseUrl = normalizeString (map_option JStr (epf_baseUrl p)) (epf_endpoint p),
          spf_models = ensureTrackedModels
            (normalizeProviderModelProfiles (Some (JArr (map modelEntryJson (epf_availableModels p)))) profileId)
            profileId displayName (trackedModelsOf extensions),
          spf_compatibility = normalizeStoredProviderCompatibility catalog (map_option compatibilityJson (epf_compatibility p)) providerId,
          spf_extensions = extensions\<rparr>)"

definition projectEditableProviderProfile :: "stored_profile \<Rightarrow> bool \<Rightarrow> editable_profile" where
  "projectEditableProviderProfile p hasApiKey =
     (let x = spf_extensions p;
          legacyProtocol = getProviderProfileExtensionString x ''legacyProtocol'';
          protocol = (if legacyProtocol \<noteq> [] then legacyProtocol else spf_providerId p)
      in \<lparr>epf_id = spf_profileId p, epf_profileId = Some (spf_profileId p), epf_providerId = Some (spf_providerId p),
          epf_name = spf_displayName p, epf_displayName = Some (spf_displayName p), epf_protocol = protocol,
          epf_endpoint = spf_baseUrl p, epf_baseUrl = Some (spf_baseUrl p), epf_hasApiKey = hasApiKey,
          epf_fastModel = getProviderProfileExtensionString x ''fastModel'',
          epf_fallbackModel = getProviderProfileExtensionString x ''fallbackModel'',
          epf_organization = getProviderProfileExtensionString x ''organization'',
          epf_region = getProviderProfileExtensionString x ''region'', epf_notes = getProviderProfileExtensionString x ''notes'',
          epf_compatibility = Some (cloneStoredProviderCompatibility (spf_compatibility p)),
          epf_extensions = Some (cloneProviderProfileExtensions x),
          epf_availableModels = map cloneProviderModelProfile (spf_models p)\<rparr>)"

definition cloneStoredProviderProfile :: "stored_profile \<Rightarrow> stored_profile" where
  "cloneStoredProviderProfile p =
     p\<lparr>spf_models := map cloneProviderModelProfile (spf_models p),
       spf_compatibility := cloneStoredProviderCompatibility (spf_compatibility p),
       spf_extensions := cloneProviderProfileExtensions (spf_extensions p)\<rparr>"

end
