(* ===== verification/Settings_Documents.thy ===== *)
theory Settings_Documents
  imports Provider_Profiles Wire_Laws
begin

text \<open>
  The two documents of the settings workspace: the rest of \<open>electron/settings-workspace/state-schema.ts\<close> (the values of the settings,
  without the tool permission policy, which is in \<open>Settings_Policy\<close>), \<open>secret-schema.ts\<close> and \<open>settings-workspace-serialization.ts\<close>.
  The groups \<open>general\<close>, \<open>api\<close>, \<open>docs\<close> and \<open>externalSource\<close>, which the code normalises field by field over the defaults, are records of
  JSON values, as in the code. The identifiers of profiles are not names of properties that every object has.
\<close>

section \<open>Groups of settings\<close>

definition normalizeStringGroup :: "json option \<Rightarrow> (string \<times> string) list \<Rightarrow> jrecord" where
  "normalizeStringGroup v defaults =
     (let r = asRecordS v in
      fromEntries (map (\<lambda>(key, fallback). (key, JStr (normalizeNonEmptyString (prop_of r key) fallback))) defaults))"

datatype group_default = FlagDefault bool | TextDefault string

definition normalizeBooleanStringGroup :: "json option \<Rightarrow> (string \<times> group_default) list \<Rightarrow> jrecord" where
  "normalizeBooleanStringGroup v defaults =
     (let r = asRecordS v in
      fromEntries (map (\<lambda>(key, d). (key, case d of
          FlagDefault b \<Rightarrow> JBool (normalizeBoolean (prop_of r key) b)
        | TextDefault s \<Rightarrow> JStr (normalizeNonEmptyString (prop_of r key) s))) defaults))"

definition defaultGeneral :: "(string \<times> group_default) list" where
  "defaultGeneral = [(''language'', TextDefault ''zh-CN''), (''assistantNotificationsEnabled'', FlagDefault False)]"

definition defaultApi :: "(string \<times> group_default) list" where
  "defaultApi = [(''apiReconnectMode'', TextDefault ''exponential''), (''healthPollingEnabled'', FlagDefault True),
     (''apiBaseUrl'', TextDefault ''http://127.0.0.1:8000'')]"

definition defaultDocs :: "(string \<times> string) list" where
  "defaultDocs = [(''docsFormat'', ''markdown'')]"

definition defaultExternalSource :: "(string \<times> string) list" where
  "defaultExternalSource = [(''wakeupShareLink'', [])]"

section \<open>The account of the university\<close>

record sustech_settings =
  su_studentId :: string
  su_email :: string
  su_blackboardCurrentTermOnly :: bool
  su_blackboardParallelSyncWorkers :: string
  su_blackboardSyncInterval :: string
  su_blackboardLastAutoSyncAt :: "string option"
  su_blackboardNextAutoSyncAt :: "string option"

definition defaultSustech :: sustech_settings where
  "defaultSustech =
     \<lparr>su_studentId = [], su_email = [], su_blackboardCurrentTermOnly = False, su_blackboardParallelSyncWorkers = ''1'',
      su_blackboardSyncInterval = ''off'', su_blackboardLastAutoSyncAt = None, su_blackboardNextAutoSyncAt = None\<rparr>"

text \<open>\<open>Number.parseInt\<close> of a string of decimal digits; a value too large for a double is larger than 6 in any case.\<close>

definition isDecimalDigit :: "char \<Rightarrow> bool" where
  "isDecimalDigit c \<longleftrightarrow> (let n = (of_char c :: nat) in 48 \<le> n \<and> n \<le> 57)"

definition decimalValue :: "string \<Rightarrow> nat" where
  "decimalValue s = fold (\<lambda>c n. 10 * n + (of_char c - 48)) s 0"

definition normalizeBlackboardParallelSyncWorkers :: "json option \<Rightarrow> string \<Rightarrow> string" where
  "normalizeBlackboardParallelSyncWorkers v fallback =
     (let normalized = normalizeNonEmptyString v [] in
      if normalized = [] \<or> \<not> list_all isDecimalDigit normalized then fallback
      else let parsed = decimalValue normalized in if parsed < 1 \<or> 6 < parsed then fallback else natString parsed)"

definition syncIntervals :: "string list" where
  "syncIntervals = [''off'', ''two_hours'', ''daily'']"

definition normalizeBlackboardSyncInterval :: "json option \<Rightarrow> string \<Rightarrow> string" where
  "normalizeBlackboardSyncInterval v fallback =
     (let normalized = normalizeNonEmptyString v [] in if normalized \<in> set syncIntervals then normalized else fallback)"

fun normalizeNullableString :: "json option \<Rightarrow> string option \<Rightarrow> string option" where
  "normalizeNullableString (Some (JStr s)) fallback = (if trim s = [] then None else Some (trim s))"
| "normalizeNullableString _ fallback = fallback"

definition normalizeSustechState :: "json option \<Rightarrow> sustech_settings \<Rightarrow> sustech_settings" where
  "normalizeSustechState v defaults =
     (let r = asRecordS v in
      \<lparr>su_studentId = normalizeNonEmptyString (prop_of r ''studentId'') (su_studentId defaults),
       su_email = normalizeNonEmptyString (prop_of r ''email'') (su_email defaults),
       su_blackboardCurrentTermOnly = normalizeBoolean (prop_of r ''blackboardCurrentTermOnly'') (su_blackboardCurrentTermOnly defaults),
       su_blackboardParallelSyncWorkers =
         normalizeBlackboardParallelSyncWorkers (prop_of r ''blackboardParallelSyncWorkers'') (su_blackboardParallelSyncWorkers defaults),
       su_blackboardSyncInterval =
         normalizeBlackboardSyncInterval (prop_of r ''blackboardSyncInterval'') (su_blackboardSyncInterval defaults),
       su_blackboardLastAutoSyncAt =
         normalizeNullableString (prop_of r ''blackboardLastAutoSyncAt'') (su_blackboardLastAutoSyncAt defaults),
       su_blackboardNextAutoSyncAt =
         normalizeNullableString (prop_of r ''blackboardNextAutoSyncAt'') (su_blackboardNextAutoSyncAt defaults)\<rparr>)"

section \<open>Default models\<close>

record stored_routing =
  srt_primaryAssistantModel :: "model_route_ref option"
  srt_fastAssistantModel :: "model_route_ref option"

record editable_routing =
  ert_primaryAssistantModel :: string
  ert_fastAssistantModel :: string
  ert_primaryAssistantModelRoute :: "model_route_ref option"
  ert_fastAssistantModelRoute :: "model_route_ref option"

definition cloneModelRouteRef :: "model_route_ref option \<Rightarrow> model_route_ref option" where
  "cloneModelRouteRef routeRef =
     (case routeRef of None \<Rightarrow> None
      | Some r \<Rightarrow> Some \<lparr>rr_routeKind = rr_routeKind r, rr_profileId = rr_profileId r, rr_modelId = rr_modelId r\<rparr>)"

definition profileSupportsModel :: "stored_profile \<Rightarrow> string \<Rightarrow> bool" where
  "profileSupportsModel p modelId \<longleftrightarrow>
     list_ex (\<lambda>m. normalizeNonEmptyString (Some (JStr (pm_modelId m))) [] = modelId) (spf_models p)"

definition normalizeStoredModelRouteRef :: "json option \<Rightarrow> stored_profile list \<Rightarrow> model_route_ref option" where
  "normalizeStoredModelRouteRef v profiles =
     (let r = asRecordS v;
          routeKind = normalizeNonEmptyString (prop_of r ''routeKind'') [];
          profileId = normalizeNonEmptyString (prop_of r ''profileId'') [];
          modelId = normalizeNonEmptyString (prop_of r ''modelId'') []
      in if routeKind \<noteq> ''provider-model'' \<or> profileId = [] \<or> modelId = [] then None
         else case find (\<lambda>p. spf_profileId p = profileId) profiles of
           None \<Rightarrow> None
         | Some p \<Rightarrow>
             if \<not> profileSupportsModel p modelId then None
             else Some \<lparr>rr_routeKind = ProviderModel, rr_profileId = profileId, rr_modelId = modelId\<rparr>)"

definition migrateLegacyDefaultModelRoute :: "string \<Rightarrow> stored_profile list \<Rightarrow> model_route_ref option" where
  "migrateLegacyDefaultModelRoute legacyModelId profiles =
     (let normalizedModelId = normalizeNonEmptyString (Some (JStr legacyModelId)) [] in
      if normalizedModelId = [] then None
      else case filter (\<lambda>p. profileSupportsModel p normalizedModelId) profiles of
        [p] \<Rightarrow> Some \<lparr>rr_routeKind = ProviderModel, rr_profileId = spf_profileId p, rr_modelId = normalizedModelId\<rparr>
      | _ \<Rightarrow> None)"

fun normalizeStoredDefaultModelRoute :: "json option \<Rightarrow> stored_profile list \<Rightarrow> model_route_ref option" where
  "normalizeStoredDefaultModelRoute (Some (JStr s)) profiles = migrateLegacyDefaultModelRoute s profiles"
| "normalizeStoredDefaultModelRoute v profiles = normalizeStoredModelRouteRef v profiles"

definition normalizeStoredDefaultModelRouting :: "json option \<Rightarrow> stored_profile list \<Rightarrow> stored_routing" where
  "normalizeStoredDefaultModelRouting v profiles =
     (let r = asRecordS v in
      \<lparr>srt_primaryAssistantModel = normalizeStoredDefaultModelRoute (prop_of r ''primaryAssistantModel'') profiles,
       srt_fastAssistantModel = normalizeStoredDefaultModelRoute (prop_of r ''fastAssistantModel'') profiles\<rparr>)"

definition cloneStoredDefaultModelRouting :: "stored_routing \<Rightarrow> stored_routing" where
  "cloneStoredDefaultModelRouting routing =
     \<lparr>srt_primaryAssistantModel = cloneModelRouteRef (srt_primaryAssistantModel routing),
      srt_fastAssistantModel = cloneModelRouteRef (srt_fastAssistantModel routing)\<rparr>"

definition routeModelId :: "model_route_ref option \<Rightarrow> string" where
  "routeModelId route = (case route of None \<Rightarrow> [] | Some r \<Rightarrow> rr_modelId r)"

definition projectEditableDefaultModelRouting :: "stored_routing \<Rightarrow> editable_routing" where
  "projectEditableDefaultModelRouting routing =
     \<lparr>ert_primaryAssistantModel = routeModelId (srt_primaryAssistantModel routing),
      ert_fastAssistantModel = routeModelId (srt_fastAssistantModel routing),
      ert_primaryAssistantModelRoute = cloneModelRouteRef (srt_primaryAssistantModel routing),
      ert_fastAssistantModelRoute = cloneModelRouteRef (srt_fastAssistantModel routing)\<rparr>"

section \<open>The values of the settings\<close>

record state_values =
  sv_sustech :: sustech_settings
  sv_providerProfiles :: "stored_profile list"
  sv_defaultModelRouting :: stored_routing
  sv_general :: jrecord
  sv_mcp :: mcp_settings
  sv_api :: jrecord
  sv_docs :: jrecord
  sv_externalSource :: jrecord

record editable_state =
  es_sustech :: sustech_settings
  es_providerProfiles :: "editable_profile list"
  es_defaultModelRouting :: editable_routing
  es_general :: jrecord
  es_mcp :: mcp_settings
  es_api :: jrecord
  es_docs :: jrecord
  es_externalSource :: jrecord

definition normalizeSettingsWorkspaceStateValues :: "provider_catalog \<Rightarrow> json option \<Rightarrow> state_values" where
  "normalizeSettingsWorkspaceStateValues catalog v =
     (let r = asRecordS v;
          providerProfiles = normalizeStoredProviderProfiles catalog (prop_of r ''providerProfiles'')
      in \<lparr>sv_sustech = normalizeSustechState (prop_of r ''sustech'') defaultSustech,
          sv_providerProfiles = providerProfiles,
          sv_defaultModelRouting = normalizeStoredDefaultModelRouting (prop_of r ''defaultModelRouting'') providerProfiles,
          sv_general = normalizeBooleanStringGroup (prop_of r ''general'') defaultGeneral,
          sv_mcp = normalizeMcpState (prop_of r ''mcp'') defaultMcpSettings,
          sv_api = normalizeBooleanStringGroup (prop_of r ''api'') defaultApi,
          sv_docs = normalizeStringGroup (prop_of r ''docs'') defaultDocs,
          sv_externalSource = normalizeStringGroup (prop_of r ''externalSource'') defaultExternalSource\<rparr>)"

definition cloneSettingsWorkspaceStateValues :: "state_values \<Rightarrow> state_values" where
  "cloneSettingsWorkspaceStateValues values =
     \<lparr>sv_sustech = sv_sustech values,
      sv_providerProfiles = map cloneStoredProviderProfile (sv_providerProfiles values),
      sv_defaultModelRouting = cloneStoredDefaultModelRouting (sv_defaultModelRouting values),
      sv_general = spreadInto [] (sv_general values),
      sv_mcp = \<lparr>ms_mcpAutoDiscoveryEnabled = ms_mcpAutoDiscoveryEnabled (sv_mcp values),
        ms_toolPermissionMode = ms_toolPermissionMode (sv_mcp values),
        ms_toolPermissionPolicy = cloneToolPermissionPolicyState (ms_toolPermissionPolicy (sv_mcp values))\<rparr>,
      sv_api = spreadInto [] (sv_api values), sv_docs = spreadInto [] (sv_docs values),
      sv_externalSource = spreadInto [] (sv_externalSource values)\<rparr>"

definition groupDefaults :: "(string \<times> group_default) list \<Rightarrow> jrecord" where
  "groupDefaults defaults = map (\<lambda>(key, d). (key, case d of FlagDefault b \<Rightarrow> JBool b | TextDefault s \<Rightarrow> JStr s)) defaults"

definition defaultStateValues :: state_values where
  "defaultStateValues =
     \<lparr>sv_sustech = defaultSustech, sv_providerProfiles = createDefaultStoredProviderProfiles,
      sv_defaultModelRouting = \<lparr>srt_primaryAssistantModel = None, srt_fastAssistantModel = None\<rparr>,
      sv_general = groupDefaults defaultGeneral, sv_mcp = defaultMcpSettings, sv_api = groupDefaults defaultApi,
      sv_docs = map (\<lambda>(key, s). (key, JStr s)) defaultDocs,
      sv_externalSource = map (\<lambda>(key, s). (key, JStr s)) defaultExternalSource\<rparr>"

definition createDefaultSettingsWorkspaceStateValues :: state_values where
  "createDefaultSettingsWorkspaceStateValues = cloneSettingsWorkspaceStateValues defaultStateValues"

text \<open>The state document: version and kind are constants, so that the values are what it holds.\<close>

definition createSettingsWorkspaceStateDocument :: "state_values \<Rightarrow> state_values" where
  "createSettingsWorkspaceStateDocument values = cloneSettingsWorkspaceStateValues values"

definition createDefaultSettingsWorkspaceStateDocument :: state_values where
  "createDefaultSettingsWorkspaceStateDocument =
     createSettingsWorkspaceStateDocument createDefaultSettingsWorkspaceStateValues"

definition normalizeSettingsWorkspaceStateDocument :: "provider_catalog \<Rightarrow> json option \<Rightarrow> state_values" where
  "normalizeSettingsWorkspaceStateDocument catalog v =
     createSettingsWorkspaceStateDocument (normalizeSettingsWorkspaceStateValues catalog (prop_of (asRecordS v) ''values''))"

section \<open>Secrets\<close>

record secret_record =
  sec_profileId :: string
  sec_authKind :: string
  sec_secretValues :: "(string \<times> string) list"

record secret_values =
  sev_providerSecrets :: "(string \<times> secret_record) list"
  sev_casPassword :: string

record provider_secret_state =
  pss_hasApiKey :: bool
  pss_apiKey :: string

record cas_secret_state =
  css_hasPassword :: bool
  css_password :: string

definition normalizeProviderSecretValues :: "json option \<Rightarrow> (string \<times> string) list" where
  "normalizeProviderSecretValues v =
     fromEntries (concat (map (\<lambda>(key, x).
       let normalizedKey = normalizeNonEmptyString (Some (JStr key)) []; normalizedValue = normalizeNonEmptyString (Some x) [] in
       if normalizedKey = [] \<or> normalizedValue = [] then [] else [(normalizedKey, normalizedValue)]) (asRecordS v)))"

definition normalizeProviderSecretRecord :: "json \<Rightarrow> string \<Rightarrow> secret_record option" where
  "normalizeProviderSecretRecord v fallbackProfileId =
     (let r = asRecordS (Some v);
          profileId = normalizeNonEmptyString (prop_of r ''profileId'') (normalizeNonEmptyString (Some (JStr fallbackProfileId)) [])
      in if profileId = [] then None
         else
           (let hasLegacyApiKeyField = (case prop_of r ''apiKey'' of Some (JStr _) \<Rightarrow> True | _ \<Rightarrow> False);
                secretValues = normalizeProviderSecretValues
                  (case prop_of r ''secretValues'' of
                     Some x \<Rightarrow> Some x
                   | None \<Rightarrow> Some (JObj (optProp ''apiKey'' (\<lambda>x. x) (prop_of r ''apiKey''))));
                authKind = normalizeNonEmptyString (prop_of r ''authKind'')
                  (if hasLegacyApiKeyField \<or> map_of secretValues ''apiKey'' \<noteq> None then ''api-key'' else ''none'')
            in if secretValues = [] then None
               else Some \<lparr>sec_profileId = profileId, sec_authKind = authKind, sec_secretValues = secretValues\<rparr>))"

definition secretRecordJson :: "secret_record \<Rightarrow> json" where
  "secretRecordJson s = JObj [(''profileId'', JStr (sec_profileId s)), (''authKind'', JStr (sec_authKind s)),
     (''secretValues'', JObj (map (\<lambda>(k, x). (k, JStr x)) (sec_secretValues s)))]"

text \<open>\<open>Object.fromEntries(Object.entries(secrets).flatMap(...))\<close>, the same in both functions below.\<close>

definition normalizedSecrets :: "jrecord \<Rightarrow> (string \<times> secret_record) list" where
  "normalizedSecrets secrets =
     fromEntries (concat (map (\<lambda>(profileId, secret).
       case normalizeProviderSecretRecord secret profileId of None \<Rightarrow> [] | Some s \<Rightarrow> [(sec_profileId s, s)]) secrets))"

text \<open>The secrets document, whose version and kind are constants too.\<close>

definition createSettingsWorkspaceSecretsDocument :: "secret_values \<Rightarrow> secret_values" where
  "createSettingsWorkspaceSecretsDocument values =
     \<lparr>sev_providerSecrets = normalizedSecrets (map (\<lambda>(profileId, s). (profileId, secretRecordJson s)) (sev_providerSecrets values)),
      sev_casPassword = normalizeString (Some (JStr (sev_casPassword values))) []\<rparr>"

definition createDefaultSettingsWorkspaceSecretsDocument :: secret_values where
  "createDefaultSettingsWorkspaceSecretsDocument =
     createSettingsWorkspaceSecretsDocument \<lparr>sev_providerSecrets = [], sev_casPassword = []\<rparr>"

definition normalizeSettingsWorkspaceSecretsDocument :: "json option \<Rightarrow> secret_values" where
  "normalizeSettingsWorkspaceSecretsDocument v =
     (let r = asRecordS v;
          values = asRecordS (prop_of r ''values'');
          providerSecrets = asRecordS (prop_of values ''providerSecrets'');
          sustech = asRecordS (prop_of values ''sustech'')
      in createSettingsWorkspaceSecretsDocument
           \<lparr>sev_providerSecrets = normalizedSecrets providerSecrets,
            sev_casPassword = normalizeString (prop_of sustech ''casPassword'') []\<rparr>)"

definition projectProviderSecretStateById :: "string list \<Rightarrow> secret_values \<Rightarrow> (string \<times> provider_secret_state) list" where
  "projectProviderSecretStateById profileIds secrets =
     fromEntries (map (\<lambda>profileId.
       let normalizedProfileId = normalizeNonEmptyString (Some (JStr profileId)) [];
           secret = (if normalizedProfileId = [] then None else map_of (sev_providerSecrets secrets) normalizedProfileId);
           apiKey = normalizeNonEmptyString
             (case secret of None \<Rightarrow> None | Some s \<Rightarrow> map_option JStr (map_of (sec_secretValues s) ''apiKey'')) []
       in (profileId, \<lparr>pss_hasApiKey = apiKey \<noteq> [], pss_apiKey = apiKey\<rparr>)) profileIds)"

definition projectSustechCasSecretState :: "secret_values \<Rightarrow> cas_secret_state" where
  "projectSustechCasSecretState secrets =
     (let password = normalizeString (Some (JStr (sev_casPassword secrets))) [] in
      \<lparr>css_hasPassword = password \<noteq> [], css_password = password\<rparr>)"

definition projectSettingsWorkspaceEditableState :: "state_values \<Rightarrow> (string \<times> provider_secret_state) list \<Rightarrow> editable_state" where
  "projectSettingsWorkspaceEditableState values secretStates =
     (let clonedValues = cloneSettingsWorkspaceStateValues values in
      \<lparr>es_sustech = sv_sustech clonedValues,
       es_providerProfiles = map (\<lambda>p. projectEditableProviderProfile p
         (case map_of secretStates (normalizeNonEmptyString (Some (JStr (spf_profileId p))) []) of
            None \<Rightarrow> False | Some s \<Rightarrow> pss_hasApiKey s)) (sv_providerProfiles clonedValues),
       es_defaultModelRouting = projectEditableDefaultModelRouting (sv_defaultModelRouting clonedValues),
       es_general = sv_general clonedValues, es_mcp = sv_mcp clonedValues, es_api = sv_api clonedValues,
       es_docs = sv_docs clonedValues, es_externalSource = sv_externalSource clonedValues\<rparr>)"

section \<open>Serialisation\<close>

definition jsonOrNull :: "('a \<Rightarrow> json) \<Rightarrow> 'a option \<Rightarrow> json" where
  "jsonOrNull f x = (case x of None \<Rightarrow> JNull | Some y \<Rightarrow> f y)"

definition sustechJson :: "sustech_settings \<Rightarrow> json" where
  "sustechJson s = JObj
     [(''studentId'', JStr (su_studentId s)), (''email'', JStr (su_email s)),
      (''blackboardCurrentTermOnly'', JBool (su_blackboardCurrentTermOnly s)),
      (''blackboardParallelSyncWorkers'', JStr (su_blackboardParallelSyncWorkers s)),
      (''blackboardSyncInterval'', JStr (su_blackboardSyncInterval s)),
      (''blackboardLastAutoSyncAt'', jsonOrNull JStr (su_blackboardLastAutoSyncAt s)),
      (''blackboardNextAutoSyncAt'', jsonOrNull JStr (su_blackboardNextAutoSyncAt s))]"

definition routingJson :: "stored_routing \<Rightarrow> json" where
  "routingJson routing = JObj
     [(''primaryAssistantModel'', jsonOrNull Wire_Laws.routeRefJson (srt_primaryAssistantModel routing)),
      (''fastAssistantModel'', jsonOrNull Wire_Laws.routeRefJson (srt_fastAssistantModel routing))]"

definition storedPolicyJson :: "policy_state \<Rightarrow> json" where
  "storedPolicyJson p = JObj
     ((''version'', JNum (of_int (pp_version p))) # optProp ''migrationSourceMode'' JStr (pp_migrationSourceMode p) @
      [(''defaultMode'', JStr (pp_defaultMode p)),
       (''toolPermissions'', JObj (map (\<lambda>(toolId, e). (toolId, policyEntryJson e)) (pp_toolPermissions p)))])"

definition mcpJson :: "mcp_settings \<Rightarrow> json" where
  "mcpJson m = JObj [(''mcpAutoDiscoveryEnabled'', JBool (ms_mcpAutoDiscoveryEnabled m)),
     (''toolPermissionMode'', JStr (ms_toolPermissionMode m)), (''toolPermissionPolicy'', storedPolicyJson (ms_toolPermissionPolicy m))]"

definition stateValuesJson :: "state_values \<Rightarrow> json" where
  "stateValuesJson values = JObj
     [(''sustech'', sustechJson (sv_sustech values)),
      (''providerProfiles'', JArr (map storedProfileJson (sv_providerProfiles values))),
      (''defaultModelRouting'', routingJson (sv_defaultModelRouting values)), (''general'', JObj (sv_general values)),
      (''mcp'', mcpJson (sv_mcp values)), (''api'', JObj (sv_api values)), (''docs'', JObj (sv_docs values)),
      (''externalSource'', JObj (sv_externalSource values))]"

definition stateDocumentJson :: "state_values \<Rightarrow> json" where
  "stateDocumentJson values = JObj [(''version'', JNum 3), (''kind'', JStr ''settings-workspace-state''), (''values'', stateValuesJson values)]"

definition secretsDocumentJson :: "secret_values \<Rightarrow> json" where
  "secretsDocumentJson s = JObj [(''version'', JNum 2), (''kind'', JStr ''settings-workspace-secrets''),
     (''values'', JObj
        [(''providerSecrets'', JObj (map (\<lambda>(profileId, x). (profileId, secretRecordJson x)) (sev_providerSecrets s))),
         (''sustech'', JObj [(''casPassword'', JStr (sev_casPassword s))])])]"

definition serializeSettingsWorkspaceDocument :: "(rat \<Rightarrow> string) \<Rightarrow> json \<Rightarrow> string" where
  "serializeSettingsWorkspaceDocument numText document = stringifyAt numText 0 document @ [CHR 0x0A]"

definition ensureTrailingNewline :: "string \<Rightarrow> string" where
  "ensureTrailingNewline content = (if suffix [CHR 0x0A] content then content else content @ [CHR 0x0A])"

definition isSettingsWorkspaceDocumentDirty :: "(rat \<Rightarrow> string) \<Rightarrow> json \<Rightarrow> string \<Rightarrow> bool" where
  "isSettingsWorkspaceDocumentDirty numText document fileContent \<longleftrightarrow>
     serializeSettingsWorkspaceDocument numText document \<noteq> ensureTrailingNewline fileContent"

definition pruneSettingsWorkspaceSecretsDocument :: "secret_values \<Rightarrow> string list \<Rightarrow> secret_values" where
  "pruneSettingsWorkspaceSecretsDocument secrets validProviderIds =
     createSettingsWorkspaceSecretsDocument
       \<lparr>sev_providerSecrets =
          fromEntries (filter (\<lambda>(providerId, s). providerId \<in> set validProviderIds) (sev_providerSecrets secrets)),
        sev_casPassword = sev_casPassword secrets\<rparr>"

definition normalizeSettingsWorkspaceIdentifier :: "string \<Rightarrow> string \<Rightarrow> string res" where
  "normalizeSettingsWorkspaceIdentifier v name =
     (if trim v = [] then Inl (''Missing required '' @ name @ ''.'') else Inr (trim v))"

end
