(* ===== verification/Route_Resolver.thy ===== *)
theory Route_Resolver
  imports Settings_Documents
begin

text \<open>
  Resolving a model route to what a request to the provider needs: \<open>electron/settings-workspace/provider-route-resolver.ts\<close>, and the
  private HTTP endpoint that the Python runtime asks: the request handler of \<open>electron/runtime/host-model-route-bridge.ts\<close>. The
  resolver works on the editable state of the settings and on the secrets of the profiles; its answer is a route or one of
  eleven errors. The server itself, its port and its random token are not part of the model: a request is a record, and the
  resolver that the handler calls is an argument.
\<close>

section \<open>Requests and answers\<close>

datatype route_error_code = InvalidRouteRequest | ProfileNotFound | CatalogEntryNotFound | ProfileLegacy | ProfileUnsupported
  | RuntimeCatalogOnly | RuntimeLegacyUnsupported | ModelNotFound | BaseUrlMissing | SecretMissing | RevisionMismatch

fun routeErrorText :: "route_error_code \<Rightarrow> string" where
  "routeErrorText InvalidRouteRequest = ''invalid_provider_route_request''"
| "routeErrorText ProfileNotFound = ''provider_profile_not_found''"
| "routeErrorText CatalogEntryNotFound = ''provider_catalog_entry_not_found''"
| "routeErrorText ProfileLegacy = ''provider_profile_legacy''"
| "routeErrorText ProfileUnsupported = ''provider_profile_unsupported''"
| "routeErrorText RuntimeCatalogOnly = ''provider_runtime_catalog_only''"
| "routeErrorText RuntimeLegacyUnsupported = ''provider_runtime_legacy_unsupported''"
| "routeErrorText ModelNotFound = ''provider_model_not_found''"
| "routeErrorText BaseUrlMissing = ''provider_base_url_missing''"
| "routeErrorText SecretMissing = ''provider_secret_missing''"
| "routeErrorText RevisionMismatch = ''provider_catalog_revision_mismatch''"

text \<open>The route of a request may be missing or of another kind, in spite of its type.\<close>

record requested_ref =
  qr_routeKind :: string
  qr_profileId :: string
  qr_modelId :: string

record resolve_request =
  rq_routeRef :: "requested_ref option"
  rq_catalogRevision :: "string option"

record resolved_provider_route =
  rpr_routeRef :: model_route_ref
  rpr_providerProfileId :: string
  rpr_provider :: string
  rpr_providerId :: string
  rpr_adapterId :: string
  rpr_runtimeStatus :: runtime_status
  rpr_catalogRevision :: string
  rpr_endpointFamily :: string
  rpr_endpointType :: string
  rpr_baseUrl :: string
  rpr_modelId :: string
  rpr_authKind :: auth_kind
  rpr_capabilityHints :: capability_hints

record private_auth =
  pva_authKind :: auth_kind
  pva_authPayload :: "string option"
  pva_apiKey :: string

record resolve_error =
  rve_code :: route_error_code
  rve_message :: string
  rve_details :: jrecord

type_synonym resolve_result = "resolve_error + resolved_provider_route \<times> private_auth"

section \<open>Helpers\<close>

definition normalizeModelIdR :: "string \<Rightarrow> string" where
  "normalizeModelIdR v = normalizeNonEmptyString (Some (JStr v)) []"

definition normalizeIdentifierR :: "string \<Rightarrow> string" where
  "normalizeIdentifierR v = toLowerCase (trim v)"

definition normalizeBaseUrl :: "string \<Rightarrow> string" where
  "normalizeBaseUrl v = rev (dropWhile (\<lambda>c. c = CHR ''/'') (rev (trim v)))"

definition buildRouteRef :: "string \<Rightarrow> string \<Rightarrow> model_route_ref" where
  "buildRouteRef profileId modelId =
     \<lparr>rr_routeKind = ProviderModel, rr_profileId = normalizeNonEmptyString (Some (JStr profileId)) [],
      rr_modelId = normalizeModelIdR modelId\<rparr>"

definition isRouteRef :: "requested_ref option \<Rightarrow> bool" where
  "isRouteRef v \<longleftrightarrow>
     (case v of
        None \<Rightarrow> False
      | Some r \<Rightarrow> qr_routeKind r = ''provider-model'' \<and> normalizeNonEmptyString (Some (JStr (qr_profileId r))) [] \<noteq> [] \<and>
          normalizeModelIdR (qr_modelId r) \<noteq> [])"

definition resolveRequestedRouteRef :: "resolve_request \<Rightarrow> model_route_ref option" where
  "resolveRequestedRouteRef request =
     (case rq_routeRef request of
        None \<Rightarrow> None
      | Some r \<Rightarrow> if \<not> isRouteRef (Some r) then None else Some (buildRouteRef (qr_profileId r) (qr_modelId r)))"

definition resolveProfileId :: "editable_profile \<Rightarrow> string" where
  "resolveProfileId p = normalizeNonEmptyString (map_option JStr (epf_profileId p)) (normalizeNonEmptyString (Some (JStr (epf_id p))) [])"

definition resolveProviderIdFromProfile :: "editable_profile \<Rightarrow> string" where
  "resolveProviderIdFromProfile p =
     normalizeProviderCatalogIdentifier (case epf_providerId p of None \<Rightarrow> epf_protocol p | Some i \<Rightarrow> i)"

definition resolveExpectedBaseUrl :: "editable_profile \<Rightarrow> string" where
  "resolveExpectedBaseUrl p = normalizeBaseUrl (case epf_baseUrl p of None \<Rightarrow> epf_endpoint p | Some u \<Rightarrow> u)"

definition resolveEndpointFamily :: "string \<Rightarrow> string" where
  "resolveEndpointFamily endpointType =
     (let normalizedEndpointType = normalizeIdentifierR endpointType in
      if normalizedEndpointType = [] then [] else takeWhile (\<lambda>c. c \<noteq> CHR ''-'') normalizedEndpointType)"

definition buildSupportedModelIds :: "editable_profile \<Rightarrow> string list" where
  "buildSupportedModelIds p = uniqueFrom [] (filter (\<lambda>s. s \<noteq> []) (map (\<lambda>m. normalizeModelIdR (pm_modelId m)) (epf_availableModels p)))"

definition providerProfileSupportsModel :: "editable_profile \<Rightarrow> string \<Rightarrow> bool" where
  "providerProfileSupportsModel p modelId \<longleftrightarrow> modelId \<in> set (buildSupportedModelIds p)"

definition resolverError :: "route_error_code \<Rightarrow> string \<Rightarrow> jrecord \<Rightarrow> resolve_result" where
  "resolverError code message details = Inl \<lparr>rve_code = code, rve_message = message, rve_details = details\<rparr>"

definition inQuotes :: "string \<Rightarrow> string" where
  "inQuotes s = quoteMark @ s @ quoteMark"

section \<open>The resolver\<close>

definition resolveSettingsWorkspaceProviderRoute ::
  "provider_catalog \<Rightarrow> editable_profile list \<Rightarrow> (string \<times> provider_secret_state) list \<Rightarrow> resolve_request \<Rightarrow> resolve_result" where
  "resolveSettingsWorkspaceProviderRoute catalog profiles secretStates request =
     (case resolveRequestedRouteRef request of
        None \<Rightarrow> resolverError InvalidRouteRequest ''Provider route request must include a stable routeRef.'' []
      | Some requested \<Rightarrow>
        (let requestedJson = (''routeRef'', Wire_Laws.routeRefJson requested) in
        case find (\<lambda>p. normalizeIdentifierR (resolveProfileId p) = normalizeIdentifierR (rr_profileId requested)) profiles of
          None \<Rightarrow> resolverError ProfileNotFound (''Provider profile '' @ inQuotes (rr_profileId requested) @ '' does not exist.'')
            [(''providerProfileId'', JStr (rr_profileId requested)), requestedJson]
        | Some p \<Rightarrow>
          (let providerProfileId = resolveProfileId p; providerId = resolveProviderIdFromProfile p;
               profileJson = (''providerProfileId'', JStr providerProfileId) in
          case getProviderCatalogEntry catalog providerId of
            None \<Rightarrow> resolverError CatalogEntryNotFound
              (''Provider '' @ inQuotes providerId @ '' is not defined in provider catalog.'')
              [profileJson, (''providerId'', JStr providerId), requestedJson]
          | Some e \<Rightarrow>
            (let status = (case epf_compatibility p of None \<Rightarrow> CompatActive | Some c \<Rightarrow> pk_status c);
                 compatibility = optProp ''compatibility'' compatibilityJson (epf_compatibility p);
                 entryJson = (''providerId'', JStr (ce_providerId e));
                 modelId = normalizeModelIdR (rr_modelId requested);
                 catalogRevision = pc_catalogRevision catalog;
                 requestedRevision = normalizeNonEmptyString (map_option JStr (rq_catalogRevision request)) [];
                 baseUrl = resolveExpectedBaseUrl p;
                 routeRef = buildRouteRef providerProfileId modelId;
                 authKind = as_defaultKind (ce_authSchema e);
                 apiKey = normalizeNonEmptyString (map_option (\<lambda>s. JStr (pss_apiKey s)) (map_of secretStates providerProfileId)) []
             in
             if status = CompatLegacy then
               resolverError ProfileLegacy
                 (''Provider profile '' @ inQuotes providerProfileId @ '' is marked as legacy and cannot be resolved for runtime execution.'')
                 ([profileJson, (''providerId'', JStr providerId), requestedJson] @ compatibility)
             else if status = CompatUnsupported then
               resolverError ProfileUnsupported
                 (''Provider profile '' @ inQuotes providerProfileId @ '' is marked as unsupported and cannot be resolved for runtime execution.'')
                 ([profileJson, (''providerId'', JStr providerId), requestedJson] @ compatibility)
             else if ce_runtimeStatus e = StatusCatalogOnly then
               resolverError RuntimeCatalogOnly
                 (''Provider '' @ inQuotes (ce_providerId e) @ '' is catalog-only and cannot be resolved for runtime execution.'')
                 [profileJson, entryJson, requestedJson, (''runtimeStatus'', JStr (statusText (ce_runtimeStatus e)))]
             else if ce_runtimeStatus e = StatusLegacyUnsupported then
               resolverError RuntimeLegacyUnsupported
                 (''Provider '' @ inQuotes (ce_providerId e) @ '' is marked as legacy-unsupported in provider catalog.'')
                 [profileJson, entryJson, requestedJson, (''runtimeStatus'', JStr (statusText (ce_runtimeStatus e)))]
             else if \<not> providerProfileSupportsModel p modelId then
               resolverError ModelNotFound
                 (''Provider profile '' @ inQuotes providerProfileId @ '' does not define model '' @ inQuotes modelId @ ''.'')
                 [profileJson, entryJson, requestedJson, (''modelId'', JStr modelId),
                  (''supportedModelIds'', JArr (map JStr (buildSupportedModelIds p)))]
             else if requestedRevision \<noteq> [] \<and> requestedRevision \<noteq> catalogRevision then
               resolverError RevisionMismatch
                 (''Requested provider catalog revision '' @ inQuotes requestedRevision @ '' does not match current revision '' @
                  inQuotes catalogRevision @ ''.'')
                 [profileJson, entryJson, requestedJson, (''expectedCatalogRevision'', JStr requestedRevision),
                  (''actualCatalogRevision'', JStr catalogRevision)]
             else if baseUrl = [] then
               resolverError BaseUrlMissing (''Provider profile '' @ inQuotes providerProfileId @ '' is missing a base URL.'')
                 [profileJson, entryJson, (''routeRef'', Wire_Laws.routeRefJson routeRef)]
             else if authKind \<noteq> AuthNone \<and> apiKey = [] then
               resolverError SecretMissing (''Provider profile '' @ inQuotes providerProfileId @ '' is missing an API key.'')
                 [profileJson, entryJson, (''routeRef'', Wire_Laws.routeRefJson routeRef), (''authKind'', JStr (authKindText authKind))]
             else Inr
               (\<lparr>rpr_routeRef = routeRef, rpr_providerProfileId = providerProfileId, rpr_provider = ce_providerId e,
                 rpr_providerId = ce_providerId e, rpr_adapterId = ce_adapterId e, rpr_runtimeStatus = ce_runtimeStatus e,
                 rpr_catalogRevision = catalogRevision, rpr_endpointFamily = resolveEndpointFamily (ce_endpointType e),
                 rpr_endpointType = ce_endpointType e, rpr_baseUrl = baseUrl, rpr_modelId = modelId, rpr_authKind = authKind,
                 rpr_capabilityHints = ce_capabilityHints e\<rparr>,
                \<lparr>pva_authKind = authKind, pva_authPayload = (if apiKey = [] then None else Some apiKey), pva_apiKey = apiKey\<rparr>)))))"

section \<open>The private endpoint\<close>

definition HOST_MODEL_ROUTE_BRIDGE_TOKEN_HEADER :: string where
  "HOST_MODEL_ROUTE_BRIDGE_TOKEN_HEADER = ''X-Host-Model-Route-Token''"

definition HOST_MODEL_ROUTE_BRIDGE_RESOLVE_PATH :: string where
  "HOST_MODEL_ROUTE_BRIDGE_RESOLVE_PATH = ''/host/private/provider-routes/resolve''"

text \<open>
  A request: its token headers are none, one or several values; the body is its text.
\<close>

record bridge_request =
  bq_method :: string
  bq_url :: string
  bq_tokenHeaders :: "string list option"
  bq_body :: string

datatype bridge_answer = EmptyAnswer nat | InvalidToken | InvalidBody string | Resolved resolve_result

text \<open>The status of an answer.\<close>

fun answerStatus :: "bridge_answer \<Rightarrow> nat" where
  "answerStatus (EmptyAnswer n) = n"
| "answerStatus InvalidToken = 401"
| "answerStatus (InvalidBody m) = 400"
| "answerStatus (Resolved r) = 200"

definition isValidHostModelRouteBridgeToken :: "bridge_request \<Rightarrow> string \<Rightarrow> bool" where
  "isValidHostModelRouteBridgeToken request token \<longleftrightarrow>
     (case bq_tokenHeaders request of
        None \<Rightarrow> False
      | Some rawHeaders \<Rightarrow>
          (let headerValues = filter (\<lambda>v. v \<noteq> []) (map trim (concat (map (splitOn CHR '','') rawHeaders)))
           in headerValues \<noteq> [] \<and> list_all (\<lambda>v. v = token) headerValues))"

text \<open>A blank body is \<open>null\<close>; \<open>JSON.parse\<close> is an argument and may throw.\<close>

definition readJsonBody :: "(string \<Rightarrow> json res) \<Rightarrow> string \<Rightarrow> json res" where
  "readJsonBody parse rawBody = (if trim rawBody = [] then Inr JNull else parse rawBody)"

fun textOf :: "json option \<Rightarrow> string option" where
  "textOf (Some (JStr s)) = Some s"
| "textOf _ = None"

fun isProviderRouteResolveRouteRef :: "json option \<Rightarrow> bool" where
  "isProviderRouteResolveRouteRef (Some (JObj r)) \<longleftrightarrow>
     textOf (prop_of r ''routeKind'') = Some ''provider-model'' \<and> textOf (prop_of r ''profileId'') \<noteq> None \<and>
     textOf (prop_of r ''modelId'') \<noteq> None"
| "isProviderRouteResolveRouteRef _ \<longleftrightarrow> False"

text \<open>An array is an object too, but never has the property \<open>routeRef\<close>.\<close>

fun isProviderRouteResolveRequest :: "json \<Rightarrow> bool" where
  "isProviderRouteResolveRequest (JObj r) \<longleftrightarrow>
     isProviderRouteResolveRouteRef (prop_of r ''routeRef'') \<and>
     list_all (\<lambda>(key, v). key \<in> {''routeRef'', ''catalogRevision''}) r \<and>
     (prop_of r ''catalogRevision'' = None \<or> textOf (prop_of r ''catalogRevision'') \<noteq> None)"
| "isProviderRouteResolveRequest _ \<longleftrightarrow> False"

text \<open>The checked body as the typed request.\<close>

definition asResolveRequest :: "json \<Rightarrow> resolve_request" where
  "asResolveRequest v =
     (let r = asRecordS (Some v); ref = asRecordS (prop_of r ''routeRef''); text_of = (\<lambda>k. case textOf (prop_of ref k) of None \<Rightarrow> [] | Some s \<Rightarrow> s) in
      \<lparr>rq_routeRef = Some \<lparr>qr_routeKind = text_of ''routeKind'', qr_profileId = text_of ''profileId'', qr_modelId = text_of ''modelId''\<rparr>,
       rq_catalogRevision = textOf (prop_of r ''catalogRevision'')\<rparr>)"

text \<open>
  The handler. The resolver reads the settings and may fail with an exception, which the handler does not catch: the request is
  then left without an answer (\<open>Inl\<close>).
\<close>

definition handleHostModelRouteBridgeRequest ::
  "(string \<Rightarrow> json res) \<Rightarrow> string \<Rightarrow> (resolve_request \<Rightarrow> resolve_result res) \<Rightarrow> bridge_request \<Rightarrow> bridge_answer res" where
  "handleHostModelRouteBridgeRequest parse token resolveProviderRoute request =
     (if bq_method request \<noteq> ''POST'' \<or> bq_url request \<noteq> HOST_MODEL_ROUTE_BRIDGE_RESOLVE_PATH then Inr (EmptyAnswer 404)
      else if \<not> isValidHostModelRouteBridgeToken request token then Inr InvalidToken
      else case readJsonBody parse (bq_body request) of
        Inl _ \<Rightarrow> Inr (InvalidBody ''Host model route bridge request body must be valid JSON.'')
      | Inr body \<Rightarrow>
          if \<not> isProviderRouteResolveRequest body
          then Inr (InvalidBody ''Host model route bridge request body is invalid.'')
          else andThen (resolveProviderRoute (asResolveRequest body)) (\<lambda>r. Inr (Resolved r)))"

end
