(* ===== verification/Settings_Store.thy ===== *)
theory Settings_Store
  imports Route_Resolver
begin

text \<open>
  The store of the settings workspace: \<open>settings-workspace-document-io.ts\<close>, \<open>settings-workspace-state-storage.ts\<close>,
  \<open>settings-workspace-secret-storage.ts\<close>, \<open>persistence/SettingsWorkspaceStore.ts\<close> with the services that forward to it, and the
  calls of \<open>ipc/SettingsWorkspaceMainProcess.ts\<close>. Every operation is a task: a tree whose inner nodes are the accesses to the two
  files and whose leaves are its results. \<open>runTask\<close> performs a task without interruption; \<open>interleave\<close> performs two tasks
  step by step in a given order, as the main process does with requests that arrive together. \<open>JSON.parse\<close> and the text of a
  number are arguments.
\<close>

section \<open>Files\<close>

datatype settings_file = Missing | Unreadable string | Content string

text \<open>How a call of \<open>writeDocuments\<close> ends: both files written, or an error with whatever the files then are.\<close>

datatype write_outcome = Written | Refused string settings_file settings_file

record disk =
  dk_state :: settings_file
  dk_secrets :: settings_file
  dk_writes :: "write_outcome list"

record settings_env =
  env_catalog :: provider_catalog
  env_parse :: "string \<Rightarrow> json res"
  env_numText :: "rat \<Rightarrow> string"

record 'd document_read =
  rd_document :: 'd
  rd_missing :: bool
  rd_dirty :: bool

definition readDocument ::
  "settings_env \<Rightarrow> settings_file \<Rightarrow> (json option \<Rightarrow> 'd) \<Rightarrow> 'd \<Rightarrow> ('d \<Rightarrow> json) \<Rightarrow> 'd document_read res" where
  "readDocument env f normalizeDocument defaultDocument documentJson =
     (case f of
        Missing \<Rightarrow> Inr \<lparr>rd_document = defaultDocument, rd_missing = True, rd_dirty = True\<rparr>
      | Unreadable e \<Rightarrow> Inl e
      | Content fileContent \<Rightarrow>
          andThen (env_parse env fileContent) (\<lambda>v.
          let document = normalizeDocument (Some v) in
          Inr \<lparr>rd_document = document, rd_missing = False,
               rd_dirty = isSettingsWorkspaceDocumentDirty (env_numText env) (documentJson document) fileContent\<rparr>))"

definition readSettingsStateDocument :: "settings_env \<Rightarrow> disk \<Rightarrow> state_values document_read res" where
  "readSettingsStateDocument env d =
     readDocument env (dk_state d) (normalizeSettingsWorkspaceStateDocument (env_catalog env))
       createDefaultSettingsWorkspaceStateDocument stateDocumentJson"

definition readSettingsSecretsDocument :: "settings_env \<Rightarrow> disk \<Rightarrow> secret_values document_read res" where
  "readSettingsSecretsDocument env d =
     readDocument env (dk_secrets d) normalizeSettingsWorkspaceSecretsDocument
       createDefaultSettingsWorkspaceSecretsDocument secretsDocumentJson"

definition writtenState :: "settings_env \<Rightarrow> state_values \<Rightarrow> settings_file" where
  "writtenState env v = Content (serializeSettingsWorkspaceDocument (env_numText env) (stateDocumentJson v))"

definition writtenSecrets :: "settings_env \<Rightarrow> secret_values \<Rightarrow> settings_file" where
  "writtenSecrets env s = Content (serializeSettingsWorkspaceDocument (env_numText env) (secretsDocumentJson s))"

definition writeDocuments :: "settings_env \<Rightarrow> state_values \<Rightarrow> secret_values \<Rightarrow> disk \<Rightarrow> unit res \<times> disk" where
  "writeDocuments env v s d =
     (case dk_writes d of
        Refused e f g # rest \<Rightarrow> (Inl e, \<lparr>dk_state = f, dk_secrets = g, dk_writes = rest\<rparr>)
      | outcomes \<Rightarrow> (Inr (), \<lparr>dk_state = writtenState env v, dk_secrets = writtenSecrets env s, dk_writes = tl outcomes\<rparr>))"

section \<open>Tasks\<close>

datatype 'a task =
    Done 'a
  | Failed string
  | ReadState "state_values document_read \<Rightarrow> 'a task"
  | ReadSecrets "secret_values document_read \<Rightarrow> 'a task"
  | WriteBoth state_values secret_values "'a task"

text \<open>One access to the files; an access that fails ends the task, since no operation catches.\<close>

fun stepTask :: "settings_env \<Rightarrow> 'a task \<times> disk \<Rightarrow> 'a task \<times> disk" where
  "stepTask env (Done x, d) = (Done x, d)"
| "stepTask env (Failed e, d) = (Failed e, d)"
| "stepTask env (ReadState k, d) = (case readSettingsStateDocument env d of Inl e \<Rightarrow> Failed e | Inr x \<Rightarrow> k x, d)"
| "stepTask env (ReadSecrets k, d) = (case readSettingsSecretsDocument env d of Inl e \<Rightarrow> Failed e | Inr x \<Rightarrow> k x, d)"
| "stepTask env (WriteBoth v s t, d) =
     (case writeDocuments env v s d of (Inl e, d') \<Rightarrow> (Failed e, d') | (Inr _, d') \<Rightarrow> (t, d'))"

primrec runTask :: "settings_env \<Rightarrow> 'a task \<Rightarrow> disk \<Rightarrow> 'a res \<times> disk" where
  "runTask env (Done x) = (\<lambda>d. (Inr x, d))"
| "runTask env (Failed e) = (\<lambda>d. (Inl e, d))"
| "runTask env (ReadState k) = (\<lambda>d. case readSettingsStateDocument env d of Inl e \<Rightarrow> (Inl e, d) | Inr x \<Rightarrow> runTask env (k x) d)"
| "runTask env (ReadSecrets k) = (\<lambda>d. case readSettingsSecretsDocument env d of Inl e \<Rightarrow> (Inl e, d) | Inr x \<Rightarrow> runTask env (k x) d)"
| "runTask env (WriteBoth v s t) = (\<lambda>d. case writeDocuments env v s d of (Inl e, d') \<Rightarrow> (Inl e, d') | (Inr _, d') \<Rightarrow> runTask env t d')"

text \<open>Two tasks in a given order of steps, \<open>True\<close> for the first one.\<close>

fun interleave :: "settings_env \<Rightarrow> bool list \<Rightarrow> 'a task \<Rightarrow> 'b task \<Rightarrow> disk \<Rightarrow> ('a task \<times> 'b task) \<times> disk" where
  "interleave env [] s t d = ((s, t), d)"
| "interleave env (True # order) s t d = (let (s', d') = stepTask env (s, d) in interleave env order s' t d')"
| "interleave env (False # order) s t d = (let (t', d') = stepTask env (t, d) in interleave env order s t' d')"

section \<open>The state\<close>

datatype state_source = StoredSource | InitializedDefaults

definition profileIdsOf :: "state_values \<Rightarrow> string list" where
  "profileIdsOf v = map spf_profileId (sv_providerProfiles v)"

definition loadedState :: "state_values \<Rightarrow> secret_values \<Rightarrow> editable_state" where
  "loadedState v s = projectSettingsWorkspaceEditableState v (projectProviderSecretStateById (profileIdsOf v) s)"

definition loadState :: "(editable_state \<times> state_source) task" where
  "loadState =
     ReadState (\<lambda>stateResult.
     ReadSecrets (\<lambda>secretsResult.
       let loaded = Done (loadedState (rd_document stateResult) (rd_document secretsResult),
              if rd_missing stateResult then InitializedDefaults else StoredSource)
       in if rd_dirty stateResult \<or> rd_dirty secretsResult
          then WriteBoth (rd_document stateResult) (rd_document secretsResult) loaded
          else loaded))"

text \<open>The input comes from the renderer, so that it is any JSON value in spite of its type.\<close>

definition saveState :: "provider_catalog \<Rightarrow> json \<Rightarrow> editable_state task" where
  "saveState catalog v =
     (let stateDocument = createSettingsWorkspaceStateDocument (normalizeSettingsWorkspaceStateValues catalog (Some v)) in
      ReadSecrets (\<lambda>secretsResult.
        let secretsDocument = pruneSettingsWorkspaceSecretsDocument (rd_document secretsResult) (profileIdsOf stateDocument)
        in WriteBoth stateDocument secretsDocument (Done (loadedState stateDocument secretsDocument))))"

section \<open>Secrets\<close>

definition loadSecretStates :: "string list option \<Rightarrow> (string \<times> provider_secret_state) list task" where
  "loadSecretStates profileIds =
     (let read = (\<lambda>ids. ReadSecrets (\<lambda>secretsResult. Done (projectProviderSecretStateById ids (rd_document secretsResult))))
      in case profileIds of
           Some ids \<Rightarrow> read ids
         | None \<Rightarrow> ReadState (\<lambda>stateResult. read (profileIdsOf (rd_document stateResult))))"

definition loadSustechCasSecret :: "cas_secret_state task" where
  "loadSustechCasSecret = ReadSecrets (\<lambda>secretsResult. Done (projectSustechCasSecretState (rd_document secretsResult)))"

definition orFail :: "'a res \<Rightarrow> ('a \<Rightarrow> 'b task) \<Rightarrow> 'b task" where
  "orFail r k = (case r of Inl e \<Rightarrow> Failed e | Inr x \<Rightarrow> k x)"

text \<open>What all four changes do: read the secrets, change them, read the state, write both documents.\<close>

definition changeSecrets :: "(secret_values \<Rightarrow> secret_values) \<Rightarrow> 'a \<Rightarrow> 'a task" where
  "changeSecrets change result =
     ReadSecrets (\<lambda>secretsResult.
       let nextSecretsDocument = createSettingsWorkspaceSecretsDocument (change (rd_document secretsResult)) in
       ReadState (\<lambda>stateResult. WriteBoth (rd_document stateResult) nextSecretsDocument (Done result)))"

definition apiKeySecret :: "string \<Rightarrow> string \<Rightarrow> secret_record" where
  "apiKeySecret profileId apiKey =
     \<lparr>sec_profileId = profileId, sec_authKind = ''api-key'', sec_secretValues = [(''apiKey'', apiKey)]\<rparr>"

definition saveProfileSecret :: "string \<Rightarrow> string \<Rightarrow> provider_secret_state task" where
  "saveProfileSecret profileId apiKey =
     orFail (normalizeSettingsWorkspaceIdentifier profileId ''profileId'') (\<lambda>normalizedProfileId.
     orFail (normalizeSettingsWorkspaceIdentifier apiKey ''apiKey'') (\<lambda>normalizedApiKey.
       changeSecrets
         (\<lambda>s. \<lparr>sev_providerSecrets =
                 AList.update normalizedProfileId (apiKeySecret normalizedProfileId normalizedApiKey) (sev_providerSecrets s),
               sev_casPassword = sev_casPassword s\<rparr>)
         \<lparr>pss_hasApiKey = True, pss_apiKey = normalizedApiKey\<rparr>))"

definition clearProfileSecret :: "string \<Rightarrow> provider_secret_state task" where
  "clearProfileSecret profileId =
     orFail (normalizeSettingsWorkspaceIdentifier profileId ''profileId'') (\<lambda>normalizedProfileId.
       changeSecrets
         (\<lambda>s. \<lparr>sev_providerSecrets = AList.delete normalizedProfileId (sev_providerSecrets s), sev_casPassword = sev_casPassword s\<rparr>)
         \<lparr>pss_hasApiKey = False, pss_apiKey = []\<rparr>)"

definition saveSustechCasSecret :: "string \<Rightarrow> cas_secret_state task" where
  "saveSustechCasSecret password =
     orFail (normalizeSettingsWorkspaceIdentifier password ''password'') (\<lambda>normalizedPassword.
       changeSecrets (\<lambda>s. \<lparr>sev_providerSecrets = sev_providerSecrets s, sev_casPassword = normalizedPassword\<rparr>)
         \<lparr>css_hasPassword = True, css_password = normalizedPassword\<rparr>)"

definition clearSustechCasSecret :: "cas_secret_state task" where
  "clearSustechCasSecret =
     changeSecrets (\<lambda>s. \<lparr>sev_providerSecrets = sev_providerSecrets s, sev_casPassword = []\<rparr>)
       \<lparr>css_hasPassword = False, css_password = []\<rparr>"

section \<open>The route\<close>

primrec thenTask :: "'a task \<Rightarrow> ('a \<Rightarrow> 'b task) \<Rightarrow> 'b task" where
  "thenTask (Done x) k = k x"
| "thenTask (Failed e) k = Failed e"
| "thenTask (ReadState f) k = ReadState (\<lambda>x. thenTask (f x) k)"
| "thenTask (ReadSecrets f) k = ReadSecrets (\<lambda>x. thenTask (f x) k)"
| "thenTask (WriteBoth v s t) k = WriteBoth v s (thenTask t k)"

definition resolveProviderRoute :: "provider_catalog \<Rightarrow> resolve_request \<Rightarrow> resolve_result task" where
  "resolveProviderRoute catalog request =
     thenTask loadState (\<lambda>(state, source).
       let secretProfileId = (case rq_routeRef request of None \<Rightarrow> [] | Some r \<Rightarrow> trim (qr_profileId r)) in
       thenTask (loadSecretStates (Some (if secretProfileId = [] then [] else [secretProfileId]))) (\<lambda>states.
         Done (resolveSettingsWorkspaceProviderRoute catalog (es_providerProfiles state) states request)))"

section \<open>The calls of the main process\<close>

text \<open>
  A call prepares the runtime paths (\<open>paths\<close>, which may fail), runs the task and turns a failure into a message; the resolver is
  the one call that lets failures through.
\<close>

definition serviceCall :: "settings_env \<Rightarrow> unit res \<Rightarrow> string \<Rightarrow> 'a task \<Rightarrow> disk \<Rightarrow> 'a res \<times> disk" where
  "serviceCall env paths what t d =
     (let (r, d') = (case paths of Inl e \<Rightarrow> (Inl e, d) | Inr _ \<Rightarrow> runTask env t d) in
      (case r of Inl e \<Rightarrow> Inl (''Failed to '' @ what @ '': '' @ e) | Inr x \<Rightarrow> Inr x, d'))"

text \<open>Loading also gives the lines written to the log.\<close>

definition callLoadState :: "settings_env \<Rightarrow> unit res \<Rightarrow> disk \<Rightarrow> ((editable_state \<times> state_source) res \<times> disk) \<times> string list" where
  "callLoadState env paths d =
     (let (r, d') = serviceCall env paths ''load settings workspace state'' loadState d in
      ((r, d'), case r of
         Inr (s, InitializedDefaults) \<Rightarrow> [''Initialized settings workspace persistence documents.'']
       | _ \<Rightarrow> []))"

definition callSaveState :: "settings_env \<Rightarrow> unit res \<Rightarrow> json \<Rightarrow> disk \<Rightarrow> editable_state res \<times> disk" where
  "callSaveState env paths v = serviceCall env paths ''save settings workspace state'' (saveState (env_catalog env) v)"

definition callLoadSecretStates ::
  "settings_env \<Rightarrow> unit res \<Rightarrow> string list option \<Rightarrow> disk \<Rightarrow> (string \<times> provider_secret_state) list res \<times> disk" where
  "callLoadSecretStates env paths ids = serviceCall env paths ''load settings workspace secret states'' (loadSecretStates ids)"

definition callLoadSustechCasSecret :: "settings_env \<Rightarrow> unit res \<Rightarrow> disk \<Rightarrow> cas_secret_state res \<times> disk" where
  "callLoadSustechCasSecret env paths = serviceCall env paths ''load settings workspace sustech CAS secret'' loadSustechCasSecret"

definition callSaveProfileSecret :: "settings_env \<Rightarrow> unit res \<Rightarrow> string \<Rightarrow> string \<Rightarrow> disk \<Rightarrow> provider_secret_state res \<times> disk" where
  "callSaveProfileSecret env paths profileId apiKey =
     serviceCall env paths ''save settings workspace profile secret'' (saveProfileSecret profileId apiKey)"

definition callClearProfileSecret :: "settings_env \<Rightarrow> unit res \<Rightarrow> string \<Rightarrow> disk \<Rightarrow> provider_secret_state res \<times> disk" where
  "callClearProfileSecret env paths profileId =
     serviceCall env paths ''clear settings workspace profile secret'' (clearProfileSecret profileId)"

definition callSaveSustechCasSecret :: "settings_env \<Rightarrow> unit res \<Rightarrow> string \<Rightarrow> disk \<Rightarrow> cas_secret_state res \<times> disk" where
  "callSaveSustechCasSecret env paths password =
     serviceCall env paths ''save settings workspace sustech CAS secret'' (saveSustechCasSecret password)"

definition callClearSustechCasSecret :: "settings_env \<Rightarrow> unit res \<Rightarrow> disk \<Rightarrow> cas_secret_state res \<times> disk" where
  "callClearSustechCasSecret env paths = serviceCall env paths ''clear settings workspace sustech CAS secret'' clearSustechCasSecret"

definition callResolveProviderRoute :: "settings_env \<Rightarrow> unit res \<Rightarrow> resolve_request \<Rightarrow> disk \<Rightarrow> resolve_result res \<times> disk" where
  "callResolveProviderRoute env paths request d =
     (case paths of Inl e \<Rightarrow> (Inl e, d) | Inr _ \<Rightarrow> runTask env (resolveProviderRoute (env_catalog env) request) d)"

end
