(* ===== verification/Settings_Form.thy ===== *)
theory Settings_Form
  imports Settings_Store
begin

text \<open>
  The settings form of the renderer: \<open>settings-workspace-form-state.ts\<close>, \<open>settings-workspace-save-input.ts\<close>,
  \<open>settings-workspace-hydration.ts\<close>, \<open>settings-workspace-controller-helpers.ts\<close> and the hook \<open>state/useSettingsWorkspaceState.ts\<close>, all under
  \<open>src/workbench/settings\<close>. The hook is a state machine: what it holds, what loading, edits and the timer do, and which save
  it has pending. React's effect that schedules a save runs after every step that changes the form.
\<close>

section \<open>The form\<close>

record settings_form =
  sfm_studentId :: string
  sfm_sustechEmail :: string
  sfm_blackboardCurrentTermOnly :: bool
  sfm_blackboardParallelSyncWorkers :: string
  sfm_blackboardSyncInterval :: string
  sfm_blackboardLastAutoSyncAt :: "string option"
  sfm_blackboardNextAutoSyncAt :: "string option"
  sfm_providerProfiles :: "editable_profile list"
  sfm_primaryAssistantModel :: string
  sfm_fastAssistantModel :: string
  sfm_primaryAssistantModelRoute :: "model_route_ref option"
  sfm_fastAssistantModelRoute :: "model_route_ref option"
  sfm_language :: string
  sfm_assistantNotificationsEnabled :: bool
  sfm_toolPermissionMode :: string
  sfm_mcpAutoDiscoveryEnabled :: bool
  sfm_toolPermissionPolicy :: policy_state
  sfm_apiReconnectMode :: string
  sfm_healthPollingEnabled :: bool
  sfm_apiBaseUrl :: string
  sfm_searchEngine :: string
  sfm_searchResultCount :: string
  sfm_compressionMode :: string
  sfm_docsFormat :: string
  sfm_wakeupShareLink :: string

definition cloneProviderProfiles :: "editable_profile list \<Rightarrow> editable_profile list" where
  "cloneProviderProfiles profiles =
     map (\<lambda>p. p\<lparr>epf_availableModels := map cloneProviderModelProfile (epf_availableModels p)\<rparr>) profiles"

definition cloneSettingsWorkspaceFormState :: "settings_form \<Rightarrow> settings_form" where
  "cloneSettingsWorkspaceFormState f =
     f\<lparr>sfm_providerProfiles := cloneProviderProfiles (sfm_providerProfiles f),
       sfm_primaryAssistantModelRoute := cloneModelRouteRef (sfm_primaryAssistantModelRoute f),
       sfm_fastAssistantModelRoute := cloneModelRouteRef (sfm_fastAssistantModelRoute f),
       sfm_toolPermissionPolicy := cloneToolPermissionPolicyState (sfm_toolPermissionPolicy f)\<rparr>"

text \<open>The initial list of profiles is empty, and with it the initial fast model.\<close>

definition initialFormState :: settings_form where
  "initialFormState =
     \<lparr>sfm_studentId = [], sfm_sustechEmail = [], sfm_blackboardCurrentTermOnly = False,
      sfm_blackboardParallelSyncWorkers = ''1'', sfm_blackboardSyncInterval = ''off'',
      sfm_blackboardLastAutoSyncAt = None, sfm_blackboardNextAutoSyncAt = None, sfm_providerProfiles = cloneProviderProfiles [],
      sfm_primaryAssistantModel = [], sfm_fastAssistantModel = [], sfm_primaryAssistantModelRoute = None,
      sfm_fastAssistantModelRoute = None, sfm_language = ''zh-CN'', sfm_assistantNotificationsEnabled = False,
      sfm_toolPermissionMode = ''manual'', sfm_mcpAutoDiscoveryEnabled = True,
      sfm_toolPermissionPolicy =
        \<lparr>pp_version = 1, pp_migrationSourceMode = Some ''manual'', pp_defaultMode = ''ask'', pp_toolPermissions = []\<rparr>,
      sfm_apiReconnectMode = ''exponential'', sfm_healthPollingEnabled = True, sfm_apiBaseUrl = ''http://127.0.0.1:8000'',
      sfm_searchEngine = ''google'', sfm_searchResultCount = ''8'', sfm_compressionMode = ''balanced'',
      sfm_docsFormat = ''markdown'', sfm_wakeupShareLink = []\<rparr>"

definition createInitialSettingsWorkspaceFormState :: settings_form where
  "createInitialSettingsWorkspaceFormState = cloneSettingsWorkspaceFormState initialFormState"

text \<open>The typed fields of the groups.\<close>

definition groupText :: "jrecord \<Rightarrow> string \<Rightarrow> string" where
  "groupText r k = (case prop_of r k of Some (JStr s) \<Rightarrow> s | _ \<Rightarrow> [])"

definition groupFlag :: "jrecord \<Rightarrow> string \<Rightarrow> bool" where
  "groupFlag r k = (prop_of r k = Some (JBool True))"

definition createSettingsWorkspaceFormStateFromEditableState :: "editable_state \<Rightarrow> settings_form" where
  "createSettingsWorkspaceFormStateFromEditableState s =
     \<lparr>sfm_studentId = su_studentId (es_sustech s), sfm_sustechEmail = su_email (es_sustech s),
      sfm_blackboardCurrentTermOnly = su_blackboardCurrentTermOnly (es_sustech s),
      sfm_blackboardParallelSyncWorkers = su_blackboardParallelSyncWorkers (es_sustech s),
      sfm_blackboardSyncInterval = su_blackboardSyncInterval (es_sustech s),
      sfm_blackboardLastAutoSyncAt = su_blackboardLastAutoSyncAt (es_sustech s),
      sfm_blackboardNextAutoSyncAt = su_blackboardNextAutoSyncAt (es_sustech s),
      sfm_providerProfiles = cloneProviderProfiles (es_providerProfiles s),
      sfm_primaryAssistantModel = ert_primaryAssistantModel (es_defaultModelRouting s),
      sfm_fastAssistantModel = ert_fastAssistantModel (es_defaultModelRouting s),
      sfm_primaryAssistantModelRoute = cloneModelRouteRef (ert_primaryAssistantModelRoute (es_defaultModelRouting s)),
      sfm_fastAssistantModelRoute = cloneModelRouteRef (ert_fastAssistantModelRoute (es_defaultModelRouting s)),
      sfm_language = groupText (es_general s) ''language'',
      sfm_assistantNotificationsEnabled = groupFlag (es_general s) ''assistantNotificationsEnabled'',
      sfm_toolPermissionMode = ms_toolPermissionMode (es_mcp s),
      sfm_mcpAutoDiscoveryEnabled = ms_mcpAutoDiscoveryEnabled (es_mcp s),
      sfm_toolPermissionPolicy = ms_toolPermissionPolicy (es_mcp s),
      sfm_apiReconnectMode = groupText (es_api s) ''apiReconnectMode'',
      sfm_healthPollingEnabled = groupFlag (es_api s) ''healthPollingEnabled'',
      sfm_apiBaseUrl = groupText (es_api s) ''apiBaseUrl'',
      sfm_searchEngine = ''google'', sfm_searchResultCount = ''8'', sfm_compressionMode = ''balanced'',
      sfm_docsFormat = groupText (es_docs s) ''docsFormat'',
      sfm_wakeupShareLink = groupText (es_externalSource s) ''wakeupShareLink''\<rparr>"

section \<open>What is saved\<close>

definition providerProfilesSupportStoredRoute :: "stored_profile list \<Rightarrow> model_route_ref \<Rightarrow> bool" where
  "providerProfilesSupportStoredRoute profiles r \<longleftrightarrow>
     (case find (\<lambda>p. spf_profileId p = rr_profileId r) profiles of
        None \<Rightarrow> False
      | Some p \<Rightarrow> list_ex (\<lambda>m. pm_modelId m = rr_modelId r) (spf_models p))"

definition resolveStoredDefaultModelRoute ::
  "string \<Rightarrow> model_route_ref option \<Rightarrow> stored_profile list \<Rightarrow> model_route_ref option" where
  "resolveStoredDefaultModelRoute selectedModelId persistedRoute profiles =
     (let normalizedSelectedModelId = trim selectedModelId in
      if normalizedSelectedModelId = [] then None
      else case parseSerializedModelRouteRef normalizedSelectedModelId of
        Some parsedRoute \<Rightarrow> if providerProfilesSupportStoredRoute profiles parsedRoute then Some parsedRoute else None
      | None \<Rightarrow>
          (case persistedRoute of
             None \<Rightarrow> None
           | Some r \<Rightarrow>
               if rr_modelId r = normalizedSelectedModelId \<and> providerProfilesSupportStoredRoute profiles r
               then cloneModelRouteRef (Some r) else None))"

definition createSettingsWorkspaceStateSaveInput :: "provider_catalog \<Rightarrow> settings_form \<Rightarrow> state_values" where
  "createSettingsWorkspaceStateSaveInput catalog f =
     (let providerProfiles = map (projectStoredProviderProfile catalog) (sfm_providerProfiles f) in
      \<lparr>sv_sustech =
         \<lparr>su_studentId = sfm_studentId f, su_email = sfm_sustechEmail f,
          su_blackboardCurrentTermOnly = sfm_blackboardCurrentTermOnly f,
          su_blackboardParallelSyncWorkers = sfm_blackboardParallelSyncWorkers f,
          su_blackboardSyncInterval = sfm_blackboardSyncInterval f,
          su_blackboardLastAutoSyncAt = sfm_blackboardLastAutoSyncAt f,
          su_blackboardNextAutoSyncAt = sfm_blackboardNextAutoSyncAt f\<rparr>,
       sv_providerProfiles = providerProfiles,
       sv_defaultModelRouting =
         \<lparr>srt_primaryAssistantModel = resolveStoredDefaultModelRoute (sfm_primaryAssistantModel f) (sfm_primaryAssistantModelRoute f) providerProfiles,
          srt_fastAssistantModel = resolveStoredDefaultModelRoute (sfm_fastAssistantModel f) (sfm_fastAssistantModelRoute f) providerProfiles\<rparr>,
       sv_general = [(''language'', JStr (sfm_language f)), (''assistantNotificationsEnabled'', JBool (sfm_assistantNotificationsEnabled f))],
       sv_mcp = \<lparr>ms_mcpAutoDiscoveryEnabled = sfm_mcpAutoDiscoveryEnabled f, ms_toolPermissionMode = sfm_toolPermissionMode f,
         ms_toolPermissionPolicy = sfm_toolPermissionPolicy f\<rparr>,
       sv_api = [(''apiReconnectMode'', JStr (sfm_apiReconnectMode f)), (''healthPollingEnabled'', JBool (sfm_healthPollingEnabled f)),
         (''apiBaseUrl'', JStr (sfm_apiBaseUrl f))],
       sv_docs = [(''docsFormat'', JStr (sfm_docsFormat f))],
       sv_externalSource = [(''wakeupShareLink'', JStr (sfm_wakeupShareLink f))]\<rparr>)"

section \<open>Loading\<close>

record hydration =
  hy_state :: settings_form
  hy_activeProviderId :: string
  hy_providerSecretValues :: "(string \<times> string) list"
  hy_casPasswordValue :: string

definition projectLoadedProviderSecretValues :: "(string \<times> provider_secret_state) list \<Rightarrow> (string \<times> string) list" where
  "projectLoadedProviderSecretValues states =
     fromEntries (concat (map (\<lambda>(profileId, s). if pss_apiKey s \<noteq> [] then [(profileId, pss_apiKey s)] else []) states))"

text \<open>The view of a profile that the options of the models are made from.\<close>

definition routeProfileOf :: "editable_profile \<Rightarrow> provider_profile" where
  "routeProfileOf p =
     \<lparr>pf_id = epf_id p, pf_providerId = epf_providerId p, pf_name = epf_name p, pf_protocol = epf_protocol p,
      pf_compatibility = map_option pk_status (epf_compatibility p),
      pf_availableModels = map (\<lambda>m. \<lparr>mp_modelId = pm_modelId m, mp_displayName = pm_displayName m\<rparr>) (epf_availableModels p)\<rparr>"

text \<open>
  The three calls one after another, each through the main process; a call that fails (\<open>ok: false\<close>) leaves the values of its
  part as they are, and without the state there is nothing to show.
\<close>

definition loadSettingsWorkspaceHydration :: "settings_env \<Rightarrow> unit res \<Rightarrow> string \<Rightarrow> disk \<Rightarrow> hydration option \<times> disk" where
  "loadSettingsWorkspaceHydration env paths currentActiveProviderId d =
     (case fst (callLoadState env paths d) of
        (Inl e, d1) \<Rightarrow> (None, d1)
      | (Inr (editable, source), d1) \<Rightarrow>
          (let (secretStatuses, d2) = callLoadSecretStates env paths (Some (map epf_id (es_providerProfiles editable))) d1;
               (cas, d3) = callLoadSustechCasSecret env paths d2;
               form = createSettingsWorkspaceFormStateFromEditableState editable
           in (Some \<lparr>hy_state = form, hy_activeProviderId = resolveSettingsWorkspaceActiveProviderId
                   (map routeProfileOf (sfm_providerProfiles form)) currentActiveProviderId,
                 hy_providerSecretValues = (case secretStatuses of Inl e \<Rightarrow> [] | Inr s \<Rightarrow> projectLoadedProviderSecretValues s),
                 hy_casPasswordValue = (case cas of Inl e \<Rightarrow> [] | Inr s \<Rightarrow> css_password s)\<rparr>, d3)))"

section \<open>The hook\<close>

definition resolveProviderBaseUrlInvalid :: "provider_catalog \<Rightarrow> editable_profile \<Rightarrow> bool" where
  "resolveProviderBaseUrlInvalid catalog p \<longleftrightarrow>
     (case getProviderCatalogEntry catalog (resolveProviderIdFromProfile p) of
        Some e \<Rightarrow> bu_mode (ce_baseUrlPolicy e) \<noteq> BaseFixed
      | None \<Rightarrow> True) \<and>
     (case epf_baseUrl p of None \<Rightarrow> True | Some u \<Rightarrow> trim u = []) \<and> trim (epf_endpoint p) = []"

record settings_hook =
  sho_form :: settings_form
  sho_activeProviderId :: string
  sho_hydrated :: bool
  sho_providerSecretValues :: "(string \<times> string) list"
  sho_casPasswordValue :: string
  sho_skipNextSave :: bool
  sho_pending :: "state_values option"

definition initialSettingsHook :: "string \<Rightarrow> settings_hook" where
  "initialSettingsHook activeProviderId =
     \<lparr>sho_form = createInitialSettingsWorkspaceFormState, sho_activeProviderId = activeProviderId, sho_hydrated = False,
      sho_providerSecretValues = [], sho_casPasswordValue = [], sho_skipNextSave = True, sho_pending = None\<rparr>"

text \<open>The effect: its cleanup cancels the timer of the save before.\<close>

definition saveEffect :: "provider_catalog \<Rightarrow> settings_hook \<Rightarrow> settings_hook" where
  "saveEffect catalog h =
     (if \<not> sho_hydrated h then h\<lparr>sho_pending := None\<rparr>
      else if sho_skipNextSave h then h\<lparr>sho_skipNextSave := False, sho_pending := None\<rparr>
      else if list_ex (resolveProviderBaseUrlInvalid catalog) (sfm_providerProfiles (sho_form h)) then h\<lparr>sho_pending := None\<rparr>
      else h\<lparr>sho_pending := Some (createSettingsWorkspaceStateSaveInput catalog (sho_form h))\<rparr>)"

text \<open>Loading has ended, with or without a result.\<close>

definition finishHydration :: "provider_catalog \<Rightarrow> hydration option \<Rightarrow> settings_hook \<Rightarrow> settings_hook" where
  "finishHydration catalog r h =
     saveEffect catalog
       ((case r of
           None \<Rightarrow> h
         | Some y \<Rightarrow> h\<lparr>sho_form := hy_state y, sho_activeProviderId := hy_activeProviderId y,
             sho_providerSecretValues := hy_providerSecretValues y, sho_casPasswordValue := hy_casPasswordValue y\<rparr>)
        \<lparr>sho_hydrated := True\<rparr>)"

definition editForm :: "provider_catalog \<Rightarrow> (settings_form \<Rightarrow> settings_form) \<Rightarrow> settings_hook \<Rightarrow> settings_hook" where
  "editForm catalog change h = saveEffect catalog (h\<lparr>sho_form := change (sho_form h)\<rparr>)"

text \<open>The timer: what is sent to the main process.\<close>

definition saveTimer :: "settings_hook \<Rightarrow> state_values option \<times> settings_hook" where
  "saveTimer h = (sho_pending h, h\<lparr>sho_pending := None\<rparr>)"

section \<open>Edits with a rule of their own\<close>

text \<open>The new value and route of a default model, from the value chosen (as a function of the value shown).\<close>

definition updateDefaultModelSelection ::
  "string \<Rightarrow> model_route_ref option \<Rightarrow> (string \<Rightarrow> string) \<Rightarrow> string \<times> model_route_ref option" where
  "updateDefaultModelSelection previousValue previousRoute pickValue =
     (let currentSelectionValue = (case previousRoute of Some r \<Rightarrow> serializeModelRouteRef r | None \<Rightarrow> previousValue);
          normalizedValue = trim (pickValue currentSelectionValue)
      in case parseSerializedModelRouteRef normalizedValue of
           Some parsedRoute \<Rightarrow> (rr_modelId parsedRoute, cloneModelRouteRef (Some parsedRoute))
         | None \<Rightarrow>
             (normalizedValue,
              case previousRoute of
                None \<Rightarrow> None
              | Some r \<Rightarrow>
                  if rr_modelId r \<noteq> trim previousValue \<or> normalizedValue = [] then None
                  else Some \<lparr>rr_routeKind = rr_routeKind r, rr_profileId = rr_profileId r, rr_modelId = normalizedValue\<rparr>))"

definition setPrimaryAssistantModel :: "(string \<Rightarrow> string) \<Rightarrow> settings_form \<Rightarrow> settings_form" where
  "setPrimaryAssistantModel pickValue f =
     (let (v, r) = updateDefaultModelSelection (sfm_primaryAssistantModel f) (sfm_primaryAssistantModelRoute f) pickValue in
      f\<lparr>sfm_primaryAssistantModel := v, sfm_primaryAssistantModelRoute := r\<rparr>)"

definition setFastAssistantModel :: "(string \<Rightarrow> string) \<Rightarrow> settings_form \<Rightarrow> settings_form" where
  "setFastAssistantModel pickValue f =
     (let (v, r) = updateDefaultModelSelection (sfm_fastAssistantModel f) (sfm_fastAssistantModelRoute f) pickValue in
      f\<lparr>sfm_fastAssistantModel := v, sfm_fastAssistantModelRoute := r\<rparr>)"

definition legacyModeOr :: "string \<Rightarrow> string" where
  "legacyModeOr v = (if v \<in> {''trusted'', ''strict'', ''manual''} then v else ''manual'')"

definition mapLegacyToolPermissionModeToPolicyDefaultMode :: "string \<Rightarrow> string" where
  "mapLegacyToolPermissionModeToPolicyDefaultMode mode =
     (if mode = ''trusted'' then ''allow'' else if mode = ''strict'' then ''deny'' else ''ask'')"

definition setToolPermissionMode :: "string \<Rightarrow> settings_form \<Rightarrow> settings_form" where
  "setToolPermissionMode v f =
     (let mode = legacyModeOr v in
      f\<lparr>sfm_toolPermissionMode := mode,
        sfm_toolPermissionPolicy := (sfm_toolPermissionPolicy f)
          \<lparr>pp_migrationSourceMode := Some mode, pp_defaultMode := mapLegacyToolPermissionModeToPolicyDefaultMode mode\<rparr>\<rparr>)"

end
