(* ===== verification/Provider_Laws.thy ===== *)
theory Provider_Laws
  imports Provider_Profiles Thinking_Laws
begin

text \<open>
  What stored provider profiles satisfy: the form that reading gives them, that reading what was written changes nothing, and
  that showing a profile in the form and projecting it back gives the same profile.
\<close>

section \<open>Trimmed texts\<close>

lemma middle_visible: "visible b \<Longrightarrow> \<not> isWs3 a b c"
  by (auto simp: visible_def isWs3_def)

lemma headOk_more: "headOk isWs2 isWs3 s \<Longrightarrow> s \<noteq> [] \<Longrightarrow> visible b \<Longrightarrow> headOk isWs2 isWs3 (s @ b # t)"
  by (cases s rule: remdups_adj.cases; cases "tl (tl s)"; cases t)
    (auto simp: visible_head middle_visible split: if_splits)

lemma trimmed_joined:
  assumes "trimmed s" and "visible b" and "visible (last (b # t))"
  shows "trimmed (s @ b # t)"
proof -
  have "headOk isWs2 isWs3 s"
    using assms(1) trimStart_trim [of s] by (simp add: trimmed_def trimStart_def strip_id_iff)
  then have start: "trimStart (s @ b # t) = s @ b # t"
    using headOk_more [of s b t] assms by (simp add: trimStart_def strip_id_iff trimmed_def)
  have "hd (rev (s @ b # t)) = last (b # t)" by (metis hd_rev last_appendR list.distinct(1))
  then obtain c u where c: "rev (s @ b # t) = c # u" "visible c"
    using assms(3) by (cases "rev (s @ b # t)") auto
  then have "trimEnd (s @ b # t) = s @ b # t"
    using headOk_visible(2) [of c u] by (simp only: trimEnd_def strip_headOk c(1)) (metis c(1) rev_rev_ident)
  with start show ?thesis by (simp add: trimmed_def trim_def)
qed

lemma natString_is_visible: "visible (hd (natString n))" "visible (last (natString n))"
proof -
  have digit: "visible (digitChar d)" if "d < 10" for d
    using of_char_digitChar [OF that] that by (simp add: visible_def)
  have "list_all visible (natString n)"
    proof (induction n rule: natString.induct)
    case (1 n)
    then show ?case using digit [of n] digit [of "n mod 10"] by (subst natString.simps) auto
  qed
  then show "visible (hd (natString n))" "visible (last (natString n))"
    using natString_nonempty [of n] by (simp_all add: list_all_iff)
qed

lemma trimmed_numbered: "trimmed s \<Longrightarrow> visible b \<Longrightarrow> trimmed (s @ b # t @ natString n)"
  by (rule trimmed_joined) (simp_all add: natString_is_visible)

lemma trimmed_counted: "visible b \<Longrightarrow> trimmed (b # t @ natString n)"
  by (rule trimmed_ascii) (simp_all add: natString_is_visible)

lemma nonEmpty_given [simp]: "trimmed s \<Longrightarrow> normalizeNonEmptyString (Some (JStr s)) f = s"
  by (auto simp: normalizeNonEmptyString_def trimmed_def)

lemma normalizeString_trim [simp]: "trim (normalizeString v f) = normalizeString v f"
  by (cases v rule: rawText.cases) simp_all

lemma nonEmpty_trimmed: "trimmed f \<Longrightarrow> trimmed (normalizeNonEmptyString v f)"
  by (simp add: normalizeNonEmptyString_def Let_def trimmed_def)

lemma nonEmpty_blank: "normalizeNonEmptyString v [] \<noteq> [] \<Longrightarrow> trimmed (normalizeNonEmptyString v [])"
  by (simp add: normalizeNonEmptyString_def Let_def trimmed_def)

section \<open>Extensions\<close>

fun plainValue :: "json \<Rightarrow> bool" where
  "plainValue (JStr s) = trimmed s"
| "plainValue (JNum q) = True"
| "plainValue (JBool b) = True"
| "plainValue JNull = True"
| "plainValue v = False"

definition extensionsOk :: "jrecord \<Rightarrow> bool" where
  "extensionsOk x \<longleftrightarrow> distinct (map fst x) \<and> list_all (\<lambda>(k, v). trimmed k \<and> plainValue v) x"

lemma setProp_new: "k \<notin> set (map fst r) \<Longrightarrow> setProp k v r = r @ [(k, v)]"
  unfolding setProp_def by (induction r) auto

lemma setProp_same: "prop_of r k = Some v \<Longrightarrow> setProp k v r = r"
  unfolding setProp_def prop_of_def by (rule update_triv)

lemma setProp_ok: "extensionsOk x \<Longrightarrow> trimmed k \<Longrightarrow> plainValue v \<Longrightarrow> extensionsOk (setProp k v x)"
  by (auto simp: extensionsOk_def setProp_def distinct_update list_all_iff dest!: in_updated)

lemma keep_ok: "extensionsOk x \<Longrightarrow> extensionsOk (keepExtension kv x)"
  by (cases kv) (auto simp: Let_def nonEmpty_blank trimmed_trim intro!: setProp_ok split: json.split)

lemma extensions_ok: "extensionsOk (normalizeProviderProfileExtensions v)"
proof -
  have "extensionsOk x \<Longrightarrow> extensionsOk (fold keepExtension kvs x)" for kvs x
    by (induction kvs arbitrary: x) (simp_all add: keep_ok)
  then show ?thesis by (simp add: normalizeProviderProfileExtensions_def extensionsOk_def)
qed

lemma keep_new:
  "trimmed k \<Longrightarrow> plainValue v \<Longrightarrow> k \<notin> set (map fst x) \<Longrightarrow> keepExtension (k, v) x = x @ [(k, v)]"
  by (cases v) (auto simp: Let_def trimmed_def setProp_new normalizeNonEmptyString_def)

lemma extensions_read: "extensionsOk x \<Longrightarrow> normalizeProviderProfileExtensions (Some (JObj x)) = x"
proof -
  have "extensionsOk (m @ x) \<Longrightarrow> fold keepExtension x m = m @ x" for m
  proof (induction x arbitrary: m)
    case (Cons kv x)
    then have "keepExtension kv m = m @ [kv]" by (cases kv) (auto simp: extensionsOk_def keep_new simp del: keepExtension.simps)
    with Cons show ?case by simp
  qed simp
  then show "extensionsOk x \<Longrightarrow> normalizeProviderProfileExtensions (Some (JObj x)) = x"
    by (simp add: normalizeProviderProfileExtensions_def)
qed

lemma spread_fresh: "distinct (map fst x) \<Longrightarrow> spreadInto [] x = x"
  using fromEntries_id [of x] by (simp add: spreadInto_def fromEntries_def setProp_def [abs_def])

lemma spread_same: "list_all (\<lambda>(k, v). prop_of x k = Some v) y \<Longrightarrow> spreadInto x y = x"
  unfolding spreadInto_def by (induction y arbitrary: x) (auto simp: setProp_same)

lemma clone_extensions [simp]: "extensionsOk x \<Longrightarrow> cloneProviderProfileExtensions x = x"
  by (simp add: cloneProviderProfileExtensions_def spread_fresh extensionsOk_def)

lemma extension_known: "extensionsOk x \<Longrightarrow> prop_of x k = Some v \<Longrightarrow> trimmed k \<and> plainValue v"
  by (auto simp: extensionsOk_def list_all_iff prop_of_def dest!: map_of_SomeD)

lemma extension_text:
  assumes "extensionsOk x" and "getProviderProfileExtensionString x k \<noteq> []"
  shows "prop_of x k = Some (JStr (getProviderProfileExtensionString x k))" and "trimmed (getProviderProfileExtensionString x k)"
  using assms by (auto simp: getProviderProfileExtensionString_def dest: extension_known split: option.splits json.splits)

section \<open>The identity of the provider\<close>

text \<open>A catalog without shared names, whose identifiers are in the form that texts are looked up in.\<close>

definition tidyCatalog :: "provider_catalog \<Rightarrow> bool" where
  "tidyCatalog c \<longleftrightarrow> distinct (concat (map entryKeys (pc_providers c))) \<and>
     list_all (\<lambda>e. ce_providerId e \<noteq> [] \<and> normalizeProviderCatalogIdentifier (ce_providerId e) = ce_providerId e) (pc_providers c)"

definition canonicalProvider :: "provider_catalog \<Rightarrow> string \<Rightarrow> bool" where
  "canonicalProvider c i \<longleftrightarrow> i \<noteq> [] \<and> normalizeProviderCatalogIdentifier i = i \<and>
     (case getProviderCatalogEntry c i of None \<Rightarrow> True | Some e \<Rightarrow> ce_providerId e = i)"

lemma identifier_twice [simp]:
  "normalizeProviderCatalogIdentifier (normalizeProviderCatalogIdentifier s) = normalizeProviderCatalogIdentifier s"
  by (simp add: normalizeProviderCatalogIdentifier_def trim_toLowerCase)

lemma lookup_normal [simp]: "getProviderCatalogEntry c (normalizeProviderCatalogIdentifier s) = getProviderCatalogEntry c s"
  by (simp add: getProviderCatalogEntry_def)

lemma found_entry:
  assumes "tidyCatalog c" and "getProviderCatalogEntry c s = Some e"
  shows "canonicalProvider c (ce_providerId e)"
proof -
  have e: "e \<in> set (pc_providers c)" using assms catalog_lookup [of c s e] by (simp add: tidyCatalog_def)
  then have id: "ce_providerId e \<noteq> []" "normalizeProviderCatalogIdentifier (ce_providerId e) = ce_providerId e"
    using assms(1) by (simp_all add: tidyCatalog_def list_all_iff)
  then have "getProviderCatalogEntry c (ce_providerId e) = Some e"
    using e assms(1) catalog_lookup [of c "ce_providerId e" e] by (simp add: tidyCatalog_def entryKeys_def)
  with id show ?thesis by (simp add: canonicalProvider_def)
qed

lemma named_canonical:
  assumes "tidyCatalog c"
    and "normalizeProviderCatalogIdentifier (case providerId of None \<Rightarrow> [] | Some s \<Rightarrow> s) \<noteq> [] \<or>
      normalizeProviderCatalogIdentifier (case protocol of None \<Rightarrow> [] | Some s \<Rightarrow> s) \<noteq> []"
  shows "canonicalProvider c (resolveStoredProviderId c providerId protocol profileId)"
proof -
  have "canonicalProvider c (case getProviderCatalogEntry c (normalizeProviderCatalogIdentifier s) of
      None \<Rightarrow> normalizeProviderCatalogIdentifier s | Some e \<Rightarrow> ce_providerId e)"
    if "normalizeProviderCatalogIdentifier s \<noteq> []" for s
    using that found_entry [OF assms(1), of s] by (cases "getProviderCatalogEntry c s") (simp_all add: canonicalProvider_def)
  then show ?thesis using assms(2) by (simp add: resolveStoredProviderId_def Let_def)
qed

lemma resolve_canonical [simp]: "canonicalProvider c i \<Longrightarrow> resolveStoredProviderId c (Some i) protocol profileId = i"
  by (auto simp: resolveStoredProviderId_def canonicalProvider_def Let_def split: option.splits)

section \<open>Compatibility\<close>

lemma compatibility_trimmed [simp]: "trimmed (compatibilityText s)"
  by (cases s; simp; rule trimmed_ascii; simp add: visible_def)

lemma compatibility_found [simp]: "map_of compatibilityStatuses (compatibilityText s) = Some s"
  by (cases s) (simp_all add: compatibilityStatuses_def)

definition compatibilityOk :: "profile_compatibility \<Rightarrow> bool" where
  "compatibilityOk k \<longleftrightarrow> trim (pk_reason k) = pk_reason k"

lemma compatibility_ok: "compatibilityOk (normalizeStoredProviderCompatibility c v i)"
proof -
  have "trimmed (''Provider '' @ quoteMark @ s @ quoteMark @ '' is not defined in the current provider catalog.'')"
    "trimmed (''Provider '' @ quoteMark @ s @ quoteMark @ '' is marked as legacy / unsupported in the provider catalog.'')" for s
    by (rule trimmed_ascii; simp add: visible_def)+
  then have "trim (''Provider '' @ quoteMark @ s @ quoteMark @ '' is not defined in the current provider catalog.'') =
       ''Provider '' @ quoteMark @ s @ quoteMark @ '' is not defined in the current provider catalog.''"
    "trim (''Provider '' @ quoteMark @ s @ quoteMark @ '' is marked as legacy / unsupported in the provider catalog.'') =
       ''Provider '' @ quoteMark @ s @ quoteMark @ '' is marked as legacy / unsupported in the provider catalog.''" for s
    unfolding trimmed_def by blast+
  then show ?thesis
    unfolding compatibilityOk_def normalizeStoredProviderCompatibility_def Let_def
    by (simp split: option.split del: append.simps append_Cons)
qed

lemma compatibility_read: "compatibilityOk k \<Longrightarrow> normalizeStoredProviderCompatibility c (Some (compatibilityJson k)) i = k"
  by (cases k) (simp add: normalizeStoredProviderCompatibility_def compatibilityJson_def compatibilityOk_def)

section \<open>Models\<close>

definition capabilitiesOk :: "string list \<Rightarrow> bool" where
  "capabilitiesOk cs \<longleftrightarrow> cs \<noteq> [] \<and> distinct cs \<and> set cs \<subseteq> set modelCapabilities"

definition modelOk :: "model_entry \<Rightarrow> bool" where
  "modelOk m \<longleftrightarrow> list_all trimmed [pm_id m, pm_modelId m, pm_displayName m, pm_groupName m, pm_currency m, pm_inputPrice m, pm_outputPrice m] \<and>
     capabilitiesOk (pm_capabilities m) \<and> cloneThinkingCapabilityDeclaration (pm_thinkingCapability m) = pm_thinkingCapability m"

lemma capability_trimmed: "c \<in> set modelCapabilities \<Longrightarrow> trimmed c"
proof -
  have "list_all trimmed modelCapabilities" by (simp add: modelCapabilities_def trimmed_ascii visible_def)
  then show "c \<in> set modelCapabilities \<Longrightarrow> trimmed c" by (simp add: list_all_iff)
qed

lemma capabilities_ok: "capabilitiesOk (normalizeModelCapabilities v)"
proof -
  have one: "capabilitiesOk [''reasoning'']" by (simp add: capabilitiesOk_def modelCapabilities_def)
  then show ?thesis
    by (cases v rule: normalizeModelCapabilities.cases) (auto simp: Let_def capabilitiesOk_def uniqueFrom_set simp del: one)
qed

lemma capabilities_read: "capabilitiesOk cs \<Longrightarrow> normalizeModelCapabilities (Some (JArr (map JStr cs))) = cs"
proof -
  assume cs: "capabilitiesOk cs"
  then have "map (\<lambda>x. normalizeNonEmptyString (Some x) []) (map JStr cs) = cs"
    by (auto simp: capabilitiesOk_def intro!: map_idI dest!: capability_trimmed subsetD)
  moreover have "filter (\<lambda>c. c \<in> set modelCapabilities) cs = cs" using cs by (auto simp: capabilitiesOk_def filter_id_conv)
  ultimately show ?thesis using cs by (simp add: capabilitiesOk_def uniqueFrom_id)
qed

lemma clone_settles:
  "cloneThinkingCapabilityDeclaration (map_option declarationJson (normalizeThinkingCapabilityDeclaration v)) =
   cloneThinkingCapabilityDeclaration v"
  "cloneThinkingCapabilityDeclaration (cloneThinkingCapabilityDeclaration v) = cloneThinkingCapabilityDeclaration v"
proof -
  have settled: "settledDeclaration d" if "normalizeThinkingCapabilityDeclaration v = Some (Supported d)" for d
    using initialize_settled [of v] that by (simp add: initializeSupportedThinkingCapabilityDeclaration_def)
  have unsupported: "normalizeThinkingCapabilityDeclaration (Some (unsupportedJson q)) = Some (Unsupported q)"
    if "normalizeThinkingCapabilityDeclaration v = Some (Unsupported q)" for q
  proof -
    have "pred_option trimmed q"
      using that by (auto simp: normalizeThinkingCapabilityDeclaration_def Let_def pred_option_def dest: optionalString_trimmed
          split: option.splits json.splits if_splits)
    then show ?thesis
      by (simp add: normalizeThinkingCapabilityDeclaration_def unsupportedJson_def source_back Let_def del: normalizeOptionalStringT.simps(1))
  qed
  show "cloneThinkingCapabilityDeclaration (map_option declarationJson (normalizeThinkingCapabilityDeclaration v)) =
      cloneThinkingCapabilityDeclaration v"
    "cloneThinkingCapabilityDeclaration (cloneThinkingCapabilityDeclaration v) = cloneThinkingCapabilityDeclaration v"
    using structured_read settled unsupported
    by (auto simp: cloneThinkingCapabilityDeclaration_def normalizeThinkingCapabilityDeclaration_def [of None] objectOf.simps
        split: option.splits capability_declaration.splits)
qed

lemma clone_ok [simp]: "modelOk m \<Longrightarrow> cloneProviderModelProfile m = m"
  by (cases m) (simp add: cloneProviderModelProfile_def modelOk_def)

lemma clone_name [simp]: "pm_modelId (cloneProviderModelProfile m) = pm_modelId m"
  by (simp add: cloneProviderModelProfile_def)

lemma prices_trimmed: "trimmed ''usd''" "trimmed ''0.50''" "trimmed ''3.00''"
  by (rule trimmed_ascii; simp add: visible_def)+

lemma model_ok:
  assumes "trimmed profileId" and "normalizeProviderModelProfile v profileId i = Some m"
  shows "modelOk (cloneProviderModelProfile m)"
proof -
  have "trimmed (profileId @ ''-model-'' @ natString (i + 1))"
    using trimmed_numbered [OF assms(1), of "CHR ''-''" "''model-''" "i + 1"] by (simp add: visible_def)
  then show ?thesis
    using assms by (auto simp: normalizeProviderModelProfile_def modelOk_def cloneProviderModelProfile_def Let_def nonEmpty_blank
        nonEmpty_trimmed capabilities_ok clone_settles prices_trimmed split: if_splits)
qed

lemma model_read:
  assumes "modelOk m"
  shows "\<exists>m'. normalizeProviderModelProfile (modelEntryJson m) profileId i = Some m' \<and> cloneProviderModelProfile m' = m"
proof -
  have thinking: "cloneThinkingCapabilityDeclaration (map_option declarationJson (normalizeThinkingCapabilityDeclaration (pm_thinkingCapability m))) =
      pm_thinkingCapability m" "pm_modelId m \<noteq> []"
    using assms by (simp_all add: clone_settles modelOk_def trimmed_def)
  with assms thinking show ?thesis
    by (cases m) (simp add: normalizeProviderModelProfile_def modelEntryJson_def modelOk_def capabilities_read
        cloneProviderModelProfile_def option.map_ident del: normalizeModelCapabilities.simps)
qed

lemma models_ok: "trimmed profileId \<Longrightarrow> list_all modelOk (map cloneProviderModelProfile (normalizeProviderModelProfiles v profileId))"
  by (cases "(v, profileId)" rule: normalizeProviderModelProfiles.cases)
    (auto simp: list_all_iff map_filter_in intro: model_ok)

lemma models_read:
  assumes "list_all modelOk ms"
  shows "map cloneProviderModelProfile (normalizeProviderModelProfiles (Some (JArr (map modelEntryJson ms))) profileId) = ms"
proof -
  have "map cloneProviderModelProfile (List.map_filter (\<lambda>(i, x). normalizeProviderModelProfile x profileId i)
      (enumerate n (map modelEntryJson ms))) = ms" for n
    using assms
  proof (induction ms arbitrary: n)
    case (Cons m ms)
    then obtain m' where "normalizeProviderModelProfile (modelEntryJson m) profileId n = Some m'" "cloneProviderModelProfile m' = m"
      using model_read [of m profileId n] by auto
    with Cons show ?case by (simp add: List.map_filter_simps)
  qed (simp add: List.map_filter_simps)
  then show ?thesis by simp
qed

section \<open>Tracked models\<close>

definition tracksKnown :: "jrecord \<Rightarrow> model_entry list \<Rightarrow> bool" where
  "tracksKnown x ms \<longleftrightarrow> list_all (\<lambda>t. t = [] \<or> t \<in> pm_modelId ` set ms) (trackedModelsOf x)"

lemma known_ids: "list_all modelOk ms \<Longrightarrow> set (knownModelIds ms) = pm_modelId ` set ms"
  by (force simp: knownModelIds_def uniqueFrom_set list_all_iff modelOk_def trimmed_def)

lemma placeholder_ok:
  assumes "trimmed profileId" "trimmed displayName" "trimmed modelId"
  shows "modelOk (createPlaceholderProviderModelProfile profileId displayName modelId i)"
proof -
  have "trimmed (profileId @ ''-migrated-model-'' @ natString (i + 1))"
    using trimmed_numbered [OF assms(1), of "CHR ''-''" "''migrated-model-''" "i + 1"] by (simp add: visible_def)
  moreover have "capabilitiesOk [''reasoning'']" by (simp add: capabilitiesOk_def modelCapabilities_def)
  ultimately show ?thesis
    using assms by (simp add: modelOk_def createPlaceholderProviderModelProfile_def prices_trimmed
        cloneThinkingCapabilityDeclaration_def normalizeThinkingCapabilityDeclaration_def)
qed

text \<open>One step of the loop keeps the models well-formed, and the tracked name is known afterwards.\<close>

lemma track_step:
  assumes "trimmed profileId" "trimmed displayName" "t = [] \<or> trimmed t"
    and "list_all modelOk ms" "set known = pm_modelId ` set ms"
    and "trackModel profileId displayName (i, t) (ms, known) = (ms', known')"
  shows "list_all modelOk ms' \<and> set known' = pm_modelId ` set ms' \<and> set ms \<subseteq> set ms' \<and> (t = [] \<or> t \<in> pm_modelId ` set ms')"
proof -
  have t: "normalizeNonEmptyString (Some (JStr t)) [] = t"
    using assms(3) by (auto simp: normalizeNonEmptyString_def trimmed_def)
  show ?thesis
    using assms t placeholder_ok [OF assms(1,2), of t i]
    by (auto simp: trackModel_def Let_def createPlaceholderProviderModelProfile_def split: if_splits)
qed

lemma ensure_ok:
  assumes "trimmed profileId" "trimmed displayName" "extensionsOk x" and "list_all modelOk (map cloneProviderModelProfile ms)"
  shows "list_all modelOk (ensureTrackedModels ms profileId displayName (trackedModelsOf x)) \<and>
    tracksKnown x (ensureTrackedModels ms profileId displayName (trackedModelsOf x))"
proof -
  let ?ms = "map cloneProviderModelProfile ms"
  have t: "t = [] \<or> trimmed t" if "t \<in> set (trackedModelsOf x)" for t
    using that extension_text(2) [OF assms(3)] by (auto simp: trackedModelsOf_def)
  obtain a b where ab: "trackedModelsOf x = [a, b]" by (simp add: trackedModelsOf_def)
  obtain ms1 known1 where one: "trackModel profileId displayName (0, a) (?ms, knownModelIds ?ms) = (ms1, known1)"
    by (meson surj_pair)
  obtain ms2 known2 where two: "trackModel profileId displayName (1, b) (ms1, known1) = (ms2, known2)"
    by (meson surj_pair)
  have "ensureTrackedModels ms profileId displayName (trackedModelsOf x) = ms2"
    using one two by (simp add: ensureTrackedModels_def ab)
  moreover have first: "list_all modelOk ms1 \<and> set known1 = pm_modelId ` set ms1 \<and> set ?ms \<subseteq> set ms1 \<and> (a = [] \<or> a \<in> pm_modelId ` set ms1)"
    using track_step [OF assms(1,2) _ assms(4) _ one] t known_ids [OF assms(4)] by (simp add: ab)
  moreover have "list_all modelOk ms2 \<and> set known2 = pm_modelId ` set ms2 \<and> set ms1 \<subseteq> set ms2 \<and> (b = [] \<or> b \<in> pm_modelId ` set ms2)"
    using track_step [OF assms(1,2) _ _ _ two] t first by (simp add: ab)
  ultimately show ?thesis by (auto simp: tracksKnown_def ab)
qed

lemma ensure_known:
  assumes "extensionsOk x" and "list_all modelOk (map cloneProviderModelProfile ms)" and "tracksKnown x (map cloneProviderModelProfile ms)"
  shows "ensureTrackedModels ms profileId displayName (trackedModelsOf x) = map cloneProviderModelProfile ms"
proof -
  let ?ms = "map cloneProviderModelProfile ms"
  have same: "trackModel profileId displayName (i, t) (?ms, knownModelIds ?ms) = (?ms, knownModelIds ?ms)"
    if "t \<in> set (trackedModelsOf x)" for i t
  proof -
    have "t = [] \<or> t \<in> set (knownModelIds ?ms) \<and> trimmed t"
      using that assms(3) known_ids [OF assms(2)] extension_text(2) [OF assms(1)]
      by (auto simp: tracksKnown_def trackedModelsOf_def)
    then show ?thesis by (auto simp: trackModel_def normalizeNonEmptyString_def Let_def trimmed_def)
  qed
  then show ?thesis by (simp add: ensureTrackedModels_def trackedModelsOf_def)
qed

section \<open>Profiles\<close>

definition profileOk :: "provider_catalog \<Rightarrow> stored_profile \<Rightarrow> bool" where
  "profileOk c p \<longleftrightarrow> trimmed (spf_profileId p) \<and> canonicalProvider c (spf_providerId p) \<and> trimmed (spf_displayName p) \<and>
     trim (spf_baseUrl p) = spf_baseUrl p \<and> list_all modelOk (spf_models p) \<and> tracksKnown (spf_extensions p) (spf_models p) \<and>
     compatibilityOk (spf_compatibility p) \<and> extensionsOk (spf_extensions p)"

lemma profile_read_ok:
  assumes "normalizeStoredProviderProfile c v i = Some p" and "canonicalProvider c (spf_providerId p)"
  shows "profileOk c p"
proof -
  let ?r = "asRecordS (Some v)"
  have name: "trimmed (''provider-'' @ natString (i + 1))" "trimmed (''Provider '' @ natString (i + 1))"
    using trimmed_counted [of "CHR ''p''" "''rovider-''" "i + 1"] trimmed_counted [of "CHR ''P''" "''rovider ''" "i + 1"]
    by (simp_all add: visible_def)
  note read = assms(1) [unfolded normalizeStoredProviderProfile_def Let_def]
  have "spf_profileId p = normalizeNonEmptyString (prop_of ?r ''profileId'')
      (normalizeNonEmptyString (prop_of ?r ''id'') (''provider-'' @ natString (i + 1)))"
    using read by (auto split: if_splits)
  then have profile: "trimmed (spf_profileId p)" using name by (simp only: nonEmpty_trimmed)
  have "spf_displayName p = normalizeNonEmptyString (prop_of ?r ''displayName'')
      (normalizeNonEmptyString (prop_of ?r ''name'') (''Provider '' @ natString (i + 1)))"
    using read by (auto split: if_splits)
  then have display: "trimmed (spf_displayName p)" using name by (simp only: nonEmpty_trimmed)
  have x: "extensionsOk (spf_extensions p)" using read by (auto simp: extensions_ok split: if_splits)
  have "\<exists>ms. spf_models p = ensureTrackedModels (normalizeProviderModelProfiles ms (spf_profileId p)) (spf_profileId p)
      (spf_displayName p) (trackedModelsOf (spf_extensions p))"
    using read by (auto split: if_splits)
  moreover have "trim (spf_baseUrl p) = spf_baseUrl p" "compatibilityOk (spf_compatibility p)"
    using read by (auto simp: compatibility_ok split: if_splits)
  ultimately show ?thesis
    using ensure_ok [OF profile display x models_ok [OF profile]] profile display x assms(2) by (auto simp: profileOk_def)
qed

lemma keep_blank: "trim s = [] \<Longrightarrow> keepExtension (k, JStr s) x = x"
  by (simp add: Let_def)

lemma no_patch:
  assumes "list_all (\<lambda>s. trim s = []) [epf_fastModel p, epf_fallbackModel p, epf_organization p, epf_region p, epf_notes p]"
    and "normalizeProviderCatalogIdentifier (epf_protocol p) = i"
  shows "buildLegacyProviderProfileExtensionPatch p i = []"
  using assms by (simp add: buildLegacyProviderProfileExtensionPatch_def normalizeProviderProfileExtensions_def Let_def keep_blank
      del: keepExtension.simps)

text \<open>Reading a profile that was written gives the same profile.\<close>

lemma profile_read:
  assumes "profileOk c p"
  shows "normalizeStoredProviderProfile c (storedProfileJson p) i = Some p"
proof -
  have ids: "normalizeProviderCatalogIdentifier (spf_providerId p) = spf_providerId p" "spf_providerId p \<noteq> []"
    "trim (spf_providerId p) = spf_providerId p"
  proof -
    show "normalizeProviderCatalogIdentifier (spf_providerId p) = spf_providerId p" "spf_providerId p \<noteq> []"
      using assms by (simp_all add: profileOk_def canonicalProvider_def)
    then show "trim (spf_providerId p) = spf_providerId p"
      by (metis normalizeProviderCatalogIdentifier_def trim_toLowerCase trim_idem)
  qed
  let ?r = "asRecordS (Some (storedProfileJson p))"
  have props: "prop_of ?r ''profileId'' = Some (JStr (spf_profileId p))" "prop_of ?r ''providerId'' = Some (JStr (spf_providerId p))"
    "prop_of ?r ''displayName'' = Some (JStr (spf_displayName p))" "prop_of ?r ''baseUrl'' = Some (JStr (spf_baseUrl p))"
    "prop_of ?r ''models'' = Some (JArr (map modelEntryJson (spf_models p)))"
    "prop_of ?r ''compatibility'' = Some (compatibilityJson (spf_compatibility p))"
    "prop_of ?r ''extensions'' = Some (JObj (spf_extensions p))"
    "\<And>k. k \<in> {''protocol'', ''fastModel'', ''fallbackModel'', ''organization'', ''region'', ''notes''} \<Longrightarrow> prop_of ?r k = None"
    by (auto simp: storedProfileJson_def)
  have patch: "buildLegacyProviderProfileExtensionPatch
      (legacyProfile ?r (spf_profileId p) (spf_providerId p) (spf_displayName p) (spf_baseUrl p)) (spf_providerId p) = []"
    by (rule no_patch) (simp_all add: legacyProfile_def props(8) ids)
  have x: "spreadInto (spreadInto [] (spf_extensions p)) [] = spf_extensions p"
    using assms spread_fresh [of "spf_extensions p"] by (simp add: profileOk_def extensionsOk_def spreadInto_def)
  have models: "ensureTrackedModels (normalizeProviderModelProfiles (Some (JArr (map modelEntryJson (spf_models p)))) (spf_profileId p))
      (spf_profileId p) (spf_displayName p) (trackedModelsOf (spf_extensions p)) = spf_models p"
    using assms models_read [of "spf_models p" "spf_profileId p"] ensure_known [of "spf_extensions p"
        "normalizeProviderModelProfiles (Some (JArr (map modelEntryJson (spf_models p)))) (spf_profileId p)"]
    by (simp add: profileOk_def del: normalizeProviderModelProfiles.simps)
  show ?thesis
    using assms
    by (simp add: normalizeStoredProviderProfile_def profileOk_def props patch x models ids Let_def
        compatibility_read extensions_read trimmed_def [of "spf_profileId p"] del: normalizeProviderModelProfiles.simps)
qed

section \<open>The form of a profile\<close>

text \<open>An old protocol is kept when it is an identifier already or names the provider itself.\<close>

definition legacyProtocolOk :: "stored_profile \<Rightarrow> bool" where
  "legacyProtocolOk p \<longleftrightarrow>
     (let s = getProviderProfileExtensionString (spf_extensions p) ''legacyProtocol''
      in s = [] \<or> normalizeProviderCatalogIdentifier s \<in> {s, spf_providerId p})"

lemma keep_known:
  assumes "trimmed k" and "s = [] \<or> trimmed s \<and> prop_of x k = Some (JStr s)" and "list_all (\<lambda>(k, v). prop_of x k = Some v) m"
  shows "list_all (\<lambda>(k, v). prop_of x k = Some v) (keepExtension (k, JStr s) m)"
  using assms by (auto simp: Let_def trimmed_def list_all_iff setProp_def dest!: in_updated)

lemma patch_known:
  assumes "list_all (\<lambda>(k, s). trimmed k \<and> (s = [] \<or> trimmed s \<and> prop_of x k = Some (JStr s))) kvs"
  shows "list_all (\<lambda>(k, v). prop_of x k = Some v)
    (normalizeProviderProfileExtensions (Some (JObj (map (\<lambda>(k, s). (k, JStr s)) kvs))))"
proof -
  have "list_all (\<lambda>(k, v). prop_of x k = Some v) m \<Longrightarrow>
      list_all (\<lambda>(k, v). prop_of x k = Some v) (fold keepExtension (map (\<lambda>(k, s). (k, JStr s)) kvs) m)" for m
    using assms by (induction kvs arbitrary: m) (auto simp: keep_known simp del: keepExtension.simps)
  then show ?thesis by (simp add: normalizeProviderProfileExtensions_def)
qed

lemma tracked_keys: "trimmed ''fastModel''" "trimmed ''fallbackModel''" "trimmed ''organization''" "trimmed ''region''" "trimmed ''notes''"
    "trimmed ''legacyProtocol''"
  by (rule trimmed_ascii; simp add: visible_def)+

text \<open>The form of a profile, with any models and the fast model as it is or cleared.\<close>

definition profileFormOf :: "stored_profile \<Rightarrow> bool \<Rightarrow> bool \<Rightarrow> model_entry list \<Rightarrow> editable_profile" where
  "profileFormOf p hasApiKey cleared ms =
     (let e = projectEditableProviderProfile p hasApiKey
      in e\<lparr>epf_fastModel := (if cleared then [] else epf_fastModel e), epf_availableModels := ms\<rparr>)"

lemma form_patch:
  assumes "profileOk c p" and "legacyProtocolOk p"
  shows "list_all (\<lambda>(k, v). prop_of (spf_extensions p) k = Some v)
    (buildLegacyProviderProfileExtensionPatch (profileFormOf p hasApiKey cleared ms) (spf_providerId p))"
proof -
  let ?x = "spf_extensions p" and ?s = "getProviderProfileExtensionString (spf_extensions p)"
  let ?e = "profileFormOf p hasApiKey cleared ms"
  have x: "extensionsOk ?x" and id: "normalizeProviderCatalogIdentifier (spf_providerId p) = spf_providerId p"
    using assms(1) by (simp_all add: profileOk_def canonicalProvider_def)
  have given: "?s k = [] \<or> trimmed (?s k) \<and> prop_of ?x k = Some (JStr (?s k))" for k
    using extension_text [OF x] by blast
  have protocol: "epf_protocol ?e = (if ?s ''legacyProtocol'' \<noteq> [] then ?s ''legacyProtocol'' else spf_providerId p)"
    by (simp add: profileFormOf_def projectEditableProviderProfile_def Let_def)
  obtain legacy where legacy: "(if normalizeProviderCatalogIdentifier (epf_protocol ?e) \<noteq> [] \<and>
        normalizeProviderCatalogIdentifier (epf_protocol ?e) \<noteq> spf_providerId p
      then [(''legacyProtocol'', JStr (normalizeProviderCatalogIdentifier (epf_protocol ?e)))] else []) = map (\<lambda>(k, s). (k, JStr s)) legacy"
      "legacy = [] \<or> legacy = [(''legacyProtocol'', ?s ''legacyProtocol'')]"
    using assms(2) id unfolding protocol
    by (cases "?s ''legacyProtocol'' = [] \<or> normalizeProviderCatalogIdentifier (?s ''legacyProtocol'') = spf_providerId p")
      (force simp: legacyProtocolOk_def Let_def split: if_splits)+
  let ?kvs = "[(''fastModel'', if cleared then [] else ?s ''fastModel''), (''fallbackModel'', ?s ''fallbackModel''),
          (''organization'', ?s ''organization''), (''region'', ?s ''region''), (''notes'', ?s ''notes'')] @ legacy"
  have "list_all (\<lambda>(k, s). trimmed k \<and> (s = [] \<or> trimmed s \<and> prop_of ?x k = Some (JStr s))) ?kvs"
    using legacy(2) given by (auto simp: tracked_keys)
  from patch_known [OF this] show ?thesis
    unfolding buildLegacyProviderProfileExtensionPatch_def Let_def legacy(1)
    by (cases cleared) (simp_all add: profileFormOf_def projectEditableProviderProfile_def Let_def)
qed

lemma form_projected:
  assumes p: "profileOk c p" and "legacyProtocolOk p"
  shows "projectStoredProviderProfile c (profileFormOf p hasApiKey cleared ms) =
    p\<lparr>spf_models := ensureTrackedModels (normalizeProviderModelProfiles (Some (JArr (map modelEntryJson ms))) (spf_profileId p))
        (spf_profileId p) (spf_displayName p) (trackedModelsOf (spf_extensions p))\<rparr>"
proof -
  let ?e = "profileFormOf p hasApiKey cleared ms"
  note ok = p [unfolded profileOk_def]
  have fields: "epf_id ?e = spf_profileId p" "epf_profileId ?e = Some (spf_profileId p)" "epf_providerId ?e = Some (spf_providerId p)"
    "epf_name ?e = spf_displayName p" "epf_displayName ?e = Some (spf_displayName p)" "epf_baseUrl ?e = Some (spf_baseUrl p)"
    "epf_extensions ?e = Some (spf_extensions p)" "epf_compatibility ?e = Some (spf_compatibility p)"
    "epf_availableModels ?e = ms"
    using ok by (simp_all add: profileFormOf_def projectEditableProviderProfile_def cloneStoredProviderCompatibility_def Let_def)
  have x: "spreadInto (spreadInto [] (spf_extensions p)) (buildLegacyProviderProfileExtensionPatch ?e (spf_providerId p)) = spf_extensions p"
    using spread_same [OF form_patch [OF assms]] spread_fresh [of "spf_extensions p"] ok by (simp add: extensionsOk_def)
  show ?thesis
    using ok by (simp add: projectStoredProviderProfile_def fields x Let_def compatibility_read extensions_read
        del: normalizeProviderModelProfiles.simps)
qed

lemma form_profile:
  assumes "profileOk c p" and "legacyProtocolOk p"
  shows "projectStoredProviderProfile c (projectEditableProviderProfile p hasApiKey) = p"
proof -
  note ok = assms(1) [unfolded profileOk_def]
  have "projectEditableProviderProfile p hasApiKey = profileFormOf p hasApiKey False (spf_models p)"
    using ok by (auto simp: profileFormOf_def projectEditableProviderProfile_def Let_def list_all_iff intro!: map_idI)
  moreover have "ensureTrackedModels (normalizeProviderModelProfiles (Some (JArr (map modelEntryJson (spf_models p)))) (spf_profileId p))
      (spf_profileId p) (spf_displayName p) (trackedModelsOf (spf_extensions p)) = spf_models p"
    using ok models_read [of "spf_models p" "spf_profileId p"] ensure_known [of "spf_extensions p"
        "normalizeProviderModelProfiles (Some (JArr (map modelEntryJson (spf_models p)))) (spf_profileId p)"]
    by (simp del: normalizeProviderModelProfiles.simps)
  ultimately show ?thesis using form_projected [OF assms] by simp
qed

section \<open>A model that cannot be removed\<close>

text \<open>
  When the fast model of a profile is cleared in the form, because its last model was removed, the stored extension keeps its
  name: the patch drops blank texts, so that the old value shows through, and the model is added again as a placeholder.
\<close>

theorem cleared_model_returns:
  assumes "profileOk c p" and "legacyProtocolOk p" and "prop_of (spf_extensions p) ''fastModel'' = Some (JStr m)"
  shows "epf_fastModel (profileFormOf p hasApiKey True []) = [] \<and>
    (let q = projectStoredProviderProfile c (profileFormOf p hasApiKey True []) in
     prop_of (spf_extensions q) ''fastModel'' = Some (JStr m) \<and> m \<in> pm_modelId ` set (spf_models q))"
proof -
  note ok = assms(1) [unfolded profileOk_def]
  have "tracksKnown (spf_extensions p) (ensureTrackedModels [] (spf_profileId p) (spf_displayName p) (trackedModelsOf (spf_extensions p)))"
    using ensure_ok [of "spf_profileId p" "spf_displayName p" "spf_extensions p" "[]"] ok by simp
  moreover have "trimmed m" using ok assms(3) by (auto dest: extension_known)
  ultimately have "m \<in> pm_modelId ` set (ensureTrackedModels [] (spf_profileId p) (spf_displayName p) (trackedModelsOf (spf_extensions p)))"
    using assms(3) by (simp add: tracksKnown_def trackedModelsOf_def getProviderProfileExtensionString_def trimmed_def)
  then show ?thesis
    using form_projected [OF assms(1,2), of hasApiKey True "[]"] assms(3) by (simp add: Let_def profileFormOf_def List.map_filter_simps)
qed

section \<open>A sample profile\<close>

definition sampleModel :: model_entry where
  "sampleModel =
     \<lparr>pm_id = ''m1'', pm_modelId = ''gpt'', pm_displayName = ''GPT'', pm_groupName = ''main'', pm_capabilities = [''tools''],
      pm_thinkingCapability = None, pm_supportsStreaming = True, pm_currency = ''usd'', pm_inputPrice = ''0.50'', pm_outputPrice = ''3.00''\<rparr>"

definition sampleProfile :: stored_profile where
  "sampleProfile =
     \<lparr>spf_profileId = ''main'', spf_providerId = ''openai'', spf_displayName = ''Main'', spf_baseUrl = ''https://x'',
      spf_models = [sampleModel], spf_compatibility = \<lparr>pk_status = CompatActive, pk_reason = []\<rparr>,
      spf_extensions = [(''fastModel'', JStr ''gpt'')]\<rparr>"

lemma sample_texts:
  "trimmed ''m1''" "trimmed ''gpt''" "trimmed ''GPT''" "trimmed ''main''" "trimmed ''Main''" "trimmed ''https://x''" "trimmed ''openai''"
  by (rule trimmed_ascii; simp add: visible_def)+

lemma sample_provider: "canonicalProvider sampleCatalog ''openai''"
proof -
  have "normalizeProviderCatalogIdentifier ''openai'' = ''openai''" by code_simp
  moreover have "getProviderCatalogEntry sampleCatalog ''openai'' = Some sampleEntry"
    using sampleCatalog_keys catalog_lookup [of sampleCatalog "''openai''" sampleEntry] calculation
    by (simp add: sampleCatalog_def)
  ultimately show ?thesis by (simp add: canonicalProvider_def sampleEntry_def)
qed

lemma sample_profile: "profileOk sampleCatalog sampleProfile" "legacyProtocolOk sampleProfile"
proof -
  have "cloneThinkingCapabilityDeclaration None = None"
    by (simp add: cloneThinkingCapabilityDeclaration_def normalizeThinkingCapabilityDeclaration_def)
  then have "modelOk sampleModel"
    by (simp add: modelOk_def sampleModel_def sample_texts prices_trimmed capabilitiesOk_def modelCapabilities_def)
  moreover have "tracksKnown [(''fastModel'', JStr ''gpt'')] [sampleModel]"
    by (simp add: tracksKnown_def trackedModelsOf_def getProviderProfileExtensionString_def sampleModel_def)
  moreover have "trim ''https://x'' = ''https://x''" using sample_texts(6) by (simp only: trimmed_def)
  ultimately show "profileOk sampleCatalog sampleProfile"
    by (simp add: profileOk_def sampleProfile_def sample_texts sample_provider compatibilityOk_def extensionsOk_def tracked_keys)
  show "legacyProtocolOk sampleProfile"
    by (simp add: legacyProtocolOk_def sampleProfile_def getProviderProfileExtensionString_def)
qed

theorem cleared_model_returns_witness:
  "profileOk sampleCatalog sampleProfile \<and> legacyProtocolOk sampleProfile \<and>
   prop_of (spf_extensions sampleProfile) ''fastModel'' = Some (JStr ''gpt'') \<and>
   ''gpt'' \<in> pm_modelId ` set (spf_models (projectStoredProviderProfile sampleCatalog (profileFormOf sampleProfile True True [])))"
  using cleared_model_returns [OF sample_profile, of "''gpt''" True] sample_profile by (simp add: sampleProfile_def Let_def)

end
