(* ===== verification/Settings_Laws.thy ===== *)
theory Settings_Laws
  imports Settings_Form Provider_Laws
begin

text \<open>
  What the documents of the settings workspace satisfy: reading gives settled values, and settled values are read back from
  what is written for them.
\<close>

section \<open>Secrets\<close>

definition secretOk :: "secret_record \<Rightarrow> bool" where
  "secretOk s \<longleftrightarrow> trimmed (sec_profileId s) \<and> trimmed (sec_authKind s) \<and> sec_secretValues s \<noteq> [] \<and>
     distinct (map fst (sec_secretValues s)) \<and> list_all (\<lambda>(k, x). trimmed k \<and> trimmed x) (sec_secretValues s)"

definition secretsOk :: "secret_values \<Rightarrow> bool" where
  "secretsOk v \<longleftrightarrow> distinct (map fst (sev_providerSecrets v)) \<and>
     list_all (\<lambda>(k, s). secretOk s \<and> k = sec_profileId s) (sev_providerSecrets v) \<and> trim (sev_casPassword v) = sev_casPassword v"

lemma secret_texts: "trimmed ''api-key''" "trimmed ''none''" "trimmed ''apiKey''"
  by (rule trimmed_ascii; simp add: visible_def)+

lemma secretValues_ok:
  "distinct (map fst (normalizeProviderSecretValues v)) \<and> list_all (\<lambda>(k, x). trimmed k \<and> trimmed x) (normalizeProviderSecretValues v)"
proof -
  have "\<forall>(k, x) \<in> set (normalizeProviderSecretValues v). trimmed k \<and> trimmed x"
    unfolding normalizeProviderSecretValues_def Let_def
    by (rule ballI, drule subsetD [OF fromEntries_subset]) (auto simp: nonEmpty_blank split: if_splits)
  then show ?thesis by (auto simp: list_all_iff normalizeProviderSecretValues_def)
qed

lemma secretValues_read:
  assumes "distinct (map fst xs)" and "list_all (\<lambda>(k, x). trimmed k \<and> trimmed x) xs"
  shows "normalizeProviderSecretValues (Some (JObj (map (\<lambda>(k, x). (k, JStr x)) xs))) = xs"
proof -
  have "concat (map (\<lambda>(key, x). let k = normalizeNonEmptyString (Some (JStr key)) []; y = normalizeNonEmptyString (Some x) [] in
      if k = [] \<or> y = [] then [] else [(k, y)]) (map (\<lambda>(k, x). (k, JStr x)) xs)) = xs"
    using assms(2) by (induction xs) (auto simp: trimmed_def [of "[]"] Let_def)
  then show ?thesis using assms(1) by (simp add: normalizeProviderSecretValues_def fromEntries_id)
qed

lemma nonEmpty_twice: "normalizeNonEmptyString v (normalizeNonEmptyString w []) \<noteq> [] \<Longrightarrow>
    trimmed (normalizeNonEmptyString v (normalizeNonEmptyString w []))"
  by (cases "normalizeNonEmptyString w [] = []") (auto simp: nonEmpty_blank nonEmpty_trimmed)

lemma secret_ok:
  assumes "normalizeProviderSecretRecord v k = Some s"
  shows "secretOk s"
proof -
  note read = assms [unfolded normalizeProviderSecretRecord_def Let_def]
  have "trimmed (sec_profileId s)" using read by (auto intro: nonEmpty_twice split: if_splits)
  moreover have "trimmed (sec_authKind s)"
    using read by (auto simp: nonEmpty_trimmed secret_texts split: if_splits)
  moreover have "\<exists>x. sec_secretValues s = normalizeProviderSecretValues x \<and> sec_secretValues s \<noteq> []"
    using read by (auto split: if_splits)
  ultimately show ?thesis using secretValues_ok by (auto simp: secretOk_def)
qed

lemma secret_read: "secretOk s \<Longrightarrow> normalizeProviderSecretRecord (secretRecordJson s) k = Some s"
proof -
  assume s: "secretOk s"
  then have "sec_profileId s \<noteq> []" by (simp add: secretOk_def trimmed_def)
  with s show ?thesis
    by (cases s) (simp add: normalizeProviderSecretRecord_def secretRecordJson_def secretOk_def Let_def secretValues_read)
qed

lemma secrets_ok: "distinct (map fst (normalizedSecrets r)) \<and> list_all (\<lambda>(k, s). secretOk s \<and> k = sec_profileId s) (normalizedSecrets r)"
proof -
  have "\<forall>(k, s) \<in> set (normalizedSecrets r). secretOk s \<and> k = sec_profileId s"
    unfolding normalizedSecrets_def
    by (rule ballI, drule subsetD [OF fromEntries_subset]) (auto dest: secret_ok secret_ok [OF sym] split: option.splits)
  then show ?thesis by (auto simp: list_all_iff normalizedSecrets_def)
qed

lemma secrets_read:
  assumes "distinct (map fst xs)" and "list_all (\<lambda>(k, s). secretOk s \<and> k = sec_profileId s) xs"
  shows "normalizedSecrets (map (\<lambda>(k, s). (k, secretRecordJson s)) xs) = xs"
proof -
  have "concat (map (\<lambda>(k, j). case normalizeProviderSecretRecord j k of None \<Rightarrow> [] | Some s \<Rightarrow> [(sec_profileId s, s)])
      (map (\<lambda>(k, s). (k, secretRecordJson s)) xs)) = xs"
    using assms(2) by (induction xs) (auto simp: secret_read)
  then show ?thesis using assms(1) by (simp add: normalizedSecrets_def fromEntries_id)
qed

lemma create_secrets_ok: "secretsOk (createSettingsWorkspaceSecretsDocument v)"
  using secrets_ok by (simp add: createSettingsWorkspaceSecretsDocument_def secretsOk_def)

lemma create_secrets_id: "secretsOk v \<Longrightarrow> createSettingsWorkspaceSecretsDocument v = v"
  by (cases v) (simp add: createSettingsWorkspaceSecretsDocument_def secretsOk_def secrets_read)

lemma secrets_document_ok: "secretsOk (normalizeSettingsWorkspaceSecretsDocument v)"
  by (simp add: normalizeSettingsWorkspaceSecretsDocument_def Let_def create_secrets_ok)

lemma secrets_document_read: "secretsOk v \<Longrightarrow> normalizeSettingsWorkspaceSecretsDocument (Some (secretsDocumentJson v)) = v"
  using create_secrets_id [of v]
  by (cases v) (simp add: normalizeSettingsWorkspaceSecretsDocument_def secretsDocumentJson_def secretsOk_def secrets_read Let_def)

section \<open>The account and the groups\<close>

definition workerCounts :: "string list" where
  "workerCounts = [''1'', ''2'', ''3'', ''4'', ''5'', ''6'']"

definition sustechOk :: "sustech_settings \<Rightarrow> bool" where
  "sustechOk s \<longleftrightarrow> trim (su_studentId s) = su_studentId s \<and> trim (su_email s) = su_email s \<and>
     su_blackboardParallelSyncWorkers s \<in> set workerCounts \<and> su_blackboardSyncInterval s \<in> set syncIntervals \<and>
     okOption trimmed (su_blackboardLastAutoSyncAt s) \<and> okOption trimmed (su_blackboardNextAutoSyncAt s)"

lemma nonEmpty_Nil: "trim s = s \<Longrightarrow> normalizeNonEmptyString (Some (JStr s)) [] = s"
  by (simp add: normalizeNonEmptyString_def)

lemma nonEmpty_Nil_ok: "trim (normalizeNonEmptyString v []) = normalizeNonEmptyString v []"
  by (simp add: normalizeNonEmptyString_def Let_def)

lemma workers_ok: "normalizeBlackboardParallelSyncWorkers v ''1'' \<in> set workerCounts"
proof -
  have count: "natString n \<in> set workerCounts" if "1 \<le> n" "n \<le> 6" for n
  proof -
    have "n = 1 \<or> n = 2 \<or> n = 3 \<or> n = 4 \<or> n = 5 \<or> n = 6" using that by auto
    then show ?thesis by (elim disjE; hypsubst; code_simp)
  qed
  have "''1'' \<in> set workerCounts" by (simp add: workerCounts_def)
  with count show ?thesis by (auto simp: normalizeBlackboardParallelSyncWorkers_def Let_def not_less)
qed

lemma workers_read: "w \<in> set workerCounts \<Longrightarrow> normalizeBlackboardParallelSyncWorkers (Some (JStr w)) f = w"
proof -
  have "list_all (\<lambda>w. trimmed w \<and> w \<noteq> [] \<and> list_all isDecimalDigit w \<and> 1 \<le> decimalValue w \<and> decimalValue w \<le> 6 \<and>
      natString (decimalValue w) = w) workerCounts"
    by code_simp
  moreover assume "w \<in> set workerCounts"
  ultimately show ?thesis by (auto simp: normalizeBlackboardParallelSyncWorkers_def Let_def list_all_iff)
qed

lemma intervals_trimmed: "s \<in> set syncIntervals \<Longrightarrow> trimmed s"
proof -
  have "list_all trimmed syncIntervals" by (simp add: syncIntervals_def trimmed_ascii visible_def)
  then show "s \<in> set syncIntervals \<Longrightarrow> trimmed s" by (simp add: list_all_iff)
qed

lemma nullable_ok: "okOption trimmed (normalizeNullableString v None)"
  by (cases "(v, None :: string option)" rule: normalizeNullableString.cases) (auto simp: trimmed_trim)

lemma nullable_read: "okOption trimmed s \<Longrightarrow> normalizeNullableString (Some (jsonOrNull JStr s)) None = s"
  by (cases s) (auto simp: jsonOrNull_def trimmed_def)

lemma sustech_ok: "sustechOk (normalizeSustechState v defaultSustech)"
  by (simp add: normalizeSustechState_def sustechOk_def Let_def defaultSustech_def nonEmpty_Nil_ok workers_ok nullable_ok
      normalizeBlackboardSyncInterval_def syncIntervals_def)

lemma sustech_read: "sustechOk s \<Longrightarrow> normalizeSustechState (Some (sustechJson s)) defaultSustech = s"
  by (cases s) (auto simp: normalizeSustechState_def sustechJson_def sustechOk_def Let_def defaultSustech_def nonEmpty_Nil
      workers_read nullable_read normalizeBlackboardSyncInterval_def intervals_trimmed)

text \<open>A group that is its own normal form.\<close>

definition groupDefaultOk :: "group_default \<Rightarrow> bool" where
  "groupDefaultOk d = (case d of TextDefault s \<Rightarrow> trim s = s | FlagDefault b \<Rightarrow> True)"

lemma nonEmpty_again: "trim f = f \<Longrightarrow> normalizeNonEmptyString (Some (JStr (normalizeNonEmptyString v f))) f = normalizeNonEmptyString v f"
  by (simp add: normalizeNonEmptyString_def Let_def)

lemma prop_of_mapped: "distinct (map fst ds) \<Longrightarrow> (k, d) \<in> set ds \<Longrightarrow> prop_of (map (\<lambda>(k, d). (k, f k d)) ds) k = Some (f k d)"
  by (simp add: prop_of_def map_of_eq_Some_iff comp_def split_beta') force

lemma mapped_again:
  assumes "distinct (map fst ds)" and "\<And>k d v. (k, d) \<in> set ds \<Longrightarrow> g (Some (g v d)) d = g v d"
  shows "map (\<lambda>(k, d). (k, g (prop_of (map (\<lambda>(k, d). (k, g (prop_of r k) d)) ds) k) d)) ds = map (\<lambda>(k, d). (k, g (prop_of r k) d)) ds"
  using assms prop_of_mapped [OF assms(1), of _ _ "\<lambda>k d. g (prop_of r k) d"] by auto

lemma mapped_keys: "distinct (map fst ds) \<Longrightarrow> distinct (map fst (map (\<lambda>(k, d). (k, f k d)) ds))"
  by (simp add: comp_def split_beta')

fun groupField :: "json option \<Rightarrow> group_default \<Rightarrow> json" where
  "groupField v (FlagDefault b) = JBool (normalizeBoolean v b)"
| "groupField v (TextDefault s) = JStr (normalizeNonEmptyString v s)"

lemma group_fields: "distinct (map fst ds) \<Longrightarrow>
    normalizeBooleanStringGroup v ds = map (\<lambda>(k, d). (k, groupField (prop_of (asRecordS v) k) d)) ds"
proof -
  have "(\<lambda>(key, d). (key, case d of FlagDefault b \<Rightarrow> JBool (normalizeBoolean (prop_of (asRecordS v) key) b)
      | TextDefault s \<Rightarrow> JStr (normalizeNonEmptyString (prop_of (asRecordS v) key) s))) =
    (\<lambda>(k, d). (k, groupField (prop_of (asRecordS v) k) d))"
    by (auto simp: fun_eq_iff split: group_default.split)
  then show "distinct (map fst ds) \<Longrightarrow> ?thesis"
    using fromEntries_id [OF mapped_keys [of ds "\<lambda>k. groupField (prop_of (asRecordS v) k)"]]
    by (simp add: normalizeBooleanStringGroup_def)
qed

lemma group_settles:
  assumes "distinct (map fst ds)" and "list_all (\<lambda>(k, d). groupDefaultOk d) ds"
  shows "normalizeBooleanStringGroup (Some (JObj (normalizeBooleanStringGroup v ds))) ds = normalizeBooleanStringGroup v ds"
proof -
  have "groupField (Some (groupField w d)) d = groupField w d" if "(k, d) \<in> set ds" for w k d
    using assms(2) that by (cases d) (auto simp: list_all_iff groupDefaultOk_def nonEmpty_again)
  from mapped_again [of ds groupField, OF assms(1) this] show ?thesis
    by (simp add: group_fields [OF assms(1)])
qed

lemma text_group: "normalizeStringGroup v ds = normalizeBooleanStringGroup v (map (\<lambda>(k, s). (k, TextDefault s)) ds)"
  by (simp add: normalizeStringGroup_def normalizeBooleanStringGroup_def Let_def comp_def split_beta')

section \<open>Default models\<close>

definition routeOk :: "stored_profile list \<Rightarrow> model_route_ref \<Rightarrow> bool" where
  "routeOk ps r \<longleftrightarrow> trimmed (rr_profileId r) \<and> trimmed (rr_modelId r) \<and>
     (case find (\<lambda>p. spf_profileId p = rr_profileId r) ps of None \<Rightarrow> False | Some p \<Rightarrow> profileSupportsModel p (rr_modelId r))"

definition routingOk :: "stored_profile list \<Rightarrow> stored_routing \<Rightarrow> bool" where
  "routingOk ps r \<longleftrightarrow> okOption (routeOk ps) (srt_primaryAssistantModel r) \<and> okOption (routeOk ps) (srt_fastAssistantModel r)"

lemma kinds: "k = ProviderModel"
  by (cases k)

lemma route_kind [simp]: "rr_routeKind r = ProviderModel"
  by (rule kinds)

lemma clone_route [simp]: "cloneModelRouteRef r = r"
  by (cases r) (simp_all add: cloneModelRouteRef_def)

lemma clone_routing [simp]: "cloneStoredDefaultModelRouting r = r"
  by (simp add: cloneStoredDefaultModelRouting_def)

lemma find_by_id: "distinct (map spf_profileId ps) \<Longrightarrow> p \<in> set ps \<Longrightarrow> find (\<lambda>q. spf_profileId q = spf_profileId p) ps = Some p"
  by (induction ps) auto

lemma migrated_route:
  assumes "distinct (map spf_profileId ps)" and "list_all (\<lambda>p. trimmed (spf_profileId p)) ps"
    and "migrateLegacyDefaultModelRoute s ps = Some r"
  shows "routeOk ps r"
proof -
  let ?m = "normalizeNonEmptyString (Some (JStr s)) []"
  obtain p where p: "filter (\<lambda>p. profileSupportsModel p ?m) ps = [p]" and r: "rr_profileId r = spf_profileId p" "rr_modelId r = ?m"
    and m: "?m \<noteq> []"
    using assms(3) by (auto simp: migrateLegacyDefaultModelRoute_def Let_def split: if_splits list.splits)
  have "p \<in> set (filter (\<lambda>p. profileSupportsModel p ?m) ps)" unfolding p by simp
  then have "p \<in> set ps" "profileSupportsModel p ?m" by simp_all
  with find_by_id [OF assms(1)] assms(2) r m show ?thesis by (simp add: routeOk_def list_all_iff nonEmpty_blank)
qed

lemma stored_route: "normalizeStoredModelRouteRef v ps = Some r \<Longrightarrow> routeOk ps r"
  by (auto simp: normalizeStoredModelRouteRef_def routeOk_def Let_def nonEmpty_blank split: if_splits option.splits)

lemma route_ok:
  assumes "distinct (map spf_profileId ps)" and "list_all (\<lambda>p. trimmed (spf_profileId p)) ps"
  shows "okOption (routeOk ps) (normalizeStoredDefaultModelRoute v ps)"
  by (cases "(v, ps)" rule: normalizeStoredDefaultModelRoute.cases)
    (auto simp: okOption_iff intro: migrated_route [OF assms] stored_route)

lemma stored_route_read: "okOption (routeOk ps) r \<Longrightarrow> normalizeStoredDefaultModelRoute (Some (jsonOrNull Wire_Laws.routeRefJson r)) ps = r"
proof (cases r)
  case None
  then show ?thesis by (simp add: jsonOrNull_def normalizeStoredModelRouteRef_def normalizeNonEmptyString_def)
next
  case (Some ref)
  have "trimmed ''provider-model''" by (rule trimmed_ascii) (simp_all add: visible_def)
  moreover assume "okOption (routeOk ps) r"
  ultimately show ?thesis using Some
    by (cases ref, auto simp: jsonOrNull_def normalizeStoredModelRouteRef_def Wire_Laws.routeRefJson_def routeOk_def
        trimmed_def [of "[]"] split: option.splits) (rule kinds [symmetric])
qed

lemma routing_read: "routingOk ps r \<Longrightarrow> normalizeStoredDefaultModelRouting (Some (routingJson r)) ps = r"
  by (cases r) (simp add: normalizeStoredDefaultModelRouting_def routingJson_def routingOk_def stored_route_read)

section \<open>The tool settings\<close>

definition mcpOk :: "mcp_settings \<Rightarrow> bool" where
  "mcpOk m \<longleftrightarrow> policyOk (ms_toolPermissionPolicy m) \<and>
     ms_toolPermissionMode m = legacyModeToStoredValue (pp_defaultMode (ms_toolPermissionPolicy m))"

lemma stored_policy_read: "policyOk p \<Longrightarrow> normalizeToolPermissionPolicyState (Some (storedPolicyJson p)) m = p"
  by (simp add: policyOk_def normalizeToolPermissionPolicyState_def storedPolicyJson_def Let_def entries_read
      normalizeLegacyToolPermissionModeOptional_def normalizeToolPermissionPolicyMode_def legacyModes_def)

lemma mcp_ok: "mcpOk (normalizeMcpState v d)"
  by (simp add: normalizeMcpState_def mcpOk_def Let_def policy_ok)

lemma mcp_read: "mcpOk m \<Longrightarrow> normalizeMcpState (Some (mcpJson m)) d = m"
  by (cases m) (simp add: normalizeMcpState_def mcpJson_def mcpOk_def Let_def stored_policy_read)

section \<open>All values\<close>

text \<open>The profiles of a document have identifiers of their own, and providers under their canonical names.\<close>

definition tidyProfiles :: "provider_catalog \<Rightarrow> stored_profile list \<Rightarrow> bool" where
  "tidyProfiles c ps \<longleftrightarrow> distinct (map spf_profileId ps) \<and> list_all (\<lambda>p. canonicalProvider c (spf_providerId p)) ps"

definition valuesOk :: "provider_catalog \<Rightarrow> state_values \<Rightarrow> bool" where
  "valuesOk c v \<longleftrightarrow> sustechOk (sv_sustech v) \<and> list_all (profileOk c) (sv_providerProfiles v) \<and>
     distinct (map spf_profileId (sv_providerProfiles v)) \<and> routingOk (sv_providerProfiles v) (sv_defaultModelRouting v) \<and>
     mcpOk (sv_mcp v) \<and>
     normalizeBooleanStringGroup (Some (JObj (sv_general v))) defaultGeneral = sv_general v \<and>
     normalizeBooleanStringGroup (Some (JObj (sv_api v))) defaultApi = sv_api v \<and>
     normalizeStringGroup (Some (JObj (sv_docs v))) defaultDocs = sv_docs v \<and>
     normalizeStringGroup (Some (JObj (sv_externalSource v))) defaultExternalSource = sv_externalSource v"

lemma group_defaults:
  "list_all (\<lambda>(k, d). groupDefaultOk d) defaultGeneral" "list_all (\<lambda>(k, d). groupDefaultOk d) defaultApi"
  "list_all (\<lambda>(k, d). groupDefaultOk d) (map (\<lambda>(k, s). (k, TextDefault s)) defaultDocs)"
  "list_all (\<lambda>(k, d). groupDefaultOk d) (map (\<lambda>(k, s). (k, TextDefault s)) defaultExternalSource)"
proof -
  have "trimmed ''zh-CN''" "trimmed ''exponential''" "trimmed ''http://127.0.0.1:8000''" "trimmed ''markdown''"
    by (rule trimmed_ascii; simp add: visible_def)+
  then show "list_all (\<lambda>(k, d). groupDefaultOk d) defaultGeneral" "list_all (\<lambda>(k, d). groupDefaultOk d) defaultApi"
    "list_all (\<lambda>(k, d). groupDefaultOk d) (map (\<lambda>(k, s). (k, TextDefault s)) defaultDocs)"
    "list_all (\<lambda>(k, d). groupDefaultOk d) (map (\<lambda>(k, s). (k, TextDefault s)) defaultExternalSource)"
    by (simp_all add: groupDefaultOk_def defaultGeneral_def defaultApi_def defaultDocs_def defaultExternalSource_def trimmed_def)
qed

lemma group_keys:
  "distinct (map fst defaultGeneral)" "distinct (map fst defaultApi)"
  "distinct (map fst (map (\<lambda>(k, s). (k, TextDefault s)) defaultDocs))"
  "distinct (map fst (map (\<lambda>(k, s). (k, TextDefault s)) defaultExternalSource))"
  by (simp_all add: defaultGeneral_def defaultApi_def defaultDocs_def defaultExternalSource_def)

lemmas groups_settle = group_settles [OF group_keys(1) group_defaults(1)] group_settles [OF group_keys(2) group_defaults(2)]
  group_settles [OF group_keys(3) group_defaults(3), folded text_group]
  group_settles [OF group_keys(4) group_defaults(4), folded text_group]

lemma profiles_ok:
  assumes "list_all (\<lambda>p. canonicalProvider c (spf_providerId p)) (normalizeStoredProviderProfiles c v)"
  shows "list_all (profileOk c) (normalizeStoredProviderProfiles c v)"
proof (unfold list_all_iff, rule ballI)
  fix p assume p: "p \<in> set (normalizeStoredProviderProfiles c v)"
  then obtain x i where "normalizeStoredProviderProfile c x i = Some p"
    by (cases "(c, v)" rule: normalizeStoredProviderProfiles.cases)
      (auto simp: Let_def map_filter_in createDefaultStoredProviderProfiles_def split: if_splits)
  moreover have "canonicalProvider c (spf_providerId p)" using assms p by (simp only: list_all_iff)
  ultimately show "profileOk c p" by (rule profile_read_ok)
qed

lemma profiles_read:
  assumes "list_all (profileOk c) ps"
  shows "normalizeStoredProviderProfiles c (Some (JArr (map storedProfileJson ps))) = ps"
proof -
  have "List.map_filter (\<lambda>(i, x). normalizeStoredProviderProfile c x i) (enumerate n (map storedProfileJson ps)) = ps" for n
    using assms by (induction ps arbitrary: n) (simp_all add: List.map_filter_simps profile_read)
  then show ?thesis by (cases ps) (simp_all add: Let_def createDefaultStoredProviderProfiles_def)
qed

lemma values_ok:
  assumes "tidyProfiles c (sv_providerProfiles (normalizeSettingsWorkspaceStateValues c v))"
  shows "valuesOk c (normalizeSettingsWorkspaceStateValues c v)"
proof -
  let ?ps = "sv_providerProfiles (normalizeSettingsWorkspaceStateValues c v)"
  have ps: "?ps = normalizeStoredProviderProfiles c (prop_of (asRecordS v) ''providerProfiles'')"
    by (simp add: normalizeSettingsWorkspaceStateValues_def Let_def)
  have ok: "list_all (profileOk c) ?ps" using profiles_ok assms unfolding ps tidyProfiles_def by blast
  then have ids: "distinct (map spf_profileId ?ps)" "list_all (\<lambda>p. trimmed (spf_profileId p)) ?ps"
    using assms by (auto simp: tidyProfiles_def list_all_iff profileOk_def)
  show ?thesis
    using ok ids route_ok [OF ids] unfolding valuesOk_def
    by (simp add: normalizeSettingsWorkspaceStateValues_def Let_def sustech_ok mcp_ok groups_settle routingOk_def
        normalizeStoredDefaultModelRouting_def)
qed

lemma values_read: "valuesOk c v \<Longrightarrow> normalizeSettingsWorkspaceStateValues c (Some (stateValuesJson v)) = v"
  by (cases v) (simp add: normalizeSettingsWorkspaceStateValues_def stateValuesJson_def valuesOk_def Let_def sustech_read
      profiles_read routing_read mcp_read del: normalizeStoredProviderProfiles.simps)

lemma clone_profile: "profileOk c p \<Longrightarrow> cloneStoredProviderProfile p = p"
  by (cases p) (auto simp: cloneStoredProviderProfile_def profileOk_def cloneStoredProviderCompatibility_def list_all_iff intro!: map_idI)

lemma group_distinct: "distinct (map fst (normalizeBooleanStringGroup v ds))" "distinct (map fst (normalizeStringGroup v es))"
  by (simp_all add: normalizeBooleanStringGroup_def normalizeStringGroup_def Let_def)

lemma clone_values: "valuesOk c v \<Longrightarrow> cloneSettingsWorkspaceStateValues v = v"
proof -
  assume v: "valuesOk c v"
  then have "distinct (map fst (sv_general v))" "distinct (map fst (sv_api v))" "distinct (map fst (sv_docs v))"
    "distinct (map fst (sv_externalSource v))"
    unfolding valuesOk_def using group_distinct by metis+
  moreover have "map cloneStoredProviderProfile (sv_providerProfiles v) = sv_providerProfiles v"
    using v by (auto simp: valuesOk_def list_all_iff intro!: map_idI clone_profile)
  ultimately show ?thesis
    using v by (cases v) (simp add: cloneSettingsWorkspaceStateValues_def valuesOk_def mcpOk_def clonePolicy_id spread_fresh)
qed

lemma saved_ok:
  assumes "tidyProfiles c (sv_providerProfiles (createSettingsWorkspaceStateDocument (normalizeSettingsWorkspaceStateValues c v)))"
  shows "valuesOk c (normalizeSettingsWorkspaceStateValues c v)"
    and "createSettingsWorkspaceStateDocument (normalizeSettingsWorkspaceStateValues c v) = normalizeSettingsWorkspaceStateValues c v"
proof -
  let ?w = "normalizeSettingsWorkspaceStateValues c v"
  have "map spf_profileId (sv_providerProfiles (cloneSettingsWorkspaceStateValues ?w)) = map spf_profileId (sv_providerProfiles ?w)"
    "map spf_providerId (sv_providerProfiles (cloneSettingsWorkspaceStateValues ?w)) = map spf_providerId (sv_providerProfiles ?w)"
    by (simp_all add: cloneSettingsWorkspaceStateValues_def cloneStoredProviderProfile_def comp_def)
  moreover have "tidyProfiles c ps \<longleftrightarrow> distinct (map spf_profileId ps) \<and> list_all (canonicalProvider c) (map spf_providerId ps)" for ps
    by (simp add: tidyProfiles_def list.pred_map comp_def)
  ultimately have "tidyProfiles c (sv_providerProfiles ?w) = tidyProfiles c (sv_providerProfiles (cloneSettingsWorkspaceStateValues ?w))"
    by (simp only:)
  then have "tidyProfiles c (sv_providerProfiles ?w)"
    using assms by (simp add: createSettingsWorkspaceStateDocument_def)
  from values_ok [OF this] show "valuesOk c ?w" "createSettingsWorkspaceStateDocument ?w = ?w"
    by (simp_all add: createSettingsWorkspaceStateDocument_def clone_values)
qed

lemma document_ok:
  "tidyProfiles c (sv_providerProfiles (normalizeSettingsWorkspaceStateDocument c v)) \<Longrightarrow>
   valuesOk c (normalizeSettingsWorkspaceStateDocument c v)"
  using saved_ok [of c "prop_of (asRecordS v) ''values''"] by (simp add: normalizeSettingsWorkspaceStateDocument_def)

lemma default_document_ok: "valuesOk c createDefaultSettingsWorkspaceStateDocument"
proof -
  have group: "normalizeBooleanStringGroup (Some (JObj (groupDefaults ds))) ds = groupDefaults ds"
    if "distinct (map fst ds)" "list_all (\<lambda>(k, d). groupDefaultOk d) ds" for ds
  proof -
    have "normalizeBooleanStringGroup None ds = groupDefaults ds"
      using that by (auto simp: group_fields groupDefaults_def list_all_iff groupDefaultOk_def normalizeNonEmptyString_def
          split: group_default.splits)
    with group_settles [OF that, of None] show ?thesis by simp
  qed
  have texts: "map (\<lambda>(key, s). (key, JStr s)) ds = groupDefaults (map (\<lambda>(k, s). (k, TextDefault s)) ds)" for ds
    by (simp add: groupDefaults_def comp_def split_beta')
  have literal: "trimmed ''manual''" "trimmed ''ask''" by (rule trimmed_ascii; simp add: visible_def)+
  then have "policyOk (ms_toolPermissionPolicy defaultMcpSettings)"
    by (simp add: policyOk_def defaultMcpSettings_def createDefaultToolPermissionPolicyState_def storedLiteral_def legacyModes_def
        policyModes_def trimmed_def)
  then have "valuesOk c defaultStateValues"
    by (simp add: valuesOk_def defaultStateValues_def createDefaultStoredProviderProfiles_def routingOk_def mcpOk_def text_group texts
        group [OF group_keys(1) group_defaults(1)] group [OF group_keys(2) group_defaults(2)] group [OF group_keys(3) group_defaults(3)]
        group [OF group_keys(4) group_defaults(4)] sustechOk_def defaultSustech_def workerCounts_def syncIntervals_def del: list.map)
      (simp add: defaultMcpSettings_def createDefaultToolPermissionPolicyState_def legacyModeToStoredValue_def)
  then show ?thesis
    by (simp add: createDefaultSettingsWorkspaceStateDocument_def createSettingsWorkspaceStateDocument_def
        createDefaultSettingsWorkspaceStateValues_def clone_values)
qed

lemma document_read: "valuesOk c v \<Longrightarrow> normalizeSettingsWorkspaceStateDocument c (Some (stateDocumentJson v)) = v"
  by (simp add: normalizeSettingsWorkspaceStateDocument_def createSettingsWorkspaceStateDocument_def stateDocumentJson_def
      values_read clone_values)

section \<open>The form\<close>

lemma general_shape:
  assumes "normalizeBooleanStringGroup (Some (JObj g)) defaultGeneral = g"
  shows "g = [(''language'', JStr (groupText g ''language'')),
    (''assistantNotificationsEnabled'', JBool (groupFlag g ''assistantNotificationsEnabled''))]"
proof -
  have "\<exists>l b. g = [(''language'', JStr l), (''assistantNotificationsEnabled'', JBool b)]"
    using assms [symmetric] unfolding group_fields [OF group_keys(1)] by (auto simp: defaultGeneral_def)
  then show ?thesis by (auto simp: groupText_def groupFlag_def)
qed

lemma api_shape:
  assumes "normalizeBooleanStringGroup (Some (JObj g)) defaultApi = g"
  shows "g = [(''apiReconnectMode'', JStr (groupText g ''apiReconnectMode'')),
    (''healthPollingEnabled'', JBool (groupFlag g ''healthPollingEnabled'')), (''apiBaseUrl'', JStr (groupText g ''apiBaseUrl''))]"
proof -
  have "\<exists>l b u. g = [(''apiReconnectMode'', JStr l), (''healthPollingEnabled'', JBool b), (''apiBaseUrl'', JStr u)]"
    using assms [symmetric] unfolding group_fields [OF group_keys(2)] by (auto simp: defaultApi_def)
  then show ?thesis by (auto simp: groupText_def groupFlag_def)
qed

lemma text_shape:
  assumes "normalizeStringGroup (Some (JObj g)) [(k, d)] = g"
  shows "g = [(k, JStr (groupText g k))]"
proof -
  have "\<exists>l. g = [(k, JStr l)]"
    using assms [symmetric] by (auto simp: normalizeStringGroup_def fromEntries_def Let_def)
  then show ?thesis by (auto simp: groupText_def)
qed

text \<open>A model name that is not itself a written route.\<close>

definition plainModelRoute :: "model_route_ref \<Rightarrow> bool" where
  "plainModelRoute r \<longleftrightarrow> parseSerializedModelRouteRef (rr_modelId r) = None"

lemma chosen_route:
  assumes "okOption (routeOk ps) r" and "list_all (profileOk c) ps" and "okOption plainModelRoute r"
  shows "resolveStoredDefaultModelRoute (routeModelId r) r ps = r"
proof (cases r)
  case (Some q)
  have q: "routeOk ps q" "plainModelRoute q" using assms Some by simp_all
  obtain p where p: "find (\<lambda>p. spf_profileId p = rr_profileId q) ps = Some p" "profileSupportsModel p (rr_modelId q)"
    using q(1) by (auto simp: routeOk_def split: option.splits)
  then have "p \<in> set ps" by (metis find_Some_iff nth_mem)
  then have "list_all modelOk (spf_models p)" using assms(2) by (auto simp: list_all_iff profileOk_def)
  then have "list_ex (\<lambda>m. pm_modelId m = rr_modelId q) (spf_models p)"
    using p(2) by (auto simp: profileSupportsModel_def list_ex_iff list_all_iff modelOk_def)
  with p(1) have "providerProfilesSupportStoredRoute ps q" by (simp add: providerProfilesSupportStoredRoute_def)
  with q Some show ?thesis
    by (simp add: resolveStoredDefaultModelRoute_def routeModelId_def routeOk_def plainModelRoute_def trimmed_def)
qed (simp add: resolveStoredDefaultModelRoute_def routeModelId_def)

lemma form_values:
  assumes v: "valuesOk c v" and "list_all legacyProtocolOk (sv_providerProfiles v)"
    and "okOption plainModelRoute (srt_primaryAssistantModel (sv_defaultModelRouting v))"
    and "okOption plainModelRoute (srt_fastAssistantModel (sv_defaultModelRouting v))"
  shows "createSettingsWorkspaceStateSaveInput c
    (createSettingsWorkspaceFormStateFromEditableState (projectSettingsWorkspaceEditableState v states)) = v"
proof -
  note ok = v [unfolded valuesOk_def]
  have ps: "list_all (profileOk c) (sv_providerProfiles v)" using ok by blast
  have same: "projectStoredProviderProfile c
      ((projectEditableProviderProfile p k)\<lparr>epf_availableModels := map cloneProviderModelProfile (epf_availableModels (projectEditableProviderProfile p k))\<rparr>) = p"
    if "p \<in> set (sv_providerProfiles v)" for p k
  proof -
    have p: "profileOk c p" "legacyProtocolOk p" using that ps assms(2) by (simp_all add: list_all_iff)
    then have "map cloneProviderModelProfile (epf_availableModels (projectEditableProviderProfile p k)) =
        epf_availableModels (projectEditableProviderProfile p k)"
      by (auto simp: projectEditableProviderProfile_def Let_def profileOk_def list_all_iff intro!: map_idI)
    then show ?thesis using form_profile [OF p] by simp
  qed
  have profiles: "map (projectStoredProviderProfile c) (cloneProviderProfiles
      (map (\<lambda>p. projectEditableProviderProfile p (key p)) (sv_providerProfiles v))) = sv_providerProfiles v" for key
    by (simp add: cloneProviderProfiles_def comp_def map_idI same)
  have routes: "resolveStoredDefaultModelRoute (routeModelId (srt_primaryAssistantModel (sv_defaultModelRouting v)))
      (srt_primaryAssistantModel (sv_defaultModelRouting v)) (sv_providerProfiles v) = srt_primaryAssistantModel (sv_defaultModelRouting v)"
    "resolveStoredDefaultModelRoute (routeModelId (srt_fastAssistantModel (sv_defaultModelRouting v)))
      (srt_fastAssistantModel (sv_defaultModelRouting v)) (sv_providerProfiles v) = srt_fastAssistantModel (sv_defaultModelRouting v)"
    using ok assms(3,4) by (auto simp: routingOk_def intro: chosen_route [OF _ ps])
  have groups: "[(''language'', JStr (groupText (sv_general v) ''language'')),
      (''assistantNotificationsEnabled'', JBool (groupFlag (sv_general v) ''assistantNotificationsEnabled''))] = sv_general v"
    "[(''apiReconnectMode'', JStr (groupText (sv_api v) ''apiReconnectMode'')),
      (''healthPollingEnabled'', JBool (groupFlag (sv_api v) ''healthPollingEnabled'')),
      (''apiBaseUrl'', JStr (groupText (sv_api v) ''apiBaseUrl''))] = sv_api v"
    "[(''docsFormat'', JStr (groupText (sv_docs v) ''docsFormat''))] = sv_docs v"
    "[(''wakeupShareLink'', JStr (groupText (sv_externalSource v) ''wakeupShareLink''))] = sv_externalSource v"
    using general_shape [of "sv_general v"] api_shape [of "sv_api v"] text_shape [of "sv_docs v" "''docsFormat''" "''markdown''"]
      text_shape [of "sv_externalSource v" "''wakeupShareLink''" "[]"] ok
    by (simp_all add: defaultDocs_def defaultExternalSource_def)
  show ?thesis
    by (rule state_values.equality)
      (simp_all add: createSettingsWorkspaceStateSaveInput_def createSettingsWorkspaceFormStateFromEditableState_def
        projectSettingsWorkspaceEditableState_def clone_values [OF v] projectEditableDefaultModelRouting_def profiles routes groups Let_def)
qed

section \<open>The settings come back\<close>

text \<open>
  C39: Opening the settings and saving them without an edit changes nothing. For the values that are read from any state
  document whose profiles are tidy (distinct identifiers, and providers named by a catalog identifier rather than by a preset
  name): the form made from them gives them back as its save input, and the main process, which reads the input as if it could be
  anything, keeps them as they are. This needs that the model identifiers of the two default routes are not themselves
  written routes, and that a legacy protocol is in normal form or names the provider of its profile.
\<close>

theorem unchanged_form_saves_same:
  assumes "v = normalizeSettingsWorkspaceStateDocument c j" and "tidyProfiles c (sv_providerProfiles v)"
    and "list_all legacyProtocolOk (sv_providerProfiles v)"
    and "okOption plainModelRoute (srt_primaryAssistantModel (sv_defaultModelRouting v))"
    and "okOption plainModelRoute (srt_fastAssistantModel (sv_defaultModelRouting v))"
  shows "createSettingsWorkspaceStateSaveInput c
      (createSettingsWorkspaceFormStateFromEditableState (projectSettingsWorkspaceEditableState v states)) = v \<and>
    normalizeSettingsWorkspaceStateValues c (Some (stateValuesJson v)) = v"
proof -
  have "valuesOk c v" using document_ok assms(1,2) by simp
  then show ?thesis using form_values [OF _ assms(3-5)] values_read by blast
qed

text \<open>A sample: one profile whose model is the default.\<close>

definition sampleValues :: state_values where
  "sampleValues = createDefaultSettingsWorkspaceStateDocument
     \<lparr>sv_providerProfiles := [sampleProfile],
      sv_defaultModelRouting := \<lparr>srt_primaryAssistantModel = Some (buildModelRouteRef ''main'' ''gpt''), srt_fastAssistantModel = None\<rparr>\<rparr>"

lemma sample_values: "valuesOk sampleCatalog sampleValues"
proof -
  have "profileSupportsModel sampleProfile ''gpt''"
    by (simp add: profileSupportsModel_def sampleProfile_def sampleModel_def sample_texts)
  then have "routeOk [sampleProfile] (buildModelRouteRef ''main'' ''gpt'')"
    by (simp add: routeOk_def buildModelRouteRef_def sample_texts) (simp add: sampleProfile_def)
  then show ?thesis
    using default_document_ok [of sampleCatalog] sample_profile(1) by (simp add: valuesOk_def sampleValues_def routingOk_def)
qed

lemma sample_plain: "parseSerializedModelRouteRef ''gpt'' = None"
proof -
  have "trim ''gpt'' = ''gpt''" using sample_texts(2) by (simp only: trimmed_def)
  then show ?thesis
    by (simp add: parseSerializedModelRouteRef_def MODEL_ROUTE_SELECTION_PREFIX_def PROVIDER_MODEL_ROUTE_KIND_def)
qed

lemma tidy_sample: "tidyProfiles sampleCatalog (sv_providerProfiles sampleValues)"
  using sample_profile(1) by (simp add: tidyProfiles_def sampleValues_def profileOk_def)

theorem unchanged_form_saves_same_witness:
  "createSettingsWorkspaceStateSaveInput sampleCatalog
     (createSettingsWorkspaceFormStateFromEditableState (projectSettingsWorkspaceEditableState sampleValues [])) = sampleValues"
  using unchanged_form_saves_same [of sampleValues sampleCatalog "Some (stateDocumentJson sampleValues)" "[]"] document_read [OF sample_values]
    sample_profile(2) sample_plain tidy_sample
  by (simp add: sampleValues_def plainModelRoute_def buildModelRouteRef_def)

end
