(* ===== verification/Store_Laws.thy ===== *)
theory Store_Laws
  imports Settings_Laws
begin

text \<open>
  The store of the settings workspace against its contract: the changes as operations on a vault (the values, a secret for each
  profile, the password), loading as a reading of it, what is left on the disk when files cannot be read, and what two
  operations that overlap do to each other.
\<close>

section \<open>Reading what was written\<close>

definition readsBack :: "settings_env \<Rightarrow> json \<Rightarrow> bool" where
  "readsBack env j \<longleftrightarrow> env_parse env (serializeSettingsWorkspaceDocument (env_numText env) j) = Inr j"

lemma written_clean: "\<not> isSettingsWorkspaceDocumentDirty numText j (serializeSettingsWorkspaceDocument numText j)"
  by (simp add: isSettingsWorkspaceDocumentDirty_def ensureTrailingNewline_def serializeSettingsWorkspaceDocument_def)

lemma read_written_state:
  assumes "valuesOk (env_catalog env) v" and "readsBack env (stateDocumentJson v)" and "dk_state d = writtenState env v"
  shows "readSettingsStateDocument env d = Inr \<lparr>rd_document = v, rd_missing = False, rd_dirty = False\<rparr>"
  using assms by (simp add: readSettingsStateDocument_def readDocument_def writtenState_def readsBack_def document_read written_clean)

lemma read_written_secrets:
  assumes "secretsOk s" and "readsBack env (secretsDocumentJson s)" and "dk_secrets d = writtenSecrets env s"
  shows "readSettingsSecretsDocument env d = Inr \<lparr>rd_document = s, rd_missing = False, rd_dirty = False\<rparr>"
  using assms by (simp add: readSettingsSecretsDocument_def readDocument_def writtenSecrets_def readsBack_def secrets_document_read written_clean)

lemma read_state_ok:
  assumes "readSettingsStateDocument env d = Inr x" and "tidyProfiles (env_catalog env) (sv_providerProfiles (rd_document x))"
  shows "valuesOk (env_catalog env) (rd_document x)"
  using assms document_ok
  by (auto simp: readSettingsStateDocument_def readDocument_def default_document_ok Let_def split: settings_file.splits)

lemma read_secrets_ok: "readSettingsSecretsDocument env d = Inr x \<Longrightarrow> secretsOk (rd_document x)"
  by (auto simp: readSettingsSecretsDocument_def readDocument_def createDefaultSettingsWorkspaceSecretsDocument_def Let_def
      create_secrets_ok secrets_document_ok split: settings_file.splits)

lemma run_then:
  "runTask env (thenTask t k) d = (case runTask env t d of (Inl e, d') \<Rightarrow> (Inl e, d') | (Inr x, d') \<Rightarrow> runTask env (k x) d')"
  by (induction t arbitrary: d) (auto split: sum.splits prod.splits)

section \<open>The vault\<close>

record vault =
  va_values :: state_values
  va_secrets :: "string \<Rightarrow> secret_record option"
  va_password :: string

definition vaultOf :: "state_values \<Rightarrow> secret_values \<Rightarrow> vault" where
  "vaultOf v s = \<lparr>va_values = v, va_secrets = map_of (sev_providerSecrets s), va_password = sev_casPassword s\<rparr>"

datatype change = SaveState json | SaveKey string string | ClearKey string | SavePassword string | ClearPassword

fun changeTask :: "provider_catalog \<Rightarrow> change \<Rightarrow> unit task" where
  "changeTask c (SaveState j) = thenTask (saveState c j) (\<lambda>r. Done ())"
| "changeTask c (SaveKey p k) = thenTask (saveProfileSecret p k) (\<lambda>r. Done ())"
| "changeTask c (ClearKey p) = thenTask (clearProfileSecret p) (\<lambda>r. Done ())"
| "changeTask c (SavePassword w) = thenTask (saveSustechCasSecret w) (\<lambda>r. Done ())"
| "changeTask c ClearPassword = thenTask clearSustechCasSecret (\<lambda>r. Done ())"

text \<open>The arguments that a change refuses.\<close>

fun changeError :: "change \<Rightarrow> string option" where
  "changeError (SaveKey p k) =
     (if trim p = [] then Some ''Missing required profileId.'' else if trim k = [] then Some ''Missing required apiKey.'' else None)"
| "changeError (ClearKey p) = (if trim p = [] then Some ''Missing required profileId.'' else None)"
| "changeError (SavePassword w) = (if trim w = [] then Some ''Missing required password.'' else None)"
| "changeError ch = None"

text \<open>What a change is: only saving the state touches the values, and it forgets the secrets of profiles that are gone.\<close>

fun applyChange :: "provider_catalog \<Rightarrow> change \<Rightarrow> vault \<Rightarrow> vault" where
  "applyChange c (SaveState j) w =
     (let v = normalizeSettingsWorkspaceStateValues c (Some j) in
      w\<lparr>va_values := v, va_secrets := (\<lambda>p. if p \<in> set (profileIdsOf v) then va_secrets w p else None)\<rparr>)"
| "applyChange c (SaveKey p k) w = w\<lparr>va_secrets := (va_secrets w)(trim p \<mapsto> apiKeySecret (trim p) (trim k))\<rparr>"
| "applyChange c (ClearKey p) w = w\<lparr>va_secrets := (va_secrets w)(trim p := None)\<rparr>"
| "applyChange c (SavePassword x) w = w\<lparr>va_password := trim x\<rparr>"
| "applyChange c ClearPassword w = w\<lparr>va_password := []\<rparr>"

text \<open>The documents that a change writes.\<close>

fun nextDocuments :: "provider_catalog \<Rightarrow> change \<Rightarrow> state_values \<Rightarrow> secret_values \<Rightarrow> state_values \<times> secret_values" where
  "nextDocuments c (SaveState j) v s =
     (let n = createSettingsWorkspaceStateDocument (normalizeSettingsWorkspaceStateValues c (Some j)) in
      (n, pruneSettingsWorkspaceSecretsDocument s (profileIdsOf n)))"
| "nextDocuments c (SaveKey p k) v s =
     (v, createSettingsWorkspaceSecretsDocument
        \<lparr>sev_providerSecrets = AList.update (trim p) (apiKeySecret (trim p) (trim k)) (sev_providerSecrets s),
         sev_casPassword = sev_casPassword s\<rparr>)"
| "nextDocuments c (ClearKey p) v s =
     (v, createSettingsWorkspaceSecretsDocument
        \<lparr>sev_providerSecrets = AList.delete (trim p) (sev_providerSecrets s), sev_casPassword = sev_casPassword s\<rparr>)"
| "nextDocuments c (SavePassword x) v s =
     (v, createSettingsWorkspaceSecretsDocument \<lparr>sev_providerSecrets = sev_providerSecrets s, sev_casPassword = trim x\<rparr>)"
| "nextDocuments c ClearPassword v s =
     (v, createSettingsWorkspaceSecretsDocument \<lparr>sev_providerSecrets = sev_providerSecrets s, sev_casPassword = []\<rparr>)"

lemma change_runs:
  assumes "readSettingsStateDocument env d = Inr x" and "readSettingsSecretsDocument env d = Inr y" and "dk_writes d = []" and "changeError ch = None"
    and "nextDocuments (env_catalog env) ch (rd_document x) (rd_document y) = (v, s)"
  shows "runTask env (changeTask (env_catalog env) ch) d =
    (Inr (), \<lparr>dk_state = writtenState env v, dk_secrets = writtenSecrets env s, dk_writes = []\<rparr>)"
  using assms
  by (cases ch) (auto simp: run_then saveState_def saveProfileSecret_def clearProfileSecret_def saveSustechCasSecret_def
      clearSustechCasSecret_def changeSecrets_def orFail_def normalizeSettingsWorkspaceIdentifier_def writeDocuments_def Let_def
      split: if_splits)

lemma change_refused: "changeError ch = Some e \<Longrightarrow> runTask env (changeTask c ch) d = (Inl e, d)"
  by (cases ch) (auto simp: run_then saveProfileSecret_def clearProfileSecret_def saveSustechCasSecret_def orFail_def
      normalizeSettingsWorkspaceIdentifier_def split: if_splits)

lemma key_ok: "trim p \<noteq> [] \<Longrightarrow> trim k \<noteq> [] \<Longrightarrow> secretOk (apiKeySecret (trim p) (trim k))"
  by (simp add: secretOk_def apiKeySecret_def secret_texts trimmed_trim)

lemma update_ok: "secretsOk s \<Longrightarrow> secretOk x \<Longrightarrow>
    secretsOk \<lparr>sev_providerSecrets = AList.update (sec_profileId x) x (sev_providerSecrets s), sev_casPassword = sev_casPassword s\<rparr>"
  by (auto simp: secretsOk_def distinct_update list_all_iff dest!: in_updated)

lemma filtered_ok: "secretsOk s \<Longrightarrow>
    secretsOk \<lparr>sev_providerSecrets = filter P (sev_providerSecrets s), sev_casPassword = sev_casPassword s\<rparr>"
  by (auto simp: secretsOk_def list_all_iff distinct_map intro: inj_on_subset)

lemma map_of_filter_keys: "map_of (filter (\<lambda>(k, x). P k) xs) k = (if P k then map_of xs k else None)"
  by (induction xs) auto

lemma pruned_secrets:
  assumes "secretsOk s"
  shows "pruneSettingsWorkspaceSecretsDocument s ids =
    \<lparr>sev_providerSecrets = filter (\<lambda>(k, x). k \<in> set ids) (sev_providerSecrets s), sev_casPassword = sev_casPassword s\<rparr>"
proof -
  have "distinct (map fst (filter (\<lambda>(k, x). k \<in> set ids) (sev_providerSecrets s)))"
    using filtered_ok [OF assms] by (simp add: secretsOk_def)
  then show ?thesis
    using create_secrets_id [OF filtered_ok [OF assms]] by (simp add: pruneSettingsWorkspaceSecretsDocument_def fromEntries_id)
qed

text \<open>The written documents are settled and hold the changed vault.\<close>

lemma next_documents:
  assumes "valuesOk c v" and "secretsOk s" and "changeError ch = None" and "tidyProfiles c (sv_providerProfiles (fst (nextDocuments c ch v s)))"
  shows "valuesOk c (fst (nextDocuments c ch v s)) \<and> secretsOk (snd (nextDocuments c ch v s)) \<and>
    vaultOf (fst (nextDocuments c ch v s)) (snd (nextDocuments c ch v s)) = applyChange c ch (vaultOf v s)"
proof (cases ch)
  case (SaveState j)
  have "valuesOk c (normalizeSettingsWorkspaceStateValues c (Some j))"
    "createSettingsWorkspaceStateDocument (normalizeSettingsWorkspaceStateValues c (Some j)) = normalizeSettingsWorkspaceStateValues c (Some j)"
    using saved_ok [of c "Some j"] assms(4) SaveState by (simp_all add: Let_def)
  then show ?thesis
    using SaveState filtered_ok [OF assms(2)] by (simp add: Let_def pruned_secrets [OF assms(2)] vaultOf_def map_of_filter_keys fun_eq_iff)
next
  case (SaveKey p k)
  then have x: "secretOk (apiKeySecret (trim p) (trim k))" using assms(3) by (auto intro: key_ok split: if_splits)
  from update_ok [OF assms(2) x] have ok: "secretsOk \<lparr>sev_providerSecrets = AList.update (trim p) (apiKeySecret (trim p) (trim k)) (sev_providerSecrets s),
      sev_casPassword = sev_casPassword s\<rparr>"
    by (simp add: apiKeySecret_def)
  then show ?thesis using SaveKey assms(1) by (simp add: create_secrets_id vaultOf_def update_conv')
next
  case (ClearKey p)
  have "AList.delete (trim p) (sev_providerSecrets s) = filter (\<lambda>(k, x). k \<noteq> trim p) (sev_providerSecrets s)"
    by (auto simp: AList.delete_eq intro!: filter_cong)
  then show ?thesis
    using ClearKey assms(1) create_secrets_id [OF filtered_ok [OF assms(2), of "\<lambda>(k, x). k \<noteq> trim p"]]
      filtered_ok [OF assms(2), of "\<lambda>(k, x). k \<noteq> trim p"]
    by (simp add: vaultOf_def map_of_filter_keys fun_eq_iff)
next
  case (SavePassword w)
  have "secretsOk \<lparr>sev_providerSecrets = sev_providerSecrets s, sev_casPassword = trim w\<rparr>"
    using assms(2) by (simp add: secretsOk_def)
  then show ?thesis using SavePassword assms(1) by (simp add: create_secrets_id vaultOf_def)
next
  case ClearPassword
  have "secretsOk \<lparr>sev_providerSecrets = sev_providerSecrets s, sev_casPassword = []\<rparr>"
    using assms(2) by (simp add: secretsOk_def)
  then show ?thesis using ClearPassword assms(1) by (simp add: create_secrets_id vaultOf_def)
qed

definition vaultOn :: "settings_env \<Rightarrow> disk \<Rightarrow> vault option" where
  "vaultOn env d =
     (case (readSettingsStateDocument env d, readSettingsSecretsDocument env d) of
        (Inr x, Inr y) \<Rightarrow> Some (vaultOf (rd_document x) (rd_document y))
      | _ \<Rightarrow> None)"

text \<open>Documents that can be written: their profiles are tidy and \<open>JSON.parse\<close> reads them.\<close>

definition storable :: "settings_env \<Rightarrow> state_values \<Rightarrow> secret_values \<Rightarrow> bool" where
  "storable env v s \<longleftrightarrow> tidyProfiles (env_catalog env) (sv_providerProfiles v) \<and>
     readsBack env (stateDocumentJson v) \<and> readsBack env (secretsDocumentJson s)"

lemma vault_change:
  assumes "readSettingsStateDocument env d = Inr x" and "readSettingsSecretsDocument env d = Inr y" and "dk_writes d = []"
    and "tidyProfiles (env_catalog env) (sv_providerProfiles (rd_document x))"
    and "nextDocuments (env_catalog env) ch (rd_document x) (rd_document y) = (v, s)" and "storable env v s"
  shows "(changeError ch = None \<longrightarrow>
      (\<exists>d'. runTask env (changeTask (env_catalog env) ch) d = (Inr (), d') \<and> dk_writes d' = [] \<and>
        vaultOn env d' = Some (applyChange (env_catalog env) ch (vaultOf (rd_document x) (rd_document y))))) \<and>
    (\<forall>e. changeError ch = Some e \<longrightarrow> runTask env (changeTask (env_catalog env) ch) d = (Inl e, d))"
proof (intro conjI impI allI)
  assume fine: "changeError ch = None"
  note ok = next_documents [OF read_state_ok [OF assms(1,4)] read_secrets_ok [OF assms(2)] fine, unfolded assms(5) fst_conv snd_conv]
  let ?d = "\<lparr>dk_state = writtenState env v, dk_secrets = writtenSecrets env s, dk_writes = []\<rparr>"
  have "vaultOn env ?d = Some (vaultOf v s)"
    using assms(6) ok read_written_state [of env v ?d] read_written_secrets [of s env ?d] by (simp add: vaultOn_def storable_def)
  then show "\<exists>d'. runTask env (changeTask (env_catalog env) ch) d = (Inr (), d') \<and> dk_writes d' = [] \<and>
        vaultOn env d' = Some (applyChange (env_catalog env) ch (vaultOf (rd_document x) (rd_document y)))"
    using change_runs [OF assms(1,2,3) fine assms(5)] ok assms(6) by (simp add: storable_def)
qed (rule change_refused)

section \<open>Loading\<close>

lemma missing_dirty: "readSettingsStateDocument env d = Inr x \<Longrightarrow> rd_missing x \<Longrightarrow> rd_dirty x"
  by (auto simp: readSettingsStateDocument_def readDocument_def Let_def split: settings_file.splits)

lemma load_settled:
  assumes "readSettingsStateDocument env d = Inr x" and "readSettingsSecretsDocument env d = Inr y" and "dk_writes d = []"
    and "storable env (rd_document x) (rd_document y)"
  shows "\<exists>d'. runTask env loadState d =
      (Inr (loadedState (rd_document x) (rd_document y), if rd_missing x then InitializedDefaults else StoredSource), d') \<and>
    runTask env loadState d' = (Inr (loadedState (rd_document x) (rd_document y), StoredSource), d') \<and>
    vaultOn env d' = Some (vaultOf (rd_document x) (rd_document y))"
proof (cases "rd_dirty x \<or> rd_dirty y")
  case True
  let ?d = "\<lparr>dk_state = writtenState env (rd_document x), dk_secrets = writtenSecrets env (rd_document y), dk_writes = []\<rparr>"
  have "valuesOk (env_catalog env) (rd_document x)" using read_state_ok [OF assms(1)] assms(4) by (simp add: storable_def)
  then have clean: "readSettingsStateDocument env ?d = Inr \<lparr>rd_document = rd_document x, rd_missing = False, rd_dirty = False\<rparr>"
    "readSettingsSecretsDocument env ?d = Inr \<lparr>rd_document = rd_document y, rd_missing = False, rd_dirty = False\<rparr>"
    using read_secrets_ok [OF assms(2)] assms(4) by (auto intro: read_written_state read_written_secrets simp: storable_def)
  show ?thesis
    by (rule exI [of _ ?d]) (use True assms clean in \<open>simp add: loadState_def writeDocuments_def vaultOn_def Let_def\<close>)
next
  case False
  then have "\<not> rd_missing x" using missing_dirty [OF assms(1)] by blast
  with False show ?thesis
    by (intro exI [of _ d]) (simp add: loadState_def assms vaultOn_def Let_def)
qed

section \<open>Two changes at once\<close>

lemma overlap:
  assumes x: "readSettingsStateDocument env d = Inr x" and y: "readSettingsSecretsDocument env d = Inr y" and w: "dk_writes d = []"
    and ok: "changeError (SaveKey p k) = None"
    and key: "nextDocuments (env_catalog env) (SaveKey p k) (rd_document x) (rd_document y) = (v1, s1)"
    and state: "nextDocuments (env_catalog env) (SaveState j) (rd_document x) (rd_document y) = (v2, s2)"
  shows "interleave env [True, True, False, False, True] (saveProfileSecret p k) (saveState (env_catalog env) j) d =
      ((Done \<lparr>pss_hasApiKey = True, pss_apiKey = trim k\<rparr>, Done (loadedState v2 s2)),
       \<lparr>dk_state = writtenState env v1, dk_secrets = writtenSecrets env s1, dk_writes = []\<rparr>)"
    and "interleave env [False, True, True, True, False] (saveProfileSecret p k) (saveState (env_catalog env) j) d =
      ((Done \<lparr>pss_hasApiKey = True, pss_apiKey = trim k\<rparr>, Done (loadedState v2 s2)),
       \<lparr>dk_state = writtenState env v2, dk_secrets = writtenSecrets env s2, dk_writes = []\<rparr>)"
  using assms
  by (auto simp: saveProfileSecret_def saveState_def changeSecrets_def orFail_def normalizeSettingsWorkspaceIdentifier_def
      writeDocuments_def Let_def split: if_splits)

lemma vault_written:
  assumes "valuesOk (env_catalog env) v" "secretsOk s" "storable env v s" "dk_state d = writtenState env v" "dk_secrets d = writtenSecrets env s"
  shows "vaultOn env d = Some (vaultOf v s)"
  using assms read_written_state [of env v d] read_written_secrets [of s env d] by (simp add: vaultOn_def storable_def)

lemma overlap_vaults:
  assumes "readSettingsStateDocument env d = Inr x" and "readSettingsSecretsDocument env d = Inr y" and "dk_writes d = []"
    and "tidyProfiles (env_catalog env) (sv_providerProfiles (rd_document x))" and "changeError (SaveKey p k) = None"
    and "nextDocuments (env_catalog env) (SaveKey p k) (rd_document x) (rd_document y) = (v1, s1)" and "storable env v1 s1"
    and "nextDocuments (env_catalog env) (SaveState j) (rd_document x) (rd_document y) = (v2, s2)" and "storable env v2 s2"
  shows "\<exists>saved answered d1 d2.
    interleave env [True, True, False, False, True] (saveProfileSecret p k) (saveState (env_catalog env) j) d = ((Done saved, Done answered), d1) \<and>
    vaultOn env d1 = Some (applyChange (env_catalog env) (SaveKey p k) (vaultOf (rd_document x) (rd_document y))) \<and>
    interleave env [False, True, True, True, False] (saveProfileSecret p k) (saveState (env_catalog env) j) d = ((Done saved, Done answered), d2) \<and>
    vaultOn env d2 = Some (applyChange (env_catalog env) (SaveState j) (vaultOf (rd_document x) (rd_document y)))"
proof -
  note v = read_state_ok [OF assms(1,4)] and s = read_secrets_ok [OF assms(2)]
  have key: "valuesOk (env_catalog env) v1 \<and> secretsOk s1 \<and> vaultOf v1 s1 = applyChange (env_catalog env) (SaveKey p k) (vaultOf (rd_document x) (rd_document y))"
    using next_documents [OF v s assms(5)] assms(6,7) by (simp only: fst_conv snd_conv storable_def)
  have state: "valuesOk (env_catalog env) v2 \<and> secretsOk s2 \<and> vaultOf v2 s2 = applyChange (env_catalog env) (SaveState j) (vaultOf (rd_document x) (rd_document y))"
    using next_documents [OF v s, of "SaveState j"] assms(8,9) by (simp only: fst_conv snd_conv storable_def changeError.simps)
  show ?thesis
    using overlap [OF assms(1,2,3,5,6,8)] key state assms(7,9) vault_written [of env v1 s1] vault_written [of env v2 s2] by auto
qed

section \<open>When the state cannot be read\<close>

lemma initial_input: "sfm_providerProfiles f = [] \<Longrightarrow> sv_providerProfiles (createSettingsWorkspaceStateSaveInput c f) = []"
  by (simp add: createSettingsWorkspaceStateSaveInput_def Let_def)

lemma empty_profiles:
  "sv_providerProfiles v = [] \<Longrightarrow> sv_providerProfiles (normalizeSettingsWorkspaceStateValues c (Some (stateValuesJson v))) = []"
  by (simp add: normalizeSettingsWorkspaceStateValues_def stateValuesJson_def Let_def createDefaultStoredProviderProfiles_def
      List.map_filter_simps)

lemma failed_load:
  assumes "readSettingsStateDocument env d = Inl e" and "readSettingsSecretsDocument env d = Inr y" and "dk_writes d = []"
    and "sfm_providerProfiles (change createInitialSettingsWorkspaceFormState) = []"
  shows "loadSettingsWorkspaceHydration env (Inr ()) active d = (None, d) \<and>
    (\<exists>w r d'. fst (saveTimer (editForm (env_catalog env) change (finishHydration (env_catalog env) None (initialSettingsHook active)))) = Some w \<and>
      callSaveState env (Inr ()) (stateValuesJson w) d = (Inr r, d') \<and> es_providerProfiles r = [] \<and>
      dk_secrets d' = writtenSecrets env \<lparr>sev_providerSecrets = [], sev_casPassword = sev_casPassword (rd_document y)\<rparr>)"
proof -
  let ?w = "createSettingsWorkspaceStateSaveInput (env_catalog env) (change createInitialSettingsWorkspaceFormState)"
  let ?n = "createSettingsWorkspaceStateDocument (normalizeSettingsWorkspaceStateValues (env_catalog env) (Some (stateValuesJson ?w)))"
  have none: "sv_providerProfiles ?n = []"
    by (simp add: createSettingsWorkspaceStateDocument_def cloneSettingsWorkspaceStateValues_def empty_profiles initial_input assms(4))
  then have "profileIdsOf ?n = []" by (simp add: profileIdsOf_def)
  then have pruned: "pruneSettingsWorkspaceSecretsDocument (rd_document y) (profileIdsOf ?n) =
      \<lparr>sev_providerSecrets = [], sev_casPassword = sev_casPassword (rd_document y)\<rparr>"
    by (simp add: pruned_secrets [OF read_secrets_ok [OF assms(2)]])
  have "sho_form (initialSettingsHook active) = createInitialSettingsWorkspaceFormState"
    "sho_skipNextSave (initialSettingsHook active)"
    by (simp_all add: initialSettingsHook_def)
  then have "fst (saveTimer (editForm (env_catalog env) change (finishHydration (env_catalog env) None (initialSettingsHook active)))) = Some ?w"
    using assms(4) by (simp add: saveTimer_def editForm_def saveEffect_def finishHydration_def)
  moreover have "callSaveState env (Inr ()) (stateValuesJson ?w) d = (Inr (loadedState ?n \<lparr>sev_providerSecrets = [],
      sev_casPassword = sev_casPassword (rd_document y)\<rparr>), \<lparr>dk_state = writtenState env ?n, dk_secrets = writtenSecrets env
      \<lparr>sev_providerSecrets = [], sev_casPassword = sev_casPassword (rd_document y)\<rparr>, dk_writes = []\<rparr>)"
    using assms(2,3) pruned by (simp add: callSaveState_def serviceCall_def saveState_def writeDocuments_def Let_def)
  moreover have "es_providerProfiles (loadedState ?n s) = []" for s
    using none by (simp add: loadedState_def projectSettingsWorkspaceEditableState_def cloneSettingsWorkspaceStateValues_def Let_def)
  moreover have "loadSettingsWorkspaceHydration env (Inr ()) active d = (None, d)"
    using assms(1) by (simp add: loadSettingsWorkspaceHydration_def callLoadState_def serviceCall_def loadState_def)
  ultimately show ?thesis by simp
qed

section \<open>Properties\<close>

text \<open>
  C27: The store is a vault. Saving the settings, saving or clearing a key, saving or clearing the password, each run without
  interruption, do to the disk what the vault says: only the first touches the values and only it drops secrets, those of profiles
  that are gone; keys and passwords are stored trimmed; a blank argument is refused with its message and leaves the disk as it was.
  Both files are readable or missing, no write fails, the profiles before and after the change are tidy (distinct identifiers,
  canonical providers), and \<open>JSON.parse\<close> reads back the documents that are written.
\<close>

theorem vault_refinement:
  assumes "readSettingsStateDocument env d = Inr x" and "readSettingsSecretsDocument env d = Inr y" and "dk_writes d = []"
    and "tidyProfiles (env_catalog env) (sv_providerProfiles (rd_document x))"
    and "nextDocuments (env_catalog env) ch (rd_document x) (rd_document y) = (v, s)" and "storable env v s"
  shows "(changeError ch = None \<longrightarrow>
      (\<exists>d'. runTask env (changeTask (env_catalog env) ch) d = (Inr (), d') \<and> dk_writes d' = [] \<and>
        vaultOn env d' = Some (applyChange (env_catalog env) ch (vaultOf (rd_document x) (rd_document y))))) \<and>
    (\<forall>e. changeError ch = Some e \<longrightarrow> runTask env (changeTask (env_catalog env) ch) d = (Inl e, d))"
  using assms by (rule vault_change)

text \<open>
  Loading settles the files. It returns what they hold, whatever form they were in, and a second load returns the same
  from the stored documents without writing anything; the vault stays as it was. The files are readable or missing, no write
  fails, the profiles are tidy and the documents are read back.
\<close>

theorem load_settles:
  assumes "readSettingsStateDocument env d = Inr x" and "readSettingsSecretsDocument env d = Inr y" and "dk_writes d = []"
    and "storable env (rd_document x) (rd_document y)"
  shows "\<exists>d'. runTask env loadState d =
      (Inr (loadedState (rd_document x) (rd_document y), if rd_missing x then InitializedDefaults else StoredSource), d') \<and>
    runTask env loadState d' = (Inr (loadedState (rd_document x) (rd_document y), StoredSource), d') \<and>
    vaultOn env d' = Some (vaultOf (rd_document x) (rd_document y))"
  using assms by (rule load_settled)

text \<open>
  Two changes that overlap lose one of them. When a key and the settings are saved at the same time, both calls report
  success, but in one order of the steps the disk ends as if the settings had never been saved, and in another as if the key
  had never been saved: every change reads before and writes both documents back. The premises are those of \<open>vault_refinement\<close>
  for both changes.
\<close>

theorem overlapping_changes_lost:
  assumes "readSettingsStateDocument env d = Inr x" and "readSettingsSecretsDocument env d = Inr y" and "dk_writes d = []"
    and "tidyProfiles (env_catalog env) (sv_providerProfiles (rd_document x))" and "changeError (SaveKey p k) = None"
    and "nextDocuments (env_catalog env) (SaveKey p k) (rd_document x) (rd_document y) = (v1, s1)" and "storable env v1 s1"
    and "nextDocuments (env_catalog env) (SaveState j) (rd_document x) (rd_document y) = (v2, s2)" and "storable env v2 s2"
  shows "\<exists>saved answered d1 d2.
    interleave env [True, True, False, False, True] (saveProfileSecret p k) (saveState (env_catalog env) j) d = ((Done saved, Done answered), d1) \<and>
    vaultOn env d1 = Some (applyChange (env_catalog env) (SaveKey p k) (vaultOf (rd_document x) (rd_document y))) \<and>
    interleave env [False, True, True, True, False] (saveProfileSecret p k) (saveState (env_catalog env) j) d = ((Done saved, Done answered), d2) \<and>
    vaultOn env d2 = Some (applyChange (env_catalog env) (SaveState j) (vaultOf (rd_document x) (rd_document y)))"
  using assms by (rule overlap_vaults)

text \<open>
  A state file that cannot be read costs all keys. Loading then gives nothing and writes nothing, but the form stays usable
  with its initial values, and the first edit that leaves the empty list of profiles as it is sends a save that succeeds,
  replaces the state file and drops the secrets of every profile, which could still be read.
\<close>

theorem failed_load_drops_keys:
  assumes "readSettingsStateDocument env d = Inl e" and "readSettingsSecretsDocument env d = Inr y" and "dk_writes d = []"
    and "sfm_providerProfiles (change createInitialSettingsWorkspaceFormState) = []"
  shows "loadSettingsWorkspaceHydration env (Inr ()) active d = (None, d) \<and>
    (\<exists>w r d'. fst (saveTimer (editForm (env_catalog env) change (finishHydration (env_catalog env) None (initialSettingsHook active)))) = Some w \<and>
      callSaveState env (Inr ()) (stateValuesJson w) d = (Inr r, d') \<and> es_providerProfiles r = [] \<and>
      dk_secrets d' = writtenSecrets env \<lparr>sev_providerSecrets = [], sev_casPassword = sev_casPassword (rd_document y)\<rparr>)"
  using assms by (rule failed_load)

section \<open>Witnesses\<close>

text \<open>
  A disk without files, the key \<open>k\<close> of the profile \<open>main\<close>, and a parser that knows the three documents this takes: the default
  state, no secrets, and that key.
\<close>

definition defaultDocument :: state_values where
  "defaultDocument = createDefaultSettingsWorkspaceStateDocument"

definition noSecrets :: secret_values where
  "noSecrets = \<lparr>sev_providerSecrets = [], sev_casPassword = []\<rparr>"

definition keySecrets :: secret_values where
  "keySecrets = \<lparr>sev_providerSecrets = [(''main'', apiKeySecret ''main'' ''k'')], sev_casPassword = []\<rparr>"

definition sampleNumText :: "rat \<Rightarrow> string" where
  "sampleNumText q = (if q = 3 then ''3'' else ''2'')"

definition sampleParse :: "string \<Rightarrow> json res" where
  "sampleParse t =
     (if t = serializeSettingsWorkspaceDocument sampleNumText (secretsDocumentJson noSecrets) then Inr (secretsDocumentJson noSecrets)
      else if t = serializeSettingsWorkspaceDocument sampleNumText (secretsDocumentJson keySecrets) then Inr (secretsDocumentJson keySecrets)
      else if t = serializeSettingsWorkspaceDocument sampleNumText (stateDocumentJson defaultDocument) then Inr (stateDocumentJson defaultDocument)
      else Inl ''Unexpected token'')"

definition storeEnv :: settings_env where
  "storeEnv = \<lparr>env_catalog = sampleCatalog, env_parse = sampleParse, env_numText = sampleNumText\<rparr>"

definition emptyDisk :: disk where
  "emptyDisk = \<lparr>dk_state = Missing, dk_secrets = Missing, dk_writes = []\<rparr>"

lemma secrets_differ:
  "serializeSettingsWorkspaceDocument sampleNumText (secretsDocumentJson noSecrets) \<noteq>
   serializeSettingsWorkspaceDocument sampleNumText (secretsDocumentJson keySecrets)"
  by (simp add: serializeSettingsWorkspaceDocument_def secretsDocumentJson_def noSecrets_def keySecrets_def indented_def)

lemma documents_differ:
  "serializeSettingsWorkspaceDocument sampleNumText (secretsDocumentJson s) \<noteq>
   serializeSettingsWorkspaceDocument sampleNumText (stateDocumentJson v)"
  by (simp add: serializeSettingsWorkspaceDocument_def secretsDocumentJson_def stateDocumentJson_def sampleNumText_def)

lemma store_reads:
  "readsBack storeEnv (stateDocumentJson defaultDocument)" "readsBack storeEnv (secretsDocumentJson noSecrets)"
  "readsBack storeEnv (secretsDocumentJson keySecrets)"
  using secrets_differ documents_differ documents_differ [symmetric]
  by (simp_all add: readsBack_def storeEnv_def sampleParse_def)

lemma empty_reads:
  "readSettingsStateDocument storeEnv emptyDisk = Inr \<lparr>rd_document = defaultDocument, rd_missing = True, rd_dirty = True\<rparr>"
  "readSettingsSecretsDocument storeEnv emptyDisk = Inr \<lparr>rd_document = noSecrets, rd_missing = True, rd_dirty = True\<rparr>"
  "dk_writes emptyDisk = []"
  by (simp_all add: readSettingsStateDocument_def readSettingsSecretsDocument_def readDocument_def emptyDisk_def defaultDocument_def noSecrets_def
      createDefaultSettingsWorkspaceSecretsDocument_def createSettingsWorkspaceSecretsDocument_def normalizedSecrets_def fromEntries_def)

lemma store_texts: "trimmed ''main''" "trimmed ''k''"
  by (simp_all add: trimmed_ascii visible_def)

lemma sample_secrets: "secretsOk noSecrets" "secretsOk keySecrets"
proof -
  show "secretsOk noSecrets" by (simp add: secretsOk_def noSecrets_def trimmed_def)
  have "secretOk (apiKeySecret ''main'' ''k'')" using key_ok [of "''main''" "''k''"] store_texts by (simp add: trimmed_def)
  then show "secretsOk keySecrets" by (simp add: secretsOk_def keySecrets_def apiKeySecret_def)
qed

lemma default_values: "valuesOk sampleCatalog defaultDocument" "sv_providerProfiles defaultDocument = []"
  using default_document_ok [of sampleCatalog]
  by (simp_all add: defaultDocument_def) (simp add: createDefaultSettingsWorkspaceStateDocument_def
      createSettingsWorkspaceStateDocument_def createDefaultSettingsWorkspaceStateValues_def cloneSettingsWorkspaceStateValues_def
      defaultStateValues_def createDefaultStoredProviderProfiles_def)

lemma sample_storable: "storable storeEnv defaultDocument noSecrets" "storable storeEnv defaultDocument keySecrets"
  using store_reads default_values by (simp_all add: storable_def tidyProfiles_def)

lemma key_documents: "nextDocuments sampleCatalog (SaveKey ''main'' ''k'') defaultDocument noSecrets = (defaultDocument, keySecrets)"
  using create_secrets_id [OF sample_secrets(2)] store_texts by (simp add: noSecrets_def keySecrets_def trimmed_def)

lemma state_documents:
  "nextDocuments sampleCatalog (SaveState (stateValuesJson defaultDocument)) defaultDocument noSecrets = (defaultDocument, noSecrets)"
proof -
  have "normalizeSettingsWorkspaceStateValues sampleCatalog (Some (stateValuesJson defaultDocument)) = defaultDocument"
    by (rule values_read [OF default_values(1)])
  moreover have "createSettingsWorkspaceStateDocument defaultDocument = defaultDocument"
  proof -
    have "sv_providerProfiles (createSettingsWorkspaceStateDocument defaultDocument) = []"
      by (simp add: createSettingsWorkspaceStateDocument_def cloneSettingsWorkspaceStateValues_def default_values(2))
    then show ?thesis
      using saved_ok(2) [of sampleCatalog "Some (stateValuesJson defaultDocument)"] calculation by (simp add: tidyProfiles_def)
  qed
  ultimately show ?thesis by (simp add: Let_def pruned_secrets [OF sample_secrets(1)]) (simp add: noSecrets_def)
qed

theorem vault_refinement_witness:
  "\<exists>d'. runTask storeEnv (changeTask sampleCatalog (SaveKey ''main'' ''k'')) emptyDisk = (Inr (), d') \<and>
     vaultOn storeEnv d' = Some (applyChange sampleCatalog (SaveKey ''main'' ''k'') (vaultOf defaultDocument noSecrets))"
proof -
  have "changeError (SaveKey ''main'' ''k'') = None" using store_texts by (simp add: trimmed_def)
  moreover have "tidyProfiles (env_catalog storeEnv) (sv_providerProfiles defaultDocument)" by (simp add: default_values tidyProfiles_def)
  moreover have "env_catalog storeEnv = sampleCatalog" by (simp add: storeEnv_def)
  ultimately show ?thesis
    using vault_refinement [OF empty_reads, of "SaveKey ''main'' ''k''" defaultDocument keySecrets] key_documents sample_storable(2) by auto
qed

theorem load_settles_witness:
  "\<exists>d'. runTask storeEnv loadState emptyDisk = (Inr (loadedState defaultDocument noSecrets, InitializedDefaults), d') \<and>
     runTask storeEnv loadState d' = (Inr (loadedState defaultDocument noSecrets, StoredSource), d')"
  using load_settles [OF empty_reads] sample_storable(1) by auto

theorem overlapping_changes_lost_witness:
  "\<exists>d1 d2. snd (interleave storeEnv [True, True, False, False, True] (saveProfileSecret ''main'' ''k'')
       (saveState sampleCatalog (stateValuesJson defaultDocument)) emptyDisk) = d1 \<and>
     vaultOn storeEnv d1 = Some (vaultOf defaultDocument keySecrets) \<and>
     snd (interleave storeEnv [False, True, True, True, False] (saveProfileSecret ''main'' ''k'')
       (saveState sampleCatalog (stateValuesJson defaultDocument)) emptyDisk) = d2 \<and>
     vaultOn storeEnv d2 = Some (vaultOf defaultDocument noSecrets)"
proof -
  have c: "env_catalog storeEnv = sampleCatalog" by (simp add: storeEnv_def)
  have fine: "changeError (SaveKey ''main'' ''k'') = None" using store_texts by (simp add: trimmed_def)
  have tidy: "tidyProfiles sampleCatalog (sv_providerProfiles defaultDocument)" by (simp add: default_values tidyProfiles_def)
  have vaults: "applyChange sampleCatalog (SaveKey ''main'' ''k'') (vaultOf defaultDocument noSecrets) = vaultOf defaultDocument keySecrets"
    "applyChange sampleCatalog (SaveState (stateValuesJson defaultDocument)) (vaultOf defaultDocument noSecrets) = vaultOf defaultDocument noSecrets"
    using next_documents [OF default_values(1) sample_secrets(1) fine] key_documents
      next_documents [OF default_values(1) sample_secrets(1), of "SaveState (stateValuesJson defaultDocument)"] state_documents tidy by simp_all
  obtain a b d1 d2 where
    "interleave storeEnv [True, True, False, False, True] (saveProfileSecret ''main'' ''k'')
       (saveState sampleCatalog (stateValuesJson defaultDocument)) emptyDisk = ((Done a, Done b), d1)"
    "vaultOn storeEnv d1 = Some (vaultOf defaultDocument keySecrets)"
    "interleave storeEnv [False, True, True, True, False] (saveProfileSecret ''main'' ''k'')
       (saveState sampleCatalog (stateValuesJson defaultDocument)) emptyDisk = ((Done a, Done b), d2)"
    "vaultOn storeEnv d2 = Some (vaultOf defaultDocument noSecrets)"
    using overlapping_changes_lost [OF empty_reads, of "''main''" "''k''" defaultDocument keySecrets "stateValuesJson defaultDocument"
        defaultDocument noSecrets] key_documents state_documents sample_storable fine tidy vaults by (auto simp: c)
  then show ?thesis by simp
qed

definition brokenDisk :: disk where
  "brokenDisk = \<lparr>dk_state = Content ''x'', dk_secrets = writtenSecrets storeEnv keySecrets, dk_writes = []\<rparr>"

theorem failed_load_drops_keys_witness:
  "readSettingsSecretsDocument storeEnv brokenDisk = Inr \<lparr>rd_document = keySecrets, rd_missing = False, rd_dirty = False\<rparr> \<and>
   (\<exists>w r d'. fst (saveTimer (editForm sampleCatalog id (finishHydration sampleCatalog None (initialSettingsHook [])))) = Some w \<and>
     callSaveState storeEnv (Inr ()) (stateValuesJson w) brokenDisk = (Inr r, d') \<and>
     dk_secrets d' = writtenSecrets storeEnv noSecrets)"
proof -
  have "sampleParse ''x'' = Inl ''Unexpected token''"
    by (simp add: sampleParse_def serializeSettingsWorkspaceDocument_def secretsDocumentJson_def stateDocumentJson_def)
  then obtain e where e: "readSettingsStateDocument storeEnv brokenDisk = Inl e"
    by (auto simp: readSettingsStateDocument_def readDocument_def brokenDisk_def storeEnv_def)
  have y: "readSettingsSecretsDocument storeEnv brokenDisk = Inr \<lparr>rd_document = keySecrets, rd_missing = False, rd_dirty = False\<rparr>"
    by (rule read_written_secrets [OF sample_secrets(2) store_reads(3)]) (simp add: brokenDisk_def)
  have env: "env_catalog storeEnv = sampleCatalog" by (simp add: storeEnv_def)
  have keySecrets_cas: "sev_casPassword keySecrets = []" by (simp add: keySecrets_def)
  have "dk_writes brokenDisk = []" by (simp add: brokenDisk_def)
  moreover have "sfm_providerProfiles (id createInitialSettingsWorkspaceFormState) = []"
    by (simp add: createInitialSettingsWorkspaceFormState_def cloneSettingsWorkspaceFormState_def initialFormState_def
        cloneProviderProfiles_def)
  ultimately show ?thesis
    using failed_load_drops_keys [OF e y, of id "[]"] y
    by (auto simp: env noSecrets_def [symmetric] keySecrets_cas)
qed

end
