(* ===== verification/Spec2Isabelle.thy ===== *)
theory Spec2Isabelle
  imports Stream_Laws View_Laws Send_Controller State_Service Session_Controllers Replay_Laws Mcp_Stdio Thinking_Laws Store_Laws
begin

text \<open>
  A verification development of the chat run pipeline of the CanDue desktop application, the TypeScript
  under \<open>src/frontend-copilot\<close>.

  The program. The desktop shell hosts a Python runtime; the renderer starts a run with \<open>run/start\<close> and
  reads its events with \<open>run/stream\<close>, as server-sent events. The bytes are cut into blocks, each block
  becomes a typed event, the order of the events is checked, and a reducer folds them into the state of
  the run: a list of segments (assistant text, reasoning, tools, inline forms, diagnostics and the
  end of the run) with the flags that say whether reasoning may be shown. All file names below are
  relative to \<open>src/frontend-copilot/src/features/copilot/\<close>.

  The theories, in the order of the pipeline:
  \<^item> \<open>Js_Prelude\<close>: strings, thrown errors, white space; \<open>Js_Json\<close>: the values of \<open>JSON.parse\<close> and the primitive
    checks of \<open>_stream/validators.ts\<close>.
  \<^item> \<open>Run_Contract\<close>: the types of \<open>_contracts/types.ts\<close>. \<open>Literal_Types\<close>: their string literals, with the
    contract \<open>literal_type\<close> (reading and writing are inverse). \<open>Thinking_Clone\<close>: the clone and
    serialisation functions of \<open>thread-run-contract.ts\<close>.
  \<^item> \<open>Stream_Validators\<close>: every \<open>require\<close> function of \<open>_stream/validators.ts\<close>; \<open>Message_Stream\<close>:
    \<open>runtime-message-stream.ts\<close>. \<open>Wire_Laws\<close> and \<open>Stream_Laws\<close> prove that the validators satisfy the contract
    \<open>codec\<close> (sound, and inverse to the written form), that the chunking of the stream does not matter, and that
    framed events come back unchanged.
  \<^item> \<open>Run_Protocol\<close>: \<open>validateSingleStreamEvent\<close> and \<open>consumeRuntimeRunEventStream\<close> of
    \<open>thread-run-contract.ts\<close>, shown equivalent to the order rules of \<open>docs/system/chat-runtime-contract.md\<close>.
  \<^item> \<open>Inline_Form\<close>: \<open>inline-form.ts\<close>. \<open>Run_Segments\<close>: \<open>run-segment-types.ts\<close>, \<open>CopilotRunState\<close> of \<open>types.ts\<close> and the
    whole of \<open>run-segment-reducer.ts\<close>. \<open>Run_Invariants\<close>: the invariants of all reachable run states,
    through the contract \<open>run_invariant\<close>. \<open>Run_Streams\<close>: what holds after every valid prefix of a run stream
    (distinct identifiers, order, the text of the answer), through the contracts \<open>stream_invariant\<close> and
    \<open>ids_invariant\<close>.
  \<^item> \<open>Js_Text\<close>: objects, joined texts and \<open>JSON.stringify\<close>. \<open>Error_Detail\<close>: \<open>error-detail-overlay-view-model.ts\<close>.
    \<open>Run_View\<close>: \<open>run-segment-view-model.ts\<close>, what the message list shows of a run; its copies of the route functions
    of \<open>Error_Detail\<close> are the same functions. \<open>View_Laws\<close> carries the invariants of a run over to the
    items.

  \<^item> \<open>Provider_Catalog\<close>: \<open>src/provider-catalog.ts\<close>, the parser of the provider registry and the lookup of providers.
    \<open>Model_Route\<close>: \<open>src/workbench/settings/settings-workspace-model-options.ts\<close>, routes written as selection values and the
    options of the model selectors.
  \<^item> \<open>Thinking_Display\<close>: \<open>src/workbench/thinking-display.ts\<close>, the budget slider and the labels. \<open>Thinking_Choice\<close>: the part of
    \<open>copilot-chat-helpers.ts\<close> that resolves a thinking selection for the capability of a model.
  \<^item> \<open>Thinking_Capabilities\<close>: \<open>src/workbench/thinking-capabilities.ts\<close> and \<open>src/workbench/settings/thinking-compatibility-warning.ts\<close>, the
    declarations of thinking capabilities in the settings, their normal form and their edits. \<open>Thinking_Laws\<close> shows that what
    can be reached by edits is stable under storage and well formed, and that switching a code is a change of a set.
  \<^item> \<open>Settings_Policy\<close>: the tool permission policy of \<open>electron/settings-workspace/state-schema.ts\<close>. \<open>Tool_Picker\<close>: \<open>tool-picker.ts\<close> and
    the policy that is sent with a message.
  \<^item> \<open>Runtime_Request\<close>: the methods that \<open>thread-run-contract.ts\<close> posts to the runtime, with their bodies and errors. \<open>Composer\<close>: the
    rest of \<open>copilot-chat-helpers.ts\<close>, from the draft of a message to the input of a run. \<open>Send_Controller\<close>:
    \<open>copilot-send-controller.ts\<close>, which puts the pipeline together: the checks, the start of the run, its event stream and the
    state of the chat; it shows that every send comes to rest and that the button and the checks agree.
  \<^item> \<open>History_State\<close>: \<open>src/workbench/assistant/assistant-history-state.ts\<close>, the stored runs of a session, which of them is
    selected and its replay.
  \<^item> \<open>History_Replay\<close> and \<open>History_View\<close>: \<open>persisted-history-view-model.ts\<close>, the conversation of a stored thread, from its timeline, a
    replay of a run or its summaries. \<open>Replay_Laws\<close> compares a replay with the live run: the events of the stream are stored, read
    back and folded by the same reducer.
  \<^item> \<open>Attachments\<close>: \<open>attachments/state.ts\<close>. \<open>Session_Controllers\<close>: \<open>thread-runtime-controller.ts\<close> and the eviction of
    \<open>src/workbench/assistant/useAssistantWorkspaceState.ts\<close>: one controller for each open session, the least recently used
    ones evicted when their conversation can be rebuilt.
  \<^item> \<open>State_Service\<close>: \<open>electron/capability-bridge/services/DesktopCapabilityStateService.ts\<close>, the values that tools keep per tool
    or per run, shown to refine a store in which the last write wins (contract \<open>keyed_store\<close>).
  \<^item> \<open>Mcp_Protocol\<close>: \<open>electron/mcp-registry/connectors/protocol.ts\<close>, what the connectors to external tool servers share.
    \<open>Mcp_Snapshot\<close>: \<open>electron/mcp-registry/snapshot.ts\<close>, the snapshot of all tools that the runtime reads, with the check for secrets and
    the sink, which writes into the document of the state service. \<open>Mcp_Stdio\<close>: \<open>electron/mcp-registry/connectors/stdio.ts\<close>, the
    connector that talks to a child process: each operation takes the stream of events that happen while it waits, and the
    contract \<open>event_invariant\<close> carries what every event keeps through all waiting.
  \<^item> The store of the settings, under \<open>electron/settings-workspace\<close>. \<open>Provider_Profiles\<close>: \<open>provider-schema.ts\<close>, the profiles of providers.
    \<open>Settings_Documents\<close>: the rest of \<open>state-schema.ts\<close>, \<open>secret-schema.ts\<close> and \<open>settings-workspace-serialization.ts\<close>, the two
    documents. \<open>Route_Resolver\<close>: \<open>provider-route-resolver.ts\<close> and the endpoint of \<open>electron/runtime/host-model-route-bridge.ts\<close> that the
    Python runtime asks. \<open>Settings_Store\<close>: the operations on the two files and the calls of the main process, each a task
    that runs alone or interleaved with another. \<open>Settings_Form\<close>: the form of the renderer under \<open>src/workbench/settings\<close>, what it saves
    and the hook that loads it. \<open>Provider_Laws\<close> and \<open>Settings_Laws\<close> show that what was read is read again unchanged, also through the
    form; \<open>Store_Laws\<close> that the store refines a vault of values, keys and a password, and what is lost when changes
    overlap or the state cannot be read.

  Conventions. A JavaScript string is the list of its UTF-8 bytes; a thrown \<open>Error\<close> is \<open>Inl\<close> of its
  message; a field that may be \<open>null\<close> or absent is an \<open>option\<close>, and an \<open>option option\<close> where the code tells the
  two apart; dictionaries are association lists. \<open>Date.now()\<close>, \<open>JSON.parse\<close>, \<open>TextDecoder\<close>, \<open>Number(s)\<close> and
  the state of an \<open>AbortSignal\<close> are parameters. A generator is the list of what it yields with the error it
  ends with. The loops over buffers and lists terminate by a measure or by structure, so that no fuel is
  used anywhere.

  Not modelled: the browser itself (\<open>fetch\<close>, timers, the DOM), the debug log, the React components and the hooks other than
  the state of the settings, the Python backend, and the services of the Electron main process apart from the settings, the state
  service and the parts of the external tool registry named above: its HTTP connector, its hub, its store and its service are
  sockets, timers and files around them. The catalog of the model picker and the view models of the capability workspaces are pure
  code that is not modelled yet.
\<close>

end
